(* ===== verification/VO_Prelude.thy ===== *)
theory VO_Prelude
  imports Main "HOL-Library.Char_ord" "HOL-Library.List_Lexorder" "HOL-Library.Multiset"
begin

text \<open>
  The vocabulary every component of the VereinOrder model shares: fallible results (a thrown
  exception is an \<^theory_text>\<open>Inl\<close>), loops over lists that may throw, JavaScript's insertion
  ordered \<^theory_text>\<open>Map\<close>, table queries and updates, JSON values with their text, decimal
  numerals, and the generic lemmas about them. The collections declared here carry the
  component proofs: \<open>res_simps\<close> opens a successful result, \<open>frame_simps\<close> says which parts of
  the state an operation leaves alone.
\<close>

named_theorems res_simps \<open>when a fallible computation succeeded\<close>
named_theorems frame_simps \<open>what an operation does not change\<close>

section \<open>Results: an exception is \<open>Inl\<close>\<close>

definition bind_res :: "'e + 'a \<Rightarrow> ('a \<Rightarrow> 'e + 'b) \<Rightarrow> 'e + 'b" where
  "bind_res m f = (case m of Inl e \<Rightarrow> Inl e | Inr x \<Rightarrow> f x)"

text \<open>\<open>ensure c e\<close> is the guard \<^verbatim>\<open>if (!c) throw e\<close>; \<open>need\<close> the null check.\<close>

definition ensure :: "bool \<Rightarrow> 'e \<Rightarrow> 'e + unit" where
  "ensure c e = (if c then Inr () else Inl e)"

definition need :: "'a option \<Rightarrow> 'e \<Rightarrow> 'e + 'a" where
  "need m e = (case m of None \<Rightarrow> Inl e | Some x \<Rightarrow> Inr x)"

lemma bind_res_simps [simp]:
  "bind_res (Inl e) f = Inl e"
  "bind_res (Inr x) f = f x"
  by (simp_all add: bind_res_def)

lemma ensure_simps [simp]:
  "ensure True e = Inr ()"
  "ensure False e = Inl e"
  by (simp_all add: ensure_def)

lemma need_simps [simp]:
  "need None e = Inl e"
  "need (Some x) e = Inr x"
  by (simp_all add: need_def)

lemma bind_res_Inr_iff [res_simps]:
  "bind_res m f = Inr y \<longleftrightarrow> (\<exists>x. m = Inr x \<and> f x = Inr y)"
  by (cases m) auto

lemma bind_res_Inl_iff:
  "bind_res m f = Inl e \<longleftrightarrow> m = Inl e \<or> (\<exists>x. m = Inr x \<and> f x = Inl e)"
  by (cases m) auto

lemma ensure_Inr_iff [res_simps]: "ensure c e = Inr u \<longleftrightarrow> c"
  by (cases c) auto

lemma ensure_Inl_iff: "ensure c e = Inl e' \<longleftrightarrow> \<not> c \<and> e' = e"
  by (cases c) auto

lemma need_Inr_iff [res_simps]: "need m e = Inr x \<longleftrightarrow> m = Some x"
  by (cases m) auto

lemma need_Inl_iff: "need m e = Inl e' \<longleftrightarrow> m = None \<and> e' = e"
  by (cases m) auto

lemma bind_ensure_False: "\<not> c \<Longrightarrow> bind_res (ensure c e) f = Inl e"
  by simp

lemma bind_ensure_True: "c \<Longrightarrow> bind_res (ensure c e) f = f ()"
  by simp

section \<open>Loops whose body may throw\<close>

text \<open>\<open>map_res\<close> is \<^verbatim>\<open>xs.map(f)\<close> with a throwing callback, \<open>fold_res\<close> a \<^verbatim>\<open>for..of\<close> loop.\<close>

fun map_res :: "('a \<Rightarrow> 'e + 'b) \<Rightarrow> 'a list \<Rightarrow> 'e + 'b list" where
  "map_res f [] = Inr []"
| "map_res f (x # xs) = bind_res (f x) (\<lambda>y. bind_res (map_res f xs) (\<lambda>ys. Inr (y # ys)))"

fun fold_res :: "('s \<Rightarrow> 'a \<Rightarrow> 'e + 's) \<Rightarrow> 's \<Rightarrow> 'a list \<Rightarrow> 'e + 's" where
  "fold_res f s [] = Inr s"
| "fold_res f s (x # xs) = bind_res (f s x) (\<lambda>s'. fold_res f s' xs)"

lemma fold_res_invariant:
  assumes "fold_res f s xs = Inr t" and "P s"
    and "\<And>s x s'. x \<in> set xs \<Longrightarrow> P s \<Longrightarrow> f s x = Inr s' \<Longrightarrow> P s'"
  shows "P t"
  using assms
proof (induction xs arbitrary: s)
  case Nil
  then show ?case by simp
next
  case (Cons x xs)
  from Cons.prems(1) obtain s' where f: "f s x = Inr s'" and rest: "fold_res f s' xs = Inr t"
    by (auto simp: res_simps)
  from f Cons.prems have "P s'" by auto
  with rest show ?case using Cons.IH Cons.prems(3) by auto
qed

lemma fold_res_append:
  "fold_res f s (xs @ ys) = bind_res (fold_res f s xs) (\<lambda>t. fold_res f t ys)"
proof (induction xs arbitrary: s)
  case Nil
  then show ?case by simp
next
  case (Cons x xs)
  then show ?case by (cases "f s x") auto
qed

lemma map_res_length: "map_res f xs = Inr ys \<Longrightarrow> length ys = length xs"
  by (induction xs arbitrary: ys) (auto simp: res_simps)

lemma map_res_list_all2: "map_res f xs = Inr ys \<Longrightarrow> list_all2 (\<lambda>x y. f x = Inr y) xs ys"
  by (induction xs arbitrary: ys) (auto simp: res_simps)

lemma map_res_Inr_set: "map_res f xs = Inr ys \<Longrightarrow> x \<in> set xs \<Longrightarrow> \<exists>y \<in> set ys. f x = Inr y"
  by (induction xs arbitrary: ys) (auto simp: res_simps)

lemma map_res_Inr_origin: "map_res f xs = Inr ys \<Longrightarrow> y \<in> set ys \<Longrightarrow> \<exists>x \<in> set xs. f x = Inr y"
  by (induction xs arbitrary: ys) (auto simp: res_simps)

section \<open>JavaScript's \<open>Map\<close>: insertion ordered, \<open>set\<close> keeps the position of a known key\<close>

fun js_set :: "'k \<Rightarrow> 'v \<Rightarrow> ('k \<times> 'v) list \<Rightarrow> ('k \<times> 'v) list" where
  "js_set k v [] = [(k, v)]"
| "js_set k v ((k', v') # m) = (if k' = k then (k, v) # m else (k', v') # js_set k v m)"

abbreviation js_get :: "('k \<times> 'v) list \<Rightarrow> 'k \<Rightarrow> 'v option" where
  "js_get m k \<equiv> map_of m k"

abbreviation js_keys :: "('k \<times> 'v) list \<Rightarrow> 'k list" where
  "js_keys m \<equiv> map fst m"

lemma js_get_set [simp]: "js_get (js_set k v m) = (js_get m)(k \<mapsto> v)"
  by (induction m) (auto simp: fun_eq_iff)

lemma js_keys_set_set [simp]: "fst ` set (js_set k v m) = insert k (fst ` set m)"
  by (induction k v m rule: js_set.induct) auto

lemma js_keys_distinct: "distinct (js_keys m) \<Longrightarrow> distinct (js_keys (js_set k v m))"
  by (induction k v m rule: js_set.induct) auto

lemma js_set_mem: "x \<in> set (js_set k v m) \<Longrightarrow> x = (k, v) \<or> x \<in> set m"
  by (induction k v m rule: js_set.induct) (auto split: if_splits)

lemma js_set_fresh: "k \<notin> fst ` set m \<Longrightarrow> js_set k v m = m @ [(k, v)]"
  by (induction m) auto

section \<open>Tables: rows in a list, \<open>updateMany\<close> with its count\<close>

definition update_where :: "('r \<Rightarrow> bool) \<Rightarrow> ('r \<Rightarrow> 'r) \<Rightarrow> 'r list \<Rightarrow> 'r list" where
  "update_where c f rows = map (\<lambda>r. if c r then f r else r) rows"

definition count_where :: "('r \<Rightarrow> bool) \<Rightarrow> 'r list \<Rightarrow> nat" where
  "count_where c rows = length (filter c rows)"

text \<open>A string used as a condition: the empty string counts as missing.\<close>

definition truthy :: "string option \<Rightarrow> string option" where
  "truthy x = (case x of None \<Rightarrow> None | Some s \<Rightarrow> if s = [] then None else Some s)"

lemma truthy_Some_iff: "truthy x = Some s \<longleftrightarrow> x = Some s \<and> s \<noteq> []"
  by (auto simp: truthy_def split: option.splits)

lemma length_update_where [simp]: "length (update_where c f rows) = length rows"
  by (simp add: update_where_def)

lemma update_where_none: "(\<And>r. r \<in> set rows \<Longrightarrow> \<not> c r) \<Longrightarrow> update_where c f rows = rows"
  by (auto simp: update_where_def intro: map_idI)

lemma set_update_where: "set (update_where c f rows) = (\<lambda>r. if c r then f r else r) ` set rows"
  by (simp add: update_where_def)

lemma update_where_mem:
  assumes "x \<in> set (update_where c f rows)"
  shows "(\<exists>r \<in> set rows. c r \<and> x = f r) \<or> (x \<in> set rows \<and> \<not> c x)"
  using assms unfolding set_update_where by (auto split: if_splits)

lemma map_update_where_frame:
  "(\<And>r. c r \<Longrightarrow> g (f r) = g r) \<Longrightarrow> map g (update_where c f rows) = map g rows"
  by (auto simp: update_where_def)

lemma count_where_0_iff: "count_where c rows = 0 \<longleftrightarrow> (\<forall>r \<in> set rows. \<not> c r)"
  by (auto simp: count_where_def filter_empty_conv)

lemma find_update_where:
  "(\<And>r. c r \<Longrightarrow> p (f r) = p r) \<Longrightarrow>
   find p (update_where c f rows) = map_option (\<lambda>r. if c r then f r else r) (find p rows)"
  by (induction rows) (auto simp: update_where_def)

lemma find_Some_mem: "find p xs = Some x \<Longrightarrow> x \<in> set xs \<and> p x"
  by (induction xs) (auto split: if_splits)

lemma find_None_iff_all: "find p xs = None \<longleftrightarrow> (\<forall>x \<in> set xs. \<not> p x)"
  by (induction xs) auto

lemma find_distinct_key:
  "distinct (map k xs) \<Longrightarrow> x \<in> set xs \<Longrightarrow> find (\<lambda>y. k y = k x) xs = Some x"
  by (induction xs) (auto simp: image_iff)

lemma distinct_map_Cons_neq: "distinct (map k (x # xs)) \<Longrightarrow> y \<in> set xs \<Longrightarrow> k y \<noteq> k x"
proof
  assume "distinct (map k (x # xs))" and y: "y \<in> set xs" and "k y = k x"
  then have "k x \<notin> k ` set xs" by simp
  moreover have "k y \<in> k ` set xs" using y by (rule imageI)
  ultimately show False using \<open>k y = k x\<close> by simp
qed

lemma filter_singletonD: "filter p xs = [u] \<Longrightarrow> u \<in> set xs \<and> p u"
proof -
  assume "filter p xs = [u]"
  then have "set (filter p xs) = {u}" by simp
  then show ?thesis by auto
qed

lemma sum_list_filter_mset:
  "mset xs = mset ys \<Longrightarrow>
   sum_list (map f (filter p xs)) = (sum_list (map f (filter p ys)) :: int)"
proof -
  assume "mset xs = mset ys"
  then have "mset (map f (filter p xs)) = mset (map f (filter p ys))" by simp
  then show ?thesis by (metis sum_mset_sum_list)
qed

lemma sum_list_nonneg_int: "(\<And>x. x \<in> set xs \<Longrightarrow> 0 \<le> (x::int)) \<Longrightarrow> 0 \<le> sum_list xs"
  by (induction xs) auto

lemma sum_list_ge_length: "\<forall>x \<in> set xs. 1 \<le> f x \<Longrightarrow> int (length xs) \<le> sum_list (map f xs)"
  by (induction xs) auto

lemma list_all2_right: "list_all2 P xs ys \<Longrightarrow> y \<in> set ys \<Longrightarrow> \<exists>x \<in> set xs. P x y"
  by (induction rule: list_all2_induct) auto

lemma list_all2_left: "list_all2 P xs ys \<Longrightarrow> x \<in> set xs \<Longrightarrow> \<exists>y \<in> set ys. P x y"
  by (induction rule: list_all2_induct) auto

lemma list_all2_mono_set:
  assumes "list_all2 P xs ys" and "\<And>x y. P x y \<Longrightarrow> x \<in> set xs \<Longrightarrow> y \<in> set ys \<Longrightarrow> Q x y"
  shows "list_all2 Q xs ys"
  using assms by (auto simp: list_all2_conv_all_nth)

section \<open>Number limits\<close>

abbreviation int32_max :: int where "int32_max \<equiv> 2147483647"
abbreviation js_safe_max :: int where "js_safe_max \<equiv> 9007199254740991"

definition is_safe_integer :: "int \<Rightarrow> bool" where
  "is_safe_integer n \<longleftrightarrow> - js_safe_max \<le> n \<and> n \<le> js_safe_max"

section \<open>Text: decimal numerals, \<open>join\<close>, \<open>trim\<close>\<close>

definition digit_char :: "nat \<Rightarrow> char" where
  "digit_char d = char_of (48 + d)"

fun nat_text :: "nat \<Rightarrow> string" where
  "nat_text n = (if n < 10 then [digit_char n] else nat_text (n div 10) @ [digit_char (n mod 10)])"

declare nat_text.simps [simp del]

definition int_text :: "int \<Rightarrow> string" where
  "int_text i = (if i < 0 then CHR ''-'' # nat_text (nat (- i)) else nat_text (nat i))"

fun join :: "string \<Rightarrow> string list \<Rightarrow> string" where
  "join sep [] = []"
| "join sep [x] = x"
| "join sep (x # xs) = x @ sep @ join sep xs"

definition is_js_space :: "char \<Rightarrow> bool" where
  "is_js_space c \<longleftrightarrow> (of_char c :: nat) \<in> {9, 10, 11, 12, 13, 32, 160}"

definition js_trim :: "string \<Rightarrow> string" where
  "js_trim s = rev (dropWhile is_js_space (rev (dropWhile is_js_space s)))"

lemma of_char_digit: "d < 10 \<Longrightarrow> of_char (digit_char d) = (48 + d :: nat)"
  by (simp add: digit_char_def)

definition is_digit :: "char \<Rightarrow> bool" where
  "is_digit c \<longleftrightarrow> 48 \<le> (of_char c :: nat) \<and> (of_char c :: nat) \<le> 57"

definition digits_value :: "string \<Rightarrow> nat" where
  "digits_value s = foldl (\<lambda>n c. 10 * n + (of_char c - 48)) 0 s"

lemma nat_text_digits: "c \<in> set (nat_text n) \<Longrightarrow> is_digit c"
proof (induction n rule: nat_text.induct)
  case (1 n)
  have d: "is_digit (digit_char (n mod 10))" by (simp add: is_digit_def of_char_digit)
  show ?case
  proof (cases "n < 10")
    case True
    with "1.prems" show ?thesis
      by (auto simp: nat_text.simps [of n] is_digit_def of_char_digit)
  next
    case False
    with "1.prems" "1.IH" d show ?thesis by (auto simp: nat_text.simps [of n])
  qed
qed

lemma digits_value_nat_text [simp]: "digits_value (nat_text n) = n"
proof (induction n rule: nat_text.induct)
  case (1 n)
  show ?case
  proof (cases "n < 10")
    case True
    then show ?thesis
      by (simp add: nat_text.simps [of n] digits_value_def of_char_digit)
  next
    case False
    with "1.IH" have "digits_value (nat_text (n div 10)) = n div 10" by simp
    moreover have "digits_value (nat_text n)
        = 10 * digits_value (nat_text (n div 10)) + n mod 10"
      using False by (simp add: nat_text.simps [of n] digits_value_def of_char_digit)
    ultimately show ?thesis by simp
  qed
qed

lemma nat_text_inject: "nat_text m = nat_text n \<longleftrightarrow> m = n"
  by (metis digits_value_nat_text)

lemma nat_text_nonempty: "nat_text n \<noteq> []"
  by (subst nat_text.simps) simp

lemma int_text_inject: "int_text i = int_text j \<longleftrightarrow> i = j"
proof
  have no_minus: "nat_text n \<noteq> CHR ''-'' # s" for n s
    using nat_text_digits [of "CHR ''-''" n] by (auto simp: is_digit_def)
  assume "int_text i = int_text j"
  then show "i = j"
    using no_minus no_minus [symmetric]
    by (auto simp: int_text_def nat_text_inject split: if_splits)
qed simp

definition in_chars :: "char \<Rightarrow> char \<Rightarrow> char \<Rightarrow> bool" where
  "in_chars a b c \<longleftrightarrow> (of_char a :: nat) \<le> of_char c \<and> (of_char c :: nat) \<le> of_char b"

text \<open>\<^verbatim>\<open>toUpperCase\<close> on ASCII text.\<close>

definition upper_char :: "char \<Rightarrow> char" where
  "upper_char c = (if in_chars CHR ''a'' CHR ''z'' c then char_of ((of_char c :: nat) - 32) else c)"

definition js_upper :: "string \<Rightarrow> string" where
  "js_upper = map upper_char"

lemma js_trim_Nil [simp]: "js_trim [] = []"
  by (simp add: js_trim_def)

section \<open>JSON values, as audit details, print contents and request fingerprints carry them\<close>

datatype json =
    JNull
  | JBool bool
  | JNum int
  | JStr string
  | JArr "json list"
  | JObj "(string \<times> json) list"

text \<open>An \<^verbatim>\<open>undefined\<close> property is left out of the object, \<^verbatim>\<open>null\<close> is kept.\<close>

definition jopt :: "('a \<Rightarrow> json) \<Rightarrow> string \<Rightarrow> 'a option \<Rightarrow> (string \<times> json) list" where
  "jopt f k v = (case v of None \<Rightarrow> [] | Some x \<Rightarrow> [(k, f x)])"

definition jnull :: "('a \<Rightarrow> json) \<Rightarrow> 'a option \<Rightarrow> json" where
  "jnull f v = (case v of None \<Rightarrow> JNull | Some x \<Rightarrow> f x)"

definition json_field :: "string \<Rightarrow> json \<Rightarrow> json option" where
  "json_field k v = (case v of JObj fs \<Rightarrow> map_of fs k | _ \<Rightarrow> None)"

definition hex_digit :: "nat \<Rightarrow> char" where
  "hex_digit d = (if d < 10 then char_of (48 + d) else char_of (87 + d))"

definition json_char :: "char \<Rightarrow> string" where
  "json_char c = (let n = (of_char c :: nat) in
     if n = 34 then [char_of (92::nat), char_of (34::nat)]
     else if n = 92 then [char_of (92::nat), char_of (92::nat)]
     else if n = 8 then [char_of (92::nat), CHR ''b'']
     else if n = 12 then [char_of (92::nat), CHR ''f'']
     else if n = 10 then [char_of (92::nat), CHR ''n'']
     else if n = 13 then [char_of (92::nat), CHR ''r'']
     else if n = 9 then [char_of (92::nat), CHR ''t'']
     else if n < 32 then char_of (92::nat) # ''u00'' @ [hex_digit (n div 16), hex_digit (n mod 16)]
     else [c])"

definition json_string :: "string \<Rightarrow> string" where
  "json_string s = [char_of (34::nat)] @ concat (map json_char s) @ [char_of (34::nat)]"

fun json_stringify :: "json \<Rightarrow> string" where
  "json_stringify JNull = ''null''"
| "json_stringify (JBool b) = (if b then ''true'' else ''false'')"
| "json_stringify (JNum i) = int_text i"
| "json_stringify (JStr s) = json_string s"
| "json_stringify (JArr xs) = ''['' @ join '','' (map json_stringify xs) @ '']''"
| "json_stringify (JObj kvs) =
     ''{'' @ join '','' (map (\<lambda>(k, v). json_string k @ '':'' @ json_stringify v) kvs) @ ''}''"

end
