(* ===== verification/VO_Data.thy ===== *)
theory VO_Data
  imports VO_Prelude
begin

text \<open>
  The data model: the enumerations and rows of \<^verbatim>\<open>packages/database/prisma/schema.prisma\<close> that the
  services read and write, the database state \<^theory_text>\<open>db\<close> (one list of rows per table, plus the
  log of realtime broadcasts), the errors the services throw, and \<^theory_text>\<open>env\<close>, what the code takes
  from outside the repository (uuid and random generators, SHA-256, the ICU collation behind
  \<^verbatim>\<open>localeCompare\<close>, the clock). A product row carries its category and option groups the
  way \<^verbatim>\<open>include\<close> returns them; writing a category row writes these copies too. Handlers run as one transaction: \<^theory_text>\<open>Inl\<close> is the rollback, the
  caller keeps the state it had.
\<close>

type_synonym id = string

section \<open>Enumerations\<close>

datatype role = ADMINISTRATOR | EVENT_MANAGER | WAITER | CASHIER | STATION | RUNNER | REVISION

datatype event_status = EV_DRAFT | EV_PREPARED | EV_TEST_MODE | EV_ACTIVE | EV_PAUSED | EV_COMPLETED | EV_ARCHIVED

datatype data_mode = TEST | LIVE

datatype availability = AVAILABLE | LOW_STOCK | OUT_OF_STOCK | DISABLED

datatype movement_type = INITIALIZATION | SALE | CANCELLATION | CORRECTION

datatype selection_type = SINGLE | MULTIPLE

datatype price_mode = ABSOLUTE | SURCHARGE

datatype lifecycle_status = LC_SUBMITTED | LC_ACCEPTED | LC_PARTIALLY_CANCELLED | LC_CANCELLED | LC_COMPLETED

datatype fulfillment_status = FF_PENDING | FF_PREPARING | FF_PARTIALLY_READY | FF_READY | FF_PARTIALLY_DELIVERED | FF_DELIVERED

datatype order_payment_status = OPEN | PARTIALLY_PAID | PAID | OPS_REFUNDED

datatype payment_method = CASH | CARD | VOUCHER | REFUND

datatype payment_status = PS_COMPLETED | PS_REFUNDED

datatype prod_voucher_status = PV_ISSUED | PV_REDEEMED | PV_CANCELLED

datatype item_status = IT_PENDING | IT_PREPARING | IT_READY | IT_IN_DELIVERY | IT_DELIVERED | IT_CANCELLED

datatype session_status = SE_ACTIVE | SE_CLOSED

datatype print_job_status = PJ_PENDING | PJ_PROCESSING | PJ_PRINTED | PJ_FAILED | PJ_UNRESOLVED | PJ_CANCELLED

datatype attempt_phase = CLAIMED | DELIVERING | SPOOLED

datatype outcome_class = NOT_PRINTED | PRINTED | UNCLEAR

datatype print_job_type = STATION_TICKET | PRODUCT_VOUCHER | RECEIPT | CASHIER_CLOSING
  | VALUE_VOUCHER_ISSUE | VALUE_VOUCHER_BALANCE

datatype value_voucher_status = VV_ACTIVE | VV_DEPLETED | VV_CANCELLED

datatype vv_movement_type = VM_ISSUE | VM_REDEEM | VM_REDEEM_REVERSAL | VM_CANCEL

datatype rejection_code = AUTH_EXPIRED | RC_FORBIDDEN | EVENT_MODE | SESSION_CLOSED
  | PRODUCT_UNAVAILABLE | PRICE_OR_OPTION | DUPLICATE_KEY_MISMATCH | RC_VALIDATION

section \<open>Errors\<close>

text \<open>
  The exceptions of the services by HTTP class. The text of a plain message is abbreviated to a key;
  an order rejection carries its code; a stock conflict its structured body; a violated unique column
  is Prisma's P2002; a \<open>TypeError\<close> is JavaScript's own (a property read of \<^verbatim>\<open>undefined\<close>).
\<close>

datatype api_error =
    BadRequest string
  | Rejected rejection_code string
  | NotFound string
  | Forbidden string
  | Conflict string
  | ConflictRejected rejection_code string
  | StockConflict string id string int "int option"
  | UniqueViolation string
  | TypeError string

section \<open>Rows\<close>

record event =
  ev_id :: id
  ev_name :: string
  ev_organizer :: "string option"
  ev_location :: "string option"
  ev_startTime :: "nat option"
  ev_endTime :: "nat option"
  ev_timezone :: string
  ev_status :: event_status
  ev_testMode :: bool
  ev_rksvConfirmedAt :: "nat option"
  ev_rksvConfirmedByUserId :: "id option"
  ev_rksvDisclaimerVersion :: "string option"
  ev_createdAt :: nat
  ev_updatedAt :: nat

record user =
  us_id :: id
  us_username :: string
  us_name :: "string option"
  us_role :: role
  us_isActive :: bool
  us_pinHash :: string
  us_createdAt :: nat

record auth_throttle =
  at_key :: string
  at_failedAttempts :: int
  at_lockedUntil :: "nat option"

record area =
  ar_id :: id
  ar_name :: string
  ar_sortOrder :: int
  ar_eventId :: id
  ar_floorPlan :: "json option"

record printer =
  pr_id :: id
  pr_name :: string
  pr_type :: string
  pr_ipAddress :: "string option"
  pr_port :: "int option"
  pr_isActive :: bool
  pr_paperWidth :: int
  pr_codepage :: string
  pr_codepageProfile :: string
  pr_cutMode :: string
  pr_copies :: int
  pr_timeoutMs :: int
  pr_queueName :: "string option"
  pr_fallbackPrinterId :: "id option"
  pr_lastErrorCode :: "string option"
  pr_lastErrorAt :: "nat option"
  pr_lastOkAt :: "nat option"

record station =
  sn_id :: id
  sn_name :: string
  sn_eventId :: id
  sn_isActive :: bool
  sn_printerId :: "id option"
  sn_shortName :: "string option"
  sn_color :: "string option"
  sn_sortOrder :: int

record category =
  ca_id :: id
  ca_targetStationId :: "id option"
  ca_deposit :: "int option"
  ca_isActive :: bool
  ca_name :: string
  ca_sortOrder :: int
  ca_eventId :: id

record poption =
  op_id :: id
  op_name :: string
  op_priceEffect :: int
  op_isActive :: bool
  op_sortOrder :: int

record option_group =
  og_id :: id
  og_name :: string
  og_selectionType :: selection_type
  og_isRequired :: bool
  og_minSelect :: int
  og_maxSelect :: "int option"
  og_priceMode :: price_mode
  og_quickSaleTiles :: bool
  og_sortOrder :: int
  og_options :: "poption list"

record product =
  pd_id :: id
  pd_eventId :: id
  pd_name :: string
  pd_price :: int
  pd_deposit :: "int option"
  pd_targetStationId :: "id option"
  pd_manualAvailability :: availability
  pd_category :: category
  pd_optionGroups :: "option_group list"
  pd_shortName :: "string option"
  pd_description :: "string option"
  pd_taxRate :: int
  pd_color :: "string option"
  pd_sortOrder :: int
  pd_imageUrl :: "string option"

record session =
  cs_id :: id
  cs_userId :: id
  cs_eventId :: id
  cs_dataMode :: data_mode
  cs_status :: session_status
  cs_startingBalance :: int
  cs_closingBalance :: "int option"
  cs_startTime :: nat
  cs_endTime :: "nat option"

record extra =
  ex_id :: id
  ex_name :: string
  ex_price :: int
  ex_groupId :: id
  ex_groupName :: string

record order_item =
  oi_id :: id
  oi_orderId :: id
  oi_productId :: id
  oi_quantity :: int
  oi_paidQuantity :: int
  oi_priceAtTime :: int
  oi_depositAtTime :: int
  oi_status :: item_status
  oi_variantId :: "id option"
  oi_variantName :: "string option"
  oi_extras :: "extra list option"

record payment =
  pm_id :: id
  pm_orderId :: id
  pm_amount :: int
  pm_tenderedAmount :: "int option"
  pm_changeAmount :: int
  pm_method :: payment_method
  pm_status :: payment_status
  pm_cashierSessionId :: "id option"

record order =
  od_id :: id
  od_orderNumber :: int
  od_totalAmount :: int
  od_depositRefundTotal :: int
  od_lifecycleStatus :: lifecycle_status
  od_paymentStatus :: order_payment_status
  od_fulfillmentStatus :: fulfillment_status
  od_isPriority :: bool
  od_idempotencyKey :: "string option"
  od_tableName :: "string option"
  od_areaId :: "id option"
  od_userId :: id
  od_claimedByUserId :: "id option"
  od_claimedAt :: "nat option"
  od_eventId :: id
  od_dataMode :: data_mode
  od_createdAt :: nat
  od_cashierSessionId :: "id option"
  od_pickupNumber :: "int option"
  od_stationId :: "id option"

record prod_voucher =
  pv_id :: id
  pv_code :: string
  pv_status :: prod_voucher_status
  pv_eventId :: id
  pv_productId :: id
  pv_orderId :: id
  pv_orderItemId :: id
  pv_issuedByUserId :: id
  pv_cashierSessionId :: "id option"
  pv_issuedAt :: nat

record stock =
  st_productId :: id
  st_eventId :: id
  st_dataMode :: data_mode
  st_trackingEnabled :: bool
  st_initialQuantity :: int
  st_stockQuantity :: int
  st_lowStockThreshold :: int
  st_manualBlocked :: bool
  st_version :: int

record movement =
  mv_id :: id
  mv_type :: movement_type
  mv_quantityDelta :: int
  mv_quantityBefore :: int
  mv_quantityAfter :: int
  mv_productId :: id
  mv_eventId :: id
  mv_dataMode :: data_mode
  mv_orderId :: "id option"
  mv_orderItemId :: "id option"
  mv_reversesMovementId :: "id option"
  mv_actorUserId :: id
  mv_reason :: "string option"
  mv_idempotencyKey :: string
  mv_requestFingerprint :: string
  mv_createdAt :: nat

record value_voucher =
  vv_id :: id
  vv_code :: string
  vv_status :: value_voucher_status
  vv_initialBalance :: int
  vv_currentBalance :: int
  vv_version :: int
  vv_eventId :: id
  vv_dataMode :: data_mode
  vv_issuedByUserId :: id
  vv_issuedCashierSessionId :: id

record vv_movement =
  vm_id :: id
  vm_type :: vv_movement_type
  vm_balanceDelta :: int
  vm_balanceBefore :: int
  vm_balanceAfter :: int
  vm_voucherId :: id
  vm_eventId :: id
  vm_dataMode :: data_mode
  vm_orderId :: "id option"
  vm_paymentId :: "id option"
  vm_actorUserId :: id
  vm_cashierSessionId :: id
  vm_fundingMethod :: "payment_method option"
  vm_tenderedAmount :: "int option"
  vm_changeAmount :: "int option"
  vm_reason :: "string option"
  vm_idempotencyKey :: string
  vm_requestFingerprint :: string
  vm_createdAt :: nat

record vv_allocation =
  va_movementId :: id
  va_orderItemId :: id
  va_amount :: int

record print_job =
  pj_id :: id
  pj_printerId :: id
  pj_jobType :: print_job_type
  pj_content :: json
  pj_status :: print_job_status
  pj_orderId :: "id option"
  pj_valueVoucherMovementId :: "id option"
  pj_sourceKey :: "string option"
  pj_errorMessage :: "string option"
  pj_attemptPhase :: "attempt_phase option"
  pj_leaseId :: "id option"
  pj_leaseExpiresAt :: "nat option"
  pj_lastHeartbeatAt :: "nat option"
  pj_attemptCount :: int
  pj_activePrinterId :: "id option"
  pj_failoverCount :: int
  pj_failoverAt :: "nat option"
  pj_failoverReason :: "string option"
  pj_failoverFromPrinterId :: "id option"
  pj_outcomeClass :: "outcome_class option"
  pj_errorCode :: "string option"
  pj_deliveredAt :: "nat option"
  pj_unresolvedAt :: "nat option"
  pj_unresolvedReason :: "string option"
  pj_resolvedAt :: "nat option"
  pj_resolvedByUserId :: "id option"
  pj_resolution :: "string option"
  pj_cupsJobId :: "int option"
  pj_cupsJobState :: "string option"
  pj_bytesWritten :: "int option"
  pj_createdAt :: nat

record audit_entry =
  al_action :: string
  al_entityId :: id
  al_entityType :: string
  al_userId :: "id option"
  al_details :: json

record config_operation =
  cf_scopeId :: id
  cf_action :: string
  cf_idempotencyKey :: string
  cf_payloadHash :: string
  cf_response :: json

section \<open>The state and the outside world\<close>

record db =
  t_events :: "event list"
  t_users :: "user list"
  t_areas :: "area list"
  t_stations :: "station list"
  t_printers :: "printer list"
  t_products :: "product list"
  t_categories :: "category list"
  t_throttles :: "auth_throttle list"
  t_sessions :: "session list"
  t_orders :: "order list"
  t_items :: "order_item list"
  t_payments :: "payment list"
  t_prodVouchers :: "prod_voucher list"
  t_stocks :: "stock list"
  t_movements :: "movement list"
  t_valueVouchers :: "value_voucher list"
  t_vvMovements :: "vv_movement list"
  t_vvAllocations :: "vv_allocation list"
  t_printJobs :: "print_job list"
  t_pickupCounters :: "((id \<times> data_mode) \<times> int) list"
  t_configOps :: "config_operation list"
  t_auditLogs :: "audit_entry list"
  broadcasts :: "(id \<times> string \<times> json) list"
  serial :: nat
  orderSeq :: int

record env =
  env_uuid :: "nat \<Rightarrow> id"
  env_random :: "nat \<Rightarrow> string"
  env_sha256 :: "string \<Rightarrow> string"
  env_collate :: "string \<Rightarrow> string"
  env_now :: nat

text \<open>
  A new row draws its id from the uuid supply; \<open>serial\<close> counts the draws. \<open>fingerprint\<close> is
  \<^verbatim>\<open>createHash("sha256").update(JSON.stringify(value)).digest("hex")\<close>.
\<close>

definition fresh_id :: "env \<Rightarrow> db \<Rightarrow> id" where
  "fresh_id e d = env_uuid e (serial d)"

definition fingerprint :: "env \<Rightarrow> json \<Rightarrow> string" where
  "fingerprint e v = env_sha256 e (json_stringify v)"

definition add_audit :: "audit_entry \<Rightarrow> db \<Rightarrow> db" where
  "add_audit a d = d\<lparr>t_auditLogs := t_auditLogs d @ [a]\<rparr>"

definition add_broadcast :: "id \<Rightarrow> string \<Rightarrow> json \<Rightarrow> db \<Rightarrow> db" where
  "add_broadcast ev name payload d = d\<lparr>broadcasts := broadcasts d @ [(ev, name, payload)]\<rparr>"

definition empty_db :: db where
  "empty_db = \<lparr>t_events = [], t_users = [], t_areas = [], t_stations = [], t_printers = [],
     t_products = [], t_categories = [], t_throttles = [], t_sessions = [], t_orders = [], t_items = [], t_payments = [],
     t_prodVouchers = [], t_stocks = [], t_movements = [], t_valueVouchers = [], t_vvMovements = [],
     t_vvAllocations = [], t_printJobs = [], t_pickupCounters = [], t_configOps = [], t_auditLogs = [],
     broadcasts = [], serial = 0, orderSeq = 0\<rparr>"

text \<open>An executable outside world for the witnesses: numbered ids, an identity hash.\<close>

definition sample_env :: env where
  "sample_env = \<lparr>env_uuid = nat_text, env_random = nat_text, env_sha256 = id,
     env_collate = id, env_now = 1000\<rparr>"

text \<open>Names of the enumerations as the code's JSON and string templates spell them.\<close>

fun mode_text :: "data_mode \<Rightarrow> string" where
  "mode_text TEST = ''TEST''"
| "mode_text LIVE = ''LIVE''"

fun method_text :: "payment_method \<Rightarrow> string" where
  "method_text CASH = ''CASH''"
| "method_text CARD = ''CARD''"
| "method_text VOUCHER = ''VOUCHER''"
| "method_text REFUND = ''REFUND''"

fun event_status_text :: "event_status \<Rightarrow> string" where
  "event_status_text EV_DRAFT = ''DRAFT''"
| "event_status_text EV_PREPARED = ''PREPARED''"
| "event_status_text EV_TEST_MODE = ''TEST_MODE''"
| "event_status_text EV_ACTIVE = ''ACTIVE''"
| "event_status_text EV_PAUSED = ''PAUSED''"
| "event_status_text EV_COMPLETED = ''COMPLETED''"
| "event_status_text EV_ARCHIVED = ''ARCHIVED''"

fun availability_text :: "availability \<Rightarrow> string" where
  "availability_text AVAILABLE = ''AVAILABLE''"
| "availability_text LOW_STOCK = ''LOW_STOCK''"
| "availability_text OUT_OF_STOCK = ''OUT_OF_STOCK''"
| "availability_text DISABLED = ''DISABLED''"

fun payment_status_text :: "order_payment_status \<Rightarrow> string" where
  "payment_status_text OPEN = ''OPEN''"
| "payment_status_text PARTIALLY_PAID = ''PARTIALLY_PAID''"
| "payment_status_text PAID = ''PAID''"
| "payment_status_text OPS_REFUNDED = ''REFUNDED''"

fun fulfillment_text :: "fulfillment_status \<Rightarrow> string" where
  "fulfillment_text FF_PENDING = ''PENDING''"
| "fulfillment_text FF_PREPARING = ''PREPARING''"
| "fulfillment_text FF_PARTIALLY_READY = ''PARTIALLY_READY''"
| "fulfillment_text FF_READY = ''READY''"
| "fulfillment_text FF_PARTIALLY_DELIVERED = ''PARTIALLY_DELIVERED''"
| "fulfillment_text FF_DELIVERED = ''DELIVERED''"

lemma method_text_inject: "method_text a = method_text b \<longleftrightarrow> a = b"
  by (cases a; cases b) auto

lemma add_audit_frame [frame_simps]:
  "t_stocks (add_audit a d) = t_stocks d" "t_movements (add_audit a d) = t_movements d"
  "t_orders (add_audit a d) = t_orders d" "t_items (add_audit a d) = t_items d"
  "t_payments (add_audit a d) = t_payments d" "t_sessions (add_audit a d) = t_sessions d"
  "t_prodVouchers (add_audit a d) = t_prodVouchers d" "t_printJobs (add_audit a d) = t_printJobs d"
  "t_valueVouchers (add_audit a d) = t_valueVouchers d" "t_vvMovements (add_audit a d) = t_vvMovements d"
  "t_vvAllocations (add_audit a d) = t_vvAllocations d" "t_printers (add_audit a d) = t_printers d"
  "t_pickupCounters (add_audit a d) = t_pickupCounters d" "t_events (add_audit a d) = t_events d"
  "t_products (add_audit a d) = t_products d" "serial (add_audit a d) = serial d"
  "t_users (add_audit a d) = t_users d" "broadcasts (add_audit a d) = broadcasts d"
  by (simp_all add: add_audit_def)

lemma add_broadcast_frame [frame_simps]:
  "t_stocks (add_broadcast ev n p d) = t_stocks d" "t_movements (add_broadcast ev n p d) = t_movements d"
  "t_orders (add_broadcast ev n p d) = t_orders d" "t_items (add_broadcast ev n p d) = t_items d"
  "t_payments (add_broadcast ev n p d) = t_payments d" "t_sessions (add_broadcast ev n p d) = t_sessions d"
  "t_prodVouchers (add_broadcast ev n p d) = t_prodVouchers d"
  "t_printJobs (add_broadcast ev n p d) = t_printJobs d"
  "t_valueVouchers (add_broadcast ev n p d) = t_valueVouchers d"
  "t_vvMovements (add_broadcast ev n p d) = t_vvMovements d"
  "t_pickupCounters (add_broadcast ev n p d) = t_pickupCounters d"
  "t_auditLogs (add_broadcast ev n p d) = t_auditLogs d" "serial (add_broadcast ev n p d) = serial d"
  by (simp_all add: add_broadcast_def)

end
