(* ===== verification/VO_Common.thy ===== *)
theory VO_Common
  imports VO_Data
begin

text \<open>
  The shared rules of \<^verbatim>\<open>apps/backend/src/common\<close>: the operational mode of an event, the target
  station of a product, the fallback category, the pickup number counter, and
  \<^verbatim>\<open>orders/fulfillment-status.ts\<close>. The counter is a \<open>numbering\<close>: a source of gapless numbers
  per key with a hard limit.
\<close>

section \<open>Operational data mode\<close>

definition resolveOperationalDataMode :: "event option \<Rightarrow> api_error + data_mode option" where
  "resolveOperationalDataMode ev = (case ev of
     None \<Rightarrow> Inr None
   | Some v \<Rightarrow>
       if ev_status v = EV_ACTIVE \<and> \<not> ev_testMode v then Inr (Some LIVE)
       else if ev_status v = EV_TEST_MODE \<and> ev_testMode v then Inr (Some TEST)
       else if ev_status v = EV_ACTIVE \<or> ev_status v = EV_TEST_MODE
         then Inl (BadRequest ''EVENT_MODE_INCONSISTENT'')
       else Inr None)"

definition find_event :: "db \<Rightarrow> id \<Rightarrow> event option" where
  "find_event d i = find (\<lambda>v. ev_id v = i) (t_events d)"

definition find_user :: "db \<Rightarrow> id \<Rightarrow> user option" where
  "find_user d i = find (\<lambda>u. us_id u = i) (t_users d)"

lemma resolve_mode_LIVE_iff:
  "resolveOperationalDataMode ev = Inr (Some LIVE) \<longleftrightarrow>
   (\<exists>v. ev = Some v \<and> ev_status v = EV_ACTIVE \<and> \<not> ev_testMode v)"
  by (cases ev) (auto simp: resolveOperationalDataMode_def)

lemma resolve_mode_TEST_iff:
  "resolveOperationalDataMode ev = Inr (Some TEST) \<longleftrightarrow>
   (\<exists>v. ev = Some v \<and> ev_status v = EV_TEST_MODE \<and> ev_testMode v)"
  by (cases ev) (auto simp: resolveOperationalDataMode_def)

lemma resolve_mode_throws_iff:
  "(\<exists>e. resolveOperationalDataMode ev = Inl e) \<longleftrightarrow>
   (\<exists>v. ev = Some v \<and> (ev_status v = EV_ACTIVE \<and> ev_testMode v \<or>
                       ev_status v = EV_TEST_MODE \<and> \<not> ev_testMode v))"
  by (cases ev) (auto simp: resolveOperationalDataMode_def)

section \<open>Target station\<close>

definition resolveTargetStationId :: "product \<Rightarrow> id option" where
  "resolveTargetStationId p = (case pd_targetStationId p of
     Some s \<Rightarrow> Some s | None \<Rightarrow> ca_targetStationId (pd_category p))"

definition productAtStationFilter :: "id \<Rightarrow> product \<Rightarrow> bool" where
  "productAtStationFilter s p \<longleftrightarrow> pd_targetStationId p = Some s \<or>
     (pd_targetStationId p = None \<and> ca_targetStationId (pd_category p) = Some s)"

lemma station_filter_is_resolution:
  "productAtStationFilter s p \<longleftrightarrow> resolveTargetStationId p = Some s"
  by (auto simp: productAtStationFilter_def resolveTargetStationId_def split: option.splits)

section \<open>Fallback category\<close>

definition planFallbackCategory :: "(string \<times> int) list \<Rightarrow> string \<times> int" where
  "planFallbackCategory existing =
     (let hasSonstige = list_ex (\<lambda>c. fst c = ''Sonstige Artikel'') existing;
          maxSortOrder = foldl (\<lambda>m c. max m (snd c)) (- 1) existing
      in (if hasSonstige then ''Sonstige Artikel (ohne Kategorie)'' else ''Sonstige Artikel'',
          maxSortOrder + 1))"

lemma foldl_max_ge: "(m::int) \<le> foldl (\<lambda>m c. max m (f c)) m xs"
proof (induction xs arbitrary: m)
  case Nil
  then show ?case by simp
next
  case (Cons x xs)
  have "m \<le> max m (f x)" by simp
  also have "\<dots> \<le> foldl (\<lambda>m c. max m (f c)) (max m (f x)) xs" by (rule Cons.IH)
  finally show ?case by simp
qed

lemma foldl_max_upper: "x \<in> set xs \<Longrightarrow> f x \<le> foldl (\<lambda>m c. max m (f c)) (m::int) xs"
proof (induction xs arbitrary: m)
  case Nil
  then show ?case by simp
next
  case (Cons y ys)
  have "max m (f y) \<le> foldl (\<lambda>m c. max m (f c)) (max m (f y)) ys" by (rule foldl_max_ge)
  with Cons show ?case by auto
qed

lemma fallback_category_after_all:
  "c \<in> set existing \<Longrightarrow> snd c < snd (planFallbackCategory existing)"
  using foldl_max_upper [of c existing snd "- 1"] by (simp add: planFallbackCategory_def Let_def)

lemma fallback_category_no_clash:
  "fst (planFallbackCategory existing) = ''Sonstige Artikel'' \<Longrightarrow> c \<in> set existing \<Longrightarrow>
   fst c \<noteq> fst (planFallbackCategory existing)"
  by (auto simp: planFallbackCategory_def Let_def list_ex_iff split: if_splits)

section \<open>Fulfilment status of an order\<close>

definition deriveFulfillmentStatus :: "item_status list \<Rightarrow> fulfillment_status" where
  "deriveFulfillmentStatus items = (let active = filter (\<lambda>s. s \<noteq> IT_CANCELLED) items in
     if active = [] then FF_PENDING
     else if list_all (\<lambda>s. s = IT_DELIVERED) active then FF_DELIVERED
     else if list_ex (\<lambda>s. s = IT_IN_DELIVERY \<or> s = IT_DELIVERED) active then FF_PARTIALLY_DELIVERED
     else if list_all (\<lambda>s. s = IT_READY) active then FF_READY
     else if list_ex (\<lambda>s. s = IT_READY) active then FF_PARTIALLY_READY
     else if list_ex (\<lambda>s. s = IT_PREPARING) active then FF_PREPARING
     else FF_PENDING)"

lemma derive_delivered_iff:
  "deriveFulfillmentStatus items = FF_DELIVERED \<longleftrightarrow>
   IT_DELIVERED \<in> set items \<and> set items \<subseteq> {IT_DELIVERED, IT_CANCELLED}"
  by (auto simp: deriveFulfillmentStatus_def Let_def list_all_iff list_ex_iff filter_empty_conv
      split: if_splits)

lemma derive_set_cong:
  "set xs = set ys \<Longrightarrow> deriveFulfillmentStatus xs = deriveFulfillmentStatus ys"
proof -
  assume "set xs = set ys"
  then have s: "set (filter (\<lambda>s. s \<noteq> IT_CANCELLED) xs) = set (filter (\<lambda>s. s \<noteq> IT_CANCELLED) ys)"
    by simp
  then have "(filter (\<lambda>s. s \<noteq> IT_CANCELLED) xs = []) = (filter (\<lambda>s. s \<noteq> IT_CANCELLED) ys = [])"
    by (metis set_empty)
  with s show ?thesis
    unfolding deriveFulfillmentStatus_def Let_def list_all_iff list_ex_iff
    by (simp only: s)
qed

section \<open>Numbers per key without gaps: the contract of a counter\<close>

fun run_draws :: "('s \<Rightarrow> 'k \<Rightarrow> 'e + int \<times> 's) \<Rightarrow> 's \<Rightarrow> 'k list \<Rightarrow> 'e + int list \<times> 's" where
  "run_draws draw s [] = Inr ([], s)"
| "run_draws draw s (k # ks) =
     bind_res (draw s k) (\<lambda>(n, s').
     bind_res (run_draws draw s' ks) (\<lambda>(ns, t). Inr (n # ns, t)))"

definition drawn_for :: "'k \<Rightarrow> 'k list \<Rightarrow> int list \<Rightarrow> int list" where
  "drawn_for k ks ns = map snd (filter (\<lambda>(k', n). k' = k) (zip ks ns))"

locale numbering =
  fixes draw :: "'s \<Rightarrow> 'k \<Rightarrow> 'e + int \<times> 's"
    and current :: "'s \<Rightarrow> 'k \<Rightarrow> int"
    and limit :: int
  assumes draw_value: "draw s k = Inr (n, s') \<Longrightarrow> n = current s k + 1 \<and> n \<le> limit"
    and draw_current: "draw s k = Inr (n, s') \<Longrightarrow> current s' = (current s)(k := n)"
    and draw_total: "current s k < limit \<Longrightarrow> \<exists>s'. draw s k = Inr (current s k + 1, s')"
    and draw_exhausted: "limit \<le> current s k \<Longrightarrow> \<exists>e. draw s k = Inl e"
begin

lemma draws_consecutive:
  "run_draws draw s ks = Inr (ns, t) \<Longrightarrow>
   drawn_for k ks ns = [current s k + 1 .. current t k] \<and> current s k \<le> current t k"
proof (induction ks arbitrary: s ns)
  case Nil
  then show ?case by (simp add: drawn_for_def)
next
  case (Cons k' ks)
  from Cons.prems obtain n s' ns' where d: "draw s k' = Inr (n, s')"
    and r: "run_draws draw s' ks = Inr (ns', t)" and ns: "ns = n # ns'"
    by (auto simp: res_simps)
  from draw_value [OF d] draw_current [OF d]
  have n: "n = current s k' + 1" and c: "current s' = (current s)(k' := n)" by auto
  from Cons.IH [OF r] have IH: "drawn_for k ks ns' = [current s' k + 1 .. current t k]"
    and le: "current s' k \<le> current t k" by auto
  show ?case
  proof (cases "k' = k")
    case True
    with c n le have "[current s k + 1 .. current t k] = n # [current s' k + 1 .. current t k]"
      by (simp add: upto_rec1)
    with True IH ns le c n show ?thesis by (simp add: drawn_for_def)
  next
    case False
    with IH ns le c show ?thesis by (simp add: drawn_for_def)
  qed
qed

lemma draws_distinct:
  "run_draws draw s ks = Inr (ns, t) \<Longrightarrow> distinct (drawn_for k ks ns)"
  using draws_consecutive [of s ks ns t k] by simp

end

section \<open>Pickup numbers\<close>

abbreviation MAX_PICKUP_NUMBER :: int where "MAX_PICKUP_NUMBER \<equiv> 99999"

definition drawPickupNumber :: "db \<Rightarrow> id \<Rightarrow> data_mode \<Rightarrow> api_error + int \<times> db" where
  "drawPickupNumber d eventId mode =
     (let n = (case map_of (t_pickupCounters d) (eventId, mode) of None \<Rightarrow> 1 | Some k \<Rightarrow> k + 1)
      in if n > MAX_PICKUP_NUMBER then Inl (BadRequest ''PICKUP_NUMBER_EXHAUSTED'')
         else Inr (n, d\<lparr>t_pickupCounters := js_set (eventId, mode) n (t_pickupCounters d)\<rparr>))"

definition pickup_current :: "db \<Rightarrow> id \<times> data_mode \<Rightarrow> int" where
  "pickup_current d k = (case map_of (t_pickupCounters d) k of None \<Rightarrow> 0 | Some n \<Rightarrow> n)"

lemma drawPickupNumber_Inr_iff [res_simps]:
  "drawPickupNumber d eventId mode = Inr (n, d') \<longleftrightarrow>
   n = pickup_current d (eventId, mode) + 1 \<and> n \<le> MAX_PICKUP_NUMBER \<and>
   d' = d\<lparr>t_pickupCounters := js_set (eventId, mode) n (t_pickupCounters d)\<rparr>"
  by (auto simp: drawPickupNumber_def pickup_current_def Let_def split: option.splits)

interpretation pickup: numbering
  "\<lambda>d k. drawPickupNumber d (fst k) (snd k)" pickup_current MAX_PICKUP_NUMBER
proof (unfold_locales, goal_cases)
  case (1 s k n s')
  then show ?case by (cases k) (simp add: res_simps)
next
  case (2 s k n s')
  then show ?case
    by (cases k) (auto simp: res_simps pickup_current_def fun_eq_iff)
next
  case (3 s k)
  then show ?case
    by (cases k) (auto simp: drawPickupNumber_def pickup_current_def Let_def split: option.splits)
next
  case (4 s k)
  then show ?case
    by (cases k) (auto simp: drawPickupNumber_def pickup_current_def Let_def split: option.splits)
qed

end
