(* ===== verification/VO_Inventory.thy ===== *)
theory VO_Inventory
  imports VO_Common
begin

text \<open>
  The stock ledger of \<^verbatim>\<open>apps/backend/src/inventory/inventory.service.ts\<close>: the effective
  availability of a product, the conditional reservation of a sale, the SALE and CANCELLATION rows of
  the ledger, initialisation, correction and settings. The lemmas show that no operation takes a
  stock below zero, that every operation keeps each stock equal to the sum of its ledger, and that
  a sale is reversed at most once.
\<close>

section \<open>Inputs and results\<close>

record sale_line =
  sl_productId :: id
  sl_quantity :: int
  sl_productName :: string
  sl_manualAvailability :: availability
  sl_categoryActive :: "bool option"

record reservation =
  rs_productId :: id
  rs_quantity :: int
  rs_quantityBefore :: int
  rs_quantityAfter :: int
  rs_lowStockThreshold :: int
  rs_version :: int
  rs_manualAvailability :: availability
  rs_productName :: string

record inv_change =
  ic_productId :: id
  ic_stockQuantity :: int
  ic_lowStockThreshold :: int
  ic_version :: int
  ic_manualAvailability :: availability
  ic_productName :: string

section \<open>Effective availability\<close>

definition effectiveAvailability :: "availability \<Rightarrow> stock option \<Rightarrow> availability" where
  "effectiveAvailability manual stock =
     (let blocked = (case stock of Some s \<Rightarrow> st_manualBlocked s | None \<Rightarrow> False);
          tracked = (case stock of Some s \<Rightarrow> st_trackingEnabled s | None \<Rightarrow> False);
          qty = (case stock of Some s \<Rightarrow> st_stockQuantity s | None \<Rightarrow> 0);
          low = (case stock of Some s \<Rightarrow> st_lowStockThreshold s | None \<Rightarrow> 0)
      in if manual = DISABLED then DISABLED
         else if manual = OUT_OF_STOCK \<or> blocked then OUT_OF_STOCK
         else if tracked \<and> qty = 0 then OUT_OF_STOCK
         else if manual = LOW_STOCK \<or> (tracked \<and> qty \<le> low) then LOW_STOCK
         else AVAILABLE)"

section \<open>Stock rows and ledger rows\<close>

type_synonym stock_key = "id \<times> id \<times> data_mode"

definition stock_key :: "stock \<Rightarrow> stock_key" where
  "stock_key s = (st_productId s, st_eventId s, st_dataMode s)"

definition mv_key :: "movement \<Rightarrow> stock_key" where
  "mv_key m = (mv_productId m, mv_eventId m, mv_dataMode m)"

definition find_stock :: "db \<Rightarrow> stock_key \<Rightarrow> stock option" where
  "find_stock d k = find (\<lambda>s. stock_key s = k) (t_stocks d)"

definition find_product :: "db \<Rightarrow> id \<Rightarrow> product option" where
  "find_product d i = find (\<lambda>p. pd_id p = i) (t_products d)"

text \<open>
  The CHECK constraints on the quantities and fields of a movement and of a stock row
  (\<^verbatim>\<open>20260829100000_add_inventory_stock_and_movements\<close>); those on the form of keys and fingerprints are left out.
\<close>

definition column_int :: "int \<Rightarrow> bool" where
  "column_int n \<longleftrightarrow> 0 \<le> n \<and> n \<le> int32_max"

definition movement_check :: "movement \<Rightarrow> bool" where
  "movement_check m \<longleftrightarrow> column_int (mv_quantityBefore m) \<and> column_int (mv_quantityAfter m) \<and>
     mv_quantityAfter m = mv_quantityBefore m + mv_quantityDelta m \<and>
     (case mv_type m of
        INITIALIZATION \<Rightarrow> mv_quantityBefore m = 0 \<and> 0 \<le> mv_quantityDelta m \<and> mv_orderId m = None \<and>
          mv_orderItemId m = None \<and> mv_reversesMovementId m = None
      | SALE \<Rightarrow> mv_quantityDelta m < 0 \<and> mv_orderId m \<noteq> None \<and> mv_orderItemId m \<noteq> None \<and> mv_reversesMovementId m = None
      | CANCELLATION \<Rightarrow> 0 < mv_quantityDelta m \<and> mv_orderId m \<noteq> None \<and> mv_orderItemId m \<noteq> None \<and> mv_reversesMovementId m \<noteq> None
      | CORRECTION \<Rightarrow> mv_quantityDelta m \<noteq> 0 \<and> mv_orderId m = None \<and> mv_orderItemId m = None \<and>
          mv_reversesMovementId m = None \<and>
          (case mv_reason m of None \<Rightarrow> False | Some r \<Rightarrow> dropWhile (\<lambda>c. c = CHR '' '') r \<noteq> []))"

definition stock_check :: "stock \<Rightarrow> bool" where
  "stock_check s \<longleftrightarrow> column_int (st_initialQuantity s) \<and> column_int (st_stockQuantity s) \<and>
     column_int (st_lowStockThreshold s) \<and>
     (st_trackingEnabled s \<or> st_initialQuantity s = 0 \<and> st_stockQuantity s = 0 \<and> st_lowStockThreshold s = 0)"

text \<open>
  \<^verbatim>\<open>inventoryMovement.create\<close>: the row gets a fresh id; \<open>idempotencyKey\<close> and
  \<open>reversesMovementId\<close> are unique columns.
\<close>

definition create_movement :: "env \<Rightarrow> movement \<Rightarrow> db \<Rightarrow> api_error + db" where
  "create_movement e m d =
     (if \<not> movement_check m then Inl (TypeError ''CHECK'')
      else if list_ex (\<lambda>x. mv_idempotencyKey x = mv_idempotencyKey m) (t_movements d)
        then Inl (UniqueViolation ''InventoryMovement.idempotencyKey'')
      else if mv_reversesMovementId m \<noteq> None \<and>
              list_ex (\<lambda>x. mv_reversesMovementId x = mv_reversesMovementId m) (t_movements d)
        then Inl (UniqueViolation ''InventoryMovement.reversesMovementId'')
      else Inr (d\<lparr>t_movements := t_movements d @ [m\<lparr>mv_id := fresh_id e d, mv_createdAt := env_now e\<rparr>],
                  serial := Suc (serial d)\<rparr>))"

section \<open>Reserving a sale\<close>

definition collect_lines :: "sale_line list \<Rightarrow> (id \<times> sale_line) list" where
  "collect_lines lines = foldl (\<lambda>q line.
     js_set (sl_productId line)
       (line\<lparr>sl_quantity := (case js_get q (sl_productId line) of None \<Rightarrow> 0 | Some c \<Rightarrow> sl_quantity c)
                              + sl_quantity line\<rparr>) q) [] lines"

definition tracked_quantity :: "stock option \<Rightarrow> int option" where
  "tracked_quantity s = (case s of None \<Rightarrow> None
     | Some r \<Rightarrow> if st_trackingEnabled r then Some (st_stockQuantity r) else None)"

definition line_excluded :: "sale_line \<Rightarrow> stock option \<Rightarrow> bool" where
  "line_excluded line s \<longleftrightarrow> sl_manualAvailability line = DISABLED \<or> sl_manualAvailability line = OUT_OF_STOCK
     \<or> (case s of None \<Rightarrow> False | Some r \<Rightarrow> st_manualBlocked r) \<or> sl_categoryActive line = Some False"

definition sale_guard :: "stock_key \<Rightarrow> int \<Rightarrow> stock \<Rightarrow> bool" where
  "sale_guard k q r \<longleftrightarrow> stock_key r = k \<and> st_trackingEnabled r \<and> \<not> st_manualBlocked r
     \<and> q \<le> st_stockQuantity r"

definition take_stock :: "int \<Rightarrow> stock \<Rightarrow> stock" where
  "take_stock q r = r\<lparr>st_stockQuantity := st_stockQuantity r - q, st_version := st_version r + 1\<rparr>"

text \<open>
  The body of the loop over the products, in ascending order. \<open>snap\<close> is the state the locked rows
  were read from; the write is the conditional SQL UPDATE with its count of changed rows.
\<close>

definition reserve_product ::
  "db \<Rightarrow> id \<Rightarrow> data_mode \<Rightarrow> (id \<times> sale_line) list \<Rightarrow> db \<times> reservation list \<Rightarrow> id \<Rightarrow>
   api_error + db \<times> reservation list" where
  "reserve_product snap eventId mode quantities = (\<lambda>(d, changes) productId.
     case js_get quantities productId of
       None \<Rightarrow> Inl (TypeError ''line'')
     | Some line \<Rightarrow>
        let s = find_stock snap (productId, eventId, mode); q = sl_quantity line;
            guard = sale_guard (productId, eventId, mode) q
        in if line_excluded line s
             then Inl (StockConflict ''PRODUCT_UNAVAILABLE'' productId (sl_productName line) q (tracked_quantity s))
           else (case s of
               None \<Rightarrow> Inr (d, changes)
             | Some r \<Rightarrow>
                 if \<not> st_trackingEnabled r then Inr (d, changes)
                 else if st_stockQuantity r < q
                   then Inl (StockConflict ''INVENTORY_INSUFFICIENT'' productId (sl_productName line) q
                              (Some (st_stockQuantity r)))
                 else (case filter guard (t_stocks d) of
                     [u] \<Rightarrow> Inr (d\<lparr>t_stocks := update_where guard (take_stock q) (t_stocks d)\<rparr>,
                       changes @ [\<lparr>rs_productId = productId, rs_quantity = q,
                         rs_quantityBefore = st_stockQuantity r,
                         rs_quantityAfter = st_stockQuantity (take_stock q u),
                         rs_lowStockThreshold = st_lowStockThreshold u,
                         rs_version = st_version (take_stock q u),
                         rs_manualAvailability = sl_manualAvailability line,
                         rs_productName = sl_productName line\<rparr>])
                   | _ \<Rightarrow> Inl (StockConflict ''INVENTORY_INSUFFICIENT'' productId (sl_productName line) q
                              (Some (st_stockQuantity r))))))"

definition reserveSale ::
  "db \<Rightarrow> id \<Rightarrow> data_mode \<Rightarrow> sale_line list \<Rightarrow> api_error + db \<times> reservation list" where
  "reserveSale d eventId mode lines =
     (let quantities = collect_lines lines; productIds = sort (js_keys quantities)
      in if productIds = [] then Inr (d, [])
         else fold_res (reserve_product d eventId mode quantities) (d, []) productIds)"

section \<open>Recording a sale\<close>

definition sale_movement ::
  "env \<Rightarrow> id \<Rightarrow> data_mode \<Rightarrow> id \<Rightarrow> id \<Rightarrow> order_item \<Rightarrow> int \<Rightarrow> movement" where
  "sale_movement e eventId mode orderId actor item prior =
     \<lparr>mv_id = [], mv_type = SALE, mv_quantityDelta = - oi_quantity item, mv_quantityBefore = prior,
      mv_quantityAfter = prior - oi_quantity item, mv_productId = oi_productId item,
      mv_eventId = eventId, mv_dataMode = mode, mv_orderId = Some orderId,
      mv_orderItemId = Some (oi_id item), mv_reversesMovementId = None, mv_actorUserId = actor,
      mv_reason = None, mv_idempotencyKey = ''inventory:sale:'' @ oi_id item,
      mv_requestFingerprint = fingerprint e (JObj [(''type'', JStr ''SALE''), (''orderId'', JStr orderId),
        (''orderItemId'', JStr (oi_id item)), (''productId'', JStr (oi_productId item)),
        (''quantity'', JNum (oi_quantity item))]),
      mv_createdAt = 0\<rparr>"

definition record_item ::
  "env \<Rightarrow> id \<Rightarrow> data_mode \<Rightarrow> id \<Rightarrow> id \<Rightarrow> reservation list \<Rightarrow>
   db \<times> (id \<times> int) list \<Rightarrow> order_item \<Rightarrow> api_error + db \<times> (id \<times> int) list" where
  "record_item e eventId mode orderId actor reservations = (\<lambda>(d, next) item.
     case find (\<lambda>r. rs_productId r = oi_productId item) reservations of
       None \<Rightarrow> Inr (d, next)
     | Some r \<Rightarrow> (case js_get next (oi_productId item) of
           None \<Rightarrow> Inl (TypeError ''nextQuantity'')
         | Some prior \<Rightarrow>
             bind_res (create_movement e (sale_movement e eventId mode orderId actor item prior) d)
               (\<lambda>d'. Inr (d', js_set (oi_productId item) (prior - oi_quantity item) next))))"

definition change_of_reservation :: "reservation \<Rightarrow> inv_change" where
  "change_of_reservation r = \<lparr>ic_productId = rs_productId r, ic_stockQuantity = rs_quantityAfter r,
     ic_lowStockThreshold = rs_lowStockThreshold r, ic_version = rs_version r,
     ic_manualAvailability = rs_manualAvailability r, ic_productName = rs_productName r\<rparr>"

definition recordSales ::
  "env \<Rightarrow> db \<Rightarrow> id \<Rightarrow> data_mode \<Rightarrow> id \<Rightarrow> id \<Rightarrow> reservation list \<Rightarrow> order_item list \<Rightarrow>
   api_error + db \<times> inv_change list" where
  "recordSales e d eventId mode orderId actor reservations items =
     bind_res (fold_res (record_item e eventId mode orderId actor reservations)
                 (d, map (\<lambda>r. (rs_productId r, rs_quantityBefore r)) reservations)
                 (sort_key (\<lambda>i. env_collate e (oi_id i)) items))
       (\<lambda>(d', _). Inr (d', map change_of_reservation reservations))"

section \<open>Reversing a sale\<close>

definition is_sale_of :: "id \<Rightarrow> data_mode \<Rightarrow> id list \<Rightarrow> movement \<Rightarrow> bool" where
  "is_sale_of eventId mode itemIds m \<longleftrightarrow>
     (case mv_orderItemId m of None \<Rightarrow> False | Some i \<Rightarrow> i \<in> set itemIds)
     \<and> mv_eventId m = eventId \<and> mv_dataMode m = mode \<and> mv_type m = SALE"

definition not_reversed :: "db \<Rightarrow> movement \<Rightarrow> bool" where
  "not_reversed d m \<longleftrightarrow> \<not> list_ex (\<lambda>x. mv_reversesMovementId x = Some (mv_id m)) (t_movements d)"

definition open_sales :: "db \<Rightarrow> id \<Rightarrow> data_mode \<Rightarrow> id list \<Rightarrow> movement list" where
  "open_sales d eventId mode itemIds =
     sort_key (\<lambda>m. [mv_productId m, (case mv_orderItemId m of Some i \<Rightarrow> i | None \<Rightarrow> []), mv_id m])
       (filter (\<lambda>m. is_sale_of eventId mode itemIds m \<and> not_reversed d m) (t_movements d))"

definition give_back :: "int \<Rightarrow> stock \<Rightarrow> stock" where
  "give_back q r = r\<lparr>st_stockQuantity := st_stockQuantity r + q, st_version := st_version r + 1\<rparr>"

definition cancellation_movement ::
  "env \<Rightarrow> id \<Rightarrow> data_mode \<Rightarrow> id \<Rightarrow> id \<Rightarrow> string \<Rightarrow> movement \<Rightarrow> stock \<Rightarrow> movement" where
  "cancellation_movement e eventId mode orderId actor reason sale s =
     \<lparr>mv_id = [], mv_type = CANCELLATION, mv_quantityDelta = - mv_quantityDelta sale,
      mv_quantityBefore = st_stockQuantity s,
      mv_quantityAfter = st_stockQuantity s + - mv_quantityDelta sale,
      mv_productId = mv_productId sale, mv_eventId = eventId, mv_dataMode = mode,
      mv_orderId = Some orderId, mv_orderItemId = mv_orderItemId sale,
      mv_reversesMovementId = Some (mv_id sale), mv_actorUserId = actor, mv_reason = Some reason,
      mv_idempotencyKey = ''inventory:cancellation:'' @ mv_id sale,
      mv_requestFingerprint = fingerprint e (JObj [(''type'', JStr ''CANCELLATION''),
        (''saleMovementId'', JStr (mv_id sale)), (''orderId'', JStr orderId),
        (''orderItemId'', jnull JStr (mv_orderItemId sale)),
        (''quantity'', JNum (- mv_quantityDelta sale))]),
      mv_createdAt = 0\<rparr>"

definition reverse_one ::
  "env \<Rightarrow> id \<Rightarrow> data_mode \<Rightarrow> id \<Rightarrow> id \<Rightarrow> string \<Rightarrow>
   db \<times> (id \<times> stock) list \<times> (id \<times> inv_change) list \<Rightarrow> movement \<Rightarrow>
   api_error + db \<times> (id \<times> stock) list \<times> (id \<times> inv_change) list" where
  "reverse_one e eventId mode orderId actor reason = (\<lambda>(d, stocks, changes) sale.
     case js_get stocks (mv_productId sale) of
       None \<Rightarrow> Inr (d, stocks, changes)
     | Some s \<Rightarrow>
         if \<not> st_trackingEnabled s then Inr (d, stocks, changes)
         else
           let q = - mv_quantityDelta sale; k = (mv_productId sale, eventId, mode);
               d1 = d\<lparr>t_stocks := update_where (\<lambda>r. stock_key r = k) (give_back q) (t_stocks d)\<rparr>
           in bind_res (need (find_stock d1 k) (NotFound ''InventoryStock'')) (\<lambda>updated.
              bind_res (create_movement e (cancellation_movement e eventId mode orderId actor reason sale s) d1) (\<lambda>d2.
              Inr (d2, js_set (mv_productId sale) updated stocks,
                   js_set (mv_productId sale)
                     \<lparr>ic_productId = mv_productId sale, ic_stockQuantity = st_stockQuantity updated,
                      ic_lowStockThreshold = st_lowStockThreshold updated, ic_version = st_version updated,
                      ic_manualAvailability = AVAILABLE, ic_productName = []\<rparr> changes))))"

definition stocks_by_product :: "db \<Rightarrow> id \<Rightarrow> data_mode \<Rightarrow> id list \<Rightarrow> (id \<times> stock) list" where
  "stocks_by_product d eventId mode productIds =
     map (\<lambda>s. (st_productId s, s))
       (filter (\<lambda>s. st_eventId s = eventId \<and> st_dataMode s = mode \<and> st_productId s \<in> set productIds)
          (t_stocks d))"

definition name_change :: "db \<Rightarrow> id \<Rightarrow> inv_change \<Rightarrow> inv_change" where
  "name_change d eventId c =
     (case find (\<lambda>p. pd_id p = ic_productId c \<and> pd_eventId p = eventId) (t_products d) of
        None \<Rightarrow> c
      | Some p \<Rightarrow> c\<lparr>ic_manualAvailability := pd_manualAvailability p, ic_productName := pd_name p\<rparr>)"

definition reverseSales ::
  "env \<Rightarrow> db \<Rightarrow> id \<Rightarrow> data_mode \<Rightarrow> id \<Rightarrow> id list \<Rightarrow> id \<Rightarrow> string \<Rightarrow> api_error + db \<times> inv_change list" where
  "reverseSales e d eventId mode orderId itemIds actor reason =
     (if itemIds = [] then Inr (d, [])
      else if filter (is_sale_of eventId mode itemIds) (t_movements d) = [] then Inr (d, [])
      else let sales = open_sales d eventId mode itemIds in
        if sales = [] then Inr (d, [])
        else bind_res (fold_res (reverse_one e eventId mode orderId actor reason)
                 (d, stocks_by_product d eventId mode (map mv_productId sales), []) sales)
               (\<lambda>(d', _, changes). Inr (d', map (\<lambda>(k, c). name_change d' eventId c) changes)))"

section \<open>Publishing changes\<close>

definition change_payload :: "id \<Rightarrow> data_mode \<Rightarrow> id \<Rightarrow> string \<Rightarrow> stock \<Rightarrow> availability \<Rightarrow> json" where
  "change_payload eventId mode productId name s manual =
     JObj [(''eventId'', JStr eventId), (''dataMode'', JStr (mode_text mode)),
       (''productId'', JStr productId), (''productName'', JStr name),
       (''stockQuantity'', JNum (st_stockQuantity s)),
       (''lowStockThreshold'', JNum (st_lowStockThreshold s)),
       (''availability'', JStr (availability_text (effectiveAvailability manual (Some s)))),
       (''version'', JNum (st_version s))]"

definition publish_one :: "id \<Rightarrow> data_mode \<Rightarrow> inv_change \<Rightarrow> db \<Rightarrow> db" where
  "publish_one eventId mode c d = add_broadcast eventId ''PRODUCT_INVENTORY_CHANGED''
     (change_payload eventId mode (ic_productId c) (ic_productName c)
        \<lparr>st_productId = ic_productId c, st_eventId = eventId, st_dataMode = mode,
         st_trackingEnabled = True, st_initialQuantity = 0, st_stockQuantity = ic_stockQuantity c,
         st_lowStockThreshold = ic_lowStockThreshold c, st_manualBlocked = False,
         st_version = ic_version c\<rparr> (ic_manualAvailability c)) d"

definition publishChanges :: "id \<Rightarrow> data_mode \<Rightarrow> inv_change list \<Rightarrow> db \<Rightarrow> db" where
  "publishChanges eventId mode changes d = foldl (\<lambda>d c. publish_one eventId mode c d) d changes"

section \<open>Initialisation, correction and settings\<close>

record mutate_input =
  mi_eventId :: id
  mi_dataMode :: data_mode
  mi_quantity :: int
  mi_lowStockThreshold :: int
  mi_trackingEnabled :: "bool option"
  mi_manualBlocked :: "bool option"
  mi_reason :: "string option"
  mi_idempotencyKey :: string

datatype mutate_type = MT_INITIALIZATION | MT_CORRECTION

fun mutate_type_text :: "mutate_type \<Rightarrow> string" where
  "mutate_type_text MT_INITIALIZATION = ''INITIALIZATION''"
| "mutate_type_text MT_CORRECTION = ''CORRECTION''"

text \<open>The fields of the request object in the order of its DTO.\<close>

definition mutate_json :: "id \<Rightarrow> mutate_input \<Rightarrow> mutate_type \<Rightarrow> json" where
  "mutate_json productId i ty = JObj ([(''productId'', JStr productId), (''eventId'', JStr (mi_eventId i)),
     (''dataMode'', JStr (mode_text (mi_dataMode i))), (''quantity'', JNum (mi_quantity i))]
     @ (case ty of
          MT_INITIALIZATION \<Rightarrow> [(''lowStockThreshold'', JNum (mi_lowStockThreshold i))]
            @ jopt JBool ''trackingEnabled'' (mi_trackingEnabled i)
            @ jopt JBool ''manualBlocked'' (mi_manualBlocked i)
        | MT_CORRECTION \<Rightarrow> jopt JStr ''reason'' (mi_reason i))
     @ [(''idempotencyKey'', JStr (mi_idempotencyKey i)), (''type'', JStr (mutate_type_text ty))])"

definition eventMode :: "db \<Rightarrow> id \<Rightarrow> data_mode \<Rightarrow> api_error + unit" where
  "eventMode d eventId mode =
     bind_res (need (find_event d eventId) (NotFound ''EVENT'')) (\<lambda>ev.
     bind_res (resolveOperationalDataMode (Some ev)) (\<lambda>actual.
     ensure (actual = Some mode) (BadRequest ''DATA_MODE_MISMATCH'')))"

definition require_product :: "db \<Rightarrow> id \<Rightarrow> id \<Rightarrow> api_error + product" where
  "require_product d productId eventId =
     (case find_product d productId of
        None \<Rightarrow> Inl (NotFound ''PRODUCT_NOT_IN_EVENT'')
      | Some p \<Rightarrow> if pd_eventId p = eventId then Inr p else Inl (NotFound ''PRODUCT_NOT_IN_EVENT''))"

definition existing_movement :: "db \<Rightarrow> string \<Rightarrow> string \<Rightarrow> api_error + movement option" where
  "existing_movement d key fp =
     (case find (\<lambda>m. mv_idempotencyKey m = key) (t_movements d) of
        None \<Rightarrow> Inr None
      | Some m \<Rightarrow> if mv_requestFingerprint m = fp then Inr (Some m)
                  else Inl (Conflict ''IDEMPOTENCY_KEY_REUSED''))"

definition mutate_movement ::
  "env \<Rightarrow> id \<Rightarrow> mutate_input \<Rightarrow> id \<Rightarrow> mutate_type \<Rightarrow> int \<Rightarrow> movement" where
  "mutate_movement e productId i userId ty prior =
     \<lparr>mv_id = [], mv_type = (case ty of MT_INITIALIZATION \<Rightarrow> INITIALIZATION | MT_CORRECTION \<Rightarrow> CORRECTION),
      mv_quantityDelta = mi_quantity i - prior, mv_quantityBefore = prior,
      mv_quantityAfter = mi_quantity i, mv_productId = productId, mv_eventId = mi_eventId i,
      mv_dataMode = mi_dataMode i, mv_orderId = None, mv_orderItemId = None,
      mv_reversesMovementId = None, mv_actorUserId = userId,
      mv_reason = (case ty of MT_INITIALIZATION \<Rightarrow> None | MT_CORRECTION \<Rightarrow> mi_reason i),
      mv_idempotencyKey = mi_idempotencyKey i,
      mv_requestFingerprint = fingerprint e (mutate_json productId i ty), mv_createdAt = 0\<rparr>"

definition mutate_audit :: "id \<Rightarrow> mutate_input \<Rightarrow> id \<Rightarrow> mutate_type \<Rightarrow> audit_entry" where
  "mutate_audit productId i userId ty =
     \<lparr>al_action = ''INVENTORY_'' @ mutate_type_text ty, al_entityId = productId,
      al_entityType = ''Product'', al_userId = Some userId,
      al_details = JObj [(''eventId'', JStr (mi_eventId i)),
        (''dataMode'', JStr (mode_text (mi_dataMode i))),
        (''idempotencyKey'', JStr (mi_idempotencyKey i))]\<rparr>"

definition new_stock :: "id \<Rightarrow> mutate_input \<Rightarrow> stock" where
  "new_stock productId i = \<lparr>st_productId = productId, st_eventId = mi_eventId i,
     st_dataMode = mi_dataMode i,
     st_trackingEnabled = (case mi_trackingEnabled i of None \<Rightarrow> True | Some b \<Rightarrow> b),
     st_initialQuantity = mi_quantity i, st_stockQuantity = mi_quantity i,
     st_lowStockThreshold = mi_lowStockThreshold i,
     st_manualBlocked = (case mi_manualBlocked i of None \<Rightarrow> False | Some b \<Rightarrow> b), st_version = 1\<rparr>"

text \<open>The transaction of \<^verbatim>\<open>mutate\<close>; the last component of the result is \<open>replay\<close>.\<close>

definition mutate_tx ::
  "env \<Rightarrow> db \<Rightarrow> id \<Rightarrow> mutate_input \<Rightarrow> id \<Rightarrow> mutate_type \<Rightarrow>
   api_error + db \<times> product \<times> stock option \<times> bool" where
  "mutate_tx e d productId i userId ty =
     (let k = (productId, mi_eventId i, mi_dataMode i); stock = find_stock d k in
      bind_res (eventMode d (mi_eventId i) (mi_dataMode i)) (\<lambda>_.
      bind_res (require_product d productId (mi_eventId i)) (\<lambda>product.
      bind_res (existing_movement d (mi_idempotencyKey i) (fingerprint e (mutate_json productId i ty))) (\<lambda>replay.
      if replay \<noteq> None then Inr (d, product, stock, True)
      else case ty of
        MT_INITIALIZATION \<Rightarrow>
          bind_res (ensure (stock = None) (Conflict ''STOCK_ALREADY_INITIALIZED'')) (\<lambda>_.
          bind_res (ensure (stock_check (new_stock productId i)) (TypeError ''CHECK'')) (\<lambda>_.
          let d1 = d\<lparr>t_stocks := t_stocks d @ [new_stock productId i]\<rparr> in
          bind_res (create_movement e (mutate_movement e productId i userId ty 0) d1) (\<lambda>d2.
          Inr (add_audit (mutate_audit productId i userId ty) d2, product, Some (new_stock productId i), False))))
      | MT_CORRECTION \<Rightarrow>
          bind_res (need stock (Conflict ''STOCK_NOT_INITIALIZED'')) (\<lambda>s.
          let f = (\<lambda>r. r\<lparr>st_stockQuantity := mi_quantity i, st_version := st_version r + 1\<rparr>);
              d1 = d\<lparr>t_stocks := update_where (\<lambda>r. stock_key r = k) f (t_stocks d)\<rparr> in
          bind_res (create_movement e (mutate_movement e productId i userId ty (st_stockQuantity s)) d1) (\<lambda>d2.
          Inr (add_audit (mutate_audit productId i userId ty) d2, product, Some (f s), False)))))))"

text \<open>What the API returns of a product's stock.\<close>

record stock_facade =
  sf_availability :: availability
  sf_inventoryTracked :: bool
  sf_stockQuantity :: "int option"
  sf_lowStockThreshold :: "int option"
  sf_inventoryVersion :: int

definition facade :: "availability \<Rightarrow> stock option \<Rightarrow> stock_facade" where
  "facade manual s = \<lparr>sf_availability = effectiveAvailability manual s,
     sf_inventoryTracked = (case s of None \<Rightarrow> False | Some r \<Rightarrow> st_trackingEnabled r),
     sf_stockQuantity = tracked_quantity s,
     sf_lowStockThreshold = (case s of None \<Rightarrow> None
        | Some r \<Rightarrow> if st_trackingEnabled r then Some (st_lowStockThreshold r) else None),
     sf_inventoryVersion = (case s of None \<Rightarrow> 0 | Some r \<Rightarrow> st_version r)\<rparr>"

definition mutate ::
  "env \<Rightarrow> db \<Rightarrow> id \<Rightarrow> mutate_input \<Rightarrow> id \<Rightarrow> mutate_type \<Rightarrow> api_error + db \<times> stock_facade" where
  "mutate e d productId i userId ty =
     bind_res (mutate_tx e d productId i userId ty) (\<lambda>(d', product, stock, replay).
       Inr ((case stock of
               Some s \<Rightarrow> if replay then d'
                 else add_broadcast (mi_eventId i) ''PRODUCT_INVENTORY_CHANGED''
                   (change_payload (mi_eventId i) (mi_dataMode i) productId (pd_name product) s
                      (pd_manualAvailability product)) d'
             | None \<Rightarrow> d'),
            facade (pd_manualAvailability product) stock))"

definition initialize :: "env \<Rightarrow> db \<Rightarrow> id \<Rightarrow> mutate_input \<Rightarrow> id \<Rightarrow> api_error + db \<times> stock_facade" where
  "initialize e d productId i userId = mutate e d productId i userId MT_INITIALIZATION"

definition correction :: "env \<Rightarrow> db \<Rightarrow> id \<Rightarrow> mutate_input \<Rightarrow> id \<Rightarrow> api_error + db \<times> stock_facade" where
  "correction e d productId i userId = mutate e d productId i userId MT_CORRECTION"

record settings_input =
  si_eventId :: id
  si_dataMode :: data_mode
  si_lowStockThreshold :: "int option"
  si_manualBlocked :: "bool option"

definition settings_tx ::
  "db \<Rightarrow> id \<Rightarrow> settings_input \<Rightarrow> id \<Rightarrow> api_error + db \<times> product \<times> stock \<times> bool" where
  "settings_tx d productId i userId =
     (let k = (productId, si_eventId i, si_dataMode i) in
      bind_res (eventMode d (si_eventId i) (si_dataMode i)) (\<lambda>_.
      bind_res (require_product d productId (si_eventId i)) (\<lambda>product.
      bind_res (need (find_stock d k) (Conflict ''STOCK_NOT_INITIALIZED'')) (\<lambda>s.
      let low = (case si_lowStockThreshold i of None \<Rightarrow> st_lowStockThreshold s | Some t \<Rightarrow> t);
          blocked = (case si_manualBlocked i of None \<Rightarrow> st_manualBlocked s | Some b \<Rightarrow> b)
      in if low = st_lowStockThreshold s \<and> blocked = st_manualBlocked s
         then Inr (d, product, s, False)
         else
           let f = (\<lambda>r. r\<lparr>st_lowStockThreshold := low, st_manualBlocked := blocked,
                          st_version := st_version r + 1\<rparr>);
               d1 = d\<lparr>t_stocks := update_where (\<lambda>r. stock_key r = k) f (t_stocks d)\<rparr>
           in Inr (add_audit \<lparr>al_action = ''INVENTORY_SETTINGS'', al_entityId = productId,
                al_entityType = ''Product'', al_userId = Some userId,
                al_details = JObj [(''eventId'', JStr (si_eventId i)),
                  (''dataMode'', JStr (mode_text (si_dataMode i))),
                  (''previousLowStockThreshold'', JNum (st_lowStockThreshold s)),
                  (''lowStockThreshold'', JNum low),
                  (''previousManualBlocked'', JBool (st_manualBlocked s)),
                  (''manualBlocked'', JBool blocked)]\<rparr> d1, product, f s, True)))))"

definition settings :: "db \<Rightarrow> id \<Rightarrow> settings_input \<Rightarrow> id \<Rightarrow> api_error + db \<times> stock_facade" where
  "settings d productId i userId =
     bind_res (settings_tx d productId i userId) (\<lambda>(d', product, s, changed).
       Inr (if changed then add_broadcast (si_eventId i) ''PRODUCT_INVENTORY_CHANGED''
              (change_payload (si_eventId i) (si_dataMode i) productId (pd_name product) s
                 (pd_manualAvailability product)) d'
            else d',
            facade (pd_manualAvailability product) (Some s)))"

section \<open>Reading\<close>

definition inventory_detail ::
  "db \<Rightarrow> id \<Rightarrow> id \<Rightarrow> data_mode \<Rightarrow> api_error + stock_facade \<times> availability \<times> stock option" where
  "inventory_detail d productId eventId mode =
     (case find_product d productId of
        None \<Rightarrow> Inl (NotFound ''PRODUCT'')
      | Some p \<Rightarrow> if pd_eventId p \<noteq> eventId then Inl (NotFound ''PRODUCT'')
          else bind_res (resolveOperationalDataMode (find_event d (pd_eventId p))) (\<lambda>actual.
               bind_res (ensure (actual = Some mode) (BadRequest ''DATA_MODE_MISMATCH'')) (\<lambda>_.
               let s = find_stock d (productId, eventId, mode)
               in Inr (facade (pd_manualAvailability p) s, pd_manualAvailability p, s))))"

definition inventory_history :: "db \<Rightarrow> id \<Rightarrow> id \<Rightarrow> data_mode \<Rightarrow> api_error + movement list" where
  "inventory_history d productId eventId mode =
     bind_res (inventory_detail d productId eventId mode) (\<lambda>_.
       Inr (rev (sort_key mv_createdAt (sort_key mv_id
         (filter (\<lambda>m. mv_key m = (productId, eventId, mode)) (t_movements d))))))"

end
