(* ===== verification/VO_Inventory_Laws.thy ===== *)
theory VO_Inventory_Laws
  imports VO_Inventory
begin

text \<open>
  The laws of the stock ledger. \<open>ledger_ok\<close> is the invariant: one row per key, no negative stock,
  each stock equal to the sum of its ledger rows, each ledger row on an existing stock, no SALE that
  adds. A reservation takes exactly the requested
  quantities from the tracked rows of its event and mode; together with the SALE rows it keeps the
  invariant, and so do initialisation, correction, settings and the reversal of a sale.
\<close>

section \<open>The invariant\<close>

definition ledger_sum :: "movement list \<Rightarrow> stock_key \<Rightarrow> int" where
  "ledger_sum ms k = sum_list (map mv_quantityDelta (filter (\<lambda>m. mv_key m = k) ms))"

definition ledger_ok :: "stock list \<Rightarrow> movement list \<Rightarrow> bool" where
  "ledger_ok ss ms \<longleftrightarrow> distinct (map stock_key ss) \<and>
     (\<forall>s \<in> set ss. 0 \<le> st_stockQuantity s \<and> st_stockQuantity s = ledger_sum ms (stock_key s)) \<and>
     (\<forall>m \<in> set ms. mv_key m \<in> stock_key ` set ss \<and> (mv_type m = SALE \<longrightarrow> mv_quantityDelta m \<le> 0))"

lemma ledger_sum_simps [simp]:
  "ledger_sum [] k = 0"
  "ledger_sum (m # ms) k = (if mv_key m = k then mv_quantityDelta m else 0) + ledger_sum ms k"
  "ledger_sum (ms @ ns) k = ledger_sum ms k + ledger_sum ns k"
  by (simp_all add: ledger_sum_def)

lemma ledger_sum_no_row: "\<forall>m \<in> set ms. mv_key m \<noteq> k \<Longrightarrow> ledger_sum ms k = 0"
  unfolding ledger_sum_def by (subst filter_False) auto

lemma ledger_okD:
  "ledger_ok ss ms \<Longrightarrow> distinct (map stock_key ss)"
  "ledger_ok ss ms \<Longrightarrow> s \<in> set ss \<Longrightarrow> 0 \<le> st_stockQuantity s"
  "ledger_ok ss ms \<Longrightarrow> s \<in> set ss \<Longrightarrow> st_stockQuantity s = ledger_sum ms (stock_key s)"
  "ledger_ok ss ms \<Longrightarrow> m \<in> set ms \<Longrightarrow> mv_key m \<in> stock_key ` set ss"
  "ledger_ok ss ms \<Longrightarrow> m \<in> set ms \<Longrightarrow> mv_type m = SALE \<Longrightarrow> mv_quantityDelta m \<le> 0"
  unfolding ledger_ok_def by blast+

lemma ledger_okI:
  assumes "distinct (map stock_key ss)" and "\<And>s. s \<in> set ss \<Longrightarrow> 0 \<le> st_stockQuantity s"
    and "\<And>s. s \<in> set ss \<Longrightarrow> st_stockQuantity s = ledger_sum ms (stock_key s)"
    and "\<And>m. m \<in> set ms \<Longrightarrow> mv_key m \<in> stock_key ` set ss"
    and "\<And>m. m \<in> set ms \<Longrightarrow> mv_type m = SALE \<Longrightarrow> mv_quantityDelta m \<le> 0"
  shows "ledger_ok ss ms"
  using assms by (simp add: ledger_ok_def)

lemma create_movement_Inr:
  "create_movement e m d = Inr d' \<Longrightarrow>
   d' = d\<lparr>t_movements := t_movements d @ [m\<lparr>mv_id := fresh_id e d, mv_createdAt := env_now e\<rparr>],
          serial := Suc (serial d)\<rparr>"
  by (auto simp: create_movement_def split: if_splits)

lemma stock_key_simps [simp]:
  "stock_key (take_stock q r) = stock_key r"
  "stock_key (give_back q r) = stock_key r"
  "st_stockQuantity (take_stock q r) = st_stockQuantity r - q"
  "st_stockQuantity (give_back q r) = st_stockQuantity r + q"
  "st_trackingEnabled (take_stock q r) = st_trackingEnabled r"
  "st_trackingEnabled (give_back q r) = st_trackingEnabled r"
  "st_manualBlocked (take_stock q r) = st_manualBlocked r"
  by (simp_all add: stock_key_def take_stock_def give_back_def)

lemma unique_key_row:
  "distinct (map stock_key ss) \<Longrightarrow> s \<in> set ss \<Longrightarrow> t \<in> set ss \<Longrightarrow> stock_key s = stock_key t \<Longrightarrow> s = t"
  by (auto simp: distinct_map dest: inj_onD)

lemma find_stock_Some: "find_stock d k = Some s \<Longrightarrow> s \<in> set (t_stocks d) \<and> stock_key s = k"
  by (auto simp: find_stock_def dest: find_Some_mem)

lemma find_stock_row:
  "distinct (map stock_key (t_stocks d)) \<Longrightarrow> s \<in> set (t_stocks d) \<Longrightarrow> find_stock d (stock_key s) = Some s"
  by (simp add: find_stock_def find_distinct_key)

text \<open>The conditional UPDATE hits one row or none: the one with the key, when it passes the guard.\<close>

lemma guarded_update_is_keyed:
  assumes "distinct (map stock_key ss)" and "filter (sale_guard k q) ss = [u]"
  shows "update_where (sale_guard k q) f ss = update_where (\<lambda>r. stock_key r = k) f ss"
proof -
  from filter_singletonD [OF assms(2)] have u: "u \<in> set ss" "sale_guard k q u" by auto
  have "sale_guard k q r \<longleftrightarrow> stock_key r = k" if "r \<in> set ss" for r
    using u that unique_key_row [OF assms(1), of r u] by (auto simp: sale_guard_def)
  then show ?thesis by (simp add: update_where_def)
qed

section \<open>One product of a reservation\<close>

definition reserved :: "reservation list \<Rightarrow> id \<Rightarrow> int" where
  "reserved rs p = sum_list (map rs_quantity (filter (\<lambda>r. rs_productId r = p) rs))"

lemma reserved_simps [simp]:
  "reserved [] p = 0"
  "reserved (rs @ [r]) p = reserved rs p + (if rs_productId r = p then rs_quantity r else 0)"
  by (simp_all add: reserved_def)

text \<open>What a successful iteration did: nothing (no tracked stock), or one keyed decrement.\<close>

lemma reserve_product_cases:
  assumes "reserve_product snap ev m q (d, ch) p = Inr (d', ch')"
    and "distinct (map stock_key (t_stocks d))"
  obtains (untracked) line where "js_get q p = Some line"
      "\<not> line_excluded line (find_stock snap (p, ev, m))"
      "tracked_quantity (find_stock snap (p, ev, m)) = None" "d' = d" "ch' = ch"
  | (taken) line r0 u r where "js_get q p = Some line"
      "\<not> line_excluded line (find_stock snap (p, ev, m))"
      "find_stock snap (p, ev, m) = Some r0" "st_trackingEnabled r0"
      "sl_quantity line \<le> st_stockQuantity r0"
      "u \<in> set (t_stocks d)" "stock_key u = (p, ev, m)" "sl_quantity line \<le> st_stockQuantity u"
      "d' = d\<lparr>t_stocks := update_where (\<lambda>s. stock_key s = (p, ev, m)) (take_stock (sl_quantity line)) (t_stocks d)\<rparr>"
      "ch' = ch @ [r]" "rs_productId r = p" "rs_quantity r = sl_quantity line"
      "rs_quantityBefore r = st_stockQuantity r0"
      "rs_quantityAfter r = st_stockQuantity u - sl_quantity line"
proof -
  let ?k = "(p, ev, m)"
  from assms(1) obtain line where l: "js_get q p = Some line"
    by (auto simp: reserve_product_def split: option.splits)
  have ex: "\<not> line_excluded line (find_stock snap ?k)"
    using assms(1) l by (auto simp: reserve_product_def Let_def split: if_splits)
  show thesis
  proof (cases "tracked_quantity (find_stock snap ?k)")
    case None
    then have "d' = d \<and> ch' = ch"
      using assms(1) l ex
      by (auto simp: reserve_product_def Let_def tracked_quantity_def split: option.splits if_splits)
    with untracked l ex None show thesis by blast
  next
    case (Some n)
    then obtain r0 where r0: "find_stock snap ?k = Some r0" "st_trackingEnabled r0"
      by (auto simp: tracked_quantity_def split: option.splits if_splits)
    let ?g = "sale_guard ?k (sl_quantity line)"
    have le: "sl_quantity line \<le> st_stockQuantity r0"
      using assms(1) l ex r0 by (auto simp: reserve_product_def Let_def split: if_splits)
    from assms(1) l ex r0 le obtain u where f: "filter ?g (t_stocks d) = [u]"
      by (auto simp: reserve_product_def Let_def split: if_splits list.splits)
    from filter_singletonD [OF f] have u: "u \<in> set (t_stocks d)" "?g u" by auto
    have upd: "update_where ?g (take_stock (sl_quantity line)) (t_stocks d)
        = update_where (\<lambda>s. stock_key s = ?k) (take_stock (sl_quantity line)) (t_stocks d)"
      by (rule guarded_update_is_keyed [OF assms(2) f])
    show thesis
      using taken [OF l ex r0 le u(1), of _] assms(1) l ex r0 le f u upd
      by (auto simp: reserve_product_def Let_def sale_guard_def)
  qed
qed

section \<open>The whole reservation\<close>

text \<open>
  What the ledger operations leave alone: every table but stocks and movements. As an equation it
  composes over a sequence of operations by transitivity.
\<close>

definition beside_ledger where
  "beside_ledger d = (t_events d, t_users d, t_areas d, t_stations d, t_printers d, t_products d,
     t_sessions d, t_orders d, t_items d, t_payments d, t_prodVouchers d, t_valueVouchers d,
     t_vvMovements d, t_vvAllocations d, t_printJobs d, t_pickupCounters d, t_auditLogs d,
     broadcasts d, orderSeq d)"

lemma beside_ledger_upd [simp]:
  "beside_ledger (d\<lparr>t_stocks := a\<rparr>) = beside_ledger d"
  "beside_ledger (d\<lparr>t_movements := b, serial := c\<rparr>) = beside_ledger d"
  by (simp_all add: beside_ledger_def)

lemma beside_ledgerD:
  assumes "beside_ledger d' = beside_ledger d"
  shows "t_orders d' = t_orders d" "t_items d' = t_items d" "t_payments d' = t_payments d"
    "t_printJobs d' = t_printJobs d" "t_products d' = t_products d" "t_events d' = t_events d"
    "t_sessions d' = t_sessions d" "t_users d' = t_users d" "t_prodVouchers d' = t_prodVouchers d"
    "t_pickupCounters d' = t_pickupCounters d" "t_printers d' = t_printers d"
    "t_stations d' = t_stations d" "t_auditLogs d' = t_auditLogs d" "broadcasts d' = broadcasts d"
    "orderSeq d' = orderSeq d" "t_valueVouchers d' = t_valueVouchers d"
  using assms by (simp_all add: beside_ledger_def)

definition taken :: "id \<Rightarrow> data_mode \<Rightarrow> reservation list \<Rightarrow> stock \<Rightarrow> int" where
  "taken ev m rs s = (if st_eventId s = ev \<and> st_dataMode s = m then reserved rs (st_productId s) else 0)"

definition stock_after :: "id \<Rightarrow> data_mode \<Rightarrow> reservation list \<Rightarrow> stock \<Rightarrow> stock \<Rightarrow> bool" where
  "stock_after ev m rs s t \<longleftrightarrow> stock_key t = stock_key s \<and>
     st_trackingEnabled t = st_trackingEnabled s \<and>
     st_stockQuantity t = st_stockQuantity s - taken ev m rs s"

definition nonneg_stocks :: "stock list \<Rightarrow> bool" where
  "nonneg_stocks ss \<longleftrightarrow> (\<forall>s \<in> set ss. 0 \<le> st_stockQuantity s)"

lemma stock_after_keys:
  "list_all2 (stock_after ev m rs) ss ts \<Longrightarrow> map stock_key ts = map stock_key ss"
  by (induction rule: list_all2_induct) (auto simp: stock_after_def)

lemma stock_after_take:
  assumes "list_all2 (stock_after ev m rs) ss ts" and "rs_productId r = p" and "rs_quantity r = q"
  shows "list_all2 (stock_after ev m (rs @ [r])) ss
           (update_where (\<lambda>s. stock_key s = (p, ev, m)) (take_stock q) ts)"
  using assms
  by (induction rule: list_all2_induct)
     (auto simp: stock_after_def update_where_def taken_def stock_key_def take_stock_def)

definition booked :: "db \<Rightarrow> id \<Rightarrow> data_mode \<Rightarrow> (id \<times> sale_line) list \<Rightarrow> reservation \<Rightarrow> bool" where
  "booked snap ev m q r \<longleftrightarrow> (\<exists>line s. js_get q (rs_productId r) = Some line \<and>
     rs_quantity r = sl_quantity line \<and> find_stock snap (rs_productId r, ev, m) = Some s \<and>
     rs_quantityBefore r = st_stockQuantity s)"

text \<open>
  The invariant of the loop. Each tracked product of the list adds one reservation; the rows change
  by exactly what is reserved; nothing but the stock table changes.
\<close>

lemma reserve_loop:
  assumes "fold_res (reserve_product snap ev m q) (d, ch) ps = Inr (d', ch')"
    and "list_all2 (stock_after ev m ch) ss (t_stocks d)" and "distinct (map stock_key ss)"
    and "nonneg_stocks (t_stocks d)"
  shows "beside_ledger d' = beside_ledger d \<and> t_movements d' = t_movements d \<and> serial d' = serial d \<and> list_all2 (stock_after ev m ch') ss (t_stocks d') \<and>
    nonneg_stocks (t_stocks d') \<and>
    (\<exists>new. ch' = ch @ new \<and>
       map rs_productId new = filter (\<lambda>p. tracked_quantity (find_stock snap (p, ev, m)) \<noteq> None) ps \<and>
       (\<forall>r \<in> set new. booked snap ev m q r))"
  using assms
proof (induction ps arbitrary: d ch)
  case Nil
  then show ?case by auto
next
  case (Cons p ps)
  from Cons.prems(1) obtain d1 ch1
    where step: "reserve_product snap ev m q (d, ch) p = Inr (d1, ch1)"
      and rest: "fold_res (reserve_product snap ev m q) (d1, ch1) ps = Inr (d', ch')"
    by (auto simp: res_simps)
  have dist: "distinct (map stock_key (t_stocks d))"
    using Cons.prems(2,3) by (simp add: stock_after_keys)
  show ?case
  proof (cases rule: reserve_product_cases [OF step dist])
    case (1 line)
    with Cons.IH [of d ch] rest Cons.prems show ?thesis by auto
  next
    case (2 line r0 u r)
    have after1: "list_all2 (stock_after ev m ch1) ss (t_stocks d1)"
      using stock_after_take [OF Cons.prems(2), of r p "sl_quantity line"] 2 by simp
    have key: "s = u" if "s \<in> set (t_stocks d)" "stock_key s = (p, ev, m)" for s
      using unique_key_row [OF dist that(1) 2(6)] that(2) 2(7) by simp
    have "t_stocks d1 = update_where (\<lambda>s. stock_key s = (p, ev, m)) (take_stock (sl_quantity line)) (t_stocks d)"
      by (simp add: 2(9))
    with Cons.prems(4) key 2(8) have nn1: "nonneg_stocks (t_stocks d1)"
      by (auto simp: nonneg_stocks_def set_update_where)
    from Cons.IH [OF rest after1 Cons.prems(3) nn1] obtain new
      where IH: "beside_ledger d' = beside_ledger d1 \<and> t_movements d' = t_movements d1 \<and> serial d' = serial d1" "list_all2 (stock_after ev m ch') ss (t_stocks d')"
        "nonneg_stocks (t_stocks d')" "ch' = ch1 @ new"
        "map rs_productId new = filter (\<lambda>p. tracked_quantity (find_stock snap (p, ev, m)) \<noteq> None) ps"
        "\<forall>r \<in> set new. booked snap ev m q r"
      by blast
    have t: "tracked_quantity (find_stock snap (p, ev, m)) \<noteq> None"
      using 2 by (simp add: tracked_quantity_def)
    have "beside_ledger d' = beside_ledger d \<and> t_movements d' = t_movements d \<and> serial d' = serial d"
      using IH(1) 2(9) by simp
    moreover have "ch' = ch @ (r # new)" using IH(4) 2 by simp
    moreover have "map rs_productId (r # new) =
        filter (\<lambda>p. tracked_quantity (find_stock snap (p, ev, m)) \<noteq> None) (p # ps)"
      using IH(5) t 2(11) by simp
    moreover have "booked snap ev m q r"
      using 2(1,3,11,12,13) unfolding booked_def by blast
    ultimately show ?thesis using IH(2,3,6) by (intro conjI exI [of _ "r # new"]) simp_all
  qed
qed

definition requested :: "sale_line list \<Rightarrow> id \<Rightarrow> int" where
  "requested lines p = sum_list (map sl_quantity (filter (\<lambda>l. sl_productId l = p) lines))"

lemma collect_lines_snoc:
  "collect_lines (lines @ [l]) = js_set (sl_productId l)
     (l\<lparr>sl_quantity := (case js_get (collect_lines lines) (sl_productId l) of None \<Rightarrow> 0 | Some c \<Rightarrow> sl_quantity c)
        + sl_quantity l\<rparr>) (collect_lines lines)"
  by (simp add: collect_lines_def)

lemma collect_lines_get:
  "js_get (collect_lines lines) p =
     (let own = filter (\<lambda>l. sl_productId l = p) lines in
      if own = [] then None else Some ((last own)\<lparr>sl_quantity := requested lines p\<rparr>))"
proof (induction lines rule: rev_induct)
  case Nil
  then show ?case by (simp add: collect_lines_def)
next
  case (snoc l lines)
  then show ?case by (auto simp: collect_lines_snoc Let_def requested_def filter_empty_conv)
qed

lemma collect_lines_keys: "fst ` set (collect_lines lines) = sl_productId ` set lines"
  by (induction lines rule: rev_induct) (auto simp: collect_lines_snoc, simp add: collect_lines_def)

lemma collect_lines_distinct: "distinct (js_keys (collect_lines lines))"
  by (induction lines rule: rev_induct)
     (simp add: collect_lines_def, simp add: collect_lines_snoc js_keys_distinct)

lemma collect_lines_quantity:
  "js_get (collect_lines lines) p = Some l \<Longrightarrow> sl_quantity l = requested lines p"
  by (auto simp: collect_lines_get Let_def split: if_splits)

lemma requested_none: "p \<notin> sl_productId ` set lines \<Longrightarrow> requested lines p = 0"
  unfolding requested_def by (subst filter_False) auto

lemma reserved_distinct:
  "distinct (map rs_productId rs) \<Longrightarrow> r \<in> set rs \<Longrightarrow> reserved rs (rs_productId r) = rs_quantity r"
proof (induction rs)
  case Nil
  then show ?case by simp
next
  case (Cons a rs)
  have none: "filter (\<lambda>x. rs_productId x = rs_productId a) rs = []"
    using Cons.prems(1) by (auto simp: filter_empty_conv image_iff)
  from Cons show ?case by (auto simp: reserved_def none)
qed

lemma reserved_none: "p \<notin> rs_productId ` set rs \<Longrightarrow> reserved rs p = 0"
  unfolding reserved_def by (subst filter_False) auto

text \<open>A successful reservation, in terms of the request.\<close>

lemma reserveSale_effect:
  assumes "reserveSale d ev m lines = Inr (d', rs)"
    and "distinct (map stock_key (t_stocks d))" and "nonneg_stocks (t_stocks d)"
  shows "beside_ledger d' = beside_ledger d \<and> t_movements d' = t_movements d \<and> serial d' = serial d"
    and "list_all2 (stock_after ev m rs) (t_stocks d) (t_stocks d')"
    and "nonneg_stocks (t_stocks d')"
    and "distinct (map rs_productId rs)"
    and "rs_productId ` set rs =
           {p \<in> sl_productId ` set lines. tracked_quantity (find_stock d (p, ev, m)) \<noteq> None}"
    and "\<And>r. r \<in> set rs \<Longrightarrow> rs_quantity r = requested lines (rs_productId r)"
    and "\<And>r. r \<in> set rs \<Longrightarrow> \<exists>s. find_stock d (rs_productId r, ev, m) = Some s \<and> rs_quantityBefore r = st_stockQuantity s"
proof -
  let ?q = "collect_lines lines" and ?ps = "sort (js_keys (collect_lines lines))"
  have loop: "fold_res (reserve_product d ev m ?q) (d, []) ?ps = Inr (d', rs)"
    using assms(1) by (auto simp: reserveSale_def Let_def split: if_splits)
  have refl: "list_all2 (stock_after ev m []) (t_stocks d) (t_stocks d)"
    by (rule list_all2_refl) (simp add: stock_after_def taken_def)
  from reserve_loop [OF loop refl assms(2,3)] obtain new
    where L: "beside_ledger d' = beside_ledger d \<and> t_movements d' = t_movements d \<and> serial d' = serial d" "list_all2 (stock_after ev m rs) (t_stocks d) (t_stocks d')"
      "nonneg_stocks (t_stocks d')" "rs = [] @ new"
      "map rs_productId new = filter (\<lambda>p. tracked_quantity (find_stock d (p, ev, m)) \<noteq> None) ?ps"
      "\<forall>r \<in> set new. booked d ev m ?q r"
    by blast
  from L show "beside_ledger d' = beside_ledger d \<and> t_movements d' = t_movements d \<and> serial d' = serial d"
    "list_all2 (stock_after ev m rs) (t_stocks d) (t_stocks d')" "nonneg_stocks (t_stocks d')" by auto
  show "distinct (map rs_productId rs)" using L(4,5) collect_lines_distinct by simp
  have "rs_productId ` set rs = set (map rs_productId new)" using L(4) by simp
  moreover have "set (js_keys ?q) = sl_productId ` set lines" by (simp add: collect_lines_keys)
  ultimately show "rs_productId ` set rs =
      {p \<in> sl_productId ` set lines. tracked_quantity (find_stock d (p, ev, m)) \<noteq> None}"
    by (auto simp: L(5) simp del: set_map)
  fix r assume "r \<in> set rs"
  with L(4,6) show "rs_quantity r = requested lines (rs_productId r)"
    "\<exists>s. find_stock d (rs_productId r, ev, m) = Some s \<and> rs_quantityBefore r = st_stockQuantity s"
    using collect_lines_quantity by (auto simp: booked_def)
qed

lemma reserved_is_requested:
  assumes "reserveSale d ev m lines = Inr (d', rs)"
    and "distinct (map stock_key (t_stocks d))" and "nonneg_stocks (t_stocks d)"
  shows "reserved rs p = (if tracked_quantity (find_stock d (p, ev, m)) \<noteq> None then requested lines p else 0)"
proof (cases "p \<in> rs_productId ` set rs")
  case True
  then obtain r where "r \<in> set rs" "p = rs_productId r" by auto
  with reserveSale_effect [OF assms] reserved_distinct True show ?thesis by auto
next
  case False
  with reserveSale_effect(5) [OF assms] reserved_none requested_none show ?thesis by auto
qed

lemma find_stock_tracked:
  assumes "distinct (map stock_key (t_stocks d))" and "s \<in> set (t_stocks d)"
  shows "tracked_quantity (find_stock d (stock_key s)) =
     (if st_trackingEnabled s then Some (st_stockQuantity s) else None)"
  using find_stock_row [OF assms] by (simp add: tracked_quantity_def)

lemma taken_is_requested:
  assumes "reserveSale d ev m lines = Inr (d', rs)"
    and "distinct (map stock_key (t_stocks d))" and "nonneg_stocks (t_stocks d)"
    and "s \<in> set (t_stocks d)"
  shows "taken ev m rs s = (if st_eventId s = ev \<and> st_dataMode s = m \<and> st_trackingEnabled s
           then requested lines (st_productId s) else 0)"
  using reserved_is_requested [OF assms(1,2,3)] find_stock_tracked [OF assms(2,4)]
  by (auto simp: taken_def stock_key_def)

section \<open>The SALE rows\<close>

definition items_sum :: "id \<Rightarrow> data_mode \<Rightarrow> reservation list \<Rightarrow> order_item list \<Rightarrow> stock_key \<Rightarrow> int" where
  "items_sum ev m rs items k = sum_list (map oi_quantity
     (filter (\<lambda>i. (oi_productId i, ev, m) = k \<and> oi_productId i \<in> rs_productId ` set rs) items))"

lemma items_sum_Cons:
  "items_sum ev m rs (i # items) k = items_sum ev m rs [i] k + items_sum ev m rs items k"
  by (simp add: items_sum_def)

lemma record_item_Inr:
  assumes "record_item e ev m oid actor rs (d, next) i = Inr (d', next')"
  shows "beside_ledger d' = beside_ledger d \<and> t_stocks d' = t_stocks d \<and>
    ledger_sum (t_movements d') k = ledger_sum (t_movements d) k - items_sum ev m rs [i] k \<and>
    (\<forall>x \<in> set (t_movements d') - set (t_movements d).
       (\<exists>p \<in> rs_productId ` set rs. mv_key x = (p, ev, m)) \<and> mv_quantityDelta x = - oi_quantity i)"
proof (cases "find (\<lambda>r. rs_productId r = oi_productId i) rs")
  case None
  then have "oi_productId i \<notin> rs_productId ` set rs" by (auto simp: find_None_iff_all)
  then have "items_sum ev m rs [i] k = 0" by (simp add: items_sum_def)
  moreover have "d' = d" using assms None by (simp add: record_item_def)
  ultimately show ?thesis by simp
next
  case (Some r)
  from find_Some_mem [OF Some] have r: "oi_productId i \<in> rs_productId ` set rs"
    by (intro image_eqI [of _ _ r]) simp_all
  from assms Some obtain prior where
    "create_movement e (sale_movement e ev m oid actor i prior) d = Inr d'"
    by (auto simp: record_item_def res_simps split: option.splits)
  from create_movement_Inr [OF this] r show ?thesis
    by (auto simp: items_sum_def sale_movement_def mv_key_def)
qed

lemma record_loop:
  "fold_res (record_item e ev m oid actor rs) (d, next) items = Inr (d', next') \<Longrightarrow>
   beside_ledger d' = beside_ledger d \<and> t_stocks d' = t_stocks d \<and>
   ledger_sum (t_movements d') k = ledger_sum (t_movements d) k - items_sum ev m rs items k \<and>
   (\<forall>x \<in> set (t_movements d') - set (t_movements d).
      (\<exists>p \<in> rs_productId ` set rs. mv_key x = (p, ev, m)) \<and>
      (\<exists>i \<in> set items. mv_quantityDelta x = - oi_quantity i))"
proof (induction items arbitrary: d "next")
  case Nil
  then show ?case by (simp add: items_sum_def)
next
  case (Cons i items)
  from Cons.prems obtain d1 n1 where s: "record_item e ev m oid actor rs (d, next) i = Inr (d1, n1)"
    and r: "fold_res (record_item e ev m oid actor rs) (d1, n1) items = Inr (d', next')"
    by (auto simp: res_simps)
  from record_item_Inr [OF s, of k] Cons.IH [OF r] items_sum_Cons [of ev m rs i items k]
  show ?case by (auto simp only: Diff_iff list.set insert_iff)
qed

lemma recordSales_effect:
  assumes "recordSales e d ev m oid actor rs items = Inr (d', ch)"
  shows "beside_ledger d' = beside_ledger d \<and> t_stocks d' = t_stocks d"
    and "ledger_sum (t_movements d') k = ledger_sum (t_movements d) k - items_sum ev m rs items k"
    and "ch = map change_of_reservation rs"
    and "\<forall>x \<in> set (t_movements d') - set (t_movements d).
      (\<exists>p \<in> rs_productId ` set rs. mv_key x = (p, ev, m)) \<and>
      (\<exists>i \<in> set items. mv_quantityDelta x = - oi_quantity i)"
proof -
  from assms obtain next' where
    "fold_res (record_item e ev m oid actor rs) (d, map (\<lambda>r. (rs_productId r, rs_quantityBefore r)) rs)
       (sort_key (\<lambda>i. env_collate e (oi_id i)) items) = Inr (d', next')"
    by (auto simp: recordSales_def res_simps)
  from record_loop [OF this, of k]
  show "beside_ledger d' = beside_ledger d \<and> t_stocks d' = t_stocks d"
    and "ledger_sum (t_movements d') k = ledger_sum (t_movements d) k - items_sum ev m rs items k"
    and "\<forall>x \<in> set (t_movements d') - set (t_movements d).
      (\<exists>p \<in> rs_productId ` set rs. mv_key x = (p, ev, m)) \<and>
      (\<exists>i \<in> set items. mv_quantityDelta x = - oi_quantity i)"
    using sum_list_filter_mset [of "sort_key (\<lambda>i. env_collate e (oi_id i)) items" items]
    by (simp_all add: items_sum_def)
  from assms show "ch = map change_of_reservation rs" by (auto simp: recordSales_def res_simps)
qed

section \<open>A sale keeps the ledger\<close>

definition item_total :: "order_item list \<Rightarrow> id \<Rightarrow> int" where
  "item_total items p = sum_list (map oi_quantity (filter (\<lambda>i. oi_productId i = p) items))"

lemma items_sum_taken:
  assumes "distinct (map rs_productId rs)"
    and "\<And>r. r \<in> set rs \<Longrightarrow> rs_quantity r = item_total items (rs_productId r)"
  shows "items_sum ev m rs items (stock_key s) = taken ev m rs s"
proof (cases "st_eventId s = ev \<and> st_dataMode s = m \<and> st_productId s \<in> rs_productId ` set rs")
  case True
  then obtain r where r: "r \<in> set rs" "rs_productId r = st_productId s" by auto
  have "filter (\<lambda>i. (oi_productId i, ev, m) = stock_key s \<and> oi_productId i \<in> rs_productId ` set rs) items
      = filter (\<lambda>i. oi_productId i = st_productId s) items"
    using True by (intro filter_cong) (auto simp: stock_key_def)
  with True assms(2) [OF r(1)] r(2) reserved_distinct [OF assms(1) r(1)] show ?thesis
    by (simp add: items_sum_def taken_def item_total_def)
next
  case False
  then have "filter (\<lambda>i. (oi_productId i, ev, m) = stock_key s \<and> oi_productId i \<in> rs_productId ` set rs) items = []"
    by (intro filter_False) (auto simp: stock_key_def)
  with False reserved_none show ?thesis by (auto simp: items_sum_def taken_def)
qed

lemma sale_keeps_ledger:
  assumes ok: "ledger_ok (t_stocks d) (t_movements d)"
    and res: "reserveSale d ev m lines = Inr (d1, rs)"
    and mid: "t_stocks d2 = t_stocks d1" "t_movements d2 = t_movements d"
    and rec: "recordSales e d2 ev m oid actor rs items = Inr (d3, ch)"
    and same: "\<And>p. item_total items p = requested lines p"
    and pos: "\<And>i. i \<in> set items \<Longrightarrow> 0 \<le> oi_quantity i"
  shows "ledger_ok (t_stocks d3) (t_movements d3)"
proof -
  have nn: "nonneg_stocks (t_stocks d)" using ok by (auto simp: ledger_ok_def nonneg_stocks_def)
  note R = reserveSale_effect [OF res ledger_okD(1) [OF ok] nn]
  note M = recordSales_effect [OF rec]
  have stocks: "t_stocks d3 = t_stocks d1" using M(1) mid by simp
  have keys: "map stock_key (t_stocks d1) = map stock_key (t_stocks d)" by (rule stock_after_keys [OF R(2)])
  have kset: "stock_key ` set (t_stocks d1) = stock_key ` set (t_stocks d)"
    using arg_cong [OF keys, of set] by simp
  have sums: "st_stockQuantity t = ledger_sum (t_movements d3) (stock_key t)" if t: "t \<in> set (t_stocks d3)" for t
  proof -
    from list_all2_right [OF R(2)] t stocks obtain s where s: "s \<in> set (t_stocks d)" "stock_after ev m rs s t"
      by auto
    have "items_sum ev m rs items (stock_key s) = taken ev m rs s"
      by (rule items_sum_taken [OF R(4)]) (simp add: R(6) same)
    with s M(2) [of "stock_key t"] ledger_okD(3) [OF ok s(1)] mid show ?thesis
      by (simp add: stock_after_def)
  qed
  have rows: "mv_key x \<in> stock_key ` set (t_stocks d3) \<and> (mv_type x = SALE \<longrightarrow> mv_quantityDelta x \<le> 0)"
    if x: "x \<in> set (t_movements d3)" for x
  proof (cases "x \<in> set (t_movements d)")
    case True
    with ok kset stocks show ?thesis by (auto simp: ledger_ok_def)
  next
    case False
    with x mid have "x \<in> set (t_movements d3) - set (t_movements d2)" by simp
    with M(4) obtain p i where "p \<in> rs_productId ` set rs" "mv_key x = (p, ev, m)"
      "i \<in> set items" "mv_quantityDelta x = - oi_quantity i" by blast
    moreover from this(1) R(7) obtain s where "find_stock d (p, ev, m) = Some s" by auto
    ultimately show ?thesis using pos kset stocks find_stock_Some [of d "(p, ev, m)" s] by force
  qed
  from sums rows R(3) keys stocks ledger_okD(1) [OF ok] show ?thesis
    by (simp add: ledger_ok_def nonneg_stocks_def)
qed

section \<open>Initialisation, correction and settings keep the ledger\<close>

lemma ledger_ok_add_movement:
  assumes "ledger_ok ss ms" and "\<forall>s \<in> set ss. stock_key (f s) = stock_key s"
    and "\<forall>s \<in> set ss. stock_key s = mv_key m \<longrightarrow>
       st_stockQuantity (f s) = st_stockQuantity s + mv_quantityDelta m \<and> 0 \<le> st_stockQuantity (f s)"
    and "mv_key m \<in> stock_key ` set ss" and "mv_type m = SALE \<longrightarrow> mv_quantityDelta m \<le> 0"
  shows "ledger_ok (update_where (\<lambda>r. stock_key r = mv_key m) f ss) (ms @ [m])"
proof -
  let ?ss = "update_where (\<lambda>r. stock_key r = mv_key m) f ss"
  have keys: "map stock_key ?ss = map stock_key ss"
    using assms(2) by (auto simp: update_where_def)
  have kset: "stock_key ` set ?ss = stock_key ` set ss" using arg_cong [OF keys, of set] by simp
  have rows: "0 \<le> st_stockQuantity s \<and> st_stockQuantity s = ledger_sum (ms @ [m]) (stock_key s)"
    if s: "s \<in> set ?ss" for s
  proof -
    from s obtain t where t: "t \<in> set ss" "s = (if stock_key t = mv_key m then f t else t)"
      by (auto simp: set_update_where)
    with assms(2,3) ledger_okD(2,3) [OF assms(1) t(1)] show ?thesis
      by (cases "stock_key t = mv_key m") auto
  qed
  show ?thesis
  proof (rule ledger_okI)
    show "distinct (map stock_key ?ss)" by (simp add: keys ledger_okD(1) [OF assms(1)])
    show "0 \<le> st_stockQuantity s" if "s \<in> set ?ss" for s using rows [OF that] by blast
    show "st_stockQuantity s = ledger_sum (ms @ [m]) (stock_key s)" if "s \<in> set ?ss" for s
      using rows [OF that] by blast
    show "mv_key x \<in> stock_key ` set ?ss" if "x \<in> set (ms @ [m])" for x
      using that assms(4) ledger_okD(4) [OF assms(1), of x] by (auto simp: kset)
    show "mv_quantityDelta x \<le> 0" if "x \<in> set (ms @ [m])" "mv_type x = SALE" for x
      using that assms(5) ledger_okD(5) [OF assms(1), of x] by auto
  qed
qed

lemma ledger_ok_new_stock:
  assumes "ledger_ok ss ms" and "stock_key s \<notin> stock_key ` set ss"
    and "mv_key m = stock_key s" and "mv_quantityDelta m = st_stockQuantity s"
    and "0 \<le> st_stockQuantity s" and "mv_type m \<noteq> SALE"
  shows "ledger_ok (ss @ [s]) (ms @ [m])"
proof -
  have none: "ledger_sum ms (stock_key s) = 0"
    using assms(2) ledger_okD(4) [OF assms(1)] by (intro ledger_sum_no_row) metis
  have "ledger_sum (ms @ [m]) (stock_key t) = ledger_sum ms (stock_key t)" if "t \<in> set ss" for t
    using that assms(2,3) by (auto simp: image_iff)
  note old = this
  show ?thesis
  proof (rule ledger_okI)
    show "distinct (map stock_key (ss @ [s]))" using assms(2) ledger_okD(1) [OF assms(1)] by simp
    show "0 \<le> st_stockQuantity t" if "t \<in> set (ss @ [s])" for t
      using that assms(5) ledger_okD(2) [OF assms(1), of t] by auto
    show "st_stockQuantity t = ledger_sum (ms @ [m]) (stock_key t)" if "t \<in> set (ss @ [s])" for t
      using that old [of t] none assms(3,4) ledger_okD(3) [OF assms(1), of t] by auto
    show "mv_key x \<in> stock_key ` set (ss @ [s])" if "x \<in> set (ms @ [m])" for x
      using that assms(3) ledger_okD(4) [OF assms(1), of x] by auto
    show "mv_quantityDelta x \<le> 0" if "x \<in> set (ms @ [m])" "mv_type x = SALE" for x
      using that assms(6) ledger_okD(5) [OF assms(1), of x] by auto
  qed
qed

lemma ledger_ok_same_quantity:
  assumes "ledger_ok ss ms"
    and "\<forall>s \<in> set ss. stock_key (f s) = stock_key s \<and> st_stockQuantity (f s) = st_stockQuantity s"
  shows "ledger_ok (update_where c f ss) ms"
proof -
  have keys: "map stock_key (update_where c f ss) = map stock_key ss"
    using assms(2) by (auto simp: update_where_def)
  have kset: "stock_key ` set (update_where c f ss) = stock_key ` set ss"
    using arg_cong [OF keys, of set] by simp
  have old: "\<exists>t \<in> set ss. stock_key s = stock_key t \<and> st_stockQuantity s = st_stockQuantity t"
    if "s \<in> set (update_where c f ss)" for s
    using that assms(2) by (auto simp: set_update_where)
  show ?thesis
  proof (rule ledger_okI)
    show "distinct (map stock_key (update_where c f ss))" by (simp add: keys ledger_okD(1) [OF assms(1)])
    show "0 \<le> st_stockQuantity s" if "s \<in> set (update_where c f ss)" for s
      using old [OF that] ledger_okD(2) [OF assms(1)] by auto
    show "st_stockQuantity s = ledger_sum ms (stock_key s)" if "s \<in> set (update_where c f ss)" for s
      using old [OF that] ledger_okD(3) [OF assms(1)] by fastforce
    show "mv_key x \<in> stock_key ` set (update_where c f ss)" if "x \<in> set ms" for x
      using ledger_okD(4) [OF assms(1) that] by (simp add: kset)
    show "mv_quantityDelta x \<le> 0" if "x \<in> set ms" "mv_type x = SALE" for x
      using that ledger_okD(5) [OF assms(1)] by blast
  qed
qed

lemma mutate_tx_keeps_ledger:
  assumes ok: "ledger_ok (t_stocks d) (t_movements d)" and q: "0 \<le> mi_quantity i"
    and tx: "mutate_tx e d p i u ty = Inr (d', pr, s, replay)"
  shows "ledger_ok (t_stocks d') (t_movements d')"
proof -
  let ?k = "(p, mi_eventId i, mi_dataMode i)"
  let ?m = "\<lambda>b. (mutate_movement e p i u ty b)\<lparr>mv_id := fresh_id e d, mv_createdAt := env_now e\<rparr>"
  have m: "mv_key (?m b) = ?k" "mv_quantityDelta (?m b) = mi_quantity i - b" "mv_type (?m b) \<noteq> SALE" for b
    by (simp_all add: mutate_movement_def mv_key_def split: mutate_type.split)
  show ?thesis
  proof (cases replay)
    case True
    then have "d' = d" using tx
      by (auto simp: mutate_tx_def Let_def res_simps split: if_splits mutate_type.splits)
    with ok show ?thesis by simp
  next
    case fresh: False
    show ?thesis
    proof (cases ty)
      case MT_INITIALIZATION
      with tx fresh obtain d2 where n: "find_stock d ?k = None"
        and c: "create_movement e (mutate_movement e p i u ty 0) (d\<lparr>t_stocks := t_stocks d @ [new_stock p i]\<rparr>) = Inr d2"
        and d': "d' = add_audit (mutate_audit p i u ty) d2"
        by (auto simp: mutate_tx_def Let_def res_simps split: if_splits)
      from n have new: "stock_key (new_stock p i) \<notin> stock_key ` set (t_stocks d)"
        by (auto simp: find_stock_def find_None_iff_all new_stock_def stock_key_def)
      from ledger_ok_new_stock [OF ok new, of "?m 0"] create_movement_Inr [OF c] q m show ?thesis
        by (simp add: d' frame_simps new_stock_def stock_key_def fresh_id_def)
    next
      case MT_CORRECTION
      let ?f = "\<lambda>r. r\<lparr>st_stockQuantity := mi_quantity i, st_version := st_version r + 1\<rparr>"
      from MT_CORRECTION tx fresh obtain s0 d2 where n: "find_stock d ?k = Some s0"
        and c: "create_movement e (mutate_movement e p i u ty (st_stockQuantity s0))
                  (d\<lparr>t_stocks := update_where (\<lambda>r. stock_key r = ?k) ?f (t_stocks d)\<rparr>) = Inr d2"
        and d': "d' = add_audit (mutate_audit p i u ty) d2"
        by (auto simp: mutate_tx_def Let_def res_simps split: if_splits)
      from find_stock_Some [OF n] have s0: "s0 \<in> set (t_stocks d)" "stock_key s0 = ?k" by auto
      have uniq: "\<forall>s \<in> set (t_stocks d). stock_key s = ?k \<longrightarrow> s = s0"
        using unique_key_row [OF ledger_okD(1) [OF ok]] s0 by auto
      have "ledger_ok (update_where (\<lambda>r. stock_key r = mv_key (?m (st_stockQuantity s0))) ?f (t_stocks d))
              (t_movements d @ [?m (st_stockQuantity s0)])"
      proof (rule ledger_ok_add_movement [OF ok])
        show "\<forall>s \<in> set (t_stocks d). stock_key (?f s) = stock_key s" by (simp add: stock_key_def)
        show "\<forall>s \<in> set (t_stocks d). stock_key s = mv_key (?m (st_stockQuantity s0)) \<longrightarrow>
            st_stockQuantity (?f s) = st_stockQuantity s + mv_quantityDelta (?m (st_stockQuantity s0)) \<and>
            0 \<le> st_stockQuantity (?f s)"
        proof (intro ballI impI)
          fix s assume s: "s \<in> set (t_stocks d)" "stock_key s = mv_key (?m (st_stockQuantity s0))"
          from s(2) have "stock_key s = ?k" by (simp only: m(1))
          with s(1) uniq have "s = s0" by blast
          then show "st_stockQuantity (?f s) = st_stockQuantity s + mv_quantityDelta (?m (st_stockQuantity s0)) \<and>
            0 \<le> st_stockQuantity (?f s)" using q m(2) by simp
        qed
        show "mv_key (?m (st_stockQuantity s0)) \<in> stock_key ` set (t_stocks d)"
          unfolding m(1) using s0 by (intro image_eqI [of _ _ s0]) simp_all
        show "mv_type (?m (st_stockQuantity s0)) = SALE \<longrightarrow> mv_quantityDelta (?m (st_stockQuantity s0)) \<le> 0"
          using m(3) by blast
      qed
      with create_movement_Inr [OF c] m show ?thesis
        by (simp add: d' frame_simps fresh_id_def)
    qed
  qed
qed

lemma settings_tx_keeps_ledger:
  assumes "ledger_ok (t_stocks d) (t_movements d)" and "settings_tx d p i u = Inr (d', pr, s, changed)"
  shows "ledger_ok (t_stocks d') (t_movements d')"
  using assms
  by (auto simp: settings_tx_def Let_def res_simps frame_simps stock_key_def
      intro!: ledger_ok_same_quantity split: if_splits)

section \<open>Reversing\<close>

lemma find_stock_update:
  "(\<And>r. stock_key (f r) = stock_key r) \<Longrightarrow>
   find_stock (d\<lparr>t_stocks := update_where (\<lambda>r. stock_key r = k) f (t_stocks d)\<rparr>) k' =
   map_option (\<lambda>r. if k' = k then f r else r) (find_stock d k')"
proof -
  assume key: "\<And>r. stock_key (f r) = stock_key r"
  have "find (\<lambda>s. stock_key s = k') (update_where (\<lambda>r. stock_key r = k) f (t_stocks d))
      = map_option (\<lambda>r. if stock_key r = k then f r else r) (find (\<lambda>s. stock_key s = k') (t_stocks d))"
    by (rule find_update_where) (simp add: key)
  then show ?thesis
    by (auto simp: find_stock_def dest: find_Some_mem split: option.splits intro!: option.map_cong0)
qed

text \<open>The bookkeeping map of the loop mirrors the table: \<open>mirrors\<close> for the products of the sales.\<close>

definition mirrors :: "id \<Rightarrow> data_mode \<Rightarrow> id set \<Rightarrow> (id \<times> stock) list \<Rightarrow> db \<Rightarrow> bool" where
  "mirrors ev m P stocks d \<longleftrightarrow> (\<forall>p \<in> P. js_get stocks p = find_stock d (p, ev, m))"

lemma mirrors_init: "mirrors ev m (set ps) (stocks_by_product d ev m ps) d"
proof -
  have "map_of (map (\<lambda>s. (st_productId s, s))
      (filter (\<lambda>s. st_eventId s = ev \<and> st_dataMode s = m \<and> st_productId s \<in> set ps) ss)) p
    = find (\<lambda>s. stock_key s = (p, ev, m)) ss" if "p \<in> set ps" for p ss
    using that by (induction ss) (auto simp: stock_key_def)
  then show ?thesis by (simp add: mirrors_def stocks_by_product_def find_stock_def)
qed

lemma reverse_one_cases:
  assumes "reverse_one e ev m oid actor reason (d, stocks, ch) sale = Inr (d', stocks', ch')"
  obtains (skip) "case js_get stocks (mv_productId sale) of None \<Rightarrow> True | Some s \<Rightarrow> \<not> st_trackingEnabled s"
      "d' = d" "stocks' = stocks" "ch' = ch"
  | (book) s row c where "js_get stocks (mv_productId sale) = Some s" "st_trackingEnabled s"
      "find_stock (d\<lparr>t_stocks := update_where (\<lambda>r. stock_key r = (mv_productId sale, ev, m))
          (give_back (- mv_quantityDelta sale)) (t_stocks d)\<rparr>) (mv_productId sale, ev, m) = Some row"
      "mv_key c = (mv_productId sale, ev, m)" "mv_quantityDelta c = - mv_quantityDelta sale"
      "mv_type c = CANCELLATION" "mv_reversesMovementId c = Some (mv_id sale)"
      "d' = d\<lparr>t_stocks := update_where (\<lambda>r. stock_key r = (mv_productId sale, ev, m))
          (give_back (- mv_quantityDelta sale)) (t_stocks d),
        t_movements := t_movements d @ [c], serial := Suc (serial d)\<rparr>"
      "stocks' = js_set (mv_productId sale) row stocks"
proof (cases "case js_get stocks (mv_productId sale) of None \<Rightarrow> True | Some s \<Rightarrow> \<not> st_trackingEnabled s")
  case True
  with assms have "d' = d \<and> stocks' = stocks \<and> ch' = ch"
    by (auto simp: reverse_one_def split: option.splits)
  with True skip show thesis by blast
next
  case False
  then obtain s where s: "js_get stocks (mv_productId sale) = Some s" "st_trackingEnabled s"
    by (auto split: option.splits)
  let ?d1 = "d\<lparr>t_stocks := update_where (\<lambda>r. stock_key r = (mv_productId sale, ev, m))
          (give_back (- mv_quantityDelta sale)) (t_stocks d)\<rparr>"
  from assms s obtain row d2 where row: "find_stock ?d1 (mv_productId sale, ev, m) = Some row"
    and c: "create_movement e (cancellation_movement e ev m oid actor reason sale s) ?d1 = Inr d2"
    and d': "d' = d2" "stocks' = js_set (mv_productId sale) row stocks"
    by (auto simp: reverse_one_def Let_def res_simps)
  show thesis
    by (rule book [OF s row, of "(cancellation_movement e ev m oid actor reason sale s)
          \<lparr>mv_id := fresh_id e ?d1, mv_createdAt := env_now e\<rparr>"])
       (use create_movement_Inr [OF c] d' in \<open>simp_all add: cancellation_movement_def mv_key_def\<close>)
qed

lemma reverse_one_keeps:
  assumes "reverse_one e ev m oid actor reason (d, stocks, ch) sale = Inr (d', stocks', ch')"
    and "mv_quantityDelta sale \<le> 0" and "ledger_ok (t_stocks d) (t_movements d)"
  shows "ledger_ok (t_stocks d') (t_movements d') \<and> beside_ledger d' = beside_ledger d"
proof (cases rule: reverse_one_cases [OF assms(1)])
  case 1
  with assms(3) show ?thesis by simp
next
  case (2 s row c)
  have "find_stock d (mv_productId sale, ev, m) \<noteq> None"
    using 2(3) by (auto simp: find_stock_update)
  then obtain r where r: "r \<in> set (t_stocks d)" "stock_key r = mv_key c"
    using 2(4) find_stock_Some by fastforce
  have "ledger_ok (update_where (\<lambda>r. stock_key r = mv_key c) (give_back (- mv_quantityDelta sale)) (t_stocks d))
          (t_movements d @ [c])"
  proof (rule ledger_ok_add_movement [OF assms(3)])
    show "mv_key c \<in> stock_key ` set (t_stocks d)" using r by (intro image_eqI [of _ _ r]) simp_all
    show "\<forall>s \<in> set (t_stocks d). stock_key s = mv_key c \<longrightarrow>
        st_stockQuantity (give_back (- mv_quantityDelta sale) s) = st_stockQuantity s + mv_quantityDelta c \<and>
        0 \<le> st_stockQuantity (give_back (- mv_quantityDelta sale) s)"
    proof (intro ballI impI)
      fix s assume "s \<in> set (t_stocks d)"
      from ledger_okD(2) [OF assms(3) this] assms(2) 2(5)
      show "st_stockQuantity (give_back (- mv_quantityDelta sale) s) = st_stockQuantity s + mv_quantityDelta c \<and>
        0 \<le> st_stockQuantity (give_back (- mv_quantityDelta sale) s)" by simp
    qed
  qed (simp_all add: 2(6))
  with 2(4,8) show ?thesis by (simp add: beside_ledger_def)
qed

lemma reverse_loop_keeps:
  assumes "fold_res (reverse_one e ev m oid actor reason) (d, stocks, ch) sales = Inr (d', stocks', ch')"
    and "\<And>s. s \<in> set sales \<Longrightarrow> mv_quantityDelta s \<le> 0" and "ledger_ok (t_stocks d) (t_movements d)"
  shows "ledger_ok (t_stocks d') (t_movements d') \<and> beside_ledger d' = beside_ledger d"
  using assms
proof (induction sales arbitrary: d stocks ch)
  case Nil
  then show ?case by simp
next
  case (Cons sale sales)
  from Cons.prems(1) obtain d1 s1 c1
    where step: "reverse_one e ev m oid actor reason (d, stocks, ch) sale = Inr (d1, s1, c1)"
      and rest: "fold_res (reverse_one e ev m oid actor reason) (d1, s1, c1) sales = Inr (d', stocks', ch')"
    by (auto simp: res_simps)
  have del: "mv_quantityDelta sale \<le> 0" using Cons.prems(2) by simp
  note k = reverse_one_keeps [OF step del Cons.prems(3)]
  have "ledger_ok (t_stocks d') (t_movements d') \<and> beside_ledger d' = beside_ledger d1"
    by (rule Cons.IH [OF rest]) (use Cons.prems(2) k in auto)
  with k show ?case by simp
qed

lemma open_sales_mem:
  "x \<in> set (open_sales d ev m ids) \<longleftrightarrow> x \<in> set (t_movements d) \<and> is_sale_of ev m ids x \<and> not_reversed d x"
  by (auto simp: open_sales_def)

lemma reverseSales_keeps_ledger:
  assumes "reverseSales e d ev m oid ids actor reason = Inr (d', ch)"
    and "ledger_ok (t_stocks d) (t_movements d)"
  shows "ledger_ok (t_stocks d') (t_movements d') \<and> beside_ledger d' = beside_ledger d"
proof (cases "d' = d")
  case True
  with assms(2) show ?thesis by simp
next
  case False
  with assms(1) obtain st' ch' where
    "fold_res (reverse_one e ev m oid actor reason)
       (d, stocks_by_product d ev m (map mv_productId (open_sales d ev m ids)), []) (open_sales d ev m ids)
     = Inr (d', st', ch')"
    by (auto simp: reverseSales_def Let_def res_simps split: if_splits)
  then show ?thesis
    by (rule reverse_loop_keeps)
       (use assms(2) ledger_okD(5) [OF assms(2)] in \<open>auto simp: open_sales_mem is_sale_of_def\<close>)
qed

section \<open>What a reversal does, and that it happens once\<close>

definition tracks :: "db \<Rightarrow> stock_key \<Rightarrow> bool" where
  "tracks d k = (case find_stock d k of None \<Rightarrow> False | Some s \<Rightarrow> st_trackingEnabled s)"

definition given_back :: "movement list \<Rightarrow> stock \<Rightarrow> stock \<Rightarrow> bool" where
  "given_back sales s t \<longleftrightarrow> stock_key t = stock_key s \<and> st_trackingEnabled t = st_trackingEnabled s \<and>
     st_stockQuantity t = st_stockQuantity s
       - (if st_trackingEnabled s then ledger_sum sales (stock_key s) else 0)"

lemma find_stock_movements [simp]:
  "find_stock (d\<lparr>t_stocks := a, t_movements := b, serial := c\<rparr>) k = find_stock (d\<lparr>t_stocks := a\<rparr>) k"
  by (simp add: find_stock_def)

lemma tracks_row:
  "distinct (map stock_key (t_stocks d)) \<Longrightarrow> s \<in> set (t_stocks d) \<Longrightarrow>
   tracks d (stock_key s) = st_trackingEnabled s"
  by (simp add: tracks_def find_stock_row)

lemma mirrorsD: "mirrors ev m P stocks d \<Longrightarrow> p \<in> P \<Longrightarrow> js_get stocks p = find_stock d (p, ev, m)"
  by (simp add: mirrors_def)

lemma reverse_one_effect:
  assumes "reverse_one e ev m oid actor reason (d, stocks, ch) sale = Inr (d', stocks', ch')"
    and "mirrors ev m P stocks d" and "mv_productId sale \<in> P" and "mv_key sale = (mv_productId sale, ev, m)"
    and "distinct (map stock_key (t_stocks d))"
  shows "list_all2 (given_back [sale]) (t_stocks d) (t_stocks d')"
    and "mirrors ev m P stocks' d'"
    and "tracks d' = tracks d"
    and "set (t_movements d) \<subseteq> set (t_movements d')"
    and "tracks d (mv_key sale) \<Longrightarrow> \<exists>c \<in> set (t_movements d'). mv_reversesMovementId c = Some (mv_id sale)"
    and "\<not> tracks d (mv_key sale) \<Longrightarrow> d' = d \<and> stocks' = stocks \<and> ch' = ch"
proof -
  let ?k = "(mv_productId sale, ev, m)"
  note mir = mirrorsD [OF assms(2,3)]
  have "list_all2 (given_back [sale]) (t_stocks d) (t_stocks d') \<and> mirrors ev m P stocks' d' \<and>
    tracks d' = tracks d \<and> set (t_movements d) \<subseteq> set (t_movements d') \<and>
    (tracks d (mv_key sale) \<longrightarrow> (\<exists>c \<in> set (t_movements d'). mv_reversesMovementId c = Some (mv_id sale))) \<and>
    (\<not> tracks d (mv_key sale) \<longrightarrow> d' = d \<and> stocks' = stocks \<and> ch' = ch)"
  proof (cases rule: reverse_one_cases [OF assms(1)])
    case 1
    then have nt: "\<not> tracks d ?k" using mir by (auto simp: tracks_def split: option.splits)
    have "given_back [sale] s s" if "s \<in> set (t_stocks d)" for s
      using nt tracks_row [OF assms(5) that] assms(4) by (auto simp: given_back_def)
    then have "list_all2 (given_back [sale]) (t_stocks d) (t_stocks d)" by (simp add: list_all2_same)
    with nt 1 assms(2,4) show ?thesis by simp
  next
    case (2 s row c)
    let ?g = "give_back (- mv_quantityDelta sale)"
    have t: "tracks d ?k" unfolding tracks_def mir [symmetric] 2(1) by (simp add: 2(2))
    have fs: "find_stock d' k = map_option (\<lambda>r. if k = ?k then ?g r else r) (find_stock d k)" for k
      using find_stock_update [of ?g ?k d k] by (simp add: 2(8))
    have tr: "tracks d' k = tracks d k" for k
      by (auto simp: tracks_def fs split: option.splits)
    have gb: "given_back [sale] s (if stock_key s = ?k then ?g s else s)" if "s \<in> set (t_stocks d)" for s
      using t tracks_row [OF assms(5) that] assms(4) by (auto simp: given_back_def)
    have all: "list_all2 (given_back [sale]) (t_stocks d) (t_stocks d')"
      using gb by (simp add: 2(8) update_where_def list_all2_map2 list_all2_same)
    have "js_get stocks' p = find_stock d' (p, ev, m)" if "p \<in> P" for p
    proof (cases "p = mv_productId sale")
      case True
      with 2(3,8,9) show ?thesis by simp
    next
      case False
      with 2(9) fs [of "(p, ev, m)"] mirrorsD [OF assms(2) that] show ?thesis
        by (cases "find_stock d (p, ev, m)") auto
    qed
    then have "mirrors ev m P stocks' d'" by (simp add: mirrors_def)
    with all tr t 2(7,8) assms(4) show ?thesis by auto
  qed
  then show "list_all2 (given_back [sale]) (t_stocks d) (t_stocks d')"
    "mirrors ev m P stocks' d'" "tracks d' = tracks d"
    "set (t_movements d) \<subseteq> set (t_movements d')"
    "tracks d (mv_key sale) \<Longrightarrow> \<exists>c \<in> set (t_movements d'). mv_reversesMovementId c = Some (mv_id sale)"
    "\<not> tracks d (mv_key sale) \<Longrightarrow> d' = d \<and> stocks' = stocks \<and> ch' = ch"
    by blast+
qed

lemma given_back_keys:
  "list_all2 (given_back sales) ss ts \<Longrightarrow> map stock_key ts = map stock_key ss"
  by (induction rule: list_all2_induct) (auto simp: given_back_def)

lemma given_back_trans: "given_back xs s t \<Longrightarrow> given_back ys t u \<Longrightarrow> given_back (xs @ ys) s u"
  by (auto simp: given_back_def)

lemma reverse_loop_effect:
  assumes "fold_res (reverse_one e ev m oid actor reason) (d, stocks, ch) sales = Inr (d', stocks', ch')"
    and "mirrors ev m P stocks d" and "distinct (map stock_key (t_stocks d))"
    and "\<And>s. s \<in> set sales \<Longrightarrow> mv_productId s \<in> P \<and> mv_key s = (mv_productId s, ev, m)"
  shows "list_all2 (given_back sales) (t_stocks d) (t_stocks d') \<and> tracks d' = tracks d \<and>
    set (t_movements d) \<subseteq> set (t_movements d') \<and>
    (\<forall>s \<in> set sales. tracks d (mv_key s) \<longrightarrow>
       (\<exists>c \<in> set (t_movements d'). mv_reversesMovementId c = Some (mv_id s))) \<and>
    ((\<forall>s \<in> set sales. \<not> tracks d (mv_key s)) \<longrightarrow> d' = d \<and> ch' = ch)"
  using assms
proof (induction sales arbitrary: d stocks ch)
  case Nil
  have "given_back [] s s" for s by (simp add: given_back_def)
  with Nil show ?case by (simp add: list_all2_same)
next
  case (Cons sale sales)
  from Cons.prems(1) obtain d1 s1 c1
    where step: "reverse_one e ev m oid actor reason (d, stocks, ch) sale = Inr (d1, s1, c1)"
      and rest: "fold_res (reverse_one e ev m oid actor reason) (d1, s1, c1) sales = Inr (d', stocks', ch')"
    by (auto simp: res_simps)
  have sp: "mv_productId sale \<in> P" "mv_key sale = (mv_productId sale, ev, m)" using Cons.prems(4) by auto
  note E = reverse_one_effect [OF step Cons.prems(2) sp Cons.prems(3)]
  have dist: "distinct (map stock_key (t_stocks d1))" using given_back_keys [OF E(1)] Cons.prems(3) by simp
  have "mv_productId s \<in> P \<and> mv_key s = (mv_productId s, ev, m)" if "s \<in> set sales" for s
    using that by (intro Cons.prems(4)) simp
  note IH = Cons.IH [OF rest E(2) dist this]
  have "list_all2 (given_back ([sale] @ sales)) (t_stocks d) (t_stocks d')"
    by (rule list_all2_trans [OF given_back_trans E(1)]) (use IH in blast)+
  with IH E(3-6) show ?case by (auto simp del: set_append)
qed

text \<open>One reversal in terms of the open sales; a second one finds nothing to do.\<close>

lemma reverseSales_effect:
  assumes "reverseSales e d ev m oid ids actor reason = Inr (d', ch)"
    and "distinct (map stock_key (t_stocks d))"
  shows "list_all2 (given_back (open_sales d ev m ids)) (t_stocks d) (t_stocks d') \<and> tracks d' = tracks d \<and>
    set (t_movements d) \<subseteq> set (t_movements d') \<and>
    (\<forall>s \<in> set (open_sales d ev m ids). tracks d (mv_key s) \<longrightarrow>
       (\<exists>c \<in> set (t_movements d'). mv_reversesMovementId c = Some (mv_id s))) \<and>
    ((\<forall>s \<in> set (open_sales d ev m ids). \<not> tracks d (mv_key s)) \<longrightarrow> d' = d \<and> ch = [])"
proof (cases "open_sales d ev m ids = []")
  case True
  have "d' = d \<and> ch = []" using assms(1) True by (auto simp: reverseSales_def Let_def split: if_splits)
  moreover have "given_back [] s s" for s by (simp add: given_back_def)
  ultimately show ?thesis using True by (simp add: list_all2_same)
next
  case False
  let ?os = "open_sales d ev m ids"
  from False obtain x where x: "x \<in> set ?os" by (cases ?os) auto
  then have "ids \<noteq> []" and "filter (is_sale_of ev m ids) (t_movements d) \<noteq> []"
    by (auto simp: open_sales_mem is_sale_of_def filter_empty_conv split: option.splits)
  with assms(1) False obtain st' ch' where
    loop: "fold_res (reverse_one e ev m oid actor reason)
       (d, stocks_by_product d ev m (map mv_productId ?os), []) ?os = Inr (d', st', ch')"
    and ch: "ch = map (\<lambda>(k, c). name_change d' ev c) ch'"
    by (auto simp: reverseSales_def Let_def res_simps)
  have "mv_productId s \<in> set (map mv_productId ?os) \<and> mv_key s = (mv_productId s, ev, m)"
    if "s \<in> set ?os" for s
    using that by (auto simp: open_sales_mem is_sale_of_def mv_key_def)
  from reverse_loop_effect [OF loop mirrors_init assms(2) this] ch show ?thesis by auto
qed

text \<open>Only cancellations are booked.\<close>

lemma reverse_loop_new:
  "fold_res (reverse_one e ev m oid actor reason) (d, stocks, ch) sales = Inr (d', stocks', ch') \<Longrightarrow>
   x \<in> set (t_movements d') \<Longrightarrow> x \<in> set (t_movements d) \<or> mv_type x = CANCELLATION"
proof (induction sales arbitrary: d stocks ch)
  case Nil
  then show ?case by simp
next
  case (Cons sale sales)
  from Cons.prems(1) obtain d1 s1 c1
    where step: "reverse_one e ev m oid actor reason (d, stocks, ch) sale = Inr (d1, s1, c1)"
      and rest: "fold_res (reverse_one e ev m oid actor reason) (d1, s1, c1) sales = Inr (d', stocks', ch')"
    by (auto simp: res_simps)
  from Cons.IH [OF rest Cons.prems(2)] show ?case
    by (cases rule: reverse_one_cases [OF step]) auto
qed

lemma reverseSales_new_movements:
  assumes "reverseSales e d ev m oid ids actor reason = Inr (d', ch)" and "x \<in> set (t_movements d')"
  shows "x \<in> set (t_movements d) \<or> mv_type x = CANCELLATION"
proof (cases "d' = d")
  case False
  with assms(1) obtain st' ch' where
    "fold_res (reverse_one e ev m oid actor reason)
       (d, stocks_by_product d ev m (map mv_productId (open_sales d ev m ids)), []) (open_sales d ev m ids)
     = Inr (d', st', ch')"
    by (auto simp: reverseSales_def Let_def res_simps split: if_splits)
  from reverse_loop_new [OF this assms(2)] show ?thesis .
qed (use assms(2) in simp)

lemma reverse_loop_skips:
  assumes "\<And>s. s \<in> set sales \<Longrightarrow> mv_productId s \<in> P \<and> mv_key s = (mv_productId s, ev, m) \<and> \<not> tracks d (mv_key s)"
    and "mirrors ev m P stocks d"
  shows "fold_res (reverse_one e ev m oid actor reason) (d, stocks, ch) sales = Inr (d, stocks, ch)"
  using assms(1)
proof (induction sales)
  case Nil
  then show ?case by simp
next
  case (Cons s sales)
  from Cons.prems [of s] have p: "mv_productId s \<in> P" and k: "mv_key s = (mv_productId s, ev, m)"
    and t: "\<not> tracks d (mv_key s)" by auto
  from mirrorsD [OF assms(2) p] k t
  have "reverse_one e ev m oid actor reason (d, stocks, ch) s = Inr (d, stocks, ch)"
    by (auto simp: reverse_one_def tracks_def split: option.splits)
  moreover have "fold_res (reverse_one e ev m oid actor reason) (d, stocks, ch) sales = Inr (d, stocks, ch)"
    by (rule Cons.IH) (rule Cons.prems, simp)
  ultimately show ?case by simp
qed

lemma reverseSales_again:
  assumes "reverseSales e d ev m oid ids actor reason = Inr (d', ch)"
    and "distinct (map stock_key (t_stocks d))"
  shows "reverseSales e' d' ev m oid' ids actor' reason' = Inr (d', [])"
proof -
  note E = reverseSales_effect [OF assms]
  let ?os = "open_sales d' ev m ids"
  have skip: "mv_productId s \<in> set (map mv_productId ?os) \<and> mv_key s = (mv_productId s, ev, m) \<and>
      \<not> tracks d' (mv_key s)" if s: "s \<in> set ?os" for s
  proof -
    from s have so: "s \<in> set (t_movements d')" "is_sale_of ev m ids s" "not_reversed d' s"
      by (auto simp: open_sales_mem)
    have "\<not> tracks d (mv_key s)"
    proof
      assume t: "tracks d (mv_key s)"
      from so(2) have "mv_type s = SALE" by (simp add: is_sale_of_def)
      with reverseSales_new_movements [OF assms(1) so(1)] have "s \<in> set (t_movements d)" by auto
      moreover from E have sub: "set (t_movements d) \<subseteq> set (t_movements d')" by blast
      with so(3) have "not_reversed d s" by (auto simp: not_reversed_def list_ex_iff)
      ultimately have "s \<in> set (open_sales d ev m ids)" using so(2) by (simp add: open_sales_mem)
      with E t have "\<exists>c \<in> set (t_movements d'). mv_reversesMovementId c = Some (mv_id s)" by blast
      with so(3) show False by (auto simp: not_reversed_def list_ex_iff)
    qed
    moreover from E have "tracks d' = tracks d" by blast
    ultimately have "\<not> tracks d' (mv_key s)" by simp
    moreover from s have "mv_productId s \<in> set (map mv_productId ?os)" by simp
    moreover from so(2) have "mv_key s = (mv_productId s, ev, m)" by (simp add: is_sale_of_def mv_key_def)
    ultimately show ?thesis by simp
  qed
  show ?thesis
    using reverse_loop_skips [OF skip mirrors_init]
    by (simp add: reverseSales_def Let_def)
qed

section \<open>When a reservation succeeds\<close>

text \<open>The abstract condition: every product is on sale and, where tracked, in sufficient stock.\<close>

definition sale_possible :: "db \<Rightarrow> id \<Rightarrow> data_mode \<Rightarrow> sale_line list \<Rightarrow> bool" where
  "sale_possible d ev m lines \<longleftrightarrow> (\<forall>p \<in> sl_productId ` set lines.
     \<not> line_excluded (last (filter (\<lambda>l. sl_productId l = p) lines)) (find_stock d (p, ev, m)) \<and>
     (case tracked_quantity (find_stock d (p, ev, m)) of None \<Rightarrow> True | Some n \<Rightarrow> requested lines p \<le> n))"

lemma filter_unique_key:
  "distinct (map k xs) \<Longrightarrow> u \<in> set xs \<Longrightarrow> c u \<Longrightarrow> (\<And>x. c x \<Longrightarrow> k x = k u) \<Longrightarrow> filter c xs = [u]"
proof (induction xs)
  case Nil
  then show ?case by simp
next
  case (Cons x xs)
  show ?case
  proof (cases "x = u")
    case True
    have "\<not> c y" if "y \<in> set xs" for y
    proof
      assume "c y"
      then have "k y = k u" by (rule Cons.prems(4))
      with that have "k u \<in> k ` set xs" by (intro image_eqI [of _ _ y]) simp_all
      with Cons.prems(1) True show False by simp
    qed
    then have "filter c xs = []" by simp
    with True Cons.prems(3) show ?thesis by simp
  next
    case False
    with Cons.prems(2) have u: "u \<in> set xs" by simp
    then have "k u \<in> k ` set xs" by simp
    with Cons.prems(1) Cons.prems(4) [of x] have "\<not> c x" by auto
    moreover have "distinct (map k xs)" using Cons.prems(1) by simp
    then have "filter c xs = [u]" by (rule Cons.IH [OF _ u Cons.prems(3) Cons.prems(4)])
    ultimately show ?thesis by simp
  qed
qed

definition line_sellable :: "sale_line \<Rightarrow> stock option \<Rightarrow> bool" where
  "line_sellable line s \<longleftrightarrow> \<not> line_excluded line s \<and>
     (case tracked_quantity s of None \<Rightarrow> True | Some n \<Rightarrow> sl_quantity line \<le> n)"

lemma reserve_product_succeeds:
  assumes "js_get q p = Some line" and "line_sellable line (find_stock snap (p, ev, m))"
    and "distinct (map stock_key (t_stocks d))" and "find_stock d (p, ev, m) = find_stock snap (p, ev, m)"
  shows "\<exists>d' ch'. reserve_product snap ev m q (d, ch) p = Inr (d', ch') \<and>
    map stock_key (t_stocks d') = map stock_key (t_stocks d) \<and>
    (\<forall>p'. p' \<noteq> p \<longrightarrow> find_stock d' (p', ev, m) = find_stock d (p', ev, m))"
proof (cases "tracked_quantity (find_stock snap (p, ev, m))")
  case None
  with assms(1,2) show ?thesis
    by (auto simp: reserve_product_def line_sellable_def tracked_quantity_def split: option.splits if_splits)
next
  case (Some n)
  then obtain r where r: "find_stock snap (p, ev, m) = Some r" "st_trackingEnabled r" "n = st_stockQuantity r"
    by (auto simp: tracked_quantity_def split: option.splits if_splits)
  let ?k = "(p, ev, m)" and ?n = "sl_quantity line"
  from r(1) assms(4) find_stock_Some have rd: "r \<in> set (t_stocks d)" "stock_key r = ?k" by auto
  have g: "sale_guard ?k ?n r"
    using r rd assms(2) Some by (auto simp: sale_guard_def line_sellable_def line_excluded_def)
  have f: "filter (sale_guard ?k ?n) (t_stocks d) = [r]"
    by (rule filter_unique_key [where k = stock_key, OF assms(3) rd(1)]) (use g in \<open>simp_all add: sale_guard_def rd(2)\<close>)
  have ok: "\<not> line_excluded line (Some r) \<and> \<not> st_stockQuantity r < ?n"
    using assms(2) r Some by (auto simp: line_sellable_def)
  have upd: "update_where (sale_guard ?k ?n) (take_stock ?n) (t_stocks d)
      = update_where (\<lambda>s. stock_key s = ?k) (take_stock ?n) (t_stocks d)"
    by (rule guarded_update_is_keyed [OF assms(3) f])
  have other: "find_stock (d\<lparr>t_stocks := update_where (\<lambda>s. stock_key s = ?k) (take_stock ?n) (t_stocks d)\<rparr>) (p', ev, m)
      = find_stock d (p', ev, m)" if "p' \<noteq> p" for p'
    using that by (cases "find_stock d (p', ev, m)") (simp_all add: find_stock_update)
  have keys: "map stock_key (update_where (\<lambda>s. stock_key s = ?k) (take_stock ?n) (t_stocks d)) = map stock_key (t_stocks d)"
    by (rule map_update_where_frame) simp
  from assms(1) r f ok upd other keys show ?thesis by (simp add: reserve_product_def Let_def)
qed

lemma reserve_loop_succeeds:
  assumes "distinct ps" and "distinct (map stock_key (t_stocks d))"
    and "\<And>p. p \<in> set ps \<Longrightarrow> find_stock d (p, ev, m) = find_stock snap (p, ev, m) \<and>
           (\<exists>line. js_get q p = Some line \<and> line_sellable line (find_stock snap (p, ev, m)))"
  shows "\<exists>r. fold_res (reserve_product snap ev m q) (d, ch) ps = Inr r"
  using assms
proof (induction ps arbitrary: d ch)
  case Nil
  then show ?case by simp
next
  case (Cons p ps)
  from Cons.prems(3) [of p] obtain line where l: "js_get q p = Some line"
    "line_sellable line (find_stock snap (p, ev, m))" "find_stock d (p, ev, m) = find_stock snap (p, ev, m)"
    by auto
  from reserve_product_succeeds [OF l(1,2) Cons.prems(2) l(3), of ch] obtain d1 c1
    where s: "reserve_product snap ev m q (d, ch) p = Inr (d1, c1)"
      and k: "map stock_key (t_stocks d1) = map stock_key (t_stocks d)"
      and o: "\<forall>p'. p' \<noteq> p \<longrightarrow> find_stock d1 (p', ev, m) = find_stock d (p', ev, m)"
    by blast
  have "\<exists>r. fold_res (reserve_product snap ev m q) (d1, c1) ps = Inr r"
  proof (rule Cons.IH)
    show "distinct ps" using Cons.prems(1) by simp
    show "distinct (map stock_key (t_stocks d1))" using Cons.prems(2) k by simp
    fix p' assume p': "p' \<in> set ps"
    then have "p' \<noteq> p" using Cons.prems(1) by auto
    with o p' Cons.prems(3) [of p'] show "find_stock d1 (p', ev, m) = find_stock snap (p', ev, m) \<and>
        (\<exists>line. js_get q p' = Some line \<and> line_sellable line (find_stock snap (p', ev, m)))" by simp
  qed
  with s show ?case by simp
qed

lemma reserve_loop_sellable:
  assumes "fold_res (reserve_product snap ev m q) (d, ch) ps = Inr r"
    and "distinct (map stock_key (t_stocks d))" and "p \<in> set ps"
  shows "\<exists>line. js_get q p = Some line \<and> line_sellable line (find_stock snap (p, ev, m))"
  using assms
proof (induction ps arbitrary: d ch)
  case Nil
  then show ?case by simp
next
  case (Cons p0 ps)
  from Cons.prems(1) obtain d1 c1 where s: "reserve_product snap ev m q (d, ch) p0 = Inr (d1, c1)"
    and rest: "fold_res (reserve_product snap ev m q) (d1, c1) ps = Inr r"
    by (auto simp: res_simps)
  have here: "(\<exists>line. js_get q p0 = Some line \<and> line_sellable line (find_stock snap (p0, ev, m))) \<and>
      map stock_key (t_stocks d1) = map stock_key (t_stocks d)"
  proof (cases rule: reserve_product_cases [OF s Cons.prems(2)])
    case (1 line)
    then show ?thesis by (auto simp: line_sellable_def)
  next
    case (2 line r0 u r')
    have "map stock_key (t_stocks d1) = map stock_key (t_stocks d)"
      unfolding 2(9) by (simp add: map_update_where_frame)
    with 2(1-5) show ?thesis by (auto simp: line_sellable_def tracked_quantity_def)
  qed
  show ?case
  proof (cases "p = p0")
    case True
    with here show ?thesis by blast
  next
    case False
    with Cons.prems(3) have "p \<in> set ps" by simp
    moreover from here Cons.prems(2) have "distinct (map stock_key (t_stocks d1))" by simp
    ultimately show ?thesis by (intro Cons.IH [OF rest])
  qed
qed

lemma line_sellable_collected:
  assumes "p \<in> sl_productId ` set lines"
  shows "(\<exists>line. js_get (collect_lines lines) p = Some line \<and> line_sellable line s) \<longleftrightarrow>
    \<not> line_excluded (last (filter (\<lambda>l. sl_productId l = p) lines)) s \<and>
    (case tracked_quantity s of None \<Rightarrow> True | Some n \<Rightarrow> requested lines p \<le> n)"
proof -
  from assms have ne: "filter (\<lambda>l. sl_productId l = p) lines \<noteq> []" by (auto simp: filter_empty_conv)
  have "line_excluded (l\<lparr>sl_quantity := n\<rparr>) s = line_excluded l s" for l n by (simp add: line_excluded_def)
  with ne show ?thesis by (simp add: collect_lines_get Let_def line_sellable_def cong: option.case_cong)
qed

lemma reserveSale_succeeds_iff:
  assumes "distinct (map stock_key (t_stocks d))"
  shows "(\<exists>r. reserveSale d ev m lines = Inr r) \<longleftrightarrow> sale_possible d ev m lines"
proof -
  let ?q = "collect_lines lines" and ?ps = "sort (js_keys (collect_lines lines))"
  have set_ps: "set ?ps = sl_productId ` set lines" by (simp add: collect_lines_keys)
  have run: "reserveSale d ev m lines = fold_res (reserve_product d ev m ?q) (d, []) ?ps"
    by (simp add: reserveSale_def Let_def)
  have sell: "sale_possible d ev m lines \<longleftrightarrow>
      (\<forall>p \<in> set ?ps. \<exists>line. js_get ?q p = Some line \<and> line_sellable line (find_stock d (p, ev, m)))"
    unfolding sale_possible_def set_ps by (intro ball_cong refl) (simp add: line_sellable_collected)
  show ?thesis
  proof
    assume "\<exists>r. reserveSale d ev m lines = Inr r"
    then obtain r where "fold_res (reserve_product d ev m ?q) (d, []) ?ps = Inr r" by (auto simp: run)
    from reserve_loop_sellable [OF this assms] show "sale_possible d ev m lines" by (simp only: sell ball_simps) blast
  next
    assume "sale_possible d ev m lines"
    then have "\<exists>r. fold_res (reserve_product d ev m ?q) (d, []) ?ps = Inr r"
      unfolding sell using collect_lines_distinct assms by (intro reserve_loop_succeeds) auto
    then show "\<exists>r. reserveSale d ev m lines = Inr r" by (simp only: run)
  qed
qed

section \<open>A sale and its reversal cancel out\<close>

definition fresh_sale :: "env \<Rightarrow> nat \<Rightarrow> id \<Rightarrow> data_mode \<Rightarrow> id list \<Rightarrow> movement \<Rightarrow> bool" where
  "fresh_sale e n ev m ids x \<longleftrightarrow> is_sale_of ev m ids x \<and> mv_reversesMovementId x = None \<and>
     (\<exists>k \<ge> n. mv_id x = env_uuid e k)"

lemma fresh_sale_mono: "fresh_sale e n ev m ids x \<Longrightarrow> n' \<le> n \<Longrightarrow> fresh_sale e n' ev m ids x"
  unfolding fresh_sale_def by (meson le_trans)

lemma record_item_new:
  assumes "record_item e ev m oid actor rs (d, next) i = Inr (d', next')" and "oi_id i \<in> set ids"
  shows "\<exists>new. t_movements d' = t_movements d @ new \<and> (\<forall>x \<in> set new. fresh_sale e (serial d) ev m ids x)
    \<and> serial d \<le> serial d'"
proof (cases "find (\<lambda>r. rs_productId r = oi_productId i) rs")
  case None
  with assms(1) show ?thesis by (simp add: record_item_def)
next
  case (Some r)
  from assms(1) Some obtain prior where
    "create_movement e (sale_movement e ev m oid actor i prior) d = Inr d'"
    by (auto simp: record_item_def res_simps split: option.splits)
  from create_movement_Inr [OF this] assms(2) show ?thesis
    by (auto simp: fresh_sale_def is_sale_of_def sale_movement_def fresh_id_def)
qed

lemma record_loop_new:
  "fold_res (record_item e ev m oid actor rs) (d, next) items = Inr (d', next') \<Longrightarrow>
   oi_id ` set items \<subseteq> set ids \<Longrightarrow>
   \<exists>new. t_movements d' = t_movements d @ new \<and> (\<forall>x \<in> set new. fresh_sale e (serial d) ev m ids x)"
proof (induction items arbitrary: d "next")
  case Nil
  then show ?case by simp
next
  case (Cons i items)
  from Cons.prems(1) obtain d1 n1 where s: "record_item e ev m oid actor rs (d, next) i = Inr (d1, n1)"
    and r: "fold_res (record_item e ev m oid actor rs) (d1, n1) items = Inr (d', next')"
    by (auto simp: res_simps)
  from record_item_new [OF s, of ids] Cons.prems(2) obtain n1 where
    1: "t_movements d1 = t_movements d @ n1" "\<forall>x \<in> set n1. fresh_sale e (serial d) ev m ids x"
      "serial d \<le> serial d1" by auto
  from Cons.IH [OF r] Cons.prems(2) obtain n2 where
    2: "t_movements d' = t_movements d1 @ n2" "\<forall>x \<in> set n2. fresh_sale e (serial d1) ev m ids x" by auto
  from 1 2 fresh_sale_mono [OF _ 1(3)] show ?case by (intro exI [of _ "n1 @ n2"]) auto
qed

lemma recordSales_new:
  assumes "recordSales e d ev m oid actor rs items = Inr (d', ch)"
  shows "\<exists>new. t_movements d' = t_movements d @ new \<and>
    (\<forall>x \<in> set new. fresh_sale e (serial d) ev m (map oi_id items) x)"
proof -
  from assms obtain next' where
    "fold_res (record_item e ev m oid actor rs) (d, map (\<lambda>r. (rs_productId r, rs_quantityBefore r)) rs)
       (sort_key (\<lambda>i. env_collate e (oi_id i)) items) = Inr (d', next')"
    by (auto simp: recordSales_def res_simps)
  from record_loop_new [OF this, of "map oi_id items"] show ?thesis by simp
qed

lemma ledger_sum_perm: "mset xs = mset ys \<Longrightarrow> ledger_sum xs k = ledger_sum ys k"
  unfolding ledger_sum_def by (rule sum_list_filter_mset)

lemma open_sales_new:
  assumes "t_movements d' = old @ new" and "\<forall>x \<in> set new. fresh_sale e n ev m ids x"
    and "\<forall>x \<in> set old. \<not> is_sale_of ev m ids x"
    and "\<forall>x \<in> set old. \<forall>k \<ge> n. mv_reversesMovementId x \<noteq> Some (env_uuid e k)"
  shows "ledger_sum (open_sales d' ev m ids) k = ledger_sum new k"
proof -
  have "filter (\<lambda>x. is_sale_of ev m ids x \<and> not_reversed d' x) old = []"
    using assms(3) by (auto simp: filter_empty_conv)
  moreover have "not_reversed d' x" if "x \<in> set new" for x
    using that assms(1,2,4) by (fastforce simp: not_reversed_def list_ex_iff fresh_sale_def)
  then have "filter (\<lambda>x. is_sale_of ev m ids x \<and> not_reversed d' x) new = new"
    using assms(2) by (auto simp: filter_id_conv fresh_sale_def)
  ultimately have "mset (open_sales d' ev m ids) = mset new"
    by (simp add: open_sales_def assms(1) del: mset_filter)
  then show ?thesis by (rule ledger_sum_perm)
qed

definition quantities :: "db \<Rightarrow> (stock_key \<times> int) list" where
  "quantities d = map (\<lambda>s. (stock_key s, st_stockQuantity s)) (t_stocks d)"

lemma sale_then_reversal:
  assumes ok: "ledger_ok (t_stocks d) (t_movements d)"
    and res: "reserveSale d ev m lines = Inr (d1, rs)"
    and d2: "t_stocks d2 = t_stocks d1" "t_movements d2 = t_movements d"
    and rec: "recordSales e d2 ev m oid actor rs items = Inr (d3, ch)"
    and same: "\<And>p. item_total items p = requested lines p"
    and d4: "t_stocks d4 = t_stocks d3" "t_movements d4 = t_movements d3"
    and fresh: "\<forall>x \<in> set (t_movements d). \<not> is_sale_of ev m (map oi_id items) x"
      "\<forall>x \<in> set (t_movements d). \<forall>k \<ge> serial d2. mv_reversesMovementId x \<noteq> Some (env_uuid e k)"
    and rev: "reverseSales e' d4 ev m oid' (map oi_id items) actor' reason = Inr (d5, ch')"
  shows "quantities d5 = quantities d"
proof -
  have nn: "nonneg_stocks (t_stocks d)" using ok by (auto simp: ledger_ok_def nonneg_stocks_def)
  note R = reserveSale_effect [OF res ledger_okD(1) [OF ok] nn]
  note M = recordSales_effect [OF rec]
  have st4: "t_stocks d4 = t_stocks d1" using M(1) d2 d4 by simp
  have keys: "map stock_key (t_stocks d1) = map stock_key (t_stocks d)" by (rule stock_after_keys [OF R(2)])
  have dist: "distinct (map stock_key (t_stocks d4))" using keys st4 ledger_okD(1) [OF ok] by simp
  from recordSales_new [OF rec] obtain new where new: "t_movements d3 = t_movements d2 @ new"
    "\<forall>x \<in> set new. fresh_sale e (serial d2) ev m (map oi_id items) x" by blast
  have os: "ledger_sum (open_sales d4 ev m (map oi_id items)) k = - items_sum ev m rs items k" for k
    using open_sales_new [of d4 "t_movements d" new e "serial d2" ev m "map oi_id items" k]
      new fresh d2 d4 M(2) [of k] by simp
  note E = reverseSales_effect [OF rev dist]
  have restored: "(stock_key t, st_stockQuantity t) = (stock_key s, st_stockQuantity s)"
    if a: "stock_after ev m rs s u" and g: "given_back (open_sales d4 ev m (map oi_id items)) u t"
      and s: "s \<in> set (t_stocks d)" for s u t
  proof -
    have it: "items_sum ev m rs items (stock_key s) = taken ev m rs s"
      by (rule items_sum_taken [OF R(4)]) (simp add: R(6) same)
    have "taken ev m rs s = 0" if "\<not> st_trackingEnabled s"
      using taken_is_requested [OF res ledger_okD(1) [OF ok] nn s] that by simp
    with a g os [of "stock_key s"] it show ?thesis by (auto simp: stock_after_def given_back_def)
  qed
  have len: "length (t_stocks d1) = length (t_stocks d)" using R(2) by (simp add: list_all2_lengthD)
  have len5: "length (t_stocks d5) = length (t_stocks d1)" using E st4 by (metis list_all2_lengthD)
  show ?thesis
    unfolding quantities_def
  proof (rule nth_equalityI)
    show "length (map (\<lambda>s. (stock_key s, st_stockQuantity s)) (t_stocks d5))
        = length (map (\<lambda>s. (stock_key s, st_stockQuantity s)) (t_stocks d))" using len len5 by simp
    fix i assume "i < length (map (\<lambda>s. (stock_key s, st_stockQuantity s)) (t_stocks d5))"
    then have i: "i < length (t_stocks d5)" "i < length (t_stocks d1)" "i < length (t_stocks d)"
      using len len5 by simp_all
    have "given_back (open_sales d4 ev m (map oi_id items)) (t_stocks d1 ! i) (t_stocks d5 ! i)"
      using E i st4 by (auto intro: list_all2_nthD2)
    with restored [OF list_all2_nthD [OF R(2) i(3)]] i show
      "map (\<lambda>s. (stock_key s, st_stockQuantity s)) (t_stocks d5) ! i
        = map (\<lambda>s. (stock_key s, st_stockQuantity s)) (t_stocks d) ! i" by simp
  qed
qed

section \<open>Replays of a stock mutation\<close>

lemma find_append: "find p (xs @ ys) = (case find p xs of None \<Rightarrow> find p ys | Some x \<Rightarrow> Some x)"
  by (induction xs) auto

lemma create_movement_finds:
  "create_movement e x d = Inr d' \<Longrightarrow>
   \<exists>y. find (\<lambda>m. mv_idempotencyKey m = mv_idempotencyKey x) (t_movements d') = Some y \<and>
       mv_requestFingerprint y = mv_requestFingerprint x"
proof -
  assume c: "create_movement e x d = Inr d'"
  then have "find (\<lambda>m. mv_idempotencyKey m = mv_idempotencyKey x) (t_movements d) = None"
    by (auto simp: create_movement_def list_ex_iff find_None_iff_all split: if_splits)
  with create_movement_Inr [OF c] show ?thesis by (simp add: find_append)
qed

text \<open>After a mutation: the event and the product are as before, the key is taken, the row is the result.\<close>

lemma mutate_tx_after:
  assumes "mutate_tx e d p i u ty = Inr (d', pr, s, replay)"
  shows "t_events d' = t_events d \<and> t_products d' = t_products d"
    and "find_stock d' (p, mi_eventId i, mi_dataMode i) = s"
    and "existing_movement d' (mi_idempotencyKey i) (fingerprint e (mutate_json p i ty)) \<noteq> Inr None"
    and "\<exists>r. existing_movement d' (mi_idempotencyKey i) (fingerprint e (mutate_json p i ty)) = Inr r"
    and "eventMode d (mi_eventId i) (mi_dataMode i) = Inr ()" and "require_product d p (mi_eventId i) = Inr pr"
proof -
  let ?k = "(p, mi_eventId i, mi_dataMode i)" and ?fp = "fingerprint e (mutate_json p i ty)"
  let ?P = "t_events d' = t_events d \<and> t_products d' = t_products d \<and> find_stock d' ?k = s \<and>
    (\<exists>y. existing_movement d' (mi_idempotencyKey i) ?fp = Inr (Some y))"
  have pre: "eventMode d (mi_eventId i) (mi_dataMode i) = Inr () \<and> require_product d p (mi_eventId i) = Inr pr"
    using assms by (auto simp: mutate_tx_def Let_def res_simps split: if_splits mutate_type.splits)
  have found: "\<exists>y. existing_movement (add_audit a d2) (mi_idempotencyKey i) ?fp = Inr (Some y)"
    if c: "create_movement e (mutate_movement e p i u ty b) d1 = Inr d2" for a b d1 d2
    using create_movement_finds [OF c] by (auto simp: existing_movement_def frame_simps mutate_movement_def)
  have "?P"
  proof (cases replay)
    case True
    with assms show ?thesis by (auto simp: mutate_tx_def Let_def res_simps split: if_splits mutate_type.splits)
  next
    case fresh: False
    show ?thesis
    proof (cases ty)
      case MT_INITIALIZATION
      with assms fresh obtain d2 where n: "find_stock d ?k = None"
        and c: "create_movement e (mutate_movement e p i u ty 0) (d\<lparr>t_stocks := t_stocks d @ [new_stock p i]\<rparr>) = Inr d2"
        and d': "d' = add_audit (mutate_audit p i u ty) d2" and s: "s = Some (new_stock p i)"
        by (auto simp: mutate_tx_def Let_def res_simps split: if_splits)
      from create_movement_Inr [OF c] found [OF c] n show ?thesis
        by (simp add: d' s frame_simps find_stock_def find_append new_stock_def stock_key_def)
    next
      case MT_CORRECTION
      let ?f = "\<lambda>r. r\<lparr>st_stockQuantity := mi_quantity i, st_version := st_version r + 1\<rparr>"
      from MT_CORRECTION assms fresh obtain s0 d2 where n: "find_stock d ?k = Some s0"
        and c: "create_movement e (mutate_movement e p i u ty (st_stockQuantity s0))
                  (d\<lparr>t_stocks := update_where (\<lambda>r. stock_key r = ?k) ?f (t_stocks d)\<rparr>) = Inr d2"
        and d': "d' = add_audit (mutate_audit p i u ty) d2" and s: "s = Some (?f s0)"
        by (auto simp: mutate_tx_def Let_def res_simps split: if_splits)
      have "find_stock (d\<lparr>t_stocks := update_where (\<lambda>r. stock_key r = ?k) ?f (t_stocks d)\<rparr>) ?k = Some (?f s0)"
        by (subst find_stock_update) (simp_all add: stock_key_def n)
      with create_movement_Inr [OF c] found [OF c] show ?thesis
        by (simp add: d' s frame_simps find_stock_def)
    qed
  qed
  with pre show "t_events d' = t_events d \<and> t_products d' = t_products d" "find_stock d' ?k = s"
    "existing_movement d' (mi_idempotencyKey i) ?fp \<noteq> Inr None"
    "\<exists>r. existing_movement d' (mi_idempotencyKey i) ?fp = Inr r"
    "eventMode d (mi_eventId i) (mi_dataMode i) = Inr ()" "require_product d p (mi_eventId i) = Inr pr"
    by auto
qed

lemma mode_and_product_frame:
  "t_events d' = t_events d \<Longrightarrow> eventMode d' ev m = eventMode d ev m"
  "t_products d' = t_products d \<Longrightarrow> require_product d' p ev = require_product d p ev"
  by (simp_all add: eventMode_def find_event_def require_product_def find_product_def)

lemma mutate_tx_replay:
  assumes "mutate_tx e d p i u ty = Inr (d', pr, s, replay)"
    and "t_events d2 = t_events d'" "t_products d2 = t_products d'"
    and "t_stocks d2 = t_stocks d'" "t_movements d2 = t_movements d'"
  shows "mutate_tx e d2 p i u2 ty = Inr (d2, pr, s, True)"
proof -
  note A = mutate_tx_after [OF assms(1)]
  from A(3,4) obtain y where "existing_movement d' (mi_idempotencyKey i) (fingerprint e (mutate_json p i ty)) = Inr (Some y)"
    by (metis not_Some_eq)
  then have x: "existing_movement d2 (mi_idempotencyKey i) (fingerprint e (mutate_json p i ty)) = Inr (Some y)"
    by (simp add: existing_movement_def assms(5))
  have s: "find_stock d2 (p, mi_eventId i, mi_dataMode i) = s" using A(2) by (simp add: find_stock_def assms(4))
  from A(1,5,6) assms(2,3) have "eventMode d2 (mi_eventId i) (mi_dataMode i) = Inr ()"
    "require_product d2 p (mi_eventId i) = Inr pr"
    using mode_and_product_frame by metis+
  with x s show ?thesis by (simp add: mutate_tx_def Let_def)
qed

lemma mutate_replays:
  assumes "mutate e d p i u ty = Inr (d', f)"
  shows "mutate e d' p i u2 ty = Inr (d', f)"
proof -
  from assms obtain d1 pr s replay where tx: "mutate_tx e d p i u ty = Inr (d1, pr, s, replay)"
    and d': "d' = (case s of Some s \<Rightarrow> if replay then d1
                 else add_broadcast (mi_eventId i) ''PRODUCT_INVENTORY_CHANGED''
                   (change_payload (mi_eventId i) (mi_dataMode i) p (pd_name pr) s
                      (pd_manualAvailability pr)) d1
             | None \<Rightarrow> d1)" and f: "f = facade (pd_manualAvailability pr) s"
    by (auto simp: mutate_def res_simps)
  have frame: "t_events d' = t_events d1" "t_products d' = t_products d1" "t_stocks d' = t_stocks d1"
    "t_movements d' = t_movements d1"
    unfolding d' by (simp_all add: add_broadcast_def split: option.split)
  from mutate_tx_replay [OF tx frame, of u2] f show ?thesis
    by (simp add: mutate_def split: option.split)
qed

end
