(* ===== verification/VO_Samples.thy ===== *)
theory VO_Samples
  imports VO_Data
begin

text \<open>
  A small event that the properties are applied to: one live event with a bar, a beer that is
  tracked in stock and has a size group (its answer is the price) and a group of extras, a water
  without options, a printer, a register session, and the ledger row that put the beer into stock.
\<close>

definition sample_event :: event where
  "sample_event = \<lparr>ev_id = ''e'', ev_name = ''Fest'', ev_organizer = None, ev_location = None, ev_startTime = None,
     ev_endTime = None, ev_timezone = ''Europe/Vienna'', ev_status = EV_ACTIVE, ev_testMode = False, ev_rksvConfirmedAt = Some 0,
     ev_rksvConfirmedByUserId = Some ''u'', ev_rksvDisclaimerVersion = Some ''1.0'', ev_createdAt = 0, ev_updatedAt = 0\<rparr>"

definition sample_user :: user where
  "sample_user = \<lparr>us_id = ''u'', us_username = ''anna'', us_name = None, us_role = CASHIER, us_isActive = True,
     us_pinHash = ''h1234'', us_createdAt = 0\<rparr>"

definition sample_printer :: printer where
  "sample_printer = \<lparr>pr_id = ''p'', pr_name = ''Bar'', pr_type = ''CUPS_IPP'', pr_ipAddress = None, pr_port = Some 631,
     pr_isActive = True, pr_paperWidth = 80, pr_codepage = ''CP858'', pr_codepageProfile = ''EPSON_STANDARD'',
     pr_cutMode = ''PARTIAL'', pr_copies = 1, pr_timeoutMs = 5000, pr_queueName = Some ''bar'',
     pr_fallbackPrinterId = None, pr_lastErrorCode = None, pr_lastErrorAt = None, pr_lastOkAt = None\<rparr>"

definition sample_station :: station where
  "sample_station = \<lparr>sn_id = ''s'', sn_name = ''Bar'', sn_eventId = ''e'', sn_isActive = True, sn_printerId = Some ''p'',
     sn_shortName = None, sn_color = None, sn_sortOrder = 0\<rparr>"

definition sample_category :: category where
  "sample_category = \<lparr>ca_id = ''c'', ca_targetStationId = Some ''s'', ca_deposit = None, ca_isActive = True,
     ca_name = ''Drinks'', ca_sortOrder = 0, ca_eventId = ''e''\<rparr>"

definition sample_sizes :: option_group where
  "sample_sizes = \<lparr>og_id = ''g1'', og_name = ''Size'', og_selectionType = SINGLE, og_isRequired = True,
     og_minSelect = 1, og_maxSelect = Some 1, og_priceMode = ABSOLUTE, og_quickSaleTiles = True, og_sortOrder = 0,
     og_options = [\<lparr>op_id = ''o1'', op_name = ''small'', op_priceEffect = 300, op_isActive = True, op_sortOrder = 0\<rparr>,
                   \<lparr>op_id = ''o2'', op_name = ''large'', op_priceEffect = 500, op_isActive = True, op_sortOrder = 1\<rparr>]\<rparr>"

definition sample_extras :: option_group where
  "sample_extras = \<lparr>og_id = ''g2'', og_name = ''Extra'', og_selectionType = MULTIPLE, og_isRequired = False,
     og_minSelect = 0, og_maxSelect = None, og_priceMode = SURCHARGE, og_quickSaleTiles = False, og_sortOrder = 1,
     og_options = [\<lparr>op_id = ''o3'', op_name = ''syrup'', op_priceEffect = 50, op_isActive = True, op_sortOrder = 0\<rparr>]\<rparr>"

definition sample_beer :: product where
  "sample_beer = \<lparr>pd_id = ''b'', pd_eventId = ''e'', pd_name = ''Beer'', pd_price = 400, pd_deposit = Some 100,
     pd_targetStationId = None, pd_manualAvailability = AVAILABLE, pd_category = sample_category,
     pd_optionGroups = [sample_sizes, sample_extras], pd_shortName = None, pd_description = None,
     pd_taxRate = 2000, pd_color = None, pd_sortOrder = 0, pd_imageUrl = None\<rparr>"

definition sample_water :: product where
  "sample_water = \<lparr>pd_id = ''w'', pd_eventId = ''e'', pd_name = ''Water'', pd_price = 200, pd_deposit = None,
     pd_targetStationId = None, pd_manualAvailability = AVAILABLE, pd_category = sample_category,
     pd_optionGroups = [], pd_shortName = None, pd_description = None,
     pd_taxRate = 2000, pd_color = None, pd_sortOrder = 0, pd_imageUrl = None\<rparr>"

definition sample_session :: session where
  "sample_session = \<lparr>cs_id = ''k'', cs_userId = ''u'', cs_eventId = ''e'', cs_dataMode = LIVE, cs_status = SE_ACTIVE,
     cs_startingBalance = 10000, cs_closingBalance = None, cs_startTime = 1, cs_endTime = None\<rparr>"

definition sample_stock :: stock where
  "sample_stock = \<lparr>st_productId = ''b'', st_eventId = ''e'', st_dataMode = LIVE, st_trackingEnabled = True,
     st_initialQuantity = 10, st_stockQuantity = 10, st_lowStockThreshold = 3, st_manualBlocked = False, st_version = 1\<rparr>"

definition sample_movement :: movement where
  "sample_movement = \<lparr>mv_id = ''m'', mv_type = INITIALIZATION, mv_quantityDelta = 10, mv_quantityBefore = 0,
     mv_quantityAfter = 10, mv_productId = ''b'', mv_eventId = ''e'', mv_dataMode = LIVE, mv_orderId = None,
     mv_orderItemId = None, mv_reversesMovementId = None, mv_actorUserId = ''u'', mv_reason = None,
     mv_idempotencyKey = ''init'', mv_requestFingerprint = ''f'', mv_createdAt = 0\<rparr>"

text \<open>The outside world of the runs: numbered ids, a hash that keeps a prefix.\<close>

definition run_env :: env where
  "run_env = sample_env\<lparr>env_sha256 := take 4\<rparr>"

definition sample_db :: db where
  "sample_db = empty_db\<lparr>t_events := [sample_event], t_users := [sample_user], t_printers := [sample_printer],
     t_stations := [sample_station],
     t_products := [sample_beer, sample_water], t_categories := [sample_category], t_sessions := [sample_session],
     t_stocks := [sample_stock], t_movements := [sample_movement]\<rparr>"

section \<open>Applying a property to a run\<close>

text \<open>\<open>succeeds_with P m\<close>: the run \<open>m\<close> returned, and its result satisfies \<open>P\<close>.\<close>

definition succeeds_with :: "('a \<Rightarrow> bool) \<Rightarrow> 'e + 'a \<Rightarrow> bool" where
  "succeeds_with P m = (case m of Inl _ \<Rightarrow> False | Inr x \<Rightarrow> P x)"

lemma succeeds_withE:
  assumes "succeeds_with P m"
  obtains x where "m = Inr x" "P x"
  using assms by (auto simp: succeeds_with_def split: sum.splits)

lemma succeeds_withI: "m = Inr x \<Longrightarrow> P x \<Longrightarrow> succeeds_with P m"
  by (simp add: succeeds_with_def)

definition result_of :: "'a \<Rightarrow> 'e + 'a \<Rightarrow> 'a" where
  "result_of x m = (case m of Inl _ \<Rightarrow> x | Inr y \<Rightarrow> y)"

lemma inj_nat_text: "inj nat_text"
  by (simp add: inj_def nat_text_inject)

end
