(* ===== verification/VO_Inventory_Props.thy ===== *)
theory VO_Inventory_Props
  imports VO_Inventory_Laws VO_Samples
begin

text \<open>
  The properties of the stock ledger: what a reservation takes and when it succeeds, which error it
  reports, how it agrees with the availability shown, reversals, replays, corrections and settings.
\<close>

definition beer_line :: "int \<Rightarrow> sale_line" where
  "beer_line n = \<lparr>sl_productId = ''b'', sl_quantity = n, sl_productName = ''Beer'',
     sl_manualAvailability = AVAILABLE, sl_categoryActive = Some True\<rparr>"

definition beer_item :: "int \<Rightarrow> order_item" where
  "beer_item n = \<lparr>oi_id = ''i'', oi_orderId = ''o'', oi_productId = ''b'', oi_quantity = n, oi_paidQuantity = 0,
     oi_priceAtTime = 300, oi_depositAtTime = 100, oi_status = IT_PENDING, oi_variantId = None,
     oi_variantName = None, oi_extras = None\<rparr>"

lemma sample_ledger_ok: "ledger_ok (t_stocks sample_db) (t_movements sample_db)"
  by code_simp

lemma sample_distinct: "distinct (map stock_key (t_stocks sample_db))"
  using sample_ledger_ok by (rule ledger_okD)

text \<open>
  C1. A reservation takes from every tracked stock of its event and mode exactly what the lines request
  of the product, nothing from any other stock, never leaves a negative stock, and touches no other table.
\<close>

theorem reserveSale_exact:
  assumes "ledger_ok (t_stocks d) (t_movements d)" and "reserveSale d ev m lines = Inr (d', rs)"
  shows "beside_ledger d' = beside_ledger d \<and> t_movements d' = t_movements d \<and>
    list_all2 (\<lambda>s t. stock_key t = stock_key s \<and> 0 \<le> st_stockQuantity t \<and>
        st_stockQuantity t = st_stockQuantity s -
          (if st_eventId s = ev \<and> st_dataMode s = m \<and> st_trackingEnabled s then requested lines (st_productId s) else 0))
      (t_stocks d) (t_stocks d')"
proof -
  have dist: "distinct (map stock_key (t_stocks d))" and nn: "nonneg_stocks (t_stocks d)"
    using ledger_okD(1,2) [OF assms(1)] by (auto simp: nonneg_stocks_def)
  note E = reserveSale_effect [OF assms(2) dist nn]
  have "list_all2 (\<lambda>s t. stock_key t = stock_key s \<and> 0 \<le> st_stockQuantity t \<and>
        st_stockQuantity t = st_stockQuantity s -
          (if st_eventId s = ev \<and> st_dataMode s = m \<and> st_trackingEnabled s then requested lines (st_productId s) else 0))
      (t_stocks d) (t_stocks d')"
    using E(2)
  proof (rule list_all2_mono_set)
    fix s t
    assume "stock_after ev m rs s t" and s: "s \<in> set (t_stocks d)" and "t \<in> set (t_stocks d')"
    moreover from E(3) this(3) have "0 \<le> st_stockQuantity t" by (auto simp: nonneg_stocks_def)
    ultimately show "stock_key t = stock_key s \<and> 0 \<le> st_stockQuantity t \<and>
        st_stockQuantity t = st_stockQuantity s -
          (if st_eventId s = ev \<and> st_dataMode s = m \<and> st_trackingEnabled s then requested lines (st_productId s) else 0)"
      unfolding stock_after_def taken_is_requested [OF assms(2) dist nn s] by blast
  qed
  with E(1) show ?thesis by blast
qed

lemma reserveSale_exact_witness:
  "succeeds_with (\<lambda>(d', rs). list_all2 (\<lambda>s t. st_stockQuantity t = st_stockQuantity s - 4) (t_stocks sample_db) (t_stocks d'))
     (reserveSale sample_db ''e'' LIVE [beer_line 3, beer_line 1])"
proof -
  have "succeeds_with (\<lambda>_. True) (reserveSale sample_db ''e'' LIVE [beer_line 3, beer_line 1])" by code_simp
  then obtain d' rs where run: "reserveSale sample_db ''e'' LIVE [beer_line 3, beer_line 1] = Inr (d', rs)"
    by (auto elim!: succeeds_withE)
  have "requested [beer_line 3, beer_line 1] ''b'' = 4" by code_simp
  with reserveSale_exact [OF sample_ledger_ok run] show ?thesis
    unfolding run by (auto simp: succeeds_with_def sample_db_def sample_stock_def list_all2_Cons1)
qed

text \<open>
  A reservation succeeds exactly when every requested product is on sale and, where its stock is tracked,
  in stock in the total quantity requested over all lines.
\<close>

theorem reserveSale_complete:
  assumes "distinct (map stock_key (t_stocks d))"
  shows "(\<exists>r. reserveSale d ev m lines = Inr r) \<longleftrightarrow>
    (\<forall>p \<in> sl_productId ` set lines.
       \<not> line_excluded (last (filter (\<lambda>l. sl_productId l = p) lines)) (find_stock d (p, ev, m)) \<and>
       (case tracked_quantity (find_stock d (p, ev, m)) of None \<Rightarrow> True | Some n \<Rightarrow> requested lines p \<le> n))"
  using reserveSale_succeeds_iff [OF assms] by (simp add: sale_possible_def)

lemma reserveSale_complete_witness:
  "(\<exists>r. reserveSale sample_db ''e'' LIVE [beer_line 7, beer_line 3] = Inr r) \<and>
   \<not> (\<exists>r. reserveSale sample_db ''e'' LIVE [beer_line 7, beer_line 4] = Inr r)"
  unfolding reserveSale_complete [OF sample_distinct] by (rule conjI; code_simp)

section \<open>Errors of a reservation\<close>

lemma reserve_product_error:
  assumes "reserve_product snap ev m q (d, ch) p = Inl err" and "js_get q p = Some line"
    and "distinct (map stock_key (t_stocks d))" and "find_stock d (p, ev, m) = find_stock snap (p, ev, m)"
  shows "line_excluded line (find_stock snap (p, ev, m)) \<and>
      err = StockConflict ''PRODUCT_UNAVAILABLE'' p (sl_productName line) (sl_quantity line)
        (tracked_quantity (find_stock snap (p, ev, m))) \<or>
    (\<exists>n. \<not> line_excluded line (find_stock snap (p, ev, m)) \<and>
       tracked_quantity (find_stock snap (p, ev, m)) = Some n \<and> n < sl_quantity line \<and>
       err = StockConflict ''INVENTORY_INSUFFICIENT'' p (sl_productName line) (sl_quantity line) (Some n))"
proof -
  from reserve_product_succeeds [OF assms(2) _ assms(3,4), of ch] assms(1)
  have "\<not> line_sellable line (find_stock snap (p, ev, m))" by auto
  with assms(1,2) show ?thesis
    by (auto simp: reserve_product_def Let_def line_sellable_def tracked_quantity_def split: option.splits if_splits)
qed

lemma reserve_loop_error:
  assumes "fold_res (reserve_product snap ev m q) (d, ch) ps = Inl err" and "distinct ps"
    and "distinct (map stock_key (t_stocks d))"
    and "\<And>p. p \<in> set ps \<Longrightarrow> find_stock d (p, ev, m) = find_stock snap (p, ev, m) \<and> js_get q p \<noteq> None"
  shows "\<exists>p \<in> set ps. \<exists>line d1 ch1. js_get q p = Some line \<and> distinct (map stock_key (t_stocks d1)) \<and>
    find_stock d1 (p, ev, m) = find_stock snap (p, ev, m) \<and> reserve_product snap ev m q (d1, ch1) p = Inl err"
  using assms
proof (induction ps arbitrary: d ch)
  case Nil
  then show ?case by simp
next
  case (Cons p ps)
  from Cons.prems(4) [of p] obtain line where line: "js_get q p = Some line" by auto
  show ?case
  proof (cases "reserve_product snap ev m q (d, ch) p")
    case (Inl err')
    with Cons.prems line show ?thesis by (intro bexI [of _ p]) auto
  next
    case (Inr r)
    obtain d1 ch1 where r: "r = (d1, ch1)" by (cases r)
    have "line_sellable line (find_stock snap (p, ev, m))"
      using reserve_loop_sellable [of snap ev m q d ch "[p]" r p] Inr Cons.prems(3) line by auto
    from reserve_product_succeeds [OF line this Cons.prems(3), of ch] Cons.prems(4) [of p] Inr r
    have keys: "map stock_key (t_stocks d1) = map stock_key (t_stocks d)"
      and others: "\<forall>p'. p' \<noteq> p \<longrightarrow> find_stock d1 (p', ev, m) = find_stock d (p', ev, m)" by auto
    have "\<exists>p \<in> set ps. \<exists>line d1 ch1. js_get q p = Some line \<and> distinct (map stock_key (t_stocks d1)) \<and>
      find_stock d1 (p, ev, m) = find_stock snap (p, ev, m) \<and> reserve_product snap ev m q (d1, ch1) p = Inl err"
    proof (rule Cons.IH [of d1 ch1])
      show "fold_res (reserve_product snap ev m q) (d1, ch1) ps = Inl err" using Cons.prems(1) Inr r by simp
      show "distinct ps" and "distinct (map stock_key (t_stocks d1))" using Cons.prems(2,3) keys by simp_all
      fix p' assume p': "p' \<in> set ps"
      then have "p' \<noteq> p" using Cons.prems(2) by auto
      with others Cons.prems(4) [of p'] p' show "find_stock d1 (p', ev, m) = find_stock snap (p', ev, m) \<and> js_get q p' \<noteq> None"
        by simp
    qed
    then show ?thesis by (rule bexE) (intro bexI, assumption, simp)
  qed
qed

text \<open>
  A reservation that fails names a requested product and the reason: the product is not on sale, or its
  tracked stock is smaller than the total requested; the error carries that total and the stock.
\<close>

theorem reserveSale_error:
  assumes "distinct (map stock_key (t_stocks d))" and "reserveSale d ev m lines = Inl err"
  shows "\<exists>p \<in> sl_productId ` set lines. \<exists>name.
    let s = find_stock d (p, ev, m); wanted = requested lines p in
    err = StockConflict ''PRODUCT_UNAVAILABLE'' p name wanted (tracked_quantity s) \<and>
      line_excluded (last (filter (\<lambda>l. sl_productId l = p) lines)) s \<or>
    (\<exists>n. err = StockConflict ''INVENTORY_INSUFFICIENT'' p name wanted (Some n) \<and> tracked_quantity s = Some n \<and> n < wanted)"
proof -
  let ?q = "collect_lines lines"
  from assms(2) have loop: "fold_res (reserve_product d ev m ?q) (d, []) (sort (js_keys ?q)) = Inl err"
    by (auto simp: reserveSale_def Let_def split: if_splits)
  have "\<exists>p \<in> set (sort (js_keys ?q)). \<exists>line d1 ch1. js_get ?q p = Some line \<and> distinct (map stock_key (t_stocks d1)) \<and>
    find_stock d1 (p, ev, m) = find_stock d (p, ev, m) \<and> reserve_product d ev m ?q (d1, ch1) p = Inl err"
    by (rule reserve_loop_error [OF loop])
       (use assms(1) collect_lines_distinct in \<open>auto simp: map_of_eq_None_iff\<close>)
  then obtain p line d1 ch1 where p: "p \<in> set (js_keys ?q)" "js_get ?q p = Some line"
    "distinct (map stock_key (t_stocks d1))" "find_stock d1 (p, ev, m) = find_stock d (p, ev, m)"
    "reserve_product d ev m ?q (d1, ch1) p = Inl err" unfolding set_sort by blast
  have own: "line = (last (filter (\<lambda>l. sl_productId l = p) lines))\<lparr>sl_quantity := requested lines p\<rparr>"
    using p(2) by (auto simp: collect_lines_get Let_def split: if_splits)
  then have q: "sl_quantity line = requested lines p"
    and ex: "line_excluded line s = line_excluded (last (filter (\<lambda>l. sl_productId l = p) lines)) s" for s
    by (simp_all add: line_excluded_def)
  have "p \<in> sl_productId ` set lines" using p(1) collect_lines_keys by (simp add: image_image)
  with reserve_product_error [OF p(5,2,3,4)] show ?thesis
    unfolding q ex Let_def by blast
qed

lemma reserveSale_error_witness:
  "\<exists>err. reserveSale sample_db ''e'' LIVE [beer_line 7, beer_line 4] = Inl err \<and>
     (\<exists>name. err = StockConflict ''INVENTORY_INSUFFICIENT'' ''b'' name 11 (Some 10))"
proof -
  have "isl (reserveSale sample_db ''e'' LIVE [beer_line 7, beer_line 4])" by code_simp
  then obtain err where err: "reserveSale sample_db ''e'' LIVE [beer_line 7, beer_line 4] = Inl err"
    by (auto simp: isl_def)
  have "requested [beer_line 7, beer_line 4] ''b'' = 11" by code_simp
  moreover have "find_stock sample_db (''b'', ''e'', LIVE) = Some sample_stock" by code_simp
  moreover have "\<not> line_excluded (last (filter (\<lambda>l. sl_productId l = ''b'') [beer_line 7, beer_line 4])) (Some sample_stock)"
    "tracked_quantity (Some sample_stock) = Some 10" by code_simp+
  moreover have "sl_productId ` set [beer_line 7, beer_line 4] = {''b''}" by (simp add: beer_line_def)
  ultimately show ?thesis using reserveSale_error [OF sample_distinct err]
    by (auto simp: err Let_def simp del: filter.simps)
qed

section \<open>Availability\<close>

text \<open>
  What the product list shows and what the till accepts agree: in an active category one unit can be
  reserved exactly when the effective availability is AVAILABLE or LOW_STOCK.
\<close>

theorem availability_agrees:
  assumes "ledger_ok (t_stocks d) (t_movements d)" and "sl_quantity line = 1" and "sl_categoryActive line \<noteq> Some False"
  shows "(\<exists>r. reserveSale d ev m [line] = Inr r) \<longleftrightarrow>
    effectiveAvailability (sl_manualAvailability line) (find_stock d (sl_productId line, ev, m)) \<in> {AVAILABLE, LOW_STOCK}"
proof -
  let ?s = "find_stock d (sl_productId line, ev, m)"
  have nn: "0 \<le> st_stockQuantity s" if "?s = Some s" for s
    using find_stock_Some [OF that] ledger_okD(2) [OF assms(1)] by blast
  have "(\<exists>r. reserveSale d ev m [line] = Inr r) \<longleftrightarrow>
      \<not> line_excluded line ?s \<and> (case tracked_quantity ?s of None \<Rightarrow> True | Some n \<Rightarrow> 1 \<le> n)"
    unfolding reserveSale_succeeds_iff [OF ledger_okD(1) [OF assms(1)]] sale_possible_def
    using assms(2) by (cases "tracked_quantity ?s") (simp_all add: requested_def)
  also have "\<dots> \<longleftrightarrow> effectiveAvailability (sl_manualAvailability line) ?s \<in> {AVAILABLE, LOW_STOCK}"
    using assms(3) nn
    by (cases ?s; cases "sl_manualAvailability line")
       (force simp: line_excluded_def tracked_quantity_def effectiveAvailability_def Let_def)+
  finally show ?thesis .
qed

lemma availability_agrees_witness:
  "effectiveAvailability AVAILABLE (find_stock sample_db (''b'', ''e'', LIVE)) = AVAILABLE \<and>
   (\<exists>r. reserveSale sample_db ''e'' LIVE [beer_line 1] = Inr r)"
proof -
  have "sl_quantity (beer_line 1) = 1" "sl_categoryActive (beer_line 1) \<noteq> Some False"
    "sl_manualAvailability (beer_line 1) = AVAILABLE" "sl_productId (beer_line 1) = ''b''"
    by (simp_all add: beer_line_def)
  moreover have "effectiveAvailability AVAILABLE (find_stock sample_db (''b'', ''e'', LIVE)) = AVAILABLE" by code_simp
  ultimately show ?thesis
    using availability_agrees [OF sample_ledger_ok, of "beer_line 1" "''e''" LIVE] by simp
qed

section \<open>Reversals\<close>

text \<open>
  A sale that is reserved, recorded and then reversed leaves every stock with the quantity it had, whatever
  happens between the steps to other tables, as long as the ids of the supply are fresh.
\<close>

theorem sale_reversed_restores:
  assumes "ledger_ok (t_stocks d) (t_movements d)"
    and "reserveSale d ev m lines = Inr (d1, rs)"
    and "t_stocks d2 = t_stocks d1" and "t_movements d2 = t_movements d"
    and "recordSales e d2 ev m oid actor rs items = Inr (d3, ch)"
    and "\<And>p. item_total items p = requested lines p"
    and "t_stocks d4 = t_stocks d3" and "t_movements d4 = t_movements d3"
    and "\<forall>x \<in> set (t_movements d). \<not> is_sale_of ev m (map oi_id items) x"
    and "\<forall>x \<in> set (t_movements d). \<forall>k \<ge> serial d2. mv_reversesMovementId x \<noteq> Some (env_uuid e k)"
    and "reverseSales e' d4 ev m oid' (map oi_id items) actor' reason = Inr (d5, ch')"
  shows "map (\<lambda>s. (stock_key s, st_stockQuantity s)) (t_stocks d5) = map (\<lambda>s. (stock_key s, st_stockQuantity s)) (t_stocks d)"
  using sale_then_reversal [OF assms] by (simp add: quantities_def)

lemma sale_reversed_restores_witness:
  "succeeds_with (\<lambda>(d5, ch). map st_stockQuantity (t_stocks d5) = [10])
     (bind_res (reserveSale sample_db ''e'' LIVE [beer_line 3]) (\<lambda>(d1, rs).
      bind_res (recordSales run_env d1 ''e'' LIVE ''o'' ''u'' rs [beer_item 3]) (\<lambda>(d3, ch).
      reverseSales run_env d3 ''e'' LIVE ''o'' [''i''] ''u'' ''broken'')))"
proof -
  let ?run = "bind_res (reserveSale sample_db ''e'' LIVE [beer_line 3]) (\<lambda>(d1, rs).
      bind_res (recordSales run_env d1 ''e'' LIVE ''o'' ''u'' rs [beer_item 3]) (\<lambda>(d3, ch).
      reverseSales run_env d3 ''e'' LIVE ''o'' [''i''] ''u'' ''broken''))"
  have "succeeds_with (\<lambda>_. True) ?run" by code_simp
  then obtain d5 ch' where run: "?run = Inr (d5, ch')" by (auto elim!: succeeds_withE)
  then obtain d1 rs d3 ch where s: "reserveSale sample_db ''e'' LIVE [beer_line 3] = Inr (d1, rs)"
    "recordSales run_env d1 ''e'' LIVE ''o'' ''u'' rs [beer_item 3] = Inr (d3, ch)"
    "reverseSales run_env d3 ''e'' LIVE ''o'' [''i''] ''u'' ''broken'' = Inr (d5, ch')"
    by (auto simp: res_simps)
  have mv: "t_movements d1 = t_movements sample_db"
    using reserveSale_effect(1) [OF s(1) sample_distinct] ledger_okD(2) [OF sample_ledger_ok]
    by (simp add: nonneg_stocks_def)
  have ids: "map oi_id [beer_item 3] = [''i'']" by (simp add: beer_item_def)
  have same: "item_total [beer_item 3] p = requested [beer_line 3] p" for p
    by (simp add: item_total_def requested_def beer_item_def beer_line_def)
  have "map (\<lambda>s. (stock_key s, st_stockQuantity s)) (t_stocks d5)
      = map (\<lambda>s. (stock_key s, st_stockQuantity s)) (t_stocks sample_db)"
    by (rule sale_reversed_restores [OF sample_ledger_ok s(1) refl mv s(2) same refl refl _ _ s(3) [folded ids]])
       (simp_all add: sample_db_def sample_movement_def is_sale_of_def)
  then show ?thesis unfolding run
    by (auto simp: succeeds_with_def sample_db_def sample_stock_def)
qed

text \<open>
  Reversing the sales of an order is idempotent: whatever a first reversal did, a second one of the same
  positions, by anyone and for any reason, changes nothing and reports no change.
\<close>

theorem reversal_happens_once:
  assumes "distinct (map stock_key (t_stocks d))" and "reverseSales e d ev m oid ids actor reason = Inr (d', ch)"
  shows "reverseSales e' d' ev m oid' ids actor' reason' = Inr (d', [])"
  using reverseSales_again [OF assms(2,1)] .

definition sample_sold :: db where
  "sample_sold = result_of sample_db (bind_res (reserveSale sample_db ''e'' LIVE [beer_line 3]) (\<lambda>(d1, rs).
      bind_res (recordSales run_env d1 ''e'' LIVE ''o'' ''u'' rs [beer_item 3]) (\<lambda>(d3, ch). Inr d3)))"

lemma reversal_happens_once_witness:
  "succeeds_with (\<lambda>(d', ch). length ch = 1 \<and> reverseSales run_env d' ''e'' LIVE ''o'' [''i''] ''v'' ''again'' = Inr (d', []))
     (reverseSales run_env sample_sold ''e'' LIVE ''o'' [''i''] ''u'' ''broken'')"
proof -
  have "succeeds_with (\<lambda>(d', ch). length ch = 1) (reverseSales run_env sample_sold ''e'' LIVE ''o'' [''i''] ''u'' ''broken'')"
    by code_simp
  then obtain d' ch where run: "reverseSales run_env sample_sold ''e'' LIVE ''o'' [''i''] ''u'' ''broken'' = Inr (d', ch)"
    and ch: "length ch = 1" by (auto elim!: succeeds_withE)
  have "distinct (map stock_key (t_stocks sample_sold))" by code_simp
  from reversal_happens_once [OF this run] ch show ?thesis unfolding run by (simp add: succeeds_with_def)
qed

section \<open>Initialisation, correction, settings\<close>

text \<open>
  An initialisation or correction keeps every stock equal to the sum of its ledger rows and non-negative,
  and sending the same request again returns the same answer and changes nothing, also when other users retry it.
\<close>

theorem stock_mutation_safe:
  assumes "ledger_ok (t_stocks d) (t_movements d)" and "0 \<le> mi_quantity i"
    and "mutate e d p i u ty = Inr (d', f)"
  shows "ledger_ok (t_stocks d') (t_movements d') \<and> mutate e d' p i u2 ty = Inr (d', f)"
proof -
  from assms(3) obtain d1 pr s replay where tx: "mutate_tx e d p i u ty = Inr (d1, pr, s, replay)"
    and tables: "t_stocks d' = t_stocks d1 \<and> t_movements d' = t_movements d1"
    by (auto simp: mutate_def res_simps frame_simps split: option.splits if_splits)
  from mutate_tx_keeps_ledger [OF assms(1,2) tx] tables mutate_replays [OF assms(3)] show ?thesis by simp
qed

definition sample_correction :: mutate_input where
  "sample_correction = \<lparr>mi_eventId = ''e'', mi_dataMode = LIVE, mi_quantity = 7, mi_lowStockThreshold = 0,
     mi_trackingEnabled = None, mi_manualBlocked = None, mi_reason = Some ''count'', mi_idempotencyKey = ''c1''\<rparr>"

lemma stock_mutation_safe_witness:
  "succeeds_with (\<lambda>(d', f). ledger_ok (t_stocks d') (t_movements d') \<and> sf_stockQuantity f = Some 7 \<and>
       mutate run_env d' ''b'' sample_correction ''v'' MT_CORRECTION = Inr (d', f))
     (mutate run_env sample_db ''b'' sample_correction ''u'' MT_CORRECTION)"
proof -
  have "succeeds_with (\<lambda>(d', f). sf_stockQuantity f = Some 7) (mutate run_env sample_db ''b'' sample_correction ''u'' MT_CORRECTION)"
    by code_simp
  then obtain d' f where run: "mutate run_env sample_db ''b'' sample_correction ''u'' MT_CORRECTION = Inr (d', f)"
    and f: "sf_stockQuantity f = Some 7" by (auto elim!: succeeds_withE)
  have "0 \<le> mi_quantity sample_correction" by (simp add: sample_correction_def)
  from stock_mutation_safe [OF sample_ledger_ok this run] f show ?thesis
    unfolding run by (simp add: succeeds_with_def)
qed

end
