(* ===== verification/VO_OptionGroups.thy ===== *)
theory VO_OptionGroups
  imports VO_Data
begin

text \<open>
  The option groups of a product, \<^verbatim>\<open>apps/backend/src/products/product-option-groups.ts\<close>: the checks on
  the payload and the reconciliation of the stored groups with it. The two partial unique indexes of
  the migration (one ABSOLUTE group and one tile group per product) are part of the model: every
  write checks them, as PostgreSQL does per statement.
\<close>

record option_input =
  oin_id :: "id option"
  oin_name :: string
  oin_priceEffect :: int
  oin_isActive :: "bool option"
  oin_sortOrder :: int

record group_input =
  gin_id :: "id option"
  gin_name :: string
  gin_selectionType :: selection_type
  gin_isRequired :: bool
  gin_minSelect :: int
  gin_maxSelect :: "int option"
  gin_priceMode :: price_mode
  gin_quickSaleTiles :: bool
  gin_sortOrder :: int
  gin_options :: "option_input list"

abbreviation MAX_GROUPS_PER_PRODUCT :: nat where "MAX_GROUPS_PER_PRODUCT \<equiv> 10"
abbreviation MAX_OPTIONS_PER_GROUP :: nat where "MAX_OPTIONS_PER_GROUP \<equiv> 20"
abbreviation MAX_PRICE_EFFECT :: int where "MAX_PRICE_EFFECT \<equiv> 1000000"

definition isActiveOption :: "option_input \<Rightarrow> bool" where
  "isActiveOption o' \<longleftrightarrow> oin_isActive o' \<noteq> Some False"

section \<open>Checking the payload\<close>

definition check_option :: "string list \<times> int \<Rightarrow> option_input \<Rightarrow> api_error + string list \<times> int" where
  "check_option = (\<lambda>(names, active) o'.
     bind_res (ensure (js_trim (oin_name o') \<noteq> []) (BadRequest ''OPTION_NAME_EMPTY'')) (\<lambda>_.
     bind_res (ensure (js_trim (oin_name o') \<notin> set names) (BadRequest ''OPTION_NAME_TWICE'')) (\<lambda>_.
     bind_res (ensure (0 \<le> oin_sortOrder o') (BadRequest ''OPTION_SORT'')) (\<lambda>_.
     bind_res (ensure (- MAX_PRICE_EFFECT \<le> oin_priceEffect o' \<and> oin_priceEffect o' \<le> MAX_PRICE_EFFECT)
                (BadRequest ''OPTION_PRICE'')) (\<lambda>_.
     Inr (js_trim (oin_name o') # names, active + (if isActiveOption o' then 1 else 0)))))))"

record payload_check =
  pc_groupNames :: "string list"
  pc_absoluteGroupCount :: int
  pc_quickSaleGroupCount :: int
  pc_quickSaleGroupIsAbsolute :: bool

definition check_bounds :: "group_input \<Rightarrow> api_error + unit" where
  "check_bounds g =
     bind_res (ensure (length (gin_options g) \<le> MAX_OPTIONS_PER_GROUP) (BadRequest ''TOO_MANY_OPTIONS'')) (\<lambda>_.
     bind_res (ensure (0 \<le> gin_sortOrder g) (BadRequest ''GROUP_SORT'')) (\<lambda>_.
     bind_res (ensure (0 \<le> gin_minSelect g) (BadRequest ''MIN_SELECT'')) (\<lambda>_.
     bind_res (ensure (case gin_maxSelect g of None \<Rightarrow> True | Some m \<Rightarrow> 1 \<le> m) (BadRequest ''MAX_SELECT'')) (\<lambda>_.
     bind_res (ensure (case gin_maxSelect g of None \<Rightarrow> True | Some m \<Rightarrow> gin_minSelect g \<le> m)
                (BadRequest ''MAX_BELOW_MIN'')) (\<lambda>_.
     ensure (gin_selectionType g = SINGLE \<longrightarrow> gin_maxSelect g = Some 1 \<and> gin_minSelect g \<le> 1)
       (BadRequest ''SINGLE_AT_MOST_ONE''))))))"

definition check_modes :: "payload_check \<Rightarrow> group_input \<Rightarrow> api_error + payload_check" where
  "check_modes c g =
     (let required = 1 \<le> gin_minSelect g; single = gin_selectionType g = SINGLE; absolute = gin_priceMode g = ABSOLUTE in
      bind_res (ensure (absolute \<longrightarrow> single \<and> required) (BadRequest ''ABSOLUTE_NEEDS_SINGLE_REQUIRED'')) (\<lambda>_.
      bind_res (ensure (absolute \<longrightarrow> list_all (\<lambda>o'. 0 \<le> oin_priceEffect o') (gin_options g))
                 (BadRequest ''ABSOLUTE_NEGATIVE'')) (\<lambda>_.
      bind_res (ensure (gin_quickSaleTiles g \<longrightarrow> single \<and> required) (BadRequest ''TILES_NEED_SINGLE_REQUIRED'')) (\<lambda>_.
      Inr (c\<lparr>pc_absoluteGroupCount := pc_absoluteGroupCount c + (if absolute then 1 else 0),
             pc_quickSaleGroupCount := pc_quickSaleGroupCount c + (if gin_quickSaleTiles g then 1 else 0),
             pc_quickSaleGroupIsAbsolute :=
               (if gin_quickSaleTiles g then absolute else pc_quickSaleGroupIsAbsolute c)\<rparr>)))))"

definition check_group :: "payload_check \<Rightarrow> group_input \<Rightarrow> api_error + payload_check" where
  "check_group c g =
     bind_res (ensure (js_trim (gin_name g) \<noteq> []) (BadRequest ''GROUP_NAME_EMPTY'')) (\<lambda>_.
     bind_res (ensure (js_trim (gin_name g) \<notin> set (pc_groupNames c)) (BadRequest ''GROUP_NAME_TWICE'')) (\<lambda>_.
     bind_res (check_bounds g) (\<lambda>_.
     bind_res (fold_res check_option ([], 0) (gin_options g)) (\<lambda>(_, active).
     bind_res (ensure (active \<noteq> 0) (BadRequest ''NO_ACTIVE_OPTION'')) (\<lambda>_.
     bind_res (ensure (case gin_maxSelect g of None \<Rightarrow> True | Some m \<Rightarrow> m \<le> active)
                (BadRequest ''MAX_ABOVE_OPTIONS'')) (\<lambda>_.
     check_modes (c\<lparr>pc_groupNames := js_trim (gin_name g) # pc_groupNames c\<rparr>) g))))))"

definition validateOptionGroupsPayload :: "group_input list \<Rightarrow> api_error + unit" where
  "validateOptionGroupsPayload groups =
     bind_res (ensure (length groups \<le> MAX_GROUPS_PER_PRODUCT) (BadRequest ''TOO_MANY_GROUPS'')) (\<lambda>_.
     bind_res (fold_res check_group \<lparr>pc_groupNames = [], pc_absoluteGroupCount = 0,
                 pc_quickSaleGroupCount = 0, pc_quickSaleGroupIsAbsolute = False\<rparr> groups) (\<lambda>c.
     bind_res (ensure (pc_absoluteGroupCount c \<le> 1) (BadRequest ''ONE_ABSOLUTE'')) (\<lambda>_.
     bind_res (ensure (pc_quickSaleGroupCount c \<le> 1) (BadRequest ''ONE_TILE_GROUP'')) (\<lambda>_.
     ensure (\<not> (pc_absoluteGroupCount c > 0 \<and> pc_quickSaleGroupCount c = 1 \<and> \<not> pc_quickSaleGroupIsAbsolute c))
       (BadRequest ''TILES_ON_ABSOLUTE'')))))"

section \<open>Writing the rows\<close>

definition is_absolute :: "option_group \<Rightarrow> bool" where
  "is_absolute g \<longleftrightarrow> og_priceMode g = ABSOLUTE"

text \<open>The two partial unique indexes, checked after each statement.\<close>

definition group_write :: "option_group list \<Rightarrow> api_error + option_group list" where
  "group_write rows =
     (if 1 < count_where is_absolute rows then Inl (UniqueViolation ''ProductOptionGroup_productId_absolute_key'')
      else if 1 < count_where og_quickSaleTiles rows
        then Inl (UniqueViolation ''ProductOptionGroup_productId_quickSaleTiles_key'')
      else Inr rows)"

definition option_row :: "id \<Rightarrow> option_input \<Rightarrow> poption" where
  "option_row i o' = \<lparr>op_id = i, op_name = js_trim (oin_name o'), op_priceEffect = oin_priceEffect o',
     op_isActive = (case oin_isActive o' of None \<Rightarrow> True | Some b \<Rightarrow> b), op_sortOrder = oin_sortOrder o'\<rparr>"

definition group_row :: "id \<Rightarrow> group_input \<Rightarrow> poption list \<Rightarrow> option_group" where
  "group_row i g os = \<lparr>og_id = i, og_name = js_trim (gin_name g), og_selectionType = gin_selectionType g,
     og_isRequired = (1 \<le> gin_minSelect g), og_minSelect = gin_minSelect g, og_maxSelect = gin_maxSelect g,
     og_priceMode = gin_priceMode g, og_quickSaleTiles = gin_quickSaleTiles g,
     og_sortOrder = gin_sortOrder g, og_options = os\<rparr>"

definition save_option :: "env \<Rightarrow> poption list \<times> nat \<Rightarrow> option_input \<Rightarrow> api_error + poption list \<times> nat" where
  "save_option e = (\<lambda>(os, n) o'. case truthy (oin_id o') of
     Some i \<Rightarrow> if list_ex (\<lambda>x. op_id x = i) os
               then Inr (update_where (\<lambda>x. op_id x = i) (\<lambda>_. option_row i o') os, n)
               else Inl (NotFound ''P2025'')
   | None \<Rightarrow> Inr (os @ [option_row (env_uuid e n) o'], Suc n))"

definition create_options :: "env \<Rightarrow> nat \<Rightarrow> option_input list \<Rightarrow> poption list" where
  "create_options e n os = map (\<lambda>(k, o'). option_row (env_uuid e k) o') (zip [n..<n + length os] os)"

definition given_ids :: "('a \<Rightarrow> id option) \<Rightarrow> 'a list \<Rightarrow> id list" where
  "given_ids f xs = List.map_filter (\<lambda>x. truthy (f x)) xs"

definition save_group ::
  "env \<Rightarrow> option_group list \<Rightarrow> option_group list \<times> nat \<Rightarrow> group_input \<Rightarrow> api_error + option_group list \<times> nat" where
  "save_group e existing = (\<lambda>(rows, n) g. case truthy (gin_id g) of
     Some gid \<Rightarrow>
       bind_res (need (find (\<lambda>r. og_id r = gid) existing) (TypeError ''existingGroup'')) (\<lambda>old.
       bind_res (ensure (list_all (\<lambda>i. i \<in> op_id ` set (og_options old)) (given_ids oin_id (gin_options g)))
                  (BadRequest ''OPTION_NOT_IN_GROUP'')) (\<lambda>_.
       bind_res (need (find (\<lambda>r. og_id r = gid) rows) (NotFound ''P2025'')) (\<lambda>cur.
       bind_res (group_write (update_where (\<lambda>r. og_id r = gid) (\<lambda>r. group_row gid g (og_options r)) rows)) (\<lambda>rows1.
       let kept = filter (\<lambda>o'. \<not> (op_id o' \<in> op_id ` set (og_options old) \<and>
                                  op_id o' \<notin> set (given_ids oin_id (gin_options g)))) (og_options cur) in
       bind_res (fold_res (save_option e) (kept, n) (gin_options g)) (\<lambda>(os, n').
       Inr (update_where (\<lambda>r. og_id r = gid) (\<lambda>r. r\<lparr>og_options := os\<rparr>) rows1, n'))))))
   | None \<Rightarrow>
       bind_res (ensure (given_ids oin_id (gin_options g) = []) (BadRequest ''OPTION_NOT_IN_GROUP'')) (\<lambda>_.
       bind_res (group_write (rows @ [group_row (env_uuid e n) g (create_options e (Suc n) (gin_options g))])) (\<lambda>rows1.
       Inr (rows1, n + 1 + length (gin_options g)))))"

text \<open>Kept groups first lose both marks, so that the order of the payload cannot violate an index.\<close>

definition neutral_group :: "option_group \<Rightarrow> option_group" where
  "neutral_group r = r\<lparr>og_priceMode := SURCHARGE, og_quickSaleTiles := False\<rparr>"

definition saveOptionGroups ::
  "env \<Rightarrow> option_group list \<times> nat \<Rightarrow> group_input list \<Rightarrow> api_error + option_group list \<times> nat" where
  "saveOptionGroups e = (\<lambda>(existing, n) groups.
     bind_res (validateOptionGroupsPayload groups) (\<lambda>_.
     let ids = given_ids gin_id groups in
     bind_res (ensure (list_all (\<lambda>i. i \<in> og_id ` set existing) ids) (BadRequest ''GROUP_NOT_IN_PRODUCT'')) (\<lambda>_.
     bind_res (group_write (filter (\<lambda>r. og_id r \<in> set ids) existing)) (\<lambda>kept.
     bind_res (group_write (update_where (\<lambda>r. og_id r \<in> set ids) neutral_group kept)) (\<lambda>neutral.
     fold_res (save_group e existing) (neutral, n) groups)))))"

section \<open>What a valid payload guarantees\<close>

definition input_absolute :: "group_input \<Rightarrow> bool" where
  "input_absolute g \<longleftrightarrow> gin_priceMode g = ABSOLUTE"

definition input_bounds :: "group_input \<Rightarrow> bool" where
  "input_bounds g \<longleftrightarrow> 0 \<le> gin_minSelect g \<and> (case gin_maxSelect g of None \<Rightarrow> True | Some m \<Rightarrow> 1 \<le> m) \<and>
     (gin_selectionType g = SINGLE \<longrightarrow> gin_maxSelect g = Some 1)"

lemma check_modes_Inr:
  "check_modes c g = Inr c' \<Longrightarrow>
   pc_absoluteGroupCount c' = pc_absoluteGroupCount c + (if input_absolute g then 1 else 0) \<and>
   pc_quickSaleGroupCount c' = pc_quickSaleGroupCount c + (if gin_quickSaleTiles g then 1 else 0) \<and>
   (input_absolute g \<longrightarrow> gin_selectionType g = SINGLE \<and> 1 \<le> gin_minSelect g)"
  by (auto simp: check_modes_def Let_def res_simps input_absolute_def)

lemma check_group_Inr:
  assumes "check_group c g = Inr c'"
  shows "pc_absoluteGroupCount c' = pc_absoluteGroupCount c + (if input_absolute g then 1 else 0)"
    and "pc_quickSaleGroupCount c' = pc_quickSaleGroupCount c + (if gin_quickSaleTiles g then 1 else 0)"
    and "input_absolute g \<Longrightarrow> gin_maxSelect g = Some 1 \<and> gin_minSelect g = 1"
    and "input_bounds g"
  using assms
  by (auto simp: check_group_def check_bounds_def input_bounds_def res_simps split: option.splits dest!: check_modes_Inr)

lemma check_groups_count:
  "fold_res check_group c groups = Inr c' \<Longrightarrow>
   pc_absoluteGroupCount c' = pc_absoluteGroupCount c + int (count_where input_absolute groups) \<and>
   pc_quickSaleGroupCount c' = pc_quickSaleGroupCount c + int (count_where gin_quickSaleTiles groups) \<and>
   (\<forall>g \<in> set groups. input_bounds g \<and> (input_absolute g \<longrightarrow> gin_maxSelect g = Some 1 \<and> gin_minSelect g = 1))"
proof (induction groups arbitrary: c)
  case Nil
  then show ?case by (simp add: count_where_def)
next
  case (Cons g groups)
  from Cons.prems obtain c1 where g: "check_group c g = Inr c1" and r: "fold_res check_group c1 groups = Inr c'"
    by (auto simp: res_simps)
  from Cons.IH [OF r] check_group_Inr [OF g] show ?case by (auto simp: count_where_def)
qed

lemma valid_payload:
  assumes "validateOptionGroupsPayload groups = Inr u"
  shows "count_where input_absolute groups \<le> 1" and "count_where gin_quickSaleTiles groups \<le> 1"
    and "\<And>g. g \<in> set groups \<Longrightarrow> input_bounds g"
    and "\<And>g. g \<in> set groups \<Longrightarrow> input_absolute g \<Longrightarrow> gin_maxSelect g = Some 1 \<and> gin_minSelect g = 1"
proof -
  from assms obtain c where "fold_res check_group \<lparr>pc_groupNames = [], pc_absoluteGroupCount = 0,
      pc_quickSaleGroupCount = 0, pc_quickSaleGroupIsAbsolute = False\<rparr> groups = Inr c"
    and b: "pc_absoluteGroupCount c \<le> 1" "pc_quickSaleGroupCount c \<le> 1"
    by (auto simp: validateOptionGroupsPayload_def res_simps)
  from check_groups_count [OF this(1)] b
  show "count_where input_absolute groups \<le> 1" "count_where gin_quickSaleTiles groups \<le> 1"
    "\<And>g. g \<in> set groups \<Longrightarrow> input_bounds g"
    "\<And>g. g \<in> set groups \<Longrightarrow> input_absolute g \<Longrightarrow> gin_maxSelect g = Some 1 \<and> gin_minSelect g = 1"
    by auto
qed

lemma validate_no_unique: "validateOptionGroupsPayload groups \<noteq> Inl (UniqueViolation m)"
proof -
  have opt: "fold_res check_option st os \<noteq> Inl (UniqueViolation m)" for st os
    by (induction os arbitrary: st) (auto simp: bind_res_Inl_iff check_option_def ensure_Inl_iff split: prod.splits)
  have "check_group c g \<noteq> Inl (UniqueViolation m)" for c g
    using opt by (auto simp: bind_res_Inl_iff check_group_def check_bounds_def check_modes_def Let_def ensure_Inl_iff
        split: prod.splits)
  then have "fold_res check_group c gs \<noteq> Inl (UniqueViolation m)" for c gs
    by (induction gs arbitrary: c) (auto simp: bind_res_Inl_iff)
  then show ?thesis by (auto simp: validateOptionGroupsPayload_def bind_res_Inl_iff ensure_Inl_iff)
qed

section \<open>Saving never meets a unique index, and leaves well-formed groups\<close>

definition group_wf :: "option_group \<Rightarrow> bool" where
  "group_wf r \<longleftrightarrow> 0 \<le> og_minSelect r \<and> (case og_maxSelect r of None \<Rightarrow> True | Some m \<Rightarrow> 1 \<le> m) \<and>
     (og_selectionType r = SINGLE \<longrightarrow> og_maxSelect r = Some 1) \<and> (is_absolute r \<longrightarrow> og_maxSelect r = Some 1 \<and> og_minSelect r = 1)"

lemma count_where_append [simp]: "count_where c (xs @ ys) = count_where c xs + count_where c ys"
  by (simp add: count_where_def)

lemma count_where_Cons: "count_where c (x # xs) = (if c x then 1 else 0) + count_where c xs"
  by (simp add: count_where_def)

lemma count_where_filter_le: "count_where c (filter q rows) \<le> count_where c rows"
  by (induction rows) (auto simp: count_where_def)

text \<open>Writing one keyed row raises a count by at most the mark it brings.\<close>

lemma count_where_update:
  assumes "distinct (map k rows)" and "\<And>r. k r = i \<Longrightarrow> c (f r) = b"
  shows "count_where c (update_where (\<lambda>r. k r = i) f rows) \<le> count_where c rows + (if b then 1 else 0)"
  using assms
proof (induction rows)
  case Nil
  then show ?case by (simp add: count_where_def update_where_def)
next
  case (Cons r rows)
  show ?case
  proof (cases "k r = i")
    case True
    with Cons.prems(1) have "k x \<noteq> i" if "x \<in> set rows" for x
      using imageI [OF that, of k] by auto
    then have "update_where (\<lambda>r. k r = i) f rows = rows" by (intro update_where_none) auto
    with True Cons.prems(2) [of r] show ?thesis by (simp add: update_where_def count_where_Cons)
  next
    case False
    with Cons show ?thesis by (simp add: update_where_def count_where_Cons)
  qed
qed

definition group_ids_distinct :: "option_group list \<Rightarrow> bool" where
  "group_ids_distinct rows \<longleftrightarrow> distinct (map og_id rows)"

text \<open>Ids drawn from the supply are new to the rows.\<close>

definition supply_fresh :: "env \<Rightarrow> option_group list \<Rightarrow> nat \<Rightarrow> bool" where
  "supply_fresh e rows n \<longleftrightarrow> inj (env_uuid e) \<and> (\<forall>k \<ge> n. env_uuid e k \<notin> og_id ` set rows)"

lemma save_option_serial: "fold_res (save_option e) (os, n) xs = Inr (os', n') \<Longrightarrow> n \<le> n'"
proof (induction xs arbitrary: os n)
  case Nil
  then show ?case by simp
next
  case (Cons x xs)
  from Cons.prems obtain o1 n1 where s: "save_option e (os, n) x = Inr (o1, n1)"
    and r: "fold_res (save_option e) (o1, n1) xs = Inr (os', n')" by (auto simp: res_simps)
  from s have "n \<le> n1" by (auto simp: save_option_def split: option.splits if_splits)
  with Cons.IH [OF r] show ?case by simp
qed

lemma group_write_Inr: "group_write rows = Inr rows' \<Longrightarrow> rows' = rows"
  by (auto simp: group_write_def split: if_splits)

lemma group_write_ok:
  "count_where is_absolute rows \<le> 1 \<Longrightarrow> count_where og_quickSaleTiles rows \<le> 1 \<Longrightarrow> group_write rows = Inr rows"
  by (simp add: group_write_def)

lemma group_row_simps [simp]:
  "og_id (group_row i g os) = i" "is_absolute (group_row i g os) = input_absolute g"
  "og_quickSaleTiles (group_row i g os) = gin_quickSaleTiles g"
  "og_options (group_row i g os) = os"
  by (simp_all add: group_row_def is_absolute_def input_absolute_def)

lemma group_row_wf:
  "input_bounds g \<Longrightarrow> (input_absolute g \<Longrightarrow> gin_maxSelect g = Some 1 \<and> gin_minSelect g = 1) \<Longrightarrow>
   group_wf (group_row i g os)"
  by (auto simp: group_wf_def input_bounds_def) (simp_all add: group_row_def)

definition save_inv :: "env \<Rightarrow> option_group list \<Rightarrow> nat \<Rightarrow> nat \<Rightarrow> nat \<Rightarrow> bool" where
  "save_inv e rows n a t \<longleftrightarrow> group_ids_distinct rows \<and> supply_fresh e rows n \<and>
     count_where is_absolute rows \<le> a \<and> count_where og_quickSaleTiles rows \<le> t"

lemma options_update_counts:
  "map og_id (update_where c (\<lambda>r. r\<lparr>og_options := os\<rparr>) rows) = map og_id rows"
  "count_where is_absolute (update_where c (\<lambda>r. r\<lparr>og_options := os\<rparr>) rows) = count_where is_absolute rows"
  "count_where og_quickSaleTiles (update_where c (\<lambda>r. r\<lparr>og_options := os\<rparr>) rows) = count_where og_quickSaleTiles rows"
  by (induction rows) (auto simp: update_where_def count_where_def is_absolute_def)

lemma group_update_counts:
  assumes "group_ids_distinct rows"
  shows "count_where is_absolute (update_where (\<lambda>r. og_id r = i) (\<lambda>r. group_row i g (og_options r)) rows)
      \<le> count_where is_absolute rows + (if input_absolute g then 1 else 0)"
    and "count_where og_quickSaleTiles (update_where (\<lambda>r. og_id r = i) (\<lambda>r. group_row i g (og_options r)) rows)
      \<le> count_where og_quickSaleTiles rows + (if gin_quickSaleTiles g then 1 else 0)"
    and "map og_id (update_where (\<lambda>r. og_id r = i) (\<lambda>r. group_row i g (og_options r)) rows) = map og_id rows"
  using assms count_where_update [of og_id rows i is_absolute "\<lambda>r. group_row i g (og_options r)" "input_absolute g"]
    count_where_update [of og_id rows i og_quickSaleTiles "\<lambda>r. group_row i g (og_options r)" "gin_quickSaleTiles g"]
  by (simp_all add: group_ids_distinct_def map_update_where_frame)

lemma save_group_step:
  assumes inv: "save_inv e rows n a t"
    and a: "a + (if input_absolute g then 1 else 0) \<le> 1" and t: "t + (if gin_quickSaleTiles g then 1 else 0) \<le> 1"
    and wf: "input_bounds g" "input_absolute g \<Longrightarrow> gin_maxSelect g = Some 1 \<and> gin_minSelect g = 1"
  shows "(\<forall>m. save_group e existing (rows, n) g \<noteq> Inl (UniqueViolation m)) \<and>
    (\<forall>rows' n'. save_group e existing (rows, n) g = Inr (rows', n') \<longrightarrow>
       save_inv e rows' n' (a + (if input_absolute g then 1 else 0)) (t + (if gin_quickSaleTiles g then 1 else 0)) \<and>
       (\<forall>r' \<in> set rows'. group_wf r' \<or> (\<exists>r \<in> set rows. r = r' \<and> Some (og_id r) \<noteq> truthy (gin_id g))) \<and>
       og_id ` set rows' = og_id ` set rows \<union> (if truthy (gin_id g) = None then {env_uuid e n} else {}))"
proof (cases "truthy (gin_id g)")
  case None
  let ?new = "group_row (env_uuid e n) g (create_options e (Suc n) (gin_options g))"
  have new: "env_uuid e n \<notin> og_id ` set rows" using inv by (auto simp: save_inv_def supply_fresh_def)
  have w: "group_write (rows @ [?new]) = Inr (rows @ [?new])"
    using inv a t by (intro group_write_ok) (auto simp: save_inv_def count_where_Cons count_where_def)
  have inv': "save_inv e (rows @ [?new]) (n + 1 + length (gin_options g))
      (a + (if input_absolute g then 1 else 0)) (t + (if gin_quickSaleTiles g then 1 else 0))"
    using inv new by (auto simp: save_inv_def group_ids_distinct_def supply_fresh_def count_where_def inj_eq)
  show ?thesis
    using None w inv' group_row_wf [OF wf]
    by (auto simp: save_group_def bind_res_Inl_iff res_simps ensure_Inl_iff)
next
  case (Some gid)
  let ?rows1 = "update_where (\<lambda>r. og_id r = gid) (\<lambda>r. group_row gid g (og_options r)) rows"
  have dist: "group_ids_distinct rows" using inv by (simp add: save_inv_def)
  note C = group_update_counts [OF dist, of gid g]
  have w: "group_write ?rows1 = Inr ?rows1"
    using inv a t C by (intro group_write_ok) (auto simp: save_inv_def)
  have opt: "fold_res (save_option e) (os, n) xs \<noteq> Inl (UniqueViolation m)" for os n xs m
  proof (induction xs arbitrary: os n)
    case (Cons x xs)
    then show ?case
      by (auto simp: bind_res_Inl_iff save_option_def split: option.splits if_splits prod.splits)
  qed simp
  have uv: "save_group e existing (rows, n) g \<noteq> Inl (UniqueViolation m)" for m
    using Some w opt by (auto simp: save_group_def Let_def bind_res_Inl_iff ensure_Inl_iff need_Inl_iff)
  have inv': "save_inv e (update_where (\<lambda>r. og_id r = gid) (\<lambda>r. r\<lparr>og_options := os\<rparr>) ?rows1) n'
      (a + (if input_absolute g then 1 else 0)) (t + (if gin_quickSaleTiles g then 1 else 0))"
    and wf': "\<forall>r' \<in> set (update_where (\<lambda>r. og_id r = gid) (\<lambda>r. r\<lparr>og_options := os\<rparr>) ?rows1).
      group_wf r' \<or> (\<exists>r \<in> set rows. r = r' \<and> og_id r \<noteq> gid)"
    and ids: "og_id ` set (update_where (\<lambda>r. og_id r = gid) (\<lambda>r. r\<lparr>og_options := os\<rparr>) ?rows1) = og_id ` set rows"
    if n': "n \<le> n'" for os n'
  proof -
    let ?rows2 = "update_where (\<lambda>r. og_id r = gid) (\<lambda>r. r\<lparr>og_options := os\<rparr>) ?rows1"
    have ids_eq: "map og_id ?rows2 = map og_id rows" using C(3) by (simp add: options_update_counts)
    show ids: "og_id ` set ?rows2 = og_id ` set rows" using arg_cong [OF ids_eq, of set] by simp
    show "save_inv e ?rows2 n' (a + (if input_absolute g then 1 else 0)) (t + (if gin_quickSaleTiles g then 1 else 0))"
      using inv C n' ids_eq ids
      by (auto simp: save_inv_def group_ids_distinct_def supply_fresh_def options_update_counts)
    have g: "group_wf ((group_row gid g x)\<lparr>og_options := os\<rparr>)" for x
      using group_row_wf [OF wf, of gid os] by (simp add: group_row_def)
    show "\<forall>r' \<in> set ?rows2. group_wf r' \<or> (\<exists>r \<in> set rows. r = r' \<and> og_id r \<noteq> gid)"
    proof
      fix r' assume "r' \<in> set ?rows2"
      then obtain r where r: "r \<in> set rows" "r' = (let x = if og_id r = gid then group_row gid g (og_options r) else r
          in if og_id x = gid then x\<lparr>og_options := os\<rparr> else x)"
        unfolding set_update_where Let_def by blast
      have "og_id r = gid \<longrightarrow> r' = (group_row gid g (og_options r))\<lparr>og_options := os\<rparr>" "og_id r \<noteq> gid \<longrightarrow> r' = r"
        unfolding r(2) by simp_all
      with g r(1) show "group_wf r' \<or> (\<exists>r \<in> set rows. r = r' \<and> og_id r \<noteq> gid)" by (cases "og_id r = gid") auto
    qed
  qed
  have res: "\<exists>os. n \<le> n' \<and> rows' = update_where (\<lambda>r. og_id r = gid) (\<lambda>r. r\<lparr>og_options := os\<rparr>) ?rows1"
    if "save_group e existing (rows, n) g = Inr (rows', n')" for rows' n'
    using that Some w save_option_serial by (simp add: save_group_def Let_def bind_res_Inr_iff) blast
  show ?thesis
  proof (intro conjI allI impI)
    show "save_group e existing (rows, n) g \<noteq> Inl (UniqueViolation m)" for m by (rule uv)
    fix rows' n' assume "save_group e existing (rows, n) g = Inr (rows', n')"
    from res [OF this] obtain os where le: "n \<le> n'"
      and eq: "rows' = update_where (\<lambda>r. og_id r = gid) (\<lambda>r. r\<lparr>og_options := os\<rparr>) ?rows1" by blast
    show "save_inv e rows' n' (a + (if input_absolute g then 1 else 0)) (t + (if gin_quickSaleTiles g then 1 else 0))"
      unfolding eq by (rule inv' [OF le])
    show "\<forall>r' \<in> set rows'. group_wf r' \<or> (\<exists>r \<in> set rows. r = r' \<and> Some (og_id r) \<noteq> truthy (gin_id g))"
      unfolding eq using wf' [OF le] by (simp add: Some)
    show "og_id ` set rows' = og_id ` set rows \<union> (if truthy (gin_id g) = None then {env_uuid e n} else {})"
      unfolding eq using ids [OF le] by (simp add: Some)
  qed
qed

lemma save_groups_loop:
  assumes "save_inv e rows n a t"
    and "a + count_where input_absolute groups \<le> 1" and "t + count_where gin_quickSaleTiles groups \<le> 1"
    and "\<And>g. g \<in> set groups \<Longrightarrow> input_bounds g"
    and "\<And>g. g \<in> set groups \<Longrightarrow> input_absolute g \<Longrightarrow> gin_maxSelect g = Some 1 \<and> gin_minSelect g = 1"
  shows "(\<forall>m. fold_res (save_group e existing) (rows, n) groups \<noteq> Inl (UniqueViolation m)) \<and>
    (\<forall>rows' n'. fold_res (save_group e existing) (rows, n) groups = Inr (rows', n') \<longrightarrow>
       save_inv e rows' n' 1 1 \<and>
       (\<forall>r' \<in> set rows'. group_wf r' \<or> (\<exists>r \<in> set rows. r = r' \<and> og_id r \<notin> set (given_ids gin_id groups))))"
  using assms
proof (induction groups arbitrary: rows n a t)
  case Nil
  then show ?case by (auto simp: given_ids_def map_filter_simps save_inv_def)
next
  case (Cons g groups)
  note P = Cons.prems
  have a: "a + (if input_absolute g then 1 else 0) \<le> 1" "t + (if gin_quickSaleTiles g then 1 else 0) \<le> 1"
    using P(2,3) by (auto simp: count_where_Cons)
  note S = save_group_step [OF P(1) a P(4,5), OF list.set_intros(1) list.set_intros(1)]
  have ids: "given_ids gin_id (g # groups) =
      (case truthy (gin_id g) of None \<Rightarrow> [] | Some i \<Rightarrow> [i]) @ given_ids gin_id groups"
    by (simp add: given_ids_def map_filter_simps split: option.split)
  show ?case
  proof (cases "save_group e existing (rows, n) g")
    case (Inl err)
    with S show ?thesis by auto
  next
    case (Inr st)
    obtain rows1 n1 where st: "st = (rows1, n1)" by (cases st)
    from S Inr st have S1: "save_inv e rows1 n1 (a + (if input_absolute g then 1 else 0)) (t + (if gin_quickSaleTiles g then 1 else 0))"
      "\<forall>r' \<in> set rows1. group_wf r' \<or> (\<exists>r \<in> set rows. r = r' \<and> Some (og_id r) \<noteq> truthy (gin_id g))" by auto
    have "(\<forall>m. fold_res (save_group e existing) (rows1, n1) groups \<noteq> Inl (UniqueViolation m)) \<and>
      (\<forall>rows' n'. fold_res (save_group e existing) (rows1, n1) groups = Inr (rows', n') \<longrightarrow>
       save_inv e rows' n' 1 1 \<and>
       (\<forall>r' \<in> set rows'. group_wf r' \<or> (\<exists>r \<in> set rows1. r = r' \<and> og_id r \<notin> set (given_ids gin_id groups))))"
      by (rule Cons.IH [OF S1(1)]) (use P(2-5) in \<open>auto simp: count_where_Cons\<close>)
    with Inr st S1(2) show ?thesis by (auto simp: ids split: option.splits) blast+
  qed
qed

lemma neutral_inv:
  assumes "group_ids_distinct existing" and "supply_fresh e existing n"
  shows "save_inv e (update_where (\<lambda>r. og_id r \<in> I) neutral_group (filter (\<lambda>r. og_id r \<in> I) existing)) n 0 0"
proof -
  let ?kept = "filter (\<lambda>r. og_id r \<in> I) existing"
  have rows: "update_where (\<lambda>r. og_id r \<in> I) neutral_group ?kept = map neutral_group ?kept"
    by (auto simp: update_where_def)
  have "og_id (neutral_group r) = og_id r" "\<not> is_absolute (neutral_group r)" "\<not> og_quickSaleTiles (neutral_group r)" for r
    by (simp_all add: neutral_group_def is_absolute_def)
  then show ?thesis
    using assms unfolding rows
    by (auto simp: save_inv_def group_ids_distinct_def supply_fresh_def count_where_def filter_empty_conv
        distinct_map comp_def inj_on_def image_image)
qed

text \<open>
  Saving a payload never violates one of the two partial unique indexes, whatever the order of its
  groups, and leaves at most one ABSOLUTE group and one tile group, each group well-formed.
\<close>

lemma saveOptionGroups_sound:
  assumes "group_ids_distinct existing" and "supply_fresh e existing n"
    and "count_where is_absolute existing \<le> 1" and "count_where og_quickSaleTiles existing \<le> 1"
  shows "saveOptionGroups e (existing, n) groups \<noteq> Inl (UniqueViolation m) \<and>
    (\<forall>rows n'. saveOptionGroups e (existing, n) groups = Inr (rows, n') \<longrightarrow>
      group_ids_distinct rows \<and> count_where is_absolute rows \<le> 1 \<and> count_where og_quickSaleTiles rows \<le> 1 \<and>
      (\<forall>r \<in> set rows. group_wf r))"
proof (cases "validateOptionGroupsPayload groups")
  case (Inl err)
  then have "err \<noteq> UniqueViolation m" for m
    using validate_no_unique by auto
  with Inl show ?thesis by (simp add: saveOptionGroups_def)
next
  case (Inr u)
  let ?I = "set (given_ids gin_id groups)"
  let ?kept = "filter (\<lambda>r. og_id r \<in> ?I) existing"
  let ?neutral = "update_where (\<lambda>r. og_id r \<in> ?I) neutral_group ?kept"
  have inv: "save_inv e ?neutral n 0 0" by (rule neutral_inv [OF assms(1,2)])
  have w1: "group_write ?kept = Inr ?kept"
    using assms(3,4) by (intro group_write_ok le_trans [OF count_where_filter_le])
  have w2: "group_write ?neutral = Inr ?neutral"
    using inv by (intro group_write_ok) (simp_all add: save_inv_def)
  have run: "saveOptionGroups e (existing, n) groups =
      bind_res (ensure (list_all (\<lambda>i. i \<in> og_id ` set existing) (given_ids gin_id groups)) (BadRequest ''GROUP_NOT_IN_PRODUCT''))
        (\<lambda>_. fold_res (save_group e existing) (?neutral, n) groups)"
    by (simp add: saveOptionGroups_def Inr Let_def w1 w2 cong: if_cong)
  have rid: "og_id r \<in> ?I" if "r \<in> set ?neutral" for r
    using that by (auto simp: set_update_where neutral_group_def)
  have "(\<forall>m. fold_res (save_group e existing) (?neutral, n) groups \<noteq> Inl (UniqueViolation m)) \<and>
    (\<forall>rows' n'. fold_res (save_group e existing) (?neutral, n) groups = Inr (rows', n') \<longrightarrow>
       save_inv e rows' n' 1 1 \<and>
       (\<forall>r' \<in> set rows'. group_wf r' \<or> (\<exists>r \<in> set ?neutral. r = r' \<and> og_id r \<notin> ?I)))"
    by (rule save_groups_loop [OF inv]) (use valid_payload [OF Inr] in auto)
  then have loop: "fold_res (save_group e existing) (?neutral, n) groups \<noteq> Inl (UniqueViolation m)"
    "\<And>rows' n'. fold_res (save_group e existing) (?neutral, n) groups = Inr (rows', n') \<Longrightarrow>
       save_inv e rows' n' 1 1 \<and> (\<forall>r' \<in> set rows'. group_wf r')"
    using rid by blast+
  show ?thesis
  proof (intro conjI allI impI)
    show "saveOptionGroups e (existing, n) groups \<noteq> Inl (UniqueViolation m)"
      unfolding run bind_res_Inl_iff ensure_Inl_iff using loop(1) by blast
    fix rows n' assume "saveOptionGroups e (existing, n) groups = Inr (rows, n')"
    then have "fold_res (save_group e existing) (?neutral, n) groups = Inr (rows, n')"
      unfolding run bind_res_Inr_iff by blast
    from loop(2) [OF this] show "group_ids_distinct rows" "count_where is_absolute rows \<le> 1"
      "count_where og_quickSaleTiles rows \<le> 1" "\<forall>r \<in> set rows. group_wf r"
      by (simp_all add: save_inv_def)
  qed
qed

end
