(* ===== verification/VO_Pricing.thy ===== *)
theory VO_Pricing
  imports VO_Common VO_OptionGroups
begin

text \<open>
  The input checks and the price of an order position in
  \<^verbatim>\<open>apps/backend/src/orders/orders.service.ts\<close>: \<^verbatim>\<open>validateItems\<close>, \<^verbatim>\<open>validateDepositRefundTotal\<close>,
  \<^verbatim>\<open>resolveDeposit\<close>, \<^verbatim>\<open>validatePayments\<close>, \<^verbatim>\<open>normalizeCancellationReason\<close> and
  \<^verbatim>\<open>resolveOrderItemPricing\<close>. The price is shown equal to a reference computed over the product's
  groups, and the stored snapshot to carry exactly the requested option ids.
\<close>

section \<open>Inputs\<close>

record item_input =
  ii_productId :: id
  ii_quantity :: int
  ii_optionIds :: "id list option"

record payment_input =
  pi_amount :: int
  pi_method :: payment_method

definition item_optionIds :: "item_input \<Rightarrow> id list" where
  "item_optionIds i = (case ii_optionIds i of None \<Rightarrow> [] | Some os \<Rightarrow> os)"

definition validateItems :: "item_input list \<Rightarrow> bool \<Rightarrow> api_error + int" where
  "validateItems items allowEmpty =
     bind_res (ensure (\<not> (\<not> allowEmpty \<and> items = []) \<and> length items \<le> 50)
                (Rejected RC_VALIDATION ''POSITION_COUNT'')) (\<lambda>_.
     bind_res (fold_res (\<lambda>s i. bind_res (ensure (1 \<le> ii_quantity i \<and> ii_quantity i \<le> 100 \<and>
                   length (item_optionIds i) \<le> 50) (Rejected RC_VALIDATION ''POSITION'')) (\<lambda>_.
                 Inr (s + ii_quantity i))) 0 items) (\<lambda>n.
     bind_res (ensure (n \<le> 100) (Rejected RC_VALIDATION ''TOTAL_UNITS'')) (\<lambda>_. Inr n)))"

definition validateDepositRefundTotal :: "int option \<Rightarrow> api_error + int" where
  "validateDepositRefundTotal v = (let r = (case v of None \<Rightarrow> 0 | Some n \<Rightarrow> n) in
     bind_res (ensure (0 \<le> r \<and> r \<le> int32_max) (Rejected RC_VALIDATION ''DEPOSIT_REFUND'')) (\<lambda>_. Inr r))"

definition resolveDeposit :: "product \<Rightarrow> int" where
  "resolveDeposit p = (case pd_deposit p of
     Some x \<Rightarrow> if 0 < x then x
               else (case ca_deposit (pd_category p) of Some y \<Rightarrow> if 0 < y then y else 0 | None \<Rightarrow> 0)
   | None \<Rightarrow> (case ca_deposit (pd_category p) of Some y \<Rightarrow> if 0 < y then y else 0 | None \<Rightarrow> 0))"

definition check_payment :: "int \<Rightarrow> payment_input \<Rightarrow> api_error + int" where
  "check_payment acc p =
     bind_res (ensure (0 < pi_amount p \<and> pi_amount p \<le> int32_max \<and> pi_method p \<in> {CASH, CARD})
                (Rejected RC_VALIDATION ''PAYMENT'')) (\<lambda>_.
     bind_res (ensure (is_safe_integer (acc + pi_amount p) \<and> acc + pi_amount p \<le> int32_max)
                (Rejected RC_VALIDATION ''PAYMENT_SUM'')) (\<lambda>_.
     Inr (acc + pi_amount p)))"

definition validatePayments :: "payment_input list \<Rightarrow> api_error + int" where
  "validatePayments ps =
     bind_res (ensure (length ps \<le> 50) (Rejected RC_VALIDATION ''PAYMENT_COUNT'')) (\<lambda>_.
     fold_res check_payment 0 ps)"

definition normalizeCancellationReason :: "string \<Rightarrow> api_error + string" where
  "normalizeCancellationReason reason = (let n = js_trim reason in
     bind_res (ensure (n \<noteq> [] \<and> length n \<le> 500) (BadRequest ''CANCELLATION_REASON'')) (\<lambda>_. Inr n))"

lemma sum_check_loop:
  "fold_res (\<lambda>s i. bind_res (ensure (c i) e) (\<lambda>_. Inr (s + f i))) s xs = Inr t \<longleftrightarrow>
   (\<forall>x \<in> set xs. c x) \<and> t = s + sum_list (map f xs :: int list)"
  by (induction xs arbitrary: s) (auto simp: res_simps)

lemma validateItems_Inr_iff:
  "validateItems items allowEmpty = Inr n \<longleftrightarrow> (items = [] \<longrightarrow> allowEmpty) \<and> length items \<le> 50 \<and>
     (\<forall>i \<in> set items. 1 \<le> ii_quantity i \<and> ii_quantity i \<le> 100 \<and> length (item_optionIds i) \<le> 50) \<and>
     n = sum_list (map ii_quantity items) \<and> n \<le> 100"
  by (auto simp: validateItems_def res_simps sum_check_loop)

lemma check_payment_Inr_iff:
  "0 \<le> t \<Longrightarrow> check_payment t p = Inr n \<longleftrightarrow>
   0 < pi_amount p \<and> pi_method p \<in> {CASH, CARD} \<and> t + pi_amount p \<le> int32_max \<and> n = t + pi_amount p"
  by (auto simp: check_payment_def res_simps is_safe_integer_def)

lemma check_payments_Inr_iff:
  "0 \<le> t \<Longrightarrow> fold_res check_payment t ps = Inr n \<longleftrightarrow>
     (\<forall>p \<in> set ps. 0 < pi_amount p \<and> pi_method p \<in> {CASH, CARD}) \<and>
     n = t + sum_list (map pi_amount ps) \<and> (ps \<noteq> [] \<longrightarrow> n \<le> int32_max)"
proof (induction ps arbitrary: t)
  case Nil
  then show ?case by auto
next
  case (Cons p ps)
  have nn: "0 \<le> sum_list (map pi_amount ps)" if "\<forall>p \<in> set ps. 0 < pi_amount p \<and> pi_method p \<in> {CASH, CARD}"
    using that by (intro sum_list_nonneg_int) auto
  show ?case
  proof (cases "0 < pi_amount p \<and> pi_method p \<in> {CASH, CARD} \<and> t + pi_amount p \<le> int32_max")
    case False
    then have "check_payment t p \<noteq> Inr m" for m using check_payment_Inr_iff [OF Cons.prems] by blast
    then have "fold_res check_payment t (p # ps) \<noteq> Inr n" by (simp add: bind_res_Inr_iff)
    with False nn show ?thesis by fastforce
  next
    case True
    then have "check_payment t p = Inr (t + pi_amount p)" using check_payment_Inr_iff [OF Cons.prems] by blast
    moreover have "0 \<le> t + pi_amount p" using True Cons.prems by simp
    ultimately have "fold_res check_payment t (p # ps) = Inr n \<longleftrightarrow>
        (\<forall>p \<in> set ps. 0 < pi_amount p \<and> pi_method p \<in> {CASH, CARD}) \<and>
        n = t + pi_amount p + sum_list (map pi_amount ps) \<and> (ps \<noteq> [] \<longrightarrow> n \<le> int32_max)"
      using Cons.IH by simp
    with True show ?thesis by auto
  qed
qed

lemma validatePayments_Inr_iff:
  "validatePayments ps = Inr n \<longleftrightarrow> length ps \<le> 50 \<and>
     (\<forall>p \<in> set ps. 0 < pi_amount p \<and> pi_method p \<in> {CASH, CARD}) \<and>
     n = sum_list (map pi_amount ps) \<and> n \<le> int32_max"
  by (auto simp: validatePayments_def res_simps check_payments_Inr_iff)

lemma resolveDeposit_nonneg: "0 \<le> resolveDeposit p"
  by (auto simp: resolveDeposit_def split: option.split)

section \<open>The price of a position\<close>

record pricing =
  pp_priceAtTime :: int
  pp_variantId :: "id option"
  pp_variantName :: "string option"
  pp_extras :: "extra list"

definition product_options :: "product \<Rightarrow> (poption \<times> option_group) list" where
  "product_options p = concat (map (\<lambda>g. map (\<lambda>x. (x, g)) (og_options g)) (pd_optionGroups p))"

definition options_by_id :: "product \<Rightarrow> (id \<times> poption \<times> option_group) list" where
  "options_by_id p = foldl (\<lambda>m (x, g). js_set (op_id x) (x, g) m) [] (product_options p)"

type_synonym selection = "(id \<times> option_group \<times> poption list) list"

definition add_selected :: "selection \<Rightarrow> poption \<Rightarrow> option_group \<Rightarrow> selection" where
  "add_selected sel x g = (case js_get sel (og_id g) of
     None \<Rightarrow> js_set (og_id g) (g, [x]) sel
   | Some (g', xs) \<Rightarrow> js_set (og_id g) (g', xs @ [x]) sel)"

definition select_option :: "product \<Rightarrow> selection \<times> id list \<Rightarrow> id \<Rightarrow> api_error + selection \<times> id list" where
  "select_option p = (\<lambda>(sel, seen) i.
     if i \<in> set seen then Inl (Rejected PRICE_OR_OPTION ''OPTION_TWICE'')
     else case js_get (options_by_id p) i of
       None \<Rightarrow> Inl (Rejected PRICE_OR_OPTION ''OPTION_UNKNOWN'')
     | Some (x, g) \<Rightarrow>
         if \<not> op_isActive x then Inl (Rejected PRICE_OR_OPTION ''OPTION_UNKNOWN'')
         else Inr (add_selected sel x g, i # seen))"

definition selected_count :: "selection \<Rightarrow> id \<Rightarrow> int" where
  "selected_count sel i = (case js_get sel i of None \<Rightarrow> 0 | Some (_, xs) \<Rightarrow> int (length xs))"

definition check_selection_count :: "selection \<Rightarrow> option_group \<Rightarrow> api_error + unit" where
  "check_selection_count sel g =
     bind_res (ensure (og_minSelect g \<le> selected_count sel (og_id g)) (Rejected PRICE_OR_OPTION ''TOO_FEW'')) (\<lambda>_.
     ensure (case og_maxSelect g of None \<Rightarrow> True | Some m \<Rightarrow> selected_count sel (og_id g) \<le> m)
       (Rejected PRICE_OR_OPTION ''TOO_MANY''))"

definition extra_of :: "option_group \<Rightarrow> poption \<Rightarrow> extra" where
  "extra_of g x = \<lparr>ex_id = op_id x, ex_name = op_name x, ex_price = op_priceEffect x,
     ex_groupId = og_id g, ex_groupName = og_name g\<rparr>"

text \<open>One entry of \<^verbatim>\<open>selectedByGroup.values()\<close>: it sets the base price or adds extras.\<close>

definition price_entry :: "int \<times> (id \<times> string) option \<times> extra list \<Rightarrow> option_group \<times> poption list \<Rightarrow>
    api_error + int \<times> (id \<times> string) option \<times> extra list" where
  "price_entry = (\<lambda>(base, variant, extras) (g, xs).
     if og_priceMode g = ABSOLUTE then
       (case xs of [] \<Rightarrow> Inl (TypeError ''option'')
        | x # _ \<Rightarrow> Inr (op_priceEffect x, Some (op_id x, op_name x), extras))
     else Inr (base, variant, extras @ map (extra_of g) xs))"

definition resolveOrderItemPricing :: "product \<Rightarrow> id list \<Rightarrow> api_error + pricing" where
  "resolveOrderItemPricing p optionIds =
     bind_res (fold_res (select_option p) ([], []) optionIds) (\<lambda>(sel, _).
     bind_res (map_res (check_selection_count sel) (pd_optionGroups p)) (\<lambda>_.
     bind_res (fold_res price_entry (pd_price p, None, []) (map snd sel)) (\<lambda>(base, variant, extras).
     let price = base + sum_list (map ex_price extras) in
     bind_res (ensure (0 \<le> price) (Rejected PRICE_OR_OPTION ''NEGATIVE_PRICE'')) (\<lambda>_.
     Inr \<lparr>pp_priceAtTime = price, pp_variantId = map_option fst variant,
          pp_variantName = map_option snd variant, pp_extras = extras\<rparr>))))"

section \<open>A reference for the price\<close>

text \<open>The invariant of stored products: what saving the option groups guarantees, plus unique ids.\<close>

definition product_wf :: "product \<Rightarrow> bool" where
  "product_wf p \<longleftrightarrow> distinct (map og_id (pd_optionGroups p)) \<and>
     distinct (map (op_id \<circ> fst) (product_options p)) \<and> (\<forall>(x, g) \<in> set (product_options p). op_id x \<noteq> []) \<and>
     count_where is_absolute (pd_optionGroups p) \<le> 1 \<and> (\<forall>g \<in> set (pd_optionGroups p). group_wf g)"

definition chosen :: "product \<Rightarrow> id list \<Rightarrow> (poption \<times> option_group) list" where
  "chosen p ids = filter (\<lambda>(x, g). op_id x \<in> set ids) (product_options p)"

definition valid_selection :: "product \<Rightarrow> id list \<Rightarrow> bool" where
  "valid_selection p ids \<longleftrightarrow> distinct ids \<and>
     (\<forall>i \<in> set ids. \<exists>(x, g) \<in> set (product_options p). op_id x = i \<and> op_isActive x) \<and>
     (\<forall>g \<in> set (pd_optionGroups p). let n = int (count_where (\<lambda>x. op_id x \<in> set ids) (og_options g)) in
        og_minSelect g \<le> n \<and> (case og_maxSelect g of None \<Rightarrow> True | Some m \<Rightarrow> n \<le> m))"

text \<open>The answer of the ABSOLUTE group, else the product's price; plus every other answer's effect.\<close>

definition reference_price :: "product \<Rightarrow> id list \<Rightarrow> int" where
  "reference_price p ids =
     (case filter (\<lambda>z. is_absolute (snd z)) (chosen p ids) of [] \<Rightarrow> pd_price p | (x, _) # _ \<Rightarrow> op_priceEffect x)
     + sum_list (map (op_priceEffect \<circ> fst) (filter (\<lambda>z. \<not> is_absolute (snd z)) (chosen p ids)))"

definition stored_option_ids :: "id option \<Rightarrow> extra list \<Rightarrow> id list" where
  "stored_option_ids variantId extras =
     (case truthy variantId of None \<Rightarrow> [] | Some v \<Rightarrow> [v]) @ map ex_id extras"

section \<open>The selection loop\<close>

definition flat :: "selection \<Rightarrow> (poption \<times> option_group) list" where
  "flat sel = concat (map (\<lambda>(i, g, xs). map (\<lambda>x. (x, g)) xs) sel)"

definition selection_inv :: "product \<Rightarrow> selection \<Rightarrow> bool" where
  "selection_inv p sel \<longleftrightarrow> distinct (js_keys sel) \<and>
     (\<forall>(i, g, xs) \<in> set sel. i = og_id g \<and> g \<in> set (pd_optionGroups p) \<and> xs \<noteq> [])"

lemma js_get_fold_set:
  "js_get (foldl (\<lambda>m (x, g). js_set (k x) (x, g) m) m xs) i =
   (case find (\<lambda>(x, g). k x = i) (rev xs) of None \<Rightarrow> js_get m i | Some v \<Rightarrow> Some v)"
proof (induction xs arbitrary: m rule: rev_induct)
  case Nil
  then show ?case by simp
next
  case (snoc a xs)
  then show ?case by (cases a) auto
qed

lemma options_by_id_Some:
  assumes "js_get (options_by_id p) i = Some (x, g)"
  shows "(x, g) \<in> set (product_options p) \<and> op_id x = i"
  using assms by (auto simp: options_by_id_def js_get_fold_set split: option.splits dest!: find_Some_mem)

lemma options_by_id_None: "js_get (options_by_id p) i = None \<longleftrightarrow> (\<forall>(x, g) \<in> set (product_options p). op_id x \<noteq> i)"
  by (auto simp: options_by_id_def js_get_fold_set find_None_iff_all split: option.splits dest!: find_Some_mem)

lemma options_by_id_mem:
  assumes "distinct (map (op_id \<circ> fst) (product_options p))" and "(x, g) \<in> set (product_options p)"
  shows "js_get (options_by_id p) (op_id x) = Some (x, g)"
proof (cases "js_get (options_by_id p) (op_id x)")
  case None
  with assms(2) show ?thesis by (auto simp: options_by_id_None)
next
  case (Some v)
  obtain y h where v: "v = (y, h)" by (cases v)
  from options_by_id_Some [of p _ y h] Some v have "(y, h) \<in> set (product_options p)" "op_id y = op_id x" by auto
  then have "(y, h) = (x, g)"
    using assms by (intro inj_onD [of "op_id \<circ> fst" "set (product_options p)"]) (simp_all add: distinct_map)
  with Some v show ?thesis by simp
qed

lemma product_options_group: "(x, g) \<in> set (product_options p) \<longleftrightarrow> g \<in> set (pd_optionGroups p) \<and> x \<in> set (og_options g)"
  by (auto simp: product_options_def)

lemma js_set_split:
  assumes "js_get m k = Some v" and "distinct (js_keys m)"
  obtains m1 m2 where "m = m1 @ (k, v) # m2" "js_set k w m = m1 @ (k, w) # m2"
proof -
  have "\<exists>m1 m2. m = m1 @ (k, v) # m2 \<and> js_set k w m = m1 @ (k, w) # m2"
    using assms
  proof (induction m)
    case Nil
    then show ?case by simp
  next
    case (Cons a m)
    obtain k' v' where a: "a = (k', v')" by (cases a)
    show ?case
    proof (cases "k' = k")
      case True
      with Cons.prems a show ?thesis by (intro exI [of _ "[]"] exI [of _ m]) simp
    next
      case False
      with Cons.prems a Cons.IH obtain m1 m2 where "m = m1 @ (k, v) # m2" "js_set k w m = m1 @ (k, w) # m2"
        by auto
      with False a show ?thesis by (intro exI [of _ "a # m1"] exI [of _ m2]) simp
    qed
  qed
  with that show thesis by blast
qed

lemma add_selected_inv:
  assumes inv: "selection_inv p sel" and wf: "distinct (map og_id (pd_optionGroups p))"
    and g: "g \<in> set (pd_optionGroups p)"
  shows "selection_inv p (add_selected sel x g) \<and> mset (flat (add_selected sel x g)) = add_mset (x, g) (mset (flat sel))"
proof (cases "js_get sel (og_id g)")
  case None
  then have "og_id g \<notin> fst ` set sel" by (simp add: map_of_eq_None_iff)
  with inv g None show ?thesis
    by (auto simp: add_selected_def js_set_fresh selection_inv_def flat_def)
next
  case (Some v)
  obtain g' xs where v: "v = (g', xs)" by (cases v)
  from Some v inv have "(og_id g, g', xs) \<in> set sel" by (auto dest: map_of_SomeD)
  with inv have "og_id g' = og_id g" "g' \<in> set (pd_optionGroups p)" by (auto simp: selection_inv_def)
  with g wf have g': "g' = g" by (auto simp: distinct_map dest: inj_onD)
  have get: "js_get sel (og_id g) = Some (g, xs)" and keys: "distinct (js_keys sel)"
    using Some v g' inv by (simp_all add: selection_inv_def)
  obtain m1 m2 where m: "sel = m1 @ (og_id g, g, xs) # m2"
    "js_set (og_id g) (g, xs @ [x]) sel = m1 @ (og_id g, g, xs @ [x]) # m2"
    by (rule js_set_split [OF get keys])
  with Some v g' have a: "add_selected sel x g = m1 @ (og_id g, g, xs @ [x]) # m2" by (simp add: add_selected_def)
  from inv m(1) show ?thesis unfolding a by (auto simp: selection_inv_def flat_def)
qed

lemma select_loop:
  assumes "fold_res (select_option p) (sel, seen) ids = Inr (sel', seen')"
    and "selection_inv p sel" and "distinct (map og_id (pd_optionGroups p))"
  shows "selection_inv p sel' \<and> distinct ids \<and> set ids \<inter> set seen = {} \<and>
    (\<exists>xs. mset (flat sel') = mset (flat sel) + mset xs \<and> map (op_id \<circ> fst) xs = ids \<and>
       (\<forall>(x, g) \<in> set xs. (x, g) \<in> set (product_options p) \<and> op_isActive x))"
  using assms
proof (induction ids arbitrary: sel seen)
  case Nil
  then show ?case by auto
next
  case (Cons i ids)
  from Cons.prems(1) obtain st where st: "select_option p (sel, seen) i = Inr st"
    and rest: "fold_res (select_option p) st ids = Inr (sel', seen')" by (auto simp: res_simps)
  from st obtain x g where i: "i \<notin> set seen" "js_get (options_by_id p) i = Some (x, g)" "op_isActive x"
    "st = (add_selected sel x g, i # seen)"
    by (auto simp: select_option_def split: if_splits option.splits)
  from options_by_id_Some [OF i(2)] have x: "(x, g) \<in> set (product_options p)" "op_id x = i" by auto
  have g: "g \<in> set (pd_optionGroups p)" using x(1) by (simp add: product_options_group)
  note A = add_selected_inv [OF Cons.prems(2,3) g, of x]
  from Cons.IH [of "add_selected sel x g" "i # seen"] rest i(4) A Cons.prems(3) obtain xs where
    IH: "selection_inv p sel'" "distinct ids" "set ids \<inter> set (i # seen) = {}"
      "mset (flat sel') = mset (flat (add_selected sel x g)) + mset xs" "map (op_id \<circ> fst) xs = ids"
      "\<forall>(x, g) \<in> set xs. (x, g) \<in> set (product_options p) \<and> op_isActive x"
    by auto
  from IH(4) A have "mset (flat sel') = mset (flat sel) + mset ((x, g) # xs)" by simp
  moreover have "map (op_id \<circ> fst) ((x, g) # xs) = i # ids" using IH(5) x(2) by simp
  moreover have "\<forall>(y, h) \<in> set ((x, g) # xs). (y, h) \<in> set (product_options p) \<and> op_isActive y"
    using IH(6) x(1) i(3) by auto
  ultimately have "\<exists>xs. mset (flat sel') = mset (flat sel) + mset xs \<and> map (op_id \<circ> fst) xs = i # ids \<and>
       (\<forall>(x, g) \<in> set xs. (x, g) \<in> set (product_options p) \<and> op_isActive x)"
    by (intro exI [of _ "(x, g) # xs"] conjI)
  with IH(1-3) i(1) show ?case by auto
qed

text \<open>The loop fails exactly on a repeated, unknown or inactive id.\<close>

lemma select_loop_total:
  assumes "distinct (map (op_id \<circ> fst) (product_options p))" and "distinct ids" and "set ids \<inter> set seen = {}"
    and "\<forall>i \<in> set ids. \<exists>(x, g) \<in> set (product_options p). op_id x = i \<and> op_isActive x"
  shows "\<exists>st. fold_res (select_option p) (sel, seen) ids = Inr st"
  using assms(2-)
proof (induction ids arbitrary: sel seen)
  case Nil
  then show ?case by simp
next
  case (Cons i ids)
  from Cons.prems(3) obtain x g where x: "(x, g) \<in> set (product_options p)" "op_id x = i" "op_isActive x" by auto
  have "select_option p (sel, seen) i = Inr (add_selected sel x g, i # seen)"
    using options_by_id_mem [OF assms(1) x(1)] x Cons.prems(2) by (simp add: select_option_def)
  moreover have "\<exists>st. fold_res (select_option p) (add_selected sel x g, i # seen) ids = Inr st"
    by (rule Cons.IH) (use Cons.prems in auto)
  ultimately show ?case by simp
qed

lemma chosen_perm:
  assumes "distinct (map (op_id \<circ> fst) (product_options p))" and "map (op_id \<circ> fst) xs = ids" and "distinct ids"
    and "set xs \<subseteq> set (product_options p)"
  shows "mset xs = mset (chosen p ids)"
proof -
  have d1: "distinct xs" using assms(2,3) by (metis distinct_map)
  have d2: "distinct (chosen p ids)" using assms(1) by (simp add: chosen_def distinct_map)
  have inj: "inj_on (op_id \<circ> fst) (set (product_options p))" using assms(1) by (simp add: distinct_map)
  have "set xs = set (chosen p ids)"
  proof
    show "set xs \<subseteq> set (chosen p ids)"
      unfolding chosen_def assms(2) [symmetric] using assms(4) by (force simp: image_iff)
    show "set (chosen p ids) \<subseteq> set xs"
    proof
      fix z assume z: "z \<in> set (chosen p ids)"
      then have "(op_id \<circ> fst) z \<in> set ids" "z \<in> set (product_options p)" by (auto simp: chosen_def)
      with assms(2) obtain y where "y \<in> set xs" "(op_id \<circ> fst) y = (op_id \<circ> fst) z" by auto
      with inj assms(4) \<open>z \<in> set (product_options p)\<close> show "z \<in> set xs" by (metis inj_onD subsetD)
    qed
  qed
  with d1 d2 show ?thesis by (simp add: set_eq_iff_mset_eq_distinct)
qed

section \<open>Counts per group\<close>

lemma flat_simps [simp]: "flat [] = []" "flat ((i, g, xs) # sel) = map (\<lambda>x. (x, g)) xs @ flat sel"
  by (simp_all add: flat_def)

lemma selection_inv_Cons:
  "selection_inv p ((i, g, xs) # sel) \<Longrightarrow>
   selection_inv p sel \<and> i = og_id g \<and> g \<in> set (pd_optionGroups p) \<and> xs \<noteq> [] \<and>
   (\<forall>(y, h) \<in> set (flat sel). og_id h \<noteq> og_id g)"
  by (force simp: selection_inv_def flat_def)

lemma selected_count_flat:
  "selection_inv p sel \<Longrightarrow> selected_count sel i = int (length (filter (\<lambda>(x, g). og_id g = i) (flat sel)))"
proof (induction sel)
  case Nil
  then show ?case by (simp add: selected_count_def)
next
  case (Cons a sel)
  obtain k g xs where a: "a = (k, g, xs)" by (cases a)
  note I = selection_inv_Cons [OF Cons.prems [unfolded a]]
  have m: "filter (\<lambda>(x, h). og_id h = i) (map (\<lambda>x. (x, g)) xs) = (if og_id g = i then map (\<lambda>x. (x, g)) xs else [])"
    by (induction xs) auto
  show ?case
  proof (cases "og_id g = i")
    case True
    with I have "filter (\<lambda>(x, h). og_id h = i) (flat sel) = []" by (auto simp: filter_empty_conv)
    with True I m show ?thesis by (simp add: a selected_count_def)
  next
    case False
    with I m Cons.IH show ?thesis by (simp add: a selected_count_def)
  qed
qed

lemma group_options_count:
  assumes "distinct (map og_id gs)" and "g \<in> set gs"
  shows "length (filter (\<lambda>(x, h). og_id h = og_id g \<and> op_id x \<in> I) (concat (map (\<lambda>h. map (\<lambda>x. (x, h)) (og_options h)) gs)))
    = count_where (\<lambda>x. op_id x \<in> I) (og_options g)"
  using assms
proof (induction gs)
  case Nil
  then show ?case by simp
next
  case (Cons h gs)
  have m: "length (filter (\<lambda>(x, h). og_id h = og_id g \<and> op_id x \<in> I) (map (\<lambda>x. (x, h)) xs))
      = (if og_id h = og_id g then count_where (\<lambda>x. op_id x \<in> I) xs else 0)" for xs
    by (induction xs) (auto simp: count_where_def)
  show ?case
  proof (cases "h = g")
    case True
    have "og_id y \<noteq> og_id g" if "y \<in> set gs" for y
      using Cons.prems(1) True imageI [OF that, of og_id] by auto
    then have "filter (\<lambda>(x, h). og_id h = og_id g \<and> op_id x \<in> I) (concat (map (\<lambda>h. map (\<lambda>x. (x, h)) (og_options h)) gs)) = []"
      by (auto simp: filter_empty_conv)
    with True m show ?thesis by simp
  next
    case False
    with Cons.prems have g: "g \<in> set gs" by simp
    then have "og_id h \<noteq> og_id g" using Cons.prems(1) imageI [OF g, of og_id] by auto
    with m Cons.IH Cons.prems(1) g show ?thesis by simp
  qed
qed

lemma length_filter_mset: "mset xs = mset ys \<Longrightarrow> length (filter c xs) = length (filter c ys)"
  by (metis mset_filter size_mset)

lemma selected_count_chosen:
  assumes "selection_inv p sel" and "mset (flat sel) = mset (chosen p ids)"
    and "distinct (map og_id (pd_optionGroups p))" and "g \<in> set (pd_optionGroups p)"
  shows "selected_count sel (og_id g) = int (count_where (\<lambda>x. op_id x \<in> set ids) (og_options g))"
proof -
  have "length (filter (\<lambda>(x, h). og_id h = og_id g) (flat sel))
      = length (filter (\<lambda>(x, h). og_id h = og_id g) (chosen p ids))"
    using assms(2) by (rule length_filter_mset)
  also have "\<dots> = length (filter (\<lambda>(x, h). og_id h = og_id g \<and> op_id x \<in> set ids) (product_options p))"
    unfolding chosen_def filter_filter by (rule arg_cong [of _ _ length], rule filter_cong) auto
  also have "\<dots> = count_where (\<lambda>x. op_id x \<in> set ids) (og_options g)"
    unfolding product_options_def by (rule group_options_count [OF assms(3,4)])
  finally show ?thesis using selected_count_flat [OF assms(1)] by simp
qed

lemma absolute_chosen_le_1:
  assumes "count_where is_absolute gs \<le> 1" and "\<And>g. g \<in> set gs \<Longrightarrow> is_absolute g \<Longrightarrow> count_where c (og_options g) \<le> 1"
  shows "length (filter (\<lambda>(x, g). c x \<and> is_absolute g) (concat (map (\<lambda>h. map (\<lambda>x. (x, h)) (og_options h)) gs))) \<le> 1"
  using assms
proof (induction gs)
  case Nil
  then show ?case by simp
next
  case (Cons h gs)
  have m: "length (filter (\<lambda>(x, g). c x \<and> is_absolute g) (map (\<lambda>x. (x, h)) xs))
      = (if is_absolute h then count_where c xs else 0)" for xs
    by (induction xs) (auto simp: count_where_def)
  show ?case
  proof (cases "is_absolute h")
    case True
    with Cons.prems(1) have "count_where is_absolute gs = 0" by (simp add: count_where_Cons)
    then have "filter (\<lambda>(x, g). c x \<and> is_absolute g) (concat (map (\<lambda>h. map (\<lambda>x. (x, h)) (og_options h)) gs)) = []"
      by (auto simp: filter_empty_conv count_where_0_iff)
    with True m Cons.prems(2) [of h] show ?thesis by simp
  next
    case False
    with Cons m show ?thesis by (simp add: count_where_Cons)
  qed
qed

section \<open>The price loop\<close>

lemma price_loop:
  assumes "\<forall>(i, g, xs) \<in> set sel. xs \<noteq> []" and "length (filter (\<lambda>z. is_absolute (snd z)) (flat sel)) \<le> 1"
  shows "fold_res price_entry (b, v, ex) (map snd sel) = Inr
    ((case filter (\<lambda>z. is_absolute (snd z)) (flat sel) of [] \<Rightarrow> b | (x, _) # _ \<Rightarrow> op_priceEffect x),
     (case filter (\<lambda>z. is_absolute (snd z)) (flat sel) of [] \<Rightarrow> v | (x, _) # _ \<Rightarrow> Some (op_id x, op_name x)),
     ex @ map (\<lambda>(x, g). extra_of g x) (filter (\<lambda>z. \<not> is_absolute (snd z)) (flat sel)))"
  using assms
proof (induction sel arbitrary: b v ex)
  case Nil
  then show ?case by simp
next
  case (Cons a sel)
  obtain i g xs where a: "a = (i, g, xs)" by (cases a)
  from Cons.prems(1) a have ne: "xs \<noteq> []" "\<forall>(i, g, xs) \<in> set sel. xs \<noteq> []" by auto
  show ?case
  proof (cases "is_absolute g")
    case True
    have all: "filter (\<lambda>z. is_absolute (snd z)) (map (\<lambda>x. (x, g)) xs) = map (\<lambda>x. (x, g)) xs"
      "filter (\<lambda>z. \<not> is_absolute (snd z)) (map (\<lambda>x. (x, g)) xs) = []"
      using True by (auto simp: filter_id_conv filter_empty_conv)
    from Cons.prems(2) have "length (filter (\<lambda>z. is_absolute (snd z)) (map (\<lambda>x. (x, g)) xs))
        + length (filter (\<lambda>z. is_absolute (snd z)) (flat sel)) \<le> 1"
      by (simp only: a flat_simps filter_append length_append)
    then have "length xs + length (filter (\<lambda>z. is_absolute (snd z)) (flat sel)) \<le> 1"
      by (simp only: all length_map)
    with ne(1) obtain x where x: "xs = [x]" and none: "filter (\<lambda>z. is_absolute (snd z)) (flat sel) = []"
      by (cases xs) auto
    have step: "price_entry (b, v, ex) (g, xs) = Inr (op_priceEffect x, Some (op_id x, op_name x), ex)"
      using True x by (simp add: price_entry_def is_absolute_def)
    show ?thesis
      using Cons.IH [OF ne(2), of "op_priceEffect x" "Some (op_id x, op_name x)" ex] none step True x
      by (simp add: a)
  next
    case False
    have all: "filter (\<lambda>z. is_absolute (snd z)) (map (\<lambda>x. (x, g)) xs) = []"
      "filter (\<lambda>z. \<not> is_absolute (snd z)) (map (\<lambda>x. (x, g)) xs) = map (\<lambda>x. (x, g)) xs"
      using False by (auto simp: filter_id_conv filter_empty_conv)
    have step: "price_entry (b, v, ex) (g, xs) = Inr (b, v, ex @ map (extra_of g) xs)"
      using False by (simp add: price_entry_def is_absolute_def)
    have "map (\<lambda>(x, h). extra_of h x) (map (\<lambda>x. (x, g)) xs) = map (extra_of g) xs" by simp
    with Cons.IH [OF ne(2), of b v "ex @ map (extra_of g) xs"] Cons.prems(2) step all show ?thesis
      by (simp add: a comp_def)
  qed
qed

section \<open>The price equals the reference\<close>

lemma selection_outcome:
  assumes wf: "product_wf p" and sel: "fold_res (select_option p) ([], []) ids = Inr (sel, seen)"
  shows "selection_inv p sel" and "distinct ids" and "mset (flat sel) = mset (chosen p ids)"
    and "\<forall>i \<in> set ids. \<exists>(x, g) \<in> set (product_options p). op_id x = i \<and> op_isActive x"
    and "mset (map (op_id \<circ> fst) (flat sel)) = mset ids"
proof -
  have i0: "selection_inv p []" by (simp add: selection_inv_def)
  from wf have d: "distinct (map og_id (pd_optionGroups p))" "distinct (map (op_id \<circ> fst) (product_options p))"
    by (simp_all add: product_wf_def)
  from select_loop [OF sel i0 d(1)] obtain xs where
    S: "selection_inv p sel" "distinct ids" "mset (flat sel) = mset xs" "map (op_id \<circ> fst) xs = ids"
      "\<forall>(x, g) \<in> set xs. (x, g) \<in> set (product_options p) \<and> op_isActive x" by auto
  show "selection_inv p sel" "distinct ids" by (fact S)+
  from S(5) have "set xs \<subseteq> set (product_options p)" by auto
  with S(3) chosen_perm [OF d(2) S(4,2)] show "mset (flat sel) = mset (chosen p ids)" by simp
  show "\<forall>i \<in> set ids. \<exists>(x, g) \<in> set (product_options p). op_id x = i \<and> op_isActive x"
  proof
    fix i assume "i \<in> set ids"
    then obtain z where "z \<in> set xs" "(op_id \<circ> fst) z = i" unfolding S(4) [symmetric] by auto
    with S(5) show "\<exists>(x, g) \<in> set (product_options p). op_id x = i \<and> op_isActive x"
      by (intro bexI [of _ z]) auto
  qed
  from S(3,4) show "mset (map (op_id \<circ> fst) (flat sel)) = mset ids"
    by (metis mset_map)
qed

lemma checks_are_valid_selection:
  assumes wf: "product_wf p" and sel: "fold_res (select_option p) ([], []) ids = Inr (sel, seen)"
  shows "(\<exists>us. map_res (check_selection_count sel) (pd_optionGroups p) = Inr us) \<longleftrightarrow> valid_selection p ids"
proof -
  note S = selection_outcome [OF assms]
  have c: "check_selection_count sel g = Inr () \<longleftrightarrow>
      (let n = int (count_where (\<lambda>x. op_id x \<in> set ids) (og_options g)) in
        og_minSelect g \<le> n \<and> (case og_maxSelect g of None \<Rightarrow> True | Some m \<Rightarrow> n \<le> m))"
    if "g \<in> set (pd_optionGroups p)" for g
    using selected_count_chosen [OF S(1,3) _ that] wf
    by (simp add: check_selection_count_def res_simps product_wf_def Let_def cong: option.case_cong)
  have "(\<exists>us. map_res f gs = Inr us) \<longleftrightarrow> (\<forall>g \<in> set gs. f g = Inr ())" for f :: "option_group \<Rightarrow> api_error + unit" and gs
    by (induction gs) (auto simp: res_simps)
  with c S(2,4) show ?thesis by (auto simp: valid_selection_def)
qed

lemma single_filter_eq: "mset xs = mset ys \<Longrightarrow> length xs \<le> 1 \<Longrightarrow> xs = ys"
proof -
  assume m: "mset xs = mset ys" and l: "length xs \<le> 1"
  from m have len: "length ys = length xs" by (metis size_mset)
  show ?thesis
  proof (cases xs)
    case Nil
    with len show ?thesis by simp
  next
    case (Cons x xs')
    with l have "xs = [x]" by simp
    moreover from this len obtain y where "ys = [y]" by (cases ys) auto
    ultimately show ?thesis using m by simp
  qed
qed

lemma sum_list_mset_map: "mset xs = mset ys \<Longrightarrow> sum_list (map f xs) = (sum_list (map f ys) :: int)"
  using sum_list_filter_mset [of xs ys f "\<lambda>_. True"] by simp

lemma absolute_count:
  assumes "product_wf p" and "valid_selection p ids"
  shows "length (filter (\<lambda>z. is_absolute (snd z)) (chosen p ids)) \<le> 1"
proof -
  have "count_where (\<lambda>x. op_id x \<in> set ids) (og_options g) \<le> 1" if "g \<in> set (pd_optionGroups p)" "is_absolute g" for g
    using that assms by (auto simp: product_wf_def valid_selection_def group_wf_def Let_def)
  with assms(1) have "length (filter (\<lambda>(x, g). op_id x \<in> set ids \<and> is_absolute g) (product_options p)) \<le> 1"
    unfolding product_options_def by (intro absolute_chosen_le_1) (auto simp: product_wf_def)
  moreover have "filter (\<lambda>z. is_absolute (snd z)) (chosen p ids)
      = filter (\<lambda>(x, g). op_id x \<in> set ids \<and> is_absolute g) (product_options p)"
    unfolding chosen_def filter_filter by (rule filter_cong) auto
  ultimately show ?thesis by simp
qed

lemma pricing_cases:
  assumes wf: "product_wf p"
  shows "case resolveOrderItemPricing p ids of
      Inl err \<Rightarrow> \<not> valid_selection p ids \<or> reference_price p ids < 0
    | Inr r \<Rightarrow> valid_selection p ids \<and> 0 \<le> reference_price p ids \<and> pp_priceAtTime r = reference_price p ids \<and>
        mset (stored_option_ids (pp_variantId r) (pp_extras r)) = mset ids"
proof (cases "fold_res (select_option p) ([], []) ids")
  case (Inl err)
  have "\<not> valid_selection p ids"
  proof
    assume "valid_selection p ids"
    then have "\<exists>st. fold_res (select_option p) ([], []) ids = Inr st"
      using wf by (intro select_loop_total) (auto simp: valid_selection_def product_wf_def)
    with Inl show False by simp
  qed
  with Inl show ?thesis by (simp add: resolveOrderItemPricing_def)
next
  case (Inr st)
  obtain sel seen where st: "st = (sel, seen)" by (cases st)
  note sel = Inr [unfolded st]
  note S = selection_outcome [OF wf sel]
  show ?thesis
  proof (cases "valid_selection p ids")
    case False
    with checks_are_valid_selection [OF wf sel] obtain err where
      "map_res (check_selection_count sel) (pd_optionGroups p) = Inl err"
      by (cases "map_res (check_selection_count sel) (pd_optionGroups p)") auto
    with False sel show ?thesis by (simp add: resolveOrderItemPricing_def)
  next
    case True
    with checks_are_valid_selection [OF wf sel] obtain us where
      us: "map_res (check_selection_count sel) (pd_optionGroups p) = Inr us" by auto
    let ?abs = "filter (\<lambda>z. is_absolute (snd z))" and ?sur = "filter (\<lambda>z. \<not> is_absolute (snd z))"
    have m: "mset (?abs (flat sel)) = mset (?abs (chosen p ids))" "mset (?sur (flat sel)) = mset (?sur (chosen p ids))"
      using S(3) by simp_all
    have one: "length (?abs (flat sel)) \<le> 1"
      using absolute_count [OF wf True] length_filter_mset [OF S(3)] by simp
    have abs_eq: "?abs (chosen p ids) = ?abs (flat sel)" using single_filter_eq [OF m(1) one] by simp
    have nonempty: "\<forall>(i, g, xs) \<in> set sel. xs \<noteq> []" using S(1) by (auto simp: selection_inv_def)
    have exp: "map ex_price (map (\<lambda>(x, g). extra_of g x) zs) = map (op_priceEffect \<circ> fst) zs"
      "map ex_id (map (\<lambda>(x, g). extra_of g x) zs) = map (op_id \<circ> fst) zs" for zs
      by (auto simp: extra_of_def)
    have price: "(case ?abs (flat sel) of [] \<Rightarrow> pd_price p | (x, _) # _ \<Rightarrow> op_priceEffect x)
        + sum_list (map (op_priceEffect \<circ> fst) (?sur (flat sel))) = reference_price p ids"
      unfolding reference_price_def abs_eq using sum_list_mset_map [OF m(2)] by simp
    have ids: "mset (map (op_id \<circ> fst) (?abs (flat sel)) @ map (op_id \<circ> fst) (?sur (flat sel))) = mset ids"
    proof -
      have "mset (map (op_id \<circ> fst) (?abs zs) @ map (op_id \<circ> fst) (?sur zs)) = mset (map (op_id \<circ> fst) zs)" for zs
        by (induction zs) auto
      from trans [OF this S(5)] show ?thesis .
    qed
    have "op_id (fst z) \<noteq> []" if "z \<in> set (?abs (flat sel))" for z
    proof -
      from that S(3) have "z \<in> set (chosen p ids)" by (metis filter_is_subset set_mset_mset subsetD)
      with wf show ?thesis by (cases z) (auto simp: chosen_def product_wf_def)
    qed
    with one have var: "(case truthy (map_option fst (case ?abs (flat sel) of [] \<Rightarrow> None | (x, _) # _ \<Rightarrow> Some (op_id x, op_name x)))
        of None \<Rightarrow> [] | Some v \<Rightarrow> [v]) = map (op_id \<circ> fst) (?abs (flat sel))"
      by (cases "?abs (flat sel)") (auto simp: truthy_def)
    obtain base variant extras where
      loop: "fold_res price_entry (pd_price p, None, []) (map snd sel) = Inr (base, variant, extras)"
      and total: "base + sum_list (map ex_price extras) = reference_price p ids"
      and stored: "mset (stored_option_ids (map_option fst variant) extras) = mset ids"
    proof (rule that)
      show "fold_res price_entry (pd_price p, None, []) (map snd sel) = Inr
        ((case ?abs (flat sel) of [] \<Rightarrow> pd_price p | (x, _) # _ \<Rightarrow> op_priceEffect x),
         (case ?abs (flat sel) of [] \<Rightarrow> None | (x, _) # _ \<Rightarrow> Some (op_id x, op_name x)),
         map (\<lambda>(x, g). extra_of g x) (?sur (flat sel)))"
        using price_loop [OF nonempty one, of "pd_price p" None "[]"] by simp
    qed (use price ids in \<open>simp_all only: stored_option_ids_def exp var\<close>)
    show ?thesis
      using True us sel loop stored
      by (cases "0 \<le> reference_price p ids") (simp_all add: resolveOrderItemPricing_def Let_def total)
  qed
qed

end
