(* ===== verification/VO_Catalogue_Props.thy ===== *)
theory VO_Catalogue_Props
  imports VO_Pricing VO_Samples
begin

text \<open>
  The properties of the shared rules and of the catalogue: the mode of an event, fulfilment, pickup
  numbers, saving option groups and the price of a position.
\<close>

section \<open>Shared rules\<close>

text \<open>
  Orders are taken in LIVE mode exactly for an active event outside test mode, in TEST mode exactly for
  an event in its test phase with the flag set; the two contradictory combinations are an error.
\<close>

theorem operational_mode:
  "(resolveOperationalDataMode ev = Inr (Some LIVE) \<longleftrightarrow>
      (\<exists>v. ev = Some v \<and> ev_status v = EV_ACTIVE \<and> \<not> ev_testMode v)) \<and>
   (resolveOperationalDataMode ev = Inr (Some TEST) \<longleftrightarrow>
      (\<exists>v. ev = Some v \<and> ev_status v = EV_TEST_MODE \<and> ev_testMode v)) \<and>
   ((\<exists>err. resolveOperationalDataMode ev = Inl err) \<longleftrightarrow>
      (\<exists>v. ev = Some v \<and> (ev_status v = EV_ACTIVE \<and> ev_testMode v \<or> ev_status v = EV_TEST_MODE \<and> \<not> ev_testMode v)))"
  using resolve_mode_LIVE_iff resolve_mode_TEST_iff resolve_mode_throws_iff by simp

lemma all_item_status:
  "(\<forall>s. Q s) \<longleftrightarrow> Q IT_PENDING \<and> Q IT_PREPARING \<and> Q IT_READY \<and> Q IT_IN_DELIVERY \<and> Q IT_DELIVERED \<and> Q IT_CANCELLED"
  by (metis item_status.exhaust)

lemma ex_item_status:
  "(\<exists>s. Q s) \<longleftrightarrow> Q IT_PENDING \<or> Q IT_PREPARING \<or> Q IT_READY \<or> Q IT_IN_DELIVERY \<or> Q IT_DELIVERED \<or> Q IT_CANCELLED"
  by (metis item_status.exhaust)

text \<open>
  The fulfilment status of an order is determined by which states its positions that are not cancelled are in,
  not by their order or number: delivered or ready only when all of them are, preparing and pending only
  when none is further.
\<close>

theorem fulfillment_characterised:
  "let S = set items; status = deriveFulfillmentStatus items in
    (status = FF_DELIVERED \<longleftrightarrow> IT_DELIVERED \<in> S \<and> S \<subseteq> {IT_DELIVERED, IT_CANCELLED}) \<and>
    (status = FF_PARTIALLY_DELIVERED \<longleftrightarrow>
       S \<inter> {IT_IN_DELIVERY, IT_DELIVERED} \<noteq> {} \<and> \<not> S \<subseteq> {IT_DELIVERED, IT_CANCELLED}) \<and>
    (status = FF_READY \<longleftrightarrow> IT_READY \<in> S \<and> S \<subseteq> {IT_READY, IT_CANCELLED}) \<and>
    (status = FF_PARTIALLY_READY \<longleftrightarrow>
       IT_READY \<in> S \<and> S \<inter> {IT_PENDING, IT_PREPARING} \<noteq> {} \<and> S \<inter> {IT_IN_DELIVERY, IT_DELIVERED} = {}) \<and>
    (status = FF_PREPARING \<longleftrightarrow> IT_PREPARING \<in> S \<and> S \<subseteq> {IT_PENDING, IT_PREPARING, IT_CANCELLED}) \<and>
    (status = FF_PENDING \<longleftrightarrow> S \<subseteq> {IT_PENDING, IT_CANCELLED})"
proof -
  let ?S = "set items"
  have all: "\<And>P. list_all P (filter (\<lambda>s. s \<noteq> IT_CANCELLED) items) \<longleftrightarrow> (\<forall>s. s \<in> ?S \<and> s \<noteq> IT_CANCELLED \<longrightarrow> P s)"
    and ex: "\<And>P. list_ex P (filter (\<lambda>s. s \<noteq> IT_CANCELLED) items) \<longleftrightarrow> (\<exists>s. s \<in> ?S \<and> s \<noteq> IT_CANCELLED \<and> P s)"
    and none: "filter (\<lambda>s. s \<noteq> IT_CANCELLED) items = [] \<longleftrightarrow> (\<forall>s. s \<in> ?S \<longrightarrow> s = IT_CANCELLED)"
    by (auto simp: list_all_iff list_ex_iff filter_empty_conv)
  have meets: "\<And>X. ?S \<inter> X = {} \<longleftrightarrow> (\<forall>s. \<not> (s \<in> ?S \<and> s \<in> X))" by auto
  show ?thesis
    unfolding deriveFulfillmentStatus_def Let_def all ex none meets subset_iff all_item_status ex_item_status
    by (simp split: if_split)
qed

text \<open>
  Pickup numbers of an event and mode are handed out without gaps or repeats: any sequence of successful
  draws, over any events and modes, gives each of them consecutive numbers above the counter it had.
\<close>

theorem pickup_numbers_gapless:
  assumes "run_draws (\<lambda>d k. drawPickupNumber d (fst k) (snd k)) d ks = Inr (ns, d')"
  shows "drawn_for k ks ns = [pickup_current d k + 1 .. pickup_current d' k] \<and> distinct (drawn_for k ks ns)"
  using pickup.draws_consecutive [OF assms] pickup.draws_distinct [OF assms] by simp

lemma pickup_numbers_gapless_witness:
  "succeeds_with (\<lambda>(ns, d'). drawn_for (''e'', LIVE) [(''e'', LIVE), (''f'', LIVE), (''e'', LIVE)] ns = [1, 2] \<and> distinct [1::int, 2])
     (run_draws (\<lambda>d k. drawPickupNumber d (fst k) (snd k)) sample_db [(''e'', LIVE), (''f'', LIVE), (''e'', LIVE)])"
proof -
  let ?ks = "[(''e'', LIVE), (''f'', LIVE), (''e'', LIVE)]"
  let ?run = "run_draws (\<lambda>d k. drawPickupNumber d (fst k) (snd k)) sample_db ?ks"
  have "succeeds_with (\<lambda>(ns, d'). pickup_current d' (''e'', LIVE) = 2) ?run" by code_simp
  then obtain ns d' where run: "?run = Inr (ns, d')" and c: "pickup_current d' (''e'', LIVE) = 2"
    by (auto elim!: succeeds_withE)
  have "pickup_current sample_db (''e'', LIVE) = 0" "[1 .. 2::int] = [1, 2]" by code_simp+
  with pickup_numbers_gapless [OF run, of "(''e'', LIVE)"] c show ?thesis
    unfolding run by (simp add: succeeds_with_def)
qed

text \<open>
  The fallback category created for products without one is sorted after every category of the event.
\<close>

theorem fallback_category_last:
  assumes "c \<in> set existing"
  shows "snd c < snd (planFallbackCategory existing)"
  using assms by (rule fallback_category_after_all)

lemma fallback_category_last_witness:
  "(3::int) < snd (planFallbackCategory [(''Sonstige Artikel'', 3), (''Speisen'', 1)])"
  using fallback_category_last [of "(''Sonstige Artikel'', 3)" "[(''Sonstige Artikel'', 3), (''Speisen'', 1)]"] by simp

section \<open>Option groups\<close>

text \<open>
  Saving option groups on rows with unique ids and at most one ABSOLUTE and one tile group never runs into
  the partial unique indexes, in whatever order the payload moves these roles between groups, and the rows it
  writes satisfy the constraints again and are well formed.
\<close>

theorem option_groups_saved_soundly:
  assumes "distinct (map og_id existing)" and "inj (env_uuid e)" and "\<forall>k \<ge> n. env_uuid e k \<notin> og_id ` set existing"
    and "count_where is_absolute existing \<le> 1" and "count_where og_quickSaleTiles existing \<le> 1"
  shows "saveOptionGroups e (existing, n) groups \<noteq> Inl (UniqueViolation m) \<and>
    (\<forall>rows n'. saveOptionGroups e (existing, n) groups = Inr (rows, n') \<longrightarrow>
      distinct (map og_id rows) \<and> count_where is_absolute rows \<le> 1 \<and> count_where og_quickSaleTiles rows \<le> 1 \<and>
      (\<forall>r \<in> set rows. 0 \<le> og_minSelect r \<and> (case og_maxSelect r of None \<Rightarrow> True | Some m \<Rightarrow> 1 \<le> m) \<and>
        (og_selectionType r = SINGLE \<longrightarrow> og_maxSelect r = Some 1) \<and> (is_absolute r \<longrightarrow> og_maxSelect r = Some 1 \<and> og_minSelect r = 1)))"
  using saveOptionGroups_sound [of existing e n groups m] assms
  by (simp add: group_ids_distinct_def supply_fresh_def group_wf_def)

definition sample_payload :: "group_input list" where
  "sample_payload =
     [\<lparr>gin_id = Some ''g2'', gin_name = ''Extra'', gin_selectionType = SINGLE, gin_isRequired = True, gin_minSelect = 1,
       gin_maxSelect = Some 1, gin_priceMode = ABSOLUTE, gin_quickSaleTiles = True, gin_sortOrder = 0,
       gin_options = [\<lparr>oin_id = Some ''o3'', oin_name = ''syrup'', oin_priceEffect = 50, oin_isActive = None, oin_sortOrder = 0\<rparr>]\<rparr>,
      \<lparr>gin_id = Some ''g1'', gin_name = ''Size'', gin_selectionType = MULTIPLE, gin_isRequired = False, gin_minSelect = 0,
       gin_maxSelect = None, gin_priceMode = SURCHARGE, gin_quickSaleTiles = False, gin_sortOrder = 1,
       gin_options = [\<lparr>oin_id = None, oin_name = ''tiny'', oin_priceEffect = 10, oin_isActive = None, oin_sortOrder = 0\<rparr>]\<rparr>]"

lemma sample_supply: "k \<ge> 0 \<Longrightarrow> env_uuid run_env k \<notin> og_id ` set [sample_sizes, sample_extras]"
proof -
  have "nat_text k \<noteq> CHR ''g'' # s" for s
  proof
    assume "nat_text k = CHR ''g'' # s"
    with nat_text_digits [of "CHR ''g''" k] show False by (simp add: is_digit_def)
  qed
  then show ?thesis by (simp add: run_env_def sample_env_def sample_sizes_def sample_extras_def)
qed

lemma option_groups_saved_soundly_witness:
  "succeeds_with (\<lambda>(rows, n'). map is_absolute rows = [False, True] \<and> distinct (map og_id rows) \<and> count_where is_absolute rows \<le> 1)
     (saveOptionGroups run_env ([sample_sizes, sample_extras], 0) sample_payload)"
proof -
  let ?ex = "[sample_sizes, sample_extras]"
  have "succeeds_with (\<lambda>(rows, n'). map is_absolute rows = [False, True]) (saveOptionGroups run_env (?ex, 0) sample_payload)"
    by code_simp
  then obtain rows n' where run: "saveOptionGroups run_env (?ex, 0) sample_payload = Inr (rows, n')"
    and r: "map is_absolute rows = [False, True]" by (auto elim!: succeeds_withE)
  have "distinct (map og_id ?ex)" "count_where is_absolute ?ex \<le> 1" "count_where og_quickSaleTiles ?ex \<le> 1" by code_simp+
  moreover have "inj (env_uuid run_env)" by (simp add: run_env_def sample_env_def inj_nat_text)
  ultimately show ?thesis
    using option_groups_saved_soundly [of ?ex run_env 0 sample_payload] sample_supply run r
    by (simp add: succeeds_with_def)
qed

section \<open>Prices\<close>

text \<open>
  C19. The price of a position of a well-formed product is the reference: the answer of its ABSOLUTE group, else
  the price of the product, plus the effects of all other answers. It is refused exactly when the
  selection breaks a rule of the groups or the sum is negative, and the stored snapshot names exactly the requested options.
\<close>

theorem position_price:
  assumes "product_wf p"
  shows "(case resolveOrderItemPricing p ids of
      Inl err \<Rightarrow> \<not> valid_selection p ids \<or> reference_price p ids < 0
    | Inr r \<Rightarrow> valid_selection p ids \<and> 0 \<le> reference_price p ids \<and> pp_priceAtTime r = reference_price p ids \<and>
        mset (stored_option_ids (pp_variantId r) (pp_extras r)) = mset ids)"
  using assms by (rule pricing_cases)

lemma position_price_witness:
  "succeeds_with (\<lambda>r. pp_priceAtTime r = 550) (resolveOrderItemPricing sample_beer [''o3'', ''o2''])"
proof -
  have wf: "product_wf sample_beer" by code_simp
  have ok: "succeeds_with (\<lambda>_. True) (resolveOrderItemPricing sample_beer [''o3'', ''o2''])"
    and ref: "reference_price sample_beer [''o3'', ''o2''] = 550" by code_simp+
  from ok position_price [OF wf, of "[''o3'', ''o2'']"] ref show ?thesis
    by (auto simp: succeeds_with_def split: sum.splits)
qed

end
