(* ===== verification/VO_Dispatch.thy ===== *)
theory VO_Dispatch
  imports VO_Inventory
begin

text \<open>
  \<^verbatim>\<open>dispatchPrintJobs\<close> of \<^verbatim>\<open>orders.service.ts\<close>: the station tickets, product vouchers and the receipt
  of an order become print jobs. Dispatching touches nothing but the print queue; a reprint creates
  no station ticket; with an active printer every voucher and exactly one receipt is queued.
\<close>

section \<open>Creating a print job\<close>

definition new_print_job :: "id \<Rightarrow> id \<Rightarrow> print_job_type \<Rightarrow> json \<Rightarrow> nat \<Rightarrow> print_job" where
  "new_print_job i printerId ty content now =
     \<lparr>pj_id = i, pj_printerId = printerId, pj_jobType = ty, pj_content = content, pj_status = PJ_PENDING,
      pj_orderId = None, pj_valueVoucherMovementId = None, pj_sourceKey = None, pj_errorMessage = None,
      pj_attemptPhase = None, pj_leaseId = None, pj_leaseExpiresAt = None, pj_lastHeartbeatAt = None,
      pj_attemptCount = 0, pj_activePrinterId = None, pj_failoverCount = 0, pj_failoverAt = None,
      pj_failoverReason = None, pj_failoverFromPrinterId = None, pj_outcomeClass = None,
      pj_errorCode = None, pj_deliveredAt = None, pj_unresolvedAt = None, pj_unresolvedReason = None,
      pj_resolvedAt = None, pj_resolvedByUserId = None, pj_resolution = None, pj_cupsJobId = None,
      pj_cupsJobState = None, pj_bytesWritten = None, pj_createdAt = now\<rparr>"

definition create_order_print_job :: "env \<Rightarrow> id \<Rightarrow> print_job_type \<Rightarrow> id \<Rightarrow> json \<Rightarrow> db \<Rightarrow> db" where
  "create_order_print_job e printerId ty orderId content d =
     d\<lparr>t_printJobs := t_printJobs d
         @ [(new_print_job (fresh_id e d) printerId ty content (env_now e))\<lparr>pj_orderId := Some orderId\<rparr>],
       serial := Suc (serial d)\<rparr>"

section \<open>Printers and stations\<close>

definition active_printer :: "db \<Rightarrow> printer option" where
  "active_printer d = find pr_isActive (t_printers d)"

definition station_printer :: "db \<Rightarrow> station \<Rightarrow> printer option" where
  "station_printer d s = (case sn_printerId s of None \<Rightarrow> None
     | Some i \<Rightarrow> find (\<lambda>p. pr_id p = i) (t_printers d))"

definition event_station :: "db \<Rightarrow> id \<Rightarrow> id \<Rightarrow> station option" where
  "event_station d eventId i = find (\<lambda>s. sn_id s = i \<and> sn_eventId s = eventId) (t_stations d)"

definition target_printer :: "db \<Rightarrow> station option \<Rightarrow> printer option" where
  "target_printer d s = (case s of
     None \<Rightarrow> active_printer d
   | Some st \<Rightarrow> (case station_printer d st of
       Some p \<Rightarrow> if pr_isActive p then Some p else active_printer d
     | None \<Rightarrow> active_printer d))"

definition no_printers :: "db \<Rightarrow> id \<Rightarrow> bool" where
  "no_printers d eventId \<longleftrightarrow> active_printer d = None \<and>
     list_all (\<lambda>s. case station_printer d s of None \<Rightarrow> True | Some p \<Rightarrow> \<not> pr_isActive p)
       (filter (\<lambda>s. sn_eventId s = eventId) (t_stations d))"

section \<open>Options and texts\<close>

record voucher_print =
  vp_code :: string
  vp_orderItemId :: id
  vp_productId :: id
  vp_productName :: string
  vp_variantName :: "string option"
  vp_stationId :: "id option"
  vp_issuedAt :: nat

record ticket_options =
  po_receiptTitle :: "string option"
  po_tenderedAmount :: "int option"
  po_changeAmount :: "int option"
  po_vouchers :: "voucher_print list"
  po_includeStationTickets :: bool
  po_reprintedAt :: "nat option"
  po_pickupNumber :: "int option"

definition default_print_options :: ticket_options where
  "default_print_options = \<lparr>po_receiptTitle = None, po_tenderedAmount = None, po_changeAmount = None,
     po_vouchers = [], po_includeStationTickets = True, po_reprintedAt = None, po_pickupNumber = None\<rparr>"

text \<open>\<^verbatim>\<open>a || b\<close> on optional strings.\<close>

definition or_text :: "string option \<Rightarrow> string \<Rightarrow> string" where
  "or_text a b = (case truthy a of Some s \<Rightarrow> s | None \<Rightarrow> b)"

definition waiter_name :: "user option \<Rightarrow> string" where
  "waiter_name u = (case u of None \<Rightarrow> ''Kellner''
     | Some v \<Rightarrow> or_text (us_name v) (or_text (Some (us_username v)) ''Kellner''))"

definition station_name :: "station option \<Rightarrow> string" where
  "station_name s = or_text (map_option sn_name s) ''Zentrale Ausgabe''"

definition event_name :: "db \<Rightarrow> id \<Rightarrow> string" where
  "event_name d eventId = or_text (map_option ev_name (find_event d eventId)) ''Vereinsfest''"

definition extra_json :: "extra \<Rightarrow> json" where
  "extra_json x = JObj [(''id'', JStr (ex_id x)), (''name'', JStr (ex_name x)), (''price'', JNum (ex_price x)),
     (''groupId'', JStr (ex_groupId x)), (''groupName'', JStr (ex_groupName x))]"

definition extras_json :: "extra list option \<Rightarrow> json" where
  "extras_json xs = jnull (\<lambda>l. JArr (map extra_json l)) xs"

abbreviation time_json :: "nat \<Rightarrow> json" where "time_json t \<equiv> JNum (int t)"

type_synonym item_view = "order_item \<times> product"

section \<open>Station tickets\<close>

definition station_key :: "item_view \<Rightarrow> id" where
  "station_key iv = or_text (resolveTargetStationId (snd iv)) ''NO_STATION''"

definition items_by_station :: "item_view list \<Rightarrow> (id \<times> item_view list) list" where
  "items_by_station ivs = foldl (\<lambda>m iv. js_set (station_key iv)
     ((case js_get m (station_key iv) of None \<Rightarrow> [] | Some l \<Rightarrow> l) @ [iv]) m) [] ivs"

definition station_ticket :: "db \<Rightarrow> order \<Rightarrow> user option \<Rightarrow> ticket_options \<Rightarrow> station option \<Rightarrow> item_view list \<Rightarrow> json" where
  "station_ticket d order u po s ivs = JObj
     ([(''title'', JStr (''ABHOL-/K'' @ CHR 0xDC # ''CHENBON'')), (''stationName'', JStr (station_name s)),
       (''orderNumber'', JNum (od_orderNumber order)), (''orderId'', JStr (od_id order)),
       (''tableName'', JStr (or_text (od_tableName order) ''Theke / Ohne Tisch'')),
       (''waiterName'', JStr (waiter_name u)), (''isPriority'', JBool (od_isPriority order)),
       (''createdAt'', time_json (od_createdAt order))]
      @ jopt JNum ''pickupNumber'' (po_pickupNumber po)
      @ [(''items'', JArr (map (\<lambda>(i, p). JObj [(''productName'', JStr (pd_name p)),
            (''quantity'', JNum (oi_quantity i)), (''variantName'', jnull JStr (oi_variantName i)),
            (''extras'', extras_json (oi_extras i))]) ivs))])"

definition dispatch_station :: "env \<Rightarrow> order \<Rightarrow> user option \<Rightarrow> ticket_options \<Rightarrow> db \<Rightarrow> id \<times> item_view list \<Rightarrow> db" where
  "dispatch_station e order u po d = (\<lambda>(k, ivs).
     let s = event_station d (od_eventId order) k in
     case target_printer d s of
       None \<Rightarrow> d
     | Some p \<Rightarrow> create_order_print_job e (pr_id p) STATION_TICKET (od_id order) (station_ticket d order u po s ivs) d)"

section \<open>Product vouchers\<close>

definition copy_fields :: "ticket_options \<Rightarrow> (string \<times> json) list" where
  "copy_fields po = [(''isCopy'', JBool (po_reprintedAt po \<noteq> None))]
     @ jopt time_json ''reprintedAt'' (po_reprintedAt po) @ jopt JNum ''pickupNumber'' (po_pickupNumber po)"

definition voucher_ticket :: "db \<Rightarrow> order \<Rightarrow> ticket_options \<Rightarrow> station option \<Rightarrow> voucher_print \<Rightarrow> json" where
  "voucher_ticket d order po s v = JObj
     ([(''title'', JStr ''PRODUKTBON''), (''eventName'', JStr (event_name d (od_eventId order))),
       (''orderNumber'', JNum (od_orderNumber order)), (''voucherCode'', JStr (vp_code v)),
       (''productName'', JStr (vp_productName v)), (''variantName'', jnull JStr (vp_variantName v)),
       (''quantity'', JNum 1), (''stationName'', JStr (station_name s)),
       (''issuedAt'', time_json (vp_issuedAt v)),
       (''rksvDisclaimer'', JStr ''VereinOrder ist keine RKSV-Registrierkasse.'')] @ copy_fields po)"

definition dispatch_voucher :: "env \<Rightarrow> order \<Rightarrow> ticket_options \<Rightarrow> db \<Rightarrow> voucher_print \<Rightarrow> db" where
  "dispatch_voucher e order po d v =
     (let s = (case truthy (vp_stationId v) of None \<Rightarrow> None | Some i \<Rightarrow> event_station d (od_eventId order) i) in
      case target_printer d s of
        None \<Rightarrow> d
      | Some p \<Rightarrow> create_order_print_job e (pr_id p) PRODUCT_VOUCHER (od_id order) (voucher_ticket d order po s v) d)"

section \<open>The receipt\<close>

definition paid_total :: "payment list \<Rightarrow> int" where
  "paid_total ps = sum_list (map pm_amount (filter (\<lambda>p. pm_method p \<noteq> REFUND) ps))"

definition receipt_ticket :: "db \<Rightarrow> order \<Rightarrow> item_view list \<Rightarrow> payment list \<Rightarrow> user option \<Rightarrow> ticket_options \<Rightarrow> json" where
  "receipt_ticket d order ivs payments u po =
     (let change = (case po_changeAmount po of Some c \<Rightarrow> c | None \<Rightarrow> max 0 (paid_total payments - od_totalAmount order)) in
      JObj ([(''title'', JStr (or_text (po_receiptTitle po) ''KASSENBELEG'')),
        (''eventName'', JStr (event_name d (od_eventId order))), (''orderNumber'', JNum (od_orderNumber order)),
        (''orderId'', JStr (od_id order)), (''tableName'', JStr (or_text (od_tableName order) ''Theke'')),
        (''waiterName'', JStr (waiter_name u)), (''createdAt'', time_json (od_createdAt order)),
        (''items'', JArr (map (\<lambda>(i, p). JObj [(''productName'', JStr (or_text (Some (pd_name p)) ''Artikel'')),
           (''quantity'', JNum (oi_quantity i)), (''price'', JNum (oi_priceAtTime i)),
           (''deposit'', JNum (oi_depositAtTime i)), (''variantName'', jnull JStr (oi_variantName i)),
           (''extras'', extras_json (oi_extras i)),
           (''totalPrice'', JNum ((oi_priceAtTime i + oi_depositAtTime i) * oi_quantity i))]) ivs)),
        (''depositRefundTotal'', JNum (od_depositRefundTotal order)),
        (''totalAmount'', JNum (od_totalAmount order)),
        (''payments'', JArr (map (\<lambda>p. JObj [(''amount'', JNum (pm_amount p)),
           (''method'', JStr (method_text (pm_method p))), (''tenderedAmount'', jnull JNum (pm_tenderedAmount p)),
           (''changeAmount'', JNum (pm_changeAmount p))]) payments))]
        @ jopt JNum ''tenderedAmount'' (po_tenderedAmount po)
        @ [(''changeAmount'', JNum change),
           (''rksvDisclaimer'', JStr ''VereinOrder ist keine RKSV-Registrierkasse.'')] @ copy_fields po))"

definition dispatch_receipt ::
  "env \<Rightarrow> order \<Rightarrow> item_view list \<Rightarrow> payment list \<Rightarrow> user option \<Rightarrow> ticket_options \<Rightarrow> db \<Rightarrow> db" where
  "dispatch_receipt e order ivs payments u po d =
     (case active_printer d of
        None \<Rightarrow> d
      | Some p \<Rightarrow> create_order_print_job e (pr_id p) RECEIPT (od_id order)
                   (receipt_ticket d order ivs payments u po) d)"

definition dispatchPrintJobs ::
  "env \<Rightarrow> order \<Rightarrow> item_view list \<Rightarrow> payment list \<Rightarrow> user option \<Rightarrow> ticket_options \<Rightarrow> db \<Rightarrow> db" where
  "dispatchPrintJobs e order ivs payments u po d =
     (if no_printers d (od_eventId order) then d
      else let d1 = (if po_includeStationTickets po
                     then foldl (dispatch_station e order u po) d (items_by_station ivs) else d);
               d2 = foldl (dispatch_voucher e order po) d1 (po_vouchers po)
           in dispatch_receipt e order ivs payments u po d2)"

section \<open>Only the print queue changes\<close>

definition beside_print where
  "beside_print d = (t_events d, t_users d, t_areas d, t_stations d, t_printers d, t_products d,
     t_sessions d, t_orders d, t_items d, t_payments d, t_prodVouchers d, t_stocks d, t_movements d,
     t_valueVouchers d, t_vvMovements d, t_vvAllocations d, t_pickupCounters d, t_auditLogs d,
     broadcasts d, orderSeq d)"

lemma beside_printD:
  assumes "beside_print d' = beside_print d"
  shows "t_events d' = t_events d" "t_users d' = t_users d" "t_areas d' = t_areas d"
    "t_stations d' = t_stations d" "t_printers d' = t_printers d" "t_products d' = t_products d"
    "t_sessions d' = t_sessions d" "t_orders d' = t_orders d" "t_items d' = t_items d"
    "t_payments d' = t_payments d" "t_prodVouchers d' = t_prodVouchers d" "t_stocks d' = t_stocks d"
    "t_movements d' = t_movements d" "t_valueVouchers d' = t_valueVouchers d"
    "t_vvMovements d' = t_vvMovements d" "t_vvAllocations d' = t_vvAllocations d"
    "t_pickupCounters d' = t_pickupCounters d" "t_auditLogs d' = t_auditLogs d"
    "broadcasts d' = broadcasts d" "orderSeq d' = orderSeq d"
  using assms by (simp_all add: beside_print_def)

text \<open>What a dispatch does to the queue: it appends jobs of the order, none of them yet taken.\<close>

definition queued :: "db \<Rightarrow> db \<Rightarrow> print_job list \<Rightarrow> bool" where
  "queued d d' new \<longleftrightarrow> beside_print d' = beside_print d \<and> t_printJobs d' = t_printJobs d @ new \<and>
     serial d' = serial d + length new"

lemma queued_refl: "queued d d []"
  by (simp add: queued_def)

lemma queued_trans: "queued d d1 xs \<Longrightarrow> queued d1 d2 ys \<Longrightarrow> queued d d2 (xs @ ys)"
  by (simp add: queued_def)

definition order_job :: "order \<Rightarrow> print_job_type \<Rightarrow> print_job \<Rightarrow> bool" where
  "order_job order ty j \<longleftrightarrow> pj_jobType j = ty \<and> pj_orderId j = Some (od_id order) \<and>
     pj_status j = PJ_PENDING \<and> pj_leaseId j = None \<and> pj_failoverCount j = 0"

lemma create_job_queued:
  "\<exists>j. queued d (create_order_print_job e p ty oid c d) [j] \<and> pj_jobType j = ty \<and>
     pj_orderId j = Some oid \<and> pj_printerId j = p \<and> pj_content j = c \<and> pj_status j = PJ_PENDING \<and>
     pj_leaseId j = None \<and> pj_failoverCount j = 0"
  by (intro exI [of _ "(new_print_job (fresh_id e d) p ty c (env_now e))\<lparr>pj_orderId := Some oid\<rparr>"])
     (simp add: create_order_print_job_def queued_def beside_print_def new_print_job_def)

lemma printers_of_queued:
  "queued d d' new \<Longrightarrow> active_printer d' = active_printer d \<and> target_printer d' s = target_printer d s"
proof -
  assume "queued d d' new"
  then have "beside_print d' = beside_print d" by (simp add: queued_def)
  note pr = beside_printD(5) [OF this]
  have "station_printer d' = station_printer d" by (rule ext) (simp only: station_printer_def pr)
  moreover have "active_printer d' = active_printer d" by (simp add: active_printer_def pr)
  ultimately show ?thesis by (simp only: target_printer_def)
qed

lemma target_printer_None: "target_printer d s = None \<Longrightarrow> active_printer d = None"
  by (auto simp: target_printer_def split: option.splits if_splits)

lemma dispatch_station_queued:
  "\<exists>new. queued d (dispatch_station e order u po d g) new \<and> (\<forall>j \<in> set new. order_job order STATION_TICKET j) \<and>
     length new \<le> 1 \<and> (active_printer d \<noteq> None \<longrightarrow> length new = 1)"
proof (cases g)
  case (Pair k ivs)
  let ?s = "event_station d (od_eventId order) k"
  show ?thesis
  proof (cases "target_printer d ?s")
    case None
    with target_printer_None [OF None] show ?thesis
      by (intro exI [of _ "[]"]) (auto simp: Pair dispatch_station_def Let_def queued_refl)
  next
    case (Some p)
    with create_job_queued [of d e "pr_id p" STATION_TICKET "od_id order" "station_ticket d order u po ?s ivs"]
    show ?thesis by (fastforce simp: Pair dispatch_station_def Let_def order_job_def)
  qed
qed

lemma dispatch_voucher_queued:
  "\<exists>new. queued d (dispatch_voucher e order po d v) new \<and> (\<forall>j \<in> set new. order_job order PRODUCT_VOUCHER j) \<and>
     length new \<le> 1 \<and> (active_printer d \<noteq> None \<longrightarrow> length new = 1)"
proof -
  let ?s = "case truthy (vp_stationId v) of None \<Rightarrow> None | Some i \<Rightarrow> event_station d (od_eventId order) i"
  show ?thesis
  proof (cases "target_printer d ?s")
    case None
    with target_printer_None [OF None] show ?thesis
      by (intro exI [of _ "[]"]) (auto simp: dispatch_voucher_def Let_def queued_refl)
  next
    case (Some p)
    with create_job_queued [of d e "pr_id p" PRODUCT_VOUCHER "od_id order" "voucher_ticket d order po ?s v"]
    show ?thesis by (fastforce simp: dispatch_voucher_def Let_def order_job_def)
  qed
qed

lemma dispatch_receipt_queued:
  "\<exists>new. queued d (dispatch_receipt e order ivs ps u po d) new \<and> (\<forall>j \<in> set new. order_job order RECEIPT j) \<and>
     length new \<le> 1 \<and> (active_printer d \<noteq> None \<longrightarrow> length new = 1)"
proof (cases "active_printer d")
  case None
  then show ?thesis by (intro exI [of _ "[]"]) (simp add: dispatch_receipt_def queued_refl)
next
  case (Some p)
  with create_job_queued [of d e "pr_id p" RECEIPT "od_id order" "receipt_ticket d order ivs ps u po"]
  show ?thesis by (fastforce simp: dispatch_receipt_def order_job_def)
qed

text \<open>A loop of dispatch steps queues one job per element when a printer is active.\<close>

lemma dispatch_loop:
  assumes "\<And>d x. \<exists>new. queued d (f d x) new \<and> (\<forall>j \<in> set new. P j) \<and> length new \<le> 1 \<and>
             (active_printer d \<noteq> None \<longrightarrow> length new = 1)"
  shows "\<exists>new. queued d (foldl f d xs) new \<and> (\<forall>j \<in> set new. P j) \<and>
     (active_printer d \<noteq> None \<longrightarrow> length new = length xs)"
proof (induction xs arbitrary: d)
  case Nil
  show ?case by (intro exI [of _ "[]"]) (simp add: queued_refl)
next
  case (Cons x xs)
  from assms [of d x] obtain n1 where 1: "queued d (f d x) n1" "\<forall>j \<in> set n1. P j"
    "active_printer d \<noteq> None \<longrightarrow> length n1 = 1" by blast
  from Cons.IH [of "f d x"] obtain n2 where 2: "queued (f d x) (foldl f (f d x) xs) n2" "\<forall>j \<in> set n2. P j"
    "active_printer (f d x) \<noteq> None \<longrightarrow> length n2 = length xs" by blast
  from queued_trans [OF 1(1) 2(1)] 1(2,3) 2(2,3) printers_of_queued [OF 1(1)]
  show ?case by (intro exI [of _ "n1 @ n2"]) auto
qed

lemma dispatch_queued:
  "\<exists>tickets vouchers receipt. queued d (dispatchPrintJobs e order ivs ps u po d) (tickets @ vouchers @ receipt) \<and>
     (\<forall>j \<in> set tickets. order_job order STATION_TICKET j) \<and> (\<forall>j \<in> set vouchers. order_job order PRODUCT_VOUCHER j) \<and>
     (\<forall>j \<in> set receipt. order_job order RECEIPT j) \<and>
     (\<not> po_includeStationTickets po \<longrightarrow> tickets = []) \<and>
     (active_printer d \<noteq> None \<longrightarrow> length vouchers = length (po_vouchers po) \<and> length receipt = 1 \<and>
        (po_includeStationTickets po \<longrightarrow> length tickets = length (items_by_station ivs)))"
proof (cases "no_printers d (od_eventId order)")
  case True
  then have "active_printer d = None" by (simp add: no_printers_def)
  with True show ?thesis
    by (intro exI [of _ "[]"]) (simp add: dispatchPrintJobs_def queued_refl)
next
  case False
  define d1 where "d1 = (if po_includeStationTickets po
     then foldl (dispatch_station e order u po) d (items_by_station ivs) else d)"
  define d2 where "d2 = foldl (dispatch_voucher e order po) d1 (po_vouchers po)"
  have "\<exists>n1. queued d d1 n1 \<and> (\<forall>j \<in> set n1. order_job order STATION_TICKET j) \<and>
    (\<not> po_includeStationTickets po \<longrightarrow> n1 = []) \<and>
    (active_printer d \<noteq> None \<longrightarrow> po_includeStationTickets po \<longrightarrow> length n1 = length (items_by_station ivs))"
  proof (cases "po_includeStationTickets po")
    case True
    with dispatch_loop [of "dispatch_station e order u po", OF dispatch_station_queued, of d "items_by_station ivs"]
    show ?thesis by (simp add: d1_def)
  next
    case False
    with queued_refl [of d] show ?thesis by (intro exI [of _ "[]"]) (simp add: d1_def)
  qed
  then obtain n1 where 1: "queued d d1 n1" "\<forall>j \<in> set n1. order_job order STATION_TICKET j"
    "\<not> po_includeStationTickets po \<longrightarrow> n1 = []"
    "active_printer d \<noteq> None \<longrightarrow> po_includeStationTickets po \<longrightarrow> length n1 = length (items_by_station ivs)"
    by blast
  from dispatch_loop [of "dispatch_voucher e order po", OF dispatch_voucher_queued, of d1 "po_vouchers po"]
  obtain n2 where 2: "queued d1 d2 n2" "\<forall>j \<in> set n2. order_job order PRODUCT_VOUCHER j"
    "active_printer d1 \<noteq> None \<longrightarrow> length n2 = length (po_vouchers po)" unfolding d2_def by blast
  from dispatch_receipt_queued [of d2 e order ivs ps u po]
  obtain n3 where 3: "queued d2 (dispatch_receipt e order ivs ps u po d2) n3" "\<forall>j \<in> set n3. order_job order RECEIPT j"
    "active_printer d2 \<noteq> None \<longrightarrow> length n3 = 1" by blast
  have run: "dispatchPrintJobs e order ivs ps u po d = dispatch_receipt e order ivs ps u po d2"
    using False by (simp add: dispatchPrintJobs_def Let_def d1_def d2_def)
  have q: "queued d (dispatchPrintJobs e order ivs ps u po d) (n1 @ n2 @ n3)"
    unfolding run by (rule queued_trans [OF 1(1) queued_trans [OF 2(1) 3(1)]])
  have p: "active_printer d1 = active_printer d" "active_printer d2 = active_printer d"
    using printers_of_queued [OF 1(1)] printers_of_queued [OF 2(1)] by auto
  show ?thesis
    using q 1(2-4) 2(2,3) 3(2,3) unfolding p by blast
qed

lemma dispatch_frame: "beside_print (dispatchPrintJobs e order ivs ps u po d) = beside_print d"
  using dispatch_queued [of d e order ivs ps u po] by (auto simp: queued_def)

lemma dispatch_serial: "serial d \<le> serial (dispatchPrintJobs e order ivs ps u po d)"
  using dispatch_queued [of d e order ivs ps u po] by (auto simp: queued_def)

section \<open>Every position is on exactly one station ticket\<close>

lemma items_by_station_perm: "mset (concat (map snd (items_by_station ivs))) = mset ivs"
proof (induction ivs rule: rev_induct)
  case Nil
  then show ?case by (simp add: items_by_station_def)
next
  case (snoc iv ivs)
  let ?m = "items_by_station ivs"
  have add: "mset (concat (map snd (js_set k ((case js_get m k of None \<Rightarrow> [] | Some l \<Rightarrow> l) @ [iv]) m)))
      = add_mset iv (mset (concat (map snd m)))" for k and m :: "(id \<times> item_view list) list"
    by (induction m) auto
  with snoc show ?case by (simp add: items_by_station_def)
qed

lemma items_by_station_keys:
  "distinct (js_keys (items_by_station ivs)) \<and>
   (\<forall>(k, l) \<in> set (items_by_station ivs). l \<noteq> [] \<and> (\<forall>iv \<in> set l. station_key iv = k))"
proof (induction ivs rule: rev_induct)
  case Nil
  then show ?case by (simp add: items_by_station_def)
next
  case (snoc iv ivs)
  let ?m = "items_by_station ivs"
  have ok: "l \<noteq> [] \<and> (\<forall>jv \<in> set l. station_key jv = k)"
    if m: "(k, l) \<in> set (js_set (station_key iv) ((case js_get ?m (station_key iv) of None \<Rightarrow> [] | Some l \<Rightarrow> l) @ [iv]) ?m)" for k l
  proof -
    from js_set_mem [OF m] consider "(k, l) \<in> set ?m"
      | "k = station_key iv" "l = (case js_get ?m (station_key iv) of None \<Rightarrow> [] | Some l \<Rightarrow> l) @ [iv]" by auto
    then show ?thesis
    proof cases
      case 1
      with snoc show ?thesis by auto
    next
      case 2
      show ?thesis
      proof (cases "js_get ?m (station_key iv)")
        case None
        with 2 show ?thesis by simp
      next
        case (Some l0)
        then have "(station_key iv, l0) \<in> set ?m" by (rule map_of_SomeD)
        with snoc 2 Some show ?thesis by auto
      qed
    qed
  qed
  have eq: "items_by_station (ivs @ [iv])
      = js_set (station_key iv) ((case js_get ?m (station_key iv) of None \<Rightarrow> [] | Some l \<Rightarrow> l) @ [iv]) ?m"
    by (simp add: items_by_station_def)
  show ?case
    unfolding eq
  proof
    show "distinct (js_keys (js_set (station_key iv) ((case js_get ?m (station_key iv) of None \<Rightarrow> [] | Some l \<Rightarrow> l) @ [iv]) ?m))"
      by (rule js_keys_distinct) (use snoc in simp)
  qed (clarify, rule ok)
qed

end
