(* ===== verification/VO_Orders.thy ===== *)
theory VO_Orders
  imports VO_Dispatch VO_Pricing
begin

text \<open>
  Taking orders, \<^verbatim>\<open>apps/backend/src/orders/orders.service.ts\<close>: \<^verbatim>\<open>createOrder\<close> (waiter orders, with
  partial payment), \<^verbatim>\<open>createQuickSale\<close> (bon and station register), their idempotency
  short-circuits, the lookup by idempotency key, discarding an offline entry, reprinting and the
  list of unpaid orders. The inventory service is the optional port the constructor injects.
\<close>

section \<open>The inventory port\<close>

record inventory_port =
  ip_reserveSale :: "db \<Rightarrow> id \<Rightarrow> data_mode \<Rightarrow> sale_line list \<Rightarrow> api_error + db \<times> reservation list"
  ip_recordSales :: "env \<Rightarrow> db \<Rightarrow> id \<Rightarrow> data_mode \<Rightarrow> id \<Rightarrow> id \<Rightarrow> reservation list \<Rightarrow> order_item list \<Rightarrow>
    api_error + db \<times> inv_change list"
  ip_reverseSales :: "env \<Rightarrow> db \<Rightarrow> id \<Rightarrow> data_mode \<Rightarrow> id \<Rightarrow> id list \<Rightarrow> id \<Rightarrow> string \<Rightarrow>
    api_error + db \<times> inv_change list"
  ip_publishChanges :: "id \<Rightarrow> data_mode \<Rightarrow> inv_change list \<Rightarrow> db \<Rightarrow> db"

definition InventoryService :: inventory_port where
  "InventoryService = \<lparr>ip_reserveSale = reserveSale, ip_recordSales = recordSales,
     ip_reverseSales = reverseSales, ip_publishChanges = publishChanges\<rparr>"

definition reserveInventory ::
  "inventory_port option \<Rightarrow> db \<Rightarrow> id \<Rightarrow> data_mode \<Rightarrow> sale_line list \<Rightarrow> api_error + db \<times> reservation list" where
  "reserveInventory port d ev m lines = (case port of None \<Rightarrow> Inr (d, []) | Some s \<Rightarrow> ip_reserveSale s d ev m lines)"

definition recordInventorySales ::
  "inventory_port option \<Rightarrow> env \<Rightarrow> db \<Rightarrow> id \<Rightarrow> data_mode \<Rightarrow> id \<Rightarrow> id \<Rightarrow> reservation list \<Rightarrow> order_item list \<Rightarrow>
   api_error + db \<times> inv_change list" where
  "recordInventorySales port e d ev m oid actor rs items =
     (case port of None \<Rightarrow> Inr (d, []) | Some s \<Rightarrow> ip_recordSales s e d ev m oid actor rs items)"

definition reverseInventorySales ::
  "inventory_port option \<Rightarrow> env \<Rightarrow> db \<Rightarrow> id \<Rightarrow> data_mode \<Rightarrow> id \<Rightarrow> id list \<Rightarrow> id \<Rightarrow> string \<Rightarrow>
   api_error + db \<times> inv_change list" where
  "reverseInventorySales port e d ev m oid items actor reason =
     (case port of None \<Rightarrow> Inr (d, []) | Some s \<Rightarrow> ip_reverseSales s e d ev m oid items actor reason)"

definition publishInventory :: "inventory_port option \<Rightarrow> id \<Rightarrow> data_mode \<Rightarrow> inv_change list \<Rightarrow> db \<Rightarrow> db" where
  "publishInventory port ev m changes d = (case port of None \<Rightarrow> d | Some s \<Rightarrow> ip_publishChanges s ev m changes d)"

section \<open>Reading orders\<close>

record order_view =
  vw_order :: order
  vw_items :: "order_item list"
  vw_payments :: "payment list"

definition order_items :: "db \<Rightarrow> id \<Rightarrow> order_item list" where
  "order_items d oid = filter (\<lambda>i. oi_orderId i = oid) (t_items d)"

definition order_payments :: "db \<Rightarrow> id \<Rightarrow> payment list" where
  "order_payments d oid = filter (\<lambda>p. pm_orderId p = oid) (t_payments d)"

definition order_vouchers :: "db \<Rightarrow> id \<Rightarrow> prod_voucher list" where
  "order_vouchers d oid = filter (\<lambda>v. pv_orderId v = oid) (t_prodVouchers d)"

definition view_order :: "db \<Rightarrow> order \<Rightarrow> order_view" where
  "view_order d o' = \<lparr>vw_order = o', vw_items = order_items d (od_id o'), vw_payments = order_payments d (od_id o')\<rparr>"

definition find_order :: "db \<Rightarrow> id \<Rightarrow> order option" where
  "find_order d oid = find (\<lambda>o'. od_id o' = oid) (t_orders d)"

definition order_by_key :: "db \<Rightarrow> string \<Rightarrow> order option" where
  "order_by_key d k = find (\<lambda>o'. od_idempotencyKey o' = Some k) (t_orders d)"

definition event_product :: "db \<Rightarrow> id \<Rightarrow> id \<Rightarrow> product option" where
  "event_product d ev i = find (\<lambda>p. pd_id p = i \<and> pd_eventId p = ev) (t_products d)"

text \<open>\<^verbatim>\<open>include: product\<close>: the foreign key guarantees the product of every position.\<close>

definition with_products :: "db \<Rightarrow> order_item list \<Rightarrow> item_view list" where
  "with_products d items = List.map_filter (\<lambda>i. map_option (Pair i) (find_product d (oi_productId i))) items"

definition active_session :: "db \<Rightarrow> id \<Rightarrow> id \<Rightarrow> session option" where
  "active_session d userId ev =
     (if userId = [] then None
      else find (\<lambda>s. cs_userId s = userId \<and> cs_eventId s = ev \<and> cs_status s = SE_ACTIVE) (t_sessions d))"

section \<open>Creating the order rows\<close>

definition number_items :: "env \<Rightarrow> nat \<Rightarrow> id \<Rightarrow> order_item list \<Rightarrow> order_item list" where
  "number_items e n oid items =
     map (\<lambda>(k, i). i\<lparr>oi_id := env_uuid e k, oi_orderId := oid\<rparr>) (zip [n..<n + length items] items)"

definition number_payments :: "env \<Rightarrow> nat \<Rightarrow> id \<Rightarrow> payment list \<Rightarrow> payment list" where
  "number_payments e n oid ps =
     map (\<lambda>(k, p). p\<lparr>pm_id := env_uuid e k, pm_orderId := oid\<rparr>) (zip [n..<n + length ps] ps)"

text \<open>
  \<^verbatim>\<open>order.create\<close> with nested items and payments; \<open>idempotencyKey\<close> and the pickup number per event
  and mode are unique columns.
\<close>

definition insert_order ::
  "env \<Rightarrow> order \<Rightarrow> order_item list \<Rightarrow> payment list \<Rightarrow> db \<Rightarrow> api_error + db \<times> order_view" where
  "insert_order e o' items payments d =
     (if od_idempotencyKey o' \<noteq> None \<and> list_ex (\<lambda>x. od_idempotencyKey x = od_idempotencyKey o') (t_orders d)
        then Inl (UniqueViolation ''Order.idempotencyKey'')
      else if od_pickupNumber o' \<noteq> None \<and>
              list_ex (\<lambda>x. od_eventId x = od_eventId o' \<and> od_dataMode x = od_dataMode o' \<and>
                          od_pickupNumber x = od_pickupNumber o') (t_orders d)
        then Inl (UniqueViolation ''Order.pickupNumber'')
      else
        let n = serial d; oid = env_uuid e n;
            row = o'\<lparr>od_id := oid, od_orderNumber := orderSeq d + 1, od_createdAt := env_now e\<rparr>;
            its = number_items e (Suc n) oid items;
            pays = number_payments e (Suc n + length items) oid payments
        in Inr (d\<lparr>t_orders := t_orders d @ [row], t_items := t_items d @ its,
                  t_payments := t_payments d @ pays,
                  serial := Suc n + length items + length payments, orderSeq := orderSeq d + 1\<rparr>,
                \<lparr>vw_order = row, vw_items = its, vw_payments = pays\<rparr>))"

definition blank_order :: order where
  "blank_order = \<lparr>od_id = [], od_orderNumber = 0, od_totalAmount = 0, od_depositRefundTotal = 0,
     od_lifecycleStatus = LC_SUBMITTED, od_paymentStatus = OPEN, od_fulfillmentStatus = FF_PENDING,
     od_isPriority = False, od_idempotencyKey = None, od_tableName = None, od_areaId = None,
     od_userId = [], od_claimedByUserId = None, od_claimedAt = None, od_eventId = [],
     od_dataMode = TEST, od_createdAt = 0, od_cashierSessionId = None, od_pickupNumber = None,
     od_stationId = None\<rparr>"

section \<open>Positions of a sale\<close>

definition position_blocked :: "inventory_port option \<Rightarrow> product \<Rightarrow> bool" where
  "position_blocked port p \<longleftrightarrow> port = None \<and>
     (\<not> ca_isActive (pd_category p) \<or>
      pd_manualAvailability p \<noteq> AVAILABLE \<and> pd_manualAvailability p \<noteq> LOW_STOCK)"

definition new_item :: "product \<Rightarrow> item_input \<Rightarrow> pricing \<Rightarrow> order_item" where
  "new_item p i r = \<lparr>oi_id = [], oi_orderId = [], oi_productId = pd_id p, oi_quantity = ii_quantity i,
     oi_paidQuantity = 0, oi_priceAtTime = pp_priceAtTime r, oi_depositAtTime = resolveDeposit p,
     oi_status = IT_PENDING, oi_variantId = pp_variantId r, oi_variantName = pp_variantName r,
     oi_extras = (if pp_extras r = [] then None else Some (pp_extras r))\<rparr>"

definition item_gross :: "order_item \<Rightarrow> int" where
  "item_gross i = (oi_priceAtTime i + oi_depositAtTime i) * oi_quantity i"

definition gross_total :: "order_item list \<Rightarrow> int" where
  "gross_total items = sum_list (map item_gross items)"

definition sale_line_of :: "product \<Rightarrow> item_input \<Rightarrow> sale_line" where
  "sale_line_of p i = \<lparr>sl_productId = pd_id p, sl_quantity = ii_quantity i, sl_productName = pd_name p,
     sl_manualAvailability = pd_manualAvailability p, sl_categoryActive = Some (ca_isActive (pd_category p))\<rparr>"

definition sale_lines :: "db \<Rightarrow> id \<Rightarrow> item_input list \<Rightarrow> api_error + sale_line list" where
  "sale_lines d ev items = map_res (\<lambda>i. bind_res (need (event_product d ev (ii_productId i)) (TypeError ''product''))
     (\<lambda>p. Inr (sale_line_of p i))) items"

section \<open>Idempotency of createOrder\<close>

record create_order =
  co_eventId :: id
  co_items :: "item_input list"
  co_payments :: "payment_input list option"
  co_idempotencyKey :: "string option"
  co_tableName :: "string option"
  co_areaId :: "id option"
  co_cashierSessionId :: "id option"
  co_depositRefundTotal :: "int option"

definition position_text :: "id \<Rightarrow> int \<Rightarrow> id list \<Rightarrow> string" where
  "position_text p q ids = p @ '':'' @ int_text q @ '':'' @ join '','' (sort ids)"

definition requested_positions :: "item_input list \<Rightarrow> string list" where
  "requested_positions items =
     sort (map (\<lambda>i. position_text (ii_productId i) (ii_quantity i) (item_optionIds i)) items)"

definition item_extras :: "order_item \<Rightarrow> extra list" where
  "item_extras i = (case oi_extras i of None \<Rightarrow> [] | Some l \<Rightarrow> l)"

definition stored_positions :: "order_item list \<Rightarrow> string list" where
  "stored_positions items =
     sort (map (\<lambda>i. position_text (oi_productId i) (oi_quantity i)
                     (stored_option_ids (oi_variantId i) (item_extras i))) items)"

definition payment_text :: "int \<Rightarrow> payment_method \<Rightarrow> string" where
  "payment_text a m = int_text a @ '':'' @ method_text m"

definition dto_payments :: "create_order \<Rightarrow> payment_input list" where
  "dto_payments c = (case co_payments c of None \<Rightarrow> [] | Some ps \<Rightarrow> ps)"

definition same_order_request :: "id \<Rightarrow> create_order \<Rightarrow> order_view \<Rightarrow> bool" where
  "same_order_request userId c v \<longleftrightarrow> od_userId (vw_order v) = userId \<and> od_eventId (vw_order v) = co_eventId c \<and>
     od_depositRefundTotal (vw_order v) = (case co_depositRefundTotal c of None \<Rightarrow> 0 | Some r \<Rightarrow> r) \<and>
     requested_positions (co_items c) = stored_positions (vw_items v) \<and>
     sort (map (\<lambda>p. payment_text (pi_amount p) (pi_method p)) (dto_payments c))
       = sort (map (\<lambda>p. payment_text (pm_amount p) (pm_method p)) (vw_payments v))"

definition resolveIdempotentOrder :: "db \<Rightarrow> id \<Rightarrow> create_order \<Rightarrow> api_error + order_view option" where
  "resolveIdempotentOrder d userId c =
     (case truthy (co_idempotencyKey c) of
        None \<Rightarrow> Inr None
      | Some k \<Rightarrow> (case order_by_key d k of
          None \<Rightarrow> Inr None
        | Some o' \<Rightarrow> if same_order_request userId c (view_order d o') then Inr (Some (view_order d o'))
                    else Inl (Rejected DUPLICATE_KEY_MISMATCH ''IDEMPOTENCY_KEY_CONFLICT'')))"

text \<open>P2002 names its column, here \<^verbatim>\<open>Model.column\<close>.\<close>

definition isIdempotencyKeyViolation :: "api_error \<Rightarrow> bool" where
  "isIdempotencyKeyViolation err = (case err of
     UniqueViolation t \<Rightarrow> drop (length t - length ''idempotencyKey'') t = ''idempotencyKey''
   | _ \<Rightarrow> False)"

section \<open>createOrder\<close>

definition order_mode :: "db \<Rightarrow> id \<Rightarrow> data_mode option" where
  "order_mode d ev = (case resolveOperationalDataMode (find_event d ev) of Inl _ \<Rightarrow> None | Inr m \<Rightarrow> m)"

definition check_references :: "db \<Rightarrow> create_order \<Rightarrow> api_error + unit" where
  "check_references d c =
     bind_res (ensure (list_all (\<lambda>i. event_product d (co_eventId c) (ii_productId i) \<noteq> None) (co_items c))
                (Rejected PRODUCT_UNAVAILABLE ''PRODUCT_NOT_IN_EVENT'')) (\<lambda>_.
     (case truthy (co_areaId c) of
        None \<Rightarrow> Inr ()
      | Some a \<Rightarrow> ensure (list_ex (\<lambda>x. ar_id x = a \<and> ar_eventId x = co_eventId c) (t_areas d))
                   (Rejected RC_VALIDATION ''AREA_NOT_IN_EVENT'')))"

definition check_session :: "db \<Rightarrow> id \<Rightarrow> create_order \<Rightarrow> data_mode \<Rightarrow> api_error + id option" where
  "check_session d userId c m =
     (let s = active_session d userId (co_eventId c) in
      bind_res (ensure (case s of None \<Rightarrow> True | Some x \<Rightarrow> cs_dataMode x = m)
                 (ConflictRejected EVENT_MODE ''SESSION_MODE'')) (\<lambda>_.
      bind_res (ensure (case truthy (co_cashierSessionId c) of None \<Rightarrow> True
                          | Some i \<Rightarrow> map_option cs_id s = Some i)
                 (ConflictRejected SESSION_CLOSED ''SESSION_NOT_ACTIVE'')) (\<lambda>_.
      Inr (map_option cs_id s))))"

definition require_active_user :: "db \<Rightarrow> id \<Rightarrow> api_error \<Rightarrow> api_error + user" where
  "require_active_user d userId err =
     (case (if userId = [] then None else find_user d userId) of
        None \<Rightarrow> Inl err | Some u \<Rightarrow> if us_isActive u then Inr u else Inl err)"

definition add_order_position ::
  "inventory_port option \<Rightarrow> db \<Rightarrow> id \<Rightarrow> int \<times> order_item list \<Rightarrow> item_input \<Rightarrow> api_error + int \<times> order_item list" where
  "add_order_position port d ev = (\<lambda>(acc, items) i.
     bind_res (need (event_product d ev (ii_productId i)) (TypeError ''product'')) (\<lambda>p.
     bind_res (ensure (\<not> position_blocked port p) (Rejected PRODUCT_UNAVAILABLE ''PRODUCT_OUT_OF_STOCK'')) (\<lambda>_.
     bind_res (resolveOrderItemPricing p (item_optionIds i)) (\<lambda>r.
     let it = new_item p i r; acc' = acc + item_gross it in
     bind_res (ensure (is_safe_integer acc' \<and> acc' \<le> int32_max) (Rejected RC_VALIDATION ''ORDER_TOTAL'')) (\<lambda>_.
     Inr (acc', items @ [it]))))))"

definition initial_payment_status :: "int \<Rightarrow> int \<Rightarrow> order_payment_status" where
  "initial_payment_status paid due = (if due \<le> paid then PAID else if 0 < paid then PARTIALLY_PAID else OPEN)"

definition new_payment :: "id option \<Rightarrow> payment_input \<Rightarrow> payment" where
  "new_payment sess p = \<lparr>pm_id = [], pm_orderId = [], pm_amount = pi_amount p, pm_tenderedAmount = None,
     pm_changeAmount = 0, pm_method = pi_method p, pm_status = PS_COMPLETED, pm_cashierSessionId = sess\<rparr>"

definition order_row :: "id \<Rightarrow> create_order \<Rightarrow> data_mode \<Rightarrow> id option \<Rightarrow> int \<Rightarrow> int \<Rightarrow> order_payment_status \<Rightarrow> order" where
  "order_row userId c m sess due refund st = blank_order\<lparr>od_totalAmount := due, od_depositRefundTotal := refund,
     od_paymentStatus := st, od_userId := userId, od_eventId := co_eventId c, od_dataMode := m,
     od_idempotencyKey := co_idempotencyKey c, od_tableName := co_tableName c, od_areaId := co_areaId c,
     od_cashierSessionId := sess\<rparr>"

definition createOrder_tx ::
  "inventory_port option \<Rightarrow> env \<Rightarrow> db \<Rightarrow> id \<Rightarrow> create_order \<Rightarrow> int \<Rightarrow> int \<Rightarrow> api_error + db \<times> order_view \<times> inv_change list" where
  "createOrder_tx port e d userId c refund paid =
     bind_res (need (order_mode d (co_eventId c)) (Rejected EVENT_MODE ''EVENT_NOT_ACTIVE_FOR_ORDERS'')) (\<lambda>m.
     bind_res (check_references d c) (\<lambda>_.
     bind_res (check_session d userId c m) (\<lambda>sess.
     bind_res (require_active_user d userId (Rejected RC_FORBIDDEN ''USER_NOT_ACTIVE'')) (\<lambda>user.
     bind_res (fold_res (add_order_position port d (co_eventId c)) (0, []) (co_items c)) (\<lambda>(gross, items).
     bind_res (ensure (refund \<le> gross) (Rejected RC_VALIDATION ''REFUND_ABOVE_TOTAL'')) (\<lambda>_.
     let due = gross - refund; st = initial_payment_status paid due in
     bind_res (sale_lines d (co_eventId c) (co_items c)) (\<lambda>lines.
     bind_res (reserveInventory port d (co_eventId c) m lines) (\<lambda>(d1, rs).
     bind_res (insert_order e (order_row userId c m sess due refund st)
                 (map (\<lambda>i. i\<lparr>oi_paidQuantity := (if st = PAID then oi_quantity i else 0)\<rparr>) items)
                 (map (new_payment sess) (dto_payments c)) d1) (\<lambda>(d2, v).
     bind_res (recordInventorySales port e d2 (co_eventId c) m (od_id (vw_order v)) userId rs (vw_items v)) (\<lambda>(d3, changes).
     Inr (dispatchPrintJobs e (vw_order v) (with_products d3 (vw_items v)) (vw_payments v) (Some user)
            default_print_options d3, v, changes)))))))))))"

text \<open>
  The handler. \<open>pre\<close> is the state the check before the transaction read, \<open>d\<close> the state the
  transaction runs on: between the two, other requests may have committed.
\<close>

definition createOrder ::
  "inventory_port option \<Rightarrow> env \<Rightarrow> db \<Rightarrow> db \<Rightarrow> id \<Rightarrow> create_order \<Rightarrow> api_error + db \<times> order_view" where
  "createOrder port e pre d userId c =
     bind_res (validateItems (co_items c) False) (\<lambda>_.
     bind_res (validateDepositRefundTotal (co_depositRefundTotal c)) (\<lambda>refund.
     bind_res (validatePayments (dto_payments c)) (\<lambda>paid.
     bind_res (resolveIdempotentOrder pre userId c) (\<lambda>known.
     (case known of
        Some v \<Rightarrow> Inr (d, v)
      | None \<Rightarrow>
          (case createOrder_tx port e d userId c refund paid of
             Inr (d', v, changes) \<Rightarrow>
               Inr (publishInventory port (co_eventId c) (od_dataMode (vw_order v)) changes d', v)
           | Inl err \<Rightarrow>
               if truthy (co_idempotencyKey c) \<noteq> None \<and> isIdempotencyKeyViolation err
               then bind_res (resolveIdempotentOrder d userId c) (\<lambda>winner.
                      (case winner of Some v \<Rightarrow> Inr (d, v) | None \<Rightarrow> Inl err))
               else Inl err))))))"

end
