(* ===== verification/VO_QuickSale.thy ===== *)
theory VO_QuickSale
  imports VO_Orders
begin

text \<open>
  The bon register and the station register: \<^verbatim>\<open>createQuickSale\<close> and \<^verbatim>\<open>resolveIdempotentQuickSale\<close> of
  \<^verbatim>\<open>apps/backend/src/orders/orders.service.ts\<close>. A sale is paid at once, cash or card; a deposit refund
  above the sum is paid out in cash; each sold unit becomes a product voucher; a station sale draws a
  pickup number.
\<close>

record quick_sale =
  qs_eventId :: id
  qs_idempotencyKey :: string
  qs_items :: "item_input list"
  qs_paymentMethod :: payment_method
  qs_tenderedAmount :: "int option"
  qs_depositRefundTotal :: "int option"
  qs_stationId :: "id option"

record sale_result =
  sr_view :: order_view
  sr_vouchersIssued :: int
  sr_tenderedAmount :: int
  sr_changeAmount :: int
  sr_pickupNumber :: "int option"
  sr_idempotentReplay :: bool

section \<open>Idempotency\<close>

definition or_zero :: "int option \<Rightarrow> int" where
  "or_zero v = (case v of None \<Rightarrow> 0 | Some n \<Rightarrow> n)"

definition expected_payout :: "order \<Rightarrow> order_item list \<Rightarrow> int" where
  "expected_payout o' items =
     (if 0 < od_totalAmount o' then 0 else max 0 (od_depositRefundTotal o' - gross_total items))"

definition same_sale_request :: "db \<Rightarrow> id \<Rightarrow> quick_sale \<Rightarrow> order_view \<Rightarrow> bool" where
  "same_sale_request d userId q v =
     (let o' = vw_order v;
          pay = find (\<lambda>p. pm_method p = qs_paymentMethod q) (vw_payments v);
          refundPay = find (\<lambda>p. pm_method p = REFUND) (vw_payments v);
          payout = expected_payout o' (vw_items v);
          tendered = (case pay of None \<Rightarrow> 0 | Some p \<Rightarrow> or_zero (pm_tenderedAmount p));
          sameTendered = (if qs_paymentMethod q = CASH then tendered = or_zero (qs_tenderedAmount q)
                          else qs_tenderedAmount q = None \<or> qs_tenderedAmount q = Some (od_totalAmount o'))
      in od_userId o' = userId \<and> od_eventId o' = qs_eventId q \<and> truthy (od_cashierSessionId o') \<noteq> None \<and>
         \<not> (vw_items v \<noteq> [] \<and> order_vouchers d (od_id o') = []) \<and>
         length (vw_payments v) = (if 0 < payout then 2 else 1) \<and>
         map_option pm_method pay = Some (qs_paymentMethod q) \<and>
         (case refundPay of None \<Rightarrow> 0 | Some p \<Rightarrow> pm_amount p) = payout \<and> sameTendered \<and>
         od_depositRefundTotal o' = or_zero (qs_depositRefundTotal q) \<and>
         requested_positions (qs_items q) = stored_positions (vw_items v) \<and>
         od_stationId o' = qs_stationId q \<and> \<not> (truthy (qs_stationId q) \<noteq> None \<and> od_pickupNumber o' = None))"

definition replay_result :: "db \<Rightarrow> quick_sale \<Rightarrow> order_view \<Rightarrow> sale_result" where
  "replay_result d q v =
     (let o' = vw_order v; pay = find (\<lambda>p. pm_method p = qs_paymentMethod q) (vw_payments v);
          tendered = (case pay of None \<Rightarrow> 0 | Some p \<Rightarrow> or_zero (pm_tenderedAmount p))
      in \<lparr>sr_view = v, sr_vouchersIssued = int (length (order_vouchers d (od_id o'))),
          sr_tenderedAmount = (if tendered = 0 then od_totalAmount o' else tendered),
          sr_changeAmount = (case pay of None \<Rightarrow> 0 | Some p \<Rightarrow> pm_changeAmount p),
          sr_pickupNumber = od_pickupNumber o', sr_idempotentReplay = True\<rparr>)"

definition resolveIdempotentQuickSale :: "db \<Rightarrow> id \<Rightarrow> quick_sale \<Rightarrow> api_error + sale_result option" where
  "resolveIdempotentQuickSale d userId q =
     (case order_by_key d (qs_idempotencyKey q) of
        None \<Rightarrow> Inr None
      | Some o' \<Rightarrow> if same_sale_request d userId q (view_order d o')
                  then Inr (Some (replay_result d q (view_order d o')))
                  else Inl (Rejected DUPLICATE_KEY_MISMATCH ''IDEMPOTENCY_KEY_CONFLICT''))"

section \<open>Checks\<close>

definition check_quick_sale :: "id \<Rightarrow> quick_sale \<Rightarrow> api_error + int" where
  "check_quick_sale userId q =
     bind_res (ensure (userId \<noteq> []) (BadRequest ''USER_REQUIRED'')) (\<lambda>_.
     bind_res (ensure (qs_eventId q \<noteq> []) (BadRequest ''EVENT_REQUIRED'')) (\<lambda>_.
     bind_res (ensure (8 \<le> length (qs_idempotencyKey q) \<and> length (qs_idempotencyKey q) \<le> 128)
                (BadRequest ''IDEMPOTENCY_KEY'')) (\<lambda>_.
     bind_res (validateDepositRefundTotal (qs_depositRefundTotal q)) (\<lambda>refund.
     bind_res (validateItems (qs_items q) (0 < refund)) (\<lambda>_.
     bind_res (ensure (qs_paymentMethod q \<in> {CASH, CARD}) (BadRequest ''PAYMENT_METHOD'')) (\<lambda>_.
     bind_res (ensure (\<not> (truthy (qs_stationId q) \<noteq> None \<and> qs_paymentMethod q \<noteq> CASH))
                (BadRequest ''STATION_CASH_ONLY'')) (\<lambda>_.
     Inr refund)))))))"

definition sale_session :: "db \<Rightarrow> id \<Rightarrow> id \<Rightarrow> session option" where
  "sale_session d userId ev =
     (case rev (sort_key cs_startTime
            (filter (\<lambda>s. cs_userId s = userId \<and> cs_eventId s = ev \<and> cs_status s = SE_ACTIVE) (t_sessions d))) of
        [] \<Rightarrow> None | s # _ \<Rightarrow> Some s)"

definition check_sale_place :: "db \<Rightarrow> id \<Rightarrow> quick_sale \<Rightarrow> api_error + data_mode \<times> id" where
  "check_sale_place d userId q =
     bind_res (resolveOperationalDataMode (find_event d (qs_eventId q))) (\<lambda>mode.
     bind_res (need mode (BadRequest ''EVENT_NOT_ACTIVE_FOR_SALES'')) (\<lambda>m.
     bind_res (need (active_printer d) (BadRequest ''PRINTER_REQUIRED'')) (\<lambda>_.
     bind_res (need (sale_session d userId (qs_eventId q)) (BadRequest ''SESSION_REQUIRED'')) (\<lambda>s.
     bind_res (ensure (cs_id s \<noteq> []) (BadRequest ''SESSION_REQUIRED'')) (\<lambda>_.
     bind_res (ensure (cs_dataMode s = m) (Conflict ''SESSION_MODE'')) (\<lambda>_.
     bind_res (ensure (case truthy (qs_stationId q) of None \<Rightarrow> True
                         | Some i \<Rightarrow> (case find (\<lambda>x. sn_id x = i) (t_stations d) of None \<Rightarrow> False
                                     | Some x \<Rightarrow> sn_isActive x \<and> sn_eventId x = qs_eventId q))
                (BadRequest ''STATION_NOT_AVAILABLE'')) (\<lambda>_.
     Inr (m, cs_id s))))))))"

definition sale_position :: "inventory_port option \<Rightarrow> db \<Rightarrow> quick_sale \<Rightarrow> item_input \<Rightarrow> api_error + order_item" where
  "sale_position port d q i =
     bind_res (need (event_product d (qs_eventId q) (ii_productId i)) (BadRequest ''PRODUCT_NOT_IN_EVENT_QUICK_SALE'')) (\<lambda>p.
     bind_res (ensure (case truthy (qs_stationId q) of None \<Rightarrow> True | Some s \<Rightarrow> resolveTargetStationId p = Some s)
                (BadRequest ''PRODUCT_NOT_AT_STATION_QUICK_SALE'')) (\<lambda>_.
     bind_res (ensure (\<not> position_blocked port p) (BadRequest ''PRODUCT_OUT_OF_STOCK'')) (\<lambda>_.
     bind_res (resolveOrderItemPricing p (item_optionIds i)) (\<lambda>r.
     Inr ((new_item p i r)\<lparr>oi_paidQuantity := ii_quantity i\<rparr>)))))"

section \<open>The money of a sale\<close>

record sale_money =
  sm_total :: int
  sm_payout :: int
  sm_tendered :: int
  sm_change :: int

definition sale_amounts :: "quick_sale \<Rightarrow> int \<Rightarrow> int \<Rightarrow> api_error + sale_money" where
  "sale_amounts q refund gross =
     (let payout = max 0 (refund - gross); due = max 0 (gross - refund) in
      bind_res (ensure (\<not> (0 < payout \<and> qs_paymentMethod q \<noteq> CASH)) (BadRequest ''PAYOUT_CASH_ONLY'')) (\<lambda>_.
      bind_res (ensure (is_safe_integer due \<and> is_safe_integer payout \<and> \<not> (due = 0 \<and> refund = 0) \<and> due \<le> int32_max)
                 (BadRequest ''SALE_TOTAL'')) (\<lambda>_.
      if qs_paymentMethod q = CASH then
        (let tendered = or_zero (qs_tenderedAmount q) in
         bind_res (ensure (due \<le> tendered \<and> tendered \<le> int32_max) (BadRequest ''TENDERED'')) (\<lambda>_.
         Inr \<lparr>sm_total = due, sm_payout = payout, sm_tendered = tendered, sm_change = tendered - due\<rparr>))
      else
        bind_res (ensure (qs_tenderedAmount q = None \<or> qs_tenderedAmount q = Some due) (BadRequest ''CARD_AMOUNT'')) (\<lambda>_.
        Inr \<lparr>sm_total = due, sm_payout = payout, sm_tendered = due, sm_change = 0\<rparr>))))"

definition sale_payments :: "quick_sale \<Rightarrow> id \<Rightarrow> sale_money \<Rightarrow> payment list" where
  "sale_payments q sess m =
     (let pay = \<lparr>pm_id = [], pm_orderId = [], pm_amount = sm_total m, pm_tenderedAmount = Some (sm_tendered m),
                 pm_changeAmount = sm_change m, pm_method = qs_paymentMethod q, pm_status = PS_COMPLETED,
                 pm_cashierSessionId = Some sess\<rparr>
      in if 0 < sm_payout m
         then [pay, pay\<lparr>pm_amount := sm_payout m, pm_method := REFUND, pm_tenderedAmount := None, pm_changeAmount := 0\<rparr>]
         else [pay\<lparr>pm_tenderedAmount := (if qs_paymentMethod q = CASH then Some (sm_tendered m) else None)\<rparr>])"

definition sale_order :: "id \<Rightarrow> quick_sale \<Rightarrow> data_mode \<Rightarrow> id \<Rightarrow> sale_money \<Rightarrow> int \<Rightarrow> int option \<Rightarrow> order" where
  "sale_order userId q m sess money refund pickup = blank_order\<lparr>od_totalAmount := sm_total money,
     od_depositRefundTotal := refund, od_paymentStatus := PAID, od_userId := userId,
     od_eventId := qs_eventId q, od_dataMode := m, od_idempotencyKey := Some (qs_idempotencyKey q),
     od_cashierSessionId := Some sess, od_pickupNumber := pickup, od_stationId := qs_stationId q\<rparr>"

section \<open>Product vouchers\<close>

definition voucher_units :: "item_view list \<Rightarrow> item_view list" where
  "voucher_units ivs = concat (map (\<lambda>iv. replicate (nat (oi_quantity (fst iv))) iv) ivs)"

definition issue_voucher ::
  "env \<Rightarrow> id \<Rightarrow> order \<Rightarrow> id \<Rightarrow> db \<times> voucher_print list \<Rightarrow> item_view \<Rightarrow> api_error + db \<times> voucher_print list" where
  "issue_voucher e userId order sess = (\<lambda>(d, vs) (i, p).
     let code = env_random e (serial d) in
     if list_ex (\<lambda>v. pv_code v = code) (t_prodVouchers d) then Inl (UniqueViolation ''ProductVoucher.code'')
     else Inr (d\<lparr>t_prodVouchers := t_prodVouchers d @ [\<lparr>pv_id = fresh_id e d, pv_code = code, pv_status = PV_ISSUED,
                   pv_eventId = od_eventId order, pv_productId = oi_productId i, pv_orderId = od_id order,
                   pv_orderItemId = oi_id i, pv_issuedByUserId = userId, pv_cashierSessionId = Some sess,
                   pv_issuedAt = env_now e\<rparr>], serial := Suc (serial d)\<rparr>,
               vs @ [\<lparr>vp_code = code, vp_orderItemId = oi_id i, vp_productId = oi_productId i,
                   vp_productName = pd_name p, vp_variantName = oi_variantName i,
                   vp_stationId = resolveTargetStationId p, vp_issuedAt = env_now e\<rparr>]))"

definition issue_vouchers ::
  "env \<Rightarrow> id \<Rightarrow> order \<Rightarrow> id \<Rightarrow> item_view list \<Rightarrow> db \<Rightarrow> api_error + db \<times> voucher_print list" where
  "issue_vouchers e userId order sess ivs d = fold_res (issue_voucher e userId order sess) (d, []) (voucher_units ivs)"

section \<open>The sale\<close>

definition sale_audit :: "id \<Rightarrow> quick_sale \<Rightarrow> id \<Rightarrow> id \<Rightarrow> sale_money \<Rightarrow> int \<Rightarrow> int \<Rightarrow> int option \<Rightarrow> audit_entry" where
  "sale_audit userId q oid sess money refund vouchers pickup =
     \<lparr>al_action = (if truthy (qs_stationId q) = None then ''QUICK_SALE_COMPLETED'' else ''STATION_SALE_COMPLETED''),
      al_entityId = oid, al_entityType = ''Order'', al_userId = Some userId,
      al_details = JObj [(''eventId'', JStr (qs_eventId q)), (''cashierSessionId'', JStr sess),
        (''paymentMethod'', JStr (method_text (qs_paymentMethod q))), (''totalAmount'', JNum (sm_total money)),
        (''depositRefundTotal'', JNum refund), (''depositRefundPayout'', JNum (sm_payout money)),
        (''tenderedAmount'', JNum (sm_tendered money)), (''changeAmount'', JNum (sm_change money)),
        (''vouchersIssued'', JNum vouchers), (''idempotencyKey'', JStr (qs_idempotencyKey q)),
        (''stationId'', jnull JStr (qs_stationId q)), (''pickupNumber'', jnull JNum pickup)]\<rparr>"

definition draw_sale_number :: "quick_sale \<Rightarrow> data_mode \<Rightarrow> db \<Rightarrow> api_error + int option \<times> db" where
  "draw_sale_number q m d =
     (if truthy (qs_stationId q) = None then Inr (None, d)
      else bind_res (drawPickupNumber d (qs_eventId q) m) (\<lambda>(n, d'). Inr (Some n, d')))"

text \<open>From the order row on: rows, SALE movements, vouchers, print jobs, audit entry.\<close>

definition book_sale ::
  "inventory_port option \<Rightarrow> env \<Rightarrow> db \<Rightarrow> user \<Rightarrow> id \<Rightarrow> quick_sale \<Rightarrow> data_mode \<Rightarrow> id \<Rightarrow> order_item list \<Rightarrow> sale_money \<Rightarrow>
   int \<Rightarrow> int option \<Rightarrow> reservation list \<Rightarrow> api_error + db \<times> sale_result \<times> inv_change list" where
  "book_sale port e d user userId q m sess items money refund pickup rs =
     bind_res (insert_order e (sale_order userId q m sess money refund pickup) items (sale_payments q sess money) d) (\<lambda>(d1, v).
     bind_res (recordInventorySales port e d1 (qs_eventId q) m (od_id (vw_order v)) userId rs (vw_items v)) (\<lambda>(d2, changes).
     bind_res (issue_vouchers e userId (vw_order v) sess (with_products d2 (vw_items v)) d2) (\<lambda>(d3, vouchers).
     let po = \<lparr>po_receiptTitle = Some (if items = [] then ''PFANDR'' @ CHR 0xDC # ''CKGABE'' else ''INTERNER ZAHLUNGSNACHWEIS''),
               po_tenderedAmount = Some (sm_tendered money), po_changeAmount = Some (sm_change money),
               po_vouchers = vouchers, po_includeStationTickets = True, po_reprintedAt = None,
               po_pickupNumber = pickup\<rparr>;
         d4 = dispatchPrintJobs e (vw_order v) (with_products d3 (vw_items v)) (vw_payments v) (Some user) po d3;
         n = int (length vouchers);
         d5 = add_audit (sale_audit userId q (od_id (vw_order v)) sess money refund n pickup) d4
     in Inr (d5, \<lparr>sr_view = v, sr_vouchersIssued = n, sr_tenderedAmount = sm_tendered money,
                  sr_changeAmount = sm_change money, sr_pickupNumber = pickup, sr_idempotentReplay = False\<rparr>, changes))))"

definition sale_prepared ::
  "inventory_port option \<Rightarrow> db \<Rightarrow> id \<Rightarrow> quick_sale \<Rightarrow> int \<Rightarrow>
   api_error + data_mode \<times> id \<times> order_item list \<times> sale_money \<times> db \<times> reservation list \<times> user \<times> int option \<times> db" where
  "sale_prepared port d userId q refund =
     bind_res (check_sale_place d userId q) (\<lambda>(m, sess).
     bind_res (map_res (sale_position port d q) (qs_items q)) (\<lambda>items.
     bind_res (sale_amounts q refund (gross_total items)) (\<lambda>money.
     bind_res (sale_lines d (qs_eventId q) (qs_items q)) (\<lambda>lines.
     bind_res (reserveInventory port d (qs_eventId q) m lines) (\<lambda>(d1, rs).
     bind_res (require_active_user d userId (BadRequest ''USER_NOT_ACTIVE'')) (\<lambda>user.
     bind_res (draw_sale_number q m d1) (\<lambda>(pickup, d2).
     Inr (m, sess, items, money, d1, rs, user, pickup, d2))))))))"

definition quickSale_tx ::
  "inventory_port option \<Rightarrow> env \<Rightarrow> db \<Rightarrow> id \<Rightarrow> quick_sale \<Rightarrow> int \<Rightarrow> api_error + db \<times> sale_result \<times> inv_change list" where
  "quickSale_tx port e d userId q refund =
     bind_res (resolveIdempotentQuickSale d userId q) (\<lambda>known.
     (case known of
        Some r \<Rightarrow> Inr (d, r, [])
      | None \<Rightarrow>
          bind_res (sale_prepared port d userId q refund) (\<lambda>(m, sess, items, money, d1, rs, user, pickup, d2).
          book_sale port e d2 user userId q m sess items money refund pickup rs)))"

text \<open>
  The handler. A concurrent request may commit the key between the read inside the transaction and
  its insert; the loser's P2002 is resolved on the state \<open>won\<close> in which the winner is visible.
\<close>

definition createQuickSale ::
  "inventory_port option \<Rightarrow> env \<Rightarrow> db \<Rightarrow> db \<Rightarrow> id \<Rightarrow> quick_sale \<Rightarrow> api_error + db \<times> sale_result" where
  "createQuickSale port e d won userId q =
     bind_res (check_quick_sale userId q) (\<lambda>refund.
     (case quickSale_tx port e d userId q refund of
        Inr (d', r, changes) \<Rightarrow>
          Inr (publishInventory port (qs_eventId q) (od_dataMode (vw_order (sr_view r))) changes d', r)
      | Inl err \<Rightarrow>
          if isIdempotencyKeyViolation err
          then bind_res (resolveIdempotentQuickSale won userId q) (\<lambda>winner.
                 (case winner of
                    Some r \<Rightarrow> Inr (won, r)
                  | None \<Rightarrow> Inl err))
          else Inl err))"

end
