(* ===== verification/VO_Order_Laws.thy ===== *)
theory VO_Order_Laws
  imports VO_QuickSale VO_Inventory_Laws
begin

text \<open>
  What taking an order does. The order code uses the inventory through a port; \<open>inventory_contract\<close>
  states what it relies on, and the laws of \<^verbatim>\<open>createOrder\<close> and \<^verbatim>\<open>createQuickSale\<close> are proved inside it:
  the rows written, the totals, the payment status, idempotency. The contract is
  discharged for the stock ledger and for the missing inventory.
\<close>

section \<open>The contract of the inventory port\<close>

definition beside_broadcasts where
  "beside_broadcasts d = (t_events d, t_users d, t_areas d, t_stations d, t_printers d, t_products d,
     t_sessions d, t_orders d, t_items d, t_payments d, t_prodVouchers d, t_stocks d, t_movements d,
     t_valueVouchers d, t_vvMovements d, t_vvAllocations d, t_printJobs d, t_pickupCounters d,
     t_auditLogs d, serial d, orderSeq d)"

lemma beside_broadcastsD:
  assumes "beside_broadcasts d' = beside_broadcasts d"
  shows "t_orders d' = t_orders d" "t_items d' = t_items d" "t_payments d' = t_payments d"
    "t_printJobs d' = t_printJobs d" "t_products d' = t_products d" "t_events d' = t_events d"
    "t_sessions d' = t_sessions d" "t_users d' = t_users d" "t_prodVouchers d' = t_prodVouchers d"
    "t_pickupCounters d' = t_pickupCounters d" "t_stocks d' = t_stocks d" "t_movements d' = t_movements d"
    "serial d' = serial d" "orderSeq d' = orderSeq d" "t_auditLogs d' = t_auditLogs d"
    "t_printers d' = t_printers d" "t_stations d' = t_stations d" "t_areas d' = t_areas d"
  using assms by (simp_all add: beside_broadcasts_def)

locale inventory_contract =
  fixes port :: "inventory_port option"
  assumes reserve_frame: "reserveInventory port d ev m lines = Inr (d', rs) \<Longrightarrow>
      beside_ledger d' = beside_ledger d \<and> serial d' = serial d \<and> t_movements d' = t_movements d"
    and record_frame: "recordInventorySales port e d ev m oid actor rs items = Inr (d', ch) \<Longrightarrow>
      beside_ledger d' = beside_ledger d \<and> serial d \<le> serial d' \<and> t_stocks d' = t_stocks d"
    and reverse_frame: "reverseInventorySales port e d ev m oid itemIds actor reason = Inr (d', ch) \<Longrightarrow>
      beside_ledger d' = beside_ledger d \<and> serial d \<le> serial d'"
    and publish_frame: "beside_broadcasts (publishInventory port ev m ch d) = beside_broadcasts d"
    and publish_none: "publishInventory port ev m [] d = d"

lemma reserve_product_frame:
  "reserve_product snap ev m q (d, ch) p = Inr (d', ch') \<Longrightarrow>
   beside_ledger d' = beside_ledger d \<and> serial d' = serial d \<and> t_movements d' = t_movements d"
  by (auto simp: reserve_product_def Let_def split: option.splits if_splits list.splits)

lemma reserveSale_frame:
  assumes "reserveSale d ev m lines = Inr (d', rs)"
  shows "beside_ledger d' = beside_ledger d \<and> serial d' = serial d \<and> t_movements d' = t_movements d"
proof (cases "js_keys (collect_lines lines) = []")
  case True
  with assms show ?thesis by (auto simp: reserveSale_def Let_def)
next
  case False
  with assms have "fold_res (reserve_product d ev m (collect_lines lines)) (d, []) (sort (js_keys (collect_lines lines))) = Inr (d', rs)"
    by (auto simp: reserveSale_def Let_def split: if_splits)
  then have "case (d', rs) of (x, _) \<Rightarrow> beside_ledger x = beside_ledger d \<and> serial x = serial d \<and> t_movements x = t_movements d"
  proof (rule fold_res_invariant)
    fix s p s'
    assume "case s of (x, _) \<Rightarrow> beside_ledger x = beside_ledger d \<and> serial x = serial d \<and> t_movements x = t_movements d"
      and "reserve_product d ev m (collect_lines lines) s p = Inr s'"
    then show "case s' of (x, _) \<Rightarrow> beside_ledger x = beside_ledger d \<and> serial x = serial d \<and> t_movements x = t_movements d"
      by (cases s; cases s') (auto dest!: reserve_product_frame)
  qed simp
  then show ?thesis by simp
qed

lemma record_item_serial:
  "record_item e ev m oid actor rs (d, next) i = Inr (d', next') \<Longrightarrow> serial d \<le> serial d'"
  by (auto simp: record_item_def res_simps split: option.splits dest!: create_movement_Inr)

lemma recordSales_serial:
  assumes "recordSales e d ev m oid actor rs items = Inr (d', ch)"
  shows "serial d \<le> serial d'"
proof -
  from assms obtain next' where
    "fold_res (record_item e ev m oid actor rs) (d, map (\<lambda>r. (rs_productId r, rs_quantityBefore r)) rs)
       (sort_key (\<lambda>i. env_collate e (oi_id i)) items) = Inr (d', next')"
    by (auto simp: recordSales_def res_simps)
  then have "case (d', next') of (x, _) \<Rightarrow> serial d \<le> serial x"
  proof (rule fold_res_invariant)
    fix s i s'
    assume "case s of (x, _) \<Rightarrow> serial d \<le> serial x" and "record_item e ev m oid actor rs s i = Inr s'"
    then show "case s' of (x, _) \<Rightarrow> serial d \<le> serial x"
      by (cases s; cases s') (auto dest!: record_item_serial)
  qed simp
  then show ?thesis by simp
qed

lemma reverse_one_frame:
  assumes "reverse_one e ev m oid actor reason (d, stocks, ch) sale = Inr (d', stocks', ch')"
  shows "beside_ledger d' = beside_ledger d \<and> serial d \<le> serial d'"
  by (cases rule: reverse_one_cases [OF assms]) (auto simp: beside_ledger_def)

lemma reverseSales_frame:
  assumes "reverseSales e d ev m oid ids actor reason = Inr (d', ch)"
  shows "beside_ledger d' = beside_ledger d \<and> serial d \<le> serial d'"
proof (cases "d' = d")
  case False
  with assms obtain st' ch' where
    "fold_res (reverse_one e ev m oid actor reason)
       (d, stocks_by_product d ev m (map mv_productId (open_sales d ev m ids)), []) (open_sales d ev m ids)
     = Inr (d', st', ch')"
    by (auto simp: reverseSales_def Let_def res_simps split: if_splits)
  then have "case (d', st', ch') of (x, _) \<Rightarrow> beside_ledger x = beside_ledger d \<and> serial d \<le> serial x"
  proof (rule fold_res_invariant)
    fix s p s'
    assume "case s of (x, _) \<Rightarrow> beside_ledger x = beside_ledger d \<and> serial d \<le> serial x"
      and "reverse_one e ev m oid actor reason s p = Inr s'"
    then show "case s' of (x, _) \<Rightarrow> beside_ledger x = beside_ledger d \<and> serial d \<le> serial x"
      by (cases s; cases s') (auto dest!: reverse_one_frame)
  qed simp
  then show ?thesis by simp
qed simp

lemma publishChanges_frame: "beside_broadcasts (publishChanges ev m ch d) = beside_broadcasts d"
proof (induction ch arbitrary: d)
  case Nil
  then show ?case by (simp add: publishChanges_def)
next
  case (Cons c ch)
  have "beside_broadcasts (publish_one ev m c d) = beside_broadcasts d"
    by (simp add: publish_one_def add_broadcast_def beside_broadcasts_def)
  with Cons show ?case by (simp add: publishChanges_def)
qed

interpretation ledger: inventory_contract "Some InventoryService"
proof (unfold_locales, goal_cases)
  case (1 d ev m lines d' rs)
  then show ?case using reserveSale_frame by (simp add: reserveInventory_def InventoryService_def)
next
  case (2 e d ev m oid actor rs items d' ch)
  then show ?case using recordSales_effect(1) recordSales_serial
    by (simp add: recordInventorySales_def InventoryService_def)
next
  case (3 e d ev m oid items actor reason d' ch)
  then show ?case using reverseSales_frame by (simp add: reverseInventorySales_def InventoryService_def)
next
  case (4 ev m ch d)
  show ?case by (simp add: publishInventory_def InventoryService_def publishChanges_frame)
next
  case (5 ev m d)
  show ?case by (simp add: publishInventory_def InventoryService_def publishChanges_def)
qed

interpretation no_stock: inventory_contract None
  by unfold_locales
     (simp_all add: reserveInventory_def recordInventorySales_def reverseInventorySales_def publishInventory_def)

section \<open>The rows of a new order\<close>

lemma insert_order_Inr:
  assumes "insert_order e o' items ps d = Inr (d', v)"
  shows "vw_order v = o'\<lparr>od_id := env_uuid e (serial d), od_orderNumber := orderSeq d + 1, od_createdAt := env_now e\<rparr>"
    and "vw_items v = number_items e (Suc (serial d)) (env_uuid e (serial d)) items"
    and "vw_payments v = number_payments e (Suc (serial d) + length items) (env_uuid e (serial d)) ps"
    and "t_orders d' = t_orders d @ [vw_order v]" and "t_items d' = t_items d @ vw_items v"
    and "t_payments d' = t_payments d @ vw_payments v"
    and "serial d' = Suc (serial d) + length items + length ps" and "orderSeq d' = orderSeq d + 1"
    and "od_idempotencyKey o' = None \<or> od_idempotencyKey o' \<notin> od_idempotencyKey ` set (t_orders d)"
  using assms by (auto simp: insert_order_def Let_def list_ex_iff split: if_splits)

definition beside_order where
  "beside_order d = (t_events d, t_users d, t_areas d, t_stations d, t_printers d, t_products d,
     t_sessions d, t_prodVouchers d, t_valueVouchers d, t_vvMovements d, t_vvAllocations d,
     t_printJobs d, t_pickupCounters d, t_auditLogs d, broadcasts d)"

lemma insert_order_frame:
  "insert_order e o' items ps d = Inr (d', v) \<Longrightarrow>
   beside_order d' = beside_order d \<and> t_stocks d' = t_stocks d \<and> t_movements d' = t_movements d"
  by (auto simp: insert_order_def Let_def beside_order_def split: if_splits)

lemma number_items_simps [simp]:
  "length (number_items e n oid items) = length items"
  "map oi_quantity (number_items e n oid items) = map oi_quantity items"
  "map oi_productId (number_items e n oid items) = map oi_productId items"
  "map item_gross (number_items e n oid items) = map item_gross items"
  "map oi_paidQuantity (number_items e n oid items) = map oi_paidQuantity items"
  "map oi_status (number_items e n oid items) = map oi_status items"
  "map (\<lambda>i. (oi_productId i, oi_quantity i, oi_variantId i, oi_extras i)) (number_items e n oid items)
     = map (\<lambda>i. (oi_productId i, oi_quantity i, oi_variantId i, oi_extras i)) items"
  "map oi_id (number_items e n oid items) = map (env_uuid e) [n..<n + length items]"
  "set (number_items e n oid items) \<subseteq> {i. oi_orderId i = oid}"
proof -
  have z: "map (\<lambda>(k, i). f i) (zip [n..<n + length items] items) = map f items" for f :: "order_item \<Rightarrow> 'b"
    by (rule nth_equalityI) auto
  show "length (number_items e n oid items) = length items" by (simp add: number_items_def)
  show "map oi_quantity (number_items e n oid items) = map oi_quantity items"
    "map oi_productId (number_items e n oid items) = map oi_productId items"
    "map item_gross (number_items e n oid items) = map item_gross items"
    "map oi_paidQuantity (number_items e n oid items) = map oi_paidQuantity items"
    "map oi_status (number_items e n oid items) = map oi_status items"
    "map (\<lambda>i. (oi_productId i, oi_quantity i, oi_variantId i, oi_extras i)) (number_items e n oid items)
     = map (\<lambda>i. (oi_productId i, oi_quantity i, oi_variantId i, oi_extras i)) items"
    by (rule nth_equalityI; simp add: number_items_def item_gross_def)+
  show "map oi_id (number_items e n oid items) = map (env_uuid e) [n..<n + length items]"
    by (rule nth_equalityI) (simp_all add: number_items_def)
  show "set (number_items e n oid items) \<subseteq> {i. oi_orderId i = oid}" by (auto simp: number_items_def)
qed

lemma number_payments_simps [simp]:
  "length (number_payments e n oid ps) = length ps"
  "map (\<lambda>p. (pm_amount p, pm_method p, pm_tenderedAmount p, pm_changeAmount p)) (number_payments e n oid ps)
     = map (\<lambda>p. (pm_amount p, pm_method p, pm_tenderedAmount p, pm_changeAmount p)) ps"
  "map pm_amount (number_payments e n oid ps) = map pm_amount ps"
  "set (number_payments e n oid ps) \<subseteq> {p. pm_orderId p = oid}"
proof -
  show "length (number_payments e n oid ps) = length ps" by (simp add: number_payments_def)
  show "map (\<lambda>p. (pm_amount p, pm_method p, pm_tenderedAmount p, pm_changeAmount p)) (number_payments e n oid ps)
     = map (\<lambda>p. (pm_amount p, pm_method p, pm_tenderedAmount p, pm_changeAmount p)) ps"
    "map pm_amount (number_payments e n oid ps) = map pm_amount ps"
    by (rule nth_equalityI; simp add: number_payments_def)+
  show "set (number_payments e n oid ps) \<subseteq> {p. pm_orderId p = oid}" by (auto simp: number_payments_def)
qed

lemma number_payments_map:
  assumes "\<And>p i oid. f (p\<lparr>pm_id := i, pm_orderId := oid\<rparr>) = f p"
  shows "map f (number_payments e n oid ps) = map f ps"
proof (rule nth_equalityI)
  fix k assume "k < length (map f (number_payments e n oid ps))"
  then have "k < length ps" by simp
  then show "map f (number_payments e n oid ps) ! k = map f ps ! k"
    using assms by (simp add: number_payments_def del: upt_Suc)
qed simp

section \<open>The positions\<close>

definition position_of :: "db \<Rightarrow> id \<Rightarrow> item_input \<Rightarrow> order_item \<Rightarrow> bool" where
  "position_of d ev i it \<longleftrightarrow> (\<exists>p r. event_product d ev (ii_productId i) = Some p \<and>
     resolveOrderItemPricing p (item_optionIds i) = Inr r \<and> it = new_item p i r)"

lemma event_product_Some: "event_product d ev i = Some p \<Longrightarrow> pd_id p = i \<and> pd_eventId p = ev \<and> p \<in> set (t_products d)"
  by (auto simp: event_product_def dest: find_Some_mem)

lemma position_of_fields:
  "position_of d ev i it \<Longrightarrow> oi_productId it = ii_productId i \<and> oi_quantity it = ii_quantity i \<and> oi_status it = IT_PENDING"
  by (auto simp: position_of_def new_item_def dest: event_product_Some)

lemma gross_total_simps [simp]:
  "gross_total [] = 0" "gross_total (i # items) = item_gross i + gross_total items"
  "gross_total (xs @ ys) = gross_total xs + gross_total ys"
  by (simp_all add: gross_total_def)

lemma positions_loop:
  "fold_res (add_order_position port d ev) (g0, acc) items = Inr (g, its) \<Longrightarrow> g0 = gross_total acc \<Longrightarrow>
   \<exists>new. its = acc @ new \<and> g = gross_total its \<and> list_all2 (position_of d ev) items new \<and>
     (items \<noteq> [] \<longrightarrow> g \<le> int32_max)"
proof (induction items arbitrary: g0 acc)
  case Nil
  then show ?case by auto
next
  case (Cons i items)
  from Cons.prems(1) obtain st where s: "add_order_position port d ev (g0, acc) i = Inr st"
    and rest: "fold_res (add_order_position port d ev) st items = Inr (g, its)" by (auto simp: res_simps)
  from s obtain p r where p: "event_product d ev (ii_productId i) = Some p"
    "resolveOrderItemPricing p (item_optionIds i) = Inr r"
    and st: "st = (g0 + item_gross (new_item p i r), acc @ [new_item p i r])"
    and le: "g0 + item_gross (new_item p i r) \<le> int32_max"
    by (auto simp: add_order_position_def Let_def res_simps)
  from Cons.IH [OF rest [unfolded st]] Cons.prems(2) obtain new where
    "its = (acc @ [new_item p i r]) @ new" "g = gross_total its" "list_all2 (position_of d ev) items new"
    "items \<noteq> [] \<longrightarrow> g \<le> int32_max" by auto
  moreover have "position_of d ev i (new_item p i r)" using p by (auto simp: position_of_def)
  moreover have "items = [] \<Longrightarrow> g = g0 + item_gross (new_item p i r)" using rest st by simp
  ultimately show ?case using le by (intro exI [of _ "new_item p i r # new"]) auto
qed

lemma position_price_nonneg:
  assumes "position_of d ev i it" and "0 \<le> ii_quantity i"
  shows "0 \<le> oi_priceAtTime it \<and> 0 \<le> oi_depositAtTime it \<and> 0 \<le> item_gross it"
proof -
  from assms(1) obtain p r where r: "resolveOrderItemPricing p (item_optionIds i) = Inr r" "it = new_item p i r"
    by (auto simp: position_of_def)
  from r(1) have "0 \<le> pp_priceAtTime r"
    by (auto simp: resolveOrderItemPricing_def Let_def res_simps)
  with r(2) assms(2) resolveDeposit_nonneg [of p] show ?thesis
    by (simp add: new_item_def item_gross_def)
qed

lemma gross_nonneg:
  "list_all2 (position_of d ev) items its \<Longrightarrow> \<forall>i \<in> set items. 0 \<le> ii_quantity i \<Longrightarrow> 0 \<le> gross_total its"
  by (induction rule: list_all2_induct) (auto dest: position_price_nonneg)

section \<open>createOrder\<close>

lemma order_items_new:
  assumes "set news \<subseteq> {i. oi_orderId i = oid}" and "\<forall>i \<in> set olds. oi_orderId i \<noteq> oid"
  shows "filter (\<lambda>i. oi_orderId i = oid) (olds @ news) = news"
  using assms by (auto simp: filter_empty_conv filter_id_conv)

lemma order_payments_new:
  assumes "set news \<subseteq> {p. pm_orderId p = oid}" and "\<forall>p \<in> set olds. pm_orderId p \<noteq> oid"
  shows "filter (\<lambda>p. pm_orderId p = oid) (olds @ news) = news"
  using assms by (auto simp: filter_empty_conv filter_id_conv)

text \<open>The supply of uuids is not exhausted: the ids still to come are used by no row.\<close>

definition supply_ok :: "env \<Rightarrow> db \<Rightarrow> bool" where
  "supply_ok e d \<longleftrightarrow> inj (env_uuid e) \<and> (\<forall>k \<ge> serial d.
     (\<forall>x \<in> set (t_orders d). od_id x \<noteq> env_uuid e k) \<and> (\<forall>i \<in> set (t_items d). oi_orderId i \<noteq> env_uuid e k) \<and>
     (\<forall>i \<in> set (t_items d). oi_id i \<noteq> env_uuid e k) \<and>
     (\<forall>p \<in> set (t_payments d). pm_orderId p \<noteq> env_uuid e k) \<and>
     (\<forall>v \<in> set (t_prodVouchers d). pv_orderId v \<noteq> env_uuid e k) \<and>
     (\<forall>m \<in> set (t_movements d). mv_orderItemId m \<noteq> Some (env_uuid e k) \<and> mv_reversesMovementId m \<noteq> Some (env_uuid e k)))"

context inventory_contract
begin

text \<open>A transaction that succeeds: what it checked and what it wrote.\<close>

lemma createOrder_tx_effect:
  assumes "createOrder_tx port e d u c refund paid = Inr (d', v, ch)"
  obtains m sess user gross items lines d1 rs d2 d3 where
    "order_mode d (co_eventId c) = Some m" "check_references d c = Inr ()"
    "check_session d u c m = Inr sess" "require_active_user d u (Rejected RC_FORBIDDEN ''USER_NOT_ACTIVE'') = Inr user"
    "gross = gross_total items" "list_all2 (position_of d (co_eventId c)) (co_items c) items"
    "co_items c \<noteq> [] \<longrightarrow> gross \<le> int32_max" "refund \<le> gross"
    "sale_lines d (co_eventId c) (co_items c) = Inr lines"
    "reserveInventory port d (co_eventId c) m lines = Inr (d1, rs)"
    "insert_order e (order_row u c m sess (gross - refund) refund (initial_payment_status paid (gross - refund)))
       (map (\<lambda>i. i\<lparr>oi_paidQuantity := (if initial_payment_status paid (gross - refund) = PAID then oi_quantity i else 0)\<rparr>) items)
       (map (new_payment sess) (dto_payments c)) d1 = Inr (d2, v)"
    "recordInventorySales port e d2 (co_eventId c) m (od_id (vw_order v)) u rs (vw_items v) = Inr (d3, ch)"
    "d' = dispatchPrintJobs e (vw_order v) (with_products d3 (vw_items v)) (vw_payments v) (Some user) default_print_options d3"
proof -
  from assms obtain m sess user gross items lines d1 rs d2 d3 where S:
    "order_mode d (co_eventId c) = Some m" "check_references d c = Inr ()"
    "check_session d u c m = Inr sess" "require_active_user d u (Rejected RC_FORBIDDEN ''USER_NOT_ACTIVE'') = Inr user"
    "fold_res (add_order_position port d (co_eventId c)) (0, []) (co_items c) = Inr (gross, items)" "refund \<le> gross"
    "sale_lines d (co_eventId c) (co_items c) = Inr lines"
    "reserveInventory port d (co_eventId c) m lines = Inr (d1, rs)"
    "insert_order e (order_row u c m sess (gross - refund) refund (initial_payment_status paid (gross - refund)))
       (map (\<lambda>i. i\<lparr>oi_paidQuantity := (if initial_payment_status paid (gross - refund) = PAID then oi_quantity i else 0)\<rparr>) items)
       (map (new_payment sess) (dto_payments c)) d1 = Inr (d2, v)"
    "recordInventorySales port e d2 (co_eventId c) m (od_id (vw_order v)) u rs (vw_items v) = Inr (d3, ch)"
    "d' = dispatchPrintJobs e (vw_order v) (with_products d3 (vw_items v)) (vw_payments v) (Some user) default_print_options d3"
    by (auto simp: createOrder_tx_def Let_def res_simps)
  from positions_loop [OF S(5)] have "gross = gross_total items"
    "list_all2 (position_of d (co_eventId c)) (co_items c) items" "co_items c \<noteq> [] \<longrightarrow> gross \<le> int32_max" by auto
  with S that show thesis by blast
qed

text \<open>The tables after it.\<close>

lemma createOrder_tx_tables:
  assumes "createOrder_tx port e d u c refund paid = Inr (d', v, ch)"
  shows "t_orders d' = t_orders d @ [vw_order v]" and "t_items d' = t_items d @ vw_items v"
    and "t_payments d' = t_payments d @ vw_payments v"
    and "od_id (vw_order v) = env_uuid e (serial d)"
    and "set (vw_items v) \<subseteq> {i. oi_orderId i = od_id (vw_order v)}"
    and "set (vw_payments v) \<subseteq> {p. pm_orderId p = od_id (vw_order v)}"
    and "od_idempotencyKey (vw_order v) = co_idempotencyKey c"
    and "od_idempotencyKey (vw_order v) = None \<or> od_idempotencyKey (vw_order v) \<notin> od_idempotencyKey ` set (t_orders d)"
    and "t_sessions d' = t_sessions d" and "t_events d' = t_events d" and "t_products d' = t_products d"
    and "t_prodVouchers d' = t_prodVouchers d" and "t_users d' = t_users d"
proof -
  obtain m sess user gross items lines d1 rs d2 d3 where
    res: "reserveInventory port d (co_eventId c) m lines = Inr (d1, rs)"
    and ins: "insert_order e (order_row u c m sess (gross - refund) refund (initial_payment_status paid (gross - refund)))
       (map (\<lambda>i. i\<lparr>oi_paidQuantity := (if initial_payment_status paid (gross - refund) = PAID then oi_quantity i else 0)\<rparr>) items)
       (map (new_payment sess) (dto_payments c)) d1 = Inr (d2, v)"
    and rec: "recordInventorySales port e d2 (co_eventId c) m (od_id (vw_order v)) u rs (vw_items v) = Inr (d3, ch)"
    and d': "d' = dispatchPrintJobs e (vw_order v) (with_products d3 (vw_items v)) (vw_payments v) (Some user) default_print_options d3"
    by (rule createOrder_tx_effect [OF assms])
  note R = reserve_frame [OF res]
  note I = insert_order_Inr [OF ins] and F = insert_order_frame [OF ins]
  note S = record_frame [OF rec]
  note D = beside_printD [OF dispatch_frame [of e "vw_order v" "with_products d3 (vw_items v)" "vw_payments v" "Some user" default_print_options d3], folded d']
  note L1 = beside_ledgerD [OF conjunct1 [OF R]] and L3 = beside_ledgerD [OF conjunct1 [OF S]]
  show "t_orders d' = t_orders d @ [vw_order v]" using D L3 I(4) L1 by simp
  show "t_items d' = t_items d @ vw_items v" using D L3 I(5) L1 by simp
  show "t_payments d' = t_payments d @ vw_payments v" using D L3 I(6) L1 by simp
  have n: "serial d1 = serial d" using R by simp
  show "od_id (vw_order v) = env_uuid e (serial d)" using I(1) n by simp
  show "set (vw_items v) \<subseteq> {i. oi_orderId i = od_id (vw_order v)}" unfolding I(1,2) by simp
  show "set (vw_payments v) \<subseteq> {p. pm_orderId p = od_id (vw_order v)}" unfolding I(1,3) by simp
  show "od_idempotencyKey (vw_order v) = co_idempotencyKey c" using I(1) by (simp add: order_row_def)
  show "od_idempotencyKey (vw_order v) = None \<or> od_idempotencyKey (vw_order v) \<notin> od_idempotencyKey ` set (t_orders d)"
    using I(9) I(1) L1(1) by simp
  have B: "beside_order d2 = beside_order d1" using F by simp
  show "t_sessions d' = t_sessions d" "t_events d' = t_events d" "t_products d' = t_products d"
    "t_prodVouchers d' = t_prodVouchers d" "t_users d' = t_users d"
    using D L3 L1 B by (simp_all add: beside_order_def)
qed

end

section \<open>The outcomes of createOrder\<close>

lemma createOrder_cases:
  assumes "createOrder port e pre d u c = Inr (d', v)"
  obtains (replayed) st where "d' = d" "st \<in> {pre, d}" "resolveIdempotentOrder st u c = Inr (Some v)"
  | (booked) refund paid d1 ch where "validateItems (co_items c) False = Inr (sum_list (map ii_quantity (co_items c)))"
      "validateDepositRefundTotal (co_depositRefundTotal c) = Inr refund"
      "validatePayments (dto_payments c) = Inr paid" "resolveIdempotentOrder pre u c = Inr None"
      "createOrder_tx port e d u c refund paid = Inr (d1, v, ch)"
      "d' = publishInventory port (co_eventId c) (od_dataMode (vw_order v)) ch d1"
proof -
  from assms obtain n refund paid known where 1: "validateItems (co_items c) False = Inr n"
    "validateDepositRefundTotal (co_depositRefundTotal c) = Inr refund"
    "validatePayments (dto_payments c) = Inr paid" "resolveIdempotentOrder pre u c = Inr known"
    by (auto simp: createOrder_def res_simps)
  have n: "n = sum_list (map ii_quantity (co_items c))" using 1(1) by (simp add: validateItems_Inr_iff)
  show thesis
  proof (cases known)
    case (Some w)
    with assms 1 have "d' = d" "w = v" by (simp_all add: createOrder_def)
    with 1(4) Some show thesis by (intro replayed [of pre]) simp_all
  next
    case None
    show thesis
    proof (cases "createOrder_tx port e d u c refund paid")
      case (Inl err)
      with assms 1 None obtain w where "resolveIdempotentOrder d u c = Inr (Some w)" "d' = d" "w = v"
        by (auto simp: createOrder_def res_simps split: if_splits option.splits)
      then show thesis by (intro replayed [of d]) simp_all
    next
      case (Inr st)
      obtain d1 w ch where st: "st = (d1, w, ch)" by (cases st)
      with assms 1 None Inr have "w = v" "d' = publishInventory port (co_eventId c) (od_dataMode (vw_order v)) ch d1"
        by (auto simp: createOrder_def)
      with booked 1 None Inr st n show thesis by blast
    qed
  qed
qed

lemma refund_Inr: "validateDepositRefundTotal r = Inr n \<longleftrightarrow> n = (case r of None \<Rightarrow> 0 | Some x \<Rightarrow> x) \<and> 0 \<le> n \<and> n \<le> int32_max"
  by (auto simp: validateDepositRefundTotal_def Let_def res_simps)

section \<open>Money of a booked order\<close>

definition booked_order :: "db \<Rightarrow> id \<Rightarrow> create_order \<Rightarrow> order_view \<Rightarrow> bool" where
  "booked_order d u c v \<longleftrightarrow>
     (let o' = vw_order v; paid = sum_list (map pi_amount (dto_payments c)) in
      od_userId o' = u \<and> od_eventId o' = co_eventId c \<and> Some (od_dataMode o') = order_mode d (co_eventId c) \<and>
      od_depositRefundTotal o' = (case co_depositRefundTotal c of None \<Rightarrow> 0 | Some r \<Rightarrow> r) \<and>
      od_totalAmount o' = gross_total (vw_items v) - od_depositRefundTotal o' \<and>
      0 \<le> od_totalAmount o' \<and> od_totalAmount o' \<le> int32_max \<and>
      od_paymentStatus o' = (if od_totalAmount o' \<le> paid then PAID else if 0 < paid then PARTIALLY_PAID else OPEN) \<and>
      sum_list (map pm_amount (vw_payments v)) = paid \<and>
      map oi_paidQuantity (vw_items v) = (if od_paymentStatus o' = PAID then map oi_quantity (vw_items v) else map (\<lambda>_. 0) (vw_items v)) \<and>
      list_all2 (\<lambda>i it. oi_productId it = ii_productId i \<and> oi_quantity it = ii_quantity i \<and> oi_status it = IT_PENDING)
        (co_items c) (vw_items v))"

lemma numbered_positions:
  assumes "list_all2 (position_of d ev) is items"
  shows "list_all2 (\<lambda>i it. oi_productId it = ii_productId i \<and> oi_quantity it = ii_quantity i \<and> oi_status it = IT_PENDING) is
     (number_items e n oid (map (\<lambda>i. i\<lparr>oi_paidQuantity := f i\<rparr>) items))"
proof -
  have len: "length is = length items" using assms by (rule list_all2_lengthD)
  show ?thesis
  proof (rule list_all2_all_nthI)
    show "length is = length (number_items e n oid (map (\<lambda>i. i\<lparr>oi_paidQuantity := f i\<rparr>) items))" using len by simp
    fix k assume k: "k < length is"
    with position_of_fields [OF list_all2_nthD [OF assms k]] len
    show "oi_productId (number_items e n oid (map (\<lambda>i. i\<lparr>oi_paidQuantity := f i\<rparr>) items) ! k) = ii_productId (is ! k) \<and>
      oi_quantity (number_items e n oid (map (\<lambda>i. i\<lparr>oi_paidQuantity := f i\<rparr>) items) ! k) = ii_quantity (is ! k) \<and>
      oi_status (number_items e n oid (map (\<lambda>i. i\<lparr>oi_paidQuantity := f i\<rparr>) items) ! k) = IT_PENDING"
      by (simp add: number_items_def)
  qed
qed

lemma gross_paid_update: "map item_gross (map (\<lambda>i. i\<lparr>oi_paidQuantity := f i\<rparr>) items) = map item_gross items"
  by (simp add: item_gross_def)

context inventory_contract
begin

lemma createOrder_tx_money:
  assumes tx: "createOrder_tx port e d u c refund paid = Inr (d', v, ch)"
    and val: "validateItems (co_items c) False = Inr n" "validateDepositRefundTotal (co_depositRefundTotal c) = Inr refund"
      "validatePayments (dto_payments c) = Inr paid"
  shows "booked_order d u c v"
proof -
  obtain m sess user gross items lines d1 rs d2 d3 where
    mode: "order_mode d (co_eventId c) = Some m" and
    gross: "gross = gross_total items" and pos: "list_all2 (position_of d (co_eventId c)) (co_items c) items"
    and lim: "co_items c \<noteq> [] \<longrightarrow> gross \<le> int32_max" and ref: "refund \<le> gross"
    and ins: "insert_order e (order_row u c m sess (gross - refund) refund (initial_payment_status paid (gross - refund)))
       (map (\<lambda>i. i\<lparr>oi_paidQuantity := (if initial_payment_status paid (gross - refund) = PAID then oi_quantity i else 0)\<rparr>) items)
       (map (new_payment sess) (dto_payments c)) d1 = Inr (d2, v)"
    by (rule createOrder_tx_effect [OF tx])
  note I = insert_order_Inr [OF ins]
  have ne: "co_items c \<noteq> []" using val(1) by (simp add: validateItems_Inr_iff)
  have g: "gross_total (vw_items v) = gross" unfolding I(2) gross_total_def number_items_simps gross_paid_update
    by (simp add: gross gross_total_def)
  have paid: "paid = sum_list (map pi_amount (dto_payments c))" using val(3) by (simp add: validatePayments_Inr_iff)
  have refund: "0 \<le> refund" "refund = (case co_depositRefundTotal c of None \<Rightarrow> 0 | Some r \<Rightarrow> r)"
    using val(2) by (simp_all add: refund_Inr)
  have st: "od_paymentStatus (vw_order v) = initial_payment_status paid (gross - refund)"
    "od_totalAmount (vw_order v) = gross - refund" "od_depositRefundTotal (vw_order v) = refund"
    "od_userId (vw_order v) = u" "od_eventId (vw_order v) = co_eventId c" "od_dataMode (vw_order v) = m"
    by (simp_all add: I(1) order_row_def)
  have pays: "sum_list (map pm_amount (vw_payments v)) = paid"
    unfolding I(3) number_payments_simps by (simp add: paid comp_def new_payment_def)
  have pq: "map oi_paidQuantity (vw_items v) =
      (if od_paymentStatus (vw_order v) = PAID then map oi_quantity (vw_items v) else map (\<lambda>_. 0) (vw_items v))"
    unfolding I(2) number_items_simps st(1) by (simp add: comp_def map_replicate_const)
  show ?thesis
    unfolding booked_order_def Let_def
    using mode g refund paid st pays pq ref lim ne numbered_positions [OF pos, folded I(2)]
    by (simp add: initial_payment_status_def I(2) numbered_positions [OF pos])
qed

end

section \<open>Replaying a request\<close>

lemma sort_mset_eq: "mset xs = mset ys \<Longrightarrow> sort xs = sort (ys :: 'a :: linorder list)"
  by (rule properties_for_sort) simp_all

lemma stored_text:
  assumes "position_of d ev i it" and "\<forall>p \<in> set (t_products d). product_wf p"
  shows "position_text (oi_productId it) (oi_quantity it) (stored_option_ids (oi_variantId it) (item_extras it))
    = position_text (ii_productId i) (ii_quantity i) (item_optionIds i)"
proof -
  from assms(1) obtain p r where p: "event_product d ev (ii_productId i) = Some p"
    and r: "resolveOrderItemPricing p (item_optionIds i) = Inr r" and it: "it = new_item p i r"
    by (auto simp: position_of_def)
  from event_product_Some [OF p] assms(2) have "product_wf p" "pd_id p = ii_productId i" by auto
  with pricing_cases [of p "item_optionIds i"] r
  have "mset (stored_option_ids (pp_variantId r) (pp_extras r)) = mset (item_optionIds i)" by simp
  then have "sort (stored_option_ids (pp_variantId r) (pp_extras r)) = sort (item_optionIds i)" by (rule sort_mset_eq)
  moreover have "stored_option_ids (oi_variantId it) (item_extras it) = stored_option_ids (pp_variantId r) (pp_extras r)"
    by (simp add: it new_item_def item_extras_def)
  moreover have "oi_productId it = ii_productId i" "oi_quantity it = ii_quantity i"
    using \<open>pd_id p = ii_productId i\<close> by (simp_all add: it new_item_def)
  ultimately show ?thesis by (simp only: position_text_def)
qed

lemma stored_positions_eq:
  assumes "list_all2 (position_of d ev) is items" and "\<forall>p \<in> set (t_products d). product_wf p"
  shows "stored_positions (number_items e n oid (map (\<lambda>i. i\<lparr>oi_paidQuantity := f i\<rparr>) items)) = requested_positions is"
proof -
  have len: "length is = length items" using assms(1) by (rule list_all2_lengthD)
  have "map (\<lambda>i. position_text (oi_productId i) (oi_quantity i) (stored_option_ids (oi_variantId i) (item_extras i)))
      (number_items e n oid (map (\<lambda>i. i\<lparr>oi_paidQuantity := f i\<rparr>) items))
    = map (\<lambda>i. position_text (ii_productId i) (ii_quantity i) (item_optionIds i)) is"
  proof (rule nth_equalityI)
    fix k assume "k < length (map (\<lambda>i. position_text (oi_productId i) (oi_quantity i) (stored_option_ids (oi_variantId i) (item_extras i)))
      (number_items e n oid (map (\<lambda>i. i\<lparr>oi_paidQuantity := f i\<rparr>) items)))"
    then have k: "k < length is" "k < length items" using len by simp_all
    from stored_text [OF list_all2_nthD [OF assms(1) k(1)] assms(2)] k
    show "map (\<lambda>i. position_text (oi_productId i) (oi_quantity i) (stored_option_ids (oi_variantId i) (item_extras i)))
        (number_items e n oid (map (\<lambda>i. i\<lparr>oi_paidQuantity := f i\<rparr>) items)) ! k
      = map (\<lambda>i. position_text (ii_productId i) (ii_quantity i) (item_optionIds i)) is ! k"
      by (simp add: number_items_def item_extras_def)
  qed (simp add: len)
  then show ?thesis by (simp add: stored_positions_def requested_positions_def)
qed

context inventory_contract
begin

lemma createOrder_tx_replays:
  assumes tx: "createOrder_tx port e d u c refund paid = Inr (d', v, ch)"
    and ref: "validateDepositRefundTotal (co_depositRefundTotal c) = Inr refund"
    and sup: "supply_ok e d" and wf: "\<forall>p \<in> set (t_products d). product_wf p"
    and key: "truthy (co_idempotencyKey c) = Some k"
  shows "order_by_key d' k = Some (vw_order v)" and "view_order d' (vw_order v) = v"
    and "same_order_request u c v"
proof -
  obtain m sess user gross items lines d1 rs d2 d3 where
    pos: "list_all2 (position_of d (co_eventId c)) (co_items c) items"
    and ins: "insert_order e (order_row u c m sess (gross - refund) refund (initial_payment_status paid (gross - refund)))
       (map (\<lambda>i. i\<lparr>oi_paidQuantity := (if initial_payment_status paid (gross - refund) = PAID then oi_quantity i else 0)\<rparr>) items)
       (map (new_payment sess) (dto_payments c)) d1 = Inr (d2, v)"
    by (rule createOrder_tx_effect [OF tx])
  note T = createOrder_tx_tables [OF tx] and I = insert_order_Inr [OF ins]
  from key have ck: "co_idempotencyKey c = Some k" by (simp add: truthy_Some_iff)
  have "od_idempotencyKey x \<noteq> Some k" if "x \<in> set (t_orders d)" for x
    using T(7,8) ck imageI [OF that, of od_idempotencyKey] by auto
  then have "find (\<lambda>o'. od_idempotencyKey o' = Some k) (t_orders d) = None" by (simp add: find_None_iff_all)
  then show "order_by_key d' k = Some (vw_order v)"
    using T(7) ck by (simp add: order_by_key_def T(1) find_append)
  from sup have "\<forall>i \<in> set (t_items d). oi_orderId i \<noteq> od_id (vw_order v)"
    "\<forall>p \<in> set (t_payments d). pm_orderId p \<noteq> od_id (vw_order v)" unfolding T(4) by (auto simp: supply_ok_def)
  with order_items_new [OF T(5)] order_payments_new [OF T(6)] show "view_order d' (vw_order v) = v"
    by (simp add: view_order_def order_items_def order_payments_def T(2,3))
  have "map (\<lambda>p. payment_text (pm_amount p) (pm_method p)) (vw_payments v)
      = map (\<lambda>p. payment_text (pi_amount p) (pi_method p)) (dto_payments c)"
    unfolding I(3) by (subst number_payments_map) (simp_all add: new_payment_def comp_def)
  then show "same_order_request u c v"
    using stored_positions_eq [OF pos wf] ref
    by (simp add: same_order_request_def I(1,2) order_row_def refund_Inr)
qed

lemma createOrder_replays:
  assumes run: "createOrder port e d d u c = Inr (d', v)" and key: "truthy (co_idempotencyKey c) = Some k"
    and sup: "supply_ok e d" and wf: "\<forall>p \<in> set (t_products d). product_wf p"
  shows "createOrder port e' d' d' u c = Inr (d', v)"
proof -
  have res: "resolveIdempotentOrder d' u c = Inr (Some v)"
  proof (cases rule: createOrder_cases [OF run])
    case (1 st)
    then show ?thesis by auto
  next
    case (2 refund paid d1 ch)
    note P = beside_broadcastsD [OF publish_frame [of "co_eventId c" "od_dataMode (vw_order v)" ch d1], folded 2(6)]
    note R = createOrder_tx_replays [OF 2(5,2) sup wf key]
    have "order_by_key d' k = Some (vw_order v)" using R(1) by (simp add: order_by_key_def P)
    moreover have "view_order d' (vw_order v) = v"
      using R(2) by (simp add: view_order_def order_items_def order_payments_def P)
    ultimately show ?thesis using key R(3) by (simp add: resolveIdempotentOrder_def)
  qed
  from run obtain n refund paid where "validateItems (co_items c) False = Inr n"
    "validateDepositRefundTotal (co_depositRefundTotal c) = Inr refund"
    "validatePayments (dto_payments c) = Inr paid"
    by (auto simp: createOrder_def res_simps)
  with res show ?thesis by (simp add: createOrder_def)
qed

text \<open>A key that is taken is never booked again, whatever the check before the transaction saw.\<close>

lemma createOrder_key_taken:
  assumes "truthy (co_idempotencyKey c) = Some k" and "order_by_key d k = Some o'"
    and "order_by_key pre k \<in> {None, Some o'}" and "view_order pre o' = view_order d o' \<or> order_by_key pre k = None"
    and "createOrder port e pre d u c = Inr (d', v)"
  shows "d' = d \<and> v = view_order d o' \<and> same_order_request u c v"
proof (cases rule: createOrder_cases [OF assms(5)])
  case (1 st)
  with assms(1-4) show ?thesis
    by (auto simp: resolveIdempotentOrder_def split: option.splits if_splits)
next
  case (2 refund paid d1 ch)
  from assms(2) have "o' \<in> set (t_orders d)" "od_idempotencyKey o' = Some k"
    by (auto simp: order_by_key_def dest: find_Some_mem)
  then have "Some k \<in> od_idempotencyKey ` set (t_orders d)" by force
  with createOrder_tx_tables(7,8) [OF 2(5)] assms(1) show ?thesis by (simp add: truthy_Some_iff)
qed

end

end
