(* ===== verification/VO_Sale_Laws.thy ===== *)
theory VO_Sale_Laws
  imports VO_Order_Laws
begin

text \<open>
  The laws of a booked sale beyond its rows: both ways of selling keep the stock ledger, a quick sale
  conserves the cash, issues one product voucher per unit, and its replay returns the stored sale.
\<close>

section \<open>The lines reserved are the positions recorded\<close>

definition keyed_total :: "(id \<times> int) list \<Rightarrow> id \<Rightarrow> int" where
  "keyed_total ps p = sum_list (map snd (filter (\<lambda>z. fst z = p) ps))"

lemma requested_keyed: "requested lines p = keyed_total (map (\<lambda>l. (sl_productId l, sl_quantity l)) lines) p"
  by (induction lines) (auto simp: requested_def keyed_total_def)

lemma item_total_keyed: "item_total items p = keyed_total (map (\<lambda>i. (oi_productId i, oi_quantity i)) items) p"
  by (induction items) (auto simp: item_total_def keyed_total_def)

lemma sale_lines_keys:
  "sale_lines d ev is = Inr lines \<Longrightarrow>
   map (\<lambda>l. (sl_productId l, sl_quantity l)) lines = map (\<lambda>i. (ii_productId i, ii_quantity i)) is"
  unfolding sale_lines_def
  by (induction "is" arbitrary: lines) (auto simp: res_simps sale_line_of_def dest: event_product_Some)

lemma positions_keys:
  "list_all2 (\<lambda>i it. oi_productId it = ii_productId i \<and> oi_quantity it = ii_quantity i) is items \<Longrightarrow>
   map (\<lambda>i. (oi_productId i, oi_quantity i)) items = map (\<lambda>i. (ii_productId i, ii_quantity i)) is"
  by (induction rule: list_all2_induct) auto

lemma lines_match_items:
  assumes "sale_lines d ev is = Inr lines"
    and "list_all2 (\<lambda>i it. oi_productId it = ii_productId i \<and> oi_quantity it = ii_quantity i) is items"
  shows "item_total items p = requested lines p"
  unfolding item_total_keyed requested_keyed sale_lines_keys [OF assms(1)] positions_keys [OF assms(2)] ..

lemma positions_quantity_nonneg:
  "list_all2 (\<lambda>i it. oi_productId it = ii_productId i \<and> oi_quantity it = ii_quantity i) is items \<Longrightarrow>
   \<forall>i \<in> set is. 0 \<le> ii_quantity i \<Longrightarrow> \<forall>it \<in> set items. 0 \<le> oi_quantity it"
  by (induction rule: list_all2_induct) auto

section \<open>createOrder and the ledger\<close>

lemma ledger_reserve: "reserveInventory (Some InventoryService) d ev m lines = reserveSale d ev m lines"
  by (simp add: reserveInventory_def InventoryService_def)

lemma ledger_record:
  "recordInventorySales (Some InventoryService) e d ev m oid a rs items = recordSales e d ev m oid a rs items"
  by (simp add: recordInventorySales_def InventoryService_def)

lemma ledger_reverse:
  "reverseInventorySales (Some InventoryService) e d ev m oid ids a reason = reverseSales e d ev m oid ids a reason"
  by (simp add: reverseInventorySales_def InventoryService_def)

lemma validated_quantities:
  "validateItems items b = Inr n \<Longrightarrow> \<forall>i \<in> set items. 0 \<le> ii_quantity i"
  by (auto simp: validateItems_Inr_iff)

lemma createOrder_ledger:
  assumes ok: "ledger_ok (t_stocks d) (t_movements d)"
    and run: "createOrder (Some InventoryService) e pre d u c = Inr (d', v)"
  shows "ledger_ok (t_stocks d') (t_movements d')"
proof (cases rule: createOrder_cases [OF run])
  case (1 st)
  with ok show ?thesis by simp
next
  case (2 refund paid d4 ch)
  let ?port = "Some InventoryService"
  obtain m sess user gross items lines d1 rs d2 d3 where
    pos: "list_all2 (position_of d (co_eventId c)) (co_items c) items"
    and lines: "sale_lines d (co_eventId c) (co_items c) = Inr lines"
    and res: "reserveInventory ?port d (co_eventId c) m lines = Inr (d1, rs)"
    and ins: "insert_order e (order_row u c m sess (gross - refund) refund (initial_payment_status paid (gross - refund)))
       (map (\<lambda>i. i\<lparr>oi_paidQuantity := (if initial_payment_status paid (gross - refund) = PAID then oi_quantity i else 0)\<rparr>) items)
       (map (new_payment sess) (dto_payments c)) d1 = Inr (d2, v)"
    and rec: "recordInventorySales ?port e d2 (co_eventId c) m (od_id (vw_order v)) u rs (vw_items v) = Inr (d3, ch)"
    and d4: "d4 = dispatchPrintJobs e (vw_order v) (with_products d3 (vw_items v)) (vw_payments v) (Some user) default_print_options d3"
    by (rule ledger.createOrder_tx_effect [OF 2(5)])
  have keys: "list_all2 (\<lambda>i it. oi_productId it = ii_productId i \<and> oi_quantity it = ii_quantity i) (co_items c) (vw_items v)"
    using list_all2_mono [OF numbered_positions [OF pos]] by (auto simp: insert_order_Inr(2) [OF ins])
  have "ledger_ok (t_stocks d3) (t_movements d3)"
  proof (rule sale_keeps_ledger [OF ok res [unfolded ledger_reserve] _ _ rec [unfolded ledger_record]])
    show "t_stocks d2 = t_stocks d1" "t_movements d2 = t_movements d"
      using insert_order_frame [OF ins] ledger.reserve_frame [OF res] by auto
    show "item_total (vw_items v) p = requested lines p" for p by (rule lines_match_items [OF lines keys])
    show "0 \<le> oi_quantity i" if "i \<in> set (vw_items v)" for i
      using positions_quantity_nonneg [OF keys validated_quantities [OF 2(1)]] that by blast
  qed
  moreover have "t_stocks d4 = t_stocks d3" "t_movements d4 = t_movements d3"
    unfolding d4 by (simp_all add: beside_printD [OF dispatch_frame])
  moreover have "t_stocks d' = t_stocks d4" "t_movements d' = t_movements d4"
    unfolding 2(6) by (simp_all add: beside_broadcastsD [OF ledger.publish_frame])
  ultimately show ?thesis by simp
qed

section \<open>The cash of a quick sale\<close>

text \<open>
  What the customer hands over covers the sale and the change; the payout is what a deposit refund
  exceeds the goods by; goods minus refund is what the till keeps.
\<close>

definition money_balanced :: "quick_sale \<Rightarrow> int \<Rightarrow> int \<Rightarrow> sale_money \<Rightarrow> bool" where
  "money_balanced q refund gross m \<longleftrightarrow>
     sm_tendered m = sm_total m + sm_change m \<and> 0 \<le> sm_change m \<and> 0 \<le> sm_payout m \<and> 0 \<le> sm_total m \<and>
     sm_total m \<le> int32_max \<and> (sm_total m = 0 \<or> sm_payout m = 0) \<and> sm_total m - sm_payout m = gross - refund \<and>
     (qs_paymentMethod q \<noteq> CASH \<longrightarrow> sm_change m = 0 \<and> sm_payout m = 0)"

lemma sale_amounts_balanced:
  "sale_amounts q refund gross = Inr m \<Longrightarrow> 0 \<le> refund \<Longrightarrow> 0 \<le> gross \<Longrightarrow> money_balanced q refund gross m"
  by (auto simp: sale_amounts_def Let_def res_simps money_balanced_def split: if_splits)

lemma sale_payments_sums:
  "sum_list (map pm_amount (filter (\<lambda>p. pm_method p \<noteq> REFUND) (sale_payments q s m))) =
     (if qs_paymentMethod q = REFUND then 0 else sm_total m)"
  "qs_paymentMethod q \<noteq> REFUND \<Longrightarrow> 0 \<le> sm_payout m \<Longrightarrow>
   sum_list (map pm_amount (filter (\<lambda>p. pm_method p = REFUND) (sale_payments q s m))) = sm_payout m"
  by (auto simp: sale_payments_def Let_def)

section \<open>Vouchers\<close>

lemma list_ex_image: "list_ex (\<lambda>v. f v = c) xs \<longleftrightarrow> c \<in> f ` set xs"
  by (induction xs) auto

lemma issue_voucher_Inr:
  assumes "issue_voucher e u order sess (d, vs) iv = Inr (d', vs')"
  shows "\<exists>v. t_prodVouchers d' = t_prodVouchers d @ [v] \<and> pv_orderId v = od_id order \<and> pv_orderItemId v = oi_id (fst iv) \<and>
      pv_status v = PV_ISSUED \<and> pv_code v \<notin> pv_code ` set (t_prodVouchers d) \<and>
      length vs' = Suc (length vs)"
    and "beside_ledger (d'\<lparr>t_prodVouchers := t_prodVouchers d\<rparr>) = beside_ledger d \<and> t_stocks d' = t_stocks d \<and>
      t_movements d' = t_movements d \<and> serial d' = Suc (serial d)"
  using assms
  by (auto simp: issue_voucher_def Let_def list_ex_image beside_ledger_def split: if_splits prod.splits)

definition voucher_for :: "order \<Rightarrow> item_view \<Rightarrow> prod_voucher \<Rightarrow> bool" where
  "voucher_for order iv v \<longleftrightarrow> pv_orderId v = od_id order \<and> pv_orderItemId v = oi_id (fst iv) \<and> pv_status v = PV_ISSUED"

lemma issue_loop:
  "fold_res (issue_voucher e u order sess) (d, vs) ivs = Inr (d', vs') \<Longrightarrow>
   \<exists>new. t_prodVouchers d' = t_prodVouchers d @ new \<and> list_all2 (voucher_for order) ivs new \<and>
     length vs' = length vs + length ivs \<and>
     (distinct (map pv_code (t_prodVouchers d)) \<longrightarrow> distinct (map pv_code (t_prodVouchers d'))) \<and>
     beside_ledger (d'\<lparr>t_prodVouchers := t_prodVouchers d\<rparr>) = beside_ledger d \<and> t_stocks d' = t_stocks d \<and>
     t_movements d' = t_movements d"
proof (induction ivs arbitrary: d vs)
  case Nil
  then show ?case by simp
next
  case (Cons iv ivs)
  from Cons.prems obtain d1 v1 where s: "issue_voucher e u order sess (d, vs) iv = Inr (d1, v1)"
    and r: "fold_res (issue_voucher e u order sess) (d1, v1) ivs = Inr (d', vs')" by (auto simp: res_simps)
  from issue_voucher_Inr(1) [OF s] obtain v where
    v: "t_prodVouchers d1 = t_prodVouchers d @ [v]" "voucher_for order iv v"
      "pv_code v \<notin> pv_code ` set (t_prodVouchers d)" "length v1 = Suc (length vs)"
    by (auto simp: voucher_for_def)
  note F = issue_voucher_Inr(2) [OF s]
  from Cons.IH [OF r] obtain new where
    IH: "t_prodVouchers d' = t_prodVouchers d1 @ new" "list_all2 (voucher_for order) ivs new"
      "length vs' = length v1 + length ivs"
      "distinct (map pv_code (t_prodVouchers d1)) \<longrightarrow> distinct (map pv_code (t_prodVouchers d'))"
      "beside_ledger (d'\<lparr>t_prodVouchers := t_prodVouchers d1\<rparr>) = beside_ledger d1"
      "t_stocks d' = t_stocks d1" "t_movements d' = t_movements d1" by blast
  have fr: "beside_ledger (d'\<lparr>t_prodVouchers := t_prodVouchers d\<rparr>) = beside_ledger d"
    using F IH(5) by (simp add: beside_ledger_def)
  have dist: "distinct (map pv_code (t_prodVouchers d)) \<longrightarrow> distinct (map pv_code (t_prodVouchers d'))"
    using v(1,3) IH(4) by simp
  have "t_prodVouchers d' = t_prodVouchers d @ (v # new)" using v(1) IH(1) by simp
  moreover have "list_all2 (voucher_for order) (iv # ivs) (v # new)" using v(2) IH(2) by simp
  ultimately show ?case using v(4) IH(3,6,7) F fr dist by auto
qed

lemma voucher_units_length: "\<forall>iv \<in> set ivs. 0 \<le> oi_quantity (fst iv) \<Longrightarrow>
   int (length (voucher_units ivs)) = sum_list (map (oi_quantity \<circ> fst) ivs)"
  by (induction ivs) (auto simp: voucher_units_def)

text \<open>One voucher per unit of each position.\<close>

lemma vouchers_per_item:
  assumes "list_all2 (voucher_for order) (voucher_units ivs) new" and "distinct (map (oi_id \<circ> fst) ivs)"
    and "iv \<in> set ivs" and "0 \<le> oi_quantity (fst iv)"
  shows "int (count_where (\<lambda>v. pv_orderItemId v = oi_id (fst iv)) new) = oi_quantity (fst iv)"
proof -
  have "count_where (\<lambda>v. pv_orderItemId v = i) new = count_where (\<lambda>iv. oi_id (fst iv) = i) us"
    if "list_all2 (voucher_for order) us new" for us new i
    using that by (induction rule: list_all2_induct) (auto simp: voucher_for_def count_where_def)
  from this [OF assms(1)]
  have "count_where (\<lambda>v. pv_orderItemId v = oi_id (fst iv)) new = count_where (\<lambda>jv. oi_id (fst jv) = oi_id (fst iv)) (voucher_units ivs)" .
  also have "\<dots> = nat (oi_quantity (fst iv))"
    using assms(2,3)
  proof (induction ivs)
    case Nil
    then show ?case by simp
  next
    case (Cons jv ivs)
    have rep: "count_where (\<lambda>kv. oi_id (fst kv) = oi_id (fst iv)) (replicate n jv) =
        (if oi_id (fst jv) = oi_id (fst iv) then n else 0)" for n
      by (induction n) (auto simp: count_where_def)
    have none: "count_where (\<lambda>kv. oi_id (fst kv) = oi_id (fst iv)) (voucher_units ivs) = 0"
      if "\<forall>kv \<in> set ivs. oi_id (fst kv) \<noteq> oi_id (fst iv)"
      using that by (auto simp: count_where_0_iff voucher_units_def)
    have split: "voucher_units (jv # ivs) = replicate (nat (oi_quantity (fst jv))) jv @ voucher_units ivs"
      by (simp add: voucher_units_def)
    show ?case
    proof (cases "jv = iv")
      case True
      have "oi_id (fst kv) \<noteq> oi_id (fst iv)" if "kv \<in> set ivs" for kv
        using distinct_map_Cons_neq [OF Cons.prems(1) that] True by simp
      then have "count_where (\<lambda>kv. oi_id (fst kv) = oi_id (fst iv)) (voucher_units ivs) = 0" using none by blast
      with True show ?thesis unfolding split count_where_append rep by simp
    next
      case False
      with Cons.prems have iv: "iv \<in> set ivs" by simp
      then have "oi_id (fst jv) \<noteq> oi_id (fst iv)" using distinct_map_Cons_neq [OF Cons.prems(1) iv] by simp
      with Cons.IH Cons.prems(1) iv show ?thesis by (simp add: split rep)
    qed
  qed
  finally show ?thesis using assms(4) by simp
qed

section \<open>The outcomes of a quick sale\<close>

lemma with_products_all:
  assumes "\<And>i. i \<in> set items \<Longrightarrow> find_product d (oi_productId i) \<noteq> None"
  shows "map fst (with_products d items) = items"
  using assms
proof (induction items)
  case Nil
  then show ?case by (simp add: with_products_def map_filter_simps)
next
  case (Cons i items)
  then show ?case by (auto simp: with_products_def map_filter_simps split: option.split)
qed

lemma event_product_find: "event_product d ev i = Some p \<Longrightarrow> find_product d i \<noteq> None"
  by (auto simp: find_product_def find_None_iff_all dest: event_product_Some)

definition sale_position_of :: "db \<Rightarrow> quick_sale \<Rightarrow> item_input \<Rightarrow> order_item \<Rightarrow> bool" where
  "sale_position_of d q i it \<longleftrightarrow> (\<exists>p r. event_product d (qs_eventId q) (ii_productId i) = Some p \<and>
     (\<forall>s. truthy (qs_stationId q) = Some s \<longrightarrow> resolveTargetStationId p = Some s) \<and>
     resolveOrderItemPricing p (item_optionIds i) = Inr r \<and> it = (new_item p i r)\<lparr>oi_paidQuantity := ii_quantity i\<rparr>)"

lemma sale_position_Inr: "sale_position port d q i = Inr it \<Longrightarrow> sale_position_of d q i it"
  by (auto simp: sale_position_def sale_position_of_def res_simps split: option.splits)

lemma sale_position_fields:
  "sale_position_of d q i it \<Longrightarrow> oi_productId it = ii_productId i \<and> oi_quantity it = ii_quantity i \<and>
     oi_paidQuantity it = ii_quantity i \<and> find_product d (oi_productId it) \<noteq> None"
proof -
  assume "sale_position_of d q i it"
  then obtain p r where p: "event_product d (qs_eventId q) (ii_productId i) = Some p"
    and it: "it = (new_item p i r)\<lparr>oi_paidQuantity := ii_quantity i\<rparr>" by (auto simp: sale_position_of_def)
  from event_product_Some [OF p] event_product_find [OF p] it show ?thesis by (simp add: new_item_def)
qed

lemma sale_position_of_position: "sale_position_of d q i it \<Longrightarrow>
   \<exists>it0. position_of d (qs_eventId q) i it0 \<and> it = it0\<lparr>oi_paidQuantity := ii_quantity i\<rparr>"
  by (auto simp: sale_position_of_def position_of_def)

lemma sale_position_gross:
  assumes "sale_position_of d q i it" and "0 \<le> ii_quantity i"
  shows "0 \<le> item_gross it"
proof -
  from sale_position_of_position [OF assms(1)] obtain it0 where
    "position_of d (qs_eventId q) i it0" "it = it0\<lparr>oi_paidQuantity := ii_quantity i\<rparr>" by blast
  with position_price_nonneg [OF this(1) assms(2)] show ?thesis by (simp add: item_gross_def)
qed

lemma sale_gross_nonneg:
  "list_all2 (sale_position_of d q) is items \<Longrightarrow> \<forall>i \<in> set is. 0 \<le> ii_quantity i \<Longrightarrow> 0 \<le> gross_total items"
  by (induction rule: list_all2_induct) (auto dest: sale_position_gross)

lemma number_items_all2:
  assumes "list_all2 P is items" and "\<And>i it k oid. P i it \<Longrightarrow> Q i (it\<lparr>oi_id := k, oi_orderId := oid\<rparr>)"
  shows "list_all2 Q is (number_items e n oid items)"
proof -
  have len: "length is = length items" using assms(1) by (rule list_all2_lengthD)
  show ?thesis
  proof (rule list_all2_all_nthI)
    fix k assume "k < length is"
    with assms(2) [OF list_all2_nthD [OF assms(1) this]] len show "Q (is ! k) (number_items e n oid items ! k)"
      by (simp add: number_items_def)
  qed (simp add: len)
qed

text \<open>What a booking consists of.\<close>

lemma createQuickSale_cases:
  assumes "createQuickSale port e d won u q = Inr (d', r)"
  obtains (replayed) st where "st \<in> {d, won}" "resolveIdempotentQuickSale st u q = Inr (Some r)" "d' \<in> {st, publishInventory port (qs_eventId q) (od_dataMode (vw_order (sr_view r))) [] st}"
  | (booked) refund m sess items money lines d1 rs user pickup d2 d3 v d4 ch d5 vouchers d6 where
      "check_quick_sale u q = Inr refund" "resolveIdempotentQuickSale d u q = Inr None"
      "check_sale_place d u q = Inr (m, sess)" "list_all2 (sale_position_of d q) (qs_items q) items"
      "sale_amounts q refund (gross_total items) = Inr money"
      "sale_lines d (qs_eventId q) (qs_items q) = Inr lines"
      "reserveInventory port d (qs_eventId q) m lines = Inr (d1, rs)"
      "draw_sale_number q m d1 = Inr (pickup, d2)"
      "insert_order e (sale_order u q m sess money refund pickup) items (sale_payments q sess money) d2 = Inr (d3, v)"
      "recordInventorySales port e d3 (qs_eventId q) m (od_id (vw_order v)) u rs (vw_items v) = Inr (d4, ch)"
      "issue_vouchers e u (vw_order v) sess (with_products d4 (vw_items v)) d4 = Inr (d5, vouchers)"
      "\<exists>po a. d6 = add_audit a (dispatchPrintJobs e (vw_order v) (with_products d5 (vw_items v)) (vw_payments v) (Some user) po d5)"
      "d' = publishInventory port (qs_eventId q) (od_dataMode (vw_order v)) ch d6"
      "sr_view r = v" "sr_vouchersIssued r = int (length vouchers)" "sr_pickupNumber r = pickup"
      "sr_tenderedAmount r = sm_tendered money" "sr_changeAmount r = sm_change money" "\<not> sr_idempotentReplay r"
proof -
  from assms obtain refund where c: "check_quick_sale u q = Inr refund"
    by (auto simp: createQuickSale_def res_simps)
  show thesis
  proof (cases "quickSale_tx port e d u q refund")
    case (Inl err)
    with assms c obtain r' where "resolveIdempotentQuickSale won u q = Inr (Some r')" "r' = r" "d' = won"
      by (auto simp: createQuickSale_def res_simps split: if_splits option.splits)
    then show thesis by (intro replayed [of won]) simp_all
  next
    case (Inr x)
    obtain d6 r' ch where x: "x = (d6, r', ch)" by (cases x)
    with assms c Inr have r': "r' = r" and d': "d' = publishInventory port (qs_eventId q) (od_dataMode (vw_order (sr_view r))) ch d6"
      by (auto simp: createQuickSale_def)
    show thesis
    proof (cases "resolveIdempotentQuickSale d u q")
      case (Inl err)
      with Inr show thesis by (simp add: quickSale_tx_def)
    next
      case res: (Inr known)
      show thesis
      proof (cases known)
        case (Some k)
        with res Inr x have "k = r'" "d6 = d" "ch = []" by (auto simp: quickSale_tx_def)
        with res Some r' d' show thesis by (intro replayed [of d]) simp_all
      next
        case None
        with res Inr x obtain m sess items money d1 rs user pickup d2 where
          p: "sale_prepared port d u q refund = Inr (m, sess, items, money, d1, rs, user, pickup, d2)"
          and b: "book_sale port e d2 user u q m sess items money refund pickup rs = Inr (d6, r', ch)"
          by (auto simp: quickSale_tx_def res_simps)
        from p obtain lines where P: "check_sale_place d u q = Inr (m, sess)"
          "map_res (sale_position port d q) (qs_items q) = Inr items"
          "sale_amounts q refund (gross_total items) = Inr money"
          "sale_lines d (qs_eventId q) (qs_items q) = Inr lines"
          "reserveInventory port d (qs_eventId q) m lines = Inr (d1, rs)"
          "draw_sale_number q m d1 = Inr (pickup, d2)"
          by (auto simp: sale_prepared_def res_simps)
        have pos: "list_all2 (sale_position_of d q) (qs_items q) items"
          using map_res_list_all2 [OF P(2)] by (rule list_all2_mono) (auto intro: sale_position_Inr)
        from b obtain d3 v d4 d5 vouchers po a where B:
          "insert_order e (sale_order u q m sess money refund pickup) items (sale_payments q sess money) d2 = Inr (d3, v)"
          "recordInventorySales port e d3 (qs_eventId q) m (od_id (vw_order v)) u rs (vw_items v) = Inr (d4, ch)"
          "issue_vouchers e u (vw_order v) sess (with_products d4 (vw_items v)) d4 = Inr (d5, vouchers)"
          "d6 = add_audit a (dispatchPrintJobs e (vw_order v) (with_products d5 (vw_items v)) (vw_payments v) (Some user) po d5)"
          "r' = \<lparr>sr_view = v, sr_vouchersIssued = int (length vouchers), sr_tenderedAmount = sm_tendered money,
                  sr_changeAmount = sm_change money, sr_pickupNumber = pickup, sr_idempotentReplay = False\<rparr>"
          by (auto simp: book_sale_def Let_def res_simps)
        show thesis
          by (rule booked [OF c _ P(1) pos P(3-6) B(1-3)]) (use res None B(4,5) r' d' in auto)
      qed
    qed
  qed
qed

context inventory_contract
begin

lemma quick_sale_replay_flag:
  assumes "createQuickSale port e d won u q = Inr (d', r)" and "sr_idempotentReplay r"
  shows "d' \<in> {d, won}"
proof (cases rule: createQuickSale_cases [OF assms(1)])
  case (1 st)
  then show ?thesis using publish_none by auto
next
  case (2 refund m sess items money lines d1 rs user pickup d2 d3 v d4 ch d5 vouchers d6)
  with assms(2) show ?thesis by simp
qed

end

lemma issue_vouchers_Inr:
  assumes "issue_vouchers e u order sess ivs d = Inr (d', vs)"
  obtains new where "t_prodVouchers d' = t_prodVouchers d @ new" "list_all2 (voucher_for order) (voucher_units ivs) new"
    "length vs = length new"
    "distinct (map pv_code (t_prodVouchers d)) \<longrightarrow> distinct (map pv_code (t_prodVouchers d'))"
    "t_stocks d' = t_stocks d" "t_movements d' = t_movements d" "t_orders d' = t_orders d" "t_items d' = t_items d"
    "t_payments d' = t_payments d" "t_pickupCounters d' = t_pickupCounters d" "t_products d' = t_products d"
proof -
  from issue_loop [OF assms [unfolded issue_vouchers_def]] obtain new where
    n: "t_prodVouchers d' = t_prodVouchers d @ new" "list_all2 (voucher_for order) (voucher_units ivs) new"
      "length vs = length (voucher_units ivs)"
      "distinct (map pv_code (t_prodVouchers d)) \<longrightarrow> distinct (map pv_code (t_prodVouchers d'))"
    and f: "beside_ledger (d'\<lparr>t_prodVouchers := t_prodVouchers d\<rparr>) = beside_ledger d"
    and st: "t_stocks d' = t_stocks d" "t_movements d' = t_movements d"
    by auto
  have "t_orders d' = t_orders d" "t_items d' = t_items d" "t_payments d' = t_payments d"
    "t_pickupCounters d' = t_pickupCounters d" "t_products d' = t_products d"
    using beside_ledgerD [OF f] by simp_all
  with n st that list_all2_lengthD [OF n(2)] show thesis by auto
qed

lemma draw_sale_number_frame:
  assumes "draw_sale_number q m d = Inr (pickup, d')"
  shows "t_orders d' = t_orders d" "t_items d' = t_items d" "t_payments d' = t_payments d" "t_stocks d' = t_stocks d"
    "t_movements d' = t_movements d" "t_prodVouchers d' = t_prodVouchers d" "t_products d' = t_products d"
    "serial d' = serial d"
    "if truthy (qs_stationId q) = None then pickup = None \<and> pickup_current d' = pickup_current d
     else pickup = Some (pickup_current d (qs_eventId q, m) + 1) \<and>
       pickup_current d' = (pickup_current d)((qs_eventId q, m) := pickup_current d (qs_eventId q, m) + 1)"
  using assms
  by (auto simp: draw_sale_number_def res_simps pickup_current_def fun_eq_iff split: if_splits)

section \<open>A booked quick sale\<close>

definition booked_sale :: "db \<Rightarrow> id \<Rightarrow> quick_sale \<Rightarrow> db \<Rightarrow> sale_result \<Rightarrow> bool" where
  "booked_sale d u q d' r \<longleftrightarrow>
     (let o' = vw_order (sr_view r); items = vw_items (sr_view r); refund = or_zero (qs_depositRefundTotal q);
          charged = sum_list (map pm_amount (filter (\<lambda>p. pm_method p \<noteq> REFUND) (vw_payments (sr_view r))));
          payout = sum_list (map pm_amount (filter (\<lambda>p. pm_method p = REFUND) (vw_payments (sr_view r))))
      in od_paymentStatus o' = PAID \<and> od_totalAmount o' = max 0 (gross_total items - refund) \<and> od_totalAmount o' \<le> int32_max \<and>
         charged = od_totalAmount o' \<and> payout = max 0 (refund - gross_total items) \<and>
         charged - payout = gross_total items - refund \<and> 0 \<le> sr_changeAmount r \<and>
         sr_tenderedAmount r = charged + sr_changeAmount r \<and>
         (qs_paymentMethod q \<noteq> CASH \<longrightarrow> payout = 0 \<and> sr_changeAmount r = 0) \<and>
         map oi_paidQuantity items = map oi_quantity items \<and>
         (\<exists>new. t_prodVouchers d' = t_prodVouchers d @ new \<and>
            int (length new) = sum_list (map ii_quantity (qs_items q)) \<and> sr_vouchersIssued r = int (length new) \<and>
            (\<forall>i \<in> set items. int (count_where (\<lambda>v. pv_orderItemId v = oi_id i) new) = oi_quantity i)))"

lemma find_product_tables: "t_products d' = t_products d \<Longrightarrow> find_product d' i = find_product d i"
  by (simp add: find_product_def)

lemma sale_payments_numbered:
  "map (\<lambda>p. (pm_method p, pm_amount p)) (number_payments e n oid ps) = map (\<lambda>p. (pm_method p, pm_amount p)) ps"
  by (rule number_payments_map) simp

lemma sum_by_method:
  "map (\<lambda>p. (pm_method p, pm_amount p)) xs = map (\<lambda>p. (pm_method p, pm_amount p)) ys \<Longrightarrow>
   sum_list (map pm_amount (filter (\<lambda>p. c (pm_method p)) xs)) = sum_list (map pm_amount (filter (\<lambda>p. c (pm_method p)) ys))"
proof (induction xs arbitrary: ys)
  case Nil
  then show ?case by simp
next
  case (Cons x xs)
  then show ?case by (cases ys) auto
qed

context inventory_contract
begin

lemma createQuickSale_booked:
  assumes run: "createQuickSale port e d won u q = Inr (d', r)" and fresh: "\<not> sr_idempotentReplay r"
    and inj: "inj (env_uuid e)"
  shows "booked_sale d u q d' r"
proof (cases rule: createQuickSale_cases [OF run])
  case (1 st)
  then have "sr_idempotentReplay r"
    by (auto simp: resolveIdempotentQuickSale_def replay_result_def Let_def split: option.splits if_splits)
  with fresh show ?thesis by simp
next
  case (2 refund m sess items money lines d1 rs user pickup d2 d3 v d4 ch d5 vouchers d6)
  note I = insert_order_Inr [OF 2(9)]
  note N = draw_sale_number_frame [OF 2(8)]
  have refund: "refund = or_zero (qs_depositRefundTotal q)" "0 \<le> refund" and n: "validateItems (qs_items q) (0 < refund) = Inr (sum_list (map ii_quantity (qs_items q)))"
    and pay: "qs_paymentMethod q \<in> {CASH, CARD}"
    using 2(1) by (auto simp: check_quick_sale_def res_simps refund_Inr or_zero_def validateItems_Inr_iff)
  have pos: "list_all2 (\<lambda>i it. oi_productId it = ii_productId i \<and> oi_quantity it = ii_quantity i \<and>
      oi_paidQuantity it = ii_quantity i \<and> find_product d (oi_productId it) \<noteq> None) (qs_items q) (vw_items v)"
    unfolding I(2) by (rule number_items_all2 [OF 2(4)]) (drule sale_position_fields, auto)
  have gross: "gross_total (vw_items v) = gross_total items" unfolding I(2) gross_total_def by simp
  have "0 \<le> gross_total items" by (rule sale_gross_nonneg [OF 2(4) validated_quantities [OF n]])
  from sale_amounts_balanced [OF 2(5) refund(2) this] have mb: "money_balanced q refund (gross_total items) money" .
  have tot: "sm_total money = max 0 (gross_total items - refund)" "sm_payout money = max 0 (refund - gross_total items)"
    using 2(5) by (auto simp: sale_amounts_def Let_def res_simps split: if_splits)
  have pays: "sum_list (map pm_amount (filter (\<lambda>p. pm_method p \<noteq> REFUND) (vw_payments v))) = sm_total money"
    "sum_list (map pm_amount (filter (\<lambda>p. pm_method p = REFUND) (vw_payments v))) = sm_payout money"
    unfolding I(3)
    using sum_by_method [OF sale_payments_numbered, of "\<lambda>m. m \<noteq> REFUND"] sum_by_method [OF sale_payments_numbered, of "\<lambda>m. m = REFUND"]
      sale_payments_sums [where q = q and s = sess and m = money] pay mb by (auto simp: money_balanced_def)
  obtain new where V: "t_prodVouchers d5 = t_prodVouchers d4 @ new"
    "list_all2 (voucher_for (vw_order v)) (voucher_units (with_products d4 (vw_items v))) new" "length vouchers = length new"
    by (rule issue_vouchers_Inr [OF 2(11)])
  have prods: "t_products d4 = t_products d" "t_prodVouchers d4 = t_prodVouchers d"
    using beside_ledgerD [OF conjunct1 [OF reserve_frame [OF 2(7)]]] beside_ledgerD [OF conjunct1 [OF record_frame [OF 2(10)]]]
      insert_order_frame [OF 2(9)] N by (simp_all add: beside_order_def)
  have fsts: "map fst (with_products d4 (vw_items v)) = vw_items v"
    using list_all2_right [OF pos] by (intro with_products_all) (auto simp: find_product_tables [OF prods(1)])
  have q0: "0 \<le> oi_quantity it" if "it \<in> set (vw_items v)" for it
    using list_all2_right [OF pos that] validated_quantities [OF n] by auto
  have ids: "distinct (map (oi_id \<circ> fst) (with_products d4 (vw_items v)))"
  proof -
    have "map (oi_id \<circ> fst) (with_products d4 (vw_items v)) = map oi_id (map fst (with_products d4 (vw_items v)))" by simp
    also have "\<dots> = map oi_id (vw_items v)" by (simp only: fsts)
    also have "\<dots> = map (env_uuid e) [Suc (serial d2)..<Suc (serial d2) + length items]" unfolding I(2) by (rule number_items_simps)
    finally show ?thesis using inj by (auto simp: distinct_map simp del: upt_Suc intro: inj_on_subset)
  qed
  have units: "int (length new) = sum_list (map ii_quantity (qs_items q))"
  proof -
    have nn: "\<forall>iv \<in> set (with_products d4 (vw_items v)). 0 \<le> oi_quantity (fst iv)"
      using q0 fsts by (metis imageI list.set_map)
    have "int (length new) = sum_list (map (oi_quantity \<circ> fst) (with_products d4 (vw_items v)))"
      using voucher_units_length [OF nn] list_all2_lengthD [OF V(2)] by simp
    also have "\<dots> = sum_list (map oi_quantity (map fst (with_products d4 (vw_items v))))" by simp
    also have "\<dots> = sum_list (map oi_quantity (vw_items v))" by (simp only: fsts)
    also have "map oi_quantity (vw_items v) = map ii_quantity (qs_items q)"
      using pos by (induction rule: list_all2_induct) auto
    finally show ?thesis .
  qed
  have per: "int (count_where (\<lambda>w. pv_orderItemId w = oi_id i) new) = oi_quantity i" if i: "i \<in> set (vw_items v)" for i
  proof -
    from i fsts obtain iv where iv: "iv \<in> set (with_products d4 (vw_items v))" "fst iv = i" by (metis imageE list.set_map)
    from vouchers_per_item [OF V(2) ids iv(1)] q0 [OF i] iv(2) show ?thesis by simp
  qed
  from 2(12) have tv6: "t_prodVouchers d6 = t_prodVouchers d5"
    by (auto simp: frame_simps beside_printD [OF dispatch_frame])
  have "t_prodVouchers d' = t_prodVouchers d6" unfolding 2(13) by (simp add: beside_broadcastsD [OF publish_frame])
  with V(1) prods(2) tv6 have tv: "t_prodVouchers d' = t_prodVouchers d @ new" by simp
  have pq: "map oi_paidQuantity (vw_items v) = map oi_quantity (vw_items v)"
    using pos by (induction rule: list_all2_induct) auto
  have st: "od_paymentStatus (vw_order v) = PAID" "od_totalAmount (vw_order v) = sm_total money"
    by (simp_all add: I(1) sale_order_def)
  show ?thesis
    unfolding booked_sale_def Let_def 2(14) gross pays st refund(1) [symmetric] 2(15,17,18)
    using tv units per pq mb tot V(3) by (auto simp: money_balanced_def)
qed

end

section \<open>Quick sales and the ledger\<close>

lemma createQuickSale_ledger:
  assumes ok: "ledger_ok (t_stocks d) (t_movements d)"
    and won: "ledger_ok (t_stocks won) (t_movements won)"
    and run: "createQuickSale (Some InventoryService) e d won u q = Inr (d', r)"
  shows "ledger_ok (t_stocks d') (t_movements d')"
proof (cases rule: createQuickSale_cases [OF run])
  case (1 st)
  with ok won show ?thesis using ledger.publish_none by auto
next
  case (2 refund m sess items money lines d1 rs user pickup d2 d3 v d4 ch d5 vouchers d6)
  note N = draw_sale_number_frame [OF 2(8)]
  have n: "validateItems (qs_items q) (0 < refund) = Inr (sum_list (map ii_quantity (qs_items q)))"
    using 2(1) by (auto simp: check_quick_sale_def res_simps refund_Inr validateItems_Inr_iff)
  have keys: "list_all2 (\<lambda>i it. oi_productId it = ii_productId i \<and> oi_quantity it = ii_quantity i) (qs_items q) (vw_items v)"
    unfolding insert_order_Inr(2) [OF 2(9)] by (rule number_items_all2 [OF 2(4)]) (drule sale_position_fields, auto)
  have "ledger_ok (t_stocks d4) (t_movements d4)"
  proof (rule sale_keeps_ledger [OF ok 2(7) [unfolded ledger_reserve] _ _ 2(10) [unfolded ledger_record]])
    show "t_stocks d3 = t_stocks d1" "t_movements d3 = t_movements d"
      using insert_order_frame [OF 2(9)] ledger.reserve_frame [OF 2(7)] N by auto
    show "item_total (vw_items v) p = requested lines p" for p by (rule lines_match_items [OF 2(6) keys])
    show "0 \<le> oi_quantity i" if "i \<in> set (vw_items v)" for i
      using positions_quantity_nonneg [OF keys validated_quantities [OF n]] that by blast
  qed
  moreover have "t_stocks d5 = t_stocks d4 \<and> t_movements d5 = t_movements d4"
    by (rule issue_vouchers_Inr [OF 2(11)]) simp
  moreover from 2(12) have "t_stocks d6 = t_stocks d5" "t_movements d6 = t_movements d5"
    by (auto simp: frame_simps beside_printD [OF dispatch_frame])
  moreover have "t_stocks d' = t_stocks d6" "t_movements d' = t_movements d6"
    unfolding 2(13) by (simp_all add: beside_broadcastsD [OF ledger.publish_frame])
  ultimately show ?thesis by simp
qed

section \<open>Pickup numbers of orders\<close>

text \<open>
  No two orders of one event and mode share a pickup number, and the counter is never behind the
  numbers given out: the unique column is never violated by a drawn number.
\<close>

definition pickups_ok :: "db \<Rightarrow> bool" where
  "pickups_ok d \<longleftrightarrow>
     (\<forall>o' \<in> set (t_orders d). \<forall>n. od_pickupNumber o' = Some n \<longrightarrow>
        1 \<le> n \<and> n \<le> pickup_current d (od_eventId o', od_dataMode o')) \<and>
     distinct (List.map_filter (\<lambda>o'. map_option (\<lambda>n. (od_eventId o', od_dataMode o', n)) (od_pickupNumber o')) (t_orders d))"

lemma map_filter_append: "List.map_filter f (xs @ ys) = List.map_filter f xs @ List.map_filter f ys"
  by (induction xs) (auto simp: map_filter_simps split: option.split)

lemma set_map_filter_iff: "x \<in> set (List.map_filter f xs) \<longleftrightarrow> (\<exists>y \<in> set xs. f y = Some x)"
  by (induction xs) (auto simp: map_filter_simps split: option.split)

lemma pickups_ok_same: "t_orders d' = t_orders d \<Longrightarrow> pickup_current d' = pickup_current d \<Longrightarrow> pickups_ok d \<Longrightarrow> pickups_ok d'"
  by (simp add: pickups_ok_def)

lemma pickups_ok_plain:
  assumes "pickups_ok d" and "t_orders d' = t_orders d @ [o']" and "pickup_current d' = pickup_current d"
    and "od_pickupNumber o' = None"
  shows "pickups_ok d'"
  using assms by (auto simp: pickups_ok_def map_filter_append map_filter_simps)

lemma pickups_ok_drawn:
  assumes ok: "pickups_ok d" and orders: "t_orders d' = t_orders d @ [o']"
    and k: "(od_eventId o', od_dataMode o') = k" and n: "od_pickupNumber o' = Some (pickup_current d k + 1)"
    and cur: "pickup_current d' = (pickup_current d)(k := pickup_current d k + 1)" and nn: "0 \<le> pickup_current d k"
  shows "pickups_ok d'"
proof -
  have "(od_eventId o', od_dataMode o', pickup_current d k + 1) \<notin>
      set (List.map_filter (\<lambda>o'. map_option (\<lambda>n. (od_eventId o', od_dataMode o', n)) (od_pickupNumber o')) (t_orders d))"
  proof
    assume "(od_eventId o', od_dataMode o', pickup_current d k + 1) \<in>
      set (List.map_filter (\<lambda>o'. map_option (\<lambda>n. (od_eventId o', od_dataMode o', n)) (od_pickupNumber o')) (t_orders d))"
    then obtain x where "x \<in> set (t_orders d)" "od_eventId x = od_eventId o'" "od_dataMode x = od_dataMode o'"
      "od_pickupNumber x = Some (pickup_current d k + 1)" by (auto simp: set_map_filter_iff)
    with ok k show False by (force simp: pickups_ok_def)
  qed
  with ok n show ?thesis
    unfolding pickups_ok_def orders cur map_filter_append
    using k nn by (fastforce simp: map_filter_simps)
qed

context inventory_contract
begin

lemma createQuickSale_pickup:
  assumes run: "createQuickSale port e d won u q = Inr (d', r)" and fresh: "\<not> sr_idempotentReplay r"
  shows "t_orders d' = t_orders d @ [vw_order (sr_view r)]"
    and "if truthy (qs_stationId q) = None
      then od_pickupNumber (vw_order (sr_view r)) = None \<and> pickup_current d' = pickup_current d
      else let k = (od_eventId (vw_order (sr_view r)), od_dataMode (vw_order (sr_view r))) in
        od_pickupNumber (vw_order (sr_view r)) = Some (pickup_current d k + 1) \<and>
        pickup_current d' = (pickup_current d)(k := pickup_current d k + 1)"
    and "od_pickupNumber (vw_order (sr_view r)) = sr_pickupNumber r"
proof -
  have "t_orders d' = t_orders d @ [vw_order (sr_view r)] \<and>
    (if truthy (qs_stationId q) = None
      then od_pickupNumber (vw_order (sr_view r)) = None \<and> pickup_current d' = pickup_current d
      else let k = (od_eventId (vw_order (sr_view r)), od_dataMode (vw_order (sr_view r))) in
        od_pickupNumber (vw_order (sr_view r)) = Some (pickup_current d k + 1) \<and>
        pickup_current d' = (pickup_current d)(k := pickup_current d k + 1)) \<and>
    od_pickupNumber (vw_order (sr_view r)) = sr_pickupNumber r"
  proof (cases rule: createQuickSale_cases [OF run])
    case (1 st)
    then have "sr_idempotentReplay r"
      by (auto simp: resolveIdempotentQuickSale_def replay_result_def Let_def split: option.splits if_splits)
    with fresh show ?thesis by simp
  next
    case (2 refund m sess items money lines d1 rs user pickup d2 d3 v d4 ch d5 vouchers d6)
    note I = insert_order_Inr [OF 2(9)] and N = draw_sale_number_frame [OF 2(8)]
    note L1 = beside_ledgerD [OF conjunct1 [OF reserve_frame [OF 2(7)]]]
    note L4 = beside_ledgerD [OF conjunct1 [OF record_frame [OF 2(10)]]]
    have V: "t_orders d5 = t_orders d4 \<and> t_pickupCounters d5 = t_pickupCounters d4"
      by (rule issue_vouchers_Inr [OF 2(11)]) simp
    from 2(12) have D: "t_orders d6 = t_orders d5" "t_pickupCounters d6 = t_pickupCounters d5"
      by (auto simp: frame_simps beside_printD [OF dispatch_frame])
    have P: "t_orders d' = t_orders d6" "t_pickupCounters d' = t_pickupCounters d6"
      unfolding 2(13) by (simp_all add: beside_broadcastsD [OF publish_frame])
    have orders: "t_orders d' = t_orders d @ [vw_order v]" using P D V L4 I(4) N L1 by simp
    have "t_pickupCounters d3 = t_pickupCounters d2" using insert_order_frame [OF 2(9)] by (simp add: beside_order_def)
    then have c2: "pickup_current d' = pickup_current d2"
      using P D V L4 by (intro ext) (simp add: pickup_current_def)
    have c1: "pickup_current d1 = pickup_current d" using L1 by (intro ext) (simp add: pickup_current_def)
    have o': "od_pickupNumber (vw_order v) = pickup" "od_eventId (vw_order v) = qs_eventId q" "od_dataMode (vw_order v) = m"
      by (simp_all add: I(1) sale_order_def)
    from N(9) orders show ?thesis unfolding 2(14) 2(16) o' c2 c1 Let_def by simp
  qed
  then show "t_orders d' = t_orders d @ [vw_order (sr_view r)]"
    "if truthy (qs_stationId q) = None
      then od_pickupNumber (vw_order (sr_view r)) = None \<and> pickup_current d' = pickup_current d
      else let k = (od_eventId (vw_order (sr_view r)), od_dataMode (vw_order (sr_view r))) in
        od_pickupNumber (vw_order (sr_view r)) = Some (pickup_current d k + 1) \<and>
        pickup_current d' = (pickup_current d)(k := pickup_current d k + 1)"
    "od_pickupNumber (vw_order (sr_view r)) = sr_pickupNumber r"
    by blast+
qed

end

section \<open>Replaying a quick sale\<close>

lemma sale_stored_positions:
  assumes "list_all2 (sale_position_of d q) is items" and "\<forall>p \<in> set (t_products d). product_wf p"
  shows "stored_positions (number_items e n oid items) = requested_positions is"
proof -
  have "list_all2 (\<lambda>i it. position_text (oi_productId it) (oi_quantity it) (stored_option_ids (oi_variantId it) (item_extras it))
      = position_text (ii_productId i) (ii_quantity i) (item_optionIds i)) is (number_items e n oid items)"
  proof (rule number_items_all2 [OF assms(1)])
    fix i it k oid assume "sale_position_of d q i it"
    from sale_position_of_position [OF this] obtain it0 where
      it: "position_of d (qs_eventId q) i it0" "it = it0\<lparr>oi_paidQuantity := ii_quantity i\<rparr>" by blast
    from stored_text [OF it(1) assms(2)] it(2)
    show "position_text (oi_productId (it\<lparr>oi_id := k, oi_orderId := oid\<rparr>)) (oi_quantity (it\<lparr>oi_id := k, oi_orderId := oid\<rparr>))
        (stored_option_ids (oi_variantId (it\<lparr>oi_id := k, oi_orderId := oid\<rparr>)) (item_extras (it\<lparr>oi_id := k, oi_orderId := oid\<rparr>)))
      = position_text (ii_productId i) (ii_quantity i) (item_optionIds i)" by (simp add: item_extras_def)
  qed
  then have "map (\<lambda>it. position_text (oi_productId it) (oi_quantity it) (stored_option_ids (oi_variantId it) (item_extras it)))
      (number_items e n oid items) = map (\<lambda>i. position_text (ii_productId i) (ii_quantity i) (item_optionIds i)) is"
    by (induction rule: list_all2_induct) auto
  then show ?thesis by (simp add: stored_positions_def requested_positions_def)
qed

definition numbered_payments_of :: "quick_sale \<Rightarrow> id \<Rightarrow> sale_money \<Rightarrow> payment list \<Rightarrow> bool" where
  "numbered_payments_of q sess m ps \<longleftrightarrow>
     map (\<lambda>p. (pm_amount p, pm_method p, pm_tenderedAmount p, pm_changeAmount p)) ps =
     map (\<lambda>p. (pm_amount p, pm_method p, pm_tenderedAmount p, pm_changeAmount p)) (sale_payments q sess m)"

lemma sale_payments_found:
  assumes "numbered_payments_of q sess m ps" and "qs_paymentMethod q \<in> {CASH, CARD}"
  shows "length ps = (if 0 < sm_payout m then 2 else 1)"
    and "\<exists>p. find (\<lambda>p. pm_method p = qs_paymentMethod q) ps = Some p \<and> pm_method p = qs_paymentMethod q \<and>
      pm_changeAmount p = sm_change m \<and>
      pm_tenderedAmount p = (if 0 < sm_payout m \<or> qs_paymentMethod q = CASH then Some (sm_tendered m) else None)"
    and "(case find (\<lambda>p. pm_method p = REFUND) ps of None \<Rightarrow> 0 | Some p \<Rightarrow> pm_amount p) = (if 0 < sm_payout m then sm_payout m else 0)"
  using assms by (auto simp: numbered_payments_of_def sale_payments_def Let_def split: if_splits)

context inventory_contract
begin

lemma createQuickSale_replays:
  assumes run: "createQuickSale port e d won u q = Inr (d', r)" and fresh: "\<not> sr_idempotentReplay r"
    and sup: "supply_ok e d" and wf: "\<forall>p \<in> set (t_products d). product_wf p"
  shows "createQuickSale port e' d' won' u q = Inr (d', r\<lparr>sr_idempotentReplay := True\<rparr>)"
proof (cases rule: createQuickSale_cases [OF run])
  case (1 st)
  then have "sr_idempotentReplay r"
    by (auto simp: resolveIdempotentQuickSale_def replay_result_def Let_def split: option.splits if_splits)
  with fresh show ?thesis by simp
next
  case (2 refund m sess items money lines d1 rs user pickup d2 d3 v d4 ch d5 vouchers d6)
  let ?o = "vw_order v"
  note I = insert_order_Inr [OF 2(9)] and N = draw_sale_number_frame [OF 2(8)]
  note L1 = beside_ledgerD [OF conjunct1 [OF reserve_frame [OF 2(7)]]]
  note L4 = beside_ledgerD [OF conjunct1 [OF record_frame [OF 2(10)]]]
  have s2: "serial d2 = serial d" using N reserve_frame [OF 2(7)] by simp
  obtain new where V: "t_prodVouchers d5 = t_prodVouchers d4 @ new"
    "list_all2 (voucher_for ?o) (voucher_units (with_products d4 (vw_items v))) new" "length vouchers = length new"
    "t_orders d5 = t_orders d4" "t_items d5 = t_items d4" "t_payments d5 = t_payments d4"
    by (rule issue_vouchers_Inr [OF 2(11)])
  from 2(12) have D: "t_orders d6 = t_orders d5" "t_items d6 = t_items d5" "t_payments d6 = t_payments d5"
    "t_prodVouchers d6 = t_prodVouchers d5"
    by (auto simp: frame_simps beside_printD [OF dispatch_frame])
  have P: "t_orders d' = t_orders d6" "t_items d' = t_items d6" "t_payments d' = t_payments d6" "t_prodVouchers d' = t_prodVouchers d6"
    unfolding 2(13) by (simp_all add: beside_broadcastsD [OF publish_frame])
  have pv3: "t_prodVouchers d3 = t_prodVouchers d2" using insert_order_frame [OF 2(9)] by (simp add: beside_order_def)
  have T: "t_orders d' = t_orders d @ [?o]" "t_items d' = t_items d @ vw_items v" "t_payments d' = t_payments d @ vw_payments v"
    "t_prodVouchers d' = t_prodVouchers d @ new"
    using P D V L4 I(4,5,6) N L1 pv3 by simp_all
  have oid: "od_id ?o = env_uuid e (serial d)" using I(1) s2 by simp
  from 2(2) have none: "order_by_key d (qs_idempotencyKey q) = None"
    by (auto simp: resolveIdempotentQuickSale_def split: option.splits if_splits)
  have ok: "od_idempotencyKey ?o = Some (qs_idempotencyKey q)" by (simp add: I(1) sale_order_def)
  have found: "order_by_key d' (qs_idempotencyKey q) = Some ?o"
    using none ok by (simp add: order_by_key_def T(1) find_append)
  have its: "set (vw_items v) \<subseteq> {i. oi_orderId i = od_id ?o}" "set (vw_payments v) \<subseteq> {p. pm_orderId p = od_id ?o}"
    unfolding I(1-3) by simp_all
  have free: "\<forall>i \<in> set (t_items d). oi_orderId i \<noteq> od_id ?o" "\<forall>p \<in> set (t_payments d). pm_orderId p \<noteq> od_id ?o"
    "\<forall>w \<in> set (t_prodVouchers d). pv_orderId w \<noteq> od_id ?o"
    using sup unfolding oid by (auto simp: supply_ok_def)
  have view: "view_order d' ?o = v"
    using order_items_new [OF its(1) free(1)] order_payments_new [OF its(2) free(2)]
    by (simp add: view_order_def order_items_def order_payments_def T)
  have vo: "pv_orderId w = od_id ?o" if "w \<in> set new" for w
    using list_all2_right [OF V(2) that] by (auto simp: voucher_for_def)
  have vouchers: "order_vouchers d' (od_id ?o) = new"
    using vo free(3) by (auto simp: order_vouchers_def T filter_empty_conv filter_id_conv)
  have refund: "refund = or_zero (qs_depositRefundTotal q)" "0 \<le> refund" and n: "validateItems (qs_items q) (0 < refund) = Inr (sum_list (map ii_quantity (qs_items q)))"
    and pay: "qs_paymentMethod q \<in> {CASH, CARD}"
    using 2(1) by (auto simp: check_quick_sale_def res_simps refund_Inr or_zero_def validateItems_Inr_iff)
  have gross: "gross_total (vw_items v) = gross_total items" unfolding I(2) gross_total_def by simp
  have "0 \<le> gross_total items" by (rule sale_gross_nonneg [OF 2(4) validated_quantities [OF n]])
  from sale_amounts_balanced [OF 2(5) refund(2) this] have mb: "money_balanced q refund (gross_total items) money" .
  have B: "booked_sale d u q d' r" by (rule createQuickSale_booked [OF run fresh]) (use sup in \<open>simp add: supply_ok_def\<close>)
  have inh: "int (length new) = sum_list (map ii_quantity (qs_items q))"
    using B T(4) unfolding booked_sale_def Let_def by auto
  have nonempty: "new \<noteq> []" if "vw_items v \<noteq> []"
  proof -
    from that have "qs_items q \<noteq> []" using 2(4) by (auto simp: I(2) number_items_def)
    moreover have "\<forall>i \<in> set (qs_items q). 1 \<le> ii_quantity i" using n by (simp add: validateItems_Inr_iff)
    ultimately have "0 < sum_list (map ii_quantity (qs_items q))"
      using sum_list_ge_length [of "qs_items q" ii_quantity] by (cases "qs_items q") auto
    with inh show ?thesis by auto
  qed
  have np: "numbered_payments_of q sess money (vw_payments v)"
    unfolding numbered_payments_of_def I(3) by (rule number_payments_simps)
  note F = sale_payments_found [OF np pay]
  obtain p where p: "find (\<lambda>p. pm_method p = qs_paymentMethod q) (vw_payments v) = Some p" "pm_method p = qs_paymentMethod q"
      "pm_changeAmount p = sm_change money"
      "pm_tenderedAmount p = (if 0 < sm_payout money \<or> qs_paymentMethod q = CASH then Some (sm_tendered money) else None)"
    using F(2) by blast
  have o': "od_userId ?o = u" "od_eventId ?o = qs_eventId q" "od_cashierSessionId ?o = Some sess" "od_totalAmount ?o = sm_total money"
    "od_depositRefundTotal ?o = refund" "od_stationId ?o = qs_stationId q" "od_pickupNumber ?o = pickup"
    by (simp_all add: I(1) sale_order_def)
  have sess: "truthy (Some sess) \<noteq> None" using 2(3) by (auto simp: check_sale_place_def res_simps truthy_def)
  have pk: "\<not> (truthy (qs_stationId q) \<noteq> None \<and> pickup = None)" using N(9) by (auto split: if_splits)
  have payout: "expected_payout ?o (vw_items v) = sm_payout money"
    using mb by (auto simp: expected_payout_def o' gross money_balanced_def)
  have tend: "if qs_paymentMethod q = CASH then sm_tendered money = or_zero (qs_tenderedAmount q)
      else sm_tendered money = sm_total money \<and> sm_payout money = 0 \<and>
           (qs_tenderedAmount q = None \<or> qs_tenderedAmount q = Some (sm_total money))"
    using 2(5) by (auto simp: sale_amounts_def Let_def res_simps split: if_splits)
  have pay_nn: "0 \<le> sm_payout money" using mb by (simp add: money_balanced_def)
  have c1: "(case find (\<lambda>p. pm_method p = REFUND) (vw_payments v) of None \<Rightarrow> 0 | Some p \<Rightarrow> pm_amount p) = sm_payout money"
    using F(3) pay_nn by simp
  have c2: "requested_positions (qs_items q) = stored_positions (vw_items v)"
    unfolding I(2) using sale_stored_positions [OF 2(4) wf] by simp
  have c3: "or_zero (pm_tenderedAmount p) = or_zero (qs_tenderedAmount q)" if "qs_paymentMethod q = CASH"
    using p(4) that tend by (simp add: or_zero_def)
  have c4: "qs_tenderedAmount q = None \<or> qs_tenderedAmount q = Some (sm_total money)" if "qs_paymentMethod q \<noteq> CASH"
    using that tend by auto
  have same: "same_sale_request d' u q v"
    unfolding same_sale_request_def Let_def o' payout vouchers p(1) c1
    using sess pk F(1) nonempty c2 c3 c4 p(2) refund(1) by auto
  have "replay_result d' q v = r\<lparr>sr_idempotentReplay := True\<rparr>"
    using 2(14-18) V(3) tend mb
    by (auto simp: replay_result_def Let_def o' p vouchers or_zero_def money_balanced_def)
  with found view same have "resolveIdempotentQuickSale d' u q = Inr (Some (r\<lparr>sr_idempotentReplay := True\<rparr>))"
    by (simp add: resolveIdempotentQuickSale_def)
  with 2(1) show ?thesis by (simp add: createQuickSale_def quickSale_tx_def publish_none)
qed

end

end
