(* ===== verification/VO_Sale_Props.thy ===== *)
theory VO_Sale_Props
  imports VO_Sale_Laws VO_Samples
begin

text \<open>
  The properties of taking orders and selling at a register: what is queued for the printers, the money
  and the rows of a booked order, retries and races on the idempotency key, pickup numbers.
\<close>

section \<open>Printing\<close>

text \<open>
  Dispatching an order appends pending jobs of that order and changes nothing else: with an active printer one
  job per product voucher and one receipt, and, unless it is a reprint, one ticket per station, the tickets together
  listing every position exactly once at the station its product resolves to.
\<close>

theorem dispatch_complete:
  "\<exists>tickets vouchers receipt.
     beside_print (dispatchPrintJobs e order ivs ps u po d) = beside_print d \<and>
     t_printJobs (dispatchPrintJobs e order ivs ps u po d) = t_printJobs d @ tickets @ vouchers @ receipt \<and>
     (\<forall>j \<in> set (tickets @ vouchers @ receipt). pj_orderId j = Some (od_id order) \<and> pj_status j = PJ_PENDING) \<and>
     (active_printer d \<noteq> None \<longrightarrow> length vouchers = length (po_vouchers po) \<and> length receipt = 1 \<and>
        length tickets = (if po_includeStationTickets po then length (items_by_station ivs) else 0)) \<and>
     mset (concat (map snd (items_by_station ivs))) = mset ivs \<and>
     (\<forall>(k, l) \<in> set (items_by_station ivs). l \<noteq> [] \<and> (\<forall>iv \<in> set l. station_key iv = k))"
proof -
  obtain tickets vouchers receipt where D: "queued d (dispatchPrintJobs e order ivs ps u po d) (tickets @ vouchers @ receipt)"
    "\<forall>j \<in> set tickets. order_job order STATION_TICKET j" "\<forall>j \<in> set vouchers. order_job order PRODUCT_VOUCHER j"
    "\<forall>j \<in> set receipt. order_job order RECEIPT j" "\<not> po_includeStationTickets po \<longrightarrow> tickets = []"
    "active_printer d \<noteq> None \<longrightarrow> length vouchers = length (po_vouchers po) \<and> length receipt = 1 \<and>
        (po_includeStationTickets po \<longrightarrow> length tickets = length (items_by_station ivs))"
    using dispatch_queued [of d e order ivs ps u po] by blast
  have jobs: "\<forall>j \<in> set (tickets @ vouchers @ receipt). pj_orderId j = Some (od_id order) \<and> pj_status j = PJ_PENDING"
    using D(2-4) unfolding set_append order_job_def by blast
  have counts: "active_printer d \<noteq> None \<longrightarrow> length vouchers = length (po_vouchers po) \<and> length receipt = 1 \<and>
        length tickets = (if po_includeStationTickets po then length (items_by_station ivs) else 0)"
    using D(5,6) by simp
  show ?thesis
    using D(1) jobs counts items_by_station_perm [of ivs] items_by_station_keys [of ivs] unfolding queued_def by blast
qed

definition sample_beer_item :: order_item where
  "sample_beer_item = \<lparr>oi_id = ''i'', oi_orderId = ''o'', oi_productId = ''b'', oi_quantity = 2, oi_paidQuantity = 0,
     oi_priceAtTime = 300, oi_depositAtTime = 100, oi_status = IT_PENDING, oi_variantId = Some ''o1'',
     oi_variantName = Some ''small'', oi_extras = None\<rparr>"

lemma dispatch_complete_witness:
  "length (t_printJobs (dispatchPrintJobs run_env blank_order [(sample_beer_item, sample_beer)] [] None default_print_options sample_db)) = 2"
proof -
  have "active_printer sample_db \<noteq> None" "length (items_by_station [(sample_beer_item, sample_beer)]) = 1"
    "t_printJobs sample_db = []" "po_vouchers default_print_options = []" "po_includeStationTickets default_print_options"
    by code_simp+
  with dispatch_complete [where d = sample_db and e = run_env and order = blank_order and
      ivs = "[(sample_beer_item, sample_beer)]" and ps = "[]" and u = None and po = default_print_options]
  show ?thesis by auto
qed

section \<open>Orders\<close>

text \<open>
  C2. A created order is priced and paid as requested: its total is the gross of its positions less the deposit
  refund, within 32 bits and never negative, the stored payments sum to the payments of the request, the
  payment status says whether they cover the total, all positions count as paid or none, the rows are appended and
  no existing order, position or payment changes.
\<close>

theorem createOrder_money:
  assumes "createOrder (Some InventoryService) e pre d u c = Inr (d', v)" and "d' \<noteq> d"
  shows "booked_order d u c v \<and> t_orders d' = t_orders d @ [vw_order v] \<and> t_items d' = t_items d @ vw_items v \<and>
    t_payments d' = t_payments d @ vw_payments v"
  using assms(1)
proof (cases rule: createOrder_cases)
  case (replayed st)
  with assms(2) show ?thesis by simp
next
  case (booked refund paid d1 ch)
  note B = beside_broadcastsD [OF ledger.publish_frame [where ev = "co_eventId c" and
      m = "od_dataMode (vw_order v)" and ch = ch and d = d1, folded booked(6)]]
  from ledger.createOrder_tx_money [OF booked(5,1,2,3)] ledger.createOrder_tx_tables [OF booked(5)] B show ?thesis by simp
qed

definition beer_order :: "int \<Rightarrow> create_order" where
  "beer_order paid = \<lparr>co_eventId = ''e'', co_items = [\<lparr>ii_productId = ''b'', ii_quantity = 2, ii_optionIds = Some [''o3'', ''o2'']\<rparr>],
     co_payments = Some [\<lparr>pi_amount = paid, pi_method = CARD\<rparr>], co_idempotencyKey = Some ''key'', co_tableName = Some ''T1'',
     co_areaId = None, co_cashierSessionId = None, co_depositRefundTotal = Some 100\<rparr>"

lemma createOrder_money_witness:
  "succeeds_with (\<lambda>(d', v). booked_order sample_db ''u'' (beer_order 500) v \<and>
       od_totalAmount (vw_order v) = 1200 \<and> od_paymentStatus (vw_order v) = PARTIALLY_PAID \<and> t_orders d' = [vw_order v])
     (createOrder (Some InventoryService) run_env sample_db sample_db ''u'' (beer_order 500))"
proof -
  let ?run = "createOrder (Some InventoryService) run_env sample_db sample_db ''u'' (beer_order 500)"
  have "succeeds_with (\<lambda>(d', v). serial d' \<noteq> 0 \<and> od_totalAmount (vw_order v) = 1200 \<and>
      od_paymentStatus (vw_order v) = PARTIALLY_PAID) ?run" by code_simp
  then obtain d' v where run: "?run = Inr (d', v)" and r: "serial d' \<noteq> 0" "od_totalAmount (vw_order v) = 1200"
    "od_paymentStatus (vw_order v) = PARTIALLY_PAID" by (auto elim!: succeeds_withE)
  have "serial sample_db = 0" "t_orders sample_db = []" by code_simp+
  with r have "d' \<noteq> sample_db" by auto
  from createOrder_money [OF run this] r \<open>t_orders sample_db = []\<close> show ?thesis
    unfolding run by (simp add: succeeds_with_def)
qed

text \<open>
  C18. Retrying is safe: a request with an idempotency key that was answered is answered with the same order again and
  changes nothing, for any catalogue of well-formed products and as long as the uuid supply is fresh.
\<close>

theorem createOrder_retry:
  assumes "createOrder (Some InventoryService) e d d u c = Inr (d', v)" and "truthy (co_idempotencyKey c) = Some k"
    and "supply_ok e d" and "\<forall>p \<in> set (t_products d). product_wf p"
  shows "createOrder (Some InventoryService) e' d' d' u c = Inr (d', v)"
  using ledger.createOrder_replays [OF assms] .

lemma sample_supply_ok: "supply_ok run_env sample_db"
  by (simp add: supply_ok_def run_env_def sample_env_def inj_nat_text sample_db_def empty_db_def sample_movement_def)

lemma sample_products_wf: "\<forall>p \<in> set (t_products sample_db). product_wf p"
  by code_simp

lemma createOrder_retry_witness:
  "succeeds_with (\<lambda>(d', v). createOrder (Some InventoryService) sample_env d' d' ''u'' (beer_order 500) = Inr (d', v))
     (createOrder (Some InventoryService) run_env sample_db sample_db ''u'' (beer_order 500))"
proof -
  let ?run = "createOrder (Some InventoryService) run_env sample_db sample_db ''u'' (beer_order 500)"
  have "succeeds_with (\<lambda>_. True) ?run" by code_simp
  then obtain d' v where run: "?run = Inr (d', v)" by (auto elim!: succeeds_withE)
  have "truthy (co_idempotencyKey (beer_order 500)) = Some ''key''" by code_simp
  from createOrder_retry [OF run this sample_supply_ok sample_products_wf] show ?thesis
    unfolding run by (simp add: succeeds_with_def)
qed

text \<open>
  One key, one order: once an order carries the key, a request with that key never books anything, even when the
  check before its transaction ran too early to see that order; it returns the stored order, and only when the
  request matches it.
\<close>

theorem createOrder_key_once:
  assumes "truthy (co_idempotencyKey c) = Some k" and "order_by_key d k = Some o'" and "order_by_key pre k = None"
    and "createOrder (Some InventoryService) e pre d u c = Inr (d', v)"
  shows "d' = d \<and> v = view_order d o' \<and> same_order_request u c v"
  by (rule ledger.createOrder_key_taken [OF assms(1,2) _ _ assms(4)]) (simp_all add: assms(3))

definition sample_ordered :: db where
  "sample_ordered = result_of sample_db
     (bind_res (createOrder (Some InventoryService) run_env sample_db sample_db ''u'' (beer_order 500)) (\<lambda>(d', v). Inr d'))"

lemma createOrder_key_once_witness:
  "succeeds_with (\<lambda>(d', v). d' = sample_ordered \<and> od_orderNumber (vw_order v) = 1)
     (createOrder (Some InventoryService) run_env sample_db sample_ordered ''u'' (beer_order 500))"
proof -
  let ?run = "createOrder (Some InventoryService) run_env sample_db sample_ordered ''u'' (beer_order 500)"
  have "succeeds_with (\<lambda>(d', v). od_orderNumber (vw_order v) = 1) ?run" by code_simp
  then obtain d' v where run: "?run = Inr (d', v)" and n: "od_orderNumber (vw_order v) = 1" by (auto elim!: succeeds_withE)
  have k: "truthy (co_idempotencyKey (beer_order 500)) = Some ''key''" "order_by_key sample_db ''key'' = None" by code_simp+
  have "order_by_key sample_ordered ''key'' \<noteq> None" by code_simp
  then obtain o' where "order_by_key sample_ordered ''key'' = Some o'" by auto
  from createOrder_key_once [OF k(1) this k(2) run] n show ?thesis unfolding run by (simp add: succeeds_with_def)
qed

section \<open>Quick sales\<close>

text \<open>
  C17. A quick sale conserves money and issues its vouchers: what is charged less what is paid out is the gross of
  the goods less the deposit refund, the change is what was handed over less what is charged, only cash sales pay out or give
  change, every position is fully paid, and each unit sold gets exactly one product voucher.
\<close>

theorem quick_sale_booked:
  assumes "createQuickSale (Some InventoryService) e d won u q = Inr (d', r)" and "\<not> sr_idempotentReplay r"
    and "inj (env_uuid e)"
  shows "booked_sale d u q d' r"
  using ledger.createQuickSale_booked [OF assms] .

definition beer_sale :: quick_sale where
  "beer_sale = \<lparr>qs_eventId = ''e'', qs_idempotencyKey = ''12345678'',
     qs_items = [\<lparr>ii_productId = ''b'', ii_quantity = 2, ii_optionIds = Some [''o3'', ''o2'']\<rparr>],
     qs_paymentMethod = CASH, qs_tenderedAmount = Some 2000, qs_depositRefundTotal = Some 200, qs_stationId = Some ''s''\<rparr>"

lemma run_env_inj: "inj (env_uuid run_env)"
  by (simp add: run_env_def sample_env_def inj_nat_text)

lemma quick_sale_booked_witness:
  "succeeds_with (\<lambda>(d', r). booked_sale sample_db ''u'' beer_sale d' r \<and> sr_changeAmount r = 900 \<and> sr_vouchersIssued r = 2)
     (createQuickSale (Some InventoryService) run_env sample_db sample_db ''u'' beer_sale)"
proof -
  let ?run = "createQuickSale (Some InventoryService) run_env sample_db sample_db ''u'' beer_sale"
  have "succeeds_with (\<lambda>(d', r). \<not> sr_idempotentReplay r \<and> sr_changeAmount r = 900 \<and> sr_vouchersIssued r = 2) ?run"
    by code_simp
  then obtain d' r where run: "?run = Inr (d', r)" and r: "\<not> sr_idempotentReplay r" "sr_changeAmount r = 900"
    "sr_vouchersIssued r = 2" by (auto elim!: succeeds_withE)
  from quick_sale_booked [OF run r(1) run_env_inj] r show ?thesis unfolding run by (simp add: succeeds_with_def)
qed

text \<open>
  Retrying a quick sale returns the stored sale, marked as a replay, and changes nothing; in particular it
  neither charges again nor draws another pickup number.
\<close>

theorem quick_sale_retry:
  assumes "createQuickSale (Some InventoryService) e d won u q = Inr (d', r)" and "\<not> sr_idempotentReplay r"
    and "supply_ok e d" and "\<forall>p \<in> set (t_products d). product_wf p"
  shows "createQuickSale (Some InventoryService) e' d' won' u q = Inr (d', r\<lparr>sr_idempotentReplay := True\<rparr>)"
  using ledger.createQuickSale_replays [OF assms] .

lemma quick_sale_retry_witness:
  "succeeds_with (\<lambda>(d', r). createQuickSale (Some InventoryService) sample_env d' sample_db ''u'' beer_sale
       = Inr (d', r\<lparr>sr_idempotentReplay := True\<rparr>))
     (createQuickSale (Some InventoryService) run_env sample_db sample_db ''u'' beer_sale)"
proof -
  let ?run = "createQuickSale (Some InventoryService) run_env sample_db sample_db ''u'' beer_sale"
  have "succeeds_with (\<lambda>(d', r). \<not> sr_idempotentReplay r) ?run" by code_simp
  then obtain d' r where run: "?run = Inr (d', r)" and r: "\<not> sr_idempotentReplay r" by (auto elim!: succeeds_withE)
  from quick_sale_retry [OF run r sample_supply_ok sample_products_wf] show ?thesis
    unfolding run by (simp add: succeeds_with_def)
qed

text \<open>
  No two orders of an event and mode ever share a pickup number: a new quick sale keeps the numbers distinct
  and the counter at least as high as every number handed out.
\<close>

theorem quick_sale_pickups:
  assumes "pickups_ok d" and "\<forall>k. 0 \<le> pickup_current d k"
    and "createQuickSale (Some InventoryService) e d won u q = Inr (d', r)" and "\<not> sr_idempotentReplay r"
  shows "pickups_ok d' \<and> od_pickupNumber (vw_order (sr_view r)) = sr_pickupNumber r \<and>
    (sr_pickupNumber r = None \<longleftrightarrow> truthy (qs_stationId q) = None)"
proof -
  note P = ledger.createQuickSale_pickup [OF assms(3,4)]
  show ?thesis
  proof (cases "truthy (qs_stationId q) = None")
    case True
    with P pickups_ok_plain [OF assms(1) P(1)] show ?thesis by simp
  next
    case False
    let ?k = "(od_eventId (vw_order (sr_view r)), od_dataMode (vw_order (sr_view r)))"
    from P(2) [unfolded if_not_P [OF False] Let_def] have n: "od_pickupNumber (vw_order (sr_view r)) = Some (pickup_current d ?k + 1)"
      and c: "pickup_current d' = (pickup_current d)(?k := pickup_current d ?k + 1)" by (rule conjunct1, rule conjunct2)
    from pickups_ok_drawn [OF assms(1) P(1) refl n c] assms(2) n P(3) False show ?thesis by auto
  qed
qed

lemma quick_sale_pickups_witness:
  "succeeds_with (\<lambda>(d', r). pickups_ok d' \<and> sr_pickupNumber r = Some 1)
     (createQuickSale (Some InventoryService) run_env sample_db sample_db ''u'' beer_sale)"
proof -
  let ?run = "createQuickSale (Some InventoryService) run_env sample_db sample_db ''u'' beer_sale"
  have "succeeds_with (\<lambda>(d', r). \<not> sr_idempotentReplay r \<and> sr_pickupNumber r = Some 1) ?run" by code_simp
  then obtain d' r where run: "?run = Inr (d', r)" and r: "\<not> sr_idempotentReplay r" "sr_pickupNumber r = Some 1"
    by (auto elim!: succeeds_withE)
  have ok: "pickups_ok sample_db" "\<forall>k. 0 \<le> pickup_current sample_db k"
    by (simp_all add: pickups_ok_def pickup_current_def sample_db_def empty_db_def List.map_filter_def)
  from quick_sale_pickups [OF ok run r(1)] r show ?thesis unfolding run by (simp add: succeeds_with_def)
qed

end
