(* ===== verification/VO_Payments.thy ===== *)
theory VO_Payments
  imports VO_Orders
begin

text \<open>
  What happens to an order after it is taken, \<^verbatim>\<open>apps/backend/src/orders/orders.service.ts\<close>: payments
  (\<^verbatim>\<open>addPaymentsToOrder\<close>, \<^verbatim>\<open>splitPaymentOrder\<close>), cancellation of an order or of one position, priority,
  the reprint, the lookup by idempotency key, discarding an offline entry and the list of unpaid
  orders. Each handler is one transaction on the state it is given.
\<close>

section \<open>Rows of an order\<close>

definition update_order :: "id \<Rightarrow> (order \<Rightarrow> order) \<Rightarrow> db \<Rightarrow> db" where
  "update_order oid f d = d\<lparr>t_orders := update_where (\<lambda>o'. od_id o' = oid) f (t_orders d)\<rparr>"

definition update_item :: "id \<Rightarrow> (order_item \<Rightarrow> order_item) \<Rightarrow> db \<Rightarrow> db" where
  "update_item iid f d = d\<lparr>t_items := update_where (\<lambda>i. oi_id i = iid) f (t_items d)\<rparr>"

definition create_payments :: "env \<Rightarrow> id \<Rightarrow> payment list \<Rightarrow> db \<Rightarrow> db" where
  "create_payments e oid ps d = d\<lparr>t_payments := t_payments d @ number_payments e (serial d) oid ps,
     serial := serial d + length ps\<rparr>"

definition view_by_id :: "db \<Rightarrow> id \<Rightarrow> api_error + order_view" where
  "view_by_id d oid = bind_res (need (find_order d oid) (NotFound ''ORDER'')) (\<lambda>o'. Inr (view_order d o'))"

section \<open>Adding payments\<close>

definition sum_payments :: "payment list \<Rightarrow> int" where
  "sum_payments ps = sum_list (map pm_amount ps)"

definition payment_audit :: "id \<Rightarrow> order \<Rightarrow> nat \<Rightarrow> int \<Rightarrow> order_payment_status \<Rightarrow> audit_entry" where
  "payment_audit userId o' n newPaid st = \<lparr>al_action = ''PAYMENT_RECEIVED'', al_entityId = od_id o',
     al_entityType = ''Order'', al_userId = Some userId,
     al_details = JObj [(''orderNumber'', JNum (od_orderNumber o')), (''paymentsCount'', JNum (int n)),
       (''amountPaid'', JNum newPaid), (''totalAmount'', JNum (od_totalAmount o')),
       (''newPaymentStatus'', JStr (payment_status_text st))]\<rparr>"

definition addPaymentsToOrder ::
  "env \<Rightarrow> db \<Rightarrow> id \<Rightarrow> payment_input list \<Rightarrow> id \<Rightarrow> api_error + db \<times> order_view" where
  "addPaymentsToOrder e d oid payments userId =
     bind_res (ensure (payments \<noteq> []) (BadRequest ''NO_PAYMENTS'')) (\<lambda>_.
     bind_res (validatePayments payments) (\<lambda>newPaid.
     bind_res (need (find_order d oid) (NotFound ''ORDER'')) (\<lambda>o'.
     bind_res (ensure (od_paymentStatus o' \<noteq> PAID) (BadRequest ''ALREADY_PAID'')) (\<lambda>_.
     let totalPaid = sum_payments (order_payments d oid) + newPaid in
     bind_res (ensure (is_safe_integer totalPaid \<and> totalPaid \<le> int32_max) (BadRequest ''PAYMENT_SUM'')) (\<lambda>_.
     bind_res (ensure (totalPaid \<le> od_totalAmount o') (BadRequest ''OVERPAYMENT'')) (\<lambda>_.
     let st = (if od_totalAmount o' \<le> totalPaid then PAID else PARTIALLY_PAID);
         sess = map_option cs_id (active_session d userId (od_eventId o'));
         d1 = create_payments e oid (map (new_payment sess) payments) d;
         d2 = update_order oid (\<lambda>x. x\<lparr>od_paymentStatus := st\<rparr>) d1
     in bind_res (view_by_id d2 oid) (\<lambda>v.
        Inr (if userId = [] then d2 else add_audit (payment_audit userId o' (length payments) newPaid st) d2, v))))))))"

section \<open>Paying selected positions\<close>

record split_item =
  sp_orderItemId :: id
  sp_quantity :: int

definition item_of :: "order_item list \<Rightarrow> id \<Rightarrow> order_item option" where
  "item_of items i = find (\<lambda>x. oi_id x = i) items"

definition collect_split :: "order_item list \<Rightarrow> split_item list \<Rightarrow> api_error + (id \<times> int) list" where
  "collect_split items req = fold_res (\<lambda>q s.
     bind_res (ensure (sp_orderItemId s \<noteq> [] \<and> item_of items (sp_orderItemId s) \<noteq> None) (BadRequest ''POSITION_NOT_IN_ORDER''))
       (\<lambda>_. Inr (js_set (sp_orderItemId s)
               ((case js_get q (sp_orderItemId s) of None \<Rightarrow> 0 | Some n \<Rightarrow> n) + sp_quantity s) q))) [] req"

definition unpaid_quantity :: "order_item \<Rightarrow> int" where
  "unpaid_quantity i = oi_quantity i - oi_paidQuantity i"

definition add_split_price :: "order_item list \<Rightarrow> int \<Rightarrow> id \<times> int \<Rightarrow> api_error + int" where
  "add_split_price items = (\<lambda>acc (i, qty).
     bind_res (need (item_of items i) (TypeError ''orderItem'')) (\<lambda>it.
     bind_res (ensure (qty \<le> unpaid_quantity it) (BadRequest ''ABOVE_UNPAID_QUANTITY'')) (\<lambda>_.
     Inr (acc + (oi_priceAtTime it + oi_depositAtTime it) * qty))))"

definition mark_paid :: "order_item list \<Rightarrow> db \<Rightarrow> id \<times> int \<Rightarrow> db" where
  "mark_paid items d = (\<lambda>(i, qty). (case item_of items i of None \<Rightarrow> d
     | Some it \<Rightarrow> update_item i (\<lambda>x. x\<lparr>oi_paidQuantity := oi_paidQuantity it + qty\<rparr>) d))"

definition split_covers :: "(id \<times> int) list \<Rightarrow> order_item \<Rightarrow> bool" where
  "split_covers q i \<longleftrightarrow> \<not> oi_paidQuantity i + (case js_get q (oi_id i) of None \<Rightarrow> 0 | Some n \<Rightarrow> n) < oi_quantity i"

definition split_entry_json :: "db \<Rightarrow> order_item list \<Rightarrow> id \<times> int \<Rightarrow> json" where
  "split_entry_json d items = (\<lambda>(i, qty). JObj ([(''orderItemId'', JStr i)]
     @ (case item_of items i of
          None \<Rightarrow> [(''quantity'', JNum qty), (''depositAtTime'', JNum 0), (''totalCents'', JNum 0)]
        | Some it \<Rightarrow> jopt (\<lambda>p. JStr (pd_name p)) ''productName'' (find_product d (oi_productId it))
            @ [(''quantity'', JNum qty), (''priceAtTime'', JNum (oi_priceAtTime it)),
               (''depositAtTime'', JNum (oi_depositAtTime it)),
               (''totalCents'', JNum ((oi_priceAtTime it + oi_depositAtTime it) * qty))])))"

definition split_audit ::
  "db \<Rightarrow> id \<Rightarrow> order \<Rightarrow> order_item list \<Rightarrow> (id \<times> int) list \<Rightarrow> int \<Rightarrow> order_payment_status \<Rightarrow> id option \<Rightarrow> audit_entry" where
  "split_audit d userId o' items q newPaid st sess = \<lparr>al_action = ''ORDER_SPLIT_PAYMENT'', al_entityId = od_id o',
     al_entityType = ''Order'', al_userId = Some userId,
     al_details = JObj [(''orderNumber'', JNum (od_orderNumber o')), (''tableName'', jnull JStr (od_tableName o')),
       (''splitItems'', JArr (map (split_entry_json d items) q)), (''amountPaid'', JNum newPaid),
       (''newPaymentStatus'', JStr (payment_status_text st)), (''cashierSessionId'', jnull JStr sess)]\<rparr>"

definition split_checks ::
  "db \<Rightarrow> id \<Rightarrow> split_item list \<Rightarrow> int \<Rightarrow> api_error + order \<times> order_item list \<times> (id \<times> int) list" where
  "split_checks d oid req newPaid =
     bind_res (need (find_order d oid) (NotFound ''ORDER'')) (\<lambda>o'.
     bind_res (ensure (od_lifecycleStatus o' \<noteq> LC_CANCELLED) (BadRequest ''ORDER_CANCELLED'')) (\<lambda>_.
     bind_res (ensure (od_paymentStatus o' \<noteq> PAID) (BadRequest ''ALREADY_PAID'')) (\<lambda>_.
     let items = order_items d oid in
     bind_res (collect_split items req) (\<lambda>q.
     bind_res (fold_res (add_split_price items) 0 q) (\<lambda>expected.
     bind_res (ensure (is_safe_integer expected \<and> expected \<le> int32_max) (BadRequest ''SPLIT_TOTAL'')) (\<lambda>_.
     bind_res (ensure (newPaid = expected) (BadRequest ''SPLIT_AMOUNT_MISMATCH'')) (\<lambda>_.
     Inr (o', items, q))))))))"

definition splitPaymentOrder ::
  "env \<Rightarrow> db \<Rightarrow> id \<Rightarrow> split_item list \<Rightarrow> payment_input list \<Rightarrow> id \<Rightarrow> api_error + db \<times> order_view" where
  "splitPaymentOrder e d oid req payments userId =
     bind_res (ensure (req \<noteq> []) (BadRequest ''NO_POSITIONS'')) (\<lambda>_.
     bind_res (ensure (payments \<noteq> []) (BadRequest ''NO_PAYMENTS'')) (\<lambda>_.
     bind_res (validatePayments payments) (\<lambda>newPaid.
     bind_res (split_checks d oid req newPaid) (\<lambda>(o', items, q).
     let sess = map_option cs_id (active_session d userId (od_eventId o'));
         d1 = foldl (mark_paid items) d q;
         d2 = create_payments e oid (map (new_payment sess) payments) d1;
         st = (if list_all (split_covers q) items then PAID else PARTIALLY_PAID);
         d3 = update_order oid (\<lambda>x. x\<lparr>od_paymentStatus := st\<rparr>) d2
     in bind_res (view_by_id d3 oid) (\<lambda>v.
        Inr (if userId = [] then d3 else add_audit (split_audit d userId o' items q newPaid st sess) d3, v))))))"

section \<open>Cancelling\<close>

definition cancel_vouchers :: "(prod_voucher \<Rightarrow> bool) \<Rightarrow> db \<Rightarrow> db \<times> nat" where
  "cancel_vouchers c d = (d\<lparr>t_prodVouchers := update_where (\<lambda>v. c v \<and> pv_status v = PV_ISSUED)
       (\<lambda>v. v\<lparr>pv_status := PV_CANCELLED\<rparr>) (t_prodVouchers d)\<rparr>,
     count_where (\<lambda>v. c v \<and> pv_status v = PV_ISSUED) (t_prodVouchers d))"

definition cancel_order_audit :: "id \<Rightarrow> order \<Rightarrow> string \<Rightarrow> nat \<Rightarrow> nat \<Rightarrow> audit_entry" where
  "cancel_order_audit userId o' reason payments vouchers = \<lparr>al_action = ''CANCEL_ORDER'', al_entityId = od_id o',
     al_entityType = ''Order'', al_userId = Some userId,
     al_details = JObj [(''reason'', JStr reason), (''totalAmount'', JNum (od_totalAmount o')),
       (''depositRefundTotal'', JNum (od_depositRefundTotal o')), (''paymentsCount'', JNum (int payments)),
       (''vouchersCancelled'', JNum (int vouchers))]\<rparr>"

text \<open>The answer shows the positions as they were when the order row was updated, before their own update.\<close>

definition cancelOrder ::
  "inventory_port option \<Rightarrow> env \<Rightarrow> db \<Rightarrow> id \<Rightarrow> string \<Rightarrow> id \<Rightarrow> api_error + db \<times> order_view" where
  "cancelOrder port e d oid reason userId =
     bind_res (normalizeCancellationReason reason) (\<lambda>r.
     bind_res (need (find_order d oid) (NotFound ''ORDER'')) (\<lambda>o'.
     bind_res (ensure (od_lifecycleStatus o' \<noteq> LC_CANCELLED) (BadRequest ''ORDER_CANCELLED'')) (\<lambda>_.
     let d1 = update_order oid (\<lambda>x. x\<lparr>od_lifecycleStatus := LC_CANCELLED\<rparr>) d;
         d2 = d1\<lparr>t_items := update_where (\<lambda>i. oi_orderId i = oid) (\<lambda>i. i\<lparr>oi_status := IT_CANCELLED\<rparr>) (t_items d1)\<rparr>;
         (d3, n) = cancel_vouchers (\<lambda>v. pv_orderId v = oid) d2
     in bind_res (view_by_id d1 oid) (\<lambda>v.
        bind_res (reverseInventorySales port e d3 (od_eventId o') (od_dataMode o') oid
                    (map oi_id (order_items d oid)) userId r) (\<lambda>(d4, changes).
        Inr (publishInventory port (od_eventId o') (od_dataMode o') changes
               (add_audit (cancel_order_audit userId o' r (length (order_payments d oid)) n) d4), v))))))"

definition remaining_items :: "db \<Rightarrow> order \<Rightarrow> id \<Rightarrow> order_item list" where
  "remaining_items d o' iid = filter (\<lambda>i. oi_id i \<noteq> iid \<and> oi_status i \<noteq> IT_CANCELLED) (order_items d (od_id o'))"

definition cancel_item_audit :: "id \<Rightarrow> order_item \<Rightarrow> string \<Rightarrow> nat \<Rightarrow> audit_entry" where
  "cancel_item_audit userId it reason vouchers = \<lparr>al_action = ''CANCEL_ORDER_ITEM'', al_entityId = oi_id it,
     al_entityType = ''OrderItem'', al_userId = Some userId,
     al_details = JObj [(''reason'', JStr reason), (''orderId'', JStr (oi_orderId it)),
       (''productId'', JStr (oi_productId it)), (''itemPrice'', JNum (oi_priceAtTime it)),
       (''itemDeposit'', JNum (oi_depositAtTime it)), (''quantity'', JNum (oi_quantity it)),
       (''vouchersCancelled'', JNum (int vouchers))]\<rparr>"

definition cancelOrderItem ::
  "inventory_port option \<Rightarrow> env \<Rightarrow> db \<Rightarrow> id \<Rightarrow> string \<Rightarrow> id \<Rightarrow> api_error + db \<times> order_item" where
  "cancelOrderItem port e d iid reason userId =
     bind_res (normalizeCancellationReason reason) (\<lambda>r.
     bind_res (need (item_of (t_items d) iid) (NotFound ''POSITION'')) (\<lambda>it.
     bind_res (need (find_order d (oi_orderId it)) (TypeError ''order'')) (\<lambda>o'.
     bind_res (ensure (oi_status it \<noteq> IT_CANCELLED) (BadRequest ''POSITION_CANCELLED'')) (\<lambda>_.
     let d1 = update_item iid (\<lambda>i. i\<lparr>oi_status := IT_CANCELLED\<rparr>) d;
         (d2, n) = cancel_vouchers (\<lambda>v. pv_orderItemId v = iid) d1
     in bind_res (reverseInventorySales port e d2 (od_eventId o') (od_dataMode o') (od_id o') [oi_id it] userId r)
          (\<lambda>(d3, changes).
        let rest = remaining_items d o' iid;
            d4 = update_order (od_id o') (\<lambda>x. x\<lparr>od_totalAmount := max 0 (gross_total rest - od_depositRefundTotal o'),
                   od_lifecycleStatus := (if rest = [] then LC_CANCELLED else od_lifecycleStatus o')\<rparr>) d3
        in Inr (publishInventory port (od_eventId o') (od_dataMode o') changes
                  (add_audit (cancel_item_audit userId it r n) d4), it\<lparr>oi_status := IT_CANCELLED\<rparr>))))))"

definition updatePriority :: "db \<Rightarrow> id \<Rightarrow> bool \<Rightarrow> api_error + db" where
  "updatePriority d oid b =
     bind_res (need (find_order d oid) (NotFound ''P2025'')) (\<lambda>_. Inr (update_order oid (\<lambda>x. x\<lparr>od_isPriority := b\<rparr>) d))"

section \<open>The offline queue of a waiter\<close>

record order_summary =
  os_id :: id
  os_orderNumber :: int
  os_createdAt :: nat
  os_totalAmount :: int
  os_eventId :: id
  os_dataMode :: data_mode
  os_paymentStatus :: order_payment_status

definition getOrderByIdempotencyKey :: "db \<Rightarrow> id \<Rightarrow> role \<Rightarrow> string \<Rightarrow> api_error + order_summary" where
  "getOrderByIdempotencyKey d userId r key =
     bind_res (need (order_by_key d key) (NotFound ''ORDER'')) (\<lambda>o'.
     bind_res (ensure (\<not> (od_userId o' \<noteq> userId \<and> r \<noteq> ADMINISTRATOR \<and> r \<noteq> EVENT_MANAGER)) (NotFound ''ORDER'')) (\<lambda>_.
     Inr \<lparr>os_id = od_id o', os_orderNumber = od_orderNumber o', os_createdAt = od_createdAt o',
       os_totalAmount = od_totalAmount o', os_eventId = od_eventId o', os_dataMode = od_dataMode o',
       os_paymentStatus = od_paymentStatus o'\<rparr>))"

record discard_input =
  di_idempotencyKey :: string
  di_reason :: string
  di_capturedByUserId :: "id option"
  di_legacy :: "bool option"
  di_eventId :: "id option"
  di_payments :: "payment_input list option"
  di_totalAtCapture :: "int option"

definition discard_payments :: "discard_input \<Rightarrow> payment_input list" where
  "discard_payments i = (case di_payments i of None \<Rightarrow> [] | Some ps \<Rightarrow> ps)"

definition discard_allowed :: "id \<Rightarrow> role \<Rightarrow> discard_input \<Rightarrow> bool" where
  "discard_allowed userId r i =
     (if discard_payments i \<noteq> [] then r = ADMINISTRATOR
      else if di_legacy i = Some True then r = ADMINISTRATOR \<or> r = EVENT_MANAGER
      else r = ADMINISTRATOR \<or> truthy (di_capturedByUserId i) = Some userId)"

definition discard_audit :: "id \<Rightarrow> discard_input \<Rightarrow> string \<Rightarrow> audit_entry" where
  "discard_audit userId i reason = \<lparr>al_action = ''OFFLINE_QUEUE_DISCARDED'', al_entityId = di_idempotencyKey i,
     al_entityType = ''Order'', al_userId = truthy (Some userId),
     al_details = JObj [(''reason'', JStr reason), (''capturedByUserId'', jnull JStr (di_capturedByUserId i)),
       (''legacy'', JBool (di_legacy i = Some True)), (''eventId'', jnull JStr (di_eventId i)),
       (''totalAtCapture'', jnull JNum (di_totalAtCapture i)),
       (''payments'', JArr (map (\<lambda>p. JObj [(''amount'', JNum (pi_amount p)),
           (''method'', JStr (method_text (pi_method p)))]) (discard_payments i)))]\<rparr>"

definition discardOfflineQueueEntry :: "db \<Rightarrow> id \<Rightarrow> role \<Rightarrow> discard_input \<Rightarrow> api_error + db" where
  "discardOfflineQueueEntry d userId r i =
     bind_res (ensure (8 \<le> length (di_idempotencyKey i) \<and> length (di_idempotencyKey i) \<le> 128)
                (BadRequest ''IDEMPOTENCY_KEY'')) (\<lambda>_.
     bind_res (normalizeCancellationReason (di_reason i)) (\<lambda>reason.
     bind_res (validatePayments (discard_payments i)) (\<lambda>_.
     bind_res (ensure (order_by_key d (di_idempotencyKey i) = None) (Conflict ''ORDER_EXISTS'')) (\<lambda>_.
     bind_res (ensure (discard_allowed userId r i) (Forbidden ''DISCARD'')) (\<lambda>_.
     Inr (add_audit (discard_audit userId i reason) d))))))"

section \<open>Reprinting\<close>

definition original_title :: "db \<Rightarrow> id \<Rightarrow> string option" where
  "original_title d oid =
     (case sort_key pj_createdAt (filter (\<lambda>j. pj_orderId j = Some oid \<and> pj_jobType j = RECEIPT) (t_printJobs d)) of
        [] \<Rightarrow> None
      | j # _ \<Rightarrow> (case json_field ''title'' (pj_content j) of Some (JStr s) \<Rightarrow> Some s | _ \<Rightarrow> None))"

definition reprint_voucher :: "db \<Rightarrow> order_item list \<Rightarrow> prod_voucher \<Rightarrow> voucher_print" where
  "reprint_voucher d items v =
     (let it = item_of items (pv_orderItemId v);
          p = Option.bind it (\<lambda>i. find_product d (oi_productId i))
      in \<lparr>vp_code = pv_code v, vp_orderItemId = pv_orderItemId v, vp_productId = pv_productId v,
          vp_productName = (case p of None \<Rightarrow> ''Produkt'' | Some x \<Rightarrow> pd_name x),
          vp_variantName = Option.bind it oi_variantName,
          vp_stationId = Option.bind p resolveTargetStationId, vp_issuedAt = pv_issuedAt v\<rparr>)"

definition reprint_allowed :: "db \<Rightarrow> id \<Rightarrow> order \<Rightarrow> api_error + user option" where
  "reprint_allowed d userId o' =
     bind_res (ensure (userId \<noteq> []) (Forbidden ''LOGIN_REQUIRED'')) (\<lambda>_.
     let u = find_user d userId in
     bind_res (ensure (map_option us_role u = Some ADMINISTRATOR \<or> active_session d userId (od_eventId o') \<noteq> None)
                (Forbidden ''NOT_IN_EVENT'')) (\<lambda>_. Inr u))"

definition reprint_options :: "env \<Rightarrow> db \<Rightarrow> order \<Rightarrow> ticket_options" where
  "reprint_options e d o' =
     (let cash = find (\<lambda>p. pm_method p = CASH \<and> pm_tenderedAmount p \<noteq> None) (order_payments d (od_id o'))
      in \<lparr>po_receiptTitle = original_title d (od_id o'), po_tenderedAmount = Option.bind cash pm_tenderedAmount,
          po_changeAmount = map_option pm_changeAmount cash,
          po_vouchers = map (reprint_voucher d (order_items d (od_id o'))) (order_vouchers d (od_id o')),
          po_includeStationTickets = False, po_reprintedAt = Some (env_now e),
          po_pickupNumber = od_pickupNumber o'\<rparr>)"

definition reprint_audit :: "env \<Rightarrow> id \<Rightarrow> order \<Rightarrow> nat \<Rightarrow> audit_entry" where
  "reprint_audit e userId o' n = \<lparr>al_action = ''REPRINT_ORDER'', al_entityId = od_id o', al_entityType = ''Order'',
     al_userId = Some userId,
     al_details = JObj [(''orderNumber'', JNum (od_orderNumber o')), (''totalAmount'', JNum (od_totalAmount o')),
       (''reprintedAt'', time_json (env_now e)), (''vouchersReprinted'', JNum (int n))]\<rparr>"

definition reprintOrder :: "env \<Rightarrow> db \<Rightarrow> id \<Rightarrow> id \<Rightarrow> api_error + db" where
  "reprintOrder e d oid userId =
     bind_res (need (find_order d oid) (NotFound ''ORDER'')) (\<lambda>o'.
     bind_res (reprint_allowed d userId o') (\<lambda>u.
     let po = reprint_options e d o';
         d1 = dispatchPrintJobs e o' (with_products d (order_items d oid)) (order_payments d oid) u po d
     in Inr (add_audit (reprint_audit e userId o' (length (po_vouchers po))) d1)))"

section \<open>Unpaid orders\<close>

definition getUnpaidOrders :: "db \<Rightarrow> id \<Rightarrow> api_error + order_view list" where
  "getUnpaidOrders d ev =
     bind_res (resolveOperationalDataMode (find_event d ev)) (\<lambda>mode.
     Inr (map (view_order d) (rev (sort_key od_createdAt (filter (\<lambda>o'. od_eventId o' = ev \<and>
        (case mode of None \<Rightarrow> True | Some m \<Rightarrow> od_dataMode o' = m) \<and>
        od_paymentStatus o' \<in> {OPEN, PARTIALLY_PAID} \<and> od_lifecycleStatus o' \<noteq> LC_CANCELLED) (t_orders d))))))"

end
