(* ===== verification/VO_Payment_Laws.thy ===== *)
theory VO_Payment_Laws
  imports VO_Payments VO_Sale_Laws
begin

text \<open>
  The laws of payments and cancellations: what they write, that a payment never exceeds the total, that
  paying positions never pays a unit twice, and that cancelling keeps the ledger and restores the stock.
\<close>

section \<open>Payments\<close>

lemma sum_payments_simps [simp]:
  "sum_payments [] = 0" "sum_payments (xs @ ys) = sum_payments xs + sum_payments ys"
  by (simp_all add: sum_payments_def)

lemma sum_new_payments [simp]:
  "sum_payments (number_payments e n oid (map (new_payment sess) ps)) = sum_list (map pi_amount ps)"
proof -
  have "pm_amount \<circ> new_payment sess = pi_amount" by (simp add: fun_eq_iff new_payment_def)
  then have "map pm_amount (number_payments e n oid (map (new_payment sess) ps)) = map pi_amount ps" by simp
  then show ?thesis by (simp only: sum_payments_def)
qed

lemma number_payments_order: "p \<in> set (number_payments e n oid ps) \<Longrightarrow> pm_orderId p = oid"
  using number_payments_simps(4) by fastforce

lemma order_payments_create:
  "order_payments (create_payments e oid ps d) i =
     order_payments d i @ (if i = oid then number_payments e (serial d) oid ps else [])"
proof -
  have "filter (\<lambda>p. pm_orderId p = i) (number_payments e (serial d) oid ps) = (if i = oid then number_payments e (serial d) oid ps else [])"
    using number_payments_order [of _ e "serial d" oid ps] by (auto simp: filter_id_conv filter_empty_conv)
  then show ?thesis by (simp add: order_payments_def create_payments_def)
qed

lemma payments_frame [simp]:
  "t_items (create_payments e oid ps d) = t_items d" "t_orders (create_payments e oid ps d) = t_orders d"
  "t_stocks (create_payments e oid ps d) = t_stocks d" "t_movements (create_payments e oid ps d) = t_movements d"
  "t_prodVouchers (create_payments e oid ps d) = t_prodVouchers d"
  "t_payments (update_order i f d) = t_payments d" "t_items (update_order i f d) = t_items d"
  "t_stocks (update_order i f d) = t_stocks d" "t_movements (update_order i f d) = t_movements d"
  "t_prodVouchers (update_order i f d) = t_prodVouchers d"
  "t_orders (update_order i f d) = update_where (\<lambda>o'. od_id o' = i) f (t_orders d)"
  "t_items (update_item i g d) = update_where (\<lambda>x. oi_id x = i) g (t_items d)"
  "t_payments (update_item i g d) = t_payments d" "t_orders (update_item i g d) = t_orders d"
  "t_stocks (update_item i g d) = t_stocks d" "t_movements (update_item i g d) = t_movements d"
  "t_prodVouchers (update_item i g d) = t_prodVouchers d"
  by (simp_all add: create_payments_def update_order_def update_item_def)

lemma order_payments_cong: "t_payments d' = t_payments d \<Longrightarrow> order_payments d' i = order_payments d i"
  by (simp add: order_payments_def)

lemma order_items_cong: "t_items d' = t_items d \<Longrightarrow> order_items d' i = order_items d i"
  by (simp add: order_items_def)

lemma find_update_keyed:
  assumes "\<And>x. k (f x) = k x"
  shows "find (\<lambda>x. k x = j) (update_where (\<lambda>x. k x = i) f xs) = map_option (\<lambda>x. if j = i then f x else x) (find (\<lambda>x. k x = j) xs)"
  by (induction xs) (auto simp: update_where_def assms)

lemma find_order_update:
  assumes "\<And>x. od_id (f x) = od_id x"
  shows "find_order (update_order i f d) j = map_option (\<lambda>x. if j = i then f x else x) (find_order d j)"
  unfolding find_order_def update_order_def by (simp add: find_update_keyed [where k = od_id, OF assms])

lemma find_order_Some: "find_order d i = Some o' \<Longrightarrow> o' \<in> set (t_orders d) \<and> od_id o' = i"
  unfolding find_order_def by (drule find_Some_mem) simp

text \<open>What a successful payment did.\<close>

lemma addPayments_effect:
  assumes "addPaymentsToOrder e d oid ps u = Inr (d', v)"
  obtains o' newPaid totalPaid st where "validatePayments ps = Inr newPaid" "find_order d oid = Some o'" "od_paymentStatus o' \<noteq> PAID"
    "totalPaid = sum_payments (order_payments d oid) + newPaid" "totalPaid \<le> od_totalAmount o'" "totalPaid \<le> int32_max"
    "st = (if od_totalAmount o' \<le> totalPaid then PAID else PARTIALLY_PAID)"
    "t_orders d' = update_where (\<lambda>x. od_id x = oid) (\<lambda>x. x\<lparr>od_paymentStatus := st\<rparr>) (t_orders d)"
    "sum_payments (order_payments d' oid) = totalPaid" "\<forall>i. i \<noteq> oid \<longrightarrow> order_payments d' i = order_payments d i"
    "t_items d' = t_items d" "t_stocks d' = t_stocks d" "t_movements d' = t_movements d" "t_prodVouchers d' = t_prodVouchers d"
    "vw_order v = o'\<lparr>od_paymentStatus := st\<rparr>" "vw_payments v = order_payments d' oid" "vw_items v = order_items d oid"
proof -
  from assms obtain newPaid o' where
    v: "validatePayments ps = Inr newPaid" and f: "find_order d oid = Some o'" and np: "od_paymentStatus o' \<noteq> PAID"
    and le: "sum_payments (order_payments d oid) + newPaid \<le> od_totalAmount o'" "sum_payments (order_payments d oid) + newPaid \<le> int32_max"
    and rest: "let st = (if od_totalAmount o' \<le> sum_payments (order_payments d oid) + newPaid then PAID else PARTIALLY_PAID);
         sess = map_option cs_id (active_session d u (od_eventId o'));
         d1 = create_payments e oid (map (new_payment sess) ps) d;
         d2 = update_order oid (\<lambda>x. x\<lparr>od_paymentStatus := st\<rparr>) d1
     in view_by_id d2 oid = Inr v \<and> d' = (if u = [] then d2 else add_audit (payment_audit u o' (length ps) newPaid st) d2)"
    by (auto simp: addPaymentsToOrder_def res_simps Let_def)
  define st where "st = (if od_totalAmount o' \<le> sum_payments (order_payments d oid) + newPaid then PAID else PARTIALLY_PAID)"
  define sess where "sess = map_option cs_id (active_session d u (od_eventId o'))"
  define d1 where "d1 = create_payments e oid (map (new_payment sess) ps) d"
  define d2 where "d2 = update_order oid (\<lambda>x. x\<lparr>od_paymentStatus := st\<rparr>) d1"
  from rest have view: "view_by_id d2 oid = Inr v" and d': "d' = (if u = [] then d2 else add_audit (payment_audit u o' (length ps) newPaid st) d2)"
    by (simp_all only: Let_def st_def sess_def d1_def d2_def)
  have tables: "t_orders d' = t_orders d2" "t_payments d' = t_payments d2" "t_items d' = t_items d2" "t_stocks d' = t_stocks d2"
    "t_movements d' = t_movements d2" "t_prodVouchers d' = t_prodVouchers d2"
    unfolding d' by (simp_all add: frame_simps)
  have paid: "order_payments d' i = order_payments d1 i" for i
    using tables(2) by (simp add: order_payments_def d2_def)
  from validatePayments_Inr_iff v have n: "sum_list (map pi_amount ps) = newPaid" by metis
  have "find_order d2 oid = Some (o'\<lparr>od_paymentStatus := st\<rparr>)"
    unfolding d2_def by (subst find_order_update) (simp_all add: d1_def find_order_def create_payments_def f [unfolded find_order_def])
  with view have vv: "v = view_order d2 (o'\<lparr>od_paymentStatus := st\<rparr>)" by (simp add: view_by_id_def)
  have oid: "od_id o' = oid" using find_order_Some [OF f] by simp
  show thesis
  proof (rule that [OF v f np refl le st_def])
    show "t_orders d' = update_where (\<lambda>x. od_id x = oid) (\<lambda>x. x\<lparr>od_paymentStatus := st\<rparr>) (t_orders d)"
      unfolding tables d2_def d1_def by simp
    show "sum_payments (order_payments d' oid) = sum_payments (order_payments d oid) + newPaid"
      unfolding paid d1_def order_payments_create by (simp add: n)
    show "\<forall>i. i \<noteq> oid \<longrightarrow> order_payments d' i = order_payments d i"
      unfolding paid d1_def order_payments_create by simp
    show "t_items d' = t_items d" "t_stocks d' = t_stocks d" "t_movements d' = t_movements d" "t_prodVouchers d' = t_prodVouchers d"
      unfolding tables d2_def d1_def by simp_all
    show "vw_order v = o'\<lparr>od_paymentStatus := st\<rparr>" unfolding vv by (simp add: view_order_def)
    show "vw_payments v = order_payments d' oid"
      unfolding vv by (simp add: view_order_def oid order_payments_def tables(2))
    show "vw_items v = order_items d oid"
      unfolding vv by (simp add: view_order_def oid order_items_def d2_def d1_def)
  qed
qed

section \<open>Paying positions\<close>

definition split_wanted :: "split_item list \<Rightarrow> id \<Rightarrow> int" where
  "split_wanted req i = sum_list (map sp_quantity (filter (\<lambda>s. sp_orderItemId s = i) req))"

definition unit_price :: "order_item list \<Rightarrow> id \<Rightarrow> int" where
  "unit_price items i = (case item_of items i of None \<Rightarrow> 0 | Some it \<Rightarrow> oi_priceAtTime it + oi_depositAtTime it)"

definition entry_sum :: "(id \<Rightarrow> int) \<Rightarrow> (id \<times> int) list \<Rightarrow> int" where
  "entry_sum g q = sum_list (map (\<lambda>(k, n). g k * n) q)"

lemma entry_sum_set:
  "entry_sum g (js_set k ((case js_get q k of None \<Rightarrow> 0 | Some n \<Rightarrow> n) + x) q) = entry_sum g q + g k * x"
proof (induction q)
  case Nil
  then show ?case by (simp add: entry_sum_def)
next
  case (Cons a q)
  then show ?case by (cases a) (auto simp: entry_sum_def algebra_simps)
qed

lemma split_wanted_Cons:
  "split_wanted (s # req) i = (if sp_orderItemId s = i then sp_quantity s else 0) + split_wanted req i"
  by (simp add: split_wanted_def)

lemma collect_split_loop:
  assumes "fold_res (\<lambda>q s. bind_res (ensure (sp_orderItemId s \<noteq> [] \<and> item_of items (sp_orderItemId s) \<noteq> None) (BadRequest ''POSITION_NOT_IN_ORDER''))
       (\<lambda>_. Inr (js_set (sp_orderItemId s) ((case js_get q (sp_orderItemId s) of None \<Rightarrow> 0 | Some n \<Rightarrow> n) + sp_quantity s) q))) q req = Inr q'"
    and "distinct (js_keys q)"
  shows "distinct (js_keys q') \<and> fst ` set q' = fst ` set q \<union> sp_orderItemId ` set req \<and>
    (\<forall>s \<in> set req. item_of items (sp_orderItemId s) \<noteq> None) \<and>
    (\<forall>i. (case js_get q' i of None \<Rightarrow> 0 | Some n \<Rightarrow> n) = (case js_get q i of None \<Rightarrow> 0 | Some n \<Rightarrow> n) + split_wanted req i) \<and>
    entry_sum g q' = entry_sum g q + sum_list (map (\<lambda>s. g (sp_orderItemId s) * sp_quantity s) req)"
  using assms
proof (induction req arbitrary: q)
  case Nil
  then show ?case by (simp add: split_wanted_def)
next
  case (Cons s req)
  let ?q = "js_set (sp_orderItemId s) ((case js_get q (sp_orderItemId s) of None \<Rightarrow> 0 | Some n \<Rightarrow> n) + sp_quantity s) q"
  from Cons.prems have known: "item_of items (sp_orderItemId s) \<noteq> None"
    and rest: "fold_res (\<lambda>q s. bind_res (ensure (sp_orderItemId s \<noteq> [] \<and> item_of items (sp_orderItemId s) \<noteq> None) (BadRequest ''POSITION_NOT_IN_ORDER''))
       (\<lambda>_. Inr (js_set (sp_orderItemId s) ((case js_get q (sp_orderItemId s) of None \<Rightarrow> 0 | Some n \<Rightarrow> n) + sp_quantity s) q))) ?q req = Inr q'"
    by (auto simp: res_simps)
  have dist: "distinct (js_keys ?q)" using Cons.prems(2) by (rule js_keys_distinct)
  note IH = Cons.IH [OF rest dist]
  have val: "(case js_get ?q i of None \<Rightarrow> 0 | Some n \<Rightarrow> n) = (case js_get q i of None \<Rightarrow> 0 | Some n \<Rightarrow> n) + (if sp_orderItemId s = i then sp_quantity s else 0)" for i
    by simp
  from IH known show ?case unfolding val entry_sum_set split_wanted_Cons by auto
qed

lemma collect_split_Inr:
  assumes "collect_split items req = Inr q"
  shows "distinct (js_keys q)" and "fst ` set q = sp_orderItemId ` set req"
    and "\<And>i. (case js_get q i of None \<Rightarrow> 0 | Some n \<Rightarrow> n) = split_wanted req i"
    and "entry_sum g q = sum_list (map (\<lambda>s. g (sp_orderItemId s) * sp_quantity s) req)"
  using collect_split_loop [of items "[]" req q g] assms by (simp_all add: collect_split_def entry_sum_def)

lemma split_price_loop:
  "fold_res (add_split_price items) t q = Inr t' \<Longrightarrow>
   t' = t + entry_sum (unit_price items) q \<and>
   (\<forall>(i, n) \<in> set q. \<exists>it. item_of items i = Some it \<and> n \<le> unpaid_quantity it)"
proof (induction q arbitrary: t)
  case Nil
  then show ?case by (simp add: entry_sum_def)
next
  case (Cons a q)
  obtain i n where a: "a = (i, n)" by (cases a)
  from Cons.prems a obtain it where it: "item_of items i = Some it" "n \<le> unpaid_quantity it"
    and rest: "fold_res (add_split_price items) (t + (oi_priceAtTime it + oi_depositAtTime it) * n) q = Inr t'"
    by (auto simp: add_split_price_def res_simps)
  from Cons.IH [OF rest] it a show ?case by (simp add: entry_sum_def unit_price_def)
qed

definition add_paid :: "(id \<times> int) list \<Rightarrow> order_item \<Rightarrow> order_item" where
  "add_paid q r = (case js_get q (oi_id r) of None \<Rightarrow> r | Some n \<Rightarrow> r\<lparr>oi_paidQuantity := oi_paidQuantity r + n\<rparr>)"

lemma mark_paid_frame:
  "t_orders (mark_paid items d z) = t_orders d \<and> t_payments (mark_paid items d z) = t_payments d \<and>
   t_stocks (mark_paid items d z) = t_stocks d \<and> t_movements (mark_paid items d z) = t_movements d \<and>
   serial (mark_paid items d z) = serial d \<and> t_prodVouchers (mark_paid items d z) = t_prodVouchers d"
  by (auto simp: mark_paid_def update_item_def split: option.splits prod.splits)

lemma mark_paid_loop_frame:
  "t_orders (foldl (mark_paid items) d q) = t_orders d \<and> t_payments (foldl (mark_paid items) d q) = t_payments d \<and>
   t_stocks (foldl (mark_paid items) d q) = t_stocks d \<and> t_movements (foldl (mark_paid items) d q) = t_movements d \<and>
   serial (foldl (mark_paid items) d q) = serial d \<and> t_prodVouchers (foldl (mark_paid items) d q) = t_prodVouchers d"
  by (induction q arbitrary: d) (simp_all add: mark_paid_frame)

lemma item_of_Some: "item_of items i = Some it \<Longrightarrow> it \<in> set items \<and> oi_id it = i"
  unfolding item_of_def by (drule find_Some_mem) simp

lemma mark_paid_loop:
  assumes "distinct (map oi_id (t_items d))" and "set items \<subseteq> set (t_items d)" and "distinct (js_keys q)"
    and "\<forall>(i, n) \<in> set q. item_of items i \<noteq> None"
  shows "t_items (foldl (mark_paid items) d q) = map (add_paid q) (t_items d)"
  using assms(3,4)
proof (induction q rule: rev_induct)
  case Nil
  then show ?case by (simp add: add_paid_def)
next
  case (snoc a q)
  obtain i n where a: "a = (i, n)" by (cases a)
  from snoc.prems a have new: "js_get q i = None" and dq: "distinct (js_keys q)" by (auto simp: map_of_eq_None_iff)
  from snoc.prems a obtain it where it: "item_of items i = Some it" by auto
  from item_of_Some [OF it] assms(2) have row: "it \<in> set (t_items d)" "oi_id it = i" by auto
  have IH: "t_items (foldl (mark_paid items) d q) = map (add_paid q) (t_items d)" using snoc dq by auto
  have "t_items (foldl (mark_paid items) d (q @ [a])) =
      map (\<lambda>r. if oi_id (add_paid q r) = i then (add_paid q r)\<lparr>oi_paidQuantity := oi_paidQuantity it + n\<rparr> else add_paid q r) (t_items d)"
    by (simp add: a mark_paid_def it IH update_where_def comp_def)
  also have "\<dots> = map (add_paid (q @ [a])) (t_items d)"
  proof (rule map_cong [OF refl])
    fix r assume r: "r \<in> set (t_items d)"
    have id: "oi_id (add_paid q r) = oi_id r" by (simp add: add_paid_def split: option.split)
    show "(if oi_id (add_paid q r) = i then (add_paid q r)\<lparr>oi_paidQuantity := oi_paidQuantity it + n\<rparr> else add_paid q r) = add_paid (q @ [a]) r"
    proof (cases "oi_id r = i")
      case True
      with row r assms(1) have "r = it" by (auto simp: distinct_map dest: inj_onD)
      with True new a show ?thesis by (simp add: add_paid_def map_add_def)
    next
      case False
      with a show ?thesis by (simp add: id) (simp add: add_paid_def map_add_def split: option.split)
    qed
  qed
  finally show ?case .
qed

text \<open>What a successful split payment did.\<close>

lemma splitPayment_effect:
  assumes run: "splitPaymentOrder e d oid req ps u = Inr (d', v)" and dist: "distinct (map oi_id (t_items d))"
  obtains o' q newPaid st where "find_order d oid = Some o'" "od_lifecycleStatus o' \<noteq> LC_CANCELLED" "od_paymentStatus o' \<noteq> PAID"
    "newPaid = sum_list (map (\<lambda>s. unit_price (order_items d oid) (sp_orderItemId s) * sp_quantity s) req)"
    "collect_split (order_items d oid) req = Inr q"
    "\<forall>(i, n) \<in> set q. \<exists>it. item_of (order_items d oid) i = Some it \<and> n \<le> unpaid_quantity it"
    "st = (if list_all (split_covers q) (order_items d oid) then PAID else PARTIALLY_PAID)"
    "t_orders d' = update_where (\<lambda>x. od_id x = oid) (\<lambda>x. x\<lparr>od_paymentStatus := st\<rparr>) (t_orders d)"
    "sum_payments (order_payments d' oid) = sum_payments (order_payments d oid) + newPaid"
    "t_items d' = map (add_paid q) (t_items d)"
    "t_stocks d' = t_stocks d" "t_movements d' = t_movements d" "t_prodVouchers d' = t_prodVouchers d"
    "vw_order v = o'\<lparr>od_paymentStatus := st\<rparr>"
proof -
  from run obtain newPaid o' items q where v: "validatePayments ps = Inr newPaid"
    and c: "split_checks d oid req newPaid = Inr (o', items, q)"
    and rest: "let sess = map_option cs_id (active_session d u (od_eventId o'));
         d1 = foldl (mark_paid items) d q;
         d2 = create_payments e oid (map (new_payment sess) ps) d1;
         st = (if list_all (split_covers q) items then PAID else PARTIALLY_PAID);
         d3 = update_order oid (\<lambda>x. x\<lparr>od_paymentStatus := st\<rparr>) d2
      in view_by_id d3 oid = Inr v \<and> d' = (if u = [] then d3 else add_audit (split_audit d u o' items q newPaid st sess) d3)"
    by (auto simp: splitPaymentOrder_def res_simps Let_def)
  from c have o: "find_order d oid = Some o'" "od_lifecycleStatus o' \<noteq> LC_CANCELLED" "od_paymentStatus o' \<noteq> PAID"
    and items: "items = order_items d oid" and q: "collect_split items req = Inr q"
    and price: "fold_res (add_split_price items) 0 q = Inr newPaid"
    by (auto simp: split_checks_def res_simps Let_def)
  define st where "st = (if list_all (split_covers q) items then PAID else PARTIALLY_PAID)"
  define sess where "sess = map_option cs_id (active_session d u (od_eventId o'))"
  define d1 where "d1 = foldl (mark_paid items) d q"
  define d2 where "d2 = create_payments e oid (map (new_payment sess) ps) d1"
  define d3 where "d3 = update_order oid (\<lambda>x. x\<lparr>od_paymentStatus := st\<rparr>) d2"
  from rest have view: "view_by_id d3 oid = Inr v"
    and d': "d' = (if u = [] then d3 else add_audit (split_audit d u o' items q newPaid st sess) d3)"
    by (simp_all only: Let_def st_def sess_def d1_def d2_def d3_def)
  have tables: "t_orders d' = t_orders d3" "t_payments d' = t_payments d3" "t_items d' = t_items d3" "t_stocks d' = t_stocks d3"
    "t_movements d' = t_movements d3" "t_prodVouchers d' = t_prodVouchers d3"
    unfolding d' by (simp_all add: frame_simps)
  note F = mark_paid_loop_frame [of items d q, folded d1_def]
  note P = split_price_loop [OF price]
  have each: "\<forall>(i, n) \<in> set q. \<exists>it. item_of items i = Some it \<and> n \<le> unpaid_quantity it" using P by simp
  have marked: "t_items d1 = map (add_paid q) (t_items d)"
    unfolding d1_def
  proof (rule mark_paid_loop [OF dist])
    show "set items \<subseteq> set (t_items d)" by (auto simp: items order_items_def)
    show "distinct (js_keys q)" by (rule collect_split_Inr(1) [OF q])
    show "\<forall>(i, n) \<in> set q. item_of items i \<noteq> None" using each by fastforce
  qed
  from validatePayments_Inr_iff v have n: "sum_list (map pi_amount ps) = newPaid" by metis
  have "order_payments d1 oid = order_payments d oid" using F by (intro order_payments_cong) simp
  then have paid: "sum_payments (order_payments d2 oid) = sum_payments (order_payments d oid) + newPaid"
    unfolding d2_def order_payments_create by (simp add: n)
  have "order_payments d' oid = order_payments d2 oid" by (rule order_payments_cong) (simp add: tables d3_def)
  with paid have sum: "sum_payments (order_payments d' oid) = sum_payments (order_payments d oid) + newPaid" by simp
  have "find_order d2 oid = Some o'" using o(1) F by (simp add: d2_def find_order_def create_payments_def)
  then have "find_order d3 oid = Some (o'\<lparr>od_paymentStatus := st\<rparr>)"
    unfolding d3_def by (subst find_order_update) simp_all
  with view have vv: "vw_order v = o'\<lparr>od_paymentStatus := st\<rparr>" by (auto simp: view_by_id_def view_order_def)
  show thesis
  proof (rule that [OF o _ q [unfolded items] each [unfolded items] st_def [unfolded items] _ sum _ _ _ _ vv])
    show "newPaid = sum_list (map (\<lambda>s. unit_price (order_items d oid) (sp_orderItemId s) * sp_quantity s) req)"
      using P collect_split_Inr(4) [OF q, of "unit_price items"] by (simp add: items)
    show "t_orders d' = update_where (\<lambda>x. od_id x = oid) (\<lambda>x. x\<lparr>od_paymentStatus := st\<rparr>) (t_orders d)"
      using F by (simp add: tables d3_def d2_def)
    show "t_items d' = map (add_paid q) (t_items d)" by (simp add: tables d3_def d2_def marked)
    show "t_stocks d' = t_stocks d" "t_movements d' = t_movements d" "t_prodVouchers d' = t_prodVouchers d"
      using F by (simp_all add: tables d3_def d2_def)
  qed
qed

text \<open>Paying positions in terms of the request: each unit is paid at most once.\<close>

lemma add_paid_wanted:
  assumes "collect_split items req = Inr q"
  shows "add_paid q r = r\<lparr>oi_paidQuantity := oi_paidQuantity r + split_wanted req (oi_id r)\<rparr>"
  using collect_split_Inr(3) [OF assms, of "oi_id r"] by (cases "js_get q (oi_id r)") (simp_all add: add_paid_def)

lemma split_covers_wanted:
  assumes "collect_split items req = Inr q"
  shows "split_covers q i \<longleftrightarrow> oi_quantity i \<le> oi_paidQuantity i + split_wanted req (oi_id i)"
  using collect_split_Inr(3) [OF assms, of "oi_id i"] by (auto simp: split_covers_def)

lemma split_within_quantity:
  assumes q: "collect_split (order_items d oid) req = Inr q"
    and each: "\<forall>(i, n) \<in> set q. \<exists>it. item_of (order_items d oid) i = Some it \<and> n \<le> unpaid_quantity it"
    and dist: "distinct (map oi_id (t_items d))"
    and i: "i \<in> set (order_items d oid)" and "oi_id i \<in> sp_orderItemId ` set req"
  shows "oi_paidQuantity i + split_wanted req (oi_id i) \<le> oi_quantity i"
proof -
  from assms(5) collect_split_Inr(2) [OF q] obtain n where n: "(oi_id i, n) \<in> set q" by fastforce
  with each obtain it where it: "item_of (order_items d oid) (oi_id i) = Some it" "n \<le> unpaid_quantity it" by fastforce
  from item_of_Some [OF it(1)] i dist have "it = i" by (auto simp: order_items_def distinct_map dest: inj_onD)
  moreover from n collect_split_Inr(1,3) [OF q] have "split_wanted req (oi_id i) = n"
    by (metis map_of_is_SomeI option.simps(5))
  ultimately show ?thesis using it(2) by (simp add: unpaid_quantity_def)
qed

section \<open>Cancelling\<close>

lemma cancel_vouchers_tables:
  assumes "cancel_vouchers c d = (d', n)"
  shows "t_prodVouchers d' = update_where (\<lambda>v. c v \<and> pv_status v = PV_ISSUED) (\<lambda>v. v\<lparr>pv_status := PV_CANCELLED\<rparr>) (t_prodVouchers d)"
    "t_orders d' = t_orders d" "t_items d' = t_items d" "t_payments d' = t_payments d" "t_stocks d' = t_stocks d"
    "t_movements d' = t_movements d" "serial d' = serial d" "n = count_where (\<lambda>v. c v \<and> pv_status v = PV_ISSUED) (t_prodVouchers d)"
  using assms by (auto simp: cancel_vouchers_def)

context inventory_contract
begin

lemma cancelOrder_effect:
  assumes run: "cancelOrder port e d oid reason u = Inr (d', v)"
  obtains o' r d3 d4 ch where "normalizeCancellationReason reason = Inr r" "find_order d oid = Some o'"
    "od_lifecycleStatus o' \<noteq> LC_CANCELLED" "t_stocks d3 = t_stocks d" "t_movements d3 = t_movements d" "serial d3 = serial d"
    "reverseInventorySales port e d3 (od_eventId o') (od_dataMode o') oid (map oi_id (order_items d oid)) u r = Inr (d4, ch)"
    "t_stocks d' = t_stocks d4" "t_movements d' = t_movements d4"
    "t_orders d' = update_where (\<lambda>x. od_id x = oid) (\<lambda>x. x\<lparr>od_lifecycleStatus := LC_CANCELLED\<rparr>) (t_orders d)"
    "t_items d' = update_where (\<lambda>i. oi_orderId i = oid) (\<lambda>i. i\<lparr>oi_status := IT_CANCELLED\<rparr>) (t_items d)"
    "t_prodVouchers d' = update_where (\<lambda>v. pv_orderId v = oid \<and> pv_status v = PV_ISSUED) (\<lambda>v. v\<lparr>pv_status := PV_CANCELLED\<rparr>) (t_prodVouchers d)"
    "t_payments d' = t_payments d" "vw_order v = o'\<lparr>od_lifecycleStatus := LC_CANCELLED\<rparr>"
proof -
  from run obtain r o' where r: "normalizeCancellationReason reason = Inr r" and f: "find_order d oid = Some o'"
    and nc: "od_lifecycleStatus o' \<noteq> LC_CANCELLED"
    by (auto simp: cancelOrder_def res_simps)
  define d1 where "d1 = update_order oid (\<lambda>x. x\<lparr>od_lifecycleStatus := LC_CANCELLED\<rparr>) d"
  define d2 where "d2 = d1\<lparr>t_items := update_where (\<lambda>i. oi_orderId i = oid) (\<lambda>i. i\<lparr>oi_status := IT_CANCELLED\<rparr>) (t_items d1)\<rparr>"
  obtain d3 n where d3: "cancel_vouchers (\<lambda>v. pv_orderId v = oid) d2 = (d3, n)" by (cases "cancel_vouchers (\<lambda>v. pv_orderId v = oid) d2")
  from run r f nc obtain d4 ch where v: "view_by_id d1 oid = Inr v"
    and rev: "reverseInventorySales port e d3 (od_eventId o') (od_dataMode o') oid (map oi_id (order_items d oid)) u r = Inr (d4, ch)"
    and d': "d' = publishInventory port (od_eventId o') (od_dataMode o') ch (add_audit (cancel_order_audit u o' r (length (order_payments d oid)) n) d4)"
    by (auto simp: cancelOrder_def res_simps Let_def d3 [unfolded d2_def d1_def, simplified] d1_def split: prod.splits)
  note B = beside_broadcastsD [OF publish_frame [of "od_eventId o'" "od_dataMode o'" ch "add_audit (cancel_order_audit u o' r (length (order_payments d oid)) n) d4", folded d']]
  note R = beside_ledgerD [OF conjunct1 [OF reverse_frame [OF rev]]]
  note C = cancel_vouchers_tables [OF d3]
  show thesis
  proof (rule that [OF r f nc _ _ _ rev])
    show "t_stocks d3 = t_stocks d" "t_movements d3 = t_movements d" "serial d3 = serial d"
      using C by (simp_all add: d2_def d1_def update_order_def)
    show "t_stocks d' = t_stocks d4" "t_movements d' = t_movements d4" using B by (simp_all add: frame_simps)
    show "t_orders d' = update_where (\<lambda>x. od_id x = oid) (\<lambda>x. x\<lparr>od_lifecycleStatus := LC_CANCELLED\<rparr>) (t_orders d)"
      using B R C by (simp add: frame_simps d2_def d1_def)
    show "t_items d' = update_where (\<lambda>i. oi_orderId i = oid) (\<lambda>i. i\<lparr>oi_status := IT_CANCELLED\<rparr>) (t_items d)"
      using B R C by (simp add: frame_simps d2_def d1_def)
    show "t_prodVouchers d' = update_where (\<lambda>v. pv_orderId v = oid \<and> pv_status v = PV_ISSUED) (\<lambda>v. v\<lparr>pv_status := PV_CANCELLED\<rparr>) (t_prodVouchers d)"
      using B R C by (simp add: frame_simps d2_def d1_def)
    show "t_payments d' = t_payments d" using B R C by (simp add: frame_simps d2_def d1_def)
    have "find_order d1 oid = Some (o'\<lparr>od_lifecycleStatus := LC_CANCELLED\<rparr>)"
      unfolding d1_def by (subst find_order_update) (simp_all add: f)
    with v show "vw_order v = o'\<lparr>od_lifecycleStatus := LC_CANCELLED\<rparr>" by (auto simp: view_by_id_def view_order_def)
  qed
qed

lemma cancelOrderItem_effect:
  assumes run: "cancelOrderItem port e d iid reason u = Inr (d', it')"
  obtains it o' r d2 d3 ch where "normalizeCancellationReason reason = Inr r" "item_of (t_items d) iid = Some it"
    "find_order d (oi_orderId it) = Some o'" "oi_status it \<noteq> IT_CANCELLED"
    "t_stocks d2 = t_stocks d" "t_movements d2 = t_movements d" "serial d2 = serial d"
    "reverseInventorySales port e d2 (od_eventId o') (od_dataMode o') (od_id o') [oi_id it] u r = Inr (d3, ch)"
    "t_stocks d' = t_stocks d3" "t_movements d' = t_movements d3"
    "t_items d' = update_where (\<lambda>i. oi_id i = iid) (\<lambda>i. i\<lparr>oi_status := IT_CANCELLED\<rparr>) (t_items d)"
    "t_orders d' = update_where (\<lambda>x. od_id x = od_id o') (\<lambda>x. x\<lparr>od_totalAmount := max 0 (gross_total (remaining_items d o' iid) - od_depositRefundTotal o'),
       od_lifecycleStatus := (if remaining_items d o' iid = [] then LC_CANCELLED else od_lifecycleStatus o')\<rparr>) (t_orders d)"
    "t_prodVouchers d' = update_where (\<lambda>v. pv_orderItemId v = iid \<and> pv_status v = PV_ISSUED) (\<lambda>v. v\<lparr>pv_status := PV_CANCELLED\<rparr>) (t_prodVouchers d)"
    "t_payments d' = t_payments d" "it' = it\<lparr>oi_status := IT_CANCELLED\<rparr>"
proof -
  from run obtain r it o' where r: "normalizeCancellationReason reason = Inr r" and f: "item_of (t_items d) iid = Some it"
    and o: "find_order d (oi_orderId it) = Some o'" and nc: "oi_status it \<noteq> IT_CANCELLED"
    by (auto simp: cancelOrderItem_def res_simps)
  define d1 where "d1 = update_item iid (\<lambda>i. i\<lparr>oi_status := IT_CANCELLED\<rparr>) d"
  obtain d2 n where d2: "cancel_vouchers (\<lambda>v. pv_orderItemId v = iid) d1 = (d2, n)" by (cases "cancel_vouchers (\<lambda>v. pv_orderItemId v = iid) d1")
  define f :: "order \<Rightarrow> order" where "f = (\<lambda>x. x\<lparr>od_totalAmount := max 0 (gross_total (remaining_items d o' iid) - od_depositRefundTotal o'),
       od_lifecycleStatus := (if remaining_items d o' iid = [] then LC_CANCELLED else od_lifecycleStatus o')\<rparr>)"
  from run r f o nc obtain d3 ch where
    rev: "reverseInventorySales port e d2 (od_eventId o') (od_dataMode o') (od_id o') [oi_id it] u r = Inr (d3, ch)"
    and d': "d' = publishInventory port (od_eventId o') (od_dataMode o') ch (add_audit (cancel_item_audit u it r n) (update_order (od_id o') f d3))"
    and it': "it' = it\<lparr>oi_status := IT_CANCELLED\<rparr>"
    by (auto simp: cancelOrderItem_def res_simps Let_def d2 [unfolded d1_def] f_def split: prod.splits)
  note B = beside_broadcastsD [OF publish_frame [of "od_eventId o'" "od_dataMode o'" ch
      "add_audit (cancel_item_audit u it r n) (update_order (od_id o') f d3)", folded d']]
  note R = beside_ledgerD [OF conjunct1 [OF reverse_frame [OF rev]]]
  note C = cancel_vouchers_tables [OF d2]
  show thesis
  proof (rule that [OF r f o nc _ _ _ rev _ _ _ _ _ _ it'])
    show "t_stocks d2 = t_stocks d" "t_movements d2 = t_movements d" "serial d2 = serial d"
      using C by (simp_all add: d1_def update_item_def)
    show "t_stocks d' = t_stocks d3" "t_movements d' = t_movements d3" using B by (simp_all add: frame_simps)
    show "t_items d' = update_where (\<lambda>i. oi_id i = iid) (\<lambda>i. i\<lparr>oi_status := IT_CANCELLED\<rparr>) (t_items d)"
      using B R C by (simp add: frame_simps d1_def)
    show "t_orders d' = update_where (\<lambda>x. od_id x = od_id o') (\<lambda>x. x\<lparr>od_totalAmount := max 0 (gross_total (remaining_items d o' iid) - od_depositRefundTotal o'),
       od_lifecycleStatus := (if remaining_items d o' iid = [] then LC_CANCELLED else od_lifecycleStatus o')\<rparr>) (t_orders d)"
      unfolding f_def [symmetric] using B R C by (simp add: frame_simps d1_def)
    show "t_prodVouchers d' = update_where (\<lambda>v. pv_orderItemId v = iid \<and> pv_status v = PV_ISSUED) (\<lambda>v. v\<lparr>pv_status := PV_CANCELLED\<rparr>) (t_prodVouchers d)"
      using B R C by (simp add: frame_simps d1_def)
    show "t_payments d' = t_payments d" using B R C by (simp add: frame_simps d1_def)
  qed
qed

end

lemma cancelled_items:
  assumes "i \<in> set (update_where (\<lambda>i. oi_orderId i = oid) (\<lambda>i. i\<lparr>oi_status := IT_CANCELLED\<rparr>) items)" and "oi_orderId i = oid"
  shows "oi_status i = IT_CANCELLED"
  using update_where_mem [OF assms(1)] assms(2) by (elim disjE bexE conjE) simp_all

lemma cancelled_vouchers:
  assumes "v \<in> set (update_where (\<lambda>v. c v \<and> pv_status v = PV_ISSUED) (\<lambda>v. v\<lparr>pv_status := PV_CANCELLED\<rparr>) vs)"
    and "c v" and "\<And>v s. c (v\<lparr>pv_status := s\<rparr>) = c v"
  shows "pv_status v \<noteq> PV_ISSUED"
  using update_where_mem [OF assms(1)] assms(2,3) by (elim disjE bexE conjE) simp_all

lemma active_after_item_cancel:
  "filter (\<lambda>i. oi_status i \<noteq> IT_CANCELLED)
     (filter (\<lambda>i. oi_orderId i = oid) (update_where (\<lambda>i. oi_id i = iid) (\<lambda>i. i\<lparr>oi_status := IT_CANCELLED\<rparr>) rows))
   = filter (\<lambda>i. oi_id i \<noteq> iid \<and> oi_status i \<noteq> IT_CANCELLED) (filter (\<lambda>i. oi_orderId i = oid) rows)"
  by (induction rows) (simp_all add: update_where_def)

lemma cancelOrder_ledger:
  assumes "ledger_ok (t_stocks d) (t_movements d)" and "cancelOrder (Some InventoryService) e d oid reason u = Inr (d', v)"
  shows "ledger_ok (t_stocks d') (t_movements d')"
proof -
  obtain o' :: order and r d3 d4 ch where t: "t_stocks d3 = t_stocks d" "t_movements d3 = t_movements d"
    "reverseInventorySales (Some InventoryService) e d3 (od_eventId o') (od_dataMode o') oid (map oi_id (order_items d oid)) u r = Inr (d4, ch)"
    "t_stocks d' = t_stocks d4" "t_movements d' = t_movements d4"
    by (rule ledger.cancelOrder_effect [OF assms(2)])
  from reverseSales_keeps_ledger [OF t(3) [unfolded ledger_reverse]] assms(1) t show ?thesis by simp
qed

lemma cancelOrderItem_ledger:
  assumes "ledger_ok (t_stocks d) (t_movements d)" and "cancelOrderItem (Some InventoryService) e d iid reason u = Inr (d', it)"
  shows "ledger_ok (t_stocks d') (t_movements d')"
proof -
  obtain it' :: order_item and o' :: order and r d3 d4 ch where t: "t_stocks d3 = t_stocks d" "t_movements d3 = t_movements d"
    "reverseInventorySales (Some InventoryService) e d3 (od_eventId o') (od_dataMode o') (od_id o') [oi_id it'] u r = Inr (d4, ch)"
    "t_stocks d' = t_stocks d4" "t_movements d' = t_movements d4"
    by (rule ledger.cancelOrderItem_effect [OF assms(2)])
  from reverseSales_keeps_ledger [OF t(3) [unfolded ledger_reverse]] assms(1) t show ?thesis by simp
qed

text \<open>A booked order that is cancelled again leaves the stock as it was.\<close>

lemma booked_then_cancelled:
  assumes ok: "ledger_ok (t_stocks d) (t_movements d)" and sup: "supply_ok e d"
    and tx: "createOrder_tx (Some InventoryService) e d u c refund paid = Inr (d4, v, ch)"
    and tables: "t_stocks d5 = t_stocks d4" "t_movements d5 = t_movements d4" "t_orders d5 = t_orders d4" "t_items d5 = t_items d4"
    and can: "cancelOrder (Some InventoryService) e' d5 (od_id (vw_order v)) reason u' = Inr (d', v')"
  shows "quantities d' = quantities d"
proof -
  let ?port = "Some InventoryService"
  obtain m sess user gross items lines d1 rs d2 d3 where
    pos: "list_all2 (position_of d (co_eventId c)) (co_items c) items"
    and lines: "sale_lines d (co_eventId c) (co_items c) = Inr lines"
    and res: "reserveInventory ?port d (co_eventId c) m lines = Inr (d1, rs)"
    and ins: "insert_order e (order_row u c m sess (gross - refund) refund (initial_payment_status paid (gross - refund)))
       (map (\<lambda>i. i\<lparr>oi_paidQuantity := (if initial_payment_status paid (gross - refund) = PAID then oi_quantity i else 0)\<rparr>) items)
       (map (new_payment sess) (dto_payments c)) d1 = Inr (d2, v)"
    and rec: "recordInventorySales ?port e d2 (co_eventId c) m (od_id (vw_order v)) u rs (vw_items v) = Inr (d3, ch)"
    and d4: "d4 = dispatchPrintJobs e (vw_order v) (with_products d3 (vw_items v)) (vw_payments v) (Some user) default_print_options d3"
    by (rule ledger.createOrder_tx_effect [OF tx])
  note T = ledger.createOrder_tx_tables [OF tx] and I = insert_order_Inr [OF ins] and R = ledger.reserve_frame [OF res]
  have keys: "list_all2 (\<lambda>i it. oi_productId it = ii_productId i \<and> oi_quantity it = ii_quantity i) (co_items c) (vw_items v)"
    using list_all2_mono [OF numbered_positions [OF pos]] by (auto simp: I(2))
  have ser: "serial d1 = serial d" and ser2: "serial d \<le> serial d2" using R I(7) by auto
  have mode: "od_eventId (vw_order v) = co_eventId c" "od_dataMode (vw_order v) = m" by (simp_all add: I(1) order_row_def)
  have ids: "\<exists>k \<ge> serial d. oi_id i = env_uuid e k" if "i \<in> set (vw_items v)" for i
  proof -
    have "map oi_id (vw_items v) = map (env_uuid e) [Suc (serial d1)..<Suc (serial d1) + length items]"
      unfolding I(2) number_items_simps(8) by (simp only: length_map)
    moreover have "oi_id i \<in> set (map oi_id (vw_items v))" using that by simp
    ultimately have "oi_id i \<in> env_uuid e ` set [Suc (serial d1)..<Suc (serial d1) + length items]" by (simp only: set_map)
    then obtain k where "oi_id i = env_uuid e k" "k \<in> set [Suc (serial d1)..<Suc (serial d1) + length items]" by blast
    with ser show ?thesis by (intro exI [of _ k]) (simp only: set_upt atLeastLessThan_iff, simp)
  qed
  have supD: "\<forall>x \<in> set (t_orders d). od_id x \<noteq> od_id (vw_order v)" "\<forall>i \<in> set (t_items d). oi_orderId i \<noteq> od_id (vw_order v)"
    using sup unfolding supply_ok_def T(4) by auto
  have "find (\<lambda>o'. od_id o' = od_id (vw_order v)) (t_orders d) = None"
    using supD(1) unfolding find_None_iff_all .
  then have find: "find_order d5 (od_id (vw_order v)) = Some (vw_order v)"
    by (simp add: find_order_def tables T(1) find_append)
  have its: "order_items d5 (od_id (vw_order v)) = vw_items v"
    unfolding order_items_def tables T(2) by (rule order_items_new [OF T(5) supD(2)])
  obtain o' :: order and r d6 d7 ch' where can': "find_order d5 (od_id (vw_order v)) = Some o'" "t_stocks d6 = t_stocks d5" "t_movements d6 = t_movements d5"
    "reverseInventorySales ?port e' d6 (od_eventId o') (od_dataMode o') (od_id (vw_order v)) (map oi_id (order_items d5 (od_id (vw_order v)))) u' r = Inr (d7, ch')"
    "t_stocks d' = t_stocks d7" "t_movements d' = t_movements d7"
    by (rule ledger.cancelOrder_effect [OF can])
  have o': "o' = vw_order v" using can'(1) find by simp
  have mid: "t_stocks d2 = t_stocks d1" "t_movements d2 = t_movements d"
    using insert_order_frame [OF ins] R by auto
  have late: "t_stocks d6 = t_stocks d3" "t_movements d6 = t_movements d3"
    using can'(2,3) unfolding tables d4 by (simp_all add: beside_printD [OF dispatch_frame])
  have "quantities d7 = quantities d"
  proof (rule sale_then_reversal [OF ok res [unfolded ledger_reserve] mid rec [unfolded ledger_record] _ late])
    show "item_total (vw_items v) p = requested lines p" for p by (rule lines_match_items [OF lines keys])
    show "\<forall>x \<in> set (t_movements d). \<not> is_sale_of (co_eventId c) m (map oi_id (vw_items v)) x"
      using sup ids unfolding supply_ok_def is_sale_of_def by (auto split: option.splits) metis
    show "\<forall>x \<in> set (t_movements d). \<forall>k \<ge> serial d2. mv_reversesMovementId x \<noteq> Some (env_uuid e k)"
      using sup ser2 unfolding supply_ok_def by auto
    show "reverseSales e' d6 (co_eventId c) m (od_id (vw_order v)) (map oi_id (vw_items v)) u' r = Inr (d7, ch')"
      using can'(4) unfolding ledger_reverse o' its mode .
  qed
  then show ?thesis using can'(5) by (simp add: quantities_def)
qed

end
