(* ===== verification/VO_Payment_Props.thy ===== *)
theory VO_Payment_Props
  imports VO_Payment_Laws VO_Samples
begin

text \<open>
  The properties of payments and cancellations: a payment never exceeds the total, positions are paid at
  most once, a cancelled order gives its stock back, and who may discard an offline entry.
\<close>

definition sample_order_input :: "payment_input list \<Rightarrow> int \<Rightarrow> create_order" where
  "sample_order_input ps refund = \<lparr>co_eventId = ''e'',
     co_items = [\<lparr>ii_productId = ''b'', ii_quantity = 2, ii_optionIds = Some [''o1'']\<rparr>,
                 \<lparr>ii_productId = ''w'', ii_quantity = 1, ii_optionIds = None\<rparr>],
     co_payments = Some ps, co_idempotencyKey = Some ''key'', co_tableName = Some ''T1'',
     co_areaId = None, co_cashierSessionId = None, co_depositRefundTotal = Some refund\<rparr>"

text \<open>
  An open order of two small beers (300 + 100 deposit each) and a water (200), total 1000 less the deposit refund, as
  \<^verbatim>\<open>createOrder\<close> books it: the beers have left the stock.
\<close>

definition open_order :: "int \<Rightarrow> order" where
  "open_order refund = blank_order\<lparr>od_id := ''0'', od_orderNumber := 1, od_totalAmount := 1000 - refund,
     od_depositRefundTotal := refund, od_userId := ''u'', od_eventId := ''e'', od_dataMode := LIVE,
     od_idempotencyKey := Some ''key'', od_tableName := Some ''T1'', od_cashierSessionId := Some ''k'', od_createdAt := 1000\<rparr>"

definition open_beers :: order_item where
  "open_beers = \<lparr>oi_id = ''1'', oi_orderId = ''0'', oi_productId = ''b'', oi_quantity = 2, oi_paidQuantity = 0,
     oi_priceAtTime = 300, oi_depositAtTime = 100, oi_status = IT_PENDING, oi_variantId = Some ''o1'',
     oi_variantName = Some ''small'', oi_extras = None\<rparr>"

definition open_water :: order_item where
  "open_water = open_beers\<lparr>oi_id := ''2'', oi_productId := ''w'', oi_quantity := 1, oi_priceAtTime := 200,
     oi_depositAtTime := 0, oi_variantId := None, oi_variantName := None\<rparr>"

definition open_order_db :: "int \<Rightarrow> db" where
  "open_order_db refund = sample_db\<lparr>t_orders := [open_order refund], t_items := [open_beers, open_water],
     t_stocks := [sample_stock\<lparr>st_stockQuantity := 8, st_version := 2\<rparr>],
     t_movements := [sample_movement, (sale_movement run_env ''e'' LIVE ''0'' ''u'' open_beers 10)\<lparr>mv_id := ''3''\<rparr>],
     serial := 4, orderSeq := 1\<rparr>"

lemma open_order_ledger_ok: "ledger_ok (t_stocks (open_order_db refund)) (t_movements (open_order_db refund))"
proof -
  have "t_stocks (open_order_db refund) = t_stocks (open_order_db 0)" "t_movements (open_order_db refund) = t_movements (open_order_db 0)"
    by (simp_all add: open_order_db_def)
  moreover have "ledger_ok (t_stocks (open_order_db 0)) (t_movements (open_order_db 0))" by code_simp
  ultimately show ?thesis by simp
qed

section \<open>Payments\<close>

text \<open>The rows a payment writes, and that it writes nothing else.\<close>

lemma new_payment_rows:
  "map (\<lambda>p. (pm_orderId p, pm_amount p, pm_method p, pm_status p, pm_cashierSessionId p)) (number_payments e n oid (map (new_payment sess) ps)) =
   map (\<lambda>i. (oid, pi_amount i, pi_method i, PS_COMPLETED, sess)) ps"
  by (rule nth_equalityI) (simp_all add: number_payments_def new_payment_def)

lemma addPayments_rows:
  assumes "addPaymentsToOrder e d oid ps u = Inr (d', v)"
  obtains o' new where "find_order d oid = Some o'" "t_payments d' = t_payments d @ new"
    "map (\<lambda>p. (pm_orderId p, pm_amount p, pm_method p, pm_status p, pm_cashierSessionId p)) new =
       map (\<lambda>i. (oid, pi_amount i, pi_method i, PS_COMPLETED, map_option cs_id (active_session d u (od_eventId o')))) ps"
    "d' = d\<lparr>t_orders := t_orders d', t_payments := t_payments d', t_auditLogs := t_auditLogs d', serial := serial d'\<rparr>"
    "find_order d' oid = Some (vw_order v)"
proof -
  from assms obtain o' st a where f: "find_order d oid = Some o'"
    and view: "view_by_id (update_order oid (\<lambda>x. x\<lparr>od_paymentStatus := st\<rparr>)
         (create_payments e oid (map (new_payment (map_option cs_id (active_session d u (od_eventId o')))) ps) d)) oid = Inr v"
    and d': "d' = (if u = [] then update_order oid (\<lambda>x. x\<lparr>od_paymentStatus := st\<rparr>)
         (create_payments e oid (map (new_payment (map_option cs_id (active_session d u (od_eventId o')))) ps) d)
       else add_audit a (update_order oid (\<lambda>x. x\<lparr>od_paymentStatus := st\<rparr>)
         (create_payments e oid (map (new_payment (map_option cs_id (active_session d u (od_eventId o')))) ps) d)))"
    by (auto simp: addPaymentsToOrder_def res_simps Let_def)
  show thesis
  proof (rule that [OF f])
    show "t_payments d' = t_payments d @
        number_payments e (serial d) oid (map (new_payment (map_option cs_id (active_session d u (od_eventId o')))) ps)"
      by (simp add: d' frame_simps create_payments_def update_order_def)
    show "d' = d\<lparr>t_orders := t_orders d', t_payments := t_payments d', t_auditLogs := t_auditLogs d', serial := serial d'\<rparr>"
      by (simp add: d' create_payments_def update_order_def add_audit_def)
    show "find_order d' oid = Some (vw_order v)"
      using view by (auto simp: d' view_by_id_def view_order_def find_order_def frame_simps res_simps)
  qed (rule new_payment_rows)
qed

text \<open>
  C20. A payment never overpays an order: the new payments are booked for this order, completed, in the drawer of the user; the
  payments of the order grow by exactly their amounts and stay at most its total. The stored row of the order, and of no other, gets the
  status PAID when they reach the total and PARTIALLY_PAID otherwise, and this row is what is answered. Of the whole database
  only the rows of orders and payments, the audit log and the number of drawn ids differ.
\<close>

theorem payment_never_overpays:
  assumes "addPaymentsToOrder e d oid ps u = Inr (d', v)"
  shows "\<exists>o' new. find_order d oid = Some o' \<and> od_paymentStatus o' \<noteq> PAID \<and> t_payments d' = t_payments d @ new \<and>
    map (\<lambda>p. (pm_orderId p, pm_amount p, pm_method p, pm_status p, pm_cashierSessionId p)) new =
      map (\<lambda>i. (oid, pi_amount i, pi_method i, PS_COMPLETED, map_option cs_id (active_session d u (od_eventId o')))) ps \<and>
    sum_payments (order_payments d' oid) = sum_payments (order_payments d oid) + sum_list (map pi_amount ps) \<and>
    sum_payments (order_payments d' oid) \<le> od_totalAmount o' \<and>
    t_orders d' = map (\<lambda>x. if od_id x = oid then x\<lparr>od_paymentStatus :=
        (if sum_payments (order_payments d' oid) = od_totalAmount o' then PAID else PARTIALLY_PAID)\<rparr> else x) (t_orders d) \<and>
    find_order d' oid = Some (vw_order v) \<and> vw_payments v = order_payments d' oid \<and>
    (\<forall>i. i \<noteq> oid \<longrightarrow> order_payments d' i = order_payments d i) \<and>
    d' = d\<lparr>t_orders := t_orders d', t_payments := t_payments d', t_auditLogs := t_auditLogs d', serial := serial d'\<rparr>"
proof -
  obtain o' :: order and newPaid totalPaid st where E: "validatePayments ps = Inr newPaid" "find_order d oid = Some o'" "od_paymentStatus o' \<noteq> PAID"
    "totalPaid = sum_payments (order_payments d oid) + newPaid" "totalPaid \<le> od_totalAmount o'"
    "st = (if od_totalAmount o' \<le> totalPaid then PAID else PARTIALLY_PAID)"
    "t_orders d' = update_where (\<lambda>x. od_id x = oid) (\<lambda>x. x\<lparr>od_paymentStatus := st\<rparr>) (t_orders d)"
    "sum_payments (order_payments d' oid) = totalPaid" "\<forall>i. i \<noteq> oid \<longrightarrow> order_payments d' i = order_payments d i"
    "vw_payments v = order_payments d' oid"
    by (rule addPayments_effect [OF assms])
  obtain o2 :: order and new where R: "find_order d oid = Some o2" "t_payments d' = t_payments d @ new"
    "map (\<lambda>p. (pm_orderId p, pm_amount p, pm_method p, pm_status p, pm_cashierSessionId p)) new =
       map (\<lambda>i. (oid, pi_amount i, pi_method i, PS_COMPLETED, map_option cs_id (active_session d u (od_eventId o2)))) ps"
    "d' = d\<lparr>t_orders := t_orders d', t_payments := t_payments d', t_auditLogs := t_auditLogs d', serial := serial d'\<rparr>"
    "find_order d' oid = Some (vw_order v)"
    by (rule addPayments_rows [OF assms])
  from E(1) have n: "newPaid = sum_list (map pi_amount ps)" by (simp add: validatePayments_Inr_iff)
  have st: "st = (if totalPaid = od_totalAmount o' then PAID else PARTIALLY_PAID)" using E(5,6) by auto
  from E(2) R(1) have o2: "o2 = o'" by simp
  show ?thesis
    by (intro exI [of _ o'] exI [of _ new] conjI E(2,3,9,10) R(2,4,5) R(3) [unfolded o2])
      (use E(4,5,7,8) n st in \<open>simp_all add: update_where_def\<close>)
qed

lemma payment_never_overpays_witness:
  "succeeds_with (\<lambda>(d', v). sum_payments (order_payments d' ''0'') = 900 \<and> map od_paymentStatus (t_orders d') = [PAID])
     (addPaymentsToOrder run_env (open_order_db 100) ''0'' [\<lparr>pi_amount = 400, pi_method = CASH\<rparr>, \<lparr>pi_amount = 500, pi_method = CARD\<rparr>] ''u'')"
proof -
  let ?ps = "[\<lparr>pi_amount = 400, pi_method = CASH\<rparr>, \<lparr>pi_amount = 500, pi_method = CARD\<rparr>]"
  let ?run = "addPaymentsToOrder run_env (open_order_db 100) ''0'' ?ps ''u''"
  have "succeeds_with (\<lambda>_. True) ?run" by code_simp
  then obtain d' v where run: "?run = Inr (d', v)" by (auto elim!: succeeds_withE)
  have facts: "sum_payments (order_payments (open_order_db 100) ''0'') = 0" "map od_id (t_orders (open_order_db 100)) = [''0'']"
    "find_order (open_order_db 100) ''0'' = Some (open_order 100)" "od_totalAmount (open_order 100) = 900" by code_simp+
  from payment_never_overpays [OF run] facts(1,3,4) have paid: "sum_payments (order_payments d' ''0'') = 900"
    and rows: "t_orders d' = map (\<lambda>x. if od_id x = ''0'' then x\<lparr>od_paymentStatus := PAID\<rparr> else x) (t_orders (open_order_db 100))"
    by auto
  from facts(2) have "map od_paymentStatus (t_orders d') = [PAID]" unfolding rows by auto
  with paid show ?thesis unfolding run by (simp add: succeeds_with_def)
qed

text \<open>
  C21. Paying selected positions pays each unit at most once: the paid quantity of every position grows by exactly what
  the request selects of it and stays within the ordered quantity, the payments grow by exactly the price with deposit of the
  selected units, and the order is PAID exactly when every position is.
\<close>

theorem split_payment_exact:
  assumes "splitPaymentOrder e d oid req ps u = Inr (d', v)" and "distinct (map oi_id (t_items d))"
  shows "t_items d' = map (\<lambda>r. r\<lparr>oi_paidQuantity := oi_paidQuantity r + split_wanted req (oi_id r)\<rparr>) (t_items d) \<and>
    (\<forall>i \<in> set (order_items d oid). oi_id i \<in> sp_orderItemId ` set req \<longrightarrow>
       oi_paidQuantity i + split_wanted req (oi_id i) \<le> oi_quantity i) \<and>
    sum_payments (order_payments d' oid) = sum_payments (order_payments d oid) +
       sum_list (map (\<lambda>s. unit_price (order_items d oid) (sp_orderItemId s) * sp_quantity s) req) \<and>
    (od_paymentStatus (vw_order v) = PAID \<longleftrightarrow>
       (\<forall>i \<in> set (order_items d oid). oi_quantity i \<le> oi_paidQuantity i + split_wanted req (oi_id i)))"
proof -
  obtain o' :: order and q newPaid st where E: "newPaid = sum_list (map (\<lambda>s. unit_price (order_items d oid) (sp_orderItemId s) * sp_quantity s) req)"
    "collect_split (order_items d oid) req = Inr q"
    "\<forall>(i, n) \<in> set q. \<exists>it. item_of (order_items d oid) i = Some it \<and> n \<le> unpaid_quantity it"
    "st = (if list_all (split_covers q) (order_items d oid) then PAID else PARTIALLY_PAID)"
    "sum_payments (order_payments d' oid) = sum_payments (order_payments d oid) + newPaid"
    "t_items d' = map (add_paid q) (t_items d)" "vw_order v = o'\<lparr>od_paymentStatus := st\<rparr>"
    by (rule splitPayment_effect [OF assms])
  have "t_items d' = map (\<lambda>r. r\<lparr>oi_paidQuantity := oi_paidQuantity r + split_wanted req (oi_id r)\<rparr>) (t_items d)"
    using E(6) add_paid_wanted [OF E(2)] by simp
  moreover have "\<forall>i \<in> set (order_items d oid). oi_id i \<in> sp_orderItemId ` set req \<longrightarrow>
       oi_paidQuantity i + split_wanted req (oi_id i) \<le> oi_quantity i"
    using split_within_quantity [OF E(2,3) assms(2)] by blast
  moreover have "od_paymentStatus (vw_order v) = PAID \<longleftrightarrow>
       (\<forall>i \<in> set (order_items d oid). oi_quantity i \<le> oi_paidQuantity i + split_wanted req (oi_id i))"
    using E(4,7) by (simp add: list_all_iff split_covers_wanted [OF E(2)])
  ultimately show ?thesis using E(1,5) by blast
qed

definition split_request :: "split_item list" where
  "split_request = [\<lparr>sp_orderItemId = ''1'', sp_quantity = 1\<rparr>, \<lparr>sp_orderItemId = ''2'', sp_quantity = 1\<rparr>, \<lparr>sp_orderItemId = ''1'', sp_quantity = 1\<rparr>]"

lemma split_payment_exact_witness:
  "succeeds_with (\<lambda>(d', v). map oi_paidQuantity (t_items d') = [2, 1] \<and> sum_payments (order_payments d' ''0'') = 1000 \<and>
       od_paymentStatus (vw_order v) = PAID)
     (splitPaymentOrder run_env (open_order_db 0) ''0'' split_request [\<lparr>pi_amount = 1000, pi_method = CASH\<rparr>] ''u'')"
proof -
  let ?d = "open_order_db 0"
  let ?run = "splitPaymentOrder run_env ?d ''0'' split_request [\<lparr>pi_amount = 1000, pi_method = CASH\<rparr>] ''u''"
  have "succeeds_with (\<lambda>_. True) ?run" by code_simp
  then obtain d' v where run: "?run = Inr (d', v)" by (auto elim!: succeeds_withE)
  have dist: "distinct (map oi_id (t_items ?d))"
    and facts: "sum_payments (order_payments ?d ''0'') = 0"
      "sum_list (map (\<lambda>s. unit_price (order_items ?d ''0'') (sp_orderItemId s) * sp_quantity s) split_request) = 1000"
      "map (\<lambda>r. oi_paidQuantity r + split_wanted split_request (oi_id r)) (t_items ?d) = [2, 1]"
      "list_all (\<lambda>i. oi_quantity i \<le> oi_paidQuantity i + split_wanted split_request (oi_id i)) (order_items ?d ''0'')"
    by code_simp+
  note S = split_payment_exact [OF run dist]
  have "map oi_paidQuantity (t_items d') = [2, 1]"
    using facts(3) unfolding conjunct1 [OF S] by (simp add: comp_def)
  moreover have "sum_payments (order_payments d' ''0'') = 1000" using S facts(1,2) by linarith
  moreover have "od_paymentStatus (vw_order v) = PAID" using S facts(4) unfolding list_all_iff by blast
  ultimately show ?thesis unfolding run by (simp add: succeeds_with_def)
qed

text \<open>
  The deposit refund is not set off when positions are paid: an order whose total is net of a refund can be charged
  its gross amount, which \<^verbatim>\<open>addPaymentsToOrder\<close> would refuse.
\<close>

lemma split_payment_ignores_refund:
  "succeeds_with (\<lambda>(d', v). od_totalAmount (vw_order v) = 900 \<and> sum_payments (order_payments d' ''0'') = 1000)
     (splitPaymentOrder run_env (open_order_db 100) ''0'' split_request [\<lparr>pi_amount = 1000, pi_method = CASH\<rparr>] ''u'')"
  by code_simp

section \<open>Cancelling\<close>

text \<open>
  Cancelling an order is complete and final: the order and all its positions become CANCELLED, none of its
  vouchers stays ISSUED, its payments are kept, the stock ledger stays consistent, and any further attempt to cancel it is refused.
\<close>

theorem cancel_order_final:
  assumes "ledger_ok (t_stocks d) (t_movements d)" and "cancelOrder (Some InventoryService) e d oid reason u = Inr (d', v)"
  shows "ledger_ok (t_stocks d') (t_movements d') \<and> map_option od_lifecycleStatus (find_order d' oid) = Some LC_CANCELLED \<and>
    (\<forall>i \<in> set (order_items d' oid). oi_status i = IT_CANCELLED) \<and>
    (\<forall>x \<in> set (order_vouchers d' oid). pv_status x \<noteq> PV_ISSUED) \<and> t_payments d' = t_payments d \<and>
    (\<exists>err. cancelOrder (Some InventoryService) e' d' oid reason' u' = Inl err)"
proof -
  obtain o' :: order and r d3 d4 ch where E: "find_order d oid = Some o'"
    "t_orders d' = update_where (\<lambda>x. od_id x = oid) (\<lambda>x. x\<lparr>od_lifecycleStatus := LC_CANCELLED\<rparr>) (t_orders d)"
    "t_items d' = update_where (\<lambda>i. oi_orderId i = oid) (\<lambda>i. i\<lparr>oi_status := IT_CANCELLED\<rparr>) (t_items d)"
    "t_prodVouchers d' = update_where (\<lambda>v. pv_orderId v = oid \<and> pv_status v = PV_ISSUED) (\<lambda>v. v\<lparr>pv_status := PV_CANCELLED\<rparr>) (t_prodVouchers d)"
    "t_payments d' = t_payments d"
    by (rule ledger.cancelOrder_effect [OF assms(2)])
  have f: "find_order d' oid = Some (o'\<lparr>od_lifecycleStatus := LC_CANCELLED\<rparr>)"
    unfolding find_order_def E(2) by (subst find_update_keyed) (simp_all add: E(1) [unfolded find_order_def])
  have items: "\<forall>i \<in> set (order_items d' oid). oi_status i = IT_CANCELLED"
    unfolding order_items_def E(3) set_filter using cancelled_items by blast
  have vouchers: "\<forall>x \<in> set (order_vouchers d' oid). pv_status x \<noteq> PV_ISSUED"
    unfolding order_vouchers_def E(4) set_filter
    using cancelled_vouchers [where c = "\<lambda>v. pv_orderId v = oid"] by auto
  have "\<exists>err. cancelOrder (Some InventoryService) e' d' oid reason' u' = Inl err"
    using f by (cases "normalizeCancellationReason reason'") (auto simp: cancelOrder_def)
  with f items vouchers E(5) cancelOrder_ledger [OF assms] show ?thesis by simp
qed

lemma cancel_order_final_witness:
  "succeeds_with (\<lambda>(d', v). ledger_ok (t_stocks d') (t_movements d') \<and>
       (\<exists>err. cancelOrder (Some InventoryService) run_env d' ''0'' ''again'' ''u'' = Inl err))
     (cancelOrder (Some InventoryService) run_env (open_order_db 0) ''0'' ''broken glass'' ''u'')"
proof -
  let ?run = "cancelOrder (Some InventoryService) run_env (open_order_db 0) ''0'' ''broken glass'' ''u''"
  have "succeeds_with (\<lambda>_. True) ?run" by code_simp
  then obtain d' v where run: "?run = Inr (d', v)" by (auto elim!: succeeds_withE)
  from cancel_order_final [OF open_order_ledger_ok run] show ?thesis unfolding run by (simp add: succeeds_with_def)
qed

text \<open>
  C22. An order that is taken and then cancelled leaves every stock with the quantity it had before, whoever cancels it and
  for whatever reason.
\<close>

theorem order_cancelled_restores_stock:
  assumes "ledger_ok (t_stocks d) (t_movements d)" and "supply_ok e d"
    and "createOrder (Some InventoryService) e pre d u c = Inr (d1, v)" and "d1 \<noteq> d"
    and "cancelOrder (Some InventoryService) e' d1 (od_id (vw_order v)) reason u' = Inr (d2, v')"
  shows "map (\<lambda>s. (stock_key s, st_stockQuantity s)) (t_stocks d2) = map (\<lambda>s. (stock_key s, st_stockQuantity s)) (t_stocks d)"
  using assms(3)
proof (cases rule: createOrder_cases)
  case (replayed st)
  with assms(4) show ?thesis by simp
next
  case (booked refund paid d3 ch)
  note B = beside_broadcastsD [OF ledger.publish_frame [of "co_eventId c" "od_dataMode (vw_order v)" ch d3, folded booked(6)]]
  from booked_then_cancelled [OF assms(1,2) booked(5) _ _ _ _ assms(5)] B show ?thesis by (simp add: quantities_def)
qed

lemma order_cancelled_restores_stock_witness:
  "succeeds_with (\<lambda>(d2, v'). map st_stockQuantity (t_stocks d2) = [10])
     (bind_res (createOrder (Some InventoryService) run_env sample_db sample_db ''u'' (sample_order_input [] 0)) (\<lambda>(d1, v).
      cancelOrder (Some InventoryService) run_env d1 (od_id (vw_order v)) ''broken glass'' ''u''))"
proof -
  let ?run = "bind_res (createOrder (Some InventoryService) run_env sample_db sample_db ''u'' (sample_order_input [] 0)) (\<lambda>(d1, v).
      cancelOrder (Some InventoryService) run_env d1 (od_id (vw_order v)) ''broken glass'' ''u'')"
  have "succeeds_with (\<lambda>_. True) ?run" by code_simp
  then obtain d2 v' where run: "?run = Inr (d2, v')" by (auto elim!: succeeds_withE)
  then obtain d1 v where c: "createOrder (Some InventoryService) run_env sample_db sample_db ''u'' (sample_order_input [] 0) = Inr (d1, v)"
    and k: "cancelOrder (Some InventoryService) run_env d1 (od_id (vw_order v)) ''broken glass'' ''u'' = Inr (d2, v')"
    by (auto simp: res_simps)
  have "succeeds_with (\<lambda>(d1, v). serial d1 \<noteq> 0) (createOrder (Some InventoryService) run_env sample_db sample_db ''u'' (sample_order_input [] 0))"
    and z: "serial sample_db = 0" by code_simp+
  with c have "d1 \<noteq> sample_db" by (auto simp: succeeds_with_def)
  moreover have "supply_ok run_env sample_db"
    by (simp add: supply_ok_def run_env_def sample_env_def inj_nat_text sample_db_def empty_db_def sample_movement_def)
  moreover have "ledger_ok (t_stocks sample_db) (t_movements sample_db)" by code_simp
  ultimately have "map (\<lambda>s. (stock_key s, st_stockQuantity s)) (t_stocks d2) = map (\<lambda>s. (stock_key s, st_stockQuantity s)) (t_stocks sample_db)"
    using order_cancelled_restores_stock [OF _ _ c _ k] by blast
  then show ?thesis unfolding run by (auto simp: succeeds_with_def sample_db_def sample_stock_def)
qed

text \<open>
  Cancelling one position charges for exactly the rest: the total becomes the gross of the positions still active
  less the deposit refund, never negative, the order is cancelled exactly when nothing is left or it was before, the
  ledger stays consistent, and the same position cannot be cancelled twice.
\<close>

theorem cancel_item_total:
  assumes "ledger_ok (t_stocks d) (t_movements d)" and "cancelOrderItem (Some InventoryService) e d iid reason u = Inr (d', it)"
  shows "\<exists>o1. find_order d' (oi_orderId it) = Some o1 \<and>
    od_totalAmount o1 = max 0 (gross_total (filter (\<lambda>i. oi_status i \<noteq> IT_CANCELLED) (order_items d' (od_id o1))) - od_depositRefundTotal o1) \<and>
    (od_lifecycleStatus o1 = LC_CANCELLED \<longleftrightarrow> (\<forall>i \<in> set (order_items d' (od_id o1)). oi_status i = IT_CANCELLED) \<or>
       map_option od_lifecycleStatus (find_order d (oi_orderId it)) = Some LC_CANCELLED) \<and>
    ledger_ok (t_stocks d') (t_movements d') \<and>
    (\<exists>err. cancelOrderItem (Some InventoryService) e' d' iid reason' u' = Inl err)"
proof -
  obtain it0 :: order_item and o' :: order and r d2 d3 ch where E: "item_of (t_items d) iid = Some it0"
    "find_order d (oi_orderId it0) = Some o'"
    "t_items d' = update_where (\<lambda>i. oi_id i = iid) (\<lambda>i. i\<lparr>oi_status := IT_CANCELLED\<rparr>) (t_items d)"
    "t_orders d' = update_where (\<lambda>x. od_id x = od_id o') (\<lambda>x. x\<lparr>od_totalAmount := max 0 (gross_total (remaining_items d o' iid) - od_depositRefundTotal o'),
       od_lifecycleStatus := (if remaining_items d o' iid = [] then LC_CANCELLED else od_lifecycleStatus o')\<rparr>) (t_orders d)"
    "it = it0\<lparr>oi_status := IT_CANCELLED\<rparr>"
    by (rule ledger.cancelOrderItem_effect [OF assms(2)])
  define o1 where "o1 = o'\<lparr>od_totalAmount := max 0 (gross_total (remaining_items d o' iid) - od_depositRefundTotal o'),
       od_lifecycleStatus := (if remaining_items d o' iid = [] then LC_CANCELLED else od_lifecycleStatus o')\<rparr>"
  have oid: "od_id o' = oi_orderId it0" using find_order_Some [OF E(2)] by simp
  have find1: "find_order d' (oi_orderId it0) = Some o1"
    unfolding find_order_def E(4) by (subst find_update_keyed) (simp_all add: E(2) [unfolded find_order_def] oid o1_def)
  have rest: "filter (\<lambda>i. oi_status i \<noteq> IT_CANCELLED) (order_items d' (od_id o')) = remaining_items d o' iid"
    unfolding order_items_def E(3) remaining_items_def by (rule active_after_item_cancel)
  then have none: "remaining_items d o' iid = [] \<longleftrightarrow> (\<forall>i \<in> set (order_items d' (od_id o')). oi_status i = IT_CANCELLED)"
    by (metis (mono_tags, lifting) filter_empty_conv)
  have item1: "item_of (t_items d') iid = Some (it0\<lparr>oi_status := IT_CANCELLED\<rparr>)"
    unfolding item_of_def E(3) by (subst find_update_keyed) (simp_all add: E(1) [unfolded item_of_def])
  have twice: "\<exists>err. cancelOrderItem (Some InventoryService) e' d' iid reason' u' = Inl err"
    by (cases "normalizeCancellationReason reason'") (auto simp: cancelOrderItem_def item1 find1)
  show ?thesis
  proof (intro exI [of _ o1] conjI)
    show "find_order d' (oi_orderId it) = Some o1" using find1 E(5) by simp
    show "od_totalAmount o1 = max 0 (gross_total (filter (\<lambda>i. oi_status i \<noteq> IT_CANCELLED) (order_items d' (od_id o1))) - od_depositRefundTotal o1)"
      by (simp add: o1_def rest)
    show "od_lifecycleStatus o1 = LC_CANCELLED \<longleftrightarrow> (\<forall>i \<in> set (order_items d' (od_id o1)). oi_status i = IT_CANCELLED) \<or>
       map_option od_lifecycleStatus (find_order d (oi_orderId it)) = Some LC_CANCELLED"
      using none by (auto simp: o1_def E(2,5))
    show "ledger_ok (t_stocks d') (t_movements d')" by (rule cancelOrderItem_ledger [OF assms])
    show "\<exists>err. cancelOrderItem (Some InventoryService) e' d' iid reason' u' = Inl err" by (rule twice)
  qed
qed

lemma cancel_item_total_witness:
  "succeeds_with (\<lambda>(d', it). \<exists>o1. find_order d' (oi_orderId it) = Some o1 \<and> od_totalAmount o1 = 100)
     (cancelOrderItem (Some InventoryService) run_env (open_order_db 100) ''1'' ''dropped'' ''u'')"
proof -
  let ?run = "cancelOrderItem (Some InventoryService) run_env (open_order_db 100) ''1'' ''dropped'' ''u''"
  have "succeeds_with (\<lambda>(d', it). oi_orderId it = ''0'' \<and> map_option od_id (find_order d' ''0'') = Some ''0'' \<and>
      map_option od_depositRefundTotal (find_order d' ''0'') = Some 100 \<and>
      gross_total (filter (\<lambda>i. oi_status i \<noteq> IT_CANCELLED) (order_items d' ''0'')) = 200) ?run" by code_simp
  then obtain d' it where run: "?run = Inr (d', it)" and r: "oi_orderId it = ''0''" "map_option od_id (find_order d' ''0'') = Some ''0''"
      "map_option od_depositRefundTotal (find_order d' ''0'') = Some 100"
      "gross_total (filter (\<lambda>i. oi_status i \<noteq> IT_CANCELLED) (order_items d' ''0'')) = 200"
    by (auto elim!: succeeds_withE)
  from cancel_item_total [OF open_order_ledger_ok run] r show ?thesis unfolding run by (auto simp: succeeds_with_def)
qed

section \<open>The offline queue\<close>

text \<open>
  An offline entry is discarded only when the server has no order with its key, and only by whom the rules allow:
  with payments an administrator, a legacy entry also an event manager, any other entry its capturing user or an
  administrator; a discard writes one audit entry and nothing else.
\<close>

theorem discard_authorised:
  "discardOfflineQueueEntry d u r i = Inr d' \<longleftrightarrow>
     8 \<le> length (di_idempotencyKey i) \<and> length (di_idempotencyKey i) \<le> 128 \<and>
     js_trim (di_reason i) \<noteq> [] \<and> length (js_trim (di_reason i)) \<le> 500 \<and>
     (\<exists>n. validatePayments (discard_payments i) = Inr n) \<and> order_by_key d (di_idempotencyKey i) = None \<and>
     (r = ADMINISTRATOR \<or> discard_payments i = [] \<and>
        (if di_legacy i = Some True then r = EVENT_MANAGER else truthy (di_capturedByUserId i) = Some u)) \<and>
     d' = add_audit (discard_audit u i (js_trim (di_reason i))) d"
  unfolding discardOfflineQueueEntry_def normalizeCancellationReason_def discard_allowed_def Let_def
  by (auto simp: res_simps split: if_splits)

section \<open>Reprinting\<close>

text \<open>
  A reprint only prints: it appends print jobs of the order, none of them a station ticket, and one audit entry;
  orders, positions, payments, vouchers and stocks are unchanged, and only an administrator or a user with an
  active session in the event of the order may do it.
\<close>

theorem reprint_only_prints:
  assumes "reprintOrder e d oid u = Inr d'"
  shows "beside_print (d'\<lparr>t_auditLogs := t_auditLogs d\<rparr>) = beside_print d \<and>
    (\<exists>jobs. t_printJobs d' = t_printJobs d @ jobs \<and> (\<forall>j \<in> set jobs. pj_jobType j \<noteq> STATION_TICKET \<and> pj_orderId j = Some oid)) \<and>
    (\<exists>a. t_auditLogs d' = t_auditLogs d @ [a]) \<and>
    (\<exists>o'. find_order d oid = Some o' \<and> (map_option us_role (find_user d u) = Some ADMINISTRATOR \<or>
       (\<exists>s \<in> set (t_sessions d). cs_userId s = u \<and> cs_eventId s = od_eventId o' \<and> cs_status s = SE_ACTIVE)))"
proof -
  from assms obtain o' us where o': "find_order d oid = Some o'" and a: "reprint_allowed d u o' = Inr us"
    and d': "d' = add_audit (reprint_audit e u o' (length (po_vouchers (reprint_options e d o'))))
       (dispatchPrintJobs e o' (with_products d (order_items d oid)) (order_payments d oid) us (reprint_options e d o') d)"
    by (auto simp: reprintOrder_def res_simps Let_def)
  let ?p = "dispatchPrintJobs e o' (with_products d (order_items d oid)) (order_payments d oid) us (reprint_options e d o') d"
  have oid: "od_id o' = oid" using find_order_Some [OF o'] by simp
  obtain tickets vouchers receipt where D: "queued d ?p (tickets @ vouchers @ receipt)" "tickets = []"
    "\<forall>j \<in> set vouchers. order_job o' PRODUCT_VOUCHER j" "\<forall>j \<in> set receipt. order_job o' RECEIPT j"
    using dispatch_queued [of d e o' "with_products d (order_items d oid)" "order_payments d oid" us "reprint_options e d o'"]
    by (auto simp: reprint_options_def Let_def)
  have jobs: "\<forall>j \<in> set (vouchers @ receipt). pj_jobType j \<noteq> STATION_TICKET \<and> pj_orderId j = Some oid"
    using D(3,4) oid by (auto simp: order_job_def)
  have queue: "t_printJobs d' = t_printJobs d @ vouchers @ receipt"
    using D(1,2) by (simp add: d' frame_simps queued_def)
  have frame: "beside_print ?p = beside_print d" using D(1) by (simp add: queued_def)
  have logs: "t_auditLogs d' = t_auditLogs d @ [reprint_audit e u o' (length (po_vouchers (reprint_options e d o')))]"
    by (simp add: d' add_audit_def beside_printD(18) [OF frame])
  have rest: "beside_print (d'\<lparr>t_auditLogs := t_auditLogs d\<rparr>) = beside_print d"
    unfolding d' using beside_printD [OF frame] by (simp add: beside_print_def add_audit_def)
  from a have "map_option us_role (find_user d u) = Some ADMINISTRATOR \<or>
       (\<exists>s \<in> set (t_sessions d). cs_userId s = u \<and> cs_eventId s = od_eventId o' \<and> cs_status s = SE_ACTIVE)"
    unfolding reprint_allowed_def Let_def
    by (auto simp: res_simps active_session_def split: if_splits dest!: find_Some_mem)
  with o' rest queue jobs logs show ?thesis by blast
qed

lemma reprint_only_prints_witness:
  "succeeds_with (\<lambda>d'. length (t_printJobs d') = 1 \<and> (\<forall>j \<in> set (t_printJobs d'). pj_jobType j \<noteq> STATION_TICKET))
     (reprintOrder run_env (open_order_db 0) ''0'' ''u'')"
proof -
  let ?run = "reprintOrder run_env (open_order_db 0) ''0'' ''u''"
  have "succeeds_with (\<lambda>d'. length (t_printJobs d') = 1) ?run" by code_simp
  then obtain d' where run: "?run = Inr d'" and n: "length (t_printJobs d') = 1" by (auto elim!: succeeds_withE)
  have "t_printJobs (open_order_db 0) = []" by code_simp
  with reprint_only_prints [OF run] n show ?thesis unfolding run by (auto simp: succeeds_with_def)
qed

end
