(* ===== verification/VO_PrintJobs.thy ===== *)
theory VO_PrintJobs
  imports VO_Dispatch
begin

text \<open>
  The print job queue, \<^verbatim>\<open>apps/backend/src/print-jobs/print-jobs.service.ts\<close> and
  \<^verbatim>\<open>print-jobs.reaper.ts\<close>: a worker claims the oldest waiting job under a lease, reports its
  phases and its outcome with the lease as fencing token, the backend decides on failover, failure or
  a human decision, and a periodic sweep collects expired leases. Every conditional UPDATE is one
  step on the state it is given; what a handler read beforehand is a separate argument \<open>pre\<close>.
\<close>

section \<open>Constants\<close>

definition LEASE_DURATION_MS :: nat where
  "LEASE_DURATION_MS = 60000"

definition NO_FAILOVER_ERROR_CODES :: "string list" where
  "NO_FAILOVER_ERROR_CODES = [''PRINTER_CONFIGURATION'', ''CUPS_QUEUE_NOT_FOUND'', ''OUTPUT_FAILED'']"

definition NO_FAILOVER_PRINTER_TYPES :: "string list" where
  "NO_FAILOVER_PRINTER_TYPES = [''CONSOLE'']"

definition VALID_PHASES :: "(string \<times> attempt_phase) list" where
  "VALID_PHASES = [(''DELIVERING'', DELIVERING), (''SPOOLED'', SPOOLED)]"

definition VALID_OUTCOMES :: "(string \<times> outcome_class) list" where
  "VALID_OUTCOMES = [(''PRINTED'', PRINTED), (''NOT_PRINTED'', NOT_PRINTED), (''UNCLEAR'', UNCLEAR)]"

definition VALID_RESOLUTIONS :: "string list" where
  "VALID_RESOLUTIONS = [''REPRINTED'', ''CONFIRMED_PRINTED'', ''DISCARDED'']"

section \<open>Rows\<close>

record report_input =
  ri_leaseId :: id
  ri_outcome :: string
  ri_errorCode :: "string option"
  ri_errorMessage :: "string option"
  ri_bytesWritten :: "int option"
  ri_cupsJobState :: "string option"

record evidence =
  ev_errorCode :: "string option"
  ev_errorMessage :: "string option"
  ev_bytesWritten :: "int option"
  ev_cupsJobState :: "string option"

record resolve_input =
  rj_resolution :: string
  rj_targetPrinterId :: "id option"
  rj_comment :: "string option"

definition find_job :: "db \<Rightarrow> id \<Rightarrow> print_job option" where
  "find_job d i = find (\<lambda>j. pj_id j = i) (t_printJobs d)"

definition find_printer :: "db \<Rightarrow> id \<Rightarrow> printer option" where
  "find_printer d i = find (\<lambda>p. pr_id p = i) (t_printers d)"

text \<open>\<open>updateMany\<close> on one id with a condition: the new state and the number of rows it hit.\<close>

definition update_job_if :: "id \<Rightarrow> (print_job \<Rightarrow> bool) \<Rightarrow> (print_job \<Rightarrow> print_job) \<Rightarrow> db \<Rightarrow> db \<times> nat" where
  "update_job_if i c f d =
     (d\<lparr>t_printJobs := update_where (\<lambda>j. pj_id j = i \<and> c j) f (t_printJobs d)\<rparr>,
      count_where (\<lambda>j. pj_id j = i \<and> c j) (t_printJobs d))"

text \<open>\<open>COALESCE(activePrinterId, printerId)\<close> and \<open>activePrinter ?? printer\<close>.\<close>

definition attempt_printer_id :: "print_job \<Rightarrow> id" where
  "attempt_printer_id j = (case pj_activePrinterId j of Some i \<Rightarrow> i | None \<Rightarrow> pj_printerId j)"

definition resolveActivePrinter :: "db \<Rightarrow> print_job \<Rightarrow> printer option" where
  "resolveActivePrinter d j = (case Option.bind (pj_activePrinterId j) (find_printer d) of
     Some p \<Rightarrow> Some p | None \<Rightarrow> find_printer d (pj_printerId j))"

definition held :: "id \<Rightarrow> print_job \<Rightarrow> bool" where
  "held lease j \<longleftrightarrow> pj_status j = PJ_PROCESSING \<and> pj_leaseId j = Some lease"

section \<open>The worker's contract\<close>

definition oldest_pending :: "db \<Rightarrow> print_job option" where
  "oldest_pending d = (case sort_key pj_createdAt (filter (\<lambda>j. pj_status j = PJ_PENDING) (t_printJobs d)) of
     [] \<Rightarrow> None | j # _ \<Rightarrow> Some j)"

definition claimed_row :: "id \<Rightarrow> nat \<Rightarrow> print_job \<Rightarrow> print_job" where
  "claimed_row lease expires j = j\<lparr>pj_status := PJ_PROCESSING, pj_attemptPhase := Some CLAIMED,
     pj_leaseId := Some lease, pj_leaseExpiresAt := Some expires, pj_lastHeartbeatAt := None,
     pj_attemptCount := pj_attemptCount j + 1\<rparr>"

definition claimNextJob :: "env \<Rightarrow> db \<Rightarrow> api_error + db \<times> (print_job \<times> printer) option" where
  "claimNextJob e d =
     (let lease = fresh_id e d; d0 = d\<lparr>serial := Suc (serial d)\<rparr>
      in case oldest_pending d0 of
           None \<Rightarrow> Inr (d0, None)
         | Some j \<Rightarrow>
             let (d1, n) = update_job_if (pj_id j) (\<lambda>x. pj_status x = PJ_PENDING)
                   (claimed_row lease (env_now e + LEASE_DURATION_MS)) d0
             in bind_res (need (find_job d1 (pj_id j)) (NotFound ''P2025'')) (\<lambda>j'.
                bind_res (need (resolveActivePrinter d1 j') (TypeError ''printer'')) (\<lambda>p.
                Inr (d1, Some (j', p)))))"

definition in_phase :: "env \<Rightarrow> id \<Rightarrow> attempt_phase \<Rightarrow> print_job \<Rightarrow> bool" where
  "in_phase e lease from' j \<longleftrightarrow> held lease j \<and> pj_attemptPhase j = Some from' \<and>
     (case pj_leaseExpiresAt j of None \<Rightarrow> False | Some t \<Rightarrow> env_now e < t)"

definition transitionPhase ::
  "env \<Rightarrow> db \<Rightarrow> id \<Rightarrow> id \<Rightarrow> string \<Rightarrow> int option \<Rightarrow> api_error + db \<times> print_job" where
  "transitionPhase e d i lease phase cupsJobId =
     bind_res (ensure (lease \<noteq> []) (BadRequest ''LEASE_REQUIRED'')) (\<lambda>_.
     bind_res (need (map_of VALID_PHASES phase) (BadRequest ''PHASE'')) (\<lambda>target.
     bind_res (ensure (\<not> (target = SPOOLED \<and> cupsJobId = None)) (BadRequest ''CUPS_JOB_ID_REQUIRED'')) (\<lambda>_.
     let expectedFrom = (if target = DELIVERING then CLAIMED else DELIVERING);
         (d1, n) = update_job_if i (in_phase e lease expectedFrom)
           (\<lambda>j. j\<lparr>pj_attemptPhase := Some target,
                  pj_cupsJobId := (if target = SPOOLED then cupsJobId else pj_cupsJobId j)\<rparr>) d
     in bind_res (ensure (n \<noteq> 0) (Conflict ''LEASE_OR_PHASE'')) (\<lambda>_.
        bind_res (need (find_job d1 i) (NotFound ''P2025'')) (\<lambda>j. Inr (d1, j))))))"

definition heartbeat :: "env \<Rightarrow> db \<Rightarrow> id \<Rightarrow> id \<Rightarrow> api_error + db \<times> nat" where
  "heartbeat e d i lease =
     bind_res (ensure (lease \<noteq> []) (BadRequest ''LEASE_REQUIRED'')) (\<lambda>_.
     let expires = env_now e + LEASE_DURATION_MS;
         (d1, n) = update_job_if i (held lease)
           (\<lambda>j. j\<lparr>pj_leaseExpiresAt := Some expires, pj_lastHeartbeatAt := Some (env_now e)\<rparr>) d
     in bind_res (ensure (n \<noteq> 0) (Conflict ''LEASE'')) (\<lambda>_. Inr (d1, expires)))"

section \<open>Processing an outcome\<close>

definition recordPrinterOutcome ::
  "env \<Rightarrow> id \<Rightarrow> outcome_class \<Rightarrow> string option \<Rightarrow> db \<Rightarrow> api_error + db" where
  "recordPrinterOutcome e printerId outcome code d =
     bind_res (need (find_printer d printerId) (NotFound ''P2025'')) (\<lambda>_.
     Inr (d\<lparr>t_printers := update_where (\<lambda>p. pr_id p = printerId)
            (\<lambda>p. if outcome = PRINTED then p\<lparr>pr_lastOkAt := Some (env_now e)\<rparr>
                 else p\<lparr>pr_lastErrorAt := Some (env_now e), pr_lastErrorCode := code\<rparr>) (t_printers d)\<rparr>))"

definition resolveIdempotentOrConflict ::
  "db \<Rightarrow> id \<Rightarrow> id \<Rightarrow> print_job_status list \<Rightarrow> api_error + db \<times> print_job" where
  "resolveIdempotentOrConflict d i lease acceptable =
     bind_res (need (find_job d i) (NotFound ''PRINT_JOB'')) (\<lambda>j.
     if pj_leaseId j = Some lease \<and> pj_status j \<in> set acceptable then Inr (d, j)
     else Inl (Conflict ''PRINT_JOB_LEASE''))"

definition printed_row :: "env \<Rightarrow> evidence \<Rightarrow> print_job \<Rightarrow> print_job" where
  "printed_row e x j = j\<lparr>pj_status := PJ_PRINTED, pj_attemptPhase := None, pj_outcomeClass := Some PRINTED,
     pj_errorCode := ev_errorCode x, pj_errorMessage := ev_errorMessage x, pj_bytesWritten := ev_bytesWritten x,
     pj_cupsJobState := ev_cupsJobState x, pj_deliveredAt := Some (env_now e)\<rparr>"

definition finalizeAsPrinted :: "env \<Rightarrow> db \<Rightarrow> id \<Rightarrow> id \<Rightarrow> evidence \<Rightarrow> api_error + db \<times> print_job" where
  "finalizeAsPrinted e d i lease x =
     (let (d1, n) = update_job_if i (held lease) (printed_row e x) d
      in if n = 0 then resolveIdempotentOrConflict d i lease [PJ_PRINTED]
         else bind_res (need (find_job d1 i) (NotFound ''P2025'')) (\<lambda>j.
              bind_res (recordPrinterOutcome e (attempt_printer_id j) PRINTED None d1) (\<lambda>d2. Inr (d2, j))))"

definition unresolved_row :: "env \<Rightarrow> evidence \<Rightarrow> print_job \<Rightarrow> print_job" where
  "unresolved_row e x j = j\<lparr>pj_status := PJ_UNRESOLVED, pj_attemptPhase := None, pj_outcomeClass := Some UNCLEAR,
     pj_errorCode := ev_errorCode x, pj_errorMessage := ev_errorMessage x, pj_bytesWritten := ev_bytesWritten x,
     pj_cupsJobState := ev_cupsJobState x, pj_unresolvedAt := Some (env_now e),
     pj_unresolvedReason := Some ''TRANSPORT''\<rparr>"

definition job_audit :: "string \<Rightarrow> id \<Rightarrow> id option \<Rightarrow> (string \<times> json) list \<Rightarrow> audit_entry" where
  "job_audit action i user details = \<lparr>al_action = action, al_entityId = i, al_entityType = ''PrintJob'',
     al_userId = truthy user, al_details = JObj details\<rparr>"

definition unresolved_audit :: "print_job \<Rightarrow> string option \<Rightarrow> json \<Rightarrow> audit_entry" where
  "unresolved_audit j reason phase = job_audit ''PRINT_JOB_UNRESOLVED'' (pj_id j) None
     [(''printerId'', JStr (attempt_printer_id j)), (''errorCode'', jnull JStr (pj_errorCode j)),
      (''unresolvedReason'', jnull JStr reason), (''attemptPhase'', phase),
      (''cupsJobId'', jnull JNum (pj_cupsJobId j)), (''cupsJobState'', jnull JStr (pj_cupsJobState j)),
      (''bytesWritten'', jnull JNum (pj_bytesWritten j))]"

definition finalizeAsUnresolved :: "env \<Rightarrow> db \<Rightarrow> id \<Rightarrow> id \<Rightarrow> evidence \<Rightarrow> api_error + db \<times> print_job" where
  "finalizeAsUnresolved e d i lease x =
     (let (d1, n) = update_job_if i (held lease) (unresolved_row e x) d
      in if n = 0 then resolveIdempotentOrConflict d i lease [PJ_UNRESOLVED]
         else bind_res (need (find_job d1 i) (NotFound ''P2025'')) (\<lambda>j.
              Inr (add_audit (unresolved_audit j (pj_unresolvedReason j) JNull) d1, j)))"

definition failover_row :: "env \<Rightarrow> id \<Rightarrow> id \<Rightarrow> evidence \<Rightarrow> print_job \<Rightarrow> print_job" where
  "failover_row e current fallback x j = j\<lparr>pj_status := PJ_PENDING, pj_activePrinterId := Some fallback,
     pj_failoverCount := 1, pj_failoverAt := Some (env_now e), pj_failoverReason := ev_errorCode x,
     pj_failoverFromPrinterId := Some current, pj_leaseId := None, pj_leaseExpiresAt := None,
     pj_attemptPhase := None, pj_outcomeClass := Some NOT_PRINTED, pj_errorCode := ev_errorCode x,
     pj_errorMessage := ev_errorMessage x, pj_bytesWritten := ev_bytesWritten x\<rparr>"

definition failover_audit :: "id \<Rightarrow> id \<Rightarrow> evidence \<Rightarrow> print_job \<Rightarrow> audit_entry" where
  "failover_audit current fallback x j = job_audit ''PRINT_JOB_FAILOVER'' (pj_id j) None
     [(''fromPrinterId'', JStr current), (''toPrinterId'', JStr fallback),
      (''errorCode'', jnull JStr (ev_errorCode x)), (''outcomeClass'', JStr ''NOT_PRINTED''),
      (''attemptCount'', JNum (pj_attemptCount j)), (''occurredAt'', jnull time_json (pj_failoverAt j))]"

definition tryFailover ::
  "env \<Rightarrow> db \<Rightarrow> id \<Rightarrow> id \<Rightarrow> id \<Rightarrow> id \<Rightarrow> evidence \<Rightarrow> api_error + (db \<times> print_job) option" where
  "tryFailover e d i lease current fallback x =
     (let (d1, n) = update_job_if i (\<lambda>j. held lease j \<and> pj_failoverCount j = 0)
            (failover_row e current fallback x) d
      in if n = 0 then Inr None
         else bind_res (recordPrinterOutcome e current NOT_PRINTED (ev_errorCode x) d1) (\<lambda>d2.
              bind_res (need (find_job d2 i) (NotFound ''P2025'')) (\<lambda>j.
              Inr (Some (add_audit (failover_audit current fallback x j) d2, j)))))"

definition failed_row :: "evidence \<Rightarrow> print_job \<Rightarrow> print_job" where
  "failed_row x j = j\<lparr>pj_status := PJ_FAILED, pj_attemptPhase := None, pj_outcomeClass := Some NOT_PRINTED,
     pj_errorCode := ev_errorCode x, pj_errorMessage := ev_errorMessage x, pj_bytesWritten := ev_bytesWritten x\<rparr>"

definition outcome_text :: "outcome_class \<Rightarrow> string" where
  "outcome_text c = (case c of PRINTED \<Rightarrow> ''PRINTED'' | NOT_PRINTED \<Rightarrow> ''NOT_PRINTED'' | UNCLEAR \<Rightarrow> ''UNCLEAR'')"

definition failed_audit :: "print_job \<Rightarrow> audit_entry" where
  "failed_audit j = job_audit ''PRINT_JOB_FAILED'' (pj_id j) None
     [(''printerId'', JStr (attempt_printer_id j)), (''errorCode'', jnull JStr (pj_errorCode j)),
      (''outcomeClass'', jnull (\<lambda>c. JStr (outcome_text c)) (pj_outcomeClass j)),
      (''attemptCount'', JNum (pj_attemptCount j)), (''failoverCount'', JNum (pj_failoverCount j))]"

definition finalizeAsFailed :: "env \<Rightarrow> db \<Rightarrow> id \<Rightarrow> id \<Rightarrow> evidence \<Rightarrow> api_error + db \<times> print_job" where
  "finalizeAsFailed e d i lease x =
     (let (d1, n) = update_job_if i (held lease) (failed_row x) d
      in if n = 0 then resolveIdempotentOrConflict d i lease [PJ_FAILED]
         else bind_res (need (find_job d1 i) (NotFound ''P2025'')) (\<lambda>j.
              bind_res (recordPrinterOutcome e (attempt_printer_id j) NOT_PRINTED (ev_errorCode x) d1) (\<lambda>d2.
              Inr (add_audit (failed_audit j) d2, j))))"

text \<open>The replacement printer, decided on what was read before the conditional update.\<close>

definition failover_target :: "db \<Rightarrow> print_job \<Rightarrow> printer \<Rightarrow> evidence \<Rightarrow> printer option" where
  "failover_target pre j printer x =
     (if pj_failoverCount j = 0
         \<and> \<not> (case truthy (ev_errorCode x) of None \<Rightarrow> False | Some c \<Rightarrow> c \<in> set NO_FAILOVER_ERROR_CODES)
         \<and> pr_type printer \<notin> set NO_FAILOVER_PRINTER_TYPES
      then (case truthy (pr_fallbackPrinterId printer) of
              None \<Rightarrow> None
            | Some f \<Rightarrow> (case find_printer pre f of
                None \<Rightarrow> None
              | Some c \<Rightarrow> if pr_isActive c then Some c else None))
      else None)"

definition finalizeNotPrinted ::
  "env \<Rightarrow> db \<Rightarrow> db \<Rightarrow> id \<Rightarrow> id \<Rightarrow> evidence \<Rightarrow> api_error + db \<times> print_job" where
  "finalizeNotPrinted e pre d i lease x =
     bind_res (need (find_job pre i) (NotFound ''PRINT_JOB'')) (\<lambda>current.
     bind_res (need (resolveActivePrinter pre current) (TypeError ''printer'')) (\<lambda>printer.
     case failover_target pre current printer x of
       None \<Rightarrow> finalizeAsFailed e d i lease x
     | Some fallback \<Rightarrow>
         bind_res (tryFailover e d i lease (attempt_printer_id current) (pr_id fallback) x) (\<lambda>applied.
         case applied of
           Some result \<Rightarrow> Inr result
         | None \<Rightarrow> resolveIdempotentOrConflict d i lease [PJ_FAILED])))"

definition reportOutcome ::
  "env \<Rightarrow> db \<Rightarrow> db \<Rightarrow> id \<Rightarrow> report_input \<Rightarrow> api_error + db \<times> print_job" where
  "reportOutcome e pre d i input =
     bind_res (ensure (ri_leaseId input \<noteq> []) (BadRequest ''LEASE_REQUIRED'')) (\<lambda>_.
     bind_res (need (map_of VALID_OUTCOMES (ri_outcome input)) (BadRequest ''OUTCOME'')) (\<lambda>outcome.
     let x = \<lparr>ev_errorCode = ri_errorCode input, ev_errorMessage = ri_errorMessage input,
              ev_bytesWritten = ri_bytesWritten input, ev_cupsJobState = ri_cupsJobState input\<rparr>
     in case outcome of
          PRINTED \<Rightarrow> finalizeAsPrinted e d i (ri_leaseId input) x
        | UNCLEAR \<Rightarrow> finalizeAsUnresolved e d i (ri_leaseId input) x
        | NOT_PRINTED \<Rightarrow> finalizeNotPrinted e pre d i (ri_leaseId input) x))"

section \<open>The decision of a person\<close>

record unresolved_view =
  uv_job :: print_job
  uv_printerId :: id
  uv_printerName :: string
  uv_content :: "(string \<times> json) list"

definition content_field :: "json \<Rightarrow> string \<Rightarrow> string \<times> json" where
  "content_field content k = (k, case json_field k content of None \<Rightarrow> JNull | Some v \<Rightarrow> v)"

definition findUnresolvedJobs :: "db \<Rightarrow> api_error + unresolved_view list" where
  "findUnresolvedJobs d =
     (let open' = filter (\<lambda>j. pj_status j = PJ_UNRESOLVED) (t_printJobs d);
          at = (\<lambda>j. case pj_unresolvedAt j of Some t \<Rightarrow> t | None \<Rightarrow> 0);
          jobs = sort_key at (filter (\<lambda>j. pj_unresolvedAt j \<noteq> None) open') @ filter (\<lambda>j. pj_unresolvedAt j = None) open'
      in map_res (\<lambda>j. bind_res (need (resolveActivePrinter d j) (TypeError ''printer'')) (\<lambda>p.
           Inr \<lparr>uv_job = j, uv_printerId = pr_id p, uv_printerName = pr_name p,
             uv_content = map (content_field (pj_content j)) [''title'', ''orderNumber'', ''stationName'', ''tableName'']\<rparr>))
         jobs)"

definition resolve_target :: "db \<Rightarrow> resolve_input \<Rightarrow> api_error + id option" where
  "resolve_target pre input =
     (case truthy (rj_targetPrinterId input) of
        Some t \<Rightarrow>
          if rj_resolution input = ''REPRINTED'' then
            bind_res (need (find_printer pre t) (NotFound ''TARGET_PRINTER'')) (\<lambda>p.
            bind_res (ensure (pr_isActive p) (BadRequest ''TARGET_INACTIVE'')) (\<lambda>_. Inr (Some (pr_id p))))
          else Inr None
      | None \<Rightarrow> Inr None)"

definition check_resolve :: "resolve_input \<Rightarrow> id option \<Rightarrow> role option \<Rightarrow> api_error + id" where
  "check_resolve input actor r =
     bind_res (ensure (rj_resolution input \<in> set VALID_RESOLUTIONS) (BadRequest ''RESOLUTION'')) (\<lambda>_.
     bind_res (need (truthy actor) (BadRequest ''LOGIN_REQUIRED'')) (\<lambda>a.
     bind_res (ensure (\<not> (rj_resolution input = ''DISCARDED'' \<and> r \<noteq> Some ADMINISTRATOR)) (Forbidden ''DISCARD'')) (\<lambda>_.
     bind_res (ensure (\<not> (rj_resolution input = ''DISCARDED'' \<and>
         \<not> (case rj_comment input of None \<Rightarrow> False | Some c \<Rightarrow> js_trim c \<noteq> []))) (BadRequest ''COMMENT_REQUIRED'')) (\<lambda>_.
     bind_res (ensure (\<not> (truthy (rj_targetPrinterId input) \<noteq> None \<and> rj_resolution input \<noteq> ''REPRINTED''))
        (BadRequest ''TARGET_NOT_ALLOWED'')) (\<lambda>_. Inr a)))))"

definition resolved_row :: "env \<Rightarrow> resolve_input \<Rightarrow> id \<Rightarrow> id option \<Rightarrow> print_job \<Rightarrow> print_job" where
  "resolved_row e input actor target j =
     (let j0 = j\<lparr>pj_resolvedAt := Some (env_now e), pj_resolvedByUserId := Some actor,
                pj_resolution := Some (rj_resolution input)\<rparr>
      in if rj_resolution input = ''REPRINTED'' then
           j0\<lparr>pj_status := PJ_PENDING, pj_attemptCount := pj_attemptCount j + 1,
              pj_activePrinterId := (case target of Some t \<Rightarrow> Some t | None \<Rightarrow> pj_activePrinterId j)\<rparr>
         else if rj_resolution input = ''CONFIRMED_PRINTED'' then
           j0\<lparr>pj_status := PJ_PRINTED, pj_deliveredAt := Some (env_now e)\<rparr>
         else j0\<lparr>pj_status := PJ_CANCELLED\<rparr>)"

definition resolved_audit :: "resolve_input \<Rightarrow> id \<Rightarrow> id option \<Rightarrow> id \<Rightarrow> audit_entry" where
  "resolved_audit input actor target i = job_audit ''PRINT_JOB_RESOLVED'' i (Some actor)
     [(''resolution'', JStr (rj_resolution input)), (''targetPrinterId'', jnull JStr target),
      (''previousStatus'', JStr ''UNRESOLVED''), (''comment'', jnull JStr (rj_comment input))]"

definition resolveJob ::
  "env \<Rightarrow> db \<Rightarrow> db \<Rightarrow> id \<Rightarrow> resolve_input \<Rightarrow> id option \<Rightarrow> role option \<Rightarrow> api_error + db \<times> print_job" where
  "resolveJob e pre d i input actor r =
     bind_res (check_resolve input actor r) (\<lambda>a.
     bind_res (resolve_target pre input) (\<lambda>target.
     let (d1, n) = update_job_if i (\<lambda>j. pj_status j = PJ_UNRESOLVED) (resolved_row e input a target) d
     in if n = 0 then
          bind_res (need (find_job d i) (NotFound ''PRINT_JOB'')) (\<lambda>_. Inl (Conflict ''NOT_UNRESOLVED''))
        else bind_res (need (find_job d1 i) (NotFound ''P2025'')) (\<lambda>j.
             Inr (add_audit (resolved_audit input a target i) d1, j))))"

record job_status =
  js_id :: id
  js_status :: print_job_status
  js_errorMessage :: "string option"
  js_errorCode :: "string option"
  js_outcomeClass :: "outcome_class option"
  js_jobType :: print_job_type
  js_printerId :: id
  js_createdAt :: nat

definition findJobStatus :: "db \<Rightarrow> id \<Rightarrow> api_error + job_status" where
  "findJobStatus d i = bind_res (need (find_job d i) (NotFound ''PRINT_JOB'')) (\<lambda>j.
     Inr \<lparr>js_id = pj_id j, js_status = pj_status j, js_errorMessage = pj_errorMessage j, js_errorCode = pj_errorCode j,
       js_outcomeClass = pj_outcomeClass j, js_jobType = pj_jobType j, js_printerId = pj_printerId j,
       js_createdAt = pj_createdAt j\<rparr>)"

text \<open>\<^verbatim>\<open>diagnostics.service.ts\<close>: every failed job goes back to the queue.\<close>

definition retried_row :: "print_job \<Rightarrow> print_job" where
  "retried_row j = j\<lparr>pj_status := PJ_PENDING, pj_errorMessage := None\<rparr>"

definition retryFailedPrintJobs :: "db \<Rightarrow> db \<times> nat" where
  "retryFailedPrintJobs d =
     (d\<lparr>t_printJobs := update_where (\<lambda>j. pj_status j = PJ_FAILED) retried_row (t_printJobs d)\<rparr>,
      count_where (\<lambda>j. pj_status j = PJ_FAILED) (t_printJobs d))"

section \<open>The reaper\<close>

datatype maintenance_phase = MP_OPEN | MP_DRAINING | MP_LOCKED

definition expired :: "env \<Rightarrow> print_job \<Rightarrow> bool" where
  "expired e j \<longleftrightarrow> (case pj_leaseExpiresAt j of None \<Rightarrow> False | Some t \<Rightarrow> t < env_now e)"

definition requeue_candidates :: "env \<Rightarrow> db \<Rightarrow> print_job list" where
  "requeue_candidates e d = filter (\<lambda>j. pj_status j = PJ_PROCESSING \<and> pj_attemptPhase j = Some CLAIMED \<and> expired e j) (t_printJobs d)"

definition requeued_row :: "print_job \<Rightarrow> print_job" where
  "requeued_row j = j\<lparr>pj_status := PJ_PENDING, pj_attemptPhase := None, pj_leaseId := None,
     pj_leaseExpiresAt := None, pj_lastHeartbeatAt := None\<rparr>"

definition requeue_audit :: "print_job \<Rightarrow> audit_entry" where
  "requeue_audit j = job_audit ''PRINT_JOB_REQUEUED'' (pj_id j) None
     [(''printerId'', JStr (attempt_printer_id j)), (''attemptPhase'', JStr ''CLAIMED''),
      (''reason'', JStr ''LEASE_EXPIRED''), (''attemptCount'', JNum (pj_attemptCount j))]"

definition requeueClaimedExpired :: "print_job \<Rightarrow> db \<Rightarrow> db" where
  "requeueClaimedExpired job d =
     (let (d1, n) = update_job_if (pj_id job) (\<lambda>j. pj_status j = PJ_PROCESSING \<and> pj_attemptPhase j = Some CLAIMED)
            requeued_row d
      in if n = 0 then d1 else add_audit (requeue_audit job) d1)"

definition active_candidates :: "env \<Rightarrow> db \<Rightarrow> print_job list" where
  "active_candidates e d = filter (\<lambda>j. pj_status j = PJ_PROCESSING \<and>
     pj_attemptPhase j \<in> {Some DELIVERING, Some SPOOLED} \<and> expired e j) (t_printJobs d)"

definition abandoned_row :: "env \<Rightarrow> print_job \<Rightarrow> print_job" where
  "abandoned_row e j = j\<lparr>pj_status := PJ_UNRESOLVED, pj_attemptPhase := None, pj_outcomeClass := Some UNCLEAR,
     pj_unresolvedAt := Some (env_now e), pj_unresolvedReason := Some ''LEASE_EXPIRED''\<rparr>"

definition phase_json :: "attempt_phase option \<Rightarrow> json" where
  "phase_json p = jnull (\<lambda>x. JStr (case x of CLAIMED \<Rightarrow> ''CLAIMED'' | DELIVERING \<Rightarrow> ''DELIVERING'' | SPOOLED \<Rightarrow> ''SPOOLED'')) p"

definition unresolveActiveExpired :: "env \<Rightarrow> print_job \<Rightarrow> db \<Rightarrow> db" where
  "unresolveActiveExpired e job d =
     (let (d1, n) = update_job_if (pj_id job) (\<lambda>j. pj_status j = PJ_PROCESSING \<and> pj_attemptPhase j = pj_attemptPhase job)
            (abandoned_row e) d
      in if n = 0 then d1
         else add_audit (unresolved_audit job (Some ''LEASE_EXPIRED'') (phase_json (pj_attemptPhase job))) d1)"

definition sweepExpiredLeases :: "env \<Rightarrow> maintenance_phase \<Rightarrow> db \<Rightarrow> db" where
  "sweepExpiredLeases e phase d =
     (if phase = MP_LOCKED then d
      else let d1 = foldl (\<lambda>s j. requeueClaimedExpired j s) d (requeue_candidates e d)
           in foldl (\<lambda>s j. unresolveActiveExpired e j s) d1 (active_candidates e d1))"

end
