(* ===== verification/VO_Print_Laws.thy ===== *)
theory VO_Print_Laws
  imports VO_PrintJobs
begin

text \<open>
  Laws of the print queue: every operation moves each job along \<open>job_step\<close>, the transitions of the
  source with their guards; the life cycle automaton they refine; the invariant of a job; the runs
  of the queue as the relation \<open>print_step\<close>.
\<close>

section \<open>Who moves a job\<close>

datatype cause = Sale_queues | Worker_claims | Worker_reports | Lease_expires | Person_decides

inductive job_step :: "cause \<Rightarrow> print_job \<Rightarrow> print_job \<Rightarrow> bool" where
  claim: "pj_status j = PJ_PENDING \<Longrightarrow> job_step Worker_claims j (claimed_row lease t j)"
| deliver: "held lease j \<Longrightarrow> pj_attemptPhase j = Some CLAIMED \<Longrightarrow>
     job_step Worker_reports j (j\<lparr>pj_attemptPhase := Some DELIVERING\<rparr>)"
| spool: "held lease j \<Longrightarrow> pj_attemptPhase j = Some DELIVERING \<Longrightarrow>
     job_step Worker_reports j (j\<lparr>pj_attemptPhase := Some SPOOLED, pj_cupsJobId := n\<rparr>)"
| beat: "held lease j \<Longrightarrow> job_step Worker_reports j (j\<lparr>pj_leaseExpiresAt := Some t, pj_lastHeartbeatAt := Some t'\<rparr>)"
| printed: "held lease j \<Longrightarrow> job_step Worker_reports j (printed_row e x j)"
| unclear: "held lease j \<Longrightarrow> job_step Worker_reports j (unresolved_row e x j)"
| failover: "held lease j \<Longrightarrow> pj_failoverCount j = 0 \<Longrightarrow> job_step Worker_reports j (failover_row e c f x j)"
| failed: "held lease j \<Longrightarrow> job_step Worker_reports j (failed_row x j)"
| requeue: "pj_status j = PJ_PROCESSING \<Longrightarrow> pj_attemptPhase j = Some CLAIMED \<Longrightarrow> job_step Lease_expires j (requeued_row j)"
| abandon: "pj_status j = PJ_PROCESSING \<Longrightarrow> pj_attemptPhase j \<in> {Some DELIVERING, Some SPOOLED} \<Longrightarrow>
     job_step Lease_expires j (abandoned_row e j)"
| resolve: "pj_status j = PJ_UNRESOLVED \<Longrightarrow> job_step Person_decides j (resolved_row e input a target j)"
| retry: "pj_status j = PJ_FAILED \<Longrightarrow> job_step Person_decides j (retried_row j)"

inductive_cases job_stepE: "job_step c j j'"

definition moves :: "cause \<Rightarrow> db \<Rightarrow> db \<Rightarrow> bool" where
  "moves c d d' \<longleftrightarrow> list_all2 (\<lambda>j j'. j' = j \<or> job_step c j j') (t_printJobs d) (t_printJobs d')"

lemmas job_rows = claimed_row_def printed_row_def unresolved_row_def failover_row_def failed_row_def
  requeued_row_def abandoned_row_def retried_row_def

lemma resolved_row_simps [simp]:
  "pj_id (resolved_row e x a t j) = pj_id j" "pj_leaseId (resolved_row e x a t j) = pj_leaseId j"
  "pj_attemptPhase (resolved_row e x a t j) = pj_attemptPhase j" "pj_failoverCount (resolved_row e x a t j) = pj_failoverCount j"
  "pj_failoverFromPrinterId (resolved_row e x a t j) = pj_failoverFromPrinterId j"
  "pj_printerId (resolved_row e x a t j) = pj_printerId j" "pj_content (resolved_row e x a t j) = pj_content j"
  "pj_orderId (resolved_row e x a t j) = pj_orderId j" "pj_jobType (resolved_row e x a t j) = pj_jobType j"
  by (simp_all add: resolved_row_def Let_def)

lemma job_step_frame:
  "job_step c j j' \<Longrightarrow> pj_id j' = pj_id j \<and> pj_printerId j' = pj_printerId j \<and> pj_content j' = pj_content j \<and>
     pj_orderId j' = pj_orderId j \<and> pj_jobType j' = pj_jobType j"
  by (erule job_stepE) (simp_all add: job_rows)

lemma moves_refl: "t_printJobs d' = t_printJobs d \<Longrightarrow> moves c d d'"
  by (simp add: moves_def list_all2_refl)

lemma moves_ids: "moves c d d' \<Longrightarrow> map pj_id (t_printJobs d') = map pj_id (t_printJobs d)"
  unfolding moves_def by (induction rule: list_all2_induct) (auto dest: job_step_frame)

lemma moves_update:
  assumes "t_printJobs d' = update_where (\<lambda>j. pj_id j = i \<and> cond j) f (t_printJobs d)"
    and "\<And>j. cond j \<Longrightarrow> job_step c j (f j)"
  shows "moves c d d'"
  using assms by (auto simp: moves_def update_where_def list_all2_map2 intro: list_all2_refl)

lemma update_job_if_fst: "update_job_if i c f d = (d1, n) \<Longrightarrow>
   t_printJobs d1 = update_where (\<lambda>j. pj_id j = i \<and> c j) f (t_printJobs d) \<and> t_printers d1 = t_printers d \<and>
   serial d1 = serial d \<and> n = count_where (\<lambda>j. pj_id j = i \<and> c j) (t_printJobs d)"
  by (auto simp: update_job_if_def)

section \<open>What each operation does to the queue\<close>

lemma claim_moves:
  assumes "claimNextJob e d = Inr (d', r)"
  shows "moves Worker_claims d d' \<and> t_printers d' = t_printers d \<and> serial d' = Suc (serial d)"
proof (cases "oldest_pending (d\<lparr>serial := Suc (serial d)\<rparr>)")
  case None
  with assms show ?thesis by (auto simp: claimNextJob_def Let_def intro: moves_refl)
next
  case (Some j)
  let ?f = "claimed_row (fresh_id e d) (env_now e + LEASE_DURATION_MS)"
  obtain d1 n where u: "update_job_if (pj_id j) (\<lambda>x. pj_status x = PJ_PENDING) ?f (d\<lparr>serial := Suc (serial d)\<rparr>) = (d1, n)"
    by (cases "update_job_if (pj_id j) (\<lambda>x. pj_status x = PJ_PENDING) ?f (d\<lparr>serial := Suc (serial d)\<rparr>)")
  with assms Some have "d' = d1" by (auto simp: claimNextJob_def Let_def bind_res_Inr_iff split: prod.splits)
  with update_job_if_fst [OF u] show ?thesis by (auto intro: moves_update job_step.claim)
qed

lemma transition_moves:
  assumes "transitionPhase e d i lease phase cups = Inr (d', j)"
  shows "moves Worker_reports d d' \<and> t_printers d' = t_printers d \<and> serial d' = serial d"
proof -
  from assms obtain target where t: "map_of VALID_PHASES phase = Some target"
    by (auto simp: transitionPhase_def res_simps)
  let ?from = "if target = DELIVERING then CLAIMED else DELIVERING"
  let ?f = "\<lambda>j. j\<lparr>pj_attemptPhase := Some target, pj_cupsJobId := (if target = SPOOLED then cups else pj_cupsJobId j)\<rparr>"
  obtain d1 n where u: "update_job_if i (in_phase e lease ?from) ?f d = (d1, n)" by (cases "update_job_if i (in_phase e lease ?from) ?f d")
  with assms t have "d' = d1" by (auto simp: transitionPhase_def res_simps Let_def)
  moreover have "target = DELIVERING \<or> target = SPOOLED" using t by (auto simp: VALID_PHASES_def split: if_splits)
  then have "job_step Worker_reports j (?f j)" if "in_phase e lease ?from j" for j
    using that job_step.deliver [of lease j] job_step.spool [of lease j cups]
    by (cases j) (auto simp: in_phase_def)
  ultimately show ?thesis using update_job_if_fst [OF u] by (auto intro!: moves_update)
qed

lemma heartbeat_moves:
  assumes "heartbeat e d i lease = Inr (d', t)"
  shows "moves Worker_reports d d' \<and> t_printers d' = t_printers d \<and> serial d' = serial d"
  using assms by (auto simp: heartbeat_def res_simps update_job_if_def Let_def intro!: moves_update job_step.beat)

lemma record_outcome_frame:
  "recordPrinterOutcome e p c code d = Inr d' \<Longrightarrow> t_printJobs d' = t_printJobs d \<and> serial d' = serial d \<and>
     map pr_id (t_printers d') = map pr_id (t_printers d) \<and>
     map pr_fallbackPrinterId (t_printers d') = map pr_fallbackPrinterId (t_printers d)"
  by (auto simp: recordPrinterOutcome_def res_simps update_where_def)

lemma conflict_frame: "resolveIdempotentOrConflict d i lease sts = Inr (d', j) \<Longrightarrow>
   d' = d \<and> find_job d i = Some j \<and> pj_leaseId j = Some lease \<and> pj_status j \<in> set sts"
  by (auto simp: resolveIdempotentOrConflict_def res_simps split: if_splits)

text \<open>A report either changes the job under the lease or replays the same final state.\<close>

definition reported :: "db \<Rightarrow> db \<Rightarrow> bool" where
  "reported d d' \<longleftrightarrow> moves Worker_reports d d' \<and> serial d' = serial d \<and>
     map pr_id (t_printers d') = map pr_id (t_printers d) \<and>
     map pr_fallbackPrinterId (t_printers d') = map pr_fallbackPrinterId (t_printers d)"

lemma reported_refl: "reported d d"
  by (simp add: reported_def moves_refl)

lemma reported_audit: "reported d (add_audit a d') = reported d d'"
  by (simp add: reported_def moves_def frame_simps)

lemma reported_outcome:
  "reported d d1 \<Longrightarrow> recordPrinterOutcome e p c code d1 = Inr d' \<Longrightarrow> reported d d'"
  by (drule record_outcome_frame) (simp add: reported_def moves_def)

lemma reported_update:
  assumes "update_job_if i cond f d = (d1, n)" and "\<And>j. cond j \<Longrightarrow> job_step Worker_reports j (f j)"
  shows "reported d d1"
  using update_job_if_fst [OF assms(1)] assms(2) by (auto simp: reported_def intro: moves_update)

lemma finalizeAsPrinted_reported:
  assumes "finalizeAsPrinted e d i lease x = Inr (d', j)"
  shows "reported d d'"
proof -
  obtain d1 n where u: "update_job_if i (held lease) (printed_row e x) d = (d1, n)"
    by (cases "update_job_if i (held lease) (printed_row e x) d")
  note r = reported_update [OF u job_step.printed]
  from assms show ?thesis unfolding finalizeAsPrinted_def u
    by (auto simp: res_simps reported_refl split: if_splits dest!: conflict_frame intro: reported_outcome [OF r])
qed

lemma finalizeAsUnresolved_reported:
  assumes "finalizeAsUnresolved e d i lease x = Inr (d', j)"
  shows "reported d d'"
proof -
  obtain d1 n where u: "update_job_if i (held lease) (unresolved_row e x) d = (d1, n)"
    by (cases "update_job_if i (held lease) (unresolved_row e x) d")
  note r = reported_update [OF u job_step.unclear]
  from assms show ?thesis unfolding finalizeAsUnresolved_def u
    by (auto simp: res_simps reported_refl reported_audit r split: if_splits dest!: conflict_frame)
qed

lemma finalizeAsFailed_reported:
  assumes "finalizeAsFailed e d i lease x = Inr (d', j)"
  shows "reported d d'"
proof -
  obtain d1 n where u: "update_job_if i (held lease) (failed_row x) d = (d1, n)"
    by (cases "update_job_if i (held lease) (failed_row x) d")
  note r = reported_update [OF u job_step.failed]
  from assms show ?thesis unfolding finalizeAsFailed_def u
    by (auto simp: res_simps reported_refl reported_audit split: if_splits dest!: conflict_frame intro: reported_outcome [OF r])
qed

lemma tryFailover_reported:
  assumes "tryFailover e d i lease c f x = Inr (Some (d', j))"
  shows "reported d d'"
proof -
  obtain d1 n where u: "update_job_if i (\<lambda>j. held lease j \<and> pj_failoverCount j = 0) (failover_row e c f x) d = (d1, n)"
    by (cases "update_job_if i (\<lambda>j. held lease j \<and> pj_failoverCount j = 0) (failover_row e c f x) d")
  have r: "reported d d1" by (rule reported_update [OF u]) (auto intro: job_step.failover)
  from assms show ?thesis unfolding tryFailover_def u
    by (auto simp: res_simps reported_audit split: if_splits intro: reported_outcome [OF r])
qed

lemma finalizeNotPrinted_reported:
  assumes "finalizeNotPrinted e pre d i lease x = Inr (d', j)"
  shows "reported d d'"
proof -
  from assms obtain cur p where "find_job pre i = Some cur" and "resolveActivePrinter pre cur = Some p"
    by (auto simp: finalizeNotPrinted_def res_simps)
  note unfolded = assms [unfolded finalizeNotPrinted_def, simplified this need_simps bind_res_simps]
  show ?thesis
  proof (cases "failover_target pre cur p x")
    case None
    with unfolded show ?thesis by (auto intro: finalizeAsFailed_reported)
  next
    case (Some f)
    with unfolded obtain applied where t: "tryFailover e d i lease (attempt_printer_id cur) (pr_id f) x = Inr applied"
      and r: "(case applied of Some y \<Rightarrow> Inr y | None \<Rightarrow> resolveIdempotentOrConflict d i lease [PJ_FAILED]) = Inr (d', j)"
      by (auto simp: res_simps)
    show ?thesis
    proof (cases applied)
      case None
      with r show ?thesis by (auto dest: conflict_frame simp: reported_refl)
    next
      case (Some y)
      with r t show ?thesis by (auto intro: tryFailover_reported)
    qed
  qed
qed

lemma report_reported:
  assumes "reportOutcome e pre d i input = Inr (d', j)"
  shows "reported d d'"
proof -
  from assms obtain c where "map_of VALID_OUTCOMES (ri_outcome input) = Some c" and "ri_leaseId input \<noteq> []"
    by (auto simp: reportOutcome_def res_simps)
  with assms show ?thesis
    by (cases c) (auto simp: reportOutcome_def Let_def dest: finalizeAsPrinted_reported finalizeAsUnresolved_reported
        finalizeNotPrinted_reported)
qed

lemma requeue_moves: "moves Lease_expires d (requeueClaimedExpired job d) \<and>
   t_printers (requeueClaimedExpired job d) = t_printers d \<and> serial (requeueClaimedExpired job d) = serial d"
  by (auto simp: requeueClaimedExpired_def update_job_if_def frame_simps intro!: moves_update job_step.requeue)

lemma abandon_moves:
  assumes "pj_attemptPhase job \<in> {Some DELIVERING, Some SPOOLED}"
  shows "moves Lease_expires d (unresolveActiveExpired e job d) \<and>
   t_printers (unresolveActiveExpired e job d) = t_printers d \<and> serial (unresolveActiveExpired e job d) = serial d"
  using assms by (auto simp: unresolveActiveExpired_def update_job_if_def frame_simps intro!: moves_update job_step.abandon)

lemma resolve_moves:
  assumes "resolveJob e pre d i input actor r = Inr (d', j)"
  shows "moves Person_decides d d' \<and> t_printers d' = t_printers d \<and> serial d' = serial d"
  using assms
  by (auto simp: resolveJob_def res_simps update_job_if_def Let_def frame_simps split: if_splits
      intro!: moves_update job_step.resolve)

lemma retry_moves: "moves Person_decides d (fst (retryFailedPrintJobs d)) \<and>
   t_printers (fst (retryFailedPrintJobs d)) = t_printers d \<and> serial (fst (retryFailedPrintJobs d)) = serial d"
  by (auto simp: retryFailedPrintJobs_def moves_def update_where_def list_all2_map2 intro!: list_all2_refl job_step.retry)

section \<open>The life cycle of a job\<close>

text \<open>The abstract machine of a print job: where it is, and who may move it where.\<close>

datatype job_state = Q_Waiting | Q_Reserved | Q_Sending | Q_Spooled | Q_Printed | Q_Failed | Q_Unclear | Q_Dropped

definition job_state :: "print_job \<Rightarrow> job_state" where
  "job_state j = (case pj_status j of
     PJ_PENDING \<Rightarrow> Q_Waiting
   | PJ_PROCESSING \<Rightarrow> (if pj_attemptPhase j = Some DELIVERING then Q_Sending
                      else if pj_attemptPhase j = Some SPOOLED then Q_Spooled else Q_Reserved)
   | PJ_PRINTED \<Rightarrow> Q_Printed | PJ_FAILED \<Rightarrow> Q_Failed | PJ_UNRESOLVED \<Rightarrow> Q_Unclear | PJ_CANCELLED \<Rightarrow> Q_Dropped)"

definition at_worker :: "job_state \<Rightarrow> bool" where
  "at_worker s \<longleftrightarrow> s \<in> {Q_Reserved, Q_Sending, Q_Spooled}"

inductive lifecycle :: "job_state \<Rightarrow> cause \<Rightarrow> job_state \<Rightarrow> bool" where
  reserve: "lifecycle Q_Waiting Worker_claims Q_Reserved"
| send: "lifecycle Q_Reserved Worker_reports Q_Sending"
| spool: "lifecycle Q_Sending Worker_reports Q_Spooled"
| alive: "at_worker s \<Longrightarrow> lifecycle s Worker_reports s"
| finished: "at_worker s \<Longrightarrow> lifecycle s Worker_reports Q_Printed"
| unclear: "at_worker s \<Longrightarrow> lifecycle s Worker_reports Q_Unclear"
| replaced: "at_worker s \<Longrightarrow> lifecycle s Worker_reports Q_Waiting"
| given_up: "at_worker s \<Longrightarrow> lifecycle s Worker_reports Q_Failed"
| expired: "lifecycle Q_Reserved Lease_expires Q_Waiting"
| lost: "s = Q_Sending \<or> s = Q_Spooled \<Longrightarrow> lifecycle s Lease_expires Q_Unclear"
| decided: "s \<in> {Q_Waiting, Q_Printed, Q_Dropped} \<Longrightarrow> lifecycle Q_Unclear Person_decides s"
| retried: "lifecycle Q_Failed Person_decides Q_Waiting"

inductive_cases lifecycle_finalE: "lifecycle Q_Printed c s" "lifecycle Q_Dropped c s"
inductive_cases lifecycle_unclearE: "lifecycle Q_Unclear c s"

lemma held_at_worker: "held lease j \<Longrightarrow> at_worker (job_state j)"
  by (simp add: held_def job_state_def at_worker_def)

lemma job_step_refines: "job_step c j j' \<Longrightarrow> lifecycle (job_state j) c (job_state j')"
proof (induction rule: job_step.induct)
  case (claim j lease t)
  then show ?case by (simp add: job_state_def job_rows lifecycle.reserve)
next
  case (deliver lease j)
  then show ?case by (simp add: job_state_def held_def lifecycle.send)
next
  case (spool lease j n)
  then show ?case by (simp add: job_state_def held_def lifecycle.spool)
next
  case (beat lease j t t')
  have "job_state (j\<lparr>pj_leaseExpiresAt := Some a, pj_lastHeartbeatAt := Some b\<rparr>) = job_state j" for a b
    by (simp add: job_state_def)
  with beat show ?case by (simp add: lifecycle.alive held_at_worker)
next
  case (printed lease j e x)
  have "job_state (printed_row e x j) = Q_Printed" by (simp add: job_state_def job_rows)
  with printed show ?case by (simp add: lifecycle.finished held_at_worker)
next
  case (unclear lease j e x)
  have "job_state (unresolved_row e x j) = Q_Unclear" by (simp add: job_state_def job_rows)
  with unclear show ?case by (simp add: lifecycle.unclear held_at_worker)
next
  case (failover lease j e c f x)
  have "job_state (failover_row e c f x j) = Q_Waiting" by (simp add: job_state_def job_rows)
  with failover show ?case by (simp add: lifecycle.replaced held_at_worker)
next
  case (failed lease j x)
  have "job_state (failed_row x j) = Q_Failed" by (simp add: job_state_def job_rows)
  with failed show ?case by (simp add: lifecycle.given_up held_at_worker)
next
  case (requeue j)
  then show ?case by (simp add: job_state_def job_rows lifecycle.expired)
next
  case (abandon j e)
  then show ?case by (auto simp: job_state_def job_rows intro: lifecycle.lost)
next
  case (resolve j e input a target)
  then show ?case by (auto simp: job_state_def resolved_row_def Let_def intro: lifecycle.decided)
next
  case (retry j)
  then show ?case by (simp add: job_state_def job_rows lifecycle.retried)
qed

section \<open>The invariant of a job\<close>

definition job_ok :: "print_job \<Rightarrow> bool" where
  "job_ok j \<longleftrightarrow> (pj_attemptPhase j \<noteq> None \<longleftrightarrow> pj_status j = PJ_PROCESSING) \<and>
     pj_failoverCount j \<in> {0, 1} \<and>
     (pj_failoverCount j = 1 \<longrightarrow> pj_failoverFromPrinterId j \<noteq> None \<and> pj_activePrinterId j \<noteq> None) \<and>
     (pj_status j = PJ_PROCESSING \<longrightarrow> pj_leaseId j \<noteq> None \<and> pj_leaseExpiresAt j \<noteq> None) \<and>
     (pj_status j = PJ_PRINTED \<longrightarrow> pj_deliveredAt j \<noteq> None) \<and>
     (pj_status j = PJ_UNRESOLVED \<longrightarrow> pj_unresolvedAt j \<noteq> None \<and> pj_unresolvedReason j \<noteq> None) \<and>
     (pj_status j = PJ_CANCELLED \<longrightarrow> pj_resolvedByUserId j \<noteq> None)"

lemma job_step_ok: "job_step c j j' \<Longrightarrow> job_ok j \<Longrightarrow> job_ok j'"
  by (erule job_stepE) (auto simp: job_ok_def job_rows held_def resolved_row_def Let_def split: option.splits)

text \<open>A freshly queued job.\<close>

definition new_job :: "print_job \<Rightarrow> bool" where
  "new_job j \<longleftrightarrow> pj_status j = PJ_PENDING \<and> pj_attemptPhase j = None \<and> pj_leaseId j = None \<and> pj_failoverCount j = 0"

definition enqueued :: "env \<Rightarrow> db \<Rightarrow> db \<Rightarrow> bool" where
  "enqueued e d d' \<longleftrightarrow> serial d' = Suc (serial d) \<and>
     (\<exists>j. t_printJobs d' = t_printJobs d @ [j] \<and> pj_id j = fresh_id e d \<and> new_job j)"

lemma create_order_print_job_enqueued:
  "enqueued e d (create_order_print_job (e\<lparr>env_now := t\<rparr>) p ty oid content d)"
  by (simp add: enqueued_def create_order_print_job_def new_print_job_def new_job_def fresh_id_def)

section \<open>Runs of the queue\<close>

text \<open>
  One step at any time \<open>t\<close>, by any caller with any arguments; \<open>pre\<close> and \<open>job\<close> are whatever the
  handler read before, however stale.
\<close>

inductive print_step :: "env \<Rightarrow> db \<Rightarrow> cause \<Rightarrow> db \<Rightarrow> bool" for e where
  queue: "enqueued e d d' \<Longrightarrow> print_step e d Sale_queues d'"
| claim: "claimNextJob (e\<lparr>env_now := t\<rparr>) d = Inr (d', r) \<Longrightarrow> print_step e d Worker_claims d'"
| phase: "transitionPhase (e\<lparr>env_now := t\<rparr>) d i lease ph cups = Inr (d', j) \<Longrightarrow> print_step e d Worker_reports d'"
| beat: "heartbeat (e\<lparr>env_now := t\<rparr>) d i lease = Inr (d', ex) \<Longrightarrow> print_step e d Worker_reports d'"
| report: "reportOutcome (e\<lparr>env_now := t\<rparr>) pre d i input = Inr (d', j) \<Longrightarrow> print_step e d Worker_reports d'"
| requeue: "print_step e d Lease_expires (requeueClaimedExpired job d)"
| abandon: "pj_attemptPhase job \<in> {Some DELIVERING, Some SPOOLED} \<Longrightarrow>
     print_step e d Lease_expires (unresolveActiveExpired (e\<lparr>env_now := t\<rparr>) job d)"
| resolve: "resolveJob (e\<lparr>env_now := t\<rparr>) pre d i rinput actor r = Inr (d', j) \<Longrightarrow> print_step e d Person_decides d'"
| retry: "print_step e d Person_decides (fst (retryFailedPrintJobs d))"

inductive print_run :: "env \<Rightarrow> db \<Rightarrow> db \<Rightarrow> bool" for e where
  start: "print_run e d d"
| step: "print_run e d d1 \<Longrightarrow> print_step e d1 c d2 \<Longrightarrow> print_run e d d2"

lemma print_step_moves:
  "print_step e d c d' \<Longrightarrow> (c = Sale_queues \<and> enqueued e d d') \<or> (moves c d d' \<and> serial d \<le> serial d')"
  by (induction rule: print_step.induct)
     (auto simp: reported_def requeue_moves abandon_moves retry_moves
       dest: claim_moves transition_moves heartbeat_moves report_reported resolve_moves)

lemma print_step_row:
  assumes "print_step e d c d'" and "k < length (t_printJobs d)"
  shows "k < length (t_printJobs d') \<and>
    (t_printJobs d' ! k = t_printJobs d ! k \<or> job_step c (t_printJobs d ! k) (t_printJobs d' ! k))"
  using print_step_moves [OF assms(1)] assms(2)
  by (auto simp: enqueued_def moves_def list_all2_conv_all_nth nth_append)

lemma print_step_jobs:
  assumes "print_step e d c d'" and "j' \<in> set (t_printJobs d')"
  shows "new_job j' \<or> (\<exists>j \<in> set (t_printJobs d). j' = j \<or> job_step c j j')"
  using print_step_moves [OF assms(1)] assms(2)
  by (auto simp: enqueued_def moves_def dest: list_all2_right)

lemma new_job_ok: "new_job j \<Longrightarrow> job_ok j"
  by (simp add: new_job_def job_ok_def)

lemma print_step_ok:
  assumes "print_step e d c d'" and "\<forall>j \<in> set (t_printJobs d). job_ok j"
  shows "\<forall>j \<in> set (t_printJobs d'). job_ok j"
  using print_step_jobs [OF assms(1)] assms(2) job_step_ok new_job_ok by blast

lemma print_run_ok:
  "print_run e d d' \<Longrightarrow> \<forall>j \<in> set (t_printJobs d). job_ok j \<Longrightarrow> \<forall>j \<in> set (t_printJobs d'). job_ok j"
  by (induction rule: print_run.induct) (blast dest: print_step_ok)+

text \<open>Facts about one job along a run: what every \<open>job_step\<close> keeps holds at the end.\<close>

lemma print_run_row:
  assumes "print_run e d d'" and "k < length (t_printJobs d)" and "P (t_printJobs d ! k)"
    and "\<And>c j j'. job_step c j j' \<Longrightarrow> P j \<Longrightarrow> P j'"
  shows "k < length (t_printJobs d') \<and> P (t_printJobs d' ! k)"
  using assms(1,2,3)
proof (induction rule: print_run.induct)
  case (start d)
  then show ?case by simp
next
  case (step d d1 c d2)
  then show ?case using print_step_row [OF step.hyps(2)] assms(4) by metis
qed

section \<open>Conditional updates by id\<close>

lemma update_hit:
  assumes "find_job d i = Some j" and "c j" and "\<And>x. pj_id (f x) = pj_id x" and "update_job_if i c f d = (d1, n)"
  shows "find_job d1 i = Some (f j) \<and> n \<noteq> 0 \<and> t_printers d1 = t_printers d"
proof -
  note U = update_job_if_fst [OF assms(4)]
  from assms(1) have j: "j \<in> set (t_printJobs d)" "pj_id j = i" by (auto simp: find_job_def dest: find_Some_mem)
  have "find (\<lambda>x. pj_id x = i) (update_where (\<lambda>x. pj_id x = i \<and> c x) f (t_printJobs d)) = Some (f j)"
    using assms(1,2) j by (subst find_update_where) (auto simp: assms(3) find_job_def)
  moreover have "count_where (\<lambda>x. pj_id x = i \<and> c x) (t_printJobs d) \<noteq> 0"
    using j assms(2) by (auto simp: count_where_0_iff)
  ultimately show ?thesis using U by (simp add: find_job_def)
qed

lemma update_miss:
  assumes "find_job d i = Some j" and "distinct (map pj_id (t_printJobs d))" and "\<not> c j"
    and "update_job_if i c f d = (d1, n)"
  shows "n = 0"
proof -
  have "x = j" if "x \<in> set (t_printJobs d)" "pj_id x = i" for x
    using find_distinct_key [OF assms(2) that(1)] assms(1) that(2) by (simp add: find_job_def)
  with assms(3) update_job_if_fst [OF assms(4)] show ?thesis by (auto simp: count_where_0_iff)
qed

text \<open>A call under a lease that does not hold the job hits no row; a report falls through to the replay check.\<close>

lemma stale_update:
  assumes "find_job d i = Some j" and "distinct (map pj_id (t_printJobs d))" and "\<not> held lease j"
    and "update_job_if i c f d = (d1, n)" and "\<And>x. c x \<Longrightarrow> held lease x"
  shows "n = 0"
  using update_miss [OF assms(1,2) _ assms(4)] assms(3,5) by blast

lemma stale_phase:
  assumes "find_job d i = Some j" and "distinct (map pj_id (t_printJobs d))" and "\<not> held lease j"
  shows "\<exists>err. transitionPhase e d i lease ph cups = Inl err"
proof (rule ccontr)
  assume "\<not> ?thesis"
  then obtain y where y: "transitionPhase e d i lease ph cups = Inr y" by (metis sum.exhaust)
  then obtain x where x: "map_of VALID_PHASES ph = Some x" by (auto simp: transitionPhase_def res_simps)
  let ?c = "in_phase e lease (if x = DELIVERING then CLAIMED else DELIVERING)"
  let ?f = "\<lambda>j. j\<lparr>pj_attemptPhase := Some x, pj_cupsJobId := (if x = SPOOLED then cups else pj_cupsJobId j)\<rparr>"
  obtain d1 n where u: "update_job_if i ?c ?f d = (d1, n)" by (cases "update_job_if i ?c ?f d")
  have "n = 0" by (rule stale_update [OF assms u]) (simp add: in_phase_def)
  with x y u show False by (auto simp: transitionPhase_def res_simps Let_def)
qed

lemma stale_heartbeat:
  assumes "find_job d i = Some j" and "distinct (map pj_id (t_printJobs d))" and "\<not> held lease j"
  shows "\<exists>err. heartbeat e d i lease = Inl err"
proof (rule ccontr)
  assume "\<not> ?thesis"
  then obtain y where y: "heartbeat e d i lease = Inr y" by (metis sum.exhaust)
  let ?f = "\<lambda>j. j\<lparr>pj_leaseExpiresAt := Some (env_now e + LEASE_DURATION_MS), pj_lastHeartbeatAt := Some (env_now e)\<rparr>"
  obtain d1 n where u: "update_job_if i (held lease) ?f d = (d1, n)" by (cases "update_job_if i (held lease) ?f d")
  have "n = 0" by (rule stale_update [OF assms u])
  with y u show False by (auto simp: heartbeat_def res_simps Let_def)
qed

lemma stale_report:
  assumes "find_job d i = Some j" and "distinct (map pj_id (t_printJobs d))" and "\<not> held (ri_leaseId input) j"
    and "reportOutcome e pre d i input = Inr (d', j')"
  shows "\<exists>st \<in> {PJ_PRINTED, PJ_UNRESOLVED, PJ_FAILED}. resolveIdempotentOrConflict d i (ri_leaseId input) [st] = Inr (d', j')"
proof -
  let ?l = "ri_leaseId input"
  note none = stale_update [OF assms(1-3)]
  have p: "finalizeAsPrinted e d i ?l x = resolveIdempotentOrConflict d i ?l [PJ_PRINTED]"
    and u: "finalizeAsUnresolved e d i ?l x = resolveIdempotentOrConflict d i ?l [PJ_UNRESOLVED]"
    and f: "finalizeAsFailed e d i ?l x = resolveIdempotentOrConflict d i ?l [PJ_FAILED]"
    and t: "tryFailover e d i ?l c b x = Inr None" for x c b
    unfolding finalizeAsPrinted_def finalizeAsUnresolved_def finalizeAsFailed_def tryFailover_def
    by (auto split: prod.split dest: none)
  have n: "\<exists>st \<in> {PJ_FAILED}. resolveIdempotentOrConflict d i ?l [st] = Inr (d', j')"
    if "finalizeNotPrinted e pre d i ?l x = Inr (d', j')" for x
    using that by (auto simp: finalizeNotPrinted_def res_simps f t split: option.splits)
  from assms(4) obtain c where "map_of VALID_OUTCOMES (ri_outcome input) = Some c" and "?l \<noteq> []"
    by (auto simp: reportOutcome_def res_simps)
  with assms(4) n show ?thesis by (cases c) (auto simp: reportOutcome_def Let_def p u)
qed

lemma printer_recorded:
  assumes "find_printer d i = Some p"
  shows "map_option pr_lastOkAt (find_printer (d\<lparr>t_printers := update_where (\<lambda>p. pr_id p = i)
     (\<lambda>p. p\<lparr>pr_lastOkAt := Some (env_now e)\<rparr>) (t_printers d)\<rparr>) i) = Some (Some (env_now e))"
proof -
  have "pr_id p = i" using assms by (auto simp: find_printer_def dest: find_Some_mem)
  then show ?thesis using assms by (simp add: find_printer_def) (subst find_update_where, auto)
qed

lemma oldest_pending_Some:
  assumes "oldest_pending d = Some j"
  shows "j \<in> set (t_printJobs d) \<and> pj_status j = PJ_PENDING \<and>
    (\<forall>k \<in> set (t_printJobs d). pj_status k = PJ_PENDING \<longrightarrow> pj_createdAt j \<le> pj_createdAt k)"
proof -
  let ?w = "filter (\<lambda>j. pj_status j = PJ_PENDING) (t_printJobs d)"
  obtain rest where s: "sort_key pj_createdAt ?w = j # rest"
    using assms by (auto simp: oldest_pending_def split: list.splits)
  have "set (j # rest) = set ?w" using s by (metis set_sort)
  moreover have "sorted (map pj_createdAt (j # rest))" using s by (metis sorted_sort_key)
  ultimately show ?thesis by auto
qed

lemma oldest_pending_None: "oldest_pending d = None \<longleftrightarrow> (\<forall>k \<in> set (t_printJobs d). pj_status k \<noteq> PJ_PENDING)"
proof -
  let ?w = "filter (\<lambda>j. pj_status j = PJ_PENDING) (t_printJobs d)"
  have "oldest_pending d = None \<longleftrightarrow> sort_key pj_createdAt ?w = []" by (simp add: oldest_pending_def split: list.split)
  also have "\<dots> \<longleftrightarrow> ?w = []" by (metis set_empty set_sort)
  finally show ?thesis by (simp add: filter_empty_conv)
qed

lemma oldest_pending_serial [simp]: "oldest_pending (d\<lparr>serial := n\<rparr>) = oldest_pending d"
  by (simp add: oldest_pending_def)

lemma find_job_mem: "distinct (map pj_id (t_printJobs d)) \<Longrightarrow> j \<in> set (t_printJobs d) \<Longrightarrow> find_job d (pj_id j) = Some j"
  by (simp add: find_job_def find_distinct_key)

text \<open>A claim in full: the state, the claimed row and its printer.\<close>

lemma claim_effect:
  assumes "distinct (map pj_id (t_printJobs d))" and "oldest_pending d = Some j"
  shows "\<exists>d1. claimNextJob e d = bind_res (need (resolveActivePrinter d j) (TypeError ''printer''))
      (\<lambda>p. Inr (d1, Some (claimed_row (fresh_id e d) (env_now e + LEASE_DURATION_MS) j, p))) \<and>
    t_printJobs d1 = update_where (\<lambda>x. pj_id x = pj_id j) (claimed_row (fresh_id e d) (env_now e + LEASE_DURATION_MS)) (t_printJobs d) \<and>
    t_printers d1 = t_printers d \<and>
    find_job d1 (pj_id j) = Some (claimed_row (fresh_id e d) (env_now e + LEASE_DURATION_MS) j)"
proof -
  let ?f = "claimed_row (fresh_id e d) (env_now e + LEASE_DURATION_MS)" and ?d0 = "d\<lparr>serial := Suc (serial d)\<rparr>"
  from oldest_pending_Some [OF assms(2)] have j: "j \<in> set (t_printJobs d)" "pj_status j = PJ_PENDING" by simp_all
  obtain d1 n where u: "update_job_if (pj_id j) (\<lambda>x. pj_status x = PJ_PENDING) ?f ?d0 = (d1, n)"
    by (cases "update_job_if (pj_id j) (\<lambda>x. pj_status x = PJ_PENDING) ?f ?d0")
  have f: "find_job ?d0 (pj_id j) = Some j" using find_job_mem [OF assms(1) j(1)] by (simp add: find_job_def)
  have hit: "find_job d1 (pj_id j) = Some (?f j) \<and> n \<noteq> 0 \<and> t_printers d1 = t_printers ?d0"
    by (rule update_hit [OF f _ _ u]) (simp_all add: j claimed_row_def)
  have "(pj_id x = pj_id j \<and> pj_status x = PJ_PENDING) = (pj_id x = pj_id j)" if "x \<in> set (t_printJobs d)" for x
    using assms(1) j that by (metis find_distinct_key option.inject)
  then have jobs: "t_printJobs d1 = update_where (\<lambda>x. pj_id x = pj_id j) ?f (t_printJobs d)"
    using update_job_if_fst [OF u] by (auto simp: update_where_def)
  have "resolveActivePrinter d1 (?f j) = resolveActivePrinter d j"
  proof -
    have "find_printer d1 = find_printer d" using hit by (simp add: find_printer_def fun_eq_iff)
    then show ?thesis by (simp add: resolveActivePrinter_def claimed_row_def split: option.split)
  qed
  then have "claimNextJob e d = bind_res (need (resolveActivePrinter d j) (TypeError ''printer'')) (\<lambda>p. Inr (d1, Some (?f j, p)))"
    using assms(2) u hit by (simp add: claimNextJob_def Let_def)
  with jobs hit show ?thesis by auto
qed

section \<open>A sweep in one pass\<close>

definition swept :: "env \<Rightarrow> print_job \<Rightarrow> print_job" where
  "swept e j = (if pj_status j = PJ_PROCESSING \<and> expired e j
     then (if pj_attemptPhase j = Some CLAIMED then requeued_row j else abandoned_row e j) else j)"

definition claimed_ids :: "id set \<Rightarrow> print_job \<Rightarrow> bool" where
  "claimed_ids I j \<longleftrightarrow> pj_id j \<in> I \<and> pj_status j = PJ_PROCESSING \<and> pj_attemptPhase j = Some CLAIMED"

lemma requeue_loop:
  "t_printJobs (foldl (\<lambda>s j. requeueClaimedExpired j s) d cs) =
     update_where (claimed_ids (pj_id ` set cs)) requeued_row (t_printJobs d) \<and>
   t_printers (foldl (\<lambda>s j. requeueClaimedExpired j s) d cs) = t_printers d"
proof (induction cs arbitrary: d)
  case Nil
  then show ?case by (simp add: update_where_def claimed_ids_def)
next
  case (Cons c cs)
  have "t_printJobs (requeueClaimedExpired c d) = update_where (claimed_ids {pj_id c}) requeued_row (t_printJobs d)"
    by (auto simp: requeueClaimedExpired_def update_job_if_def frame_simps claimed_ids_def update_where_def)
  then show ?case using Cons [of "requeueClaimedExpired c d"] requeue_moves [of d c]
    by (auto simp: update_where_def claimed_ids_def requeued_row_def)
qed

definition active_keys :: "(id \<times> attempt_phase option) set \<Rightarrow> print_job \<Rightarrow> bool" where
  "active_keys I j \<longleftrightarrow> (pj_id j, pj_attemptPhase j) \<in> I \<and> pj_status j = PJ_PROCESSING"

lemma abandon_loop:
  "t_printJobs (foldl (\<lambda>s j. unresolveActiveExpired e j s) d cs) =
     update_where (active_keys ((\<lambda>c. (pj_id c, pj_attemptPhase c)) ` set cs)) (abandoned_row e) (t_printJobs d) \<and>
   t_printers (foldl (\<lambda>s j. unresolveActiveExpired e j s) d cs) = t_printers d"
proof (induction cs arbitrary: d)
  case Nil
  then show ?case by (simp add: update_where_def active_keys_def)
next
  case (Cons c cs)
  have "t_printJobs (unresolveActiveExpired e c d) = update_where (active_keys {(pj_id c, pj_attemptPhase c)}) (abandoned_row e) (t_printJobs d)"
    by (auto simp: unresolveActiveExpired_def update_job_if_def frame_simps active_keys_def update_where_def)
  moreover have "t_printers (unresolveActiveExpired e c d) = t_printers d"
    by (auto simp: unresolveActiveExpired_def update_job_if_def frame_simps)
  ultimately show ?case using Cons [of "unresolveActiveExpired e c d"]
    by (auto simp: update_where_def active_keys_def abandoned_row_def)
qed

lemma update_where_cong: "(\<And>j. j \<in> set rows \<Longrightarrow> c j = c' j) \<Longrightarrow> update_where c f rows = update_where c' f rows"
  by (auto simp: update_where_def)

lemma sweep_effect:
  assumes ids: "distinct (map pj_id (t_printJobs d))" and ok: "\<forall>j \<in> set (t_printJobs d). job_ok j" and "phase \<noteq> MP_LOCKED"
  shows "t_printJobs (sweepExpiredLeases e phase d) = map (swept e) (t_printJobs d) \<and>
    t_printers (sweepExpiredLeases e phase d) = t_printers d"
proof -
  define claimed where "claimed = (\<lambda>j. pj_status j = PJ_PROCESSING \<and> pj_attemptPhase j = Some CLAIMED \<and> expired e j)"
  define active where "active = (\<lambda>j. pj_status j = PJ_PROCESSING \<and> pj_attemptPhase j \<in> {Some DELIVERING, Some SPOOLED} \<and> expired e j)"
  define d1 where "d1 = foldl (\<lambda>s j. requeueClaimedExpired j s) d (requeue_candidates e d)"
  have same: "x = y" if "x \<in> set rows" "y \<in> set rows" "pj_id x = pj_id y" "distinct (map pj_id rows)" for x y rows
    using that by (metis find_distinct_key option.inject)
  have "claimed_ids (pj_id ` set (requeue_candidates e d)) j = claimed j" if "j \<in> set (t_printJobs d)" for j
    using that same [OF _ _ _ ids] by (auto simp: claimed_ids_def claimed_def requeue_candidates_def)
  then have j1: "t_printJobs d1 = update_where claimed requeued_row (t_printJobs d)"
    using requeue_loop [of d "requeue_candidates e d"] by (auto simp: d1_def intro: update_where_cong)
  have "map pj_id (t_printJobs d1) = map pj_id (t_printJobs d)"
    unfolding j1 by (rule map_update_where_frame) (simp add: requeued_row_def)
  then have ids1: "distinct (map pj_id (t_printJobs d1))" using ids by simp
  have "active_keys ((\<lambda>c. (pj_id c, pj_attemptPhase c)) ` set (active_candidates e d1)) j = active j" if "j \<in> set (t_printJobs d1)" for j
    using that same [OF _ _ _ ids1] by (auto simp: active_keys_def active_def active_candidates_def)
  then have "t_printJobs (sweepExpiredLeases e phase d) = update_where active (abandoned_row e) (t_printJobs d1)"
    using abandon_loop [of e d1 "active_candidates e d1"] assms(3)
    by (auto simp: sweepExpiredLeases_def Let_def d1_def [symmetric] intro: update_where_cong)
  also have "\<dots> = map (swept e) (t_printJobs d)"
  proof -
    have "(if active j' then abandoned_row e j' else j') = swept e j"
      if "j \<in> set (t_printJobs d)" "j' = (if claimed j then requeued_row j else j)" for j j'
      using that ok by (cases "pj_attemptPhase j"; cases "the (pj_attemptPhase j)")
        (auto simp: swept_def claimed_def active_def requeued_row_def job_ok_def)
    then show ?thesis unfolding j1 by (simp add: update_where_def)
  qed
  finally show ?thesis using requeue_loop abandon_loop assms(3) by (simp add: sweepExpiredLeases_def Let_def)
qed

end
