(* ===== verification/VO_Printers.thy ===== *)
theory VO_Printers
  imports VO_PrintJobs
begin

text \<open>
  The administration of printers, \<^verbatim>\<open>apps/backend/src/print-jobs/print-jobs.service.ts\<close>: the checks of the
  input, creating and updating a printer, the assignment of a replacement printer and the test print. A field of
  the input is \<open>None\<close> when it is \<^verbatim>\<open>undefined\<close>; where the source also admits \<^verbatim>\<open>null\<close>, that is \<open>Some None\<close>.
\<close>

section \<open>Input\<close>

record printer_input =
  pin_name :: "string option"
  pin_type :: "string option"
  pin_ipAddress :: "string option option"
  pin_port :: "int option option"
  pin_isActive :: "bool option"
  pin_paperWidth :: "int option"
  pin_codepage :: "string option"
  pin_codepageProfile :: "string option"
  pin_cutMode :: "string option"
  pin_copies :: "int option"
  pin_timeoutMs :: "int option"
  pin_queueName :: "string option option"
  pin_fallbackPrinterId :: "id option option"

definition no_input :: printer_input where
  "no_input = \<lparr>pin_name = None, pin_type = None, pin_ipAddress = None, pin_port = None, pin_isActive = None,
     pin_paperWidth = None, pin_codepage = None, pin_codepageProfile = None, pin_cutMode = None, pin_copies = None,
     pin_timeoutMs = None, pin_queueName = None, pin_fallbackPrinterId = None\<rparr>"

definition SUPPORTED_PRINTER_TYPES :: "string list" where
  "SUPPORTED_PRINTER_TYPES = [''CONSOLE'', ''ESC_POS_NETWORK'', ''CUPS_IPP'']"

definition SUPPORTED_PAPER_WIDTHS :: "int list" where
  "SUPPORTED_PAPER_WIDTHS = [58, 80]"

definition SUPPORTED_CODEPAGES :: "string list" where
  "SUPPORTED_CODEPAGES = [''CP437'', ''CP850'', ''CP858'']"

definition SUPPORTED_CODEPAGE_PROFILES :: "string list" where
  "SUPPORTED_CODEPAGE_PROFILES = [''EPSON_STANDARD'', ''MUNBYN_CLONE'']"

definition SUPPORTED_CUT_MODES :: "string list" where
  "SUPPORTED_CUT_MODES = [''NONE'', ''PARTIAL'', ''FULL'']"

definition CUPS_DEFAULT_PORT :: int where
  "CUPS_DEFAULT_PORT = 631"

definition name_char :: "char \<Rightarrow> bool" where
  "name_char c \<longleftrightarrow> in_chars CHR ''A'' CHR ''Z'' c \<or> in_chars CHR ''a'' CHR ''z'' c \<or> in_chars CHR ''0'' CHR ''9'' c \<or>
     c = CHR ''_'' \<or> c = CHR ''-''"

definition HOST_PATTERN :: "string \<Rightarrow> bool" where
  "HOST_PATTERN s \<longleftrightarrow> s \<noteq> [] \<and> list_all (\<lambda>c. name_char c \<or> c = CHR ''.'') s"

definition QUEUE_NAME_PATTERN :: "string \<Rightarrow> bool" where
  "QUEUE_NAME_PATTERN s \<longleftrightarrow> s \<noteq> [] \<and> list_all name_char s"

section \<open>Checking the input\<close>

definition sanitize_name :: "printer_input \<Rightarrow> bool \<Rightarrow> printer_input \<Rightarrow> api_error + printer_input" where
  "sanitize_name data partial v =
     (if pin_name data \<noteq> None \<or> \<not> partial then
        bind_res (need (pin_name data) (BadRequest ''NAME_TEXT'')) (\<lambda>n.
        bind_res (ensure (js_trim n \<noteq> []) (BadRequest ''NAME_EMPTY'')) (\<lambda>_.
        Inr (v\<lparr>pin_name := Some (js_trim n)\<rparr>)))
      else Inr v)"

definition sanitize_type :: "printer_input \<Rightarrow> bool \<Rightarrow> printer_input \<Rightarrow> api_error + printer_input" where
  "sanitize_type data partial v =
     (let provided = map_option js_upper (pin_type data)
      in if provided \<noteq> None \<or> \<not> partial then
           bind_res (ensure (case provided of None \<Rightarrow> False | Some t \<Rightarrow> t \<in> set SUPPORTED_PRINTER_TYPES) (BadRequest ''TYPE''))
             (\<lambda>_. Inr (v\<lparr>pin_type := provided\<rparr>))
         else Inr v)"

definition effective_type :: "printer_input \<Rightarrow> string option \<Rightarrow> string" where
  "effective_type data existing = (case pin_type data of Some t \<Rightarrow> js_upper t
     | None \<Rightarrow> js_upper (case existing of None \<Rightarrow> [] | Some t \<Rightarrow> t))"

definition network_transport :: "printer_input \<Rightarrow> printer_input \<Rightarrow> api_error + printer_input" where
  "network_transport data v =
     (if pin_type data \<noteq> None \<or> pin_ipAddress data \<noteq> None then
        bind_res (need (Option.bind (pin_ipAddress data) id) (BadRequest ''IP_TEXT'')) (\<lambda>h.
        bind_res (ensure (js_trim h \<noteq> []) (BadRequest ''IP_EMPTY'')) (\<lambda>_.
        bind_res (ensure (HOST_PATTERN (js_trim h)) (BadRequest ''IP_FORMAT'')) (\<lambda>_.
        Inr (v\<lparr>pin_ipAddress := Some (Some (js_trim h))\<rparr>))))
      else Inr v)"

definition cups_transport :: "printer_input \<Rightarrow> bool \<Rightarrow> printer_input \<Rightarrow> api_error + printer_input" where
  "cups_transport data partial v =
     bind_res (case pin_ipAddress data of
         None \<Rightarrow> Inr v
       | Some a \<Rightarrow> (let host = (case a of None \<Rightarrow> [] | Some h \<Rightarrow> js_trim h) in
           if host = [] then Inr (v\<lparr>pin_ipAddress := Some None\<rparr>)
           else if \<not> HOST_PATTERN host then Inl (BadRequest ''IP_FORMAT'')
           else Inr (v\<lparr>pin_ipAddress := Some (Some host)\<rparr>))) (\<lambda>v1.
     if pin_type data \<noteq> None \<or> pin_queueName data \<noteq> None \<or> \<not> partial then
       bind_res (need (Option.bind (pin_queueName data) id) (BadRequest ''QUEUE_TEXT'')) (\<lambda>q.
       bind_res (ensure (js_trim q \<noteq> []) (BadRequest ''QUEUE_EMPTY'')) (\<lambda>_.
       bind_res (ensure (QUEUE_NAME_PATTERN (js_trim q)) (BadRequest ''QUEUE_FORMAT'')) (\<lambda>_.
       Inr (v1\<lparr>pin_queueName := Some (Some (js_trim q))\<rparr>))))
     else Inr v1)"

definition no_transport :: "printer_input \<Rightarrow> printer_input \<Rightarrow> printer_input" where
  "no_transport data v = v\<lparr>pin_ipAddress := (if pin_ipAddress data \<noteq> None then Some None else pin_ipAddress v),
     pin_queueName := (if pin_queueName data \<noteq> None then Some None else pin_queueName v)\<rparr>"

definition expectRange :: "int \<Rightarrow> int \<Rightarrow> int \<Rightarrow> api_error + int" where
  "expectRange lo hi x = bind_res (ensure (\<not> (x < lo \<or> x > hi)) (BadRequest ''RANGE'')) (\<lambda>_. Inr x)"

text \<open>A field that is given is checked and kept, one that is not given stays out.\<close>

definition when_given :: "'a option \<Rightarrow> ('a \<Rightarrow> api_error + 'b) \<Rightarrow> api_error + 'b option" where
  "when_given x f = (case x of None \<Rightarrow> Inr None | Some a \<Rightarrow> bind_res (f a) (\<lambda>b. Inr (Some b)))"

definition one_of :: "string list \<Rightarrow> string \<Rightarrow> api_error + string" where
  "one_of allowed s = bind_res (ensure (js_upper s \<in> set allowed) (BadRequest ''CHOICE'')) (\<lambda>_. Inr (js_upper s))"

definition sanitize_numbers :: "printer_input \<Rightarrow> printer_input \<Rightarrow> api_error + printer_input" where
  "sanitize_numbers data v =
     bind_res (when_given (Option.bind (pin_port data) id) (expectRange 1 65535)) (\<lambda>port.
     bind_res (when_given (pin_copies data) (expectRange 1 9)) (\<lambda>copies.
     bind_res (when_given (pin_timeoutMs data) (expectRange 250 120000)) (\<lambda>timeout.
     Inr (v\<lparr>pin_port := map_option Some port, pin_copies := copies, pin_timeoutMs := timeout\<rparr>))))"

definition sanitize_format :: "printer_input \<Rightarrow> printer_input \<Rightarrow> api_error + printer_input" where
  "sanitize_format data v =
     bind_res (when_given (pin_paperWidth data) (\<lambda>w. bind_res
        (ensure (w \<in> set SUPPORTED_PAPER_WIDTHS) (BadRequest ''PAPER_WIDTH'')) (\<lambda>_. Inr w))) (\<lambda>width.
     bind_res (when_given (pin_codepage data) (one_of SUPPORTED_CODEPAGES)) (\<lambda>codepage.
     bind_res (when_given (pin_codepageProfile data) (one_of SUPPORTED_CODEPAGE_PROFILES)) (\<lambda>profile.
     bind_res (when_given (pin_cutMode data) (one_of SUPPORTED_CUT_MODES)) (\<lambda>cut.
     Inr (v\<lparr>pin_paperWidth := width, pin_codepage := codepage, pin_codepageProfile := profile,
            pin_cutMode := cut, pin_isActive := pin_isActive data\<rparr>)))))"

definition sanitizePrinter :: "printer_input \<Rightarrow> bool \<Rightarrow> string option \<Rightarrow> api_error + printer_input" where
  "sanitizePrinter data partial existing =
     bind_res (sanitize_name data partial no_input) (\<lambda>v1.
     bind_res (sanitize_type data partial v1) (\<lambda>v2.
     let ty = effective_type data existing in
     bind_res (if ty = ''ESC_POS_NETWORK'' then network_transport data v2
               else if ty = ''CUPS_IPP'' then cups_transport data partial v2
               else Inr (no_transport data v2)) (\<lambda>v3.
     bind_res (sanitize_numbers data v3) (\<lambda>v4.
     bind_res (sanitize_format data v4) (\<lambda>v5.
     Inr (if ty = ''CUPS_IPP'' \<and> \<not> partial \<and> pin_port v5 = None
          then v5\<lparr>pin_port := Some (Some CUPS_DEFAULT_PORT)\<rparr> else v5))))))"

section \<open>The replacement printer\<close>

definition assertFallbackAssignmentAllowed :: "db \<Rightarrow> id option \<Rightarrow> id option \<Rightarrow> api_error + unit" where
  "assertFallbackAssignmentAllowed d printerId fallback =
     (case truthy fallback of
        None \<Rightarrow> Inr ()
      | Some f \<Rightarrow>
          bind_res (ensure (truthy printerId \<noteq> Some f) (BadRequest ''OWN_FALLBACK'')) (\<lambda>_.
          bind_res (need (find_printer d f) (BadRequest ''FALLBACK_MISSING'')) (\<lambda>target.
          bind_res (ensure (pr_isActive target) (BadRequest ''FALLBACK_INACTIVE'')) (\<lambda>_.
          bind_res (ensure (truthy (pr_fallbackPrinterId target) = None) (BadRequest ''FALLBACK_CHAIN'')) (\<lambda>_.
          case truthy printerId of
            None \<Rightarrow> Inr ()
          | Some p \<Rightarrow> ensure (\<not> list_ex (\<lambda>x. pr_fallbackPrinterId x = Some p) (t_printers d)) (BadRequest ''FALLBACK_USED''))))))"

text \<open>The foreign key of the column.\<close>

definition fallback_key :: "db \<Rightarrow> id option \<Rightarrow> api_error + unit" where
  "fallback_key d f = ensure (case f of None \<Rightarrow> True | Some i \<Rightarrow> find_printer d i \<noteq> None) (TypeError ''P2003'')"

definition fallback_audit :: "id option \<Rightarrow> id \<Rightarrow> id option \<Rightarrow> id option \<Rightarrow> audit_entry" where
  "fallback_audit actor i from' to' = \<lparr>al_action = ''PRINTER_FALLBACK_CHANGED'', al_entityId = i,
     al_entityType = ''Printer'', al_userId = truthy actor,
     al_details = JObj [(''printerId'', JStr i), (''from'', jnull JStr from'), (''to'', jnull JStr to')]\<rparr>"

section \<open>Creating and updating\<close>

definition or_default :: "'a \<Rightarrow> 'a option \<Rightarrow> 'a" where
  "or_default x o' = (case o' of None \<Rightarrow> x | Some y \<Rightarrow> y)"

definition created_printer :: "id \<Rightarrow> string \<Rightarrow> string \<Rightarrow> printer_input \<Rightarrow> printer" where
  "created_printer i name ty v = \<lparr>pr_id = i, pr_name = name, pr_type = ty,
     pr_ipAddress = or_default None (pin_ipAddress v), pr_port = or_default None (pin_port v),
     pr_isActive = or_default True (pin_isActive v), pr_paperWidth = or_default 80 (pin_paperWidth v),
     pr_codepage = or_default ''CP858'' (pin_codepage v),
     pr_codepageProfile = or_default ''EPSON_STANDARD'' (pin_codepageProfile v),
     pr_cutMode = or_default ''PARTIAL'' (pin_cutMode v), pr_copies = or_default 1 (pin_copies v),
     pr_timeoutMs = or_default 5000 (pin_timeoutMs v), pr_queueName = or_default None (pin_queueName v),
     pr_fallbackPrinterId = or_default None (pin_fallbackPrinterId v), pr_lastErrorCode = None,
     pr_lastErrorAt = None, pr_lastOkAt = None\<rparr>"

definition with_fallback :: "db \<Rightarrow> id option \<Rightarrow> printer_input \<Rightarrow> printer_input \<Rightarrow> api_error + printer_input" where
  "with_fallback d printerId data v = (case pin_fallbackPrinterId data of
     None \<Rightarrow> Inr v
   | Some f \<Rightarrow> bind_res (assertFallbackAssignmentAllowed d printerId f) (\<lambda>_. Inr (v\<lparr>pin_fallbackPrinterId := Some f\<rparr>)))"

definition createPrinter :: "env \<Rightarrow> db \<Rightarrow> printer_input \<Rightarrow> id option \<Rightarrow> api_error + db \<times> printer" where
  "createPrinter e d data actor =
     bind_res (sanitizePrinter data False None) (\<lambda>v0.
     bind_res (with_fallback d None data v0) (\<lambda>v.
     bind_res (need (truthy (pin_name v)) (BadRequest ''NAME_AND_TYPE'')) (\<lambda>name.
     bind_res (need (truthy (pin_type v)) (BadRequest ''NAME_AND_TYPE'')) (\<lambda>ty.
     bind_res (fallback_key d (or_default None (pin_fallbackPrinterId v))) (\<lambda>_.
     let p = created_printer (fresh_id e d) name ty v;
         d1 = d\<lparr>t_printers := t_printers d @ [p], serial := Suc (serial d)\<rparr>;
         f = Option.bind (pin_fallbackPrinterId data) truthy
     in Inr (if f = None then d1 else add_audit (fallback_audit actor (pr_id p) None f) d1, p))))))"

definition updated_printer :: "printer_input \<Rightarrow> printer \<Rightarrow> printer" where
  "updated_printer v p = p\<lparr>pr_name := or_default (pr_name p) (pin_name v), pr_type := or_default (pr_type p) (pin_type v),
     pr_ipAddress := or_default (pr_ipAddress p) (pin_ipAddress v), pr_port := or_default (pr_port p) (pin_port v),
     pr_isActive := or_default (pr_isActive p) (pin_isActive v), pr_paperWidth := or_default (pr_paperWidth p) (pin_paperWidth v),
     pr_codepage := or_default (pr_codepage p) (pin_codepage v),
     pr_codepageProfile := or_default (pr_codepageProfile p) (pin_codepageProfile v),
     pr_cutMode := or_default (pr_cutMode p) (pin_cutMode v), pr_copies := or_default (pr_copies p) (pin_copies v),
     pr_timeoutMs := or_default (pr_timeoutMs p) (pin_timeoutMs v), pr_queueName := or_default (pr_queueName p) (pin_queueName v),
     pr_fallbackPrinterId := or_default (pr_fallbackPrinterId p) (pin_fallbackPrinterId v)\<rparr>"

definition updatePrinter :: "db \<Rightarrow> id \<Rightarrow> printer_input \<Rightarrow> id option \<Rightarrow> api_error + db \<times> printer" where
  "updatePrinter d i data actor =
     bind_res (need (find_printer d i) (NotFound ''PRINTER'')) (\<lambda>existing.
     bind_res (sanitizePrinter data True (Some (pr_type existing))) (\<lambda>v0.
     bind_res (with_fallback d (Some i) data v0) (\<lambda>v.
     bind_res (fallback_key d (or_default None (pin_fallbackPrinterId v))) (\<lambda>_.
     let d1 = d\<lparr>t_printers := update_where (\<lambda>p. pr_id p = i) (updated_printer v) (t_printers d)\<rparr>
     in Inr (case pin_fallbackPrinterId data of
               None \<Rightarrow> d1
             | Some f \<Rightarrow> if f = pr_fallbackPrinterId existing then d1
                 else add_audit (fallback_audit actor i (pr_fallbackPrinterId existing) f) d1,
             updated_printer v existing)))))"

section \<open>Test print and lists\<close>

definition createTestJob :: "env \<Rightarrow> db \<Rightarrow> id \<Rightarrow> api_error + db \<times> print_job" where
  "createTestJob e d printerId =
     bind_res (need (find_printer d printerId) (NotFound ''PRINTER'')) (\<lambda>p.
     let j = new_print_job (fresh_id e d) printerId RECEIPT
               (JObj [(''kind'', JStr ''TEST_PRINT''), (''title'', JStr ''TEST-DRUCK''), (''printerName'', JStr (pr_name p)),
                 (''printerType'', JStr (pr_type p)), (''paperWidth'', JNum (pr_paperWidth p)),
                 (''codepage'', JStr (pr_codepage p)), (''codepageProfile'', JStr (pr_codepageProfile p)),
                 (''timestamp'', time_json (env_now e)),
                 (''message'', JStr ''Druckerschnittstelle erfolgreich verbunden!'')]) (env_now e)
     in Inr (d\<lparr>t_printJobs := t_printJobs d @ [j], serial := Suc (serial d)\<rparr>, j))"

definition findAllPrinters :: "env \<Rightarrow> db \<Rightarrow> (printer \<times> station list) list" where
  "findAllPrinters e d = map (\<lambda>p. (p, filter (\<lambda>s. sn_printerId s = Some (pr_id p)) (t_stations d)))
     (sort_key (\<lambda>p. env_collate e (pr_name p)) (t_printers d))"

definition findActivePrinterSelections :: "env \<Rightarrow> db \<Rightarrow> (id \<times> string) list" where
  "findActivePrinterSelections e d = map (\<lambda>p. (pr_id p, pr_name p))
     (sort_key (\<lambda>p. env_collate e (pr_name p)) (filter pr_isActive (t_printers d)))"

section \<open>No chain of replacement printers\<close>

definition no_chain :: "db \<Rightarrow> bool" where
  "no_chain d \<longleftrightarrow> distinct (map pr_id (t_printers d)) \<and> [] \<notin> pr_id ` set (t_printers d) \<and>
     (\<forall>p \<in> set (t_printers d). \<forall>f. pr_fallbackPrinterId p = Some f \<longrightarrow>
        f \<noteq> pr_id p \<and> (\<exists>q \<in> set (t_printers d). pr_id q = f \<and> pr_fallbackPrinterId q = None))"

lemma no_chainD:
  "no_chain d \<Longrightarrow> p \<in> set (t_printers d) \<Longrightarrow> pr_fallbackPrinterId p = Some f \<Longrightarrow>
   f \<noteq> pr_id p \<and> (\<exists>q \<in> set (t_printers d). pr_id q = f \<and> pr_fallbackPrinterId q = None)"
  by (simp add: no_chain_def)

lemma find_printer_Some: "find_printer d i = Some p \<Longrightarrow> p \<in> set (t_printers d) \<and> pr_id p = i"
  by (auto simp: find_printer_def dest: find_Some_mem)

lemma assert_fallback_Inr:
  assumes "assertFallbackAssignmentAllowed d printerId (Some f) = Inr u" and "f \<noteq> []"
  shows "\<exists>q. find_printer d f = Some q \<and> pr_isActive q \<and> truthy (pr_fallbackPrinterId q) = None \<and>
    (\<forall>i. printerId = Some i \<and> i \<noteq> [] \<longrightarrow> i \<noteq> f \<and> (\<forall>p \<in> set (t_printers d). pr_fallbackPrinterId p \<noteq> Some i))"
  using assms by (auto simp: assertFallbackAssignmentAllowed_def truthy_def res_simps list_ex_iff split: if_splits option.splits)

lemma sanitize_no_fallback: "sanitizePrinter data part ex = Inr v \<Longrightarrow> pin_fallbackPrinterId v = None"
  by (auto simp: sanitizePrinter_def sanitize_name_def sanitize_type_def network_transport_def cups_transport_def
      no_transport_def sanitize_numbers_def sanitize_format_def no_input_def res_simps Let_def split: if_splits option.splits)

text \<open>The assignment that create and update write: it was checked, and it names a printer without a replacement of its own.\<close>

lemma fallback_written:
  assumes "with_fallback d i data v0 = Inr v" and "pin_fallbackPrinterId v0 = None"
    and "fallback_key d (or_default None (pin_fallbackPrinterId v)) = Inr u" and "no_chain d"
    and "pin_fallbackPrinterId v = Some (Some f)"
  shows "(\<exists>q \<in> set (t_printers d). pr_id q = f \<and> pr_fallbackPrinterId q = None) \<and>
    (\<forall>k. i = Some k \<and> k \<noteq> [] \<longrightarrow> k \<noteq> f \<and> (\<forall>p \<in> set (t_printers d). pr_fallbackPrinterId p \<noteq> Some k))"
proof -
  from assms(1,2,5) have a: "assertFallbackAssignmentAllowed d i (Some f) = Inr ()"
    by (auto simp: with_fallback_def res_simps split: option.splits)
  from assms(3,5) obtain q where q: "find_printer d f = Some q" by (auto simp: fallback_key_def or_default_def res_simps)
  note Q = find_printer_Some [OF q]
  with assms(4) have ne: "f \<noteq> []" by (force simp: no_chain_def)
  from assert_fallback_Inr [OF a ne] q have t: "truthy (pr_fallbackPrinterId q) = None"
    and k: "\<forall>k. i = Some k \<and> k \<noteq> [] \<longrightarrow> k \<noteq> f \<and> (\<forall>p \<in> set (t_printers d). pr_fallbackPrinterId p \<noteq> Some k)" by auto
  from Q assms(4) have "pr_fallbackPrinterId q \<noteq> Some []" by (force simp: no_chain_def)
  with t have "pr_fallbackPrinterId q = None" by (cases "pr_fallbackPrinterId q") (auto simp: truthy_def split: if_splits)
  with Q k show ?thesis by blast
qed

lemma create_no_chain:
  assumes "no_chain d" and "createPrinter e d data actor = Inr (d', p)"
    and "fresh_id e d \<notin> insert [] (pr_id ` set (t_printers d))"
  shows "no_chain d'"
proof -
  from assms(2) obtain v0 v n ty u where S: "sanitizePrinter data False None = Inr v0" "with_fallback d None data v0 = Inr v"
    "fallback_key d (or_default None (pin_fallbackPrinterId v)) = Inr u"
    and T: "t_printers d' = t_printers d @ [created_printer (fresh_id e d) n ty v]"
    by (auto simp: createPrinter_def res_simps Let_def frame_simps split: if_splits)
  let ?p = "created_printer (fresh_id e d) n ty v"
  have W: "\<exists>q \<in> set (t_printers d). pr_id q = f \<and> pr_fallbackPrinterId q = None" if "pin_fallbackPrinterId v = Some (Some f)" for f
    using fallback_written [OF S(2) sanitize_no_fallback [OF S(1)] S(3) assms(1) that] by blast
  have P: "pr_fallbackPrinterId ?p = Some f \<Longrightarrow> pin_fallbackPrinterId v = Some (Some f)" "pr_id ?p = fresh_id e d" for f
    by (auto simp: created_printer_def or_default_def split: option.splits)
  have "f \<noteq> pr_id r \<and> (\<exists>q \<in> set (t_printers d'). pr_id q = f \<and> pr_fallbackPrinterId q = None)"
    if r: "r \<in> set (t_printers d')" "pr_fallbackPrinterId r = Some f" for r f
  proof (cases "r \<in> set (t_printers d)")
    case True
    from no_chainD [OF assms(1) this r(2)] show ?thesis unfolding T by auto
  next
    case False
    with r(1) T have "r = ?p" by simp
    with r(2) P(1) W obtain q where q: "q \<in> set (t_printers d)" "pr_id q = f" "pr_fallbackPrinterId q = None" by blast
    from q(1,2) have "f \<in> pr_id ` set (t_printers d)" by blast
    then have "f \<noteq> fresh_id e d" using assms(3) by blast
    with q \<open>r = ?p\<close> P(2) T show ?thesis by (auto intro: bexI [of _ q])
  qed
  moreover have "distinct (map pr_id (t_printers d')) \<and> [] \<notin> pr_id ` set (t_printers d')"
    using assms(1,3) unfolding T no_chain_def by (auto simp: created_printer_def)
  ultimately show ?thesis unfolding no_chain_def by blast
qed

lemma update_no_chain:
  assumes "no_chain d" and "updatePrinter d i data actor = Inr (d', p)"
  shows "no_chain d'"
proof -
  from assms(2) obtain ex v0 v u where X: "find_printer d i = Some ex" and S: "sanitizePrinter data True (Some (pr_type ex)) = Inr v0"
    "with_fallback d (Some i) data v0 = Inr v" "fallback_key d (or_default None (pin_fallbackPrinterId v)) = Inr u"
    and T: "t_printers d' = update_where (\<lambda>p. pr_id p = i) (updated_printer v) (t_printers d)"
    by (auto simp: updatePrinter_def res_simps Let_def frame_simps split: if_splits option.splits)
  from find_printer_Some [OF X] assms(1) have i: "i \<noteq> []" by (force simp: no_chain_def)
  have W: "(\<exists>q \<in> set (t_printers d). pr_id q = f \<and> pr_fallbackPrinterId q = None) \<and> i \<noteq> f \<and>
      (\<forall>p \<in> set (t_printers d). pr_fallbackPrinterId p \<noteq> Some i)" if "pin_fallbackPrinterId v = Some (Some f)" for f
    using fallback_written [OF S(2) sanitize_no_fallback [OF S(1)] S(3) assms(1) that] i by blast
  have ids: "map pr_id (t_printers d') = map pr_id (t_printers d)" unfolding T
    by (rule map_update_where_frame) (simp add: updated_printer_def)
  have fb: "pr_fallbackPrinterId (updated_printer v r) = (case pin_fallbackPrinterId v of None \<Rightarrow> pr_fallbackPrinterId r | Some y \<Rightarrow> y)"
    and id: "pr_id (updated_printer v r) = pr_id r" for r by (simp_all add: updated_printer_def or_default_def)
  have "f \<noteq> pr_id r \<and> (\<exists>q \<in> set (t_printers d'). pr_id q = f \<and> pr_fallbackPrinterId q = None)"
    if r: "r \<in> set (t_printers d')" "pr_fallbackPrinterId r = Some f" for r f
  proof -
    have keep: "\<exists>q \<in> set (t_printers d'). pr_id q = f \<and> pr_fallbackPrinterId q = None"
      if q: "q \<in> set (t_printers d)" "pr_id q = f" "pr_fallbackPrinterId q = None"
        and c: "f = i \<longrightarrow> (\<forall>g. pin_fallbackPrinterId v \<noteq> Some (Some g))" for q
    proof (rule bexI)
      let ?q = "if pr_id q = i then updated_printer v q else q"
      show "?q \<in> set (t_printers d')" using q(1) unfolding T set_update_where by (rule imageI)
      show "pr_id ?q = f \<and> pr_fallbackPrinterId ?q = None" using q c by (auto simp: fb id split: option.splits)
    qed
    from r(1) obtain r0 where r0: "r0 \<in> set (t_printers d)" "r = (if pr_id r0 = i then updated_printer v r0 else r0)"
      unfolding T set_update_where by blast
    show ?thesis
    proof (cases "pr_id r0 = i \<and> pin_fallbackPrinterId v = Some (Some f)")
      case True
      with W [of f] obtain q where "q \<in> set (t_printers d)" "pr_id q = f" "pr_fallbackPrinterId q = None" "i \<noteq> f" by blast
      with True r0 keep show ?thesis by (auto simp: id)
    next
      case False
      with r(2) r0 have "pr_fallbackPrinterId r0 = Some f" by (auto simp: fb split: if_splits option.splits)
      from no_chainD [OF assms(1) r0(1) this] obtain q where q: "q \<in> set (t_printers d)" "pr_id q = f" "pr_fallbackPrinterId q = None" "f \<noteq> pr_id r0"
        by blast
      have "f = i \<longrightarrow> (\<forall>g. pin_fallbackPrinterId v \<noteq> Some (Some g))"
        using W r0(1) \<open>pr_fallbackPrinterId r0 = Some f\<close> by blast
      with keep q r0 show ?thesis by (auto simp: id)
    qed
  qed
  then show ?thesis using assms(1) ids by (metis no_chain_def list.set_map)
qed

end
