(* ===== verification/VO_Print_Props.thy ===== *)
theory VO_Print_Props
  imports VO_Print_Laws VO_Printers VO_Samples
begin

text \<open>
  The properties of the print queue: the invariant of every reachable queue, the life cycle it refines, no
  second print nobody asked for, fencing by the lease, first in first out, delivery, and the sweep of expired leases.
\<close>

definition queue_printer :: printer where
  "queue_printer = sample_printer\<lparr>pr_fallbackPrinterId := Some ''q''\<rparr>"

definition queue_job :: print_job where
  "queue_job = new_print_job ''j1'' ''p'' RECEIPT JNull 700"

definition queue_db :: db where
  "queue_db = sample_db\<lparr>t_printers := [queue_printer, sample_printer\<lparr>pr_id := ''q''\<rparr>],
     t_printJobs := [queue_job, new_print_job ''j2'' ''p'' STATION_TICKET JNull 600], serial := 9\<rparr>"

text \<open>The second job at a worker, sending, under the lease \<open>L\<close> until 9000.\<close>

definition sending_job :: print_job where
  "sending_job = (claimed_row ''L'' 9000 (new_print_job ''j2'' ''p'' STATION_TICKET JNull 600))\<lparr>pj_attemptPhase := Some DELIVERING\<rparr>"

definition sending_db :: db where
  "sending_db = queue_db\<lparr>t_printJobs := [queue_job, sending_job]\<rparr>"

definition not_printed_report :: report_input where
  "not_printed_report = \<lparr>ri_leaseId = ''L'', ri_outcome = ''NOT_PRINTED'', ri_errorCode = Some ''CONNECTION_REFUSED'',
     ri_errorMessage = None, ri_bytesWritten = Some 0, ri_cupsJobState = None\<rparr>"

lemmas queue_run = reportOutcome_def finalizeNotPrinted_def failover_target_def tryFailover_def recordPrinterOutcome_def
  claimNextJob_def oldest_pending_def update_job_if_def update_where_def count_where_def find_job_def find_printer_def
  held_def resolveActivePrinter_def attempt_printer_id_def failover_row_def claimed_row_def VALID_OUTCOMES_def
  NO_FAILOVER_ERROR_CODES_def NO_FAILOVER_PRINTER_TYPES_def truthy_def not_printed_report_def sending_db_def
  sending_job_def queue_db_def queue_job_def queue_printer_def new_print_job_def sample_printer_def add_audit_def
  succeeds_with_def job_state_def Let_def

lemma sending_db_ok: "\<forall>j \<in> set (t_printJobs sending_db). job_ok j"
  by (simp add: sending_db_def sending_job_def queue_job_def job_ok_def claimed_row_def new_print_job_def)

section \<open>Every reachable queue\<close>

text \<open>What is stored about a change to the replacement printer.\<close>

definition failover_record :: "print_job \<Rightarrow> int \<times> nat option \<times> string option \<times> id option" where
  "failover_record j = (pj_failoverCount j, pj_failoverAt j, pj_failoverReason j, pj_failoverFromPrinterId j)"

lemma failover_record_kept: "job_step c j j' \<Longrightarrow> pj_failoverCount j = 1 \<Longrightarrow> failover_record j' = failover_record j"
  by (erule job_stepE) (simp_all add: failover_record_def job_rows resolved_row_def Let_def split: option.split)

lemma failover_printer_kept:
  "job_step c j j' \<Longrightarrow> pj_failoverCount j = 1 \<Longrightarrow> c \<noteq> Person_decides \<Longrightarrow> attempt_printer_id j' = attempt_printer_id j"
  by (erule job_stepE) (simp_all add: attempt_printer_id_def job_rows split: option.split)

text \<open>
  C23. In every reachable state of the queue every job is well formed: an attempt phase exactly while it is PROCESSING,
  a lease with an expiry while it is PROCESSING, and the proof of delivery, the reason or the person that its status requires.
  These are the CHECK constraints of the database, so no operation ever violates one. And a job fails over at most once: from the
  moment it has, its failover count, time, reason and first printer stay as they are over every run, whatever is reported with
  whatever stale reads, and from any later state only a person gives it to another printer.
\<close>

theorem print_jobs_sound:
  assumes "print_run e d d'" and "\<forall>j \<in> set (t_printJobs d). job_ok j"
  shows "(\<forall>j \<in> set (t_printJobs d'). job_ok j) \<and>
    (\<forall>k < length (t_printJobs d). pj_failoverCount (t_printJobs d ! k) = 1 \<longrightarrow> k < length (t_printJobs d') \<and>
       failover_record (t_printJobs d' ! k) = failover_record (t_printJobs d ! k)) \<and>
    (\<forall>c d2 k. print_step e d' c d2 \<and> k < length (t_printJobs d') \<and> pj_failoverCount (t_printJobs d' ! k) = 1 \<and> c \<noteq> Person_decides \<longrightarrow>
       attempt_printer_id (t_printJobs d2 ! k) = attempt_printer_id (t_printJobs d' ! k))"
proof (intro conjI allI impI)
  show "\<forall>j \<in> set (t_printJobs d'). job_ok j" by (rule print_run_ok [OF assms])
next
  fix k assume k: "k < length (t_printJobs d)" "pj_failoverCount (t_printJobs d ! k) = 1"
  let ?P = "\<lambda>j. pj_failoverCount j = 1 \<and> failover_record j = failover_record (t_printJobs d ! k)"
  have "k < length (t_printJobs d') \<and> ?P (t_printJobs d' ! k)"
    by (rule print_run_row [OF assms(1) k(1)])
      (use k(2) in \<open>simp, metis failover_record_kept failover_record_def prod.inject\<close>)
  then show "k < length (t_printJobs d')" "failover_record (t_printJobs d' ! k) = failover_record (t_printJobs d ! k)" by auto
next
  fix c d2 k
  assume "print_step e d' c d2 \<and> k < length (t_printJobs d') \<and> pj_failoverCount (t_printJobs d' ! k) = 1 \<and> c \<noteq> Person_decides"
  then show "attempt_printer_id (t_printJobs d2 ! k) = attempt_printer_id (t_printJobs d' ! k)"
    using print_step_row failover_printer_kept by metis
qed

lemma print_jobs_sound_witness:
  "\<exists>d'. print_run run_env sending_db d' \<and> map pj_failoverCount (t_printJobs d') = [0, 1] \<and> (\<forall>j \<in> set (t_printJobs d'). job_ok j) \<and>
     (\<forall>d2 j. reportOutcome (run_env\<lparr>env_now := 1600\<rparr>) d' d' ''j2'' not_printed_report = Inr (d2, j) \<longrightarrow>
        attempt_printer_id (t_printJobs d2 ! 1) = attempt_printer_id (t_printJobs d' ! 1))"
proof -
  let ?run = "reportOutcome (run_env\<lparr>env_now := 1500\<rparr>) sending_db sending_db ''j2'' not_printed_report"
  have "succeeds_with (\<lambda>(d', j). map pj_failoverCount (t_printJobs d') = [0, 1]) ?run" by (simp add: queue_run)
  then obtain d' j where run: "?run = Inr (d', j)" and c: "map pj_failoverCount (t_printJobs d') = [0, 1]"
    by (auto elim!: succeeds_withE)
  have step: "print_run run_env sending_db d'" by (rule print_run.step [OF print_run.start print_step.report [OF run]])
  note sound = print_jobs_sound [OF step sending_db_ok]
  from c have k: "1 < length (t_printJobs d')" "pj_failoverCount (t_printJobs d' ! 1) = 1"
    by (metis One_nat_def length_Cons length_map lessI list.size(3)) (metis c length_Cons length_map lessI list.size(3) nth_Cons_0 nth_Cons_Suc nth_map One_nat_def)
  have again: "attempt_printer_id (t_printJobs d2 ! 1) = attempt_printer_id (t_printJobs d' ! 1)"
    if "reportOutcome (run_env\<lparr>env_now := 1600\<rparr>) d' d' ''j2'' not_printed_report = Inr (d2, j)" for d2 j
    using sound k print_step.report [OF that] by blast
  from sound have "\<forall>j \<in> set (t_printJobs d'). job_ok j" by blast
  with step c show ?thesis by (intro exI [of _ d'] conjI allI impI again) assumption+
qed

text \<open>
  C24. The queue refines the life cycle of a print job: whatever one operation does, with whatever stale reads, each job keeps
  its identity and content and either stays as it is or makes one step of the automaton, moved by the party that made the call; new
  jobs start waiting.
\<close>

theorem queue_refines_lifecycle:
  assumes "print_step e d c d'"
  shows "(\<forall>k < length (t_printJobs d). k < length (t_printJobs d') \<and>
      (t_printJobs d' ! k = t_printJobs d ! k \<or>
       lifecycle (job_state (t_printJobs d ! k)) c (job_state (t_printJobs d' ! k)) \<and>
       pj_id (t_printJobs d' ! k) = pj_id (t_printJobs d ! k) \<and> pj_content (t_printJobs d' ! k) = pj_content (t_printJobs d ! k))) \<and>
    (\<forall>k < length (t_printJobs d'). length (t_printJobs d) \<le> k \<longrightarrow> job_state (t_printJobs d' ! k) = Q_Waiting)"
proof -
  have old: "k < length (t_printJobs d') \<and> (t_printJobs d' ! k = t_printJobs d ! k \<or>
       lifecycle (job_state (t_printJobs d ! k)) c (job_state (t_printJobs d' ! k)) \<and>
       pj_id (t_printJobs d' ! k) = pj_id (t_printJobs d ! k) \<and> pj_content (t_printJobs d' ! k) = pj_content (t_printJobs d ! k))"
    if "k < length (t_printJobs d)" for k
    using print_step_row [OF assms that] by (auto dest: job_step_refines job_step_frame)
  have new: "job_state (t_printJobs d' ! k) = Q_Waiting"
    if "k < length (t_printJobs d')" "length (t_printJobs d) \<le> k" for k
    using print_step_moves [OF assms] that
    by (auto simp: enqueued_def nth_append new_job_def job_state_def moves_def dest: list_all2_lengthD split: if_splits)
  from old new show ?thesis by blast
qed

lemma queue_refines_lifecycle_witness:
  "\<exists>d'. print_step run_env queue_db Worker_claims d' \<and>
     lifecycle (job_state (t_printJobs queue_db ! 1)) Worker_claims (job_state (t_printJobs d' ! 1))"
proof -
  let ?run = "claimNextJob (run_env\<lparr>env_now := 1500\<rparr>) queue_db"
  have "succeeds_with (\<lambda>(d', r). t_printJobs d' ! 1 \<noteq> t_printJobs queue_db ! 1) ?run" by (simp add: queue_run)
  then obtain d' r where run: "?run = Inr (d', r)" and ne: "t_printJobs d' ! 1 \<noteq> t_printJobs queue_db ! 1"
    by (auto elim!: succeeds_withE)
  have step: "print_step run_env queue_db Worker_claims d'" by (rule print_step.claim [OF run])
  have "1 < length (t_printJobs queue_db)" by code_simp
  with queue_refines_lifecycle [OF step] ne step show ?thesis by blast
qed

section \<open>No second print nobody asked for\<close>

text \<open>
  C25. Nothing is printed twice unless somebody decides so. A job that was being sent goes back to the queue only by the
  lease holder's report that nothing was printed, and then for the first and only time to a replacement printer; a job of
  unclear outcome moves only when a person decides; a printed or discarded job never changes again.
\<close>

theorem no_unasked_second_print:
  assumes "print_step e d c d'" and "k < length (t_printJobs d)"
    and "j = t_printJobs d ! k" and "j' = t_printJobs d' ! k" and "job_ok j"
  shows "(job_state j \<in> {Q_Sending, Q_Spooled} \<and> job_state j' = Q_Waiting \<longrightarrow>
       c = Worker_reports \<and> pj_outcomeClass j' = Some NOT_PRINTED \<and> pj_failoverCount j = 0 \<and> pj_failoverCount j' = 1) \<and>
    (job_state j = Q_Unclear \<and> c \<noteq> Person_decides \<longrightarrow> j' = j) \<and>
    (job_state j \<in> {Q_Printed, Q_Dropped} \<longrightarrow> j' = j) \<and>
    pj_failoverCount j \<le> pj_failoverCount j'"
proof -
  from print_step_row [OF assms(1,2)] consider "j' = j" | (step) "job_step c j j'"
    unfolding assms(3,4) by blast
  then show ?thesis
  proof cases
    case step
    then have "lifecycle (job_state j) c (job_state j')" by (rule job_step_refines)
    moreover have "pj_failoverCount j \<le> pj_failoverCount j'"
      using step assms(5) by cases (auto simp: job_rows job_ok_def)
    moreover have "c = Worker_reports \<and> pj_outcomeClass j' = Some NOT_PRINTED \<and> pj_failoverCount j = 0 \<and> pj_failoverCount j' = 1"
      if "job_state j \<in> {Q_Sending, Q_Spooled}" "job_state j' = Q_Waiting"
      using step that by cases (auto simp: job_rows job_state_def held_def resolved_row_def Let_def split: if_splits)
    ultimately show ?thesis by (auto simp: at_worker_def elim!: lifecycle_finalE lifecycle_unclearE)
  qed auto
qed

lemma no_unasked_second_print_witness:
  "\<exists>d'. print_step run_env sending_db Worker_reports d' \<and> job_state (t_printJobs sending_db ! 1) = Q_Sending \<and>
     job_state (t_printJobs d' ! 1) = Q_Waiting \<and> pj_failoverCount (t_printJobs d' ! 1) = 1"
proof -
  let ?run = "reportOutcome (run_env\<lparr>env_now := 1500\<rparr>) sending_db sending_db ''j2'' not_printed_report"
  have "succeeds_with (\<lambda>(d', j). job_state (t_printJobs d' ! 1) = Q_Waiting) ?run" by (simp add: queue_run)
  then obtain d' j where run: "?run = Inr (d', j)" and w: "job_state (t_printJobs d' ! 1) = Q_Waiting"
    by (auto elim!: succeeds_withE)
  have step: "print_step run_env sending_db Worker_reports d'" by (rule print_step.report [OF run])
  have s: "1 < length (t_printJobs sending_db)" "job_state (t_printJobs sending_db ! 1) = Q_Sending" by code_simp+
  have "job_ok (t_printJobs sending_db ! 1)" using sending_db_ok s(1) nth_mem by blast
  with no_unasked_second_print [OF step s(1) refl refl] s(2) w step show ?thesis by blast
qed

section \<open>Fencing\<close>

text \<open>
  A worker without the current lease changes nothing: its phase changes and heartbeats are refused, and a
  report is refused too unless it repeats, under the same lease, the final state the job already has; then the stored job is
  returned and the state is unchanged.
\<close>

theorem stale_lease_powerless:
  assumes "find_job d i = Some j" and "distinct (map pj_id (t_printJobs d))" and "\<not> held (ri_leaseId input) j"
  shows "(\<exists>err. transitionPhase e d i (ri_leaseId input) ph cups = Inl err) \<and>
    (\<exists>err. heartbeat e d i (ri_leaseId input) = Inl err) \<and>
    (\<forall>d' j'. reportOutcome e pre d i input = Inr (d', j') \<longrightarrow> d' = d \<and> j' = j \<and>
       pj_leaseId j = Some (ri_leaseId input) \<and> pj_status j \<in> {PJ_PRINTED, PJ_UNRESOLVED, PJ_FAILED})"
proof (intro conjI allI impI)
  let ?l = "ri_leaseId input"
  show "\<exists>err. transitionPhase e d i ?l ph cups = Inl err" by (rule stale_phase [OF assms])
  show "\<exists>err. heartbeat e d i ?l = Inl err" by (rule stale_heartbeat [OF assms])
  fix d' j' assume "reportOutcome e pre d i input = Inr (d', j')"
  then have "\<exists>st \<in> {PJ_PRINTED, PJ_UNRESOLVED, PJ_FAILED}. resolveIdempotentOrConflict d i ?l [st] = Inr (d', j')"
    using stale_report [OF assms] by blast
  then show "d' = d" "j' = j" "pj_leaseId j = Some ?l" "pj_status j \<in> {PJ_PRINTED, PJ_UNRESOLVED, PJ_FAILED}"
    using assms(1) by (auto dest: conflict_frame)
qed

lemma stale_lease_powerless_witness:
  "\<exists>err. heartbeat run_env sending_db ''j1'' ''L'' = Inl err"
proof -
  have f: "find_job sending_db ''j1'' = Some queue_job" and "distinct (map pj_id (t_printJobs sending_db))"
    and "\<not> held ''L'' queue_job" by code_simp+
  then show ?thesis using stale_lease_powerless [OF f, of not_printed_report] by (simp add: not_printed_report_def)
qed

section \<open>Claiming and delivering\<close>

text \<open>
  A claim takes the oldest waiting job and no other: it returns nothing exactly when nothing waits, otherwise a job
  created no later than any other waiting one, reserved for one minute under a token drawn for this claim, together with the printer
  of the attempt; every other job stays as it was.
\<close>

theorem claim_takes_oldest:
  assumes "distinct (map pj_id (t_printJobs d))" and "claimNextJob e d = Inr (d', r)"
  shows "(r = None \<longleftrightarrow> (\<forall>k \<in> set (t_printJobs d). pj_status k \<noteq> PJ_PENDING)) \<and>
    (r = None \<longrightarrow> t_printJobs d' = t_printJobs d) \<and>
    (\<forall>j' p. r = Some (j', p) \<longrightarrow> (\<exists>j \<in> set (t_printJobs d). pj_status j = PJ_PENDING \<and>
       (\<forall>k \<in> set (t_printJobs d). pj_status k = PJ_PENDING \<longrightarrow> pj_createdAt j \<le> pj_createdAt k) \<and>
       j' = claimed_row (fresh_id e d) (env_now e + 60000) j \<and> resolveActivePrinter d j = Some p \<and>
       t_printJobs d' = map (\<lambda>x. if pj_id x = pj_id j then j' else x) (t_printJobs d)))"
proof (cases "oldest_pending d")
  case None
  with assms(2) have "t_printJobs d' = t_printJobs d" "r = None" by (auto simp: claimNextJob_def Let_def)
  with None show ?thesis by (simp add: oldest_pending_None)
next
  case (Some j)
  from oldest_pending_Some [OF this] have j: "j \<in> set (t_printJobs d)" "pj_status j = PJ_PENDING"
    "\<forall>k \<in> set (t_printJobs d). pj_status k = PJ_PENDING \<longrightarrow> pj_createdAt j \<le> pj_createdAt k" by simp_all
  let ?f = "claimed_row (fresh_id e d) (env_now e + LEASE_DURATION_MS)"
  from claim_effect [OF assms(1) Some, of e] obtain d1 where
    C: "claimNextJob e d = bind_res (need (resolveActivePrinter d j) (TypeError ''printer'')) (\<lambda>p. Inr (d1, Some (?f j, p)))"
    and J: "t_printJobs d1 = update_where (\<lambda>x. pj_id x = pj_id j) ?f (t_printJobs d)" by blast
  from assms(2) [unfolded C] J obtain p where E: "resolveActivePrinter d j = Some p"
    "r = Some (?f j, p)" "t_printJobs d' = update_where (\<lambda>x. pj_id x = pj_id j) ?f (t_printJobs d)"
    by (auto simp: res_simps)
  have "x = j" if "x \<in> set (t_printJobs d)" "pj_id x = pj_id j" for x
    using that find_distinct_key [OF assms(1)] j(1) by (metis option.inject)
  then have "t_printJobs d' = map (\<lambda>x. if pj_id x = pj_id j then ?f j else x) (t_printJobs d)"
    unfolding E(3) update_where_def by (auto cong: map_cong)
  with E(1,2) j show ?thesis unfolding LEASE_DURATION_MS_def by (auto intro!: bexI [of _ j])
qed

lemma claim_takes_oldest_witness:
  "succeeds_with (\<lambda>(d', r). case r of None \<Rightarrow> False | Some (j, p) \<Rightarrow> pj_createdAt j = 600 \<and> pj_leaseExpiresAt j = Some 61000)
     (claimNextJob run_env queue_db)"
proof -
  let ?run = "claimNextJob run_env queue_db"
  have "succeeds_with (\<lambda>(d', r). r \<noteq> None) ?run" by (simp add: queue_run)
  then obtain d' j p where run: "?run = Inr (d', Some (j, p))" by (auto elim!: succeeds_withE)
  have dist: "distinct (map pj_id (t_printJobs queue_db))" by code_simp
  have now: "env_now run_env = 1000" by code_simp
  from claim_takes_oldest [OF dist run] obtain j0 where j0: "j0 \<in> set (t_printJobs queue_db)"
    "\<forall>k \<in> set (t_printJobs queue_db). pj_status k = PJ_PENDING \<longrightarrow> pj_createdAt j0 \<le> pj_createdAt k"
    "j = claimed_row (fresh_id run_env queue_db) (env_now run_env + 60000) j0" by blast
  then have "pj_createdAt j0 = 600"
    by (auto simp: queue_db_def queue_job_def new_print_job_def)
  with j0(3) now show ?thesis unfolding run by (simp add: succeeds_with_def claimed_row_def)
qed

text \<open>
  A waiting job gets printed: whenever a job waits and its printers exist, a worker that claims, starts sending
  before the lease runs out and reports success gets through every step, and the oldest waiting job ends PRINTED with
  the time of its delivery, which is also noted at the printer that made the attempt.
\<close>

theorem delivery_completes:
  assumes "distinct (map pj_id (t_printJobs d))" and "oldest_pending d = Some j"
    and "fresh_id e d \<noteq> []" and "find_printer d (attempt_printer_id j) = Some p" and "t1 < env_now e + 60000"
  shows "\<exists>d1 j1 d2 j2 d3 j3. claimNextJob e d = Inr (d1, Some (j1, p)) \<and>
    transitionPhase (e\<lparr>env_now := t1\<rparr>) d1 (pj_id j) (fresh_id e d) ''DELIVERING'' None = Inr (d2, j2) \<and>
    reportOutcome (e\<lparr>env_now := t2\<rparr>) d2 d2 (pj_id j) \<lparr>ri_leaseId = fresh_id e d, ri_outcome = ''PRINTED'',
      ri_errorCode = None, ri_errorMessage = None, ri_bytesWritten = n, ri_cupsJobState = None\<rparr> = Inr (d3, j3) \<and>
    find_job d3 (pj_id j) = Some j3 \<and> pj_status j3 = PJ_PRINTED \<and> pj_deliveredAt j3 = Some t2 \<and>
    map_option pr_lastOkAt (find_printer d3 (attempt_printer_id j)) = Some (Some t2)"
proof -
  let ?l = "fresh_id e d" and ?x = "\<lparr>ev_errorCode = None, ev_errorMessage = None, ev_bytesWritten = n, ev_cupsJobState = None\<rparr>"
  let ?j1 = "claimed_row ?l (env_now e + LEASE_DURATION_MS) j"
  have rp: "resolveActivePrinter d j = Some p"
    using assms(4) by (auto simp: resolveActivePrinter_def attempt_printer_id_def split: option.splits)
  from claim_effect [OF assms(1,2), of e] obtain d1 where c: "claimNextJob e d = Inr (d1, Some (?j1, p))"
    and f1: "find_job d1 (pj_id j) = Some ?j1" and p1: "t_printers d1 = t_printers d" by (auto simp: rp)
  let ?g = "\<lambda>j. j\<lparr>pj_attemptPhase := Some DELIVERING, pj_cupsJobId := pj_cupsJobId j\<rparr>"
  obtain d2 m where u: "update_job_if (pj_id j) (in_phase (e\<lparr>env_now := t1\<rparr>) ?l CLAIMED) ?g d1 = (d2, m)"
    by (cases "update_job_if (pj_id j) (in_phase (e\<lparr>env_now := t1\<rparr>) ?l CLAIMED) ?g d1")
  have f2: "find_job d2 (pj_id j) = Some (?g ?j1) \<and> m \<noteq> 0 \<and> t_printers d2 = t_printers d1"
    by (rule update_hit [OF f1 _ _ u]) (use assms(5) in \<open>simp_all add: in_phase_def held_def claimed_row_def LEASE_DURATION_MS_def\<close>)
  then have t: "transitionPhase (e\<lparr>env_now := t1\<rparr>) d1 (pj_id j) ?l ''DELIVERING'' None = Inr (d2, ?g ?j1)"
    using assms(3) u by (simp add: transitionPhase_def VALID_PHASES_def Let_def)
  let ?j3 = "printed_row (e\<lparr>env_now := t2\<rparr>) ?x (?g ?j1)"
  obtain d3 k where v: "update_job_if (pj_id j) (held ?l) (printed_row (e\<lparr>env_now := t2\<rparr>) ?x) d2 = (d3, k)"
    by (cases "update_job_if (pj_id j) (held ?l) (printed_row (e\<lparr>env_now := t2\<rparr>) ?x) d2")
  have f3: "find_job d3 (pj_id j) = Some ?j3 \<and> k \<noteq> 0 \<and> t_printers d3 = t_printers d2"
    by (rule update_hit [OF _ _ _ v]) (use f2 in \<open>simp_all add: held_def claimed_row_def printed_row_def\<close>)
  have a: "attempt_printer_id ?j3 = attempt_printer_id j" by (simp add: attempt_printer_id_def printed_row_def claimed_row_def split: option.split)
  have fp: "find_printer d3 (attempt_printer_id j) = Some p" using f3 f2 p1 assms(4) by (simp add: find_printer_def)
  obtain d4 where r: "recordPrinterOutcome (e\<lparr>env_now := t2\<rparr>) (attempt_printer_id j) PRINTED None d3 = Inr d4"
    and j4: "t_printJobs d4 = t_printJobs d3" and p4: "map_option pr_lastOkAt (find_printer d4 (attempt_printer_id j)) = Some (Some t2)"
    using fp printer_recorded [OF fp, of "e\<lparr>env_now := t2\<rparr>"] by (auto simp: recordPrinterOutcome_def)
  have "reportOutcome (e\<lparr>env_now := t2\<rparr>) d2 d2 (pj_id j) \<lparr>ri_leaseId = ?l, ri_outcome = ''PRINTED'',
      ri_errorCode = None, ri_errorMessage = None, ri_bytesWritten = n, ri_cupsJobState = None\<rparr> = Inr (d4, ?j3)"
    using assms(3) v f3 a r by (simp add: reportOutcome_def VALID_OUTCOMES_def finalizeAsPrinted_def Let_def)
  moreover have "find_job d4 (pj_id j) = Some ?j3" using f3 j4 by (simp add: find_job_def)
  moreover have "pj_status ?j3 = PJ_PRINTED" "pj_deliveredAt ?j3 = Some t2" by (simp_all add: printed_row_def)
  ultimately show ?thesis using c t p4 by blast
qed

section \<open>Collecting expired leases\<close>

text \<open>
  A sweep outside of a locked maintenance frees every job whose lease has expired and touches nothing else: a job only
  claimed goes back to the queue, one that was being sent becomes a question for a person, and afterwards no PROCESSING job has an
  expired lease. No printer is blamed and no job fails over.
\<close>

theorem sweep_collects_expired:
  assumes "distinct (map pj_id (t_printJobs d))" and "\<forall>j \<in> set (t_printJobs d). job_ok j" and "phase \<noteq> MP_LOCKED"
  shows "t_printJobs (sweepExpiredLeases e phase d) = map (\<lambda>j. if pj_status j = PJ_PROCESSING \<and> expired e j
       then (if pj_attemptPhase j = Some CLAIMED then requeued_row j else abandoned_row e j) else j) (t_printJobs d) \<and>
    (\<forall>j \<in> set (t_printJobs (sweepExpiredLeases e phase d)). \<not> (pj_status j = PJ_PROCESSING \<and> expired e j)) \<and>
    map pj_failoverCount (t_printJobs (sweepExpiredLeases e phase d)) = map pj_failoverCount (t_printJobs d) \<and>
    t_printers (sweepExpiredLeases e phase d) = t_printers d"
proof -
  note S = sweep_effect [OF assms, of e]
  have "\<not> (pj_status (swept e j) = PJ_PROCESSING \<and> expired e (swept e j))" for j
    by (auto simp: swept_def requeued_row_def abandoned_row_def)
  moreover have "pj_failoverCount (swept e j) = pj_failoverCount j" for j
    by (simp add: swept_def requeued_row_def abandoned_row_def)
  moreover have "(\<lambda>j. if pj_status j = PJ_PROCESSING \<and> expired e j
      then (if pj_attemptPhase j = Some CLAIMED then requeued_row j else abandoned_row e j) else j) = swept e"
    by (simp add: swept_def fun_eq_iff)
  ultimately show ?thesis using S by (simp add: comp_def)
qed

lemma sweep_collects_expired_witness:
  "map pj_status (t_printJobs (sweepExpiredLeases (run_env\<lparr>env_now := 9001\<rparr>) MP_OPEN sending_db)) = [PJ_PENDING, PJ_UNRESOLVED]"
proof -
  have "distinct (map pj_id (t_printJobs sending_db))" by code_simp
  note S = sweep_collects_expired [OF this sending_db_ok, of MP_OPEN "run_env\<lparr>env_now := 9001\<rparr>"]
  show ?thesis using S
    by (simp add: sending_db_def sending_job_def queue_job_def new_print_job_def claimed_row_def expired_def abandoned_row_def)
qed

lemma delivery_completes_witness:
  "\<exists>d3 j3. find_job d3 ''j2'' = Some j3 \<and> pj_status j3 = PJ_PRINTED \<and> pj_deliveredAt j3 = Some 3000"
proof -
  have dist: "distinct (map pj_id (t_printJobs queue_db))"
    and old: "oldest_pending queue_db = Some (new_print_job ''j2'' ''p'' STATION_TICKET JNull 600)"
    and pr: "find_printer queue_db (attempt_printer_id (new_print_job ''j2'' ''p'' STATION_TICKET JNull 600)) = Some queue_printer"
    by (simp_all add: queue_run)
  have id: "fresh_id run_env queue_db \<noteq> []" and now: "(2000::nat) < env_now run_env + 60000"
    by (simp_all add: fresh_id_def queue_db_def run_env_def sample_env_def nat_text_nonempty)
  have "pj_id (new_print_job ''j2'' ''p'' STATION_TICKET JNull 600) = ''j2''" by (simp add: new_print_job_def)
  with delivery_completes [OF dist old id pr now, of 3000 None] show ?thesis by auto
qed

section \<open>Replacement printers\<close>

text \<open>
  Replacement printers never form a chain: whatever printer is created or changed, a replacement is another
  existing printer that has no replacement of its own, so a job that failed over cannot be sent on further.
\<close>

theorem no_fallback_chain:
  assumes "no_chain d" and "fresh_id e d \<notin> insert [] (pr_id ` set (t_printers d))"
    and "createPrinter e d data actor = Inr (d', p) \<or> updatePrinter d i data actor = Inr (d', p)"
  shows "no_chain d'"
  using assms(3) create_no_chain [OF assms(1) _ assms(2)] update_no_chain [OF assms(1)] by blast

lemma no_fallback_chain_witness:
  "succeeds_with (\<lambda>(d', p). no_chain d' \<and> pr_fallbackPrinterId p = Some ''q'' \<and> pr_port p = Some 631)
     (createPrinter run_env (sample_db\<lparr>t_printers := [sample_printer\<lparr>pr_id := ''q''\<rparr>]\<rparr>)
        (no_input\<lparr>pin_name := Some '' Bar '', pin_type := Some ''cups_ipp'', pin_queueName := Some (Some ''bar''),
           pin_fallbackPrinterId := Some (Some ''q'')\<rparr>) (Some ''u''))"
proof -
  let ?d = "sample_db\<lparr>t_printers := [sample_printer\<lparr>pr_id := ''q''\<rparr>]\<rparr>"
  let ?data = "no_input\<lparr>pin_name := Some '' Bar '', pin_type := Some ''cups_ipp'', pin_queueName := Some (Some ''bar''),
     pin_fallbackPrinterId := Some (Some ''q'')\<rparr>"
  let ?run = "createPrinter run_env ?d ?data (Some ''u'')"
  have "succeeds_with (\<lambda>(d', p). pr_fallbackPrinterId p = Some ''q'' \<and> pr_port p = Some 631) ?run" by code_simp
  then obtain d' p where run: "?run = Inr (d', p)" and p: "pr_fallbackPrinterId p = Some ''q'' \<and> pr_port p = Some 631"
    by (auto elim!: succeeds_withE)
  have "no_chain ?d" by (simp add: no_chain_def sample_printer_def)
  moreover have "fresh_id run_env ?d \<notin> insert [] (pr_id ` set (t_printers ?d))" by code_simp
  ultimately have "no_chain d'" using no_fallback_chain [of ?d run_env ?data "Some ''u''" d' p] run by blast
  with p show ?thesis unfolding run by (simp add: succeeds_with_def)
qed

end
