(* ===== verification/VO_Vouchers.thy ===== *)
theory VO_Vouchers
  imports VO_Payments
begin

text \<open>
  Value vouchers, \<^verbatim>\<open>apps/backend/src/value-vouchers/value-vouchers.service.ts\<close>: a voucher is a balance in
  cents with a journal of movements; it is issued against cash or card, redeemed against an order (the rest of
  which must be paid in the same call) and cancelled while unused. Each serializable transaction is one step on the
  state \<open>d\<close>; the idempotency lookup before it reads \<open>pre\<close>. The CHECK constraints and unique indexes are those of the
  migration \<^verbatim>\<open>20260828100000_add_value_vouchers\<close>.
\<close>

section \<open>Requests and answers\<close>

record issue_input =
  iv_eventId :: id
  iv_cashierSessionId :: id
  iv_printerId :: "id option"
  iv_amount :: int
  iv_fundingMethod :: payment_method
  iv_tenderedAmount :: "int option"
  iv_idempotencyKey :: string

record remainder_input =
  re_method :: payment_method
  re_tenderedAmount :: "int option"

record redeem_input =
  rd_eventId :: id
  rd_cashierSessionId :: id
  rd_orderId :: id
  rd_code :: string
  rd_printerId :: "id option"
  rd_remainderPayment :: "remainder_input option"
  rd_idempotencyKey :: string

record voucher_query =
  vq_eventId :: id
  vq_cashierSessionId :: id
  vq_orderId :: "id option"
  vq_code :: string

record cancel_input =
  cv_eventId :: id
  cv_cashierSessionId :: id
  cv_code :: string
  cv_idempotencyKey :: string
  cv_reason :: string

datatype voucher_answer =
    Issued string int value_voucher_status id
  | Replayed string id int
  | Redeemed string int int id order_payment_status
  | Voided string

datatype voucher_quote =
    Balance string int data_mode
  | Redeemable string int id int int data_mode

record voucher_history =
  vh_id :: id
  vh_code :: string
  vh_status :: value_voucher_status
  vh_initialBalance :: int
  vh_currentBalance :: int
  vh_movements :: "vv_movement list"

section \<open>Rules\<close>

definition issue_role :: "role \<Rightarrow> api_error + unit" where
  "issue_role r = ensure (\<not> (r \<noteq> ADMINISTRATOR \<and> r \<noteq> CASHIER)) (Forbidden ''ISSUE_ROLE'')"

definition redeem_role :: "role \<Rightarrow> api_error + unit" where
  "redeem_role r = ensure (\<not> (r \<noteq> ADMINISTRATOR \<and> r \<noteq> CASHIER \<and> r \<noteq> WAITER)) (Forbidden ''REDEEM_ROLE'')"

definition management_role :: "role \<Rightarrow> api_error + unit" where
  "management_role r = ensure (\<not> (r \<noteq> ADMINISTRATOR \<and> r \<noteq> EVENT_MANAGER \<and> r \<noteq> REVISION)) (Forbidden ''MANAGEMENT_ROLE'')"

definition normalizeCode :: "string \<Rightarrow> string" where
  "normalizeCode c = js_upper (js_trim c)"

text \<open>The first five and the last four characters; the ellipsis is three dots here.\<close>

definition mask :: "string \<Rightarrow> string" where
  "mask c = take 5 c @ ''...'' @ drop (length c - 4) c"

text \<open>\<open>env_random\<close> stands for twelve random bytes in upper case hexadecimal digits.\<close>

definition newCode :: "env \<Rightarrow> nat \<Rightarrow> data_mode \<Rightarrow> string" where
  "newCode e n m = mode_text m @ ''-'' @ env_random e n"

definition validateTender :: "int \<Rightarrow> payment_method \<Rightarrow> int option \<Rightarrow> api_error + unit" where
  "validateTender amount method tendered =
     bind_res (ensure (\<not> (method = CASH \<and> (case tendered of None \<Rightarrow> True | Some t \<Rightarrow> t < amount))) (BadRequest ''TENDER_TOO_LOW'')) (\<lambda>_.
     ensure (\<not> (method = CARD \<and> tendered \<noteq> None)) (BadRequest ''TENDER_WITH_CARD''))"

definition requirePrinter :: "db \<Rightarrow> id option \<Rightarrow> api_error + id" where
  "requirePrinter d printerId =
     bind_res (need (truthy printerId) (BadRequest ''PRINTER_REQUIRED'')) (\<lambda>i.
     bind_res (need (find (\<lambda>p. pr_id p = i \<and> pr_isActive p) (t_printers d)) (BadRequest ''PRINTER_INACTIVE'')) (\<lambda>p. Inr (pr_id p)))"

record cashier_context =
  cc_sessionId :: id
  cc_dataMode :: data_mode
  cc_eventName :: string

definition requireCashierContext :: "db \<Rightarrow> id \<Rightarrow> id \<Rightarrow> id \<Rightarrow> api_error + cashier_context" where
  "requireCashierContext d userId eventId sessionId =
     bind_res (need (find (\<lambda>s. cs_id s = sessionId) (t_sessions d)) (Forbidden ''SESSION_REQUIRED'')) (\<lambda>s.
     bind_res (ensure (\<not> (cs_userId s \<noteq> userId \<or> cs_eventId s \<noteq> eventId \<or> cs_status s \<noteq> SE_ACTIVE)) (Forbidden ''SESSION_REQUIRED'')) (\<lambda>_.
     let ev = find_event d eventId in
     bind_res (resolveOperationalDataMode ev) (\<lambda>mode.
     bind_res (need mode (BadRequest ''MODE_MISMATCH'')) (\<lambda>m.
     bind_res (ensure (cs_dataMode s = m) (BadRequest ''MODE_MISMATCH'')) (\<lambda>_.
     Inr \<lparr>cc_sessionId = cs_id s, cc_dataMode = m, cc_eventName = (case ev of None \<Rightarrow> [] | Some v \<Rightarrow> ev_name v)\<rparr>)))))"

definition completed_payments :: "db \<Rightarrow> id \<Rightarrow> payment list" where
  "completed_payments d oid = filter (\<lambda>p. pm_status p = PS_COMPLETED) (order_payments d oid)"

definition completedPaid :: "payment list \<Rightarrow> int" where
  "completedPaid ps = sum_list (map (\<lambda>p. if pm_method p = REFUND then 0 else pm_amount p) ps)"

definition outstanding :: "order \<Rightarrow> payment list \<Rightarrow> int" where
  "outstanding o' ps = max 0 (od_totalAmount o' - completedPaid ps)"

definition order_in_context :: "db \<Rightarrow> id \<Rightarrow> id \<Rightarrow> data_mode \<Rightarrow> api_error + order" where
  "order_in_context d oid eventId m =
     bind_res (need (find_order d oid) (NotFound ''ORDER'')) (\<lambda>o'.
     bind_res (ensure (\<not> (od_eventId o' \<noteq> eventId \<or> od_dataMode o' \<noteq> m)) (NotFound ''ORDER'')) (\<lambda>_. Inr o'))"

definition voucher_in_context :: "db \<Rightarrow> string \<Rightarrow> id \<Rightarrow> data_mode \<Rightarrow> api_error + value_voucher" where
  "voucher_in_context d code eventId m =
     bind_res (need (find (\<lambda>v. vv_code v = normalizeCode code) (t_valueVouchers d)) (NotFound ''VOUCHER'')) (\<lambda>v.
     bind_res (ensure (\<not> (vv_eventId v \<noteq> eventId \<or> vv_dataMode v \<noteq> m)) (NotFound ''VOUCHER'')) (\<lambda>_. Inr v))"

section \<open>Fingerprints and replays\<close>

definition issue_json :: "issue_input \<Rightarrow> json" where
  "issue_json i = JObj [(''action'', JStr ''ISSUE''), (''data'', JObj ([(''eventId'', JStr (iv_eventId i)),
     (''cashierSessionId'', JStr (iv_cashierSessionId i))] @ jopt JStr ''printerId'' (iv_printerId i)
     @ [(''amount'', JNum (iv_amount i)), (''fundingMethod'', JStr (method_text (iv_fundingMethod i)))]
     @ jopt JNum ''tenderedAmount'' (iv_tenderedAmount i) @ [(''idempotencyKey'', JStr (iv_idempotencyKey i))]))]"

definition redeem_json :: "redeem_input \<Rightarrow> json" where
  "redeem_json i = JObj [(''action'', JStr ''REDEEM''), (''data'', JObj ([(''eventId'', JStr (rd_eventId i)),
     (''cashierSessionId'', JStr (rd_cashierSessionId i)), (''orderId'', JStr (rd_orderId i)), (''code'', JStr (rd_code i))]
     @ jopt JStr ''printerId'' (rd_printerId i)
     @ jopt (\<lambda>r. JObj ((''method'', JStr (method_text (re_method r))) # jopt JNum ''tenderedAmount'' (re_tenderedAmount r)))
         ''remainderPayment'' (rd_remainderPayment i)
     @ [(''idempotencyKey'', JStr (rd_idempotencyKey i))]))]"

definition cancel_json :: "cancel_input \<Rightarrow> json" where
  "cancel_json i = JObj [(''action'', JStr ''CANCEL''), (''data'', JObj [(''eventId'', JStr (cv_eventId i)),
     (''cashierSessionId'', JStr (cv_cashierSessionId i)), (''code'', JStr (cv_code i)),
     (''idempotencyKey'', JStr (cv_idempotencyKey i)), (''reason'', JStr (cv_reason i))])]"

definition findIdempotent :: "db \<Rightarrow> string \<Rightarrow> string \<Rightarrow> api_error + voucher_answer option" where
  "findIdempotent d key fp =
     (case find (\<lambda>m. vm_idempotencyKey m = key) (t_vvMovements d) of
        None \<Rightarrow> Inr None
      | Some m \<Rightarrow>
          bind_res (ensure (vm_requestFingerprint m = fp) (Conflict ''IDEMPOTENCY_KEY_REUSED'')) (\<lambda>_.
          bind_res (need (find (\<lambda>v. vv_id v = vm_voucherId m) (t_valueVouchers d)) (TypeError ''voucher'')) (\<lambda>v.
          Inr (Some (Replayed (mask (vv_code v)) (vm_id m) (vm_balanceAfter m))))))"

text \<open>The lookup before the transaction, the lookup inside it, then the work.\<close>

definition with_replay ::
  "db \<Rightarrow> db \<Rightarrow> string \<Rightarrow> string \<Rightarrow> (db \<Rightarrow> api_error + db \<times> voucher_answer) \<Rightarrow> api_error + db \<times> voucher_answer" where
  "with_replay pre d key fp work =
     bind_res (findIdempotent pre key fp) (\<lambda>known. case known of
       Some a \<Rightarrow> Inr (d, a)
     | None \<Rightarrow> bind_res (findIdempotent d key fp) (\<lambda>again. case again of
         Some a \<Rightarrow> Inr (d, a)
       | None \<Rightarrow> work d))"

section \<open>Rows and their constraints\<close>

definition blank_vv_movement :: vv_movement where
  "blank_vv_movement = \<lparr>vm_id = [], vm_type = VM_ISSUE, vm_balanceDelta = 0, vm_balanceBefore = 0, vm_balanceAfter = 0,
     vm_voucherId = [], vm_eventId = [], vm_dataMode = TEST, vm_orderId = None, vm_paymentId = None, vm_actorUserId = [],
     vm_cashierSessionId = [], vm_fundingMethod = None, vm_tenderedAmount = None, vm_changeAmount = None,
     vm_reason = None, vm_idempotencyKey = [], vm_requestFingerprint = [], vm_createdAt = 0\<rparr>"

definition reason_given :: "vv_movement \<Rightarrow> bool" where
  "reason_given m \<longleftrightarrow> (case vm_reason m of None \<Rightarrow> False | Some r \<Rightarrow> js_trim r \<noteq> [])"

definition balance_chain_check :: "vv_movement \<Rightarrow> bool" where
  "balance_chain_check m \<longleftrightarrow> 0 \<le> vm_balanceBefore m \<and> vm_balanceBefore m \<le> int32_max \<and>
     0 \<le> vm_balanceAfter m \<and> vm_balanceAfter m \<le> int32_max \<and> vm_balanceAfter m = vm_balanceBefore m + vm_balanceDelta m"

definition tender_check :: "vv_movement \<Rightarrow> bool" where
  "tender_check m \<longleftrightarrow> (case (vm_fundingMethod m, vm_tenderedAmount m, vm_changeAmount m) of
     (Some CASH, Some t, Some c) \<Rightarrow> vm_balanceDelta m \<le> t \<and> c = t - vm_balanceDelta m
   | (Some CARD, None, None) \<Rightarrow> True
   | (None, None, None) \<Rightarrow> True
   | _ \<Rightarrow> False)"

definition type_fields_check :: "vv_movement \<Rightarrow> bool" where
  "type_fields_check m \<longleftrightarrow> (case vm_type m of
     VM_ISSUE \<Rightarrow> vm_balanceDelta m > 0 \<and> vm_balanceBefore m = 0 \<and> vm_balanceAfter m = vm_balanceDelta m \<and>
       vm_orderId m = None \<and> vm_paymentId m = None \<and> vm_fundingMethod m \<in> {Some CASH, Some CARD}
   | VM_REDEEM \<Rightarrow> vm_balanceDelta m < 0 \<and> vm_orderId m \<noteq> None \<and> vm_paymentId m \<noteq> None \<and> vm_fundingMethod m = None
   | VM_REDEEM_REVERSAL \<Rightarrow> False
   | VM_CANCEL \<Rightarrow> vm_balanceDelta m < 0 \<and> vm_balanceAfter m = 0 \<and> vm_orderId m = None \<and> vm_paymentId m = None \<and>
       vm_fundingMethod m = None \<and> reason_given m)"

definition voucher_check :: "value_voucher \<Rightarrow> bool" where
  "voucher_check v \<longleftrightarrow> 0 < vv_initialBalance v \<and> 0 \<le> vv_currentBalance v \<and> vv_currentBalance v \<le> vv_initialBalance v \<and>
     0 \<le> vv_version v \<and> (if vv_status v = VV_ACTIVE then 0 < vv_currentBalance v else vv_currentBalance v = 0)"

definition create_voucher :: "env \<Rightarrow> value_voucher \<Rightarrow> db \<Rightarrow> api_error + db \<times> value_voucher" where
  "create_voucher e v d =
     bind_res (ensure (\<not> list_ex (\<lambda>x. vv_code x = vv_code v) (t_valueVouchers d)) (UniqueViolation ''ValueVoucher.code'')) (\<lambda>_.
     bind_res (ensure (voucher_check v) (TypeError ''CHECK'')) (\<lambda>_.
     let v' = v\<lparr>vv_id := fresh_id e d\<rparr>
     in Inr (d\<lparr>t_valueVouchers := t_valueVouchers d @ [v'], serial := Suc (serial d)\<rparr>, v')))"

definition create_vv_movement :: "env \<Rightarrow> vv_movement \<Rightarrow> db \<Rightarrow> api_error + db \<times> vv_movement" where
  "create_vv_movement e m d =
     bind_res (ensure (\<not> list_ex (\<lambda>x. vm_idempotencyKey x = vm_idempotencyKey m) (t_vvMovements d))
        (UniqueViolation ''ValueVoucherMovement.idempotencyKey'')) (\<lambda>_.
     bind_res (ensure (\<not> list_ex (\<lambda>x. vm_paymentId m \<noteq> None \<and> vm_paymentId x = vm_paymentId m) (t_vvMovements d))
        (UniqueViolation ''ValueVoucherMovement.paymentId'')) (\<lambda>_.
     bind_res (ensure (balance_chain_check m \<and> tender_check m \<and> type_fields_check m) (TypeError ''CHECK'')) (\<lambda>_.
     let m' = m\<lparr>vm_id := fresh_id e d, vm_createdAt := env_now e\<rparr>
     in Inr (d\<lparr>t_vvMovements := t_vvMovements d @ [m'], serial := Suc (serial d)\<rparr>, m'))))"

definition create_voucher_job :: "env \<Rightarrow> id \<Rightarrow> print_job_type \<Rightarrow> id \<Rightarrow> string \<Rightarrow> json \<Rightarrow> db \<Rightarrow> api_error + db" where
  "create_voucher_job e printerId ty movementId key content d =
     bind_res (ensure (\<not> list_ex (\<lambda>j. pj_sourceKey j = Some key) (t_printJobs d)) (UniqueViolation ''PrintJob.sourceKey'')) (\<lambda>_.
     Inr (d\<lparr>t_printJobs := t_printJobs d @ [(new_print_job (fresh_id e d) printerId ty content (env_now e))
            \<lparr>pj_valueVoucherMovementId := Some movementId, pj_sourceKey := Some key\<rparr>], serial := Suc (serial d)\<rparr>))"

definition voucher_audit :: "string \<Rightarrow> id \<Rightarrow> id \<Rightarrow> (string \<times> json) list \<Rightarrow> audit_entry" where
  "voucher_audit action vid userId details = \<lparr>al_action = action, al_entityId = vid, al_entityType = ''ValueVoucher'',
     al_userId = truthy (Some userId), al_details = JObj details\<rparr>"

section \<open>Issuing\<close>

definition issued_tender :: "issue_input \<Rightarrow> int option" where
  "issued_tender i = (if iv_fundingMethod i = CASH
     then Some (case iv_tenderedAmount i of None \<Rightarrow> iv_amount i | Some t \<Rightarrow> t) else None)"

definition issue_movement :: "id \<Rightarrow> issue_input \<Rightarrow> cashier_context \<Rightarrow> id \<Rightarrow> string \<Rightarrow> vv_movement" where
  "issue_movement userId i c vid fp = blank_vv_movement\<lparr>vm_type := VM_ISSUE, vm_balanceDelta := iv_amount i,
     vm_balanceAfter := iv_amount i, vm_voucherId := vid, vm_eventId := iv_eventId i, vm_dataMode := cc_dataMode c,
     vm_actorUserId := userId, vm_cashierSessionId := cc_sessionId c, vm_fundingMethod := Some (iv_fundingMethod i),
     vm_tenderedAmount := issued_tender i, vm_changeAmount := map_option (\<lambda>t. t - iv_amount i) (issued_tender i),
     vm_idempotencyKey := iv_idempotencyKey i, vm_requestFingerprint := fp\<rparr>"

definition issue_tx :: "env \<Rightarrow> id \<Rightarrow> issue_input \<Rightarrow> string \<Rightarrow> db \<Rightarrow> api_error + db \<times> voucher_answer" where
  "issue_tx e userId i fp d =
     bind_res (requireCashierContext d userId (iv_eventId i) (iv_cashierSessionId i)) (\<lambda>c.
     bind_res (validateTender (iv_amount i) (iv_fundingMethod i) (iv_tenderedAmount i)) (\<lambda>_.
     bind_res (requirePrinter d (iv_printerId i)) (\<lambda>printer.
     let code = newCode e (serial d) (cc_dataMode c) in
     bind_res (create_voucher e \<lparr>vv_id = [], vv_code = code, vv_status = VV_ACTIVE, vv_initialBalance = iv_amount i,
         vv_currentBalance = iv_amount i, vv_version = 0, vv_eventId = iv_eventId i, vv_dataMode = cc_dataMode c,
         vv_issuedByUserId = userId, vv_issuedCashierSessionId = cc_sessionId c\<rparr> (d\<lparr>serial := Suc (serial d)\<rparr>)) (\<lambda>(d1, v).
     bind_res (create_vv_movement e (issue_movement userId i c (vv_id v) fp) d1) (\<lambda>(d2, m).
     bind_res (create_voucher_job e printer VALUE_VOUCHER_ISSUE (vm_id m) (''value-voucher-issue:'' @ vm_id m)
         (JObj [(''title'', JStr ''WERTGUTSCHEIN''), (''eventName'', JStr (cc_eventName c)), (''voucherCode'', JStr code),
            (''initialBalance'', JNum (iv_amount i)), (''dataMode'', JStr (mode_text (cc_dataMode c)))]) d2) (\<lambda>d3.
     Inr (add_audit (voucher_audit ''VALUE_VOUCHER_ISSUED'' (vv_id v) userId
            [(''eventId'', JStr (iv_eventId i)), (''dataMode'', JStr (mode_text (cc_dataMode c))), (''voucherCode'', JStr (mask code)),
             (''amount'', JNum (iv_amount i)), (''fundingMethod'', JStr (method_text (iv_fundingMethod i))),
             (''cashierSessionId'', JStr (cc_sessionId c))]) d3,
          Issued (vv_code v) (vv_currentBalance v) (vv_status v) (vm_id m))))))))"

definition issue :: "env \<Rightarrow> db \<Rightarrow> db \<Rightarrow> id \<Rightarrow> role \<Rightarrow> issue_input \<Rightarrow> api_error + db \<times> voucher_answer" where
  "issue e pre d userId r i =
     bind_res (issue_role r) (\<lambda>_.
     let fp = fingerprint e (issue_json i)
     in with_replay pre d (iv_idempotencyKey i) fp (issue_tx e userId i fp))"

section \<open>Quoting\<close>

definition quote :: "db \<Rightarrow> id \<Rightarrow> role \<Rightarrow> voucher_query \<Rightarrow> api_error + voucher_quote" where
  "quote d userId r q =
     bind_res (redeem_role r) (\<lambda>_.
     bind_res (requireCashierContext d userId (vq_eventId q) (vq_cashierSessionId q)) (\<lambda>c.
     bind_res (voucher_in_context d (vq_code q) (vq_eventId q) (cc_dataMode c)) (\<lambda>v.
     bind_res (ensure (\<not> (vv_status v \<noteq> VV_ACTIVE \<or> vv_currentBalance v \<le> 0)) (BadRequest ''NOT_REDEEMABLE'')) (\<lambda>_.
     case truthy (vq_orderId q) of
       None \<Rightarrow> Inr (Balance (mask (vv_code v)) (vv_currentBalance v) (vv_dataMode v))
     | Some oid \<Rightarrow>
         bind_res (order_in_context d oid (vq_eventId q) (cc_dataMode c)) (\<lambda>o'.
         let open' = outstanding o' (completed_payments d oid)
         in Inr (Redeemable (mask (vv_code v)) (vv_currentBalance v) (od_id o') open' (min (vv_currentBalance v) open') (vv_dataMode v)))))))"

section \<open>Redeeming\<close>

fun allocate :: "id \<Rightarrow> int \<times> vv_allocation list \<Rightarrow> order_item \<Rightarrow> int \<times> vv_allocation list" where
  "allocate movementId (remaining, rows) it =
     (if remaining \<le> 0 then (remaining, rows)
      else let allocated = min (oi_quantity it * (oi_priceAtTime it + oi_depositAtTime it)) remaining
           in (remaining - allocated,
               if allocated > 0 then rows @ [\<lparr>va_movementId = movementId, va_orderItemId = oi_id it, va_amount = allocated\<rparr>]
               else rows))"

definition createAllocations :: "id \<Rightarrow> order_item list \<Rightarrow> int \<Rightarrow> api_error + vv_allocation list" where
  "createAllocations movementId items amount =
     (let (remaining, rows) = foldl (allocate movementId) (amount, []) items
      in bind_res (ensure (remaining = 0) (BadRequest ''NOT_ALLOCATABLE'')) (\<lambda>_. Inr rows))"

definition redeemable :: "db \<Rightarrow> cashier_context \<Rightarrow> redeem_input \<Rightarrow> api_error + order \<times> value_voucher \<times> int \<times> int" where
  "redeemable d c i =
     bind_res (order_in_context d (rd_orderId i) (rd_eventId i) (cc_dataMode c)) (\<lambda>o'.
     bind_res (ensure (od_lifecycleStatus o' \<noteq> LC_CANCELLED) (BadRequest ''ORDER_CANCELLED'')) (\<lambda>_.
     let open' = outstanding o' (completed_payments d (rd_orderId i)) in
     bind_res (voucher_in_context d (rd_code i) (rd_eventId i) (cc_dataMode c)) (\<lambda>v.
     bind_res (ensure (\<not> (vv_status v \<noteq> VV_ACTIVE \<or> vv_currentBalance v \<le> 0)) (BadRequest ''NO_BALANCE'')) (\<lambda>_.
     let amount = min (vv_currentBalance v) open' in
     bind_res (ensure (\<not> amount \<le> 0) (BadRequest ''NOTHING_OPEN'')) (\<lambda>_.
     let rest = open' - amount in
     bind_res (ensure (\<not> (rest > 0 \<and> rd_remainderPayment i = None)) (BadRequest ''REMAINDER_REQUIRED'')) (\<lambda>_.
     bind_res (ensure (\<not> (rest = 0 \<and> rd_remainderPayment i \<noteq> None)) (BadRequest ''REMAINDER_NOT_ALLOWED'')) (\<lambda>_.
     bind_res (case rd_remainderPayment i of None \<Rightarrow> Inr () | Some r \<Rightarrow> validateTender rest (re_method r) (re_tenderedAmount r)) (\<lambda>_.
     Inr (o', v, amount, rest)))))))))"

definition debit_voucher :: "value_voucher \<Rightarrow> int \<Rightarrow> db \<Rightarrow> api_error + db" where
  "debit_voucher v amount d =
     (let c = (\<lambda>x. vv_id x = vv_id v \<and> amount \<le> vv_currentBalance x \<and> vv_status x = VV_ACTIVE \<and> vv_version x = vv_version v);
          next' = vv_currentBalance v - amount
      in bind_res (ensure (count_where c (t_valueVouchers d) = 1) (Conflict ''VOUCHER_CHANGED'')) (\<lambda>_.
         Inr (d\<lparr>t_valueVouchers := update_where c (\<lambda>x. x\<lparr>vv_currentBalance := next',
            vv_status := (if next' = 0 then VV_DEPLETED else VV_ACTIVE), vv_version := vv_version x + 1\<rparr>) (t_valueVouchers d)\<rparr>)))"

definition create_payment :: "env \<Rightarrow> id \<Rightarrow> payment \<Rightarrow> db \<Rightarrow> db \<times> payment" where
  "create_payment e oid p d =
     (let p' = p\<lparr>pm_id := fresh_id e d, pm_orderId := oid\<rparr>
      in (d\<lparr>t_payments := t_payments d @ [p'], serial := Suc (serial d)\<rparr>, p'))"

definition voucher_payment :: "id \<Rightarrow> int \<Rightarrow> payment" where
  "voucher_payment sess amount = \<lparr>pm_id = [], pm_orderId = [], pm_amount = amount, pm_tenderedAmount = None,
     pm_changeAmount = 0, pm_method = VOUCHER, pm_status = PS_COMPLETED, pm_cashierSessionId = Some sess\<rparr>"

definition remainder_payment :: "id \<Rightarrow> int \<Rightarrow> remainder_input \<Rightarrow> payment" where
  "remainder_payment sess rest r =
     (let t = (case re_tenderedAmount r of None \<Rightarrow> rest | Some t \<Rightarrow> t)
      in \<lparr>pm_id = [], pm_orderId = [], pm_amount = rest, pm_tenderedAmount = (if re_method r = CASH then Some t else None),
          pm_changeAmount = (if re_method r = CASH then t - rest else 0), pm_method = re_method r,
          pm_status = PS_COMPLETED, pm_cashierSessionId = Some sess\<rparr>)"

definition redeem_movement :: "id \<Rightarrow> redeem_input \<Rightarrow> cashier_context \<Rightarrow> value_voucher \<Rightarrow> int \<Rightarrow> id \<Rightarrow> id \<Rightarrow> string \<Rightarrow> vv_movement" where
  "redeem_movement userId i c v amount oid pid fp = blank_vv_movement\<lparr>vm_type := VM_REDEEM, vm_balanceDelta := - amount,
     vm_balanceBefore := vv_currentBalance v, vm_balanceAfter := vv_currentBalance v - amount, vm_voucherId := vv_id v,
     vm_eventId := rd_eventId i, vm_dataMode := cc_dataMode c, vm_orderId := Some oid, vm_paymentId := Some pid,
     vm_actorUserId := userId, vm_cashierSessionId := cc_sessionId c, vm_idempotencyKey := rd_idempotencyKey i,
     vm_requestFingerprint := fp\<rparr>"

definition redeem_audit :: "id \<Rightarrow> redeem_input \<Rightarrow> cashier_context \<Rightarrow> value_voucher \<Rightarrow> id \<Rightarrow> int \<Rightarrow> audit_entry" where
  "redeem_audit userId i c v oid amount = voucher_audit ''VALUE_VOUCHER_REDEEMED'' (vv_id v) userId
     [(''eventId'', JStr (rd_eventId i)), (''dataMode'', JStr (mode_text (cc_dataMode c))), (''voucherCode'', JStr (mask (vv_code v))),
      (''orderId'', JStr oid), (''amount'', JNum amount), (''balanceAfter'', JNum (vv_currentBalance v - amount)),
      (''cashierSessionId'', JStr (cc_sessionId c)),
      (''remainderMethod'', jnull (\<lambda>r. JStr (method_text (re_method r))) (rd_remainderPayment i))]"

definition balance_ticket :: "redeem_input \<Rightarrow> cashier_context \<Rightarrow> value_voucher \<Rightarrow> id \<Rightarrow> int \<Rightarrow> json" where
  "balance_ticket i c v oid amount = JObj [(''title'', JStr ''GUTSCHEIN-RESTGUTHABEN''), (''eventName'', JStr (cc_eventName c)),
     (''voucherCode'', JStr (vv_code v)), (''redeemedAmount'', JNum amount),
     (''currentBalance'', JNum (vv_currentBalance v - amount)), (''orderId'', JStr oid)]"

definition book_redemption ::
  "env \<Rightarrow> id \<Rightarrow> redeem_input \<Rightarrow> string \<Rightarrow> cashier_context \<Rightarrow> id \<Rightarrow> order \<Rightarrow> value_voucher \<Rightarrow> int \<Rightarrow> int \<Rightarrow> int \<Rightarrow> db \<Rightarrow>
   api_error + db \<times> voucher_answer" where
  "book_redemption e userId i fp c printer o' v amount rest paid d =
     (let (d2, p) = create_payment e (od_id o') (voucher_payment (cc_sessionId c) amount) d in
      bind_res (create_vv_movement e (redeem_movement userId i c v amount (od_id o') (pm_id p) fp) d2) (\<lambda>(d3, m).
      let d4 = (case rd_remainderPayment i of None \<Rightarrow> d3
                 | Some r \<Rightarrow> fst (create_payment e (od_id o') (remainder_payment (cc_sessionId c) rest r) d3));
          st = (if paid + amount + rest = od_totalAmount o' then PAID else PARTIALLY_PAID);
          d5 = update_order (od_id o') (\<lambda>x. x\<lparr>od_paymentStatus := st\<rparr>) d4 in
      bind_res (createAllocations (vm_id m) (order_items d (od_id o')) amount) (\<lambda>rows.
      let d6 = d5\<lparr>t_vvAllocations := t_vvAllocations d5 @ rows\<rparr> in
      bind_res (if vv_currentBalance v - amount > 0
                then create_voucher_job e printer VALUE_VOUCHER_BALANCE (vm_id m) (''value-voucher-balance:'' @ vm_id m)
                       (balance_ticket i c v (od_id o') amount) d6
                else Inr d6) (\<lambda>d7.
      Inr (add_audit (redeem_audit userId i c v (od_id o') amount) d7,
           Redeemed (mask (vv_code v)) amount (vv_currentBalance v - amount) (od_id o') st)))))"

definition redeem_tx :: "env \<Rightarrow> id \<Rightarrow> redeem_input \<Rightarrow> string \<Rightarrow> db \<Rightarrow> api_error + db \<times> voucher_answer" where
  "redeem_tx e userId i fp d =
     bind_res (requireCashierContext d userId (rd_eventId i) (rd_cashierSessionId i)) (\<lambda>c.
     bind_res (redeemable d c i) (\<lambda>(o', v, amount, rest).
     bind_res (requirePrinter d (rd_printerId i)) (\<lambda>printer.
     bind_res (debit_voucher v amount d) (\<lambda>d1.
     book_redemption e userId i fp c printer o' v amount rest
       (completedPaid (completed_payments d (rd_orderId i))) d1))))"

definition redeem :: "env \<Rightarrow> db \<Rightarrow> db \<Rightarrow> id \<Rightarrow> role \<Rightarrow> redeem_input \<Rightarrow> api_error + db \<times> voucher_answer" where
  "redeem e pre d userId r i =
     bind_res (redeem_role r) (\<lambda>_.
     let fp = fingerprint e (redeem_json i)
     in with_replay pre d (rd_idempotencyKey i) fp (redeem_tx e userId i fp))"

section \<open>History and cancellation\<close>

definition history :: "db \<Rightarrow> id \<Rightarrow> role \<Rightarrow> voucher_query \<Rightarrow> api_error + voucher_history" where
  "history d userId r q =
     bind_res (management_role r) (\<lambda>_.
     bind_res (requireCashierContext d userId (vq_eventId q) (vq_cashierSessionId q)) (\<lambda>c.
     bind_res (voucher_in_context d (vq_code q) (vq_eventId q) (cc_dataMode c)) (\<lambda>v.
     Inr \<lparr>vh_id = vv_id v, vh_code = mask (vv_code v), vh_status = vv_status v, vh_initialBalance = vv_initialBalance v,
       vh_currentBalance = vv_currentBalance v,
       vh_movements = sort_key vm_createdAt (sort_key vm_id (filter (\<lambda>m. vm_voucherId m = vv_id v) (t_vvMovements d)))\<rparr>)))"

definition cancel_movement :: "id \<Rightarrow> cancel_input \<Rightarrow> cashier_context \<Rightarrow> value_voucher \<Rightarrow> string \<Rightarrow> vv_movement" where
  "cancel_movement userId i c v fp = blank_vv_movement\<lparr>vm_type := VM_CANCEL, vm_balanceDelta := - vv_currentBalance v,
     vm_balanceBefore := vv_currentBalance v, vm_balanceAfter := 0, vm_voucherId := vv_id v, vm_eventId := cv_eventId i,
     vm_dataMode := cc_dataMode c, vm_actorUserId := userId, vm_cashierSessionId := cc_sessionId c,
     vm_reason := Some (js_trim (cv_reason i)), vm_idempotencyKey := cv_idempotencyKey i, vm_requestFingerprint := fp\<rparr>"

definition void_voucher :: "value_voucher \<Rightarrow> db \<Rightarrow> api_error + db" where
  "void_voucher v d =
     (let c = (\<lambda>x. vv_id x = vv_id v \<and> vv_version x = vv_version v \<and> vv_currentBalance x = vv_initialBalance v \<and> vv_status x = VV_ACTIVE)
      in bind_res (ensure (count_where c (t_valueVouchers d) = 1) (Conflict ''VOUCHER_CHANGED'')) (\<lambda>_.
         Inr (d\<lparr>t_valueVouchers := update_where c (\<lambda>x. x\<lparr>vv_currentBalance := 0, vv_status := VV_CANCELLED,
            vv_version := vv_version x + 1\<rparr>) (t_valueVouchers d)\<rparr>)))"

definition cancel_tx :: "env \<Rightarrow> id \<Rightarrow> cancel_input \<Rightarrow> string \<Rightarrow> db \<Rightarrow> api_error + db \<times> voucher_answer" where
  "cancel_tx e userId i fp d =
     bind_res (requireCashierContext d userId (cv_eventId i) (cv_cashierSessionId i)) (\<lambda>c.
     bind_res (voucher_in_context d (cv_code i) (cv_eventId i) (cc_dataMode c)) (\<lambda>v.
     bind_res (ensure (\<not> (count_where (\<lambda>m. vm_voucherId m = vv_id v) (t_vvMovements d) \<noteq> 1 \<or>
         vv_currentBalance v \<noteq> vv_initialBalance v \<or> vv_status v \<noteq> VV_ACTIVE)) (BadRequest ''VOUCHER_USED'')) (\<lambda>_.
     bind_res (void_voucher v d) (\<lambda>d1.
     bind_res (create_vv_movement e (cancel_movement userId i c v fp) d1) (\<lambda>(d2, m).
     Inr (add_audit (voucher_audit ''VALUE_VOUCHER_CANCELLED'' (vv_id v) userId
            [(''eventId'', JStr (cv_eventId i)), (''dataMode'', JStr (mode_text (cc_dataMode c))), (''voucherCode'', JStr (mask (vv_code v))),
             (''cashierSessionId'', JStr (cc_sessionId c)), (''reason'', JStr (js_trim (cv_reason i)))]) d2,
          Voided (mask (vv_code v))))))))"

definition cancel :: "env \<Rightarrow> db \<Rightarrow> db \<Rightarrow> id \<Rightarrow> role \<Rightarrow> cancel_input \<Rightarrow> api_error + db \<times> voucher_answer" where
  "cancel e pre d userId r i =
     bind_res (management_role r) (\<lambda>_.
     let fp = fingerprint e (cancel_json i)
     in with_replay pre d (cv_idempotencyKey i) fp (cancel_tx e userId i fp))"

end
