(* ===== verification/VO_Voucher_Laws.thy ===== *)
theory VO_Voucher_Laws
  imports VO_Vouchers VO_Payment_Laws
begin

text \<open>
  Laws of value vouchers: what each transaction does to the tables, the journal invariant (the balance of a
  voucher is the sum of its movements, every redemption is booked as a payment), and the distribution of a redemption over
  the positions of the order.
\<close>

section \<open>The journal\<close>

text \<open>What the movements of one kind add up to for a voucher.\<close>

definition type_sum :: "vv_movement_type \<Rightarrow> id \<Rightarrow> vv_movement list \<Rightarrow> int" where
  "type_sum ty vid ms = sum_list (map vm_balanceDelta (filter (\<lambda>m. vm_voucherId m = vid \<and> vm_type m = ty) ms))"

lemma type_sum_append [simp]: "type_sum ty vid (xs @ ys) = type_sum ty vid xs + type_sum ty vid ys"
  by (simp add: type_sum_def)

lemma type_sum_single [simp]:
  "type_sum ty vid [m] = (if vm_voucherId m = vid \<and> vm_type m = ty then vm_balanceDelta m else 0)"
  by (simp add: type_sum_def)

lemma type_sum_unknown: "\<forall>m \<in> set ms. vm_voucherId m \<noteq> vid \<Longrightarrow> type_sum ty vid ms = 0"
  unfolding type_sum_def by (subst filter_False) auto

text \<open>
  A voucher agrees with the journal: it was issued once for its initial balance, what is left is that less the
  redemptions and the cancellation, and only an unused voucher has been cancelled.
\<close>

definition voucher_balanced :: "vv_movement list \<Rightarrow> value_voucher \<Rightarrow> bool" where
  "voucher_balanced ms v \<longleftrightarrow> voucher_check v \<and> type_sum VM_ISSUE (vv_id v) ms = vv_initialBalance v \<and>
     vv_currentBalance v = vv_initialBalance v + type_sum VM_REDEEM (vv_id v) ms + type_sum VM_CANCEL (vv_id v) ms \<and>
     (if vv_status v = VV_CANCELLED then type_sum VM_REDEEM (vv_id v) ms = 0 else type_sum VM_CANCEL (vv_id v) ms = 0)"

definition redemption_booked :: "payment list \<Rightarrow> vv_movement \<Rightarrow> bool" where
  "redemption_booked ps m \<longleftrightarrow> (vm_type m = VM_REDEEM \<longrightarrow> (\<exists>p \<in> set ps. vm_paymentId m = Some (pm_id p) \<and>
     pm_method p = VOUCHER \<and> pm_amount p = - vm_balanceDelta m \<and> vm_orderId m = Some (pm_orderId p)))"

definition redeems :: "vv_movement list \<Rightarrow> vv_movement list" where
  "redeems ms = filter (\<lambda>m. vm_type m = VM_REDEEM) ms"

definition voucher_ledger_ok :: "db \<Rightarrow> bool" where
  "voucher_ledger_ok d \<longleftrightarrow> distinct (map vv_id (t_valueVouchers d)) \<and>
     (\<forall>v \<in> set (t_valueVouchers d). voucher_balanced (t_vvMovements d) v) \<and>
     (\<forall>m \<in> set (t_vvMovements d). vm_voucherId m \<in> vv_id ` set (t_valueVouchers d) \<and> redemption_booked (t_payments d) m) \<and>
     distinct (map vm_paymentId (redeems (t_vvMovements d)))"

lemma redemption_booked_mono: "redemption_booked ps m \<Longrightarrow> set ps \<subseteq> set ps' \<Longrightarrow> redemption_booked ps' m"
  by (auto simp: redemption_booked_def)

lemma redeems_snoc:
  assumes "distinct (map vm_paymentId (redeems ms))" and "vm_type m = VM_REDEEM \<Longrightarrow> \<forall>x \<in> set ms. vm_paymentId x \<noteq> vm_paymentId m"
  shows "distinct (map vm_paymentId (redeems (ms @ [m])))"
  using assms by (auto simp: redeems_def)

text \<open>One more movement for one voucher, whose row it changes.\<close>

lemma ledger_movement:
  assumes ok: "voucher_ledger_ok d" and v: "v \<in> set (t_valueVouchers d)" and v': "vv_id v' = vv_id v"
    and rows: "t_valueVouchers d' = map (\<lambda>x. if vv_id x = vv_id v then v' else x) (t_valueVouchers d)"
    and ms: "t_vvMovements d' = t_vvMovements d @ [m]" and own: "vm_voucherId m = vv_id v"
    and balanced: "voucher_balanced (t_vvMovements d @ [m]) v'"
    and booked: "redemption_booked (t_payments d') m" and ps: "set (t_payments d) \<subseteq> set (t_payments d')"
    and new: "vm_type m = VM_REDEEM \<Longrightarrow> \<forall>x \<in> set (t_vvMovements d). vm_paymentId x \<noteq> vm_paymentId m"
  shows "voucher_ledger_ok d'"
proof -
  have ids: "map vv_id (t_valueVouchers d') = map vv_id (t_valueVouchers d)" using v' by (auto simp: rows)
  then have idset: "vv_id ` set (t_valueVouchers d') = vv_id ` set (t_valueVouchers d)" by (metis set_map)
  have "voucher_balanced (t_vvMovements d') x" if "x \<in> set (t_valueVouchers d')" for x
  proof -
    from that obtain y where y: "y \<in> set (t_valueVouchers d)" "x = (if vv_id y = vv_id v then v' else y)" by (auto simp: rows)
    show ?thesis
    proof (cases "vv_id y = vv_id v")
      case True
      with y balanced show ?thesis by (simp add: ms)
    next
      case False
      moreover from ok y(1) have "voucher_balanced (t_vvMovements d) y" by (simp add: voucher_ledger_ok_def)
      ultimately show ?thesis using own y(2) by (simp add: ms voucher_balanced_def)
    qed
  qed
  moreover have "\<forall>x \<in> set (t_vvMovements d'). vm_voucherId x \<in> vv_id ` set (t_valueVouchers d') \<and> redemption_booked (t_payments d') x"
    using ok booked own v redemption_booked_mono [OF _ ps] unfolding idset by (auto simp: ms voucher_ledger_ok_def)
  moreover have "distinct (map vm_paymentId (redeems (t_vvMovements d')))"
    unfolding ms by (rule redeems_snoc) (use ok new in \<open>simp_all add: voucher_ledger_ok_def\<close>)
  ultimately show ?thesis using ok by (simp add: voucher_ledger_ok_def ids)
qed

lemma create_voucher_Inr:
  "create_voucher e v d = Inr (d', v') \<longleftrightarrow> v' = v\<lparr>vv_id := fresh_id e d\<rparr> \<and> voucher_check v \<and>
     vv_code v \<notin> vv_code ` set (t_valueVouchers d) \<and>
     d' = d\<lparr>t_valueVouchers := t_valueVouchers d @ [v'], serial := Suc (serial d)\<rparr>"
  by (auto simp: create_voucher_def res_simps Let_def list_ex_iff image_iff)

lemma create_vv_movement_Inr:
  "create_vv_movement e m d = Inr (d', m') \<longleftrightarrow> m' = m\<lparr>vm_id := fresh_id e d, vm_createdAt := env_now e\<rparr> \<and>
     balance_chain_check m \<and> tender_check m \<and> type_fields_check m \<and>
     vm_idempotencyKey m \<notin> vm_idempotencyKey ` set (t_vvMovements d) \<and>
     (\<forall>x \<in> set (t_vvMovements d). vm_paymentId m \<noteq> None \<longrightarrow> vm_paymentId x \<noteq> vm_paymentId m) \<and>
     d' = d\<lparr>t_vvMovements := t_vvMovements d @ [m'], serial := Suc (serial d)\<rparr>"
  by (auto simp: create_vv_movement_def res_simps Let_def list_ex_iff image_iff)

lemma create_voucher_job_Inr:
  "create_voucher_job e p ty mv key content d = Inr d' \<Longrightarrow>
     t_valueVouchers d' = t_valueVouchers d \<and> t_vvMovements d' = t_vvMovements d \<and> t_payments d' = t_payments d \<and>
     t_orders d' = t_orders d \<and> t_vvAllocations d' = t_vvAllocations d \<and> t_items d' = t_items d \<and>
     t_stocks d' = t_stocks d \<and> t_movements d' = t_movements d \<and> serial d' = Suc (serial d)"
  by (auto simp: create_voucher_job_def res_simps)

section \<open>Issuing\<close>

lemma issue_effect:
  assumes "issue_tx e u i fp d = Inr (d', a)"
  shows "\<exists>v m. t_valueVouchers d' = t_valueVouchers d @ [v] \<and> t_vvMovements d' = t_vvMovements d @ [m] \<and>
    vv_id v = env_uuid e (Suc (serial d)) \<and> voucher_check v \<and> vv_status v = VV_ACTIVE \<and> vv_currentBalance v = iv_amount i \<and>
    vv_initialBalance v = iv_amount i \<and> vv_code v \<notin> vv_code ` set (t_valueVouchers d) \<and>
    vm_voucherId m = vv_id v \<and> vm_balanceDelta m = iv_amount i \<and> vm_type m = VM_ISSUE \<and>
    vm_idempotencyKey m = iv_idempotencyKey i \<and> vm_requestFingerprint m = fp \<and>
    vm_idempotencyKey m \<notin> vm_idempotencyKey ` set (t_vvMovements d) \<and>
    a = Issued (vv_code v) (iv_amount i) VV_ACTIVE (vm_id m) \<and> vm_balanceAfter m = iv_amount i \<and>
    t_payments d' = t_payments d \<and> t_orders d' = t_orders d \<and> t_items d' = t_items d \<and> Suc (serial d) < serial d'"
  using assms unfolding issue_tx_def
  by (auto simp: res_simps Let_def create_voucher_Inr create_vv_movement_Inr issue_movement_def blank_vv_movement_def
      voucher_check_def fresh_id_def frame_simps dest!: create_voucher_job_Inr)

section \<open>Redeeming\<close>

lemma redeemable_Inr:
  assumes "redeemable d c i = Inr (o', v, amount, rest)"
  shows "find_order d (rd_orderId i) = Some o' \<and> od_id o' = rd_orderId i \<and> od_lifecycleStatus o' \<noteq> LC_CANCELLED \<and>
    od_eventId o' = rd_eventId i \<and> od_dataMode o' = cc_dataMode c \<and>
    v \<in> set (t_valueVouchers d) \<and> vv_code v = normalizeCode (rd_code i) \<and> vv_eventId v = rd_eventId i \<and>
    vv_dataMode v = cc_dataMode c \<and> vv_status v = VV_ACTIVE \<and> 0 < amount \<and>
    amount = min (vv_currentBalance v) (outstanding o' (completed_payments d (rd_orderId i))) \<and>
    rest = outstanding o' (completed_payments d (rd_orderId i)) - amount \<and> (0 < rest \<longleftrightarrow> rd_remainderPayment i \<noteq> None)"
  using assms
  by (auto simp: redeemable_def order_in_context_def voucher_in_context_def res_simps Let_def find_order_def
      dest: find_Some_mem)

definition debited :: "value_voucher \<Rightarrow> int \<Rightarrow> value_voucher \<Rightarrow> value_voucher" where
  "debited v amount x = x\<lparr>vv_currentBalance := vv_currentBalance v - amount,
     vv_status := (if vv_currentBalance v - amount = 0 then VV_DEPLETED else VV_ACTIVE), vv_version := vv_version x + 1\<rparr>"

lemma debited_id: "vv_id (debited v amount x) = vv_id x"
  by (simp add: debited_def)

lemma debit_voucher_Inr:
  assumes "debit_voucher v amount d = Inr d'" and "v \<in> set (t_valueVouchers d)" and "distinct (map vv_id (t_valueVouchers d))"
    and "vv_status v = VV_ACTIVE" and "amount \<le> vv_currentBalance v"
  shows "d' = d\<lparr>t_valueVouchers := map (\<lambda>x. if vv_id x = vv_id v then debited v amount v else x) (t_valueVouchers d)\<rparr>"
proof -
  let ?c = "\<lambda>x. vv_id x = vv_id v \<and> amount \<le> vv_currentBalance x \<and> vv_status x = VV_ACTIVE \<and> vv_version x = vv_version v"
  have "x = v" if "x \<in> set (t_valueVouchers d)" "vv_id x = vv_id v" for x
    using that find_distinct_key [OF assms(3)] assms(2) by (metis option.inject)
  then have "update_where ?c (debited v amount) (t_valueVouchers d) =
      map (\<lambda>x. if vv_id x = vv_id v then debited v amount v else x) (t_valueVouchers d)"
    using assms(4,5) unfolding update_where_def by (intro map_cong refl) auto
  moreover have "d' = d\<lparr>t_valueVouchers := update_where ?c (debited v amount) (t_valueVouchers d)\<rparr>"
    using assms(1) unfolding debit_voucher_def Let_def debited_def [abs_def] by (simp add: bind_res_Inr_iff ensure_Inr_iff)
  ultimately show ?thesis by simp
qed

lemma booking_effect:
  assumes "book_redemption e u i fp c pr o' v amount rest paid d = Inr (d', a)"
    and st: "st = (if paid + amount + rest = od_totalAmount o' then PAID else PARTIALLY_PAID)"
  shows "\<exists>p m rows. t_valueVouchers d' = t_valueVouchers d \<and>
    t_vvMovements d' = t_vvMovements d @ [m] \<and> vm_voucherId m = vv_id v \<and> vm_balanceDelta m = - amount \<and>
    vm_type m = VM_REDEEM \<and> vm_orderId m = Some (od_id o') \<and> vm_paymentId m = Some (pm_id p) \<and>
    vm_idempotencyKey m = rd_idempotencyKey i \<and> vm_requestFingerprint m = fp \<and> vm_balanceAfter m = vv_currentBalance v - amount \<and>
    vm_idempotencyKey m \<notin> vm_idempotencyKey ` set (t_vvMovements d) \<and> (\<forall>x \<in> set (t_vvMovements d). vm_paymentId x \<noteq> vm_paymentId m) \<and>
    pm_amount p = amount \<and> pm_method p = VOUCHER \<and> pm_orderId p = od_id o' \<and> pm_status p = PS_COMPLETED \<and>
    (case rd_remainderPayment i of None \<Rightarrow> t_payments d' = t_payments d @ [p]
     | Some r \<Rightarrow> \<exists>q. t_payments d' = t_payments d @ [p, q] \<and> pm_amount q = rest \<and> pm_method q = re_method r \<and>
         pm_orderId q = od_id o' \<and> pm_status q = PS_COMPLETED) \<and>
    t_orders d' = update_where (\<lambda>x. od_id x = od_id o') (\<lambda>x. x\<lparr>od_paymentStatus := st\<rparr>) (t_orders d) \<and>
    createAllocations (vm_id m) (order_items d (od_id o')) amount = Inr rows \<and> t_vvAllocations d' = t_vvAllocations d @ rows \<and>
    t_items d' = t_items d \<and> t_stocks d' = t_stocks d \<and> t_movements d' = t_movements d \<and> serial d < serial d' \<and>
    a = Redeemed (mask (vv_code v)) amount (vv_currentBalance v - amount) (od_id o') st"
proof -
  note unfolded = assms(1) [unfolded book_redemption_def Let_def, folded st]
  show ?thesis
  proof (cases "rd_remainderPayment i")
    case None
    with unfolded show ?thesis
      by (auto simp: create_payment_def bind_res_Inr_iff create_vv_movement_Inr redeem_movement_def blank_vv_movement_def
          voucher_payment_def update_order_def frame_simps Let_def split: if_splits dest!: create_voucher_job_Inr)
  next
    case (Some r)
    with unfolded show ?thesis
      by (auto simp: create_payment_def bind_res_Inr_iff create_vv_movement_Inr redeem_movement_def blank_vv_movement_def
          voucher_payment_def remainder_payment_def update_order_def frame_simps Let_def split: if_splits dest!: create_voucher_job_Inr)
  qed
qed

lemma redeem_steps:
  assumes "redeem_tx e u i fp d = Inr (d', a)"
  shows "\<exists>c o' v amount rest pr d1. requireCashierContext d u (rd_eventId i) (rd_cashierSessionId i) = Inr c \<and>
    redeemable d c i = Inr (o', v, amount, rest) \<and> debit_voucher v amount d = Inr d1 \<and>
    book_redemption e u i fp c pr o' v amount rest (completedPaid (completed_payments d (rd_orderId i))) d1 = Inr (d', a)"
  using assms unfolding redeem_tx_def by (auto simp: bind_res_Inr_iff)

lemma redeem_effect:
  assumes "redeem_tx e u i fp d = Inr (d', a)" and dist: "distinct (map vv_id (t_valueVouchers d))"
  obtains c o' v amount rest p m rows st where "redeemable d c i = Inr (o', v, amount, rest)"
    "st = (if completedPaid (completed_payments d (rd_orderId i)) + amount + rest = od_totalAmount o' then PAID else PARTIALLY_PAID)"
    "t_valueVouchers d' = map (\<lambda>x. if vv_id x = vv_id v then debited v amount v else x) (t_valueVouchers d)"
    "t_vvMovements d' = t_vvMovements d @ [m]" "vm_voucherId m = vv_id v" "vm_balanceDelta m = - amount"
    "vm_type m = VM_REDEEM" "vm_orderId m = Some (od_id o')" "vm_paymentId m = Some (pm_id p)"
    "vm_idempotencyKey m = rd_idempotencyKey i" "vm_requestFingerprint m = fp" "vm_balanceAfter m = vv_currentBalance v - amount"
    "vm_idempotencyKey m \<notin> vm_idempotencyKey ` set (t_vvMovements d)" "\<forall>x \<in> set (t_vvMovements d). vm_paymentId x \<noteq> vm_paymentId m"
    "pm_amount p = amount" "pm_method p = VOUCHER" "pm_orderId p = od_id o'" "pm_status p = PS_COMPLETED"
    "case rd_remainderPayment i of None \<Rightarrow> t_payments d' = t_payments d @ [p]
     | Some r \<Rightarrow> \<exists>q. t_payments d' = t_payments d @ [p, q] \<and> pm_amount q = rest \<and> pm_method q = re_method r \<and>
         pm_orderId q = od_id o' \<and> pm_status q = PS_COMPLETED"
    "t_orders d' = update_where (\<lambda>x. od_id x = od_id o') (\<lambda>x. x\<lparr>od_paymentStatus := st\<rparr>) (t_orders d)"
    "createAllocations (vm_id m) (order_items d (od_id o')) amount = Inr rows" "t_vvAllocations d' = t_vvAllocations d @ rows"
    "t_items d' = t_items d" "t_stocks d' = t_stocks d" "t_movements d' = t_movements d" "serial d < serial d'"
    "a = Redeemed (mask (vv_code v)) amount (vv_currentBalance v - amount) (od_id o') st"
proof -
  from redeem_steps [OF assms(1)] obtain c o' v amount rest pr d1 where C: "redeemable d c i = Inr (o', v, amount, rest)"
    "debit_voucher v amount d = Inr d1"
    "book_redemption e u i fp c pr o' v amount rest (completedPaid (completed_payments d (rd_orderId i))) d1 = Inr (d', a)" by blast
  note R = redeemable_Inr [OF C(1)]
  have d1: "d1 = d\<lparr>t_valueVouchers := map (\<lambda>x. if vv_id x = vv_id v then debited v amount v else x) (t_valueVouchers d)\<rparr>"
    by (rule debit_voucher_Inr [OF C(2) _ dist]) (use R in auto)
  have same: "order_items d1 = order_items d" "t_vvMovements d1 = t_vvMovements d" "t_payments d1 = t_payments d"
    "t_orders d1 = t_orders d" "t_vvAllocations d1 = t_vvAllocations d" "t_items d1 = t_items d" "t_stocks d1 = t_stocks d"
    "t_movements d1 = t_movements d" "serial d1 = serial d"
    "t_valueVouchers d1 = map (\<lambda>x. if vv_id x = vv_id v then debited v amount v else x) (t_valueVouchers d)"
    by (simp_all add: d1 order_items_def fun_eq_iff)
  show thesis
    using booking_effect [OF C(3) refl, unfolded same] by (elim exE conjE) (rule that [OF C(1) refl], assumption+)
qed

section \<open>Distributing a redemption\<close>

lemma allocate_open:
  "0 < left \<Longrightarrow> allocate mid (left, rows) it = (left - min (item_gross it) left,
     if 0 < min (item_gross it) left then rows @ [\<lparr>va_movementId = mid, va_orderItemId = oi_id it, va_amount = min (item_gross it) left\<rparr>]
     else rows)"
  by (simp add: Let_def item_gross_def mult.commute)

lemma allocation_loop:
  "foldl (allocate mid) (left, rows) items = (left', rows') \<Longrightarrow>
   \<forall>it \<in> set items. 0 \<le> item_gross it \<Longrightarrow> 0 \<le> left \<Longrightarrow>
   left' + sum_list (map va_amount rows') = left + sum_list (map va_amount rows) \<and>
   left' = max 0 (left - gross_total items) \<and>
   (\<forall>a \<in> set rows'. a \<in> set rows \<or> (va_movementId a = mid \<and> 0 < va_amount a \<and>
      (\<exists>it \<in> set items. va_orderItemId a = oi_id it \<and> va_amount a \<le> item_gross it)))"
proof (induction items arbitrary: left rows)
  case Nil
  then show ?case by (simp add: gross_total_def)
next
  case (Cons it items)
  let ?g = "item_gross it"
  have total: "gross_total (it # items) = ?g + gross_total items" by (simp add: gross_total_def)
  from Cons.prems(2) have pos: "0 \<le> ?g" "\<forall>it \<in> set items. 0 \<le> item_gross it" by simp_all
  have rest: "0 \<le> gross_total items" unfolding gross_total_def by (rule sum_list_nonneg_int) (use pos(2) in auto)
  show ?case
  proof (cases "left \<le> 0")
    case True
    then have "foldl (allocate mid) (left, rows) items = (left', rows')" using Cons.prems(1) by simp
    from Cons.IH [OF this pos(2) Cons.prems(3)] True pos(1) rest total Cons.prems(3) show ?thesis by auto
  next
    case False
    define a where "a = min ?g left"
    define rs where "rs = (if 0 < a then rows @ [\<lparr>va_movementId = mid, va_orderItemId = oi_id it, va_amount = a\<rparr>] else rows)"
    have loop: "foldl (allocate mid) (left - a, rs) items = (left', rows')"
      using Cons.prems(1) False by (simp only: foldl_Cons allocate_open [of left] not_le a_def rs_def)
    have a: "0 \<le> a" "a \<le> left" "a \<le> ?g" using pos(1) False by (auto simp: a_def)
    have "sum_list (map va_amount rs) = sum_list (map va_amount rows) + a" using a by (auto simp: rs_def)
    moreover have "max 0 (left - a - gross_total items) = max 0 (left - gross_total (it # items))"
      using total rest by (auto simp: a_def)
    moreover have "x \<in> set rs \<Longrightarrow> x \<in> set rows \<or> (va_movementId x = mid \<and> 0 < va_amount x \<and> va_orderItemId x = oi_id it \<and> va_amount x \<le> ?g)" for x
      using a by (auto simp: rs_def split: if_splits)
    moreover note Cons.IH [OF loop pos(2)]
    ultimately show ?thesis using a by fastforce
  qed
qed

lemma createAllocations_Inr:
  assumes "createAllocations mid items amount = Inr rows" and "\<forall>it \<in> set items. 0 \<le> item_gross it" and "0 \<le> amount"
  shows "sum_list (map va_amount rows) = amount \<and> (\<forall>a \<in> set rows. va_movementId a = mid \<and> 0 < va_amount a \<and>
    (\<exists>it \<in> set items. va_orderItemId a = oi_id it \<and> va_amount a \<le> item_gross it))"
  using assms allocation_loop [where items = items and left = amount and rows = "[]" and mid = mid]
  by (auto simp: createAllocations_def res_simps split: prod.splits)

lemma createAllocations_total:
  assumes "\<forall>it \<in> set items. 0 \<le> item_gross it" and "0 \<le> amount" and "amount \<le> gross_total items"
  shows "\<exists>rows. createAllocations mid items amount = Inr rows"
  using assms allocation_loop [where items = items and left = amount and rows = "[]" and mid = mid]
  by (auto simp: createAllocations_def split: prod.splits)

section \<open>Cancelling\<close>

lemma cancel_effect:
  assumes "cancel_tx e u i fp d = Inr (d', a)" and dist: "distinct (map vv_id (t_valueVouchers d))"
  shows "\<exists>v m. v \<in> set (t_valueVouchers d) \<and> vv_code v = normalizeCode (cv_code i) \<and>
    count_where (\<lambda>m. vm_voucherId m = vv_id v) (t_vvMovements d) = 1 \<and> vv_currentBalance v = vv_initialBalance v \<and>
    vv_status v = VV_ACTIVE \<and> vm_idempotencyKey m \<notin> vm_idempotencyKey ` set (t_vvMovements d) \<and>
    t_valueVouchers d' = map (\<lambda>x. if vv_id x = vv_id v then v\<lparr>vv_currentBalance := 0, vv_status := VV_CANCELLED,
       vv_version := vv_version v + 1\<rparr> else x) (t_valueVouchers d) \<and>
    t_vvMovements d' = t_vvMovements d @ [m] \<and> vm_voucherId m = vv_id v \<and> vm_balanceDelta m = - vv_currentBalance v \<and>
    vm_type m = VM_CANCEL \<and> vm_idempotencyKey m = cv_idempotencyKey i \<and> vm_requestFingerprint m = fp \<and>
    t_payments d' = t_payments d \<and> t_orders d' = t_orders d \<and> serial d < serial d' \<and> a = Voided (mask (vv_code v))"
proof -
  from assms(1) obtain c v d1 where C: "voucher_in_context d (cv_code i) (cv_eventId i) (cc_dataMode c) = Inr v"
    "count_where (\<lambda>m. vm_voucherId m = vv_id v) (t_vvMovements d) = 1" "vv_currentBalance v = vv_initialBalance v" "vv_status v = VV_ACTIVE"
    "void_voucher v d = Inr d1"
    and B: "bind_res (create_vv_movement e (cancel_movement u i c v fp) d1) (\<lambda>(d2, m).
       Inr (add_audit (voucher_audit ''VALUE_VOUCHER_CANCELLED'' (vv_id v) u
            [(''eventId'', JStr (cv_eventId i)), (''dataMode'', JStr (mode_text (cc_dataMode c))), (''voucherCode'', JStr (mask (vv_code v))),
             (''cashierSessionId'', JStr (cc_sessionId c)), (''reason'', JStr (js_trim (cv_reason i)))]) d2,
          Voided (mask (vv_code v)))) = Inr (d', a)"
    unfolding cancel_tx_def by (auto simp: bind_res_Inr_iff ensure_Inr_iff)
  from C(1) have v: "v \<in> set (t_valueVouchers d)" "vv_code v = normalizeCode (cv_code i)"
    by (auto simp: voucher_in_context_def res_simps dest: find_Some_mem)
  have same: "x = v" if "x \<in> set (t_valueVouchers d)" "vv_id x = vv_id v" for x
    using that find_distinct_key [OF dist] v(1) by (metis option.inject)
  have "d1 = d\<lparr>t_valueVouchers := map (\<lambda>x. if vv_id x = vv_id v then v\<lparr>vv_currentBalance := 0, vv_status := VV_CANCELLED,
       vv_version := vv_version v + 1\<rparr> else x) (t_valueVouchers d)\<rparr>"
  proof -
    let ?c = "\<lambda>x. vv_id x = vv_id v \<and> vv_version x = vv_version v \<and> vv_currentBalance x = vv_initialBalance v \<and> vv_status x = VV_ACTIVE"
    have "update_where ?c (\<lambda>x. x\<lparr>vv_currentBalance := 0, vv_status := VV_CANCELLED, vv_version := vv_version x + 1\<rparr>) (t_valueVouchers d) =
        map (\<lambda>x. if vv_id x = vv_id v then v\<lparr>vv_currentBalance := 0, vv_status := VV_CANCELLED, vv_version := vv_version v + 1\<rparr> else x)
          (t_valueVouchers d)"
      unfolding update_where_def using C(3,4) by (intro map_cong refl) (auto dest: same)
    with C(5) show ?thesis by (auto simp: void_voucher_def res_simps Let_def)
  qed
  with B C(2,3,4) v show ?thesis
    by (auto simp: bind_res_Inr_iff create_vv_movement_Inr cancel_movement_def blank_vv_movement_def frame_simps)
qed

section \<open>The journal stays balanced\<close>

lemma issue_ledger:
  assumes "issue_tx e u i fp d = Inr (d', a)" and ok: "voucher_ledger_ok d"
    and new: "env_uuid e (Suc (serial d)) \<notin> vv_id ` set (t_valueVouchers d)"
  shows "voucher_ledger_ok d'"
proof -
  from issue_effect [OF assms(1)] obtain v m where E: "t_valueVouchers d' = t_valueVouchers d @ [v]"
    "t_vvMovements d' = t_vvMovements d @ [m]" "vv_id v = env_uuid e (Suc (serial d))" "voucher_check v" "vv_status v = VV_ACTIVE"
    "vv_currentBalance v = iv_amount i" "vv_initialBalance v = iv_amount i" "vm_voucherId m = vv_id v" "vm_balanceDelta m = iv_amount i"
    "vm_type m = VM_ISSUE" "t_payments d' = t_payments d" by blast
  have unknown: "type_sum ty (vv_id v) (t_vvMovements d) = 0" for ty
    by (rule type_sum_unknown) (use ok new E(3) in \<open>unfold voucher_ledger_ok_def, metis\<close>)
  have "voucher_balanced (t_vvMovements d @ [m]) v"
    using E(4-10) unknown by (simp add: voucher_balanced_def)
  moreover have "voucher_balanced (t_vvMovements d @ [m]) x" if "x \<in> set (t_valueVouchers d)" for x
  proof -
    from that ok have "voucher_balanced (t_vvMovements d) x" by (simp add: voucher_ledger_ok_def)
    moreover from that new E(3,8) have "vm_voucherId m \<noteq> vv_id x" by auto
    ultimately show ?thesis by (simp add: voucher_balanced_def)
  qed
  moreover have "distinct (map vm_paymentId (redeems (t_vvMovements d')))"
    unfolding E(2) by (rule redeems_snoc) (use ok E(10) in \<open>simp_all add: voucher_ledger_ok_def\<close>)
  ultimately show ?thesis using ok new E(1-3,8,10,11) by (auto simp: voucher_ledger_ok_def redemption_booked_def)
qed

lemma redeem_ledger:
  assumes "redeem_tx e u i fp d = Inr (d', a)" and ok: "voucher_ledger_ok d"
  shows "voucher_ledger_ok d'"
proof -
  from ok have dist: "distinct (map vv_id (t_valueVouchers d))" by (simp add: voucher_ledger_ok_def)
  obtain c o' v amount rest p m rows st where E: "redeemable d c i = Inr (o', v, amount, rest)"
    "t_valueVouchers d' = map (\<lambda>x. if vv_id x = vv_id v then debited v amount v else x) (t_valueVouchers d)"
    "t_vvMovements d' = t_vvMovements d @ [m]" "vm_voucherId m = vv_id v" "vm_balanceDelta m = - amount"
    "vm_type m = VM_REDEEM" "vm_orderId m = Some (od_id o')" "vm_paymentId m = Some (pm_id p)"
    "\<forall>x \<in> set (t_vvMovements d). vm_paymentId x \<noteq> vm_paymentId m"
    "pm_amount p = amount" "pm_method p = VOUCHER" "pm_orderId p = od_id o'"
    "case rd_remainderPayment i of None \<Rightarrow> t_payments d' = t_payments d @ [p]
     | Some r \<Rightarrow> \<exists>q. t_payments d' = t_payments d @ [p, q] \<and> pm_amount q = rest \<and> pm_method q = re_method r \<and>
         pm_orderId q = od_id o' \<and> pm_status q = PS_COMPLETED"
    by (rule redeem_effect [OF assms(1) dist])
  note R = redeemable_Inr [OF E(1)]
  from R have v: "v \<in> set (t_valueVouchers d)" "vv_status v = VV_ACTIVE" "amount \<le> vv_currentBalance v" "0 < amount" by auto
  with ok have b: "voucher_balanced (t_vvMovements d) v" by (simp add: voucher_ledger_ok_def)
  have ps: "insert p (set (t_payments d)) \<subseteq> set (t_payments d')" using E(13) by (auto split: option.splits)
  show ?thesis
  proof (rule ledger_movement [OF ok v(1) _ E(2,3,4)])
    show "vv_id (debited v amount v) = vv_id v" by (simp add: debited_def)
    show "voucher_balanced (t_vvMovements d @ [m]) (debited v amount v)"
      using b v E(4-6) by (auto simp: voucher_balanced_def debited_def voucher_check_def)
    show "redemption_booked (t_payments d') m" using ps E(5-8,10-12) by (auto simp: redemption_booked_def)
  qed (use ps E(9) in auto)
qed

lemma cancel_ledger:
  assumes "cancel_tx e u i fp d = Inr (d', a)" and ok: "voucher_ledger_ok d"
  shows "voucher_ledger_ok d'"
proof -
  from ok have dist: "distinct (map vv_id (t_valueVouchers d))" by (simp add: voucher_ledger_ok_def)
  let ?void = "\<lambda>v. v\<lparr>vv_currentBalance := 0, vv_status := VV_CANCELLED, vv_version := vv_version v + 1\<rparr>"
  from cancel_effect [OF assms(1) dist] obtain v m where E: "v \<in> set (t_valueVouchers d)" "vv_currentBalance v = vv_initialBalance v"
    "vv_status v = VV_ACTIVE" "t_valueVouchers d' = map (\<lambda>x. if vv_id x = vv_id v then ?void v else x) (t_valueVouchers d)"
    "t_vvMovements d' = t_vvMovements d @ [m]" "vm_voucherId m = vv_id v" "vm_balanceDelta m = - vv_currentBalance v"
    "vm_type m = VM_CANCEL" "t_payments d' = t_payments d" by blast
  from ok E(1) have b: "voucher_balanced (t_vvMovements d) v" by (simp add: voucher_ledger_ok_def)
  show ?thesis
  proof (rule ledger_movement [OF ok E(1) _ E(4,5,6)])
    show "voucher_balanced (t_vvMovements d @ [m]) (?void v)"
      using b E(2,3,6-8) by (simp add: voucher_balanced_def voucher_check_def)
    show "redemption_booked (t_payments d') m" using E(8) by (simp add: redemption_booked_def)
  qed (use E(8,9) in auto)
qed

section \<open>What a redemption leaves behind\<close>

lemma redeem_books:
  assumes "redeem e pre d u r i = Inr (d', Redeemed code amount left oid st)"
  shows "redeem_role r = Inr () \<and> redeem_tx e u i (fingerprint e (redeem_json i)) d = Inr (d', Redeemed code amount left oid st)"
  using assms by (auto simp: redeem_def with_replay_def findIdempotent_def bind_res_Inr_iff Let_def split: option.splits)

lemma redeemable_pays_all:
  assumes "redeemable d c i = Inr (o', v, amount, rest)"
  shows "completedPaid (completed_payments d (rd_orderId i)) + amount + rest = od_totalAmount o'"
  using redeemable_Inr [OF assms] by (auto simp: outstanding_def)

lemma completedPaid_append [simp]: "completedPaid (xs @ ys) = completedPaid xs + completedPaid ys"
  by (simp add: completedPaid_def)

lemma settled_payments:
  assumes "redeemable d c i = Inr (o', v, n, rest)"
    and "pm_amount p = n" "pm_method p = VOUCHER" "pm_orderId p = od_id o'" "pm_status p = PS_COMPLETED"
    and book: "case rd_remainderPayment i of None \<Rightarrow> t_payments d' = t_payments d @ [p]
     | Some r \<Rightarrow> \<exists>q. t_payments d' = t_payments d @ [p, q] \<and> pm_amount q = rest \<and> pm_method q = re_method r \<and>
         pm_orderId q = od_id o' \<and> pm_status q = PS_COMPLETED"
    and tender: "\<forall>x. rd_remainderPayment i = Some x \<longrightarrow> re_method x \<in> {CASH, CARD}"
  shows "completedPaid (completed_payments d' (od_id o')) = od_totalAmount o' \<and>
    (\<forall>j. j \<noteq> od_id o' \<longrightarrow> order_payments d' j = order_payments d j)"
proof -
  have oid: "rd_orderId i = od_id o'" and remain: "0 < rest \<longleftrightarrow> rd_remainderPayment i \<noteq> None" "0 \<le> rest"
    using redeemable_Inr [OF assms(1)] by auto
  have sum: "completedPaid (completed_payments d (od_id o')) + n + rest = od_totalAmount o'"
    using redeemable_pays_all [OF assms(1)] oid by simp
  have one: "order_payments d' j = order_payments d j @ (if j = od_id o' then ps else [])"
    "completed_payments d' (od_id o') = completed_payments d (od_id o') @ ps"
    if "t_payments d' = t_payments d @ ps" "\<forall>q \<in> set ps. pm_orderId q = od_id o' \<and> pm_status q = PS_COMPLETED" for j ps
  proof -
    show "order_payments d' j = order_payments d j @ (if j = od_id o' then ps else [])"
      using that by (auto simp: order_payments_def filter_id_conv filter_empty_conv)
    show "completed_payments d' (od_id o') = completed_payments d (od_id o') @ ps"
      using that by (auto simp: completed_payments_def order_payments_def filter_id_conv)
  qed
  show ?thesis
  proof (cases "rd_remainderPayment i")
    case None
    have "completedPaid [p] = n" using assms(2,3) by (simp add: completedPaid_def)
    moreover from None book have "t_payments d' = t_payments d @ [p]" by simp
    note one [OF this]
    ultimately show ?thesis using None remain sum assms(4,5) by simp
  next
    case (Some x)
    with book obtain q where q: "t_payments d' = t_payments d @ [p, q]" "pm_amount q = rest" "pm_method q = re_method x"
      "pm_orderId q = od_id o'" "pm_status q = PS_COMPLETED" by auto
    from Some tender have "re_method x \<noteq> REFUND" by auto
    with q(2,3) assms(2,3) have "completedPaid [p, q] = n + rest" by (simp add: completedPaid_def)
    with one [OF q(1)] q(4,5) sum assms(4,5) show ?thesis by simp
  qed
qed

lemma redeem_recorded:
  assumes "redeem_tx e u i fp d = Inr (d', Redeemed code amount left oid st)" and dist: "distinct (map vv_id (t_valueVouchers d))"
  shows "\<exists>m v. find (\<lambda>m. vm_idempotencyKey m = rd_idempotencyKey i) (t_vvMovements d') = Some m \<and> vm_requestFingerprint m = fp \<and>
    vm_balanceAfter m = left \<and> find (\<lambda>v. vv_id v = vm_voucherId m) (t_valueVouchers d') = Some v \<and> mask (vv_code v) = code"
proof -
  obtain c o' v n rest m st' where E: "redeemable d c i = Inr (o', v, n, rest)"
    "t_valueVouchers d' = map (\<lambda>x. if vv_id x = vv_id v then debited v n v else x) (t_valueVouchers d)"
    "t_vvMovements d' = t_vvMovements d @ [m]" "vm_voucherId m = vv_id v" "vm_idempotencyKey m = rd_idempotencyKey i"
    "vm_requestFingerprint m = fp" "vm_balanceAfter m = vv_currentBalance v - n"
    "vm_idempotencyKey m \<notin> vm_idempotencyKey ` set (t_vvMovements d)"
    "Redeemed code amount left oid st = Redeemed (mask (vv_code v)) n (vv_currentBalance v - n) (od_id o') st'"
    by (rule redeem_effect [OF assms])
  from redeemable_Inr [OF E(1)] have v: "v \<in> set (t_valueVouchers d)" by simp
  have "find (\<lambda>m. vm_idempotencyKey m = rd_idempotencyKey i) (t_vvMovements d') = Some m"
    unfolding E(3) using E(5,8) by (auto simp: find_append image_iff split: option.splits dest!: find_Some_mem)
  moreover have "distinct (map vv_id (t_valueVouchers d'))" using dist by (simp add: E(2) o_def if_distrib debited_id cong: if_cong)
  then have "find (\<lambda>x. vv_id x = vv_id (debited v n v)) (t_valueVouchers d') = Some (debited v n v)"
    by (rule find_distinct_key) (use v in \<open>auto simp: E(2)\<close>)
  ultimately show ?thesis using E(4,6,7,9) by (auto simp: debited_def)
qed

section \<open>Runs of the voucher service\<close>

text \<open>
  A step is one of the three operations, or anything another service does: it leaves vouchers and journal alone, books at most
  further payments, and draws its ids from the same supply.
\<close>

inductive voucher_step :: "(nat \<Rightarrow> id) \<Rightarrow> db \<Rightarrow> db \<Rightarrow> bool" for ids where
  issued: "issue e pre d u r i = Inr (d', a) \<Longrightarrow> env_uuid e = ids \<Longrightarrow> voucher_step ids d d'"
| redeemed: "redeem e pre d u r j = Inr (d', a) \<Longrightarrow> env_uuid e = ids \<Longrightarrow> voucher_step ids d d'"
| voided: "cancel e pre d u r k = Inr (d', a) \<Longrightarrow> env_uuid e = ids \<Longrightarrow> voucher_step ids d d'"
| elsewhere: "t_valueVouchers d' = t_valueVouchers d \<Longrightarrow> t_vvMovements d' = t_vvMovements d \<Longrightarrow>
    set (t_payments d) \<subseteq> set (t_payments d') \<Longrightarrow> serial d \<le> serial d' \<Longrightarrow> voucher_step ids d d'"

inductive_cases voucher_stepE: "voucher_step ids d d'"

definition voucher_ids :: "(nat \<Rightarrow> id) \<Rightarrow> db \<Rightarrow> bool" where
  "voucher_ids ids d \<longleftrightarrow> vv_id ` set (t_valueVouchers d) \<subseteq> ids ` {..<serial d}"

lemma voucher_ids_fresh:
  assumes "inj ids" and "voucher_ids ids d" and "serial d \<le> n"
  shows "ids n \<notin> vv_id ` set (t_valueVouchers d)"
proof
  assume "ids n \<in> vv_id ` set (t_valueVouchers d)"
  with assms(2) obtain k where "ids n = ids k" "k < serial d" unfolding voucher_ids_def by blast
  with assms(1,3) show False by (auto dest: injD)
qed

lemma with_replay_Inr:
  "with_replay pre d key fp work = Inr (d', a) \<Longrightarrow> d' = d \<or> (findIdempotent d key fp = Inr None \<and> work d = Inr (d', a))"
  by (auto simp: with_replay_def bind_res_Inr_iff split: option.splits)

lemma voucher_ids_same:
  assumes "voucher_ids ids d" and "vv_id ` set (t_valueVouchers d') = vv_id ` set (t_valueVouchers d)" and "serial d \<le> serial d'"
  shows "voucher_ids ids d'"
proof -
  have "ids ` {..<serial d} \<subseteq> ids ` {..<serial d'}" using assms(3) by (intro image_mono) auto
  with assms(1,2) show ?thesis by (simp add: voucher_ids_def)
qed

lemma voucher_ids_snoc:
  assumes "voucher_ids ids d" and "t_valueVouchers d' = t_valueVouchers d @ [v]" and "vv_id v = ids n" and "n < serial d'"
    and "serial d \<le> serial d'"
  shows "voucher_ids ids d'"
proof -
  have "ids ` {..<serial d} \<subseteq> ids ` {..<serial d'}" using assms(5) by (intro image_mono) auto
  with assms(1-4) show ?thesis by (simp add: voucher_ids_def)
qed

lemma row_ids: "vv_id (f v) = vv_id v \<Longrightarrow> vv_id ` set (map (\<lambda>x. if vv_id x = vv_id v then f v else x) vs) = vv_id ` set vs"
  by (induction vs) auto

lemma voucher_step_ledger:
  assumes "voucher_step ids d d'" and "inj ids" and ok: "voucher_ledger_ok d" and known: "voucher_ids ids d"
  shows "voucher_ledger_ok d' \<and> voucher_ids ids d'"
  using assms(1)
proof cases
  case (issued e pre u r i a)
  note env = issued(2)
  from issued(1) have "d' = d \<or> (\<exists>fp. issue_tx e u i fp d = Inr (d', a))"
    by (auto simp: issue_def bind_res_Inr_iff Let_def dest!: with_replay_Inr)
  then show ?thesis
  proof
    assume "\<exists>fp. issue_tx e u i fp d = Inr (d', a)"
    then obtain fp where run: "issue_tx e u i fp d = Inr (d', a)" ..
    have "voucher_ledger_ok d'"
      by (rule issue_ledger [OF run ok]) (use voucher_ids_fresh [OF assms(2) known] env in simp)
    moreover from issue_effect [OF run] obtain v where "t_valueVouchers d' = t_valueVouchers d @ [v]"
      "vv_id v = env_uuid e (Suc (serial d))" "Suc (serial d) < serial d'" by blast
    then have "voucher_ids ids d'" using env by (intro voucher_ids_snoc [OF known, of _ v "Suc (serial d)"]) simp_all
    ultimately show ?thesis by simp
  qed (use ok known in simp)
next
  case (redeemed e pre u r j a)
  from redeemed(1) have "d' = d \<or> (\<exists>fp. redeem_tx e u j fp d = Inr (d', a))"
    by (auto simp: redeem_def bind_res_Inr_iff Let_def dest!: with_replay_Inr)
  then show ?thesis
  proof
    assume "\<exists>fp. redeem_tx e u j fp d = Inr (d', a)"
    then obtain fp where run: "redeem_tx e u j fp d = Inr (d', a)" ..
    have "voucher_ledger_ok d'" by (rule redeem_ledger [OF run ok])
    moreover have "distinct (map vv_id (t_valueVouchers d))" using ok by (simp add: voucher_ledger_ok_def)
    then obtain v amount where "t_valueVouchers d' = map (\<lambda>x. if vv_id x = vv_id v then debited v amount v else x) (t_valueVouchers d)"
      "serial d < serial d'" by (rule redeem_effect [OF run])
    then have "vv_id ` set (t_valueVouchers d') = vv_id ` set (t_valueVouchers d)" "serial d \<le> serial d'"
      using row_ids [of "debited v amount" v] by (simp_all only: debited_id less_imp_le simp_thms)
    note voucher_ids_same [OF known this]
    ultimately show ?thesis by simp
  qed (use ok known in simp)
next
  case (voided e pre u r k a)
  from voided(1) have "d' = d \<or> (\<exists>fp. cancel_tx e u k fp d = Inr (d', a))"
    by (auto simp: cancel_def bind_res_Inr_iff Let_def dest!: with_replay_Inr)
  then show ?thesis
  proof
    assume "\<exists>fp. cancel_tx e u k fp d = Inr (d', a)"
    then obtain fp where run: "cancel_tx e u k fp d = Inr (d', a)" ..
    have "voucher_ledger_ok d'" by (rule cancel_ledger [OF run ok])
    moreover have "distinct (map vv_id (t_valueVouchers d))" using ok by (simp add: voucher_ledger_ok_def)
    from cancel_effect [OF run this] obtain v :: value_voucher where
      "t_valueVouchers d' = map (\<lambda>x. if vv_id x = vv_id v then v\<lparr>vv_currentBalance := 0, vv_status := VV_CANCELLED,
         vv_version := vv_version v + 1\<rparr> else x) (t_valueVouchers d)" "serial d < serial d'" by blast
    then have "vv_id ` set (t_valueVouchers d') = vv_id ` set (t_valueVouchers d)" "serial d \<le> serial d'"
      using row_ids [of "\<lambda>v. v\<lparr>vv_currentBalance := 0, vv_status := VV_CANCELLED, vv_version := vv_version v + 1\<rparr>" v] by simp_all
    note voucher_ids_same [OF known this]
    ultimately show ?thesis by simp
  qed (use ok known in simp)
next
  case elsewhere
  have "redemption_booked (t_payments d) m \<Longrightarrow> redemption_booked (t_payments d') m" for m
    using elsewhere(3) by (rule redemption_booked_mono [rotated])
  with ok elsewhere(1,2) have "voucher_ledger_ok d'" by (simp add: voucher_ledger_ok_def)
  moreover have "voucher_ids ids d'" by (rule voucher_ids_same [OF known]) (use elsewhere in auto)
  ultimately show ?thesis ..
qed

end
