(* ===== verification/VO_Voucher_Props.thy ===== *)
theory VO_Voucher_Props
  imports VO_Voucher_Laws VO_Payment_Props
begin

text \<open>
  The properties of value vouchers: every cent of a voucher is accounted for over every run of the service, a redemption
  settles the order completely, and a repeated request books nothing again.
\<close>

section \<open>A run\<close>

definition sample_issue :: issue_input where
  "sample_issue = \<lparr>iv_eventId = ''e'', iv_cashierSessionId = ''k'', iv_printerId = Some ''p'', iv_amount = 600,
     iv_fundingMethod = CASH, iv_tenderedAmount = Some 1000, iv_idempotencyKey = ''i1''\<rparr>"

definition sample_redeem :: "string \<Rightarrow> redeem_input" where
  "sample_redeem code = \<lparr>rd_eventId = ''e'', rd_cashierSessionId = ''k'', rd_orderId = ''0'', rd_code = code,
     rd_printerId = Some ''p'', rd_remainderPayment = Some \<lparr>re_method = CASH, re_tenderedAmount = Some 500\<rparr>,
     rd_idempotencyKey = ''r1''\<rparr>"

definition sample_voucher :: value_voucher where
  "sample_voucher = \<lparr>vv_id = ''5'', vv_code = ''LIVE-R'', vv_status = VV_ACTIVE, vv_initialBalance = 600, vv_currentBalance = 600,
     vv_version = 0, vv_eventId = ''e'', vv_dataMode = LIVE, vv_issuedByUserId = ''u'', vv_issuedCashierSessionId = ''k''\<rparr>"

definition voucher_db :: db where
  "voucher_db = (open_order_db 0)\<lparr>t_valueVouchers := [sample_voucher],
     t_vvMovements := [blank_vv_movement\<lparr>vm_id := ''6'', vm_balanceDelta := 600, vm_balanceAfter := 600, vm_voucherId := ''5'',
       vm_eventId := ''e'', vm_dataMode := LIVE, vm_actorUserId := ''u'', vm_cashierSessionId := ''k'',
       vm_fundingMethod := Some CARD, vm_idempotencyKey := ''i0'', vm_requestFingerprint := ''f''\<rparr>], serial := 8\<rparr>"

lemma voucher_db_ok: "voucher_ledger_ok voucher_db" "voucher_ids nat_text voucher_db"
proof -
  show "voucher_ledger_ok voucher_db" by code_simp
  have "''5'' \<in> nat_text ` {..<8}" by (rule image_eqI [of _ _ 5]) (code_simp, simp)
  then show "voucher_ids nat_text voucher_db" by (simp add: voucher_ids_def voucher_db_def sample_voucher_def)
qed

lemma voucher_redeemed:
  "succeeds_with (\<lambda>(d', a). a = Redeemed ''LIVE-...VE-R'' 600 0 ''0'' PAID)
     (redeem run_env voucher_db voucher_db ''u'' CASHIER (sample_redeem '' live-r''))"
  by code_simp

section \<open>The money of a voucher\<close>

text \<open>
  C26. Over every run of the voucher service, interleaved with anything else that books payments, the money of every voucher is
  accounted for: what it was issued for is what is left on it plus what was redeemed plus what a cancellation wrote off; every
  redemption is a VOUCHER payment of the same amount on its order, no payment stands for two redemptions, and a cancelled
  voucher was never redeemed.
\<close>

theorem voucher_money_kept:
  assumes "(voucher_step ids)\<^sup>*\<^sup>* d d'" and "inj ids" and "voucher_ledger_ok d" and "voucher_ids ids d"
  shows "(\<forall>v \<in> set (t_valueVouchers d'). voucher_check v \<and>
      vv_initialBalance v = vv_currentBalance v - type_sum VM_REDEEM (vv_id v) (t_vvMovements d') - type_sum VM_CANCEL (vv_id v) (t_vvMovements d') \<and>
      (vv_status v = VV_CANCELLED \<longrightarrow> type_sum VM_REDEEM (vv_id v) (t_vvMovements d') = 0)) \<and>
    (\<forall>m \<in> set (t_vvMovements d'). vm_type m = VM_REDEEM \<longrightarrow>
      (\<exists>p \<in> set (t_payments d'). vm_paymentId m = Some (pm_id p) \<and> pm_method p = VOUCHER \<and> pm_amount p = - vm_balanceDelta m \<and>
         vm_orderId m = Some (pm_orderId p))) \<and>
    distinct (map vm_paymentId (filter (\<lambda>m. vm_type m = VM_REDEEM) (t_vvMovements d')))"
proof -
  have "voucher_ledger_ok d' \<and> voucher_ids ids d'"
    using assms(1)
  proof induction
    case (step d1 d2)
    with assms(2) show ?case by (intro voucher_step_ledger [OF step.hyps(2)]) simp_all
  qed (use assms(3,4) in simp)
  then show ?thesis
    by (simp add: voucher_ledger_ok_def voucher_balanced_def redemption_booked_def redeems_def)
qed

lemma voucher_money_kept_witness:
  "succeeds_with (\<lambda>(d', _). \<forall>v \<in> set (t_valueVouchers d'). vv_initialBalance v =
     vv_currentBalance v - type_sum VM_REDEEM (vv_id v) (t_vvMovements d') - type_sum VM_CANCEL (vv_id v) (t_vvMovements d'))
     (redeem run_env voucher_db voucher_db ''u'' CASHIER (sample_redeem '' live-r''))"
proof -
  obtain d' a where run: "redeem run_env voucher_db voucher_db ''u'' CASHIER (sample_redeem '' live-r'') = Inr (d', a)"
    using voucher_redeemed by (auto elim!: succeeds_withE)
  have uuids: "env_uuid run_env = nat_text" by (simp add: run_env_def sample_env_def)
  from redeemed [OF run uuids] have "(voucher_step nat_text)\<^sup>*\<^sup>* voucher_db d'" by blast
  from voucher_money_kept [OF this inj_nat_text voucher_db_ok] show ?thesis
    unfolding run by (simp add: succeeds_with_def)
qed

section \<open>Settling an order\<close>

text \<open>
  C27. A redemption that is answered settles its order: the voucher is charged the smaller of its balance and what the order
  still owes, the remainder is paid in the same call, afterwards the completed payments are exactly the total and the order is
  PAID, and the amount is distributed over the positions without exceeding any of them. No other voucher, and no order's
  payments but this one's, change.
\<close>

theorem redeem_settles:
  assumes "redeem e pre d u r i = Inr (d', Redeemed code amount left oid st)"
    and "distinct (map vv_id (t_valueVouchers d))"
    and "\<forall>x. rd_remainderPayment i = Some x \<longrightarrow> re_method x \<in> {CASH, CARD}"
    and "\<forall>it \<in> set (order_items d (rd_orderId i)). 0 \<le> item_gross it"
  shows "\<exists>v o' rows. v \<in> set (t_valueVouchers d) \<and> vv_code v = normalizeCode (rd_code i) \<and> vv_status v = VV_ACTIVE \<and>
      find_order d (rd_orderId i) = Some o' \<and> oid = od_id o' \<and>
      amount = min (vv_currentBalance v) (outstanding o' (completed_payments d oid)) \<and> 0 < amount \<and> left = vv_currentBalance v - amount \<and>
      completedPaid (completed_payments d' oid) = od_totalAmount o' \<and> st = PAID \<and>
      (\<forall>x \<in> set (t_orders d'). od_id x = oid \<longrightarrow> od_paymentStatus x = PAID) \<and>
      (\<forall>x \<in> set (t_valueVouchers d'). if vv_id x = vv_id v then vv_currentBalance x = left else x \<in> set (t_valueVouchers d)) \<and>
      (\<forall>j. j \<noteq> oid \<longrightarrow> order_payments d' j = order_payments d j) \<and>
      t_vvAllocations d' = t_vvAllocations d @ rows \<and> sum_list (map va_amount rows) = amount \<and>
      (\<forall>a \<in> set rows. 0 < va_amount a \<and> (\<exists>it \<in> set (order_items d oid). va_orderItemId a = oi_id it \<and> va_amount a \<le> item_gross it))"
proof -
  from redeem_books [OF assms(1)] obtain fp where tx: "redeem_tx e u i fp d = Inr (d', Redeemed code amount left oid st)" by blast
  obtain c o' v n rest p rows st' and m :: vv_movement where E: "redeemable d c i = Inr (o', v, n, rest)"
    "st' = (if completedPaid (completed_payments d (rd_orderId i)) + n + rest = od_totalAmount o' then PAID else PARTIALLY_PAID)"
    "t_valueVouchers d' = map (\<lambda>x. if vv_id x = vv_id v then debited v n v else x) (t_valueVouchers d)"
    "pm_amount p = n" "pm_method p = VOUCHER" "pm_orderId p = od_id o'" "pm_status p = PS_COMPLETED"
    "case rd_remainderPayment i of None \<Rightarrow> t_payments d' = t_payments d @ [p]
     | Some r \<Rightarrow> \<exists>q. t_payments d' = t_payments d @ [p, q] \<and> pm_amount q = rest \<and> pm_method q = re_method r \<and>
         pm_orderId q = od_id o' \<and> pm_status q = PS_COMPLETED"
    "t_orders d' = update_where (\<lambda>x. od_id x = od_id o') (\<lambda>x. x\<lparr>od_paymentStatus := st'\<rparr>) (t_orders d)"
    "createAllocations (vm_id m) (order_items d (od_id o')) n = Inr rows" "t_vvAllocations d' = t_vvAllocations d @ rows"
    "Redeemed code amount left oid st = Redeemed (mask (vv_code v)) n (vv_currentBalance v - n) (od_id o') st'"
    by (rule redeem_effect [OF tx assms(2)])
  note R = redeemable_Inr [OF E(1)]
  from E(12) have same: "n = amount" "oid = od_id o'" "st = st'" "left = vv_currentBalance v - amount" by auto
  have paid: "completedPaid (completed_payments d' oid) = od_totalAmount o'" and others: "\<forall>j. j \<noteq> oid \<longrightarrow> order_payments d' j = order_payments d j"
    using settled_payments [OF E(1,4-8) assms(3)] same by auto
  have status: "st' = PAID" using E(2) redeemable_pays_all [OF E(1)] by simp
  have rows: "sum_list (map va_amount rows) = n \<and> (\<forall>a \<in> set rows. va_movementId a = vm_id m \<and> 0 < va_amount a \<and>
      (\<exists>it \<in> set (order_items d (od_id o')). va_orderItemId a = oi_id it \<and> va_amount a \<le> item_gross it))"
    by (rule createAllocations_Inr [OF E(10)]) (use assms(4) R in auto)
  have "\<forall>x \<in> set (t_orders d'). od_id x = oid \<longrightarrow> od_paymentStatus x = PAID"
    unfolding E(9) set_update_where using same(2) status by auto
  moreover have "\<forall>x \<in> set (t_valueVouchers d'). if vv_id x = vv_id v then vv_currentBalance x = left else x \<in> set (t_valueVouchers d)"
    unfolding E(3) using same(1,4) by (auto simp: debited_def)
  ultimately show ?thesis
    using R rows paid others status E(11) same by (intro exI [of _ v] exI [of _ o'] exI [of _ rows]) auto
qed

lemma redeem_settles_witness:
  "succeeds_with (\<lambda>(d', _). completedPaid (completed_payments d' ''0'') = 1000 \<and>
       (\<forall>x \<in> set (t_orders d'). od_id x = ''0'' \<longrightarrow> od_paymentStatus x = PAID))
     (redeem run_env voucher_db voucher_db ''u'' CASHIER (sample_redeem '' live-r''))"
proof -
  obtain d' where run: "redeem run_env voucher_db voucher_db ''u'' CASHIER (sample_redeem '' live-r'') =
      Inr (d', Redeemed ''LIVE-...VE-R'' 600 0 ''0'' PAID)"
    using voucher_redeemed by (auto elim!: succeeds_withE)
  have dist: "distinct (map vv_id (t_valueVouchers voucher_db))" by code_simp
  have tender: "\<forall>x. rd_remainderPayment (sample_redeem '' live-r'') = Some x \<longrightarrow> re_method x \<in> {CASH, CARD}"
    by (simp add: sample_redeem_def)
  have gross: "\<forall>it \<in> set (order_items voucher_db (rd_orderId (sample_redeem '' live-r''))). 0 \<le> item_gross it" by code_simp
  have order: "map_option od_totalAmount (find_order voucher_db ''0'') = Some 1000" by code_simp
  have oid: "rd_orderId (sample_redeem '' live-r'') = ''0''" by (simp add: sample_redeem_def)
  from redeem_settles [OF run dist tender gross] order show ?thesis
    unfolding run oid by (auto simp: succeeds_with_def)
qed

section \<open>Repeating a request\<close>

text \<open>
  A redemption is booked at most once: after it was answered, the same request again, at any later time and on any later
  state with the same journal and vouchers, is answered from the journal with the same balance and changes nothing, and
  another request under its key, be it a redemption, an issue or a cancellation, is refused as a conflict.
\<close>

theorem voucher_retry:
  assumes "redeem e pre d u r i = Inr (d1, Redeemed code amount left oid st)"
    and "distinct (map vv_id (t_valueVouchers d))" and "env_sha256 e' = env_sha256 e"
    and "t_vvMovements d2 = t_vvMovements d1" and "t_valueVouchers d2 = t_valueVouchers d1"
  shows "(\<exists>m. redeem e' d2 d2 u r i = Inr (d2, Replayed code m left)) \<and>
    (\<forall>j r'. rd_idempotencyKey j = rd_idempotencyKey i \<longrightarrow> fingerprint e' (redeem_json j) \<noteq> fingerprint e (redeem_json i) \<longrightarrow>
       redeem_role r' = Inr () \<longrightarrow> redeem e' d2 d2 u r' j = Inl (Conflict ''IDEMPOTENCY_KEY_REUSED'')) \<and>
    (\<forall>j r'. iv_idempotencyKey j = rd_idempotencyKey i \<longrightarrow> fingerprint e' (issue_json j) \<noteq> fingerprint e (redeem_json i) \<longrightarrow>
       issue_role r' = Inr () \<longrightarrow> issue e' d2 d2 u r' j = Inl (Conflict ''IDEMPOTENCY_KEY_REUSED'')) \<and>
    (\<forall>j r'. cv_idempotencyKey j = rd_idempotencyKey i \<longrightarrow> fingerprint e' (cancel_json j) \<noteq> fingerprint e (redeem_json i) \<longrightarrow>
       management_role r' = Inr () \<longrightarrow> cancel e' d2 d2 u r' j = Inl (Conflict ''IDEMPOTENCY_KEY_REUSED''))"
proof -
  from redeem_books [OF assms(1)] have role: "redeem_role r = Inr ()"
    and tx: "redeem_tx e u i (fingerprint e (redeem_json i)) d = Inr (d1, Redeemed code amount left oid st)" by blast+
  from redeem_recorded [OF tx assms(2)] obtain m v where
    m: "find (\<lambda>m. vm_idempotencyKey m = rd_idempotencyKey i) (t_vvMovements d1) = Some m" "vm_requestFingerprint m = fingerprint e (redeem_json i)"
    "vm_balanceAfter m = left" and v: "find (\<lambda>v. vv_id v = vm_voucherId m) (t_valueVouchers d1) = Some v" "mask (vv_code v) = code" by blast
  have hash: "fingerprint e' x = fingerprint e x" for x by (simp add: fingerprint_def assms(3))
  have known: "findIdempotent d2 (rd_idempotencyKey i) fp =
      (if fp = fingerprint e (redeem_json i) then Inr (Some (Replayed code (vm_id m) left)) else Inl (Conflict ''IDEMPOTENCY_KEY_REUSED''))" for fp
    using m v by (simp add: findIdempotent_def assms(4,5))
  show ?thesis
    using role by (auto simp: redeem_def issue_def cancel_def with_replay_def known hash)
qed

lemma voucher_retry_witness:
  "succeeds_with (\<lambda>(d1, _). \<exists>m. redeem run_env d1 d1 ''u'' CASHIER (sample_redeem '' live-r'') = Inr (d1, Replayed ''LIVE-...VE-R'' m 0))
     (redeem run_env voucher_db voucher_db ''u'' CASHIER (sample_redeem '' live-r''))"
proof -
  obtain d' where run: "redeem run_env voucher_db voucher_db ''u'' CASHIER (sample_redeem '' live-r'') =
      Inr (d', Redeemed ''LIVE-...VE-R'' 600 0 ''0'' PAID)"
    using voucher_redeemed by (auto elim!: succeeds_withE)
  have dist: "distinct (map vv_id (t_valueVouchers voucher_db))" by code_simp
  from voucher_retry [OF run dist refl refl refl] show ?thesis
    unfolding run by (auto simp: succeeds_with_def)
qed

end
