(* ===== verification/VO_Sessions.thy ===== *)
theory VO_Sessions
  imports VO_Common
begin

text \<open>
  Register sessions, \<^verbatim>\<open>apps/backend/src/sessions/sessions.service.ts\<close>: opening a drawer with a starting balance,
  the running summary and the count at closing time. The partial unique index
  \<^verbatim>\<open>CashierSession_userId_eventId_active_key\<close> allows one active session per user and event.
\<close>

section \<open>Opening\<close>

definition session_open_for :: "id \<Rightarrow> id \<Rightarrow> session \<Rightarrow> bool" where
  "session_open_for userId eventId s \<longleftrightarrow> cs_userId s = userId \<and> cs_eventId s = eventId \<and> cs_status s = SE_ACTIVE"

definition getActiveSession :: "db \<Rightarrow> id \<Rightarrow> id \<Rightarrow> session option" where
  "getActiveSession d userId eventId = find (session_open_for userId eventId) (t_sessions d)"

record session_context =
  sc_event :: event
  sc_activeSession :: "session option"

text \<open>The \<^verbatim>\<open>Map\<close> keeps the last session of an event.\<close>

definition getSessionContext :: "db \<Rightarrow> id \<Rightarrow> session_context list" where
  "getSessionContext d userId =
     (let events = rev (sort_key ev_createdAt (rev (filter (\<lambda>v. ev_status v \<in> {EV_ACTIVE, EV_TEST_MODE}) (t_events d))));
          sessionsByEvent = foldl (\<lambda>m s. js_set (cs_eventId s) s m) []
            (filter (\<lambda>s. cs_userId s = userId \<and> cs_status s = SE_ACTIVE) (t_sessions d))
      in map (\<lambda>v. \<lparr>sc_event = v, sc_activeSession = js_get sessionsByEvent (ev_id v)\<rparr>) events)"

definition valid_balance :: "int \<Rightarrow> bool" where
  "valid_balance b \<longleftrightarrow> \<not> (b < 0 \<or> b > 2147483647)"

definition create_session :: "env \<Rightarrow> session \<Rightarrow> db \<Rightarrow> api_error + db \<times> session" where
  "create_session e s d =
     bind_res (ensure (\<not> (cs_status s = SE_ACTIVE \<and> list_ex (session_open_for (cs_userId s) (cs_eventId s)) (t_sessions d)))
       (UniqueViolation ''CashierSession.userId_eventId_active'')) (\<lambda>_.
     bind_res (ensure (find_user d (cs_userId s) \<noteq> None) (TypeError ''P2003'')) (\<lambda>_.
     let s' = s\<lparr>cs_id := fresh_id e d, cs_startTime := env_now e\<rparr>
     in Inr (d\<lparr>t_sessions := t_sessions d @ [s'], serial := Suc (serial d)\<rparr>, s')))"

definition session_started_audit :: "id \<Rightarrow> session \<Rightarrow> audit_entry" where
  "session_started_audit userId s = \<lparr>al_action = ''CASHIER_SESSION_STARTED'', al_entityId = cs_id s, al_entityType = ''CashierSession'',
     al_userId = Some userId, al_details = JObj [(''eventId'', JStr (cs_eventId s)), (''startingBalance'', JNum (cs_startingBalance s))]\<rparr>"

definition start_tx :: "env \<Rightarrow> id \<Rightarrow> id \<Rightarrow> int \<Rightarrow> db \<Rightarrow> api_error + db \<times> session" where
  "start_tx e userId eventId startingBalance d =
     bind_res (resolveOperationalDataMode (find_event d eventId)) (\<lambda>mode.
     bind_res (need mode (BadRequest ''EVENT_NOT_ACTIVE'')) (\<lambda>m.
     bind_res (ensure (getActiveSession d userId eventId = None) (BadRequest ''SESSION_EXISTS'')) (\<lambda>_.
     bind_res (create_session e \<lparr>cs_id = [], cs_userId = userId, cs_eventId = eventId, cs_dataMode = m, cs_status = SE_ACTIVE,
        cs_startingBalance = startingBalance, cs_closingBalance = None, cs_startTime = 0, cs_endTime = None\<rparr> d) (\<lambda>(d1, s).
     Inr (add_audit (session_started_audit userId s) d1, s)))))"

definition startSession :: "env \<Rightarrow> db \<Rightarrow> id \<Rightarrow> id \<Rightarrow> int \<Rightarrow> api_error + db \<times> session" where
  "startSession e d userId eventId startingBalance =
     bind_res (ensure (\<not> (userId = [] \<or> eventId = [])) (BadRequest ''USER_AND_EVENT_REQUIRED'')) (\<lambda>_.
     bind_res (ensure (valid_balance startingBalance) (BadRequest ''STARTING_BALANCE'')) (\<lambda>_.
     case start_tx e userId eventId startingBalance d of
       Inl (UniqueViolation _) \<Rightarrow> Inl (BadRequest ''SESSION_EXISTS'')
     | r \<Rightarrow> r))"

section \<open>The running summary\<close>

record session_summary =
  ss_cashSales :: int
  ss_cardSales :: int
  ss_otherSales :: int
  ss_cashPayouts :: int
  ss_expectedCash :: int
  ss_depositCollected :: int
  ss_depositRefunded :: int
  ss_depositNet :: int
  ss_session :: session

text \<open>One payment of the loop over cash, card, other sales and payouts.\<close>

fun tally :: "int \<times> int \<times> int \<times> int \<Rightarrow> payment \<Rightarrow> int \<times> int \<times> int \<times> int" where
  "tally (cash, cards, other, payouts) p =
     (if pm_status p = PS_COMPLETED then
        (case pm_method p of
           CASH \<Rightarrow> (cash + pm_amount p, cards, other, payouts)
         | CARD \<Rightarrow> (cash, cards + pm_amount p, other, payouts)
         | REFUND \<Rightarrow> (cash, cards, other, payouts + pm_amount p)
         | VOUCHER \<Rightarrow> (cash, cards, other + pm_amount p, payouts))
      else if pm_status p = PS_REFUNDED then
        (case pm_method p of
           CASH \<Rightarrow> (cash - pm_amount p, cards, other, payouts)
         | CARD \<Rightarrow> (cash, cards - pm_amount p, other, payouts)
         | _ \<Rightarrow> (cash, cards, other - pm_amount p, payouts))
      else (cash, cards, other, payouts))"

definition session_payments :: "db \<Rightarrow> id \<Rightarrow> payment list" where
  "session_payments d sid = filter (\<lambda>p. pm_cashierSessionId p = Some sid) (t_payments d)"

definition session_orders :: "db \<Rightarrow> id \<Rightarrow> order list" where
  "session_orders d sid = filter (\<lambda>o'. od_cashierSessionId o' = Some sid \<and> od_lifecycleStatus o' \<noteq> LC_CANCELLED) (t_orders d)"

definition paid_units :: "order \<Rightarrow> order_item \<Rightarrow> int" where
  "paid_units o' it = (if od_paymentStatus o' = PAID then oi_quantity it else min (oi_paidQuantity it) (oi_quantity it))"

definition deposits_of :: "db \<Rightarrow> order \<Rightarrow> int" where
  "deposits_of d o' = sum_list (map (\<lambda>it. oi_depositAtTime it * paid_units o' it)
     (filter (\<lambda>it. oi_orderId it = od_id o' \<and> oi_status it \<noteq> IT_CANCELLED) (t_items d)))"

definition getSummary :: "db \<Rightarrow> id \<Rightarrow> id \<Rightarrow> api_error + session_summary" where
  "getSummary d sid userId =
     bind_res (need (find (\<lambda>s. cs_id s = sid) (t_sessions d)) (NotFound ''SESSION'')) (\<lambda>s.
     bind_res (ensure (cs_userId s = userId) (BadRequest ''NOT_YOUR_SESSION'')) (\<lambda>_.
     let (cash, cards, other, payouts) = foldl tally (0, 0, 0, 0) (session_payments d sid);
         collected = sum_list (map (deposits_of d) (session_orders d sid));
         refunded = sum_list (map od_depositRefundTotal (session_orders d sid))
     in Inr \<lparr>ss_cashSales = cash, ss_cardSales = cards, ss_otherSales = other, ss_cashPayouts = payouts,
          ss_expectedCash = cs_startingBalance s + cash - payouts, ss_depositCollected = collected, ss_depositRefunded = refunded,
          ss_depositNet = collected - refunded, ss_session = s\<rparr>))"

section \<open>Closing\<close>

record offline_warning =
  ow_hasOpenOrders :: bool
  ow_openCount :: int
  ow_openTotalCents :: int
  ow_acknowledged :: bool

definition warning_json :: "offline_warning option \<Rightarrow> (string \<times> json) list" where
  "warning_json w = (case w of None \<Rightarrow> []
   | Some x \<Rightarrow> if ow_hasOpenOrders x then [(''offlineQueueWarning'', JObj [(''hasOpenOrders'', JBool True),
        (''openCount'', JNum (ow_openCount x)), (''openTotalCents'', JNum (ow_openTotalCents x)),
        (''acknowledged'', JBool (ow_acknowledged x))])] else [])"

definition method_total :: "db \<Rightarrow> id \<Rightarrow> payment_method \<Rightarrow> int" where
  "method_total d sid m = sum_list (map pm_amount
     (filter (\<lambda>p. pm_method p = m) (filter (\<lambda>p. pm_cashierSessionId p = Some sid \<and> pm_status p = PS_COMPLETED) (t_payments d))))"

definition closed_row :: "env \<Rightarrow> int \<Rightarrow> session \<Rightarrow> session" where
  "closed_row e closingBalance s = s\<lparr>cs_status := SE_CLOSED, cs_closingBalance := Some closingBalance, cs_endTime := Some (env_now e)\<rparr>"

definition session_closed_audit :: "id \<Rightarrow> session \<Rightarrow> int \<Rightarrow> int \<Rightarrow> int \<Rightarrow> offline_warning option \<Rightarrow> audit_entry" where
  "session_closed_audit userId s cash payouts closingBalance w =
     (let expected = cs_startingBalance s + cash - payouts
      in \<lparr>al_action = ''CASHIER_SESSION_CLOSED'', al_entityId = cs_id s, al_entityType = ''CashierSession'', al_userId = Some userId,
          al_details = JObj ([(''eventId'', JStr (cs_eventId s)), (''startingBalance'', JNum (cs_startingBalance s)),
            (''cashSales'', JNum cash), (''cashPayouts'', JNum payouts), (''expectedCash'', JNum expected),
            (''closingBalance'', JNum closingBalance), (''difference'', JNum (closingBalance - expected))] @ warning_json w)\<rparr>)"

definition closeSession :: "env \<Rightarrow> db \<Rightarrow> id \<Rightarrow> id \<Rightarrow> int \<Rightarrow> offline_warning option \<Rightarrow> api_error + db \<times> session" where
  "closeSession e d sid userId closingBalance w =
     bind_res (ensure (valid_balance closingBalance) (BadRequest ''CLOSING_BALANCE'')) (\<lambda>_.
     bind_res (need (find (\<lambda>s. cs_id s = sid) (t_sessions d)) (NotFound ''SESSION'')) (\<lambda>s.
     bind_res (ensure (cs_userId s = userId) (BadRequest ''NOT_YOUR_SESSION'')) (\<lambda>_.
     bind_res (ensure (cs_status s \<noteq> SE_CLOSED) (BadRequest ''SESSION_CLOSED'')) (\<lambda>_.
     let cash = method_total d sid CASH;
         payouts = method_total d sid REFUND;
         d1 = d\<lparr>t_sessions := update_where (\<lambda>x. cs_id x = sid) (closed_row e closingBalance) (t_sessions d)\<rparr>
     in Inr (add_audit (session_closed_audit userId s cash payouts closingBalance w) d1, closed_row e closingBalance s)))))"

end
