(* ===== verification/VO_Session_Props.thy ===== *)
theory VO_Session_Props
  imports VO_Sessions VO_Samples
begin

text \<open>
  The properties of register sessions: one open drawer per cashier and event, and the cash the code expects in it.
\<close>

section \<open>One open drawer\<close>

definition single_active :: "db \<Rightarrow> bool" where
  "single_active d \<longleftrightarrow> (\<forall>u i. length (filter (session_open_for u i) (t_sessions d)) \<le> 1)"

lemma getActiveSession_None: "getActiveSession d u i = None \<longleftrightarrow> filter (session_open_for u i) (t_sessions d) = []"
  by (auto simp: getActiveSession_def find_None_iff filter_empty_conv)

lemma start_tx_Inr:
  "start_tx e u i b d = Inr (d', s) \<longleftrightarrow> (\<exists>m. resolveOperationalDataMode (find_event d i) = Inr (Some m) \<and>
     filter (session_open_for u i) (t_sessions d) = [] \<and> find_user d u \<noteq> None \<and>
     s = \<lparr>cs_id = fresh_id e d, cs_userId = u, cs_eventId = i, cs_dataMode = m, cs_status = SE_ACTIVE,
        cs_startingBalance = b, cs_closingBalance = None, cs_startTime = env_now e, cs_endTime = None\<rparr> \<and>
     d' = add_audit (session_started_audit u s) (d\<lparr>t_sessions := t_sessions d @ [s], serial := Suc (serial d)\<rparr>))"
  by (auto simp: start_tx_def create_session_def res_simps Let_def getActiveSession_None list_ex_iff filter_empty_conv)

lemma start_tx_Inl:
  "start_tx e u i b d = Inl x \<Longrightarrow> (\<nexists>m. resolveOperationalDataMode (find_event d i) = Inr (Some m)) \<or>
     filter (session_open_for u i) (t_sessions d) \<noteq> [] \<or> find_user d u = None"
  by (auto simp: start_tx_def create_session_def bind_res_Inl_iff res_simps ensure_Inl_iff need_Inl_iff Let_def getActiveSession_None
      list_ex_iff filter_empty_conv split: sum.splits)

lemma startSession_Inr:
  "startSession e d u i b = Inr r \<longleftrightarrow> u \<noteq> [] \<and> i \<noteq> [] \<and> valid_balance b \<and> start_tx e u i b d = Inr r"
  by (auto simp: startSession_def res_simps split: sum.splits api_error.splits)

inductive session_step :: "db \<Rightarrow> db \<Rightarrow> bool" where
  opened: "startSession e d u i b = Inr (d', s) \<Longrightarrow> session_step d d'"
| closed: "closeSession e d sid u b w = Inr (d', s) \<Longrightarrow> session_step d d'"
| beside: "t_sessions d' = t_sessions d \<Longrightarrow> session_step d d'"

inductive_cases session_stepE: "session_step d d'"

lemma closeSession_Inr:
  "closeSession e d sid u b w = Inr (d', s') \<longleftrightarrow> valid_balance b \<and> (\<exists>s. find (\<lambda>s. cs_id s = sid) (t_sessions d) = Some s \<and>
     cs_userId s = u \<and> cs_status s \<noteq> SE_CLOSED \<and> s' = closed_row e b s \<and>
     d' = add_audit (session_closed_audit u s (method_total d sid CASH) (method_total d sid REFUND) b w)
       (d\<lparr>t_sessions := update_where (\<lambda>x. cs_id x = sid) (closed_row e b) (t_sessions d)\<rparr>))"
  by (auto simp: closeSession_def res_simps Let_def)

lemma close_fewer_open:
  "length (filter (session_open_for u i) (update_where c (closed_row e b) xs)) \<le> length (filter (session_open_for u i) xs)"
  by (induction xs) (auto simp: update_where_def session_open_for_def closed_row_def)

lemma session_step_single:
  assumes "session_step d d'" and "single_active d"
  shows "single_active d'"
  using assms(1)
proof cases
  case (opened e u i b s)
  then have "filter (session_open_for u i) (t_sessions d) = []" "t_sessions d' = t_sessions d @ [s]" "cs_userId s = u" "cs_eventId s = i"
    by (auto simp: startSession_Inr start_tx_Inr frame_simps)
  with assms(2) show ?thesis by (auto simp: single_active_def session_open_for_def)
next
  case (closed e sid u b w s)
  then have "t_sessions d' = update_where (\<lambda>x. cs_id x = sid) (closed_row e b) (t_sessions d)"
    by (auto simp: closeSession_Inr frame_simps)
  with assms(2) show ?thesis unfolding single_active_def using close_fewer_open le_trans by metis
next
  case beside
  with assms(2) show ?thesis by (simp add: single_active_def)
qed

text \<open>
  C29. Over every run of opening and closing, interleaved with anything that leaves the session table alone, a cashier has at most one open
  drawer per event; and opening a drawer succeeds exactly for an existing user and an event, a balance between 0 and the 32 bit limit,
  a running event and no drawer of this user and event being open, in the mode the event runs in.
\<close>

theorem one_drawer_per_cashier:
  assumes "session_step\<^sup>*\<^sup>* d d'" and "single_active d"
  shows "length (filter (session_open_for u i) (t_sessions d')) \<le> 1 \<and>
    (\<forall>e b. (\<exists>r. startSession e d' u i b = Inr r) \<longleftrightarrow> u \<noteq> [] \<and> i \<noteq> [] \<and> 0 \<le> b \<and> b \<le> int32_max \<and>
       (\<exists>m. resolveOperationalDataMode (find_event d' i) = Inr (Some m)) \<and> filter (session_open_for u i) (t_sessions d') = [] \<and> find_user d' u \<noteq> None) \<and>
    (\<forall>e b d2 s. startSession e d' u i b = Inr (d2, s) \<longrightarrow> cs_status s = SE_ACTIVE \<and> cs_startingBalance s = b \<and>
       resolveOperationalDataMode (find_event d' i) = Inr (Some (cs_dataMode s)) \<and> t_sessions d2 = t_sessions d' @ [s])"
proof -
  have "single_active d'"
    using assms(1) by induction (simp_all add: assms(2) session_step_single)
  moreover have "(\<exists>r. startSession e d' u i b = Inr r) \<longleftrightarrow> u \<noteq> [] \<and> i \<noteq> [] \<and> 0 \<le> b \<and> b \<le> int32_max \<and>
       (\<exists>m. resolveOperationalDataMode (find_event d' i) = Inr (Some m)) \<and> filter (session_open_for u i) (t_sessions d') = [] \<and> find_user d' u \<noteq> None" for e b
    by (auto simp: startSession_Inr start_tx_Inr valid_balance_def)
  ultimately show ?thesis by (auto simp: single_active_def startSession_Inr start_tx_Inr frame_simps)
qed

lemma one_drawer_per_cashier_witness:
  "(\<exists>r. startSession run_env (result_of sample_db (map_sum id fst (closeSession run_env sample_db ''k'' ''u'' 10000 None))) ''u'' ''e'' 500 = Inr r) \<and>
   \<not> (\<exists>r. startSession run_env sample_db ''u'' ''e'' 500 = Inr r)"
proof -
  have one: "single_active sample_db" by (simp add: single_active_def sample_db_def empty_db_def)
  have "succeeds_with (\<lambda>(d', _). filter (session_open_for ''u'' ''e'') (t_sessions d') = [] \<and>
      resolveOperationalDataMode (find_event d' ''e'') = Inr (Some LIVE) \<and> find_user d' ''u'' \<noteq> None) (closeSession run_env sample_db ''k'' ''u'' 10000 None)" by code_simp
  then obtain d' s where run: "closeSession run_env sample_db ''k'' ''u'' 10000 None = Inr (d', s)"
    and d': "filter (session_open_for ''u'' ''e'') (t_sessions d') = []" "resolveOperationalDataMode (find_event d' ''e'') = Inr (Some LIVE)"
      "find_user d' ''u'' \<noteq> None"
    by (auto elim!: succeeds_withE)
  from closed [OF run] have "session_step\<^sup>*\<^sup>* sample_db d'" by blast
  from one_drawer_per_cashier [OF this one, of "''u''" "''e''"] d' have "\<exists>r. startSession run_env d' ''u'' ''e'' 500 = Inr r" by auto
  moreover have "filter (session_open_for ''u'' ''e'') (t_sessions sample_db) \<noteq> []" by code_simp
  with one_drawer_per_cashier [OF rtranclp.rtrancl_refl one, of "''u''" "''e''"] have "\<not> (\<exists>r. startSession run_env sample_db ''u'' ''e'' 500 = Inr r)"
    by auto
  ultimately show ?thesis unfolding run by (simp add: result_of_def)
qed

section \<open>The cash in the drawer\<close>

definition signed :: "payment_method set \<Rightarrow> int \<Rightarrow> payment \<Rightarrow> int" where
  "signed ms r p = (if pm_method p \<in> ms then (if pm_status p = PS_COMPLETED then pm_amount p else r * pm_amount p) else 0)"

lemma tally_sums:
  "foldl tally (a, b, c, p) ps = (a + sum_list (map (signed {CASH} (- 1)) ps), b + sum_list (map (signed {CARD} (- 1)) ps),
     c + sum_list (map (\<lambda>x. signed {VOUCHER} (- 1) x + (if pm_status x = PS_REFUNDED \<and> pm_method x = REFUND then - pm_amount x else 0)) ps),
     p + sum_list (map (signed {REFUND} 0) ps))"
proof (induction ps arbitrary: a b c p)
  case (Cons x ps)
  obtain a' b' c' p' where step: "tally (a, b, c, p) x = (a', b', c', p')" by (metis prod_cases4)
  have "a' = a + signed {CASH} (- 1) x \<and> b' = b + signed {CARD} (- 1) x \<and> p' = p + signed {REFUND} 0 x \<and>
      c' = c + (signed {VOUCHER} (- 1) x + (if pm_status x = PS_REFUNDED \<and> pm_method x = REFUND then - pm_amount x else 0))"
    using step by (cases "pm_method x"; cases "pm_status x") (auto simp: signed_def)
  then show ?case by (simp del: tally.simps add: step Cons.IH)
qed simp

lemma method_total_signed:
  "method_total d sid m = sum_list (map (signed {m} 0) (session_payments d sid))"
proof -
  have "sum_list (map pm_amount (filter (\<lambda>p. pm_method p = m) (filter (\<lambda>p. pm_cashierSessionId p = Some sid \<and> pm_status p = PS_COMPLETED) ps))) =
      sum_list (map (signed {m} 0) (filter (\<lambda>p. pm_cashierSessionId p = Some sid) ps))" for ps
    by (induction ps) (auto simp: signed_def)
  then show ?thesis by (simp add: method_total_def session_payments_def)
qed

text \<open>
  Closing a drawer records what should be in it: the session is the caller's own open one, it is closed with the counted
  balance, the audit row holds starting balance plus completed cash payments less payouts as the expected cash and the
  difference of the count to it, the running summary showed exactly this amount when none of the session's payments was taken
  back, no other session changes, and the session cannot be closed again.
\<close>

theorem session_cash:
  assumes "closeSession e d sid u b w = Inr (d', s')" and "distinct (map cs_id (t_sessions d))"
  shows "\<exists>s expected. s \<in> set (t_sessions d) \<and> cs_id s = sid \<and> cs_userId s = u \<and> cs_status s = SE_ACTIVE \<and> 0 \<le> b \<and> b \<le> int32_max \<and>
    expected = cs_startingBalance s + method_total d sid CASH - method_total d sid REFUND \<and>
    s' = s\<lparr>cs_status := SE_CLOSED, cs_closingBalance := Some b, cs_endTime := Some (env_now e)\<rparr> \<and>
    t_sessions d' = map (\<lambda>x. if cs_id x = sid then s' else x) (t_sessions d) \<and>
    json_field ''expectedCash'' (al_details (last (t_auditLogs d'))) = Some (JNum expected) \<and>
    json_field ''difference'' (al_details (last (t_auditLogs d'))) = Some (JNum (b - expected)) \<and>
    ((\<forall>p \<in> set (session_payments d sid). pm_status p = PS_COMPLETED) \<longrightarrow>
       (\<exists>r. getSummary d sid u = Inr r \<and> ss_expectedCash r = expected)) \<and>
    (\<forall>e2 u2 b2 w2. closeSession e2 d' sid u2 b2 w2 = Inl (BadRequest ''SESSION_CLOSED'') \<or>
       closeSession e2 d' sid u2 b2 w2 \<in> {Inl (BadRequest ''CLOSING_BALANCE''), Inl (BadRequest ''NOT_YOUR_SESSION'')})"
proof -
  from assms(1) obtain s where s: "find (\<lambda>s. cs_id s = sid) (t_sessions d) = Some s" "cs_userId s = u" "cs_status s \<noteq> SE_CLOSED"
    "s' = closed_row e b s" "valid_balance b"
    and d': "d' = add_audit (session_closed_audit u s (method_total d sid CASH) (method_total d sid REFUND) b w)
       (d\<lparr>t_sessions := update_where (\<lambda>x. cs_id x = sid) (closed_row e b) (t_sessions d)\<rparr>)"
    by (auto simp: closeSession_Inr)
  from s(1) have mem: "s \<in> set (t_sessions d)" "cs_id s = sid" by (auto dest: find_Some_mem)
  have same: "x = s" if "x \<in> set (t_sessions d)" "cs_id x = sid" for x
    using that find_distinct_key [OF assms(2), of x] s(1) by simp
  have rows: "t_sessions d' = map (\<lambda>x. if cs_id x = sid then s' else x) (t_sessions d)"
    unfolding d' update_where_def using same by (auto simp: frame_simps s(4))
  have "find (\<lambda>x. cs_id x = sid) (t_sessions d') = Some s'"
    unfolding d' using s(1,4) mem(2) by (simp add: frame_simps find_update_where closed_row_def)
  moreover have "cs_status s' = SE_CLOSED" by (simp add: s(4) closed_row_def)
  ultimately have again: "closeSession e2 d' sid u2 b2 w2 = Inl (BadRequest ''SESSION_CLOSED'') \<or>
       closeSession e2 d' sid u2 b2 w2 \<in> {Inl (BadRequest ''CLOSING_BALANCE''), Inl (BadRequest ''NOT_YOUR_SESSION'')}" for e2 u2 b2 w2
    by (auto simp: closeSession_def ensure_def)
  have audit: "last (t_auditLogs d') = session_closed_audit u s (method_total d sid CASH) (method_total d sid REFUND) b w"
    by (simp add: d' add_audit_def)
  have summary: "\<exists>r. getSummary d sid u = Inr r \<and> ss_expectedCash r = cs_startingBalance s + method_total d sid CASH - method_total d sid REFUND"
    if "\<forall>p \<in> set (session_payments d sid). pm_status p = PS_COMPLETED"
  proof -
    have "sum_list (map (signed {CASH} (- 1)) (session_payments d sid)) = sum_list (map (signed {CASH} 0) (session_payments d sid))"
      using that by (intro arg_cong [where f = sum_list] map_cong refl) (simp add: signed_def)
    then show ?thesis by (simp add: getSummary_def s(1,2) Let_def tally_sums method_total_signed)
  qed
  let ?expected = "cs_startingBalance s + method_total d sid CASH - method_total d sid REFUND"
  have active: "cs_status s = SE_ACTIVE" using s(3) by (cases "cs_status s") auto
  have closed: "s' = s\<lparr>cs_status := SE_CLOSED, cs_closingBalance := Some b, cs_endTime := Some (env_now e)\<rparr>"
    by (simp add: s(4) closed_row_def)
  have audited: "json_field ''expectedCash'' (al_details (last (t_auditLogs d'))) = Some (JNum ?expected)"
    "json_field ''difference'' (al_details (last (t_auditLogs d'))) = Some (JNum (b - ?expected))"
    by (simp_all add: audit session_closed_audit_def Let_def json_field_def)
  have balance: "0 \<le> b" "b \<le> int32_max" using s(5) by (simp_all add: valid_balance_def)
  show ?thesis using mem s(2) active balance closed rows audited summary again by blast
qed

definition drawer_db :: db where
  "drawer_db = sample_db\<lparr>t_payments := [\<lparr>pm_id = ''7'', pm_orderId = ''0'', pm_amount = 900, pm_tenderedAmount = Some 1000,
       pm_changeAmount = 100, pm_method = CASH, pm_status = PS_COMPLETED, pm_cashierSessionId = Some ''k''\<rparr>,
     \<lparr>pm_id = ''8'', pm_orderId = ''0'', pm_amount = 200, pm_tenderedAmount = None,
       pm_changeAmount = 0, pm_method = REFUND, pm_status = PS_COMPLETED, pm_cashierSessionId = Some ''k''\<rparr>]\<rparr>"

lemma session_cash_witness:
  "succeeds_with (\<lambda>(d', _). json_field ''difference'' (al_details (last (t_auditLogs d'))) = Some (JNum (- 200)))
     (closeSession run_env drawer_db ''k'' ''u'' 10500 None)"
proof -
  obtain d' s' where run: "closeSession run_env drawer_db ''k'' ''u'' 10500 None = Inr (d', s')"
    using surj_pair by (auto simp: closeSession_def drawer_db_def sample_db_def sample_session_def valid_balance_def Let_def)
  have dist: "distinct (map cs_id (t_sessions drawer_db))" by code_simp
  have totals: "method_total drawer_db ''k'' CASH = 900" "method_total drawer_db ''k'' REFUND = 200"
    and start: "\<forall>s \<in> set (t_sessions drawer_db). cs_startingBalance s = 10000" by code_simp+
  from session_cash [OF run dist] totals start show ?thesis
    unfolding run by (auto simp: succeeds_with_def)
qed

end
