(* ===== verification/VO_Fulfilment.thy ===== *)
theory VO_Fulfilment
  imports VO_Payments
begin

text \<open>
  From the kitchen to the table: the station display and its status changes
  (\<^verbatim>\<open>apps/backend/src/stations/stations.service.ts\<close>) and the runner board, on which a runner claims an order with finished
  positions and delivers them (\<^verbatim>\<open>apps/backend/src/runner/runner.service.ts\<close>).
\<close>

section \<open>Station display\<close>

definition item_product :: "db \<Rightarrow> order_item \<Rightarrow> product option" where
  "item_product d it = find (\<lambda>p. pd_id p = oi_productId it) (t_products d)"

definition pending_at_station :: "db \<Rightarrow> id \<Rightarrow> id \<Rightarrow> data_mode \<Rightarrow> order_item \<Rightarrow> bool" where
  "pending_at_station d stationId eventId m it \<longleftrightarrow> oi_status it \<in> {IT_PENDING, IT_PREPARING} \<and>
     (case item_product d it of None \<Rightarrow> False | Some p \<Rightarrow> productAtStationFilter stationId p) \<and>
     (case find_order d (oi_orderId it) of None \<Rightarrow> False | Some o' \<Rightarrow> od_eventId o' = eventId \<and> od_dataMode o' = m)"

definition item_priority :: "db \<Rightarrow> order_item \<Rightarrow> bool" where
  "item_priority d it = (case find_order d (oi_orderId it) of None \<Rightarrow> False | Some o' \<Rightarrow> od_isPriority o')"

definition getPendingItems :: "db \<Rightarrow> id \<Rightarrow> api_error + order_item list" where
  "getPendingItems d stationId =
     (case find (\<lambda>s. sn_id s = stationId) (t_stations d) of
        None \<Rightarrow> Inr []
      | Some s \<Rightarrow>
          bind_res (resolveOperationalDataMode (find_event d (sn_eventId s))) (\<lambda>mode.
          case mode of
            None \<Rightarrow> Inr []
          | Some m \<Rightarrow> Inr (sort_key (\<lambda>it. \<not> item_priority d it) (filter (pending_at_station d stationId (sn_eventId s) m) (t_items d)))))"

definition STATION_STATUSES :: "item_status set" where
  "STATION_STATUSES = {IT_PENDING, IT_PREPARING, IT_READY, IT_CANCELLED}"

definition item_states :: "db \<Rightarrow> id \<Rightarrow> item_status list" where
  "item_states d oid = map oi_status (order_items d oid)"

definition updateItemStatus :: "db \<Rightarrow> id \<Rightarrow> item_status \<Rightarrow> api_error + db \<times> order_item" where
  "updateItemStatus d itemId st =
     bind_res (ensure (st \<in> STATION_STATUSES) (NotFound ''INVALID_STATUS'')) (\<lambda>_.
     bind_res (need (find (\<lambda>i. oi_id i = itemId) (t_items d)) (NotFound ''ORDER_ITEM'')) (\<lambda>it.
     let d1 = update_item itemId (\<lambda>i. i\<lparr>oi_status := st\<rparr>) d in
     bind_res (need (find_order d1 (oi_orderId it)) (NotFound ''P2025'')) (\<lambda>o'.
     let new = deriveFulfillmentStatus (item_states d1 (od_id o'));
         d2 = (if new \<noteq> od_fulfillmentStatus o' then update_order (od_id o') (\<lambda>x. x\<lparr>od_fulfillmentStatus := new\<rparr>) d1 else d1)
     in Inr (d2, it\<lparr>oi_status := st\<rparr>))))"

section \<open>Runner board\<close>

record runner_principal =
  rp_id :: "id option"
  rp_userId :: "id option"
  rp_role :: "role option"

definition requireRunner :: "runner_principal \<Rightarrow> api_error + id" where
  "requireRunner u =
     bind_res (ensure (\<not> (rp_role u \<noteq> Some RUNNER \<and> rp_role u \<noteq> Some ADMINISTRATOR)) (Forbidden ''RUNNER_REQUIRED'')) (\<lambda>_.
     need (truthy (case truthy (rp_userId u) of None \<Rightarrow> rp_id u | Some i \<Rightarrow> Some i)) (Forbidden ''USER_REQUIRED''))"

definition operationalEvent :: "event \<Rightarrow> bool" where
  "operationalEvent v \<longleftrightarrow> ev_status v \<in> {EV_ACTIVE, EV_TEST_MODE}"

text \<open>The most recently updated event that is running, or the given one if it is running.\<close>

definition resolveEvent :: "db \<Rightarrow> id option \<Rightarrow> api_error + event" where
  "resolveEvent d eventId =
     need (case rev (sort_key ev_updatedAt (rev (filter (\<lambda>v. (case truthy eventId of None \<Rightarrow> True | Some i \<Rightarrow> ev_id v = i) \<and> operationalEvent v)
             (t_events d)))) of [] \<Rightarrow> None | v # _ \<Rightarrow> Some v) (NotFound ''NO_ACTIVE_EVENT'')"

definition getContext :: "db \<Rightarrow> id option \<Rightarrow> api_error + event \<times> area list" where
  "getContext d eventId =
     bind_res (resolveEvent d eventId) (\<lambda>v.
     Inr (v, sort_key ar_sortOrder (filter (\<lambda>a. ar_eventId a = ev_id v) (t_areas d))))"

definition resolveQueueDataMode :: "db \<Rightarrow> id option \<Rightarrow> api_error + (id \<times> data_mode) option" where
  "resolveQueueDataMode d eventId =
     bind_res (case truthy eventId of Some i \<Rightarrow> Inr (find_event d i) | None \<Rightarrow> bind_res (resolveEvent d None) (\<lambda>v. Inr (Some v))) (\<lambda>ev.
     bind_res (resolveOperationalDataMode ev) (\<lambda>mode.
     Inr (case (mode, ev) of (Some m, Some v) \<Rightarrow> Some (ev_id v, m) | _ \<Rightarrow> None)))"

definition queue_view :: "db \<Rightarrow> order \<Rightarrow> order \<times> order_item list" where
  "queue_view d o' = (o', order_items d (od_id o'))"

definition some_item :: "db \<Rightarrow> id \<Rightarrow> item_status set \<Rightarrow> bool" where
  "some_item d oid sts = list_ex (\<lambda>s. s \<in> sts) (item_states d oid)"

definition in_queue :: "id \<times> data_mode \<Rightarrow> id option \<Rightarrow> order \<Rightarrow> bool" where
  "in_queue c areaId o' \<longleftrightarrow> od_eventId o' = fst c \<and> od_dataMode o' = snd c \<and>
     (case truthy areaId of None \<Rightarrow> True | Some a \<Rightarrow> od_areaId o' = Some a) \<and> od_lifecycleStatus o' \<noteq> LC_CANCELLED"

definition listOrders :: "db \<Rightarrow> runner_principal \<Rightarrow> id option \<Rightarrow> id option \<Rightarrow> api_error + (order \<times> order_item list) list" where
  "listOrders d u eventId areaId =
     bind_res (requireRunner u) (\<lambda>_.
     bind_res (resolveQueueDataMode d eventId) (\<lambda>context.
     case context of
       None \<Rightarrow> Inr []
     | Some c \<Rightarrow> Inr (map (queue_view d) (sort_key (\<lambda>o'. \<not> od_isPriority o') (sort_key od_createdAt
         (filter (\<lambda>o'. in_queue c areaId o' \<and> od_claimedByUserId o' = None \<and> some_item d (od_id o') {IT_READY}) (t_orders d)))))))"

definition listMine :: "db \<Rightarrow> runner_principal \<Rightarrow> id option \<Rightarrow> id option \<Rightarrow> api_error + (order \<times> order_item list) list" where
  "listMine d u eventId areaId =
     bind_res (requireRunner u) (\<lambda>userId.
     bind_res (resolveQueueDataMode d eventId) (\<lambda>context.
     case context of
       None \<Rightarrow> Inr []
     | Some c \<Rightarrow> Inr (map (queue_view d)
         (sort_key (\<lambda>o'. od_claimedAt o' = None) (sort_key (\<lambda>o'. case od_claimedAt o' of None \<Rightarrow> 0 | Some t \<Rightarrow> t) (sort_key od_createdAt
         (filter (\<lambda>o'. in_queue c areaId o' \<and> od_claimedByUserId o' = Some userId \<and>
            some_item d (od_id o') {IT_READY, IT_IN_DELIVERY}) (t_orders d))))))))"

definition order_operational :: "db \<Rightarrow> order \<Rightarrow> bool" where
  "order_operational d o' = (case find_event d (od_eventId o') of None \<Rightarrow> False | Some v \<Rightarrow> operationalEvent v)"

definition claimable :: "db \<Rightarrow> id \<Rightarrow> id \<Rightarrow> order \<Rightarrow> bool" where
  "claimable d userId oid o' \<longleftrightarrow> od_id o' = oid \<and> (od_claimedByUserId o' = None \<or> od_claimedByUserId o' = Some userId) \<and>
     od_lifecycleStatus o' \<noteq> LC_CANCELLED \<and> order_operational d o' \<and> some_item d oid {IT_READY}"

definition move_items :: "id \<Rightarrow> item_status \<Rightarrow> item_status \<Rightarrow> db \<Rightarrow> db" where
  "move_items oid old new d = d\<lparr>t_items := update_where (\<lambda>i. oi_orderId i = oid \<and> oi_status i = old) (\<lambda>i. i\<lparr>oi_status := new\<rparr>) (t_items d)\<rparr>"

definition items_in :: "id \<Rightarrow> item_status \<Rightarrow> db \<Rightarrow> order_item list" where
  "items_in oid st d = filter (\<lambda>i. oi_orderId i = oid \<and> oi_status i = st) (t_items d)"

definition claim_audit :: "env \<Rightarrow> id \<Rightarrow> id \<Rightarrow> nat \<Rightarrow> audit_entry" where
  "claim_audit e userId oid n = \<lparr>al_action = ''RUNNER_ORDER_CLAIMED'', al_entityId = oid, al_entityType = ''Order'',
     al_userId = Some userId, al_details = JObj [(''itemCount'', JNum (int n)), (''claimedAt'', JNum (int (env_now e)))]\<rparr>"

definition claimed_order :: "env \<Rightarrow> id \<Rightarrow> order \<Rightarrow> order" where
  "claimed_order e userId o' = o'\<lparr>od_claimedByUserId := Some userId, od_claimedAt := Some (env_now e), od_fulfillmentStatus := FF_PARTIALLY_DELIVERED\<rparr>"

definition already_claimed :: "db \<Rightarrow> id \<Rightarrow> id \<Rightarrow> api_error + order" where
  "already_claimed d userId oid =
     (case find (\<lambda>o'. od_id o' = oid \<and> od_claimedByUserId o' = Some userId \<and> order_operational d o') (t_orders d) of
        None \<Rightarrow> Inl (NotFound ''READY_ORDER'')
      | Some o' \<Rightarrow> if some_item d (od_id o') {IT_READY} then Inl (NotFound ''READY_ORDER'') else Inr o')"

definition claimOrder :: "env \<Rightarrow> db \<Rightarrow> runner_principal \<Rightarrow> id \<Rightarrow> api_error + db \<times> order \<times> order_item list" where
  "claimOrder e d u oid =
     bind_res (requireRunner u) (\<lambda>userId.
     if count_where (claimable d userId oid) (t_orders d) = 0
     then bind_res (already_claimed d userId oid) (\<lambda>o'. Inr (d, queue_view d o'))
     else let d1 = d\<lparr>t_orders := update_where (claimable d userId oid) (claimed_order e userId) (t_orders d)\<rparr>;
              n = length (items_in oid IT_READY d1);
              d2 = move_items oid IT_READY IT_IN_DELIVERY d1
          in bind_res (ensure (n \<noteq> 0) (NotFound ''NO_READY_ITEMS'')) (\<lambda>_.
             let d3 = add_audit (claim_audit e userId oid n) d2
             in bind_res (need (find (\<lambda>o'. od_id o' = oid \<and> od_claimedByUserId o' = Some userId) (t_orders d3)) (NotFound ''CLAIMED_ORDER'')) (\<lambda>o'.
                Inr (d3, queue_view d3 o'))))"

definition deliver_audit :: "id \<Rightarrow> order \<Rightarrow> order_item list \<Rightarrow> fulfillment_status \<Rightarrow> audit_entry" where
  "deliver_audit userId o' items st = \<lparr>al_action = ''RUNNER_ORDER_DELIVERED'', al_entityId = od_id o', al_entityType = ''Order'',
     al_userId = Some userId, al_details = JObj [(''itemCount'', JNum (int (length items))), (''itemIds'', JArr (map (JStr \<circ> oi_id) items)),
       (''previousFulfillmentStatus'', JStr (fulfillment_text (od_fulfillmentStatus o'))), (''fulfillmentStatus'', JStr (fulfillment_text st))]\<rparr>"

definition deliverOrder :: "db \<Rightarrow> runner_principal \<Rightarrow> id \<Rightarrow> api_error + db \<times> order \<times> order_item list" where
  "deliverOrder d u oid =
     bind_res (requireRunner u) (\<lambda>userId.
     bind_res (need (find (\<lambda>o'. od_id o' = oid \<and> order_operational d o') (t_orders d)) (NotFound ''CLAIMED_ORDER'')) (\<lambda>o'.
     bind_res (ensure (od_claimedByUserId o' = Some userId) (Forbidden ''NOT_YOUR_ORDER'')) (\<lambda>_.
     let carried = items_in oid IT_IN_DELIVERY d in
     if carried = []
     then bind_res (ensure (od_fulfillmentStatus o' = FF_DELIVERED) (BadRequest ''NOTHING_IN_DELIVERY'')) (\<lambda>_. Inr (d, queue_view d o'))
     else let d1 = move_items oid IT_IN_DELIVERY IT_DELIVERED d;
              st = deriveFulfillmentStatus (map (\<lambda>s. if s = IT_IN_DELIVERY then IT_DELIVERED else s) (item_states d oid));
              d2 = update_order oid (\<lambda>x. x\<lparr>od_fulfillmentStatus := st\<rparr>) d1
          in Inr (add_audit (deliver_audit userId o' carried st) d2, queue_view d2 (o'\<lparr>od_fulfillmentStatus := st\<rparr>)))))"

end
