(* ===== verification/VO_Fulfilment_Props.thy ===== *)
theory VO_Fulfilment_Props
  imports VO_Fulfilment VO_Payment_Props
begin

text \<open>
  The properties of the way from the kitchen to the table: the status of an order always is the one its positions
  determine, and an order is carried by one runner at a time.
\<close>

section \<open>The status follows the positions\<close>

definition fulfilment_ok :: "db \<Rightarrow> bool" where
  "fulfilment_ok d \<longleftrightarrow> distinct (map od_id (t_orders d)) \<and> distinct (map oi_id (t_items d)) \<and>
     (\<forall>o' \<in> set (t_orders d). od_fulfillmentStatus o' = deriveFulfillmentStatus (item_states d (od_id o')))"

lemma derive_in_delivery: "IT_IN_DELIVERY \<in> set xs \<Longrightarrow> deriveFulfillmentStatus xs = FF_PARTIALLY_DELIVERED"
  by (auto simp: deriveFulfillmentStatus_def Let_def list_all_iff list_ex_iff filter_empty_conv)

lemma item_states_move:
  "item_states (move_items oid old new d) i = (if i = oid then map (\<lambda>s. if s = old then new else s) (item_states d oid) else item_states d i)"
proof -
  have "map oi_status (filter (\<lambda>x. oi_orderId x = i) (update_where (\<lambda>x. oi_orderId x = oid \<and> oi_status x = old) (\<lambda>x. x\<lparr>oi_status := new\<rparr>) xs)) =
      (if i = oid then map (\<lambda>s. if s = old then new else s) (map oi_status (filter (\<lambda>x. oi_orderId x = oid) xs))
       else map oi_status (filter (\<lambda>x. oi_orderId x = i) xs))" for xs
    by (induction xs) (auto simp: update_where_def)
  note this [of "t_items d"]
  then show ?thesis unfolding item_states_def order_items_def move_items_def by simp
qed

lemma item_states_cong: "t_items d' = t_items d \<Longrightarrow> item_states d' i = item_states d i"
  by (simp add: item_states_def order_items_def)

lemma move_items_frame [simp]:
  "t_orders (move_items oid old new d) = t_orders d" "map oi_id (t_items (move_items oid old new d)) = map oi_id (t_items d)"
  "t_events (move_items oid old new d) = t_events d" "t_sessions (move_items oid old new d) = t_sessions d"
  by (simp_all add: move_items_def map_update_where_frame)

lemma update_item_frame [simp]:
  "t_orders (update_item i f d) = t_orders d" "t_events (update_item i f d) = t_events d" "t_sessions (update_item i f d) = t_sessions d"
  by (simp_all add: update_item_def)

lemma item_states_update_item:
  assumes "distinct (map oi_id (t_items d))" and "it \<in> set (t_items d)" and "i \<noteq> oi_orderId it"
  shows "item_states (update_item (oi_id it) (\<lambda>x. x\<lparr>oi_status := st\<rparr>) d) i = item_states d i"
proof -
  have own: "oi_orderId x = oi_orderId it" if "x \<in> set (t_items d)" "oi_id x = oi_id it" for x
    using that find_distinct_key [OF assms(1)] assms(2) by (metis option.inject)
  have "filter (\<lambda>x. oi_orderId x = i) (update_where (\<lambda>x. oi_id x = oi_id it) (\<lambda>x. x\<lparr>oi_status := st\<rparr>) xs) = filter (\<lambda>x. oi_orderId x = i) xs"
    if "\<And>x. x \<in> set xs \<Longrightarrow> oi_id x = oi_id it \<Longrightarrow> oi_orderId x = oi_orderId it" for xs
    using that assms(3) by (induction xs) (auto simp: update_where_def)
  note this [of "t_items d", OF own]
  then show ?thesis unfolding item_states_def order_items_def update_item_def by simp
qed

lemma updateItemStatus_effect:
  assumes "updateItemStatus d itemId st = Inr (d', it')"
  shows "\<exists>it o'. it \<in> set (t_items d) \<and> oi_id it = itemId \<and> o' \<in> set (t_orders d) \<and> od_id o' = oi_orderId it \<and> st \<in> STATION_STATUSES \<and>
    t_items d' = update_where (\<lambda>i. oi_id i = itemId) (\<lambda>i. i\<lparr>oi_status := st\<rparr>) (t_items d) \<and>
    item_states d' = item_states (update_item itemId (\<lambda>i. i\<lparr>oi_status := st\<rparr>) d) \<and> t_events d' = t_events d \<and> t_sessions d' = t_sessions d \<and>
    (t_orders d' = t_orders d \<and> od_fulfillmentStatus o' = deriveFulfillmentStatus (item_states d' (od_id o')) \<or>
     t_orders d' = update_where (\<lambda>x. od_id x = od_id o') (\<lambda>x. x\<lparr>od_fulfillmentStatus := deriveFulfillmentStatus (item_states d' (od_id o'))\<rparr>) (t_orders d))"
proof -
  let ?d1 = "update_item itemId (\<lambda>i. i\<lparr>oi_status := st\<rparr>) d"
  from assms obtain it o' where S: "st \<in> STATION_STATUSES" "find (\<lambda>i. oi_id i = itemId) (t_items d) = Some it"
    "find_order ?d1 (oi_orderId it) = Some o'"
    and d': "d' = (if deriveFulfillmentStatus (item_states ?d1 (od_id o')) \<noteq> od_fulfillmentStatus o'
      then update_order (od_id o') (\<lambda>x. x\<lparr>od_fulfillmentStatus := deriveFulfillmentStatus (item_states ?d1 (od_id o'))\<rparr>) ?d1 else ?d1)"
    unfolding updateItemStatus_def Let_def bind_res_Inr_iff need_Inr_iff ensure_Inr_iff by blast
  have items: "t_items d' = t_items ?d1" by (simp add: d' update_order_def)
  then have states: "item_states d' = item_states ?d1" by (intro ext item_states_cong)
  from S(2) have it: "it \<in> set (t_items d)" "oi_id it = itemId" by (auto dest: find_Some_mem)
  from S(3) have o': "o' \<in> set (t_orders d)" "od_id o' = oi_orderId it" by (auto simp: find_order_def dest: find_Some_mem)
  have tables: "t_events d' = t_events d" "t_sessions d' = t_sessions d" by (simp_all add: d' update_order_def)
  have rows: "t_orders d' = t_orders d \<and> od_fulfillmentStatus o' = deriveFulfillmentStatus (item_states d' (od_id o')) \<or>
     t_orders d' = update_where (\<lambda>x. od_id x = od_id o') (\<lambda>x. x\<lparr>od_fulfillmentStatus := deriveFulfillmentStatus (item_states d' (od_id o'))\<rparr>) (t_orders d)"
  proof (cases "deriveFulfillmentStatus (item_states ?d1 (od_id o')) = od_fulfillmentStatus o'")
    case True
    then show ?thesis unfolding states d' by simp
  next
    case False
    then have "t_orders d' = update_where (\<lambda>x. od_id x = od_id o') (\<lambda>x. x\<lparr>od_fulfillmentStatus := deriveFulfillmentStatus (item_states ?d1 (od_id o'))\<rparr>) (t_orders d)"
      unfolding d' by (simp add: update_order_def)
    then show ?thesis unfolding states by blast
  qed
  have "t_items d' = update_where (\<lambda>i. oi_id i = itemId) (\<lambda>i. i\<lparr>oi_status := st\<rparr>) (t_items d)"
    by (simp add: items update_item_def)
  with it o' S(1) states tables rows show ?thesis by blast
qed

lemma fulfilment_update:
  assumes "updateItemStatus d itemId st = Inr (d', it')" and ok: "fulfilment_ok d"
  shows "fulfilment_ok d'"
proof -
  from updateItemStatus_effect [OF assms(1)] obtain it o' where E: "it \<in> set (t_items d)" "oi_id it = itemId"
    "o' \<in> set (t_orders d)" "od_id o' = oi_orderId it"
    "t_items d' = update_where (\<lambda>i. oi_id i = itemId) (\<lambda>i. i\<lparr>oi_status := st\<rparr>) (t_items d)"
    "item_states d' = item_states (update_item itemId (\<lambda>i. i\<lparr>oi_status := st\<rparr>) d)"
    and rows: "t_orders d' = t_orders d \<and> od_fulfillmentStatus o' = deriveFulfillmentStatus (item_states d' (od_id o')) \<or>
     t_orders d' = update_where (\<lambda>x. od_id x = od_id o') (\<lambda>x. x\<lparr>od_fulfillmentStatus := deriveFulfillmentStatus (item_states d' (od_id o'))\<rparr>) (t_orders d)"
    by blast
  from ok have dist: "distinct (map od_id (t_orders d))" "distinct (map oi_id (t_items d))" by (simp_all add: fulfilment_ok_def)
  have others: "item_states d' i = item_states d i" if "i \<noteq> od_id o'" for i
    unfolding E(6) E(2) [symmetric] by (rule item_states_update_item [OF dist(2) E(1)]) (use that E(4) in simp)
  have same: "x = o'" if "x \<in> set (t_orders d)" "od_id x = od_id o'" for x
    using that find_distinct_key [OF dist(1)] E(3) by (metis option.inject)
  have "od_fulfillmentStatus x = deriveFulfillmentStatus (item_states d' (od_id x))" if "x \<in> set (t_orders d')" for x
    using rows
  proof
    assume a: "t_orders d' = t_orders d \<and> od_fulfillmentStatus o' = deriveFulfillmentStatus (item_states d' (od_id o'))"
    show ?thesis
    proof (cases "od_id x = od_id o'")
      case True
      with a that same show ?thesis by metis
    next
      case False
      with a that others ok show ?thesis by (simp add: fulfilment_ok_def)
    qed
  next
    assume a: "t_orders d' = update_where (\<lambda>x. od_id x = od_id o') (\<lambda>x. x\<lparr>od_fulfillmentStatus := deriveFulfillmentStatus (item_states d' (od_id o'))\<rparr>) (t_orders d)"
    with that obtain y where y: "y \<in> set (t_orders d)"
      "x = (if od_id y = od_id o' then y\<lparr>od_fulfillmentStatus := deriveFulfillmentStatus (item_states d' (od_id o'))\<rparr> else y)"
      by (auto simp: set_update_where)
    with others ok show ?thesis by (auto simp: fulfilment_ok_def)
  qed
  moreover have "map od_id (t_orders d') = map od_id (t_orders d)" using rows by (auto simp: map_update_where_frame)
  moreover have "map oi_id (t_items d') = map oi_id (t_items d)" by (simp add: E(5) map_update_where_frame)
  ultimately show ?thesis using dist by (simp add: fulfilment_ok_def)
qed

lemma claimOrder_effect:
  assumes "claimOrder e d u oid = Inr (d', o', items)"
  shows "\<exists>me. requireRunner u = Inr me \<and> od_id o' = oid \<and> od_claimedByUserId o' = Some me \<and>
    (d' = d \<and> \<not> some_item d oid {IT_READY} \<and> o' \<in> set (t_orders d) \<or>
     t_orders d' = update_where (claimable d me oid) (claimed_order e me) (t_orders d) \<and> (\<exists>x \<in> set (t_orders d). claimable d me oid x) \<and>
     t_items d' = t_items (move_items oid IT_READY IT_IN_DELIVERY d) \<and> IT_READY \<in> set (item_states d oid) \<and>
     t_events d' = t_events d \<and> t_sessions d' = t_sessions d \<and> o' \<in> set (t_orders d'))"
proof -
  from assms obtain me where me: "requireRunner u = Inr me" by (auto simp: claimOrder_def res_simps)
  show ?thesis
  proof (cases "count_where (claimable d me oid) (t_orders d) = 0")
    case True
    with assms me show ?thesis
      by (auto simp: claimOrder_def already_claimed_def queue_view_def res_simps split: option.splits if_splits dest!: find_Some_mem)
  next
    case False
    then have some: "\<exists>x \<in> set (t_orders d). claimable d me oid x" by (simp add: count_where_0_iff)
    then have ready: "IT_READY \<in> set (item_states d oid)" by (auto simp: claimable_def some_item_def list_ex_iff)
    from assms me False have "t_orders d' = update_where (claimable d me oid) (claimed_order e me) (t_orders d) \<and>
        t_items d' = t_items (move_items oid IT_READY IT_IN_DELIVERY d) \<and> t_events d' = t_events d \<and> t_sessions d' = t_sessions d \<and>
        o' \<in> set (t_orders d') \<and> od_id o' = oid \<and> od_claimedByUserId o' = Some me"
      by (auto simp: claimOrder_def res_simps Let_def queue_view_def frame_simps move_items_def dest!: find_Some_mem)
    with me some ready show ?thesis by blast
  qed
qed

lemma fulfilment_claim:
  assumes "claimOrder e d u oid = Inr (d', o', items)" and ok: "fulfilment_ok d"
  shows "fulfilment_ok d'"
proof -
  from claimOrder_effect [OF assms(1)] obtain me where
    "d' = d \<or> t_orders d' = update_where (claimable d me oid) (claimed_order e me) (t_orders d) \<and> (\<exists>x \<in> set (t_orders d). claimable d me oid x) \<and>
     t_items d' = t_items (move_items oid IT_READY IT_IN_DELIVERY d) \<and> IT_READY \<in> set (item_states d oid)" by blast
  then show ?thesis
  proof
    assume a: "t_orders d' = update_where (claimable d me oid) (claimed_order e me) (t_orders d) \<and> (\<exists>x \<in> set (t_orders d). claimable d me oid x) \<and>
     t_items d' = t_items (move_items oid IT_READY IT_IN_DELIVERY d) \<and> IT_READY \<in> set (item_states d oid)"
    have states: "item_states d' i = (if i = oid then map (\<lambda>s. if s = IT_READY then IT_IN_DELIVERY else s) (item_states d oid) else item_states d i)" for i
      using item_states_cong [of d' "move_items oid IT_READY IT_IN_DELIVERY d"] a by (simp add: item_states_move)
    from a have carried: "deriveFulfillmentStatus (item_states d' oid) = FF_PARTIALLY_DELIVERED"
      by (intro derive_in_delivery) (force simp: states)
    from ok have dist: "distinct (map od_id (t_orders d))" by (simp add: fulfilment_ok_def)
    from a obtain y where y: "y \<in> set (t_orders d)" "claimable d me oid y" by blast
    have all: "claimable d me oid x" if "x \<in> set (t_orders d)" "od_id x = oid" for x
      using that y find_distinct_key [OF dist] by (metis claimable_def option.inject)
    have "od_fulfillmentStatus x = deriveFulfillmentStatus (item_states d' (od_id x))" if "x \<in> set (t_orders d')" for x
    proof -
      from that a obtain z where z: "z \<in> set (t_orders d)" "x = (if claimable d me oid z then claimed_order e me z else z)"
        by (auto simp: set_update_where)
      show ?thesis
      proof (cases "claimable d me oid z")
        case True
        then have "od_id z = oid" by (simp add: claimable_def)
        with True z(2) carried show ?thesis by (simp add: claimed_order_def)
      next
        case False
        with all z(1) have "od_id z \<noteq> oid" by blast
        with False z ok show ?thesis by (simp add: fulfilment_ok_def states)
      qed
    qed
    moreover have "map od_id (t_orders d') = map od_id (t_orders d)"
      using a by (simp add: map_update_where_frame claimed_order_def)
    ultimately show ?thesis using ok a by (simp add: fulfilment_ok_def)
  qed (use ok in simp)
qed

lemma deliverOrder_effect:
  assumes "deliverOrder d u oid = Inr (d', o', items)"
  shows "\<exists>me. requireRunner u = Inr me \<and> od_claimedByUserId o' = Some me \<and> od_id o' = oid \<and>
    (d' = d \<or> t_items d' = t_items (move_items oid IT_IN_DELIVERY IT_DELIVERED d) \<and>
      t_orders d' = update_where (\<lambda>x. od_id x = oid) (\<lambda>x. x\<lparr>od_fulfillmentStatus :=
        deriveFulfillmentStatus (map (\<lambda>s. if s = IT_IN_DELIVERY then IT_DELIVERED else s) (item_states d oid))\<rparr>) (t_orders d) \<and>
      t_events d' = t_events d \<and> t_sessions d' = t_sessions d)"
  using assms
  by (auto simp: deliverOrder_def res_simps Let_def queue_view_def frame_simps move_items_def update_order_def split: if_splits dest!: find_Some_mem)

lemma fulfilment_deliver:
  assumes "deliverOrder d u oid = Inr (d', o', items)" and ok: "fulfilment_ok d"
  shows "fulfilment_ok d'"
proof -
  let ?st = "deriveFulfillmentStatus (map (\<lambda>s. if s = IT_IN_DELIVERY then IT_DELIVERED else s) (item_states d oid))"
  from deliverOrder_effect [OF assms(1)] have
    "d' = d \<or> t_items d' = t_items (move_items oid IT_IN_DELIVERY IT_DELIVERED d) \<and>
      t_orders d' = update_where (\<lambda>x. od_id x = oid) (\<lambda>x. x\<lparr>od_fulfillmentStatus := ?st\<rparr>) (t_orders d)" by blast
  then show ?thesis
  proof
    assume a: "t_items d' = t_items (move_items oid IT_IN_DELIVERY IT_DELIVERED d) \<and>
      t_orders d' = update_where (\<lambda>x. od_id x = oid) (\<lambda>x. x\<lparr>od_fulfillmentStatus := ?st\<rparr>) (t_orders d)"
    have states: "item_states d' i = (if i = oid then map (\<lambda>s. if s = IT_IN_DELIVERY then IT_DELIVERED else s) (item_states d oid) else item_states d i)" for i
      using item_states_cong [of d' "move_items oid IT_IN_DELIVERY IT_DELIVERED d"] a by (simp add: item_states_move)
    have "map od_id (t_orders d') = map od_id (t_orders d)" using a by (simp add: map_update_where_frame)
    moreover have "od_fulfillmentStatus x = deriveFulfillmentStatus (item_states d' (od_id x))" if "x \<in> set (t_orders d')" for x
      using that a ok by (auto simp: set_update_where fulfilment_ok_def states)
    ultimately show ?thesis using ok a by (simp add: fulfilment_ok_def)
  qed (use ok in simp)
qed

inductive fulfilment_step :: "db \<Rightarrow> db \<Rightarrow> bool" where
  station: "updateItemStatus d i st = Inr (d', it) \<Longrightarrow> fulfilment_step d d'"
| claimed: "claimOrder e d u oid = Inr (d', v) \<Longrightarrow> fulfilment_step d d'"
| delivered: "deliverOrder d u oid = Inr (d', v) \<Longrightarrow> fulfilment_step d d'"

text \<open>
  C30. Over every run of station and runner operations, in any interleaving, the fulfilment status stored with each order is the
  one that its positions determine, so an order counts as delivered exactly when every position that was not cancelled is.
\<close>

theorem fulfilment_follows_items:
  assumes "fulfilment_step\<^sup>*\<^sup>* d d'" and "fulfilment_ok d"
  shows "\<forall>o' \<in> set (t_orders d'). od_fulfillmentStatus o' = deriveFulfillmentStatus (item_states d' (od_id o')) \<and>
    (od_fulfillmentStatus o' = FF_DELIVERED \<longleftrightarrow>
       IT_DELIVERED \<in> set (item_states d' (od_id o')) \<and> set (item_states d' (od_id o')) \<subseteq> {IT_DELIVERED, IT_CANCELLED})"
proof -
  have "fulfilment_ok d'"
    using assms(1)
  proof induction
    case (step d1 d2)
    from step.hyps(2) step.IH show ?case
      by cases (auto intro: fulfilment_update fulfilment_claim fulfilment_deliver)
  qed (rule assms(2))
  then show ?thesis by (simp add: fulfilment_ok_def derive_delivered_iff)
qed

definition runner_me :: runner_principal where
  "runner_me = \<lparr>rp_id = None, rp_userId = Some ''r'', rp_role = Some RUNNER\<rparr>"

lemma open_order_fulfilment_ok: "fulfilment_ok (open_order_db 0)"
  by code_simp

definition served :: "api_error + db" where
  "served = bind_res (updateItemStatus (open_order_db 0) ''1'' IT_READY) (\<lambda>(d1, _).
     bind_res (updateItemStatus d1 ''2'' IT_READY) (\<lambda>(d2, _).
     bind_res (claimOrder run_env d2 runner_me ''0'') (\<lambda>(d3, _).
     bind_res (deliverOrder d3 runner_me ''0'') (\<lambda>(d4, _). Inr d4))))"

lemma served_run:
  assumes "served = Inr d4"
  shows "fulfilment_step\<^sup>*\<^sup>* (open_order_db 0) d4"
proof -
  from assms obtain d1 d2 d3 x1 x2 x3 x4 where "updateItemStatus (open_order_db 0) ''1'' IT_READY = Inr (d1, x1)"
    "updateItemStatus d1 ''2'' IT_READY = Inr (d2, x2)" "claimOrder run_env d2 runner_me ''0'' = Inr (d3, x3)"
    "deliverOrder d3 runner_me ''0'' = Inr (d4, x4)" by (auto simp: served_def res_simps)
  then have "fulfilment_step (open_order_db 0) d1" "fulfilment_step d1 d2" "fulfilment_step d2 d3" "fulfilment_step d3 d4"
    by (blast intro: station claimed delivered)+
  then show ?thesis by (meson rtranclp.rtrancl_into_rtrancl rtranclp.rtrancl_refl)
qed

lemma fulfilment_follows_items_witness:
  "succeeds_with (\<lambda>d'. \<forall>o' \<in> set (t_orders d'). od_fulfillmentStatus o' = FF_DELIVERED) served"
proof -
  have "succeeds_with (\<lambda>d'. \<forall>o' \<in> set (t_orders d'). IT_DELIVERED \<in> set (item_states d' (od_id o')) \<and>
      set (item_states d' (od_id o')) \<subseteq> {IT_DELIVERED, IT_CANCELLED}) served" by code_simp
  then obtain d' where run: "served = Inr d'" and d': "\<forall>o' \<in> set (t_orders d'). IT_DELIVERED \<in> set (item_states d' (od_id o')) \<and>
      set (item_states d' (od_id o')) \<subseteq> {IT_DELIVERED, IT_CANCELLED}" by (elim succeeds_withE)
  from fulfilment_follows_items [OF served_run [OF run] open_order_fulfilment_ok] d' show ?thesis
    unfolding run by (auto simp: succeeds_with_def)
qed

section \<open>One runner per order\<close>

text \<open>
  A claimed order belongs to one runner: after a claim the order is the caller's, nobody else can claim or deliver it, and
  if positions were ready they are now all on their way, the caller can deliver them, and afterwards none of the
  order's positions is on its way.
\<close>

theorem runner_exclusive:
  assumes "claimOrder e d u oid = Inr (d1, o', items)" and "requireRunner u = Inr me" and "distinct (map od_id (t_orders d))"
  shows "od_id o' = oid \<and> od_claimedByUserId o' = Some me \<and>
    (\<forall>e2 u2 other. requireRunner u2 = Inr other \<longrightarrow> other \<noteq> me \<longrightarrow>
       claimOrder e2 d1 u2 oid = Inl (NotFound ''READY_ORDER'') \<and> (\<forall>r. deliverOrder d1 u2 oid \<noteq> Inr r)) \<and>
    IT_READY \<notin> set (item_states d1 oid) \<and>
    (IT_READY \<in> set (item_states d oid) \<longrightarrow> (\<exists>d2 r. deliverOrder d1 u oid = Inr (d2, r) \<and> IT_IN_DELIVERY \<notin> set (item_states d2 oid)))"
proof -
  note E = claimOrder_effect [OF assms(1)]
  from E assms(2) have o': "od_id o' = oid" "od_claimedByUserId o' = Some me" by auto
  have mem: "o' \<in> set (t_orders d1)" using E by auto
  have ids: "map od_id (t_orders d1) = map od_id (t_orders d)"
    using E by (auto simp: map_update_where_frame claimed_order_def)
  have mine: "x = o'" if "x \<in> set (t_orders d1)" "od_id x = oid" for x
    using that find_distinct_key [of od_id "t_orders d1"] mem o' ids assms(3) by (metis option.inject)
  have claimant: "od_claimedByUserId x = Some me" if "x \<in> set (t_orders d1)" "od_id x = oid" for x
    using mine [OF that] o'(2) by simp
  have others: "claimOrder e2 d1 u2 oid = Inl (NotFound ''READY_ORDER'') \<and> (\<forall>r. deliverOrder d1 u2 oid \<noteq> Inr r)"
    if "requireRunner u2 = Inr other" "other \<noteq> me" for e2 u2 other
  proof -
    have "count_where (claimable d1 other oid) (t_orders d1) = 0"
      using that(2) claimant by (fastforce simp: count_where_0_iff claimable_def)
    moreover have "find (\<lambda>x. od_id x = oid \<and> od_claimedByUserId x = Some other \<and> order_operational d1 x) (t_orders d1) = None"
      using that(2) claimant by (fastforce simp: find_None_iff)
    ultimately show ?thesis
      using that claimant by (fastforce simp: claimOrder_def already_claimed_def deliverOrder_def bind_res_Inr_iff need_Inr_iff ensure_Inr_iff dest!: find_Some_mem)
  qed
  have none_ready: "IT_READY \<notin> set (item_states d1 oid)"
  proof -
    from E have "d1 = d \<and> \<not> some_item d oid {IT_READY} \<or> t_items d1 = t_items (move_items oid IT_READY IT_IN_DELIVERY d)" by blast
    then show ?thesis
      using item_states_cong [of d1 "move_items oid IT_READY IT_IN_DELIVERY d" oid]
      by (auto simp: some_item_def list_ex_iff item_states_move)
  qed
  have deliverable: "\<exists>d2 r. deliverOrder d1 u oid = Inr (d2, r) \<and> IT_IN_DELIVERY \<notin> set (item_states d2 oid)"
    if "IT_READY \<in> set (item_states d oid)"
  proof -
    from E that assms(2) have C: "t_items d1 = t_items (move_items oid IT_READY IT_IN_DELIVERY d)" "t_events d1 = t_events d"
      "t_orders d1 = update_where (claimable d me oid) (claimed_order e me) (t_orders d)" "\<exists>x \<in> set (t_orders d). claimable d me oid x"
      by (auto simp: some_item_def list_ex_iff)
    from C(4) obtain x where x: "x \<in> set (t_orders d)" "claimable d me oid x" by blast
    with C(3) have "claimed_order e me x \<in> set (t_orders d1)" by (force simp: set_update_where)
    with mine x(2) have "claimed_order e me x = o'" by (simp add: claimable_def claimed_order_def)
    with x(2) C(2) have run: "order_operational d1 o'"
      by (auto simp: claimable_def claimed_order_def order_operational_def find_event_def)
    have found: "find (\<lambda>x. od_id x = oid \<and> order_operational d1 x) (t_orders d1) = Some o'"
    proof (cases "find (\<lambda>x. od_id x = oid \<and> order_operational d1 x) (t_orders d1)")
      case None
      with mem o' run show ?thesis by (auto simp: find_None_iff)
    next
      case (Some y)
      with mine show ?thesis by (auto dest!: find_Some_mem)
    qed
    have "IT_IN_DELIVERY \<in> set (item_states d1 oid)"
      using that item_states_cong [OF C(1), of oid] by (force simp: item_states_move)
    then have carried: "items_in oid IT_IN_DELIVERY d1 \<noteq> []"
      by (auto simp: item_states_def order_items_def items_in_def filter_empty_conv)
    define d2 where "d2 = move_items oid IT_IN_DELIVERY IT_DELIVERED d1"
    have "IT_IN_DELIVERY \<notin> set (item_states d2 oid)" by (auto simp: d2_def item_states_move)
    moreover from found carried o' assms(2) obtain d3 r where "deliverOrder d1 u oid = Inr (d3, r)" "t_items d3 = t_items d2"
      by (auto simp: deliverOrder_def Let_def d2_def frame_simps update_order_def)
    ultimately show ?thesis using item_states_cong [of d3 d2 oid] by auto
  qed
  from o' others none_ready deliverable show ?thesis by blast
qed

lemma runner_exclusive_witness:
  "succeeds_with (\<lambda>(d1, _). \<forall>u2 other. requireRunner u2 = Inr other \<longrightarrow> other \<noteq> ''r'' \<longrightarrow>
       claimOrder run_env d1 u2 ''0'' = Inl (NotFound ''READY_ORDER''))
     (bind_res (updateItemStatus (open_order_db 0) ''1'' IT_READY) (\<lambda>(d, _). claimOrder run_env d runner_me ''0''))"
proof -
  have "succeeds_with (\<lambda>(d, _). distinct (map od_id (t_orders d)) \<and> succeeds_with (\<lambda>x. True) (claimOrder run_env d runner_me ''0''))
      (updateItemStatus (open_order_db 0) ''1'' IT_READY)" by code_simp
  then obtain d it d1 o' items where run: "updateItemStatus (open_order_db 0) ''1'' IT_READY = Inr (d, it)"
    and claim: "claimOrder run_env d runner_me ''0'' = Inr (d1, o', items)" and dist: "distinct (map od_id (t_orders d))"
    by (auto elim!: succeeds_withE)
  have me: "requireRunner runner_me = Inr ''r''" by code_simp
  from runner_exclusive [OF claim me dist] show ?thesis unfolding run by (auto simp: claim succeeds_with_def)
qed

end
