(* ===== verification/VO_Events.thy ===== *)
theory VO_Events
  imports VO_Payments VO_Sessions
begin

text \<open>
  The life of an event, \<^verbatim>\<open>apps/backend/src/events/events.service.ts\<close>: creation and editing, the legally confirmed
  activation, the change of status with its separation of test and live data, the summary of the test data and their removal,
  which takes the stock back to what the remaining journal explains. A failed statement rolls its transaction back.
\<close>

section \<open>Repeated configuration requests\<close>

definition requireIdempotencyKey :: "string \<Rightarrow> api_error + unit" where
  "requireIdempotencyKey key = ensure (\<not> (key = [] \<or> length key < 8 \<or> length key > 128)) (BadRequest ''IDEMPOTENCY_KEY'')"

text \<open>\<^verbatim>\<open>canonicalJson\<close>: the text of a value with the keys of every object in order.\<close>

fun canonicalJson :: "json \<Rightarrow> string" where
  "canonicalJson (JArr xs) = ''['' @ join '','' (map canonicalJson xs) @ '']''"
| "canonicalJson (JObj kvs) = ''{'' @ join '',''
     (map (\<lambda>(k, t). json_string k @ '':'' @ t) (sort_key fst (map (\<lambda>(k, v). (k, canonicalJson v)) kvs))) @ ''}''"
| "canonicalJson JNull = json_stringify JNull"
| "canonicalJson (JBool b) = json_stringify (JBool b)"
| "canonicalJson (JNum i) = json_stringify (JNum i)"
| "canonicalJson (JStr s) = json_stringify (JStr s)"

definition payload_hash :: "env \<Rightarrow> json \<Rightarrow> string" where
  "payload_hash e v = env_sha256 e (canonicalJson v)"

datatype config_answer =
    Fresh json
  | Replay json

definition same_operation :: "id \<Rightarrow> string \<Rightarrow> string \<Rightarrow> config_operation \<Rightarrow> bool" where
  "same_operation scope action key c \<longleftrightarrow> cf_scopeId c = scope \<and> cf_action c = action \<and> cf_idempotencyKey c = key"

definition configOperation ::
  "env \<Rightarrow> id \<Rightarrow> string \<Rightarrow> string \<Rightarrow> json \<Rightarrow> (db \<Rightarrow> api_error + db \<times> json) \<Rightarrow> db \<Rightarrow> api_error + db \<times> config_answer" where
  "configOperation e scope action key payload create d =
     (case find (same_operation scope action key) (t_configOps d) of
        Some c \<Rightarrow> bind_res (ensure (cf_payloadHash c = payload_hash e payload) (Conflict ''IDEMPOTENCY_KEY_REUSED'')) (\<lambda>_.
          Inr (d, Replay (cf_response c)))
      | None \<Rightarrow> bind_res (create d) (\<lambda>(d1, result).
          Inr (d1\<lparr>t_configOps := t_configOps d1 @ [\<lparr>cf_scopeId = scope, cf_action = action, cf_idempotencyKey = key,
                 cf_payloadHash = payload_hash e payload, cf_response = result\<rparr>]\<rparr>, Fresh result)))"

section \<open>Reading and editing\<close>

record event_list_counts =
  ec_orders :: nat
  ec_products :: nat
  ec_stations :: nat
  ec_areas :: nat

record event_counts = event_list_counts +
  ec_cashierSessions :: nat

definition list_counts_of :: "db \<Rightarrow> id \<Rightarrow> event_list_counts" where
  "list_counts_of d i = \<lparr>ec_orders = count_where (\<lambda>x. od_eventId x = i) (t_orders d), ec_products = count_where (\<lambda>x. pd_eventId x = i) (t_products d),
     ec_stations = count_where (\<lambda>x. sn_eventId x = i) (t_stations d), ec_areas = count_where (\<lambda>x. ar_eventId x = i) (t_areas d)\<rparr>"

definition count_of :: "db \<Rightarrow> id \<Rightarrow> event_counts" where
  "count_of d i = \<lparr>ec_orders = count_where (\<lambda>x. od_eventId x = i) (t_orders d), ec_products = count_where (\<lambda>x. pd_eventId x = i) (t_products d),
     ec_stations = count_where (\<lambda>x. sn_eventId x = i) (t_stations d), ec_areas = count_where (\<lambda>x. ar_eventId x = i) (t_areas d),
     ec_cashierSessions = count_where (\<lambda>x. cs_eventId x = i) (t_sessions d)\<rparr>"

definition findAllEvents :: "db \<Rightarrow> (event \<times> event_list_counts) list" where
  "findAllEvents d = map (\<lambda>v. (v, list_counts_of d (ev_id v))) (rev (sort_key ev_createdAt (rev (t_events d))))"

definition findOneEvent :: "db \<Rightarrow> id \<Rightarrow> api_error + event \<times> event_counts" where
  "findOneEvent d i = bind_res (need (find_event d i) (NotFound ''EVENT'')) (\<lambda>v. Inr (v, count_of d i))"

record create_event =
  ce_name :: string
  ce_organizer :: "string option"
  ce_location :: "string option"
  ce_startTime :: "nat option"
  ce_endTime :: "nat option"
  ce_timezone :: "string option"

definition event_audit :: "string \<Rightarrow> id \<Rightarrow> id \<Rightarrow> json \<Rightarrow> audit_entry" where
  "event_audit action i userId details = \<lparr>al_action = action, al_entityId = i, al_entityType = ''Event'', al_userId = Some userId,
     al_details = details\<rparr>"

definition new_event :: "env \<Rightarrow> id \<Rightarrow> create_event \<Rightarrow> event" where
  "new_event e i c = \<lparr>ev_id = i, ev_name = ce_name c, ev_organizer = truthy (ce_organizer c), ev_location = truthy (ce_location c),
     ev_startTime = ce_startTime c, ev_endTime = ce_endTime c,
     ev_timezone = (case truthy (ce_timezone c) of None \<Rightarrow> ''Europe/Vienna'' | Some z \<Rightarrow> z), ev_status = EV_DRAFT, ev_testMode = False,
     ev_rksvConfirmedAt = None, ev_rksvConfirmedByUserId = None, ev_rksvDisclaimerVersion = Some ''1.0'',
     ev_createdAt = env_now e, ev_updatedAt = env_now e\<rparr>"

definition createEvent :: "env \<Rightarrow> db \<Rightarrow> create_event \<Rightarrow> id option \<Rightarrow> db \<times> event" where
  "createEvent e d c userId =
     (let v = new_event e (fresh_id e d) c;
          d1 = d\<lparr>t_events := t_events d @ [v], serial := Suc (serial d)\<rparr>
      in (case truthy userId of
            None \<Rightarrow> d1
          | Some u \<Rightarrow> add_audit (event_audit ''EVENT_CREATED'' (ev_id v) u
              (JObj [(''name'', JStr (ev_name v)), (''status'', JStr (event_status_text (ev_status v)))])) d1, v))"

text \<open>A field of the request is absent (\<^verbatim>\<open>undefined\<close>), null or a value.\<close>

record update_event_input =
  ue_name :: "string option"
  ue_organizer :: "string option option"
  ue_location :: "string option option"
  ue_startTime :: "nat option option"
  ue_endTime :: "nat option option"
  ue_timezone :: "string option"

definition or_keep :: "'a option \<Rightarrow> 'a \<Rightarrow> 'a" where
  "or_keep x old = (case x of None \<Rightarrow> old | Some y \<Rightarrow> y)"

definition edited :: "env \<Rightarrow> update_event_input \<Rightarrow> event \<Rightarrow> event" where
  "edited e c v = v\<lparr>ev_name := or_keep (ue_name c) (ev_name v), ev_organizer := or_keep (ue_organizer c) (ev_organizer v),
     ev_location := or_keep (ue_location c) (ev_location v), ev_startTime := or_keep (ue_startTime c) (ev_startTime v),
     ev_endTime := or_keep (ue_endTime c) (ev_endTime v), ev_timezone := or_keep (ue_timezone c) (ev_timezone v),
     ev_updatedAt := env_now e\<rparr>"

definition update_event :: "id \<Rightarrow> (event \<Rightarrow> event) \<Rightarrow> db \<Rightarrow> db" where
  "update_event i f d = d\<lparr>t_events := update_where (\<lambda>v. ev_id v = i) f (t_events d)\<rparr>"

definition changes_json :: "update_event_input \<Rightarrow> json" where
  "changes_json c = JObj (jopt JStr ''name'' (ue_name c) @ jopt (jnull JStr) ''organizer'' (ue_organizer c)
     @ jopt (jnull JStr) ''location'' (ue_location c) @ jopt (jnull (\<lambda>t. JNum (int t))) ''startTime'' (ue_startTime c)
     @ jopt (jnull (\<lambda>t. JNum (int t))) ''endTime'' (ue_endTime c) @ jopt JStr ''timezone'' (ue_timezone c))"

definition updateEvent :: "env \<Rightarrow> db \<Rightarrow> id \<Rightarrow> update_event_input \<Rightarrow> id option \<Rightarrow> api_error + db \<times> event" where
  "updateEvent e d i c userId =
     bind_res (need (find_event d i) (NotFound ''EVENT'')) (\<lambda>v.
     let d1 = update_event i (edited e c) d
     in Inr (case truthy userId of
               None \<Rightarrow> d1
             | Some u \<Rightarrow> add_audit (event_audit ''EVENT_UPDATED'' i u (JObj [(''changes'', changes_json c)])) d1, edited e c v))"

section \<open>Activation and change of status\<close>

definition lockEvent :: "db \<Rightarrow> id \<Rightarrow> api_error + event" where
  "lockEvent d i = need (find_event d i) (NotFound ''EVENT'')"

definition open_sessions :: "db \<Rightarrow> id \<Rightarrow> bool" where
  "open_sessions d i = list_ex (\<lambda>s. cs_eventId s = i \<and> cs_status s = SE_ACTIVE) (t_sessions d)"

definition mode_data :: "db \<Rightarrow> id \<Rightarrow> data_mode \<Rightarrow> bool" where
  "mode_data d i m \<longleftrightarrow> list_ex (\<lambda>o'. od_eventId o' = i \<and> od_dataMode o' = m) (t_orders d) \<or>
     list_ex (\<lambda>s. cs_eventId s = i \<and> cs_dataMode s = m) (t_sessions d)"

definition activated :: "env \<Rightarrow> id \<Rightarrow> string \<Rightarrow> event \<Rightarrow> event" where
  "activated e userId version v = v\<lparr>ev_status := EV_ACTIVE, ev_testMode := False, ev_rksvConfirmedAt := Some (env_now e),
     ev_rksvConfirmedByUserId := Some userId, ev_rksvDisclaimerVersion := Some version, ev_updatedAt := env_now e\<rparr>"

definition activate :: "env \<Rightarrow> db \<Rightarrow> id \<Rightarrow> id \<Rightarrow> bool \<Rightarrow> string \<Rightarrow> api_error + db \<times> event" where
  "activate e d i userId confirmed version =
     bind_res (ensure confirmed (BadRequest ''RKSV_REQUIRED'')) (\<lambda>_.
     bind_res (lockEvent d i) (\<lambda>v.
     bind_res (ensure (\<not> open_sessions d i) (Conflict ''OPEN_SESSIONS'')) (\<lambda>_.
     bind_res (ensure (\<not> mode_data d i TEST) (Conflict ''TEST_DATA'')) (\<lambda>_.
     let d1 = update_event i (activated e userId version) d
     in Inr (add_audit (event_audit ''RKSV_DISCLAIMER_CONFIRMED'' i userId (JObj [(''disclaimerText'', JStr ''RKSV''),
          (''version'', JStr version), (''appVersion'', JStr ''0.1.0''), (''activatedAt'', JNum (int (env_now e)))])) d1,
        activated e userId version v)))))"

definition status_mode :: "event_status \<Rightarrow> bool \<Rightarrow> bool" where
  "status_mode st old = (if st = EV_TEST_MODE then True else if st = EV_ACTIVE then False else old)"

definition with_status :: "env \<Rightarrow> event_status \<Rightarrow> event \<Rightarrow> event" where
  "with_status e st v = v\<lparr>ev_status := st, ev_testMode := status_mode st (ev_testMode v), ev_updatedAt := env_now e\<rparr>"

definition status_allowed :: "db \<Rightarrow> event \<Rightarrow> event_status \<Rightarrow> api_error + unit" where
  "status_allowed d v st =
     bind_res (ensure (\<not> (st = EV_ACTIVE \<and> ev_rksvConfirmedAt v = None)) (BadRequest ''RKSV_REQUIRED'')) (\<lambda>_.
     bind_res (ensure (\<not> (st = EV_ACTIVE \<and> mode_data d (ev_id v) TEST)) (Conflict ''TEST_DATA'')) (\<lambda>_.
     bind_res (ensure (\<not> (st = EV_TEST_MODE \<and> mode_data d (ev_id v) LIVE)) (Conflict ''LIVE_DATA'')) (\<lambda>_.
     ensure (\<not> ((st = EV_ACTIVE \<or> st = EV_TEST_MODE) \<and> open_sessions d (ev_id v))) (Conflict ''OPEN_SESSIONS''))))"

definition changeStatus :: "env \<Rightarrow> db \<Rightarrow> id \<Rightarrow> event_status \<Rightarrow> id \<Rightarrow> offline_warning option \<Rightarrow> api_error + db \<times> event" where
  "changeStatus e d i st userId w =
     bind_res (lockEvent d i) (\<lambda>v.
     bind_res (status_allowed d v st) (\<lambda>_.
     let d1 = update_event i (with_status e st) d
     in Inr (add_audit (event_audit ''EVENT_STATUS_CHANGED'' i userId (JObj ([(''previousStatus'', JStr (event_status_text (ev_status v))),
          (''newStatus'', JStr (event_status_text st)), (''testMode'', JBool (status_mode st (ev_testMode v)))] @ warning_json w))) d1,
        with_status e st v)))"

section \<open>Test data\<close>

record test_summary =
  ts_orders :: nat
  ts_sessions :: nat
  ts_payments :: nat
  ts_vouchers :: nat
  ts_event :: event

definition test_order :: "db \<Rightarrow> id \<Rightarrow> id \<Rightarrow> bool" where
  "test_order d i oid = list_ex (\<lambda>o'. od_id o' = oid \<and> od_eventId o' = i \<and> od_dataMode o' = TEST) (t_orders d)"

definition testDataSummary :: "db \<Rightarrow> id \<Rightarrow> api_error + test_summary" where
  "testDataSummary d i =
     bind_res (findOneEvent d i) (\<lambda>(v, _).
     Inr \<lparr>ts_orders = count_where (\<lambda>o'. od_eventId o' = i \<and> od_dataMode o' = TEST) (t_orders d),
        ts_sessions = count_where (\<lambda>s. cs_eventId s = i \<and> cs_dataMode s = TEST) (t_sessions d),
        ts_payments = count_where (\<lambda>p. test_order d i (pm_orderId p)) (t_payments d),
        ts_vouchers = count_where (\<lambda>v. pv_eventId v = i) (t_prodVouchers d), ts_event = v\<rparr>)"

text \<open>
  The stock of the event's test mode goes back to what its remaining journal, the initialisations, explains. Deleting
  is allowed by the append-only guard for TEST rows only.
\<close>

definition test_movement :: "id \<Rightarrow> movement \<Rightarrow> bool" where
  "test_movement i m \<longleftrightarrow> mv_eventId m = i \<and> mv_dataMode m = TEST"

definition resettable :: "id \<Rightarrow> movement \<Rightarrow> bool" where
  "resettable i m \<longleftrightarrow> test_movement i m \<and> mv_type m \<in> {SALE, CANCELLATION, CORRECTION}"

definition explained :: "movement list \<Rightarrow> id \<Rightarrow> id \<Rightarrow> int" where
  "explained ms i pid = sum_list (map mv_quantityDelta (filter (\<lambda>m. test_movement i m \<and> mv_productId m = pid) ms))"

definition reset_audit :: "id \<Rightarrow> id \<Rightarrow> stock \<Rightarrow> int \<Rightarrow> nat \<Rightarrow> audit_entry" where
  "reset_audit i userId s quantity deleted = \<lparr>al_action = ''INVENTORY_TEST_DATA_RESET'', al_entityId = st_productId s,
     al_entityType = ''Product'', al_userId = Some userId,
     al_details = JObj [(''eventId'', JStr i), (''dataMode'', JStr ''TEST''), (''previousStockQuantity'', JNum (st_stockQuantity s)),
       (''stockQuantity'', JNum quantity), (''movementsDeleted'', JNum (int deleted))]\<rparr>"

definition reset_row :: "int \<Rightarrow> stock \<Rightarrow> stock" where
  "reset_row quantity s = s\<lparr>st_stockQuantity := quantity, st_version := st_version s + 1\<rparr>"

text \<open>The row check of \<^verbatim>\<open>InventoryStock\<close> refuses a negative quantity.\<close>

fun reset_stock :: "id \<Rightarrow> id \<Rightarrow> (id \<Rightarrow> int) \<Rightarrow> (id \<Rightarrow> nat) \<Rightarrow> db \<times> nat \<Rightarrow> stock \<Rightarrow> api_error + db \<times> nat" where
  "reset_stock i userId quantity deleted (d, n) s =
     (let q = quantity (st_productId s);
          a = reset_audit i userId s q (deleted (st_productId s)) in
      if q \<noteq> st_stockQuantity s
      then bind_res (ensure (0 \<le> q \<and> q \<le> int32_max) (TypeError ''CHECK'')) (\<lambda>_.
        Inr (add_audit a (d\<lparr>t_stocks := update_where (\<lambda>r. stock_key r = (st_productId s, i, TEST)) (reset_row q) (t_stocks d)\<rparr>), Suc n))
      else Inr (add_audit a d, n))"

definition resetTestInventory :: "id \<Rightarrow> id \<Rightarrow> db \<Rightarrow> api_error + db \<times> nat \<times> nat" where
  "resetTestInventory i userId d =
     (let affected = filter (resettable i) (t_movements d);
          deleted = (\<lambda>pid. count_where (\<lambda>m. mv_productId m = pid) affected) in
      if affected = [] then Inr (d, 0, 0)
      else let d1 = d\<lparr>t_movements := filter (\<lambda>m. \<not> resettable i m) (t_movements d)\<rparr>;
               stocks = filter (\<lambda>s. st_eventId s = i \<and> st_dataMode s = TEST \<and> st_productId s \<in> mv_productId ` set affected) (t_stocks d1)
           in bind_res (fold_res (reset_stock i userId (explained (t_movements d1) i) deleted) (d1, 0) stocks) (\<lambda>(d2, n).
              Inr (d2, length affected, n)))"

text \<open>Rows that a foreign key with \<^verbatim>\<open>ON DELETE RESTRICT\<close> protects cannot be deleted.\<close>

definition delete_orders :: "id list \<Rightarrow> db \<Rightarrow> api_error + db" where
  "delete_orders oids d =
     (let pids = map pm_id (filter (\<lambda>p. pm_orderId p \<in> set oids) (t_payments d));
          iids = map oi_id (filter (\<lambda>x. oi_orderId x \<in> set oids) (t_items d)) in
      bind_res (ensure (\<not> list_ex (\<lambda>m. case vm_paymentId m of None \<Rightarrow> False | Some p \<Rightarrow> p \<in> set pids) (t_vvMovements d)) (TypeError ''P2003'')) (\<lambda>_.
      bind_res (ensure (\<not> (list_ex (\<lambda>a. va_orderItemId a \<in> set iids) (t_vvAllocations d) \<or>
         list_ex (\<lambda>m. case mv_orderItemId m of None \<Rightarrow> False | Some x \<Rightarrow> x \<in> set iids) (t_movements d))) (TypeError ''P2003'')) (\<lambda>_.
      bind_res (ensure (\<not> (list_ex (\<lambda>m. case vm_orderId m of None \<Rightarrow> False | Some x \<Rightarrow> x \<in> set oids) (t_vvMovements d) \<or>
         list_ex (\<lambda>m. case mv_orderId m of None \<Rightarrow> False | Some x \<Rightarrow> x \<in> set oids) (t_movements d))) (TypeError ''P2003'')) (\<lambda>_.
      Inr (d\<lparr>t_printJobs := filter (\<lambda>j. case pj_orderId j of None \<Rightarrow> True | Some x \<Rightarrow> x \<notin> set oids) (t_printJobs d),
         t_payments := filter (\<lambda>p. pm_orderId p \<notin> set oids) (t_payments d),
         t_prodVouchers := filter (\<lambda>v. pv_orderItemId v \<notin> set iids \<and> pv_orderId v \<notin> set oids) (t_prodVouchers d),
         t_items := filter (\<lambda>x. oi_orderId x \<notin> set oids) (t_items d),
         t_orders := filter (\<lambda>o'. od_id o' \<notin> set oids) (t_orders d)\<rparr>)))))"

definition detach :: "id list \<Rightarrow> id option \<Rightarrow> id option" where
  "detach gone x = (case x of None \<Rightarrow> None | Some i \<Rightarrow> if i \<in> set gone then None else Some i)"

definition delete_sessions :: "id list \<Rightarrow> db \<Rightarrow> api_error + db" where
  "delete_sessions sids d =
     bind_res (ensure (\<not> (list_ex (\<lambda>v. vv_issuedCashierSessionId v \<in> set sids) (t_valueVouchers d) \<or>
        list_ex (\<lambda>m. vm_cashierSessionId m \<in> set sids) (t_vvMovements d))) (TypeError ''P2003'')) (\<lambda>_.
     Inr (d\<lparr>t_sessions := filter (\<lambda>s. cs_id s \<notin> set sids) (t_sessions d),
        t_orders := map (\<lambda>o'. o'\<lparr>od_cashierSessionId := detach sids (od_cashierSessionId o')\<rparr>) (t_orders d),
        t_payments := map (\<lambda>p. p\<lparr>pm_cashierSessionId := detach sids (pm_cashierSessionId p)\<rparr>) (t_payments d),
        t_prodVouchers := map (\<lambda>v. v\<lparr>pv_cashierSessionId := detach sids (pv_cashierSessionId v)\<rparr>) (t_prodVouchers d)\<rparr>))"

definition prepared :: "env \<Rightarrow> event \<Rightarrow> event" where
  "prepared e v = v\<lparr>ev_status := EV_PREPARED, ev_testMode := False, ev_updatedAt := env_now e\<rparr>"

record cleaned =
  cl_orders :: nat
  cl_payments :: nat
  cl_sessions :: nat
  cl_printJobs :: nat
  cl_items :: nat
  cl_vouchers :: nat
  cl_pickupCounters :: nat
  cl_movements :: nat
  cl_stocks :: nat

definition clean_audit :: "cleaned \<Rightarrow> json" where
  "clean_audit c = JObj (map (\<lambda>(k, n). (k, JNum (int n))) [(''ordersDeleted'', cl_orders c), (''paymentsDeleted'', cl_payments c),
     (''sessionsDeleted'', cl_sessions c), (''printJobsDeleted'', cl_printJobs c), (''itemsDeleted'', cl_items c),
     (''vouchersDeleted'', cl_vouchers c), (''pickupCountersDeleted'', cl_pickupCounters c),
     (''inventoryMovementsDeleted'', cl_movements c), (''inventoryStocksReset'', cl_stocks c)])"

definition clean_answer :: "id \<Rightarrow> cleaned \<Rightarrow> json" where
  "clean_answer i c = JObj [(''success'', JBool True),
     (''event'', JObj [(''id'', JStr i), (''status'', JStr ''PREPARED''), (''testMode'', JBool False)]),
     (''message'', JStr ''CLEANED''),
     (''deleted'', JObj (map (\<lambda>(k, n). (k, JNum (int n))) [(''orders'', cl_orders c), (''payments'', cl_payments c),
        (''sessions'', cl_sessions c), (''printJobs'', cl_printJobs c), (''vouchers'', cl_vouchers c),
        (''pickupCounters'', cl_pickupCounters c), (''inventoryMovements'', cl_movements c)])),
     (''inventory'', JObj [(''movementsDeleted'', JNum (int (cl_movements c))), (''stocksReset'', JNum (int (cl_stocks c)))])]"

definition removed :: "db \<Rightarrow> db \<Rightarrow> db \<Rightarrow> nat \<Rightarrow> nat \<Rightarrow> cleaned" where
  "removed d d1 d' moved reset = \<lparr>cl_orders = length (t_orders d) - length (t_orders d'),
     cl_payments = length (t_payments d) - length (t_payments d'), cl_sessions = length (t_sessions d) - length (t_sessions d'),
     cl_printJobs = length (t_printJobs d) - length (t_printJobs d'), cl_items = length (t_items d) - length (t_items d'),
     cl_vouchers = length (t_prodVouchers d) - length (t_prodVouchers d1),
     cl_pickupCounters = length (t_pickupCounters d) - length (t_pickupCounters d'), cl_movements = moved, cl_stocks = reset\<rparr>"

definition clean_allowed :: "db \<Rightarrow> event \<Rightarrow> string \<Rightarrow> api_error + unit" where
  "clean_allowed d v confirmationName =
     bind_res (ensure (ev_status v = EV_TEST_MODE \<and> ev_testMode v) (Conflict ''NOT_TEST_MODE'')) (\<lambda>_.
     bind_res (ensure (confirmationName = ev_name v) (BadRequest ''NAME_NOT_CONFIRMED'')) (\<lambda>_.
     ensure (\<not> mode_data d (ev_id v) LIVE) (Conflict ''LIVE_DATA'')))"

definition test_order_ids :: "db \<Rightarrow> id \<Rightarrow> id list" where
  "test_order_ids d i = map od_id (filter (\<lambda>o'. od_eventId o' = i \<and> od_dataMode o' = TEST) (t_orders d))"

definition test_session_ids :: "db \<Rightarrow> id \<Rightarrow> id list" where
  "test_session_ids d i = map cs_id (filter (\<lambda>s. cs_eventId s = i \<and> cs_dataMode s = TEST) (t_sessions d))"

definition without_test_vouchers :: "id \<Rightarrow> db \<Rightarrow> db" where
  "without_test_vouchers i d = d\<lparr>t_prodVouchers := filter (\<lambda>v. \<not> (pv_eventId v = i \<and>
     list_ex (\<lambda>o'. od_id o' = pv_orderId v \<and> od_dataMode o' = TEST) (t_orders d))) (t_prodVouchers d)\<rparr>"

definition clean_rows :: "id \<Rightarrow> id \<Rightarrow> db \<Rightarrow> api_error + db \<times> cleaned" where
  "clean_rows i userId d =
     (let d1 = without_test_vouchers i d in
      bind_res (resetTestInventory i userId d1) (\<lambda>(d2, moved, reset).
      bind_res (if test_order_ids d i = [] then Inr d2 else delete_orders (test_order_ids d i) d2) (\<lambda>d3.
      bind_res (delete_sessions (test_session_ids d i) d3) (\<lambda>d4.
      let d5 = d4\<lparr>t_pickupCounters := filter (\<lambda>c. fst c \<noteq> (i, TEST)) (t_pickupCounters d4)\<rparr>
      in Inr (d5, removed d d1 d5 moved reset)))))"

definition clean_tx :: "env \<Rightarrow> id \<Rightarrow> id \<Rightarrow> string \<Rightarrow> db \<Rightarrow> api_error + db \<times> json" where
  "clean_tx e i userId confirmationName d =
     bind_res (lockEvent d i) (\<lambda>v.
     bind_res (clean_allowed d v confirmationName) (\<lambda>_.
     bind_res (clean_rows i userId d) (\<lambda>(d1, c).
     Inr (add_audit (event_audit ''EVENT_TEST_DATA_CLEANED'' i userId (clean_audit c)) (update_event i (prepared e) d1), clean_answer i c))))"

definition cleanTestData :: "env \<Rightarrow> db \<Rightarrow> id \<Rightarrow> id \<Rightarrow> string \<Rightarrow> string \<Rightarrow> api_error + db \<times> config_answer" where
  "cleanTestData e d i userId confirmationName key =
     bind_res (requireIdempotencyKey key) (\<lambda>_.
     configOperation e i ''CLEAN_TEST_DATA'' key (JObj [(''confirmationName'', JStr confirmationName)])
       (clean_tx e i userId confirmationName) d)"

end
