(* ===== verification/VO_Event_Laws.thy ===== *)
theory VO_Event_Laws
  imports VO_Events VO_Payment_Laws
begin

text \<open>
  What the operations of an event do to the tables: the reset of the test stock keeps the ledger, the removal of the test data takes
  exactly the rows of the test mode, and which conditions the changes of status check.
\<close>

section \<open>The reset of the test stock\<close>

definition reset_target :: "id \<Rightarrow> movement list \<Rightarrow> stock \<Rightarrow> bool" where
  "reset_target i ms s \<longleftrightarrow> st_eventId s = i \<and> st_dataMode s = TEST \<and> st_productId s \<in> mv_productId ` set (filter (resettable i) ms)"

definition reset_to :: "(id \<Rightarrow> int) \<Rightarrow> stock \<Rightarrow> stock" where
  "reset_to quantity s = (if quantity (st_productId s) \<noteq> st_stockQuantity s then reset_row (quantity (st_productId s)) s else s)"

lemma reset_to_fields [simp]:
  "stock_key (reset_to q s) = stock_key s" "st_stockQuantity (reset_to q s) = q (st_productId s)"
  "st_productId (reset_to q s) = st_productId s"
  by (simp_all add: reset_to_def reset_row_def stock_key_def)

text \<open>All tables but the stocks and the audit log.\<close>

definition beside_reset where
  "beside_reset d = (t_events d, t_users d, t_areas d, t_stations d, t_printers d, t_products d, t_sessions d, t_orders d, t_items d,
     t_payments d, t_prodVouchers d, t_movements d, t_valueVouchers d, t_vvMovements d, t_vvAllocations d, t_printJobs d,
     t_pickupCounters d, t_configOps d, broadcasts d, serial d, orderSeq d)"

lemma beside_resetD:
  assumes "beside_reset d' = beside_reset d"
  shows "t_events d' = t_events d" "t_sessions d' = t_sessions d" "t_orders d' = t_orders d" "t_items d' = t_items d"
    "t_payments d' = t_payments d" "t_prodVouchers d' = t_prodVouchers d" "t_movements d' = t_movements d"
    "t_valueVouchers d' = t_valueVouchers d" "t_vvMovements d' = t_vvMovements d" "t_vvAllocations d' = t_vvAllocations d"
    "t_printJobs d' = t_printJobs d" "t_pickupCounters d' = t_pickupCounters d" "t_configOps d' = t_configOps d" "serial d' = serial d"
  using assms by (simp_all add: beside_reset_def)

lemma reset_stock_Inr:
  assumes "reset_stock i u q del (d, n) s = Inr (d', n')" and "distinct (map stock_key (t_stocks d))" and "s \<in> set (t_stocks d)"
    and "st_eventId s = i" and "st_dataMode s = TEST"
  shows "t_stocks d' = map (\<lambda>r. if r = s then reset_to q r else r) (t_stocks d) \<and> beside_reset d' = beside_reset d \<and>
    (q (st_productId s) = st_stockQuantity s \<or> 0 \<le> q (st_productId s))"
proof -
  have "stock_key s = (st_productId s, i, TEST)" using assms(4,5) by (simp add: stock_key_def)
  moreover have "inj_on stock_key (set (t_stocks d))" using assms(2) by (simp add: distinct_map)
  ultimately have key: "stock_key r = (st_productId s, i, TEST) \<longleftrightarrow> r = s" if "r \<in> set (t_stocks d)" for r
    using that assms(3) by (metis inj_onD)
  then have "update_where (\<lambda>r. stock_key r = (st_productId s, i, TEST)) (reset_row (q (st_productId s))) (t_stocks d) =
      map (\<lambda>r. if r = s then reset_row (q (st_productId s)) r else r) (t_stocks d)"
    unfolding update_where_def by (intro map_cong refl) simp
  with assms(1) show ?thesis
    by (auto simp: Let_def res_simps add_audit_def beside_reset_def reset_to_def map_idI split: if_splits)
qed

lemma reset_loop:
  "fold_res (reset_stock i u q del) (d, n) xs = Inr (d', n') \<Longrightarrow> distinct (map stock_key (t_stocks d)) \<Longrightarrow> distinct xs \<Longrightarrow>
   set xs \<subseteq> {s \<in> set (t_stocks d). st_eventId s = i \<and> st_dataMode s = TEST} \<Longrightarrow>
   t_stocks d' = map (\<lambda>r. if r \<in> set xs then reset_to q r else r) (t_stocks d) \<and> beside_reset d' = beside_reset d \<and>
   (\<forall>s \<in> set xs. q (st_productId s) = st_stockQuantity s \<or> 0 \<le> q (st_productId s))"
proof (induction xs arbitrary: d n)
  case (Cons s xs)
  from Cons.prems(1) obtain d1 n1 where s: "reset_stock i u q del (d, n) s = Inr (d1, n1)"
    and r: "fold_res (reset_stock i u q del) (d1, n1) xs = Inr (d', n')" by (auto simp: bind_res_Inr_iff)
  from Cons.prems(4) have mem: "s \<in> set (t_stocks d)" "st_eventId s = i" "st_dataMode s = TEST" by auto
  note step = reset_stock_Inr [OF s Cons.prems(2) mem]
  then have rows: "t_stocks d1 = map (\<lambda>r. if r = s then reset_to q r else r) (t_stocks d)" by simp
  have keys: "map stock_key (t_stocks d1) = map stock_key (t_stocks d)" by (simp add: rows)
  have sub: "set xs \<subseteq> {s \<in> set (t_stocks d1). st_eventId s = i \<and> st_dataMode s = TEST}"
    using Cons.prems(3,4) by (auto simp: rows image_iff)
  note IH = Cons.IH [OF r _ _ sub]
  have dist: "distinct (map stock_key (t_stocks d1))" "distinct xs" using Cons.prems(2,3) keys by simp_all
  have away: "reset_to q s \<notin> set xs"
  proof
    assume "reset_to q s \<in> set xs"
    moreover from this Cons.prems(4) have "reset_to q s \<in> set (t_stocks d)" by auto
    then have "reset_to q s = s" using find_distinct_key [OF Cons.prems(2)] mem(1) reset_to_fields(1) by (metis option.inject)
    ultimately show False using Cons.prems(3) by simp
  qed
  have "t_stocks d' = map (\<lambda>r. if r \<in> set (s # xs) then reset_to q r else r) (t_stocks d)"
    using IH [OF dist] away Cons.prems(3) by (auto simp: rows)
  moreover have "beside_reset d' = beside_reset d" using IH [OF dist] step by simp
  ultimately show ?case using IH [OF dist] step by auto
qed (simp add: map_idI)

lemma ledger_sum_filter:
  "ledger_sum (filter c ms) k = ledger_sum ms k - ledger_sum (filter (\<lambda>m. \<not> c m) ms) k"
  by (induction ms) auto

lemma ledger_sum_none: "\<forall>m \<in> set ms. mv_key m \<noteq> k \<Longrightarrow> ledger_sum ms k = 0"
  by (induction ms) auto

lemma explained_sum: "explained ms i pid = ledger_sum ms (pid, i, TEST)"
  unfolding explained_def ledger_sum_def
  by (intro arg_cong [where f = sum_list] arg_cong [where f = "map mv_quantityDelta"] filter_cong refl)
     (auto simp: test_movement_def mv_key_def)

lemma reset_effect:
  assumes "resetTestInventory i u d = Inr (d', moved, n)" and ok: "ledger_ok (t_stocks d) (t_movements d)"
  shows "t_movements d' = filter (\<lambda>m. \<not> resettable i m) (t_movements d) \<and>
    t_stocks d' = map (\<lambda>s. if reset_target i (t_movements d) s then reset_to (explained (t_movements d') i) s else s) (t_stocks d) \<and>
    beside_reset (d'\<lparr>t_movements := t_movements d\<rparr>) = beside_reset d \<and> ledger_ok (t_stocks d') (t_movements d')"
proof -
  let ?ms = "filter (\<lambda>m. \<not> resettable i m) (t_movements d)"
  have dist: "distinct (map stock_key (t_stocks d))" using ok by (simp add: ledger_ok_def)
  show ?thesis
  proof (cases "filter (resettable i) (t_movements d) = []")
    case True
    then have ms: "?ms = t_movements d" by (simp add: filter_empty_conv filter_id_conv)
    from True assms(1) have "d' = d" by (simp add: resetTestInventory_def)
    moreover have "\<not> reset_target i (t_movements d) s" for s by (simp add: reset_target_def True)
    ultimately show ?thesis using ok ms by simp
  next
    case False
    define d1 where "d1 = d\<lparr>t_movements := ?ms\<rparr>"
    define xs where "xs = filter (\<lambda>s. st_eventId s = i \<and> st_dataMode s = TEST \<and>
        st_productId s \<in> mv_productId ` set (filter (resettable i) (t_movements d))) (t_stocks d1)"
    from assms(1) False obtain del where loop: "fold_res (reset_stock i u (explained ?ms i) del) (d1, 0) xs = Inr (d', n)"
      by (auto simp: resetTestInventory_def Let_def bind_res_Inr_iff d1_def xs_def)
    have "distinct (map stock_key (t_stocks d1))" using dist by (simp add: d1_def)
    moreover have "distinct xs" unfolding xs_def using dist by (simp add: d1_def distinct_map)
    ultimately have L: "t_stocks d' = map (\<lambda>r. if r \<in> set xs then reset_to (explained ?ms i) r else r) (t_stocks d1)"
      "beside_reset d' = beside_reset d1"
      "\<forall>s \<in> set xs. explained ?ms i (st_productId s) = st_stockQuantity s \<or> 0 \<le> explained ?ms i (st_productId s)"
      using reset_loop [OF loop] by (auto simp: xs_def)
    have mem: "r \<in> set xs \<longleftrightarrow> reset_target i (t_movements d) r" if "r \<in> set (t_stocks d)" for r
      using that by (auto simp: xs_def d1_def reset_target_def)
    have ms: "t_movements d' = ?ms" using beside_resetD(7) [OF L(2)] by (simp add: d1_def)
    have rows: "t_stocks d' = map (\<lambda>s. if reset_target i (t_movements d) s then reset_to (explained (t_movements d') i) s else s) (t_stocks d)"
      unfolding L(1) ms using mem by (intro map_cong) (auto simp: d1_def)
    have keys: "map stock_key (t_stocks d') = map stock_key (t_stocks d)" by (simp add: rows)
    then have keyset: "stock_key ` set (t_stocks d') = stock_key ` set (t_stocks d)" by (metis set_map)
    have quantity: "0 \<le> st_stockQuantity s \<and> st_stockQuantity s = ledger_sum ?ms (stock_key s)" if "s \<in> set (t_stocks d')" for s
    proof -
      from that obtain r where r: "r \<in> set (t_stocks d)"
        "s = (if reset_target i (t_movements d) r then reset_to (explained ?ms i) r else r)" by (auto simp: rows ms)
      from ok r(1) have old: "0 \<le> st_stockQuantity r" "st_stockQuantity r = ledger_sum (t_movements d) (stock_key r)"
        by (auto simp: ledger_ok_def)
      show ?thesis
      proof (cases "reset_target i (t_movements d) r")
        case True
        then have "stock_key r = (st_productId r, i, TEST)" by (simp add: reset_target_def stock_key_def)
        moreover from True mem r(1) L(3) old(1) have "0 \<le> explained ?ms i (st_productId r)" by fastforce
        ultimately show ?thesis using True r(2) by (simp add: explained_sum)
      next
        case False
        then have "\<forall>m \<in> set (filter (resettable i) (t_movements d)). mv_key m \<noteq> stock_key r"
          by (force simp: reset_target_def resettable_def test_movement_def mv_key_def stock_key_def)
        then have "ledger_sum ?ms (stock_key r) = ledger_sum (t_movements d) (stock_key r)"
          using ledger_sum_filter [of "resettable i" "t_movements d" "stock_key r"] ledger_sum_none by simp
        with False r(2) old show ?thesis by simp
      qed
    qed
    have "ledger_ok (t_stocks d') (t_movements d')"
      unfolding ledger_ok_def keys keyset ms
    proof (intro conjI ballI)
      show "distinct (map stock_key (t_stocks d))" by (rule dist)
      show "0 \<le> st_stockQuantity s" "st_stockQuantity s = ledger_sum ?ms (stock_key s)" if "s \<in> set (t_stocks d')" for s
        using quantity [OF that] by simp_all
    qed (use ok in \<open>auto simp: ledger_ok_def\<close>)
    moreover have "beside_reset (d'\<lparr>t_movements := t_movements d\<rparr>) = beside_reset d"
      using L(2) by (simp add: beside_reset_def d1_def)
    ultimately show ?thesis using ms rows by simp
  qed
qed

section \<open>The removal of the test data\<close>

lemma delete_orders_Inr:
  "delete_orders oids d = Inr d' \<Longrightarrow>
   t_orders d' = filter (\<lambda>x. od_id x \<notin> set oids) (t_orders d) \<and> t_payments d' = filter (\<lambda>p. pm_orderId p \<notin> set oids) (t_payments d) \<and>
   t_items d' = filter (\<lambda>x. oi_orderId x \<notin> set oids) (t_items d) \<and> t_stocks d' = t_stocks d \<and> t_movements d' = t_movements d \<and>
   t_sessions d' = t_sessions d \<and> t_events d' = t_events d \<and> t_valueVouchers d' = t_valueVouchers d \<and> t_vvMovements d' = t_vvMovements d \<and>
   t_configOps d' = t_configOps d \<and> serial d' = serial d"
  by (auto simp: delete_orders_def Let_def res_simps list_ex_iff split: option.splits)

lemma delete_sessions_Inr:
  "delete_sessions sids d = Inr d' \<Longrightarrow>
   t_sessions d' = filter (\<lambda>s. cs_id s \<notin> set sids) (t_sessions d) \<and>
   t_orders d' = map (\<lambda>x. x\<lparr>od_cashierSessionId := detach sids (od_cashierSessionId x)\<rparr>) (t_orders d) \<and>
   t_payments d' = map (\<lambda>p. p\<lparr>pm_cashierSessionId := detach sids (pm_cashierSessionId p)\<rparr>) (t_payments d) \<and>
   t_items d' = t_items d \<and> t_stocks d' = t_stocks d \<and> t_movements d' = t_movements d \<and> t_events d' = t_events d \<and>
   t_valueVouchers d' = t_valueVouchers d \<and> t_vvMovements d' = t_vvMovements d \<and> t_configOps d' = t_configOps d \<and> serial d' = serial d \<and>
   (\<forall>v \<in> set (t_valueVouchers d). vv_issuedCashierSessionId v \<notin> set sids)"
  by (auto simp: delete_sessions_def res_simps list_ex_iff)

lemma clean_rows_effect:
  assumes "clean_rows i u d = Inr (d', c)" and ok: "ledger_ok (t_stocks d) (t_movements d)"
  shows "t_orders d' = map (\<lambda>x. x\<lparr>od_cashierSessionId := detach (test_session_ids d i) (od_cashierSessionId x)\<rparr>)
        (filter (\<lambda>x. od_id x \<notin> set (test_order_ids d i)) (t_orders d)) \<and>
    t_sessions d' = filter (\<lambda>s. cs_id s \<notin> set (test_session_ids d i)) (t_sessions d) \<and>
    map (\<lambda>p. (pm_id p, pm_orderId p, pm_amount p, pm_method p)) (t_payments d') =
      map (\<lambda>p. (pm_id p, pm_orderId p, pm_amount p, pm_method p)) (filter (\<lambda>p. pm_orderId p \<notin> set (test_order_ids d i)) (t_payments d)) \<and>
    t_items d' = filter (\<lambda>x. oi_orderId x \<notin> set (test_order_ids d i)) (t_items d) \<and>
    t_movements d' = filter (\<lambda>m. \<not> resettable i m) (t_movements d) \<and>
    t_stocks d' = map (\<lambda>s. if reset_target i (t_movements d) s then reset_to (explained (t_movements d') i) s else s) (t_stocks d) \<and>
    ledger_ok (t_stocks d') (t_movements d') \<and> t_events d' = t_events d \<and> t_valueVouchers d' = t_valueVouchers d \<and>
    t_vvMovements d' = t_vvMovements d \<and> t_configOps d' = t_configOps d \<and> serial d' = serial d \<and>
    (\<forall>v \<in> set (t_valueVouchers d). vv_issuedCashierSessionId v \<notin> set (test_session_ids d i))"
proof -
  define d1 where "d1 = without_test_vouchers i d"
  from assms(1) obtain d2 d3 d4 moved n where S: "resetTestInventory i u d1 = Inr (d2, moved, n)"
    "(if test_order_ids d i = [] then Inr d2 else delete_orders (test_order_ids d i) d2) = Inr d3"
    "delete_sessions (test_session_ids d i) d3 = Inr d4"
    "d' = d4\<lparr>t_pickupCounters := filter (\<lambda>c. fst c \<noteq> (i, TEST)) (t_pickupCounters d4)\<rparr>"
    by (auto simp: clean_rows_def Let_def bind_res_Inr_iff d1_def)
  have base: "t_orders d1 = t_orders d" "t_items d1 = t_items d" "t_payments d1 = t_payments d" "t_stocks d1 = t_stocks d"
    "t_movements d1 = t_movements d" "t_sessions d1 = t_sessions d" "t_events d1 = t_events d" "t_valueVouchers d1 = t_valueVouchers d"
    "t_vvMovements d1 = t_vvMovements d" "t_configOps d1 = t_configOps d" "serial d1 = serial d"
    by (simp_all add: d1_def without_test_vouchers_def)
  note R = reset_effect [OF S(1), unfolded base, OF ok]
  from R have "beside_reset (d2\<lparr>t_movements := t_movements d\<rparr>) = beside_reset d1" by simp
  note B = beside_resetD [OF this, simplified, unfolded base]
  have O: "t_orders d3 = filter (\<lambda>x. od_id x \<notin> set (test_order_ids d i)) (t_orders d) \<and>
     t_payments d3 = filter (\<lambda>p. pm_orderId p \<notin> set (test_order_ids d i)) (t_payments d) \<and>
     t_items d3 = filter (\<lambda>x. oi_orderId x \<notin> set (test_order_ids d i)) (t_items d) \<and> t_stocks d3 = t_stocks d2 \<and> t_movements d3 = t_movements d2 \<and>
     t_sessions d3 = t_sessions d2 \<and> t_events d3 = t_events d2 \<and> t_valueVouchers d3 = t_valueVouchers d2 \<and> t_vvMovements d3 = t_vvMovements d2 \<and>
     t_configOps d3 = t_configOps d2 \<and> serial d3 = serial d2"
  proof (cases "test_order_ids d i = []")
    case True
    with S(2) B show ?thesis by simp
  next
    case False
    with S(2) have "delete_orders (test_order_ids d i) d2 = Inr d3" by simp
    from delete_orders_Inr [OF this] B show ?thesis by simp
  qed
  note D = delete_sessions_Inr [OF S(3)]
  have "t_stocks d' = t_stocks d2" "t_movements d' = t_movements d2" using O D by (simp_all add: S(4))
  with R have ledger: "ledger_ok (t_stocks d') (t_movements d')" by argo
  from R have R': "t_movements d2 = filter (\<lambda>m. \<not> resettable i m) (t_movements d)"
    "t_stocks d2 = map (\<lambda>s. if reset_target i (t_movements d) s then reset_to (explained (t_movements d2) i) s else s) (t_stocks d)" by simp_all
  have "t_movements d' = filter (\<lambda>m. \<not> resettable i m) (t_movements d) \<and>
    t_stocks d' = map (\<lambda>s. if reset_target i (t_movements d) s then reset_to (explained (t_movements d') i) s else s) (t_stocks d)"
    using R' O D by (simp add: S(4))
  moreover have "t_orders d' = map (\<lambda>x. x\<lparr>od_cashierSessionId := detach (test_session_ids d i) (od_cashierSessionId x)\<rparr>)
        (filter (\<lambda>x. od_id x \<notin> set (test_order_ids d i)) (t_orders d)) \<and>
    t_sessions d' = filter (\<lambda>s. cs_id s \<notin> set (test_session_ids d i)) (t_sessions d) \<and>
    map (\<lambda>p. (pm_id p, pm_orderId p, pm_amount p, pm_method p)) (t_payments d') =
      map (\<lambda>p. (pm_id p, pm_orderId p, pm_amount p, pm_method p)) (filter (\<lambda>p. pm_orderId p \<notin> set (test_order_ids d i)) (t_payments d)) \<and>
    t_items d' = filter (\<lambda>x. oi_orderId x \<notin> set (test_order_ids d i)) (t_items d)"
    using B O D by (simp add: S(4) o_def)
  moreover have "t_events d' = t_events d \<and> t_valueVouchers d' = t_valueVouchers d \<and> t_vvMovements d' = t_vvMovements d \<and>
    t_configOps d' = t_configOps d \<and> serial d' = serial d \<and>
    (\<forall>v \<in> set (t_valueVouchers d). vv_issuedCashierSessionId v \<notin> set (test_session_ids d i))"
    using B O D by (simp add: S(4))
  moreover note ledger
  ultimately show ?thesis by blast
qed

end
