(* ===== verification/VO_System.thy ===== *)
theory VO_System
  imports VO_Event_Laws VO_Fulfilment_Props VO_Session_Props VO_Voucher_Laws VO_Sale_Laws
begin

text \<open>
  The services together: one step of the system is one call of a state changing operation of any of the modelled services. Over every
  run the stock ledger stays balanced, and the test data and the live data of an event never exist side by side.
\<close>

section \<open>What matters of a state\<close>

definition order_tags :: "db \<Rightarrow> (id \<times> data_mode) list" where
  "order_tags d = map (\<lambda>x. (od_eventId x, od_dataMode x)) (t_orders d)"

definition session_tags :: "db \<Rightarrow> (id \<times> id \<times> data_mode) list" where
  "session_tags d = map (\<lambda>s. (cs_id s, cs_eventId s, cs_dataMode s)) (t_sessions d)"

definition voucher_tags :: "db \<Rightarrow> (id \<times> data_mode \<times> id) list" where
  "voucher_tags d = map (\<lambda>v. (vv_eventId v, vv_dataMode v, vv_issuedCashierSessionId v)) (t_valueVouchers d)"

definition tags :: "db \<Rightarrow> event list \<times> (id \<times> data_mode) list \<times> (id \<times> id \<times> data_mode) list \<times> (id \<times> data_mode \<times> id) list" where
  "tags d = (t_events d, order_tags d, session_tags d, voucher_tags d)"

definition running :: "db \<Rightarrow> id \<Rightarrow> data_mode \<Rightarrow> bool" where
  "running d i m \<longleftrightarrow> resolveOperationalDataMode (find_event d i) = Inr (Some m)"

text \<open>A step that books: new orders and sessions belong to events that run in their mode, nothing is lost.\<close>

definition books :: "db \<Rightarrow> db \<Rightarrow> bool" where
  "books d d' \<longleftrightarrow> t_events d' = t_events d \<and>
     (\<exists>xs. order_tags d' = order_tags d @ xs \<and> (\<forall>(i, m) \<in> set xs. running d i m)) \<and>
     (\<exists>ys. session_tags d' = session_tags d @ ys \<and> (\<forall>(j, i, m) \<in> set ys. running d i m)) \<and>
     (\<exists>zs. voucher_tags d' = voucher_tags d @ zs)"

lemma books_quiet: "tags d' = tags d \<Longrightarrow> books d d'"
  by (auto simp: tags_def books_def)

lemma mode_data_tags: "mode_data d i m \<longleftrightarrow> (i, m) \<in> set (order_tags d) \<or> (\<exists>j. (j, i, m) \<in> set (session_tags d))"
  unfolding mode_data_def order_tags_def session_tags_def list_ex_iff set_map image_def by blast

definition modes_apart :: "db \<Rightarrow> bool" where
  "modes_apart d \<longleftrightarrow> distinct (map ev_id (t_events d)) \<and>
     fst ` set (order_tags d) \<subseteq> ev_id ` set (t_events d) \<and> fst ` snd ` set (session_tags d) \<subseteq> ev_id ` set (t_events d) \<and> (\<forall>v \<in> set (t_events d).
     \<not> (mode_data d (ev_id v) TEST \<and> mode_data d (ev_id v) LIVE) \<and> (ev_status v = EV_ACTIVE \<longrightarrow> \<not> mode_data d (ev_id v) TEST) \<and>
     (ev_status v = EV_TEST_MODE \<longrightarrow> \<not> mode_data d (ev_id v) LIVE))"

lemma find_event_row: "distinct (map ev_id (t_events d)) \<Longrightarrow> v \<in> set (t_events d) \<Longrightarrow> find_event d (ev_id v) = Some v"
  by (simp add: find_event_def find_distinct_key)

lemma running_status:
  assumes "distinct (map ev_id (t_events d))" and "v \<in> set (t_events d)" and "running d (ev_id v) m"
  shows "(m = LIVE \<longrightarrow> ev_status v = EV_ACTIVE) \<and> (m = TEST \<longrightarrow> ev_status v = EV_TEST_MODE)"
  using assms find_event_row [OF assms(1,2)]
  by (cases m) (auto simp: running_def resolve_mode_LIVE_iff resolve_mode_TEST_iff)

lemma running_event: "running d i m \<Longrightarrow> i \<in> ev_id ` set (t_events d)"
  by (cases "find_event d i") (auto simp: running_def resolveOperationalDataMode_def find_event_def dest: find_Some_mem)

lemma mode_data_known:
  assumes "modes_apart d" and "mode_data d i m"
  shows "i \<in> ev_id ` set (t_events d)"
proof -
  from assms(1) have "fst ` set (order_tags d) \<subseteq> ev_id ` set (t_events d)" "fst ` snd ` set (session_tags d) \<subseteq> ev_id ` set (t_events d)"
    unfolding modes_apart_def by blast+
  moreover from assms(2) have "i \<in> fst ` set (order_tags d) \<or> i \<in> fst ` snd ` set (session_tags d)"
    unfolding mode_data_tags by (auto intro: rev_image_eqI)
  ultimately show ?thesis by blast
qed

lemma books_modes:
  assumes "books d d'" and ok: "modes_apart d"
  shows "modes_apart d'"
proof -
  from ok have dist: "distinct (map ev_id (t_events d))" by (simp add: modes_apart_def)
  from assms(1) have ev: "t_events d' = t_events d" by (simp add: books_def)
  have grow: "mode_data d' i m \<Longrightarrow> mode_data d i m \<or> running d i m" for i m
    using assms(1) by (auto simp: books_def mode_data_tags)
  have "\<not> (mode_data d' (ev_id v) TEST \<and> mode_data d' (ev_id v) LIVE) \<and> (ev_status v = EV_ACTIVE \<longrightarrow> \<not> mode_data d' (ev_id v) TEST) \<and>
     (ev_status v = EV_TEST_MODE \<longrightarrow> \<not> mode_data d' (ev_id v) LIVE)" if "v \<in> set (t_events d)" for v
  proof -
    from ok that have old: "\<not> (mode_data d (ev_id v) TEST \<and> mode_data d (ev_id v) LIVE)"
      "ev_status v = EV_ACTIVE \<Longrightarrow> \<not> mode_data d (ev_id v) TEST" "ev_status v = EV_TEST_MODE \<Longrightarrow> \<not> mode_data d (ev_id v) LIVE"
      unfolding modes_apart_def by blast+
    have live: "ev_status v = EV_ACTIVE" if "running d (ev_id v) LIVE"
      using running_status [OF dist \<open>v \<in> set (t_events d)\<close> that] by simp
    have test: "ev_status v = EV_TEST_MODE" if "running d (ev_id v) TEST"
      using running_status [OF dist \<open>v \<in> set (t_events d)\<close> that] by simp
    show ?thesis using old live test grow [of "ev_id v" TEST] grow [of "ev_id v" LIVE] by (metis event_status.distinct)
  qed
  moreover have "fst ` set (order_tags d') \<subseteq> ev_id ` set (t_events d)" "fst ` snd ` set (session_tags d') \<subseteq> ev_id ` set (t_events d)"
  proof -
    from assms(1) obtain xs ys where x: "order_tags d' = order_tags d @ xs" "\<forall>(i, m) \<in> set xs. running d i m"
      and y: "session_tags d' = session_tags d @ ys" "\<forall>(j, i, m) \<in> set ys. running d i m"
      by (auto simp: books_def)
    from ok have "fst ` set (order_tags d) \<subseteq> ev_id ` set (t_events d)" "fst ` snd ` set (session_tags d) \<subseteq> ev_id ` set (t_events d)"
      unfolding modes_apart_def by blast+
    moreover have "fst ` set xs \<subseteq> ev_id ` set (t_events d)" using x(2) running_event [of d] by (auto split: prod.splits)
    moreover have "fst ` snd ` set ys \<subseteq> ev_id ` set (t_events d)" using y(2) running_event [of d] by (auto split: prod.splits)
    ultimately show "fst ` set (order_tags d') \<subseteq> ev_id ` set (t_events d)" "fst ` snd ` set (session_tags d') \<subseteq> ev_id ` set (t_events d)"
      by (simp_all add: x(1) y(1) image_Un)
  qed
  ultimately show ?thesis using dist by (simp add: modes_apart_def ev)
qed

section \<open>Frames\<close>

lemma order_tags_update:
  "(\<And>x. c x \<Longrightarrow> od_eventId (f x) = od_eventId x \<and> od_dataMode (f x) = od_dataMode x) \<Longrightarrow>
   map (\<lambda>x. (od_eventId x, od_dataMode x)) (update_where c f xs) = map (\<lambda>x. (od_eventId x, od_dataMode x)) xs"
  by (rule map_update_where_frame) simp

lemma tags_frame [simp]:
  "tags (add_audit a d) = tags d" "tags (add_broadcast ev n p d) = tags d"
  "tags (d\<lparr>t_stocks := ss\<rparr>) = tags d" "tags (d\<lparr>t_items := is\<rparr>) = tags d" "tags (update_item i g d) = tags d"
  "tags (create_payments e oid ps d) = tags d" "tags (d\<lparr>t_prodVouchers := vs\<rparr>) = tags d"
  by (simp_all add: tags_def order_tags_def session_tags_def voucher_tags_def add_audit_def add_broadcast_def update_item_def create_payments_def)

lemma tags_update_order [simp]:
  "(\<And>x. od_eventId (f x) = od_eventId x \<and> od_dataMode (f x) = od_dataMode x) \<Longrightarrow> tags (update_order i f d) = tags d"
  by (simp add: tags_def order_tags_def session_tags_def voucher_tags_def update_order_def order_tags_update)

text \<open>Most operations change neither of these tables nor the stock ledger.\<close>

definition core where
  "core d = (t_stocks d, t_movements d, tags d)"

lemma coreD:
  assumes "core d' = core d"
  shows "t_stocks d' = t_stocks d" "t_movements d' = t_movements d" "tags d' = tags d"
  using assms by (simp_all add: core_def)

lemma core_frame [simp]:
  "core (add_audit a d) = core d" "core (add_broadcast ev n p d) = core d" "core (d\<lparr>t_items := is\<rparr>) = core d"
  "core (update_item i g d) = core d" "core (create_payments e oid ps d) = core d" "core (d\<lparr>t_prodVouchers := vs\<rparr>) = core d"
  "core (d\<lparr>serial := k\<rparr>) = core d" "core (d\<lparr>t_payments := pms\<rparr>) = core d" "core (d\<lparr>t_vvAllocations := al\<rparr>) = core d"
  "core (d\<lparr>t_vvMovements := vms\<rparr>) = core d" "core (d\<lparr>t_printJobs := js\<rparr>) = core d"
  by (simp_all add: core_def tags_def order_tags_def session_tags_def voucher_tags_def add_audit_def add_broadcast_def update_item_def
      create_payments_def)

lemma core_update_order [simp]:
  "(\<And>x. od_eventId (f x) = od_eventId x \<and> od_dataMode (f x) = od_dataMode x) \<Longrightarrow> core (update_order i f d) = core d"
  by (simp add: core_def)

lemma core_update_orders [simp]:
  "(\<And>x. od_eventId (f x) = od_eventId x \<and> od_dataMode (f x) = od_dataMode x) \<Longrightarrow>
   core (d\<lparr>t_orders := update_where c f (t_orders d)\<rparr>) = core d"
  by (simp add: core_def tags_def order_tags_def session_tags_def voucher_tags_def order_tags_update)

lemma core_update_vouchers [simp]:
  "(\<And>v. vv_eventId (f v) = vv_eventId v \<and> vv_dataMode (f v) = vv_dataMode v \<and>
      vv_issuedCashierSessionId (f v) = vv_issuedCashierSessionId v) \<Longrightarrow>
   core (d\<lparr>t_valueVouchers := update_where c f (t_valueVouchers d)\<rparr>) = core d"
  by (simp add: core_def tags_def order_tags_def session_tags_def voucher_tags_def) (rule map_update_where_frame, simp)

lemma tags_tables:
  "t_events d' = t_events d \<Longrightarrow> t_orders d' = t_orders d \<Longrightarrow> t_sessions d' = t_sessions d \<Longrightarrow> t_valueVouchers d' = t_valueVouchers d \<Longrightarrow>
   tags d' = tags d"
  by (simp add: tags_def order_tags_def session_tags_def voucher_tags_def)

lemma tags_beside_ledger: "beside_ledger d' = beside_ledger d \<Longrightarrow> tags d' = tags d"
  by (rule tags_tables) (erule beside_ledgerD)+

lemma tags_beside_print: "beside_print d' = beside_print d \<Longrightarrow> tags d' = tags d"
  by (rule tags_tables) (erule beside_printD)+

lemma tags_beside_broadcasts: "beside_broadcasts d' = beside_broadcasts d \<Longrightarrow> tags d' = tags d"
  by (rule tags_tables) (auto simp: beside_broadcasts_def)

lemma tags_publish [simp]: "tags (publishInventory (Some InventoryService) ev m ch d) = tags d"
  by (rule tags_beside_broadcasts [OF ledger.publish_frame])

lemma tags_dispatch [simp]: "tags (dispatchPrintJobs e o' items ps u po d) = tags d"
  by (rule tags_beside_print [OF dispatch_frame])

lemma core_beside_print: "beside_print d' = beside_print d \<Longrightarrow> core d' = core d"
  using tags_beside_print [of d' d] by (simp add: core_def beside_print_def)

lemma core_dispatch [simp]: "core (dispatchPrintJobs e o' items ps u po d) = core d"
  by (rule core_beside_print [OF dispatch_frame])

lemma core_mark_paid: "core (foldl (mark_paid items) d q) = core d"
proof (induction q arbitrary: d)
  case (Cons z q)
  have "core (mark_paid items d z) = core d" by (auto simp: mark_paid_def split: option.splits prod.splits)
  with Cons show ?case by simp
qed simp

lemma core_payment: "addPaymentsToOrder e d oid ps u = Inr (d', v) \<Longrightarrow> core d' = core d"
  by (auto simp: addPaymentsToOrder_def res_simps Let_def)

lemma core_split: "splitPaymentOrder e d oid req ps u = Inr (d', v) \<Longrightarrow> core d' = core d"
  by (auto simp: splitPaymentOrder_def res_simps Let_def core_mark_paid)

lemma tags_cancel_vouchers: "cancel_vouchers c d = (d', n) \<Longrightarrow> tags d' = tags d"
  by (auto simp: cancel_vouchers_def)

lemma tags_reverse: "reverseInventorySales (Some InventoryService) e d ev m oid ids u r = Inr (d', ch) \<Longrightarrow> tags d' = tags d"
  using ledger.reverse_frame tags_beside_ledger by blast

lemma tags_cancelOrder:
  assumes run: "cancelOrder (Some InventoryService) e d oid reason u = Inr (d', v)"
  shows "tags d' = tags d"
proof -
  define d1 where "d1 = update_order oid (\<lambda>x. x\<lparr>od_lifecycleStatus := LC_CANCELLED\<rparr>) d"
  define d2 where "d2 = d1\<lparr>t_items := update_where (\<lambda>i. oi_orderId i = oid) (\<lambda>i. i\<lparr>oi_status := IT_CANCELLED\<rparr>) (t_items d1)\<rparr>"
  obtain d3 n where cv: "cancel_vouchers (\<lambda>v. pv_orderId v = oid) d2 = (d3, n)" by fastforce
  obtain r o' d4 ch where rev: "reverseInventorySales (Some InventoryService) e d3 (od_eventId o') (od_dataMode o') oid
      (map oi_id (order_items d oid)) u r = Inr (d4, ch)"
    and d': "d' = publishInventory (Some InventoryService) (od_eventId o') (od_dataMode o') ch
      (add_audit (cancel_order_audit u o' r (length (order_payments d oid)) n) d4)"
    using run unfolding cancelOrder_def Let_def d1_def [symmetric] d2_def [symmetric] cv by (auto simp: res_simps)
  have "tags d2 = tags d" by (simp add: d2_def d1_def)
  with tags_cancel_vouchers [OF cv] tags_reverse [OF rev] show ?thesis by (simp add: d')
qed

lemma tags_cancelItem:
  assumes run: "cancelOrderItem (Some InventoryService) e d iid reason u = Inr (d', v)"
  shows "tags d' = tags d"
proof -
  define d1 where "d1 = update_item iid (\<lambda>i. i\<lparr>oi_status := IT_CANCELLED\<rparr>) d"
  obtain d2 n where cv: "cancel_vouchers (\<lambda>v. pv_orderItemId v = iid) d1 = (d2, n)" by fastforce
  obtain r it o' d3 ch where rev: "reverseInventorySales (Some InventoryService) e d2 (od_eventId o') (od_dataMode o') (od_id o')
      [oi_id it] u r = Inr (d3, ch)"
    and d': "d' = publishInventory (Some InventoryService) (od_eventId o') (od_dataMode o') ch
      (add_audit (cancel_item_audit u it r n) (update_order (od_id o')
        (\<lambda>x. x\<lparr>od_totalAmount := max 0 (gross_total (remaining_items d o' iid) - od_depositRefundTotal o'),
           od_lifecycleStatus := (if remaining_items d o' iid = [] then LC_CANCELLED else od_lifecycleStatus o')\<rparr>) d3))"
    using run unfolding cancelOrderItem_def Let_def d1_def [symmetric] cv by (auto simp: res_simps)
  have "tags d1 = tags d" by (simp add: d1_def)
  with tags_cancel_vouchers [OF cv] tags_reverse [OF rev] show ?thesis by (simp add: d')
qed

lemma core_priority: "updatePriority d oid b = Inr d' \<Longrightarrow> core d' = core d"
  by (auto simp: updatePriority_def res_simps)

lemma core_reprint: "reprintOrder e d oid u = Inr d' \<Longrightarrow> core d' = core d"
  by (auto simp: reprintOrder_def res_simps Let_def)

lemma core_discard: "discardOfflineQueueEntry d u r i = Inr d' \<Longrightarrow> core d' = core d"
  by (auto simp: discardOfflineQueueEntry_def res_simps Let_def)

lemma core_close:
  assumes "closeSession e d sid u b w = Inr (d', s)"
  shows "core d' = core d"
  using assms
  by (auto simp: closeSession_Inr core_def tags_def order_tags_def session_tags_def voucher_tags_def frame_simps closed_row_def
      intro!: map_update_where_frame)

lemma core_item_status: "updateItemStatus d i st = Inr (d', it) \<Longrightarrow> core d' = core d"
  by (auto simp: updateItemStatus_def res_simps Let_def)

lemma core_claim: "claimOrder e d u oid = Inr (d', v) \<Longrightarrow> core d' = core d"
  by (auto simp: claimOrder_def res_simps Let_def move_items_def claimed_order_def queue_view_def split: if_splits)

lemma core_deliver: "deliverOrder d u oid = Inr (d', v) \<Longrightarrow> core d' = core d"
  by (auto simp: deliverOrder_def res_simps Let_def move_items_def queue_view_def split: if_splits)

lemma core_pieces:
  "create_payment e oid p d = (d1, p') \<Longrightarrow> core d1 = core d"
  "create_vv_movement e m d = Inr (d2, m') \<Longrightarrow> core d2 = core d"
  "create_voucher_job e pr ty mid key content d = Inr d3 \<Longrightarrow> core d3 = core d"
  by (auto simp: create_payment_def create_vv_movement_def create_voucher_job_def res_simps Let_def)

lemma core_voucher_rows:
  "debit_voucher v amount d = Inr d1 \<Longrightarrow> core d1 = core d"
  "void_voucher v d = Inr d2 \<Longrightarrow> core d2 = core d"
  by (auto simp: debit_voucher_def void_voucher_def res_simps Let_def)

lemma core_booking:
  assumes run: "book_redemption e u i fp c pr o' v amount rest paid d = Inr (d', a)"
  shows "core d' = core d"
proof -
  obtain d2 p where cp: "create_payment e (od_id o') (voucher_payment (cc_sessionId c) amount) d = (d2, p)" by fastforce
  have rest: "core (fst (create_payment e oid q x)) = core x" for oid q x
    by (rule core_pieces(1)) (rule prod.collapse [symmetric])
  show ?thesis
    using run core_pieces(1) [OF cp] unfolding book_redemption_def cp Let_def
    by (auto simp: bind_res_Inr_iff rest dest!: core_pieces(2,3) split: option.splits if_splits)
qed

lemma core_redeem: "redeem e pre d u r j = Inr (d', a) \<Longrightarrow> core d' = core d"
  by (auto simp: redeem_def bind_res_Inr_iff Let_def redeem_tx_def dest!: with_replay_Inr core_booking core_voucher_rows)

lemma core_cancel: "cancel e pre d u r k = Inr (d', a) \<Longrightarrow> core d' = core d"
  by (auto simp: cancel_def bind_res_Inr_iff Let_def cancel_tx_def dest!: with_replay_Inr core_pieces core_voucher_rows)

section \<open>Bookings\<close>

lemma order_mode_running: "order_mode d i = Some m \<Longrightarrow> running d i m"
  by (simp add: order_mode_def running_def split: sum.splits)

lemma books_one_order:
  assumes "tags d1 = tags d" and "t_orders d2 = t_orders d1 @ [x]" and "t_events d2 = t_events d1"
    and "t_sessions d2 = t_sessions d1" and "t_valueVouchers d2 = t_valueVouchers d1"
    and "running d (od_eventId x) (od_dataMode x)" and "tags d' = tags d2"
  shows "books d d'"
proof -
  have "tags d2 = (t_events d, order_tags d @ [(od_eventId x, od_dataMode x)], session_tags d, voucher_tags d)"
    using assms(1-5) by (simp add: tags_def order_tags_def session_tags_def voucher_tags_def)
  with assms(7) have "t_events d' = t_events d" "order_tags d' = order_tags d @ [(od_eventId x, od_dataMode x)]"
    "session_tags d' = session_tags d" "voucher_tags d' = voucher_tags d"
    by (simp_all add: tags_def)
  with assms(6) show ?thesis by (simp add: books_def)
qed

lemma insert_books:
  assumes ins: "insert_order e o' items ps d1 = Inr (d2, v)" and "tags d1 = tags d" and "running d (od_eventId o') (od_dataMode o')"
    and "tags d' = tags d2"
  shows "books d d'"
  by (rule books_one_order [OF assms(2) insert_order_Inr(4) [OF ins]])
     (use insert_order_frame [OF ins] insert_order_Inr(1) [OF ins] assms(3,4) in \<open>simp_all add: beside_order_def\<close>)

lemma tags_reserve: "reserveInventory (Some InventoryService) d ev m lines = Inr (d1, rs) \<Longrightarrow> tags d1 = tags d"
  using ledger.reserve_frame tags_beside_ledger by blast

lemma tags_record: "recordInventorySales (Some InventoryService) e d ev m oid u rs items = Inr (d1, ch) \<Longrightarrow> tags d1 = tags d"
  using ledger.record_frame tags_beside_ledger by blast

lemma books_createOrder:
  assumes run: "createOrder (Some InventoryService) e pre d u c = Inr (d', v)"
  shows "books d d'"
proof (cases rule: createOrder_cases [OF run])
  case (1 st)
  then show ?thesis by (simp add: books_quiet)
next
  case (2 refund paid d4 ch)
  obtain m sess user gross items lines d1 rs d2 d3 where
    m: "order_mode d (co_eventId c) = Some m"
    and res: "reserveInventory (Some InventoryService) d (co_eventId c) m lines = Inr (d1, rs)"
    and ins: "insert_order e (order_row u c m sess (gross - refund) refund (initial_payment_status paid (gross - refund)))
       (map (\<lambda>i. i\<lparr>oi_paidQuantity := (if initial_payment_status paid (gross - refund) = PAID then oi_quantity i else 0)\<rparr>) items)
       (map (new_payment sess) (dto_payments c)) d1 = Inr (d2, v)"
    and rec: "recordInventorySales (Some InventoryService) e d2 (co_eventId c) m (od_id (vw_order v)) u rs (vw_items v) = Inr (d3, ch)"
    and d4: "d4 = dispatchPrintJobs e (vw_order v) (with_products d3 (vw_items v)) (vw_payments v) (Some user) default_print_options d3"
    by (rule ledger.createOrder_tx_effect [OF 2(5)])
  show ?thesis
    by (rule insert_books [OF ins tags_reserve [OF res]])
       (use order_mode_running [OF m] tags_record [OF rec] in \<open>simp_all add: order_row_def 2(6) d4\<close>)
qed

lemma tags_draw_number: "draw_sale_number q m d = Inr (n, d') \<Longrightarrow> tags d' = tags d"
  by (auto simp: draw_sale_number_def drawPickupNumber_def res_simps Let_def tags_def order_tags_def session_tags_def voucher_tags_def
      split: if_splits option.splits)

lemma tags_issue: "issue_vouchers e u o' sess ivs d = Inr (d', vs) \<Longrightarrow> tags d' = tags d"
  using issue_loop tags_beside_ledger tags_frame(7) unfolding issue_vouchers_def by metis

lemma sale_place_running: "check_sale_place d u q = Inr (m, sess) \<Longrightarrow> running d (qs_eventId q) m"
  by (auto simp: check_sale_place_def res_simps running_def)

lemma books_quickSale:
  assumes run: "createQuickSale (Some InventoryService) e d d u q = Inr (d', r)"
  shows "books d d'"
proof (cases rule: createQuickSale_cases [OF run])
  case (1 st)
  then show ?thesis using ledger.publish_none by (auto intro: books_quiet)
next
  case (2 refund m sess items money lines d1 rs user pickup d2 d3 v d4 ch d5 vouchers d6)
  have "tags d2 = tags d" using tags_reserve [OF 2(7)] tags_draw_number [OF 2(8)] by simp
  moreover have "tags d6 = tags d3" using 2(12) tags_record [OF 2(10)] tags_issue [OF 2(11)] by auto
  ultimately show ?thesis
    by (intro insert_books [OF 2(9)]) (use sale_place_running [OF 2(3)] in \<open>simp_all add: sale_order_def 2(13)\<close>)
qed

lemma books_startSession:
  assumes "startSession e d u i b = Inr (d', s)"
  shows "books d d' \<and> t_stocks d' = t_stocks d \<and> t_movements d' = t_movements d"
proof -
  from assms obtain m where m: "running d i m" and s: "cs_eventId s = i" "cs_dataMode s = m"
    and d': "d' = add_audit (session_started_audit u s) (d\<lparr>t_sessions := t_sessions d @ [s], serial := Suc (serial d)\<rparr>)"
    by (auto simp: startSession_Inr start_tx_Inr running_def)
  from m s show ?thesis by (simp add: d' add_audit_def books_def order_tags_def session_tags_def voucher_tags_def)
qed

lemma books_issue:
  assumes "issue e pre d u r i = Inr (d', a)"
  shows "books d d' \<and> t_stocks d' = t_stocks d \<and> t_movements d' = t_movements d"
proof -
  from assms have "d' = d \<or> (\<exists>fp. issue_tx e u i fp d = Inr (d', a))"
    by (auto simp: issue_def bind_res_Inr_iff Let_def dest!: with_replay_Inr)
  then show ?thesis
  proof
    assume "\<exists>fp. issue_tx e u i fp d = Inr (d', a)"
    then obtain fp where run: "issue_tx e u i fp d = Inr (d', a)" ..
    then obtain v w d1 d2 where "create_voucher e w (d\<lparr>serial := Suc (serial d)\<rparr>) = Inr (d1, v)" "core d' = core d1"
      unfolding issue_tx_def by (auto simp: bind_res_Inr_iff Let_def dest!: core_pieces(2,3))
    moreover then have "core d1 = core (d\<lparr>t_valueVouchers := t_valueVouchers d @ [v]\<rparr>)"
      by (auto simp: create_voucher_def res_simps Let_def core_def tags_def order_tags_def session_tags_def voucher_tags_def fresh_id_def)
    ultimately show ?thesis
      by (simp add: core_def books_def tags_def order_tags_def session_tags_def voucher_tags_def)
  qed (simp add: books_quiet)
qed

section \<open>Events\<close>

lemma modes_update:
  assumes ok: "modes_apart d" and ev: "t_events d' = update_where (\<lambda>v. ev_id v = i) f (t_events d)"
    and sub: "set (order_tags d') \<subseteq> set (order_tags d)" "set (session_tags d') \<subseteq> set (session_tags d)"
    and id: "\<And>v. ev_id (f v) = ev_id v"
    and new: "\<And>v. ev_id v = i \<Longrightarrow> v \<in> set (t_events d) \<Longrightarrow> (ev_status (f v) = EV_ACTIVE \<longrightarrow> \<not> mode_data d' i TEST) \<and>
      (ev_status (f v) = EV_TEST_MODE \<longrightarrow> \<not> mode_data d' i LIVE)"
  shows "modes_apart d'"
proof -
  have less: "mode_data d' j m \<Longrightarrow> mode_data d j m" for j m using sub by (auto simp: mode_data_tags)
  have ids: "map ev_id (t_events d') = map ev_id (t_events d)" unfolding ev by (rule map_update_where_frame) (simp add: id)
  then have idset: "ev_id ` set (t_events d') = ev_id ` set (t_events d)" by (metis set_map)
  have "\<not> (mode_data d' (ev_id v) TEST \<and> mode_data d' (ev_id v) LIVE) \<and> (ev_status v = EV_ACTIVE \<longrightarrow> \<not> mode_data d' (ev_id v) TEST) \<and>
     (ev_status v = EV_TEST_MODE \<longrightarrow> \<not> mode_data d' (ev_id v) LIVE)" if "v \<in> set (t_events d')" for v
  proof -
    from that obtain w where w: "w \<in> set (t_events d)" "v = (if ev_id w = i then f w else w)"
      unfolding ev update_where_def by auto
    then have same: "ev_id v = ev_id w" by (simp add: id)
    have old: "\<not> (mode_data d (ev_id w) TEST \<and> mode_data d (ev_id w) LIVE)"
      "ev_status w = EV_ACTIVE \<longrightarrow> \<not> mode_data d (ev_id w) TEST" "ev_status w = EV_TEST_MODE \<longrightarrow> \<not> mode_data d (ev_id w) LIVE"
      using ok w(1) unfolding modes_apart_def by blast+
    show ?thesis
    proof (cases "ev_id w = i")
      case True
      with w(2) have v: "v = f w" by simp
      show ?thesis unfolding v id True using new [OF True w(1)] old(1) less True by metis
    next
      case False
      with w(2) have v: "v = w" by simp
      show ?thesis unfolding v using old less by metis
    qed
  qed
  moreover have "fst ` set (order_tags d') \<subseteq> ev_id ` set (t_events d)" "fst ` snd ` set (session_tags d') \<subseteq> ev_id ` set (t_events d)"
  proof -
    from ok have in_d: "fst ` set (order_tags d) \<subseteq> ev_id ` set (t_events d)" "fst ` snd ` set (session_tags d) \<subseteq> ev_id ` set (t_events d)"
      unfolding modes_apart_def by blast+
    show "fst ` set (order_tags d') \<subseteq> ev_id ` set (t_events d)" by (rule subset_trans [OF image_mono [OF sub(1)] in_d(1)])
    show "fst ` snd ` set (session_tags d') \<subseteq> ev_id ` set (t_events d)"
      by (rule subset_trans [OF image_mono [OF image_mono [OF sub(2)]] in_d(2)])
  qed
  ultimately show ?thesis using ok by (simp add: modes_apart_def ids idset)
qed

lemma same_ledger: "t_stocks d' = t_stocks d \<Longrightarrow> t_movements d' = t_movements d \<Longrightarrow> ledger_ok (t_stocks d) (t_movements d) \<Longrightarrow>
   ledger_ok (t_stocks d') (t_movements d')"
  by simp

lemma modes_updateEvent:
  assumes ok: "modes_apart d" and run: "updateEvent e d i c u = Inr (d', v)"
  shows "modes_apart d' \<and> t_stocks d' = t_stocks d \<and> t_movements d' = t_movements d \<and> session_tags d' = session_tags d \<and>
    voucher_tags d' = voucher_tags d"
proof -
  have d': "t_events d' = update_where (\<lambda>v. ev_id v = i) (edited e c) (t_events d)" "t_stocks d' = t_stocks d"
    "t_movements d' = t_movements d" "order_tags d' = order_tags d" "session_tags d' = session_tags d" "voucher_tags d' = voucher_tags d"
    using run by (auto simp: updateEvent_def res_simps Let_def update_event_def add_audit_def order_tags_def session_tags_def
        voucher_tags_def split: option.splits)
  have md: "mode_data d' = mode_data d" using d'(4,5) by (intro ext) (simp add: mode_data_tags)
  have "modes_apart d'"
    by (rule modes_update [OF ok d'(1)]) (use ok in \<open>auto simp: d' md edited_def modes_apart_def\<close>)
  with d' show ?thesis by simp
qed

lemma modes_activate:
  assumes ok: "modes_apart d" and run: "activate e d i u conf ver = Inr (d', v)"
  shows "modes_apart d' \<and> t_stocks d' = t_stocks d \<and> t_movements d' = t_movements d \<and> session_tags d' = session_tags d \<and>
    voucher_tags d' = voucher_tags d"
proof -
  have d': "t_events d' = update_where (\<lambda>v. ev_id v = i) (activated e u ver) (t_events d)" "t_stocks d' = t_stocks d"
    "t_movements d' = t_movements d" "order_tags d' = order_tags d" "session_tags d' = session_tags d" "voucher_tags d' = voucher_tags d"
    and none: "\<not> mode_data d i TEST"
    using run by (auto simp: activate_def res_simps Let_def update_event_def add_audit_def order_tags_def session_tags_def
        voucher_tags_def)
  have md: "mode_data d' = mode_data d" using d'(4,5) by (intro ext) (simp add: mode_data_tags)
  have "modes_apart d'"
    by (rule modes_update [OF ok d'(1)]) (use none in \<open>auto simp: d' md activated_def\<close>)
  with d' show ?thesis by simp
qed

lemma modes_changeStatus:
  assumes ok: "modes_apart d" and run: "changeStatus e d i st u w = Inr (d', v)"
  shows "modes_apart d' \<and> t_stocks d' = t_stocks d \<and> t_movements d' = t_movements d \<and> session_tags d' = session_tags d \<and>
    voucher_tags d' = voucher_tags d"
proof -
  from run obtain x where x: "find_event d i = Some x" and free: "status_allowed d x st = Inr ()"
    and d': "t_events d' = update_where (\<lambda>v. ev_id v = i) (with_status e st) (t_events d)" "t_stocks d' = t_stocks d"
    "t_movements d' = t_movements d" "order_tags d' = order_tags d" "session_tags d' = session_tags d" "voucher_tags d' = voucher_tags d"
    by (auto simp: changeStatus_def lockEvent_def res_simps Let_def update_event_def add_audit_def order_tags_def session_tags_def
        voucher_tags_def)
  from x have "ev_id x = i" by (auto simp: find_event_def dest: find_Some_mem)
  with free have none: "st = EV_ACTIVE \<longrightarrow> \<not> mode_data d i TEST" "st = EV_TEST_MODE \<longrightarrow> \<not> mode_data d i LIVE"
    by (auto simp: status_allowed_def res_simps)
  have md: "mode_data d' = mode_data d" using d'(4,5) by (intro ext) (simp add: mode_data_tags)
  have "modes_apart d'"
    by (rule modes_update [OF ok d'(1)]) (use none in \<open>auto simp: d' md with_status_def\<close>)
  with d' show ?thesis by simp
qed

lemma modes_createEvent:
  assumes ok: "modes_apart d" and run: "createEvent e d c u = (d', v)" and fresh: "fresh_id e d \<notin> ev_id ` set (t_events d)"
  shows "modes_apart d' \<and> t_stocks d' = t_stocks d \<and> t_movements d' = t_movements d \<and> session_tags d' = session_tags d \<and>
    voucher_tags d' = voucher_tags d"
proof -
  have d': "t_events d' = t_events d @ [new_event e (fresh_id e d) c]" "t_stocks d' = t_stocks d" "t_movements d' = t_movements d"
    "order_tags d' = order_tags d" "session_tags d' = session_tags d" "voucher_tags d' = voucher_tags d"
    using run by (cases "truthy u"; auto simp: createEvent_def Let_def add_audit_def order_tags_def session_tags_def voucher_tags_def)+
  have md: "mode_data d' = mode_data d" using d'(4,5) by (intro ext) (simp add: mode_data_tags)
  have "\<not> mode_data d (fresh_id e d) m" for m
    using fresh mode_data_known [OF ok] by blast
  moreover have "ev_id (new_event e (fresh_id e d) c) = fresh_id e d" "ev_status (new_event e (fresh_id e d) c) = EV_DRAFT"
    by (simp_all add: new_event_def)
  ultimately have new: "\<not> mode_data d (ev_id n) m \<and> ev_status n = EV_DRAFT \<and> ev_id n = fresh_id e d"
    if "n = new_event e (fresh_id e d) c" for n m using that by simp
  have "\<not> (mode_data d (ev_id v) TEST \<and> mode_data d (ev_id v) LIVE) \<and> (ev_status v = EV_ACTIVE \<longrightarrow> \<not> mode_data d (ev_id v) TEST) \<and>
     (ev_status v = EV_TEST_MODE \<longrightarrow> \<not> mode_data d (ev_id v) LIVE)" if "v \<in> set (t_events d) \<or> v = new_event e (fresh_id e d) c" for v
    using that ok new [of v] unfolding modes_apart_def by blast
  note each = this
  have "\<forall>v \<in> set (t_events d'). \<not> (mode_data d' (ev_id v) TEST \<and> mode_data d' (ev_id v) LIVE) \<and>
     (ev_status v = EV_ACTIVE \<longrightarrow> \<not> mode_data d' (ev_id v) TEST) \<and> (ev_status v = EV_TEST_MODE \<longrightarrow> \<not> mode_data d' (ev_id v) LIVE)"
  proof
    fix v assume "v \<in> set (t_events d')"
    then have "v \<in> set (t_events d) \<or> v = new_event e (fresh_id e d) c" by (auto simp: d'(1))
    then show "\<not> (mode_data d' (ev_id v) TEST \<and> mode_data d' (ev_id v) LIVE) \<and> (ev_status v = EV_ACTIVE \<longrightarrow> \<not> mode_data d' (ev_id v) TEST) \<and>
       (ev_status v = EV_TEST_MODE \<longrightarrow> \<not> mode_data d' (ev_id v) LIVE)"
      unfolding md by (rule each)
  qed
  moreover have "distinct (map ev_id (t_events d'))" using ok fresh new [OF refl] by (simp add: d'(1) modes_apart_def)
  moreover have "fst ` set (order_tags d') \<subseteq> ev_id ` set (t_events d')" "fst ` snd ` set (session_tags d') \<subseteq> ev_id ` set (t_events d')"
    using ok unfolding modes_apart_def d'(1,4,5) set_append image_Un by blast+
  ultimately have "modes_apart d'" unfolding modes_apart_def by blast
  with d' show ?thesis by simp
qed

end
