(* ===== verification/VO_System_Props.thy ===== *)
theory VO_System_Props
  imports VO_System VO_Voucher_Props
begin

text \<open>
  The invariant of the system over every run of its services, and what the cleaning of an event's test data does and cannot do.
\<close>

section \<open>Cleaning the test data\<close>

lemma cleanTestData_Inr:
  assumes "cleanTestData e d i u name key = Inr (d', a)"
  shows "d' = d \<and> (\<exists>r. a = Replay r) \<or> (\<exists>v d1 c r. a = Fresh r \<and> find_event d i = Some v \<and> clean_allowed d v name = Inr () \<and>
    clean_rows i u d = Inr (d1, c) \<and> t_events d' = update_where (\<lambda>v. ev_id v = i) (prepared e) (t_events d1) \<and>
    core (d'\<lparr>t_events := t_events d1\<rparr>) = core d1 \<and> t_orders d' = t_orders d1 \<and> t_sessions d' = t_sessions d1 \<and>
    t_items d' = t_items d1 \<and> t_payments d' = t_payments d1 \<and> t_valueVouchers d' = t_valueVouchers d1)"
  using assms
  by (auto simp: cleanTestData_def configOperation_def clean_tx_def lockEvent_def res_simps update_event_def add_audit_def core_def tags_def
      order_tags_def session_tags_def voucher_tags_def split: option.splits)


lemma kept_tags: "mapped_tags = map (\<lambda>x. (od_eventId x, od_dataMode x)) (map (\<lambda>x. x\<lparr>od_cashierSessionId := g x\<rparr>) xs) \<Longrightarrow>
   mapped_tags = map (\<lambda>x. (od_eventId x, od_dataMode x)) xs"
  by simp

lemma cleaned_tables:
  assumes rows: "clean_rows i u d = Inr (d', c)" and ok: "ledger_ok (t_stocks d) (t_movements d)"
  shows "set (order_tags d') \<subseteq> set (order_tags d) \<and> set (session_tags d') \<subseteq> set (session_tags d) \<and> \<not> mode_data d' i TEST \<and>
    t_events d' = t_events d \<and> voucher_tags d' = voucher_tags d \<and> ledger_ok (t_stocks d') (t_movements d') \<and>
    (\<forall>z \<in> set (voucher_tags d). \<forall>j m. (snd (snd z), j, m) \<in> set (session_tags d) \<longrightarrow> (snd (snd z), j, m) \<in> set (session_tags d'))"
proof -
  note E = clean_rows_effect [OF rows ok]
  have ot: "order_tags d' = map (\<lambda>x. (od_eventId x, od_dataMode x)) (filter (\<lambda>x. od_id x \<notin> set (test_order_ids d i)) (t_orders d))"
    using E by (simp add: order_tags_def)
  have st: "session_tags d' = map (\<lambda>s. (cs_id s, cs_eventId s, cs_dataMode s)) (filter (\<lambda>s. cs_id s \<notin> set (test_session_ids d i)) (t_sessions d))"
    using E by (simp add: session_tags_def)
  have none: "\<not> mode_data d' i TEST"
    unfolding mode_data_tags ot st by (auto simp: test_order_ids_def test_session_ids_def)
  have "\<forall>v \<in> set (t_valueVouchers d). vv_issuedCashierSessionId v \<notin> set (test_session_ids d i)" using E by blast
  then have keep: "(snd (snd z), j, m) \<in> set (session_tags d')"
    if "z \<in> set (voucher_tags d)" "(snd (snd z), j, m) \<in> set (session_tags d)" for z j m
    using that unfolding st by (auto simp: voucher_tags_def session_tags_def)
  have "set (order_tags d') \<subseteq> set (order_tags d)" "set (session_tags d') \<subseteq> set (session_tags d)"
    unfolding ot st by (auto simp: order_tags_def session_tags_def)
  moreover have "voucher_tags d' = voucher_tags d" using E by (simp add: voucher_tags_def)
  ultimately show ?thesis using none keep E by blast
qed

lemma modes_clean:
  assumes run: "cleanTestData e d i u name key = Inr (d', a)" and ok: "modes_apart d" and l: "ledger_ok (t_stocks d) (t_movements d)"
  shows "modes_apart d' \<and> ledger_ok (t_stocks d') (t_movements d')"
proof -
  from cleanTestData_Inr [OF run] show ?thesis
  proof (elim disjE exE conjE)
    fix v d1 c r
    assume rows: "clean_rows i u d = Inr (d1, c)" and ev: "t_events d' = update_where (\<lambda>v. ev_id v = i) (prepared e) (t_events d1)"
      and core: "core (d'\<lparr>t_events := t_events d1\<rparr>) = core d1"
    note C = cleaned_tables [OF rows l]
    from coreD [OF core] have same: "t_stocks d' = t_stocks d1" "t_movements d' = t_movements d1" "order_tags d' = order_tags d1"
      "session_tags d' = session_tags d1"
      by (simp_all add: tags_def order_tags_def session_tags_def)
    have "modes_apart d'"
      by (rule modes_update [OF ok, of _ i "prepared e"]) (use C in \<open>simp_all add: ev same prepared_def\<close>)
    with C same show ?thesis by simp
  qed (use ok l in simp)
qed

section \<open>One step of the system\<close>

inductive system_step :: "db \<Rightarrow> db \<Rightarrow> bool" where
  ordered: "createOrder (Some InventoryService) e pre d u c = Inr (d', v) \<Longrightarrow> system_step d d'"
| sold: "createQuickSale (Some InventoryService) e d d u q = Inr (d', r) \<Longrightarrow> system_step d d'"
| paid: "addPaymentsToOrder e d oid ps u = Inr (d', v) \<Longrightarrow> system_step d d'"
| paid_positions: "splitPaymentOrder e d oid req ps u = Inr (d', v) \<Longrightarrow> system_step d d'"
| order_cancelled: "cancelOrder (Some InventoryService) e d oid reason u = Inr (d', v) \<Longrightarrow> system_step d d'"
| item_cancelled: "cancelOrderItem (Some InventoryService) e d iid reason u = Inr (d', it) \<Longrightarrow> system_step d d'"
| prioritised: "updatePriority d oid b = Inr d' \<Longrightarrow> system_step d d'"
| reprinted: "reprintOrder e d oid u = Inr d' \<Longrightarrow> system_step d d'"
| discarded: "discardOfflineQueueEntry d u rl k = Inr d' \<Longrightarrow> system_step d d'"
| opened: "startSession e d u i bal = Inr (d', s) \<Longrightarrow> system_step d d'"
| closed: "closeSession e d sid u bal w = Inr (d', s) \<Longrightarrow> system_step d d'"
| stocked: "mutate e d p mi u ty = Inr (d', fac) \<Longrightarrow> 0 \<le> mi_quantity mi \<Longrightarrow> system_step d d'"
| configured: "settings d p si u = Inr (d', fac) \<Longrightarrow> system_step d d'"
| voucher_issued: "issue e pre d u rl iv = Inr (d', ans) \<Longrightarrow> system_step d d'"
| voucher_redeemed: "redeem e pre d u rl rd = Inr (d', ans) \<Longrightarrow> system_step d d'"
| voucher_voided: "cancel e pre d u rl cv = Inr (d', ans) \<Longrightarrow> system_step d d'"
| item_moved: "updateItemStatus d iid st = Inr (d', it) \<Longrightarrow> system_step d d'"
| claimed: "claimOrder e d rp oid = Inr (d', w) \<Longrightarrow> system_step d d'"
| delivered: "deliverOrder d rp oid = Inr (d', w) \<Longrightarrow> system_step d d'"
| event_created: "createEvent e d ce cu = (d', ev) \<Longrightarrow> fresh_id e d \<notin> ev_id ` set (t_events d) \<Longrightarrow> system_step d d'"
| event_edited: "updateEvent e d i ue cu = Inr (d', ev) \<Longrightarrow> system_step d d'"
| activated: "activate e d i u conf ver = Inr (d', ev) \<Longrightarrow> system_step d d'"
| status_changed: "changeStatus e d i es u w = Inr (d', ev) \<Longrightarrow> system_step d d'"
| test_cleaned: "cleanTestData e d i u name key = Inr (d', ca) \<Longrightarrow> system_step d d'"
| elsewhere: "core d' = core d \<Longrightarrow> system_step d d'"

inductive_cases system_stepE: "system_step d d'"

definition system_ok :: "db \<Rightarrow> bool" where
  "system_ok d \<longleftrightarrow> ledger_ok (t_stocks d) (t_movements d) \<and> modes_apart d"

text \<open>What a step of any service but the cleaning leaves: the sessions and the vouchers only grow.\<close>

definition keeps :: "db \<Rightarrow> db \<Rightarrow> bool" where
  "keeps d d' \<longleftrightarrow> system_ok d' \<and> set (session_tags d) \<subseteq> set (session_tags d') \<and> set (voucher_tags d) \<subseteq> set (voucher_tags d')"

lemma keeps_books: "books d d' \<Longrightarrow> modes_apart d \<Longrightarrow> ledger_ok (t_stocks d') (t_movements d') \<Longrightarrow> keeps d d'"
  using books_modes by (auto simp: keeps_def system_ok_def books_def)

lemma keeps_tags: "tags d' = tags d \<Longrightarrow> modes_apart d \<Longrightarrow> ledger_ok (t_stocks d') (t_movements d') \<Longrightarrow> keeps d d'"
  using keeps_books books_quiet by blast

lemma keeps_core: "core d' = core d \<Longrightarrow> system_ok d \<Longrightarrow> keeps d d'"
  by (rule keeps_tags) (simp_all add: system_ok_def core_def)

lemma keeps_event:
  "modes_apart d' \<and> t_stocks d' = t_stocks d \<and> t_movements d' = t_movements d \<and> session_tags d' = session_tags d \<and>
   voucher_tags d' = voucher_tags d \<Longrightarrow> system_ok d \<Longrightarrow> keeps d d'"
  by (simp add: keeps_def system_ok_def)

lemma mutate_keeps:
  assumes "mutate e d p mi u ty = Inr (d', fac)" and "0 \<le> mi_quantity mi" and "system_ok d"
  shows "keeps d d'"
proof -
  from assms(1) obtain d1 pr s replay where tx: "mutate_tx e d p mi u ty = Inr (d1, pr, s, replay)"
    and d': "d' = (case s of Some x \<Rightarrow> if replay then d1 else add_broadcast (mi_eventId mi) ''PRODUCT_INVENTORY_CHANGED''
        (change_payload (mi_eventId mi) (mi_dataMode mi) p (pd_name pr) x (pd_manualAvailability pr)) d1 | None \<Rightarrow> d1)"
    by (auto simp: mutate_def bind_res_Inr_iff)
  have core: "core d' = core d1" by (simp add: d' split: option.split)
  have "tags d1 = tags d"
    using tx by (auto simp: mutate_tx_def Let_def res_simps create_movement_def tags_def order_tags_def session_tags_def voucher_tags_def
        add_audit_def split: if_splits mutate_type.splits)
  moreover have "ledger_ok (t_stocks d1) (t_movements d1)"
    using mutate_tx_keeps_ledger [OF _ assms(2) tx] assms(3) by (simp add: system_ok_def)
  ultimately show ?thesis using coreD [OF core] assms(3) by (intro keeps_tags) (simp_all add: system_ok_def)
qed

lemma settings_keeps:
  assumes "settings d p si u = Inr (d', fac)" and "system_ok d"
  shows "keeps d d'"
proof -
  from assms(1) obtain d1 pr s ch where tx: "settings_tx d p si u = Inr (d1, pr, s, ch)"
    and d': "d' = (if ch then add_broadcast (si_eventId si) ''PRODUCT_INVENTORY_CHANGED''
        (change_payload (si_eventId si) (si_dataMode si) p (pd_name pr) s (pd_manualAvailability pr)) d1 else d1)"
    by (auto simp: settings_def bind_res_Inr_iff)
  have core: "core d' = core d1" by (simp add: d')
  have "tags d1 = tags d"
    using tx by (auto simp: settings_tx_def Let_def res_simps tags_def order_tags_def session_tags_def voucher_tags_def
        add_audit_def split: if_splits)
  moreover have "ledger_ok (t_stocks d1) (t_movements d1)"
    using settings_tx_keeps_ledger [OF _ tx] assms(2) by (simp add: system_ok_def)
  ultimately show ?thesis using coreD [OF core] assms(2) by (intro keeps_tags) (simp_all add: system_ok_def)
qed

lemma booking_keeps:
  assumes "books d d' \<and> t_stocks d' = t_stocks d \<and> t_movements d' = t_movements d" and "system_ok d"
  shows "keeps d d'"
  using assms by (intro keeps_books) (simp_all add: system_ok_def)

lemma step_keeps:
  assumes step: "system_step d d'" and ok: "system_ok d"
  shows "keeps d d' \<or> (\<exists>e i u name key a. cleanTestData e d i u name key = Inr (d', a))"
proof -
  from ok have l: "ledger_ok (t_stocks d) (t_movements d)" and m: "modes_apart d" by (simp_all add: system_ok_def)
  from step show ?thesis
  proof cases
    case (ordered e pre u c v)
    from keeps_books [OF books_createOrder [OF ordered] m createOrder_ledger [OF l ordered]] show ?thesis ..
  next
    case (sold e u q r)
    from keeps_books [OF books_quickSale [OF sold] m createQuickSale_ledger [OF l l sold]] show ?thesis ..
  next
    case (paid e oid ps u v)
    from keeps_core [OF core_payment [OF paid] ok] show ?thesis ..
  next
    case (paid_positions e oid req ps u v)
    from keeps_core [OF core_split [OF paid_positions] ok] show ?thesis ..
  next
    case (order_cancelled e oid reason u v)
    from keeps_tags [OF tags_cancelOrder [OF order_cancelled] m cancelOrder_ledger [OF l order_cancelled]] show ?thesis ..
  next
    case (item_cancelled e iid reason u it)
    from keeps_tags [OF tags_cancelItem [OF item_cancelled] m cancelOrderItem_ledger [OF l item_cancelled]] show ?thesis ..
  next
    case (prioritised oid b)
    from keeps_core [OF core_priority [OF prioritised] ok] show ?thesis ..
  next
    case (reprinted e oid u)
    from keeps_core [OF core_reprint [OF reprinted] ok] show ?thesis ..
  next
    case (discarded u rl k)
    from keeps_core [OF core_discard [OF discarded] ok] show ?thesis ..
  next
    case (opened e u i bal s)
    from booking_keeps [OF books_startSession [OF opened] ok] show ?thesis ..
  next
    case (closed e sid u bal w s)
    from keeps_core [OF core_close [OF closed] ok] show ?thesis ..
  next
    case (stocked e p mi u ty fac)
    from mutate_keeps [OF stocked ok] show ?thesis ..
  next
    case (configured p si u fac)
    from settings_keeps [OF configured ok] show ?thesis ..
  next
    case (voucher_issued e pre u rl iv ans)
    from booking_keeps [OF books_issue [OF voucher_issued] ok] show ?thesis ..
  next
    case (voucher_redeemed e pre u rl rd ans)
    from keeps_core [OF core_redeem [OF voucher_redeemed] ok] show ?thesis ..
  next
    case (voucher_voided e pre u rl cv ans)
    from keeps_core [OF core_cancel [OF voucher_voided] ok] show ?thesis ..
  next
    case (item_moved iid st it)
    from keeps_core [OF core_item_status [OF item_moved] ok] show ?thesis ..
  next
    case (claimed e rp oid w)
    from keeps_core [OF core_claim [of e d rp oid d' w] ok] claimed show ?thesis by (cases w) auto
  next
    case (delivered rp oid w)
    from keeps_core [OF core_deliver [of d rp oid d' w] ok] delivered show ?thesis by (cases w) auto
  next
    case (event_created e ce cu ev)
    from keeps_event [OF modes_createEvent [OF m event_created] ok] show ?thesis ..
  next
    case (event_edited e i ue cu ev)
    from keeps_event [OF modes_updateEvent [OF m event_edited] ok] show ?thesis ..
  next
    case (activated e i u conf ver ev)
    from keeps_event [OF modes_activate [OF m activated] ok] show ?thesis ..
  next
    case (status_changed e i es u w ev)
    from keeps_event [OF modes_changeStatus [OF m status_changed] ok] show ?thesis ..
  next
    case (test_cleaned e i u name key ca)
    then show ?thesis by blast
  next
    case elsewhere
    from keeps_core [OF elsewhere ok] show ?thesis ..
  qed
qed

lemma step_system_ok:
  assumes step: "system_step d d'" and ok: "system_ok d"
  shows "system_ok d'"
  using step_keeps [OF step ok]
proof
  assume "\<exists>e i u name key a. cleanTestData e d i u name key = Inr (d', a)"
  then obtain e i u name key a where "cleanTestData e d i u name key = Inr (d', a)" by blast
  from modes_clean [OF this] ok show ?thesis by (simp add: system_ok_def)
qed (simp add: keeps_def)

lemma run_system_ok: "system_step\<^sup>*\<^sup>* d d' \<Longrightarrow> system_ok d \<Longrightarrow> system_ok d'"
  by (induction rule: rtranclp_induct) (auto intro: step_system_ok)

section \<open>Test data that cannot be cleaned\<close>

text \<open>An event whose test session sold a value voucher: the row of the session is held by the voucher.\<close>

definition stuck :: "db \<Rightarrow> id \<Rightarrow> bool" where
  "stuck d i \<longleftrightarrow> (\<exists>z \<in> set (voucher_tags d). (snd (snd z), i, TEST) \<in> set (session_tags d))"

lemma stuck_blocks_cleaning:
  assumes "stuck d i" and ok: "system_ok d"
  shows "cleanTestData e d i u name key \<noteq> Inr (d', Fresh r)"
proof
  assume run: "cleanTestData e d i u name key = Inr (d', Fresh r)"
  from cleanTestData_Inr [OF run] obtain d1 c where rows: "clean_rows i u d = Inr (d1, c)" by blast
  from cleaned_tables [OF rows] ok have none: "\<not> mode_data d1 i TEST"
    and keep: "\<forall>z \<in> set (voucher_tags d). \<forall>j m. (snd (snd z), j, m) \<in> set (session_tags d) \<longrightarrow> (snd (snd z), j, m) \<in> set (session_tags d1)"
    by (simp_all add: system_ok_def)
  from assms(1) keep have "\<exists>j. (j, i, TEST) \<in> set (session_tags d1)" unfolding stuck_def by blast
  with none show False by (simp add: mode_data_tags)
qed

lemma step_stuck:
  assumes step: "system_step d d'" and ok: "system_ok d" and "stuck d i"
  shows "stuck d' i"
  using step_keeps [OF step ok]
proof
  assume "keeps d d'"
  with assms(3) show ?thesis unfolding keeps_def stuck_def by blast
next
  assume "\<exists>e j u name key a. cleanTestData e d j u name key = Inr (d', a)"
  then obtain e j u name key a where run: "cleanTestData e d j u name key = Inr (d', a)" by blast
  from cleanTestData_Inr [OF run] show ?thesis
  proof (elim disjE exE conjE)
    fix d1 c
    assume rows: "clean_rows j u d = Inr (d1, c)" and "t_sessions d' = t_sessions d1" "t_valueVouchers d' = t_valueVouchers d1"
    then have same: "session_tags d' = session_tags d1" "voucher_tags d' = voucher_tags d1"
      by (simp_all add: session_tags_def voucher_tags_def)
    from ok have "ledger_ok (t_stocks d) (t_movements d)" by (simp add: system_ok_def)
    from cleaned_tables [OF rows this] assms(3) show ?thesis unfolding stuck_def same by metis
  qed (use assms(3) in simp)
qed

lemma run_stuck: "system_step\<^sup>*\<^sup>* d d' \<Longrightarrow> system_ok d \<Longrightarrow> stuck d i \<Longrightarrow> stuck d' i"
  by (induction rule: rtranclp_induct) (auto intro: step_stuck run_system_ok)

lemma stuck_not_live: "stuck d i \<Longrightarrow> system_ok d \<Longrightarrow> v \<in> set (t_events d) \<Longrightarrow> ev_id v = i \<Longrightarrow> ev_status v \<noteq> EV_ACTIVE"
  by (auto simp: stuck_def system_ok_def modes_apart_def mode_data_tags)

section \<open>The properties\<close>

text \<open>
  C28. Test data and live data never mix: over every run of the services, from a state in which the stock ledger balances
  and the modes are apart, the ledger still balances, no event ever owns data of both modes, no event that is live owns
  test data, and no event in test mode owns live data.
\<close>

theorem modes_never_mix:
  assumes run: "system_step\<^sup>*\<^sup>* d d'" and start: "ledger_ok (t_stocks d) (t_movements d)" "modes_apart d"
  shows "ledger_ok (t_stocks d') (t_movements d') \<and> (\<forall>v \<in> set (t_events d').
     \<not> (mode_data d' (ev_id v) TEST \<and> mode_data d' (ev_id v) LIVE) \<and>
     (ev_status v = EV_ACTIVE \<longrightarrow> \<not> mode_data d' (ev_id v) TEST) \<and> (ev_status v = EV_TEST_MODE \<longrightarrow> \<not> mode_data d' (ev_id v) LIVE))"
proof -
  from start have "system_ok d" by (simp add: system_ok_def)
  from run_system_ok [OF run this] have "ledger_ok (t_stocks d') (t_movements d')" "modes_apart d'"
    by (simp_all add: system_ok_def)
  then show ?thesis unfolding modes_apart_def by blast
qed

definition test_db :: db where
  "test_db = sample_db\<lparr>t_events := [sample_event\<lparr>ev_status := EV_TEST_MODE, ev_testMode := True, ev_rksvConfirmedAt := None\<rparr>],
     t_sessions := [sample_session\<lparr>cs_dataMode := TEST\<rparr>], t_stocks := [sample_stock\<lparr>st_dataMode := TEST\<rparr>],
     t_movements := [sample_movement\<lparr>mv_dataMode := TEST\<rparr>]\<rparr>"

lemma test_db_ok: "ledger_ok (t_stocks test_db) (t_movements test_db)" "modes_apart test_db"
  by code_simp+

lemma test_order_booked:
  "succeeds_with (\<lambda>(d', v). od_dataMode (vw_order v) = TEST \<and> length (t_orders d') = 1 \<and> length (t_movements d') = 2)
     (createOrder (Some InventoryService) run_env test_db test_db ''u'' (sample_order_input [] 0))"
  by code_simp

lemma modes_never_mix_witness:
  "succeeds_with (\<lambda>(d', v). ledger_ok (t_stocks d') (t_movements d') \<and> od_dataMode (vw_order v) = TEST \<and>
       (\<forall>v \<in> set (t_events d'). \<not> (mode_data d' (ev_id v) TEST \<and> mode_data d' (ev_id v) LIVE)))
     (createOrder (Some InventoryService) run_env test_db test_db ''u'' (sample_order_input [] 0))"
proof -
  let ?run = "createOrder (Some InventoryService) run_env test_db test_db ''u'' (sample_order_input [] 0)"
  obtain d' v where run: "?run = Inr (d', v)" and m: "od_dataMode (vw_order v) = TEST"
    using test_order_booked by (auto elim!: succeeds_withE)
  from ordered [OF run] have "system_step\<^sup>*\<^sup>* test_db d'" by blast
  from modes_never_mix [OF this test_db_ok] m show ?thesis unfolding run by (simp add: succeeds_with_def)
qed




text \<open>
  C32. A value voucher sold in test mode blocks the event for ever: over every run of the services, once a test session of
  an event has issued a value voucher, the cleaning of the event's test data fails and the event never becomes live.
\<close>

theorem test_voucher_blocks_go_live:
  assumes run: "system_step\<^sup>*\<^sup>* d d'" and start: "ledger_ok (t_stocks d) (t_movements d)" "modes_apart d"
    and w: "w \<in> set (t_valueVouchers d)"
    and s: "s \<in> set (t_sessions d)" "cs_id s = vv_issuedCashierSessionId w" "cs_eventId s = i" "cs_dataMode s = TEST"
  shows "(\<forall>v \<in> set (t_events d'). ev_id v = i \<longrightarrow> ev_status v \<noteq> EV_ACTIVE) \<and> cleanTestData e d' i u name key \<noteq> Inr (d2, Fresh r)"
proof -
  from start have ok: "system_ok d" by (simp add: system_ok_def)
  have "stuck d i" using w s by (force simp: stuck_def voucher_tags_def session_tags_def)
  from run_stuck [OF run ok this] run_system_ok [OF run ok] show ?thesis
    using stuck_not_live stuck_blocks_cleaning by blast
qed

lemma test_voucher_run:
  "succeeds_with (\<lambda>(d1, a). ledger_ok (t_stocks d1) (t_movements d1) \<and> modes_apart d1 \<and>
       (\<exists>w \<in> set (t_valueVouchers d1). \<exists>s \<in> set (t_sessions d1). cs_id s = vv_issuedCashierSessionId w \<and> cs_eventId s = ''e'' \<and> cs_dataMode s = TEST) \<and>
       succeeds_with (\<lambda>_. True) (closeSession run_env d1 ''k'' ''u'' 10600 None))
     (issue run_env test_db test_db ''u'' CASHIER sample_issue)"
  by code_simp

lemma test_voucher_blocks_go_live_witness:
  "succeeds_with (\<lambda>(d1, a). succeeds_with (\<lambda>(d2, s). cleanTestData run_env d2 ''e'' ''u'' ''Fest'' ''clean-key'' \<noteq> Inr (d2, Fresh JNull))
       (closeSession run_env d1 ''k'' ''u'' 10600 None))
     (issue run_env test_db test_db ''u'' CASHIER sample_issue)"
proof -
  obtain d1 a where sell: "issue run_env test_db test_db ''u'' CASHIER sample_issue = Inr (d1, a)"
    and c: "ledger_ok (t_stocks d1) (t_movements d1)" "modes_apart d1"
      "\<exists>w \<in> set (t_valueVouchers d1). \<exists>s \<in> set (t_sessions d1). cs_id s = vv_issuedCashierSessionId w \<and> cs_eventId s = ''e'' \<and> cs_dataMode s = TEST"
    and k: "succeeds_with (\<lambda>_. True) (closeSession run_env d1 ''k'' ''u'' 10600 None)"
    by (rule succeeds_withE [OF test_voucher_run]) (blast intro: prod.exhaust)
  from k obtain d2 s' where cl: "closeSession run_env d1 ''k'' ''u'' 10600 None = Inr (d2, s')"
    by (auto elim!: succeeds_withE)
  from closed [OF cl] have run: "system_step\<^sup>*\<^sup>* d1 d2" by blast
  from c(3) obtain w s where w: "w \<in> set (t_valueVouchers d1)" and s: "s \<in> set (t_sessions d1)"
    "cs_id s = vv_issuedCashierSessionId w" "cs_eventId s = ''e''" "cs_dataMode s = TEST" by blast
  from test_voucher_blocks_go_live [OF run c(1,2) w s] show ?thesis
    unfolding sell by (simp add: succeeds_with_def cl)
qed

end
