(* ===== verification/VO_Text.thy ===== *)
theory VO_Text
  imports VO_Prelude
begin

text \<open>
  The strings and buffers of the print worker: a JavaScript string is a list of UTF-16 code units, a \<^verbatim>\<open>Buffer\<close> a list
  of bytes. Iterating a string yields code points; \<^verbatim>\<open>Buffer.from(s, "utf8")\<close> and \<^verbatim>\<open>toString("utf8")\<close>
  are the encoder and decoder of the WHATWG encoding standard, which replace what is not a character by U+FFFD.
\<close>

type_synonym jstext = "nat list"
type_synonym bytes = "nat list"

definition lit :: "string \<Rightarrow> jstext" where
  "lit s = map of_char s"

definition is_high :: "nat \<Rightarrow> bool" where
  "is_high u \<longleftrightarrow> 55296 \<le> u \<and> u < 56320"

definition is_low :: "nat \<Rightarrow> bool" where
  "is_low u \<longleftrightarrow> 56320 \<le> u \<and> u < 57344"

text \<open>\<^verbatim>\<open>for (const char of text)\<close>: surrogate pairs are one character, a lone surrogate is one of its own.\<close>

fun codepoints :: "jstext \<Rightarrow> nat list" where
  "codepoints [] = []"
| "codepoints [u] = [u]"
| "codepoints (u # v # us) = (if is_high u \<and> is_low v then (65536 + (u - 55296) * 1024 + (v - 56320)) # codepoints us
     else u # codepoints (v # us))"

definition utf16 :: "nat \<Rightarrow> jstext" where
  "utf16 c = (if c < 65536 then [c] else [55296 + (c - 65536) div 1024, 56320 + (c - 65536) mod 1024])"

definition utf8_char :: "nat \<Rightarrow> bytes" where
  "utf8_char c = (if c < 128 then [c]
     else if c < 2048 then [192 + c div 64, 128 + c mod 64]
     else if is_high c \<or> is_low c then [239, 191, 189]
     else if c < 65536 then [224 + c div 4096, 128 + c div 64 mod 64, 128 + c mod 64]
     else [240 + c div 262144, 128 + c div 4096 mod 64, 128 + c div 64 mod 64, 128 + c mod 64])"

definition utf8_encode :: "jstext \<Rightarrow> bytes" where
  "utf8_encode t = concat (map utf8_char (codepoints t))"

text \<open>Continuation bytes still needed, the range the next one must be in, and the bits read so far.\<close>

fun utf8_cont :: "nat \<Rightarrow> nat \<Rightarrow> nat \<Rightarrow> nat \<Rightarrow> bytes \<Rightarrow> nat option \<times> bytes" where
  "utf8_cont 0 lower upper c bs = (Some c, bs)"
| "utf8_cont (Suc n) lower upper c [] = (None, [])"
| "utf8_cont (Suc n) lower upper c (b # bs) = (if lower \<le> b \<and> b \<le> upper then utf8_cont n 128 191 (c * 64 + b mod 64) bs
     else (None, b # bs))"

definition utf8_step :: "nat \<Rightarrow> bytes \<Rightarrow> nat option \<times> bytes" where
  "utf8_step b bs = (if b < 128 then (Some b, bs)
     else if 194 \<le> b \<and> b \<le> 223 then utf8_cont 1 128 191 (b - 192) bs
     else if 224 \<le> b \<and> b \<le> 239 then utf8_cont 2 (if b = 224 then 160 else 128) (if b = 237 then 159 else 191) (b - 224) bs
     else if 240 \<le> b \<and> b \<le> 244 then utf8_cont 3 (if b = 240 then 144 else 128) (if b = 244 then 143 else 191) (b - 240) bs
     else (None, bs))"

lemma utf8_cont_length: "length (snd (utf8_cont n l u c bs)) \<le> length bs"
  by (induction n l u c bs rule: utf8_cont.induct) auto

lemma utf8_step_length: "utf8_step b bs = (r, rest) \<Longrightarrow> length rest \<le> length bs"
  using utf8_cont_length [of 1 128 191 "b - 192" bs]
    utf8_cont_length [of 2 "if b = 224 then 160 else 128" "if b = 237 then 159 else 191" "b - 224" bs]
    utf8_cont_length [of 3 "if b = 240 then 144 else 128" "if b = 244 then 143 else 191" "b - 240" bs]
  by (auto simp: utf8_step_def split: if_splits)

function utf8_codes :: "bytes \<Rightarrow> nat list" where
  "utf8_codes [] = []"
| "utf8_codes (b # bs) = (case utf8_step b bs of (r, rest) \<Rightarrow> (case r of Some c \<Rightarrow> c | None \<Rightarrow> 65533) # utf8_codes rest)"
  by pat_completeness auto
termination by (relation "measure length") (auto simp: less_Suc_eq_le dest!: utf8_step_length [OF sym])

definition utf8_decode :: "bytes \<Rightarrow> jstext" where
  "utf8_decode bs = concat (map utf16 (utf8_codes bs))"

text \<open>Text without lone surrogates comes back from its bytes.\<close>

fun well_formed :: "jstext \<Rightarrow> bool" where
  "well_formed [] = True"
| "well_formed [u] = (u < 65536 \<and> \<not> is_high u \<and> \<not> is_low u)"
| "well_formed (u # v # us) = (if is_high u then is_low v \<and> well_formed us
     else u < 65536 \<and> \<not> is_low u \<and> well_formed (v # us))"

lemma mod_64_shift: "r < 64 \<Longrightarrow> (128 + r) mod 64 = (r :: nat)"
  by (metis mod_add_self1 mod_less mod_mult_self2 mult_2 numeral_Bit0 add.commute add.left_commute)

lemma utf8_step_2:
  assumes "128 \<le> p * 64 + r" and "p < 32" and "r < 64"
  shows "utf8_step (192 + p) ((128 + r) # bs) = (Some (p * 64 + r), bs)"
proof -
  from assms have "2 \<le> p" by linarith
  with assms show ?thesis by (simp add: utf8_step_def mod_64_shift eval_nat_numeral(2) [of num.One])
qed

lemma utf8_step_3:
  assumes "p < 16" and "q < 64" and "r < 64" and "p = 0 \<Longrightarrow> 32 \<le> q" and "p = 13 \<Longrightarrow> q < 32"
  shows "utf8_step (224 + p) ((128 + q) # (128 + r) # bs) = (Some ((p * 64 + q) * 64 + r), bs)"
  using assms by (cases "p = 0"; cases "p = 13") (simp_all add: utf8_step_def mod_64_shift numeral_2_eq_2)

lemma utf8_step_4:
  assumes "p < 5" and "s < 64" and "q < 64" and "r < 64" and "p = 0 \<Longrightarrow> 16 \<le> s" and "p = 4 \<Longrightarrow> s < 16"
  shows "utf8_step (240 + p) ((128 + s) # (128 + q) # (128 + r) # bs) = (Some (((p * 64 + s) * 64 + q) * 64 + r), bs)"
  using assms by (cases "p = 0"; cases "p = 4") (simp_all add: utf8_step_def mod_64_shift numeral_3_eq_3)

lemma utf8_step_char:
  assumes c: "c < 1114112" "\<not> is_high c" "\<not> is_low c" and u: "utf8_char c = b # cs"
  shows "utf8_step b (cs @ bs) = (Some c, bs)"
proof -
  define r where "r = c mod 64"
  define q where "q = c div 64 mod 64"
  define s where "s = c div 4096 mod 64"
  have c2: "c = c div 64 * 64 + r" by (simp add: r_def)
  have c3: "c = (c div 4096 * 64 + q) * 64 + r"
    using c2 div_mult_mod_eq [of "c div 64" 64] by (simp add: q_def div_mult2_eq [of c 64 64, simplified, symmetric])
  have c4: "c = ((c div 262144 * 64 + s) * 64 + q) * 64 + r"
    using c3 div_mult_mod_eq [of "c div 4096" 64] by (simp add: s_def div_mult2_eq [of c 4096 64, simplified, symmetric])
  have less: "r < 64" "q < 64" "s < 64" by (simp_all add: r_def q_def s_def)
  consider "c < 128" | "128 \<le> c" "c < 2048" | "2048 \<le> c" "c < 65536" | "65536 \<le> c" by linarith
  then show ?thesis
  proof cases
    case 1
    with u show ?thesis by (auto simp: utf8_char_def utf8_step_def)
  next
    case 2
    with u have b: "b = 192 + c div 64" "cs = [128 + r]" by (auto simp: utf8_char_def r_def)
    have "utf8_step (192 + c div 64) ((128 + r) # bs) = (Some (c div 64 * 64 + r), bs)"
      by (rule utf8_step_2) (use 2 less c2 in auto)
    with b c2 show ?thesis by simp
  next
    case 3
    with u c have b: "b = 224 + c div 4096" "cs = [128 + q, 128 + r]" by (auto simp: utf8_char_def r_def q_def)
    have "utf8_step (224 + c div 4096) ((128 + q) # (128 + r) # bs) = (Some ((c div 4096 * 64 + q) * 64 + r), bs)"
      by (rule utf8_step_3) (use 3 less c c3 in \<open>auto simp: is_high_def is_low_def\<close>)
    with b c3 show ?thesis by simp
  next
    case 4
    with u have b: "b = 240 + c div 262144" "cs = [128 + s, 128 + q, 128 + r]"
      by (auto simp: utf8_char_def r_def q_def s_def is_high_def is_low_def)
    have "utf8_step (240 + c div 262144) ((128 + s) # (128 + q) # (128 + r) # bs) = (Some (((c div 262144 * 64 + s) * 64 + q) * 64 + r), bs)"
      by (rule utf8_step_4) (use 4 less c c4 in auto)
    with b c4 show ?thesis by simp
  qed
qed

lemma utf8_char_Cons: "\<exists>b cs. utf8_char c = b # cs"
  by (simp add: utf8_char_def)

lemma utf8_codes_char:
  assumes "c < 1114112" and "\<not> is_high c" and "\<not> is_low c"
  shows "utf8_codes (utf8_char c @ bs) = c # utf8_codes bs"
proof -
  obtain b cs where u: "utf8_char c = b # cs" using utf8_char_Cons by blast
  from utf8_step_char [OF assms u] show ?thesis by (simp add: u)
qed

lemma well_formed_codes:
  "well_formed t \<Longrightarrow> (\<forall>c \<in> set (codepoints t). c < 1114112 \<and> \<not> is_high c \<and> \<not> is_low c) \<and> concat (map utf16 (codepoints t)) = t"
proof (induction t rule: codepoints.induct)
  case (3 u v us)
  show ?case
  proof (cases "is_high u")
    case True
    with 3(3) have v: "is_low v" and wf: "well_formed us" by simp_all
    note ih = 3(1) [OF conjI [OF True v] wf]
    define c where "c = 65536 + (u - 55296) * 1024 + (v - 56320)"
    have range: "65536 \<le> c" "c < 1114112" using True v by (auto simp: c_def is_high_def is_low_def)
    have "utf16 c = [u, v]"
    proof -
      have k: "c - 65536 = (u - 55296) * 1024 + (v - 56320)" "v - 56320 < 1024" using v by (auto simp: c_def is_low_def)
      then have "(c - 65536) div 1024 = u - 55296" "(c - 65536) mod 1024 = v - 56320" by simp_all
      with range True v show ?thesis by (auto simp: utf16_def is_high_def is_low_def)
    qed
    moreover have "\<not> is_high c" "\<not> is_low c" using range by (simp_all add: is_high_def is_low_def)
    ultimately show ?thesis using True v ih range by (simp add: c_def [symmetric])
  next
    case False
    with 3(3) have u: "u < 65536" "\<not> is_low u" and wf: "well_formed (v # us)" by simp_all
    from False have "\<not> (is_high u \<and> is_low v)" by simp
    note ih = 3(2) [OF this wf]
    from False u ih show ?thesis by (simp add: utf16_def)
  qed
qed (auto simp: utf16_def)

lemma utf8_codes_all:
  "\<forall>c \<in> set cs. c < 1114112 \<and> \<not> is_high c \<and> \<not> is_low c \<Longrightarrow> utf8_codes (concat (map utf8_char cs)) = cs"
  by (induction cs) (simp_all add: utf8_codes_char del: utf8_codes.simps(2))

lemma utf8_roundtrip: "well_formed t \<Longrightarrow> utf8_decode (utf8_encode t) = t"
  using well_formed_codes [of t] by (simp add: utf8_decode_def utf8_encode_def utf8_codes_all)

text \<open>Plain ASCII text is one byte per character.\<close>

lemma ascii_codepoints: "\<forall>u \<in> set t. u < 128 \<Longrightarrow> codepoints t = t"
  by (induction t rule: codepoints.induct) (auto simp: is_high_def)

lemma ascii_encode: "\<forall>u \<in> set t. u < 128 \<Longrightarrow> utf8_encode t = t"
  by (induction t) (auto simp: utf8_encode_def ascii_codepoints utf8_char_def)

lemma ascii_well_formed: "\<forall>u \<in> set t. u < 128 \<Longrightarrow> well_formed t"
  by (induction t rule: well_formed.induct) (auto simp: is_high_def is_low_def)

lemma utf8_bytes: "c < 1114112 \<Longrightarrow> \<forall>b \<in> set (utf8_char c). b < 256"
  by (auto simp: utf8_char_def)

section \<open>Trimming and numbers\<close>

text \<open>The characters of \<^verbatim>\<open>\s\<close> and \<^verbatim>\<open>trim\<close>.\<close>

definition js_space :: "nat \<Rightarrow> bool" where
  "js_space u \<longleftrightarrow> 9 \<le> u \<and> u \<le> 13 \<or> 8192 \<le> u \<and> u \<le> 8202 \<or> u \<in> {32, 160, 5760, 8232, 8233, 8239, 8287, 12288, 65279}"

definition unit_trim :: "jstext \<Rightarrow> jstext" where
  "unit_trim t = rev (dropWhile js_space (rev (dropWhile js_space t)))"

text \<open>
  \<^verbatim>\<open>Number(text)\<close>: decimal integers with an optional sign, blank text is 0, and \<open>None\<close> is \<^verbatim>\<open>NaN\<close>. Fractions, exponents
  and other radices do not occur in the texts read here and are \<open>None\<close> too.
\<close>

definition digits_num :: "jstext \<Rightarrow> nat option" where
  "digits_num ds = (if ds \<noteq> [] \<and> list_all (\<lambda>u. 48 \<le> u \<and> u \<le> 57) ds then Some (foldl (\<lambda>n u. n * 10 + (u - 48)) 0 ds) else None)"

definition text_num :: "jstext \<Rightarrow> int option" where
  "text_num t = (case unit_trim t of [] \<Rightarrow> Some 0
     | u # us \<Rightarrow> if u = 45 then map_option (\<lambda>n. - int n) (digits_num us)
       else if u = 43 then map_option int (digits_num us)
       else map_option int (digits_num (u # us)))"

end
