(* ===== verification/VO_Charset.thy ===== *)
theory VO_Charset
  imports VO_Text "HOL-Library.AList"
begin

text \<open>
  The code pages of receipt printers (\<^verbatim>\<open>src/apps/print-worker/src/printing/charset.ts\<close>). A character is its Unicode
  code point; the canonical decomposition \<^verbatim>\<open>normalize("NFD")\<close> of one character, a table of the Unicode standard,
  is the parameter \<open>nfd\<close>. A decomposed character is encoded by the same routine, so the recursion is bounded by fuel,
  and \<open>None\<close> is a text whose encoding does not end within it.
\<close>

datatype codepage = CP437 | CP850 | CP858

datatype codepage_profile = EPSON_STANDARD | MUNBYN_CLONE

definition DEFAULT_CODEPAGE :: codepage where "DEFAULT_CODEPAGE = CP858"

definition DEFAULT_CODEPAGE_PROFILE :: codepage_profile where "DEFAULT_CODEPAGE_PROFILE = EPSON_STANDARD"

definition codepage_name :: "codepage \<Rightarrow> jstext" where
  "codepage_name cp = lit (case cp of CP437 \<Rightarrow> ''CP437'' | CP850 \<Rightarrow> ''CP850'' | CP858 \<Rightarrow> ''CP858'')"

definition profile_name :: "codepage_profile \<Rightarrow> jstext" where
  "profile_name p = lit (case p of EPSON_STANDARD \<Rightarrow> ''EPSON_STANDARD'' | MUNBYN_CLONE \<Rightarrow> ''MUNBYN_CLONE'')"

definition isCodepage :: "jstext \<Rightarrow> codepage option" where
  "isCodepage t = find (\<lambda>cp. codepage_name cp = t) [CP437, CP850, CP858]"

definition resolveCodepage :: "jstext option \<Rightarrow> codepage" where
  "resolveCodepage v = (case Option.bind v isCodepage of Some cp \<Rightarrow> cp | None \<Rightarrow> DEFAULT_CODEPAGE)"

definition isCodepageProfile :: "jstext \<Rightarrow> codepage_profile option" where
  "isCodepageProfile t = find (\<lambda>p. profile_name p = t) [EPSON_STANDARD, MUNBYN_CLONE]"

definition resolveCodepageProfile :: "jstext option \<Rightarrow> codepage_profile" where
  "resolveCodepageProfile v = (case Option.bind v isCodepageProfile of Some p \<Rightarrow> p | None \<Rightarrow> DEFAULT_CODEPAGE_PROFILE)"

text \<open>The argument of ``ESC t n'' on each kind of device.\<close>

definition CODEPAGE_COMMANDS :: "codepage_profile \<Rightarrow> codepage \<Rightarrow> nat" where
  "CODEPAGE_COMMANDS p cp = (case cp of CP437 \<Rightarrow> 0 | CP850 \<Rightarrow> 2
     | CP858 \<Rightarrow> (case p of EPSON_STANDARD \<Rightarrow> 19 | MUNBYN_CLONE \<Rightarrow> 14))"

section \<open>Tables\<close>

type_synonym char_table = "(nat \<times> nat) list"

definition SHARED :: char_table where
  "SHARED =
    [(199, 128), (252, 129), (233, 130), (226, 131), (228, 132), (224, 133), (229, 134), (231, 135), (234, 136),
     (235, 137), (232, 138), (239, 139), (238, 140), (236, 141), (196, 142), (197, 143), (201, 144), (230, 145),
     (198, 146), (244, 147), (246, 148), (242, 149), (251, 150), (249, 151), (255, 152), (214, 153), (220, 154),
     (163, 156), (402, 159), (225, 160), (237, 161), (243, 162), (250, 163), (241, 164), (209, 165), (170, 166),
     (186, 167), (191, 168), (172, 170), (189, 171), (188, 172), (161, 173), (171, 174), (187, 175), (223, 225),
     (181, 230), (177, 241), (247, 246), (176, 248), (183, 250), (178, 253)]"

definition LATIN1_EXTRA :: char_table where
  "LATIN1_EXTRA =
    [(248, 155), (216, 157), (215, 158), (174, 169), (193, 181), (194, 182), (192, 183), (169, 184), (227, 198),
     (195, 199), (240, 208), (208, 209), (202, 210), (203, 211), (200, 212), (205, 214), (206, 215), (207, 216),
     (204, 222), (211, 224), (212, 226), (210, 227), (245, 228), (213, 229), (254, 231), (222, 232), (218, 233),
     (219, 234), (217, 235), (253, 236), (221, 237), (175, 238), (180, 239), (190, 243), (182, 244), (167, 245),
     (184, 247), (168, 249), (185, 251), (179, 252)]"

definition CODEPAGE_TABLES :: "codepage \<Rightarrow> char_table" where
  "CODEPAGE_TABLES cp = (case cp of
     CP437 \<Rightarrow> SHARED @ [(162, 155), (165, 157)]
   | CP850 \<Rightarrow> SHARED @ LATIN1_EXTRA @ [(305, 213)]
   | CP858 \<Rightarrow> SHARED @ LATIN1_EXTRA @ [(8364, 213)])"

definition TRANSLITERATIONS :: "(nat \<times> nat list) list" where
  "TRANSLITERATIONS =
    [(8364, [69, 85, 82]), (8211, [45]), (8212, [45]), (8208, [45]), (8222, [34]), (8220, [34]),
     (8221, [34]), (8218, [39]), (8216, [39]), (8217, [39]), (8230, [46, 46, 46]), (8594, [45, 62]),
     (8226, [42]), (160, [32]), (9, [32, 32])]"

definition REPLACEMENT :: nat where "REPLACEMENT = 63"

section \<open>Encoding\<close>

definition printable :: "nat \<Rightarrow> bool" where
  "printable c \<longleftrightarrow> 32 \<le> c \<and> c \<le> 126"

definition strip_accents :: "nat list \<Rightarrow> nat list" where
  "strip_accents cs = filter (\<lambda>c. \<not> (768 \<le> c \<and> c \<le> 879)) cs"

fun concat_opt :: "'a list option list \<Rightarrow> 'a list option" where
  "concat_opt [] = Some []"
| "concat_opt (x # xs) = Option.bind x (\<lambda>a. Option.bind (concat_opt xs) (\<lambda>b. Some (a @ b)))"

fun encodeChar :: "(nat \<Rightarrow> nat list) \<Rightarrow> nat \<Rightarrow> char_table \<Rightarrow> nat \<Rightarrow> bytes option" where
  "encodeChar nfd 0 tab c = None"
| "encodeChar nfd (Suc fuel) tab c =
     (if printable c then Some [c]
      else case map_of tab c of Some b \<Rightarrow> Some [b]
      | None \<Rightarrow> (case map_of TRANSLITERATIONS c of Some t \<Rightarrow> concat_opt (map (encodeChar nfd fuel tab) t)
      | None \<Rightarrow> (let stripped = strip_accents (nfd c) in
          if stripped \<noteq> [c] \<and> stripped \<noteq> [] then concat_opt (map (encodeChar nfd fuel tab) stripped)
          else Some [REPLACEMENT])))"

definition encodeText :: "(nat \<Rightarrow> nat list) \<Rightarrow> nat \<Rightarrow> char_table \<Rightarrow> jstext \<Rightarrow> bytes option" where
  "encodeText nfd fuel tab t = concat_opt (map (encodeChar nfd fuel tab) (codepoints t))"

text \<open>A character, a character of its decomposition, and a character of its transliteration: three levels are enough.\<close>

definition encodeForCodepage :: "(nat \<Rightarrow> nat list) \<Rightarrow> jstext \<Rightarrow> codepage \<Rightarrow> bytes option" where
  "encodeForCodepage nfd t cp = encodeText nfd 3 (CODEPAGE_TABLES cp) t"

definition decode_byte :: "char_table \<Rightarrow> nat \<Rightarrow> nat" where
  "decode_byte tab b = (if printable b then b
     else case map_of (rev (map (\<lambda>(c, d). (d, c)) tab)) b of Some c \<Rightarrow> c | None \<Rightarrow> 65533)"

definition decodeFromCodepage :: "bytes \<Rightarrow> codepage \<Rightarrow> jstext" where
  "decodeFromCodepage bs cp = concat (map (\<lambda>b. utf16 (decode_byte (CODEPAGE_TABLES cp) b)) bs)"

end
