(* ===== verification/VO_Paper.thy ===== *)
theory VO_Paper
  imports VO_Charset
begin

text \<open>
  From a document to the bytes of a receipt printer: line breaking and layout
  (\<^verbatim>\<open>src/apps/print-worker/src/printing/document.ts\<close>), paper profiles (\<^verbatim>\<open>profiles.ts\<close>) and the
  ESC/POS encoder (\<^verbatim>\<open>escpos.ts\<close>). Lengths are counted in UTF-16 units, as the code does.
\<close>

section \<open>Paper\<close>

record paper_profile =
  pp_width :: nat
  pp_columns :: nat

definition PAPER_58 :: paper_profile where "PAPER_58 = \<lparr>pp_width = 58, pp_columns = 32\<rparr>"
definition PAPER_80 :: paper_profile where "PAPER_80 = \<lparr>pp_width = 80, pp_columns = 48\<rparr>"

definition resolvePaperProfile :: "int option \<Rightarrow> paper_profile" where
  "resolvePaperProfile width = (if width = Some 58 then PAPER_58 else if width = Some 80 then PAPER_80 else PAPER_80)"

section \<open>Documents\<close>

datatype alignment = ALeft | ACenter | ARight

record text_block =
  tb_text :: jstext
  tb_indent :: nat
  tb_align :: alignment
  tb_bold :: bool
  tb_doubleHeight :: bool
  tb_doubleWidth :: bool

record columns_block =
  cb_left :: jstext
  cb_right :: jstext
  cb_fill :: "jstext option"
  cb_bold :: bool

datatype document_block = TextBlock text_block | ColumnsBlock columns_block | RuleBlock "jstext option"
  | FeedBlock "int option" | BarcodeBlock jstext

record print_document =
  doc_title :: jstext
  doc_blocks :: "document_block list"

record rendered_line =
  rl_text :: jstext
  rl_align :: alignment
  rl_bold :: bool
  rl_doubleHeight :: bool
  rl_doubleWidth :: bool
  rl_barcode :: "jstext option"

definition emptyLine :: rendered_line where
  "emptyLine = \<lparr>rl_text = [], rl_align = ALeft, rl_bold = False, rl_doubleHeight = False, rl_doubleWidth = False, rl_barcode = None\<rparr>"

section \<open>Breaking lines\<close>

fun split_by :: "(nat \<Rightarrow> bool) \<Rightarrow> jstext \<Rightarrow> jstext list" where
  "split_by P [] = [[]]"
| "split_by P (u # us) = (if P u then [] # split_by P us
     else (case split_by P us of [] \<Rightarrow> [[u]] | l # ls \<Rightarrow> (u # l) # ls))"

definition words_of :: "jstext \<Rightarrow> jstext list" where
  "words_of p = filter (\<lambda>w. w \<noteq> []) (split_by js_space p)"

text \<open>The \<^verbatim>\<open>while (rest.length > width)\<close> loop: full lines cut off a long word, and what is left of it.\<close>

function chop :: "nat \<Rightarrow> jstext \<Rightarrow> jstext list \<times> jstext" where
  "chop width rest = (if 0 < width \<and> width < length rest
     then (case chop width (drop width rest) of (ls, r) \<Rightarrow> (take width rest # ls, r)) else ([], rest))"
  by pat_completeness auto
termination by (relation "measure (\<lambda>(width, rest). length rest)") auto

declare chop.simps [simp del]

definition add_word :: "nat \<Rightarrow> jstext list \<times> jstext \<Rightarrow> jstext \<Rightarrow> jstext list \<times> jstext" where
  "add_word width st word = (case st of (ls, cur) \<Rightarrow> (case chop width word of (pieces, rest) \<Rightarrow>
     (let ls1 = (if pieces = [] then ls else (if cur = [] then ls else ls @ [cur]) @ pieces);
          cur1 = (if pieces = [] then cur else [])
      in if cur1 = [] then (ls1, rest)
         else if length cur1 + 1 + length rest \<le> width then (ls1, cur1 @ 32 # rest)
         else (ls1 @ [cur1], rest))))"

definition wrap_paragraph :: "nat \<Rightarrow> jstext \<Rightarrow> jstext list" where
  "wrap_paragraph width p = (if words_of p = [] then [[]]
     else (case foldl (add_word width) ([], []) (words_of p) of (ls, cur) \<Rightarrow> ls @ [cur]))"

definition wrapText :: "jstext \<Rightarrow> nat \<Rightarrow> jstext list" where
  "wrapText t columns = concat (map (wrap_paragraph (max 1 columns)) (split_by (\<lambda>u. u = 10) t))"

section \<open>Layout\<close>

definition first_unit :: "jstext option \<Rightarrow> nat \<Rightarrow> nat" where
  "first_unit t d = (case t of Some (u # us) \<Rightarrow> u | _ \<Rightarrow> d)"

definition renderColumns :: "columns_block \<Rightarrow> nat \<Rightarrow> jstext list" where
  "renderColumns b columns = (let right = cb_right b; fill = first_unit (cb_fill b) 32;
      available = max 1 (columns - length right - 1);
      leftLines = wrapText (cb_left b) available;
      end_line = (if leftLines = [] then [] else last leftLines);
      gap = max 1 (columns - length end_line - length right)
    in butlast leftLines @ [end_line @ replicate gap fill @ right])"

definition render_block :: "nat \<Rightarrow> document_block \<Rightarrow> rendered_line list" where
  "render_block columns b = (case b of
     TextBlock tb \<Rightarrow> (let full = (if tb_doubleWidth tb then columns div 2 else columns); ind = min (full - 1) (tb_indent tb)
       in map (\<lambda>t. emptyLine\<lparr>rl_text := replicate ind 32 @ t, rl_align := tb_align tb, rl_bold := tb_bold tb,
            rl_doubleHeight := tb_doubleHeight tb, rl_doubleWidth := tb_doubleWidth tb\<rparr>) (wrapText (tb_text tb) (full - ind)))
   | ColumnsBlock cb \<Rightarrow> map (\<lambda>t. emptyLine\<lparr>rl_text := t, rl_bold := cb_bold cb\<rparr>) (renderColumns cb columns)
   | RuleBlock c \<Rightarrow> [emptyLine\<lparr>rl_text := replicate columns (first_unit c 45)\<rparr>]
   | FeedBlock n \<Rightarrow> replicate (nat (max 1 (min 10 (case n of None \<Rightarrow> 1 | Some k \<Rightarrow> k)))) emptyLine
   | BarcodeBlock d \<Rightarrow> (let t = unit_trim d in if t = [] then []
       else [emptyLine\<lparr>rl_text := lit ''[CODE128] '' @ t, rl_align := ACenter, rl_barcode := Some t\<rparr>]))"

definition renderDocument :: "print_document \<Rightarrow> paper_profile \<Rightarrow> rendered_line list" where
  "renderDocument d p = concat (map (render_block (pp_columns p)) (doc_blocks d))"

definition alignLine :: "rendered_line \<Rightarrow> nat \<Rightarrow> jstext" where
  "alignLine l columns = (let width = (if rl_doubleWidth l then columns div 2 else columns); t = rl_text l
     in case rl_align l of ACenter \<Rightarrow> replicate ((width - length t) div 2) 32 @ t
        | ARight \<Rightarrow> replicate (width - length t) 32 @ t
        | ALeft \<Rightarrow> t)"

section \<open>ESC/POS\<close>

definition ESC :: nat where "ESC = 27"
definition GS :: nat where "GS = 29"
definition LF :: nat where "LF = 10"

datatype cut_mode = CUT_NONE | CUT_PARTIAL | CUT_FULL

definition cut_name :: "cut_mode \<Rightarrow> jstext" where
  "cut_name m = lit (case m of CUT_NONE \<Rightarrow> ''NONE'' | CUT_PARTIAL \<Rightarrow> ''PARTIAL'' | CUT_FULL \<Rightarrow> ''FULL'')"

definition DEFAULT_CUT_MODE :: cut_mode where "DEFAULT_CUT_MODE = CUT_PARTIAL"

definition resolveCutMode :: "jstext option \<Rightarrow> cut_mode" where
  "resolveCutMode v = (case Option.bind v (\<lambda>t. find (\<lambda>m. cut_name m = t) [CUT_NONE, CUT_PARTIAL, CUT_FULL]) of
     Some m \<Rightarrow> m | None \<Rightarrow> DEFAULT_CUT_MODE)"

record encode_options =
  eo_codepage :: "codepage option"
  eo_codepageProfile :: "codepage_profile option"
  eo_cutMode :: "cut_mode option"
  eo_copies :: "int option"
  eo_feedBeforeCut :: "int option"

definition alignment_code :: "alignment \<Rightarrow> nat" where
  "alignment_code a = (case a of ALeft \<Rightarrow> 0 | ACenter \<Rightarrow> 1 | ARight \<Rightarrow> 2)"

definition characterSize :: "rendered_line \<Rightarrow> nat" where
  "characterSize l = (if rl_doubleWidth l then 16 else 0) + (if rl_doubleHeight l then 1 else 0)"

definition encodeCode128 :: "(nat \<Rightarrow> nat list) \<Rightarrow> jstext \<Rightarrow> codepage \<Rightarrow> bytes option" where
  "encodeCode128 nfd data cp = Option.bind (encodeForCodepage nfd data cp) (\<lambda>x.
     (let payload = [123, 66] @ x; n = min 255 (length payload)
      in Some ([GS, 72, 0] @ [GS, 119, 2] @ [GS, 104, 80] @ [GS, 107, 73, n] @ take n payload @ [LF])))"

text \<open>What was sent last for alignment, bold and size; \<open>None\<close> is the initial -1.\<close>

type_synonym line_style = "nat option \<times> nat option \<times> nat option"

definition style_of :: "rendered_line \<Rightarrow> nat \<times> nat \<times> nat" where
  "style_of l = (alignment_code (rl_align l), if rl_bold l then 1 else 0, characterSize l)"

definition style_commands :: "line_style \<Rightarrow> rendered_line \<Rightarrow> bytes" where
  "style_commands st l = (case st of (a, b, s) \<Rightarrow> (case style_of l of (la, lb, lsz) \<Rightarrow>
     (if a \<noteq> Some la then [ESC, 97, la] else []) @ (if b \<noteq> Some lb then [ESC, 69, lb] else []) @
     (if s \<noteq> Some lsz then [GS, 33, lsz] else [])))"

fun encodeLines :: "(nat \<Rightarrow> nat list) \<Rightarrow> codepage \<Rightarrow> line_style \<Rightarrow> rendered_line list \<Rightarrow> bytes option" where
  "encodeLines nfd cp st [] = Some []"
| "encodeLines nfd cp st (l # ls) = (case rl_barcode l of
     Some d \<Rightarrow> Option.bind (encodeCode128 nfd d cp) (\<lambda>x. Option.bind (encodeLines nfd cp st ls) (\<lambda>rest. Some (x @ rest)))
   | None \<Rightarrow> Option.bind (encodeForCodepage nfd (rl_text l) cp) (\<lambda>x.
       Option.bind (encodeLines nfd cp (case style_of l of (a, b, s) \<Rightarrow> (Some a, Some b, Some s)) ls) (\<lambda>rest.
       Some (style_commands st l @ x @ [LF] @ rest))))"

definition byte_range :: "int \<Rightarrow> nat" where
  "byte_range n = nat (max 0 (min 255 n))"

definition cutCommand :: "cut_mode \<Rightarrow> int \<Rightarrow> bytes" where
  "cutCommand mode feed = (if mode = CUT_NONE then [ESC, 100, byte_range feed]
     else [GS, 86, if mode = CUT_FULL then 65 else 66, byte_range (feed * 8)])"

definition copies_of :: "int option \<Rightarrow> nat" where
  "copies_of c = (let n = (case c of None \<Rightarrow> 1 | Some k \<Rightarrow> k) in nat (max 1 (min 9 (if n = 0 then 1 else n))))"

definition encodeEscPos :: "(nat \<Rightarrow> nat list) \<Rightarrow> rendered_line list \<Rightarrow> encode_options \<Rightarrow> bytes option" where
  "encodeEscPos nfd ls p = (let cp = (case eo_codepage p of None \<Rightarrow> DEFAULT_CODEPAGE | Some c \<Rightarrow> c);
      profile = (case eo_codepageProfile p of None \<Rightarrow> DEFAULT_CODEPAGE_PROFILE | Some c \<Rightarrow> c);
      mode = (case eo_cutMode p of None \<Rightarrow> DEFAULT_CUT_MODE | Some c \<Rightarrow> c);
      feed = (case eo_feedBeforeCut p of None \<Rightarrow> 4 | Some n \<Rightarrow> n)
    in Option.bind (encodeLines nfd cp (None, None, None) ls) (\<lambda>x.
       Some (concat (replicate (copies_of (eo_copies p))
         ([ESC, 64] @ [ESC, 116, CODEPAGE_COMMANDS profile cp] @ [ESC, 82, 0] @ x @
          [ESC, 97, 0] @ [ESC, 69, 0] @ [GS, 33, 0] @ cutCommand mode feed)))))"

end
