(* ===== verification/VO_Charset_Laws.thy ===== *)
theory VO_Charset_Laws
  imports VO_Charset
begin

text \<open>
  Facts of the character encoding: it ends, it never produces a control byte, and what a code page can show comes back.
\<close>

text \<open>The decomposition of the Unicode standard is full: a decomposed character has no further decomposition.\<close>

definition nfd_full :: "(nat \<Rightarrow> nat list) \<Rightarrow> bool" where
  "nfd_full nfd \<longleftrightarrow> (\<forall>c. \<forall>d \<in> set (nfd c). nfd d = [d])"

definition visible_byte :: "nat \<Rightarrow> bool" where
  "visible_byte b \<longleftrightarrow> 32 \<le> b \<and> b \<noteq> 127 \<and> b < 256"

lemma concat_opt_total: "\<forall>x \<in> set xs. \<exists>a. f x = Some a \<Longrightarrow> \<exists>bs. concat_opt (map f xs) = Some bs"
  by (induction xs) auto

lemma concat_opt_all:
  "concat_opt (map f xs) = Some bs \<Longrightarrow> (\<And>x a. x \<in> set xs \<Longrightarrow> f x = Some a \<Longrightarrow> \<forall>b \<in> set a. P b) \<Longrightarrow> \<forall>b \<in> set bs. P b"
proof (induction xs arbitrary: bs)
  case (Cons x xs)
  then obtain u v where u: "f x = Some u" "concat_opt (map f xs) = Some v" "bs = u @ v" by (auto simp: bind_eq_Some_conv)
  have "\<forall>b \<in> set v. P b" by (rule Cons.IH [OF u(2)]) (rule Cons.prems(2), simp_all)
  moreover have "\<forall>b \<in> set u. P b" by (rule Cons.prems(2) [OF _ u(1)]) simp
  ultimately show ?case using u(3) by auto
qed simp

section \<open>Tables\<close>

lemma transliterations_printable: "map_of TRANSLITERATIONS c = Some t \<Longrightarrow> \<forall>d \<in> set t. printable d"
proof -
  have "list_all (\<lambda>(c, t). list_all printable t) TRANSLITERATIONS" by (simp add: TRANSLITERATIONS_def printable_def)
  then show "map_of TRANSLITERATIONS c = Some t \<Longrightarrow> \<forall>d \<in> set t. printable d"
    by (auto simp: list_all_iff dest!: map_of_SomeD)
qed

lemma table_bytes: "list_all (\<lambda>(c, b). 128 \<le> b \<and> b < 256) (CODEPAGE_TABLES cp)"
  by (cases cp) (simp_all add: CODEPAGE_TABLES_def SHARED_def LATIN1_EXTRA_def)

lemma table_distinct: "distinct (map snd (CODEPAGE_TABLES cp))"
  by (cases cp) (simp_all add: CODEPAGE_TABLES_def SHARED_def LATIN1_EXTRA_def)

lemma table_codes: "list_all (\<lambda>(c, b). 128 \<le> c \<and> c < 55296) (CODEPAGE_TABLES cp)"
  by (cases cp) (simp_all add: CODEPAGE_TABLES_def SHARED_def LATIN1_EXTRA_def)

section \<open>Encoding ends\<close>

lemma printable_encode: "printable c \<Longrightarrow> encodeChar nfd (Suc n) tab c = Some [c]"
  by simp

lemma printable_text: "\<forall>c \<in> set cs. printable c \<Longrightarrow> \<exists>bs. concat_opt (map (encodeChar nfd (Suc n) tab) cs) = Some bs"
  by (rule concat_opt_total) auto

lemma encode_decomposed: "nfd d = [d] \<Longrightarrow> \<exists>bs. encodeChar nfd (Suc (Suc n)) tab d = Some bs"
  using printable_text [OF transliterations_printable, of d _ nfd n tab]
  by (auto simp: strip_accents_def split: option.splits)

lemma encode_char_total:
  assumes "nfd_full nfd"
  shows "\<exists>bs. encodeChar nfd (Suc (Suc (Suc n))) tab c = Some bs"
proof -
  have "\<forall>d \<in> set (strip_accents (nfd c)). nfd d = [d]" using assms by (auto simp: nfd_full_def strip_accents_def)
  then have "\<forall>d \<in> set (strip_accents (nfd c)). \<exists>bs. encodeChar nfd (Suc (Suc n)) tab d = Some bs"
    using encode_decomposed by blast
  from concat_opt_total [OF this]
  have strip: "\<exists>bs. concat_opt (map (encodeChar nfd (Suc (Suc n)) tab) (strip_accents (nfd c))) = Some bs" .
  show ?thesis
  proof (cases "map_of TRANSLITERATIONS c")
    case None
    with strip show ?thesis by (simp add: Let_def del: encodeChar.simps(2) add: encodeChar.simps(2) [of nfd "Suc (Suc n)"] split: option.split)
  next
    case (Some t)
    from printable_text [OF transliterations_printable [OF Some], of nfd "Suc n" tab]
    show ?thesis using Some by (simp del: encodeChar.simps(2) add: encodeChar.simps(2) [of nfd "Suc (Suc n)"] split: option.split)
  qed
qed

lemma encode_total: "nfd_full nfd \<Longrightarrow> \<exists>bs. encodeForCodepage nfd t cp = Some bs"
  unfolding encodeForCodepage_def encodeText_def
  by (rule concat_opt_total) (simp add: encode_char_total numeral_3_eq_3 del: encodeChar.simps)

section \<open>No control bytes\<close>

lemma encode_char_visible:
  "encodeChar nfd n tab c = Some bs \<Longrightarrow> list_all (\<lambda>(c, b). 128 \<le> b \<and> b < 256) tab \<Longrightarrow> \<forall>b \<in> set bs. visible_byte b"
proof (induction nfd n tab c arbitrary: bs rule: encodeChar.induct)
  case (2 nfd n tab c)
  show ?case
  proof (cases "printable c")
    case True
    with "2.prems" show ?thesis by (auto simp: printable_def visible_byte_def)
  next
    case p: False
    show ?thesis
    proof (cases "map_of tab c")
      case (Some b)
      with "2.prems" p show ?thesis by (auto simp: visible_byte_def list_all_iff dest!: map_of_SomeD)
    next
      case t: None
      show ?thesis
      proof (cases "map_of TRANSLITERATIONS c")
        case (Some u)
        with "2.prems" p t have "concat_opt (map (encodeChar nfd n tab) u) = Some bs" by simp
        then show ?thesis by (rule concat_opt_all) (rule "2.IH"(2) [OF p t Some _ _ "2.prems"(2)])
      next
        case None
        show ?thesis
        proof (cases "strip_accents (nfd c) \<noteq> [c] \<and> strip_accents (nfd c) \<noteq> []")
          case True
          with "2.prems" p t None have "concat_opt (map (encodeChar nfd n tab) (strip_accents (nfd c))) = Some bs" by (simp add: Let_def)
          then show ?thesis by (rule concat_opt_all) (rule "2.IH"(1) [OF p t None refl True _ _ "2.prems"(2)])
        next
          case False
          with "2.prems" p t None show ?thesis by (auto simp: REPLACEMENT_def visible_byte_def Let_def)
        qed
      qed
    qed
  qed
qed simp

lemma encode_visible: "encodeForCodepage nfd t cp = Some bs \<Longrightarrow> \<forall>b \<in> set bs. visible_byte b"
  unfolding encodeForCodepage_def encodeText_def
  by (erule concat_opt_all) (rule encode_char_visible [OF _ table_bytes])

section \<open>What the code page can show comes back\<close>

definition shown_by :: "codepage \<Rightarrow> nat \<Rightarrow> bool" where
  "shown_by cp c \<longleftrightarrow> printable c \<or> c \<in> fst ` set (CODEPAGE_TABLES cp)"

lemma encode_shown:
  assumes "shown_by cp c"
  shows "\<exists>b. encodeChar nfd (Suc n) (CODEPAGE_TABLES cp) c = Some [b] \<and> decode_byte (CODEPAGE_TABLES cp) b = c"
proof (cases "printable c")
  case True
  then show ?thesis by (simp add: decode_byte_def)
next
  case False
  with assms obtain b where m: "map_of (CODEPAGE_TABLES cp) c = Some b"
    by (cases "map_of (CODEPAGE_TABLES cp) c") (auto simp: shown_by_def map_of_eq_None_iff)
  then have mem: "(c, b) \<in> set (CODEPAGE_TABLES cp)" by (rule map_of_SomeD)
  then have "128 \<le> b" using table_bytes [of cp] by (auto simp: list_all_iff)
  moreover have "map_of (rev (map (\<lambda>(c, d). (d, c)) (CODEPAGE_TABLES cp))) b = Some c"
  proof (rule map_of_is_SomeI)
    have "map fst (map (\<lambda>(c, d). (d, c)) xs) = map snd xs" for xs :: "(nat \<times> nat) list" by (induction xs) auto
    with table_distinct [of cp] show "distinct (map fst (rev (map (\<lambda>(c, d). (d, c)) (CODEPAGE_TABLES cp))))"
      by (simp only: rev_map [symmetric] distinct_rev)
  qed (use mem in force)
  ultimately show ?thesis using False m by (auto simp: decode_byte_def printable_def)
qed

lemma shown_text:
  "\<forall>c \<in> set cs. shown_by cp c \<Longrightarrow> \<exists>bs. concat_opt (map (encodeChar nfd (Suc n) (CODEPAGE_TABLES cp)) cs) = Some bs \<and>
     map (decode_byte (CODEPAGE_TABLES cp)) bs = cs"
proof (induction cs)
  case (Cons c cs)
  obtain b where "encodeChar nfd (Suc n) (CODEPAGE_TABLES cp) c = Some [b]" "decode_byte (CODEPAGE_TABLES cp) b = c"
    using encode_shown Cons.prems by fastforce
  with Cons show ?case by (auto simp del: encodeChar.simps)
qed simp

lemma shown_roundtrip:
  assumes "well_formed t" "\<forall>c \<in> set (codepoints t). shown_by cp c"
  shows "\<exists>bs. encodeForCodepage nfd t cp = Some bs \<and> decodeFromCodepage bs cp = t \<and> length bs = length (codepoints t)"
proof -
  obtain bs where b: "encodeForCodepage nfd t cp = Some bs" "map (decode_byte (CODEPAGE_TABLES cp)) bs = codepoints t"
    using shown_text [OF assms(2), of nfd 2] by (auto simp: encodeForCodepage_def encodeText_def numeral_3_eq_3 numeral_2_eq_2 simp del: encodeChar.simps)
  have "decodeFromCodepage bs cp = concat (map utf16 (map (decode_byte (CODEPAGE_TABLES cp)) bs))"
    by (simp add: decodeFromCodepage_def comp_def)
  with b well_formed_codes [OF assms(1)] show ?thesis by (metis length_map)
qed

end
