(* ===== verification/VO_Paper_Laws.thy ===== *)
theory VO_Paper_Laws
  imports VO_Paper VO_Charset_Laws "HOL-Library.Sublist"
begin

text \<open>
  Facts of the layout: a broken text keeps its characters and stays within the width, and a reference printer that
  reads the ESC/POS stream.
\<close>

section \<open>Cutting long words\<close>

lemma chop_spec: "chop w t = (ls, r) \<Longrightarrow> 0 < w \<Longrightarrow> concat ls @ r = t \<and> (\<forall>l \<in> set ls. length l = w) \<and> length r \<le> w"
proof (induction w t arbitrary: ls r rule: chop.induct)
  case (1 w t)
  show ?case
  proof (cases "w < length t")
    case True
    obtain ls1 where r: "chop w (drop w t) = (ls1, r)" "ls = take w t # ls1"
      using "1.prems" True by (subst (asm) chop.simps) (auto split: prod.splits)
    from "1.IH" [OF conjI [OF "1.prems"(2) True] r(1) "1.prems"(2)] r(2) True show ?thesis by auto
  next
    case False
    with "1.prems" show ?thesis by (subst (asm) chop.simps) auto
  qed
qed

section \<open>Lines within the width\<close>

definition lines_fit :: "nat \<Rightarrow> jstext list \<times> jstext \<Rightarrow> bool" where
  "lines_fit w st \<longleftrightarrow> (\<forall>l \<in> set (fst st). length l \<le> w) \<and> length (snd st) \<le> w"

lemma add_word_fits:
  assumes "0 < w" and "lines_fit w st"
  shows "lines_fit w (add_word w st word)"
proof -
  obtain ls cur where st: "st = (ls, cur)" by fastforce
  obtain ps r where c: "chop w word = (ps, r)" by fastforce
  from chop_spec [OF c assms(1)] assms(2) show ?thesis
    by (auto simp: lines_fit_def add_word_def st c Let_def)
qed

lemma add_words_fit: "0 < w \<Longrightarrow> lines_fit w st \<Longrightarrow> lines_fit w (foldl (add_word w) st ws)"
  by (induction ws arbitrary: st) (simp_all add: add_word_fits)

lemma wrap_paragraph_fits:
  assumes "0 < w"
  shows "\<forall>l \<in> set (wrap_paragraph w p). length l \<le> w"
  using add_words_fit [OF assms, of "([], [])" "words_of p"]
  by (cases "foldl (add_word w) ([], []) (words_of p)") (auto simp: wrap_paragraph_def lines_fit_def)

lemma wrapText_fits: "l \<in> set (wrapText t n) \<Longrightarrow> length l \<le> max 1 n"
  using wrap_paragraph_fits [of "max 1 n"] by (auto simp: wrapText_def)

lemma split_by_not_Nil: "split_by P t \<noteq> []"
  by (induction t) (auto split: list.splits)

lemma wrap_paragraph_not_Nil: "wrap_paragraph w p \<noteq> []"
  by (simp add: wrap_paragraph_def split: prod.splits)

lemma wrapText_not_Nil: "wrapText t n \<noteq> []"
proof -
  obtain p ps where "split_by (\<lambda>u. u = 10) t = p # ps" by (cases "split_by (\<lambda>u. u = 10) t") (simp_all add: split_by_not_Nil)
  then show ?thesis by (simp add: wrapText_def wrap_paragraph_not_Nil)
qed

section \<open>No character is lost\<close>

definition ink :: "jstext \<Rightarrow> jstext" where
  "ink t = filter (\<lambda>u. \<not> js_space u) t"

lemma ink_simps [simp]: "ink [] = []" "ink (a @ b) = ink a @ ink b" "ink (32 # b) = ink b"
  by (simp_all add: ink_def js_space_def)

lemma ink_concat: "ink (concat ls) = concat (map ink ls)"
  by (induction ls) simp_all

lemma split_by_ink: "(\<And>u. P u \<Longrightarrow> js_space u) \<Longrightarrow> concat (map ink (split_by P t)) = ink t"
  by (induction t) (auto simp: ink_def split: list.splits)

lemma split_by_free: "w \<in> set (split_by P t) \<Longrightarrow> u \<in> set w \<Longrightarrow> \<not> P u"
  by (induction t arbitrary: w) (fastforce split: list.splits if_splits)+

lemma ink_word: "w \<in> set (words_of p) \<Longrightarrow> ink w = w"
  unfolding words_of_def ink_def by (auto simp: filter_id_conv dest: split_by_free)

lemma words_ink: "concat (words_of p) = ink p"
proof -
  have "concat (map ink (split_by js_space p)) = ink p" by (rule split_by_ink)
  moreover have "concat (filter (\<lambda>w. w \<noteq> []) xs) = concat xs" for xs :: "jstext list" by (induction xs) auto
  moreover have "map ink (split_by js_space p) = split_by js_space p"
    by (rule map_idI) (auto simp: ink_def filter_id_conv dest: split_by_free)
  ultimately show ?thesis by (simp add: words_of_def)
qed

definition state_ink :: "jstext list \<times> jstext \<Rightarrow> jstext" where
  "state_ink st = concat (map ink (fst st)) @ ink (snd st)"

lemma add_word_ink:
  assumes "0 < w" and "ink word = word"
  shows "state_ink (add_word w st word) = state_ink st @ word"
proof -
  obtain ls cur where st: "st = (ls, cur)" by fastforce
  obtain ps r where c: "chop w word = (ps, r)" by fastforce
  have "concat (map ink ps) @ ink r = word"
    using chop_spec [OF c assms(1)] assms(2) by (metis ink_concat ink_simps(2))
  then show ?thesis by (auto simp: state_ink_def add_word_def st c Let_def)
qed

lemma add_words_ink: "0 < w \<Longrightarrow> \<forall>x \<in> set ws. ink x = x \<Longrightarrow> state_ink (foldl (add_word w) st ws) = state_ink st @ concat ws"
  by (induction ws arbitrary: st) (simp_all add: add_word_ink)

lemma wrap_paragraph_ink: "0 < w \<Longrightarrow> concat (map ink (wrap_paragraph w p)) = ink p"
  using add_words_ink [of w "words_of p" "([], [])"] words_ink [of p]
  by (cases "foldl (add_word w) ([], []) (words_of p)") (auto simp: wrap_paragraph_def state_ink_def ink_word)

lemma wrapText_ink: "concat (map ink (wrapText t n)) = ink t"
proof -
  have "concat (map ink (concat (map (wrap_paragraph (max 1 n)) ps))) = concat (map ink ps)" for ps
    by (induction ps) (simp_all add: wrap_paragraph_ink)
  moreover have "concat (map ink (split_by (\<lambda>u. u = 10) t)) = ink t" by (rule split_by_ink) (simp add: js_space_def)
  ultimately show ?thesis by (simp add: wrapText_def)
qed

section \<open>Layout within the paper\<close>

lemma renderColumns_spec:
  assumes "length (cb_right b) + 2 \<le> columns"
  shows "\<exists>ls x. renderColumns b columns = ls @ [x] \<and> (\<forall>l \<in> set ls. length l \<le> columns) \<and> length x = columns \<and> suffix (cb_right b) x"
proof -
  let ?w = "max 1 (columns - length (cb_right b) - 1)"
  have w: "wrapText (cb_left b) ?w \<noteq> []" by (rule wrapText_not_Nil)
  have fit: "length l \<le> ?w" if "l \<in> set (wrapText (cb_left b) ?w)" for l
    using wrapText_fits [OF that] by simp
  have l: "length (last (wrapText (cb_left b) ?w)) \<le> ?w" using fit w by simp
  have "\<forall>l \<in> set (butlast (wrapText (cb_left b) ?w)). length l \<le> columns"
    using fit assms by (fastforce dest: in_set_butlastD)
  with w l assms show ?thesis
    by (auto simp: renderColumns_def Let_def suffix_def)
qed

definition line_width :: "nat \<Rightarrow> rendered_line \<Rightarrow> nat" where
  "line_width columns l = (if rl_doubleWidth l then columns div 2 else columns)"

definition block_fits :: "nat \<Rightarrow> document_block \<Rightarrow> bool" where
  "block_fits columns b = (case b of ColumnsBlock cb \<Rightarrow> length (cb_right cb) + 2 \<le> columns | _ \<Rightarrow> True)"

lemma render_block_fits:
  assumes "2 \<le> columns" and "block_fits columns b" and "l \<in> set (render_block columns b)" and "rl_barcode l = None"
  shows "length (rl_text l) \<le> line_width columns l"
proof (cases b)
  case (TextBlock tb)
  define full where "full = (if tb_doubleWidth tb then columns div 2 else columns)"
  define ind where "ind = min (full - 1) (tb_indent tb)"
  have "1 \<le> full" using assms(1) by (auto simp: full_def)
  then have ind: "ind + 1 \<le> full" by (simp add: ind_def)
  obtain t where t: "t \<in> set (wrapText (tb_text tb) (full - ind))"
    "l = emptyLine\<lparr>rl_text := replicate ind 32 @ t, rl_align := tb_align tb, rl_bold := tb_bold tb,
            rl_doubleHeight := tb_doubleHeight tb, rl_doubleWidth := tb_doubleWidth tb\<rparr>"
    using assms(3) by (auto simp only: TextBlock render_block_def document_block.case Let_def full_def [symmetric] ind_def [symmetric] set_map)
  from wrapText_fits [OF t(1)] ind have "length t + ind \<le> full" by simp
  with t(2) show ?thesis by (simp add: line_width_def full_def)
next
  case (ColumnsBlock cb)
  with assms(2) renderColumns_spec [of cb columns] obtain ls x where
    "renderColumns cb columns = ls @ [x]" "\<forall>l \<in> set ls. length l \<le> columns" "length x = columns"
    by (auto simp: block_fits_def)
  with assms(3) ColumnsBlock show ?thesis by (auto simp: render_block_def line_width_def emptyLine_def)
next
  case (RuleBlock c)
  with assms(3) show ?thesis by (simp add: render_block_def line_width_def emptyLine_def)
next
  case (FeedBlock n)
  with assms(3) show ?thesis by (simp add: render_block_def line_width_def emptyLine_def)
next
  case (BarcodeBlock d)
  with assms(3,4) show ?thesis by (simp add: render_block_def Let_def split: if_splits)
qed

section \<open>A reference printer\<close>

text \<open>
  What a receipt printer does with a stream of the commands used here: a line is printed at LF with the alignment,
  emphasis, size and code page in force; anything it does not know is an error.
\<close>

datatype paper_item = PaperLine "nat \<times> nat \<times> nat" nat bytes | PaperBarcode bytes | PaperFeed nat | PaperCut nat nat

record printer_state =
  ps_style :: "nat \<times> nat \<times> nat"
  ps_codepage :: nat

definition printer_reset :: printer_state where
  "printer_reset = \<lparr>ps_style = (0, 0, 0), ps_codepage = 0\<rparr>"

definition set_align :: "nat \<Rightarrow> printer_state \<Rightarrow> printer_state" where
  "set_align n s = s\<lparr>ps_style := (n, snd (ps_style s))\<rparr>"

definition set_bold :: "nat \<Rightarrow> printer_state \<Rightarrow> printer_state" where
  "set_bold n s = s\<lparr>ps_style := (fst (ps_style s), n, snd (snd (ps_style s)))\<rparr>"

definition set_size :: "nat \<Rightarrow> printer_state \<Rightarrow> printer_state" where
  "set_size n s = s\<lparr>ps_style := (fst (ps_style s), fst (snd (ps_style s)), n)\<rparr>"

function printed :: "printer_state \<Rightarrow> bytes \<Rightarrow> bytes \<Rightarrow> paper_item list option" where
  "printed s buf [] = Some []"
| "printed s buf (b # bs) =
     (if b = 10 then map_option ((#) (PaperLine (ps_style s) (ps_codepage s) buf)) (printed s [] bs)
      else if b = 27 then (case bs of
          c # r \<Rightarrow> (if c = 64 then printed printer_reset [] r
            else (case r of [] \<Rightarrow> None | n # q \<Rightarrow>
              if c = 97 then printed (set_align n s) buf q
              else if c = 69 then printed (set_bold n s) buf q
              else if c = 116 then printed (s\<lparr>ps_codepage := n\<rparr>) buf q
              else if c = 82 then printed s buf q
              else if c = 100 then map_option ((#) (PaperFeed n)) (printed s buf q)
              else None))
        | [] \<Rightarrow> None)
      else if b = 29 then (case bs of
          c # n # q \<Rightarrow> (if c = 33 then printed (set_size n s) buf q
            else if c \<in> {72, 119, 104} then printed s buf q
            else if c = 86 then (case q of [] \<Rightarrow> None | m # p \<Rightarrow> map_option ((#) (PaperCut n m)) (printed s buf p))
            else if c = 107 \<and> n = 73 then (case q of [] \<Rightarrow> None
              | m # p \<Rightarrow> if m \<le> length p then map_option ((#) (PaperBarcode (take m p))) (printed s buf (drop m p)) else None)
            else None)
        | _ \<Rightarrow> None)
      else if visible_byte b then printed s (buf @ [b]) bs
      else None)"
  by pat_completeness auto
termination by (relation "measure (\<lambda>(s, buf, bs). length bs)") auto

declare printed.simps(2) [simp del]

lemma printed_text: "\<forall>b \<in> set xs. visible_byte b \<Longrightarrow> printed s buf (xs @ rest) = printed s (buf @ xs) rest"
proof (induction xs arbitrary: buf)
  case (Cons b xs)
  then have "b \<noteq> 10" "b \<noteq> 27" "b \<noteq> 29" "visible_byte b" by (auto simp: visible_byte_def)
  with Cons show ?case by (simp add: printed.simps(2))
qed simp

lemma printed_commands:
  "printed s buf (10 # rest) = map_option ((#) (PaperLine (ps_style s) (ps_codepage s) buf)) (printed s [] rest)"
  "printed s buf (27 # 64 # rest) = printed printer_reset [] rest"
  "printed s buf (27 # 97 # n # rest) = printed (set_align n s) buf rest"
  "printed s buf (27 # 69 # n # rest) = printed (set_bold n s) buf rest"
  "printed s buf (27 # 116 # n # rest) = printed (s\<lparr>ps_codepage := n\<rparr>) buf rest"
  "printed s buf (27 # 82 # n # rest) = printed s buf rest"
  "printed s buf (27 # 100 # n # rest) = map_option ((#) (PaperFeed n)) (printed s buf rest)"
  "printed s buf (29 # 33 # n # rest) = printed (set_size n s) buf rest"
  "printed s buf (29 # 72 # n # rest) = printed s buf rest"
  "printed s buf (29 # 119 # n # rest) = printed s buf rest"
  "printed s buf (29 # 104 # n # rest) = printed s buf rest"
  "printed s buf (29 # 86 # n # m # rest) = map_option ((#) (PaperCut n m)) (printed s buf rest)"
  by (simp_all add: printed.simps(2))

lemma printed_barcode:
  "printed s buf (29 # 107 # 73 # length xs # xs @ rest) = map_option ((#) (PaperBarcode xs)) (printed s buf rest)"
  by (simp add: printed.simps(2))

section \<open>What the worker wants printed\<close>

definition code128_payload :: "bytes \<Rightarrow> bytes" where
  "code128_payload data = take 255 ([123, 66] @ data)"

fun wanted_lines :: "(nat \<Rightarrow> nat list) \<Rightarrow> codepage \<Rightarrow> nat \<Rightarrow> nat \<times> nat \<times> nat \<Rightarrow> rendered_line list \<Rightarrow> paper_item list" where
  "wanted_lines nfd cp n st [] = []"
| "wanted_lines nfd cp n st (l # ls) = (case rl_barcode l of
     Some d \<Rightarrow> PaperBarcode (code128_payload (the (encodeForCodepage nfd d cp))) # PaperLine st n [] # wanted_lines nfd cp n st ls
   | None \<Rightarrow> PaperLine (style_of l) n (the (encodeForCodepage nfd (rl_text l) cp)) # wanted_lines nfd cp n (style_of l) ls)"

definition sent_style :: "line_style \<Rightarrow> nat \<times> nat \<times> nat \<Rightarrow> bool" where
  "sent_style st p \<longleftrightarrow> (case st of (a, b, s) \<Rightarrow> (a = None \<or> a = Some (fst p)) \<and> (b = None \<or> b = Some (fst (snd p))) \<and> (s = None \<or> s = Some (snd (snd p))))"

lemma printed_style:
  assumes "sent_style st (ps_style s)"
  shows "printed s buf (style_commands st l @ rest) = printed (s\<lparr>ps_style := style_of l\<rparr>) buf rest"
proof -
  obtain a b z where st: "st = (a, b, z)" by (cases st)
  obtain pa pb pz where p: "ps_style s = (pa, pb, pz)" by (cases "ps_style s")
  obtain la lb lz where l: "style_of l = (la, lb, lz)" by (cases "style_of l")
  have same: "s\<lparr>ps_style := (pa, pb, pz)\<rparr> = s" using p by simp
  from assms show ?thesis
    by (auto simp: sent_style_def style_commands_def st p l printed_commands set_align_def set_bold_def set_size_def ESC_def GS_def) (metis same)+
qed

lemma printed_lines:
  assumes "encodeLines nfd cp st ls = Some bs" and "sent_style st (ps_style s)"
  shows "\<exists>f. printed s [] (bs @ rest) = map_option ((@) (wanted_lines nfd cp (ps_codepage s) (ps_style s) ls)) (printed (s\<lparr>ps_style := f\<rparr>) [] rest)"
  using assms
proof (induction ls arbitrary: st s bs)
  case Nil
  have "s\<lparr>ps_style := ps_style s\<rparr> = s" by simp
  with Nil show ?case by (intro exI [of _ "ps_style s"]) (cases "printed s [] rest"; simp)
next
  case (Cons l ls)
  show ?case
  proof (cases "rl_barcode l")
    case (Some d)
    with Cons.prems(1) obtain x y where x: "encodeForCodepage nfd d cp = Some x" and y: "encodeLines nfd cp st ls = Some y"
      and bs: "bs = [GS, 72, 0] @ [GS, 119, 2] @ [GS, 104, 80] @ [GS, 107, 73, min 255 (length x + 2)] @ take (min 255 (length x + 2)) (123 # 66 # x) @ [LF] @ y"
      by (auto simp: encodeCode128_def bind_eq_Some_conv Let_def)
    have n: "min 255 (length x + 2) = length (code128_payload x)" by (simp add: code128_payload_def)
    have take: "take (min 255 (length x + 2)) (123 # 66 # x) = code128_payload x" by (simp add: code128_payload_def min_def)
    have step: "printed s [] (bs @ rest) =
        map_option ((#) (PaperBarcode (code128_payload x))) (map_option ((#) (PaperLine (ps_style s) (ps_codepage s) [])) (printed s [] (y @ rest)))"
      unfolding bs take unfolding n GS_def LF_def
      by (simp add: printed_commands printed_barcode)
    from Cons.IH [OF y Cons.prems(2)] obtain f where "printed s [] (y @ rest) =
        map_option ((@) (wanted_lines nfd cp (ps_codepage s) (ps_style s) ls)) (printed (s\<lparr>ps_style := f\<rparr>) [] rest)" by blast
    with step Some x show ?thesis by (intro exI [of _ f]) (simp add: option.map_comp comp_def)
  next
    case None
    with Cons.prems(1) obtain x y where x: "encodeForCodepage nfd (rl_text l) cp = Some x"
      and y: "encodeLines nfd cp (case style_of l of (a, b, s) \<Rightarrow> (Some a, Some b, Some s)) ls = Some y"
      and bs: "bs = style_commands st l @ x @ [LF] @ y"
      by (auto simp: bind_eq_Some_conv)
    let ?s = "s\<lparr>ps_style := style_of l\<rparr>"
    have step: "printed s [] (bs @ rest) = map_option ((#) (PaperLine (style_of l) (ps_codepage s) x)) (printed ?s [] (y @ rest))"
      using printed_style [OF Cons.prems(2)] printed_text [OF encode_visible [OF x]] by (simp add: bs LF_def printed_commands)
    have "sent_style (case style_of l of (a, b, s) \<Rightarrow> (Some a, Some b, Some s)) (ps_style ?s)"
      by (simp add: sent_style_def split: prod.splits)
    from Cons.IH [OF y this] obtain f where "printed ?s [] (y @ rest) =
        map_option ((@) (wanted_lines nfd cp (ps_codepage s) (style_of l) ls)) (printed (?s\<lparr>ps_style := f\<rparr>) [] rest)" by auto
    with step None x show ?thesis by (intro exI [of _ f]) (simp add: option.map_comp comp_def)
  qed
qed

definition cut_item :: "cut_mode \<Rightarrow> int \<Rightarrow> paper_item" where
  "cut_item mode feed = (if mode = CUT_NONE then PaperFeed (byte_range feed)
     else PaperCut (if mode = CUT_FULL then 65 else 66) (byte_range (feed * 8)))"

lemma printed_cut: "printed s [] (cutCommand mode feed @ rest) = map_option ((#) (cut_item mode feed)) (printed s [] rest)"
  by (simp add: cutCommand_def cut_item_def ESC_def GS_def printed_commands)

definition wanted_copy :: "(nat \<Rightarrow> nat list) \<Rightarrow> rendered_line list \<Rightarrow> codepage \<Rightarrow> nat \<Rightarrow> cut_mode \<Rightarrow> int \<Rightarrow> paper_item list" where
  "wanted_copy nfd ls cp n mode feed = wanted_lines nfd cp n (0, 0, 0) ls @ [cut_item mode feed]"

lemma printed_copies:
  assumes "encodeLines nfd cp (None, None, None) ls = Some x"
  shows "printed s [] (concat (replicate k ([ESC, 64] @ [ESC, 116, n] @ [ESC, 82, 0] @ x @ [ESC, 97, 0] @ [ESC, 69, 0] @ [GS, 33, 0] @ cutCommand mode feed))) =
     Some (concat (replicate k (wanted_copy nfd ls cp n mode feed)))"
proof (induction k arbitrary: s)
  case (Suc k)
  let ?rest = "concat (replicate k ([ESC, 64] @ [ESC, 116, n] @ [ESC, 82, 0] @ x @ [ESC, 97, 0] @ [ESC, 69, 0] @ [GS, 33, 0] @ cutCommand mode feed))"
  let ?s = "printer_reset\<lparr>ps_codepage := n\<rparr>"
  have "sent_style (None, None, None) (ps_style ?s)" by (simp add: sent_style_def)
  from printed_lines [OF assms this, of "[ESC, 97, 0] @ [ESC, 69, 0] @ [GS, 33, 0] @ cutCommand mode feed @ ?rest"] obtain f where
    "printed ?s [] (x @ [ESC, 97, 0] @ [ESC, 69, 0] @ [GS, 33, 0] @ cutCommand mode feed @ ?rest) =
       map_option ((@) (wanted_lines nfd cp n (0, 0, 0) ls)) (printed (?s\<lparr>ps_style := f\<rparr>) [] ([ESC, 97, 0] @ [ESC, 69, 0] @ [GS, 33, 0] @ cutCommand mode feed @ ?rest))"
    by (auto simp: printer_reset_def)
  with Suc show ?case by (simp add: ESC_def GS_def printed_commands printed_cut wanted_copy_def)
qed simp

lemma encode_lines_total: "nfd_full nfd \<Longrightarrow> \<exists>bs. encodeLines nfd cp st ls = Some bs"
proof (induction ls arbitrary: st)
  case (Cons l ls)
  show ?case
  proof (cases "rl_barcode l")
    case None
    obtain x where x: "encodeForCodepage nfd (rl_text l) cp = Some x" using encode_total [OF Cons.prems] by blast
    obtain y where "encodeLines nfd cp (case style_of l of (a, b, s) \<Rightarrow> (Some a, Some b, Some s)) ls = Some y"
      using Cons.IH [OF Cons.prems] by blast
    with x None show ?thesis by simp
  next
    case (Some d)
    obtain x where x: "encodeForCodepage nfd d cp = Some x" using encode_total [OF Cons.prems] by blast
    obtain y where "encodeLines nfd cp st ls = Some y" using Cons.IH [OF Cons.prems] by blast
    with x Some show ?thesis by (simp add: encodeCode128_def Let_def)
  qed
qed simp

end
