(* ===== verification/VO_Paper_Props.thy ===== *)
theory VO_Paper_Props
  imports VO_Paper_Laws
begin

text \<open>
  Properties of printing: the encoder ends and injects nothing, the printer shows exactly the lines of the layout, and
  the layout keeps the text and the paper width.
\<close>

text \<open>A decomposition for the witnesses: A with macron, and a letter without decomposition.\<close>

definition sample_nfd :: "nat \<Rightarrow> nat list" where
  "sample_nfd c = (if c = 256 then [65, 772] else [c])"

lemma sample_nfd_full: "nfd_full sample_nfd"
  by (simp add: nfd_full_def sample_nfd_def)

text \<open>
  Whatever text is to be printed (product names, notes and voucher codes come from users), the encoder ends, and every byte it
  produces is a visible character of the code page: neither a control byte nor DEL, so no text can issue a printer command.
\<close>

theorem printing_ends_without_commands:
  assumes "nfd_full nfd"
  shows "\<exists>bs. encodeForCodepage nfd t cp = Some bs \<and> (\<forall>b \<in> set bs. 32 \<le> b \<and> b \<noteq> 127 \<and> b < 256)"
  using encode_total [OF assms, of t cp] encode_visible [of nfd t cp] by (auto simp: visible_byte_def)

theorem printing_ends_without_commands_witness:
  "\<exists>bs. encodeForCodepage sample_nfd [27, 64, 256, 8364] CP437 = Some bs \<and> (\<forall>b \<in> set bs. 32 \<le> b \<and> b \<noteq> 127 \<and> b < 256)"
  by (rule printing_ends_without_commands [OF sample_nfd_full])

text \<open>
  Text made of characters a code page has is printed one byte per character and comes back from its bytes unchanged.
\<close>

theorem codepage_roundtrip:
  assumes "well_formed t" and "\<forall>c \<in> set (codepoints t). shown_by cp c"
  shows "\<exists>bs. encodeForCodepage nfd t cp = Some bs \<and> decodeFromCodepage bs cp = t \<and> length bs = length (codepoints t)"
  by (rule shown_roundtrip [OF assms])

theorem codepage_roundtrip_witness:
  "\<exists>bs. encodeForCodepage sample_nfd [49, 50, 44, 53, 48, 32, 8364, 252] CP858 = Some bs \<and>
     decodeFromCodepage bs CP858 = [49, 50, 44, 53, 48, 32, 8364, 252] \<and> length bs = length (codepoints [49, 50, 44, 53, 48, 32, 8364, 252])"
  by (rule codepage_roundtrip)
    (simp_all add: shown_by_def printable_def CODEPAGE_TABLES_def SHARED_def LATIN1_EXTRA_def is_high_def is_low_def)

text \<open>
  C33. A printer that starts in any state and reads the stream prints, for each copy, exactly the lines of the layout, each with the
  alignment, emphasis and size of its line although only changes are sent, in the selected code page, bar codes as bar codes (sent without a style of their own), and then
  the requested cut; nothing remains and no byte is misread as a command.
\<close>

theorem paper_shows_lines:
  assumes "nfd_full nfd"
  shows "\<exists>bs. encodeEscPos nfd ls \<lparr>eo_codepage = Some cp, eo_codepageProfile = Some profile, eo_cutMode = Some mode,
        eo_copies = copies, eo_feedBeforeCut = Some feed\<rparr> = Some bs \<and>
     printed s [] bs = Some (concat (replicate (copies_of copies)
       (wanted_lines nfd cp (CODEPAGE_COMMANDS profile cp) (0, 0, 0) ls @ [cut_item mode feed])))"
proof -
  obtain x where x: "encodeLines nfd cp (None, None, None) ls = Some x" using encode_lines_total [OF assms] by blast
  from printed_copies [OF x] show ?thesis by (simp add: encodeEscPos_def x wanted_copy_def)
qed

theorem paper_shows_lines_witness:
  "\<exists>bs. encodeEscPos sample_nfd [emptyLine\<lparr>rl_text := lit ''Bon'', rl_bold := True\<rparr>] \<lparr>eo_codepage = Some CP858, eo_codepageProfile = Some MUNBYN_CLONE,
        eo_cutMode = Some CUT_FULL, eo_copies = Some 2, eo_feedBeforeCut = Some 4\<rparr> = Some bs \<and>
     printed \<lparr>ps_style = (2, 1, 17), ps_codepage = 5\<rparr> [] bs = Some (concat (replicate (copies_of (Some 2))
       (wanted_lines sample_nfd CP858 (CODEPAGE_COMMANDS MUNBYN_CLONE CP858) (0, 0, 0) [emptyLine\<lparr>rl_text := lit ''Bon'', rl_bold := True\<rparr>] @ [cut_item CUT_FULL 4])))"
  by (rule paper_shows_lines [OF sample_nfd_full])

text \<open>
  Breaking a text into lines loses nothing and adds nothing: the visible characters of the lines are those of the text in order,
  no line is longer than the column count, and there is always a line.
\<close>

theorem wrap_keeps_text:
  "concat (map ink (wrapText t columns)) = ink t \<and> list_all (\<lambda>l. length l \<le> max 1 columns) (wrapText t columns) \<and> wrapText t columns \<noteq> []"
  using wrapText_fits [of _ t columns] by (auto simp: wrapText_ink wrapText_not_Nil list_all_iff)

text \<open>
  A document whose two-column lines have a right column at least two characters narrower than the paper is laid out within the
  paper: no line is longer than the columns of its print width, so the printer never breaks a line itself.
\<close>

theorem document_within_paper:
  assumes "2 \<le> pp_columns p" and "list_all (block_fits (pp_columns p)) (doc_blocks d)"
  shows "list_all (\<lambda>l. rl_barcode l = None \<longrightarrow> length (rl_text l) \<le> (if rl_doubleWidth l then pp_columns p div 2 else pp_columns p)) (renderDocument d p)"
  using assms render_block_fits [OF assms(1)] by (fastforce simp: list_all_iff renderDocument_def line_width_def)

theorem document_within_paper_witness:
  "list_all (\<lambda>l. rl_barcode l = None \<longrightarrow> length (rl_text l) \<le> (if rl_doubleWidth l then pp_columns PAPER_58 div 2 else pp_columns PAPER_58))
     (renderDocument \<lparr>doc_title = [], doc_blocks = [ColumnsBlock \<lparr>cb_left = replicate 40 65, cb_right = lit ''12,50'', cb_fill = Some [46], cb_bold = False\<rparr>]\<rparr> PAPER_58)"
  by (rule document_within_paper) (simp_all add: PAPER_58_def block_fits_def lit_def)

text \<open>A right column of the full width overflows: the layout does not shorten it.\<close>

lemma long_value_overflows:
  assumes "columns \<le> length (cb_right b)"
  shows "columns < length (last (renderColumns b columns))"
  using assms by (simp add: renderColumns_def Let_def)

end
