(* ===== verification/VO_Documents.thy ===== *)
theory VO_Documents
  imports VO_Paper
begin

text \<open>
  The documents of the print worker: from the content of a print job to blocks
  (\<^verbatim>\<open>src/apps/print-worker/src/printing/documents.ts\<close> and \<^verbatim>\<open>format.ts\<close>). The content is any JSON value;
  reading a property of \<^verbatim>\<open>null\<close> or iterating what is not iterable is the only error. Upper case of a text and the
  local time of a date text are parameters of the environment.
\<close>

datatype wjson = WNull | WBool bool | WNum int | WStr jstext | WArr "wjson list" | WObj "(jstext \<times> wjson) list"

record worker_env =
  we_nfd :: "nat \<Rightarrow> nat list"
  we_upper :: "jstext \<Rightarrow> jstext"
  we_local :: "jstext \<Rightarrow> (nat \<times> nat \<times> nat \<times> nat \<times> nat \<times> nat) option"

datatype doc_error = TypeError

section \<open>Values of JavaScript\<close>

definition num_text :: "int \<Rightarrow> jstext" where
  "num_text n = lit (int_text n)"

definition wget :: "string \<Rightarrow> wjson \<Rightarrow> wjson option" where
  "wget k v = (case v of WObj ps \<Rightarrow> map_of ps (lit k) | _ \<Rightarrow> None)"

definition missing :: "wjson option \<Rightarrow> bool" where
  "missing v \<longleftrightarrow> v = None \<or> v = Some WNull"

text \<open>\<^verbatim>\<open>a ?? b\<close>\<close>

definition nullish :: "wjson option \<Rightarrow> wjson \<Rightarrow> wjson" where
  "nullish v d = (case v of None \<Rightarrow> d | Some WNull \<Rightarrow> d | Some x \<Rightarrow> x)"

fun join_commas :: "jstext list \<Rightarrow> jstext" where
  "join_commas [] = []"
| "join_commas [x] = x"
| "join_commas (x # y # xs) = x @ 44 # join_commas (y # xs)"

text \<open>\<^verbatim>\<open>String(value)\<close>\<close>

fun wstring :: "wjson \<Rightarrow> jstext" where
  "wstring WNull = lit ''null''"
| "wstring (WBool b) = lit (if b then ''true'' else ''false'')"
| "wstring (WNum n) = num_text n"
| "wstring (WStr t) = t"
| "wstring (WArr vs) = join_commas (map (\<lambda>v. if v = WNull then [] else wstring v) vs)"
| "wstring (WObj ps) = lit ''[object Object]''"

text \<open>\<^verbatim>\<open>Number(value)\<close>; \<open>None\<close> is \<^verbatim>\<open>NaN\<close>.\<close>

definition wnumber :: "wjson option \<Rightarrow> int option" where
  "wnumber v = (case v of None \<Rightarrow> None | Some x \<Rightarrow> (case x of WNull \<Rightarrow> Some 0 | WBool b \<Rightarrow> Some (if b then 1 else 0) | WNum n \<Rightarrow> Some n
     | WStr t \<Rightarrow> text_num t | WArr vs \<Rightarrow> text_num (wstring x) | WObj ps \<Rightarrow> None))"

definition wtruthy :: "wjson option \<Rightarrow> bool" where
  "wtruthy v = (case v of None \<Rightarrow> False | Some x \<Rightarrow> (case x of WNull \<Rightarrow> False | WBool b \<Rightarrow> b | WNum n \<Rightarrow> n \<noteq> 0 | WStr t \<Rightarrow> t \<noteq> []
     | WArr vs \<Rightarrow> True | WObj ps \<Rightarrow> True))"

text \<open>\<^verbatim>\<open>for (const x of value ?? [])\<close>\<close>

definition iterate :: "wjson option \<Rightarrow> doc_error + wjson list" where
  "iterate v = (case nullish v (WArr []) of WArr vs \<Rightarrow> Inr vs
     | WStr t \<Rightarrow> Inr (map (\<lambda>c. WStr (utf16 c)) (codepoints t)) | _ \<Rightarrow> Inl TypeError)"

text \<open>\<^verbatim>\<open>Object.entries(value ?? {})\<close>\<close>

definition entries :: "wjson option \<Rightarrow> (jstext \<times> wjson) list" where
  "entries v = (case nullish v (WObj []) of WObj ps \<Rightarrow> ps
     | WArr vs \<Rightarrow> map (\<lambda>(i, x). (num_text (int i), x)) (enumerate 0 vs)
     | WStr t \<Rightarrow> map (\<lambda>(i, u). (num_text (int i), WStr [u])) (enumerate 0 t) | _ \<Rightarrow> [])"

section \<open>Formatting\<close>

text \<open>A dot before every group of three digits, counted from the end.\<close>

fun grouped :: "jstext \<Rightarrow> jstext" where
  "grouped [] = []"
| "grouped (d # ds) = (if ds \<noteq> [] \<and> length ds mod 3 = 0 then d # 46 # grouped ds else d # grouped ds)"

definition pad2 :: "nat \<Rightarrow> jstext" where
  "pad2 n = (if n < 10 then [48] else []) @ num_text (int n)"

definition format_cents :: "int \<Rightarrow> jstext" where
  "format_cents n = (if n < 0 then [45] else []) @ grouped (num_text (\<bar>n\<bar> div 100)) @ 44 # pad2 (nat (\<bar>n\<bar> mod 100))"

definition formatAmount :: "wjson option \<Rightarrow> jstext" where
  "formatAmount v = format_cents (case wnumber v of None \<Rightarrow> 0 | Some n \<Rightarrow> n)"

definition formatCurrency :: "wjson option \<Rightarrow> jstext" where
  "formatCurrency v = formatAmount v @ [32, 8364]"

definition formatDateTime :: "worker_env \<Rightarrow> wjson option \<Rightarrow> jstext" where
  "formatDateTime env v = (if \<not> wtruthy v then [45] else (case we_local env (wstring (nullish v WNull)) of
     None \<Rightarrow> [45]
   | Some (day, month, year, h, mi, s) \<Rightarrow> pad2 day @ 46 # pad2 month @ 46 # num_text (int year) @ 32 # pad2 h @ 58 # pad2 mi @ 58 # pad2 s))"

fun firstText :: "wjson option list \<Rightarrow> jstext" where
  "firstText [] = []"
| "firstText (v # vs) = (if missing v then firstText vs
     else (let t = unit_trim (wstring (nullish v WNull)) in if t \<noteq> [] then t else firstText vs))"

definition extraLabel :: "wjson \<Rightarrow> jstext" where
  "extraLabel e = (case e of WNull \<Rightarrow> [] | WStr t \<Rightarrow> unit_trim t
     | WArr vs \<Rightarrow> [] | WObj ps \<Rightarrow> firstText [wget ''name'' e, wget ''label'' e, wget ''title'' e]
     | _ \<Rightarrow> wstring e)"

definition toQuantity :: "wjson option \<Rightarrow> int" where
  "toQuantity v = (case wnumber v of Some n \<Rightarrow> (if 0 < n then n else 1) | None \<Rightarrow> 1)"

section \<open>Building blocks\<close>

record print_job_like =
  wj_id :: "jstext option"
  wj_jobType :: "jstext option"
  wj_content :: "wjson option"
  wj_createdAt :: "jstext option"

definition job_content :: "print_job_like \<Rightarrow> wjson" where
  "job_content job = nullish (wj_content job) (WObj [])"

definition created :: "print_job_like \<Rightarrow> wjson option" where
  "created job = map_option WStr (wj_createdAt job)"

definition words :: "jstext \<Rightarrow> wjson option" where
  "words t = Some (WStr t)"

definition paymentLabel :: "worker_env \<Rightarrow> wjson option \<Rightarrow> jstext" where
  "paymentLabel env m = (let key = we_upper env (wstring (nullish m (WStr []))) in
     if key = lit ''CASH'' then lit ''Bar'' else if key = lit ''CARD'' then lit ''Karte''
     else if key = lit ''VOUCHER'' then lit ''Gutschein'' else firstText [m, words (lit ''Zahlung'')])"

definition codepageProfileLabel :: "worker_env \<Rightarrow> wjson option \<Rightarrow> jstext" where
  "codepageProfileLabel env p = (let key = we_upper env (wstring (nullish p (WStr []))) in
     if key = lit ''EPSON_STANDARD'' then lit ''Epson-Standard'' else if key = lit ''MUNBYN_CLONE'' then lit ''MUNBYN / Nachbau''
     else firstText [p, words (lit ''Epson-Standard'')])"

definition plain :: "jstext \<Rightarrow> text_block" where
  "plain t = \<lparr>tb_text = t, tb_indent = 0, tb_align = ALeft, tb_bold = False, tb_doubleHeight = False, tb_doubleWidth = False\<rparr>"

definition centered :: "jstext \<Rightarrow> document_block" where
  "centered t = TextBlock ((plain t)\<lparr>tb_align := ACenter\<rparr>)"

definition centered_bold :: "jstext \<Rightarrow> document_block" where
  "centered_bold t = TextBlock ((plain t)\<lparr>tb_align := ACenter, tb_bold := True\<rparr>)"

definition big :: "jstext \<Rightarrow> document_block" where
  "big t = TextBlock ((plain t)\<lparr>tb_align := ACenter, tb_bold := True, tb_doubleHeight := True\<rparr>)"

definition heading :: "jstext \<Rightarrow> document_block list" where
  "heading t = [big t]"

definition labelled :: "jstext \<Rightarrow> jstext \<Rightarrow> document_block" where
  "labelled label v = ColumnsBlock \<lparr>cb_left = label, cb_right = v, cb_fill = None, cb_bold = False\<rparr>"

definition bold_columns :: "jstext \<Rightarrow> jstext \<Rightarrow> document_block" where
  "bold_columns label v = ColumnsBlock \<lparr>cb_left = label, cb_right = v, cb_fill = None, cb_bold = True\<rparr>"

definition rule_block :: document_block where
  "rule_block = RuleBlock None"

definition copyNotice :: "worker_env \<Rightarrow> wjson \<Rightarrow> document_block list" where
  "copyNotice env c = (if \<not> wtruthy (wget ''isCopy'' c) then [] else
     [big (lit ''*** KOPIE ***''), centered_bold ((lit ''Nachdruck: '') @ formatDateTime env (wget ''reprintedAt'' c))])"

definition line_price :: "wjson \<Rightarrow> int" where
  "line_price item = (case wnumber (wget ''totalPrice'' item) of Some n \<Rightarrow> n
     | None \<Rightarrow> (case wnumber (Some (nullish (wget ''price'' item) (WNum 0))) of Some p \<Rightarrow> p * toQuantity (wget ''quantity'' item) | None \<Rightarrow> 0))"

definition itemLines :: "bool \<Rightarrow> wjson \<Rightarrow> doc_error + document_block list" where
  "itemLines withPrice item = (if item = WNull then Inl TypeError else
     (let name = num_text (toQuantity (wget ''quantity'' item)) @ lit ''x '' @
            firstText [wget ''productName'' item, wget ''name'' item, words (lit ''Position'')];
          variant = firstText [wget ''variantName'' item, wget ''variant'' item]
      in bind_res (iterate (wget ''extras'' item)) (\<lambda>extras. Inr
        ((if withPrice then ColumnsBlock \<lparr>cb_left = name, cb_right = formatCurrency (Some (WNum (line_price item))), cb_fill = Some [46], cb_bold = False\<rparr>
          else TextBlock ((plain name)\<lparr>tb_bold := True\<rparr>)) #
         (if variant = [] then [] else [TextBlock ((plain (lit ''> '' @ variant))\<lparr>tb_indent := 3\<rparr>)]) @
         map (\<lambda>l. TextBlock ((plain (lit ''+ '' @ l))\<lparr>tb_indent := 3\<rparr>)) (filter (\<lambda>l. l \<noteq> []) (map extraLabel extras))))))"

definition all_items :: "bool \<Rightarrow> wjson \<Rightarrow> doc_error + document_block list" where
  "all_items withPrice c = bind_res (iterate (wget ''items'' c)) (\<lambda>items.
     bind_res (map_res (itemLines withPrice) items) (\<lambda>bs. Inr (concat bs)))"

definition RKSV_HINT :: jstext where
  "RKSV_HINT = (lit ''VereinOrder ist keine RKSV-Registrierkasse.'')"

definition NO_RKSV_RECEIPT_HINT :: jstext where
  "NO_RKSV_RECEIPT_HINT = (lit ''Kein RKSV-Beleg.'')"

definition footer :: "wjson \<Rightarrow> document_block list" where
  "footer c = [rule_block, centered (firstText [wget ''rksvDisclaimer'' c, words RKSV_HINT])]"

definition voucherFooter :: "wjson \<Rightarrow> document_block list" where
  "voucherFooter c = [rule_block, centered_bold NO_RKSV_RECEIPT_HINT] @ footer c"

definition voucherMode :: "worker_env \<Rightarrow> wjson \<Rightarrow> document_block list" where
  "voucherMode env c = (let mode = we_upper env (firstText [wget ''dataMode'' c, wget ''mode'' c, words (lit ''LIVE'')]) in
     labelled (lit ''Betriebsart'') (if mode = lit ''TEST'' then (lit ''TESTBETRIEB'') else mode) #
     (if mode = lit ''TEST'' then [big (lit ''*** TESTBETRIEB ***'')] else []))"

definition voucherCodeBlocks :: "wjson \<Rightarrow> document_block list" where
  "voucherCodeBlocks c = (let code = firstText [wget ''voucherCode'' c] in
     [rule_block, centered (lit ''Gutschein-Code''), big (if code \<noteq> [] then code else (lit ''NICHT VERF'' @ [220] @ lit ''GBAR''))] @
     (if code \<noteq> [] then [BarcodeBlock code] else []))"

definition event_line :: "wjson \<Rightarrow> document_block" where
  "event_line c = centered (firstText [wget ''eventName'' c, words (lit ''Vereinsfest'')])"

section \<open>The kinds of receipts\<close>

definition valueVoucherIssue :: "worker_env \<Rightarrow> print_job_like \<Rightarrow> print_document" where
  "valueVoucherIssue env job = (let c = job_content job in \<lparr>doc_title = (lit ''Wertgutschein''), doc_blocks =
     heading (lit ''WERTGUTSCHEIN'') @ [event_line c, rule_block] @ voucherMode env c @
     [labelled (lit ''Ausgestellt'') (formatDateTime env (words (firstText [wget ''issuedAt'' c, created job]))),
      bold_columns (lit ''Guthaben'') (formatCurrency (wget ''initialBalance'' c))] @
     voucherCodeBlocks c @ voucherFooter c\<rparr>)"

definition valueVoucherBalance :: "worker_env \<Rightarrow> print_job_like \<Rightarrow> print_document" where
  "valueVoucherBalance env job = (let c = job_content job; cancelled = wget ''cancelledBalance'' c in \<lparr>doc_title = (lit ''Restwertbon''), doc_blocks =
     heading (lit ''RESTWERTBON'') @ [event_line c, rule_block] @ voucherMode env c @
     [labelled (lit ''Zeitpunkt'') (formatDateTime env (words (firstText [wget ''redeemedAt'' c, created job])))] @
     (if cancelled \<noteq> None then [bold_columns (lit ''Stornierter Wert'') (formatCurrency cancelled)]
      else [labelled (lit ''Eingel'' @ [246] @ lit ''st'') (formatCurrency (wget ''redeemedAmount'' c)),
            bold_columns (lit ''Restguthaben'') (formatCurrency (wget ''currentBalance'' c))]) @
     voucherCodeBlocks c @ voucherFooter c\<rparr>)"

definition pickup_line :: "wjson \<Rightarrow> document_block list" where
  "pickup_line c = (if missing (wget ''pickupNumber'' c) then []
     else [labelled (lit ''Abholnummer'') (wstring (nullish (wget ''pickupNumber'' c) WNull))])"

definition stationTicket :: "worker_env \<Rightarrow> print_job_like \<Rightarrow> doc_error + print_document" where
  "stationTicket env job = (let c = job_content job in
     bind_res (all_items False c) (\<lambda>items. Inr \<lparr>doc_title = (lit ''Stationsbon''), doc_blocks =
     heading (firstText [wget ''title'' c, words (lit ''ABHOL-/K'' @ [220] @ lit ''CHENBON'')]) @
     [centered_bold (firstText [wget ''stationName'' c, words (lit ''Zentrale Ausgabe'')])] @
     (if wtruthy (wget ''isPriority'' c) then [centered_bold (lit ''*** PRIORIT'' @ [196] @ lit ''T - EILT ***'')] else []) @
     [rule_block,
      labelled (lit ''Bestellung'') (35 # firstText [wget ''orderNumber'' c, wget ''orderId'' c, words [45]]),
      labelled (lit ''Tisch/Bereich'') (firstText [wget ''tableName'' c, words (lit ''Theke'')])] @
     pickup_line c @
     [labelled (lit ''Bedienung'') (firstText [wget ''waiterName'' c, words (lit ''Kellner'')]),
      labelled (lit ''Zeitpunkt'') (formatDateTime env (words (firstText [wget ''createdAt'' c, created job]))),
      rule_block] @
     items @ [rule_block]\<rparr>))"

definition productVoucher :: "worker_env \<Rightarrow> print_job_like \<Rightarrow> print_document" where
  "productVoucher env job = (let c = job_content job; hasPickup = \<not> missing (wget ''pickupNumber'' c);
       variant = firstText [wget ''variantName'' c] in \<lparr>doc_title = (lit ''Produktbon''), doc_blocks =
     heading (firstText [wget ''title'' c, words (lit ''PRODUKTBON'')]) @ copyNotice env c @
     [event_line c, rule_block,
      labelled (lit ''Bestellung'') (35 # firstText [wget ''orderNumber'' c, words [45]]),
      labelled (lit ''Ausgabe'') (firstText [wget ''stationName'' c, words (lit ''Zentrale Ausgabe'')]),
      labelled (lit ''Ausgestellt'') (formatDateTime env (words (firstText [wget ''issuedAt'' c, created job]))),
      rule_block] @
     (if hasPickup then [centered (lit ''Abholnummer''), big (wstring (nullish (wget ''pickupNumber'' c) WNull)), rule_block] else []) @
     [big (num_text (toQuantity (wget ''quantity'' c)) @ lit ''x '' @ firstText [wget ''productName'' c, words (lit ''Produkt'')])] @
     (if variant = [] then [] else [centered variant]) @
     [rule_block, centered (lit ''Bon-Code''),
      TextBlock ((plain (firstText [wget ''voucherCode'' c, words (lit ''NICHT VERF'' @ [220] @ lit ''GBAR'')]))\<lparr>tb_align := ACenter, tb_bold := True,
        tb_doubleHeight := \<not> hasPickup\<rparr>)] @
     footer c\<rparr>)"

definition payment_line :: "worker_env \<Rightarrow> wjson \<Rightarrow> doc_error + document_block" where
  "payment_line env p = (if p = WNull then Inl TypeError
     else Inr (labelled ((lit ''Zahlung '') @ paymentLabel env (wget ''method'' p)) (formatCurrency (wget ''amount'' p))))"

definition positive_amount :: "wjson option \<Rightarrow> int option" where
  "positive_amount v = (case wnumber (Some (nullish v (WNum 0))) of Some n \<Rightarrow> (if 0 < n then Some n else None) | None \<Rightarrow> None)"

definition receipt :: "worker_env \<Rightarrow> print_job_like \<Rightarrow> doc_error + print_document" where
  "receipt env job = (let c = job_content job in
     bind_res (all_items True c) (\<lambda>items.
     bind_res (iterate (wget ''payments'' c)) (\<lambda>ps.
     bind_res (map_res (payment_line env) ps) (\<lambda>payments. Inr \<lparr>doc_title = (lit ''Kassenbeleg''), doc_blocks =
     heading (firstText [wget ''title'' c, words (lit ''KASSENBELEG'')]) @ copyNotice env c @
     [event_line c, rule_block,
      labelled (lit ''Bestellung'') (35 # firstText [wget ''orderNumber'' c, wget ''orderId'' c, words [45]]),
      labelled (lit ''Tisch/Bereich'') (firstText [wget ''tableName'' c, words (lit ''Theke'')]),
      labelled (lit ''Bedienung'') (firstText [wget ''waiterName'' c, words (lit ''Kellner'')]),
      labelled (lit ''Datum'') (formatDateTime env (words (firstText [wget ''createdAt'' c, created job])))] @
     pickup_line c @ [rule_block] @ items @
     [rule_block, bold_columns (lit ''GESAMT'') (formatCurrency (wget ''totalAmount'' c))] @ payments @
     (case positive_amount (wget ''tenderedAmount'' c) of None \<Rightarrow> [] | Some n \<Rightarrow> [labelled (lit ''Gegeben'') (formatCurrency (Some (WNum n)))]) @
     (case positive_amount (wget ''changeAmount'' c) of None \<Rightarrow> [] | Some n \<Rightarrow> [bold_columns (lit ''R'' @ [252] @ lit ''ckgeld'') (formatCurrency (Some (WNum n)))]) @
     footer c @ [centered (lit ''Vielen Dank f'' @ [252] @ lit ''r die Unterst'' @ [252] @ lit ''tzung!'')]\<rparr>))))"

definition cashierClosing :: "worker_env \<Rightarrow> print_job_like \<Rightarrow> print_document" where
  "cashierClosing env job = (let c = job_content job; note_text = firstText [wget ''note'' c] in \<lparr>doc_title = (lit ''Kassenabschluss''), doc_blocks =
     heading (firstText [wget ''title'' c, words (lit ''KASSENABSCHLUSS'')]) @
     [event_line c, rule_block,
      labelled (lit ''Kassier'') (firstText [wget ''cashierName'' c, words [45]]),
      labelled (lit ''Kasse'') (firstText [wget ''sessionName'' c, wget ''sessionId'' c, words [45]]),
      labelled (lit ''Beginn'') (formatDateTime env (wget ''openedAt'' c)),
      labelled (lit ''Ende'') (formatDateTime env (words (firstText [wget ''closedAt'' c, created job]))),
      rule_block,
      labelled (lit ''Bestellungen'') (num_text (case wnumber (wget ''orderCount'' c) of None \<Rightarrow> 0 | Some n \<Rightarrow> n)),
      labelled (lit ''Startgeld'') (formatCurrency (wget ''startingCash'' c))] @
     map (\<lambda>(m, amount). labelled (paymentLabel env (words m)) (formatCurrency (Some amount))) (entries (wget ''totals'' c)) @
     [rule_block, bold_columns (lit ''UMSATZ'') (formatCurrency (wget ''totalAmount'' c)),
      labelled (lit ''Soll-Bestand'') (formatCurrency (wget ''expectedCash'' c)),
      labelled (lit ''Ist-Bestand'') (formatCurrency (wget ''countedCash'' c)),
      bold_columns (lit ''Differenz'') (formatCurrency (wget ''difference'' c))] @
     (if note_text = [] then [] else [rule_block, TextBlock (plain note_text)]) @
     footer c @ [RuleBlock (Some [61]), centered (lit ''Unterschrift''), FeedBlock (Some 2)]\<rparr>)"

definition testPrint :: "worker_env \<Rightarrow> print_job_like \<Rightarrow> print_document" where
  "testPrint env job = (let c = job_content job in \<lparr>doc_title = (lit ''Testdruck''), doc_blocks =
     heading (firstText [wget ''title'' c, words (lit ''TEST-DRUCK'')]) @
     [rule_block,
      labelled (lit ''Drucker'') (firstText [wget ''printerName'' c, words [45]]),
      labelled (lit ''Typ'') (firstText [wget ''printerType'' c, words [45]]),
      labelled (lit ''Papier'') (firstText [wget ''paperWidth'' c, words (lit ''80'')] @ lit '' mm''),
      labelled (lit ''Zeichensatz'') (firstText [wget ''codepage'' c, words (lit ''CP858'')]),
      labelled (lit ''Ger'' @ [228] @ lit ''teprofil'') (codepageProfileLabel env (wget ''codepageProfile'' c)),
      labelled (lit ''Zeitpunkt'') (formatDateTime env (words (firstText [wget ''timestamp'' c, created job]))),
      rule_block,
      centered (firstText [wget ''message'' c, words (lit ''Druckerschnittstelle erfolgreich verbunden!'')]),
      rule_block,
      centered (lit ''Umlautprobe: '' @ [196, 214, 220] @ lit '' '' @ [228, 246, 252] @ lit '' '' @ [223] @ lit '' 1,50 '' @ [8364]),
      ColumnsBlock \<lparr>cb_left = (lit ''Musterposition''), cb_right = (lit ''12,34 '' @ [8364]), cb_fill = Some [46], cb_bold = False\<rparr>] @
     footer c\<rparr>)"

definition is_object :: "wjson \<Rightarrow> bool" where
  "is_object v = (case v of WArr vs \<Rightarrow> True | WObj ps \<Rightarrow> True | _ \<Rightarrow> False)"

definition fallback :: "print_job_like \<Rightarrow> print_document" where
  "fallback job = \<lparr>doc_title = (lit ''Unbekannter Auftrag''), doc_blocks =
     heading (lit ''DRUCKAUFTRAG'') @
     [rule_block,
      labelled (lit ''Typ'') (case wj_jobType job of Some t \<Rightarrow> t | None \<Rightarrow> (lit ''UNBEKANNT'')),
      labelled (lit ''Auftrag'') (case wj_id job of Some t \<Rightarrow> t | None \<Rightarrow> [45]),
      rule_block] @
     map (\<lambda>(k, v). labelled k (wstring v)) (filter (\<lambda>(k, v). v \<noteq> WNull \<and> \<not> is_object v) (entries (Some (job_content job)))) @
     [rule_block]\<rparr>"

definition buildDocument :: "worker_env \<Rightarrow> print_job_like \<Rightarrow> doc_error + print_document" where
  "buildDocument env job = (let t = wj_jobType job in
     if wstring (nullish (wget ''kind'' (job_content job)) (WStr [])) = lit ''TEST_PRINT'' then Inr (testPrint env job)
     else if t = Some (lit ''STATION_TICKET'') then stationTicket env job
     else if t = Some (lit ''PRODUCT_VOUCHER'') then Inr (productVoucher env job)
     else if t = Some (lit ''RECEIPT'') then receipt env job
     else if t = Some (lit ''CASHIER_CLOSING'') then Inr (cashierClosing env job)
     else if t = Some (lit ''VALUE_VOUCHER_ISSUE'') then Inr (valueVoucherIssue env job)
     else if t = Some (lit ''VALUE_VOUCHER_BALANCE'') then Inr (valueVoucherBalance env job)
     else Inr (fallback job))"

end
