(* ===== verification/VO_Ipp.thy ===== *)
theory VO_Ipp
  imports VO_Text
begin

text \<open>
  The Internet Printing Protocol messages of the print worker (\<^verbatim>\<open>src/apps/print-worker/src/ipp/protocol.ts\<close>): the encoder of
  the three requests, the decoder of any message, and what the worker reads from the answers. A \<^verbatim>\<open>RangeError\<close> of a
  \<^verbatim>\<open>Buffer\<close> access is \<open>Inl\<close>.
\<close>

datatype buffer_error = RangeError

section \<open>Tags and codes\<close>

definition OPERATION_ATTRIBUTES :: nat where "OPERATION_ATTRIBUTES = 1"
definition JOB_ATTRIBUTES :: nat where "JOB_ATTRIBUTES = 2"
definition END_OF_ATTRIBUTES :: nat where "END_OF_ATTRIBUTES = 3"

definition IV_INTEGER :: nat where "IV_INTEGER = 33"
definition IV_BOOLEAN :: nat where "IV_BOOLEAN = 34"
definition IV_ENUM :: nat where "IV_ENUM = 35"
definition NAME_WITHOUT_LANGUAGE :: nat where "NAME_WITHOUT_LANGUAGE = 66"
definition IV_KEYWORD :: nat where "IV_KEYWORD = 68"
definition IV_URI :: nat where "IV_URI = 69"
definition IV_CHARSET :: nat where "IV_CHARSET = 71"
definition NATURAL_LANGUAGE :: nat where "NATURAL_LANGUAGE = 72"
definition MIME_MEDIA_TYPE :: nat where "MIME_MEDIA_TYPE = 73"

definition PRINT_JOB :: nat where "PRINT_JOB = 2"
definition CANCEL_JOB :: nat where "CANCEL_JOB = 8"
definition GET_JOB_ATTRIBUTES :: nat where "GET_JOB_ATTRIBUTES = 9"

definition CLIENT_ERROR_NOT_FOUND :: nat where "CLIENT_ERROR_NOT_FOUND = 1030"
definition SERVER_ERROR_NOT_ACCEPTING_JOBS :: nat where "SERVER_ERROR_NOT_ACCEPTING_JOBS = 1286"

definition isSuccessfulStatus :: "nat \<Rightarrow> bool" where
  "isSuccessfulStatus statusCode \<longleftrightarrow> statusCode < 1024"

definition JS_PROCESSING :: int where "JS_PROCESSING = 5"
definition JS_PROCESSING_STOPPED :: int where "JS_PROCESSING_STOPPED = 6"
definition JS_CANCELED :: int where "JS_CANCELED = 7"
definition JS_ABORTED :: int where "JS_ABORTED = 8"
definition JS_COMPLETED :: int where "JS_COMPLETED = 9"

lemmas ipp_tags = OPERATION_ATTRIBUTES_def JOB_ATTRIBUTES_def END_OF_ATTRIBUTES_def IV_INTEGER_def IV_BOOLEAN_def IV_ENUM_def
  NAME_WITHOUT_LANGUAGE_def IV_KEYWORD_def IV_URI_def IV_CHARSET_def NATURAL_LANGUAGE_def MIME_MEDIA_TYPE_def
  PRINT_JOB_def CANCEL_JOB_def GET_JOB_ATTRIBUTES_def

datatype ipp_value = IVText jstext | IVNumber int | IVBool bool

record ipp_attribute =
  at_tag :: nat
  at_name :: jstext
  at_values :: "ipp_value list"

record ipp_group =
  gr_tag :: nat
  gr_attributes :: "ipp_attribute list"

record ipp_message =
  im_versionMajor :: nat
  im_versionMinor :: nat
  im_code :: nat
  im_requestId :: nat
  im_groups :: "ipp_group list"
  im_data :: bytes

section \<open>Numbers in a buffer\<close>

definition write_u8 :: "nat \<Rightarrow> buffer_error + bytes" where
  "write_u8 n = bind_res (ensure (n < 256) RangeError) (\<lambda>_. Inr [n])"

definition write_u16 :: "nat \<Rightarrow> buffer_error + bytes" where
  "write_u16 n = bind_res (ensure (n < 65536) RangeError) (\<lambda>_. Inr [n div 256, n mod 256])"

definition u32_bytes :: "nat \<Rightarrow> bytes" where
  "u32_bytes n = [n div 16777216, n div 65536 mod 256, n div 256 mod 256, n mod 256]"

definition write_int32 :: "int \<Rightarrow> buffer_error + bytes" where
  "write_int32 i = bind_res (ensure (- 2147483648 \<le> i \<and> i \<le> 2147483647) RangeError) (\<lambda>_. Inr (u32_bytes (nat (i mod 4294967296))))"

definition read_u8 :: "bytes \<Rightarrow> buffer_error + nat \<times> bytes" where
  "read_u8 bs = (case bs of a # rest \<Rightarrow> Inr (a, rest) | _ \<Rightarrow> Inl RangeError)"

definition read_u16 :: "bytes \<Rightarrow> buffer_error + nat \<times> bytes" where
  "read_u16 bs = (case bs of a # b # rest \<Rightarrow> Inr (a * 256 + b, rest) | _ \<Rightarrow> Inl RangeError)"

definition read_u32 :: "bytes \<Rightarrow> buffer_error + nat \<times> bytes" where
  "read_u32 bs = (case bs of a # b # c # d # rest \<Rightarrow> Inr (((a * 256 + b) * 256 + c) * 256 + d, rest) | _ \<Rightarrow> Inl RangeError)"

definition int32_of :: "nat \<Rightarrow> int" where
  "int32_of n = (if n < 2147483648 then int n else int n - 4294967296)"

section \<open>Encoding\<close>

text \<open>A buffer stores \<^verbatim>\<open>NaN\<close> as 0.\<close>

definition text_number :: "jstext \<Rightarrow> int" where
  "text_number t = (case text_num t of None \<Rightarrow> 0 | Some n \<Rightarrow> n)"

definition js_Number :: "ipp_value \<Rightarrow> int" where
  "js_Number v = (case v of IVText t \<Rightarrow> text_number t | IVNumber i \<Rightarrow> i | IVBool b \<Rightarrow> (if b then 1 else 0))"

definition js_truthy :: "ipp_value \<Rightarrow> bool" where
  "js_truthy v = (case v of IVText t \<Rightarrow> t \<noteq> [] | IVNumber i \<Rightarrow> i \<noteq> 0 | IVBool b \<Rightarrow> b)"

definition js_String :: "ipp_value \<Rightarrow> jstext" where
  "js_String v = (case v of IVText t \<Rightarrow> t | IVNumber i \<Rightarrow> lit (int_text i) | IVBool b \<Rightarrow> lit (if b then ''true'' else ''false''))"

definition encodeValue :: "nat \<Rightarrow> ipp_value \<Rightarrow> buffer_error + bytes" where
  "encodeValue tag v = (if tag = IV_INTEGER \<or> tag = IV_ENUM then write_int32 (js_Number v)
     else if tag = IV_BOOLEAN then Inr [if js_truthy v then 1 else 0]
     else Inr (utf8_encode (js_String v)))"

text \<open>\<^verbatim>\<open>Buffer.from(name, "ascii")\<close> keeps the low byte of every code unit.\<close>

definition ascii_bytes :: "jstext \<Rightarrow> bytes" where
  "ascii_bytes t = map (\<lambda>u. u mod 256) t"

definition encode_one :: "nat \<Rightarrow> bytes \<Rightarrow> ipp_value \<Rightarrow> buffer_error + bytes" where
  "encode_one tag name v =
     bind_res (encodeValue tag v) (\<lambda>value.
     bind_res (write_u8 tag) (\<lambda>t.
     bind_res (write_u16 (length name)) (\<lambda>n.
     bind_res (write_u16 (length value)) (\<lambda>m.
     Inr (t @ n @ name @ m @ value)))))"

definition encodeAttribute :: "ipp_attribute \<Rightarrow> buffer_error + bytes" where
  "encodeAttribute a = (case at_values a of [] \<Rightarrow> Inr []
     | v # vs \<Rightarrow> bind_res (encode_one (at_tag a) (ascii_bytes (at_name a)) v) (\<lambda>x.
         bind_res (map_res (encode_one (at_tag a) []) vs) (\<lambda>xs. Inr (x @ concat xs))))"

record ipp_request =
  iq_operationId :: nat
  iq_requestId :: nat
  iq_operationAttributes :: "ipp_attribute list"
  iq_jobAttributes :: "ipp_attribute list"
  iq_data :: bytes

definition encodeIppRequest :: "ipp_request \<Rightarrow> buffer_error + bytes" where
  "encodeIppRequest q =
     bind_res (write_u16 (iq_operationId q)) (\<lambda>op.
     bind_res (map_res encodeAttribute (iq_operationAttributes q)) (\<lambda>os.
     bind_res (map_res encodeAttribute (iq_jobAttributes q)) (\<lambda>js.
     Inr ([1, 1] @ op @ u32_bytes (iq_requestId q mod 4294967296) @ [OPERATION_ATTRIBUTES] @ concat os @
       (if iq_jobAttributes q \<noteq> [] then [JOB_ATTRIBUTES] @ concat js else []) @ [END_OF_ATTRIBUTES] @ iq_data q))))"

section \<open>Decoding\<close>

definition decodeValue :: "nat \<Rightarrow> bytes \<Rightarrow> buffer_error + ipp_value" where
  "decodeValue tag bs = (if tag = IV_INTEGER \<or> tag = IV_ENUM then bind_res (read_u32 bs) (\<lambda>(n, _). Inr (IVNumber (int32_of n)))
     else if tag = IV_BOOLEAN then bind_res (read_u8 bs) (\<lambda>(n, _). Inr (IVBool (n = 1)))
     else Inr (IVText (utf8_decode bs)))"

text \<open>Name length, name and value after a value tag, and the bytes behind them; slices stop at the end of the buffer.\<close>

definition read_entry :: "nat \<Rightarrow> bytes \<Rightarrow> buffer_error + (nat \<times> jstext \<times> ipp_value) \<times> bytes" where
  "read_entry tag bs =
     bind_res (read_u16 bs) (\<lambda>(n, bs1).
     bind_res (read_u16 (drop n bs1)) (\<lambda>(m, bs3).
     bind_res (decodeValue tag (take m bs3)) (\<lambda>v.
     Inr ((n, utf8_decode (take n bs1), v), drop m bs3))))"

definition change_last :: "('a \<Rightarrow> 'a) \<Rightarrow> 'a list \<Rightarrow> 'a list" where
  "change_last f xs = (if xs = [] then [] else butlast xs @ [f (last xs)])"

text \<open>The current group is the last one, the current attribute its last one.\<close>

definition add_value :: "ipp_value \<Rightarrow> ipp_group list \<Rightarrow> ipp_group list" where
  "add_value v = change_last (\<lambda>g. g\<lparr>gr_attributes := change_last (\<lambda>a. a\<lparr>at_values := at_values a @ [v]\<rparr>) (gr_attributes g)\<rparr>)"

definition add_attribute :: "ipp_attribute \<Rightarrow> ipp_group list \<Rightarrow> ipp_group list" where
  "add_attribute a gs = (if gs = [] then [\<lparr>gr_tag = 0, gr_attributes = [a]\<rparr>]
     else change_last (\<lambda>g. g\<lparr>gr_attributes := gr_attributes g @ [a]\<rparr>) gs)"

lemma read_u16_length: "read_u16 bs = Inr (n, rest) \<Longrightarrow> length rest < length bs"
  by (auto simp: read_u16_def split: list.splits)

lemma read_entry_length: "read_entry tag bs = Inr (x, rest) \<Longrightarrow> length rest < length bs"
  by (auto simp: read_entry_def bind_res_Inr_iff dest!: read_u16_length)

function decode_loop :: "ipp_group list \<Rightarrow> bool \<Rightarrow> bytes \<Rightarrow> buffer_error + ipp_group list \<times> bytes" where
  "decode_loop gs current [] = Inr (gs, [])"
| "decode_loop gs current (tag # bs) =
     (if tag = END_OF_ATTRIBUTES then Inr (gs, bs)
      else if tag \<le> 15 then decode_loop (gs @ [\<lparr>gr_tag = tag, gr_attributes = []\<rparr>]) False bs
      else case read_entry tag bs of
        Inl e \<Rightarrow> Inl e
      | Inr ((n, name, v), rest) \<Rightarrow>
          (if n = 0 \<and> current then decode_loop (add_value v gs) True rest
           else decode_loop (add_attribute \<lparr>at_tag = tag, at_name = name, at_values = [v]\<rparr> gs) True rest))"
  by pat_completeness auto
termination by (relation "measure (\<lambda>(gs, current, bs). length bs)") (auto dest: read_entry_length)

definition decodeIppMessage :: "bytes \<Rightarrow> buffer_error + ipp_message" where
  "decodeIppMessage bs =
     bind_res (read_u8 bs) (\<lambda>(major, b1).
     bind_res (read_u8 b1) (\<lambda>(minor, b2).
     bind_res (read_u16 b2) (\<lambda>(code, b3).
     bind_res (read_u32 b3) (\<lambda>(rid, b4).
     bind_res (decode_loop [] False b4) (\<lambda>(gs, data).
     Inr \<lparr>im_versionMajor = major, im_versionMinor = minor, im_code = code, im_requestId = rid, im_groups = gs, im_data = data\<rparr>)))))"

section \<open>Reading attributes\<close>

fun findAttribute :: "ipp_group list \<Rightarrow> jstext \<Rightarrow> nat option \<Rightarrow> ipp_attribute option" where
  "findAttribute [] name groupTag = None"
| "findAttribute (g # gs) name groupTag =
     (if groupTag \<noteq> None \<and> groupTag \<noteq> Some (gr_tag g) then findAttribute gs name groupTag
      else case find (\<lambda>a. at_name a = name) (gr_attributes g) of
        Some a \<Rightarrow> Some a | None \<Rightarrow> findAttribute gs name groupTag)"

definition allValues :: "ipp_message \<Rightarrow> jstext \<Rightarrow> nat option \<Rightarrow> ipp_value list" where
  "allValues m name groupTag = (case findAttribute (im_groups m) name groupTag of None \<Rightarrow> [] | Some a \<Rightarrow> at_values a)"

definition firstValue :: "ipp_message \<Rightarrow> jstext \<Rightarrow> nat option \<Rightarrow> ipp_value option" where
  "firstValue m name groupTag = (case findAttribute (im_groups m) name groupTag of None \<Rightarrow> None
     | Some a \<Rightarrow> (case at_values a of [] \<Rightarrow> None | v # vs \<Rightarrow> Some v))"

definition as_number :: "ipp_value option \<Rightarrow> int option" where
  "as_number v = (case v of Some (IVNumber i) \<Rightarrow> Some i | _ \<Rightarrow> None)"

definition as_text :: "ipp_value option \<Rightarrow> jstext option" where
  "as_text v = (case v of Some (IVText t) \<Rightarrow> Some t | _ \<Rightarrow> None)"

section \<open>The three operations\<close>

definition REQUESTING_USER_NAME :: jstext where
  "REQUESTING_USER_NAME = lit ''vereinorder-print-worker''"

definition text_attribute :: "nat \<Rightarrow> string \<Rightarrow> jstext \<Rightarrow> ipp_attribute" where
  "text_attribute tag name v = \<lparr>at_tag = tag, at_name = lit name, at_values = [IVText v]\<rparr>"

definition baseOperationAttributes :: "ipp_attribute list" where
  "baseOperationAttributes = [text_attribute IV_CHARSET ''attributes-charset'' (lit ''utf-8''),
     text_attribute NATURAL_LANGUAGE ''attributes-natural-language'' (lit ''en'')]"

definition or_else :: "'a option \<Rightarrow> 'a \<Rightarrow> 'a" where
  "or_else x d = (case x of None \<Rightarrow> d | Some y \<Rightarrow> y)"

record print_job_options =
  pq_requestId :: nat
  pq_printerUri :: jstext
  pq_documentFormat :: "jstext option"
  pq_jobName :: "jstext option"
  pq_requestingUserName :: "jstext option"
  pq_data :: bytes

definition print_job_request :: "print_job_options \<Rightarrow> ipp_request" where
  "print_job_request p = \<lparr>iq_operationId = PRINT_JOB, iq_requestId = pq_requestId p,
     iq_operationAttributes = baseOperationAttributes @
       [text_attribute IV_URI ''printer-uri'' (pq_printerUri p),
        text_attribute NAME_WITHOUT_LANGUAGE ''requesting-user-name'' (or_else (pq_requestingUserName p) REQUESTING_USER_NAME),
        text_attribute MIME_MEDIA_TYPE ''document-format'' (or_else (pq_documentFormat p) (lit ''application/octet-stream''))],
     iq_jobAttributes = (case pq_jobName p of None \<Rightarrow> [] | Some n \<Rightarrow>
        if n = [] then [] else [text_attribute NAME_WITHOUT_LANGUAGE ''job-name'' n]),
     iq_data = pq_data p\<rparr>"

definition buildPrintJobRequest :: "print_job_options \<Rightarrow> buffer_error + bytes" where
  "buildPrintJobRequest p = encodeIppRequest (print_job_request p)"

record print_job_response =
  pj_resp_statusCode :: nat
  pj_resp_jobId :: "int option"
  pj_resp_jobUri :: "jstext option"
  pj_resp_jobState :: "int option"

definition parsePrintJobResponse :: "bytes \<Rightarrow> buffer_error + print_job_response" where
  "parsePrintJobResponse bs = bind_res (decodeIppMessage bs) (\<lambda>m. Inr \<lparr>pj_resp_statusCode = im_code m,
     pj_resp_jobId = as_number (firstValue m (lit ''job-id'') (Some JOB_ATTRIBUTES)),
     pj_resp_jobUri = as_text (firstValue m (lit ''job-uri'') (Some JOB_ATTRIBUTES)),
     pj_resp_jobState = as_number (firstValue m (lit ''job-state'') (Some JOB_ATTRIBUTES))\<rparr>)"

record job_options =
  jo_requestId :: nat
  jo_jobUri :: jstext
  jo_requestingUserName :: "jstext option"

definition job_attributes :: "job_options \<Rightarrow> ipp_attribute list" where
  "job_attributes p = baseOperationAttributes @ [text_attribute IV_URI ''job-uri'' (jo_jobUri p),
     text_attribute NAME_WITHOUT_LANGUAGE ''requesting-user-name'' (or_else (jo_requestingUserName p) REQUESTING_USER_NAME)]"

definition buildGetJobAttributesRequest :: "job_options \<Rightarrow> buffer_error + bytes" where
  "buildGetJobAttributesRequest p = encodeIppRequest \<lparr>iq_operationId = GET_JOB_ATTRIBUTES, iq_requestId = jo_requestId p,
     iq_operationAttributes = job_attributes p @ [\<lparr>at_tag = IV_KEYWORD, at_name = lit ''requested-attributes'',
        at_values = map (\<lambda>s. IVText (lit s)) [''job-state'', ''job-state-reasons'', ''printer-state-reasons'']\<rparr>],
     iq_jobAttributes = [], iq_data = []\<rparr>"

record job_attributes_response =
  ja_statusCode :: nat
  ja_jobState :: "int option"
  ja_jobStateReasons :: "jstext list"
  ja_printerStateReasons :: "jstext list"

definition parseGetJobAttributesResponse :: "bytes \<Rightarrow> buffer_error + job_attributes_response" where
  "parseGetJobAttributesResponse bs = bind_res (decodeIppMessage bs) (\<lambda>m. Inr \<lparr>ja_statusCode = im_code m,
     ja_jobState = as_number (firstValue m (lit ''job-state'') None),
     ja_jobStateReasons = map js_String (allValues m (lit ''job-state-reasons'') None),
     ja_printerStateReasons = map js_String (allValues m (lit ''printer-state-reasons'') None)\<rparr>)"

definition buildCancelJobRequest :: "job_options \<Rightarrow> buffer_error + bytes" where
  "buildCancelJobRequest p = encodeIppRequest \<lparr>iq_operationId = CANCEL_JOB, iq_requestId = jo_requestId p,
     iq_operationAttributes = job_attributes p, iq_jobAttributes = [], iq_data = []\<rparr>"

definition parseCancelJobResponse :: "bytes \<Rightarrow> buffer_error + nat" where
  "parseCancelJobResponse bs = bind_res (decodeIppMessage bs) (\<lambda>m. Inr (im_code m))"

end
