(* ===== verification/VO_Ipp_Props.thy ===== *)
theory VO_Ipp_Props
  imports VO_Ipp VO_Samples "HOL-Library.Sublist"
begin

text \<open>
  The wire format of the print worker: every request it can send is read back exactly by its own decoder, and whatever
  bytes a server answers, the decoder accepts exactly those of the message grammar and reads what they say.
\<close>

section \<open>Fields\<close>

lemma read_write_u16: "write_u16 n = Inr bs \<Longrightarrow> read_u16 (bs @ rest) = Inr (n, rest)"
  by (auto simp: write_u16_def read_u16_def bind_res_Inr_iff)

lemma read_u32_bytes: "n < 4294967296 \<Longrightarrow> read_u32 (u32_bytes n @ rest) = Inr (n, rest)"
proof -
  have "n = n div 256 * 256 + n mod 256" by simp
  also have "n div 256 = n div 65536 * 256 + n div 256 mod 256"
    using div_mult_mod_eq [of "n div 256" 256] by (simp add: div_mult2_eq [of n 256 256, simplified, symmetric])
  also have "n div 65536 = n div 16777216 * 256 + n div 65536 mod 256"
    using div_mult_mod_eq [of "n div 65536" 256] by (simp add: div_mult2_eq [of n 65536 256, simplified, symmetric])
  finally show ?thesis by (simp add: read_u32_def u32_bytes_def algebra_simps)
qed

lemma int32_of_mod:
  assumes "- 2147483648 \<le> i" "i \<le> 2147483647"
  shows "int32_of (nat (i mod 4294967296)) = i"
proof (cases "0 \<le> i")
  case True
  with assms show ?thesis by (simp add: int32_of_def)
next
  case False
  have "i mod 4294967296 = (i + 4294967296) mod 4294967296" by simp
  also have "\<dots> = i + 4294967296" using assms False by (intro mod_pos_pos_trivial) simp_all
  finally show ?thesis using assms False by (simp add: int32_of_def)
qed

section \<open>Values and attributes\<close>

definition value_fits :: "nat \<Rightarrow> ipp_value \<Rightarrow> bool" where
  "value_fits tag v = (case v of
     IVNumber i \<Rightarrow> tag \<in> {IV_INTEGER, IV_ENUM} \<and> - 2147483648 \<le> i \<and> i \<le> 2147483647
   | IVBool b \<Rightarrow> tag = IV_BOOLEAN
   | IVText t \<Rightarrow> tag \<notin> {IV_INTEGER, IV_ENUM, IV_BOOLEAN} \<and> well_formed t \<and> length (utf8_encode t) < 65536)"

definition attribute_fits :: "ipp_attribute \<Rightarrow> bool" where
  "attribute_fits a \<longleftrightarrow> 15 < at_tag a \<and> at_tag a < 256 \<and> at_name a \<noteq> [] \<and> list_all (\<lambda>u. u < 128) (at_name a) \<and> length (at_name a) < 65536 \<and>
     at_values a \<noteq> [] \<and> list_all (value_fits (at_tag a)) (at_values a)"

lemma value_roundtrip:
  assumes "value_fits tag v"
  obtains bs where "encodeValue tag v = Inr bs" "length bs < 65536" "decodeValue tag bs = Inr v"
proof (cases v)
  case (IVText t)
  with assms that [of "utf8_encode t"] show thesis
    by (auto simp: value_fits_def encodeValue_def decodeValue_def js_String_def utf8_roundtrip)
next
  case (IVNumber i)
  then have tag: "tag = IV_INTEGER \<or> tag = IV_ENUM" and i: "- 2147483648 \<le> i" "i \<le> 2147483647"
    using assms by (auto simp: value_fits_def)
  let ?n = "nat (i mod 4294967296)"
  have "?n < 4294967296" by (simp add: nat_less_iff)
  from read_u32_bytes [OF this, of "[]"] have "decodeValue tag (u32_bytes ?n) = Inr v"
    using tag IVNumber int32_of_mod [OF i] by (simp add: decodeValue_def)
  moreover have "encodeValue tag v = Inr (u32_bytes ?n)"
    using tag IVNumber i by (simp add: encodeValue_def write_int32_def js_Number_def)
  ultimately show thesis using that [of "u32_bytes ?n"] by (simp add: u32_bytes_def)
next
  case (IVBool b)
  with assms that [of "[if b then 1 else 0]"] show thesis
    by (auto simp: value_fits_def encodeValue_def decodeValue_def js_truthy_def read_u8_def ipp_tags)
qed

lemma entry_roundtrip:
  assumes fit: "value_fits tag v" and tag: "15 < tag" "tag < 256" and name: "list_all (\<lambda>u. u < 128) name" "length name < 65536"
  obtains bs where "encode_one tag name v = Inr (tag # bs)" "\<forall>rest. read_entry tag (bs @ rest) = Inr ((length name, name, v), rest)"
proof -
  obtain vb where V: "encodeValue tag v = Inr vb" "length vb < 65536" "decodeValue tag vb = Inr v"
    by (rule value_roundtrip [OF fit])
  obtain n m where n: "write_u16 (length name) = Inr n" and m: "write_u16 (length vb) = Inr m"
    using name V(2) by (auto simp: write_u16_def)
  have ascii: "\<forall>u \<in> set name. u < 128" using name(1) by (simp add: list_all_iff)
  have dec: "utf8_decode name = name" using utf8_roundtrip [OF ascii_well_formed [OF ascii]] by (simp add: ascii_encode [OF ascii])
  have "encode_one tag name v = Inr (tag # (n @ name @ m @ vb))"
    using V(1) tag(2) n m by (simp add: encode_one_def write_u8_def)
  moreover have "read_entry tag ((n @ name @ m @ vb) @ rest) = Inr ((length name, name, v), rest)" for rest
    using read_write_u16 [OF n] read_write_u16 [OF m] V(3) dec by (simp add: read_entry_def)
  ultimately show thesis using that by blast
qed

lemma change_last_snoc [simp]: "change_last f (xs @ [x]) = xs @ [f x]"
  by (simp add: change_last_def)

lemma add_value_attribute: "add_value v (add_attribute a gs) = add_attribute (a\<lparr>at_values := at_values a @ [v]\<rparr>) gs"
  by (cases gs rule: rev_cases) (simp_all add: add_value_def add_attribute_def, simp add: change_last_def)

lemma decode_one:
  assumes "encode_one tag name v = Inr (tag # bs)" and "\<forall>rest. read_entry tag (bs @ rest) = Inr ((length name, name, v), rest)" and "15 < tag"
  shows "decode_loop gs c ((tag # bs) @ rest) = decode_loop (if name = [] \<and> c then add_value v gs
     else add_attribute \<lparr>at_tag = tag, at_name = name, at_values = [v]\<rparr> gs) True rest"
  using assms(2,3) by (simp add: END_OF_ATTRIBUTES_def)

lemma decode_more_values:
  assumes "list_all (value_fits tag) vs" and tag: "15 < tag" "tag < 256"
  obtains xs where "map_res (encode_one tag []) vs = Inr xs"
    "\<forall>rest. decode_loop (add_attribute a gs) True (concat xs @ rest) = decode_loop (add_attribute (a\<lparr>at_values := at_values a @ vs\<rparr>) gs) True rest"
  using assms(1)
proof (induction vs arbitrary: a thesis)
  case Nil
  then show ?case by simp
next
  case (Cons v vs)
  from Cons.prems(2) have v: "value_fits tag v" and vs: "list_all (value_fits tag) vs" by simp_all
  obtain bs where E: "encode_one tag [] v = Inr (tag # bs)" "\<forall>rest. read_entry tag (bs @ rest) = Inr ((length ([] :: jstext), [], v), rest)"
    by (rule entry_roundtrip [OF v tag, of "[]"]) simp_all
  obtain xs where X: "map_res (encode_one tag []) vs = Inr xs"
    "\<forall>rest. decode_loop (add_attribute (a\<lparr>at_values := at_values a @ [v]\<rparr>) gs) True (concat xs @ rest) =
       decode_loop (add_attribute (a\<lparr>at_values := at_values a @ [v]\<rparr>\<lparr>at_values := (at_values a @ [v]) @ vs\<rparr>) gs) True rest"
    using Cons.IH [OF _ vs, of "a\<lparr>at_values := at_values a @ [v]\<rparr>"] by auto
  show ?case
  proof (rule Cons.prems(1) [of "(tag # bs) # xs"])
    show "map_res (encode_one tag []) (v # vs) = Inr ((tag # bs) # xs)" using E(1) X(1) by simp
    have "decode_loop (add_attribute a gs) True ((tag # bs) @ concat xs @ rest) =
        decode_loop (add_attribute (a\<lparr>at_values := at_values a @ [v]\<rparr>) gs) True (concat xs @ rest)" for rest
      using decode_one [OF E tag(1), of "add_attribute a gs" True "concat xs @ rest"] by (simp add: add_value_attribute)
    with X(2) show "\<forall>rest. decode_loop (add_attribute a gs) True (concat ((tag # bs) # xs) @ rest) =
        decode_loop (add_attribute (a\<lparr>at_values := at_values a @ (v # vs)\<rparr>) gs) True rest" by simp
  qed
qed

lemma decode_attribute:
  assumes fit: "attribute_fits a"
  obtains bs where "encodeAttribute a = Inr bs" "\<forall>gs c rest. decode_loop gs c (bs @ rest) = decode_loop (add_attribute a gs) True rest"
proof -
  from fit obtain v vs where vals: "at_values a = v # vs" and v: "value_fits (at_tag a) v" and vs: "list_all (value_fits (at_tag a)) vs"
    by (cases "at_values a") (auto simp: attribute_fits_def)
  from fit have tag: "15 < at_tag a" "at_tag a < 256" and name: "list_all (\<lambda>u. u < 128) (at_name a)" "length (at_name a) < 65536" "at_name a \<noteq> []"
    by (simp_all add: attribute_fits_def)
  have ascii: "ascii_bytes (at_name a) = at_name a"
    using name(1) unfolding ascii_bytes_def by (intro map_idI) (auto simp: list_all_iff)
  obtain bs where E: "encode_one (at_tag a) (at_name a) v = Inr (at_tag a # bs)"
    "\<forall>rest. read_entry (at_tag a) (bs @ rest) = Inr ((length (at_name a), at_name a, v), rest)"
    by (rule entry_roundtrip [OF v tag name(1,2)])
  define f where "f = \<lparr>at_tag = at_tag a, at_name = at_name a, at_values = [v]\<rparr>"
  have a: "f\<lparr>at_values := at_values f @ vs\<rparr> = a" using vals by (simp add: f_def)
  obtain xs where X: "map_res (encode_one (at_tag a) []) vs = Inr xs"
    by (rule decode_more_values [OF vs tag])
  have D: "decode_loop (add_attribute f gs) True (concat xs @ rest) = decode_loop (add_attribute a gs) True rest" for gs rest
  proof -
    obtain ys where "map_res (encode_one (at_tag a) []) vs = Inr ys"
      "\<forall>rest. decode_loop (add_attribute f gs) True (concat ys @ rest) = decode_loop (add_attribute (f\<lparr>at_values := at_values f @ vs\<rparr>) gs) True rest"
      by (rule decode_more_values [OF vs tag, of f gs])
    with X a show ?thesis by simp
  qed
  show thesis
  proof (rule that [of "(at_tag a # bs) @ concat xs"])
    show "encodeAttribute a = Inr ((at_tag a # bs) @ concat xs)"
      using E(1) X by (simp add: encodeAttribute_def vals ascii)
    have "decode_loop gs c ((at_tag a # bs) @ concat xs @ rest) = decode_loop (add_attribute f gs) True (concat xs @ rest)" for gs c rest
      using decode_one [OF E tag(1), of gs c "concat xs @ rest"] name(3) by (simp add: f_def)
    with D show "\<forall>gs c rest. decode_loop gs c (((at_tag a # bs) @ concat xs) @ rest) = decode_loop (add_attribute a gs) True rest" by simp
  qed
qed

lemma decode_attributes:
  assumes "list_all attribute_fits as"
  obtains os where "map_res encodeAttribute as = Inr os"
    "\<forall>gs t bs c rest. decode_loop (gs @ [\<lparr>gr_tag = t, gr_attributes = bs\<rparr>]) c (concat os @ rest) =
       decode_loop (gs @ [\<lparr>gr_tag = t, gr_attributes = bs @ as\<rparr>]) (c \<or> as \<noteq> []) rest"
  using assms
proof (induction "as" arbitrary: thesis)
  case Nil
  show ?case by (rule Nil(1) [of "[]"]) simp_all
next
  case (Cons a as)
  from Cons.prems(2) have a: "attribute_fits a" and as: "list_all attribute_fits as" by simp_all
  obtain x where A: "encodeAttribute a = Inr x" "\<forall>gs c rest. decode_loop gs c (x @ rest) = decode_loop (add_attribute a gs) True rest"
    by (rule decode_attribute [OF a])
  obtain os where O: "map_res encodeAttribute as = Inr os"
    "\<forall>gs t bs c rest. decode_loop (gs @ [\<lparr>gr_tag = t, gr_attributes = bs\<rparr>]) c (concat os @ rest) =
       decode_loop (gs @ [\<lparr>gr_tag = t, gr_attributes = bs @ as\<rparr>]) (c \<or> as \<noteq> []) rest"
    using Cons.IH [OF _ as] by blast
  show ?case
    by (rule Cons.prems(1) [of "x # os"]) (simp_all add: A O add_attribute_def)
qed

section \<open>Requests come back\<close>

lemma fitting_request_encodes:
  assumes "iq_operationId q < 65536" and "list_all attribute_fits (iq_operationAttributes q)" and "list_all attribute_fits (iq_jobAttributes q)"
  shows "\<exists>bs. encodeIppRequest q = Inr bs"
proof -
  obtain os where O: "map_res encodeAttribute (iq_operationAttributes q) = Inr os" by (rule decode_attributes [OF assms(2)])
  obtain js where J: "map_res encodeAttribute (iq_jobAttributes q) = Inr js" by (rule decode_attributes [OF assms(3)])
  from O J assms(1) show ?thesis by (simp add: encodeIppRequest_def write_u16_def)
qed

text \<open>
  C38. Every request of the worker is read back exactly: if its attributes fit their tags (names are short ASCII, numbers fit 32
  bits, texts are short and without lone surrogates), encoding succeeds, and decoding the bytes yields version 1.1, the operation,
  the request number modulo 2^32, the two groups with all their attributes and values in order, and the document unchanged.
\<close>

theorem ipp_roundtrip:
  assumes op: "iq_operationId q < 65536"
    and fits: "list_all attribute_fits (iq_operationAttributes q)" "list_all attribute_fits (iq_jobAttributes q)"
  shows "\<exists>bs. encodeIppRequest q = Inr bs \<and> decodeIppMessage bs = Inr \<lparr>im_versionMajor = 1, im_versionMinor = 1,
     im_code = iq_operationId q, im_requestId = iq_requestId q mod 4294967296,
     im_groups = \<lparr>gr_tag = OPERATION_ATTRIBUTES, gr_attributes = iq_operationAttributes q\<rparr> #
       (if iq_jobAttributes q \<noteq> [] then [\<lparr>gr_tag = JOB_ATTRIBUTES, gr_attributes = iq_jobAttributes q\<rparr>] else []),
     im_data = iq_data q\<rparr>"
proof -
  obtain os where O: "map_res encodeAttribute (iq_operationAttributes q) = Inr os"
    "\<forall>gs t bs c rest. decode_loop (gs @ [\<lparr>gr_tag = t, gr_attributes = bs\<rparr>]) c (concat os @ rest) =
       decode_loop (gs @ [\<lparr>gr_tag = t, gr_attributes = bs @ iq_operationAttributes q\<rparr>]) (c \<or> iq_operationAttributes q \<noteq> []) rest"
    using decode_attributes [OF fits(1)] by blast
  obtain js where J: "map_res encodeAttribute (iq_jobAttributes q) = Inr js"
    "\<forall>gs t bs c rest. decode_loop (gs @ [\<lparr>gr_tag = t, gr_attributes = bs\<rparr>]) c (concat js @ rest) =
       decode_loop (gs @ [\<lparr>gr_tag = t, gr_attributes = bs @ iq_jobAttributes q\<rparr>]) (c \<or> iq_jobAttributes q \<noteq> []) rest"
    using decode_attributes [OF fits(2)] by blast
  obtain n where n: "write_u16 (iq_operationId q) = Inr n" using op by (simp add: write_u16_def)
  define tail where "tail = (if iq_jobAttributes q \<noteq> [] then [JOB_ATTRIBUTES] @ concat js else []) @ [END_OF_ATTRIBUTES] @ iq_data q"
  let ?gs = "[\<lparr>gr_tag = OPERATION_ATTRIBUTES, gr_attributes = iq_operationAttributes q\<rparr>]"
  have ops: "decode_loop [] False (OPERATION_ATTRIBUTES # concat os @ tail) = decode_loop ?gs (iq_operationAttributes q \<noteq> []) tail"
    using O(2) [rule_format, of "[]" OPERATION_ATTRIBUTES "[]" False tail] by (simp add: OPERATION_ATTRIBUTES_def END_OF_ATTRIBUTES_def)
  have tl: "decode_loop ?gs c tail = Inr (?gs @ (if iq_jobAttributes q \<noteq> [] then
      [\<lparr>gr_tag = JOB_ATTRIBUTES, gr_attributes = iq_jobAttributes q\<rparr>] else []), iq_data q)" for c
    using J(2) [rule_format, of ?gs JOB_ATTRIBUTES "[]" False "END_OF_ATTRIBUTES # iq_data q"]
    by (simp add: tail_def JOB_ATTRIBUTES_def END_OF_ATTRIBUTES_def)
  let ?bs = "[1, 1] @ n @ u32_bytes (iq_requestId q mod 4294967296) @ OPERATION_ATTRIBUTES # concat os @ tail"
  have "encodeIppRequest q = Inr ?bs" using O(1) J(1) n by (simp add: encodeIppRequest_def tail_def)
  moreover have "decodeIppMessage ?bs = Inr \<lparr>im_versionMajor = 1, im_versionMinor = 1,
     im_code = iq_operationId q, im_requestId = iq_requestId q mod 4294967296,
     im_groups = \<lparr>gr_tag = OPERATION_ATTRIBUTES, gr_attributes = iq_operationAttributes q\<rparr> #
       (if iq_jobAttributes q \<noteq> [] then [\<lparr>gr_tag = JOB_ATTRIBUTES, gr_attributes = iq_jobAttributes q\<rparr>] else []),
     im_data = iq_data q\<rparr>"
    using read_write_u16 [OF n] read_u32_bytes [of "iq_requestId q mod 4294967296"] ops tl
    by (simp add: decodeIppMessage_def read_u8_def)
  ultimately show ?thesis by blast
qed

definition sample_print_request :: ipp_request where
  "sample_print_request = print_job_request \<lparr>pq_requestId = 4294967297, pq_printerUri = lit ''ipp://kasse:631/printers/Bon'',
     pq_documentFormat = None, pq_jobName = Some (lit ''VereinOrder ''@ [55357, 56832]), pq_requestingUserName = None, pq_data = [27, 64, 65]\<rparr>"

lemmas sample_request_simps = sample_print_request_def print_job_request_def baseOperationAttributes_def text_attribute_def or_else_def
  REQUESTING_USER_NAME_def attribute_fits_def value_fits_def lit_def utf8_encode_def utf8_char_def is_high_def is_low_def ipp_tags

theorem ipp_roundtrip_witness:
  "\<exists>bs. encodeIppRequest sample_print_request = Inr bs \<and> decodeIppMessage bs = Inr \<lparr>im_versionMajor = 1, im_versionMinor = 1,
     im_code = 2, im_requestId = 1, im_groups = \<lparr>gr_tag = OPERATION_ATTRIBUTES, gr_attributes = iq_operationAttributes sample_print_request\<rparr> #
       [\<lparr>gr_tag = JOB_ATTRIBUTES, gr_attributes = iq_jobAttributes sample_print_request\<rparr>],
     im_data = [27, 64, 65]\<rparr>"
proof -
  have "iq_operationId sample_print_request < 65536" "list_all attribute_fits (iq_operationAttributes sample_print_request)"
    "list_all attribute_fits (iq_jobAttributes sample_print_request)"
    by (simp_all add: sample_request_simps)
  note found = ipp_roundtrip [OF this]
  have "iq_operationId sample_print_request = 2" "iq_requestId sample_print_request mod 4294967296 = 1"
    "(iq_jobAttributes sample_print_request \<noteq> []) = True" "iq_data sample_print_request = [27, 64, 65]"
    by (simp_all add: sample_print_request_def print_job_request_def PRINT_JOB_def)
  with found show ?thesis by (simp only: if_True)
qed

section \<open>What an answer says\<close>

text \<open>
  The grammar of a message behind its eight header bytes: a sequence of delimiters and entries. An entry has a value tag, the bytes
  of its name, the announced length of its value, the bytes of the value that are there, and the value they stand for.
\<close>

datatype wire_item = Delimiter nat | Entry nat bytes nat bytes ipp_value

definition u16_bytes :: "nat \<Rightarrow> bytes" where
  "u16_bytes n = [n div 256, n mod 256]"

fun wire :: "wire_item \<Rightarrow> bytes" where
  "wire (Delimiter t) = [t]"
| "wire (Entry t name n vb v) = [t] @ u16_bytes (length name) @ name @ u16_bytes n @ vb"

fun item_ok :: "wire_item \<Rightarrow> bool" where
  "item_ok (Delimiter t) \<longleftrightarrow> t \<le> 15 \<and> t \<noteq> END_OF_ATTRIBUTES"
| "item_ok (Entry t name n vb v) \<longleftrightarrow> 15 < t \<and> length name < 65536 \<and> n < 65536 \<and> length vb \<le> n \<and> decodeValue t vb = Inr v"

fun complete :: "wire_item \<Rightarrow> bool" where
  "complete (Delimiter t) \<longleftrightarrow> True"
| "complete (Entry t name n vb v) \<longleftrightarrow> length vb = n"

text \<open>The items, and behind them the end tag with the document, or nothing; only the last value may be cut off by the end of the bytes.\<close>

fun message_items :: "wire_item list \<Rightarrow> bytes \<Rightarrow> bool" where
  "message_items [] rest \<longleftrightarrow> rest = [] \<or> hd rest = END_OF_ATTRIBUTES"
| "message_items (i # items) rest \<longleftrightarrow> item_ok i \<and> (complete i \<or> items = [] \<and> rest = []) \<and> message_items items rest"

text \<open>
  What the items say. A delimiter opens a group, entries before the first one form a group with tag 0. Within a group a named entry
  opens an attribute, and so does the first entry; every nameless entry behind it adds a value to it.
\<close>

fun is_entry :: "wire_item \<Rightarrow> bool" where
  "is_entry (Delimiter t) \<longleftrightarrow> False"
| "is_entry (Entry t name n vb v) \<longleftrightarrow> True"

fun nameless :: "wire_item \<Rightarrow> bool" where
  "nameless (Delimiter t) \<longleftrightarrow> False"
| "nameless (Entry t name n vb v) \<longleftrightarrow> name = []"

fun item_value :: "wire_item \<Rightarrow> ipp_value list" where
  "item_value (Delimiter t) = []"
| "item_value (Entry t name n vb v) = [v]"

function attributes_of :: "wire_item list \<Rightarrow> ipp_attribute list" where
  "attributes_of [] = []"
| "attributes_of (Delimiter t # es) = []"
| "attributes_of (Entry t name n vb v # es) =
     \<lparr>at_tag = t, at_name = utf8_decode name, at_values = v # concat (map item_value (takeWhile nameless es))\<rparr>
       # attributes_of (dropWhile nameless es)"
  by pat_completeness auto
termination by (relation "measure length") (auto simp: less_Suc_eq_le length_dropWhile_le)

function groups_of :: "wire_item list \<Rightarrow> ipp_group list" where
  "groups_of [] = []"
| "groups_of (Delimiter t # items) =
     \<lparr>gr_tag = t, gr_attributes = attributes_of (takeWhile is_entry items)\<rparr> # groups_of (dropWhile is_entry items)"
| "groups_of (Entry t name n vb v # items) =
     \<lparr>gr_tag = 0, gr_attributes = attributes_of (takeWhile is_entry (Entry t name n vb v # items))\<rparr>
       # groups_of (dropWhile is_entry items)"
  by pat_completeness auto
termination by (relation "measure length") (auto simp: less_Suc_eq_le length_dropWhile_le)

text \<open>One step of the decoder on an item, and the run over all items in closed form.\<close>

fun take_item :: "ipp_group list \<times> bool \<Rightarrow> wire_item \<Rightarrow> ipp_group list \<times> bool" where
  "take_item (gs, c) (Delimiter t) = (gs @ [\<lparr>gr_tag = t, gr_attributes = []\<rparr>], False)"
| "take_item (gs, c) (Entry t name n vb v) =
     (if name = [] \<and> c then (add_value v gs, True)
      else (add_attribute \<lparr>at_tag = t, at_name = utf8_decode name, at_values = [v]\<rparr> gs, True))"

lemma take_nameless:
  "list_all nameless es \<Longrightarrow>
   foldl take_item (add_attribute a gs, True) es = (add_attribute (a\<lparr>at_values := at_values a @ concat (map item_value es)\<rparr>) gs, True)"
proof (induction es arbitrary: a)
  case (Cons e es)
  then obtain t n vb v where e: "e = Entry t [] n vb v" by (cases e) auto
  from Cons show ?case by (simp add: e add_value_attribute)
qed simp

lemma take_attributes:
  "list_all is_entry es \<Longrightarrow> \<not> c \<or> es = [] \<or> \<not> nameless (hd es) \<Longrightarrow>
   foldl take_item (gs @ [\<lparr>gr_tag = g, gr_attributes = as\<rparr>], c) es =
     (gs @ [\<lparr>gr_tag = g, gr_attributes = as @ attributes_of es\<rparr>], c \<or> es \<noteq> [])"
proof (induction es arbitrary: "as" c rule: attributes_of.induct)
  case (3 t name n vb v es)
  let ?G = "gs @ [\<lparr>gr_tag = g, gr_attributes = as\<rparr>]" and ?rest = "dropWhile nameless es" and ?more = "takeWhile nameless es"
  let ?a = "\<lparr>at_tag = t, at_name = utf8_decode name, at_values = [v]\<rparr>"
  let ?b = "\<lparr>at_tag = t, at_name = utf8_decode name, at_values = v # concat (map item_value ?more)\<rparr>"
  have first: "take_item (?G, c) (Entry t name n vb v) = (add_attribute ?a ?G, True)" using "3.prems"(2) by auto
  have more: "list_all nameless ?more" by (simp add: list_all_iff) (meson set_takeWhileD)
  have entries: "list_all is_entry ?rest" using "3.prems"(1) by (auto simp: list_all_iff dest: set_dropWhileD)
  have named: "?rest = [] \<or> \<not> nameless (hd ?rest)" using hd_dropWhile [of nameless es] by blast
  have "foldl take_item (?G, c) (Entry t name n vb v # es) = foldl take_item (add_attribute ?a ?G, True) (?more @ ?rest)"
    using first by simp
  also have "\<dots> = foldl take_item (add_attribute ?b ?G, True) ?rest"
    unfolding foldl_append take_nameless [OF more] by simp
  also have "add_attribute ?b ?G = gs @ [\<lparr>gr_tag = g, gr_attributes = as @ [?b]\<rparr>]" by (simp add: add_attribute_def)
  also have "foldl take_item (gs @ [\<lparr>gr_tag = g, gr_attributes = as @ [?b]\<rparr>], True) ?rest =
      (gs @ [\<lparr>gr_tag = g, gr_attributes = (as @ [?b]) @ attributes_of ?rest\<rparr>], True \<or> ?rest \<noteq> [])"
    by (rule "3.IH" [OF entries]) (use named in blast)
  finally show ?case by simp
qed simp_all

lemma take_groups:
  "items = [] \<or> \<not> is_entry (hd items) \<Longrightarrow> fst (foldl take_item (gs, c) items) = gs @ groups_of items"
proof (induction items arbitrary: gs c rule: groups_of.induct)
  case (2 t items)
  let ?es = "takeWhile is_entry items" and ?rest = "dropWhile is_entry items"
  have es: "list_all is_entry ?es" by (simp add: list_all_iff) (meson set_takeWhileD)
  have rest: "?rest = [] \<or> \<not> is_entry (hd ?rest)" using hd_dropWhile [of is_entry items] by blast
  have "foldl take_item (gs, c) (Delimiter t # items) = foldl take_item (gs @ [\<lparr>gr_tag = t, gr_attributes = []\<rparr>], False) (?es @ ?rest)"
    by simp
  also have "\<dots> = foldl take_item (gs @ [\<lparr>gr_tag = t, gr_attributes = attributes_of ?es\<rparr>], ?es \<noteq> []) ?rest"
    unfolding foldl_append using take_attributes [OF es, of False gs t "[]"] by simp
  finally show ?case using "2.IH" [OF rest] by simp
qed simp_all

lemma take_items: "fst (foldl take_item ([], False) items) = groups_of items"
proof (cases items)
  case (Cons i rest)
  show ?thesis
  proof (cases i)
    case (Delimiter t)
    with Cons take_groups [of items "[]" False] show ?thesis by simp
  next
    case (Entry t name n vb v)
    let ?es = "takeWhile is_entry items" and ?rest = "dropWhile is_entry items"
    have es: "list_all is_entry ?es" by (simp add: list_all_iff) (meson set_takeWhileD)
    have r: "?rest = [] \<or> \<not> is_entry (hd ?rest)" using hd_dropWhile [of is_entry items] by blast
    have start: "foldl take_item ([], False) ?es = foldl take_item ([\<lparr>gr_tag = 0, gr_attributes = []\<rparr>], False) ?es"
      by (simp add: Cons Entry add_attribute_def change_last_def)
    have "foldl take_item ([], False) items = foldl take_item (foldl take_item ([], False) ?es) ?rest"
      by (simp only: foldl_append [symmetric] takeWhile_dropWhile_id)
    also have "\<dots> = foldl take_item ([\<lparr>gr_tag = 0, gr_attributes = attributes_of ?es\<rparr>], ?es \<noteq> []) ?rest"
      unfolding start using take_attributes [OF es, of False "[]" 0 "[]"] by simp
    finally show ?thesis using take_groups [OF r] by (simp add: Cons Entry)
  qed
qed simp

text \<open>Fields back and forth.\<close>

lemma read_u16_bytes [simp]: "read_u16 (u16_bytes n @ rest) = Inr (n, rest)"
  by (simp add: read_u16_def u16_bytes_def)

lemma read_u16_wire:
  assumes "read_u16 bs = Inr (n, rest)" and "\<forall>b \<in> set bs. b < 256"
  shows "bs = u16_bytes n @ rest \<and> n < 65536"
proof -
  from assms(1) obtain a b where bs: "bs = a # b # rest" and n: "n = a * 256 + b" by (auto simp: read_u16_def split: list.splits)
  from assms(2) bs have "a < 256" "b < 256" by auto
  with bs n show ?thesis by (simp add: u16_bytes_def)
qed

lemma read_u32_wire:
  assumes "read_u32 bs = Inr (n, rest)" and "\<forall>b \<in> set bs. b < 256"
  shows "bs = u32_bytes n @ rest"
proof -
  from assms(1) obtain a b c d where bs: "bs = a # b # c # d # rest" and n: "n = ((a * 256 + b) * 256 + c) * 256 + d"
    by (auto simp: read_u32_def split: list.splits)
  from assms(2) bs have less: "a < 256" "b < 256" "c < 256" "d < 256" by auto
  have digit: "(x * 256 + y) mod 256 = y" "(x * 256 + y) div 256 = x" if "y < 256" for x y :: nat using that by simp_all
  have d: "n mod 256 = d" "n div 256 = (a * 256 + b) * 256 + c" unfolding n by (rule digit [OF less(4)])+
  have div: "n div 65536 = n div 256 div 256" "n div 16777216 = n div 65536 div 256"
    using div_mult2_eq [of n 256 256] div_mult2_eq [of n 65536 256] by simp_all
  have c: "n div 256 mod 256 = c" "n div 65536 = a * 256 + b" unfolding div(1) d(2) by (rule digit [OF less(3)])+
  have b: "n div 65536 mod 256 = b" "n div 16777216 = a" unfolding div(2) c(2) by (rule digit [OF less(2)])+
  show ?thesis by (simp only: u32_bytes_def bs d(1) c(1) b append.simps)
qed

lemma read_entry_wire:
  assumes "read_entry t bs = Inr ((k, name, v), rest)" and "\<forall>b \<in> set bs. b < 256"
  obtains nm n vb where "bs = u16_bytes (length nm) @ nm @ u16_bytes n @ vb @ rest" "k = length nm" "name = utf8_decode nm"
    "length nm < 65536" "n < 65536" "length vb \<le> n" "decodeValue t vb = Inr v" "length vb = n \<or> rest = []"
proof -
  from assms(1) obtain b1 n b3 where r1: "read_u16 bs = Inr (k, b1)" and r2: "read_u16 (drop k b1) = Inr (n, b3)"
    and v: "decodeValue t (take n b3) = Inr v" and e: "name = utf8_decode (take k b1)" "rest = drop n b3"
    by (auto simp: read_entry_def bind_res_Inr_iff)
  note w1 = read_u16_wire [OF r1 assms(2)]
  have "\<forall>b \<in> set (drop k b1). b < 256" using w1 assms(2) by (auto dest: in_set_dropD)
  note w2 = read_u16_wire [OF r2 this]
  then have "drop k b1 \<noteq> []" by (simp add: u16_bytes_def)
  then have k: "length (take k b1) = k" by simp
  have "b1 = take k b1 @ u16_bytes n @ b3" using w2 append_take_drop_id [of k b1] by simp
  with w1 k have "bs = u16_bytes (length (take k b1)) @ take k b1 @ u16_bytes n @ take n b3 @ drop n b3" by simp
  moreover have "length (take n b3) = n \<or> rest = []" unfolding e by auto
  ultimately show thesis using w1 w2 k v e by (intro that [of "take k b1" n "take n b3"]) auto
qed

lemma read_wire_entry:
  assumes "item_ok (Entry t name n vb v)" and "complete (Entry t name n vb v) \<or> rest = []"
  shows "read_entry t (u16_bytes (length name) @ name @ u16_bytes n @ vb @ rest) = Inr ((length name, utf8_decode name, v), rest)"
  using assms by (auto simp: read_entry_def)

lemma decode_items:
  "message_items items rest \<Longrightarrow>
   decode_loop gs c (concat (map wire items) @ rest) = Inr (fst (foldl take_item (gs, c) items), tl rest)"
proof (induction items arbitrary: gs c)
  case Nil
  then show ?case by (cases rest) simp_all
next
  case (Cons i items)
  then have ok: "item_ok i" "complete i \<or> items = [] \<and> rest = []" and rest: "message_items items rest" by auto
  show ?case
  proof (cases i)
    case (Delimiter t)
    with ok Cons.IH [OF rest] show ?thesis by simp
  next
    case (Entry t name n vb v)
    let ?more = "concat (map wire items) @ rest"
    have "read_entry t (u16_bytes (length name) @ name @ u16_bytes n @ vb @ ?more) = Inr ((length name, utf8_decode name, v), ?more)"
      by (rule read_wire_entry) (use ok Entry in auto)
    with ok(1) Entry Cons.IH [OF rest] show ?thesis by (simp add: END_OF_ATTRIBUTES_def)
  qed
qed

lemma decoded_items:
  "decode_loop gs c bs = Inr (hs, data) \<Longrightarrow> \<forall>b \<in> set bs. b < 256 \<Longrightarrow>
   \<exists>items rest. bs = concat (map wire items) @ rest \<and> message_items items rest \<and> hs = fst (foldl take_item (gs, c) items) \<and> data = tl rest"
proof (induction gs c bs rule: decode_loop.induct)
  case (1 gs c)
  then show ?case by (intro exI [of _ "[]"]) auto
next
  case (2 gs c t bs)
  consider "t = END_OF_ATTRIBUTES" | "t \<noteq> END_OF_ATTRIBUTES" "t \<le> 15" | "t \<noteq> END_OF_ATTRIBUTES" "\<not> t \<le> 15" by blast
  then show ?case
  proof cases
    case 1
    with 2 show ?thesis by (intro exI [of _ "[]"] exI [of _ "t # bs"]) auto
  next
    case b: 2
    with 2 obtain items rest where "bs = concat (map wire items) @ rest" "message_items items rest"
      "hs = fst (foldl take_item (gs @ [\<lparr>gr_tag = t, gr_attributes = []\<rparr>], False) items)" "data = tl rest" by auto
    with b show ?thesis by (intro exI [of _ "Delimiter t # items"] exI [of _ rest]) auto
  next
    case b: 3
    with "2.prems" obtain k name v mid where E: "read_entry t bs = Inr ((k, name, v), mid)" by (auto split: sum.splits)
    obtain nm n vb where W: "bs = u16_bytes (length nm) @ nm @ u16_bytes n @ vb @ mid" "k = length nm" "name = utf8_decode nm"
      "length nm < 65536" "n < 65536" "length vb \<le> n" "decodeValue t vb = Inr v" "length vb = n \<or> mid = []"
      by (rule read_entry_wire [OF E]) (use "2.prems"(2) in simp)
    have small: "\<forall>b \<in> set mid. b < 256" using "2.prems"(2) W(1) by auto
    have "\<exists>items rest. mid = concat (map wire items) @ rest \<and> message_items items rest \<and>
        hs = fst (foldl take_item (take_item (gs, c) (Entry t nm n vb v)) items) \<and> data = tl rest"
    proof (cases "k = 0 \<and> c")
      case True
      with 2(2) [OF b(1,2) E] "2.prems" b E small W(2) show ?thesis by auto
    next
      case False
      with 2(3) [OF b(1,2) E] "2.prems" b E small W(2,3) show ?thesis by auto
    qed
    then obtain items rest where I: "mid = concat (map wire items) @ rest" "message_items items rest"
      "hs = fst (foldl take_item (take_item (gs, c) (Entry t nm n vb v)) items)" "data = tl rest" by blast
    have cut: "length vb = n \<or> items = [] \<and> rest = []"
      using W(8) I(1) by (cases items) (auto, case_tac a, auto)
    show ?thesis
      by (intro exI [of _ "Entry t nm n vb v # items"] exI [of _ rest] conjI)
        (use b W I cut in auto)
  qed
qed

text \<open>
  C39. The decoder reads exactly what the bytes say. It accepts a buffer if and only if behind the header there are delimiters and entries
  as the protocol writes them, up to the end tag or the end of the buffer, of which only the last value may be cut off; and then
  version, status and number are those of the header, each delimiter has opened one group, each named entry (and the first entry of a
  group) one attribute of this group with its own tag and name, each nameless entry behind it one more value, every value is
  decoded by the tag of its own entry, all in the order of the bytes, and the document is what follows the end tag.
\<close>

theorem decoder_exact:
  assumes "\<forall>b \<in> set bs. b < 256"
  shows "decodeIppMessage bs = Inr m \<longleftrightarrow> (\<exists>items rest.
     bs = [im_versionMajor m, im_versionMinor m] @ u16_bytes (im_code m) @ u32_bytes (im_requestId m) @ concat (map wire items) @ rest \<and>
     message_items items rest \<and> im_groups m = groups_of items \<and> im_data m = tl rest)"
proof
  assume "decodeIppMessage bs = Inr m"
  then obtain b2 b3 b4 where h: "bs = im_versionMajor m # im_versionMinor m # b2" and c: "read_u16 b2 = Inr (im_code m, b3)"
    and r: "read_u32 b3 = Inr (im_requestId m, b4)" and l: "decode_loop [] False b4 = Inr (im_groups m, im_data m)"
    by (auto simp: decodeIppMessage_def read_u8_def bind_res_Inr_iff split: list.splits)
  have b2: "b2 = u16_bytes (im_code m) @ b3" using read_u16_wire [OF c] assms h by auto
  have b3: "b3 = u32_bytes (im_requestId m) @ b4" using read_u32_wire [OF r] assms h b2 by auto
  have "\<forall>b \<in> set b4. b < 256" using assms h b2 b3 by auto
  from decoded_items [OF l this] h b2 b3 show "\<exists>items rest.
     bs = [im_versionMajor m, im_versionMinor m] @ u16_bytes (im_code m) @ u32_bytes (im_requestId m) @ concat (map wire items) @ rest \<and>
     message_items items rest \<and> im_groups m = groups_of items \<and> im_data m = tl rest"
    unfolding take_items by auto
next
  assume "\<exists>items rest.
     bs = [im_versionMajor m, im_versionMinor m] @ u16_bytes (im_code m) @ u32_bytes (im_requestId m) @ concat (map wire items) @ rest \<and>
     message_items items rest \<and> im_groups m = groups_of items \<and> im_data m = tl rest"
  then obtain items rest where bs: "bs = [im_versionMajor m, im_versionMinor m] @ u16_bytes (im_code m) @ u32_bytes (im_requestId m) @
       concat (map wire items) @ rest"
    and ok: "message_items items rest" and g: "im_groups m = groups_of items" "im_data m = tl rest" by blast
  from assms bs have "im_requestId m div 16777216 < 256" by (simp add: u32_bytes_def)
  then have n: "im_requestId m < 4294967296" by simp
  show "decodeIppMessage bs = Inr m"
    using read_u32_bytes [OF n] decode_items [OF ok, of "[]" False]
    by (simp add: decodeIppMessage_def read_u8_def bs take_items g [symmetric])
qed

text \<open>
  Two groups: a job with two reasons, of which the second is a nameless number, and then a group whose first entry has no name.
\<close>

definition two_groups :: bytes where
  "two_groups = [1, 1, 0, 0, 0, 0, 0, 5] @ [2, 68, 0, 1] @ lit ''r'' @ [0, 2] @ lit ''ok'' @ [33, 0, 0, 0, 4, 0, 0, 0, 9] @ [4, 34, 0, 0, 0, 1, 1] @ [3, 27]"

theorem decoder_exact_witness:
  "decodeIppMessage two_groups = Inr \<lparr>im_versionMajor = 1, im_versionMinor = 1, im_code = 0, im_requestId = 5, im_groups =
     [\<lparr>gr_tag = 2, gr_attributes = [\<lparr>at_tag = 68, at_name = lit ''r'', at_values = [IVText (lit ''ok''), IVNumber 9]\<rparr>]\<rparr>,
      \<lparr>gr_tag = 4, gr_attributes = [\<lparr>at_tag = 34, at_name = [], at_values = [IVBool True]\<rparr>]\<rparr>], im_data = [27]\<rparr>"
    (is "_ = Inr ?m")
proof -
  let ?items = "[Delimiter 2, Entry 68 (lit ''r'') 2 (lit ''ok'') (IVText (lit ''ok'')), Entry 33 [] 4 [0, 0, 0, 9] (IVNumber 9),
     Delimiter 4, Entry 34 [] 1 [1] (IVBool True)]"
  have bytes: "\<forall>b \<in> set two_groups. b < 256" by (simp add: two_groups_def lit_def)
  have dec: "utf8_decode [114] = [114]" "utf8_decode [] = []" "decodeValue 68 [111, 107] = Inr (IVText [111, 107])"
    "decodeValue 33 [0, 0, 0, 9] = Inr (IVNumber 9)" "decodeValue 34 [Suc 0] = Inr (IVBool True)"
    by (simp_all add: decodeValue_def ipp_tags int32_of_def read_u8_def read_u32_def utf8_decode_def utf8_step_def utf16_def)
  have "two_groups = [1, 1] @ u16_bytes 0 @ u32_bytes 5 @ concat (map wire ?items) @ [3, 27]"
    by (simp add: two_groups_def u16_bytes_def u32_bytes_def lit_def)
  moreover have "message_items ?items [3, 27]" by (simp add: dec END_OF_ATTRIBUTES_def lit_def)
  moreover have "groups_of ?items = im_groups ?m" by (simp add: dec lit_def)
  ultimately show ?thesis by (subst decoder_exact [OF bytes]) (intro exI [of _ ?items] exI [of _ "[3, 27]"], simp)
qed

end
