(* ===== verification/VO_Adapters.thy ===== *)
theory VO_Adapters
  imports VO_Documents VO_Ipp VO_Data
begin

text \<open>
  Where a receipt goes and how it gets there: the print target (\<^verbatim>\<open>src/apps/print-worker/src/target.ts\<close>), the
  classification of failures (\<^verbatim>\<open>adapters/types.ts\<close>) and the three transports: raw TCP as a machine over the events
  of a socket (\<^verbatim>\<open>tcp.ts\<close>), CUPS as a dialogue with a server and a clock (\<^verbatim>\<open>cups.ts\<close>), and the simulator
  (\<^verbatim>\<open>simulator.ts\<close>).
\<close>

section \<open>Print targets\<close>

datatype printer_kind = ESCPOS_NETWORK | SIMULATOR_KIND | CUPS_KIND

record printer_row =
  prow_id :: "jstext option"
  prow_name :: "jstext option"
  prow_type :: "jstext option"
  prow_ipAddress :: "jstext option"
  prow_port :: "int option"
  prow_paperWidth :: "int option"
  prow_codepage :: "jstext option"
  prow_codepageProfile :: "jstext option"
  prow_cutMode :: "jstext option"
  prow_copies :: "int option"
  prow_timeoutMs :: "int option"
  prow_queueName :: "jstext option"

record print_target =
  pt_id :: jstext
  pt_name :: jstext
  pt_kind :: printer_kind
  pt_type :: jstext
  pt_host :: "jstext option"
  pt_port :: int
  pt_timeoutMs :: int
  pt_profile :: paper_profile
  pt_codepage :: codepage
  pt_codepageProfile :: codepage_profile
  pt_cutMode :: cut_mode
  pt_copies :: int
  pt_queueName :: "jstext option"

datatype config_error = NoAddress | InvalidAddress | InvalidCupsHost | NoQueueName | InvalidQueueName | UnsupportedType

definition NETWORK_TYPES :: "jstext list" where
  "NETWORK_TYPES = map lit [''ESC_POS_NETWORK'', ''ESC_POS_LAN'', ''NETWORK'', ''LAN'', ''WLAN'']"

definition SIMULATOR_TYPES :: "jstext list" where
  "SIMULATOR_TYPES = map lit [''CONSOLE'', ''SIMULATOR'', ''VIRTUAL'', ''DUMMY'']"

definition CUPS_TYPES :: "jstext list" where
  "CUPS_TYPES = [lit ''CUPS_IPP'']"

definition DEFAULT_PORT :: int where "DEFAULT_PORT = 9100"
definition DEFAULT_CUPS_PORT :: int where "DEFAULT_CUPS_PORT = 631"

definition clamp :: "int option \<Rightarrow> int \<Rightarrow> int \<Rightarrow> int \<Rightarrow> int" where
  "clamp v fallback_value low high = (case v of None \<Rightarrow> fallback_value
     | Some n \<Rightarrow> if n \<le> 0 then fallback_value else min high (max low n))"

definition text_or_empty :: "jstext option \<Rightarrow> jstext" where
  "text_or_empty v = (case v of None \<Rightarrow> [] | Some t \<Rightarrow> t)"

text \<open>White space or a slash; \<^verbatim>\<open>"://"\<close> contains a slash.\<close>

definition invalid_name :: "jstext \<Rightarrow> bool" where
  "invalid_name t \<longleftrightarrow> (\<exists>u \<in> set t. js_space u \<or> u = 47 \<or> u = 92)"

definition assertHost :: "printer_row \<Rightarrow> config_error + jstext" where
  "assertHost p = (let host = unit_trim (text_or_empty (prow_ipAddress p)) in
     if host = [] then Inl NoAddress else if invalid_name host then Inl InvalidAddress else Inr host)"

definition optionalCupsHost :: "printer_row \<Rightarrow> config_error + jstext option" where
  "optionalCupsHost p = (let host = unit_trim (text_or_empty (prow_ipAddress p)) in
     if host = [] then Inr None else if invalid_name host then Inl InvalidCupsHost else Inr (Some host))"

definition assertQueueName :: "printer_row \<Rightarrow> config_error + jstext" where
  "assertQueueName p = (let q = unit_trim (text_or_empty (prow_queueName p)) in
     if q = [] then Inl NoQueueName else if invalid_name q then Inl InvalidQueueName else Inr q)"

definition resolveTarget :: "(jstext \<Rightarrow> jstext) \<Rightarrow> bool \<Rightarrow> int \<Rightarrow> printer_row \<Rightarrow> config_error + print_target" where
  "resolveTarget upper forceSimulator defaultTimeoutMs p =
     (let type = upper (text_or_empty (prow_type p));
          base = \<lparr>pt_id = (case prow_id p of None \<Rightarrow> lit ''unbekannt'' | Some t \<Rightarrow> t),
            pt_name = (case prow_name p of None \<Rightarrow> lit ''Unbenannter Drucker'' | Some t \<Rightarrow> t),
            pt_kind = SIMULATOR_KIND, pt_type = (if type = [] then lit ''UNBEKANNT'' else type), pt_host = None,
            pt_port = clamp (prow_port p) (if type \<in> set CUPS_TYPES then DEFAULT_CUPS_PORT else DEFAULT_PORT) 1 65535,
            pt_timeoutMs = clamp (prow_timeoutMs p) defaultTimeoutMs 250 120000,
            pt_profile = resolvePaperProfile (prow_paperWidth p), pt_codepage = resolveCodepage (prow_codepage p),
            pt_codepageProfile = resolveCodepageProfile (prow_codepageProfile p), pt_cutMode = resolveCutMode (prow_cutMode p),
            pt_copies = clamp (prow_copies p) 1 1 9, pt_queueName = None\<rparr>
      in if forceSimulator \<or> type \<in> set SIMULATOR_TYPES then Inr base
         else if type \<in> set NETWORK_TYPES then bind_res (assertHost p) (\<lambda>h. Inr (base\<lparr>pt_kind := ESCPOS_NETWORK, pt_host := Some h\<rparr>))
         else if type \<in> set CUPS_TYPES then
           bind_res (optionalCupsHost p) (\<lambda>h. bind_res (assertQueueName p) (\<lambda>q.
           Inr (base\<lparr>pt_kind := CUPS_KIND, pt_host := h, pt_queueName := Some q\<rparr>)))
         else Inl UnsupportedType)"

section \<open>Preparing a document\<close>

record prepared_document =
  pd_document :: print_document
  pd_lines :: "rendered_line list"
  pd_bytes :: bytes

text \<open>\<open>None\<close> is an encoder that does not end.\<close>

definition prepareDocument :: "worker_env \<Rightarrow> print_job_like \<Rightarrow> print_target \<Rightarrow> (doc_error + prepared_document) option" where
  "prepareDocument env job t = (case buildDocument env job of Inl e \<Rightarrow> Some (Inl e)
     | Inr d \<Rightarrow> (let ls = renderDocument d (pt_profile t) in
         map_option (\<lambda>bs. Inr \<lparr>pd_document = d, pd_lines = ls, pd_bytes = bs\<rparr>)
           (encodeEscPos (we_nfd env) ls \<lparr>eo_codepage = Some (pt_codepage t), eo_codepageProfile = Some (pt_codepageProfile t),
              eo_cutMode = Some (pt_cutMode t), eo_copies = Some (pt_copies t), eo_feedBeforeCut = None\<rparr>)))"

section \<open>Failures\<close>

datatype print_error_code = DNS_ERROR | CONNECTION_REFUSED | UNREACHABLE | TIMEOUT | WRITE_FAILED | CONNECTION_LOST
  | OUTPUT_FAILED | CUPS_UNREACHABLE | CUPS_QUEUE_NOT_FOUND | CUPS_QUEUE_NOT_ACCEPTING | CUPS_RESPONSE_LOST
  | CUPS_JOB_CANCELED_PENDING | CUPS_JOB_CANCELED_PROCESSING | CUPS_JOB_ABORTED | CUPS_DEVICE_DISCONNECTED
  | CUPS_CANCEL_FAILED | CUPS_STATUS_UNKNOWN | PRINTER_CONFIGURATION | UNEXPECTED

record transport_error =
  te_code :: print_error_code
  te_bytesWritten :: nat
  te_cupsJobId :: "int option"
  te_cupsJobState :: "string option"

definition transport_failure :: "print_error_code \<Rightarrow> transport_error" where
  "transport_failure c = \<lparr>te_code = c, te_bytesWritten = 0, te_cupsJobId = None, te_cupsJobState = None\<rparr>"

record delivery_result =
  dr_transport :: string
  dr_bytes :: nat
  dr_cupsJobId :: "int option"
  dr_cupsJobState :: "string option"

datatype delivery_failure = TransportFailure transport_error | LeaseWasLost | OtherFailure

definition classifyOutcome :: "transport_error \<Rightarrow> outcome_class" where
  "classifyOutcome e = (if te_code e \<in> {DNS_ERROR, CONNECTION_REFUSED, UNREACHABLE, OUTPUT_FAILED, CUPS_QUEUE_NOT_FOUND,
       CUPS_QUEUE_NOT_ACCEPTING, CUPS_UNREACHABLE, CUPS_JOB_CANCELED_PENDING} then NOT_PRINTED
     else if te_code e \<in> {TIMEOUT, CONNECTION_LOST} then (if 0 < te_bytesWritten e then UNCLEAR else NOT_PRINTED)
     else UNCLEAR)"

section \<open>TCP\<close>

text \<open>
  The events of one socket. \<open>SocketProgress n\<close> is the runtime raising \<^verbatim>\<open>bytesWritten\<close>; a timer fires only
  while it is set; after the promise is settled the socket is destroyed and nothing changes any more.
\<close>

datatype socket_event = SocketConnect | SocketProgress nat | SocketWritten bool | SocketFinish | SocketClose bool
  | SocketError string | SocketIdle | DeadlineTimer | LingerTimer

record tcp_state =
  tcp_settled :: "(delivery_failure + delivery_result) option"
  tcp_finished :: bool
  tcp_deadline :: bool
  tcp_linger :: bool
  tcp_bytesWritten :: nat
  tcp_writing :: bool
  tcp_ended :: bool

definition tcp_start :: tcp_state where
  "tcp_start = \<lparr>tcp_settled = None, tcp_finished = False, tcp_deadline = True, tcp_linger = False, tcp_bytesWritten = 0,
     tcp_writing = False, tcp_ended = False\<rparr>"

definition tcp_error_code :: "string \<Rightarrow> print_error_code" where
  "tcp_error_code c = (if c \<in> {''ENOTFOUND'', ''EAI_AGAIN''} then DNS_ERROR
     else if c = ''ECONNREFUSED'' then CONNECTION_REFUSED
     else if c \<in> {''EHOSTUNREACH'', ''ENETUNREACH'', ''EHOSTDOWN'', ''ENETDOWN'', ''EACCES''} then UNREACHABLE
     else if c = ''ETIMEDOUT'' then TIMEOUT
     else CONNECTION_LOST)"

definition tcp_succeed :: "nat \<Rightarrow> tcp_state \<Rightarrow> tcp_state" where
  "tcp_succeed n s = s\<lparr>tcp_settled := Some (Inr \<lparr>dr_transport = ''escpos-network'', dr_bytes = n, dr_cupsJobId = None, dr_cupsJobState = None\<rparr>),
     tcp_deadline := False, tcp_linger := False\<rparr>"

definition tcp_fail :: "print_error_code \<Rightarrow> tcp_state \<Rightarrow> tcp_state" where
  "tcp_fail c s = s\<lparr>tcp_settled := Some (Inl (TransportFailure ((transport_failure c)\<lparr>te_bytesWritten := tcp_bytesWritten s\<rparr>))),
     tcp_deadline := False, tcp_linger := False\<rparr>"

definition tcp_step :: "nat \<Rightarrow> tcp_state \<Rightarrow> socket_event \<Rightarrow> tcp_state" where
  "tcp_step n s ev = (if tcp_settled s \<noteq> None then s else (case ev of
     SocketConnect \<Rightarrow> s\<lparr>tcp_writing := True\<rparr>
   | SocketProgress k \<Rightarrow> if tcp_writing s then s\<lparr>tcp_bytesWritten := tcp_bytesWritten s + k\<rparr> else s
   | SocketWritten failed \<Rightarrow> if failed then tcp_fail WRITE_FAILED s else s\<lparr>tcp_ended := True\<rparr>
   | SocketFinish \<Rightarrow> s\<lparr>tcp_finished := True, tcp_deadline := False, tcp_linger := True\<rparr>
   | SocketClose hadError \<Rightarrow> if \<not> hadError \<and> tcp_finished s then tcp_succeed n s else tcp_fail CONNECTION_LOST s
   | SocketError c \<Rightarrow> tcp_fail (tcp_error_code c) s
   | SocketIdle \<Rightarrow> tcp_fail TIMEOUT s
   | DeadlineTimer \<Rightarrow> if tcp_deadline s then tcp_fail TIMEOUT s else s
   | LingerTimer \<Rightarrow> if tcp_linger s then tcp_succeed n s else s))"

definition tcp_run :: "nat \<Rightarrow> socket_event list \<Rightarrow> tcp_state" where
  "tcp_run n evs = foldl (tcp_step n) tcp_start evs"

section \<open>CUPS\<close>

datatype post_answer = Answered bytes | NeverConnected | AnswerLost

text \<open>What the HTTP library reports, and what \<^verbatim>\<open>defaultPost\<close> makes of it.\<close>

datatype http_result = HttpResponse nat bytes | HttpError "string option"

definition NEVER_CONNECTED_CODES :: "string list" where
  "NEVER_CONNECTED_CODES = [''ECONNREFUSED'', ''ENOTFOUND'', ''EAI_AGAIN'', ''EHOSTUNREACH'', ''ENETUNREACH'', ''ENETDOWN'', ''EHOSTDOWN'']"

definition defaultPost :: "http_result \<Rightarrow> post_answer" where
  "defaultPost r = (case r of
     HttpResponse status body \<Rightarrow> if status < 200 \<or> 300 \<le> status then AnswerLost else Answered body
   | HttpError code \<Rightarrow> (case code of Some c \<Rightarrow> if c \<in> set NEVER_CONNECTED_CODES then NeverConnected else AnswerLost | None \<Rightarrow> AnswerLost))"

definition nextRequestId :: "nat \<Rightarrow> nat \<times> nat" where
  "nextRequestId counter = (let c = (counter + 1) mod 2147483647 in (if c = 0 then 1 else c, c))"

definition trimTrailingSlash :: "jstext \<Rightarrow> jstext" where
  "trimTrailingSlash url = (if url \<noteq> [] \<and> last url = 47 then butlast url else url)"

definition pct_digit :: "nat \<Rightarrow> nat" where
  "pct_digit n = (if n < 10 then 48 + n else 55 + n)"

definition unreserved :: "nat \<Rightarrow> bool" where
  "unreserved u \<longleftrightarrow> 48 \<le> u \<and> u \<le> 57 \<or> 65 \<le> u \<and> u \<le> 90 \<or> 97 \<le> u \<and> u \<le> 122 \<or> u \<in> {45, 95, 46, 33, 126, 42, 39, 40, 41}"

text \<open>A lone surrogate raises \<^verbatim>\<open>URIError\<close>.\<close>

definition encodeURIComponent :: "jstext \<Rightarrow> jstext option" where
  "encodeURIComponent t = (if \<not> well_formed t then None else Some (concat (map (\<lambda>c. if unreserved c then [c]
     else concat (map (\<lambda>b. [37, pct_digit (b div 16), pct_digit (b mod 16)]) (utf8_char c))) (codepoints t))))"

definition httpUrlFor :: "jstext \<Rightarrow> jstext \<Rightarrow> jstext option" where
  "httpUrlFor base queue = map_option (\<lambda>q. trimTrailingSlash base @ lit ''/printers/'' @ q) (encodeURIComponent queue)"

definition ipp_scheme :: "jstext \<Rightarrow> jstext" where
  "ipp_scheme url = (if take 5 url = lit ''http:'' then lit ''ipp:'' @ drop 5 url
     else if take 6 url = lit ''https:'' then lit ''ipp:'' @ drop 6 url else url)"

definition printerUriFor :: "jstext \<Rightarrow> jstext \<Rightarrow> jstext option" where
  "printerUriFor base queue = map_option ipp_scheme (httpUrlFor base queue)"

definition classifyPrintJobRejection :: "nat \<Rightarrow> print_error_code" where
  "classifyPrintJobRejection status = (if status = CLIENT_ERROR_NOT_FOUND then CUPS_QUEUE_NOT_FOUND else CUPS_QUEUE_NOT_ACCEPTING)"

definition PAPER_OUT_REASONS :: "jstext list" where
  "PAPER_OUT_REASONS = [lit ''media-empty'', lit ''media-needed'']"

datatype confirmation = Confirmed | LeaseConflict | ConfirmFailed

text \<open>
  The surroundings of one delivery: the server answers the k-th request, \<open>cups_clock\<close> is the k-th reading of the clock
  (after the sleep and the request of the previous round).
\<close>

record cups_env =
  cups_baseUrl :: jstext
  cups_waitMs :: nat
  cups_counter :: nat
  cups_server :: "nat \<Rightarrow> jstext \<Rightarrow> bytes \<Rightarrow> post_answer"
  cups_clock :: "nat \<Rightarrow> nat"
  cups_onSpooled :: "int \<Rightarrow> confirmation"

text \<open>The k-th request of a delivery carries the k-th next number.\<close>

fun request_id :: "nat \<Rightarrow> nat \<Rightarrow> nat" where
  "request_id counter 0 = fst (nextRequestId counter)"
| "request_id counter (Suc k) = request_id (snd (nextRequestId counter)) k"

datatype cups_verdict = CupsDone "delivery_failure + delivery_result" | CupsWait bool

definition cups_failure :: "print_error_code \<Rightarrow> int \<Rightarrow> string option \<Rightarrow> delivery_failure" where
  "cups_failure c jobId st = TransportFailure \<lparr>te_code = c, te_bytesWritten = 0, te_cupsJobId = Some jobId, te_cupsJobState = st\<rparr>"

definition cups_success :: "nat \<Rightarrow> int \<Rightarrow> delivery_result" where
  "cups_success n jobId = \<lparr>dr_transport = ''cups-ipp'', dr_bytes = n, dr_cupsJobId = Some jobId, dr_cupsJobState = Some ''completed''\<rparr>"

definition cups_judge :: "nat \<Rightarrow> int \<Rightarrow> bool \<Rightarrow> job_attributes_response \<Rightarrow> cups_verdict" where
  "cups_judge n jobId saw a =
     (if \<not> isSuccessfulStatus (ja_statusCode a) then CupsWait saw
      else if ja_jobState a = Some JS_COMPLETED then CupsDone (Inr (cups_success n jobId))
      else if ja_jobState a = Some JS_CANCELED then
        CupsDone (Inl (cups_failure (if saw then CUPS_JOB_CANCELED_PROCESSING else CUPS_JOB_CANCELED_PENDING) jobId (Some ''canceled'')))
      else if ja_jobState a = Some JS_ABORTED then CupsDone (Inl (cups_failure CUPS_JOB_ABORTED jobId (Some ''aborted'')))
      else (let saw' = (saw \<or> ja_jobState a = Some JS_PROCESSING);
                paperOut = (\<exists>r \<in> set (ja_jobStateReasons a @ ja_printerStateReasons a). r \<in> set PAPER_OUT_REASONS)
            in if ja_jobState a = Some JS_PROCESSING_STOPPED \<and> \<not> paperOut \<and> saw'
               then CupsDone (Inl (cups_failure CUPS_DEVICE_DISCONNECTED jobId (Some ''stopped'')))
               else CupsWait saw'))"

text \<open>One round: any failure of the request is passed over.\<close>

definition job_attributes_of :: "cups_env \<Rightarrow> jstext \<Rightarrow> jstext \<Rightarrow> nat \<Rightarrow> job_attributes_response option" where
  "job_attributes_of e url jobUri k =
     (case buildGetJobAttributesRequest \<lparr>jo_requestId = request_id (cups_counter e) k, jo_jobUri = jobUri, jo_requestingUserName = None\<rparr> of
        Inl _ \<Rightarrow> None
      | Inr body \<Rightarrow> (case cups_server e k url body of
          Answered bs \<Rightarrow> (case parseGetJobAttributesResponse bs of Inl _ \<Rightarrow> None | Inr a \<Rightarrow> Some a)
        | _ \<Rightarrow> None))"

definition cups_round :: "cups_env \<Rightarrow> jstext \<Rightarrow> jstext \<Rightarrow> nat \<Rightarrow> int \<Rightarrow> nat \<Rightarrow> bool \<Rightarrow> cups_verdict" where
  "cups_round e url jobUri n jobId k saw = (case job_attributes_of e url jobUri k of
     None \<Rightarrow> CupsWait saw | Some a \<Rightarrow> cups_judge n jobId saw a)"

definition cups_cancel :: "cups_env \<Rightarrow> jstext \<Rightarrow> jstext \<Rightarrow> int \<Rightarrow> nat \<Rightarrow> bool \<Rightarrow> delivery_failure" where
  "cups_cancel e url jobUri jobId k saw =
     (case buildCancelJobRequest \<lparr>jo_requestId = request_id (cups_counter e) k, jo_jobUri = jobUri, jo_requestingUserName = None\<rparr> of
        Inl _ \<Rightarrow> cups_failure CUPS_CANCEL_FAILED jobId None
      | Inr body \<Rightarrow> (case cups_server e k url body of
          Answered bs \<Rightarrow> (case parseCancelJobResponse bs of
              Inl _ \<Rightarrow> cups_failure CUPS_CANCEL_FAILED jobId None
            | Inr status \<Rightarrow> if \<not> isSuccessfulStatus status then cups_failure CUPS_CANCEL_FAILED jobId None
                else cups_failure (if saw then CUPS_JOB_CANCELED_PROCESSING else CUPS_JOB_CANCELED_PENDING) jobId (Some ''canceled''))
        | _ \<Rightarrow> cups_failure CUPS_CANCEL_FAILED jobId None))"

text \<open>The observation: round k reads the clock, waits, and asks; \<open>None\<close> would be an observation without end.\<close>

partial_function (option) cups_watch :: "cups_env \<Rightarrow> jstext \<Rightarrow> jstext \<Rightarrow> nat \<Rightarrow> int \<Rightarrow> nat \<Rightarrow> nat \<Rightarrow> bool \<Rightarrow> (delivery_failure + delivery_result) option" where
  "cups_watch e url jobUri n jobId deadline k saw =
     (if cups_clock e k < deadline then
        (case cups_round e url jobUri n jobId k saw of
           CupsDone r \<Rightarrow> Some r
         | CupsWait saw' \<Rightarrow> cups_watch e url jobUri n jobId deadline (k + 1) saw')
      else Some (Inl (cups_cancel e url jobUri jobId k saw)))"

text \<open>An empty text is as good as none.\<close>

definition nonempty_text :: "jstext option \<Rightarrow> jstext option" where
  "nonempty_text v = (if v = Some [] then None else v)"

text \<open>The job in the spooler: where it is asked about, and its number.\<close>

record spooled_job =
  sj_url :: jstext
  sj_uri :: jstext
  sj_id :: int

definition cups_base :: "cups_env \<Rightarrow> print_target \<Rightarrow> jstext" where
  "cups_base e t = (case nonempty_text (pt_host t) of None \<Rightarrow> cups_baseUrl e | Some h \<Rightarrow> lit ''http://'' @ h @ 58 # num_text (pt_port t))"

text \<open>Print-Job: the whole receipt in one request.\<close>

definition cups_submit :: "cups_env \<Rightarrow> prepared_document \<Rightarrow> print_target \<Rightarrow> delivery_failure + spooled_job" where
  "cups_submit e prepared t = (case nonempty_text (pt_queueName t) of
     None \<Rightarrow> Inl (TransportFailure (transport_failure CUPS_QUEUE_NOT_FOUND))
   | Some queue \<Rightarrow> (case (httpUrlFor (cups_base e t) queue, printerUriFor (cups_base e t) queue) of
       (Some url, Some printerUri) \<Rightarrow>
         (case buildPrintJobRequest \<lparr>pq_requestId = request_id (cups_counter e) 0, pq_printerUri = printerUri,
                pq_documentFormat = Some (lit ''application/octet-stream''), pq_jobName = None, pq_requestingUserName = None,
                pq_data = pd_bytes prepared\<rparr> of
            Inl _ \<Rightarrow> Inl (TransportFailure (transport_failure CUPS_RESPONSE_LOST))
          | Inr body \<Rightarrow> (case cups_server e 0 url body of
              NeverConnected \<Rightarrow> Inl (TransportFailure (transport_failure CUPS_UNREACHABLE))
            | AnswerLost \<Rightarrow> Inl (TransportFailure (transport_failure CUPS_RESPONSE_LOST))
            | Answered bs \<Rightarrow> (case parsePrintJobResponse bs of
                Inl _ \<Rightarrow> Inl OtherFailure
              | Inr r \<Rightarrow>
                  if \<not> isSuccessfulStatus (pj_resp_statusCode r)
                  then Inl (TransportFailure (transport_failure (classifyPrintJobRejection (pj_resp_statusCode r))))
                  else (case pj_resp_jobId r of
                      None \<Rightarrow> Inl (TransportFailure (transport_failure CUPS_RESPONSE_LOST))
                    | Some jobId \<Rightarrow> Inr \<lparr>sj_url = url, sj_uri = (case pj_resp_jobUri r of Some u \<Rightarrow> u | None \<Rightarrow> printerUri @ 47 # num_text jobId),
                        sj_id = jobId\<rparr>))))
     | _ \<Rightarrow> Inl OtherFailure))"

definition cups_deliver :: "cups_env \<Rightarrow> prepared_document \<Rightarrow> print_target \<Rightarrow> (delivery_failure + delivery_result) option" where
  "cups_deliver e prepared t = (case cups_submit e prepared t of
     Inl f \<Rightarrow> Some (Inl f)
   | Inr job \<Rightarrow> (case cups_onSpooled e (sj_id job) of
       LeaseConflict \<Rightarrow> Some (Inl LeaseWasLost)
     | ConfirmFailed \<Rightarrow> Some (Inl OtherFailure)
     | Confirmed \<Rightarrow> cups_watch e (sj_url job) (sj_uri job) (length (pd_bytes prepared)) (sj_id job) (cups_clock e 0 + cups_waitMs e) 1 False))"

section \<open>The simulator\<close>

definition pad_end :: "nat \<Rightarrow> nat \<Rightarrow> jstext \<Rightarrow> jstext" where
  "pad_end n u t = t @ replicate (n - length t) u"

definition boxed :: "nat \<Rightarrow> jstext \<Rightarrow> jstext" where
  "boxed columns t = lit ''| '' @ pad_end columns 32 t @ lit '' |''"

definition renderSimulation :: "prepared_document \<Rightarrow> print_target \<Rightarrow> jstext list" where
  "renderSimulation prepared t = (let columns = pp_columns (pt_profile t);
      border = pad_end (columns + 3) 45 (lit ''+'') @ lit ''+'';
      head = pt_name t @ lit '' | '' @ num_text (int (pp_width (pt_profile t))) @ lit '' mm | '' @ codepage_name (pt_codepage t) @ lit '' | '' @
        num_text (pt_copies t) @ lit ''x''
    in [border, boxed columns (take columns head), border] @ map (\<lambda>l. boxed columns (alignLine l columns)) (pd_lines prepared) @
       [border, boxed columns (take columns (lit ''Schnitt: '' @ cut_name (pt_cutMode t) @ lit '' | '' @
          num_text (int (length (pd_bytes prepared))) @ lit '' Byte ESC/POS'')), border])"

definition simulator_deliver :: "(jstext list \<Rightarrow> bool) \<Rightarrow> prepared_document \<Rightarrow> print_target \<Rightarrow> delivery_failure + delivery_result" where
  "simulator_deliver out prepared t = (if out (renderSimulation prepared t)
     then Inr \<lparr>dr_transport = ''simulator'', dr_bytes = length (pd_bytes prepared), dr_cupsJobId = None, dr_cupsJobState = None\<rparr>
     else Inl (TransportFailure (transport_failure OUTPUT_FAILED)))"

end
