(* ===== verification/VO_Worker.thy ===== *)
theory VO_Worker
  imports VO_Adapters
begin

text \<open>
  The print worker itself (\<^verbatim>\<open>src/apps/print-worker/src/index.ts\<close>): one job from the claim to the report. The
  answers of the backend, the state of the heartbeat and the behaviour of the transport are the surroundings; the result
  is the sequence of what the worker does, and \<open>None\<close> is a job whose handling never ends.
\<close>

datatype http_answer = HttpOk | HttpConflict | HttpFailure

definition confirmPhase :: "http_answer \<Rightarrow> confirmation" where
  "confirmPhase a = (case a of HttpOk \<Rightarrow> Confirmed | HttpConflict \<Rightarrow> LeaseConflict | HttpFailure \<Rightarrow> ConfirmFailed)"

section \<open>Reporting\<close>

record outcome_report =
  or_leaseId :: jstext
  or_outcome :: outcome_class
  or_errorCode :: "print_error_code option"
  or_bytesWritten :: "nat option"
  or_cupsJobState :: "string option"

definition REPORT_RETRY_INITIAL_DELAY_MS :: nat where "REPORT_RETRY_INITIAL_DELAY_MS = 1000"
definition REPORT_RETRY_MAX_DELAY_MS :: nat where "REPORT_RETRY_MAX_DELAY_MS = 30000"

text \<open>\<open>held k\<close>: the heartbeat has not seen a conflict at the k-th test. The result: the waits, and whether the report arrived.\<close>

partial_function (option) report_loop :: "(nat \<Rightarrow> bool) \<Rightarrow> (nat \<Rightarrow> http_answer) \<Rightarrow> nat \<Rightarrow> nat \<Rightarrow> (nat list \<times> bool) option" where
  "report_loop held ans k delay =
     (if held k then (case ans k of
          HttpOk \<Rightarrow> Some ([], True)
        | HttpConflict \<Rightarrow> Some ([], False)
        | HttpFailure \<Rightarrow> Option.bind (report_loop held ans (k + 1) (min (delay * 2) REPORT_RETRY_MAX_DELAY_MS))
            (\<lambda>r. Some (delay # fst r, snd r)))
      else Some ([], False))"

definition reportOutcomePersistent :: "(nat \<Rightarrow> bool) \<Rightarrow> (nat \<Rightarrow> http_answer) \<Rightarrow> (nat list \<times> bool) option" where
  "reportOutcomePersistent held ans = report_loop held ans 0 REPORT_RETRY_INITIAL_DELAY_MS"

section \<open>One job\<close>

record worker_job =
  wk_job :: print_job_like
  wk_printer :: printer_row
  wk_leaseId :: jstext

record job_env =
  je_env :: worker_env
  je_forceSimulator :: bool
  je_defaultTimeoutMs :: int
  je_delivering :: http_answer
  je_spooled :: "int \<Rightarrow> http_answer"
  je_tcp :: "socket_event list"
  je_cups :: cups_env
  je_output :: "jstext list \<Rightarrow> bool"
  je_held :: "nat \<Rightarrow> bool"
  je_report :: "nat \<Rightarrow> http_answer"

datatype worker_action = AskPhase jstext string | Transmit print_target prepared_document
  | Report outcome_report bool | LostLease | Crash

definition claim_answer :: "(worker_job option) option \<Rightarrow> worker_job option" where
  "claim_answer a = (case a of None \<Rightarrow> None | Some j \<Rightarrow> j)"

definition adapter_deliver :: "job_env \<Rightarrow> prepared_document \<Rightarrow> print_target \<Rightarrow> (delivery_failure + delivery_result) option" where
  "adapter_deliver e prepared t = (case pt_kind t of
     ESCPOS_NETWORK \<Rightarrow> tcp_settled (tcp_run (length (pd_bytes prepared)) (je_tcp e))
   | SIMULATOR_KIND \<Rightarrow> Some (simulator_deliver (je_output e) prepared t)
   | CUPS_KIND \<Rightarrow> cups_deliver ((je_cups e)\<lparr>cups_onSpooled := \<lambda>i. confirmPhase (je_spooled e i)\<rparr>) prepared t)"

definition configuration_report :: "jstext \<Rightarrow> outcome_report" where
  "configuration_report lease = \<lparr>or_leaseId = lease, or_outcome = NOT_PRINTED, or_errorCode = Some PRINTER_CONFIGURATION,
     or_bytesWritten = None, or_cupsJobState = None\<rparr>"

definition failure_report :: "jstext \<Rightarrow> delivery_failure \<Rightarrow> outcome_report" where
  "failure_report lease f = (case f of
     TransportFailure e \<Rightarrow> \<lparr>or_leaseId = lease, or_outcome = classifyOutcome e, or_errorCode = Some (te_code e),
       or_bytesWritten = Some (te_bytesWritten e), or_cupsJobState = te_cupsJobState e\<rparr>
   | _ \<Rightarrow> \<lparr>or_leaseId = lease, or_outcome = UNCLEAR, or_errorCode = Some UNEXPECTED, or_bytesWritten = None, or_cupsJobState = None\<rparr>)"

definition success_report :: "jstext \<Rightarrow> delivery_result \<Rightarrow> outcome_report" where
  "success_report lease r = \<lparr>or_leaseId = lease, or_outcome = PRINTED, or_errorCode = None, or_bytesWritten = None,
     or_cupsJobState = dr_cupsJobState r\<rparr>"

definition processJob :: "job_env \<Rightarrow> worker_job \<Rightarrow> worker_action list option" where
  "processJob e job = (case resolveTarget (we_upper (je_env e)) (je_forceSimulator e) (je_defaultTimeoutMs e) (wk_printer job) of
     Inl _ \<Rightarrow> Option.bind (reportOutcomePersistent (\<lambda>_. True) (je_report e)) (\<lambda>r.
       Some [Report (configuration_report (wk_leaseId job)) (snd r)])
   | Inr t \<Rightarrow> (case confirmPhase (je_delivering e) of
       LeaseConflict \<Rightarrow> Some [AskPhase (wk_leaseId job) ''DELIVERING'', LostLease]
     | ConfirmFailed \<Rightarrow> Some [AskPhase (wk_leaseId job) ''DELIVERING'']
     | Confirmed \<Rightarrow> Option.bind (prepareDocument (je_env e) (wk_job job) t) (\<lambda>p. (case p of
         Inl _ \<Rightarrow> Some [AskPhase (wk_leaseId job) ''DELIVERING'', Crash]
       | Inr prepared \<Rightarrow> Option.bind (adapter_deliver e prepared t) (\<lambda>d.
           if d = Inl LeaseWasLost then Some [AskPhase (wk_leaseId job) ''DELIVERING'', Transmit t prepared, LostLease]
           else (let report = (case d of Inl f \<Rightarrow> failure_report (wk_leaseId job) f | Inr r \<Rightarrow> success_report (wk_leaseId job) r)
             in Option.bind (reportOutcomePersistent (je_held e) (je_report e)) (\<lambda>r.
                Some [AskPhase (wk_leaseId job) ''DELIVERING'', Transmit t prepared, Report report (snd r)])))))))"

section \<open>Starting\<close>

text \<open>The token comes from the environment or from a file the backend writes (\<^verbatim>\<open>token.ts\<close>); \<open>token_file k\<close> is its content at the k-th reading.\<close>

definition MIN_TOKEN_LENGTH :: nat where "MIN_TOKEN_LENGTH = 32"

definition resolveWorkerToken :: "jstext option \<Rightarrow> jstext option \<Rightarrow> jstext option" where
  "resolveWorkerToken from_env file_content = (let fromEnv = unit_trim (text_or_empty from_env) in
     if fromEnv \<noteq> [] then Some fromEnv
     else (case file_content of None \<Rightarrow> None | Some raw \<Rightarrow> (let v = unit_trim raw in if v \<noteq> [] then Some v else None)))"

partial_function (option) token_loop :: "jstext option \<Rightarrow> (nat \<Rightarrow> jstext option) \<Rightarrow> (nat \<Rightarrow> nat) \<Rightarrow> nat \<Rightarrow> nat \<Rightarrow> jstext option option" where
  "token_loop from_env token_file clock deadline k = (case resolveWorkerToken from_env (token_file k) of
     Some t \<Rightarrow> Some (Some t)
   | None \<Rightarrow> if deadline \<le> clock k then Some None else token_loop from_env token_file clock deadline (k + 1))"

definition waitForWorkerToken :: "jstext option \<Rightarrow> (nat \<Rightarrow> jstext option) \<Rightarrow> (nat \<Rightarrow> nat) \<Rightarrow> nat \<Rightarrow> jstext option option" where
  "waitForWorkerToken from_env token_file clock timeoutMs = token_loop from_env token_file clock (clock 0 + timeoutMs) 1"

text \<open>The token the worker starts with; \<open>None\<close> is the exit with status 1.\<close>

definition startWorker :: "jstext option \<Rightarrow> jstext option" where
  "startWorker token = (case token of Some t \<Rightarrow> if length t < MIN_TOKEN_LENGTH then None else Some t | None \<Rightarrow> None)"

end
