(* ===== verification/VO_Worker_Props.thy ===== *)
theory VO_Worker_Props
  imports VO_Worker VO_Paper_Laws VO_Ipp_Props
begin

text \<open>
  Properties of the print worker: what a reported outcome is evidence of, that observation and reporting end, and that
  nothing is sent before the backend has confirmed the phase.
\<close>

section \<open>Limits of a print target\<close>

lemma clamp_range: "low \<le> high \<Longrightarrow> low \<le> f \<Longrightarrow> f \<le> high \<Longrightarrow> low \<le> clamp v f low high \<and> clamp v f low high \<le> high"
  by (auto simp: clamp_def split: option.splits)

lemma target_fields:
  assumes "resolveTarget upper force timeout p = Inr t"
  shows "pt_port t = clamp (prow_port p) (if upper (text_or_empty (prow_type p)) \<in> set CUPS_TYPES then DEFAULT_CUPS_PORT else DEFAULT_PORT) 1 65535"
    and "pt_timeoutMs t = clamp (prow_timeoutMs p) timeout 250 120000" and "pt_copies t = clamp (prow_copies p) 1 1 9"
    and "pt_profile t = resolvePaperProfile (prow_paperWidth p)"
    and "pt_kind t = ESCPOS_NETWORK \<Longrightarrow> \<exists>h. pt_host t = Some h \<and> h \<noteq> [] \<and> \<not> invalid_name h"
    and "pt_kind t = CUPS_KIND \<Longrightarrow> \<exists>q. pt_queueName t = Some q \<and> q \<noteq> [] \<and> \<not> invalid_name q"
  using assms by (auto simp: resolveTarget_def Let_def bind_res_Inr_iff assertHost_def assertQueueName_def split: if_splits)

text \<open>
  Whatever the printer row contains, a resolved target is usable: port, time limit and copies are within their ranges, the paper
  is one of the two known widths, a network printer has a host name and a CUPS printer a queue name, both without white space or
  slashes; nothing else yields a target.
\<close>

theorem targets_are_usable:
  assumes "resolveTarget upper force timeout p = Inr t" and "250 \<le> timeout \<and> timeout \<le> 120000"
  shows "1 \<le> pt_port t \<and> pt_port t \<le> 65535 \<and> 250 \<le> pt_timeoutMs t \<and> pt_timeoutMs t \<le> 120000 \<and> 1 \<le> pt_copies t \<and> pt_copies t \<le> 9 \<and>
     pt_profile t \<in> {PAPER_58, PAPER_80} \<and>
     (case pt_kind t of SIMULATOR_KIND \<Rightarrow> True
      | ESCPOS_NETWORK \<Rightarrow> (\<exists>h. pt_host t = Some h \<and> h \<noteq> [] \<and> \<not> invalid_name h)
      | CUPS_KIND \<Rightarrow> (\<exists>q. pt_queueName t = Some q \<and> q \<noteq> [] \<and> \<not> invalid_name q))"
proof -
  note f = target_fields [OF assms(1)]
  have "1 \<le> pt_port t \<and> pt_port t \<le> 65535" unfolding f(1) by (rule clamp_range) (simp_all add: DEFAULT_PORT_def DEFAULT_CUPS_PORT_def)
  moreover have "250 \<le> pt_timeoutMs t \<and> pt_timeoutMs t \<le> 120000" unfolding f(2) by (rule clamp_range) (use assms(2) in simp_all)
  moreover have "1 \<le> pt_copies t \<and> pt_copies t \<le> 9" unfolding f(3) by (rule clamp_range) simp_all
  moreover have "pt_profile t \<in> {PAPER_58, PAPER_80}" unfolding f(4) by (simp add: resolvePaperProfile_def)
  ultimately show ?thesis using f(5,6) by (simp split: printer_kind.split)
qed

definition lan_printer :: printer_row where
  "lan_printer = \<lparr>prow_id = None, prow_name = None, prow_type = Some (lit ''LAN''), prow_ipAddress = Some (lit '' 10.0.0.7 ''), prow_port = Some 0,
     prow_paperWidth = Some 58, prow_codepage = None, prow_codepageProfile = None, prow_cutMode = None, prow_copies = Some 50,
     prow_timeoutMs = Some 10, prow_queueName = None\<rparr>"

lemma lan_target:
  "\<exists>t. resolveTarget id False 5000 lan_printer = Inr t \<and> pt_kind t = ESCPOS_NETWORK \<and> pt_copies t = 9"
  by (simp add: resolveTarget_def lan_printer_def text_or_empty_def Let_def SIMULATOR_TYPES_def NETWORK_TYPES_def lit_def
      assertHost_def unit_trim_def js_space_def invalid_name_def clamp_def)

theorem targets_are_usable_witness:
  "\<exists>t. resolveTarget id False 5000 lan_printer = Inr t \<and> 250 \<le> pt_timeoutMs t \<and> pt_profile t \<in> {PAPER_58, PAPER_80}"
proof -
  obtain t where t: "resolveTarget id False 5000 lan_printer = Inr t" using lan_target by blast
  from targets_are_usable [OF t] t show ?thesis by auto
qed

section \<open>TCP\<close>

text \<open>What the socket itself reported: the bytes since the connection was made, and the events that end a delivery in a failure.\<close>

fun progress :: "socket_event \<Rightarrow> nat" where
  "progress (SocketProgress k) = k"
| "progress _ = 0"

definition bytes_seen :: "socket_event list \<Rightarrow> nat" where
  "bytes_seen evs = sum_list (map progress (dropWhile (\<lambda>ev. ev \<noteq> SocketConnect) evs))"

fun failure_cause :: "socket_event \<Rightarrow> print_error_code option" where
  "failure_cause (SocketWritten failed) = (if failed then Some WRITE_FAILED else None)"
| "failure_cause (SocketClose hadError) = Some CONNECTION_LOST"
| "failure_cause (SocketError c) = Some (tcp_error_code c)"
| "failure_cause SocketIdle = Some TIMEOUT"
| "failure_cause DeadlineTimer = Some TIMEOUT"
| "failure_cause _ = None"

lemma bytes_seen_snoc:
  "bytes_seen (evs @ [ev]) = bytes_seen evs + (if SocketConnect \<in> set evs then progress ev else 0)"
proof (cases "SocketConnect \<in> set evs")
  case True
  then show ?thesis by (simp add: bytes_seen_def dropWhile_append1 [of SocketConnect])
next
  case False
  have none: "dropWhile (\<lambda>ev. ev \<noteq> SocketConnect) evs = []" using False by (auto simp: dropWhile_eq_Nil_conv)
  have app: "dropWhile (\<lambda>ev. ev \<noteq> SocketConnect) (evs @ [ev]) = dropWhile (\<lambda>ev. ev \<noteq> SocketConnect) [ev]"
    using False by (intro dropWhile_append2) auto
  show ?thesis unfolding bytes_seen_def app none using False by (cases ev) simp_all
qed

lemma tcp_run_snoc: "tcp_run n (evs @ [ev]) = tcp_step n (tcp_run n evs) ev"
  by (simp add: tcp_run_def)

lemma tcp_step_settled [simp]: "tcp_settled s \<noteq> None \<Longrightarrow> tcp_step n s ev = s"
  by (simp add: tcp_step_def)

text \<open>While nothing is settled, the state of the delivery is what the events say.\<close>

lemma tcp_open_state:
  "tcp_settled (tcp_run n evs) = None \<Longrightarrow>
     tcp_bytesWritten (tcp_run n evs) = bytes_seen evs \<and> (tcp_writing (tcp_run n evs) \<longleftrightarrow> SocketConnect \<in> set evs) \<and>
     (tcp_finished (tcp_run n evs) \<longleftrightarrow> SocketFinish \<in> set evs) \<and> (tcp_linger (tcp_run n evs) \<longleftrightarrow> SocketFinish \<in> set evs) \<and>
     (tcp_deadline (tcp_run n evs) \<longleftrightarrow> SocketFinish \<notin> set evs) \<and> (\<forall>ev \<in> set evs. ev = DeadlineTimer \<or> failure_cause ev = None)"
proof (induction evs rule: rev_induct)
  case Nil
  show ?case by (simp add: tcp_run_def tcp_start_def bytes_seen_def)
next
  case (snoc ev evs)
  have "tcp_settled (tcp_run n evs) = None"
    using snoc.prems tcp_step_settled [of "tcp_run n evs" n ev] unfolding tcp_run_snoc by (cases "tcp_settled (tcp_run n evs)") auto
  with snoc show ?case
    by (cases ev) (auto simp: tcp_run_snoc tcp_step_def tcp_fail_def tcp_succeed_def bytes_seen_snoc split: if_splits)
qed

text \<open>A settled outcome goes back to the event that settled it.\<close>

lemma tcp_settling_event:
  assumes "tcp_settled (tcp_run n evs) = Some r"
  obtains pre ev rest where "evs = pre @ ev # rest" "tcp_settled (tcp_run n pre) = None" "tcp_settled (tcp_run n (pre @ [ev])) = Some r"
  using assms
proof (induction evs arbitrary: thesis rule: rev_induct)
  case Nil
  then show ?case by (simp add: tcp_run_def tcp_start_def)
next
  case (snoc ev evs)
  show ?case
  proof (cases "tcp_settled (tcp_run n evs)")
    case None
    with snoc.prems show ?thesis by blast
  next
    case (Some r')
    with snoc.prems(2) have "tcp_settled (tcp_run n evs) = Some r" by (simp add: tcp_run_snoc)
    then obtain pre ev' rest where "evs = pre @ ev' # rest" "tcp_settled (tcp_run n pre) = None" "tcp_settled (tcp_run n (pre @ [ev'])) = Some r"
      using snoc.IH by blast
    then show ?thesis using snoc.prems(1) [of pre ev' "rest @ [ev]"] by simp
  qed
qed

lemma tcp_settled_by:
  assumes "tcp_settled (tcp_run n pre) = None" and "tcp_settled (tcp_run n (pre @ [ev])) = Some r"
  shows "case r of
     Inr d \<Rightarrow> dr_bytes d = n \<and> SocketFinish \<in> set pre \<and> (ev = SocketClose False \<or> ev = LingerTimer)
   | Inl f \<Rightarrow> \<exists>x. f = TransportFailure x \<and> te_bytesWritten x = bytes_seen pre \<and> failure_cause ev = Some (te_code x)"
  using assms(2) tcp_open_state [OF assms(1)] assms(1) unfolding tcp_run_snoc
  by (cases ev) (auto simp: tcp_step_def tcp_fail_def tcp_succeed_def transport_failure_def split: if_splits)

lemma tcp_settled_final: "tcp_settled s \<noteq> None \<Longrightarrow> foldl (tcp_step n) s evs = s"
  by (induction evs) simp_all

text \<open>
  C36. The outcome of a TCP delivery is evidence. It is settled once, by one event of the socket, and nothing afterwards changes it.
  Success means that all bytes were handed over and the connection was ended, and then the printer closed it or the linger time
  passed, and no failure was seen before. A failure carries the code of the event that caused it and exactly the bytes the socket
  had reported since it was connected. It counts as not printed exactly if it is a time-out or a lost connection before the first byte,
  or if the system reported a failed lookup, a refused connection or an unreachable host; for these three the count is not looked
  at, so that, against the documentation, bytes may have left.
\<close>

theorem tcp_outcome_is_evidence:
  assumes "tcp_settled (tcp_run n evs) = Some r"
  shows "tcp_settled (tcp_run n (evs @ later)) = Some r \<and>
     (\<exists>pre ev rest. evs = pre @ ev # rest \<and> tcp_settled (tcp_run n pre) = None \<and> (case r of
        Inr d \<Rightarrow> dr_bytes d = n \<and> SocketFinish \<in> set pre \<and> (ev = SocketClose False \<or> ev = LingerTimer) \<and>
          (\<forall>x \<in> set pre. x = DeadlineTimer \<or> failure_cause x = None)
      | Inl f \<Rightarrow> (\<exists>x. f = TransportFailure x \<and> failure_cause ev = Some (te_code x) \<and> te_bytesWritten x = bytes_seen pre \<and>
          (classifyOutcome x = NOT_PRINTED \<longleftrightarrow> te_code x \<in> {TIMEOUT, CONNECTION_LOST} \<and> bytes_seen pre = 0 \<or>
             (\<exists>c. ev = SocketError c \<and> tcp_error_code c \<in> {DNS_ERROR, CONNECTION_REFUSED, UNREACHABLE})))))"
proof
  have "tcp_run n (evs @ later) = tcp_run n evs"
    using tcp_settled_final [of "tcp_run n evs" n later] assms by (simp add: tcp_run_def)
  with assms show "tcp_settled (tcp_run n (evs @ later)) = Some r" by simp
  obtain pre ev rest where E: "evs = pre @ ev # rest" "tcp_settled (tcp_run n pre) = None" "tcp_settled (tcp_run n (pre @ [ev])) = Some r"
    by (rule tcp_settling_event [OF assms])
  have unprinted: "failure_cause ev = Some (te_code x) \<Longrightarrow> te_bytesWritten x = bytes_seen pre \<Longrightarrow>
      classifyOutcome x = NOT_PRINTED \<longleftrightarrow> te_code x \<in> {TIMEOUT, CONNECTION_LOST} \<and> bytes_seen pre = 0 \<or>
        (\<exists>c. ev = SocketError c \<and> tcp_error_code c \<in> {DNS_ERROR, CONNECTION_REFUSED, UNREACHABLE})" for x
    by (cases ev) (auto simp: classifyOutcome_def tcp_error_code_def split: if_splits)
  have "case r of
        Inr d \<Rightarrow> dr_bytes d = n \<and> SocketFinish \<in> set pre \<and> (ev = SocketClose False \<or> ev = LingerTimer) \<and>
          (\<forall>x \<in> set pre. x = DeadlineTimer \<or> failure_cause x = None)
      | Inl f \<Rightarrow> (\<exists>x. f = TransportFailure x \<and> failure_cause ev = Some (te_code x) \<and> te_bytesWritten x = bytes_seen pre \<and>
          (classifyOutcome x = NOT_PRINTED \<longleftrightarrow> te_code x \<in> {TIMEOUT, CONNECTION_LOST} \<and> bytes_seen pre = 0 \<or>
             (\<exists>c. ev = SocketError c \<and> tcp_error_code c \<in> {DNS_ERROR, CONNECTION_REFUSED, UNREACHABLE})))"
  proof (cases r)
    case (Inr d)
    with tcp_settled_by [OF E(2,3)] tcp_open_state [OF E(2)] show ?thesis by simp
  next
    case (Inl f)
    with tcp_settled_by [OF E(2,3)] obtain x where x: "f = TransportFailure x" "te_bytesWritten x = bytes_seen pre"
      "failure_cause ev = Some (te_code x)" by auto
    show ?thesis unfolding Inl sum.case by (intro exI [of _ x] conjI x unprinted)
  qed
  with E(1,2) show "\<exists>pre ev rest. evs = pre @ ev # rest \<and> tcp_settled (tcp_run n pre) = None \<and> (case r of
        Inr d \<Rightarrow> dr_bytes d = n \<and> SocketFinish \<in> set pre \<and> (ev = SocketClose False \<or> ev = LingerTimer) \<and>
          (\<forall>x \<in> set pre. x = DeadlineTimer \<or> failure_cause x = None)
      | Inl f \<Rightarrow> (\<exists>x. f = TransportFailure x \<and> failure_cause ev = Some (te_code x) \<and> te_bytesWritten x = bytes_seen pre \<and>
          (classifyOutcome x = NOT_PRINTED \<longleftrightarrow> te_code x \<in> {TIMEOUT, CONNECTION_LOST} \<and> bytes_seen pre = 0 \<or>
             (\<exists>c. ev = SocketError c \<and> tcp_error_code c \<in> {DNS_ERROR, CONNECTION_REFUSED, UNREACHABLE}))))"
    by (intro exI conjI)
qed

theorem tcp_outcome_is_evidence_witness:
  "\<exists>x. tcp_settled (tcp_run 30 ([SocketConnect, SocketProgress 10, SocketProgress 2, SocketIdle] @ [SocketProgress 5])) = Some (Inl (TransportFailure x)) \<and>
     te_bytesWritten x = 12 \<and> classifyOutcome x \<noteq> NOT_PRINTED"
proof -
  let ?evs = "[SocketConnect, SocketProgress 10, SocketProgress 2, SocketIdle]"
  let ?x = "(transport_failure TIMEOUT)\<lparr>te_bytesWritten := 12\<rparr>"
  have run: "tcp_settled (tcp_run 30 ?evs) = Some (Inl (TransportFailure ?x))"
    by (simp add: tcp_run_def tcp_start_def tcp_step_def tcp_fail_def)
  have code: "te_code ?x = TIMEOUT" by (simp add: transport_failure_def)
  note found = tcp_outcome_is_evidence [OF run, of "[SocketProgress 5]"]
  from conjunct2 [OF found, unfolded sum.case] obtain pre ev x where w: "TransportFailure ?x = TransportFailure x"
    "failure_cause ev = Some (te_code x)" "te_bytesWritten x = bytes_seen pre"
    "classifyOutcome x = NOT_PRINTED \<longleftrightarrow> te_code x \<in> {TIMEOUT, CONNECTION_LOST} \<and> bytes_seen pre = 0 \<or>
       (\<exists>c. ev = SocketError c \<and> tcp_error_code c \<in> {DNS_ERROR, CONNECTION_REFUSED, UNREACHABLE})" by blast
  from w(1) have "x = ?x" by simp
  with w(2-4) code have "classifyOutcome ?x \<noteq> NOT_PRINTED" by auto
  with conjunct1 [OF found] show ?thesis by (intro exI [of _ ?x]) simp
qed

text \<open>Every delivery is settled by the deadline, an error, the idle timer or the end of the connection.\<close>

lemma tcp_close_settles: "tcp_settled (tcp_run n (evs @ [SocketClose b])) \<noteq> None"
  by (simp add: tcp_run_def tcp_step_def tcp_succeed_def tcp_fail_def)

text \<open>
  A connection that becomes unreachable while it is written to is reported as surely not printed although bytes have left, and with
  them possibly part of the receipt.
\<close>

lemma unreachable_after_bytes:
  "\<exists>e. tcp_settled (tcp_run 500 [SocketConnect, SocketProgress 300, SocketError ''EHOSTUNREACH'']) = Some (Inl (TransportFailure e)) \<and>
     te_bytesWritten e = 300 \<and> classifyOutcome e = NOT_PRINTED"
  by (simp add: tcp_run_def tcp_start_def tcp_step_def tcp_fail_def tcp_error_code_def transport_failure_def classifyOutcome_def)

text \<open>
  The idle timer stays set while the linger time runs: with a time limit below the linger time a completely sent receipt, whose
  printer keeps the connection open, always ends as unclear.
\<close>

lemma idle_before_linger:
  "\<exists>e. tcp_settled (tcp_run 500 [SocketConnect, SocketProgress 500, SocketWritten False, SocketFinish, SocketIdle, LingerTimer]) = Some (Inl (TransportFailure e)) \<and>
     classifyOutcome e = UNCLEAR"
  by (simp add: tcp_run_def tcp_start_def tcp_step_def tcp_fail_def transport_failure_def classifyOutcome_def)

section \<open>CUPS\<close>

text \<open>What a server said about the job in some round.\<close>

definition observed :: "cups_env \<Rightarrow> jstext \<Rightarrow> jstext \<Rightarrow> nat \<Rightarrow> int \<Rightarrow> bool" where
  "observed e url jobUri k st \<longleftrightarrow> (\<exists>a. job_attributes_of e url jobUri k = Some a \<and> isSuccessfulStatus (ja_statusCode a) \<and> ja_jobState a = Some st)"

text \<open>The server answered the Cancel-Job of round m with a successful status.\<close>

definition cancel_answered :: "cups_env \<Rightarrow> jstext \<Rightarrow> jstext \<Rightarrow> nat \<Rightarrow> bool" where
  "cancel_answered e url jobUri m \<longleftrightarrow> (\<exists>body bs st.
     buildCancelJobRequest \<lparr>jo_requestId = request_id (cups_counter e) m, jo_jobUri = jobUri, jo_requestingUserName = None\<rparr> = Inr body \<and>
     cups_server e m url body = Answered bs \<and> parseCancelJobResponse bs = Inr st \<and> isSuccessfulStatus st)"

text \<open>The proof of a cancellation in round m: CUPS said so, or the waiting time was over and it accepted the cancellation.\<close>

definition cancelled :: "cups_env \<Rightarrow> jstext \<Rightarrow> jstext \<Rightarrow> nat \<Rightarrow> nat \<Rightarrow> bool" where
  "cancelled e url jobUri deadline m \<longleftrightarrow>
     observed e url jobUri m JS_CANCELED \<or> deadline \<le> cups_clock e m \<and> cancel_answered e url jobUri m"

text \<open>
  Observation from round k on: completion was seen; or the job was cancelled in a round m, or the server accepted its
  cancellation at the end of the waiting time, and no round before had seen it being processed.
\<close>

definition watch_ok :: "cups_env \<Rightarrow> jstext \<Rightarrow> jstext \<Rightarrow> nat \<Rightarrow> nat \<Rightarrow> bool \<Rightarrow> delivery_failure + delivery_result \<Rightarrow> bool" where
  "watch_ok e url jobUri deadline k saw r \<longleftrightarrow> (case r of
     Inr d \<Rightarrow> (\<exists>j \<ge> k. observed e url jobUri j JS_COMPLETED)
   | Inl f \<Rightarrow> (\<exists>t. f = TransportFailure t \<and> (classifyOutcome t = NOT_PRINTED \<longrightarrow> te_code t = CUPS_JOB_CANCELED_PENDING \<and> \<not> saw \<and>
        (\<exists>m \<ge> k. cancelled e url jobUri deadline m \<and>
           (\<forall>j. k \<le> j \<and> j < m \<longrightarrow> \<not> observed e url jobUri j JS_PROCESSING)))))"

lemma judge_done:
  "cups_judge n jobId saw a = CupsDone r \<Longrightarrow> (case r of
     Inr d \<Rightarrow> isSuccessfulStatus (ja_statusCode a) \<and> ja_jobState a = Some JS_COMPLETED
   | Inl f \<Rightarrow> (\<exists>t. f = TransportFailure t \<and> (classifyOutcome t = NOT_PRINTED \<longrightarrow> te_code t = CUPS_JOB_CANCELED_PENDING \<and> \<not> saw \<and>
        isSuccessfulStatus (ja_statusCode a) \<and> ja_jobState a = Some JS_CANCELED)))"
  by (auto simp: cups_judge_def cups_failure_def classifyOutcome_def Let_def split: if_splits)

lemma judge_wait: "cups_judge n jobId saw a = CupsWait saw' \<Longrightarrow>
    (saw \<longrightarrow> saw') \<and> (isSuccessfulStatus (ja_statusCode a) \<and> ja_jobState a = Some JS_PROCESSING \<longrightarrow> saw')"
  by (auto simp: cups_judge_def Let_def JS_PROCESSING_def JS_PROCESSING_STOPPED_def JS_COMPLETED_def JS_CANCELED_def JS_ABORTED_def split: if_splits)

lemma round_wait:
  assumes "cups_round e url jobUri n jobId k saw = CupsWait saw'"
  shows "(saw \<longrightarrow> saw') \<and> (observed e url jobUri k JS_PROCESSING \<longrightarrow> saw')"
  using assms judge_wait [of n jobId saw _ saw'] by (auto simp: cups_round_def observed_def split: option.splits)

lemma round_done:
  assumes "cups_round e url jobUri n jobId k saw = CupsDone r"
  shows "watch_ok e url jobUri deadline k saw r"
proof -
  from assms obtain a where a: "job_attributes_of e url jobUri k = Some a" "cups_judge n jobId saw a = CupsDone r"
    by (auto simp: cups_round_def split: option.splits)
  have now: "observed e url jobUri k st" if "isSuccessfulStatus (ja_statusCode a)" "ja_jobState a = Some st" for st
    using a(1) that by (auto simp: observed_def)
  show ?thesis
  proof (cases r)
    case (Inr d)
    with judge_done [OF a(2)] now show ?thesis by (auto simp: watch_ok_def)
  next
    case (Inl f)
    with judge_done [OF a(2)] obtain t where "f = TransportFailure t" "classifyOutcome t = NOT_PRINTED \<longrightarrow>
        te_code t = CUPS_JOB_CANCELED_PENDING \<and> \<not> saw \<and> isSuccessfulStatus (ja_statusCode a) \<and> ja_jobState a = Some JS_CANCELED" by auto
    then have "classifyOutcome t = NOT_PRINTED \<longrightarrow> te_code t = CUPS_JOB_CANCELED_PENDING \<and> \<not> saw \<and>
        (\<exists>m \<ge> k. cancelled e url jobUri deadline m \<and>
           (\<forall>j. k \<le> j \<and> j < m \<longrightarrow> \<not> observed e url jobUri j JS_PROCESSING))"
      using now [of JS_CANCELED] unfolding cancelled_def by (intro impI conjI exI [of _ k]) auto
    with Inl \<open>f = TransportFailure t\<close> show ?thesis by (simp add: watch_ok_def)
  qed
qed

lemma cancel_class:
  obtains t where "cups_cancel e url jobUri jobId k saw = TransportFailure t"
    "classifyOutcome t = NOT_PRINTED \<Longrightarrow> te_code t = CUPS_JOB_CANCELED_PENDING \<and> \<not> saw \<and> cancel_answered e url jobUri k"
proof (cases "cancel_answered e url jobUri k")
  case True
  then have "cups_cancel e url jobUri jobId k saw =
      cups_failure (if saw then CUPS_JOB_CANCELED_PROCESSING else CUPS_JOB_CANCELED_PENDING) jobId (Some ''canceled'')"
    by (auto simp: cancel_answered_def cups_cancel_def)
  then show thesis
    unfolding cups_failure_def by (rule that) (cases saw; simp add: classifyOutcome_def True)
next
  case False
  then have "cups_cancel e url jobUri jobId k saw = cups_failure CUPS_CANCEL_FAILED jobId None"
    by (auto simp: cancel_answered_def cups_cancel_def split: sum.split post_answer.split)
  then show thesis
    unfolding cups_failure_def by (rule that) (simp add: classifyOutcome_def)
qed

lemma cancel_ok:
  assumes "deadline \<le> cups_clock e k"
  shows "watch_ok e url jobUri deadline k saw (Inl (cups_cancel e url jobUri jobId k saw))"
proof -
  obtain t where t: "cups_cancel e url jobUri jobId k saw = TransportFailure t"
    "classifyOutcome t = NOT_PRINTED \<Longrightarrow> te_code t = CUPS_JOB_CANCELED_PENDING \<and> \<not> saw \<and> cancel_answered e url jobUri k"
    by (rule cancel_class [of e url jobUri jobId k saw]) blast
  then have "classifyOutcome t = NOT_PRINTED \<longrightarrow> te_code t = CUPS_JOB_CANCELED_PENDING \<and> \<not> saw \<and>
      (\<exists>m \<ge> k. cancelled e url jobUri deadline m \<and> (\<forall>j. k \<le> j \<and> j < m \<longrightarrow> \<not> observed e url jobUri j JS_PROCESSING))"
    using assms unfolding cancelled_def by (intro impI conjI exI [of _ k]) auto
  with t(1) show ?thesis by (simp add: watch_ok_def)
qed

lemma watch_back:
  assumes wait: "cups_round e url jobUri n jobId k saw = CupsWait saw'" and ok: "watch_ok e url jobUri deadline (k + 1) saw' r"
  shows "watch_ok e url jobUri deadline k saw r"
proof (cases r)
  case (Inr d)
  with ok show ?thesis by (auto simp: watch_ok_def intro: Suc_leD)
next
  case (Inl f)
  with ok obtain t where t: "f = TransportFailure t" and np: "classifyOutcome t = NOT_PRINTED \<Longrightarrow> te_code t = CUPS_JOB_CANCELED_PENDING \<and> \<not> saw' \<and>
      (\<exists>m \<ge> k + 1. cancelled e url jobUri deadline m \<and>
        (\<forall>j. k + 1 \<le> j \<and> j < m \<longrightarrow> \<not> observed e url jobUri j JS_PROCESSING))" by (auto simp: watch_ok_def)
  have "te_code t = CUPS_JOB_CANCELED_PENDING \<and> \<not> saw \<and> (\<exists>m \<ge> k. cancelled e url jobUri deadline m \<and>
      (\<forall>j. k \<le> j \<and> j < m \<longrightarrow> \<not> observed e url jobUri j JS_PROCESSING))"
    if c: "classifyOutcome t = NOT_PRINTED"
  proof -
    from np [OF c] obtain m where m: "k + 1 \<le> m" "cancelled e url jobUri deadline m"
        "\<forall>j. k + 1 \<le> j \<and> j < m \<longrightarrow> \<not> observed e url jobUri j JS_PROCESSING"
      and rest: "te_code t = CUPS_JOB_CANCELED_PENDING" "\<not> saw'" by blast
    from round_wait [OF wait] rest(2) have no: "\<not> saw" "\<not> observed e url jobUri k JS_PROCESSING" by blast+
    have "\<not> observed e url jobUri j JS_PROCESSING" if "k \<le> j" "j < m" for j
      using m(3) no(2) that by (cases "j = k") auto
    with rest(1) no(1) m(1,2) show ?thesis by (intro conjI exI [of _ m]) auto
  qed
  with Inl t show ?thesis by (simp add: watch_ok_def)
qed

lemma watch_result: "cups_watch e url jobUri n jobId deadline k saw = Some r \<Longrightarrow> watch_ok e url jobUri deadline k saw r"
proof (induction rule: cups_watch.raw_induct [rotated, consumes 1, case_names step])
  case (step f e url jobUri n jobId deadline k saw r)
  show ?case
  proof (cases "cups_clock e k < deadline")
    case False
    with step(2) cancel_ok [of deadline e k] show ?thesis by auto
  next
    case True
    show ?thesis
    proof (cases "cups_round e url jobUri n jobId k saw")
      case (CupsDone x)
      with True step(2) round_done show ?thesis by auto
    next
      case (CupsWait saw')
      with True step(2) have "f e url jobUri n jobId deadline (k + 1) saw' = Some r" by simp
      from step(1) [OF this] CupsWait show ?thesis by (rule watch_back [rotated])
    qed
  qed
qed

lemma watch_ends:
  "deadline \<le> cups_clock e K \<Longrightarrow> k \<le> K \<Longrightarrow> \<exists>r. cups_watch e url jobUri n jobId deadline k saw = Some r"
proof (induction "K - k" arbitrary: k saw)
  case 0
  then show ?case by (subst cups_watch.simps) simp
next
  case (Suc d)
  show ?case
  proof (cases "cups_round e url jobUri n jobId k saw")
    case (CupsDone r)
    then show ?thesis by (subst cups_watch.simps) simp
  next
    case (CupsWait saw')
    have less: "d = K - (k + 1)" "k + 1 \<le> K" using Suc(2) by linarith+
    obtain r where "cups_watch e url jobUri n jobId deadline (k + 1) saw' = Some r"
      using Suc(1) [OF less(1) Suc(3) less(2), of saw'] by blast
    with CupsWait show ?thesis by (subst cups_watch.simps) simp
  qed
qed

lemma clock_grows: "\<forall>k. c k < c (Suc k) \<Longrightarrow> k \<le> (c k :: nat)"
proof (induction k)
  case (Suc k)
  from Suc.IH [OF Suc.prems] spec [OF Suc.prems, of k] show ?case by linarith
qed simp

text \<open>
  C40. A delivery to CUPS ends whatever the server answers: if the clock advances from round to round, the observation stops at the
  latest when the waiting time is over, and the delivery yields a result.
\<close>

theorem cups_delivery_ends:
  assumes "\<forall>k. cups_clock e k < cups_clock e (Suc k)"
  shows "\<exists>r. cups_deliver e prepared t = Some r"
proof -
  have "\<exists>r. cups_watch e url jobUri n jobId (cups_clock e 0 + cups_waitMs e) 1 False = Some r" for url jobUri n jobId
  proof (rule watch_ends)
    show "cups_clock e 0 + cups_waitMs e \<le> cups_clock e (Suc (cups_clock e 0 + cups_waitMs e))"
      using clock_grows [OF assms, of "Suc (cups_clock e 0 + cups_waitMs e)"] by linarith
  qed simp
  then show ?thesis by (simp add: cups_deliver_def split: sum.split confirmation.split)
qed

definition silent_cups :: cups_env where
  "silent_cups = \<lparr>cups_baseUrl = lit ''http://cups:631'', cups_waitMs = 120000, cups_counter = 0, cups_server = \<lambda>k url body. AnswerLost,
     cups_clock = \<lambda>k. 1000 * k, cups_onSpooled = \<lambda>i. Confirmed\<rparr>"

definition bon_target :: print_target where
  "bon_target = \<lparr>pt_id = [], pt_name = [], pt_kind = CUPS_KIND, pt_type = [], pt_host = None, pt_port = 631, pt_timeoutMs = 5000,
     pt_profile = PAPER_80, pt_codepage = CP858, pt_codepageProfile = EPSON_STANDARD, pt_cutMode = CUT_FULL, pt_copies = 1, pt_queueName = Some (lit ''Bon'')\<rparr>"

definition bon_bytes :: prepared_document where
  "bon_bytes = \<lparr>pd_document = \<lparr>doc_title = [], doc_blocks = []\<rparr>, pd_lines = [], pd_bytes = [27, 64]\<rparr>"

theorem cups_delivery_ends_witness: "\<exists>r. cups_deliver silent_cups bon_bytes bon_target = Some r"
  by (rule cups_delivery_ends) (simp add: silent_cups_def)

lemma submit_failure:
  "cups_submit e prepared t = Inl f \<Longrightarrow> f = OtherFailure \<or>
     (\<exists>c \<in> {CUPS_QUEUE_NOT_FOUND, CUPS_UNREACHABLE, CUPS_QUEUE_NOT_ACCEPTING, CUPS_RESPONSE_LOST}. f = TransportFailure (transport_failure c))"
  by (auto simp: cups_submit_def classifyPrintJobRejection_def split: option.splits sum.splits post_answer.splits if_splits)










section \<open>Reporting\<close>

lemma report_ends:
  "ans n \<noteq> HttpFailure \<or> \<not> held n \<Longrightarrow> k \<le> n \<Longrightarrow> \<exists>r. report_loop held ans k delay = Some r"
proof (induction "n - k" arbitrary: k delay)
  case 0
  then show ?case by (subst report_loop.simps) (auto split: http_answer.split)
next
  case (Suc d)
  have less: "d = n - (k + 1)" "k + 1 \<le> n" using Suc(2) by linarith+
  from Suc(1) [OF less(1) Suc(3) less(2), of "min (delay * 2) REPORT_RETRY_MAX_DELAY_MS"] show ?case
    by (subst report_loop.simps) (auto split: http_answer.split)
qed

lemma report_arrives:
  "ans n = HttpOk \<Longrightarrow> \<forall>j. k \<le> j \<and> j < n \<longrightarrow> ans j = HttpFailure \<Longrightarrow> \<forall>j. k \<le> j \<and> j \<le> n \<longrightarrow> held j \<Longrightarrow> k \<le> n \<Longrightarrow>
   \<exists>ds. report_loop held ans k delay = Some (ds, True) \<and> length ds = n - k"
proof (induction "n - k" arbitrary: k delay)
  case 0
  then show ?case by (subst report_loop.simps) simp
next
  case (Suc d)
  have less: "d = n - (k + 1)" "k + 1 \<le> n" using Suc(2) by linarith+
  have here: "ans k = HttpFailure" "held k" using Suc(4,5) less(2) by auto
  have f: "\<forall>j. k + 1 \<le> j \<and> j < n \<longrightarrow> ans j = HttpFailure" and h: "\<forall>j. k + 1 \<le> j \<and> j \<le> n \<longrightarrow> held j"
    using Suc(4,5) by auto
  from Suc(1) [OF less(1) Suc(3) f h less(2), of "min (delay * 2) REPORT_RETRY_MAX_DELAY_MS"] here less show ?case
    by (subst report_loop.simps) auto
qed

lemma report_delays:
  "report_loop held ans k delay = Some (ds, b) \<Longrightarrow> delay = min (1000 * 2 ^ k) 30000 \<Longrightarrow>
   \<forall>i < length ds. ds ! i = min (1000 * 2 ^ (k + i)) 30000"
proof (induction ds arbitrary: k delay)
  case (Cons x ds)
  have "x = delay \<and> report_loop held ans (k + 1) (min (delay * 2) REPORT_RETRY_MAX_DELAY_MS) = Some (ds, b)"
    using Cons.prems(1) [unfolded report_loop.simps [of held ans k delay]]
    by (auto split: if_splits http_answer.splits simp: bind_eq_Some_conv)
  then have x: "x = delay" and r: "report_loop held ans (k + 1) (min (delay * 2) REPORT_RETRY_MAX_DELAY_MS) = Some (ds, b)" by blast+
  have "min (delay * 2) REPORT_RETRY_MAX_DELAY_MS = min (1000 * 2 ^ (k + 1)) 30000"
    by (simp add: Cons.prems(2) REPORT_RETRY_MAX_DELAY_MS_def min_def)
  note ih = Cons.IH [OF r this]
  show ?case
  proof (intro allI impI)
    fix i
    assume "i < length (x # ds)"
    with ih x Cons.prems(2) show "(x # ds) ! i = min (1000 * 2 ^ (k + i)) 30000" by (cases i) auto
  qed
qed simp

text \<open>
  The report of an outcome is repeated until it arrives: if the backend accepts the n-th attempt after n failures while the lease
  is held, the report is delivered after exactly n waits, the first of one second, each twice the one before, none above 30 seconds.
\<close>

theorem reports_arrive:
  assumes "ans n = HttpOk" and "\<forall>j<n. ans j = HttpFailure" and "\<forall>j\<le>n. held j"
  shows "\<exists>ds. reportOutcomePersistent held ans = Some (ds, True) \<and> length ds = n \<and> (\<forall>i<n. ds ! i = min (1000 * 2 ^ i) 30000)"
proof -
  obtain ds where ds: "report_loop held ans 0 1000 = Some (ds, True)" "length ds = n"
    using report_arrives [of ans n 0 held 1000] assms by auto
  from report_delays [OF ds(1)] ds(2) have "\<forall>i<n. ds ! i = min (1000 * 2 ^ i) 30000" by simp
  with ds show ?thesis by (simp add: reportOutcomePersistent_def REPORT_RETRY_INITIAL_DELAY_MS_def)
qed

theorem reports_arrive_witness:
  "\<exists>ds. reportOutcomePersistent (\<lambda>_. True) (\<lambda>k. if k < 7 then HttpFailure else HttpOk) = Some (ds, True) \<and> length ds = 7 \<and>
     (\<forall>i<7. ds ! i = min (1000 * 2 ^ i) 30000)"
  by (rule reports_arrive) simp_all

section \<open>One job\<close>

lemma processJob_cases:
  assumes "processJob e job = Some acts"
  obtains (config) b where "acts = [Report (configuration_report (wk_leaseId job)) b]"
  | (unconfirmed) "je_delivering e \<noteq> HttpOk" "\<forall>x \<in> set acts. x = AskPhase (wk_leaseId job) ''DELIVERING'' \<or> x = LostLease"
  | (crashed) "acts = [AskPhase (wk_leaseId job) ''DELIVERING'', Crash]"
  | (lost) t p where "je_delivering e = HttpOk" "acts = [AskPhase (wk_leaseId job) ''DELIVERING'', Transmit t p, LostLease]"
  | (failed) t p f b where "je_delivering e = HttpOk" "adapter_deliver e p t = Some (Inl f)"
      "acts = [AskPhase (wk_leaseId job) ''DELIVERING'', Transmit t p, Report (failure_report (wk_leaseId job) f) b]"
  | (printed) t p d b where "je_delivering e = HttpOk" "adapter_deliver e p t = Some (Inr d)"
      "acts = [AskPhase (wk_leaseId job) ''DELIVERING'', Transmit t p, Report (success_report (wk_leaseId job) d) b]"
proof (cases "resolveTarget (we_upper (je_env e)) (je_forceSimulator e) (je_defaultTimeoutMs e) (wk_printer job)")
  case (Inl x)
  with assms config show thesis by (auto simp: processJob_def bind_eq_Some_conv)
next
  case target: (Inr t)
  show thesis
  proof (cases "je_delivering e")
    case HttpConflict
    with target assms unconfirmed show thesis by (auto simp: processJob_def confirmPhase_def)
  next
    case HttpFailure
    with target assms unconfirmed show thesis by (auto simp: processJob_def confirmPhase_def)
  next
    case ok: HttpOk
    obtain q where q: "prepareDocument (je_env e) (wk_job job) t = Some q"
      using target ok assms by (auto simp: processJob_def confirmPhase_def bind_eq_Some_conv)
    show thesis
    proof (cases q)
      case (Inl x)
      with target ok q assms crashed show thesis by (simp add: processJob_def confirmPhase_def)
    next
      case (Inr p)
      obtain d where d: "adapter_deliver e p t = Some d"
        using target ok q Inr assms by (auto simp: processJob_def confirmPhase_def bind_eq_Some_conv)
      show thesis
      proof (cases "d = Inl LeaseWasLost")
        case True
        with target ok q Inr d assms lost [of t p] show thesis by (simp add: processJob_def confirmPhase_def)
      next
        case False
        with target ok q Inr d assms obtain r where r: "reportOutcomePersistent (je_held e) (je_report e) = Some r"
          "acts = [AskPhase (wk_leaseId job) ''DELIVERING'', Transmit t p,
             Report (case d of Inl f \<Rightarrow> failure_report (wk_leaseId job) f | Inr r \<Rightarrow> success_report (wk_leaseId job) r) (snd r)]"
          by (auto simp: processJob_def confirmPhase_def bind_eq_Some_conv Let_def)
        show thesis
        proof (cases d)
          case f: (Inl f)
          with r d ok failed [of p t f "snd r"] show thesis by simp
        next
          case f: (Inr x)
          with r d ok printed [of p t x "snd r"] show thesis by simp
        qed
      qed
    qed
  qed
qed

text \<open>
  C34. No byte leaves before the backend has confirmed the phase, and no job is sent twice: whatever happens around one job, a
  transmission occurs at most once, only after the phase DELIVERING was asked for and confirmed, and every report carries the lease
  of this claim; PRINTED is reported only for the delivery that succeeded.
\<close>

theorem nothing_sent_unconfirmed:
  assumes "processJob e job = Some acts"
  shows "(\<forall>i t p. i < length acts \<and> acts ! i = Transmit t p \<longrightarrow> i = 1 \<and> acts ! 0 = AskPhase (wk_leaseId job) ''DELIVERING'' \<and> je_delivering e = HttpOk) \<and>
     (\<forall>r b. Report r b \<in> set acts \<longrightarrow> or_leaseId r = wk_leaseId job \<and>
        (or_outcome r = PRINTED \<longrightarrow> (\<exists>t p d. Transmit t p \<in> set acts \<and> adapter_deliver e p t = Some (Inr d))))"
  using assms
proof (cases rule: processJob_cases)
  case (config b)
  then show ?thesis by (auto simp: configuration_report_def less_Suc_eq)
next
  case unconfirmed
  have "\<forall>i < length acts. \<forall>t p. acts ! i \<noteq> Transmit t p" using unconfirmed(2) nth_mem by fastforce
  with unconfirmed(2) show ?thesis by auto
next
  case crashed
  then show ?thesis by (auto simp: less_Suc_eq)
next
  case (lost t p)
  then show ?thesis by (auto simp: less_Suc_eq)
next
  case (failed t p f b)
  have "or_leaseId (failure_report l f) = l" "or_outcome (failure_report l f) \<noteq> PRINTED" for l
    by (simp_all add: failure_report_def classifyOutcome_def split: delivery_failure.split)
  with failed show ?thesis by (auto simp: less_Suc_eq)
next
  case (printed t p d b)
  then show ?thesis by (auto simp: less_Suc_eq success_report_def)
qed

definition sample_worker_env :: job_env where
  "sample_worker_env = \<lparr>je_env = \<lparr>we_nfd = \<lambda>c. [c], we_upper = id, we_local = \<lambda>t. None\<rparr>, je_forceSimulator = False, je_defaultTimeoutMs = 5000,
     je_delivering = HttpConflict, je_spooled = \<lambda>i. HttpOk, je_tcp = [SocketConnect, SocketClose False], je_cups = silent_cups,
     je_output = \<lambda>l. True, je_held = \<lambda>k. True, je_report = \<lambda>k. HttpOk\<rparr>"

definition sample_worker_job :: worker_job where
  "sample_worker_job = \<lparr>wk_job = \<lparr>wj_id = None, wj_jobType = None, wj_content = None, wj_createdAt = None\<rparr>,
     wk_printer = lan_printer, wk_leaseId = lit ''L1''\<rparr>"

text \<open>A run that sends: the phase is confirmed, the printer takes 30 bytes and closes.\<close>

definition sending_env :: job_env where
  "sending_env = sample_worker_env\<lparr>je_delivering := HttpOk,
     je_tcp := [SocketConnect, SocketProgress 30, SocketWritten False, SocketFinish, SocketClose False]\<rparr>"

lemma prepare_total:
  assumes "nfd_full (we_nfd env)" and "buildDocument env job = Inr d"
  obtains p where "prepareDocument env job t = Some (Inr p)" "pd_document p = d"
proof -
  obtain x where "encodeLines (we_nfd env) (pt_codepage t) (None, None, None) (renderDocument d (pt_profile t)) = Some x"
    using encode_lines_total [OF assms(1)] by blast
  then obtain bs where "prepareDocument env job t =
      Some (Inr \<lparr>pd_document = d, pd_lines = renderDocument d (pt_profile t), pd_bytes = bs\<rparr>)"
    by (simp add: prepareDocument_def assms(2) encodeEscPos_def Let_def)
  then show thesis by (rule that) simp
qed

lemma sample_document: "\<exists>d. buildDocument (je_env sample_worker_env) (wk_job sample_worker_job) = Inr d"
  by (simp add: buildDocument_def sample_worker_job_def Let_def)

lemma sample_prepared:
  obtains t p where "resolveTarget id False 5000 lan_printer = Inr t" "pt_kind t = ESCPOS_NETWORK"
    "prepareDocument (je_env sample_worker_env) (wk_job sample_worker_job) t = Some (Inr p)"
proof -
  obtain t where t: "resolveTarget id False 5000 lan_printer = Inr t" "pt_kind t = ESCPOS_NETWORK" using lan_target by blast
  obtain d where d: "buildDocument (je_env sample_worker_env) (wk_job sample_worker_job) = Inr d" using sample_document by blast
  have "nfd_full (we_nfd (je_env sample_worker_env))" by (simp add: sample_worker_env_def nfd_full_def)
  from prepare_total [OF this d, of t] obtain p where "prepareDocument (je_env sample_worker_env) (wk_job sample_worker_job) t = Some (Inr p)"
    by blast
  with t that show thesis by blast
qed

theorem nothing_sent_unconfirmed_witness:
  "\<exists>t p r. processJob sending_env sample_worker_job = Some [AskPhase (lit ''L1'') ''DELIVERING'', Transmit t p, Report r True] \<and>
     or_outcome r = PRINTED \<and> or_leaseId r = lit ''L1'' \<and> (\<exists>t p d. adapter_deliver sending_env p t = Some (Inr d))"
proof -
  obtain t p where t: "resolveTarget id False 5000 lan_printer = Inr t" "pt_kind t = ESCPOS_NETWORK"
    and p: "prepareDocument (je_env sample_worker_env) (wk_job sample_worker_job) t = Some (Inr p)" by (rule sample_prepared)
  let ?d = "\<lparr>dr_transport = ''escpos-network'', dr_bytes = length (pd_bytes p), dr_cupsJobId = None, dr_cupsJobState = None\<rparr>"
  let ?r = "success_report (lit ''L1'') ?d"
  have env: "je_env sending_env = je_env sample_worker_env" "we_upper (je_env sample_worker_env) = id" "je_forceSimulator sending_env = False"
    "je_defaultTimeoutMs sending_env = 5000" "je_delivering sending_env = HttpOk"
    "je_held sending_env = (\<lambda>k. True)" "je_report sending_env = (\<lambda>k. HttpOk)"
    "je_tcp sending_env = [SocketConnect, SocketProgress 30, SocketWritten False, SocketFinish, SocketClose False]"
    "wk_leaseId sample_worker_job = lit ''L1''" "wk_printer sample_worker_job = lan_printer"
    by (simp_all add: sending_env_def sample_worker_env_def sample_worker_job_def)
  have deliver: "adapter_deliver sending_env p t = Some (Inr ?d)"
    by (simp add: adapter_deliver_def t(2) env tcp_run_def tcp_start_def tcp_step_def tcp_succeed_def)
  have report: "reportOutcomePersistent (\<lambda>k. True) (\<lambda>k. HttpOk) = Some ([], True)"
    by (simp add: reportOutcomePersistent_def report_loop.simps)
  have run: "processJob sending_env sample_worker_job = Some [AskPhase (lit ''L1'') ''DELIVERING'', Transmit t p, Report ?r True]"
    by (simp add: processJob_def env t(1) p deliver report confirmPhase_def)
  have "or_outcome ?r = PRINTED" by (simp add: success_report_def)
  with nothing_sent_unconfirmed [OF run] have "or_leaseId ?r = lit ''L1''" "\<exists>t p d. adapter_deliver sending_env p t = Some (Inr d)"
    by (auto simp: env)
  with run \<open>or_outcome ?r = PRINTED\<close> show ?thesis by blast
qed

text \<open>Every delivery ends, whichever transport it takes.\<close>

lemma delivery_ends:
  assumes "\<exists>evs b. je_tcp e = evs @ [SocketClose b]" and "\<forall>k. cups_clock (je_cups e) k < cups_clock (je_cups e) (Suc k)"
  shows "\<exists>d. adapter_deliver e p t = Some d"
proof -
  have watch: "\<exists>r. cups_watch E url jobUri k jobId (cups_clock E 0 + cups_waitMs E) 1 False = Some r"
    if "\<forall>k. cups_clock E k < cups_clock E (Suc k)" for E url jobUri k jobId
    by (rule watch_ends [of _ _ "Suc (cups_clock E 0 + cups_waitMs E)"])
      (use clock_grows [OF that, of "Suc (cups_clock E 0 + cups_waitMs E)"] in simp_all)
  have cups: "\<exists>d. cups_deliver ((je_cups e)\<lparr>cups_onSpooled := f\<rparr>) p t = Some d" for f
    using watch [of "(je_cups e)\<lparr>cups_onSpooled := f\<rparr>"] assms(2) by (simp add: cups_deliver_def split: sum.split confirmation.split)
  have tcp: "\<exists>d. tcp_settled (tcp_run k (je_tcp e)) = Some d" for k using assms(1) tcp_close_settles by fastforce
  show ?thesis using cups tcp by (simp add: adapter_deliver_def split: printer_kind.split)
qed

text \<open>What a report has to say about a delivery.\<close>

definition tells :: "jstext \<Rightarrow> delivery_failure + delivery_result \<Rightarrow> outcome_report \<Rightarrow> bool" where
  "tells lease d r \<longleftrightarrow> or_leaseId r = lease \<and> (case d of
     Inr x \<Rightarrow> or_outcome r = PRINTED \<and> or_errorCode r = None
   | Inl (TransportFailure x) \<Rightarrow> or_outcome r = classifyOutcome x \<and> or_errorCode r = Some (te_code x) \<and>
       or_bytesWritten r = Some (te_bytesWritten x)
   | Inl _ \<Rightarrow> or_outcome r = UNCLEAR \<and> or_errorCode r = Some UNEXPECTED)"

lemma reports_tell:
  "tells lease (Inl f) (failure_report lease f)" "tells lease (Inr x) (success_report lease x)"
  by (auto simp: tells_def failure_report_def success_report_def split: delivery_failure.split)

lemma lease_lost_by_cups:
  assumes "adapter_deliver e p t = Some (Inl LeaseWasLost)"
  shows "pt_kind t = CUPS_KIND \<and> (\<exists>i. je_spooled e i = HttpConflict)"
proof (cases "pt_kind t")
  case ESCPOS_NETWORK
  with assms obtain pre ev rest where "tcp_settled (tcp_run (length (pd_bytes p)) pre) = None"
    "tcp_settled (tcp_run (length (pd_bytes p)) (pre @ [ev])) = Some (Inl LeaseWasLost)"
    by (auto simp: adapter_deliver_def elim: tcp_settling_event)
  from tcp_settled_by [OF this] show ?thesis by simp
next
  case SIMULATOR_KIND
  with assms show ?thesis by (simp add: adapter_deliver_def simulator_deliver_def split: if_splits)
next
  case CUPS_KIND
  with assms have "cups_deliver ((je_cups e)\<lparr>cups_onSpooled := \<lambda>i. confirmPhase (je_spooled e i)\<rparr>) p t = Some (Inl LeaseWasLost)"
    by (simp add: adapter_deliver_def)
  with CUPS_KIND show ?thesis
    by (auto simp: cups_deliver_def confirmPhase_def watch_ok_def split: sum.splits confirmation.splits http_answer.splits
        dest!: watch_result submit_failure)
qed

text \<open>
  C37. Every claimed job is brought to an end and, once it may have been sent, reported: if the socket is eventually closed, the
  clock advances, and the backend accepts the report after finitely many failures while the lease is held, handling the job ends.
  A job whose printer row is unusable is reported as not printed and nothing is sent. If the phase is confirmed and the document can be
  built, it is transmitted once and then the outcome of the delivery, with its class, code and byte count, arrives as the report of
  this lease; only when CUPS took the job and the backend answers the phase SPOOLED with a conflict does another worker's lease count
  and no report is made. Without a report end the runs in which nothing was sent: the phase was refused (lease lost), could not
  be confirmed, or the content of the job is malformed (the worker process ends).
\<close>

theorem jobs_are_reported:
  assumes "nfd_full (we_nfd (je_env e))" and "\<exists>evs b. je_tcp e = evs @ [SocketClose b]"
    and "\<forall>k. cups_clock (je_cups e) k < cups_clock (je_cups e) (Suc k)"
    and "je_report e n = HttpOk" and "\<forall>j<n. je_report e j = HttpFailure" and "\<forall>j\<le>n. je_held e j"
  shows "case resolveTarget (we_upper (je_env e)) (je_forceSimulator e) (je_defaultTimeoutMs e) (wk_printer job) of
     Inl _ \<Rightarrow> (\<exists>r. processJob e job = Some [Report r True] \<and> or_leaseId r = wk_leaseId job \<and> or_outcome r = NOT_PRINTED \<and>
       or_errorCode r = Some PRINTER_CONFIGURATION)
   | Inr t \<Rightarrow> (\<exists>sent. processJob e job = Some (AskPhase (wk_leaseId job) ''DELIVERING'' # sent) \<and> (case je_delivering e of
       HttpConflict \<Rightarrow> sent = [LostLease]
     | HttpFailure \<Rightarrow> sent = []
     | HttpOk \<Rightarrow> (case buildDocument (je_env e) (wk_job job) of
         Inl _ \<Rightarrow> sent = [Crash]
       | Inr doc \<Rightarrow> (\<exists>p d. pd_document p = doc \<and> adapter_deliver e p t = Some d \<and>
           (if d = Inl LeaseWasLost then sent = [Transmit t p, LostLease] \<and> pt_kind t = CUPS_KIND \<and> (\<exists>i. je_spooled e i = HttpConflict)
            else (\<exists>r. sent = [Transmit t p, Report r True] \<and> tells (wk_leaseId job) d r))))))"
proof -
  have report: "\<exists>ds. reportOutcomePersistent held (je_report e) = Some (ds, True)" if "\<forall>j\<le>n. held j" for held
    using report_arrives [of "je_report e" n 0 held] assms(4,5) that by (fastforce simp: reportOutcomePersistent_def)
  obtain ds where h: "reportOutcomePersistent (je_held e) (je_report e) = Some (ds, True)" using report [OF assms(6)] by blast
  obtain ds' where c: "reportOutcomePersistent (\<lambda>_. True) (je_report e) = Some (ds', True)" using report [of "\<lambda>_. True"] by blast
  show ?thesis
  proof (cases "resolveTarget (we_upper (je_env e)) (je_forceSimulator e) (je_defaultTimeoutMs e) (wk_printer job)")
    case (Inl x)
    with c show ?thesis by (simp add: processJob_def configuration_report_def)
  next
    case target: (Inr t)
    show ?thesis
    proof (cases "je_delivering e")
      case ok: HttpOk
      show ?thesis
      proof (cases "buildDocument (je_env e) (wk_job job)")
        case (Inl x)
        with target ok show ?thesis by (simp add: processJob_def prepareDocument_def confirmPhase_def)
      next
        case doc: (Inr doc)
        obtain p where p: "prepareDocument (je_env e) (wk_job job) t = Some (Inr p)" "pd_document p = doc"
          by (rule prepare_total [OF assms(1) doc])
        obtain d where d: "adapter_deliver e p t = Some d" using delivery_ends [OF assms(2,3)] by blast
        show ?thesis
        proof (cases "d = Inl LeaseWasLost")
          case True
          with target p ok d have "processJob e job = Some [AskPhase (wk_leaseId job) ''DELIVERING'', Transmit t p, LostLease]"
            by (simp add: processJob_def confirmPhase_def)
          with True p(2) d lease_lost_by_cups [of e p t] target ok doc show ?thesis by auto
        next
          case False
          define r where "r = (case d of Inl f \<Rightarrow> failure_report (wk_leaseId job) f | Inr x \<Rightarrow> success_report (wk_leaseId job) x)"
          have "tells (wk_leaseId job) d r" by (cases d) (simp_all add: r_def reports_tell)
          moreover from False target p ok d h
          have "processJob e job = Some [AskPhase (wk_leaseId job) ''DELIVERING'', Transmit t p, Report r True]"
            by (simp add: processJob_def confirmPhase_def Let_def r_def)
          ultimately show ?thesis using False p(2) d target ok doc by auto
        qed
      qed
    qed (simp_all add: processJob_def confirmPhase_def target)
  qed
qed

theorem jobs_are_reported_witness:
  "\<exists>t p r. processJob sending_env sample_worker_job = Some [AskPhase (lit ''L1'') ''DELIVERING'', Transmit t p, Report r True]"
proof -
  have env: "nfd_full (we_nfd (je_env sending_env))" "\<forall>k. cups_clock (je_cups sending_env) k < cups_clock (je_cups sending_env) (Suc k)"
    "je_report sending_env 0 = HttpOk" "\<forall>j\<le>0. je_held sending_env j" "je_delivering sending_env = HttpOk" "je_forceSimulator sending_env = False"
    "je_env sending_env = je_env sample_worker_env" "we_upper (je_env sample_worker_env) = id" "je_defaultTimeoutMs sending_env = 5000"
    "wk_leaseId sample_worker_job = lit ''L1''" "wk_printer sample_worker_job = lan_printer"
    by (simp_all add: sending_env_def sample_worker_env_def sample_worker_job_def silent_cups_def nfd_full_def)
  have "je_tcp sending_env = [SocketConnect, SocketProgress 30, SocketWritten False, SocketFinish] @ [SocketClose False]"
    by (simp add: sending_env_def)
  then have tcp: "\<exists>evs b. je_tcp sending_env = evs @ [SocketClose b]" by blast
  obtain t where t: "resolveTarget id False 5000 lan_printer = Inr t" "pt_kind t = ESCPOS_NETWORK" using lan_target by blast
  obtain doc where doc: "buildDocument (je_env sample_worker_env) (wk_job sample_worker_job) = Inr doc" using sample_document by blast
  have lost: "adapter_deliver sending_env p t \<noteq> Some (Inl LeaseWasLost)" for p
    using lease_lost_by_cups [of sending_env p t] t(2) by auto
  from jobs_are_reported [OF env(1) tcp env(2,3) _ env(4), of sample_worker_job] show ?thesis
    using t(1) doc lost by (auto simp: env split: if_splits)
qed

section \<open>Starting\<close>

lemma token_wait_ends:
  assumes "\<forall>k. clock k < clock (Suc k)"
  shows "\<exists>t. waitForWorkerToken from_env token_file clock timeoutMs = Some t"
proof -
  have "clock 0 + timeoutMs \<le> clock K \<Longrightarrow> k \<le> K \<Longrightarrow> \<exists>t. token_loop from_env token_file clock (clock 0 + timeoutMs) k = Some t" for K k
  proof (induction "K - k" arbitrary: k)
    case 0
    then show ?case by (subst token_loop.simps) (simp split: option.split)
  next
    case (Suc d)
    have less: "d = K - (k + 1)" "k + 1 \<le> K" using Suc(2) by linarith+
    from Suc(1) [OF less(1) Suc(3) less(2)] show ?case by (subst token_loop.simps) (simp split: option.split)
  qed
  from this [of "Suc (clock 0 + timeoutMs)" 1] clock_grows [OF assms, of "Suc (clock 0 + timeoutMs)"] show ?thesis
    by (simp add: waitForWorkerToken_def)
qed

lemma worker_never_starts_without_token:
  "startWorker t = Some u \<Longrightarrow> t = Some u \<and> MIN_TOKEN_LENGTH \<le> length u"
  by (auto simp: startWorker_def split: option.splits if_splits)

end
