(* ===== verification/VO_Queue.thy ===== *)
theory VO_Queue
  imports Complex_Main VO_Documents VO_Orders "HOL-Library.Sublist"
begin

text \<open>
  The offline queue of the client, its data and decisions: \<^verbatim>\<open>offlineQueueTypes.ts\<close>, \<^verbatim>\<open>offlineQueueClassify.ts\<close>,
  \<^verbatim>\<open>offlineQueueContext.ts\<close> and \<^verbatim>\<open>offlineQueueDb.ts\<close> under \<^verbatim>\<open>src/apps/frontend/src/lib\<close>. Keys and ids are
  the backend's strings, texts the operator reads are lists of UTF-16 units, answers of the server are JSON values. The
  object store is the list of its records in the order of their keys; dates are milliseconds. The cleaning of server
  texts follows the regular expressions of the code: their character classes are disjoint from what follows them, so each
  global replacement is one pass over maximal runs.
\<close>

section \<open>Records\<close>

datatype offline_state = LOCAL_PENDING | SENDING | OQ_CONFIRMED | OQ_CONFLICT | OQ_FAILED

datatype conflict_kind = CK_AUTH_EXPIRED | CK_FORBIDDEN | CK_CONTEXT_UNKNOWN | CK_EVENT_MODE | CK_SESSION_CLOSED
  | CK_PRODUCT_UNAVAILABLE | CK_PRICE_OR_OPTION | CK_VALIDATION | CK_DUPLICATE_KEY_MISMATCH | CK_UNKNOWN_4XX

datatype offline_mode = OM_MODE data_mode | OM_UNKNOWN

record offline_item =
  fi_productId :: id
  fi_quantity :: int
  fi_optionIds :: "id list"
  fi_productName :: "jstext option"
  fi_unitPriceAtCapture :: "int option"

datatype error_kind = EK_NETWORK | EK_HTTP

record offline_error =
  fe_at :: int
  fe_kind :: error_kind
  fe_httpStatus :: "int option"
  fe_messageForOperator :: jstext

record capture_context =
  cc_userId :: id
  cc_username :: jstext
  cc_userRole :: "string option"
  cc_eventId :: id
  cc_eventName :: "jstext option"
  cc_dataMode :: data_mode
  cc_cashierSessionId :: "id option"

record offline_order =
  of_idempotencyKey :: string
  of_state :: offline_state
  of_createdAt :: int
  of_updatedAt :: int
  of_userId :: "id option"
  of_username :: "jstext option"
  of_userRole :: "string option"
  of_eventId :: id
  of_eventName :: "jstext option"
  of_dataMode :: offline_mode
  of_cashierSessionId :: "id option"
  of_items :: "offline_item list"
  of_payments :: "payment_input list"
  of_tableName :: "string option"
  of_areaId :: "id option"
  of_areaName :: "jstext option"
  of_totalAtCapture :: "int option"
  of_attempt :: nat
  of_lastAttemptAt :: "int option"
  of_nextAttemptAt :: "int option"
  of_sendingSince :: "int option"
  of_interruptedAt :: "int option"
  of_lastError :: "offline_error option"
  of_conflictKind :: "conflict_kind option"
  of_serverOrderId :: "jstext option"
  of_serverOrderNumber :: "jstext option"
  of_confirmedAt :: "int option"
  of_legacy :: bool
  of_adoptedByUserId :: "id option"
  of_adoptedAt :: "int option"

record offline_item_input =
  fin_productId :: id
  fin_quantity :: int
  fin_optionIds :: "id list option"
  fin_productName :: "jstext option"
  fin_unitPriceAtCapture :: "int option"

record enqueue_input =
  en_idempotencyKey :: string
  en_context :: capture_context
  en_items :: "offline_item_input list"
  en_payments :: "payment_input list"
  en_tableName :: "string option"
  en_areaId :: "id option"
  en_areaName :: "jstext option"
  en_totalAtCapture :: "int option"

record current_event =
  cx_eventId :: jstext
  cx_eventName :: jstext
  cx_dataMode :: data_mode
  cx_activeSessionId :: "jstext option"

section \<open>Answers of the server\<close>

record http_failure =
  hf_code :: "jstext option"
  hf_status :: "int option"
  hf_headers :: "wjson option"
  hf_data :: "wjson option"

datatype http_reply = HttpOk int "wjson option" | HttpFail http_failure

datatype submission_outcome =
    SO_CONFIRMED jstext "jstext option"
  | SO_CONFLICT conflict_kind offline_error
  | SO_RETRY offline_error "int option"

definition text_field :: "string \<Rightarrow> wjson option \<Rightarrow> jstext option" where
  "text_field k v = (case v of None \<Rightarrow> None | Some x \<Rightarrow> (case wget k x of Some (WStr t) \<Rightarrow> Some t | _ \<Rightarrow> None))"

section \<open>Cleaning a server text\<close>

definition token_char :: "nat \<Rightarrow> bool" where
  "token_char u \<longleftrightarrow> 48 \<le> u \<and> u \<le> 57 \<or> 65 \<le> u \<and> u \<le> 90 \<or> 97 \<le> u \<and> u \<le> 122 \<or> u = 95 \<or> u = 45"

definition bearer_char :: "nat \<Rightarrow> bool" where
  "bearer_char u \<longleftrightarrow> token_char u \<or> u = 46"

definition entfernt :: jstext where
  "entfernt = lit ''[entfernt]''"

text \<open>\<^verbatim>\<open>/[A-Za-z0-9_-]{10,}\.[A-Za-z0-9_-]{10,}\.[A-Za-z0-9_-]{10,}/g\<close>: what follows the first section.\<close>

definition jwt_rest :: "jstext \<Rightarrow> jstext option" where
  "jwt_rest t = (case t of
     u # us \<Rightarrow> if u = 46 \<and> 10 \<le> length (takeWhile token_char us)
       then (case dropWhile token_char us of
           v # vs \<Rightarrow> if v = 46 \<and> 10 \<le> length (takeWhile token_char vs) then Some (dropWhile token_char vs) else None
         | [] \<Rightarrow> None)
       else None
   | [] \<Rightarrow> None)"

lemma jwt_rest_length: "jwt_rest t = Some r \<Longrightarrow> length r < length t"
  using length_dropWhile_le [of token_char "tl t"] length_dropWhile_le [of token_char "tl (dropWhile token_char (tl t))"]
  by (auto simp: jwt_rest_def split: list.splits if_splits)

lemma jwt_rest_within: "jwt_rest (dropWhile P t) = Some r \<Longrightarrow> length r \<le> length t"
  using jwt_rest_length [of "dropWhile P t" r] length_dropWhile_le [of P t] by simp

function strip_jwt :: "jstext \<Rightarrow> jstext" where
  "strip_jwt [] = []"
| "strip_jwt (u # us) = (if token_char u then
      (let run = takeWhile token_char (u # us); rest = dropWhile token_char us in
       (case (if 10 \<le> length run then jwt_rest rest else None) of
          Some r \<Rightarrow> entfernt @ strip_jwt r
        | None \<Rightarrow> run @ strip_jwt rest))
     else u # strip_jwt us)"
  by pat_completeness auto
termination
  by (relation "measure length")
    (auto simp: less_Suc_eq_le length_dropWhile_le dest!: jwt_rest_within split: if_splits)

text \<open>\<^verbatim>\<open>/Bearer\s+[A-Za-z0-9._-]+/gi\<close>: the flag \<^verbatim>\<open>i\<close> without \<^verbatim>\<open>u\<close> folds ASCII letters and the accented letters of Latin-1.\<close>

definition fold_case :: "nat \<Rightarrow> nat" where
  "fold_case u = (if 97 \<le> u \<and> u \<le> 122 \<or> 224 \<le> u \<and> u \<le> 254 \<and> u \<noteq> 247 then u - 32 else u)"

definition bearer_rest :: "jstext \<Rightarrow> jstext option" where
  "bearer_rest t = (let rest = drop 6 t; body = dropWhile js_space rest in
     if map fold_case (take 6 t) = lit ''BEARER'' \<and> body \<noteq> rest \<and> takeWhile bearer_char body \<noteq> []
     then Some (dropWhile bearer_char body) else None)"

lemma bearer_rest_length: "bearer_rest t = Some r \<Longrightarrow> length r < length t"
proof -
  assume r: "bearer_rest t = Some r"
  have "length (dropWhile bearer_char (dropWhile js_space (drop 6 t))) \<le> length t - 6"
    using length_dropWhile_le [of bearer_char "dropWhile js_space (drop 6 t)"] length_dropWhile_le [of js_space "drop 6 t"] by simp
  moreover have "t \<noteq> []" using r by (auto simp: bearer_rest_def lit_def Let_def split: if_splits)
  ultimately show ?thesis using r by (cases t) (auto simp: bearer_rest_def Let_def split: if_splits)
qed

function strip_bearer :: "jstext \<Rightarrow> jstext" where
  "strip_bearer [] = []"
| "strip_bearer (u # us) = (case bearer_rest (u # us) of
      Some r \<Rightarrow> entfernt @ strip_bearer r
    | None \<Rightarrow> u # strip_bearer us)"
  by pat_completeness auto
termination by (relation "measure length") (auto dest: bearer_rest_length)

text \<open>\<^verbatim>\<open>/[A-Za-z0-9_-]{32,}/g\<close>\<close>

function strip_tokens :: "jstext \<Rightarrow> jstext" where
  "strip_tokens [] = []"
| "strip_tokens (u # us) = (if token_char u then
      (let run = takeWhile token_char (u # us) in
       (if 32 \<le> length run then entfernt else run) @ strip_tokens (dropWhile token_char us))
     else u # strip_tokens us)"
  by pat_completeness auto
termination by (relation "measure length") (auto simp: less_Suc_eq_le length_dropWhile_le)

text \<open>\<^verbatim>\<open>/(^|\n)\s*at\s+\S/\<close> and the slice before its first match\<close>

definition stack_line :: "jstext \<Rightarrow> bool" where
  "stack_line t = (case dropWhile js_space t of
     a # b # rest \<Rightarrow> a = 97 \<and> b = 116 \<and> dropWhile js_space rest \<noteq> rest \<and> dropWhile js_space rest \<noteq> []
   | _ \<Rightarrow> False)"

fun cut_lines :: "jstext \<Rightarrow> jstext" where
  "cut_lines [] = []"
| "cut_lines (u # us) = (if u = 10 \<and> stack_line us then [] else u # cut_lines us)"

definition cut_stack :: "jstext \<Rightarrow> jstext" where
  "cut_stack t = (if stack_line t then [] else cut_lines t)"

definition MAX_OPERATOR_MESSAGE_LENGTH :: nat where
  "MAX_OPERATOR_MESSAGE_LENGTH = 300"

definition genericMessageForStatus :: "int option \<Rightarrow> jstext" where
  "genericMessageForStatus st = (case st of
     None \<Rightarrow> lit ''Keine Verbindung zum Server.''
   | Some s \<Rightarrow> if s = 401 then lit ''Anmeldung ist abgelaufen.''
       else if s = 403 then lit ''Keine Berechtigung f'' @ [252] @ lit ''r diese Aktion.''
       else lit ''Der Server hat die Anfrage abgelehnt.'')"

definition sanitizeOperatorMessage :: "jstext option \<Rightarrow> int option \<Rightarrow> jstext" where
  "sanitizeOperatorMessage raw st = (case raw of
     None \<Rightarrow> genericMessageForStatus st
   | Some t \<Rightarrow> if t = [] then genericMessageForStatus st
       else (let m = cut_stack (strip_tokens (strip_bearer (strip_jwt t)));
                 m = take MAX_OPERATOR_MESSAGE_LENGTH (unit_trim (takeWhile (\<lambda>u. u \<noteq> 10) m))
             in if m = [] then genericMessageForStatus st else m))"

definition networkMessage :: "jstext option \<Rightarrow> jstext" where
  "networkMessage code = (if code = Some (lit ''ECONNABORTED'') then lit ''Zeit'' @ [252] @ lit ''berschreitung beim Senden.''
     else lit ''Keine Verbindung zum Server.'')"

section \<open>Classifying a rejection\<close>

definition SERVER_CODE_TO_CONFLICT_KIND :: "(string \<times> conflict_kind) list" where
  "SERVER_CODE_TO_CONFLICT_KIND =
     [(''AUTH_EXPIRED'', CK_AUTH_EXPIRED), (''FORBIDDEN'', CK_FORBIDDEN), (''EVENT_MODE'', CK_EVENT_MODE),
      (''SESSION_CLOSED'', CK_SESSION_CLOSED), (''PRODUCT_UNAVAILABLE'', CK_PRODUCT_UNAVAILABLE),
      (''PRICE_OR_OPTION'', CK_PRICE_OR_OPTION), (''DUPLICATE_KEY_MISMATCH'', CK_DUPLICATE_KEY_MISMATCH),
      (''VALIDATION'', CK_VALIDATION)]"

definition code_kind :: "wjson option \<Rightarrow> conflict_kind option" where
  "code_kind c = (case c of Some (WStr t) \<Rightarrow> map_of (map (\<lambda>(k, x). (lit k, x)) SERVER_CODE_TO_CONFLICT_KIND) t | _ \<Rightarrow> None)"

definition mentions :: "jstext \<Rightarrow> jstext \<Rightarrow> bool" where
  "mentions p t \<longleftrightarrow> sublist (map fold_case p) (map fold_case t)"

definition line_end :: "nat \<Rightarrow> bool" where
  "line_end u \<longleftrightarrow> u \<in> {10, 13, 8232, 8233}"

text \<open>\<^verbatim>\<open>/Endpreis.*nicht negativ/i\<close>: the dot stops at the end of a line.\<close>

definition negative_price :: "jstext \<Rightarrow> bool" where
  "negative_price t \<longleftrightarrow> list_ex (\<lambda>s. map fold_case (take 8 s) = map fold_case (lit ''Endpreis'') \<and>
     mentions (lit ''nicht negativ'') (takeWhile (\<lambda>u. \<not> line_end u) (drop 8 s))) (suffixes t)"

definition message_patterns :: "((jstext \<Rightarrow> bool) \<times> conflict_kind) list" where
  "message_patterns =
     [(mentions (lit ''anderen Betriebsmodus''), CK_EVENT_MODE),
      (mentions (lit ''Bestellungen sind erst m'' @ [246] @ lit ''glich''), CK_EVENT_MODE),
      (mentions (lit ''ist derzeit nicht verf'' @ [252] @ lit ''gbar''), CK_PRODUCT_UNAVAILABLE),
      (mentions (lit ''ist f'' @ [252] @ lit ''r diese Veranstaltung nicht hinterlegt''), CK_PRODUCT_UNAVAILABLE),
      (mentions (lit ''geh'' @ [246] @ lit ''rt zu keiner aktiven Auswahlgruppe''), CK_PRICE_OR_OPTION),
      (mentions (lit ''braucht mindestens''), CK_PRICE_OR_OPTION),
      (mentions (lit ''erlaubt h'' @ [246] @ lit ''chstens''), CK_PRICE_OR_OPTION),
      (mentions (lit ''mehrfach angegeben''), CK_PRICE_OR_OPTION),
      (negative_price, CK_PRICE_OR_OPTION),
      (mentions (lit ''gew'' @ [228] @ lit ''hlte Bereich geh'' @ [246] @ lit ''rt nicht zu dieser Veranstaltung''), CK_VALIDATION),
      (mentions (lit ''Es wurde keine Position ausgew'' @ [228] @ lit ''hlt''), CK_VALIDATION),
      (mentions (lit ''Benutzerkonto ist nicht aktiv''), CK_FORBIDDEN),
      (mentions (lit ''Sitzung''), CK_SESSION_CLOSED)]"

definition classifyConflictKind :: "int \<Rightarrow> jstext \<Rightarrow> wjson option \<Rightarrow> conflict_kind" where
  "classifyConflictKind st raw code =
     (if st = 401 then CK_AUTH_EXPIRED
      else if st = 403 then CK_FORBIDDEN
      else (case code_kind code of
          Some k \<Rightarrow> k
        | None \<Rightarrow> if st = 404 \<or> st = 405 then CK_VALIDATION
            else (case find (\<lambda>(test, k). test raw) message_patterns of Some (_, k) \<Rightarrow> k | None \<Rightarrow> CK_UNKNOWN_4XX)))"

section \<open>Classifying an answer\<close>

text \<open>\<open>parse_date\<close> is \<^verbatim>\<open>Date.parse\<close>, \<open>None\<close> its \<^verbatim>\<open>NaN\<close>.\<close>

definition parseRetryAfterMs :: "(jstext \<Rightarrow> int option) \<Rightarrow> int \<Rightarrow> wjson option \<Rightarrow> int option" where
  "parseRetryAfterMs parse_date now hs = (case text_field ''retry-after'' hs of
     None \<Rightarrow> None
   | Some t \<Rightarrow> if t = [] then None
       else (case text_num t of
           Some s \<Rightarrow> if 0 \<le> s then Some (s * 1000) else map_option (\<lambda>d. max 0 (d - now)) (parse_date t)
         | None \<Rightarrow> map_option (\<lambda>d. max 0 (d - now)) (parse_date t)))"

definition MAX_AUTOMATIC_ATTEMPTS :: nat where
  "MAX_AUTOMATIC_ATTEMPTS = 6"

text \<open>Doubles are exact rationals here; \<^verbatim>\<open>Math.round\<close> rounds halves up.\<close>

definition js_round :: "rat \<Rightarrow> int" where
  "js_round x = \<lfloor>x + 1 / 2\<rfloor>"

definition computeNextAttemptDelayMs :: "nat \<Rightarrow> int option \<Rightarrow> rat \<Rightarrow> int" where
  "computeNextAttemptDelayMs attempt retryAfterMs random =
     (let delay = js_round (of_int (min (5000 * 2 ^ (attempt - 1)) 300000) * (1 + (random * 2 - 1) * (1 / 5)))
      in case retryAfterMs of Some r \<Rightarrow> if 0 \<le> r then r else delay | None \<Rightarrow> delay)"

definition classifySuccess :: "offline_order \<Rightarrow> wjson option \<Rightarrow> int \<Rightarrow> submission_outcome" where
  "classifySuccess r v now =
     (if (case text_field ''idempotencyKey'' v of Some k \<Rightarrow> k \<noteq> lit (of_idempotencyKey r) | None \<Rightarrow> False) \<or>
         (case text_field ''eventId'' v of Some i \<Rightarrow> i \<noteq> lit (of_eventId r) | None \<Rightarrow> False)
      then SO_CONFLICT CK_DUPLICATE_KEY_MISMATCH \<lparr>fe_at = now, fe_kind = EK_HTTP, fe_httpStatus = None,
             fe_messageForOperator = lit ''Die Antwort des Servers geh'' @ [246] @ lit ''rt zu einer anderen Bestellung.''\<rparr>
      else SO_CONFIRMED (case text_field ''id'' v of Some i \<Rightarrow> i | None \<Rightarrow> lit (of_idempotencyKey r)) (text_field ''orderNumber'' v))"

definition retryable_status :: "int \<Rightarrow> bool" where
  "retryable_status s \<longleftrightarrow> s = 408 \<or> s = 425 \<or> s = 429 \<or> 500 \<le> s"

definition classifyError :: "(jstext \<Rightarrow> int option) \<Rightarrow> http_failure \<Rightarrow> int \<Rightarrow> submission_outcome" where
  "classifyError parse_date f now = (case hf_status f of
     None \<Rightarrow> SO_RETRY \<lparr>fe_at = now, fe_kind = EK_NETWORK, fe_httpStatus = None, fe_messageForOperator = networkMessage (hf_code f)\<rparr> None
   | Some s \<Rightarrow>
       (let raw = text_field ''message'' (hf_data f);
            err = \<lparr>fe_at = now, fe_kind = EK_HTTP, fe_httpStatus = Some s, fe_messageForOperator = sanitizeOperatorMessage raw (Some s)\<rparr>
        in if retryable_status s
           then SO_RETRY err (if s = 429 then parseRetryAfterMs parse_date now (hf_headers f) else None)
           else SO_CONFLICT (classifyConflictKind s (case raw of Some t \<Rightarrow> t | None \<Rightarrow> []) (Option.bind (hf_data f) (wget ''code''))) err))"

definition classifySubmissionOutcome :: "(jstext \<Rightarrow> int option) \<Rightarrow> offline_order \<Rightarrow> http_reply \<Rightarrow> int \<Rightarrow> submission_outcome" where
  "classifySubmissionOutcome parse_date r reply now = (case reply of
     HttpOk s v \<Rightarrow> classifySuccess r v now
   | HttpFail f \<Rightarrow> classifyError parse_date f now)"

section \<open>The context of today\<close>

definition deriveDataModeFromEventStatus :: "wjson option \<Rightarrow> wjson option \<Rightarrow> data_mode option" where
  "deriveDataModeFromEventStatus st testMode =
     (if st = Some (WStr (lit ''ACTIVE'')) \<and> \<not> wtruthy testMode then Some LIVE
      else if st = Some (WStr (lit ''TEST_MODE'')) \<and> wtruthy testMode then Some TEST
      else None)"

definition context_entry :: "wjson \<Rightarrow> current_event option" where
  "context_entry v = (case text_field ''id'' (Some v) of
     None \<Rightarrow> None
   | Some i \<Rightarrow> (case deriveDataModeFromEventStatus (wget ''status'' v) (wget ''testMode'' v) of
       None \<Rightarrow> None
     | Some m \<Rightarrow> Some \<lparr>cx_eventId = i, cx_eventName = (case text_field ''name'' (Some v) of Some t \<Rightarrow> t | None \<Rightarrow> []),
         cx_dataMode = m, cx_activeSessionId = text_field ''id'' (wget ''activeSession'' v)\<rparr>))"

text \<open>\<open>None\<close> is the exception the caller catches.\<close>

definition fetchCurrentEventContexts :: "http_reply \<Rightarrow> current_event list option" where
  "fetchCurrentEventContexts reply = (case reply of
     HttpFail f \<Rightarrow> None
   | HttpOk s v \<Rightarrow> Some (case v of Some (WArr vs) \<Rightarrow> List.map_filter context_entry vs | _ \<Rightarrow> []))"

datatype context_check = CC_OK | CC_WAIT_FOR_USER | CC_CONFLICT conflict_kind

definition checkOfflineOrderContext :: "offline_order \<Rightarrow> id option \<Rightarrow> current_event list \<Rightarrow> context_check" where
  "checkOfflineOrderContext r currentUserId currentEvents =
     (if of_dataMode r = OM_UNKNOWN \<or> of_userId r = None then CC_CONFLICT CK_CONTEXT_UNKNOWN
      else if truthy currentUserId = None \<or> currentUserId \<noteq> of_userId r then CC_WAIT_FOR_USER
      else (case find (\<lambda>x. cx_eventId x = lit (of_eventId r)) currentEvents of
          None \<Rightarrow> CC_CONFLICT CK_EVENT_MODE
        | Some x \<Rightarrow> if OM_MODE (cx_dataMode x) \<noteq> of_dataMode r then CC_CONFLICT CK_EVENT_MODE
            else (case of_cashierSessionId r of
                None \<Rightarrow> CC_OK
              | Some s \<Rightarrow> if cx_activeSessionId x \<noteq> Some (lit s) then CC_CONFLICT CK_SESSION_CLOSED else CC_OK)))"

section \<open>The object store\<close>

type_synonym store = "offline_order list"

definition INTERRUPTED_SENDING_THRESHOLD_MS :: int where
  "INTERRUPTED_SENDING_THRESHOLD_MS = 90000"

definition CONFIRMED_RETENTION_MS :: int where
  "CONFIRMED_RETENTION_MS = 24 * 60 * 60 * 1000"

definition MAX_OPEN_QUEUE_ENTRIES :: nat where
  "MAX_OPEN_QUEUE_ENTRIES = 200"

definition OPEN_STATES :: "offline_state list" where
  "OPEN_STATES = [LOCAL_PENDING, SENDING, OQ_CONFLICT, OQ_FAILED]"

definition computeOfflineOrderRecordTotalCents :: "offline_order \<Rightarrow> int" where
  "computeOfflineOrderRecordTotalCents r = (case of_totalAtCapture r of
     Some t \<Rightarrow> max 0 t
   | None \<Rightarrow> (let paid = sum_list (map pi_amount (of_payments r)) in
       if of_payments r \<noteq> [] \<and> 0 < paid then paid
       else sum_list (map (\<lambda>i. (case fi_unitPriceAtCapture i of Some p \<Rightarrow> p | None \<Rightarrow> 0) *
              (if fi_quantity i = 0 then 1 else fi_quantity i)) (of_items r))))"

record legacy_item =
  li_productId :: id
  li_quantity :: int
  li_optionIds :: "id list option"

record legacy_order =
  lg_idempotencyKey :: string
  lg_eventId :: id
  lg_items :: "legacy_item list option"
  lg_payments :: "payment_input list option"
  lg_tableName :: "string option"
  lg_areaId :: "id option"
  lg_createdAt :: "int option"

text \<open>What the store holds before the upgrade: records of version 1 have no \<^verbatim>\<open>schemaVersion\<close>.\<close>

datatype stored = Version_1 legacy_order | Version_2 offline_order

definition migrateLegacyV1Record :: "int \<Rightarrow> legacy_order \<Rightarrow> offline_order" where
  "migrateLegacyV1Record now l =
     (let createdAt = (case lg_createdAt l of Some t \<Rightarrow> t | None \<Rightarrow> now) in
      \<lparr>of_idempotencyKey = lg_idempotencyKey l, of_state = OQ_CONFLICT, of_createdAt = createdAt, of_updatedAt = createdAt,
       of_userId = None, of_username = None, of_userRole = None, of_eventId = lg_eventId l, of_eventName = None,
       of_dataMode = OM_UNKNOWN, of_cashierSessionId = None,
       of_items = map (\<lambda>i. \<lparr>fi_productId = li_productId i, fi_quantity = li_quantity i,
           fi_optionIds = (case li_optionIds i of Some os \<Rightarrow> os | None \<Rightarrow> []), fi_productName = None, fi_unitPriceAtCapture = None\<rparr>)
         (case lg_items l of Some xs \<Rightarrow> xs | None \<Rightarrow> []),
       of_payments = (case lg_payments l of Some ps \<Rightarrow> ps | None \<Rightarrow> []),
       of_tableName = lg_tableName l, of_areaId = lg_areaId l, of_areaName = None, of_totalAtCapture = None,
       of_attempt = 0, of_lastAttemptAt = None, of_nextAttemptAt = None, of_sendingSince = None, of_interruptedAt = None,
       of_lastError = None, of_conflictKind = Some CK_CONTEXT_UNKNOWN, of_serverOrderId = None, of_serverOrderNumber = None,
       of_confirmedAt = None, of_legacy = True, of_adoptedByUserId = None, of_adoptedAt = None\<rparr>)"

definition migrateStoreInPlace :: "int \<Rightarrow> stored list \<Rightarrow> stored list" where
  "migrateStoreInPlace now = map (\<lambda>x. case x of Version_1 l \<Rightarrow> Version_2 (migrateLegacyV1Record now l) | Version_2 r \<Rightarrow> Version_2 r)"

text \<open>The \<^verbatim>\<open>upgrade\<close> callback of \<^verbatim>\<open>getOfflineQueueDB\<close>.\<close>

definition upgrade :: "nat \<Rightarrow> int \<Rightarrow> stored list \<Rightarrow> stored list" where
  "upgrade oldVersion now xs = (if 1 \<le> oldVersion \<and> oldVersion < 2 then migrateStoreInPlace now xs else xs)"

fun putOfflineOrderRecord :: "offline_order \<Rightarrow> store \<Rightarrow> store" where
  "putOfflineOrderRecord r [] = [r]"
| "putOfflineOrderRecord r (x # xs) =
     (if of_idempotencyKey r = of_idempotencyKey x then r # xs
      else if of_idempotencyKey r < of_idempotencyKey x then r # x # xs
      else x # putOfflineOrderRecord r xs)"

definition getOfflineOrderRecord :: "string \<Rightarrow> store \<Rightarrow> offline_order option" where
  "getOfflineOrderRecord k st = find (\<lambda>r. of_idempotencyKey r = k) st"

definition deleteOfflineOrderRecord :: "string \<Rightarrow> store \<Rightarrow> store" where
  "deleteOfflineOrderRecord k st = filter (\<lambda>r. of_idempotencyKey r \<noteq> k) st"

definition getAllOfflineOrderRecordsByCreatedAt :: "store \<Rightarrow> offline_order list" where
  "getAllOfflineOrderRecordsByCreatedAt st = sort_key of_createdAt st"

definition getLocalPendingOrderedByCreatedAt :: "store \<Rightarrow> offline_order list" where
  "getLocalPendingOrderedByCreatedAt st = filter (\<lambda>r. of_state r = LOCAL_PENDING) (getAllOfflineOrderRecordsByCreatedAt st)"

definition countOpenOfflineOrderRecords :: "store \<Rightarrow> nat" where
  "countOpenOfflineOrderRecords st = sum_list (map (\<lambda>s. length (filter (\<lambda>r. of_state r = s) st)) OPEN_STATES)"

definition interrupted :: "int \<Rightarrow> offline_order \<Rightarrow> bool" where
  "interrupted now r \<longleftrightarrow> of_state r = SENDING \<and>
     (case of_sendingSince r of Some t \<Rightarrow> INTERRUPTED_SENDING_THRESHOLD_MS < now - t | None \<Rightarrow> False)"

definition recovered_record :: "int \<Rightarrow> offline_order \<Rightarrow> offline_order" where
  "recovered_record now r = (if interrupted now r
     then r\<lparr>of_state := LOCAL_PENDING, of_sendingSince := None, of_interruptedAt := Some now, of_nextAttemptAt := Some now,
            of_updatedAt := now\<rparr>
     else r)"

definition recoverInterruptedSendingRecords :: "int \<Rightarrow> store \<Rightarrow> store \<times> nat" where
  "recoverInterruptedSendingRecords now st = (map (recovered_record now) st, length (filter (interrupted now) st))"

definition outlived :: "int \<Rightarrow> offline_order \<Rightarrow> bool" where
  "outlived now r \<longleftrightarrow> of_state r = OQ_CONFIRMED \<and> (case of_confirmedAt r of Some t \<Rightarrow> CONFIRMED_RETENTION_MS < now - t | None \<Rightarrow> False)"

definition cleanupConfirmedOfflineOrderRecords :: "int \<Rightarrow> store \<Rightarrow> store \<times> nat" where
  "cleanupConfirmedOfflineOrderRecords now st = (filter (\<lambda>r. \<not> outlived now r) st, length (filter (outlived now) st))"

definition open_summary :: "(offline_order \<Rightarrow> bool) \<Rightarrow> store \<Rightarrow> nat \<times> int" where
  "open_summary belongs st =
     (let rs = filter (\<lambda>r. of_state r \<in> set OPEN_STATES \<and> belongs r) (getAllOfflineOrderRecordsByCreatedAt st)
      in (length rs, sum_list (map computeOfflineOrderRecordTotalCents rs)))"

definition getOpenOfflineQueueSummaryForSession :: "string \<Rightarrow> store \<Rightarrow> nat \<times> int" where
  "getOpenOfflineQueueSummaryForSession sid = open_summary (\<lambda>r. of_cashierSessionId r = Some sid)"

definition getOpenOfflineQueueSummaryForEvent :: "string \<Rightarrow> store \<Rightarrow> nat \<times> int" where
  "getOpenOfflineQueueSummaryForEvent ev = open_summary (\<lambda>r. of_eventId r = ev)"

end
