(* ===== verification/VO_Sync.thy ===== *)
theory VO_Sync
  imports VO_Queue VO_Payments
begin

text \<open>
  The offline queue of the client, its operations: \<^verbatim>\<open>offlineSync.ts\<close>. The HTTP client the callers pass in, the clock,
  \<^verbatim>\<open>Math.random\<close> and \<^verbatim>\<open>Date.parse\<close> are the record \<open>network\<close> over the state of the outer world; a step that waits for an
  answer moves that state, and the clock is read again after it. Whether IndexedDB fails is an argument of the operations
  that catch it.
\<close>

record 'w network =
  nw_context :: "'w \<Rightarrow> http_reply \<times> 'w"
  nw_order :: "create_order \<Rightarrow> 'w \<Rightarrow> http_reply \<times> 'w"
  nw_lookup :: "string \<Rightarrow> 'w \<Rightarrow> http_reply \<times> 'w"
  nw_discard :: "discard_input \<Rightarrow> 'w \<Rightarrow> http_reply \<times> 'w"
  nw_now :: "'w \<Rightarrow> int"
  nw_random :: "'w \<Rightarrow> rat"
  nw_date :: "jstext \<Rightarrow> int option"

section \<open>Capturing\<close>

datatype queue_error = QueueEmptyOrder | QueueUnavailable | QueueFull | NotRetryable | AdoptionUnknown | AdoptionNotLegacy | AdoptionEventNotRunning

text \<open>Which of the three accesses of \<^verbatim>\<open>enqueueOfflineOrder\<close> to IndexedDB succeed.\<close>

record db_access =
  da_opens :: bool
  da_counts :: bool
  da_writes :: bool

definition captured_record :: "enqueue_input \<Rightarrow> int \<Rightarrow> offline_order" where
  "captured_record input now =
     \<lparr>of_idempotencyKey = en_idempotencyKey input, of_state = LOCAL_PENDING, of_createdAt = now, of_updatedAt = now,
      of_userId = Some (cc_userId (en_context input)), of_username = Some (cc_username (en_context input)),
      of_userRole = cc_userRole (en_context input), of_eventId = cc_eventId (en_context input),
      of_eventName = cc_eventName (en_context input), of_dataMode = OM_MODE (cc_dataMode (en_context input)),
      of_cashierSessionId = cc_cashierSessionId (en_context input),
      of_items = map (\<lambda>i. \<lparr>fi_productId = fin_productId i, fi_quantity = fin_quantity i,
          fi_optionIds = (case fin_optionIds i of Some os \<Rightarrow> os | None \<Rightarrow> []),
          fi_productName = fin_productName i, fi_unitPriceAtCapture = fin_unitPriceAtCapture i\<rparr>) (en_items input),
      of_payments = en_payments input,
      of_tableName = en_tableName input, of_areaId = en_areaId input, of_areaName = en_areaName input,
      of_totalAtCapture = en_totalAtCapture input,
      of_attempt = 0, of_lastAttemptAt = None, of_nextAttemptAt = Some now, of_sendingSince = None, of_interruptedAt = None,
      of_lastError = None, of_conflictKind = None, of_serverOrderId = None, of_serverOrderNumber = None,
      of_confirmedAt = None, of_legacy = False, of_adoptedByUserId = None, of_adoptedAt = None\<rparr>"

definition enqueueOfflineOrder :: "db_access \<Rightarrow> int \<Rightarrow> enqueue_input \<Rightarrow> store \<Rightarrow> queue_error + store \<times> offline_order" where
  "enqueueOfflineOrder a now input st =
     bind_res (ensure (en_items input \<noteq> []) QueueEmptyOrder) (\<lambda>_.
     bind_res (ensure (da_opens a) QueueUnavailable) (\<lambda>_.
     bind_res (ensure (da_counts a) QueueUnavailable) (\<lambda>_.
     bind_res (ensure (countOpenOfflineOrderRecords st < MAX_OPEN_QUEUE_ENTRIES) QueueFull) (\<lambda>_.
     bind_res (ensure (da_writes a) QueueUnavailable) (\<lambda>_.
     Inr (putOfflineOrderRecord (captured_record input now) st, captured_record input now))))))"

definition saveOrderOffline :: "db_access \<Rightarrow> int \<Rightarrow> enqueue_input \<Rightarrow> store \<Rightarrow> queue_error + store" where
  "saveOrderOffline a now order st =
     bind_res (enqueueOfflineOrder a now (order\<lparr>en_areaName := None, en_totalAtCapture := None\<rparr>) st) (\<lambda>(st', r). Inr st')"

section \<open>Reading\<close>

definition listOfflineOrders :: "store \<Rightarrow> offline_order list" where
  "listOfflineOrders st = getAllOfflineOrderRecordsByCreatedAt st"

definition listOpenOfflineOrders :: "store \<Rightarrow> offline_order list" where
  "listOpenOfflineOrders st = filter (\<lambda>r. of_state r \<noteq> OQ_CONFIRMED) (listOfflineOrders st)"

definition listConfirmedOfflineOrders :: "store \<Rightarrow> offline_order list" where
  "listConfirmedOfflineOrders st = filter (\<lambda>r. of_state r = OQ_CONFIRMED) (listOfflineOrders st)"

definition countOpenOfflineOrders :: "store \<Rightarrow> nat" where
  "countOpenOfflineOrders st = countOpenOfflineOrderRecords st"

definition removeOfflineOrder :: "string \<Rightarrow> store \<Rightarrow> store" where
  "removeOfflineOrder k st = deleteOfflineOrderRecord k st"

section \<open>Sending one entry\<close>

definition buildOrderPayload :: "offline_order \<Rightarrow> create_order" where
  "buildOrderPayload r =
     \<lparr>co_eventId = of_eventId r,
      co_items = map (\<lambda>i. \<lparr>ii_productId = fi_productId i, ii_quantity = fi_quantity i,
          ii_optionIds = (if 0 < length (fi_optionIds i) then Some (fi_optionIds i) else None)\<rparr>) (of_items r),
      co_payments = Some (of_payments r), co_idempotencyKey = Some (of_idempotencyKey r),
      co_tableName = of_tableName r, co_areaId = of_areaId r, co_cashierSessionId = of_cashierSessionId r,
      co_depositRefundTotal = None\<rparr>"

text \<open>\<^verbatim>\<open>attemptSendEntry\<close> up to the request, and from its answer on.\<close>

definition sending_record :: "int \<Rightarrow> offline_order \<Rightarrow> offline_order" where
  "sending_record now r = r\<lparr>of_state := SENDING, of_sendingSince := Some now, of_attempt := of_attempt r + 1,
     of_lastAttemptAt := Some now, of_updatedAt := now\<rparr>"

datatype attempt_result = AR_CONFIRMED | AR_CONFLICT | AR_RETRY | AR_FAILED

definition answered_record ::
  "(jstext \<Rightarrow> int option) \<Rightarrow> int \<Rightarrow> rat \<Rightarrow> offline_order \<Rightarrow> http_reply \<Rightarrow> offline_order \<times> attempt_result" where
  "answered_record parse_date now random s reply = (case classifySubmissionOutcome parse_date s reply now of
     SO_CONFIRMED i n \<Rightarrow>
       (s\<lparr>of_state := OQ_CONFIRMED, of_serverOrderId := Some i, of_serverOrderNumber := n, of_confirmedAt := Some now,
          of_lastError := None, of_conflictKind := None, of_sendingSince := None, of_updatedAt := now\<rparr>, AR_CONFIRMED)
   | SO_CONFLICT k err \<Rightarrow>
       (s\<lparr>of_state := OQ_CONFLICT, of_conflictKind := Some k, of_lastError := Some err, of_sendingSince := None,
          of_updatedAt := now\<rparr>, AR_CONFLICT)
   | SO_RETRY err after \<Rightarrow>
       (let isFinal = MAX_AUTOMATIC_ATTEMPTS \<le> of_attempt s;
            delayMs = computeNextAttemptDelayMs (of_attempt s) after random
        in (s\<lparr>of_state := (if isFinal then OQ_FAILED else LOCAL_PENDING),
              of_nextAttemptAt := (if isFinal then None else Some (now + delayMs)),
              of_lastError := Some err, of_sendingSince := None, of_updatedAt := now\<rparr>,
            if isFinal then AR_FAILED else AR_RETRY)))"

definition attemptSendEntry :: "'w network \<Rightarrow> offline_order \<Rightarrow> store \<times> 'w \<Rightarrow> attempt_result \<times> store \<times> 'w" where
  "attemptSendEntry nw r = (\<lambda>(st, w).
     (let s = sending_record (nw_now nw w) r;
          st1 = putOfflineOrderRecord s st;
          (reply, w1) = nw_order nw (buildOrderPayload s) w;
          (done_record, res) = answered_record (nw_date nw) (nw_now nw w1) (nw_random nw w1) s reply
      in (res, putOfflineOrderRecord done_record st1, w1)))"

section \<open>The sync run\<close>

record sync_summary =
  sm_contextFetchFailed :: bool
  sm_recoveredInterrupted :: nat
  sm_processed :: nat
  sm_confirmed :: nat
  sm_conflicted :: nat
  sm_retried :: nat
  sm_failed :: nat
  sm_skippedWaitingForUser :: nat

definition emptySummary :: sync_summary where
  "emptySummary = \<lparr>sm_contextFetchFailed = False, sm_recoveredInterrupted = 0, sm_processed = 0, sm_confirmed = 0,
     sm_conflicted = 0, sm_retried = 0, sm_failed = 0, sm_skippedWaitingForUser = 0\<rparr>"

definition count_result :: "attempt_result \<Rightarrow> sync_summary \<Rightarrow> sync_summary" where
  "count_result res s = (case res of
     AR_CONFIRMED \<Rightarrow> s\<lparr>sm_confirmed := sm_confirmed s + 1\<rparr>
   | AR_CONFLICT \<Rightarrow> s\<lparr>sm_conflicted := sm_conflicted s + 1\<rparr>
   | AR_RETRY \<Rightarrow> s\<lparr>sm_retried := sm_retried s + 1\<rparr>
   | AR_FAILED \<Rightarrow> s\<lparr>sm_failed := sm_failed s + 1\<rparr>)"

definition conflicted_record :: "conflict_kind \<Rightarrow> int \<Rightarrow> offline_order \<Rightarrow> offline_order" where
  "conflicted_record k now r = r\<lparr>of_state := OQ_CONFLICT, of_conflictKind := Some k, of_updatedAt := now\<rparr>"

fun send_due ::
  "'w network \<Rightarrow> id option \<Rightarrow> current_event list \<Rightarrow> offline_order list \<Rightarrow> sync_summary \<times> store \<times> 'w \<Rightarrow> sync_summary \<times> store \<times> 'w" where
  "send_due nw user evs [] x = x"
| "send_due nw user evs (r # rs) (s, st, w) =
     (let s = s\<lparr>sm_processed := sm_processed s + 1\<rparr> in
      send_due nw user evs rs
        (case checkOfflineOrderContext r user evs of
           CC_WAIT_FOR_USER \<Rightarrow> (s\<lparr>sm_skippedWaitingForUser := sm_skippedWaitingForUser s + 1\<rparr>, st, w)
         | CC_CONFLICT k \<Rightarrow> (s\<lparr>sm_conflicted := sm_conflicted s + 1\<rparr>, putOfflineOrderRecord (conflicted_record k (nw_now nw w) r) st, w)
         | CC_OK \<Rightarrow> (case attemptSendEntry nw r (st, w) of (res, st', w') \<Rightarrow> (count_result res s, st', w'))))"

definition due_records :: "int \<Rightarrow> store \<Rightarrow> offline_order list" where
  "due_records now st = filter (\<lambda>r. case of_nextAttemptAt r of None \<Rightarrow> True | Some t \<Rightarrow> t \<le> now) (getLocalPendingOrderedByCreatedAt st)"

definition executeSyncRun :: "'w network \<Rightarrow> bool \<Rightarrow> id option \<Rightarrow> store \<times> 'w \<Rightarrow> sync_summary \<times> store \<times> 'w" where
  "executeSyncRun nw opens user = (\<lambda>(st, w).
     (if \<not> opens then (emptySummary\<lparr>sm_contextFetchFailed := True\<rparr>, st, w)
      else (let (st1, n) = recoverInterruptedSendingRecords (nw_now nw w) st;
                s = emptySummary\<lparr>sm_recoveredInterrupted := n\<rparr>;
                (reply, w1) = nw_context nw w
            in (case fetchCurrentEventContexts reply of
                  None \<Rightarrow> (s\<lparr>sm_contextFetchFailed := True\<rparr>, st1, w1)
                | Some evs \<Rightarrow>
                    (let (st2, _) = cleanupConfirmedOfflineOrderRecords (nw_now nw w1) st1
                     in send_due nw user evs (due_records (nw_now nw w1) st2) (s, st2, w1))))))"

section \<open>Retrying by hand\<close>

definition reset_record :: "int \<Rightarrow> offline_order \<Rightarrow> offline_order" where
  "reset_record now r = r\<lparr>of_attempt := 0, of_nextAttemptAt := Some now, of_updatedAt := now\<rparr>"

definition retryOfflineOrder ::
  "'w network \<Rightarrow> id option \<Rightarrow> string \<Rightarrow> store \<times> 'w \<Rightarrow> (queue_error + offline_order option) \<times> store \<times> 'w" where
  "retryOfflineOrder nw user key = (\<lambda>(st, w).
     (case getOfflineOrderRecord key st of
        None \<Rightarrow> (Inr None, st, w)
      | Some r \<Rightarrow>
          if of_state r \<noteq> OQ_CONFLICT \<and> of_state r \<noteq> OQ_FAILED then (Inl NotRetryable, st, w)
          else (let (reply, w1) = nw_context nw w in
            (case fetchCurrentEventContexts reply of
               None \<Rightarrow> (Inr (Some r), st, w1)
             | Some evs \<Rightarrow>
                 (let reset = reset_record (nw_now nw w1) r in
                  (case checkOfflineOrderContext reset user evs of
                     CC_WAIT_FOR_USER \<Rightarrow> (Inr (Some r), st, w1)
                   | CC_CONFLICT k \<Rightarrow>
                       (let updated = reset\<lparr>of_state := OQ_CONFLICT, of_conflictKind := Some k\<rparr>
                        in (Inr (Some updated), putOfflineOrderRecord updated st, w1))
                   | CC_OK \<Rightarrow>
                       (case attemptSendEntry nw reset (putOfflineOrderRecord reset st, w1) of
                          (_, st', w2) \<Rightarrow> (Inr (getOfflineOrderRecord key st'), st', w2))))))))"

section \<open>Discarding\<close>

datatype discard_category = DR_DUPLICATE | DR_GUEST_CANCELLED | DR_TEST_ENTRY | DR_OTHER

fun DISCARD_REASON_LABELS :: "discard_category \<Rightarrow> string" where
  "DISCARD_REASON_LABELS DR_DUPLICATE = ''Doppelerfassung''"
| "DISCARD_REASON_LABELS DR_GUEST_CANCELLED = ''Gast hat storniert''"
| "DISCARD_REASON_LABELS DR_TEST_ENTRY = ''Testeingabe''"
| "DISCARD_REASON_LABELS DR_OTHER = ''Sonstiges''"

definition buildDiscardReasonText :: "discard_category \<Rightarrow> string option \<Rightarrow> string" where
  "buildDiscardReasonText category note' =
     (let label = DISCARD_REASON_LABELS category in
      take 500 (case truthy (map_option js_trim note') of None \<Rightarrow> label | Some n \<Rightarrow> label @ '': '' @ n))"

datatype reject_reason = AUTH_REQUIRED | SERVER_UNREACHABLE | RR_CONFLICT

datatype discard_result = ALREADY_DELETED | DISCARDED | ALREADY_ON_SERVER "jstext option" | DISCARD_REJECTED reject_reason

definition rejectFromError :: "http_failure \<Rightarrow> discard_result" where
  "rejectFromError f =
     (if hf_status f = Some 401 \<or> hf_status f = Some 403 then DISCARD_REJECTED AUTH_REQUIRED
      else if hf_status f = Some 409 then DISCARD_REJECTED RR_CONFLICT
      else DISCARD_REJECTED SERVER_UNREACHABLE)"

definition discard_request :: "discard_category \<Rightarrow> string option \<Rightarrow> string \<Rightarrow> offline_order \<Rightarrow> discard_input" where
  "discard_request category note' key r =
     \<lparr>di_idempotencyKey = key, di_reason = buildDiscardReasonText category note', di_capturedByUserId = of_userId r,
      di_legacy = Some (of_legacy r), di_eventId = Some (of_eventId r), di_payments = Some (of_payments r),
      di_totalAtCapture = of_totalAtCapture r\<rparr>"

definition known_on_server :: "wjson option \<Rightarrow> int \<Rightarrow> offline_order \<Rightarrow> offline_order" where
  "known_on_server v now r = r\<lparr>of_state := OQ_CONFIRMED,
     of_serverOrderId := Some (case text_field ''id'' v of Some i \<Rightarrow> i | None \<Rightarrow> lit (of_idempotencyKey r)),
     of_serverOrderNumber := text_field ''orderNumber'' v, of_confirmedAt := Some now, of_lastError := None,
     of_conflictKind := None, of_sendingSince := None, of_updatedAt := now\<rparr>"

definition discardOfflineOrder ::
  "'w network \<Rightarrow> discard_category \<Rightarrow> string option \<Rightarrow> string \<Rightarrow> store \<times> 'w \<Rightarrow> discard_result \<times> store \<times> 'w" where
  "discardOfflineOrder nw category note' key = (\<lambda>(st, w).
     (case getOfflineOrderRecord key st of
        None \<Rightarrow> (ALREADY_DELETED, st, w)
      | Some r \<Rightarrow> (case nw_lookup nw key w of
          (HttpFail f, w1) \<Rightarrow> (rejectFromError f, st, w1)
        | (HttpOk status v, w1) \<Rightarrow>
            if status = 200
            then (ALREADY_ON_SERVER (text_field ''orderNumber'' v), putOfflineOrderRecord (known_on_server v (nw_now nw w1) r) st, w1)
            else (case nw_discard nw (discard_request category note' key r) w1 of
                (HttpFail f, w2) \<Rightarrow> (rejectFromError f, st, w2)
              | (HttpOk _ _, w2) \<Rightarrow> (DISCARDED, deleteOfflineOrderRecord key st, w2)))))"

section \<open>Who may discard and adopt\<close>

definition canDiscardOfflineOrder :: "offline_order \<Rightarrow> id \<Rightarrow> string \<Rightarrow> bool" where
  "canDiscardOfflineOrder r userId role' =
     (if role' = ''ADMINISTRATOR'' then True
      else if 0 < length (of_payments r) then False
      else if of_legacy r then role' = ''EVENT_MANAGER''
      else of_userId r = Some userId)"

definition canAdoptLegacyOfflineOrder :: "offline_order \<Rightarrow> string \<Rightarrow> bool \<Rightarrow> bool" where
  "canAdoptLegacyOfflineOrder r role' isEventCurrentlyRunning =
     (if \<not> of_legacy r then False
      else if \<not> isEventCurrentlyRunning then False
      else role' = ''ADMINISTRATOR'' \<or> role' = ''EVENT_MANAGER'')"

record adopter =
  ad_userId :: id
  ad_username :: jstext
  ad_dataMode :: data_mode
  ad_cashierSessionId :: "id option"

definition adopted_record :: "adopter \<Rightarrow> int \<Rightarrow> offline_order \<Rightarrow> offline_order" where
  "adopted_record a now r = r\<lparr>of_userId := Some (ad_userId a), of_username := Some (ad_username a),
     of_dataMode := OM_MODE (ad_dataMode a), of_cashierSessionId := ad_cashierSessionId a,
     of_adoptedByUserId := Some (ad_userId a), of_adoptedAt := Some now, of_state := LOCAL_PENDING, of_conflictKind := None,
     of_lastError := None, of_attempt := 0, of_nextAttemptAt := Some now, of_updatedAt := now\<rparr>"

definition adoptLegacyOfflineOrder :: "string \<Rightarrow> adopter \<Rightarrow> bool \<Rightarrow> int \<Rightarrow> store \<Rightarrow> queue_error + store \<times> offline_order" where
  "adoptLegacyOfflineOrder key a isEventCurrentlyRunning now st =
     bind_res (need (getOfflineOrderRecord key st) AdoptionUnknown) (\<lambda>r.
     bind_res (ensure (of_legacy r) AdoptionNotLegacy) (\<lambda>_.
     bind_res (ensure isEventCurrentlyRunning AdoptionEventNotRunning) (\<lambda>_.
     Inr (putOfflineOrderRecord (adopted_record a now r) st, adopted_record a now r))))"

end
