(* ===== verification/VO_Queue_Laws.thy ===== *)
theory VO_Queue_Laws
  imports VO_Sync
begin

text \<open>
  What the pieces of the offline queue promise: the cleaned text of a server, the waiting times, the classification of an
  answer, the laws of the object store.
\<close>

section \<open>Runs of token characters\<close>

definition token_free :: "nat \<Rightarrow> jstext \<Rightarrow> bool" where
  "token_free n t \<longleftrightarrow> (\<forall>xs. sublist xs t \<and> (\<forall>u \<in> set xs. token_char u) \<longrightarrow> length xs < n)"

lemma token_free_sublist: "token_free n t \<Longrightarrow> sublist s t \<Longrightarrow> token_free n s"
  unfolding token_free_def by (meson sublist_order.order_trans)

text \<open>The same by one pass: \<open>c\<close> token characters were just read.\<close>

fun runs_below :: "nat \<Rightarrow> nat \<Rightarrow> jstext \<Rightarrow> bool" where
  "runs_below n c [] = (c < n)"
| "runs_below n c (u # us) = (c < n \<and> runs_below n (if token_char u then Suc c else 0) us)"

lemma runs_below_drop: "runs_below n c (p @ t) \<Longrightarrow> \<exists>c'. runs_below n c' t"
  by (induction p arbitrary: c) (auto split: if_splits)

lemma runs_below_run: "\<forall>u \<in> set r. token_char u \<Longrightarrow> runs_below n c (r @ t) \<Longrightarrow> c + length r < n"
proof (induction r arbitrary: c)
  case Nil
  then show ?case by (cases t) simp_all
next
  case (Cons u us)
  then show ?case using Cons.IH [of "Suc c"] by simp
qed

lemma runs_below_free: "runs_below n c t \<Longrightarrow> token_free n t"
  unfolding token_free_def sublist_def by (metis runs_below_drop runs_below_run add_lessD1 add.commute)

lemma runs_below_tokens: "\<forall>u \<in> set r. token_char u \<Longrightarrow> runs_below n c (r @ t) \<longleftrightarrow> (c + length r < n \<and> runs_below n (c + length r) t)"
proof (induction r arbitrary: c)
  case Nil
  then show ?case by (cases t) auto
next
  case (Cons u us)
  then show ?case using Cons.IH [of "Suc c"] by auto
qed

lemma runs_below_restart: "t = [] \<or> \<not> token_char (hd t) \<Longrightarrow> c < n \<Longrightarrow> runs_below n 0 t \<Longrightarrow> runs_below n c t"
  by (cases t) auto

lemma runs_below_entfernt: "runs_below 32 0 t \<Longrightarrow> runs_below 32 0 (entfernt @ t)"
  by (simp add: entfernt_def lit_def token_char_def)

lemma strip_tokens_head: "strip_tokens (dropWhile token_char t) = [] \<or> \<not> token_char (hd (strip_tokens (dropWhile token_char t)))"
proof (cases "dropWhile token_char t")
  case (Cons u us)
  then have "\<not> token_char u" by (metis hd_dropWhile list.distinct(1) list.sel(1))
  with Cons show ?thesis by simp
next
  case Nil
  then show ?thesis by (metis strip_tokens.simps(1))
qed

lemma strip_tokens_below: "runs_below 32 0 (strip_tokens t)"
proof (induction t rule: strip_tokens.induct)
  case (2 u us)
  show ?case
  proof (cases "token_char u")
    case True
    define run where "run = takeWhile token_char (u # us)"
    have run: "\<forall>v \<in> set run. token_char v" unfolding run_def by (auto dest: set_takeWhileD)
    have ih: "runs_below 32 0 (strip_tokens (dropWhile token_char us))" using 2(1) [OF True] run_def by simp
    have eq: "strip_tokens (u # us) = (if 32 \<le> length run then entfernt else run) @ strip_tokens (dropWhile token_char us)"
      using True by (simp add: run_def)
    show ?thesis
    proof (cases "32 \<le> length run")
      case True
      then show ?thesis using runs_below_entfernt [OF ih] by (simp only: eq if_True)
    next
      case False
      then have "length run < 32" by simp
      with False runs_below_restart [OF strip_tokens_head this ih] run show ?thesis by (simp only: eq runs_below_tokens if_False) simp
    qed
  next
    case False
    with 2(2) show ?thesis by simp
  qed
qed simp

lemma cut_lines_prefix: "prefix (cut_lines t) t"
  by (induction t) auto

lemma cut_stack_prefix: "prefix (cut_stack t) t"
  by (simp add: cut_stack_def cut_lines_prefix)

lemma unit_trim_sublist: "sublist (unit_trim t) t"
proof -
  have "sublist (unit_trim t) (dropWhile js_space t)"
    unfolding unit_trim_def by (metis rev_rev_ident sublist_dropWhile sublist_rev)
  then show ?thesis using sublist_dropWhile sublist_order.order_trans by blast
qed

definition clean_text :: "jstext \<Rightarrow> bool" where
  "clean_text m \<longleftrightarrow> m \<noteq> [] \<and> length m \<le> 300 \<and> 10 \<notin> set m \<and> token_free 32 m"

lemma clean_textI: "runs_below 32 0 m \<Longrightarrow> m \<noteq> [] \<Longrightarrow> length m \<le> 300 \<Longrightarrow> 10 \<notin> set m \<Longrightarrow> clean_text m"
  by (simp add: clean_text_def runs_below_free)

lemma generic_clean: "clean_text (genericMessageForStatus st)"
  by (rule clean_textI; cases st; simp add: genericMessageForStatus_def lit_def token_char_def)

lemma network_clean: "clean_text (networkMessage code)"
  by (rule clean_textI; simp add: networkMessage_def lit_def token_char_def)

lemma sanitize_clean: "clean_text (sanitizeOperatorMessage raw st)"
proof (cases raw)
  case None
  then show ?thesis by (simp add: sanitizeOperatorMessage_def generic_clean)
next
  case (Some t)
  define a where "a = strip_tokens (strip_bearer (strip_jwt t))"
  define b where "b = unit_trim (takeWhile (\<lambda>u. u \<noteq> 10) (cut_stack a))"
  have "sublist b (takeWhile (\<lambda>u. u \<noteq> 10) (cut_stack a))" by (simp add: b_def unit_trim_sublist)
  then have lines: "sublist b (cut_stack a)" "set b \<subseteq> set (takeWhile (\<lambda>u. u \<noteq> 10) (cut_stack a))"
    using sublist_takeWhile sublist_order.order_trans set_mono_sublist by blast+
  have "sublist (take 300 b) a"
    using lines(1) cut_stack_prefix [of a] by (meson prefix_imp_sublist sublist_order.order_trans sublist_take)
  moreover have "token_free 32 a" unfolding a_def using strip_tokens_below runs_below_free by blast
  ultimately have "token_free 32 (take 300 b)" using token_free_sublist by blast
  moreover have "10 \<notin> set (take 300 b)" using lines(2) set_takeWhileD set_take_subset by fastforce
  ultimately have "clean_text (take 300 b)" if "take 300 b \<noteq> []" using that by (simp add: clean_text_def)
  then show ?thesis
    by (simp add: Some sanitizeOperatorMessage_def Let_def generic_clean MAX_OPERATOR_MESSAGE_LENGTH_def flip: a_def b_def)
qed

section \<open>Waiting\<close>

definition base_delay :: "nat \<Rightarrow> int" where
  "base_delay attempt = min (5000 * 2 ^ (attempt - 1)) 300000"

lemma base_delay_range: "5000 \<le> base_delay attempt \<and> base_delay attempt \<le> 300000"
proof -
  have "(1 :: int) \<le> 2 ^ (attempt - 1)" by simp
  then show ?thesis unfolding base_delay_def by linarith
qed

lemma base_delay_fifth: "\<exists>c. base_delay attempt = 5 * c"
proof (cases "5000 * 2 ^ (attempt - 1) \<le> (300000 :: int)")
  case True
  then have "base_delay attempt = 5 * (1000 * 2 ^ (attempt - 1))" by (simp add: base_delay_def)
  then show ?thesis by blast
next
  case False
  then have "base_delay attempt = 5 * 60000" by (simp add: base_delay_def)
  then show ?thesis by blast
qed

lemma js_round_between: "of_int a \<le> x \<Longrightarrow> x \<le> of_int b \<Longrightarrow> a \<le> js_round x \<and> js_round x \<le> b"
  unfolding js_round_def by (auto simp: le_floor_iff floor_le_iff) 

lemma delay_range:
  assumes "0 \<le> rnd" and "rnd < 1"
  shows "4 * base_delay n \<le> 5 * computeNextAttemptDelayMs n None rnd \<and>
    5 * computeNextAttemptDelayMs n None rnd \<le> 6 * base_delay n"
proof -
  obtain c where c: "base_delay n = 5 * c" using base_delay_fifth by blast
  have pos: "0 \<le> c" using base_delay_range [of n] c by simp
  define x where "x = of_int (base_delay n) * (1 + (rnd * 2 - 1) * (1 / 5))"
  have x: "x = of_int (4 * c) + of_int (2 * c) * rnd" unfolding x_def c by (simp add: algebra_simps)
  have "of_int (4 * c) \<le> x" using pos assms by (simp add: x)
  moreover have "x \<le> of_int (6 * c)"
  proof -
    have "of_int (2 * c) * rnd \<le> of_int (2 * c) * 1" by (rule mult_left_mono) (use pos assms in auto)
    then show ?thesis by (simp add: x)
  qed
  ultimately have "4 * c \<le> js_round x \<and> js_round x \<le> 6 * c" by (rule js_round_between)
  moreover have "computeNextAttemptDelayMs n None rnd = js_round x"
    by (simp add: computeNextAttemptDelayMs_def x_def base_delay_def)
  ultimately show ?thesis by (simp add: c)
qed

section \<open>Answers\<close>

lemma classify_failure:
  "(\<exists>err ms. classifySubmissionOutcome pd r (HttpFail f) now = SO_RETRY err ms) \<longleftrightarrow>
     (case hf_status f of None \<Rightarrow> True | Some s \<Rightarrow> retryable_status s)"
  by (simp add: classifySubmissionOutcome_def classifyError_def Let_def split: option.split)

lemma confirmed_only_answered:
  "classifySubmissionOutcome pd r reply now = SO_CONFIRMED i n \<Longrightarrow> \<exists>s v. reply = HttpOk s v"
  by (cases reply) (auto simp: classifySubmissionOutcome_def classifyError_def Let_def split: option.splits if_splits)

lemma answered_key [simp]: "of_idempotencyKey (fst (answered_record pd now rnd s reply)) = of_idempotencyKey s"
  by (simp add: answered_record_def Let_def split: submission_outcome.split)

lemma answered_confirmed: "of_state (fst (answered_record pd now rnd s reply)) = OQ_CONFIRMED \<Longrightarrow> \<exists>n v. reply = HttpOk n v"
  by (cases "classifySubmissionOutcome pd s reply now")
    (simp_all add: answered_record_def Let_def confirmed_only_answered split: if_splits)

section \<open>The store\<close>

abbreviation store_keys :: "store \<Rightarrow> string set" where
  "store_keys st \<equiv> of_idempotencyKey ` set st"

lemma put_keys [simp]: "store_keys (putOfflineOrderRecord r st) = insert (of_idempotencyKey r) (store_keys st)"
  by (induction r st rule: putOfflineOrderRecord.induct) auto

lemma put_mem: "x \<in> set (putOfflineOrderRecord r st) \<Longrightarrow> x = r \<or> x \<in> set st"
  by (induction r st rule: putOfflineOrderRecord.induct) (auto split: if_splits)

definition store_ok :: "store \<Rightarrow> bool" where
  "store_ok st \<longleftrightarrow> sorted_wrt (<) (map of_idempotencyKey st)"

lemma store_ok_Cons: "store_ok (x # xs) \<longleftrightarrow> (\<forall>k \<in> store_keys xs. of_idempotencyKey x < k) \<and> store_ok xs"
  by (simp add: store_ok_def)

lemma put_ok: "store_ok st \<Longrightarrow> store_ok (putOfflineOrderRecord r st)"
proof (induction st)
  case (Cons x xs)
  consider "of_idempotencyKey r = of_idempotencyKey x" | "of_idempotencyKey r < of_idempotencyKey x"
    | "of_idempotencyKey x < of_idempotencyKey r" by (metis neqE)
  then show ?case
  proof cases
    case 1
    with Cons.prems show ?thesis by (simp add: store_ok_Cons)
  next
    case 2
    with Cons.prems have "\<forall>k \<in> store_keys (x # xs). of_idempotencyKey r < k"
      unfolding store_ok_Cons by (metis imageE image_eqI less_trans set_ConsD)
    with 2 Cons.prems show ?thesis by (simp add: store_ok_Cons)
  next
    case 3
    then have "putOfflineOrderRecord r (x # xs) = x # putOfflineOrderRecord r xs" by auto
    moreover have "store_ok (x # putOfflineOrderRecord r xs)"
      unfolding store_ok_Cons put_keys using 3 Cons unfolding store_ok_Cons by blast
    ultimately show ?thesis by simp
  qed
qed (simp add: store_ok_def)

lemma get_Cons: "getOfflineOrderRecord k (x # xs) = (if of_idempotencyKey x = k then Some x else getOfflineOrderRecord k xs)"
  by (simp add: getOfflineOrderRecord_def)

lemma get_None: "k \<notin> store_keys st \<Longrightarrow> getOfflineOrderRecord k st = None"
  by (force simp: getOfflineOrderRecord_def find_None_iff)

lemma get_put:
  "store_ok st \<Longrightarrow> getOfflineOrderRecord k (putOfflineOrderRecord r st) =
     (if k = of_idempotencyKey r then Some r else getOfflineOrderRecord k st)"
proof (induction st)
  case Nil
  then show ?case by (simp add: getOfflineOrderRecord_def)
next
  case (Cons x xs)
  then show ?case by (auto simp: get_Cons store_ok_Cons)
qed

lemma get_Some: "getOfflineOrderRecord k st = Some r \<Longrightarrow> r \<in> set st \<and> of_idempotencyKey r = k"
  by (auto simp: getOfflineOrderRecord_def dest: find_Some_mem)

lemma recovered_key: "of_idempotencyKey (recovered_record now r) = of_idempotencyKey r"
  by (simp add: recovered_record_def)

lemma recover_keys [simp]: "store_keys (fst (recoverInterruptedSendingRecords now st)) = store_keys st"
  by (simp add: recoverInterruptedSendingRecords_def image_image recovered_key)

lemma due_mem: "r \<in> set (due_records now st) \<Longrightarrow> r \<in> set st \<and> of_state r = LOCAL_PENDING"
  by (auto simp: due_records_def getLocalPendingOrderedByCreatedAt_def getAllOfflineOrderRecordsByCreatedAt_def)

end
