(* ===== verification/VO_Queue_Machine.thy ===== *)
theory VO_Queue_Machine
  imports VO_Queue_Laws VO_Order_Laws
begin

text \<open>
  The offline queue as it runs: one device whose handlers interleave at every \<^verbatim>\<open>await\<close>, whose page may be closed at any
  moment, and a server that works on posted requests at any time, whose answers may be lost. The handlers are those of
  \<^theory_text>\<open>VO_Sync\<close>, cut at their awaits. \<open>dv_captured\<close>, \<open>dv_dropped\<close> and \<open>dv_sent\<close> record what was captured, what an
  operator removed, and every request with the context it was checked against. The interface to the server is the locale
  \<open>order_server\<close>; it is interpreted on the backend's own order intake.
\<close>

section \<open>Server and device\<close>

record 's server =
  sv_submit :: "id \<Rightarrow> create_order \<Rightarrow> 's \<Rightarrow> http_reply \<Rightarrow> 's \<Rightarrow> bool"
  sv_look :: "id option \<Rightarrow> string \<Rightarrow> 's \<Rightarrow> http_reply \<Rightarrow> bool"
  sv_moves :: "'s \<Rightarrow> 's \<Rightarrow> bool"

text \<open>A handler that waits, with the record it read.\<close>

datatype thread =
    T_SEND offline_order
  | T_RETRY offline_order
  | T_RESET offline_order "id option" "current_event list"
  | T_LOOKUP offline_order
  | T_FOUND offline_order http_reply
  | T_DISCARD offline_order

datatype sync_loop =
    L_IDLE
  | L_CONTEXT "id option"
  | L_DUE "id option" "current_event list" "offline_order list"
  | L_SEND offline_order "id option" "current_event list" "offline_order list"

record sent =
  sn_record :: offline_order
  sn_user :: "id option"
  sn_events :: "current_event list"
  sn_by_hand :: bool

record 's device =
  dv_store :: store
  dv_server :: 's
  dv_loop :: sync_loop
  dv_threads :: "thread list"
  dv_wire :: "(id option \<times> create_order) list"
  dv_answers :: "(create_order \<times> http_reply) list"
  dv_captured :: "string set"
  dv_dropped :: "string set"
  dv_sent :: "sent list"

text \<open>What may answer a request: what the server answered to it, or a failure on the way.\<close>

definition arrives :: "'s device \<Rightarrow> offline_order \<Rightarrow> http_reply \<Rightarrow> bool" where
  "arrives x s reply \<longleftrightarrow> (buildOrderPayload s, reply) \<in> set (dv_answers x) \<or> (\<exists>f. reply = HttpFail f)"

definition put_in :: "offline_order \<Rightarrow> 's device \<Rightarrow> 's device" where
  "put_in r x = x\<lparr>dv_store := putOfflineOrderRecord r (dv_store x)\<rparr>"

definition ends :: "thread \<Rightarrow> 's device \<Rightarrow> 's device" where
  "ends t x = x\<lparr>dv_threads := remove1 t (dv_threads x)\<rparr>"

definition starts :: "thread \<Rightarrow> 's device \<Rightarrow> 's device" where
  "starts t x = x\<lparr>dv_threads := t # dv_threads x\<rparr>"

text \<open>The first half of \<^verbatim>\<open>attemptSendEntry\<close>: the record is written as \<^verbatim>\<open>SENDING\<close>, the request is posted.\<close>

definition posts :: "bool \<Rightarrow> int \<Rightarrow> offline_order \<Rightarrow> id option \<Rightarrow> current_event list \<Rightarrow> 's device \<Rightarrow> 's device" where
  "posts by_hand now r user evs x =
     (put_in (sending_record now r) x)
       \<lparr>dv_wire := (user, buildOrderPayload (sending_record now r)) # dv_wire x,
        dv_sent := \<lparr>sn_record = r, sn_user = user, sn_events = evs, sn_by_hand = by_hand\<rparr> # dv_sent x\<rparr>"

inductive offline_step :: "'s server \<Rightarrow> 's device \<Rightarrow> 's device \<Rightarrow> bool" for S where
  captured: "enqueueOfflineOrder a now input (dv_store x) = Inr (st, r) \<Longrightarrow> en_idempotencyKey input \<noteq> [] \<Longrightarrow>
    offline_step S x (x\<lparr>dv_store := st, dv_captured := insert (en_idempotencyKey input) (dv_captured x)\<rparr>)"
| recovered: "offline_step S x (x\<lparr>dv_store := fst (recoverInterruptedSendingRecords now (dv_store x))\<rparr>)"
| cleaned: "offline_step S x (x\<lparr>dv_store := fst (cleanupConfirmedOfflineOrderRecords now (dv_store x))\<rparr>)"
| loop_starts: "dv_loop x = L_IDLE \<Longrightarrow>
    offline_step S x (x\<lparr>dv_store := fst (recoverInterruptedSendingRecords now (dv_store x)), dv_loop := L_CONTEXT user\<rparr>)"
| loop_blind: "dv_loop x = L_CONTEXT user \<Longrightarrow> fetchCurrentEventContexts reply = None \<Longrightarrow> offline_step S x (x\<lparr>dv_loop := L_IDLE\<rparr>)"
| loop_context: "dv_loop x = L_CONTEXT user \<Longrightarrow> fetchCurrentEventContexts reply = Some evs \<Longrightarrow>
    st = fst (cleanupConfirmedOfflineOrderRecords now (dv_store x)) \<Longrightarrow>
    offline_step S x (x\<lparr>dv_store := st, dv_loop := L_DUE user evs (due_records now st)\<rparr>)"
| loop_ends: "dv_loop x = L_DUE user evs [] \<Longrightarrow> offline_step S x (x\<lparr>dv_loop := L_IDLE\<rparr>)"
| loop_waits: "dv_loop x = L_DUE user evs (r # rs) \<Longrightarrow> checkOfflineOrderContext r user evs = CC_WAIT_FOR_USER \<Longrightarrow>
    offline_step S x (x\<lparr>dv_loop := L_DUE user evs rs\<rparr>)"
| loop_conflicts: "dv_loop x = L_DUE user evs (r # rs) \<Longrightarrow> checkOfflineOrderContext r user evs = CC_CONFLICT k \<Longrightarrow>
    offline_step S x ((put_in (conflicted_record k now r) x)\<lparr>dv_loop := L_DUE user evs rs\<rparr>)"
| loop_posts: "dv_loop x = L_DUE user evs (r # rs) \<Longrightarrow> checkOfflineOrderContext r user evs = CC_OK \<Longrightarrow>
    offline_step S x ((posts False now r user evs x)\<lparr>dv_loop := L_SEND (sending_record now r) user evs rs\<rparr>)"
| loop_answered: "dv_loop x = L_SEND s user evs rs \<Longrightarrow> arrives x s reply \<Longrightarrow>
    offline_step S x ((put_in (fst (answered_record pd now rnd s reply)) x)\<lparr>dv_loop := L_DUE user evs rs\<rparr>)"
| retry_reads: "getOfflineOrderRecord key (dv_store x) = Some r \<Longrightarrow> of_state r = OQ_CONFLICT \<or> of_state r = OQ_FAILED \<Longrightarrow>
    offline_step S x (starts (T_RETRY r) x)"
| retry_blind: "T_RETRY r \<in> set (dv_threads x) \<Longrightarrow> fetchCurrentEventContexts reply = None \<Longrightarrow> offline_step S x (ends (T_RETRY r) x)"
| retry_waits: "T_RETRY r \<in> set (dv_threads x) \<Longrightarrow> fetchCurrentEventContexts reply = Some evs \<Longrightarrow>
    checkOfflineOrderContext (reset_record now r) user evs = CC_WAIT_FOR_USER \<Longrightarrow> offline_step S x (ends (T_RETRY r) x)"
| retry_conflicts: "T_RETRY r \<in> set (dv_threads x) \<Longrightarrow> fetchCurrentEventContexts reply = Some evs \<Longrightarrow>
    checkOfflineOrderContext (reset_record now r) user evs = CC_CONFLICT k \<Longrightarrow>
    offline_step S x (ends (T_RETRY r) (put_in ((reset_record now r)\<lparr>of_state := OQ_CONFLICT, of_conflictKind := Some k\<rparr>) x))"
| retry_resets: "T_RETRY r \<in> set (dv_threads x) \<Longrightarrow> fetchCurrentEventContexts reply = Some evs \<Longrightarrow>
    checkOfflineOrderContext (reset_record now r) user evs = CC_OK \<Longrightarrow>
    offline_step S x (starts (T_RESET (reset_record now r) user evs) (ends (T_RETRY r) (put_in (reset_record now r) x)))"
| retry_posts: "T_RESET r user evs \<in> set (dv_threads x) \<Longrightarrow>
    offline_step S x (starts (T_SEND (sending_record now r)) (ends (T_RESET r user evs) (posts True now r user evs x)))"
| retry_answered: "T_SEND s \<in> set (dv_threads x) \<Longrightarrow> arrives x s reply \<Longrightarrow>
    offline_step S x (ends (T_SEND s) (put_in (fst (answered_record pd now rnd s reply)) x))"
| discard_reads: "getOfflineOrderRecord key (dv_store x) = Some r \<Longrightarrow> offline_step S x (starts (T_LOOKUP r) x)"
| discard_looked: "T_LOOKUP r \<in> set (dv_threads x) \<Longrightarrow> sv_look S user (of_idempotencyKey r) (dv_server x) reply \<Longrightarrow>
    offline_step S x (starts (T_FOUND r reply) (ends (T_LOOKUP r) x))"
| discard_unreached: "T_LOOKUP r \<in> set (dv_threads x) \<Longrightarrow> offline_step S x (ends (T_LOOKUP r) x)"
| discard_known: "T_FOUND r (HttpOk 200 v) \<in> set (dv_threads x) \<Longrightarrow>
    offline_step S x (ends (T_FOUND r (HttpOk 200 v)) (put_in (known_on_server v now r) x))"
| discard_unknown: "T_FOUND r (HttpOk n v) \<in> set (dv_threads x) \<Longrightarrow> n \<noteq> 200 \<Longrightarrow>
    offline_step S x (starts (T_DISCARD r) (ends (T_FOUND r (HttpOk n v)) x))"
| discard_refused: "t \<in> set (dv_threads x) \<Longrightarrow> t = T_FOUND r (HttpFail f) \<or> t = T_DISCARD r \<Longrightarrow> offline_step S x (ends t x)"
| discard_done: "T_DISCARD r \<in> set (dv_threads x) \<Longrightarrow>
    offline_step S x (ends (T_DISCARD r) (x\<lparr>dv_store := deleteOfflineOrderRecord (of_idempotencyKey r) (dv_store x),
      dv_dropped := insert (of_idempotencyKey r) (dv_dropped x)\<rparr>))"
| adopted: "adoptLegacyOfflineOrder key a running now (dv_store x) = Inr (st, r) \<Longrightarrow> offline_step S x (x\<lparr>dv_store := st\<rparr>)"
| removed: "offline_step S x (x\<lparr>dv_store := removeOfflineOrder key (dv_store x), dv_dropped := insert key (dv_dropped x)\<rparr>)"
| page_closed: "offline_step S x (x\<lparr>dv_loop := L_IDLE, dv_threads := []\<rparr>)"
| served: "(Some u, c) \<in> set (dv_wire x) \<Longrightarrow> sv_submit S u c (dv_server x) reply s' \<Longrightarrow>
    offline_step S x (x\<lparr>dv_server := s', dv_answers := (c, reply) # dv_answers x\<rparr>)"
| server_moves: "sv_moves S (dv_server x) s' \<Longrightarrow> offline_step S x (x\<lparr>dv_server := s'\<rparr>)"

inductive_cases offline_stepE: "offline_step S x y"

text \<open>A device when it first opens the queue: migrated records may lie there.\<close>

definition fresh_device :: "'s device \<Rightarrow> bool" where
  "fresh_device x \<longleftrightarrow> dv_loop x = L_IDLE \<and> dv_threads x = [] \<and> dv_wire x = [] \<and> dv_answers x = [] \<and> dv_sent x = [] \<and>
     dv_dropped x = {} \<and> dv_captured x = store_keys (dv_store x) \<and>
     (\<forall>r \<in> set (dv_store x). of_state r \<noteq> OQ_CONFIRMED \<and> of_idempotencyKey r \<noteq> [])"

definition offline_run :: "'s server \<Rightarrow> 's device \<Rightarrow> 's device \<Rightarrow> bool" where
  "offline_run S = (offline_step S)\<^sup>*\<^sup>*"

section \<open>What is sent, and when\<close>

definition sent_ok :: "sent \<Rightarrow> bool" where
  "sent_ok n \<longleftrightarrow> checkOfflineOrderContext (sn_record n) (sn_user n) (sn_events n) = CC_OK \<and>
     (if sn_by_hand n then of_state (sn_record n) \<in> {OQ_CONFLICT, OQ_FAILED} else of_state (sn_record n) = LOCAL_PENDING)"

definition thread_ok :: "thread \<Rightarrow> bool" where
  "thread_ok t \<longleftrightarrow> (case t of
     T_RETRY r \<Rightarrow> of_state r \<in> {OQ_CONFLICT, OQ_FAILED}
   | T_RESET r u e \<Rightarrow> of_state r \<in> {OQ_CONFLICT, OQ_FAILED} \<and> checkOfflineOrderContext r u e = CC_OK
   | _ \<Rightarrow> True)"

definition loop_records :: "sync_loop \<Rightarrow> offline_order set" where
  "loop_records l = (case l of L_DUE u e rs \<Rightarrow> set rs | L_SEND s u e rs \<Rightarrow> set rs | _ \<Rightarrow> {})"

definition device_ok :: "'s device \<Rightarrow> bool" where
  "device_ok x \<longleftrightarrow> (\<forall>n \<in> set (dv_sent x). sent_ok n) \<and> (\<forall>t \<in> set (dv_threads x). thread_ok t) \<and>
     (\<forall>r \<in> loop_records (dv_loop x). of_state r = LOCAL_PENDING)"

lemma handler_frames [simp]:
  "dv_sent (put_in r x) = dv_sent x" "dv_threads (put_in r x) = dv_threads x" "dv_loop (put_in r x) = dv_loop x"
  "dv_wire (put_in r x) = dv_wire x" "dv_answers (put_in r x) = dv_answers x" "dv_server (put_in r x) = dv_server x"
  "dv_captured (put_in r x) = dv_captured x" "dv_dropped (put_in r x) = dv_dropped x"
  "dv_store (put_in r x) = putOfflineOrderRecord r (dv_store x)"
  "dv_sent (ends t x) = dv_sent x" "dv_loop (ends t x) = dv_loop x" "dv_store (ends t x) = dv_store x"
  "dv_wire (ends t x) = dv_wire x" "dv_answers (ends t x) = dv_answers x" "dv_server (ends t x) = dv_server x"
  "dv_captured (ends t x) = dv_captured x" "dv_dropped (ends t x) = dv_dropped x"
  "dv_sent (starts t x) = dv_sent x" "dv_loop (starts t x) = dv_loop x" "dv_store (starts t x) = dv_store x"
  "dv_wire (starts t x) = dv_wire x" "dv_answers (starts t x) = dv_answers x" "dv_server (starts t x) = dv_server x"
  "dv_captured (starts t x) = dv_captured x" "dv_dropped (starts t x) = dv_dropped x"
  "dv_threads (starts t x) = t # dv_threads x" "set (dv_threads (ends t x)) \<subseteq> set (dv_threads x)"
  by (simp_all add: put_in_def ends_def starts_def set_remove1_subset)

lemma posts_frames [simp]:
  "dv_sent (posts h now r u e x) = \<lparr>sn_record = r, sn_user = u, sn_events = e, sn_by_hand = h\<rparr> # dv_sent x"
  "dv_threads (posts h now r u e x) = dv_threads x" "dv_loop (posts h now r u e x) = dv_loop x"
  "dv_wire (posts h now r u e x) = (u, buildOrderPayload (sending_record now r)) # dv_wire x"
  "dv_answers (posts h now r u e x) = dv_answers x" "dv_server (posts h now r u e x) = dv_server x"
  "dv_captured (posts h now r u e x) = dv_captured x" "dv_dropped (posts h now r u e x) = dv_dropped x"
  "dv_store (posts h now r u e x) = putOfflineOrderRecord (sending_record now r) (dv_store x)"
  by (simp_all add: posts_def)

lemma reset_state [simp]: "of_state (reset_record now r) = of_state r" "of_idempotencyKey (reset_record now r) = of_idempotencyKey r"
  by (simp_all add: reset_record_def)

lemma thread_simps [simp]:
  "thread_ok (T_SEND s)" "thread_ok (T_LOOKUP r)" "thread_ok (T_FOUND r reply)" "thread_ok (T_DISCARD r)"
  "thread_ok (T_RETRY r) \<longleftrightarrow> of_state r \<in> {OQ_CONFLICT, OQ_FAILED}"
  "thread_ok (T_RESET r u e) \<longleftrightarrow> of_state r \<in> {OQ_CONFLICT, OQ_FAILED} \<and> checkOfflineOrderContext r u e = CC_OK"
  by (simp_all add: thread_ok_def)

lemma loop_simps [simp]:
  "loop_records L_IDLE = {}" "loop_records (L_CONTEXT u) = {}" "loop_records (L_DUE u e rs) = set rs"
  "loop_records (L_SEND s u e rs) = set rs"
  by (simp_all add: loop_records_def)

lemma device_okI:
  "device_ok x \<Longrightarrow> set (dv_sent y) \<subseteq> set (dv_sent x) \<Longrightarrow> set (dv_threads y) \<subseteq> set (dv_threads x) \<Longrightarrow>
   loop_records (dv_loop y) \<subseteq> loop_records (dv_loop x) \<Longrightarrow> device_ok y"
  unfolding device_ok_def by blast

lemma device_ok_thread: "device_ok x \<Longrightarrow> thread_ok t \<Longrightarrow> device_ok (starts t x)"
  by (simp add: device_ok_def)

lemma device_ok_ends [simp]: "device_ok x \<Longrightarrow> device_ok (ends t x)"
  by (erule device_okI) simp_all

lemma device_ok_put [simp]: "device_ok (put_in r x) = device_ok x"
  by (simp add: device_ok_def)

lemma device_ok_posts:
  assumes "device_ok x" and "checkOfflineOrderContext r u e = CC_OK"
    and "if h then of_state r \<in> {OQ_CONFLICT, OQ_FAILED} else of_state r = LOCAL_PENDING"
  shows "device_ok (posts h now r u e x)"
proof -
  have "sent_ok \<lparr>sn_record = r, sn_user = u, sn_events = e, sn_by_hand = h\<rparr>" using assms(2,3) by (cases h) (simp_all add: sent_ok_def)
  with assms(1) show ?thesis by (simp add: device_ok_def)
qed

lemma device_ok_loop: "device_ok x \<Longrightarrow> \<forall>r \<in> loop_records l. of_state r = LOCAL_PENDING \<Longrightarrow> device_ok (x\<lparr>dv_loop := l\<rparr>)"
  by (simp add: device_ok_def)

lemma device_ok_store [simp]: "device_ok (x\<lparr>dv_store := st\<rparr>) = device_ok x" "device_ok (x\<lparr>dv_captured := c\<rparr>) = device_ok x"
  "device_ok (x\<lparr>dv_dropped := dd\<rparr>) = device_ok x" "device_ok (x\<lparr>dv_server := sv\<rparr>) = device_ok x"
  "device_ok (x\<lparr>dv_answers := a\<rparr>) = device_ok x"
  by (simp_all add: device_ok_def)

lemma device_ok_due: "device_ok x \<Longrightarrow> dv_loop x = L_DUE u e rs \<Longrightarrow> \<forall>r \<in> set rs. of_state r = LOCAL_PENDING"
  by (simp add: device_ok_def)

lemma device_ok_T: "device_ok x \<Longrightarrow> t \<in> set (dv_threads x) \<Longrightarrow> thread_ok t"
  by (simp add: device_ok_def)

lemma device_step: "offline_step S x y \<Longrightarrow> device_ok x \<Longrightarrow> device_ok y"
proof (induction rule: offline_step.induct)
  case (loop_context x user reply evs st now)
  then show ?case by (intro device_ok_loop) (auto dest: due_mem)
next
  case (loop_waits x user evs r rs)
  then show ?case by (intro device_ok_loop) (auto dest: device_ok_due)
next
  case (loop_conflicts x user evs r rs k now)
  then show ?case by (intro device_ok_loop) (auto dest: device_ok_due)
next
  case (loop_posts x user evs r rs now)
  then show ?case by (intro device_ok_loop device_ok_posts) (auto dest: device_ok_due)
next
  case (loop_answered x s user evs rs reply pd now rnd)
  then show ?case by (intro device_ok_loop) (auto simp: device_ok_def)
next
  case (retry_resets r x reply evs now user)
  then show ?case by (intro device_ok_thread) (auto dest: device_ok_T)
next
  case (retry_posts r user evs x now)
  then show ?case by (intro device_ok_thread device_ok_ends device_ok_posts) (auto dest: device_ok_T)
next
  case (page_closed x)
  then show ?case by (simp add: device_ok_def)
qed (auto intro!: device_ok_thread device_ok_loop)

lemma run_device_ok: "offline_run S x y \<Longrightarrow> device_ok x \<Longrightarrow> device_ok y"
  unfolding offline_run_def by (induction rule: rtranclp_induct) (auto intro: device_step)

lemma fresh_device_ok: "fresh_device x \<Longrightarrow> device_ok x"
  by (simp add: fresh_device_def device_ok_def)

lemma context_ok:
  assumes "checkOfflineOrderContext r u e = CC_OK"
  shows "\<exists>i m v. of_userId r = Some i \<and> u = Some i \<and> of_dataMode r = OM_MODE m \<and> v \<in> set e \<and> cx_eventId v = lit (of_eventId r) \<and>
    cx_dataMode v = m \<and> (case of_cashierSessionId r of None \<Rightarrow> True | Some s \<Rightarrow> cx_activeSessionId v = Some (lit s))"
proof -
  from assms have m: "of_dataMode r \<noteq> OM_UNKNOWN" and u: "of_userId r \<noteq> None" "u = of_userId r"
    by (auto simp: checkOfflineOrderContext_def truthy_def split: if_splits option.splits)
  from assms obtain v where v: "find (\<lambda>x. cx_eventId x = lit (of_eventId r)) e = Some v" "OM_MODE (cx_dataMode v) = of_dataMode r"
    "case of_cashierSessionId r of None \<Rightarrow> True | Some s \<Rightarrow> cx_activeSessionId v = Some (lit s)"
    by (auto simp: checkOfflineOrderContext_def split: if_splits option.splits)
  from u obtain i where "of_userId r = Some i" "u = Some i" by auto
  with find_Some_mem [OF v(1)] v(2,3) show ?thesis by (metis (lifting))
qed

section \<open>The interface to the server\<close>

text \<open>
  What the queue relies on: an order answered with success is booked under its key, the lookup finds only booked keys, and
  no step of the server loses a booking.
\<close>

locale order_server =
  fixes S :: "'s server" and booked :: "'s \<Rightarrow> string \<Rightarrow> bool"
  assumes accepted: "sv_submit S u c s (HttpOk n v) s' \<Longrightarrow> co_idempotencyKey c = Some k \<Longrightarrow> k \<noteq> [] \<Longrightarrow> booked s' k"
    and kept: "sv_submit S u c s reply s' \<Longrightarrow> booked s k \<Longrightarrow> booked s' k"
    and known: "sv_look S w k s (HttpOk 200 v) \<Longrightarrow> booked s k"
    and moved: "sv_moves S s s' \<Longrightarrow> booked s k \<Longrightarrow> booked s' k"
begin

definition keyed :: "offline_order \<Rightarrow> bool" where
  "keyed r \<longleftrightarrow> of_idempotencyKey r \<noteq> []"

definition thread_fine :: "'s \<Rightarrow> thread \<Rightarrow> bool" where
  "thread_fine s t \<longleftrightarrow> (case t of
     T_SEND r \<Rightarrow> keyed r
   | T_RETRY r \<Rightarrow> keyed r \<and> of_state r \<noteq> OQ_CONFIRMED
   | T_RESET r u e \<Rightarrow> keyed r \<and> of_state r \<noteq> OQ_CONFIRMED
   | T_LOOKUP r \<Rightarrow> keyed r
   | T_FOUND r reply \<Rightarrow> keyed r \<and> (\<forall>v. reply = HttpOk 200 v \<longrightarrow> booked s (of_idempotencyKey r))
   | T_DISCARD r \<Rightarrow> keyed r)"

definition loop_fine :: "sync_loop \<Rightarrow> bool" where
  "loop_fine l \<longleftrightarrow> (case l of L_DUE u e rs \<Rightarrow> \<forall>r \<in> set rs. keyed r | L_SEND s u e rs \<Rightarrow> keyed s \<and> (\<forall>r \<in> set rs. keyed r) | _ \<Rightarrow> True)"

definition queue_fine :: "'s device \<Rightarrow> bool" where
  "queue_fine x \<longleftrightarrow>
     (\<forall>r \<in> set (dv_store x). keyed r \<and> (of_state r = OQ_CONFIRMED \<longrightarrow> booked (dv_server x) (of_idempotencyKey r))) \<and>
     (\<forall>t \<in> set (dv_threads x). thread_fine (dv_server x) t) \<and> loop_fine (dv_loop x) \<and>
     (\<forall>(u, c) \<in> set (dv_wire x). \<exists>k. co_idempotencyKey c = Some k \<and> k \<noteq> []) \<and>
     (\<forall>(c, reply) \<in> set (dv_answers x). \<forall>n v k. reply = HttpOk n v \<longrightarrow> co_idempotencyKey c = Some k \<longrightarrow> booked (dv_server x) k) \<and>
     (\<forall>k \<in> dv_captured x. k \<in> store_keys (dv_store x) \<or> k \<in> dv_dropped x \<or> booked (dv_server x) k)"

lemma fine_server:
  assumes "queue_fine x" and "\<And>k. booked (dv_server x) k \<Longrightarrow> booked s' k"
  shows "queue_fine (x\<lparr>dv_server := s'\<rparr>)"
proof -
  have "thread_fine s' t" if "thread_fine (dv_server x) t" for t
    using that assms(2) by (cases t) (auto simp: thread_fine_def)
  with assms show ?thesis unfolding queue_fine_def by (auto 0 4)
qed

lemma fine_put:
  assumes "queue_fine x" and "keyed r" and "of_state r = OQ_CONFIRMED \<Longrightarrow> booked (dv_server x) (of_idempotencyKey r)"
  shows "queue_fine (put_in r x)"
  using assms unfolding queue_fine_def handler_frames put_keys by (auto dest!: put_mem)

lemma fine_ends: "queue_fine x \<Longrightarrow> queue_fine (ends t x)"
  unfolding queue_fine_def handler_frames using handler_frames(27) [of t x] by blast

lemma fine_starts: "queue_fine x \<Longrightarrow> thread_fine (dv_server x) t \<Longrightarrow> queue_fine (starts t x)"
  by (simp add: queue_fine_def)

lemma fine_loop: "queue_fine x \<Longrightarrow> loop_fine l \<Longrightarrow> queue_fine (x\<lparr>dv_loop := l\<rparr>)"
  by (simp add: queue_fine_def)

lemma fine_thread: "queue_fine x \<Longrightarrow> t \<in> set (dv_threads x) \<Longrightarrow> thread_fine (dv_server x) t"
  by (simp add: queue_fine_def)

lemma fine_due: "queue_fine x \<Longrightarrow> loop_fine (dv_loop x)"
  by (simp add: queue_fine_def)

lemma fine_stored: "queue_fine x \<Longrightarrow> r \<in> set (dv_store x) \<Longrightarrow> keyed r"
  by (simp add: queue_fine_def)

text \<open>A store whose records are old ones or unconfirmed ones, and which lost only booked keys.\<close>

lemma fine_store:
  assumes "queue_fine x"
    and "\<And>r. r \<in> set st \<Longrightarrow> r \<in> set (dv_store x) \<or> keyed r \<and> of_state r \<noteq> OQ_CONFIRMED"
    and "\<And>k. k \<in> store_keys (dv_store x) \<Longrightarrow> k \<in> store_keys st \<or> booked (dv_server x) k"
  shows "queue_fine (x\<lparr>dv_store := st\<rparr>)"
proof -
  note q = assms(1) [unfolded queue_fine_def]
  have "keyed r \<and> (of_state r = OQ_CONFIRMED \<longrightarrow> booked (dv_server x) (of_idempotencyKey r))" if "r \<in> set st" for r
    using assms(2) [OF that] q by blast
  moreover have "k \<in> store_keys st \<or> k \<in> dv_dropped x \<or> booked (dv_server x) k" if "k \<in> dv_captured x" for k
    using that q assms(3) by blast
  ultimately show ?thesis using q unfolding queue_fine_def by simp
qed

lemma fine_recover: "queue_fine x \<Longrightarrow> queue_fine (x\<lparr>dv_store := fst (recoverInterruptedSendingRecords now (dv_store x))\<rparr>)"
proof (rule fine_store)
  fix r assume x: "queue_fine x" and "r \<in> set (fst (recoverInterruptedSendingRecords now (dv_store x)))"
  then obtain r0 where r0: "r0 \<in> set (dv_store x)" "r = recovered_record now r0" by (auto simp: recoverInterruptedSendingRecords_def)
  show "r \<in> set (dv_store x) \<or> keyed r \<and> of_state r \<noteq> OQ_CONFIRMED"
    using r0 fine_stored [OF x r0(1)] by (cases "interrupted now r0") (simp_all add: recovered_record_def keyed_def)
qed simp_all

lemma fine_cleanup: "queue_fine x \<Longrightarrow> queue_fine (x\<lparr>dv_store := fst (cleanupConfirmedOfflineOrderRecords now (dv_store x))\<rparr>)"
  by (rule fine_store) (auto simp: cleanupConfirmedOfflineOrderRecords_def queue_fine_def outlived_def)

lemma fine_drop:
  "queue_fine x \<Longrightarrow> queue_fine (x\<lparr>dv_store := deleteOfflineOrderRecord k (dv_store x), dv_dropped := insert k (dv_dropped x)\<rparr>)"
  unfolding queue_fine_def by (auto simp: deleteOfflineOrderRecord_def)

lemma sending_keyed [simp]: "keyed (sending_record now r) = keyed r" "of_state (sending_record now r) = SENDING"
  "keyed (reset_record now r) = keyed r"
  by (simp_all add: keyed_def sending_record_def)

lemma fine_posts: "queue_fine x \<Longrightarrow> keyed r \<Longrightarrow> queue_fine (posts h now r u e x)"
  using fine_put [of x "sending_record now r"]
  by (simp add: queue_fine_def) (simp add: posts_def buildOrderPayload_def keyed_def sending_record_def)

lemma arrives_booked:
  assumes "queue_fine x" and "arrives x s reply" and "of_state (fst (answered_record pd now rnd s reply)) = OQ_CONFIRMED"
  shows "booked (dv_server x) (of_idempotencyKey s)"
proof -
  from answered_confirmed [OF assms(3)] obtain n v where "reply = HttpOk n v" by blast
  with assms(2) have "(buildOrderPayload s, HttpOk n v) \<in> set (dv_answers x)" by (simp add: arrives_def)
  with assms(1) show ?thesis by (force simp: queue_fine_def buildOrderPayload_def)
qed

lemma fine_answered:
  assumes "queue_fine x" and "arrives x s reply" and "keyed s"
  shows "queue_fine (put_in (fst (answered_record pd now rnd s reply)) x)"
  by (rule fine_put) (use assms arrives_booked in \<open>auto simp: keyed_def\<close>)

lemma fine_context:
  assumes "queue_fine x" and "\<forall>r \<in> set rs. r \<in> set (dv_store x)"
  shows "queue_fine (x\<lparr>dv_loop := L_DUE u e rs\<rparr>)"
  by (rule fine_loop) (use assms fine_stored in \<open>auto simp: loop_fine_def\<close>)

lemma fine_due_Cons: "queue_fine x \<Longrightarrow> dv_loop x = L_DUE u e (r # rs) \<Longrightarrow> keyed r \<and> loop_fine (L_DUE u e rs)"
  by (auto simp: loop_fine_def dest!: fine_due)

lemma fine_step: "offline_step S x y \<Longrightarrow> queue_fine x \<Longrightarrow> queue_fine y"
proof (induction rule: offline_step.induct)
  case (captured a now input x st r)
  then have st: "st = putOfflineOrderRecord (captured_record input now) (dv_store x)"
    by (auto simp: enqueueOfflineOrder_def res_simps)
  have "queue_fine (put_in (captured_record input now) x)"
    by (rule fine_put) (use captured in \<open>auto simp: keyed_def captured_record_def\<close>)
  moreover have "en_idempotencyKey input = of_idempotencyKey (captured_record input now)" by (simp add: captured_record_def)
  ultimately show ?case by (simp add: queue_fine_def st)
next
  case (loop_starts x user now)
  then show ?case using fine_loop [OF fine_recover [of x now], of "L_CONTEXT user"] by (simp add: loop_fine_def)
next
  case (loop_context x user reply evs st now)
  then have "queue_fine (x\<lparr>dv_store := st\<rparr>)" by (simp add: fine_cleanup)
  then show ?case by (intro fine_context) (auto dest: due_mem)
next
  case (loop_waits x user evs r rs)
  then show ?case using fine_due_Cons fine_loop by blast
next
  case (loop_conflicts x user evs r rs k now)
  then show ?case using fine_due_Cons [of x user evs r rs]
    by (intro fine_loop fine_put) (auto simp: keyed_def conflicted_record_def)
next
  case (loop_posts x user evs r rs now)
  then show ?case using fine_due_Cons [of x user evs r rs]
    by (intro fine_loop fine_posts) (auto simp: loop_fine_def)
next
  case (loop_answered x s user evs rs reply pd now rnd)
  then have "keyed s \<and> loop_fine (L_DUE user evs rs)" by (auto simp: loop_fine_def dest!: fine_due)
  with loop_answered show ?case by (intro fine_loop fine_answered) auto
next
  case (retry_reads key x r)
  then show ?case using get_Some [OF retry_reads(1)] fine_stored by (intro fine_starts) (auto simp: thread_fine_def)
next
  case (retry_conflicts r x reply evs now user k)
  then show ?case using fine_thread [OF retry_conflicts(4,1)]
    by (intro fine_ends fine_put) (auto simp: thread_fine_def keyed_def)
next
  case (retry_resets r x reply evs now user)
  then show ?case using fine_thread [OF retry_resets(4,1)]
    by (intro fine_starts fine_ends fine_put) (auto simp: thread_fine_def)
next
  case (retry_posts r user evs x now)
  then show ?case using fine_thread [OF retry_posts(2,1)]
    by (intro fine_starts fine_ends fine_posts) (auto simp: thread_fine_def)
next
  case (retry_answered s x reply pd now rnd)
  then show ?case using fine_thread [OF retry_answered(3,1)]
    by (intro fine_ends fine_answered) (auto simp: thread_fine_def)
next
  case (discard_reads key x r)
  then show ?case using get_Some [OF discard_reads(1)] fine_stored by (intro fine_starts) (auto simp: thread_fine_def)
next
  case (discard_looked r x user reply)
  then show ?case using fine_thread [OF discard_looked(3,1)] known
    by (intro fine_starts fine_ends) (auto simp: thread_fine_def)
next
  case (discard_known r v x now)
  then show ?case using fine_thread [OF discard_known(2,1)]
    by (intro fine_ends fine_put) (auto simp: thread_fine_def keyed_def known_on_server_def)
next
  case (discard_unknown r n v x)
  then show ?case using fine_thread [OF discard_unknown(3,1)]
    by (intro fine_starts fine_ends) (auto simp: thread_fine_def)
next
  case (discard_done r x)
  then show ?case by (intro fine_ends fine_drop)
next
  case (adopted key a running now x st r)
  then obtain r0 where r0: "getOfflineOrderRecord key (dv_store x) = Some r0"
    and st: "st = putOfflineOrderRecord (adopted_record a now r0) (dv_store x)"
    by (auto simp: adoptLegacyOfflineOrder_def res_simps)
  have "keyed r0" using adopted(2) get_Some [OF r0] fine_stored by blast
  then have "queue_fine (put_in (adopted_record a now r0) x)"
    by (intro fine_put adopted(2)) (simp_all add: keyed_def adopted_record_def)
  then show ?case by (simp add: st put_in_def)
next
  case (removed x key)
  then show ?case unfolding removeOfflineOrder_def by (rule fine_drop)
next
  case (page_closed x)
  then show ?case by (simp add: queue_fine_def loop_fine_def)
next
  case (served u c x reply s')
  then have s': "queue_fine (x\<lparr>dv_server := s'\<rparr>)" by (intro fine_server) (auto dest: kept)
  have "booked s' k" if "reply = HttpOk n v" "co_idempotencyKey c = Some k" for n v k
  proof -
    from served(1,3) that(2) have "k \<noteq> []" by (force simp: queue_fine_def)
    with served(2) that show ?thesis using accepted by blast
  qed
  then have "(\<exists>n v. reply = HttpOk n v) \<longrightarrow> (\<forall>k. co_idempotencyKey c = Some k \<longrightarrow> booked s' k)" by blast
  with s' show ?case by (simp add: queue_fine_def)
next
  case (server_moves x s')
  then show ?case by (intro fine_server) (auto dest: moved)
qed (auto intro: fine_recover fine_cleanup fine_ends fine_loop simp: loop_fine_def)

lemma fresh_fine: "fresh_device x \<Longrightarrow> queue_fine x"
  by (auto simp: fresh_device_def queue_fine_def keyed_def loop_fine_def)

lemma run_fine: "offline_run S x y \<Longrightarrow> queue_fine x \<Longrightarrow> queue_fine y"
  unfolding offline_run_def by (induction rule: rtranclp_induct) (auto intro: fine_step)

lemma nothing_lost:
  assumes "offline_run S x y" and "fresh_device x" and "k \<in> dv_captured y"
  shows "k \<in> store_keys (dv_store y) \<or> k \<in> dv_dropped y \<or> booked (dv_server y) k"
  using run_fine [OF assms(1) fresh_fine [OF assms(2)]] assms(3) by (simp add: queue_fine_def)

lemma confirmed_booked:
  assumes "offline_run S x y" and "fresh_device x" and "r \<in> set (dv_store y)" and "of_state r = OQ_CONFIRMED"
  shows "booked (dv_server y) (of_idempotencyKey r)"
  using run_fine [OF assms(1) fresh_fine [OF assms(2)]] assms(3,4) by (simp add: queue_fine_def)

end

end
