(* ===== verification/VO_Queue_Backend.thy ===== *)
theory VO_Queue_Backend
  imports VO_Queue_Machine VO_Sessions VO_Samples
begin

text \<open>
  The backend as the offline queue sees it: \<^verbatim>\<open>POST /orders\<close> with its exception filter
  (\<^verbatim>\<open>orders/order-submission-exception.filter.ts\<close>), \<^verbatim>\<open>GET /orders/by-idempotency-key/:key\<close> and
  \<^verbatim>\<open>GET /sessions/context\<close> of the controllers under \<^verbatim>\<open>src/apps/backend/src\<close>. Of the answers the fields the queue reads
  are kept. The interface \<open>order_server\<close> holds of it.
\<close>

section \<open>The filter of the order intake\<close>

fun rejection_code_text :: "rejection_code \<Rightarrow> string" where
  "rejection_code_text AUTH_EXPIRED = ''AUTH_EXPIRED''"
| "rejection_code_text RC_FORBIDDEN = ''FORBIDDEN''"
| "rejection_code_text EVENT_MODE = ''EVENT_MODE''"
| "rejection_code_text SESSION_CLOSED = ''SESSION_CLOSED''"
| "rejection_code_text PRODUCT_UNAVAILABLE = ''PRODUCT_UNAVAILABLE''"
| "rejection_code_text PRICE_OR_OPTION = ''PRICE_OR_OPTION''"
| "rejection_code_text DUPLICATE_KEY_MISMATCH = ''DUPLICATE_KEY_MISMATCH''"
| "rejection_code_text RC_VALIDATION = ''VALIDATION''"

definition ORDER_REJECTION_CODE_VALUES :: "string list" where
  "ORDER_REJECTION_CODE_VALUES = map rejection_code_text [AUTH_EXPIRED, RC_FORBIDDEN, EVENT_MODE, SESSION_CLOSED,
     PRODUCT_UNAVAILABLE, PRICE_OR_OPTION, DUPLICATE_KEY_MISMATCH, RC_VALIDATION]"

text \<open>The HTTP status of an exception, the code and the message of its response.\<close>

fun exception_status :: "api_error \<Rightarrow> int" where
  "exception_status (BadRequest m) = 400"
| "exception_status (Rejected c m) = 400"
| "exception_status (NotFound m) = 404"
| "exception_status (Forbidden m) = 403"
| "exception_status (Conflict m) = 409"
| "exception_status (ConflictRejected c m) = 409"
| "exception_status (StockConflict c i n q a) = 409"
| "exception_status (UniqueViolation m) = 500"
| "exception_status (VO_Data.TypeError m) = 500"

fun exception_code :: "api_error \<Rightarrow> string option" where
  "exception_code (Rejected c m) = Some (rejection_code_text c)"
| "exception_code (ConflictRejected c m) = Some (rejection_code_text c)"
| "exception_code (StockConflict c i n q a) = Some c"
| "exception_code err = None"

fun exception_message :: "api_error \<Rightarrow> string option" where
  "exception_message (BadRequest m) = Some m"
| "exception_message (Rejected c m) = Some m"
| "exception_message (NotFound m) = Some m"
| "exception_message (Forbidden m) = Some m"
| "exception_message (Conflict m) = Some m"
| "exception_message (ConflictRejected c m) = Some m"
| "exception_message err = None"

definition codeFor :: "int \<Rightarrow> string option \<Rightarrow> string" where
  "codeFor statusCode code =
     (if statusCode = 401 then ''AUTH_EXPIRED''
      else if statusCode = 403 then ''FORBIDDEN''
      else (case code of
          Some c \<Rightarrow> if c \<in> set ORDER_REJECTION_CODE_VALUES then c else ''VALIDATION''
        | None \<Rightarrow> ''VALIDATION''))"

definition ERROR_NAMES :: "int \<Rightarrow> string" where
  "ERROR_NAMES s = (if s = 400 then ''Bad Request'' else if s = 401 then ''Unauthorized'' else if s = 403 then ''Forbidden''
     else if s = 409 then ''Conflict'' else ''Request Error'')"

definition caught :: "int \<Rightarrow> bool" where
  "caught s \<longleftrightarrow> s \<in> {400, 401, 403, 409}"

text \<open>What the filter does not catch leaves NestJS as a body with status and message.\<close>

definition order_failure :: "api_error \<Rightarrow> http_failure" where
  "order_failure err =
     (let s = exception_status err;
          message = (case exception_message err of Some m \<Rightarrow> m | None \<Rightarrow> if caught s then ''Die Bestellung wurde abgelehnt.'' else ''Internal server error'');
          body = (if caught s
            then [(lit ''statusCode'', WNum s), (lit ''error'', WStr (lit (ERROR_NAMES s))), (lit ''code'', WStr (lit (codeFor s (exception_code err)))),
                  (lit ''message'', WStr (lit message)), (lit ''errors'', WArr [])]
            else [(lit ''statusCode'', WNum s), (lit ''message'', WStr (lit message))])
      in \<lparr>hf_code = Some (lit (if s < 500 then ''ERR_BAD_REQUEST'' else ''ERR_BAD_RESPONSE'')), hf_status = Some s,
          hf_headers = None, hf_data = Some (WObj body)\<rparr>)"

section \<open>Answers of the controllers\<close>

definition text_or_null :: "string option \<Rightarrow> wjson" where
  "text_or_null s = (case s of Some t \<Rightarrow> WStr (lit t) | None \<Rightarrow> WNull)"

definition order_json :: "order_view \<Rightarrow> wjson" where
  "order_json v = WObj [(lit ''id'', WStr (lit (od_id (vw_order v)))), (lit ''orderNumber'', WNum (od_orderNumber (vw_order v))),
     (lit ''eventId'', WStr (lit (od_eventId (vw_order v)))), (lit ''idempotencyKey'', text_or_null (od_idempotencyKey (vw_order v)))]"

definition order_answer :: "db \<Rightarrow> api_error + db \<times> order_view \<Rightarrow> http_reply \<times> db" where
  "order_answer d r = (case r of Inr (d', v) \<Rightarrow> (HttpOk 201 (Some (order_json v)), d') | Inl err \<Rightarrow> (HttpFail (order_failure err), d))"

definition summary_json :: "order_summary \<Rightarrow> wjson" where
  "summary_json s = WObj [(lit ''id'', WStr (lit (os_id s))), (lit ''orderNumber'', WNum (os_orderNumber s)),
     (lit ''eventId'', WStr (lit (os_eventId s)))]"

text \<open>\<^verbatim>\<open>validateStatus\<close> takes 404 as an answer.\<close>

definition lookup_answer :: "db \<Rightarrow> id \<Rightarrow> role \<Rightarrow> string \<Rightarrow> http_reply" where
  "lookup_answer d u rl k = (case getOrderByIdempotencyKey d u rl k of
     Inr s \<Rightarrow> HttpOk 200 (Some (summary_json s))
   | Inl err \<Rightarrow> if exception_status err = 404 then HttpOk 404 (hf_data (order_failure err)) else HttpFail (order_failure err))"

definition context_json :: "session_context \<Rightarrow> wjson" where
  "context_json c = WObj [(lit ''id'', WStr (lit (ev_id (sc_event c)))), (lit ''name'', WStr (lit (ev_name (sc_event c)))),
     (lit ''status'', WStr (lit (event_status_text (ev_status (sc_event c))))), (lit ''testMode'', WBool (ev_testMode (sc_event c))),
     (lit ''activeSession'', (case sc_activeSession c of Some s \<Rightarrow> WObj [(lit ''id'', WStr (lit (cs_id s)))] | None \<Rightarrow> WNull))]"

definition context_answer :: "db \<Rightarrow> id \<Rightarrow> http_reply" where
  "context_answer d u = HttpOk 200 (Some (WArr (map context_json (getSessionContext d u))))"

section \<open>The backend behind the queue\<close>

definition has_order :: "db \<Rightarrow> string \<Rightarrow> bool" where
  "has_order d k \<longleftrightarrow> order_by_key d k \<noteq> None"

text \<open>
  One request of the order intake, with any environment, and any earlier state read before its transaction. The other
  services move the database; those that keep the booked keys are the moves of this server: all but the cleaning of test data
  and a restore.
\<close>

definition backend :: "db server" where
  "backend = \<lparr>sv_submit = (\<lambda>u c d reply d'. \<exists>e pre. (\<forall>k. has_order pre k \<longrightarrow> has_order d k) \<and>
       (reply, d') = order_answer d (createOrder (Some InventoryService) e pre d u c)),
     sv_look = (\<lambda>w k d reply. \<exists>u rl. w = Some u \<and> reply = lookup_answer d u rl k),
     sv_moves = (\<lambda>d d'. \<forall>k. has_order d k \<longrightarrow> has_order d' k)\<rparr>"

lemma has_order_iff: "has_order d k \<longleftrightarrow> Some k \<in> od_idempotencyKey ` set (t_orders d)"
  by (force simp: has_order_def order_by_key_def find_None_iff)

lemma resolved_has_order: "resolveIdempotentOrder st u c = Inr (Some v) \<Longrightarrow> co_idempotencyKey c = Some k \<Longrightarrow> k \<noteq> [] \<Longrightarrow> has_order st k"
  by (auto simp: resolveIdempotentOrder_def has_order_def truthy_def split: option.splits if_splits)

lemma createOrder_books:
  assumes "createOrder (Some InventoryService) e pre d u c = Inr (d', v)"
  shows "has_order d k \<Longrightarrow> has_order d' k"
    and "co_idempotencyKey c = Some k \<Longrightarrow> k \<noteq> [] \<Longrightarrow> (\<forall>k. has_order pre k \<longrightarrow> has_order d k) \<Longrightarrow> has_order d' k"
proof -
  have "(has_order d k \<longrightarrow> has_order d' k) \<and>
     (co_idempotencyKey c = Some k \<longrightarrow> k \<noteq> [] \<longrightarrow> (\<forall>k. has_order pre k \<longrightarrow> has_order d k) \<longrightarrow> has_order d' k)"
    using assms
  proof (cases rule: createOrder_cases)
    case (replayed st)
    then show ?thesis using resolved_has_order by blast
  next
    case (booked refund paid d1 ch)
    note T = ledger.createOrder_tx_tables [OF booked(5)]
    have "t_orders d' = t_orders d @ [vw_order v]"
      using beside_broadcastsD(1) [OF ledger.publish_frame [of "co_eventId c" "od_dataMode (vw_order v)" ch d1]] T(1) booked(6) by simp
    then show ?thesis using T(7) by (simp add: has_order_iff)
  qed
  then show "has_order d k \<Longrightarrow> has_order d' k"
    and "co_idempotencyKey c = Some k \<Longrightarrow> k \<noteq> [] \<Longrightarrow> (\<forall>k. has_order pre k \<longrightarrow> has_order d k) \<Longrightarrow> has_order d' k" by blast+
qed

lemma order_answer_Ok: "(HttpOk n v, d') = order_answer d r \<Longrightarrow> \<exists>w. r = Inr (d', w)"
  by (cases r) (auto simp: order_answer_def)

lemma order_answer_any: "(reply, d') = order_answer d r \<Longrightarrow> d' = d \<or> (\<exists>w. r = Inr (d', w))"
  by (cases r) (auto simp: order_answer_def)

interpretation queue: order_server backend has_order
proof (unfold_locales, goal_cases)
  case (1 u c s n v s' k)
  then show ?case by (auto simp: backend_def dest!: order_answer_Ok dest: createOrder_books(2))
next
  case (2 u c s reply s' k)
  then show ?case by (auto simp: backend_def dest!: order_answer_any dest: createOrder_books(1))
next
  case (3 w k s v)
  then show ?case
    by (auto simp: backend_def lookup_answer_def getOrderByIdempotencyKey_def has_order_def bind_res_def need_def
        split: sum.splits option.splits if_splits)
next
  case (4 s s' k)
  then show ?case by (simp add: backend_def)
qed

section \<open>Reading the answers\<close>

lemma lit_inject [simp]: "lit s = lit t \<longleftrightarrow> s = t"
  by (auto simp: lit_def inj_map_eq_map inj_def)

lemma order_json_fields [simp]:
  "text_field ''id'' (Some (order_json v)) = Some (lit (od_id (vw_order v)))"
  "text_field ''eventId'' (Some (order_json v)) = Some (lit (od_eventId (vw_order v)))"
  "text_field ''idempotencyKey'' (Some (order_json v)) = map_option lit (od_idempotencyKey (vw_order v))"
  "text_field ''orderNumber'' (Some (order_json v)) = None"
  by (simp_all add: text_field_def order_json_def wget_def text_or_null_def split: option.split)

lemma failure_fields [simp]:
  "hf_status (order_failure err) = Some (exception_status err)"
  "caught (exception_status err) \<Longrightarrow>
     Option.bind (hf_data (order_failure err)) (wget ''code'') = Some (WStr (lit (codeFor (exception_status err) (exception_code err))))"
  "\<not> caught (exception_status err) \<Longrightarrow> Option.bind (hf_data (order_failure err)) (wget ''code'') = None"
  by (simp_all add: order_failure_def Let_def wget_def)

lemma payload_sending [simp]: "buildOrderPayload (sending_record now r) = buildOrderPayload r"
  "buildOrderPayload (reset_record now r) = buildOrderPayload r"
  by (simp_all add: buildOrderPayload_def sending_record_def reset_record_def)

lemma answered_own_order:
  assumes "od_idempotencyKey (vw_order v) = Some (of_idempotencyKey s)" and "od_eventId (vw_order v) = of_eventId s"
  shows "answered_record pd now rnd s (HttpOk n (Some (order_json v))) =
    (s\<lparr>of_state := OQ_CONFIRMED, of_serverOrderId := Some (lit (od_id (vw_order v))), of_serverOrderNumber := None,
       of_confirmedAt := Some now, of_lastError := None, of_conflictKind := None, of_sendingSince := None, of_updatedAt := now\<rparr>, AR_CONFIRMED)"
  using assms by (simp add: answered_record_def classifySubmissionOutcome_def classifySuccess_def)

text \<open>A device whose HTTP client reaches the backend as user \<open>u\<close>.\<close>

definition backend_network :: "env \<Rightarrow> id \<Rightarrow> role \<Rightarrow> int \<Rightarrow> rat \<Rightarrow> (jstext \<Rightarrow> int option) \<Rightarrow> db network" where
  "backend_network e u rl now rnd pd =
     \<lparr>nw_context = (\<lambda>d. (context_answer d u, d)),
      nw_order = (\<lambda>c d. order_answer d (createOrder (Some InventoryService) e d d u c)),
      nw_lookup = (\<lambda>k d. (lookup_answer d u rl k, d)),
      nw_discard = (\<lambda>i d. (case discardOfflineQueueEntry d u rl i of
          Inr d' \<Rightarrow> (HttpOk 201 None, d') | Inl err \<Rightarrow> (HttpFail (order_failure err), d))),
      nw_now = (\<lambda>d. now), nw_random = (\<lambda>d. rnd), nw_date = pd\<rparr>"

end
