(* ===== verification/VO_Queue_Props.thy ===== *)
theory VO_Queue_Props
  imports VO_Queue_Backend
begin

text \<open>
  The properties of the offline queue: what an interleaved run of the device against the backend guarantees, what a failed
  attempt leaves, and how the client and the backend understand each other.
\<close>

section \<open>Runs of the device\<close>

text \<open>
  C3. The queue loses nothing. However its handlers interleave, whenever the page is closed and whatever answers are lost:
  every captured order still lies in the queue, or was removed by an operator, or is booked at the backend under its key;
  and a record is shown as confirmed only when the backend has an order with its key.
\<close>

theorem captured_orders_are_safe:
  assumes "offline_run backend x y" and "fresh_device x"
  shows "(\<forall>k \<in> dv_captured y. k \<in> store_keys (dv_store y) \<or> k \<in> dv_dropped y \<or> has_order (dv_server y) k) \<and>
    (\<forall>r \<in> set (dv_store y). of_state r = OQ_CONFIRMED \<longrightarrow> has_order (dv_server y) (of_idempotencyKey r))"
  using queue.nothing_lost [OF assms] queue.confirmed_booked [OF assms] by blast

definition sample_capture :: enqueue_input where
  "sample_capture = \<lparr>en_idempotencyKey = ''key'', en_context = \<lparr>cc_userId = ''u'', cc_username = lit ''anna'', cc_userRole = Some ''CASHIER'',
       cc_eventId = ''e'', cc_eventName = Some (lit ''Fest''), cc_dataMode = LIVE, cc_cashierSessionId = Some ''k''\<rparr>,
     en_items = [\<lparr>fin_productId = ''w'', fin_quantity = 2, fin_optionIds = None, fin_productName = None, fin_unitPriceAtCapture = Some 200\<rparr>],
     en_payments = [\<lparr>pi_amount = 400, pi_method = CASH\<rparr>], en_tableName = Some ''T1'', en_areaId = None, en_areaName = None,
     en_totalAtCapture = Some 400\<rparr>"

definition sample_record :: offline_order where
  "sample_record = captured_record sample_capture 0"

definition sample_device :: "db device" where
  "sample_device = \<lparr>dv_store = [], dv_server = sample_db, dv_loop = L_IDLE, dv_threads = [], dv_wire = [], dv_answers = [],
     dv_captured = {}, dv_dropped = {}, dv_sent = []\<rparr>"

definition sample_events :: "current_event list" where
  "sample_events = [\<lparr>cx_eventId = lit ''e'', cx_eventName = lit ''Fest'', cx_dataMode = LIVE, cx_activeSessionId = Some (lit ''k'')\<rparr>]"

lemma sample_context: "fetchCurrentEventContexts (context_answer sample_db ''u'') = Some sample_events"
  by code_simp

lemma sample_check: "checkOfflineOrderContext sample_record (Some ''u'') sample_events = CC_OK"
  by code_simp

lemma sample_due: "due_records 0 [sample_record] = [sample_record]"
  by code_simp

lemma sample_payload_key: "co_idempotencyKey (buildOrderPayload sample_record) = Some ''key''"
  by code_simp

definition confirmed_sample :: "id \<Rightarrow> offline_order" where
  "confirmed_sample i = (sending_record 0 sample_record)\<lparr>of_state := OQ_CONFIRMED, of_serverOrderId := Some (lit i),
     of_serverOrderNumber := None, of_confirmedAt := Some 0, of_lastError := None, of_conflictKind := None,
     of_sendingSince := None, of_updatedAt := 0\<rparr>"

definition sample_end :: "db \<Rightarrow> order_view \<Rightarrow> db device \<Rightarrow> bool" where
  "sample_end d v y \<longleftrightarrow> offline_run backend sample_device y \<and> dv_captured y = {''key''} \<and> dv_server y = d \<and> dv_dropped y = {} \<and>
     dv_sent y = [\<lparr>sn_record = sample_record, sn_user = Some ''u'', sn_events = sample_events, sn_by_hand = False\<rparr>] \<and>
     dv_store y = [confirmed_sample (od_id (vw_order v))]"

text \<open>The order is captured, the sync run posts it, the backend books it, the answer confirms it.\<close>

lemma sample_run:
  assumes run: "createOrder (Some InventoryService) run_env sample_db sample_db ''u'' (buildOrderPayload sample_record) = Inr (d, v)"
    and v: "od_idempotencyKey (vw_order v) = Some ''key''" "od_eventId (vw_order v) = ''e''"
  shows "\<exists>y. sample_end d v y"
proof -
  let ?s = "sending_record 0 sample_record"
  let ?c = "buildOrderPayload sample_record"
  define x1 where "x1 = sample_device\<lparr>dv_store := [sample_record], dv_captured := {''key''}\<rparr>"
  define x2 where "x2 = x1\<lparr>dv_loop := L_CONTEXT (Some ''u'')\<rparr>"
  define x3 where "x3 = x2\<lparr>dv_loop := L_DUE (Some ''u'') sample_events [sample_record]\<rparr>"
  define x4 where "x4 = (posts False 0 sample_record (Some ''u'') sample_events x3)\<lparr>dv_loop := L_SEND ?s (Some ''u'') sample_events []\<rparr>"
  define x5 where "x5 = x4\<lparr>dv_server := d, dv_answers := [(?c, HttpOk 201 (Some (order_json v)))]\<rparr>"
  define x6 where "x6 = (put_in (confirmed_sample (od_id (vw_order v))) x5)\<lparr>dv_loop := L_DUE (Some ''u'') sample_events []\<rparr>"
  have key: "of_idempotencyKey ?s = ''key''" "of_eventId ?s = ''e''" "of_state sample_record = LOCAL_PENDING"
    by (simp_all add: sample_record_def sample_capture_def captured_record_def sending_record_def)
  have 1: "offline_step backend sample_device x1"
  proof -
    have "enqueueOfflineOrder \<lparr>da_opens = True, da_counts = True, da_writes = True\<rparr> 0 sample_capture [] = Inr ([sample_record], sample_record)"
      by (simp add: enqueueOfflineOrder_def sample_record_def countOpenOfflineOrderRecords_def MAX_OPEN_QUEUE_ENTRIES_def OPEN_STATES_def)
        (simp add: sample_capture_def)
    then have "enqueueOfflineOrder \<lparr>da_opens = True, da_counts = True, da_writes = True\<rparr> 0 sample_capture (dv_store sample_device)
        = Inr ([sample_record], sample_record)" by (simp add: sample_device_def)
    from offline_step.captured [OF this, of backend] show ?thesis by (simp add: x1_def sample_device_def sample_capture_def)
  qed
  have 2: "offline_step backend x1 x2"
    using offline_step.loop_starts [where x = x1 and now = 0 and user = "Some ''u''" and S = backend] key(3)
    by (simp add: x1_def x2_def sample_device_def recoverInterruptedSendingRecords_def recovered_record_def interrupted_def)
  have 3: "offline_step backend x2 x3"
    using offline_step.loop_context [where x = x2 and user = "Some ''u''" and now = 0 and S = backend, OF _ sample_context refl] sample_due key(3)
    by (simp add: x1_def x2_def x3_def sample_device_def cleanupConfirmedOfflineOrderRecords_def outlived_def)
  have 4: "offline_step backend x3 x4"
    unfolding x4_def by (rule offline_step.loop_posts [OF _ sample_check]) (simp add: x3_def)
  have 5: "offline_step backend x4 x5"
  proof -
    have sv: "sv_submit backend ''u'' ?c (dv_server x4) (HttpOk 201 (Some (order_json v))) d"
      using run by (auto simp: backend_def x4_def x3_def x2_def x1_def sample_device_def order_answer_def
          intro!: exI [of _ run_env] exI [of _ sample_db])
    have "(Some ''u'', ?c) \<in> set (dv_wire x4)" by (simp add: x4_def)
    from offline_step.served [OF this sv] show ?thesis by (simp add: x5_def x4_def x3_def x2_def x1_def sample_device_def)
  qed
  have 6: "offline_step backend x5 x6"
  proof -
    have "arrives x5 ?s (HttpOk 201 (Some (order_json v)))" by (simp add: arrives_def x5_def)
    moreover have "dv_loop x5 = L_SEND ?s (Some ''u'') sample_events []" by (simp add: x5_def x4_def)
    ultimately have "offline_step backend x5 ((put_in (fst (answered_record (\<lambda>_. None) 0 0 ?s (HttpOk 201 (Some (order_json v))))) x5)
        \<lparr>dv_loop := L_DUE (Some ''u'') sample_events []\<rparr>)"
      by (intro offline_step.loop_answered)
    then show ?thesis unfolding x6_def confirmed_sample_def by (simp add: answered_own_order v key)
  qed
  have "offline_run backend sample_device x6"
    unfolding offline_run_def using 1 2 3 4 5 6 by (meson converse_rtranclp_into_rtranclp rtranclp.rtrancl_refl)
  moreover have "dv_store x6 = [confirmed_sample (od_id (vw_order v))]"
    using key(1) by (simp add: x6_def x5_def x4_def x3_def x2_def x1_def confirmed_sample_def) (simp add: sending_record_def)
  ultimately show ?thesis
    by (intro exI [of _ x6]) (simp add: sample_end_def x6_def x5_def x4_def x3_def x2_def x1_def sample_device_def)
qed

lemma sample_fresh: "fresh_device sample_device"
  by (simp add: fresh_device_def sample_device_def)

lemma sample_booking:
  obtains d v where "createOrder (Some InventoryService) run_env sample_db sample_db ''u'' (buildOrderPayload sample_record) = Inr (d, v)"
    "od_idempotencyKey (vw_order v) = Some ''key''" "od_eventId (vw_order v) = ''e''"
proof -
  have "succeeds_with (\<lambda>(d, v). od_idempotencyKey (vw_order v) = Some ''key'' \<and> od_eventId (vw_order v) = ''e'')
     (createOrder (Some InventoryService) run_env sample_db sample_db ''u'' (buildOrderPayload sample_record))" by code_simp
  then show ?thesis using that by (auto elim!: succeeds_withE)
qed

lemma captured_orders_are_safe_witness:
  "\<exists>y. offline_run backend sample_device y \<and> dv_captured y = {''key''} \<and> dv_sent y \<noteq> [] \<and> has_order (dv_server y) ''key'' \<and>
     (\<exists>r \<in> set (dv_store y). of_state r = OQ_CONFIRMED)"
proof -
  obtain d v where "createOrder (Some InventoryService) run_env sample_db sample_db ''u'' (buildOrderPayload sample_record) = Inr (d, v)"
    "od_idempotencyKey (vw_order v) = Some ''key''" "od_eventId (vw_order v) = ''e''" by (rule sample_booking)
  from sample_run [OF this] obtain y where "sample_end d v y" by (rule exE)
  note y = this [unfolded sample_end_def]
  have "of_state (confirmed_sample (od_id (vw_order v))) = OQ_CONFIRMED" "of_idempotencyKey (confirmed_sample (od_id (vw_order v))) = ''key''"
    by (simp_all add: confirmed_sample_def sending_record_def sample_record_def captured_record_def sample_capture_def)
  with y captured_orders_are_safe [OF conjunct1 [OF y] sample_fresh] show ?thesis by (intro exI [of _ y]) simp
qed

text \<open>
  C14. Nothing is sent outside its context. Every request the device ever posted was checked first: the user logged in is the one
  who captured or adopted the order, the event of the order runs today in the mode it was captured in, and the captured
  register session, if any, is the one open now. On its own the sync run sends only pending records; a conflict or a
  failed record is sent only by hand.
\<close>

theorem sent_only_in_context:
  assumes "offline_run S x y" and "fresh_device x" and "n \<in> set (dv_sent y)"
  shows "(\<exists>i m v. of_userId (sn_record n) = Some i \<and> sn_user n = Some i \<and> of_dataMode (sn_record n) = OM_MODE m \<and>
      v \<in> set (sn_events n) \<and> cx_eventId v = lit (of_eventId (sn_record n)) \<and> cx_dataMode v = m \<and>
      (case of_cashierSessionId (sn_record n) of None \<Rightarrow> True | Some s \<Rightarrow> cx_activeSessionId v = Some (lit s))) \<and>
    (if sn_by_hand n then of_state (sn_record n) \<in> {OQ_CONFLICT, OQ_FAILED} else of_state (sn_record n) = LOCAL_PENDING)"
proof -
  have "device_ok y" using assms(1) fresh_device_ok [OF assms(2)] by (rule run_device_ok)
  with assms(3) have n: "sent_ok n" by (simp add: device_ok_def)
  then show ?thesis using context_ok [of "sn_record n" "sn_user n" "sn_events n"] unfolding sent_ok_def by blast
qed

lemma sent_only_in_context_witness:
  "\<exists>y n. offline_run backend sample_device y \<and> n \<in> set (dv_sent y) \<and> (\<exists>i. of_userId (sn_record n) = Some i \<and> sn_user n = Some i)"
proof -
  obtain d v where "createOrder (Some InventoryService) run_env sample_db sample_db ''u'' (buildOrderPayload sample_record) = Inr (d, v)"
    "od_idempotencyKey (vw_order v) = Some ''key''" "od_eventId (vw_order v) = ''e''" by (rule sample_booking)
  from sample_run [OF this] obtain y where "sample_end d v y" by (rule exE)
  note y = this [unfolded sample_end_def]
  then have "\<lparr>sn_record = sample_record, sn_user = Some ''u'', sn_events = sample_events, sn_by_hand = False\<rparr> \<in> set (dv_sent y)" by simp
  from sent_only_in_context [OF conjunct1 [OF y] sample_fresh this] conjunct1 [OF y] this show ?thesis by blast
qed

section \<open>Sending again\<close>

text \<open>An answered order carries the key and the event of its request.\<close>

lemma createOrder_own:
  assumes "createOrder (Some InventoryService) e pre d u c = Inr (d', v)" and "truthy (co_idempotencyKey c) = Some k"
  shows "od_idempotencyKey (vw_order v) = Some k" and "od_eventId (vw_order v) = co_eventId c"
proof -
  have "od_idempotencyKey (vw_order v) = Some k \<and> od_eventId (vw_order v) = co_eventId c"
    using assms(1)
  proof (cases rule: createOrder_cases)
    case (replayed st)
    with assms(2) show ?thesis
      by (auto simp: resolveIdempotentOrder_def same_order_request_def order_by_key_def view_order_def
          split: option.splits if_splits dest: find_Some_mem)
  next
    case (booked refund paid d1 ch)
    from booked(5) have "od_eventId (vw_order v) = co_eventId c"
      by (rule ledger.createOrder_tx_effect) (auto simp: order_row_def dest!: insert_order_Inr(1))
    with ledger.createOrder_tx_tables(7) [OF booked(5)] assms(2) show ?thesis by (simp add: truthy_Some_iff)
  qed
  then show "od_idempotencyKey (vw_order v) = Some k" and "od_eventId (vw_order v) = co_eventId c" by blast+
qed

text \<open>What the record shows after an attempt the backend answered with its order.\<close>

lemma attempt_answered:
  assumes ok: "store_ok st"
    and ans: "createOrder (Some InventoryService) e d d u (buildOrderPayload r) = Inr (d', v)"
    and v: "od_idempotencyKey (vw_order v) = Some (of_idempotencyKey r)" "od_eventId (vw_order v) = of_eventId r"
  shows "\<exists>st' r'. attemptSendEntry (backend_network e u rl now rnd pd) r (st, d) = (AR_CONFIRMED, st', d') \<and>
    getOfflineOrderRecord (of_idempotencyKey r) st' = Some r' \<and> of_state r' = OQ_CONFIRMED \<and>
    of_serverOrderId r' = Some (lit (od_id (vw_order v)))"
proof -
  let ?s = "sending_record now r"
  have key: "of_idempotencyKey ?s = of_idempotencyKey r" "of_eventId ?s = of_eventId r" by (simp_all add: sending_record_def)
  note A = answered_own_order [where s = ?s and now = now and pd = pd and rnd = rnd and n = 201, unfolded key, OF v]
  define r' where "r' = fst (answered_record pd now rnd ?s (HttpOk 201 (Some (order_json v))))"
  have r': "of_state r' = OQ_CONFIRMED" "of_serverOrderId r' = Some (lit (od_id (vw_order v)))" "of_idempotencyKey r' = of_idempotencyKey r"
    by (simp_all add: r'_def A key)
  have "attemptSendEntry (backend_network e u rl now rnd pd) r (st, d)
      = (AR_CONFIRMED, putOfflineOrderRecord r' (putOfflineOrderRecord ?s st), d')"
    by (simp add: attemptSendEntry_def backend_network_def ans order_answer_def r'_def A Let_def)
  moreover have "getOfflineOrderRecord (of_idempotencyKey r) (putOfflineOrderRecord r' (putOfflineOrderRecord ?s st)) = Some r'"
    using put_ok [OF ok] by (simp add: get_put r'(3))
  ultimately show ?thesis using r' by blast
qed

text \<open>
  C13. A lost answer is no lost and no second order. When the backend booked an order whose answer never arrived, the next
  attempt with the same record, at any later time, is answered with that very order: the record becomes confirmed with its
  id, and the backend does not change.
\<close>

theorem lost_answer_is_recovered:
  assumes "createOrder (Some InventoryService) e d d u (buildOrderPayload r) = Inr (d', v)" and "of_idempotencyKey r \<noteq> []"
    and "supply_ok e d" and "\<forall>p \<in> set (t_products d). product_wf p" and "store_ok st"
  shows "\<exists>st' r'. attemptSendEntry (backend_network e' u rl now rnd pd) r (st, d') = (AR_CONFIRMED, st', d') \<and>
    getOfflineOrderRecord (of_idempotencyKey r) st' = Some r' \<and> of_state r' = OQ_CONFIRMED \<and>
    of_serverOrderId r' = Some (lit (od_id (vw_order v)))"
proof -
  have k: "truthy (co_idempotencyKey (buildOrderPayload r)) = Some (of_idempotencyKey r)"
    using assms(2) by (simp add: buildOrderPayload_def truthy_def)
  have again: "createOrder (Some InventoryService) e' d' d' u (buildOrderPayload r) = Inr (d', v)"
    by (rule ledger.createOrder_replays [OF assms(1) k assms(3,4)])
  show ?thesis
  proof (rule attempt_answered [OF assms(5) again])
    from again show "od_idempotencyKey (vw_order v) = Some (of_idempotencyKey r)"
      by (rule createOrder_own [OF _ k])
    from again show "od_eventId (vw_order v) = of_eventId r"
      using createOrder_own(2) [OF again k] by (simp add: buildOrderPayload_def)
  qed
qed

lemma sample_store_ok: "store_ok []"
  by (simp add: store_ok_def)

lemma queue_supply_ok: "supply_ok run_env sample_db"
  by (simp add: supply_ok_def run_env_def sample_env_def inj_nat_text sample_db_def empty_db_def sample_movement_def)

lemma queue_products_wf: "\<forall>p \<in> set (t_products sample_db). product_wf p"
  by code_simp

lemma sample_key: "of_idempotencyKey sample_record = ''key''"
  by (simp add: sample_record_def captured_record_def sample_capture_def)

lemma lost_answer_is_recovered_witness:
  "\<exists>d' v st' r'. createOrder (Some InventoryService) run_env sample_db sample_db ''u'' (buildOrderPayload sample_record) = Inr (d', v) \<and>
     attemptSendEntry (backend_network sample_env ''u'' CASHIER 7 0 (\<lambda>_. None)) sample_record ([], d') = (AR_CONFIRMED, st', d') \<and>
     getOfflineOrderRecord (of_idempotencyKey sample_record) st' = Some r' \<and> of_state r' = OQ_CONFIRMED \<and> of_serverOrderId r' = Some (lit (od_id (vw_order v)))"
proof -
  obtain d' v where run: "createOrder (Some InventoryService) run_env sample_db sample_db ''u'' (buildOrderPayload sample_record) = Inr (d', v)"
    by (rule sample_booking)
  have "of_idempotencyKey sample_record \<noteq> []" by (simp add: sample_key)
  from lost_answer_is_recovered [OF run this queue_supply_ok queue_products_wf sample_store_ok, of sample_env CASHIER 7 0 "\<lambda>_. None"] run
  show ?thesis by blast
qed

section \<open>Failed attempts\<close>

text \<open>
  C15. What a failed attempt leaves. Without an answer, or with 408, 425, 429 or a server error, the record waits for its next
  attempt, 5 seconds doubling up to 5 minutes with a spread of a fifth, unless 429 names a time; after the sixth attempt it has
  failed and waits for a person. Any other status is a conflict and is never repeated on its own. The text kept for the
  operator is one line of at most 300 characters without any run of 32 token characters, whatever the server wrote.
\<close>

theorem failed_attempt:
  assumes "0 \<le> rnd" and "rnd < 1" and "answered_record pd now rnd s (HttpFail f) = (r, res)"
  shows "(\<exists>err. of_lastError r = Some err \<and> clean_text (fe_messageForOperator err)) \<and>
    (if (case hf_status f of None \<Rightarrow> True | Some c \<Rightarrow> retryable_status c)
     then (if of_attempt s < 6
       then of_state r = LOCAL_PENDING \<and> (\<exists>wait. of_nextAttemptAt r = Some (now + wait) \<and> 0 \<le> wait \<and>
         (hf_status f \<noteq> Some 429 \<longrightarrow> 4 * base_delay (of_attempt s) \<le> 5 * wait \<and> 5 * wait \<le> 6 * base_delay (of_attempt s)))
       else of_state r = OQ_FAILED \<and> of_nextAttemptAt r = None)
     else of_state r = OQ_CONFLICT)"
proof -
  define o' where "o' = classifySubmissionOutcome pd s (HttpFail f) now"
  have r: "r = fst (answered_record pd now rnd s (HttpFail f))" by (simp add: assms(3))
  note delay = delay_range [OF assms(1,2), of "of_attempt s"] base_delay_range [of "of_attempt s"]
  show ?thesis
  proof (cases "case hf_status f of None \<Rightarrow> True | Some c \<Rightarrow> retryable_status c")
    case True
    then obtain err ms where o': "o' = SO_RETRY err ms" unfolding o'_def using classify_failure by blast
    have clean: "clean_text (fe_messageForOperator err)" and ms: "hf_status f \<noteq> Some 429 \<Longrightarrow> ms = None" "\<And>m. ms = Some m \<Longrightarrow> 0 \<le> m"
      using o' unfolding o'_def
      by (auto simp: classifySubmissionOutcome_def classifyError_def Let_def sanitize_clean network_clean parseRetryAfterMs_def
          split: option.splits if_splits)
    have wait: "0 \<le> computeNextAttemptDelayMs (of_attempt s) ms rnd" using delay ms(2) by (cases ms) (auto simp: computeNextAttemptDelayMs_def)
    have "hf_status f \<noteq> Some 429 \<longrightarrow> 4 * base_delay (of_attempt s) \<le> 5 * computeNextAttemptDelayMs (of_attempt s) ms rnd \<and>
       5 * computeNextAttemptDelayMs (of_attempt s) ms rnd \<le> 6 * base_delay (of_attempt s)" using delay ms(1) by auto
    with wait clean True show ?thesis
      unfolding r answered_record_def o'_def [symmetric] o' by (simp add: Let_def MAX_AUTOMATIC_ATTEMPTS_def)
  next
    case False
    then obtain c where c: "hf_status f = Some c" "\<not> retryable_status c" by (auto split: option.splits)
    then obtain k err where o': "o' = SO_CONFLICT k err" "clean_text (fe_messageForOperator err)"
      unfolding o'_def by (auto simp: classifySubmissionOutcome_def classifyError_def Let_def sanitize_clean)
    from False show ?thesis unfolding r answered_record_def o'_def [symmetric] o'(1) by (simp add: o'(2))
  qed
qed

definition busy_reply :: http_failure where
  "busy_reply = \<lparr>hf_code = None, hf_status = Some 503, hf_headers = None, hf_data = Some (WObj [(lit ''message'', WStr (lit ''Bearer abc
  at x''))])\<rparr>"

lemma failed_attempt_witness:
  "\<exists>r res. answered_record (\<lambda>_. None) 0 0 (sending_record 0 sample_record) (HttpFail busy_reply) = (r, res) \<and>
     of_state r = LOCAL_PENDING \<and> (\<exists>wait \<ge> 4000. of_nextAttemptAt r = Some wait) \<and>
     (\<exists>err. of_lastError r = Some err \<and> clean_text (fe_messageForOperator err))"
proof -
  obtain r res where run: "answered_record (\<lambda>_. None) 0 0 (sending_record 0 sample_record) (HttpFail busy_reply) = (r, res)"
    by (rule prod.exhaust)
  have "of_attempt (sending_record 0 sample_record) = 1" "base_delay 1 = 5000"
    by (simp_all add: sending_record_def sample_record_def captured_record_def base_delay_def)
  with failed_attempt [OF _ _ run] run show ?thesis
    by (auto simp: busy_reply_def retryable_status_def)
qed

section \<open>Client and backend\<close>

fun conflict_of_code :: "rejection_code \<Rightarrow> conflict_kind" where
  "conflict_of_code AUTH_EXPIRED = CK_AUTH_EXPIRED"
| "conflict_of_code RC_FORBIDDEN = CK_FORBIDDEN"
| "conflict_of_code EVENT_MODE = CK_EVENT_MODE"
| "conflict_of_code SESSION_CLOSED = CK_SESSION_CLOSED"
| "conflict_of_code PRODUCT_UNAVAILABLE = CK_PRODUCT_UNAVAILABLE"
| "conflict_of_code PRICE_OR_OPTION = CK_PRICE_OR_OPTION"
| "conflict_of_code DUPLICATE_KEY_MISMATCH = CK_DUPLICATE_KEY_MISMATCH"
| "conflict_of_code RC_VALIDATION = CK_VALIDATION"

text \<open>The cause an operator should read for an exception of the order intake; \<open>None\<close>: the attempt is repeated.\<close>

fun shown_cause :: "api_error \<Rightarrow> conflict_kind option" where
  "shown_cause (Rejected c m) = Some (conflict_of_code c)"
| "shown_cause (ConflictRejected c m) = Some (conflict_of_code c)"
| "shown_cause (StockConflict c i n q a) = Some (case map_of SERVER_CODE_TO_CONFLICT_KIND c of Some k \<Rightarrow> k | None \<Rightarrow> CK_VALIDATION)"
| "shown_cause (Forbidden m) = Some CK_FORBIDDEN"
| "shown_cause (BadRequest m) = Some CK_VALIDATION"
| "shown_cause (Conflict m) = Some CK_VALIDATION"
| "shown_cause (NotFound m) = Some CK_VALIDATION"
| "shown_cause (UniqueViolation m) = None"
| "shown_cause (VO_Data.TypeError m) = None"

lemma code_kind_lit: "code_kind (Some (WStr (lit c))) = map_of SERVER_CODE_TO_CONFLICT_KIND c"
proof -
  have "map_of (map (\<lambda>(k, x). (lit k, x)) xs) (lit c) = map_of xs c" for xs :: "(string \<times> conflict_kind) list"
    by (induction xs) auto
  then show ?thesis by (simp add: code_kind_def)
qed

lemma code_kind_None: "code_kind None = None"
  by (simp add: code_kind_def)

lemma code_in_contract: "c \<in> set ORDER_REJECTION_CODE_VALUES \<longleftrightarrow> map_of SERVER_CODE_TO_CONFLICT_KIND c \<noteq> None"
  by (auto simp: ORDER_REJECTION_CODE_VALUES_def SERVER_CODE_TO_CONFLICT_KIND_def)

lemma rejection_code_kind: "map_of SERVER_CODE_TO_CONFLICT_KIND (rejection_code_text c) = Some (conflict_of_code c)"
  by (cases c) (simp_all add: SERVER_CODE_TO_CONFLICT_KIND_def)

lemma validation_kind: "map_of SERVER_CODE_TO_CONFLICT_KIND ''VALIDATION'' = Some CK_VALIDATION"
  by (simp add: SERVER_CODE_TO_CONFLICT_KIND_def)

lemma shown_cause_outcome:
  "(case shown_cause err of
      Some k \<Rightarrow> \<exists>oe. classifySubmissionOutcome pd r (HttpFail (order_failure err)) now = SO_CONFLICT k oe
    | None \<Rightarrow> \<exists>oe. classifySubmissionOutcome pd r (HttpFail (order_failure err)) now = SO_RETRY oe None)"
  by (cases err)
    (simp_all add: classifySubmissionOutcome_def classifyError_def retryable_status_def Let_def classifyConflictKind_def caught_def
       codeFor_def code_in_contract code_kind_lit code_kind_None rejection_code_kind validation_kind split: option.split)

text \<open>
  The client understands every rejection of the order intake by its code: an exception of \<^verbatim>\<open>createOrder\<close> that passed
  the exception filter is shown with the cause its code names, those without a code of the contract as an invalid request,
  and an internal error is repeated, never shown as a rejection.
\<close>

theorem rejections_are_understood:
  "(case shown_cause err of
      Some k \<Rightarrow> \<exists>oe. classifySubmissionOutcome pd r (HttpFail (order_failure err)) now = SO_CONFLICT k oe
    | None \<Rightarrow> \<exists>oe. classifySubmissionOutcome pd r (HttpFail (order_failure err)) now = SO_RETRY oe None)"
  by (rule shown_cause_outcome)

lemma duplicate_outcome:
  "\<exists>oe. classifySubmissionOutcome pd r (HttpFail (order_failure (Rejected DUPLICATE_KEY_MISMATCH m))) now
     = SO_CONFLICT CK_DUPLICATE_KEY_MISMATCH oe"
  using shown_cause_outcome [where err = "Rejected DUPLICATE_KEY_MISMATCH m"] by simp

text \<open>A replayed order was stored with the refund of its request.\<close>

lemma replay_resolves:
  assumes run: "createOrder (Some InventoryService) e d d u c = Inr (d', v)" and key: "truthy (co_idempotencyKey c) = Some k"
    and sup: "supply_ok e d" and wf: "\<forall>p \<in> set (t_products d). product_wf p"
  shows "\<exists>o'. order_by_key d' k = Some o' \<and> v = view_order d' o' \<and> same_order_request u c v"
proof -
  have ck: "co_idempotencyKey c = Some k" "k \<noteq> []" using key by (simp_all add: truthy_Some_iff)
  have "has_order d' k" using createOrder_books(2) [OF run ck] by blast
  then obtain o' where o': "order_by_key d' k = Some o'" by (auto simp: has_order_def)
  have again: "createOrder (Some InventoryService) e d' d' u c = Inr (d', v)"
    by (rule ledger.createOrder_replays [OF run key sup wf])
  from ledger.createOrder_key_taken [OF key o' _ _ again] o' show ?thesis by auto
qed

text \<open>
  C16. A captured order forgets the deposit refund of its checkout. The record has no field for it and its payload sends none;
  when the online request with a refund was booked and its answer lost, the retry under the same key is taken for another
  order: it ends in the conflict of a reused key, although the order is booked.
\<close>

theorem lost_refund_conflicts:
  assumes "createOrder (Some InventoryService) e d d u c = Inr (d', v)" and "co_depositRefundTotal c = Some n" and "n \<noteq> 0"
    and "co_idempotencyKey c = Some (of_idempotencyKey r)" and "of_idempotencyKey r \<noteq> []"
    and "co_items (buildOrderPayload r) = co_items c" and "dto_payments (buildOrderPayload r) = dto_payments c"
    and "supply_ok e d" and "\<forall>p \<in> set (t_products d). product_wf p" and "store_ok st"
  shows "\<exists>st' r'. attemptSendEntry (backend_network e' u rl now rnd pd) r (st, d') = (AR_CONFLICT, st', d') \<and>
    getOfflineOrderRecord (of_idempotencyKey r) st' = Some r' \<and> of_state r' = OQ_CONFLICT \<and>
    of_conflictKind r' = Some CK_DUPLICATE_KEY_MISMATCH \<and> has_order d' (of_idempotencyKey r)"
proof -
  let ?c = "buildOrderPayload r" and ?s = "sending_record now r"
  let ?err = "Rejected DUPLICATE_KEY_MISMATCH ''IDEMPOTENCY_KEY_CONFLICT''"
  have key: "truthy (co_idempotencyKey c) = Some (of_idempotencyKey r)" "truthy (co_idempotencyKey ?c) = Some (of_idempotencyKey r)"
    using assms(4,5) by (simp_all add: truthy_def buildOrderPayload_def)
  from replay_resolves [OF assms(1) key(1) assms(8,9)] obtain o' where
    o': "order_by_key d' (of_idempotencyKey r) = Some o'" "v = view_order d' o'" "same_order_request u c v" by blast
  then have "od_depositRefundTotal (vw_order (view_order d' o')) = n" using assms(2) by (simp add: same_order_request_def)
  then have other: "\<not> same_order_request u ?c (view_order d' o')"
    using assms(3) by (simp add: same_order_request_def buildOrderPayload_def)
  obtain m refund paid where valid: "validateItems (co_items c) False = Inr m" "validatePayments (dto_payments c) = Inr paid"
    using assms(1) by (auto simp: createOrder_def res_simps)
  have "validateDepositRefundTotal (co_depositRefundTotal ?c) = Inr 0" by (simp add: buildOrderPayload_def validateDepositRefundTotal_def)
  then have refused: "createOrder (Some InventoryService) e' d' d' u ?c = Inl ?err"
    by (simp add: createOrder_def assms(6,7) valid resolveIdempotentOrder_def key(2) o'(1) other)
  obtain oe where "classifySubmissionOutcome pd ?s (HttpFail (order_failure ?err)) now = SO_CONFLICT CK_DUPLICATE_KEY_MISMATCH oe"
    using duplicate_outcome by blast
  then have A: "answered_record pd now rnd ?s (HttpFail (order_failure ?err)) =
      (?s\<lparr>of_state := OQ_CONFLICT, of_conflictKind := Some CK_DUPLICATE_KEY_MISMATCH, of_lastError := Some oe, of_sendingSince := None,
         of_updatedAt := now\<rparr>, AR_CONFLICT)" by (simp add: answered_record_def)
  define r' where "r' = fst (answered_record pd now rnd ?s (HttpFail (order_failure ?err)))"
  have r': "of_state r' = OQ_CONFLICT" "of_conflictKind r' = Some CK_DUPLICATE_KEY_MISMATCH" "of_idempotencyKey r' = of_idempotencyKey r"
    by (simp_all add: r'_def A) (simp add: sending_record_def)
  have "attemptSendEntry (backend_network e' u rl now rnd pd) r (st, d')
      = (AR_CONFLICT, putOfflineOrderRecord r' (putOfflineOrderRecord ?s st), d')"
    by (simp add: attemptSendEntry_def backend_network_def refused order_answer_def r'_def A Let_def)
  moreover have "getOfflineOrderRecord (of_idempotencyKey r) (putOfflineOrderRecord r' (putOfflineOrderRecord ?s st)) = Some r'"
    using put_ok [OF assms(10)] by (simp add: get_put r'(3))
  ultimately show ?thesis using r' o'(1) by (simp add: has_order_def)
qed

lemma lost_refund_conflicts_witness:
  "\<exists>d' st' r'. attemptSendEntry (backend_network sample_env ''u'' CASHIER 7 0 (\<lambda>_. None)) sample_record ([], d') = (AR_CONFLICT, st', d') \<and>
     getOfflineOrderRecord (of_idempotencyKey sample_record) st' = Some r' \<and>
     of_conflictKind r' = Some CK_DUPLICATE_KEY_MISMATCH \<and> has_order d' ''key''"
proof -
  let ?c = "(buildOrderPayload sample_record)\<lparr>co_depositRefundTotal := Some 100\<rparr>"
  have "succeeds_with (\<lambda>_. True) (createOrder (Some InventoryService) run_env sample_db sample_db ''u'' ?c)" by code_simp
  then obtain d' v where run: "createOrder (Some InventoryService) run_env sample_db sample_db ''u'' ?c = Inr (d', v)"
    by (auto elim!: succeeds_withE)
  have c: "co_depositRefundTotal ?c = Some 100" "co_idempotencyKey ?c = Some (of_idempotencyKey sample_record)"
    "of_idempotencyKey sample_record \<noteq> []" "co_items (buildOrderPayload sample_record) = co_items ?c"
    "dto_payments (buildOrderPayload sample_record) = dto_payments ?c"
    by (simp_all add: sample_key buildOrderPayload_def dto_payments_def)
  from lost_refund_conflicts [OF run c(1) _ c(2-5) queue_supply_ok queue_products_wf sample_store_ok, of sample_env CASHIER 7 0 "\<lambda>_. None"]
  show ?thesis unfolding sample_key by auto
qed

text \<open>
  The client and the backend agree on the mode. When the check of a record against the context the backend just sent says
  it may be sent, the backend takes orders of that event now, in the very mode the record was captured in.
\<close>

theorem context_agrees:
  assumes "fetchCurrentEventContexts (context_answer d u) = Some evs" and "checkOfflineOrderContext r user evs = CC_OK"
    and "distinct (map ev_id (t_events d))"
  shows "\<exists>m. order_mode d (of_eventId r) = Some m \<and> of_dataMode r = OM_MODE m"
proof -
  from context_ok [OF assms(2)] obtain m v where v: "v \<in> set evs" "cx_eventId v = lit (of_eventId r)" "cx_dataMode v = m"
    "of_dataMode r = OM_MODE m" by blast
  from v(1) assms(1) obtain c where c: "c \<in> set (getSessionContext d u)" "context_entry (context_json c) = Some v"
    by (auto simp: fetchCurrentEventContexts_def context_answer_def List.map_filter_def)
  have ev: "sc_event c \<in> set (t_events d)" using c(1) by (auto simp: getSessionContext_def Let_def)
  note E = c(2) [unfolded context_entry_def]
  have f: "text_field ''id'' (Some (context_json c)) = Some (lit (ev_id (sc_event c)))"
    "wget ''status'' (context_json c) = Some (WStr (lit (event_status_text (ev_status (sc_event c)))))"
    "wget ''testMode'' (context_json c) = Some (WBool (ev_testMode (sc_event c)))"
    by (simp_all add: text_field_def context_json_def wget_def)
  from E have id: "ev_id (sc_event c) = of_eventId r"
    and mode: "deriveDataModeFromEventStatus (wget ''status'' (context_json c)) (wget ''testMode'' (context_json c)) = Some m"
    using v(2,3) by (auto simp: f split: option.splits)
  have row: "find_event d (of_eventId r) = Some (sc_event c)"
    using ev assms(3) unfolding id [symmetric] find_event_def by (simp add: find_distinct_key)
  have "order_mode d (of_eventId r) = Some m"
    using mode by (cases "ev_status (sc_event c)")
      (auto simp: f order_mode_def row deriveDataModeFromEventStatus_def wtruthy_def resolveOperationalDataMode_def split: if_splits)
  with v(4) show ?thesis by blast
qed

lemma context_agrees_witness: "\<exists>m. order_mode sample_db ''e'' = Some m \<and> of_dataMode sample_record = OM_MODE m"
proof -
  have "distinct (map ev_id (t_events sample_db))" "of_eventId sample_record = ''e''" by code_simp+
  with context_agrees [OF sample_context sample_check] show ?thesis by simp
qed

end
