(* ===== verification/VO_Products.thy ===== *)
theory VO_Products
  imports VO_Orders
begin

text \<open>
  The catalogue, \<^verbatim>\<open>apps/backend/src/products/products.service.ts\<close>: the products as the devices and the
  administration see them, with the stock of the mode the event runs in, and the operations that write products and
  categories. Then what the registers load, \<^verbatim>\<open>getQuickSaleContext\<close> and \<^verbatim>\<open>getStationSaleContext\<close> of
  \<^verbatim>\<open>orders.service.ts\<close>. An operation whose statements are not one transaction returns the state it left
  beside its result, so that an error after a write keeps the write.
\<close>

type_synonym 'a persisted = "db \<times> (api_error + 'a)"

section \<open>Products with the stock of the running mode\<close>

record sale_product =
  sp_product :: product
  sp_availability :: availability
  sp_inventoryTracked :: bool
  sp_stockQuantity :: "int option"
  sp_lowStockThreshold :: "int option"
  sp_inventoryVersion :: int

record product_facade = sale_product +
  pf_manualBlocked :: bool

definition product_stocks :: "db \<Rightarrow> product \<Rightarrow> stock list" where
  "product_stocks d p = filter (\<lambda>s. st_productId s = pd_id p \<and> st_eventId s = pd_eventId p) (t_stocks d)"

definition stock_in_mode :: "data_mode option \<Rightarrow> stock list \<Rightarrow> stock option" where
  "stock_in_mode mode stocks = find (\<lambda>s. Some (st_dataMode s) = mode) stocks"

definition tracked :: "stock option \<Rightarrow> bool" where
  "tracked s = (case s of None \<Rightarrow> False | Some r \<Rightarrow> st_trackingEnabled r)"

definition inventoryFacade :: "event option \<Rightarrow> stock list \<Rightarrow> product \<Rightarrow> api_error + product_facade" where
  "inventoryFacade ev stocks p =
     bind_res (resolveOperationalDataMode ev) (\<lambda>mode.
     let stock = stock_in_mode mode stocks in
     Inr \<lparr>sp_product = p, sp_availability = effectiveAvailability (pd_manualAvailability p) stock,
          sp_inventoryTracked = tracked stock,
          sp_stockQuantity = (if tracked stock then map_option st_stockQuantity stock else None),
          sp_lowStockThreshold = (if tracked stock then map_option st_lowStockThreshold stock else None),
          sp_inventoryVersion = (case stock of None \<Rightarrow> 0 | Some s \<Rightarrow> st_version s),
          pf_manualBlocked = (case stock of None \<Rightarrow> False | Some s \<Rightarrow> st_manualBlocked s)\<rparr>)"

definition facade_in :: "db \<Rightarrow> product \<Rightarrow> api_error + product_facade" where
  "facade_in d p = inventoryFacade (find_event d (pd_eventId p)) (product_stocks d p) p"

text \<open>\<^verbatim>\<open>OPTION_ORDER_BY\<close>: by sort order, then name, then id.\<close>

definition order_options :: "env \<Rightarrow> poption list \<Rightarrow> poption list" where
  "order_options e os = sort_key op_sortOrder (sort_key (\<lambda>x. env_collate e (op_name x)) (sort_key op_id os))"

definition order_groups :: "env \<Rightarrow> option_group list \<Rightarrow> option_group list" where
  "order_groups e gs = sort_key og_sortOrder (sort_key (\<lambda>g. env_collate e (og_name g)) (sort_key og_id gs))"

definition with_options :: "env \<Rightarrow> (poption \<Rightarrow> bool) \<Rightarrow> product \<Rightarrow> product" where
  "with_options e c p = p\<lparr>pd_optionGroups :=
     order_groups e (map (\<lambda>g. g\<lparr>og_options := order_options e (filter c (og_options g))\<rparr>) (pd_optionGroups p))\<rparr>"

definition running_status :: "event_status \<Rightarrow> bool" where
  "running_status st \<longleftrightarrow> st = EV_ACTIVE \<or> st = EV_TEST_MODE"

definition product_on_sale :: "db \<Rightarrow> product \<Rightarrow> bool" where
  "product_on_sale d p \<longleftrightarrow> pd_manualAvailability p \<noteq> DISABLED \<and>
     (case find_event d (pd_eventId p) of None \<Rightarrow> False | Some v \<Rightarrow> running_status (ev_status v)) \<and> ca_isActive (pd_category p)"

definition by_category :: "product list \<Rightarrow> product list" where
  "by_category ps = sort_key (\<lambda>p. ca_sortOrder (pd_category p)) (sort_key pd_sortOrder ps)"

definition findAllActive :: "env \<Rightarrow> db \<Rightarrow> api_error + product_facade list" where
  "findAllActive e d = map_res (facade_in d) (map (with_options e op_isActive) (by_category (filter (product_on_sale d) (t_products d))))"

definition findAllProductsAdmin :: "env \<Rightarrow> db \<Rightarrow> id \<Rightarrow> api_error + product_facade list" where
  "findAllProductsAdmin e d eventId = map_res (facade_in d)
     (map (with_options e (\<lambda>_. True)) (sort_key pd_sortOrder (filter (\<lambda>p. pd_eventId p = eventId) (t_products d))))"

definition findByStation :: "db \<Rightarrow> id \<Rightarrow> api_error + product_facade list" where
  "findByStation d stationId = map_res (facade_in d) (sort_key pd_sortOrder (filter (productAtStationFilter stationId) (t_products d)))"

definition findProductAdmin :: "env \<Rightarrow> db \<Rightarrow> id \<Rightarrow> product option" where
  "findProductAdmin e d i = map_option (with_options e (\<lambda>_. True)) (find_product d i)"

definition findAllCategoriesAdmin :: "db \<Rightarrow> id \<Rightarrow> category list" where
  "findAllCategoriesAdmin d eventId = sort_key ca_sortOrder (filter (\<lambda>c. ca_eventId c = eventId) (t_categories d))"

section \<open>Availability by hand\<close>

definition product_audit :: "string \<Rightarrow> id \<Rightarrow> id \<Rightarrow> json \<Rightarrow> audit_entry" where
  "product_audit action i userId details = \<lparr>al_action = action, al_entityId = i, al_entityType = ''Product'',
     al_userId = Some userId, al_details = details\<rparr>"

definition audit_by :: "id option \<Rightarrow> (id \<Rightarrow> audit_entry) \<Rightarrow> db \<Rightarrow> db" where
  "audit_by userId a d = (case truthy userId of None \<Rightarrow> d | Some u \<Rightarrow> add_audit (a u) d)"

definition update_product :: "id \<Rightarrow> (product \<Rightarrow> product) \<Rightarrow> db \<Rightarrow> db" where
  "update_product i f d = d\<lparr>t_products := update_where (\<lambda>p. pd_id p = i) f (t_products d)\<rparr>"

text \<open>\<open>pre\<close> is the state the product was read from, \<open>d\<close> the one it is written to.\<close>

definition updateAvailability ::
  "db \<Rightarrow> db \<Rightarrow> id \<Rightarrow> availability \<Rightarrow> id option \<Rightarrow> product persisted" where
  "updateAvailability pre d i availability userId =
     (case find_product pre i of
        None \<Rightarrow> (d, Inl (NotFound ''PRODUCT''))
      | Some product' \<Rightarrow>
     (case find_product d i of
        None \<Rightarrow> (d, Inl (NotFound ''P2025''))
      | Some row \<Rightarrow>
     let updated = row\<lparr>pd_manualAvailability := availability\<rparr>;
         d1 = update_product i (\<lambda>p. p\<lparr>pd_manualAvailability := availability\<rparr>) d
     in (case facade_in pre (product'\<lparr>pd_manualAvailability := availability\<rparr>) of
           Inl err \<Rightarrow> (d1, Inl err)
         | Inr effective \<Rightarrow>
             (audit_by userId (\<lambda>u. product_audit ''PRODUCT_AVAILABILITY_CHANGED'' i u
                (JObj [(''productName'', JStr (pd_name updated)),
                  (''previousAvailability'', JStr (availability_text (pd_manualAvailability product'))),
                  (''newAvailability'', JStr (availability_text availability))]))
               (add_broadcast (pd_eventId product') ''PRODUCT_AVAILABILITY_CHANGED''
                 (JObj [(''productId'', JStr (pd_id updated)), (''productName'', JStr (pd_name updated)),
                   (''availability'', JStr (availability_text (sp_availability effective)))]) d1),
              Inr updated))))"

section \<open>Relations of a product\<close>

definition find_category :: "db \<Rightarrow> id \<Rightarrow> category option" where
  "find_category d i = find (\<lambda>c. ca_id c = i) (t_categories d)"

definition find_station :: "db \<Rightarrow> id \<Rightarrow> station option" where
  "find_station d i = find (\<lambda>s. sn_id s = i) (t_stations d)"

definition assertStationBelongsToEvent :: "db \<Rightarrow> id \<Rightarrow> id \<Rightarrow> api_error + unit" where
  "assertStationBelongsToEvent d stationId eventId =
     ensure (case find_station d stationId of None \<Rightarrow> False | Some s \<Rightarrow> sn_eventId s = eventId) (BadRequest ''STATION_NOT_IN_EVENT'')"

definition assertProductRelations :: "db \<Rightarrow> id option \<Rightarrow> id option \<Rightarrow> id \<Rightarrow> id option \<Rightarrow> api_error + unit" where
  "assertProductRelations d categoryId targetStationId eventId fallbackCategoryId =
     bind_res (need (truthy (case categoryId of None \<Rightarrow> fallbackCategoryId | Some c \<Rightarrow> Some c))
                (BadRequest ''CATEGORY_REQUIRED'')) (\<lambda>resolved.
     bind_res (ensure (case find_category d resolved of None \<Rightarrow> False | Some c \<Rightarrow> ca_eventId c = eventId)
                (BadRequest ''CATEGORY_NOT_IN_EVENT'')) (\<lambda>_.
     case truthy targetStationId of None \<Rightarrow> Inr () | Some s \<Rightarrow> assertStationBelongsToEvent d s eventId))"

text \<open>The composite foreign keys of a product: its category and its own station are of its event.\<close>

definition category_key :: "db \<Rightarrow> id \<Rightarrow> id \<Rightarrow> api_error + category" where
  "category_key d categoryId eventId =
     need (find (\<lambda>c. ca_id c = categoryId \<and> ca_eventId c = eventId) (t_categories d)) (TypeError ''P2003'')"

definition station_key_ok :: "db \<Rightarrow> id option \<Rightarrow> id \<Rightarrow> api_error + unit" where
  "station_key_ok d stationId eventId =
     ensure (case stationId of None \<Rightarrow> True | Some s \<Rightarrow> list_ex (\<lambda>x. sn_id x = s \<and> sn_eventId x = eventId) (t_stations d))
       (TypeError ''P2003'')"

definition event_key :: "db \<Rightarrow> id \<Rightarrow> api_error + unit" where
  "event_key d eventId = ensure (find_event d eventId \<noteq> None) (TypeError ''P2003'')"

section \<open>Creating and editing a product\<close>

record create_product =
  cp_name :: string
  cp_shortName :: "string option"
  cp_description :: "string option"
  cp_price :: int
  cp_deposit :: "int option"
  cp_taxRate :: "int option"
  cp_color :: "string option"
  cp_sortOrder :: "int option"
  cp_imageUrl :: "string option"
  cp_manualAvailability :: "availability option"
  cp_categoryId :: id
  cp_targetStationId :: "id option"
  cp_eventId :: id
  cp_optionGroups :: "group_input list option"

definition column :: "'a option \<Rightarrow> 'a \<Rightarrow> 'a" where
  "column v d = (case v of None \<Rightarrow> d | Some x \<Rightarrow> x)"

definition product_row :: "id \<Rightarrow> create_product \<Rightarrow> category \<Rightarrow> product" where
  "product_row i c cat = \<lparr>pd_id = i, pd_eventId = cp_eventId c, pd_name = cp_name c, pd_price = cp_price c,
     pd_deposit = Some (column (cp_deposit c) 0), pd_targetStationId = cp_targetStationId c,
     pd_manualAvailability = column (cp_manualAvailability c) AVAILABLE, pd_category = cat, pd_optionGroups = [],
     pd_shortName = cp_shortName c, pd_description = cp_description c, pd_taxRate = column (cp_taxRate c) 2000,
     pd_color = cp_color c, pd_sortOrder = column (cp_sortOrder c) 0, pd_imageUrl = cp_imageUrl c\<rparr>"

text \<open>\<open>save_groups\<close> runs \<^verbatim>\<open>saveOptionGroups\<close> on the rows of one product.\<close>

definition save_groups :: "env \<Rightarrow> id \<Rightarrow> group_input list option \<Rightarrow> db \<Rightarrow> api_error + db" where
  "save_groups e i groups d = (case groups of
     None \<Rightarrow> Inr d
   | Some gs \<Rightarrow>
       bind_res (saveOptionGroups e (case find_product d i of None \<Rightarrow> [] | Some p \<Rightarrow> pd_optionGroups p, serial d) gs) (\<lambda>(rows, n).
       Inr ((update_product i (\<lambda>p. p\<lparr>pd_optionGroups := rows\<rparr>) d)\<lparr>serial := n\<rparr>)))"

definition createProduct_tx :: "env \<Rightarrow> create_product \<Rightarrow> id option \<Rightarrow> db \<Rightarrow> api_error + db \<times> product" where
  "createProduct_tx e c userId d =
     bind_res (category_key d (cp_categoryId c) (cp_eventId c)) (\<lambda>cat.
     bind_res (station_key_ok d (cp_targetStationId c) (cp_eventId c)) (\<lambda>_.
     bind_res (event_key d (cp_eventId c)) (\<lambda>_.
     let created = product_row (fresh_id e d) c cat;
         d1 = d\<lparr>t_products := t_products d @ [created], serial := Suc (serial d)\<rparr>
     in bind_res (save_groups e (pd_id created) (cp_optionGroups c) d1) (\<lambda>d2.
     Inr (audit_by userId (\<lambda>u. product_audit ''PRODUCT_CREATED'' (pd_id created) u
            (JObj [(''name'', JStr (pd_name created)), (''price'', JNum (pd_price created)),
              (''eventId'', JStr (pd_eventId created))])) d2, created)))))"

definition detailed_facade :: "env \<Rightarrow> db \<Rightarrow> product \<Rightarrow> api_error + product_facade" where
  "detailed_facade e d p = (case findProductAdmin e d (pd_id p) of
     Some detailed \<Rightarrow> facade_in d detailed | None \<Rightarrow> inventoryFacade None [] p)"

definition createProduct :: "env \<Rightarrow> db \<Rightarrow> db \<Rightarrow> create_product \<Rightarrow> id option \<Rightarrow> product_facade persisted" where
  "createProduct e pre d c userId =
     (if cp_categoryId c = [] then (d, Inl (BadRequest ''CATEGORY_REQUIRED''))
      else case assertProductRelations pre (Some (cp_categoryId c)) (cp_targetStationId c) (cp_eventId c) None of
        Inl err \<Rightarrow> (d, Inl err)
      | Inr _ \<Rightarrow> (case createProduct_tx e c userId d of
          Inl err \<Rightarrow> (d, Inl err)
        | Inr (d', created) \<Rightarrow> (d', detailed_facade e d' created)))"

text \<open>A field of the update is absent or a value; nullable columns and the category may also be null.\<close>

record update_product_input =
  up_name :: "string option"
  up_shortName :: "string option option"
  up_description :: "string option option"
  up_price :: "int option"
  up_deposit :: "int option"
  up_taxRate :: "int option"
  up_color :: "string option option"
  up_sortOrder :: "int option"
  up_imageUrl :: "string option option"
  up_manualAvailability :: "availability option"
  up_categoryId :: "id option option"
  up_targetStationId :: "id option option"
  up_optionGroups :: "group_input list option"

definition edited_product :: "update_product_input \<Rightarrow> category \<Rightarrow> product \<Rightarrow> product" where
  "edited_product u cat p = p\<lparr>pd_name := column (up_name u) (pd_name p), pd_shortName := column (up_shortName u) (pd_shortName p),
     pd_description := column (up_description u) (pd_description p), pd_price := column (up_price u) (pd_price p),
     pd_deposit := (case up_deposit u of None \<Rightarrow> pd_deposit p | Some x \<Rightarrow> Some x),
     pd_taxRate := column (up_taxRate u) (pd_taxRate p), pd_color := column (up_color u) (pd_color p),
     pd_sortOrder := column (up_sortOrder u) (pd_sortOrder p), pd_imageUrl := column (up_imageUrl u) (pd_imageUrl p),
     pd_manualAvailability := column (up_manualAvailability u) (pd_manualAvailability p), pd_category := cat,
     pd_targetStationId := column (up_targetStationId u) (pd_targetStationId p)\<rparr>"

definition field_name :: "string \<Rightarrow> 'a option \<Rightarrow> string list" where
  "field_name k v = (case v of None \<Rightarrow> [] | Some _ \<Rightarrow> [k])"

definition changed_fields :: "update_product_input \<Rightarrow> string list" where
  "changed_fields u = field_name ''name'' (up_name u) @ field_name ''shortName'' (up_shortName u)
     @ field_name ''description'' (up_description u) @ field_name ''price'' (up_price u) @ field_name ''deposit'' (up_deposit u)
     @ field_name ''taxRate'' (up_taxRate u) @ field_name ''color'' (up_color u) @ field_name ''sortOrder'' (up_sortOrder u)
     @ field_name ''imageUrl'' (up_imageUrl u) @ field_name ''manualAvailability'' (up_manualAvailability u)
     @ field_name ''categoryId'' (up_categoryId u) @ field_name ''targetStationId'' (up_targetStationId u)"

definition updateProduct_tx ::
  "env \<Rightarrow> product \<Rightarrow> update_product_input \<Rightarrow> id option \<Rightarrow> db \<Rightarrow> api_error + db \<times> product" where
  "updateProduct_tx e existing u userId d =
     bind_res (need (find_product d (pd_id existing)) (NotFound ''P2025'')) (\<lambda>row.
     bind_res (case up_categoryId u of Some (Some c) \<Rightarrow> category_key d c (pd_eventId row) | _ \<Rightarrow> Inr (pd_category row)) (\<lambda>cat.
     bind_res (station_key_ok d (pd_targetStationId (edited_product u cat row)) (pd_eventId row)) (\<lambda>_.
     let result = edited_product u cat row;
         d1 = update_product (pd_id existing) (edited_product u cat) d
     in bind_res (save_groups e (pd_id existing) (up_optionGroups u) d1) (\<lambda>d2.
     let priceChanged = (case up_price u of None \<Rightarrow> False | Some x \<Rightarrow> x \<noteq> pd_price existing)
     in Inr (audit_by userId (\<lambda>a. product_audit (if priceChanged then ''PRICE_CHANGED'' else ''PRODUCT_UPDATED'') (pd_id existing) a
            (JObj [(''name'', JStr (pd_name result)), (''previousPrice'', JNum (pd_price existing)),
              (''newPrice'', JNum (pd_price result)), (''changedFields'', JArr (map JStr (changed_fields u)))])) d2, result)))))"

definition updateProduct ::
  "env \<Rightarrow> db \<Rightarrow> db \<Rightarrow> id \<Rightarrow> update_product_input \<Rightarrow> id option \<Rightarrow> product_facade persisted" where
  "updateProduct e pre d i u userId =
     (case find_product pre i of
        None \<Rightarrow> (d, Inl (NotFound ''PRODUCT''))
      | Some existing \<Rightarrow>
          if up_categoryId u = Some None \<or> up_categoryId u = Some (Some []) then (d, Inl (BadRequest ''CATEGORY_REQUIRED''))
          else case assertProductRelations pre (column (up_categoryId u) None) (column (up_targetStationId u) None)
                      (pd_eventId existing) (Some (ca_id (pd_category existing))) of
            Inl err \<Rightarrow> (d, Inl err)
          | Inr _ \<Rightarrow> (case updateProduct_tx e existing u userId d of
              Inl err \<Rightarrow> (d, Inl err)
            | Inr (d', updated) \<Rightarrow> (d', detailed_facade e d' updated)))"

section \<open>Categories\<close>

record create_category =
  cc_name :: string
  cc_sortOrder :: "int option"
  cc_deposit :: "int option"
  cc_eventId :: id
  cc_targetStationId :: "id option"
  cc_isActive :: "bool option"

record update_category_input =
  uc_name :: "string option"
  uc_sortOrder :: "int option"
  uc_deposit :: "int option"
  uc_targetStationId :: "id option option"
  uc_isActive :: "bool option"

definition category_row :: "id \<Rightarrow> create_category \<Rightarrow> category" where
  "category_row i c = \<lparr>ca_id = i, ca_targetStationId = cc_targetStationId c, ca_deposit = Some (column (cc_deposit c) 0),
     ca_isActive = column (cc_isActive c) True, ca_name = cc_name c, ca_sortOrder = column (cc_sortOrder c) 0,
     ca_eventId = cc_eventId c\<rparr>"

definition createCategory :: "env \<Rightarrow> db \<Rightarrow> db \<Rightarrow> create_category \<Rightarrow> api_error + db \<times> category" where
  "createCategory e pre d c =
     bind_res (ensure (cc_eventId c \<noteq> []) (BadRequest ''CATEGORY_EVENT_REQUIRED'')) (\<lambda>_.
     bind_res (ensure (find_event pre (cc_eventId c) \<noteq> None) (BadRequest ''EVENT_UNKNOWN'')) (\<lambda>_.
     bind_res (case truthy (cc_targetStationId c) of None \<Rightarrow> Inr () | Some s \<Rightarrow> assertStationBelongsToEvent pre s (cc_eventId c)) (\<lambda>_.
     bind_res (event_key d (cc_eventId c)) (\<lambda>_.
     bind_res (station_key_ok d (cc_targetStationId c) (cc_eventId c)) (\<lambda>_.
     let row = category_row (fresh_id e d) c
     in Inr (d\<lparr>t_categories := t_categories d @ [row], serial := Suc (serial d)\<rparr>, row))))))"

definition edited_category :: "update_category_input \<Rightarrow> category \<Rightarrow> category" where
  "edited_category u c = c\<lparr>ca_name := column (uc_name u) (ca_name c), ca_sortOrder := column (uc_sortOrder u) (ca_sortOrder c),
     ca_deposit := (case uc_deposit u of None \<Rightarrow> ca_deposit c | Some x \<Rightarrow> Some x),
     ca_targetStationId := column (uc_targetStationId u) (ca_targetStationId c),
     ca_isActive := column (uc_isActive u) (ca_isActive c)\<rparr>"

text \<open>Writing a category row writes the copies its products carry.\<close>

definition write_category :: "id \<Rightarrow> (category \<Rightarrow> category) \<Rightarrow> db \<Rightarrow> db" where
  "write_category i f d = d\<lparr>t_categories := update_where (\<lambda>c. ca_id c = i) f (t_categories d),
     t_products := update_where (\<lambda>p. ca_id (pd_category p) = i) (\<lambda>p. p\<lparr>pd_category := f (pd_category p)\<rparr>) (t_products d)\<rparr>"

definition updateCategory :: "db \<Rightarrow> db \<Rightarrow> id \<Rightarrow> update_category_input \<Rightarrow> api_error + db \<times> category" where
  "updateCategory pre d i u =
     bind_res (need (find_category pre i) (NotFound ''CATEGORY'')) (\<lambda>existing.
     bind_res (case truthy (column (uc_targetStationId u) None) of None \<Rightarrow> Inr ()
               | Some s \<Rightarrow> assertStationBelongsToEvent pre s (ca_eventId existing)) (\<lambda>_.
     bind_res (need (find_category d i) (NotFound ''P2025'')) (\<lambda>row.
     bind_res (station_key_ok d (ca_targetStationId (edited_category u row)) (ca_eventId row)) (\<lambda>_.
     Inr (write_category i (edited_category u) d, edited_category u row)))))"

section \<open>What the registers load\<close>

record sale_context =
  sx_event :: event
  sx_activeSession :: "session option"
  sx_printingReady :: bool
  sx_products :: "sale_product list"

definition quick_sale_product :: "data_mode option \<Rightarrow> stock list \<Rightarrow> product \<Rightarrow> sale_product" where
  "quick_sale_product mode stocks p = (let stock = stock_in_mode mode stocks in
     \<lparr>sp_product = p, sp_availability = effectiveAvailability (pd_manualAvailability p) stock,
      sp_inventoryTracked = tracked stock,
      sp_stockQuantity = (if tracked stock then map_option st_stockQuantity stock else None),
      sp_lowStockThreshold = (if tracked stock then map_option st_lowStockThreshold stock else None),
      sp_inventoryVersion = (case stock of None \<Rightarrow> 0 | Some s \<Rightarrow> st_version s)\<rparr>)"

definition sessionsByEvent :: "db \<Rightarrow> id \<Rightarrow> (id \<times> session) list" where
  "sessionsByEvent d userId = foldl (\<lambda>m s. js_set (cs_eventId s) s m) []
     (filter (\<lambda>s. cs_userId s = userId \<and> cs_status s = SE_ACTIVE) (t_sessions d))"

definition event_products :: "env \<Rightarrow> db \<Rightarrow> event \<Rightarrow> product list" where
  "event_products e d v = map (with_options e op_isActive) (by_category (filter (\<lambda>p. pd_eventId p = ev_id v \<and>
     pd_manualAvailability p \<noteq> DISABLED \<and> ca_isActive (pd_category p)) (t_products d)))"

definition sale_context_of :: "env \<Rightarrow> db \<Rightarrow> id \<Rightarrow> event \<Rightarrow> api_error + sale_context" where
  "sale_context_of e d userId v =
     bind_res (resolveOperationalDataMode (Some v)) (\<lambda>mode.
     Inr \<lparr>sx_event = v, sx_activeSession = js_get (sessionsByEvent d userId) (ev_id v),
          sx_printingReady = list_ex pr_isActive (t_printers d),
          sx_products = map (\<lambda>p. quick_sale_product mode (product_stocks d p) p) (event_products e d v)\<rparr>)"

definition getQuickSaleContext :: "env \<Rightarrow> db \<Rightarrow> id \<Rightarrow> api_error + sale_context list" where
  "getQuickSaleContext e d userId = map_res (sale_context_of e d userId)
     (rev (sort_key ev_createdAt (rev (filter (\<lambda>v. running_status (ev_status v)) (t_events d)))))"

definition stationsByEvent :: "env \<Rightarrow> db \<Rightarrow> id list \<Rightarrow> (id \<times> station list) list" where
  "stationsByEvent e d eventIds = foldl (\<lambda>m s. js_set (sn_eventId s)
       ((case js_get m (sn_eventId s) of None \<Rightarrow> [] | Some l \<Rightarrow> l) @ [s]) m) []
     (sort_key sn_sortOrder (sort_key (\<lambda>s. env_collate e (sn_name s)) (sort_key sn_id
       (filter (\<lambda>s. sn_isActive s \<and> sn_eventId s \<in> set eventIds) (t_stations d)))))"

definition getStationSaleContext :: "env \<Rightarrow> db \<Rightarrow> id \<Rightarrow> api_error + (sale_context \<times> station list) list" where
  "getStationSaleContext e d userId =
     bind_res (getQuickSaleContext e d userId) (\<lambda>events.
     let eventIds = map (\<lambda>x. ev_id (sx_event x)) events;
         byEvent = (if eventIds = [] then [] else stationsByEvent e d eventIds)
     in Inr (map (\<lambda>x. (x, case js_get byEvent (ev_id (sx_event x)) of None \<Rightarrow> [] | Some l \<Rightarrow> l)) events))"

end
