(* ===== verification/VO_Cart.thy ===== *)
theory VO_Cart
  imports Complex_Main VO_Products VO_Payments
begin

text \<open>
  Selling in the browser: the deposit of a product (\<^verbatim>\<open>lib/productDeposit.ts\<close>), the dialog that asks for the
  options of a product (\<^verbatim>\<open>components/ProductOptionsModal.tsx\<close>), the cart (\<^verbatim>\<open>store/useCartStore.ts\<close>), what the
  order page does with it (\<^verbatim>\<open>pages/Dashboard.tsx\<close>, \<^verbatim>\<open>components/CheckoutModal.tsx\<close>), the tiles of the one-touch
  registers (\<^verbatim>\<open>lib/quickSaleTiles.ts\<close>) and the dialog for split payments (\<^verbatim>\<open>components/OrderSplitModal.tsx\<close>). All
  under \<^verbatim>\<open>apps/frontend/src\<close>. A product in the browser is the row the backend delivered.
\<close>

section \<open>Deposit\<close>

definition resolveProductDeposit :: "product \<Rightarrow> int" where
  "resolveProductDeposit p =
     (if (case pd_deposit p of None \<Rightarrow> False | Some x \<Rightarrow> 0 < x) then the (pd_deposit p)
      else if (case ca_deposit (pd_category p) of None \<Rightarrow> False | Some y \<Rightarrow> 0 < y) then the (ca_deposit (pd_category p))
      else 0)"

section \<open>The dialog for the options of a product\<close>

record cart_option =
  so_id :: id
  so_name :: string
  so_priceEffect :: int
  so_groupId :: id
  so_groupName :: string
  so_priceMode :: price_mode

type_synonym selections = "(id \<times> id list) list"

definition selected_ids :: "selections \<Rightarrow> id \<Rightarrow> id list" where
  "selected_ids sel g = (case js_get sel g of None \<Rightarrow> [] | Some ids \<Rightarrow> ids)"

text \<open>Adding starts empty, editing with the options the line has.\<close>

definition prefilled :: "cart_option list \<Rightarrow> selections" where
  "prefilled opts = foldl (\<lambda>m o'. js_set (so_groupId o') (selected_ids m (so_groupId o') @ [so_id o']) m) [] opts"

definition initial_selections :: "bool \<Rightarrow> cart_option list option \<Rightarrow> selections" where
  "initial_selections edit initial = (if edit then prefilled (case initial of None \<Rightarrow> [] | Some os \<Rightarrow> os) else [])"

definition toggleOption :: "option_group \<Rightarrow> poption \<Rightarrow> selections \<Rightarrow> selections" where
  "toggleOption g x prev =
     (let current = selected_ids prev (og_id g); isSelected = op_id x \<in> set current in
      if og_selectionType g = MULTIPLE then
        if isSelected then js_set (og_id g) (filter (\<lambda>i. i \<noteq> op_id x) current) prev
        else if (case og_maxSelect g of None \<Rightarrow> False | Some m \<Rightarrow> m \<le> int (length current)) then prev
        else js_set (og_id g) (current @ [op_id x]) prev
      else js_set (og_id g) (if isSelected then [] else [op_id x]) prev)"

definition missingRequiredGroups :: "product \<Rightarrow> selections \<Rightarrow> option_group list" where
  "missingRequiredGroups p sel = filter (\<lambda>g. int (length (selected_ids sel (og_id g))) < og_minSelect g) (pd_optionGroups p)"

definition cart_option_of :: "option_group \<Rightarrow> poption \<Rightarrow> cart_option" where
  "cart_option_of g x = \<lparr>so_id = op_id x, so_name = op_name x, so_priceEffect = op_priceEffect x,
     so_groupId = og_id g, so_groupName = og_name g, so_priceMode = og_priceMode g\<rparr>"

definition selected_in :: "selections \<Rightarrow> option_group \<Rightarrow> cart_option list" where
  "selected_in sel g = List.map_filter (\<lambda>i. map_option (cart_option_of g) (find (\<lambda>x. op_id x = i) (og_options g)))
     (selected_ids sel (og_id g))"

definition selectedOptions :: "product \<Rightarrow> selections \<Rightarrow> cart_option list" where
  "selectedOptions p sel = concat (map (selected_in sel) (pd_optionGroups p))"

definition modal_base_price :: "product \<Rightarrow> selections \<Rightarrow> int" where
  "modal_base_price p sel = (case find (\<lambda>g. og_priceMode g = ABSOLUTE) (pd_optionGroups p) of
     None \<Rightarrow> pd_price p
   | Some g \<Rightarrow> (case selected_ids sel (og_id g) of
       [] \<Rightarrow> pd_price p
     | i # _ \<Rightarrow> (case find (\<lambda>x. op_id x = i) (og_options g) of None \<Rightarrow> pd_price p | Some x \<Rightarrow> op_priceEffect x)))"

definition modal_surcharge :: "product \<Rightarrow> selections \<Rightarrow> int" where
  "modal_surcharge p sel = sum_list (map so_priceEffect (concat (map (selected_in sel)
     (filter (\<lambda>g. og_priceMode g = SURCHARGE) (pd_optionGroups p)))))"

definition modal_total :: "product \<Rightarrow> selections \<Rightarrow> int" where
  "modal_total p sel = modal_base_price p sel + modal_surcharge p sel"

text \<open>The main button: nothing while a group is unanswered, else the options for the line.\<close>

definition handleMainButtonClick :: "product \<Rightarrow> selections \<Rightarrow> cart_option list option" where
  "handleMainButtonClick p sel = (if missingRequiredGroups p sel \<noteq> [] then None else Some (selectedOptions p sel))"

section \<open>The cart\<close>

record cart_item =
  ci_id :: string
  ci_product :: product_facade
  ci_selectedOptions :: "cart_option list"
  ci_quantity :: int
  ci_finalPrice :: int

record cart =
  ct_items :: "cart_item list"
  ct_total :: int
  ct_depositRefundCount :: int
  ct_depositRefundUnitPrice :: int

definition line_price :: "product \<Rightarrow> cart_option list \<Rightarrow> int" where
  "line_price p options =
     (case find (\<lambda>o'. so_priceMode o' = ABSOLUTE) options of Some o' \<Rightarrow> so_priceEffect o' | None \<Rightarrow> pd_price p)
     + sum_list (map so_priceEffect (filter (\<lambda>o'. so_priceMode o' \<noteq> ABSOLUTE) options))
     + resolveProductDeposit p"

definition buildCartLine :: "product \<Rightarrow> cart_option list option \<Rightarrow> string \<times> int \<times> cart_option list" where
  "buildCartLine p selected = (let options = (case selected of None \<Rightarrow> [] | Some os \<Rightarrow> os) in
     (join ''|'' (pd_id p # sort (map so_id options)), line_price p options, options))"

definition items_total :: "cart_item list \<Rightarrow> int" where
  "items_total items = sum_list (map (\<lambda>i. ci_finalPrice i * ci_quantity i) items)"

definition recalcTotal :: "cart_item list \<Rightarrow> int \<Rightarrow> int \<Rightarrow> int" where
  "recalcTotal items refundCount unitPrice = max 0 (items_total items - max 0 (refundCount * unitPrice))"

text \<open>\<open>None\<close> is a number that is not finite.\<close>

definition sanitizeNonNegativeInt32 :: "rat option \<Rightarrow> int" where
  "sanitizeNonNegativeInt32 v = (case v of None \<Rightarrow> 0 | Some r \<Rightarrow> min int32_max (max 0 \<lfloor>r\<rfloor>))"

definition empty_cart :: cart where
  "empty_cart = \<lparr>ct_items = [], ct_total = 0, ct_depositRefundCount = 0, ct_depositRefundUnitPrice = 100\<rparr>"

definition with_items :: "cart_item list \<Rightarrow> cart \<Rightarrow> cart" where
  "with_items items c = c\<lparr>ct_items := items,
     ct_total := recalcTotal items (ct_depositRefundCount c) (ct_depositRefundUnitPrice c)\<rparr>"

definition setDepositRefundCount :: "rat option \<Rightarrow> cart \<Rightarrow> cart" where
  "setDepositRefundCount requested c = (let n = sanitizeNonNegativeInt32 requested in
     c\<lparr>ct_depositRefundCount := n, ct_total := recalcTotal (ct_items c) n (ct_depositRefundUnitPrice c)\<rparr>)"

definition setDepositRefundUnitPrice :: "rat option \<Rightarrow> cart \<Rightarrow> cart" where
  "setDepositRefundUnitPrice unitPrice c = (let n = sanitizeNonNegativeInt32 unitPrice in
     c\<lparr>ct_depositRefundUnitPrice := n, ct_total := recalcTotal (ct_items c) (ct_depositRefundCount c) n\<rparr>)"

definition find_item :: "string \<Rightarrow> cart_item list \<Rightarrow> cart_item option" where
  "find_item i items = find (\<lambda>x. ci_id x = i) items"

definition add_quantity :: "int \<Rightarrow> cart_item \<Rightarrow> cart_item" where
  "add_quantity n i = i\<lparr>ci_quantity := ci_quantity i + n\<rparr>"

definition addItem :: "product_facade \<Rightarrow> cart_option list option \<Rightarrow> cart \<Rightarrow> cart" where
  "addItem p selected c = (case buildCartLine (sp_product p) selected of (i, price, options) \<Rightarrow>
     with_items (case find_item i (ct_items c) of
         Some _ \<Rightarrow> update_where (\<lambda>x. ci_id x = i) (add_quantity 1) (ct_items c)
       | None \<Rightarrow> ct_items c @ [\<lparr>ci_id = i, ci_product = p, ci_selectedOptions = options, ci_quantity = 1, ci_finalPrice = price\<rparr>]) c)"

definition updateItemOptions :: "string \<Rightarrow> cart_option list \<Rightarrow> cart \<Rightarrow> cart" where
  "updateItemOptions i selected c = (case find_item i (ct_items c) of
     None \<Rightarrow> c
   | Some current \<Rightarrow> (case buildCartLine (sp_product (ci_product current)) (Some selected) of (i', price, options) \<Rightarrow>
       if i' = i then
         with_items (update_where (\<lambda>x. ci_id x = i) (\<lambda>x. x\<lparr>ci_selectedOptions := options, ci_finalPrice := price\<rparr>) (ct_items c)) c
       else with_items (case find_item i' (ct_items c) of
           Some _ \<Rightarrow> update_where (\<lambda>x. ci_id x = i') (add_quantity (ci_quantity current)) (filter (\<lambda>x. ci_id x \<noteq> i) (ct_items c))
         | None \<Rightarrow> update_where (\<lambda>x. ci_id x = i)
             (\<lambda>x. x\<lparr>ci_id := i', ci_selectedOptions := options, ci_finalPrice := price\<rparr>) (ct_items c)) c))"

definition removeItem :: "string \<Rightarrow> cart \<Rightarrow> cart" where
  "removeItem i c = with_items (if (case find_item i (ct_items c) of None \<Rightarrow> False | Some x \<Rightarrow> 1 < ci_quantity x)
       then update_where (\<lambda>x. ci_id x = i) (add_quantity (- 1)) (ct_items c)
       else filter (\<lambda>x. ci_id x \<noteq> i) (ct_items c)) c"

definition deleteItem :: "string \<Rightarrow> cart \<Rightarrow> cart" where
  "deleteItem i c = with_items (filter (\<lambda>x. ci_id x \<noteq> i) (ct_items c)) c"

definition clearCart :: "cart \<Rightarrow> cart" where
  "clearCart c = c\<lparr>ct_items := [], ct_total := 0, ct_depositRefundCount := 0\<rparr>"

section \<open>The order page\<close>

text \<open>A click on a product: nothing when it is sold out, the dialog when it has options, else a line.\<close>

datatype product_click = Ignored | AskOptions | Added cart

definition handleProductClick :: "product_facade \<Rightarrow> cart \<Rightarrow> product_click" where
  "handleProductClick p c =
     (if sp_availability p = OUT_OF_STOCK \<or> sp_availability p = DISABLED then Ignored
      else if pd_optionGroups (sp_product p) \<noteq> [] then AskOptions
      else Added (addItem p None c))"

definition find_listed :: "product_facade list \<Rightarrow> id \<Rightarrow> product_facade option" where
  "find_listed products i = find (\<lambda>p. pd_id (sp_product p) = i) products"

definition handleOptionsSubmit :: "cart_item option \<Rightarrow> product_facade \<Rightarrow> cart_option list \<Rightarrow> cart \<Rightarrow> cart" where
  "handleOptionsSubmit editing p options c = (case editing of
     Some i \<Rightarrow> updateItemOptions (ci_id i) options c
   | None \<Rightarrow> addItem p (Some options) c)"

text \<open>The deposits the products on sale have, in ascending order; the refund follows them and the goods.\<close>

definition depositRefundValues :: "product_facade list \<Rightarrow> int list" where
  "depositRefundValues products = sort (remdups (filter (\<lambda>x. 0 < x) (map (\<lambda>p. resolveProductDeposit (sp_product p)) products)))"

definition fit_unit_price :: "product_facade list \<Rightarrow> cart \<Rightarrow> cart" where
  "fit_unit_price products c = (let values = depositRefundValues products in
     if ct_depositRefundUnitPrice c \<in> set values then c
     else setDepositRefundCount (Some 0)
       (setDepositRefundUnitPrice (Some (of_int (case values of [] \<Rightarrow> 0 | v # _ \<Rightarrow> v))) c))"

definition fit_refund_count :: "cart \<Rightarrow> cart" where
  "fit_refund_count c =
     (if ct_depositRefundUnitPrice c \<le> 0 then c
      else let maximum = items_total (ct_items c) div ct_depositRefundUnitPrice c in
        if maximum < ct_depositRefundCount c then setDepositRefundCount (Some (of_int maximum)) c else c)"

definition outOfStockItems :: "product_facade list \<Rightarrow> cart_item list \<Rightarrow> cart_item list" where
  "outOfStockItems products items = filter (\<lambda>i.
     (case find_listed products (pd_id (sp_product (ci_product i))) of
        Some p \<Rightarrow> sp_availability p | None \<Rightarrow> sp_availability (ci_product i)) = OUT_OF_STOCK) items"

definition order_item_of :: "cart_item \<Rightarrow> item_input" where
  "order_item_of i = \<lparr>ii_productId = pd_id (sp_product (ci_product i)), ii_quantity = ci_quantity i,
     ii_optionIds = (if ci_selectedOptions i \<noteq> [] then Some (map so_id (ci_selectedOptions i)) else None)\<rparr>"

text \<open>The request of \<^verbatim>\<open>handleCheckoutSubmit\<close>; \<open>key\<close> is the fresh uuid, \<open>tableName\<close> and \<open>areaId\<close> the page's fields.\<close>

definition checkout_table :: "string option \<Rightarrow> string \<Rightarrow> id option \<Rightarrow> string \<times> id option" where
  "checkout_table checkoutTable tableName areaId =
     (let normalized = truthy (map_option js_trim checkoutTable) in
      ((case normalized of Some t \<Rightarrow> t | None \<Rightarrow> if tableName \<noteq> [] then tableName else ''Unbekannt''),
       (case normalized of Some t \<Rightarrow> if t \<noteq> js_trim tableName then None else areaId | None \<Rightarrow> areaId)))"

definition checkout_order ::
  "string \<Rightarrow> payment_input list option \<Rightarrow> string option \<Rightarrow> string \<Rightarrow> id option \<Rightarrow> cart \<Rightarrow> create_order option" where
  "checkout_order key payments checkoutTable tableName areaId c = (case ct_items c of
     [] \<Rightarrow> None
   | i # _ \<Rightarrow>
       let (nameToUse, areaToUse) = checkout_table checkoutTable tableName areaId;
           refund = ct_depositRefundCount c * ct_depositRefundUnitPrice c
       in Some \<lparr>co_eventId = pd_eventId (sp_product (ci_product i)), co_items = map order_item_of (ct_items c),
         co_payments = payments, co_idempotencyKey = Some key, co_tableName = Some nameToUse, co_areaId = areaToUse,
         co_cashierSessionId = None, co_depositRefundTotal = (if 0 < refund then Some refund else None)\<rparr>)"

definition handleCheckoutSubmit ::
  "product_facade list \<Rightarrow> string \<Rightarrow> payment_input list option \<Rightarrow> string option \<Rightarrow> string \<Rightarrow> id option \<Rightarrow> cart \<Rightarrow> create_order option" where
  "handleCheckoutSubmit products key payments checkoutTable tableName areaId c =
     (if outOfStockItems products (ct_items c) \<noteq> [] then None
      else checkout_order key payments checkoutTable tableName areaId c)"

text \<open>The payments the checkout dialog confirms with.\<close>

definition handleFullPayment :: "int \<Rightarrow> payment_method \<Rightarrow> payment_input list" where
  "handleFullPayment amount m = [\<lparr>pi_amount = amount, pi_method = m\<rparr>]"

definition handlePayLater :: "payment_input list" where
  "handlePayLater = []"

definition handleSplitSubmit :: "int \<Rightarrow> int \<Rightarrow> payment_input list option" where
  "handleSplitSubmit amount cashAmount =
     (if cashAmount \<le> 0 \<or> amount \<le> cashAmount then None
      else Some [\<lparr>pi_amount = cashAmount, pi_method = CASH\<rparr>, \<lparr>pi_amount = amount - cashAmount, pi_method = CARD\<rparr>])"

section \<open>The tiles of the one-touch registers\<close>

record quick_sale_tile =
  qt_key :: string
  qt_productId :: id
  qt_optionIds :: "id list"
  qt_label :: string
  qt_detail :: "string option"
  qt_hint :: "string option"
  qt_price :: int
  qt_deposit :: "int option"
  qt_color :: "string option"
  qt_availability :: availability
  qt_category :: string

definition active_options :: "option_group \<Rightarrow> poption list" where
  "active_options g = filter op_isActive (og_options g)"

definition isGroupSurchargeFree :: "option_group \<Rightarrow> bool" where
  "isGroupSurchargeFree g \<longleftrightarrow> list_all (\<lambda>x. op_priceEffect x = 0) (active_options g)"

definition product_tiles :: "sale_product \<Rightarrow> quick_sale_tile list" where
  "product_tiles sp =
     (let p = sp_product sp;
          category = (if ca_name (pd_category p) = [] then ''Ohne Kategorie'' else ca_name (pd_category p));
          groups = pd_optionGroups p;
          deposit = resolveProductDeposit p;
          tileGroup = find og_quickSaleTiles groups;
          others = filter (\<lambda>g. (case tileGroup of None \<Rightarrow> True | Some t \<Rightarrow> og_id g \<noteq> og_id t) \<and> og_isRequired g) groups
      in if list_ex (\<lambda>g. \<not> isGroupSurchargeFree g) others then []
         else
           let defaults = List.map_filter (\<lambda>g. case active_options g of [] \<Rightarrow> None | x # _ \<Rightarrow> Some x) others;
               defaultIds = map op_id defaults;
               hint = (if defaults \<noteq> [] then Some (''Standard: '' @ join '', '' (map op_name defaults)) else None);
               label = (case truthy (pd_shortName p) of Some s \<Rightarrow> s | None \<Rightarrow> pd_name p)
           in (case tileGroup of
               Some t \<Rightarrow> map (\<lambda>x. \<lparr>qt_key = pd_id p @ ''|'' @ op_id x, qt_productId = pd_id p, qt_optionIds = op_id x # defaultIds,
                   qt_label = label, qt_detail = Some (op_name x), qt_hint = hint,
                   qt_price = (if og_priceMode t = ABSOLUTE then op_priceEffect x else pd_price p + op_priceEffect x) + deposit,
                   qt_deposit = (if 0 < deposit then Some deposit else None), qt_color = pd_color p,
                   qt_availability = sp_availability sp, qt_category = category\<rparr>) (active_options t)
             | None \<Rightarrow> [\<lparr>qt_key = pd_id p, qt_productId = pd_id p, qt_optionIds = defaultIds, qt_label = label, qt_detail = None,
                   qt_hint = hint, qt_price = pd_price p + deposit, qt_deposit = (if 0 < deposit then Some deposit else None),
                   qt_color = pd_color p, qt_availability = sp_availability sp, qt_category = category\<rparr>]))"

definition deriveQuickSaleTiles :: "sale_product list \<Rightarrow> quick_sale_tile list" where
  "deriveQuickSaleTiles products = concat (map product_tiles products)"

section \<open>The dialog for split payments\<close>

type_synonym quantities = "(id \<times> int) list"

definition no_quantities :: "order_item list \<Rightarrow> quantities" where
  "no_quantities items = foldl (\<lambda>m i. js_set (oi_id i) 0 m) [] items"

definition handleSetQuantity :: "id \<Rightarrow> int \<Rightarrow> int \<Rightarrow> quantities \<Rightarrow> quantities" where
  "handleSetQuantity i qty maxQty q = js_set i (max 0 (min qty maxQty)) q"

definition handleSelectAllRemaining :: "order_item list \<Rightarrow> quantities" where
  "handleSelectAllRemaining items = foldl (\<lambda>m i. js_set (oi_id i) (max 0 (oi_quantity i - oi_paidQuantity i)) m) [] items"

definition selectedItemsPayload :: "quantities \<Rightarrow> split_item list" where
  "selectedItemsPayload q = map (\<lambda>(i, n). \<lparr>sp_orderItemId = i, sp_quantity = n\<rparr>) (filter (\<lambda>(_, n). 0 < n) q)"

definition selectedTotalCents :: "order_item list \<Rightarrow> quantities \<Rightarrow> int" where
  "selectedTotalCents items q = sum_list (map (\<lambda>(i, n).
     case find (\<lambda>x. oi_id x = i) items of None \<Rightarrow> 0 | Some x \<Rightarrow> oi_priceAtTime x * n) q)"

definition split_request :: "order_item list \<Rightarrow> payment_method \<Rightarrow> quantities \<Rightarrow> (split_item list \<times> payment_input list) option" where
  "split_request items m q =
     (if selectedItemsPayload q = [] \<or> selectedTotalCents items q \<le> 0 then None
      else Some (selectedItemsPayload q, [\<lparr>pi_amount = selectedTotalCents items q, pi_method = m\<rparr>]))"

end
