(* ===== verification/VO_Product_Laws.thy ===== *)
theory VO_Product_Laws
  imports VO_Products
begin

text \<open>
  Laws of the catalogue: saving option groups keeps the ids of groups and options unique, every operation that writes
  products or categories keeps the catalogue sound, and the availability a device is shown is what the stock ledger decides.
\<close>

section \<open>Ids of groups and options stay unique\<close>

definition row_option_ids :: "option_group list \<Rightarrow> id list" where
  "row_option_ids rows = concat (map (\<lambda>g. map op_id (og_options g)) rows)"

lemma row_option_ids_simps [simp]:
  "row_option_ids [] = []" "row_option_ids (g # rows) = map op_id (og_options g) @ row_option_ids rows"
  "row_option_ids (xs @ ys) = row_option_ids xs @ row_option_ids ys"
  by (simp_all add: row_option_ids_def)

lemma product_option_ids: "map (op_id \<circ> fst) (product_options p) = row_option_ids (pd_optionGroups p)"
  by (simp add: product_options_def row_option_ids_def map_concat comp_def)

definition new_ids :: "(nat \<Rightarrow> id) \<Rightarrow> nat \<Rightarrow> nat \<Rightarrow> id set" where
  "new_ids ids m n = ids ` {m..<n}"

lemma new_ids_mono: "n \<le> n' \<Longrightarrow> new_ids ids m n \<subseteq> new_ids ids m n'"
  by (auto simp: new_ids_def)

lemma new_idsI: "m \<le> k \<Longrightarrow> k < n \<Longrightarrow> ids k \<in> new_ids ids m n"
  by (simp add: new_ids_def)

lemma option_row_id [simp]: "op_id (option_row i x) = i"
  by (simp add: option_row_def)

lemma save_option_ids:
  assumes "fold_res (save_option e) (os, n) xs = Inr (os', n')"
    and "distinct (map op_id os)" and "\<forall>k \<ge> n. env_uuid e k \<notin> op_id ` set os" and "inj (env_uuid e)"
  shows "n \<le> n' \<and> distinct (map op_id os') \<and> op_id ` set os' \<subseteq> op_id ` set os \<union> new_ids (env_uuid e) n n'"
  using assms
proof (induction xs arbitrary: os n)
  case Nil
  then show ?case by auto
next
  case (Cons x xs)
  from Cons.prems(1) obtain o1 n1 where s: "save_option e (os, n) x = Inr (o1, n1)"
    and r: "fold_res (save_option e) (o1, n1) xs = Inr (os', n')" by (auto simp: res_simps)
  show ?case
  proof (cases "truthy (oin_id x)")
    case None
    with s have o1: "o1 = os @ [option_row (env_uuid e n) x]" "n1 = Suc n" by (auto simp: save_option_def)
    have fr: "\<forall>k \<ge> n1. env_uuid e k \<notin> op_id ` set o1"
      using Cons.prems(3,4) by (auto simp: o1 inj_eq)
    have "distinct (map op_id o1)" using Cons.prems(2,3) by (auto simp: o1)
    from Cons.IH [OF r this fr Cons.prems(4)] show ?thesis by (auto simp: o1 new_ids_def)
  next
    case (Some i)
    with s have o1: "o1 = update_where (\<lambda>y. op_id y = i) (\<lambda>_. option_row i x) os" "n1 = n"
      by (auto simp: save_option_def split: if_splits)
    have ids: "map op_id o1 = map op_id os" by (simp add: o1 map_update_where_frame)
    from arg_cong [OF this, of set] have "op_id ` set o1 = op_id ` set os" by simp
    with Cons.IH [OF r] Cons.prems(2-4) ids o1(2) show ?thesis by simp
  qed
qed

text \<open>Replacing the options of one group.\<close>

lemma replaced_options:
  assumes "distinct (map og_id rows)" and "find (\<lambda>r. og_id r = gid) rows = Some cur"
  obtains xs ys where "rows = xs @ cur # ys"
    and "update_where (\<lambda>r. og_id r = gid) f rows = xs @ f cur # ys"
proof -
  from assms(2) have cur: "cur \<in> set rows" "og_id cur = gid" by (auto dest: find_Some_mem)
  from cur(1) obtain xs ys where rows: "rows = xs @ cur # ys" by (meson split_list)
  with assms(1) have "gid \<notin> og_id ` set xs" "gid \<notin> og_id ` set ys" using cur(2) by auto
  then have "update_where (\<lambda>r. og_id r = gid) f xs = xs" "update_where (\<lambda>r. og_id r = gid) f ys = ys"
    by (auto intro!: update_where_none)
  then have "update_where (\<lambda>r. og_id r = gid) f rows = xs @ f cur # ys"
    by (simp add: rows update_where_def cur(2))
  with rows that show thesis by blast
qed

lemma distinct_replace:
  "distinct (xs @ ys @ zs) \<Longrightarrow> distinct ys' \<Longrightarrow> set ys' \<subseteq> set ys \<union> N \<Longrightarrow> set (xs @ ys @ zs) \<inter> N = {} \<Longrightarrow>
   distinct (xs @ ys' @ zs)"
  by auto

lemma subset_replace:
  "set (xs @ ys @ zs) \<subseteq> S \<union> M \<Longrightarrow> set ys' \<subseteq> set ys \<union> N \<Longrightarrow> M \<subseteq> M' \<Longrightarrow> N \<subseteq> M' \<Longrightarrow> set (xs @ ys' @ zs) \<subseteq> S \<union> M'"
  by simp blast

definition ids_inv :: "(nat \<Rightarrow> id) \<Rightarrow> id set \<Rightarrow> nat \<Rightarrow> option_group list \<times> nat \<Rightarrow> bool" where
  "ids_inv ids old n0 = (\<lambda>(rows, n). n0 \<le> n \<and> distinct (map og_id rows) \<and> distinct (row_option_ids rows) \<and>
     og_id ` set rows \<union> set (row_option_ids rows) \<subseteq> old \<union> new_ids ids n0 n)"

lemma ids_inv_fresh:
  assumes "ids_inv ids old n0 (rows, n)" and "inj ids" and "\<forall>k \<ge> n0. ids k \<notin> old" and "n \<le> k"
  shows "ids k \<notin> og_id ` set rows" "ids k \<notin> set (row_option_ids rows)"
proof -
  have "ids k \<notin> old \<union> new_ids ids n0 n" using assms by (auto simp: new_ids_def inj_eq ids_inv_def)
  with assms(1) show "ids k \<notin> og_id ` set rows" "ids k \<notin> set (row_option_ids rows)" by (auto simp: ids_inv_def)
qed

lemma created_option_ids: "map op_id (create_options e n os) = map (env_uuid e) [n..<n + length os]"
  by (rule nth_equalityI) (auto simp: create_options_def)

lemma save_group_ids:
  assumes run: "save_group e existing (rows, n) g = Inr (rows', n')"
    and inv: "ids_inv (env_uuid e) old n0 (rows, n)" and inj: "inj (env_uuid e)" and old: "\<forall>k \<ge> n0. env_uuid e k \<notin> old"
  shows "ids_inv (env_uuid e) old n0 (rows', n')"
proof (cases "truthy (gin_id g)")
  case None
  let ?new = "group_row (env_uuid e n) g (create_options e (Suc n) (gin_options g))"
  from run None have r: "rows' = rows @ [?new]" "n' = n + 1 + length (gin_options g)"
    by (auto simp: save_group_def res_simps dest!: group_write_Inr)
  note F = ids_inv_fresh [OF inv inj old]
  have opts: "row_option_ids [?new] = map (env_uuid e) [Suc n..<Suc n + length (gin_options g)]"
    by (simp only: row_option_ids_simps group_row_simps append_Nil2 created_option_ids)
  have "distinct (row_option_ids [?new])" unfolding opts by (simp add: distinct_map inj_on_subset [OF inj subset_UNIV])
  moreover have "set (row_option_ids rows) \<inter> set (row_option_ids [?new]) = {}"
    unfolding opts using F(2) by auto
  moreover have "set (row_option_ids [?new]) \<subseteq> new_ids (env_uuid e) n0 n'"
    unfolding opts using inv by (auto simp: r(2) new_ids_def ids_inv_def)
  moreover have "env_uuid e n \<in> new_ids (env_uuid e) n0 n'" using inv by (auto simp: r(2) ids_inv_def intro!: new_idsI)
  moreover have "new_ids (env_uuid e) n0 n \<subseteq> new_ids (env_uuid e) n0 n'" by (rule new_ids_mono) (simp add: r(2))
  ultimately show ?thesis
    using inv F(1) [of n] by (auto simp: ids_inv_def r(1)) (simp add: r(2))
next
  case (Some gid)
  from run Some obtain og cur :: option_group and os :: "poption list" where
    cur: "find (\<lambda>r. og_id r = gid) rows = Some cur"
    and os': "fold_res (save_option e) (filter (\<lambda>o'. \<not> (op_id o' \<in> op_id ` set (og_options og) \<and>
       op_id o' \<notin> set (given_ids oin_id (gin_options g)))) (og_options cur), n) (gin_options g) = Inr (os, n')"
    and r: "rows' = update_where (\<lambda>r. og_id r = gid) (\<lambda>r. r\<lparr>og_options := os\<rparr>)
       (update_where (\<lambda>r. og_id r = gid) (\<lambda>r. group_row gid g (og_options r)) rows)"
    by (auto simp: save_group_def res_simps Let_def dest!: group_write_Inr)
  define kept where "kept = filter (\<lambda>o'. \<not> (op_id o' \<in> op_id ` set (og_options og) \<and>
       op_id o' \<notin> set (given_ids oin_id (gin_options g)))) (og_options cur)"
  have kept: "set (map op_id kept) \<subseteq> set (map op_id (og_options cur))"
    "distinct (map op_id (og_options cur)) \<longrightarrow> distinct (map op_id kept)"
    by (auto simp: kept_def distinct_map_filter)
  have os: "fold_res (save_option e) (kept, n) (gin_options g) = Inr (os, n')" unfolding kept_def by (rule os')
  have d: "distinct (map og_id rows)" using inv by (simp add: ids_inv_def)
  let ?f = "\<lambda>r. (group_row gid g (og_options r))\<lparr>og_options := os\<rparr>"
  have comp: "rows' = update_where (\<lambda>r. og_id r = gid) ?f rows"
    unfolding r by (auto simp: update_where_def)
  obtain xs ys where sp: "rows = xs @ cur # ys" "rows' = xs @ ?f cur # ys"
    unfolding comp by (rule replaced_options [OF d cur, of ?f])
  have cid: "og_id cur = gid" using cur by (auto dest: find_Some_mem)
  note F = ids_inv_fresh [OF inv inj old]
  have dc: "distinct (map op_id (og_options cur))" using inv by (auto simp: ids_inv_def sp(1))
  have "op_id ` set kept \<subseteq> set (row_option_ids rows)" using kept(1) by (simp add: sp(1)) blast
  with F(2) have fr: "\<forall>k \<ge> n. env_uuid e k \<notin> op_id ` set kept" by blast
  note O = save_option_ids [OF os kept(2) [rule_format, OF dc] fr inj]
  have new: "set (row_option_ids rows) \<inter> new_ids (env_uuid e) n n' = {}"
    using F(2) by (auto simp: new_ids_def)
  have sub: "op_id ` set os \<subseteq> op_id ` set (og_options cur) \<union> new_ids (env_uuid e) n n'"
    using O kept(1) by (simp only: set_map) blast
  have nn: "new_ids (env_uuid e) n n' \<subseteq> new_ids (env_uuid e) n0 n'" "new_ids (env_uuid e) n0 n \<subseteq> new_ids (env_uuid e) n0 n'"
    using O inv by (auto simp: new_ids_def ids_inv_def)
  have "distinct (row_option_ids rows')"
    unfolding sp row_option_ids_simps
    by (rule distinct_replace [of _ "map op_id (og_options cur)" _ _ "new_ids (env_uuid e) n n'"])
      (use inv O sub new in \<open>simp_all add: ids_inv_def sp(1)\<close>)
  moreover have "map og_id rows' = map og_id rows" by (simp add: sp cid)
  moreover have "set (row_option_ids rows') \<subseteq> old \<union> new_ids (env_uuid e) n0 n'"
    unfolding sp row_option_ids_simps
    by (rule subset_replace [of _ "map op_id (og_options cur)" _ _ "new_ids (env_uuid e) n0 n" _ "new_ids (env_uuid e) n n'"])
      (use inv sub nn in \<open>simp_all add: ids_inv_def sp(1)\<close>)
  moreover have "og_id ` set rows' \<subseteq> old \<union> new_ids (env_uuid e) n0 n'"
  proof -
    have "og_id ` set rows' = og_id ` set rows" using arg_cong [OF \<open>map og_id rows' = map og_id rows\<close>, of set] by simp
    with inv nn(2) show ?thesis by (auto simp: ids_inv_def)
  qed
  ultimately show ?thesis using inv O by (auto simp: ids_inv_def)
qed

lemma neutral_ids:
  "map og_id (update_where c neutral_group xs) = map og_id xs"
  "row_option_ids (update_where c neutral_group xs) = row_option_ids xs"
  by (induction xs) (auto simp: update_where_def neutral_group_def)

lemma filtered_ids:
  "distinct (row_option_ids xs) \<Longrightarrow> distinct (row_option_ids (filter c xs))"
  "set (row_option_ids (filter c xs)) \<subseteq> set (row_option_ids xs)"
proof -
  show sub: "set (row_option_ids (filter c xs)) \<subseteq> set (row_option_ids xs)" for xs by (induction xs) auto
  show "distinct (row_option_ids xs) \<Longrightarrow> distinct (row_option_ids (filter c xs))"
  proof (induction xs)
    case (Cons g xs)
    with sub [of xs] show ?case by auto
  qed simp
qed

definition stored_ids :: "option_group list \<Rightarrow> id set" where
  "stored_ids rows = og_id ` set rows \<union> set (row_option_ids rows)"

lemma saveOptionGroups_ids:
  assumes run: "saveOptionGroups e (existing, n) groups = Inr (rows, n')"
    and d: "distinct (map og_id existing)" "distinct (row_option_ids existing)"
    and inj: "inj (env_uuid e)" and fresh: "\<forall>k \<ge> n. env_uuid e k \<notin> stored_ids existing"
  shows "n \<le> n' \<and> distinct (map og_id rows) \<and> distinct (row_option_ids rows) \<and>
    stored_ids rows \<subseteq> stored_ids existing \<union> new_ids (env_uuid e) n n'"
proof -
  let ?I = "set (given_ids gin_id groups)"
  let ?kept = "filter (\<lambda>r. og_id r \<in> ?I) existing"
  let ?neutral = "update_where (\<lambda>r. og_id r \<in> ?I) neutral_group ?kept"
  from run have loop: "fold_res (save_group e existing) (?neutral, n) groups = Inr (rows, n')"
    by (auto simp: saveOptionGroups_def res_simps Let_def dest!: group_write_Inr)
  have ids: "og_id ` set ?neutral \<subseteq> og_id ` set existing"
    using arg_cong [OF neutral_ids(1) [of "\<lambda>r. og_id r \<in> ?I" ?kept], of set] by auto
  have "ids_inv (env_uuid e) (stored_ids existing) n (?neutral, n)"
    using d ids filtered_ids [where xs = existing and c = "\<lambda>r. og_id r \<in> ?I"]
    by (auto simp: ids_inv_def neutral_ids distinct_map_filter stored_ids_def)
  with loop have "ids_inv (env_uuid e) (stored_ids existing) n (rows, n')"
  proof (rule fold_res_invariant)
    fix s g s'
    assume s: "ids_inv (env_uuid e) (stored_ids existing) n s" "save_group e existing s g = Inr s'"
    obtain r k where "s = (r, k)" by (cases s)
    moreover obtain r' k' where "s' = (r', k')" by (cases s')
    ultimately show "ids_inv (env_uuid e) (stored_ids existing) n s'" using s save_group_ids [OF _ _ inj fresh] by blast
  qed
  then show ?thesis by (simp add: ids_inv_def stored_ids_def)
qed

section \<open>The catalogue stays sound\<close>

text \<open>A product with sound option groups: \<^theory_text>\<open>product_wf\<close>, at most one tile group, and ids.\<close>

definition groups_ok :: "product \<Rightarrow> bool" where
  "groups_ok p \<longleftrightarrow> product_wf p \<and> count_where og_quickSaleTiles (pd_optionGroups p) \<le> 1 \<and>
     [] \<notin> og_id ` set (pd_optionGroups p)"

lemma groups_ok_ids: "groups_ok p \<Longrightarrow> [] \<notin> stored_ids (pd_optionGroups p)"
proof -
  assume ok: "groups_ok p"
  then have "[] \<notin> set (map (op_id \<circ> fst) (product_options p))" by (force simp: groups_ok_def product_wf_def)
  then have "[] \<notin> set (row_option_ids (pd_optionGroups p))" by (simp only: product_option_ids not_False_eq_True)
  with ok show ?thesis by (simp add: groups_ok_def stored_ids_def)
qed

definition station_in :: "db \<Rightarrow> id \<Rightarrow> id option \<Rightarrow> bool" where
  "station_in d eventId s = (case s of None \<Rightarrow> True | Some i \<Rightarrow> \<exists>x \<in> set (t_stations d). sn_id x = i \<and> sn_eventId x = eventId)"

text \<open>
  The foreign keys between products, categories and stations: every reference exists and stays within the event. The
  copy of the category a product carries is the category's row.
\<close>

definition product_linked :: "db \<Rightarrow> product \<Rightarrow> bool" where
  "product_linked d p \<longleftrightarrow> pd_category p \<in> set (t_categories d) \<and> ca_eventId (pd_category p) = pd_eventId p \<and>
     station_in d (pd_eventId p) (pd_targetStationId p)"

definition catalogue_ok :: "db \<Rightarrow> bool" where
  "catalogue_ok d \<longleftrightarrow> distinct (map pd_id (t_products d)) \<and> distinct (map ca_id (t_categories d)) \<and>
     (\<forall>p \<in> set (t_products d). product_linked d p \<and> groups_ok p) \<and>
     (\<forall>c \<in> set (t_categories d). station_in d (ca_eventId c) (ca_targetStationId c))"

definition catalogue_ids :: "db \<Rightarrow> id set" where
  "catalogue_ids d = {[]} \<union> pd_id ` set (t_products d) \<union> ca_id ` set (t_categories d) \<union>
     (\<Union>p \<in> set (t_products d). stored_ids (pd_optionGroups p))"

text \<open>\<open>ids\<close> is the source of new ids; no id it has still to give is in use.\<close>

definition catalogue_inv :: "(nat \<Rightarrow> id) \<Rightarrow> db \<Rightarrow> bool" where
  "catalogue_inv ids d \<longleftrightarrow> catalogue_ok d \<and> inj ids \<and> (\<forall>k \<ge> serial d. ids k \<notin> catalogue_ids d)"

lemma catalogue_invI:
  assumes "catalogue_inv ids d" and "serial d \<le> serial d'" and "catalogue_ok d'"
    and "catalogue_ids d' \<subseteq> catalogue_ids d \<union> new_ids ids (serial d) (serial d')"
  shows "catalogue_inv ids d'"
proof -
  have "ids k \<notin> new_ids ids (serial d) (serial d')" if "serial d' \<le> k" for k
    using assms(1) that by (auto simp: catalogue_inv_def new_ids_def inj_eq)
  with assms show ?thesis unfolding catalogue_inv_def by (meson UnE le_trans subsetD)
qed

text \<open>The event of a product decides where its tickets go: the target station is of its event.\<close>

lemma target_station_in_event:
  assumes "catalogue_ok d" and "p \<in> set (t_products d)" and "resolveTargetStationId p = Some s"
  shows "station_in d (pd_eventId p) (Some s)"
proof (cases "pd_targetStationId p")
  case None
  with assms(3) have c: "ca_targetStationId (pd_category p) = Some s" by (simp add: resolveTargetStationId_def)
  from assms(1,2) have "pd_category p \<in> set (t_categories d)" "ca_eventId (pd_category p) = pd_eventId p"
    by (auto simp: catalogue_ok_def product_linked_def)
  with assms(1) c show ?thesis unfolding catalogue_ok_def by metis
next
  case (Some i)
  with assms show ?thesis by (auto simp: resolveTargetStationId_def catalogue_ok_def product_linked_def)
qed

lemma audit_by_frame [simp]:
  "t_products (audit_by u a d) = t_products d" "t_categories (audit_by u a d) = t_categories d"
  "t_stations (audit_by u a d) = t_stations d" "serial (audit_by u a d) = serial d" "t_stocks (audit_by u a d) = t_stocks d"
  "t_events (audit_by u a d) = t_events d"
  by (simp_all add: audit_by_def add_audit_def split: option.splits)

lemma add_broadcast_catalogue [simp]:
  "t_products (add_broadcast ev n p d) = t_products d" "t_categories (add_broadcast ev n p d) = t_categories d"
  "t_stations (add_broadcast ev n p d) = t_stations d" "serial (add_broadcast ev n p d) = serial d"
  by (simp_all add: add_broadcast_def)

lemma station_in_cong: "t_stations d' = t_stations d \<Longrightarrow> station_in d' = station_in d"
  by (simp add: station_in_def fun_eq_iff split: option.split)

text \<open>Only the three tables and the counter matter.\<close>

lemma catalogue_cong:
  assumes "t_products d' = t_products d" and "t_categories d' = t_categories d" and "t_stations d' = t_stations d"
    and "serial d' = serial d"
  shows "catalogue_inv ids d' = catalogue_inv ids d"
  using assms station_in_cong [OF assms(3)] by (simp add: catalogue_inv_def catalogue_ok_def catalogue_ids_def product_linked_def)

lemma station_key_in: "station_key_ok d s ev = Inr u \<longleftrightarrow> station_in d ev s"
  by (auto simp: station_key_ok_def station_in_def res_simps list_ex_iff split: option.splits)

lemma category_key_Some: "category_key d i ev = Inr c \<Longrightarrow> c \<in> set (t_categories d) \<and> ca_id c = i \<and> ca_eventId c = ev"
  by (auto simp: category_key_def res_simps dest: find_Some_mem)

lemma find_product_Some: "find_product d i = Some p \<Longrightarrow> p \<in> set (t_products d) \<and> pd_id p = i"
  by (auto simp: find_product_def dest: find_Some_mem)

text \<open>Rewriting one product, with its links and groups kept sound.\<close>

lemma update_product_inv:
  assumes inv: "catalogue_inv ids d" and p: "find_product d i = Some p" and n: "serial d \<le> n"
    and f: "pd_id (f p) = pd_id p" "product_linked d (f p)" "groups_ok (f p)"
    and new: "stored_ids (pd_optionGroups (f p)) \<subseteq> stored_ids (pd_optionGroups p) \<union> new_ids ids (serial d) n"
  shows "catalogue_inv ids ((update_product i f d)\<lparr>serial := n\<rparr>)"
proof -
  let ?d = "(update_product i f d)\<lparr>serial := n\<rparr>"
  from find_product_Some [OF p] have p': "p \<in> set (t_products d)" "pd_id p = i" by auto
  have dist: "distinct (map pd_id (t_products d))" using inv by (simp add: catalogue_inv_def catalogue_ok_def)
  have only: "x = p" if "x \<in> set (t_products d)" "pd_id x = i" for x
    using dist that p' by (metis distinct_map inj_onD)
  have rows: "t_products ?d = update_where (\<lambda>x. pd_id x = i) f (t_products d)"
    "t_categories ?d = t_categories d" "t_stations ?d = t_stations d" "serial ?d = n"
    by (simp_all add: update_product_def)
  have mem: "x = f p \<or> x \<in> set (t_products d)" if "x \<in> set (t_products ?d)" for x
    using that only unfolding rows(1) set_update_where by (auto split: if_splits)
  have "map pd_id (t_products ?d) = map pd_id (t_products d)"
    unfolding rows(1) update_where_def using only f(1) by (auto simp: p'(2))
  then have ids: "distinct (map pd_id (t_products ?d))" "pd_id ` set (t_products ?d) = pd_id ` set (t_products d)"
    using dist by (metis, metis set_map)
  note st = station_in_cong [OF rows(3)]
  have linked: "product_linked ?d x = product_linked d x" for x
    unfolding product_linked_def st rows(2) by (rule refl)
  have "catalogue_ok ?d"
    unfolding catalogue_ok_def linked st rows(2) using ids(1) inv f(2,3) mem
    by (auto simp: catalogue_inv_def catalogue_ok_def)
  moreover have "catalogue_ids ?d \<subseteq> catalogue_ids d \<union> new_ids ids (serial d) n"
  proof -
    have "stored_ids (pd_optionGroups x) \<subseteq> catalogue_ids d \<union> new_ids ids (serial d) n" if "x \<in> set (t_products ?d)" for x
      using mem [OF that] new p'(1) by (auto simp: catalogue_ids_def)
    with ids(2) show ?thesis unfolding catalogue_ids_def [of ?d] by (auto simp: catalogue_ids_def update_product_def)
  qed
  ultimately show ?thesis using inv n by (intro catalogue_invI [OF inv]) simp_all
qed

section \<open>Every operation keeps it\<close>

lemma groups_ok_cong: "pd_optionGroups p' = pd_optionGroups p \<Longrightarrow> groups_ok p' = groups_ok p"
  by (simp add: groups_ok_def product_wf_def product_options_def)

lemma saved_groups_ok:
  assumes run: "saveOptionGroups e (pd_optionGroups p, n) groups = Inr (rows, n')" and ok: "groups_ok p"
    and inj: "inj (env_uuid e)" and fresh: "\<forall>k \<ge> n. env_uuid e k \<notin> insert [] (stored_ids (pd_optionGroups p))"
  shows "n \<le> n' \<and> groups_ok (p\<lparr>pd_optionGroups := rows\<rparr>) \<and>
    stored_ids rows \<subseteq> stored_ids (pd_optionGroups p) \<union> new_ids (env_uuid e) n n'"
proof -
  from ok have wf: "distinct (map og_id (pd_optionGroups p))" "distinct (row_option_ids (pd_optionGroups p))"
    "count_where is_absolute (pd_optionGroups p) \<le> 1" "count_where og_quickSaleTiles (pd_optionGroups p) \<le> 1"
    by (simp_all add: groups_ok_def product_wf_def product_option_ids)
  have I: "n \<le> n' \<and> distinct (map og_id rows) \<and> distinct (row_option_ids rows) \<and>
      stored_ids rows \<subseteq> stored_ids (pd_optionGroups p) \<union> new_ids (env_uuid e) n n'"
    by (rule saveOptionGroups_ids [OF run wf(1,2) inj]) (use fresh in blast)
  have "supply_fresh e (pd_optionGroups p) n" using inj fresh by (auto simp: supply_fresh_def stored_ids_def)
  with saveOptionGroups_sound [of "pd_optionGroups p" e n groups] wf run
  have S: "count_where is_absolute rows \<le> 1" "count_where og_quickSaleTiles rows \<le> 1" "\<forall>r \<in> set rows. group_wf r"
    by (simp_all add: group_ids_distinct_def)
  have "[] \<notin> new_ids (env_uuid e) n n'" using fresh by (auto simp: new_ids_def)
  with I groups_ok_ids [OF ok] have "[] \<notin> stored_ids rows" by blast
  then have ne: "[] \<notin> og_id ` set rows" "[] \<notin> (op_id \<circ> fst) ` set (product_options (p\<lparr>pd_optionGroups := rows\<rparr>))"
    unfolding stored_ids_def set_map [symmetric] product_option_ids by simp_all
  then have "\<forall>(x, g) \<in> set (product_options (p\<lparr>pd_optionGroups := rows\<rparr>)). op_id x \<noteq> []" by force
  with I S ne(1) show ?thesis by (simp add: groups_ok_def product_wf_def product_option_ids)
qed

lemma fresh_for_product:
  "catalogue_inv ids d \<Longrightarrow> p \<in> set (t_products d) \<Longrightarrow> \<forall>k \<ge> serial d. ids k \<notin> insert [] (stored_ids (pd_optionGroups p))"
  by (auto simp: catalogue_inv_def catalogue_ids_def)

lemma save_groups_inv:
  assumes inv: "catalogue_inv (env_uuid e) d" and p: "find_product d i = Some p" and run: "save_groups e i groups d = Inr d'"
  shows "catalogue_inv (env_uuid e) d' \<and> serial d \<le> serial d'"
proof (cases groups)
  case None
  with run inv show ?thesis by (simp add: save_groups_def)
next
  case (Some gs)
  from run Some p obtain rows n where r: "saveOptionGroups e (pd_optionGroups p, serial d) gs = Inr (rows, n)"
    and d': "d' = (update_product i (\<lambda>p. p\<lparr>pd_optionGroups := rows\<rparr>) d)\<lparr>serial := n\<rparr>"
    by (auto simp: save_groups_def res_simps)
  from find_product_Some [OF p] have p': "p \<in> set (t_products d)" "pd_id p = i" by auto
  from inv p'(1) have ok: "groups_ok p" "product_linked d p" "inj (env_uuid e)" by (auto simp: catalogue_inv_def catalogue_ok_def)
  note S = saved_groups_ok [OF r ok(1,3) fresh_for_product [OF inv p'(1)]]
  have "catalogue_inv (env_uuid e) d'"
    unfolding d' by (rule update_product_inv [OF inv p]) (use S ok(2) in \<open>simp_all add: product_linked_def\<close>)
  with S d' show ?thesis by simp
qed

lemma update_product_serial: "(update_product i f d)\<lparr>serial := serial d\<rparr> = update_product i f d"
  by (simp add: update_product_def)

lemma updateAvailability_inv:
  assumes "catalogue_inv ids d" and "updateAvailability pre d i a u = (d', r)"
  shows "catalogue_inv ids d'"
proof (cases "find_product d i")
  case None
  with assms show ?thesis by (auto simp: updateAvailability_def split: option.splits)
next
  case (Some p)
  let ?f = "\<lambda>p. p\<lparr>pd_manualAvailability := a\<rparr>"
  from find_product_Some [OF Some] assms(1) have "product_linked d p" "groups_ok p"
    by (auto simp: catalogue_inv_def catalogue_ok_def)
  then have "catalogue_inv ids ((update_product i ?f d)\<lparr>serial := serial d\<rparr>)"
    by (intro update_product_inv [OF assms(1) Some]) (simp_all add: product_linked_def groups_ok_cong [of "?f p" p])
  then have inv: "catalogue_inv ids (update_product i ?f d)" by (simp only: update_product_serial)
  have "d' = d \<or> t_products d' = t_products (update_product i ?f d) \<and> t_categories d' = t_categories (update_product i ?f d) \<and>
      t_stations d' = t_stations (update_product i ?f d) \<and> serial d' = serial (update_product i ?f d)"
    using assms(2) Some by (auto simp: updateAvailability_def Let_def split: option.splits sum.splits)
  with inv assms(1) show ?thesis using catalogue_cong [of d' "update_product i ?f d"] by blast
qed

lemma audit_by_inv [simp]: "catalogue_inv ids (audit_by u a d) = catalogue_inv ids d"
  by (rule catalogue_cong) simp_all

lemma find_appended: "\<forall>x \<in> set xs. \<not> P x \<Longrightarrow> P y \<Longrightarrow> find P (xs @ [y]) = Some y"
  by (induction xs) auto

lemma createProduct_tx_inv:
  assumes inv: "catalogue_inv (env_uuid e) d" and run: "createProduct_tx e c u d = Inr (d', p)"
  shows "catalogue_inv (env_uuid e) d' \<and> serial d < serial d'"
proof -
  from run obtain cat d2 where cat: "category_key d (cp_categoryId c) (cp_eventId c) = Inr cat"
    and st: "station_key_ok d (cp_targetStationId c) (cp_eventId c) = Inr ()"
    and p: "p = product_row (fresh_id e d) c cat"
    and sg: "save_groups e (pd_id p) (cp_optionGroups c) (d\<lparr>t_products := t_products d @ [p], serial := Suc (serial d)\<rparr>) = Inr d2"
    and d': "catalogue_inv (env_uuid e) d' = catalogue_inv (env_uuid e) d2" "serial d' = serial d2"
    by (auto simp: createProduct_tx_def res_simps Let_def)
  let ?d1 = "d\<lparr>t_products := t_products d @ [p], serial := Suc (serial d)\<rparr>"
  have pid: "pd_id p = env_uuid e (serial d)" "pd_optionGroups p = []" "pd_eventId p = cp_eventId c" "pd_category p = cat"
    "pd_targetStationId p = cp_targetStationId c"
    by (simp_all add: p product_row_def fresh_id_def)
  have fresh: "pd_id p \<notin> catalogue_ids d" using inv pid(1) by (simp add: catalogue_inv_def)
  have st1: "station_in ?d1 = station_in d" by (rule station_in_cong) simp
  have ok: "groups_ok p" using pid(2) by (simp add: groups_ok_def product_wf_def product_options_def count_where_def)
  have "product_linked d p" using category_key_Some [OF cat] st by (simp add: product_linked_def pid station_key_in)
  with inv fresh ok have "catalogue_ok ?d1"
    by (auto simp: catalogue_inv_def catalogue_ok_def product_linked_def st1 catalogue_ids_def)
  moreover have "catalogue_ids ?d1 \<subseteq> catalogue_ids d \<union> new_ids (env_uuid e) (serial d) (serial ?d1)"
    by (auto simp: catalogue_ids_def pid stored_ids_def intro!: new_idsI)
  ultimately have inv1: "catalogue_inv (env_uuid e) ?d1" by (intro catalogue_invI [OF inv]) simp_all
  have find: "find_product ?d1 (pd_id p) = Some p"
  proof -
    have "\<forall>x \<in> set (t_products d). pd_id x \<noteq> pd_id p" using fresh unfolding catalogue_ids_def by (metis UnCI imageI)
    then show ?thesis by (simp add: find_product_def find_appended)
  qed
  from save_groups_inv [OF inv1 find sg] d' show ?thesis by simp
qed

lemma edited_product_simps [simp]:
  "pd_id (edited_product u cat p) = pd_id p" "pd_eventId (edited_product u cat p) = pd_eventId p"
  "pd_optionGroups (edited_product u cat p) = pd_optionGroups p" "pd_category (edited_product u cat p) = cat"
  by (simp_all add: edited_product_def)

lemma updateProduct_tx_inv:
  assumes inv: "catalogue_inv (env_uuid e) d" and run: "updateProduct_tx e ex u a d = Inr (d', p')"
  shows "catalogue_inv (env_uuid e) d' \<and> serial d \<le> serial d'"
proof -
  from run obtain p :: product and cat :: category and d2 where p: "find_product d (pd_id ex) = Some p"
    and cat: "(case up_categoryId u of Some (Some c) \<Rightarrow> category_key d c (pd_eventId p) | _ \<Rightarrow> Inr (pd_category p)) = Inr cat"
    and st: "station_key_ok d (pd_targetStationId (edited_product u cat p)) (pd_eventId p) = Inr ()"
    and sg: "save_groups e (pd_id ex) (up_optionGroups u) (update_product (pd_id ex) (edited_product u cat) d) = Inr d2"
    and d': "catalogue_inv (env_uuid e) d' = catalogue_inv (env_uuid e) d2" "serial d' = serial d2"
    by (auto simp: updateProduct_tx_def res_simps Let_def)
  let ?f = "edited_product u cat" and ?d1 = "update_product (pd_id ex) (edited_product u cat) d"
  from find_product_Some [OF p] have p': "p \<in> set (t_products d)" "pd_id p = pd_id ex" by auto
  with inv have ok: "product_linked d p" "groups_ok p" by (auto simp: catalogue_inv_def catalogue_ok_def)
  have "cat \<in> set (t_categories d) \<and> ca_eventId cat = pd_eventId p"
    using cat ok(1) by (auto simp: product_linked_def dest: category_key_Some split: option.splits)
  then have "product_linked d (?f p)" using st by (simp add: product_linked_def station_key_in)
  moreover have "groups_ok (?f p)" using ok(2) groups_ok_cong [of "?f p" p] by simp
  ultimately have "catalogue_inv (env_uuid e) (?d1\<lparr>serial := serial d\<rparr>)"
    by (intro update_product_inv [OF inv p]) simp_all
  then have inv1: "catalogue_inv (env_uuid e) ?d1" by (simp only: update_product_serial)
  have "find_product ?d1 (pd_id ex) = Some (?f p)"
    using p p'(2) by (simp add: find_product_def update_product_def find_update_where)
  from save_groups_inv [OF inv1 this sg] d' show ?thesis by (simp add: update_product_def)
qed

lemma createProduct_inv:
  assumes "catalogue_inv (env_uuid e) d" and "createProduct e pre d c u = (d', r)"
  shows "catalogue_inv (env_uuid e) d'"
  using assms createProduct_tx_inv [OF assms(1)]
  by (auto simp: createProduct_def split: if_splits sum.splits)

lemma updateProduct_inv:
  assumes "catalogue_inv (env_uuid e) d" and "updateProduct e pre d i u a = (d', r)"
  shows "catalogue_inv (env_uuid e) d'"
  using assms updateProduct_tx_inv [OF assms(1)]
  by (auto simp: updateProduct_def split: if_splits sum.splits option.splits)

lemma createCategory_inv:
  assumes inv: "catalogue_inv (env_uuid e) d" and run: "createCategory e pre d c = Inr (d', r)"
  shows "catalogue_inv (env_uuid e) d'"
proof -
  from run have r: "r = category_row (fresh_id e d) c" and d': "d' = d\<lparr>t_categories := t_categories d @ [r], serial := Suc (serial d)\<rparr>"
    and st: "station_in d (cc_eventId c) (cc_targetStationId c)"
    by (auto simp: createCategory_def res_simps Let_def station_key_in)
  have rid: "ca_id r = env_uuid e (serial d)" "ca_eventId r = cc_eventId c" "ca_targetStationId r = cc_targetStationId c"
    by (simp_all add: r category_row_def fresh_id_def)
  have fresh: "ca_id r \<notin> catalogue_ids d" using inv rid(1) by (simp add: catalogue_inv_def)
  have st1: "station_in d' = station_in d" by (rule station_in_cong) (simp add: d')
  have "catalogue_ok d'"
    unfolding catalogue_ok_def [of d'] product_linked_def st1
    using inv fresh st by (auto simp: catalogue_inv_def catalogue_ok_def product_linked_def rid(2,3) catalogue_ids_def d')
  moreover have "catalogue_ids d' \<subseteq> catalogue_ids d \<union> new_ids (env_uuid e) (serial d) (serial d')"
    by (auto simp: catalogue_ids_def rid(1) d' intro!: new_idsI)
  ultimately show ?thesis by (intro catalogue_invI [OF inv]) (simp_all add: d')
qed

lemma edited_category_simps [simp]:
  "ca_id (edited_category u c) = ca_id c" "ca_eventId (edited_category u c) = ca_eventId c"
  by (simp_all add: edited_category_def)

lemma updateCategory_inv:
  assumes inv: "catalogue_inv ids d" and run: "updateCategory pre d i u = Inr (d', r)"
  shows "catalogue_inv ids d'"
proof -
  let ?f = "edited_category u"
  from run obtain c :: category where c: "find_category d i = Some c" and st: "station_in d (ca_eventId c) (ca_targetStationId (?f c))"
    and d': "d' = write_category i ?f d"
    by (auto simp: updateCategory_def res_simps station_key_in)
  from c have c': "c \<in> set (t_categories d)" "ca_id c = i" by (auto simp: find_category_def dest: find_Some_mem)
  from inv have ok: "catalogue_ok d" by (simp add: catalogue_inv_def)
  then have only: "x = c" if "x \<in> set (t_categories d)" "ca_id x = i" for x
    using that c' unfolding catalogue_ok_def by (metis distinct_map inj_onD)
  have st1: "station_in d' = station_in d" by (rule station_in_cong) (simp add: d' write_category_def)
  have cats: "set (t_categories d') = (\<lambda>x. if ca_id x = i then ?f x else x) ` set (t_categories d)"
    by (simp add: d' write_category_def set_update_where)
  have ids: "map ca_id (t_categories d') = map ca_id (t_categories d)" "map pd_id (t_products d') = map pd_id (t_products d)"
    "map pd_optionGroups (t_products d') = map pd_optionGroups (t_products d)"
    by (simp_all add: d' write_category_def map_update_where_frame)
  have prod: "product_linked d' p' \<and> groups_ok p'" if p': "p' \<in> set (t_products d')" for p'
  proof -
    from p' obtain p where p: "p \<in> set (t_products d)"
      and eq: "p' = (if ca_id (pd_category p) = i then p\<lparr>pd_category := ?f (pd_category p)\<rparr> else p)"
      by (auto simp: d' write_category_def set_update_where)
    from ok p have l: "product_linked d p" "groups_ok p" by (auto simp: catalogue_ok_def)
    have "pd_category p' = (if ca_id (pd_category p) = i then ?f (pd_category p) else pd_category p)"
      "pd_eventId p' = pd_eventId p" "pd_targetStationId p' = pd_targetStationId p" "pd_optionGroups p' = pd_optionGroups p"
      by (simp_all add: eq)
    with l show ?thesis using groups_ok_cong [of p' p] unfolding product_linked_def st1 cats by auto
  qed
  have "station_in d (ca_eventId x) (ca_targetStationId x)" if "x \<in> set (t_categories d')" for x
    using that ok st only unfolding cats by (auto simp: catalogue_ok_def)
  then have "catalogue_ok d'" using ok prod ids by (simp add: catalogue_ok_def st1)
  moreover have "catalogue_ids d' = catalogue_ids d"
  proof -
    have "(\<Union>p \<in> set (t_products d'). stored_ids (pd_optionGroups p)) = \<Union> (stored_ids ` set (map pd_optionGroups (t_products d')))"
      by simp
    moreover have "pd_id ` set (t_products d') = pd_id ` set (t_products d)" "ca_id ` set (t_categories d') = ca_id ` set (t_categories d)"
      using arg_cong [OF ids(1), of set] arg_cong [OF ids(2), of set] by simp_all
    ultimately show ?thesis unfolding catalogue_ids_def ids(3) by simp
  qed
  moreover have "serial d' = serial d" by (simp add: d' write_category_def)
  ultimately show ?thesis using inv by (simp add: catalogue_inv_def)
qed

end
