(* ===== verification/VO_Cart_Laws.thy ===== *)
theory VO_Cart_Laws
  imports VO_Cart VO_Product_Laws VO_Order_Laws
begin

text \<open>
  Laws of selling in the browser: the dialog submits only selections the backend accepts, a line of the cart costs
  what the backend books, the cart counts pieces per composition, the tiles' prices, and what the split dialog asks for.
\<close>

section \<open>Products as they are listed\<close>

lemma mset_order_options [simp]: "mset (order_options e os) = mset os"
  by (simp add: order_options_def)

lemma set_order_options [simp]: "set (order_options e os) = set os"
  by (rule mset_eq_setD) simp

definition listed_group :: "env \<Rightarrow> option_group \<Rightarrow> option_group" where
  "listed_group e g = g\<lparr>og_options := order_options e (filter op_isActive (og_options g))\<rparr>"

definition listed :: "env \<Rightarrow> product \<Rightarrow> product" where
  "listed e p = with_options e op_isActive p"

lemma listed_group_simps [simp]:
  "og_id (listed_group e g) = og_id g" "og_name (listed_group e g) = og_name g" "og_minSelect (listed_group e g) = og_minSelect g"
  "og_maxSelect (listed_group e g) = og_maxSelect g" "og_priceMode (listed_group e g) = og_priceMode g"
  "og_selectionType (listed_group e g) = og_selectionType g" "og_isRequired (listed_group e g) = og_isRequired g"
  "og_quickSaleTiles (listed_group e g) = og_quickSaleTiles g"
  "set (og_options (listed_group e g)) = {x \<in> set (og_options g). op_isActive x}"
  "group_wf (listed_group e g) = group_wf g"
  "cart_option_of (listed_group e g) = cart_option_of g"
  by (auto simp: listed_group_def group_wf_def is_absolute_def cart_option_of_def fun_eq_iff)

lemma mset_listed_groups: "mset (pd_optionGroups (listed e p)) = mset (map (listed_group e) (pd_optionGroups p))"
proof -
  have "listed_group e = (\<lambda>g. g\<lparr>og_options := order_options e (filter op_isActive (og_options g))\<rparr>)"
    by (simp add: fun_eq_iff listed_group_def)
  then show ?thesis by (simp add: listed_def with_options_def order_groups_def)
qed

lemma set_listed_groups: "set (pd_optionGroups (listed e p)) = listed_group e ` set (pd_optionGroups p)"
  using arg_cong [OF mset_listed_groups [of e p], of set_mset] by simp

lemma listed_simps [simp]:
  "pd_id (listed e p) = pd_id p" "pd_price (listed e p) = pd_price p" "pd_eventId (listed e p) = pd_eventId p"
  "pd_deposit (listed e p) = pd_deposit p" "pd_category (listed e p) = pd_category p"
  "pd_manualAvailability (listed e p) = pd_manualAvailability p" "pd_name (listed e p) = pd_name p"
  by (simp_all add: listed_def with_options_def)

lemma distinct_listed_groups: "distinct (map og_id (pd_optionGroups (listed e p))) = distinct (map og_id (pd_optionGroups p))"
proof -
  have "mset (map og_id (pd_optionGroups (listed e p))) = mset (map og_id (map (listed_group e) (pd_optionGroups p)))"
    using mset_listed_groups [of e p] by (metis mset_map)
  then show ?thesis using mset_eq_imp_distinct_iff [of "map og_id (pd_optionGroups (listed e p))"] by (simp add: comp_def)
qed

lemma deposit_agrees: "resolveProductDeposit p = resolveDeposit p"
  by (simp add: resolveProductDeposit_def resolveDeposit_def split: option.split)

lemma listed_deposit [simp]: "resolveProductDeposit (listed e p) = resolveProductDeposit p"
  by (simp add: resolveProductDeposit_def)

section \<open>The dialog\<close>

lemma selected_ids_set [simp]: "selected_ids (js_set k v m) g = (if g = k then v else selected_ids m g)"
  by (simp add: selected_ids_def)

lemma selected_ids_Nil [simp]: "selected_ids [] g = []"
  by (simp add: selected_ids_def)

definition group_selection_ok :: "selections \<Rightarrow> option_group \<Rightarrow> bool" where
  "group_selection_ok sel g \<longleftrightarrow> distinct (selected_ids sel (og_id g)) \<and>
     set (selected_ids sel (og_id g)) \<subseteq> op_id ` set (og_options g) \<and>
     (case og_maxSelect g of None \<Rightarrow> True | Some m \<Rightarrow> int (length (selected_ids sel (og_id g))) \<le> m)"

definition selections_ok :: "product \<Rightarrow> selections \<Rightarrow> bool" where
  "selections_ok q sel \<longleftrightarrow> (\<forall>g \<in> set (pd_optionGroups q). group_selection_ok sel g)"

text \<open>What a user can click together: the dialog shows the active options of every group.\<close>

inductive dialog :: "product \<Rightarrow> selections \<Rightarrow> selections \<Rightarrow> bool" for q :: product and sel0 :: selections where
  opened: "dialog q sel0 sel0"
| clicked: "dialog q sel0 sel \<Longrightarrow> g \<in> set (pd_optionGroups q) \<Longrightarrow> x \<in> set (active_options g) \<Longrightarrow>
    dialog q sel0 (toggleOption g x sel)"

lemma toggle_other: "og_id h \<noteq> og_id g \<Longrightarrow> group_selection_ok (toggleOption g x sel) h = group_selection_ok sel h"
proof -
  assume "og_id h \<noteq> og_id g"
  then have "selected_ids (toggleOption g x sel) (og_id h) = selected_ids sel (og_id h)"
    by (auto simp: toggleOption_def Let_def)
  then show ?thesis by (simp add: group_selection_ok_def split: option.split)
qed

lemma toggle_group:
  assumes ok: "group_selection_ok sel g" and x: "x \<in> set (og_options g)" and wf: "group_wf g"
  shows "group_selection_ok (toggleOption g x sel) g"
proof (cases "og_selectionType g")
  case SINGLE
  with wf have "og_maxSelect g = Some 1" by (simp add: group_wf_def)
  with SINGLE x show ?thesis by (auto simp: group_selection_ok_def toggleOption_def Let_def)
next
  case MULTIPLE
  have len: "int (length (filter (\<lambda>i. i \<noteq> op_id x) (selected_ids sel (og_id g)))) \<le> int (length (selected_ids sel (og_id g)))"
    by simp
  show ?thesis
  proof (cases "op_id x \<in> set (selected_ids sel (og_id g))")
    case True
    with MULTIPLE ok show ?thesis
      by (auto simp: group_selection_ok_def toggleOption_def Let_def split: option.splits intro: order_trans [OF len])
  next
    case False
    with MULTIPLE ok x show ?thesis by (auto simp: group_selection_ok_def toggleOption_def Let_def split: option.splits)
  qed
qed

lemma dialog_keeps_ok:
  assumes "dialog q sel0 sel" and "selections_ok q sel0"
    and d: "distinct (map og_id (pd_optionGroups q))" and wf: "\<forall>g \<in> set (pd_optionGroups q). group_wf g"
  shows "selections_ok q sel"
  using assms(1)
proof (induction rule: dialog.induct)
  case opened
  show ?case by (rule assms(2))
next
  case (clicked sel g x)
  have x: "x \<in> set (og_options g)" using clicked.hyps(3) by (simp add: active_options_def)
  show ?case
    unfolding selections_ok_def
  proof
    fix h assume h: "h \<in> set (pd_optionGroups q)"
    show "group_selection_ok (toggleOption g x sel) h"
    proof (cases "og_id h = og_id g")
      case True
      with d h clicked.hyps(2) have "h = g" by (auto simp: distinct_map dest: inj_onD)
      with clicked.IH x wf h show ?thesis by (auto simp: selections_ok_def intro: toggle_group)
    next
      case False
      with clicked.IH h show ?thesis by (simp add: selections_ok_def toggle_other)
    qed
  qed
qed

text \<open>\<open>offered p opts\<close>: options of the product \<open>p\<close> the backend accepts together.\<close>

definition offered :: "product \<Rightarrow> cart_option list \<Rightarrow> bool" where
  "offered p opts \<longleftrightarrow> valid_selection p (map so_id opts) \<and>
     (\<forall>o' \<in> set opts. \<exists>(x, g) \<in> set (product_options p). op_isActive x \<and> o' = cart_option_of g x)"

lemma option_group_unique:
  assumes "product_wf p" and "(x, g) \<in> set (product_options p)" and "(y, h) \<in> set (product_options p)" and "op_id x = op_id y"
  shows "x = y \<and> g = h"
proof -
  from assms(1) have "inj_on (op_id \<circ> fst) (set (product_options p))" by (simp add: product_wf_def distinct_map)
  then have "(x, g) = (y, h)" by (rule inj_onD) (use assms(2-4) in simp_all)
  then show ?thesis by simp
qed

lemma map_filter_mem: "y \<in> set (List.map_filter f xs) \<Longrightarrow> \<exists>x \<in> set xs. f x = Some y"
  by (auto simp: List.map_filter_def)

lemma selected_in_ids:
  assumes "set (selected_ids sel (og_id g)) \<subseteq> op_id ` set (og_options g)"
  shows "map so_id (selected_in sel g) = selected_ids sel (og_id g)"
    and "o' \<in> set (selected_in sel g) \<Longrightarrow> \<exists>x \<in> set (og_options g). o' = cart_option_of g x"
proof -
  have "map so_id (List.map_filter (\<lambda>i. map_option (cart_option_of g) (find (\<lambda>x. op_id x = i) (og_options g))) ids) = ids"
    if "set ids \<subseteq> op_id ` set (og_options g)" for ids
    using that
  proof (induction ids)
    case Nil
    then show ?case by (simp add: map_filter_simps)
  next
    case (Cons i ids)
    then obtain x where "find (\<lambda>x. op_id x = i) (og_options g) = Some x"
      by (cases "find (\<lambda>x. op_id x = i) (og_options g)") (auto simp: find_None_iff_all)
    moreover from this have "op_id x = i" by (auto dest: find_Some_mem)
    ultimately show ?case using Cons by (simp add: map_filter_simps cart_option_of_def)
  qed
  with assms show "map so_id (selected_in sel g) = selected_ids sel (og_id g)" by (simp add: selected_in_def)
  show "o' \<in> set (selected_in sel g) \<Longrightarrow> \<exists>x \<in> set (og_options g). o' = cart_option_of g x"
    by (auto simp: selected_in_def dest!: map_filter_mem find_Some_mem)
qed

lemma row_option_ids_perm: "mset xs = mset ys \<Longrightarrow> mset (row_option_ids xs) = mset (row_option_ids ys)"
proof -
  have sums: "mset (row_option_ids zs) = sum_mset (image_mset (\<lambda>g. mset (map op_id (og_options g))) (mset zs))" for zs
    by (induction zs) simp_all
  assume "mset xs = mset ys"
  then show ?thesis unfolding sums by simp
qed

lemma set_row_option_ids: "set (row_option_ids gs) = (\<Union>g \<in> set gs. op_id ` set (og_options g))"
  by (induction gs) auto

lemma listed_group_ids:
  "distinct (map op_id (og_options (listed_group e g))) = distinct (map op_id (filter op_isActive (og_options g)))"
proof -
  have "mset (map op_id (og_options (listed_group e g))) = mset (map op_id (filter op_isActive (og_options g)))"
    by (simp add: listed_group_def)
  then show ?thesis by (rule mset_eq_imp_distinct_iff)
qed

lemma distinct_listed_ids:
  assumes "distinct (row_option_ids (pd_optionGroups p))"
  shows "distinct (row_option_ids (pd_optionGroups (listed e p)))"
proof -
  have "distinct (row_option_ids (map (listed_group e) gs))" if "distinct (row_option_ids gs)" for gs
    using that
  proof (induction gs)
    case Nil
    then show ?case by simp
  next
    case (Cons g gs)
    have sub: "set (row_option_ids (map (listed_group e) gs)) \<subseteq> set (row_option_ids gs)"
      unfolding set_row_option_ids by auto
    have "op_id ` set (og_options (listed_group e g)) \<subseteq> op_id ` set (og_options g)" by auto
    with Cons sub show ?case by (auto simp: listed_group_ids distinct_map_filter simp del: listed_group_simps)
  qed
  with assms row_option_ids_perm [OF mset_listed_groups] show ?thesis by (metis mset_eq_imp_distinct_iff)
qed

lemma distinct_picks:
  assumes "distinct (row_option_ids gs)"
    and "\<And>g. g \<in> set gs \<Longrightarrow> distinct (f g) \<and> set (f g) \<subseteq> op_id ` set (og_options g)"
  shows "distinct (concat (map f gs))"
  using assms
proof (induction gs)
  case Nil
  then show ?case by simp
next
  case (Cons g gs)
  have sub: "set (concat (map f gs)) \<subseteq> set (row_option_ids gs)"
    using Cons.prems(2) by (auto simp: set_row_option_ids)
  have g: "distinct (f g)" "set (f g) \<subseteq> set (map op_id (og_options g))" using Cons.prems(2) [of g] by auto
  have "distinct (concat (map f gs))" by (rule Cons.IH) (use Cons.prems in auto)
  moreover have "set (f g) \<inter> set (concat (map f gs)) = {}" using Cons.prems(1) g(2) sub by auto
  ultimately show ?case using g(1) by simp
qed

lemma selected_count_in_group:
  assumes "distinct (map op_id os)" and "distinct l" and "set l \<subseteq> op_id ` set os"
  shows "count_where (\<lambda>x. op_id x \<in> set l) os = length l"
proof -
  have inj: "inj_on op_id (set os)" and d: "distinct os" using assms(1) by (simp_all add: distinct_map)
  have "count_where (\<lambda>x. op_id x \<in> set l) os = card {x \<in> set os. op_id x \<in> set l}"
    using d by (simp add: count_where_def distinct_card [symmetric])
  also have "\<dots> = card (op_id ` {x \<in> set os. op_id x \<in> set l})"
    by (rule card_image [symmetric]) (rule inj_on_subset [OF inj], auto)
  also have "op_id ` {x \<in> set os. op_id x \<in> set l} = set l" using assms(3) by auto
  finally show ?thesis using assms(2) by (simp add: distinct_card)
qed

lemma group_option_ids: "distinct (row_option_ids gs) \<Longrightarrow> g \<in> set gs \<Longrightarrow> distinct (map op_id (og_options g))"
  by (induction gs) auto

text \<open>What the main button hands over is a selection the backend accepts, made of options of the product.\<close>

lemma dialog_submits_offered:
  assumes wf: "product_wf p" and ok: "selections_ok (listed e p) sel"
    and run: "handleMainButtonClick (listed e p) sel = Some opts"
  shows "offered p opts"
proof -
  let ?q = "listed e p" and ?S = "\<lambda>g. selected_ids sel (og_id g)"
  from run have opts: "opts = concat (map (selected_in sel) (pd_optionGroups ?q))"
    and full: "missingRequiredGroups ?q sel = []"
    by (auto simp: handleMainButtonClick_def selectedOptions_def split: if_splits)
  have G: "group_selection_ok sel g" if "g \<in> set (pd_optionGroups ?q)" for g using ok that by (simp add: selections_ok_def)
  note G = G [unfolded group_selection_ok_def]
  have ids: "map so_id opts = concat (map ?S (pd_optionGroups ?q))"
    unfolding opts map_concat map_map comp_def
    by (rule arg_cong [of _ _ concat], rule map_cong [OF refl]) (use G selected_in_ids(1) in blast)
  have dp: "distinct (row_option_ids (pd_optionGroups p))" using wf by (simp add: product_wf_def product_option_ids)
  have dist: "distinct (map so_id opts)"
    unfolding ids by (rule distinct_picks [OF distinct_listed_ids [OF dp]]) (use G in blast)
  have mem: "\<exists>(x, g) \<in> set (product_options p). op_isActive x \<and> o' = cart_option_of g x" if o': "o' \<in> set opts" for o'
  proof -
    from o' opts obtain g' where g': "g' \<in> set (pd_optionGroups ?q)" "o' \<in> set (selected_in sel g')" by auto
    from g'(1) obtain g where g: "g \<in> set (pd_optionGroups p)" "g' = listed_group e g" by (auto simp: set_listed_groups)
    from selected_in_ids(2) [of sel g' o'] G [OF g'(1)] g'(2) obtain x where "x \<in> set (og_options g')" "o' = cart_option_of g' x" by blast
    with g show ?thesis by (intro bexI [of _ "(x, g)"]) (auto simp: product_options_group)
  qed
  have active: "\<forall>i \<in> set (map so_id opts). \<exists>(x, g) \<in> set (product_options p). op_id x = i \<and> op_isActive x"
    using mem by (force simp: cart_option_of_def)
  have counts: "int (count_where (\<lambda>x. op_id x \<in> set (map so_id opts)) (og_options g)) = int (length (?S g))"
    if g: "g \<in> set (pd_optionGroups p)" for g
  proof -
    have g': "listed_group e g \<in> set (pd_optionGroups ?q)" using g by (simp add: set_listed_groups)
    have "op_id x \<in> set (map so_id opts) \<longleftrightarrow> op_id x \<in> set (?S g)" if x: "x \<in> set (og_options g)" for x
    proof
      assume "op_id x \<in> set (map so_id opts)"
      then obtain h where h: "h \<in> set (pd_optionGroups p)" "op_id x \<in> set (?S h)"
        unfolding ids by (auto simp: set_listed_groups)
      have h': "listed_group e h \<in> set (pd_optionGroups ?q)" using h(1) by (simp add: set_listed_groups)
      from G [OF h'] h(2) obtain y where "y \<in> set (og_options h)" "op_id y = op_id x" by auto
      with option_group_unique [OF wf, of x g y h] g h(1) x have "g = h" by (auto simp: product_options_group)
      with h(2) show "op_id x \<in> set (?S g)" by simp
    next
      assume "op_id x \<in> set (?S g)"
      with g' show "op_id x \<in> set (map so_id opts)" unfolding ids by (auto intro!: bexI [of _ "listed_group e g"])
    qed
    then have "count_where (\<lambda>x. op_id x \<in> set (map so_id opts)) (og_options g) = count_where (\<lambda>x. op_id x \<in> set (?S g)) (og_options g)"
      unfolding count_where_def by (metis (mono_tags, lifting) filter_cong)
    also have "\<dots> = length (?S g)"
      by (rule selected_count_in_group [OF group_option_ids [OF dp g]]) (use G [OF g'] in auto)
    finally show ?thesis by simp
  qed
  have "og_minSelect g \<le> int (length (?S g)) \<and> (case og_maxSelect g of None \<Rightarrow> True | Some m \<Rightarrow> int (length (?S g)) \<le> m)"
    if g: "g \<in> set (pd_optionGroups p)" for g
  proof -
    have g': "listed_group e g \<in> set (pd_optionGroups ?q)" using g by (simp add: set_listed_groups)
    with full have "\<not> int (length (?S g)) < og_minSelect g" by (auto simp: missingRequiredGroups_def filter_empty_conv)
    with G [OF g'] show ?thesis by (simp split: option.splits)
  qed
  with counts dist active have "valid_selection p (map so_id opts)" by (simp add: valid_selection_def Let_def)
  with mem show ?thesis by (simp add: offered_def)
qed

text \<open>Editing a line starts from the options it has.\<close>

lemma prefilled_ids: "selected_ids (prefilled opts) g = map so_id (filter (\<lambda>o'. so_groupId o' = g) opts)"
  by (induction opts rule: rev_induct) (auto simp: prefilled_def)

lemma prefilled_ok:
  assumes wf: "product_wf p" and off: "offered p opts"
  shows "selections_ok (listed e p) (prefilled opts)"
  unfolding selections_ok_def
proof
  fix g' assume "g' \<in> set (pd_optionGroups (listed e p))"
  then obtain g where g: "g \<in> set (pd_optionGroups p)" "g' = listed_group e g" by (auto simp: set_listed_groups)
  let ?l = "map so_id (filter (\<lambda>o'. so_groupId o' = og_id g) opts)" and ?ids = "map so_id opts"
  have val: "valid_selection p ?ids" using off by (simp add: offered_def)
  have ids: "distinct (map og_id (pd_optionGroups p))" using wf by (simp add: product_wf_def)
  have dist: "distinct ?l" using val by (simp add: valid_selection_def distinct_map_filter)
  have mem: "\<exists>x \<in> set (og_options g). op_isActive x \<and> op_id x = i" if i: "i \<in> set ?l" for i
  proof -
    from i obtain o' where o': "o' \<in> set opts" "so_groupId o' = og_id g" "so_id o' = i" by auto
    with off obtain x h where x: "(x, h) \<in> set (product_options p)" "op_isActive x" "o' = cart_option_of h x"
      by (auto simp: offered_def)
    then have "h \<in> set (pd_optionGroups p)" "x \<in> set (og_options h)" "og_id h = og_id g"
      using o'(2) by (auto simp: product_options_def cart_option_of_def)
    moreover from this ids g(1) have "h = g" by (auto simp: distinct_map dest: inj_onD)
    ultimately show ?thesis using x o'(3) by (auto simp: cart_option_of_def)
  qed
  have "length ?l \<le> count_where (\<lambda>x. op_id x \<in> set ?ids) (og_options g)"
  proof -
    have "set ?l \<subseteq> op_id ` set (filter (\<lambda>x. op_id x \<in> set ?ids) (og_options g))"
    proof
      fix i assume i: "i \<in> set ?l"
      from mem [OF i] obtain x where "x \<in> set (og_options g)" "op_id x = i" by blast
      moreover have "i \<in> set ?ids" using i by auto
      ultimately show "i \<in> op_id ` set (filter (\<lambda>x. op_id x \<in> set ?ids) (og_options g))" by auto
    qed
    then have "card (set ?l) \<le> card (set (filter (\<lambda>x. op_id x \<in> set ?ids) (og_options g)))"
      by (rule surj_card_le [OF finite_set])
    also have "\<dots> \<le> count_where (\<lambda>x. op_id x \<in> set ?ids) (og_options g)" unfolding count_where_def by (rule card_length)
    finally show ?thesis using distinct_card [OF dist] by simp
  qed
  moreover have "case og_maxSelect g of None \<Rightarrow> True | Some m \<Rightarrow> int (count_where (\<lambda>x. op_id x \<in> set ?ids) (og_options g)) \<le> m"
    using val g(1) by (auto simp: valid_selection_def Let_def split: option.split)
  ultimately have "case og_maxSelect g of None \<Rightarrow> True | Some m \<Rightarrow> int (length ?l) \<le> m"
    by (cases "og_maxSelect g") simp_all
  moreover have "set ?l \<subseteq> op_id ` set (og_options g')"
  proof
    fix i assume "i \<in> set ?l"
    from mem [OF this] obtain x where "x \<in> set (og_options g)" "op_isActive x" "i = op_id x" by blast
    then show "i \<in> op_id ` set (og_options g')" unfolding g(2) listed_group_simps by blast
  qed
  ultimately show "group_selection_ok (prefilled opts) g'"
    using dist unfolding group_selection_ok_def g(2) listed_group_simps prefilled_ids by blast
qed

section \<open>Prices\<close>

lemma listed_line_price [simp]: "line_price (listed e p) opts = line_price p opts"
  by (simp add: line_price_def cong: option.case_cong)

lemma pick_all: "\<forall>y \<in> set ys. \<exists>z \<in> A. y = F z \<Longrightarrow> \<exists>zs. ys = map F zs \<and> set zs \<subseteq> A"
proof (induction ys)
  case Nil
  then show ?case by simp
next
  case (Cons y ys)
  then obtain z zs where "z \<in> A" "y = F z" "ys = map F zs" "set zs \<subseteq> A" by auto
  then show ?case by (intro exI [of _ "z # zs"]) simp
qed

lemma find_filter: "find P xs = (case filter P xs of [] \<Rightarrow> None | x # _ \<Rightarrow> Some x)"
  by (induction xs) auto

text \<open>The price of a line is the backend's price of the position plus the deposit.\<close>

lemma line_price_is_reference:
  assumes wf: "product_wf p" and off: "offered p opts"
  shows "line_price p opts = reference_price p (map so_id opts) + resolveDeposit p"
proof -
  let ?F = "\<lambda>(x, g). cart_option_of g x" and ?abs = "filter (\<lambda>z. is_absolute (snd z))" and ?sur = "filter (\<lambda>z. \<not> is_absolute (snd z))"
  let ?ids = "map so_id opts"
  have "\<forall>o' \<in> set opts. \<exists>z \<in> set (product_options p). o' = ?F z"
  proof
    fix o' assume "o' \<in> set opts"
    with off obtain x g where "(x, g) \<in> set (product_options p)" "o' = cart_option_of g x" by (auto simp: offered_def)
    then show "\<exists>z \<in> set (product_options p). o' = ?F z" by (intro bexI [of _ "(x, g)"]) simp_all
  qed
  then obtain zs where zs: "opts = map ?F zs" "set zs \<subseteq> set (product_options p)" using pick_all [of opts _ ?F] by blast
  have ids: "map (op_id \<circ> fst) zs = ?ids" unfolding zs(1) by (auto simp: cart_option_of_def)
  have val: "valid_selection p ?ids" using off by (simp add: offered_def)
  have perm: "mset zs = mset (chosen p ?ids)"
    by (rule chosen_perm [OF _ ids _ zs(2)]) (use wf val in \<open>simp_all add: product_wf_def valid_selection_def\<close>)
  have a: "?abs zs = ?abs (chosen p ?ids)"
    by (rule single_filter_eq [symmetric]) (use perm absolute_count [OF wf val] in simp_all)
  have s: "sum_list (map (op_priceEffect \<circ> fst) (?sur zs)) = sum_list (map (op_priceEffect \<circ> fst) (?sur (chosen p ?ids)))"
    by (rule sum_list_mset_map) (use perm in simp)
  have mode: "so_priceMode (?F z) = ABSOLUTE \<longleftrightarrow> is_absolute (snd z)" "so_priceEffect (?F z) = (op_priceEffect \<circ> fst) z" for z
    by (cases z, simp add: cart_option_of_def is_absolute_def)+
  have base: "(case find (\<lambda>o'. so_priceMode o' = ABSOLUTE) opts of Some o' \<Rightarrow> so_priceEffect o' | None \<Rightarrow> pd_price p)
      = (case ?abs zs of [] \<Rightarrow> pd_price p | (x, _) # _ \<Rightarrow> op_priceEffect x)"
    unfolding find_filter zs(1) filter_map comp_def mode by (auto simp: mode(2) split: list.split)
  have "sum_list (map so_priceEffect (filter (\<lambda>o'. so_priceMode o' \<noteq> ABSOLUTE) opts)) = sum_list (map (op_priceEffect \<circ> fst) (?sur zs))"
    unfolding zs(1) filter_map comp_def mode map_map mode(2) by simp
  with base s show ?thesis unfolding line_price_def reference_price_def a deposit_agrees by simp
qed

section \<open>The cart\<close>

definition item_ok :: "cart_item \<Rightarrow> bool" where
  "item_ok i \<longleftrightarrow> 1 \<le> ci_quantity i \<and>
     buildCartLine (sp_product (ci_product i)) (Some (ci_selectedOptions i)) = (ci_id i, ci_finalPrice i, ci_selectedOptions i)"

definition refund_ok :: "int \<Rightarrow> bool" where
  "refund_ok n \<longleftrightarrow> 0 \<le> n \<and> n \<le> int32_max"

text \<open>\<open>allowed p opts\<close>: the options \<open>opts\<close> may be chosen for \<open>p\<close>.\<close>

definition cart_ok :: "(product_facade \<Rightarrow> cart_option list \<Rightarrow> bool) \<Rightarrow> cart \<Rightarrow> bool" where
  "cart_ok allowed c \<longleftrightarrow> distinct (map ci_id (ct_items c)) \<and>
     (\<forall>i \<in> set (ct_items c). item_ok i \<and> allowed (ci_product i) (ci_selectedOptions i)) \<and>
     ct_total c = recalcTotal (ct_items c) (ct_depositRefundCount c) (ct_depositRefundUnitPrice c) \<and>
     refund_ok (ct_depositRefundCount c) \<and> refund_ok (ct_depositRefundUnitPrice c)"

definition line_key :: "product \<Rightarrow> cart_option list \<Rightarrow> string" where
  "line_key p opts = join ''|'' (pd_id p # sort (map so_id opts))"

lemma buildCartLine_Some [simp]: "buildCartLine p (Some opts) = (line_key p opts, line_price p opts, opts)"
  by (simp add: buildCartLine_def line_key_def)

lemma buildCartLine_options: "buildCartLine p sel = buildCartLine p (Some (case sel of None \<Rightarrow> [] | Some os \<Rightarrow> os))"
  by (cases sel) (simp_all add: buildCartLine_def)

lemma item_ok_iff:
  "item_ok i \<longleftrightarrow> 1 \<le> ci_quantity i \<and> ci_id i = line_key (sp_product (ci_product i)) (ci_selectedOptions i) \<and>
     ci_finalPrice i = line_price (sp_product (ci_product i)) (ci_selectedOptions i)"
  by (auto simp: item_ok_def)

text \<open>What is in the cart, by composition: the abstract cart is a bag of keys.\<close>

definition pieces :: "cart \<Rightarrow> string \<Rightarrow> int" where
  "pieces c k = (case find_item k (ct_items c) of None \<Rightarrow> 0 | Some i \<Rightarrow> ci_quantity i)"

lemma with_items_simps [simp]:
  "ct_items (with_items items c) = items"
  "ct_depositRefundCount (with_items items c) = ct_depositRefundCount c"
  "ct_depositRefundUnitPrice (with_items items c) = ct_depositRefundUnitPrice c"
  "ct_total (with_items items c) = recalcTotal items (ct_depositRefundCount c) (ct_depositRefundUnitPrice c)"
  by (simp_all add: with_items_def)

lemma find_item_Some: "find_item k items = Some i \<Longrightarrow> i \<in> set items \<and> ci_id i = k"
  by (auto simp: find_item_def dest: find_Some_mem)

lemma find_item_None: "find_item k items = None \<longleftrightarrow> k \<notin> ci_id ` set items"
  by (auto simp: find_item_def find_None_iff_all)

lemma find_item_filter: "find_item k (filter (\<lambda>x. ci_id x \<noteq> i) items) = (if k = i then None else find_item k items)"
  by (induction items) (auto simp: find_item_def)

lemma find_item_update:
  "(\<And>x. ci_id x = i \<Longrightarrow> ci_id (f x) = i) \<Longrightarrow>
   find_item k (update_where (\<lambda>x. ci_id x = i) f items) = (if k = i then map_option f (find_item k items) else find_item k items)"
  by (induction items) (auto simp: find_item_def update_where_def)

lemma find_item_rename:
  "k' \<noteq> i \<Longrightarrow> find_item k' items = None \<Longrightarrow> (\<And>x. ci_id (f x) = k') \<Longrightarrow>
   find_item k (update_where (\<lambda>x. ci_id x = i) f items) =
     (if k = i then None else if k = k' then map_option f (find_item i items) else find_item k items)"
  by (induction items) (auto simp: find_item_def update_where_def split: if_splits)

lemma find_item_append: "find_item k (xs @ [y]) = (case find_item k xs of None \<Rightarrow> if ci_id y = k then Some y else None | Some x \<Rightarrow> Some x)"
  by (induction xs) (auto simp: find_item_def)

lemma add_quantity_simps [simp]:
  "ci_id (add_quantity n i) = ci_id i" "ci_quantity (add_quantity n i) = ci_quantity i + n"
  "ci_product (add_quantity n i) = ci_product i" "ci_selectedOptions (add_quantity n i) = ci_selectedOptions i"
  "ci_finalPrice (add_quantity n i) = ci_finalPrice i"
  by (simp_all add: add_quantity_def)

lemma cart_ok_with_items:
  "cart_ok allowed c \<Longrightarrow> distinct (map ci_id items) \<Longrightarrow> \<forall>i \<in> set items. item_ok i \<and> allowed (ci_product i) (ci_selectedOptions i) \<Longrightarrow>
   cart_ok allowed (with_items items c)"
  by (simp add: cart_ok_def)

lemma sanitize_ok: "refund_ok (sanitizeNonNegativeInt32 v)"
  by (auto simp: refund_ok_def sanitizeNonNegativeInt32_def split: option.split)

lemma updated_items_ok:
  assumes "cart_ok allowed c" and "\<And>x. ci_id x = i \<Longrightarrow> x \<in> set (ct_items c) \<Longrightarrow>
    ci_id (f x) = i \<and> item_ok (f x) \<and> allowed (ci_product (f x)) (ci_selectedOptions (f x))"
  shows "cart_ok allowed (with_items (update_where (\<lambda>x. ci_id x = i) f (ct_items c)) c)"
proof (rule cart_ok_with_items [OF assms(1)])
  have "map ci_id (update_where (\<lambda>x. ci_id x = i) f (ct_items c)) = map ci_id (ct_items c)"
    using assms(2) by (auto simp: update_where_def)
  with assms(1) show "distinct (map ci_id (update_where (\<lambda>x. ci_id x = i) f (ct_items c)))" by (simp add: cart_ok_def)
  show "\<forall>x \<in> set (update_where (\<lambda>x. ci_id x = i) f (ct_items c)). item_ok x \<and> allowed (ci_product x) (ci_selectedOptions x)"
    using assms by (auto simp: set_update_where cart_ok_def)
qed

lemma filtered_items_ok: "cart_ok allowed c \<Longrightarrow> cart_ok allowed (with_items (filter P (ct_items c)) c)"
  by (rule cart_ok_with_items) (auto simp: cart_ok_def distinct_map_filter)

lemma addItem_ok:
  assumes ok: "cart_ok allowed c" and al: "allowed p (case sel of None \<Rightarrow> [] | Some os \<Rightarrow> os)"
  shows "cart_ok allowed (addItem p sel c)"
proof -
  define os where "os = (case sel of None \<Rightarrow> [] | Some os \<Rightarrow> os)"
  let ?k = "line_key (sp_product p) os"
  have run: "addItem p sel c = with_items (case find_item ?k (ct_items c) of
         Some _ \<Rightarrow> update_where (\<lambda>x. ci_id x = ?k) (add_quantity 1) (ct_items c)
       | None \<Rightarrow> ct_items c @ [\<lparr>ci_id = ?k, ci_product = p, ci_selectedOptions = os, ci_quantity = 1,
           ci_finalPrice = line_price (sp_product p) os\<rparr>]) c"
    unfolding addItem_def buildCartLine_options [of _ sel] os_def [symmetric] by simp
  show ?thesis
  proof (cases "find_item ?k (ct_items c)")
    case None
    then have "?k \<notin> ci_id ` set (ct_items c)" by (simp add: find_item_None)
    with ok al None show ?thesis
      unfolding run by (simp add: cart_ok_with_items) (auto simp: cart_ok_def item_ok_iff os_def intro!: cart_ok_with_items [OF ok])
  next
    case (Some x)
    show ?thesis
      unfolding run Some option.case by (rule updated_items_ok [OF ok]) (use ok in \<open>auto simp: cart_ok_def item_ok_iff\<close>)
  qed
qed

lemma distinct_rename:
  assumes "distinct (map ci_id items)" and "k' \<notin> ci_id ` set items" and "\<And>x. ci_id (f x) = k'"
  shows "distinct (map ci_id (update_where (\<lambda>x. ci_id x = i) f items))"
proof -
  have m: "map ci_id (update_where (\<lambda>x. ci_id x = i) f items) = map (\<lambda>j. if j = i then k' else j) (map ci_id items)"
    using assms(3) by (simp add: update_where_def)
  have "inj_on (\<lambda>j. if j = i then k' else j) (set (map ci_id items))"
    using assms(2) by (auto simp: inj_on_def split: if_splits)
  with assms(1) show ?thesis unfolding m by (simp only: distinct_map)
qed

lemma updateItemOptions_ok:
  assumes ok: "cart_ok allowed c" and al: "\<And>x. find_item i (ct_items c) = Some x \<Longrightarrow> allowed (ci_product x) opts"
  shows "cart_ok allowed (updateItemOptions i opts c)"
proof (cases "find_item i (ct_items c)")
  case None
  with ok show ?thesis by (simp add: updateItemOptions_def)
next
  case (Some cur)
  let ?p = "sp_product (ci_product cur)" and ?k = "line_key (sp_product (ci_product cur)) opts"
  from find_item_Some [OF Some] have cur: "cur \<in> set (ct_items c)" "ci_id cur = i" by auto
  have only: "x = cur" if "x \<in> set (ct_items c)" "ci_id x = i" for x
    using ok that cur unfolding cart_ok_def by (metis distinct_map inj_onD)
  from ok cur(1) have q: "1 \<le> ci_quantity cur" by (auto simp: cart_ok_def item_ok_iff)
  show ?thesis
  proof (cases "?k = i")
    case True
    then show ?thesis
      unfolding updateItemOptions_def Some option.case buildCartLine_Some prod.case
      by (simp, intro updated_items_ok [OF ok]) (use only cur q al [OF Some] in \<open>auto simp: item_ok_iff\<close>)
  next
    case False
    show ?thesis
    proof (cases "find_item ?k (ct_items c)")
      case None
      then have new: "?k \<notin> ci_id ` set (ct_items c)" by (simp add: find_item_None)
      let ?f = "\<lambda>x. x\<lparr>ci_id := ?k, ci_selectedOptions := opts, ci_finalPrice := line_price ?p opts\<rparr>"
      have run: "updateItemOptions i opts c = with_items (update_where (\<lambda>x. ci_id x = i) ?f (ct_items c)) c"
        using False Some None by (simp add: updateItemOptions_def)
      have "distinct (map ci_id (update_where (\<lambda>x. ci_id x = i) ?f (ct_items c)))"
        by (rule distinct_rename [where k' = ?k]) (use ok new in \<open>simp_all add: cart_ok_def\<close>)
      moreover have "item_ok x \<and> allowed (ci_product x) (ci_selectedOptions x)"
        if "x \<in> set (update_where (\<lambda>x. ci_id x = i) ?f (ct_items c))" for x
        using update_where_mem [OF that] only q al [OF Some] ok by (auto simp: cart_ok_def item_ok_iff)
      ultimately show ?thesis unfolding run using new by (intro cart_ok_with_items [OF ok]) auto
    next
      case (Some y)
      let ?d = "with_items (filter (\<lambda>x. ci_id x \<noteq> i) (ct_items c)) c"
      have d: "cart_ok allowed ?d" by (rule filtered_items_ok [OF ok])
      have "updateItemOptions i opts c = with_items (update_where (\<lambda>x. ci_id x = ?k) (add_quantity (ci_quantity cur)) (ct_items ?d)) ?d"
        using False Some \<open>find_item i (ct_items c) = Some cur\<close> by (simp add: updateItemOptions_def with_items_def)
      then show ?thesis by (simp only:) (rule updated_items_ok [OF d], use d q in \<open>auto simp: cart_ok_def item_ok_iff\<close>)
    qed
  qed
qed

lemma removeItem_ok: "cart_ok allowed c \<Longrightarrow> cart_ok allowed (removeItem i c)"
proof (cases "case find_item i (ct_items c) of None \<Rightarrow> False | Some x \<Rightarrow> 1 < ci_quantity x")
  case True
  assume ok: "cart_ok allowed c"
  from True obtain x where x: "find_item i (ct_items c) = Some x" "1 < ci_quantity x" by (auto split: option.splits)
  have only: "y = x" if "y \<in> set (ct_items c)" "ci_id y = i" for y
    using ok that find_item_Some [OF x(1)] unfolding cart_ok_def by (metis distinct_map inj_onD)
  have "removeItem i c = with_items (update_where (\<lambda>x. ci_id x = i) (add_quantity (- 1)) (ct_items c)) c"
    unfolding removeItem_def using True by (simp only: if_True)
  then show ?thesis
    by (simp only:) (rule updated_items_ok [OF ok], use ok only x(2) in \<open>fastforce simp: cart_ok_def item_ok_iff\<close>)
next
  case False
  assume ok: "cart_ok allowed c"
  show ?thesis unfolding removeItem_def using False filtered_items_ok [OF ok] by (simp only: if_False)
qed

lemma setDepositRefund_ok:
  "cart_ok allowed c \<Longrightarrow> cart_ok allowed (setDepositRefundCount v c)"
  "cart_ok allowed c \<Longrightarrow> cart_ok allowed (setDepositRefundUnitPrice v c)"
  using sanitize_ok by (simp_all add: cart_ok_def setDepositRefundCount_def setDepositRefundUnitPrice_def Let_def)

text \<open>Everything the order page does to the cart.\<close>

inductive shopping :: "(product_facade \<Rightarrow> cart_option list \<Rightarrow> bool) \<Rightarrow> cart \<Rightarrow> cart \<Rightarrow> bool"
  for allowed :: "product_facade \<Rightarrow> cart_option list \<Rightarrow> bool" where
  product_clicked: "handleProductClick p c = Added c' \<Longrightarrow> allowed p [] \<Longrightarrow> shopping allowed c c'"
| options_added: "allowed p opts \<Longrightarrow> shopping allowed c (handleOptionsSubmit None p opts c)"
| options_changed: "i \<in> set (ct_items c) \<Longrightarrow> allowed (ci_product i) opts \<Longrightarrow>
    shopping allowed c (handleOptionsSubmit (Some i) p opts c)"
| piece_removed: "shopping allowed c (removeItem k c)"
| line_deleted: "shopping allowed c (deleteItem k c)"
| refund_counted: "shopping allowed c (setDepositRefundCount v c)"
| refund_priced: "shopping allowed c (setDepositRefundUnitPrice v c)"
| price_fitted: "shopping allowed c (fit_unit_price products c)"
| count_fitted: "shopping allowed c (fit_refund_count c)"
| cleared: "shopping allowed c (clearCart c)"

lemma shopping_ok: "shopping allowed c c' \<Longrightarrow> cart_ok allowed c \<Longrightarrow> cart_ok allowed c'"
proof (induction rule: shopping.induct)
  case (product_clicked p c c')
  then have "c' = addItem p None c" by (auto simp: handleProductClick_def split: if_splits)
  with product_clicked addItem_ok [of allowed c p None] show ?case by simp
next
  case (options_added p opts c)
  then show ?case using addItem_ok [of allowed c p "Some opts"] by (simp add: handleOptionsSubmit_def)
next
  case (options_changed i c opts p)
  have "x = i" if "find_item (ci_id i) (ct_items c) = Some x" for x
    using options_changed(1,3) find_item_Some [OF that] unfolding cart_ok_def by (metis distinct_map inj_onD)
  with options_changed show ?case by (auto simp: handleOptionsSubmit_def intro!: updateItemOptions_ok)
next
  case (line_deleted c k)
  then show ?case unfolding deleteItem_def by (rule filtered_items_ok)
next
  case (price_fitted c products)
  then show ?case by (simp add: fit_unit_price_def Let_def setDepositRefund_ok)
next
  case (count_fitted c)
  then show ?case by (simp add: fit_refund_count_def Let_def setDepositRefund_ok)
next
  case (cleared c)
  then show ?case by (simp add: cart_ok_def clearCart_def recalcTotal_def items_total_def refund_ok_def)
qed (simp_all add: removeItem_ok setDepositRefund_ok)

lemma empty_cart_ok: "cart_ok allowed empty_cart"
  by (simp add: cart_ok_def empty_cart_def recalcTotal_def items_total_def refund_ok_def)

lemma shopping_run_ok: "(shopping allowed)\<^sup>*\<^sup>* empty_cart c \<Longrightarrow> cart_ok allowed c"
  by (induction rule: rtranclp_induct) (auto simp: empty_cart_ok intro: shopping_ok)

section \<open>The cart as a bag of pieces\<close>

lemma pieces_with_items: "pieces (with_items items c) k = (case find_item k items of None \<Rightarrow> 0 | Some i \<Rightarrow> ci_quantity i)"
  by (simp add: pieces_def)

lemma pieces_addItem:
  "pieces (addItem p sel c) = (pieces c)(line_key (sp_product p) (case sel of None \<Rightarrow> [] | Some os \<Rightarrow> os) :=
     pieces c (line_key (sp_product p) (case sel of None \<Rightarrow> [] | Some os \<Rightarrow> os)) + 1)"
proof -
  define os where "os = (case sel of None \<Rightarrow> [] | Some os \<Rightarrow> os)"
  let ?k = "line_key (sp_product p) os"
  have "pieces (addItem p sel c) k = (if k = ?k then pieces c ?k + 1 else pieces c k)" for k
    unfolding addItem_def buildCartLine_options [of _ sel] os_def [symmetric]
    by (cases "find_item ?k (ct_items c)")
      (auto simp: pieces_def find_item_append find_item_update split: option.split)
  then show ?thesis by (auto simp: fun_eq_iff os_def)
qed

lemma pieces_updateItemOptions:
  assumes "find_item i (ct_items c) = Some cur"
  shows "pieces (updateItemOptions i opts c) = (let k = line_key (sp_product (ci_product cur)) opts; rest = (pieces c)(i := 0)
     in rest(k := rest k + pieces c i))"
proof -
  let ?k = "line_key (sp_product (ci_product cur)) opts"
  show ?thesis
  proof (cases "?k = i")
    case True
    with assms show ?thesis
      by (auto simp: updateItemOptions_def pieces_def find_item_update Let_def fun_eq_iff option.map_sel split: option.split)
  next
    case False
    show ?thesis
    proof (cases "find_item ?k (ct_items c)")
      case None
      let ?f = "\<lambda>x. x\<lparr>ci_id := ?k, ci_selectedOptions := opts, ci_finalPrice := line_price (sp_product (ci_product cur)) opts\<rparr>"
      have "find_item k (update_where (\<lambda>x. ci_id x = i) ?f (ct_items c)) =
          (if k = i then None else if k = ?k then map_option ?f (find_item i (ct_items c)) else find_item k (ct_items c))" for k
        by (rule find_item_rename [OF False None]) simp
      with assms False None show ?thesis
        by (auto simp: updateItemOptions_def pieces_def Let_def fun_eq_iff)
    next
      case (Some y)
      with assms False show ?thesis
        by (auto simp: updateItemOptions_def pieces_def find_item_update find_item_filter Let_def fun_eq_iff split: option.split)
    qed
  qed
qed

lemma pieces_removeItem:
  assumes "cart_ok allowed c"
  shows "pieces (removeItem i c) = (pieces c)(i := max 0 (pieces c i - 1))"
proof (cases "find_item i (ct_items c)")
  case None
  then show ?thesis by (auto simp: removeItem_def pieces_def find_item_filter fun_eq_iff)
next
  case (Some x)
  with assms find_item_Some [OF Some] have "1 \<le> ci_quantity x" by (auto simp: cart_ok_def item_ok_iff)
  with Some show ?thesis
    by (auto simp: removeItem_def pieces_def find_item_filter find_item_update fun_eq_iff split: option.split)
qed

lemma pieces_deleteItem: "pieces (deleteItem i c) = (pieces c)(i := 0)"
  by (auto simp: deleteItem_def pieces_def find_item_filter fun_eq_iff)

lemma pieces_clearCart: "pieces (clearCart c) = (\<lambda>_. 0)"
  by (simp add: clearCart_def pieces_def find_item_def fun_eq_iff)

section \<open>What the backend books for a line\<close>

lemma order_item_of_ids [simp]: "item_optionIds (order_item_of i) = map so_id (ci_selectedOptions i)"
  by (simp add: item_optionIds_def order_item_of_def)

text \<open>The product of a line is the product of the database, as it was listed.\<close>

definition on_offer :: "env \<Rightarrow> db \<Rightarrow> product_facade \<Rightarrow> cart_option list \<Rightarrow> bool" where
  "on_offer e d f opts \<longleftrightarrow> (\<exists>p \<in> set (t_products d). sp_product f = listed e p \<and> offered p opts)"

lemma line_is_booked:
  assumes ok: "item_ok i" and off: "on_offer e d (ci_product i) (ci_selectedOptions i)"
    and d: "distinct (map pd_id (t_products d))" "\<forall>p \<in> set (t_products d). product_wf p"
    and pos: "position_of d ev (order_item_of i) it"
  shows "item_gross it = ci_finalPrice i * ci_quantity i"
proof -
  from off obtain p where p: "p \<in> set (t_products d)" "sp_product (ci_product i) = listed e p" "offered p (ci_selectedOptions i)"
    by (auto simp: on_offer_def)
  from pos obtain p' r where r: "event_product d ev (pd_id p) = Some p'"
    "resolveOrderItemPricing p' (map so_id (ci_selectedOptions i)) = Inr r" "it = new_item p' (order_item_of i) r"
    using p(2) by (auto simp: position_of_def) (simp add: order_item_of_def)
  from event_product_Some [OF r(1)] d(1) p(1) have p': "p' = p" by (auto simp: distinct_map dest: inj_onD)
  from d(2) p(1) have wf: "product_wf p" by blast
  have "pp_priceAtTime r = reference_price p (map so_id (ci_selectedOptions i))"
    using pricing_cases [OF wf, of "map so_id (ci_selectedOptions i)"] r(2) p' by simp
  then have "pp_priceAtTime r + resolveDeposit p = ci_finalPrice i"
    using line_price_is_reference [OF wf p(3)] ok p(2) by (simp add: item_ok_iff)
  then show ?thesis by (simp add: item_gross_def r(3) p' new_item_def order_item_of_def)
qed

lemma cart_is_gross:
  assumes "\<forall>i \<in> set items. item_ok i \<and> on_offer e d (ci_product i) (ci_selectedOptions i)"
    and "distinct (map pd_id (t_products d))" and "\<forall>p \<in> set (t_products d). product_wf p"
    and "list_all2 (position_of d ev) (map order_item_of items) its"
  shows "gross_total its = items_total items"
  using assms(1,4)
proof (induction items arbitrary: its)
  case Nil
  then show ?case by (simp add: items_total_def)
next
  case (Cons i items)
  then obtain it its' where its: "its = it # its'" "position_of d ev (order_item_of i) it"
    "list_all2 (position_of d ev) (map order_item_of items) its'"
    by (auto simp: list_all2_Cons1)
  have "item_gross it = ci_finalPrice i * ci_quantity i"
    by (rule line_is_booked [OF _ _ assms(2,3) its(2)]) (use Cons.prems(1) in auto)
  with Cons.IH [OF _ its(3)] Cons.prems(1) show ?case by (simp add: its(1) items_total_def)
qed

section \<open>Tiles\<close>

definition tile_group :: "product \<Rightarrow> option_group option" where
  "tile_group p = find og_quickSaleTiles (pd_optionGroups p)"

definition other_required :: "product \<Rightarrow> option_group list" where
  "other_required p = filter (\<lambda>g. (case tile_group p of None \<Rightarrow> True | Some t \<Rightarrow> og_id g \<noteq> og_id t) \<and> og_isRequired g) (pd_optionGroups p)"

definition default_options :: "product \<Rightarrow> cart_option list" where
  "default_options p = List.map_filter (\<lambda>g. case active_options g of [] \<Rightarrow> None | x # _ \<Rightarrow> Some (cart_option_of g x)) (other_required p)"

lemma default_option_ids:
  "map op_id (List.map_filter (\<lambda>g. case active_options g of [] \<Rightarrow> None | x # _ \<Rightarrow> Some x) (other_required p)) = map so_id (default_options p)"
proof -
  have "map op_id (List.map_filter (\<lambda>g. case active_options g of [] \<Rightarrow> None | x # _ \<Rightarrow> Some x) gs) =
      map so_id (List.map_filter (\<lambda>g. case active_options g of [] \<Rightarrow> None | x # _ \<Rightarrow> Some (cart_option_of g x)) gs)" for gs
    by (induction gs) (auto simp: map_filter_simps cart_option_of_def split: list.split)
  then show ?thesis by (simp add: default_options_def)
qed

text \<open>A tile is a selection: its option, if the product has a tile group, and the defaults of the other required groups.\<close>

lemma tile_selection:
  assumes "t \<in> set (product_tiles sp)"
  shows "qt_productId t = pd_id (sp_product sp)"
    and "\<forall>g \<in> set (other_required (sp_product sp)). isGroupSurchargeFree g"
    and "(tile_group (sp_product sp) = None \<and> qt_optionIds t = map so_id (default_options (sp_product sp)) \<and>
          qt_price t = pd_price (sp_product sp) + resolveProductDeposit (sp_product sp)) \<or>
      (\<exists>g x. tile_group (sp_product sp) = Some g \<and> x \<in> set (active_options g) \<and>
        qt_optionIds t = op_id x # map so_id (default_options (sp_product sp)) \<and>
        qt_price t = (if og_priceMode g = ABSOLUTE then op_priceEffect x else pd_price (sp_product sp) + op_priceEffect x)
          + resolveProductDeposit (sp_product sp))"
  using assms unfolding product_tiles_def Let_def tile_group_def [symmetric] other_required_def [symmetric] default_option_ids
  by (auto simp: list_ex_iff split: if_splits option.splits)

lemma count_where_one:
  assumes "count_where P xs \<le> 1" and "x \<in> set xs" and "y \<in> set xs" and "P x" and "P y"
  shows "x = y"
proof (rule ccontr)
  assume "x \<noteq> y"
  have "{x, y} \<subseteq> set (filter P xs)" using assms(2-5) by auto
  then have "card {x, y} \<le> card (set (filter P xs))" by (rule card_mono [OF finite_set])
  also have "\<dots> \<le> length (filter P xs)" by (rule card_length)
  finally show False using \<open>x \<noteq> y\<close> assms(1) by (simp add: count_where_def)
qed

lemma listed_tile_count: "count_where og_quickSaleTiles (pd_optionGroups (listed e p)) = count_where og_quickSaleTiles (pd_optionGroups p)"
proof -
  have "size (filter_mset og_quickSaleTiles (mset (pd_optionGroups (listed e p))))
      = size (filter_mset og_quickSaleTiles (mset (map (listed_group e) (pd_optionGroups p))))"
    by (simp only: mset_listed_groups)
  then have "length (filter og_quickSaleTiles (pd_optionGroups (listed e p)))
      = length (filter og_quickSaleTiles (map (listed_group e) (pd_optionGroups p)))"
    by (simp only: mset_filter [symmetric] size_mset)
  then show ?thesis by (simp add: count_where_def filter_map comp_def)
qed

text \<open>
  A required group with absolute prices that is not the tile group: its first option is preset. The administration stores one only
  for products without tiles (\<^verbatim>\<open>validateOptionGroupsPayload\<close>).
\<close>

definition preset_absolute :: "product \<Rightarrow> bool" where
  "preset_absolute p \<longleftrightarrow> (\<exists>g \<in> set (pd_optionGroups p). og_isRequired g \<and> \<not> og_quickSaleTiles g \<and> is_absolute g \<and> active_options g \<noteq> [])"

lemma is_absolute_listed [simp]: "is_absolute (listed_group e g) = is_absolute g"
  by (simp add: is_absolute_def)

lemma set_active_listed [simp]: "set (active_options (listed_group e g)) = set (active_options g)"
  by (auto simp: active_options_def)

lemma active_listed_Nil [simp]: "active_options (listed_group e g) = [] \<longleftrightarrow> active_options g = []"
  using set_active_listed [of e g] by (metis set_empty)

lemma set_other_required:
  assumes "groups_ok p"
  shows "set (other_required (listed e p)) = listed_group e ` {g \<in> set (pd_optionGroups p). og_isRequired g \<and> \<not> og_quickSaleTiles g}"
proof -
  let ?q = "listed e p"
  have tile: "tile_group ?q = Some g \<longleftrightarrow> og_quickSaleTiles g" if "g \<in> set (pd_optionGroups ?q)" for g
  proof
    assume t: "og_quickSaleTiles g"
    with that obtain tg where tg: "tile_group ?q = Some tg" by (cases "tile_group ?q") (auto simp: tile_group_def find_None_iff_all)
    then have "tg \<in> set (pd_optionGroups ?q)" "og_quickSaleTiles tg" by (auto simp: tile_group_def dest: find_Some_mem)
    with that t assms have "tg = g" by (intro count_where_one [of og_quickSaleTiles "pd_optionGroups ?q"]) (auto simp: listed_tile_count groups_ok_def)
    with tg show "tile_group ?q = Some g" by simp
  qed (auto simp: tile_group_def dest: find_Some_mem)
  have ids: "g = tg" if "g \<in> set (pd_optionGroups ?q)" "tile_group ?q = Some tg" "og_id g = og_id tg" for g tg
  proof -
    have "tg \<in> set (pd_optionGroups ?q)" using that(2) by (auto simp: tile_group_def dest: find_Some_mem)
    moreover have "inj_on og_id (set (pd_optionGroups ?q))"
      using assms distinct_listed_groups [of e p] by (simp add: groups_ok_def product_wf_def distinct_map)
    ultimately show ?thesis using that by (auto dest: inj_onD)
  qed
  have other: "(case tile_group ?q of None \<Rightarrow> True | Some t \<Rightarrow> og_id g \<noteq> og_id t) \<longleftrightarrow> \<not> og_quickSaleTiles g"
    if "g \<in> set (pd_optionGroups ?q)" for g
  proof (cases "tile_group ?q")
    case None
    with tile [OF that] show ?thesis by simp
  next
    case (Some tg)
    show ?thesis
    proof (cases "og_quickSaleTiles g")
      case True
      then have "tile_group ?q = Some g" using tile [OF that] by blast
      with True show ?thesis by simp
    next
      case False
      then have "og_id g \<noteq> og_id tg" using ids [OF that Some] tile [OF that] Some by blast
      then show ?thesis unfolding Some using False by simp
    qed
  qed
  have "g \<in> set (other_required ?q) \<longleftrightarrow> g \<in> set (pd_optionGroups ?q) \<and> og_isRequired g \<and> \<not> og_quickSaleTiles g" for g
  proof (cases "g \<in> set (pd_optionGroups ?q)")
    case True
    from other [OF True] True show ?thesis by (simp only: other_required_def set_filter mem_Collect_eq) blast
  next
    case False
    then show ?thesis by (simp add: other_required_def)
  qed
  then have "set (other_required ?q) = {g \<in> set (pd_optionGroups ?q). og_isRequired g \<and> \<not> og_quickSaleTiles g}"
    by blast
  also have "\<dots> = listed_group e ` {g \<in> set (pd_optionGroups p). og_isRequired g \<and> \<not> og_quickSaleTiles g}"
    unfolding set_listed_groups by (intro set_eqI iffI) (force, force)
  finally show ?thesis .
qed

text \<open>The presets are options of the product without a price effect; one of them is absolute exactly if a group presets one.\<close>

lemma default_option_facts:
  assumes "groups_ok p" and "\<forall>g \<in> set (other_required (listed e p)). isGroupSurchargeFree g"
    and "o' \<in> set (default_options (listed e p))"
  shows "so_priceEffect o' = 0" and "\<exists>(x, g) \<in> set (product_options p). op_isActive x \<and> o' = cart_option_of g x"
proof -
  from assms(3) obtain g' x where g': "g' \<in> set (other_required (listed e p))" and x: "x \<in> set (active_options g')" "o' = cart_option_of g' x"
    by (auto simp: default_options_def dest!: map_filter_mem split: list.splits) (metis list.set_intros(1))
  then obtain g where g: "g \<in> set (pd_optionGroups p)" "g' = listed_group e g"
    by (auto simp: set_other_required [OF assms(1)])
  have "op_priceEffect x = 0" using assms(2) g' x(1) by (auto simp: isGroupSurchargeFree_def list_all_iff)
  then show "so_priceEffect o' = 0" using x(2) by (simp add: cart_option_of_def)
  show "\<exists>(x, g) \<in> set (product_options p). op_isActive x \<and> o' = cart_option_of g x"
    using x g by (intro bexI [of _ "(x, g)"]) (auto simp: product_options_group active_options_def)
qed

lemma default_absolute:
  assumes "groups_ok p"
  shows "(\<exists>o' \<in> set (default_options (listed e p)). so_priceMode o' = ABSOLUTE) \<longleftrightarrow> preset_absolute p"
proof -
  have "(\<exists>o' \<in> set (List.map_filter (\<lambda>g. case active_options g of [] \<Rightarrow> None | x # _ \<Rightarrow> Some (cart_option_of g x)) gs). so_priceMode o' = ABSOLUTE) \<longleftrightarrow>
      (\<exists>g \<in> set gs. is_absolute g \<and> active_options g \<noteq> [])" for gs
    by (induction gs) (auto simp: map_filter_simps cart_option_of_def is_absolute_def split: list.split)
  then have "(\<exists>o' \<in> set (default_options (listed e p)). so_priceMode o' = ABSOLUTE) \<longleftrightarrow>
      (\<exists>g \<in> set (other_required (listed e p)). is_absolute g \<and> active_options g \<noteq> [])"
    unfolding default_options_def .
  also have "\<dots> \<longleftrightarrow> preset_absolute p" unfolding set_other_required [OF assms] preset_absolute_def by auto
  finally show ?thesis .
qed

lemma zero_sum: "\<forall>x \<in> set xs. f x = 0 \<Longrightarrow> sum_list (map f xs) = (0 :: int)"
  by (induction xs) auto

text \<open>Presets alone: their price is that of the product, or 0 if one of them is absolute.\<close>

lemma defaults_price:
  assumes "groups_ok p" and "\<forall>g \<in> set (other_required (listed e p)). isGroupSurchargeFree g" and "D = default_options (listed e p)"
  shows "(case find (\<lambda>o'. so_priceMode o' = ABSOLUTE) D of Some o' \<Rightarrow> so_priceEffect o' | None \<Rightarrow> n) = (if preset_absolute p then 0 else n)"
    and "sum_list (map so_priceEffect (filter (\<lambda>o'. so_priceMode o' \<noteq> ABSOLUTE) D)) = 0"
proof -
  have zero: "so_priceEffect o' = 0" if "o' \<in> set D" for o' using default_option_facts(1) [OF assms(1,2)] that assms(3) by simp
  then show "sum_list (map so_priceEffect (filter (\<lambda>o'. so_priceMode o' \<noteq> ABSOLUTE) D)) = 0"
    by (intro zero_sum) auto
  show "(case find (\<lambda>o'. so_priceMode o' = ABSOLUTE) D of Some o' \<Rightarrow> so_priceEffect o' | None \<Rightarrow> n) = (if preset_absolute p then 0 else n)"
  proof (cases "find (\<lambda>o'. so_priceMode o' = ABSOLUTE) D")
    case None
    then have "\<not> preset_absolute p" using default_absolute [OF assms(1), of e] assms(3) by (auto simp: find_None_iff_all)
    with None show ?thesis by simp
  next
    case (Some o')
    then have "o' \<in> set D" "so_priceMode o' = ABSOLUTE" by (auto dest: find_Some_mem)
    then show ?thesis using default_absolute [OF assms(1), of e] assms(3) Some zero by auto
  qed
qed

text \<open>What a tile shows is what the sale costs, unless an absolute price is preset: then the tile still adds the price of the product.\<close>

lemma tile_price_is_charged:
  assumes ok: "groups_ok p" and sp: "sp_product sp = listed e p"
    and t: "t \<in> set (product_tiles sp)" and r: "resolveOrderItemPricing p (qt_optionIds t) = Inr r"
  shows "qt_price t = pp_priceAtTime r + resolveDeposit p + (if preset_absolute p then pd_price p else 0)"
proof -
  from ok have wf: "product_wf p" by (simp add: groups_ok_def)
  let ?q = "listed e p" and ?D = "default_options (listed e p)"
  from pricing_cases [OF wf, of "qt_optionIds t"] r have val: "valid_selection p (qt_optionIds t)"
    and price: "pp_priceAtTime r = reference_price p (qt_optionIds t)" by auto
  note T = tile_selection [OF t, unfolded sp]
  note D = default_option_facts(2) [OF ok T(2)] and P = defaults_price [OF ok T(2) refl]
  have charged: "line_price p opts = pp_priceAtTime r + resolveDeposit p"
    if opts: "map so_id opts = qt_optionIds t" "\<forall>o' \<in> set opts. \<exists>(x, g) \<in> set (product_options p). op_isActive x \<and> o' = cart_option_of g x"
    for opts
  proof -
    from val opts have "offered p opts" by (simp add: offered_def)
    from line_price_is_reference [OF wf this] opts price show ?thesis by simp
  qed
  from T(3) show ?thesis
  proof (elim disjE exE conjE)
    assume t: "qt_optionIds t = map so_id ?D" "qt_price t = pd_price ?q + resolveProductDeposit ?q"
    have "line_price p ?D = pp_priceAtTime r + resolveDeposit p" by (rule charged) (use t D in auto)
    with t P show ?thesis by (simp add: line_price_def deposit_agrees [of p] split: if_splits)
  next
    fix g' x
    assume g': "tile_group ?q = Some g'" and x: "x \<in> set (active_options g')" and ids: "qt_optionIds t = op_id x # map so_id ?D"
      and pr: "qt_price t = (if og_priceMode g' = ABSOLUTE then op_priceEffect x else pd_price ?q + op_priceEffect x) + resolveProductDeposit ?q"
    from g' have "g' \<in> set (pd_optionGroups ?q)" "og_quickSaleTiles g'" by (auto simp: tile_group_def dest: find_Some_mem)
    then obtain g where g: "g \<in> set (pd_optionGroups p)" "g' = listed_group e g" "og_quickSaleTiles g" by (auto simp: set_listed_groups)
    have mem: "\<exists>(y, h) \<in> set (product_options p). op_isActive y \<and> cart_option_of g' x = cart_option_of h y"
      using g x by (intro bexI [of _ "(x, g)"]) (auto simp: product_options_group active_options_def)
    have line: "line_price p (cart_option_of g' x # ?D) = pp_priceAtTime r + resolveDeposit p"
      by (rule charged) (use ids mem D in \<open>auto simp: cart_option_of_def\<close>)
    show ?thesis
    proof (cases "og_priceMode g' = ABSOLUTE")
      case True
      have "\<not> preset_absolute p"
      proof
        assume "preset_absolute p"
        then obtain h where h: "h \<in> set (pd_optionGroups p)" "\<not> og_quickSaleTiles h" "is_absolute h" by (auto simp: preset_absolute_def)
        with g True have "h = g" by (intro count_where_one [of is_absolute "pd_optionGroups p"]) (use wf in \<open>auto simp: product_wf_def is_absolute_def\<close>)
        with h g show False by simp
      qed
      with line pr True P(2) show ?thesis by (simp add: line_price_def cart_option_of_def deposit_agrees [of p])
    next
      case False
      with line pr P show ?thesis by (simp add: line_price_def cart_option_of_def deposit_agrees [of p] split: if_splits)
    qed
  qed
qed

section \<open>Splitting a payment\<close>

text \<open>What the dialog can hold: every position once, at most its open quantity.\<close>

definition quantities_ok :: "order_item list \<Rightarrow> quantities \<Rightarrow> bool" where
  "quantities_ok items q \<longleftrightarrow> distinct (map fst q) \<and>
     (\<forall>(i, n) \<in> set q. \<exists>it \<in> set items. oi_id it = i \<and> i \<noteq> [] \<and> 0 \<le> n \<and> n \<le> max 0 (unpaid_quantity it))"

definition selected_deposit :: "order_item list \<Rightarrow> quantities \<Rightarrow> int" where
  "selected_deposit items q = sum_list (map (\<lambda>(i, n). case item_of items i of None \<Rightarrow> 0 | Some x \<Rightarrow> oi_depositAtTime x * n) q)"

lemma collect_selected:
  assumes "distinct (map fst l)" and "fst ` set l \<inter> fst ` set acc = {}"
    and "\<forall>(i, n) \<in> set l. i \<noteq> [] \<and> item_of items i \<noteq> None"
  shows "fold_res (\<lambda>q s. bind_res (ensure (sp_orderItemId s \<noteq> [] \<and> item_of items (sp_orderItemId s) \<noteq> None) err)
       (\<lambda>_. Inr (js_set (sp_orderItemId s) ((case js_get q (sp_orderItemId s) of None \<Rightarrow> 0 | Some n \<Rightarrow> n) + sp_quantity s) q)))
     acc (map (\<lambda>(i, n). \<lparr>sp_orderItemId = i, sp_quantity = n\<rparr>) l) = Inr (acc @ l)"
  using assms
proof (induction l arbitrary: acc)
  case Nil
  then show ?case by simp
next
  case (Cons a l)
  obtain i n where a: "a = (i, n)" by (cases a)
  from Cons.prems a have i: "i \<noteq> []" "item_of items i \<noteq> None" "i \<notin> fst ` set acc" by auto
  then have get: "js_get acc i = None" by (simp add: map_of_eq_None_iff)
  have set: "js_set i n acc = acc @ [(i, n)]" by (rule js_set_fresh) (rule i(3))
  have "fst ` set l \<inter> fst ` set (acc @ [(i, n)]) = {}" using Cons.prems(1,2) a by (auto simp: image_iff)
  with Cons.IH [of "acc @ [(i, n)]"] Cons.prems a i get set show ?case by simp
qed

lemma split_sum:
  assumes "\<forall>(i, n) \<in> set l. \<exists>it. item_of items i = Some it \<and> n \<le> unpaid_quantity it"
  shows "fold_res (add_split_price items) acc l = Inr (acc
     + sum_list (map (\<lambda>(i, n). case item_of items i of None \<Rightarrow> 0 | Some x \<Rightarrow> oi_priceAtTime x * n) l) + selected_deposit items l)"
  using assms
proof (induction l arbitrary: acc)
  case Nil
  then show ?case by (simp add: selected_deposit_def)
next
  case (Cons a l)
  obtain i n where a: "a = (i, n)" by (cases a)
  with Cons.prems obtain it where it: "item_of items i = Some it" "n \<le> unpaid_quantity it" by auto
  with Cons a show ?case by (simp add: add_split_price_def selected_deposit_def algebra_simps)
qed

lemma drop_zero_sum: "(\<And>z. z \<in> set xs \<Longrightarrow> \<not> P z \<Longrightarrow> f z = 0) \<Longrightarrow> sum_list (map f (filter P xs)) = (sum_list (map f xs) :: int)"
  by (induction xs) auto

lemma item_of_mem: "distinct (map oi_id items) \<Longrightarrow> it \<in> set items \<Longrightarrow> item_of items (oi_id it) = Some it"
  by (simp add: item_of_def find_distinct_key)

text \<open>The dialog asks for the prices without the deposits; the backend expects them with the deposits.\<close>

lemma split_dialog_answer:
  assumes items: "distinct (map oi_id (order_items d oid))" and q: "quantities_ok (order_items d oid) q"
    and o': "find_order d oid = Some o'" "od_lifecycleStatus o' \<noteq> LC_CANCELLED" "od_paymentStatus o' \<noteq> PAID"
    and req: "split_request (order_items d oid) m q = Some (sel, payments)" and m: "m = CASH \<or> m = CARD"
    and small: "selectedTotalCents (order_items d oid) q + selected_deposit (order_items d oid) q \<le> int32_max"
    and dep: "\<forall>it \<in> set (order_items d oid). 0 \<le> oi_depositAtTime it"
  shows "splitPaymentOrder e d oid sel payments u = Inl (BadRequest ''SPLIT_AMOUNT_MISMATCH'') \<longleftrightarrow>
      0 < selected_deposit (order_items d oid) q"
    and "selected_deposit (order_items d oid) q = 0 \<Longrightarrow> \<exists>r. splitPaymentOrder e d oid sel payments u = Inr r"
proof -
  let ?items = "order_items d oid" and ?l = "filter (\<lambda>(_, n). 0 < n) q"
  let ?price = "selectedTotalCents ?items q" and ?dep = "selected_deposit ?items q"
  from req have sel: "sel = map (\<lambda>(i, n). \<lparr>sp_orderItemId = i, sp_quantity = n\<rparr>) ?l" "sel \<noteq> []" "0 < ?price"
    and pay: "payments = [\<lparr>pi_amount = ?price, pi_method = m\<rparr>]"
    by (auto simp: split_request_def selectedItemsPayload_def split: if_splits)
  have entry: "\<exists>it. item_of ?items i = Some it \<and> it \<in> set ?items \<and> i \<noteq> [] \<and> 0 \<le> n \<and> n \<le> max 0 (unpaid_quantity it)"
    if "(i, n) \<in> set q" for i n
    using q that item_of_mem [OF items] unfolding quantities_ok_def by fastforce
  have dep0: "0 \<le> ?dep"
    unfolding selected_deposit_def
    by (rule sum_list_nonneg_int) (use entry dep in \<open>fastforce split: option.splits\<close>)
  have keys: "distinct (map fst ?l)" using q by (auto simp: quantities_ok_def distinct_map_filter)
  have collect: "collect_split ?items sel = Inr ?l"
    unfolding collect_split_def sel(1)
    using collect_selected [OF keys, of "[]" ?items] entry by fastforce
  have zero: "n = 0" if "(i, n) \<in> set q" "\<not> 0 < n" for i n using entry [OF that(1)] that(2) by auto
  have price: "sum_list (map (\<lambda>(i, n). case item_of ?items i of None \<Rightarrow> 0 | Some x \<Rightarrow> oi_priceAtTime x * n) ?l) = ?price"
    unfolding selectedTotalCents_def item_of_def [symmetric]
    by (rule drop_zero_sum) (use zero in \<open>force split: option.split\<close>)
  have deposit: "selected_deposit ?items ?l = ?dep"
    unfolding selected_deposit_def by (rule drop_zero_sum) (use zero in \<open>force split: option.split\<close>)
  have "\<forall>(i, n) \<in> set ?l. \<exists>it. item_of ?items i = Some it \<and> n \<le> unpaid_quantity it"
    using entry by fastforce
  from split_sum [OF this, of 0] price deposit
  have sum: "fold_res (add_split_price ?items) 0 ?l = Inr (?price + ?dep)" by simp
  have valid: "validatePayments payments = Inr ?price"
    using pay sel(3) m small dep0 by (auto simp: validatePayments_Inr_iff)
  have safe: "is_safe_integer (?price + ?dep) \<and> ?price + ?dep \<le> int32_max"
    using small sel(3) dep0 by (simp add: is_safe_integer_def)
  have checks: "split_checks d oid sel ?price =
      (if ?price = ?price + ?dep then Inr (o', ?items, ?l) else Inl (BadRequest ''SPLIT_AMOUNT_MISMATCH''))"
    using o' collect sum safe by (simp add: split_checks_def Let_def)
  have run: "splitPaymentOrder e d oid sel payments u = bind_res (split_checks d oid sel ?price) k" 
    if "k = (\<lambda>(o', items, q).
     let sess = map_option cs_id (active_session d u (od_eventId o'));
         d1 = foldl (mark_paid items) d q;
         d2 = create_payments e oid (map (new_payment sess) payments) d1;
         st = (if list_all (split_covers q) items then PAID else PARTIALLY_PAID);
         d3 = update_order oid (\<lambda>x. x\<lparr>od_paymentStatus := st\<rparr>) d2
     in bind_res (view_by_id d3 oid) (\<lambda>v.
        Inr (if u = [] then d3 else add_audit (split_audit d u o' items q ?price st sess) d3, v)))" for k
    using sel(2) pay valid that by (simp add: splitPaymentOrder_def)
  have orders: "t_orders (foldl (mark_paid ?items) d l) = t_orders d" for l
    by (induction l rule: rev_induct) (auto simp: mark_paid_def update_item_def split: option.split prod.split)
  have found: "find_order (update_order oid f (create_payments e oid ps (foldl (mark_paid ?items) d l))) oid \<noteq> None"
    if "\<And>x. od_id (f x) = od_id x" for f ps l
    using o'(1) that orders [of l]
    by (simp add: find_order_def update_order_def create_payments_def find_update_where)
  have view: "\<exists>v. view_by_id (update_order oid f (create_payments e oid ps (foldl (mark_paid ?items) d l))) oid = Inr v"
    if "\<And>x. od_id (f x) = od_id x" for f ps l
    using found [of f ps l] that by (auto simp: view_by_id_def)
  have ok: "\<exists>r. splitPaymentOrder e d oid sel payments u = Inr r" if "?dep = 0"
  proof -
    from that have c: "split_checks d oid sel ?price = Inr (o', ?items, ?l)" using checks by simp
    have some: "\<exists>v. x = Inr v \<Longrightarrow> \<exists>r. bind_res x (\<lambda>v. Inr (g v)) = Inr r" for x :: "api_error + order_view" and g :: "order_view \<Rightarrow> db \<times> order_view"
      by auto
    show ?thesis
      unfolding run [OF refl] c bind_res_simps prod.case Let_def by (rule some, rule view) simp
  qed
  then show "?dep = 0 \<Longrightarrow> \<exists>r. splitPaymentOrder e d oid sel payments u = Inr r" .
  show "splitPaymentOrder e d oid sel payments u = Inl (BadRequest ''SPLIT_AMOUNT_MISMATCH'') \<longleftrightarrow> 0 < ?dep"
  proof (cases "?dep = 0")
    case True
    with ok show ?thesis by auto
  next
    case False
    then have "split_checks d oid sel ?price = Inl (BadRequest ''SPLIT_AMOUNT_MISMATCH'')" using checks by simp
    then show ?thesis unfolding run [OF refl] using False dep0 by simp
  qed
qed

end
