(* ===== verification/VO_Shop_Props.thy ===== *)
theory VO_Shop_Props
  imports VO_Cart_Laws VO_Samples VO_Sale_Props
begin

text \<open>
  Properties of the catalogue and of selling in the browser: what is shown can be sold, what the dialog hands over is
  accepted, what the cart shows is booked, the cart counts pieces, tiles show the price that is charged, and what the
  split dialog asks for.
\<close>

section \<open>What is shown can be sold\<close>

lemma stock_in_mode_find:
  "stock_in_mode (Some m) (product_stocks d p) = find_stock d (pd_id p, pd_eventId p, m)"
  unfolding stock_in_mode_def product_stocks_def find_stock_def
  by (simp add: find_filter comp_def stock_key_def conj_comms cong: conj_cong)

lemma with_options_product [simp]:
  "pd_id (with_options e c p) = pd_id p" "pd_eventId (with_options e c p) = pd_eventId p"
  "pd_manualAvailability (with_options e c p) = pd_manualAvailability p" "pd_category (with_options e c p) = pd_category p"
  by (simp_all add: with_options_def)

lemma product_stocks_with_options [simp]: "product_stocks d (with_options e c p) = product_stocks d p"
  by (simp add: product_stocks_def)

lemma set_by_category [simp]: "set (by_category ps) = set ps"
  by (simp add: by_category_def)

text \<open>A row of the sale list, its product and its stock.\<close>

lemma findAllActive_mem:
  assumes "findAllActive e d = Inr fs" and "f \<in> set fs"
  obtains p where "p \<in> set (t_products d)" "product_on_sale d p" "sp_product f = listed e p" "facade_in d (listed e p) = Inr f"
proof -
  from map_res_Inr_origin [OF assms(1) [unfolded findAllActive_def] assms(2)] obtain p where
    p: "p \<in> set (t_products d)" "product_on_sale d p" "facade_in d (listed e p) = Inr f"
    by (auto simp: listed_def)
  moreover from p(3) have "sp_product f = listed e p" by (auto simp: facade_in_def inventoryFacade_def Let_def res_simps)
  ultimately show thesis by (intro that)
qed

lemma facade_stock:
  assumes "facade_in d (listed e p) = Inr f" and "order_mode d (pd_eventId p) = Some m"
  shows "sp_availability f = effectiveAvailability (pd_manualAvailability p) (find_stock d (pd_id p, pd_eventId p, m)) \<and>
    sp_stockQuantity f = tracked_quantity (find_stock d (pd_id p, pd_eventId p, m))"
proof -
  have "resolveOperationalDataMode (find_event d (pd_eventId p)) = Inr (Some m)"
    using assms(2) by (auto simp: order_mode_def split: sum.splits option.splits)
  with assms(1) show ?thesis
    by (auto simp: facade_in_def inventoryFacade_def Let_def listed_def stock_in_mode_find tracked_def tracked_quantity_def
        split: option.split)
qed


definition line_for :: "product \<Rightarrow> int \<Rightarrow> sale_line" where
  "line_for p n = sale_line_of p \<lparr>ii_productId = pd_id p, ii_quantity = n, ii_optionIds = None\<rparr>"

text \<open>
  C8. The sale list tells the truth: while the event runs in a mode, a product that is listed can be reserved in a quantity
  exactly when it is not shown as sold out and the shown stock, if it has one, covers the quantity.
\<close>

theorem shown_is_sold:
  assumes "findAllActive e d = Inr fs" and "f \<in> set fs" and "order_mode d (pd_eventId (sp_product f)) = Some m"
    and "distinct (map stock_key (t_stocks d))" and "1 \<le> n"
  shows "\<exists>p \<in> set (t_products d). pd_id p = pd_id (sp_product f) \<and>
    ((\<exists>r. reserveSale d (pd_eventId p) m [line_for p n] = Inr r) \<longleftrightarrow>
      sp_availability f \<notin> {OUT_OF_STOCK, DISABLED} \<and> (case sp_stockQuantity f of None \<Rightarrow> True | Some q \<Rightarrow> n \<le> q))"
proof -
  obtain p where p: "p \<in> set (t_products d)" "product_on_sale d p" "sp_product f = listed e p" "facade_in d (listed e p) = Inr f"
    using findAllActive_mem [OF assms(1,2)] .
  let ?s = "find_stock d (pd_id p, pd_eventId p, m)"
  note S = facade_stock [OF p(4), of m] 
  have mode: "order_mode d (pd_eventId p) = Some m" using assms(3) p(3) by simp
  note S = S [OF mode]
  have active: "ca_isActive (pd_category p)" "pd_manualAvailability p \<noteq> DISABLED" using p(2) by (auto simp: product_on_sale_def)
  have "(\<exists>r. reserveSale d (pd_eventId p) m [line_for p n] = Inr r) \<longleftrightarrow>
      sp_availability f \<notin> {OUT_OF_STOCK, DISABLED} \<and> (case sp_stockQuantity f of None \<Rightarrow> True | Some q \<Rightarrow> n \<le> q)"
    unfolding reserveSale_succeeds_iff [OF assms(4)] using S active assms(5)
    by (auto simp: sale_possible_def line_for_def sale_line_of_def requested_def line_excluded_def tracked_quantity_def
        effectiveAvailability_def Let_def split: option.splits)
  with p(1,3) show ?thesis by (intro bexI [of _ p]) simp_all
qed

lemma shown_is_sold_witness:
  "succeeds_with (\<lambda>fs. \<exists>f \<in> set fs. sp_availability f = AVAILABLE \<and> sp_stockQuantity f = Some 10 \<and>
    (\<exists>p \<in> set (t_products sample_db). pd_id p = ''b'' \<and> (\<exists>r. reserveSale sample_db (pd_eventId p) LIVE [line_for p 10] = Inr r)))
   (findAllActive run_env sample_db)"
proof -
  have "succeeds_with (\<lambda>fs. \<exists>f \<in> set fs. pd_id (sp_product f) = ''b'' \<and> sp_availability f = AVAILABLE \<and>
      sp_stockQuantity f = Some 10 \<and> pd_eventId (sp_product f) = ''e'') (findAllActive run_env sample_db)" by code_simp
  then obtain fs f where f: "findAllActive run_env sample_db = Inr fs" "f \<in> set fs"
    and r: "pd_id (sp_product f) = ''b''" "sp_availability f = AVAILABLE" "sp_stockQuantity f = Some 10" "pd_eventId (sp_product f) = ''e''"
    by (auto elim!: succeeds_withE)
  have m: "order_mode sample_db ''e'' = Some LIVE" "distinct (map stock_key (t_stocks sample_db))" by code_simp+
  have "1 \<le> (10 :: int)" by simp
  from shown_is_sold [OF f m(1) [folded r(4)] m(2) this] r
  have "\<exists>p \<in> set (t_products sample_db). pd_id p = ''b'' \<and> (\<exists>r. reserveSale sample_db (pd_eventId p) LIVE [line_for p 10] = Inr r)"
    by simp
  with f r show ?thesis by (auto simp: succeeds_with_def)
qed

section \<open>The dialog\<close>

text \<open>
  C9. Whatever is clicked in the dialog of a listed product, starting from nothing or from the options of the line that is
  edited, the main button either asks for more or hands over options the backend prices without objection, unless
  surcharges make the price negative; and the price of the cart line is the backend's price with the deposit.
\<close>

theorem dialog_submits_valid:
  assumes "groups_ok p" and "edit \<Longrightarrow> offered p initial" and "dialog (listed e p) (initial_selections edit (Some initial)) sel"
    and "handleMainButtonClick (listed e p) sel = Some opts"
  shows "case resolveOrderItemPricing p (map so_id opts) of
      Inl err \<Rightarrow> reference_price p (map so_id opts) < 0
    | Inr r \<Rightarrow> line_price (listed e p) opts = pp_priceAtTime r + resolveDeposit p"
proof -
  have wf: "product_wf p" using assms(1) by (simp add: groups_ok_def)
  have groups: "distinct (map og_id (pd_optionGroups (listed e p)))" "\<forall>g \<in> set (pd_optionGroups (listed e p)). group_wf g"
    using wf by (auto simp: distinct_listed_groups product_wf_def set_listed_groups)
  have "group_selection_ok [] g" if "g \<in> set (pd_optionGroups (listed e p))" for g
    using groups(2) that by (auto simp: group_selection_ok_def group_wf_def split: option.split)
  with prefilled_ok [OF wf] assms(2) have "selections_ok (listed e p) (initial_selections edit (Some initial))"
    by (cases edit) (simp_all add: initial_selections_def selections_ok_def)
  from dialog_keeps_ok [OF assms(3) this groups] have "selections_ok (listed e p) sel" .
  from dialog_submits_offered [OF wf this assms(4)] have off: "offered p opts" .
  from pricing_cases [OF wf, of "map so_id opts"] off line_price_is_reference [OF wf off]
  show ?thesis by (auto simp: offered_def split: sum.splits)
qed

lemma sample_beer_groups_ok: "groups_ok sample_beer"
  by code_simp

text \<open>A run of clicks, given as numbers of group and option.\<close>

definition click :: "product \<Rightarrow> nat \<times> nat \<Rightarrow> selections \<Rightarrow> selections" where
  "click q = (\<lambda>(g, x). toggleOption (pd_optionGroups q ! g) (active_options (pd_optionGroups q ! g) ! x))"

definition can_click :: "product \<Rightarrow> nat \<times> nat \<Rightarrow> bool" where
  "can_click q = (\<lambda>(g, x). g < length (pd_optionGroups q) \<and> x < length (active_options (pd_optionGroups q ! g)))"

lemma clicks_dialog: "list_all (can_click q) cs \<Longrightarrow> dialog q sel0 (foldl (\<lambda>sel c. click q c sel) sel0 cs)"
proof (induction cs rule: rev_induct)
  case Nil
  show ?case by (simp add: dialog.opened)
next
  case (snoc c cs)
  then show ?case by (cases c) (auto simp: click_def can_click_def intro!: dialog.clicked)
qed

definition beer_clicks :: "(nat \<times> nat) list" where
  "beer_clicks = [(0, 0), (1, 0), (0, 1)]"

lemma dialog_submits_valid_witness:
  "\<exists>opts. handleMainButtonClick (listed run_env sample_beer)
       (foldl (\<lambda>sel c. click (listed run_env sample_beer) c sel) (initial_selections False (Some [])) beer_clicks) = Some opts \<and>
    map so_id opts = [''o2'', ''o3''] \<and> line_price (listed run_env sample_beer) opts = 650 \<and>
    (case resolveOrderItemPricing sample_beer (map so_id opts) of Inl _ \<Rightarrow> False | Inr r \<Rightarrow> pp_priceAtTime r = 550)"
proof -
  let ?q = "listed run_env sample_beer"
  let ?sel = "foldl (\<lambda>sel c. click ?q c sel) (initial_selections False (Some [])) beer_clicks"
  have "list_all (can_click ?q) beer_clicks" by code_simp
  then have run: "dialog ?q (initial_selections False (Some [])) ?sel" by (rule clicks_dialog)
  have "case handleMainButtonClick ?q ?sel of None \<Rightarrow> False | Some opts \<Rightarrow> map so_id opts = [''o2'', ''o3''] \<and> line_price ?q opts = 650"
    by code_simp
  then obtain opts where o': "handleMainButtonClick ?q ?sel = Some opts" "map so_id opts = [''o2'', ''o3'']" "line_price ?q opts = 650"
    by (auto split: option.splits)
  have facts: "0 \<le> reference_price sample_beer [''o2'', ''o3'']" "resolveDeposit sample_beer = 100" by code_simp+
  from dialog_submits_valid [OF sample_beer_groups_ok _ run o'(1)] facts o'
  show ?thesis by (auto split: sum.splits)
qed

section \<open>The cart\<close>

lemma nonneg_mult: "0 \<le> a \<Longrightarrow> 0 \<le> b \<Longrightarrow> max 0 (a * b) = (a * b :: int)"
  by simp

text \<open>
  C4. What the cart shows is booked: however the cart was filled from the listed products, if the order is taken, its total is
  the total of the cart, every line is a position of its product and quantity, and paying the shown amount at once, in
  one payment or split in cash and card, makes the order paid.
\<close>

theorem cart_is_booked:
  assumes "(shopping (on_offer e cat))\<^sup>*\<^sup>* empty_cart c"
    and "handleCheckoutSubmit products key payments checkoutTable tableName areaId c = Some req"
    and "createOrder (Some InventoryService) e' pre d u req = Inr (d', v)" and "d' \<noteq> d"
    and "t_products d = t_products cat" and "catalogue_ok cat"
  shows "od_totalAmount (vw_order v) = ct_total c \<and>
    map (\<lambda>i. (oi_productId i, oi_quantity i)) (vw_items v) = map (\<lambda>i. (pd_id (sp_product (ci_product i)), ci_quantity i)) (ct_items c) \<and>
    (payments = Some (handleFullPayment (ct_total c) m) \<or> payments = handleSplitSubmit (ct_total c) cash \<and> payments \<noteq> None \<longrightarrow>
      od_paymentStatus (vw_order v) = PAID) \<and>
    (payments = Some handlePayLater \<and> 0 < ct_total c \<longrightarrow> od_paymentStatus (vw_order v) = OPEN)"
  using assms(3)
proof (cases rule: createOrder_cases)
  case (replayed st)
  with assms(4) show ?thesis by simp
next
  case (booked refund paid d1 ch)
  note B = ledger.createOrder_tx_money [OF booked(5,1,2,3)]
  have ok: "cart_ok (on_offer e cat) c" by (rule shopping_run_ok [OF assms(1)])
  let ?r = "ct_depositRefundCount c * ct_depositRefundUnitPrice c"
  have req: "co_items req = map order_item_of (ct_items c)" "co_payments req = payments"
    "co_depositRefundTotal req = (if 0 < ?r then Some ?r else None)"
    using assms(2) by (auto simp: handleCheckoutSubmit_def checkout_order_def Let_def split: if_splits list.splits prod.splits)
  obtain m' sess user gross items lines d2 rs d3 d4 where
    gross: "gross = gross_total items" and pos: "list_all2 (position_of d (co_eventId req)) (co_items req) items"
    and ins: "insert_order e' (order_row u req m' sess (gross - refund) refund (initial_payment_status paid (gross - refund)))
       (map (\<lambda>i. i\<lparr>oi_paidQuantity := (if initial_payment_status paid (gross - refund) = PAID then oi_quantity i else 0)\<rparr>) items)
       (map (new_payment sess) (dto_payments req)) d2 = Inr (d3, v)"
    by (rule ledger.createOrder_tx_effect [OF booked(5)])
  note I = insert_order_Inr [OF ins]
  have g: "gross_total (vw_items v) = gross" unfolding I(2) gross_total_def number_items_simps gross_paid_update
    by (simp add: gross gross_total_def)
  have cat: "distinct (map pd_id (t_products d))" "\<forall>p \<in> set (t_products d). product_wf p"
    using assms(5,6) by (auto simp: catalogue_ok_def groups_ok_def)
  have lines: "\<forall>i \<in> set (ct_items c). item_ok i \<and> on_offer e d (ci_product i) (ci_selectedOptions i)"
    using ok assms(5) by (auto simp: cart_ok_def on_offer_def)
  from cart_is_gross [OF lines cat pos [unfolded req(1)]] gross have gross': "gross = items_total (ct_items c)" by simp
  have r: "0 \<le> ?r" using ok by (simp add: cart_ok_def refund_ok_def)
  have refund: "(case co_depositRefundTotal req of None \<Rightarrow> 0 | Some r \<Rightarrow> r) = ?r" using r by (auto simp: req(3))
  have total: "od_totalAmount (vw_order v) = ct_total c"
    using B gross' g r refund ok unfolding booked_order_def Let_def by (simp add: cart_ok_def recalcTotal_def)
  have pieces: "map (\<lambda>i. (oi_productId i, oi_quantity i)) (vw_items v) =
      map (\<lambda>i. (pd_id (sp_product (ci_product i)), ci_quantity i)) (ct_items c)"
  proof -
    have "list_all2 (\<lambda>i it. oi_productId it = ii_productId i \<and> oi_quantity it = ii_quantity i) (co_items req) (vw_items v)"
      using B unfolding booked_order_def Let_def by (auto elim: list_all2_mono)
    then have "map (\<lambda>i. (oi_productId i, oi_quantity i)) (vw_items v) = map (\<lambda>i. (ii_productId i, ii_quantity i)) (co_items req)"
      by (induction rule: list_all2_induct) simp_all
    then show ?thesis by (simp add: req(1) order_item_of_def)
  qed
  have paid: "od_paymentStatus (vw_order v) = (if od_totalAmount (vw_order v) \<le> sum_list (map pi_amount (dto_payments req)) then PAID
      else if 0 < sum_list (map pi_amount (dto_payments req)) then PARTIALLY_PAID else OPEN)"
    using B unfolding booked_order_def Let_def by simp
  have dto: "dto_payments req = (case payments of None \<Rightarrow> [] | Some ps \<Rightarrow> ps)" by (simp add: dto_payments_def req(2))
  have "payments = Some (handleFullPayment (ct_total c) m) \<or> payments = handleSplitSubmit (ct_total c) cash \<and> payments \<noteq> None \<longrightarrow>
      od_paymentStatus (vw_order v) = PAID"
    unfolding paid dto total by (auto simp: handleFullPayment_def handleSplitSubmit_def split: if_splits)
  moreover have "payments = Some handlePayLater \<and> 0 < ct_total c \<longrightarrow> od_paymentStatus (vw_order v) = OPEN"
    unfolding paid dto total by (auto simp: handlePayLater_def)
  ultimately show ?thesis using total pieces by blast
qed

text \<open>Two large beers with syrup, one piece added by hand, and one cup given back.\<close>

definition listed_beer :: product_facade where
  "listed_beer = \<lparr>sp_product = listed run_env sample_beer, sp_availability = AVAILABLE, sp_inventoryTracked = True,
     sp_stockQuantity = Some 10, sp_lowStockThreshold = Some 3, sp_inventoryVersion = 1, pf_manualBlocked = False\<rparr>"

definition beer_options :: "cart_option list" where
  "beer_options = map (\<lambda>(x, g). cart_option_of g x) (filter (\<lambda>(x, _). op_id x \<in> {''o2'', ''o3''}) (product_options sample_beer))"

definition beer_cart :: cart where
  "beer_cart = setDepositRefundCount (Some 1) (handleOptionsSubmit None listed_beer beer_options
     (handleOptionsSubmit None listed_beer beer_options empty_cart))"

definition beer_request :: "create_order option" where
  "beer_request = handleCheckoutSubmit [listed_beer] ''key'' (Some (handleFullPayment (ct_total beer_cart) CASH)) None ''T1'' None beer_cart"

lemma beer_on_offer: "on_offer run_env sample_db listed_beer beer_options"
proof -
  have m: "sample_beer \<in> set (t_products sample_db)" by (simp add: sample_db_def)
  have v: "valid_selection sample_beer (map so_id beer_options)" by code_simp
  have a: "list_all (\<lambda>(x, _). op_isActive x) (filter (\<lambda>(x, _). op_id x \<in> {''o2'', ''o3''}) (product_options sample_beer))" by code_simp
  have "offered sample_beer beer_options"
    unfolding offered_def using v a by (fastforce simp: beer_options_def list_all_iff)
  with m show ?thesis unfolding on_offer_def by (intro bexI [of _ sample_beer]) (simp_all add: listed_beer_def)
qed

lemma beer_shopping: "(shopping (on_offer run_env sample_db))\<^sup>*\<^sup>* empty_cart beer_cart"
proof -
  let ?R = "shopping (on_offer run_env sample_db)"
  have add: "?R c (handleOptionsSubmit None listed_beer beer_options c)" for c 
    by (rule shopping.options_added) (rule beer_on_offer)
  have "?R c (setDepositRefundCount (Some 1) c)" for c by (rule shopping.refund_counted)
  with add show ?thesis unfolding beer_cart_def by (meson rtranclp.rtrancl_into_rtrancl rtranclp.rtrancl_refl)
qed

lemma sample_catalogue_ok: "catalogue_ok sample_db"
  by code_simp

lemma cart_is_booked_witness:
  "\<exists>req. beer_request = Some req \<and> ct_total beer_cart = 1200 \<and>
     succeeds_with (\<lambda>(d', v). od_totalAmount (vw_order v) = 1200 \<and> od_paymentStatus (vw_order v) = PAID \<and>
        map (\<lambda>i. (oi_productId i, oi_quantity i)) (vw_items v) = [(''b'', 2)])
       (createOrder (Some InventoryService) run_env sample_db sample_db ''u'' req)"
proof -
  have "case beer_request of None \<Rightarrow> False | Some req \<Rightarrow> succeeds_with (\<lambda>(d', v). serial d' \<noteq> 0)
       (createOrder (Some InventoryService) run_env sample_db sample_db ''u'' req)" by code_simp
  then obtain req d' v where req: "beer_request = Some req" and n: "serial d' \<noteq> 0"
    and run: "createOrder (Some InventoryService) run_env sample_db sample_db ''u'' req = Inr (d', v)"
    by (auto elim!: succeeds_withE split: option.splits)
  have "serial sample_db = 0" by code_simp
  with n have "d' \<noteq> sample_db" by auto
  note C = cart_is_booked [OF beer_shopping req [unfolded beer_request_def] run this refl sample_catalogue_ok, of CASH]
  have "ct_total beer_cart = 1200" "map (\<lambda>i. (pd_id (sp_product (ci_product i)), ci_quantity i)) (ct_items beer_cart) = [(''b'', 2)]"
    by code_simp+
  with C req show ?thesis by (intro exI [of _ req]) (simp add: succeeds_with_def run)
qed

text \<open>
  C7. The cart is a bag of compositions: over any run of the order page, adding puts one piece of its composition in, editing
  moves all pieces of a line to the new composition, where they join the pieces already there, removing takes one piece,
  deleting and clearing take all; and the shown total is the value of the pieces less the refund, never negative.
\<close>

theorem cart_counts_pieces:
  assumes "(shopping allowed)\<^sup>*\<^sup>* empty_cart c"
  shows "pieces (addItem p sel c) = (let k = line_key (sp_product p) (case sel of None \<Rightarrow> [] | Some os \<Rightarrow> os) in (pieces c)(k := pieces c k + 1)) \<and>
    (\<forall>cur. find_item i (ct_items c) = Some cur \<longrightarrow> pieces (updateItemOptions i opts c) =
      (let k = line_key (sp_product (ci_product cur)) opts; rest = (pieces c)(i := 0) in rest(k := rest k + pieces c i))) \<and>
    pieces (removeItem i c) = (pieces c)(i := max 0 (pieces c i - 1)) \<and>
    pieces (deleteItem i c) = (pieces c)(i := 0) \<and> pieces (clearCart c) = (\<lambda>_. 0) \<and>
    ct_total c = max 0 (sum_list (map (\<lambda>i. line_price (sp_product (ci_product i)) (ci_selectedOptions i) * pieces c (ci_id i)) (ct_items c))
      - ct_depositRefundCount c * ct_depositRefundUnitPrice c)"
proof (intro conjI allI impI)
  have ok: "cart_ok allowed c" by (rule shopping_run_ok [OF assms])
  show "pieces (addItem p sel c) = (let k = line_key (sp_product p) (case sel of None \<Rightarrow> [] | Some os \<Rightarrow> os) in (pieces c)(k := pieces c k + 1))"
    unfolding Let_def by (rule pieces_addItem)
  show "pieces (updateItemOptions i opts c) =
      (let k = line_key (sp_product (ci_product cur)) opts; rest = (pieces c)(i := 0) in rest(k := rest k + pieces c i))"
    if "find_item i (ct_items c) = Some cur" for cur using that by (rule pieces_updateItemOptions)
  show "pieces (removeItem i c) = (pieces c)(i := max 0 (pieces c i - 1))" by (rule pieces_removeItem [OF ok])
  show "pieces (deleteItem i c) = (pieces c)(i := 0)" by (rule pieces_deleteItem)
  show "pieces (clearCart c) = (\<lambda>_. 0)" by (rule pieces_clearCart)
  have dist: "distinct (map ci_id (ct_items c))" using ok by (simp add: cart_ok_def)
  have "find_item (ci_id i) (ct_items c) = Some i" if "i \<in> set (ct_items c)" for i
    using find_distinct_key [OF dist that] by (simp add: find_item_def)
  then have "ci_finalPrice i * ci_quantity i = line_price (sp_product (ci_product i)) (ci_selectedOptions i) * pieces c (ci_id i)"
    if "i \<in> set (ct_items c)" for i
    using ok that by (simp add: cart_ok_def item_ok_iff pieces_def)
  then have "items_total (ct_items c) =
      sum_list (map (\<lambda>i. line_price (sp_product (ci_product i)) (ci_selectedOptions i) * pieces c (ci_id i)) (ct_items c))"
    unfolding items_total_def by (intro arg_cong [of _ _ sum_list] map_cong refl)
  with ok show "ct_total c = max 0 (sum_list (map (\<lambda>i. line_price (sp_product (ci_product i)) (ci_selectedOptions i) * pieces c (ci_id i)) (ct_items c))
      - ct_depositRefundCount c * ct_depositRefundUnitPrice c)"
    by (simp add: cart_ok_def recalcTotal_def refund_ok_def)
qed

lemma cart_counts_pieces_witness:
  "pieces (removeItem (line_key sample_beer beer_options) beer_cart) (line_key sample_beer beer_options) = 1"
proof -
  have "pieces beer_cart (line_key sample_beer beer_options) = 2" by code_simp
  with cart_counts_pieces [OF beer_shopping, of listed_beer None "line_key sample_beer beer_options" "[]"] show ?thesis by simp
qed

section \<open>Tiles\<close>

text \<open>
  C11. What a tile of the one-touch registers shows against what the sale costs, for every product the administration can store: if the
  backend accepts the position of the tile, the shown price is the booked price with the deposit. The only exception is a product
  with a required group of absolute prices that is not its tile group: such a tile shows exactly the product price too much.
\<close>

theorem tile_price:
  assumes "groups_ok p" and "sp_product sp = listed e p"
    and "t \<in> set (deriveQuickSaleTiles [sp])" and "resolveOrderItemPricing p (qt_optionIds t) = Inr r"
  shows "qt_productId t = pd_id p \<and>
    qt_price t = pp_priceAtTime r + resolveDeposit p +
      (if \<exists>g \<in> set (pd_optionGroups p). og_isRequired g \<and> \<not> og_quickSaleTiles g \<and> is_absolute g \<and> active_options g \<noteq> []
       then pd_price p else 0)"
proof -
  have t: "t \<in> set (product_tiles sp)" using assms(3) by (simp add: deriveQuickSaleTiles_def)
  from tile_selection(1) [OF t] tile_price_is_charged [OF assms(1,2) t assms(4)] assms(2) show ?thesis
    by (simp add: preset_absolute_def)
qed

definition beer_tile :: quick_sale_tile where
  "beer_tile = hd (deriveQuickSaleTiles [quick_sale_product (Some LIVE) [sample_stock] (listed run_env sample_beer)])"

lemma tile_price_witness:
  "succeeds_with (\<lambda>r. qt_price beer_tile = pp_priceAtTime r + 100 \<and> qt_price beer_tile = 400)
     (resolveOrderItemPricing sample_beer (qt_optionIds beer_tile))"
proof -
  let ?sp = "quick_sale_product (Some LIVE) [sample_stock] (listed run_env sample_beer)"
  have facts: "\<not> (\<exists>g \<in> set (pd_optionGroups sample_beer). og_isRequired g \<and> \<not> og_quickSaleTiles g \<and> is_absolute g \<and> active_options g \<noteq> [])"
    "deriveQuickSaleTiles [?sp] \<noteq> []" "qt_price beer_tile = 400" "resolveDeposit sample_beer = 100" by code_simp+
  have sp: "sp_product ?sp = listed run_env sample_beer" by (simp add: quick_sale_product_def Let_def)
  have t: "beer_tile \<in> set (deriveQuickSaleTiles [?sp])" unfolding beer_tile_def by (rule hd_in_set [OF facts(2)])
  have "succeeds_with (\<lambda>_. True) (resolveOrderItemPricing sample_beer (qt_optionIds beer_tile))" by code_simp
  then obtain r where r: "resolveOrderItemPricing sample_beer (qt_optionIds beer_tile) = Inr r" by (auto elim!: succeeds_withE)
  from tile_price [OF sample_beer_groups_ok sp t r] facts(1,3,4) show ?thesis unfolding r by (simp add: succeeds_with_def)
qed

section \<open>Splitting a payment\<close>

text \<open>
  C10. The split dialog and the backend disagree about deposits: whatever open quantities are chosen, the request of the dialog is
  refused exactly when a chosen position carries a deposit, and is booked when none does.
\<close>

theorem split_dialog:
  assumes "distinct (map oi_id (order_items d oid))" and "quantities_ok (order_items d oid) q"
    and "find_order d oid = Some o'" and "od_lifecycleStatus o' \<noteq> LC_CANCELLED" and "od_paymentStatus o' \<noteq> PAID"
    and "split_request (order_items d oid) m q = Some (sel, payments)" and "m = CASH \<or> m = CARD"
    and "selectedTotalCents (order_items d oid) q + selected_deposit (order_items d oid) q \<le> int32_max"
    and "\<forall>it \<in> set (order_items d oid). 0 \<le> oi_depositAtTime it"
  shows "(splitPaymentOrder e d oid sel payments u = Inl (BadRequest ''SPLIT_AMOUNT_MISMATCH'') \<longleftrightarrow>
      0 < selected_deposit (order_items d oid) q) \<and>
    (selected_deposit (order_items d oid) q = 0 \<longrightarrow> (\<exists>r. splitPaymentOrder e d oid sel payments u = Inr r))"
  using split_dialog_answer [OF assms] by blast

definition open_beer_db :: db where
  "open_beer_db = result_of sample_db
     (bind_res (createOrder (Some InventoryService) run_env sample_db sample_db ''u'' ((beer_order 500)\<lparr>co_payments := None\<rparr>)) (\<lambda>(d', v). Inr d'))"

definition beer_split :: "(split_item list \<times> payment_input list) option" where
  "beer_split = split_request (order_items open_beer_db (od_id (hd (t_orders open_beer_db)))) CASH
     (handleSelectAllRemaining (order_items open_beer_db (od_id (hd (t_orders open_beer_db)))))"

lemma split_dialog_witness:
  "\<exists>sel payments. beer_split = Some (sel, payments) \<and> map pi_amount payments = [1100] \<and>
    splitPaymentOrder run_env open_beer_db (od_id (hd (t_orders open_beer_db))) sel payments ''u'' = Inl (BadRequest ''SPLIT_AMOUNT_MISMATCH'')"
proof -
  let ?oid = "od_id (hd (t_orders open_beer_db))"
  let ?items = "order_items open_beer_db ?oid" and ?q = "handleSelectAllRemaining (order_items open_beer_db (od_id (hd (t_orders open_beer_db))))"
  have "case beer_split of None \<Rightarrow> False | Some (sel, payments) \<Rightarrow> map pi_amount payments = [1100]" by code_simp
  then obtain sel payments where r: "beer_split = Some (sel, payments)" "map pi_amount payments = [1100]"
    by (auto split: option.splits)
  have o: "find_order open_beer_db ?oid = Some (hd (t_orders open_beer_db))"
    "od_lifecycleStatus (hd (t_orders open_beer_db)) \<noteq> LC_CANCELLED" "od_paymentStatus (hd (t_orders open_beer_db)) \<noteq> PAID"
    by code_simp+
  have i: "distinct (map oi_id ?items)" "quantities_ok ?items ?q" "selectedTotalCents ?items ?q + selected_deposit ?items ?q \<le> int32_max"
    "\<forall>it \<in> set ?items. 0 \<le> oi_depositAtTime it" "0 < selected_deposit ?items ?q" by code_simp+
  from split_dialog [OF i(1,2) o r(1) [unfolded beer_split_def] disjI1 [OF refl] i(3,4), of run_env "''u''"] i(5)
  have "splitPaymentOrder run_env open_beer_db ?oid sel payments ''u'' = Inl (BadRequest ''SPLIT_AMOUNT_MISMATCH'')" by (simp only: simp_thms)
  with r show ?thesis by (intro exI [of _ sel] exI [of _ payments] conjI) simp_all
qed

end
