(* ===== verification/VO_Admin.thy ===== *)
theory VO_Admin
  imports VO_Products
begin

text \<open>
  The administration of stations (\<^verbatim>\<open>apps/backend/src/stations/stations.service.ts\<close>) and of areas with their floor plans
  (\<^verbatim>\<open>apps/backend/src/areas/areas.service.ts\<close>). A floor plan is stored as JSON; reading it adds the state of the orders to
  every table of the plan.
\<close>

section \<open>Stations\<close>

record create_station =
  ns_name :: string
  ns_shortName :: "string option"
  ns_color :: "string option"
  ns_sortOrder :: "int option"
  ns_isActive :: "bool option"
  ns_eventId :: id
  ns_printerId :: "id option"

text \<open>A field of the update is absent or a value; the nullable columns may also be null.\<close>

record update_station =
  ut_name :: "string option"
  ut_shortName :: "string option option"
  ut_color :: "string option option"
  ut_sortOrder :: "int option"
  ut_isActive :: "bool option"
  ut_printerId :: "id option option"

definition findAllActiveStations :: "db \<Rightarrow> station list" where
  "findAllActiveStations d = sort_key sn_sortOrder (filter (\<lambda>s. sn_isActive s \<and>
     (case find_event d (sn_eventId s) of None \<Rightarrow> False | Some v \<Rightarrow> ev_status v = EV_ACTIVE)) (t_stations d))"

definition findAllStationsAdmin :: "db \<Rightarrow> id \<Rightarrow> station list" where
  "findAllStationsAdmin d eventId = sort_key sn_sortOrder (filter (\<lambda>s. sn_eventId s = eventId) (t_stations d))"

definition printer_exists :: "db \<Rightarrow> id \<Rightarrow> bool" where
  "printer_exists d i \<longleftrightarrow> list_ex (\<lambda>p. pr_id p = i) (t_printers d)"

definition assertPrinterExists :: "db \<Rightarrow> id option \<Rightarrow> api_error + unit" where
  "assertPrinterExists d printerId = (case truthy printerId of
     None \<Rightarrow> Inr () | Some p \<Rightarrow> ensure (printer_exists d p) (BadRequest ''PRINTER_UNKNOWN''))"

definition assertEventExists :: "db \<Rightarrow> id \<Rightarrow> api_error + unit" where
  "assertEventExists d eventId = ensure (find_event d eventId \<noteq> None) (BadRequest ''EVENT_UNKNOWN'')"

definition printer_key :: "db \<Rightarrow> id option \<Rightarrow> api_error + unit" where
  "printer_key d printerId =
     ensure (case printerId of None \<Rightarrow> True | Some p \<Rightarrow> printer_exists d p) (TypeError ''P2003'')"

definition station_row :: "id \<Rightarrow> create_station \<Rightarrow> station" where
  "station_row i c = \<lparr>sn_id = i, sn_name = ns_name c, sn_eventId = ns_eventId c, sn_isActive = column (ns_isActive c) True,
     sn_printerId = ns_printerId c, sn_shortName = ns_shortName c, sn_color = ns_color c, sn_sortOrder = column (ns_sortOrder c) 0\<rparr>"

definition createStation :: "env \<Rightarrow> db \<Rightarrow> db \<Rightarrow> create_station \<Rightarrow> api_error + db \<times> station" where
  "createStation e pre d c =
     bind_res (assertEventExists pre (ns_eventId c)) (\<lambda>_.
     bind_res (assertPrinterExists pre (ns_printerId c)) (\<lambda>_.
     bind_res (event_key d (ns_eventId c)) (\<lambda>_.
     bind_res (printer_key d (ns_printerId c)) (\<lambda>_.
     let row = station_row (fresh_id e d) c
     in Inr (d\<lparr>t_stations := t_stations d @ [row], serial := Suc (serial d)\<rparr>, row)))))"

definition edited_station :: "update_station \<Rightarrow> station \<Rightarrow> station" where
  "edited_station u s = s\<lparr>sn_name := column (ut_name u) (sn_name s), sn_shortName := column (ut_shortName u) (sn_shortName s),
     sn_color := column (ut_color u) (sn_color s), sn_sortOrder := column (ut_sortOrder u) (sn_sortOrder s),
     sn_isActive := column (ut_isActive u) (sn_isActive s), sn_printerId := column (ut_printerId u) (sn_printerId s)\<rparr>"

definition updateStation :: "db \<Rightarrow> db \<Rightarrow> id \<Rightarrow> update_station \<Rightarrow> api_error + db \<times> station" where
  "updateStation pre d i u =
     bind_res (need (find_station pre i) (NotFound ''STATION'')) (\<lambda>_.
     bind_res (case ut_printerId u of None \<Rightarrow> Inr () | Some p \<Rightarrow> assertPrinterExists pre p) (\<lambda>_.
     bind_res (need (find_station d i) (NotFound ''P2025'')) (\<lambda>row.
     bind_res (printer_key d (sn_printerId (edited_station u row))) (\<lambda>_.
     Inr (d\<lparr>t_stations := update_where (\<lambda>s. sn_id s = i) (edited_station u) (t_stations d)\<rparr>, edited_station u row)))))"

section \<open>Areas\<close>

definition findAllAreas :: "db \<Rightarrow> id \<Rightarrow> area list" where
  "findAllAreas d eventId = sort_key ar_sortOrder (if eventId = [] then t_areas d else filter (\<lambda>a. ar_eventId a = eventId) (t_areas d))"

definition find_area :: "db \<Rightarrow> id \<Rightarrow> area option" where
  "find_area d i = find (\<lambda>a. ar_id a = i) (t_areas d)"

definition createArea :: "env \<Rightarrow> db \<Rightarrow> db \<Rightarrow> string \<Rightarrow> int option \<Rightarrow> id \<Rightarrow> api_error + db \<times> area" where
  "createArea e pre d areaName areaSortOrder eventId =
     bind_res (ensure (find_event pre eventId \<noteq> None) (BadRequest ''EVENT_UNKNOWN'')) (\<lambda>_.
     bind_res (event_key d eventId) (\<lambda>_.
     let row = \<lparr>ar_id = fresh_id e d, ar_name = areaName, ar_sortOrder = column areaSortOrder 0, ar_eventId = eventId,
                ar_floorPlan = None\<rparr>
     in Inr (d\<lparr>t_areas := t_areas d @ [row], serial := Suc (serial d)\<rparr>, row)))"

definition update_area :: "id \<Rightarrow> (area \<Rightarrow> area) \<Rightarrow> db \<Rightarrow> db" where
  "update_area i f d = d\<lparr>t_areas := update_where (\<lambda>a. ar_id a = i) f (t_areas d)\<rparr>"

definition updateArea :: "db \<Rightarrow> db \<Rightarrow> id \<Rightarrow> string option \<Rightarrow> int option \<Rightarrow> api_error + db \<times> area" where
  "updateArea pre d i areaName areaSortOrder =
     bind_res (need (find_area pre i) (NotFound ''AREA'')) (\<lambda>_.
     bind_res (need (find_area d i) (NotFound ''P2025'')) (\<lambda>row.
     let f = (\<lambda>a. a\<lparr>ar_name := column areaName (ar_name a), ar_sortOrder := column areaSortOrder (ar_sortOrder a)\<rparr>)
     in Inr (update_area i f d, f row)))"

text \<open>The orders of a removed area lose their reference to it.\<close>

definition removeArea :: "db \<Rightarrow> db \<Rightarrow> id \<Rightarrow> api_error + db \<times> area" where
  "removeArea pre d i =
     bind_res (need (find_area pre i) (NotFound ''AREA'')) (\<lambda>_.
     bind_res (need (find_area d i) (NotFound ''P2025'')) (\<lambda>row.
     Inr (d\<lparr>t_areas := filter (\<lambda>a. ar_id a \<noteq> i) (t_areas d),
            t_orders := update_where (\<lambda>o'. od_areaId o' = Some i) (\<lambda>o'. o'\<lparr>od_areaId := None\<rparr>) (t_orders d)\<rparr>, row)))"

section \<open>Floor plans\<close>

datatype element_kind = TABLE_RECTANGLE | TABLE_ROUND | TABLE_STANDING | BAR | STAGE | KITCHEN

fun kind_text :: "element_kind \<Rightarrow> string" where
  "kind_text TABLE_RECTANGLE = ''TABLE_RECTANGLE''"
| "kind_text TABLE_ROUND = ''TABLE_ROUND''"
| "kind_text TABLE_STANDING = ''TABLE_STANDING''"
| "kind_text BAR = ''BAR''"
| "kind_text STAGE = ''STAGE''"
| "kind_text KITCHEN = ''KITCHEN''"

record plan_element =
  fe_id :: id
  fe_kind :: element_kind
  fe_label :: string
  fe_tableName :: "string option"
  fe_x :: int
  fe_y :: int
  fe_width :: int
  fe_height :: int
  fe_rotation :: int

definition FLOOR_PLAN_WIDTH :: int where "FLOOR_PLAN_WIDTH = 1000"
definition FLOOR_PLAN_HEIGHT :: int where "FLOOR_PLAN_HEIGHT = 700"
definition LONG_WAIT_MILLISECONDS :: int where "LONG_WAIT_MILLISECONDS = 20 * 60 * 1000"
definition TABLE_KINDS :: "element_kind list" where "TABLE_KINDS = [TABLE_RECTANGLE, TABLE_ROUND, TABLE_STANDING]"

text \<open>\<^verbatim>\<open>toLocaleLowerCase\<close> on ASCII.\<close>

definition js_lower :: "string \<Rightarrow> string" where
  "js_lower s = map (\<lambda>c. if CHR ''A'' \<le> c \<and> c \<le> CHR ''Z'' then char_of (of_char c + 32 :: nat) else c) s"

definition table_key :: "string \<Rightarrow> string" where
  "table_key s = js_lower (js_trim s)"

definition check_element :: "id list \<times> string list \<Rightarrow> plan_element \<Rightarrow> api_error + id list \<times> string list" where
  "check_element st el = (case st of (ids, tableNames) \<Rightarrow>
     bind_res (ensure (fe_id el \<notin> set ids) (BadRequest ''ELEMENT_ID_TWICE'')) (\<lambda>_.
     bind_res (ensure (\<not> (FLOOR_PLAN_WIDTH < fe_x el + fe_width el \<or> FLOOR_PLAN_HEIGHT < fe_y el + fe_height el))
                (BadRequest ''ELEMENT_OUTSIDE'')) (\<lambda>_.
     if fe_kind el \<in> set TABLE_KINDS then
       bind_res (need (truthy (map_option js_trim (fe_tableName el))) (BadRequest ''TABLE_NAME_MISSING'')) (\<lambda>t.
       bind_res (ensure (js_lower t \<notin> set tableNames) (BadRequest ''TABLE_NAME_TWICE'')) (\<lambda>_.
       Inr (ids @ [fe_id el], tableNames @ [js_lower t])))
     else
       bind_res (ensure (truthy (fe_tableName el) = None) (BadRequest ''TABLE_NAME_FORBIDDEN'')) (\<lambda>_.
       Inr (ids @ [fe_id el], tableNames)))))"

definition assertFloorPlanSemantics :: "plan_element list \<Rightarrow> api_error + id list \<times> string list" where
  "assertFloorPlanSemantics els = fold_res check_element ([], []) els"

definition element_json :: "plan_element \<Rightarrow> json" where
  "element_json el = JObj ([(''id'', JStr (fe_id el)), (''kind'', JStr (kind_text (fe_kind el))), (''label'', JStr (fe_label el))]
     @ (case fe_tableName el of None \<Rightarrow> [] | Some t \<Rightarrow> [(''tableName'', JStr t)])
     @ [(''x'', JNum (fe_x el)), (''y'', JNum (fe_y el)), (''width'', JNum (fe_width el)), (''height'', JNum (fe_height el)),
        (''rotation'', JNum (fe_rotation el))])"

definition plan_json :: "plan_element list \<Rightarrow> json" where
  "plan_json els = JObj [(''version'', JNum 1), (''width'', JNum FLOOR_PLAN_WIDTH), (''height'', JNum FLOOR_PLAN_HEIGHT),
     (''elements'', JArr (map element_json els))]"

definition saveFloorPlan :: "db \<Rightarrow> db \<Rightarrow> id \<Rightarrow> plan_element list \<Rightarrow> api_error + db \<times> area" where
  "saveFloorPlan pre d i els =
     bind_res (need (find_area pre i) (NotFound ''AREA'')) (\<lambda>area'.
     bind_res (assertFloorPlanSemantics els) (\<lambda>_.
     bind_res (need (find_area d i) (NotFound ''P2025'')) (\<lambda>row.
     let f = (\<lambda>a. a\<lparr>ar_floorPlan := Some (plan_json els)\<rparr>)
     in Inr (add_broadcast (ar_eventId area') ''FLOOR_PLAN_UPDATED'' (JObj [(''areaId'', JStr (ar_id area'))]) (update_area i f d),
             f row))))"

text \<open>A stored plan is whatever JSON the column holds; its elements are shown as they are.\<close>

definition readStoredFloorPlan :: "json option \<Rightarrow> json list" where
  "readStoredFloorPlan v = (case v of
     Some (JObj fs) \<Rightarrow> (case map_of fs ''elements'' of Some (JArr els) \<Rightarrow> els | _ \<Rightarrow> [])
   | _ \<Rightarrow> [])"

datatype table_status = FREE | OCCUPIED | TS_PREPARING | TS_READY | LONG_WAIT

definition deriveTableStatus :: "nat \<Rightarrow> order list \<Rightarrow> table_status" where
  "deriveTableStatus now orders =
     (if orders = [] then FREE
      else if list_ex (\<lambda>o'. od_fulfillmentStatus o' \<noteq> FF_DELIVERED \<and> LONG_WAIT_MILLISECONDS \<le> int now - int (od_createdAt o')) orders
        then LONG_WAIT
      else if list_ex (\<lambda>o'. od_fulfillmentStatus o' \<in> {FF_READY, FF_PARTIALLY_READY}) orders then TS_READY
      else if list_ex (\<lambda>o'. od_fulfillmentStatus o' \<in> {FF_PREPARING, FF_PARTIALLY_DELIVERED}) orders then TS_PREPARING
      else OCCUPIED)"

text \<open>The orders a plan shows: taken in the running mode at a named table of an area, and not finished.\<close>

definition on_plan :: "id \<Rightarrow> data_mode \<Rightarrow> id list \<Rightarrow> order \<Rightarrow> bool" where
  "on_plan eventId m areaIds o' \<longleftrightarrow> od_eventId o' = eventId \<and> od_dataMode o' = m \<and>
     (case od_areaId o' of None \<Rightarrow> False | Some a \<Rightarrow> a \<in> set areaIds) \<and> od_tableName o' \<noteq> None \<and>
     od_lifecycleStatus o' \<noteq> LC_CANCELLED \<and>
     (od_paymentStatus o' \<in> {OPEN, PARTIALLY_PAID} \<or> od_fulfillmentStatus o' \<noteq> FF_DELIVERED)"

definition group_order :: "((id \<times> string) \<times> order list) list \<Rightarrow> order \<Rightarrow> ((id \<times> string) \<times> order list) list" where
  "group_order m o' = (case (truthy (od_areaId o'), truthy (od_tableName o')) of
     (Some a, Some t) \<Rightarrow> let key = (a, table_key t) in
       js_set key ((case js_get m key of None \<Rightarrow> [] | Some l \<Rightarrow> l) @ [o']) m
   | _ \<Rightarrow> m)"

record table_view =
  tv_status :: table_status
  tv_openOrderCount :: int
  tv_oldestOrderCreatedAt :: "nat option"

definition table_of :: "nat \<Rightarrow> order list \<Rightarrow> table_view" where
  "table_of now orders = \<lparr>tv_status = deriveTableStatus now orders, tv_openOrderCount = int (length orders),
     tv_oldestOrderCreatedAt = (case sort (map od_createdAt orders) of [] \<Rightarrow> None | t # _ \<Rightarrow> Some t)\<rparr>"

text \<open>An element as it is shown: a table with a name carries the state of its orders.\<close>

definition show_element ::
  "nat \<Rightarrow> ((id \<times> string) \<times> order list) list \<Rightarrow> id \<Rightarrow> json \<Rightarrow> api_error + json \<times> table_view option" where
  "show_element now byTable areaId el =
     (if el = JNull then Inl (VO_Data.TypeError ''kind'')
      else if json_field ''kind'' el \<notin> Some ` JStr ` kind_text ` set TABLE_KINDS then Inr (el, None)
      else (case json_field ''tableName'' el of
          Some (JStr t) \<Rightarrow>
            if t = [] then Inr (el, None)
            else Inr (el, Some (table_of now (case js_get byTable (areaId, table_key t) of None \<Rightarrow> [] | Some l \<Rightarrow> l)))
        | None \<Rightarrow> Inr (el, None)
        | Some JNull \<Rightarrow> Inr (el, None)
        | Some (JBool b) \<Rightarrow> if b then Inl (VO_Data.TypeError ''trim'') else Inr (el, None)
        | Some (JNum n) \<Rightarrow> if n = 0 then Inr (el, None) else Inl (VO_Data.TypeError ''trim'')
        | _ \<Rightarrow> Inl (VO_Data.TypeError ''trim'')))"

record area_view =
  av_id :: id
  av_name :: string
  av_sortOrder :: int
  av_elements :: "(json \<times> table_view option) list"

definition plan_orders :: "db \<Rightarrow> id \<Rightarrow> data_mode option \<Rightarrow> id list \<Rightarrow> order list" where
  "plan_orders d eventId dataMode areaIds = (case dataMode of
     None \<Rightarrow> []
   | Some m \<Rightarrow> if areaIds = [] then [] else filter (on_plan eventId m areaIds) (t_orders d))"

definition findFloorPlans :: "env \<Rightarrow> db \<Rightarrow> id \<Rightarrow> api_error + area_view list" where
  "findFloorPlans e d eventId =
     bind_res (need (find_event d eventId) (BadRequest ''EVENT_UNKNOWN'')) (\<lambda>event'.
     let areas = sort_key ar_sortOrder (filter (\<lambda>a. ar_eventId a = eventId) (t_areas d)) in
     bind_res (resolveOperationalDataMode (Some event')) (\<lambda>dataMode.
     let byTable = foldl group_order [] (plan_orders d eventId dataMode (map ar_id areas)) in
     map_res (\<lambda>a.
       bind_res (map_res (show_element (env_now e) byTable (ar_id a)) (readStoredFloorPlan (ar_floorPlan a))) (\<lambda>els.
       Inr \<lparr>av_id = ar_id a, av_name = ar_name a, av_sortOrder = ar_sortOrder a, av_elements = els\<rparr>)) areas))"

end
