(* ===== verification/VO_Admin_Laws.thy ===== *)
theory VO_Admin_Laws
  imports VO_Admin VO_Product_Laws
begin

text \<open>
  Laws of the administration: the catalogue stays sound over every run of the operations that write products, categories
  and stations, and a floor plan shows the orders of its tables.
\<close>

section \<open>Stations keep their event\<close>

lemma station_in_mono:
  assumes "\<And>x. x \<in> set (t_stations d) \<Longrightarrow> \<exists>y \<in> set (t_stations d'). sn_id y = sn_id x \<and> sn_eventId y = sn_eventId x"
    and "station_in d ev s"
  shows "station_in d' ev s"
proof (cases s)
  case (Some i)
  with assms(2) obtain x where x: "x \<in> set (t_stations d)" "sn_id x = i" "sn_eventId x = ev" by (auto simp: station_in_def)
  from assms(1) [OF x(1)] x(2,3) Some show ?thesis by (auto simp: station_in_def)
qed (simp add: station_in_def)

lemma stations_inv:
  assumes inv: "catalogue_inv ids d" and rows: "t_products d' = t_products d" "t_categories d' = t_categories d" "serial d \<le> serial d'"
    and keep: "\<And>x. x \<in> set (t_stations d) \<Longrightarrow> \<exists>y \<in> set (t_stations d'). sn_id y = sn_id x \<and> sn_eventId y = sn_eventId x"
  shows "catalogue_inv ids d'"
proof (rule catalogue_invI [OF inv rows(3)])
  have "station_in d' ev s" if "station_in d ev s" for ev s using keep that by (rule station_in_mono)
  with inv show "catalogue_ok d'" by (auto simp: catalogue_inv_def catalogue_ok_def product_linked_def rows)
  show "catalogue_ids d' \<subseteq> catalogue_ids d \<union> new_ids ids (serial d) (serial d')"
    unfolding catalogue_ids_def rows by blast
qed

lemma createStation_inv:
  assumes "catalogue_inv ids d" and "createStation e pre d c = Inr (d', r)"
  shows "catalogue_inv ids d'"
  by (rule stations_inv [OF assms(1)]) (use assms(2) in \<open>auto simp: createStation_def res_simps Let_def\<close>)

lemma updateStation_inv:
  assumes "catalogue_inv ids d" and "updateStation pre d i u = Inr (d', r)"
  shows "catalogue_inv ids d'"
proof -
  from assms(2) have d': "d' = d\<lparr>t_stations := update_where (\<lambda>s. sn_id s = i) (edited_station u) (t_stations d)\<rparr>"
    by (auto simp: updateStation_def res_simps split: option.splits)
  show ?thesis
  proof (rule stations_inv [OF assms(1)])
    fix x assume "x \<in> set (t_stations d)"
    then have "(if sn_id x = i then edited_station u x else x) \<in> set (t_stations d')"
      by (auto simp: d' set_update_where)
    then show "\<exists>y \<in> set (t_stations d'). sn_id y = sn_id x \<and> sn_eventId y = sn_eventId x"
      by (rule bexI [rotated]) (simp add: edited_station_def)
  qed (simp_all add: d')
qed

text \<open>Everything the administration does to the catalogue; what an operation read before its transaction is any state.\<close>

inductive catalogue_step :: "(nat \<Rightarrow> id) \<Rightarrow> db \<Rightarrow> db \<Rightarrow> bool" for ids :: "nat \<Rightarrow> id" where
  availability: "updateAvailability pre d i a u = (d', r) \<Longrightarrow> catalogue_step ids d d'"
| product_created: "env_uuid e = ids \<Longrightarrow> createProduct e pre d c u = (d', r) \<Longrightarrow> catalogue_step ids d d'"
| product_edited: "env_uuid e = ids \<Longrightarrow> updateProduct e pre d i u a = (d', r) \<Longrightarrow> catalogue_step ids d d'"
| category_created: "env_uuid e = ids \<Longrightarrow> createCategory e pre d cc = Inr (d', r) \<Longrightarrow> catalogue_step ids d d'"
| category_edited: "updateCategory pre d i uc = Inr (d', r) \<Longrightarrow> catalogue_step ids d d'"
| station_created: "env_uuid e = ids \<Longrightarrow> createStation e pre d cs = Inr (d', r) \<Longrightarrow> catalogue_step ids d d'"
| station_edited: "updateStation pre d i us = Inr (d', r) \<Longrightarrow> catalogue_step ids d d'"

lemma catalogue_step_inv: "catalogue_step ids d d' \<Longrightarrow> catalogue_inv ids d \<Longrightarrow> catalogue_inv ids d'"
proof (induction rule: catalogue_step.induct)
  case (product_created e pre d c u d' r)
  then show ?case using createProduct_inv [of e d] by simp
next
  case (product_edited e pre d i u a d' r)
  then show ?case using updateProduct_inv [of e d] by simp
next
  case (category_created e pre d cc d' r)
  then show ?case using createCategory_inv [of e d] by simp
next
  case (availability pre d i a u d' r)
  then show ?case by (rule updateAvailability_inv [rotated])
next
  case (category_edited pre d i uc d' r)
  then show ?case by (rule updateCategory_inv [rotated])
next
  case (station_created e pre d cs d' r)
  from station_created(3,2) show ?case by (rule createStation_inv)
next
  case (station_edited pre d i us d' r)
  then show ?case by (rule updateStation_inv [rotated])
qed

lemma catalogue_run_inv: "(catalogue_step ids)\<^sup>*\<^sup>* d d' \<Longrightarrow> catalogue_inv ids d \<Longrightarrow> catalogue_inv ids d'"
  by (induction rule: rtranclp_induct) (auto intro: catalogue_step_inv)

section \<open>Floor plans\<close>

lemma kind_text_inject: "kind_text a = kind_text b \<longleftrightarrow> a = b"
  by (cases a; cases b) auto

definition is_table :: "plan_element \<Rightarrow> bool" where
  "is_table el \<longleftrightarrow> fe_kind el \<in> set TABLE_KINDS"

definition element_key :: "plan_element \<Rightarrow> string" where
  "element_key el = table_key (case fe_tableName el of None \<Rightarrow> [] | Some t \<Rightarrow> t)"

text \<open>A plan that passed the checks: different ids, all inside, tables named differently.\<close>

lemma checked_elements:
  assumes "fold_res check_element (ids, names) els = Inr st" and "distinct names"
  shows "distinct (names @ map element_key (filter is_table els)) \<and>
    (\<forall>el \<in> set els. is_table el \<longrightarrow> (\<exists>t. fe_tableName el = Some t \<and> js_trim t \<noteq> [])) \<and>
    (\<forall>el \<in> set els. fe_x el + fe_width el \<le> FLOOR_PLAN_WIDTH \<and> fe_y el + fe_height el \<le> FLOOR_PLAN_HEIGHT)"
  using assms
proof (induction els arbitrary: ids names)
  case Nil
  then show ?case by simp
next
  case (Cons el els)
  from Cons.prems(1) obtain s where s: "check_element (ids, names) el = Inr s" and r: "fold_res check_element s els = Inr st"
    by (auto simp: res_simps)
  show ?case
  proof (cases "is_table el")
    case True
    with s obtain t where t: "truthy (map_option js_trim (fe_tableName el)) = Some t" "js_lower t \<notin> set names"
      "s = (ids @ [fe_id el], names @ [js_lower t])"
      "fe_x el + fe_width el \<le> FLOOR_PLAN_WIDTH \<and> fe_y el + fe_height el \<le> FLOOR_PLAN_HEIGHT"
      by (auto simp: check_element_def is_table_def res_simps)
    from t(1) obtain u where u: "fe_tableName el = Some u" "js_trim u = t" "t \<noteq> []"
      by (auto simp: truthy_def split: option.splits if_splits)
    have key: "element_key el = js_lower t" by (simp add: element_key_def u table_key_def)
    from Cons.IH [OF r [unfolded t(3)]] Cons.prems(2) t(2,4) True key u show ?thesis by auto
  next
    case False
    with s have "s = (ids @ [fe_id el], names)"
      "fe_x el + fe_width el \<le> FLOOR_PLAN_WIDTH \<and> fe_y el + fe_height el \<le> FLOOR_PLAN_HEIGHT"
      by (auto simp: check_element_def is_table_def res_simps)
    with Cons.IH r Cons.prems(2) False show ?thesis by auto
  qed
qed

text \<open>The table an order belongs to.\<close>

definition order_table :: "order \<Rightarrow> (id \<times> string) option" where
  "order_table o' = (case (truthy (od_areaId o'), truthy (od_tableName o')) of
     (Some a, Some t) \<Rightarrow> Some (a, table_key t) | _ \<Rightarrow> None)"

lemma group_order_table: "group_order m o' = (case order_table o' of None \<Rightarrow> m
    | Some key \<Rightarrow> js_set key ((case js_get m key of None \<Rightarrow> [] | Some l \<Rightarrow> l) @ [o']) m)"
  by (simp add: group_order_def order_table_def Let_def split: option.split)

lemma grouped_orders:
  "(case js_get (foldl group_order [] orders) key of None \<Rightarrow> [] | Some l \<Rightarrow> l) = filter (\<lambda>o'. order_table o' = Some key) orders"
proof (induction orders rule: rev_induct)
  case Nil
  then show ?case by simp
next
  case (snoc o' orders)
  then show ?case by (cases "order_table o'") (auto simp: group_order_table)
qed

definition event_plan_orders :: "db \<Rightarrow> id \<Rightarrow> data_mode option \<Rightarrow> order list" where
  "event_plan_orders d eventId m =
     plan_orders d eventId m (map ar_id (sort_key ar_sortOrder (filter (\<lambda>a. ar_eventId a = eventId) (t_areas d))))"

definition orders_at :: "db \<Rightarrow> id \<Rightarrow> data_mode option \<Rightarrow> id \<Rightarrow> string \<Rightarrow> order list" where
  "orders_at d eventId m areaId key = filter (\<lambda>o'. order_table o' = Some (areaId, key)) (event_plan_orders d eventId m)"

lemma counted_once:
  "distinct ks \<Longrightarrow> (\<Sum>k\<leftarrow>ks. length (filter (\<lambda>x. f x = Some (a, k)) xs)) = length (filter (\<lambda>x. \<exists>k \<in> set ks. f x = Some (a, k)) xs)"
proof (induction ks)
  case Nil
  then show ?case by simp
next
  case (Cons k ks)
  have "length (filter (\<lambda>x. f x = Some (a, k)) xs) + length (filter (\<lambda>x. \<exists>k \<in> set ks. f x = Some (a, k)) xs)
      = length (filter (\<lambda>x. \<exists>k \<in> set (k # ks). f x = Some (a, k)) xs)"
    using Cons.prems by (induction xs) auto
  with Cons show ?case by simp
qed

lemma element_fields:
  "json_field ''kind'' (element_json el) = Some (JStr (kind_text (fe_kind el)))"
  "json_field ''tableName'' (element_json el) = map_option JStr (fe_tableName el)"
  "element_json el \<noteq> JNull"
  by (simp_all add: element_json_def json_field_def split: option.split)

lemma shown_element:
  assumes "is_table el \<Longrightarrow> \<exists>t. fe_tableName el = Some t \<and> js_trim t \<noteq> []"
  shows "show_element now (foldl group_order [] orders) a (element_json el) = Inr (element_json el,
    if is_table el then Some (table_of now (filter (\<lambda>o'. order_table o' = Some (a, element_key el)) orders)) else None)"
proof -
  have k: "json_field ''kind'' (element_json el) \<in> Some ` JStr ` kind_text ` set TABLE_KINDS \<longleftrightarrow> is_table el"
    by (auto simp: element_fields is_table_def kind_text_inject)
  show ?thesis
  proof (cases "is_table el")
    case True
    with assms obtain t where t: "fe_tableName el = Some t" "t \<noteq> []" by (metis js_trim_Nil)
    show ?thesis
      unfolding show_element_def using True t k grouped_orders [of orders "(a, table_key t)"]
      by (simp add: element_fields element_key_def)
  next
    case False
    with k show ?thesis by (simp add: show_element_def element_fields(3))
  qed
qed

lemma shown_elements:
  assumes "\<forall>el \<in> set els. is_table el \<longrightarrow> (\<exists>t. fe_tableName el = Some t \<and> js_trim t \<noteq> [])"
  shows "map_res (show_element now (foldl group_order [] orders) a) (map element_json els) = Inr (map (\<lambda>el. (element_json el,
    if is_table el then Some (table_of now (filter (\<lambda>o'. order_table o' = Some (a, element_key el)) orders)) else None)) els)"
  using assms by (induction els) (simp_all add: shown_element)

text \<open>A saved plan is shown again as it was saved.\<close>

lemma saved_plan_shown:
  assumes save: "saveFloorPlan pre d i els = Inr (d', a)" and run: "findFloorPlans e d' (ar_eventId a) = Inr views"
  obtains v ev m where "v \<in> set views" "av_id v = i" "find_event d' (ar_eventId a) = Some ev" "resolveOperationalDataMode (Some ev) = Inr m"
    "av_elements v = map (\<lambda>el. (element_json el, if is_table el
       then Some (table_of (env_now e) (orders_at d' (ar_eventId a) m i (element_key el))) else None)) els"
proof -
  from save obtain st row where ok: "assertFloorPlanSemantics els = Inr st" and row: "find_area d i = Some row"
    and a: "a = row\<lparr>ar_floorPlan := Some (plan_json els)\<rparr>"
    and d': "t_areas d' = update_where (\<lambda>x. ar_id x = i) (\<lambda>x. x\<lparr>ar_floorPlan := Some (plan_json els)\<rparr>) (t_areas d)"
    by (auto simp: saveFloorPlan_def res_simps Let_def add_broadcast_def update_area_def)
  have row': "row \<in> set (t_areas d)" "ar_id row = i" using row by (auto simp: find_area_def dest: find_Some_mem)
  from row' have mem: "a \<in> set (t_areas d')" unfolding d' set_update_where a by (intro image_eqI [of _ _ row]) simp_all
  define areas where "areas = sort_key ar_sortOrder (filter (\<lambda>x. ar_eventId x = ar_eventId a) (t_areas d'))"
  have am: "a \<in> set areas" using mem by (simp add: areas_def)
  from run obtain ev m where ev: "find_event d' (ar_eventId a) = Some ev" "resolveOperationalDataMode (Some ev) = Inr m"
    and views: "map_res (\<lambda>x. bind_res (map_res (show_element (env_now e)
        (foldl group_order [] (plan_orders d' (ar_eventId a) m (map ar_id areas))) (ar_id x)) (readStoredFloorPlan (ar_floorPlan x))) (\<lambda>els.
       Inr \<lparr>av_id = ar_id x, av_name = ar_name x, av_sortOrder = ar_sortOrder x, av_elements = els\<rparr>)) areas = Inr views"
    by (auto simp: findFloorPlans_def res_simps Let_def areas_def)
  from map_res_Inr_set [OF views am] obtain v where v: "v \<in> set views" "bind_res (map_res (show_element (env_now e)
        (foldl group_order [] (plan_orders d' (ar_eventId a) m (map ar_id areas))) (ar_id a)) (readStoredFloorPlan (ar_floorPlan a))) (\<lambda>els.
       Inr \<lparr>av_id = ar_id a, av_name = ar_name a, av_sortOrder = ar_sortOrder a, av_elements = els\<rparr>) = Inr v" by blast
  have stored: "readStoredFloorPlan (ar_floorPlan a) = map element_json els" by (simp add: a readStoredFloorPlan_def plan_json_def)
  have named: "\<forall>el \<in> set els. is_table el \<longrightarrow> (\<exists>t. fe_tableName el = Some t \<and> js_trim t \<noteq> [])"
    using checked_elements [OF ok [unfolded assertFloorPlanSemantics_def]] by simp
  have ida: "ar_id a = i" using row' by (simp add: a)
  have "av_id v = i" "av_elements v = map (\<lambda>el. (element_json el, if is_table el
       then Some (table_of (env_now e) (orders_at d' (ar_eventId a) m i (element_key el))) else None)) els"
    using v(2) unfolding stored shown_elements [OF named] bind_res_simps
    by (auto simp: ida orders_at_def event_plan_orders_def areas_def)
  with v(1) ev that show thesis by blast
qed

end
