(* ===== verification/VO_Auth.thy ===== *)
theory VO_Auth
  imports VO_Admin
begin

text \<open>
  Accounts and signing in: \<^verbatim>\<open>apps/backend/src/users/users.service.ts\<close>, \<^verbatim>\<open>auth/auth.service.ts\<close> and the two handlers of
  \<^verbatim>\<open>auth/auth.controller.ts\<close>. bcrypt and the signature of the token are parameters. What \<^verbatim>\<open>validateUser\<close> reads before it
  writes (the throttle, the user) is a state of its own.
\<close>

section \<open>bcrypt\<close>

record bcrypt =
  bc_hash :: "string \<Rightarrow> string \<Rightarrow> string"
  bc_compare :: "string \<Rightarrow> string \<Rightarrow> bool"
  bc_dummySalt :: string

definition DUMMY_PIN_HASH :: "bcrypt \<Rightarrow> string" where
  "DUMMY_PIN_HASH bc = bc_hash bc ''invalid-pin-placeholder'' (bc_dummySalt bc)"

definition MAX_FAILED_ATTEMPTS :: int where "MAX_FAILED_ATTEMPTS = 5"
definition LOCK_DURATION_MS :: nat where "LOCK_DURATION_MS = 5 * 60 * 1000"

section \<open>Users\<close>

record public_user =
  pu_id :: id
  pu_username :: string
  pu_role :: role
  pu_isActive :: bool
  pu_createdAt :: nat

definition public_user_of :: "user \<Rightarrow> public_user" where
  "public_user_of u = \<lparr>pu_id = us_id u, pu_username = us_username u, pu_role = us_role u, pu_isActive = us_isActive u,
     pu_createdAt = us_createdAt u\<rparr>"

definition user_by_name :: "db \<Rightarrow> string \<Rightarrow> user option" where
  "user_by_name d name = find (\<lambda>u. us_username u = name) (t_users d)"

fun role_text :: "role \<Rightarrow> string" where
  "role_text ADMINISTRATOR = ''ADMINISTRATOR''"
| "role_text EVENT_MANAGER = ''EVENT_MANAGER''"
| "role_text WAITER = ''WAITER''"
| "role_text CASHIER = ''CASHIER''"
| "role_text STATION = ''STATION''"
| "role_text RUNNER = ''RUNNER''"
| "role_text REVISION = ''REVISION''"


text \<open>Newest first; without the hash of the PIN.\<close>

definition findAllUsers :: "db \<Rightarrow> public_user list" where
  "findAllUsers d = map public_user_of (rev (sort_key us_createdAt (rev (t_users d))))"

definition find_throttle :: "db \<Rightarrow> string \<Rightarrow> auth_throttle option" where
  "find_throttle d k = find (\<lambda>t. at_key t = k) (t_throttles d)"

definition delete_throttles :: "string list \<Rightarrow> db \<Rightarrow> db" where
  "delete_throttles ks d = d\<lparr>t_throttles := filter (\<lambda>t. at_key t \<notin> set ks) (t_throttles d)\<rparr>"

definition put_throttle :: "auth_throttle \<Rightarrow> db \<Rightarrow> db" where
  "put_throttle t d = d\<lparr>t_throttles := (if find_throttle d (at_key t) = None then t_throttles d @ [t]
     else update_where (\<lambda>x. at_key x = at_key t) (\<lambda>_. t) (t_throttles d))\<rparr>"

definition user_audit :: "string \<Rightarrow> id \<Rightarrow> id \<Rightarrow> json \<Rightarrow> audit_entry" where
  "user_audit action i userId details = \<lparr>al_action = action, al_entityId = i, al_entityType = ''User'',
     al_userId = Some userId, al_details = details\<rparr>"

record create_user =
  nu_username :: string
  nu_pin :: string
  nu_role :: role
  nu_isActive :: "bool option"

definition createUser :: "bcrypt \<Rightarrow> string \<Rightarrow> env \<Rightarrow> db \<Rightarrow> create_user \<Rightarrow> id option \<Rightarrow> api_error + db \<times> public_user" where
  "createUser bc salt e d c createdBy =
     bind_res (ensure (user_by_name d (nu_username c) = None) (UniqueViolation ''User.username'')) (\<lambda>_.
     let row = \<lparr>us_id = fresh_id e d, us_username = nu_username c, us_name = None, us_role = nu_role c,
                us_isActive = column (nu_isActive c) True, us_pinHash = bc_hash bc (nu_pin c) salt, us_createdAt = env_now e\<rparr>
     in Inr (audit_by createdBy (\<lambda>a. user_audit ''USER_CREATED'' (us_id row) a
               (JObj [(''username'', JStr (us_username row)), (''role'', JStr (role_text (us_role row)))]))
             (d\<lparr>t_users := t_users d @ [row], serial := Suc (serial d)\<rparr>), public_user_of row))"

record update_user =
  uu_username :: "string option"
  uu_role :: "role option"
  uu_isActive :: "bool option"

definition edited_user :: "update_user \<Rightarrow> user \<Rightarrow> user" where
  "edited_user u x = x\<lparr>us_username := column (uu_username u) (us_username x), us_role := column (uu_role u) (us_role x),
     us_isActive := column (uu_isActive u) (us_isActive x)\<rparr>"

definition write_user :: "id \<Rightarrow> (user \<Rightarrow> user) \<Rightarrow> db \<Rightarrow> db" where
  "write_user i f d = d\<lparr>t_users := update_where (\<lambda>u. us_id u = i) f (t_users d)\<rparr>"

definition updateUser :: "db \<Rightarrow> db \<Rightarrow> id \<Rightarrow> update_user \<Rightarrow> id option \<Rightarrow> api_error + db \<times> public_user" where
  "updateUser pre d i u updatedBy =
     bind_res (need (find_user pre i) (NotFound ''USER'')) (\<lambda>existing.
     bind_res (need (find_user d i) (NotFound ''P2025'')) (\<lambda>row.
     bind_res (ensure (\<not> list_ex (\<lambda>x. us_id x \<noteq> i \<and> us_username x = us_username (edited_user u row)) (t_users d))
                (UniqueViolation ''User.username'')) (\<lambda>_.
     let updated = edited_user u row; d1 = write_user i (edited_user u) d;
         d2 = (if us_username existing \<noteq> us_username updated
               then delete_throttles [js_lower (us_username existing), js_lower (us_username updated)] d1 else d1)
     in Inr (audit_by updatedBy (\<lambda>a. user_audit ''USER_UPDATED'' i a
               (JObj [(''username'', JStr (us_username updated)), (''previousRole'', JStr (role_text (us_role existing))),
                 (''newRole'', JStr (role_text (us_role updated))), (''previousActive'', JBool (us_isActive existing)),
                 (''newActive'', JBool (us_isActive updated))])) d2, public_user_of updated))))"

definition updatePin :: "bcrypt \<Rightarrow> string \<Rightarrow> db \<Rightarrow> id \<Rightarrow> string \<Rightarrow> id option \<Rightarrow> api_error + db \<times> id \<times> string" where
  "updatePin bc salt d i pin updatedBy =
     bind_res (need (find_user d i) (NotFound ''P2025'')) (\<lambda>row.
     let d1 = delete_throttles [js_lower (us_username row)] (write_user i (\<lambda>u. u\<lparr>us_pinHash := bc_hash bc pin salt\<rparr>) d)
     in Inr (audit_by updatedBy (\<lambda>a. user_audit ''USER_PIN_CHANGED'' i a (JObj [(''username'', JStr (us_username row))])) d1,
             i, us_username row))"

section \<open>Signing in\<close>

datatype login_answer = RateLimited | Refused | Accepted public_user

definition login_key :: "string \<Rightarrow> string" where
  "login_key usernameInput = (let k = js_lower (js_trim usernameInput) in if k = [] then ''unknown'' else k)"

definition locked_at :: "nat \<Rightarrow> auth_throttle option \<Rightarrow> nat option" where
  "locked_at now throttle = (case throttle of None \<Rightarrow> None
     | Some t \<Rightarrow> (case at_lockedUntil t of None \<Rightarrow> None | Some l \<Rightarrow> if now < l then Some l else None))"

definition expired_lock :: "nat \<Rightarrow> auth_throttle option \<Rightarrow> bool" where
  "expired_lock now throttle = (case throttle of None \<Rightarrow> False
     | Some t \<Rightarrow> (case at_lockedUntil t of None \<Rightarrow> False | Some l \<Rightarrow> l \<le> now))"

definition valid_pin_shape :: "string \<Rightarrow> bool" where
  "valid_pin_shape pin \<longleftrightarrow> 4 \<le> length pin \<and> length pin \<le> 12 \<and> list_all is_digit pin"

definition pin_matches :: "bcrypt \<Rightarrow> user option \<Rightarrow> string \<Rightarrow> bool" where
  "pin_matches bc u pin = bc_compare bc (if valid_pin_shape pin then pin else ''invalid'')
     (case u of None \<Rightarrow> DUMMY_PIN_HASH bc | Some x \<Rightarrow> if us_pinHash x = [] then DUMMY_PIN_HASH bc else us_pinHash x)"

definition auth_audit :: "string \<Rightarrow> string \<Rightarrow> id option \<Rightarrow> json \<Rightarrow> audit_entry" where
  "auth_audit action i userId details = \<lparr>al_action = action, al_entityId = i, al_entityType = ''Auth'',
     al_userId = userId, al_details = details\<rparr>"

text \<open>\<open>seen\<close> is the state the throttle was read from, \<open>mid\<close> the one the user was read from.\<close>

definition count_failure :: "nat \<Rightarrow> bool \<Rightarrow> string \<Rightarrow> db \<Rightarrow> auth_throttle" where
  "count_failure now expired k d =
     (let n = (case find_throttle d k of None \<Rightarrow> 1 | Some t \<Rightarrow> if expired then 1 else at_failedAttempts t + 1)
      in \<lparr>at_key = k, at_failedAttempts = n, at_lockedUntil = (if MAX_FAILED_ATTEMPTS \<le> n then Some (now + LOCK_DURATION_MS) else None)\<rparr>)"

definition validateUser :: "bcrypt \<Rightarrow> nat \<Rightarrow> db \<Rightarrow> db \<Rightarrow> db \<Rightarrow> string \<Rightarrow> string \<Rightarrow> db \<times> login_answer" where
  "validateUser bc now seen mid d usernameInput pin =
     (let username = js_trim usernameInput; throttleKey = login_key usernameInput; throttle = find_throttle seen throttleKey in
      case locked_at now throttle of
        Some l \<Rightarrow> (add_audit (auth_audit ''AUTH_RATE_LIMITED'' throttleKey None (JObj [(''lockedUntil'', JNum (int l))])) d, RateLimited)
      | None \<Rightarrow>
        let found = (if username = [] then None else user_by_name mid username);
            isActive = (case found of None \<Rightarrow> False | Some x \<Rightarrow> us_isActive x)
        in if isActive \<and> valid_pin_shape pin \<and> pin_matches bc found pin
           then (delete_throttles [throttleKey] d, Accepted (public_user_of (the found)))
           else
             let attempt = count_failure now (expired_lock now throttle) throttleKey d
             in (add_audit (auth_audit ''FAILED_LOGIN'' throttleKey (map_option us_id found)
                  (JObj [(''attempt'', JNum (at_failedAttempts attempt)),
                    (''lockedUntil'', case at_lockedUntil attempt of None \<Rightarrow> JNull | Some l \<Rightarrow> JNum (int l)),
                    (''reason'', JStr (case found of None \<Rightarrow> ''Unknown user''
                       | Some x \<Rightarrow> if us_isActive x then ''Invalid PIN'' else ''Inactive user''))])) (put_throttle attempt d),
                 if at_lockedUntil attempt \<noteq> None then RateLimited else Refused))"

record token_payload =
  tp_username :: string
  tp_sub :: id
  tp_role :: role

definition login :: "(token_payload \<Rightarrow> string) \<Rightarrow> db \<Rightarrow> public_user \<Rightarrow> string \<Rightarrow> id option \<Rightarrow> db \<times> string" where
  "login sign d u action previousUserId =
     (add_audit (user_audit action (pu_id u) (pu_id u)
        (JObj [(''username'', JStr (pu_username u)), (''role'', JStr (role_text (pu_role u))),
          (''previousUserId'', case truthy previousUserId of None \<Rightarrow> JNull | Some p \<Rightarrow> JStr p)])) d,
      sign \<lparr>tp_username = pu_username u, tp_sub = pu_id u, tp_role = pu_role u\<rparr>)"

datatype login_response = TooManyRequests | Unauthorized | SwitchForbidden | AccessToken string

definition login_handler ::
  "bcrypt \<Rightarrow> (token_payload \<Rightarrow> string) \<Rightarrow> nat \<Rightarrow> db \<Rightarrow> db \<Rightarrow> db \<Rightarrow> string \<Rightarrow> string \<Rightarrow> db \<times> login_response" where
  "login_handler bc sign now seen mid d username pin =
     (case validateUser bc now seen mid d username pin of
        (d', RateLimited) \<Rightarrow> (d', TooManyRequests)
      | (d', Refused) \<Rightarrow> (d', Unauthorized)
      | (d', Accepted u) \<Rightarrow> (case login sign d' u ''LOGIN'' None of (d'', t) \<Rightarrow> (d'', AccessToken t)))"

definition switchUser ::
  "bcrypt \<Rightarrow> (token_payload \<Rightarrow> string) \<Rightarrow> nat \<Rightarrow> db \<Rightarrow> db \<Rightarrow> db \<Rightarrow> id option \<Rightarrow> string \<Rightarrow> string \<Rightarrow> db \<times> login_response" where
  "switchUser bc sign now seen mid d previousUserId username pin =
     (case validateUser bc now seen mid d username pin of
        (d', RateLimited) \<Rightarrow> (d', TooManyRequests)
      | (d', Refused) \<Rightarrow> (d', SwitchForbidden)
      | (d', Accepted u) \<Rightarrow>
          (case login sign d' u (if previousUserId = Some (pu_id u) then ''SCREEN_UNLOCK'' else ''USER_SWITCH'') previousUserId of
             (d'', t) \<Rightarrow> (d'', AccessToken t)))"

end
