(* ===== verification/VO_Auth_Laws.thy ===== *)
theory VO_Auth_Laws
  imports VO_Auth
begin

text \<open>
  Laws of signing in: the throttle counts the guesses since the last success and locks after every fifth, and who is let in.
\<close>

section \<open>The throttle of a key\<close>

lemma find_throttle_put: "find_throttle (put_throttle t d) k = (if k = at_key t then Some t else find_throttle d k)"
proof -
  have new: "find (\<lambda>x. at_key x = k) (xs @ [t]) = (if k = at_key t then Some t else find (\<lambda>x. at_key x = k) xs)"
    if "find (\<lambda>x. at_key x = at_key t) xs = None" for xs
    using that by (induction xs) (auto split: if_splits)
  have other: "find (\<lambda>x. at_key x = k) (update_where (\<lambda>x. at_key x = at_key t) (\<lambda>_. t) xs) = find (\<lambda>x. at_key x = k) xs"
    if "k \<noteq> at_key t" for xs
    using that by (induction xs) (auto simp: update_where_def)
  have same: "find (\<lambda>x. at_key x = at_key t) (update_where (\<lambda>x. at_key x = at_key t) (\<lambda>_. t) xs) = Some t"
    if "find (\<lambda>x. at_key x = at_key t) xs \<noteq> None" for xs
    using that by (induction xs) (auto simp: update_where_def split: if_splits)
  show ?thesis
  proof (cases "find_throttle d (at_key t)")
    case None
    with new [of "t_throttles d"] show ?thesis by (simp add: put_throttle_def find_throttle_def)
  next
    case (Some x)
    with other [of "t_throttles d"] same [of "t_throttles d"] show ?thesis
      by (cases "k = at_key t") (simp_all add: put_throttle_def find_throttle_def)
  qed
qed

lemma find_unless: "find (\<lambda>t. at_key t = k) (filter (\<lambda>t. at_key t \<notin> A) xs) = (if k \<in> A then None else find (\<lambda>t. at_key t = k) xs)"
  by (induction xs) auto

lemma find_throttle_delete: "find_throttle (delete_throttles ks d) k = (if k \<in> set ks then None else find_throttle d k)"
  by (simp add: find_throttle_def delete_throttles_def find_unless)

lemma throttle_frames [simp]:
  "find_throttle (add_audit a d) = find_throttle d" "find_throttle (audit_by u b d) = find_throttle d"
  "find_throttle (write_user i f d) = find_throttle d" "find_throttle (d\<lparr>t_users := us, serial := n\<rparr>) = find_throttle d"
  "t_users (delete_throttles ks d) = t_users d" "t_users (put_throttle t d) = t_users d" "t_users (audit_by u b d) = t_users d"
  "t_users (add_audit a d) = t_users d" "t_users (write_user i f d) = update_where (\<lambda>u. us_id u = i) f (t_users d)"
  by (simp_all add: find_throttle_def add_audit_def audit_by_def write_user_def delete_throttles_def put_throttle_def fun_eq_iff
      split: option.split)

text \<open>One attempt, read and written on the same state.\<close>

definition attempt :: "bcrypt \<Rightarrow> nat \<Rightarrow> db \<Rightarrow> string \<Rightarrow> string \<Rightarrow> db \<times> login_answer" where
  "attempt bc now d u p = validateUser bc now d d d u p"

definition locked :: "nat \<Rightarrow> db \<Rightarrow> string \<Rightarrow> bool" where
  "locked now d k \<longleftrightarrow> locked_at now (find_throttle d k) \<noteq> None"

lemma attempt_locked:
  "locked now d (login_key u) \<Longrightarrow> attempt bc now d u p = (d', r) \<Longrightarrow> r = RateLimited \<and> find_throttle d' = find_throttle d"
  by (auto simp: attempt_def validateUser_def locked_def)

lemma attempt_open:
  assumes "\<not> locked now d (login_key u)" and "attempt bc now d u p = (d', r)"
  shows "(\<exists>x. r = Accepted x \<and> find_throttle d' = (find_throttle d)(login_key u := None)) \<or>
    (r = (if at_lockedUntil (count_failure now (expired_lock now (find_throttle d (login_key u))) (login_key u) d) = None
          then Refused else RateLimited) \<and>
     find_throttle d' = (find_throttle d)(login_key u \<mapsto> count_failure now (expired_lock now (find_throttle d (login_key u))) (login_key u) d))"
proof -
  have key: "at_key (count_failure now b k d) = k" for b k by (simp add: count_failure_def Let_def)
  from assms show ?thesis
    by (auto simp: attempt_def validateUser_def locked_def Let_def find_throttle_put find_throttle_delete fun_eq_iff key split: if_splits)
qed

section \<open>Runs of attempts\<close>

text \<open>
  \<open>guesses bc k t h d\<close>: a run that starts with no throttle for the key \<open>k\<close> has reached \<open>d\<close> at the time \<open>t\<close>; \<open>h\<close> are the times
  of the PINs that were compared for \<open>k\<close> without success since the throttle was last cleared. Attempts for any names and
  the administration of users interleave.
\<close>

inductive guesses :: "bcrypt \<Rightarrow> string \<Rightarrow> nat \<Rightarrow> nat list \<Rightarrow> db \<Rightarrow> bool" for bc :: bcrypt and k :: string where
  begun: "find_throttle d k = None \<Longrightarrow> guesses bc k t [] d"
| attempted: "guesses bc k t h d \<Longrightarrow> t \<le> now \<Longrightarrow> attempt bc now d u p = (d', r) \<Longrightarrow>
    guesses bc k now (if login_key u \<noteq> k \<or> locked now d k then h else case r of Accepted _ \<Rightarrow> [] | _ \<Rightarrow> h @ [now]) d'"
| user_created: "guesses bc k t h d \<Longrightarrow> createUser bc salt e d c by' = Inr (d', r) \<Longrightarrow> guesses bc k t h d'"
| user_edited: "guesses bc k t h d \<Longrightarrow> updateUser pre d i uu by' = Inr (d', r) \<Longrightarrow>
    guesses bc k t (if find_throttle d' k = None then [] else h) d'"
| pin_changed: "guesses bc k t h d \<Longrightarrow> updatePin bc salt d i pin by' = Inr (d', r) \<Longrightarrow>
    guesses bc k t (if find_throttle d' k = None then [] else h) d'"

definition counted :: "nat list \<Rightarrow> auth_throttle option \<Rightarrow> bool" where
  "counted h throttle = (case throttle of None \<Rightarrow> h = []
     | Some a \<Rightarrow> h \<noteq> [] \<and> at_failedAttempts a = int ((length h - 1) mod 5) + 1 \<and>
         at_lockedUntil a = (if length h mod 5 = 0 then Some (last h + LOCK_DURATION_MS) else None))"

definition spaced :: "nat list \<Rightarrow> bool" where
  "spaced h \<longleftrightarrow> sorted h \<and> (\<forall>i < length h. 0 < i \<and> i mod 5 = 0 \<longrightarrow> h ! (i - 1) + LOCK_DURATION_MS \<le> h ! i)"

lemma spaced_Nil [simp]: "spaced []"
  by (simp add: spaced_def)

lemma spaced_snoc:
  assumes "spaced h" and "\<forall>x \<in> set h. x \<le> now" and "h \<noteq> [] \<Longrightarrow> length h mod 5 = 0 \<Longrightarrow> last h + LOCK_DURATION_MS \<le> now"
  shows "spaced (h @ [now])"
  unfolding spaced_def
proof (intro conjI allI impI)
  show "sorted (h @ [now])" using assms(1,2) by (simp add: spaced_def sorted_append)
  fix i assume i: "i < length (h @ [now])" "0 < i \<and> i mod 5 = 0"
  show "(h @ [now]) ! (i - 1) + LOCK_DURATION_MS \<le> (h @ [now]) ! i"
  proof (cases "i < length h")
    case True
    with assms(1) i show ?thesis by (auto simp: spaced_def nth_append)
  next
    case False
    with i have "i = length h" "h \<noteq> []" by auto
    with assms(3) i show ?thesis by (simp add: nth_append last_conv_nth)
  qed
qed

lemma counted_snoc:
  assumes "counted h (find_throttle d k)" and "\<not> locked now d k"
  shows "counted (h @ [now]) (Some (count_failure now (expired_lock now (find_throttle d k)) k d)) \<and>
    (h \<noteq> [] \<and> length h mod 5 = 0 \<longrightarrow> last h + LOCK_DURATION_MS \<le> now)"
proof (cases "find_throttle d k")
  case None
  with assms(1) show ?thesis by (simp add: counted_def count_failure_def Let_def MAX_FAILED_ATTEMPTS_def)
next
  case (Some a)
  with assms(1) have a: "h \<noteq> []" "at_failedAttempts a = int ((length h - 1) mod 5) + 1"
    "at_lockedUntil a = (if length h mod 5 = 0 then Some (last h + LOCK_DURATION_MS) else None)"
    by (simp_all add: counted_def)
  from a(1) obtain n where n: "length h = Suc n" by (cases h) auto
  show ?thesis
  proof (cases "length h mod 5 = 0")
    case True
    with assms(2) Some a(3) have "last h + LOCK_DURATION_MS \<le> now" "expired_lock now (find_throttle d k)"
      by (auto simp: locked_def locked_at_def expired_lock_def split: if_splits)
    moreover have "Suc (length h) mod 5 = 1" using True by presburger
    ultimately show ?thesis using True Some
      by (simp add: counted_def count_failure_def Let_def MAX_FAILED_ATTEMPTS_def)
  next
    case False
    have "int (length h mod 5) + 1 = at_failedAttempts a + 1" using a(2) n False by (simp add: mod_Suc split: if_splits)
    moreover have "5 \<le> int (length h mod 5) + 1 \<longleftrightarrow> Suc (length h) mod 5 = 0" by presburger
    moreover have "\<not> expired_lock now (find_throttle d k)" using Some a(3) False by (simp add: expired_lock_def)
    ultimately show ?thesis using False Some
      by (simp add: counted_def count_failure_def Let_def MAX_FAILED_ATTEMPTS_def)
  qed
qed

lemma counted_cleared: "counted h a \<Longrightarrow> b = a \<or> b = None \<Longrightarrow> counted (if b = None then [] else h) b"
  by (auto simp: counted_def)

lemma guesses_inv: "guesses bc k t h d \<Longrightarrow> counted h (find_throttle d k) \<and> spaced h \<and> (\<forall>x \<in> set h. x \<le> t)"
proof (induction rule: guesses.induct)
  case (begun d t)
  then show ?case by (simp add: counted_def spaced_def)
next
  case (attempted t h d now u p d' r)
  then have now: "\<forall>x \<in> set h. x \<le> now" by auto
  show ?case
  proof (cases "login_key u = k")
    case False
    with attempted.hyps(3) have "find_throttle d' k = find_throttle d k"
      by (cases "locked now d (login_key u)") (auto dest: attempt_locked attempt_open)
    with attempted.IH now False show ?thesis by simp
  next
    case True
    show ?thesis
    proof (cases "locked now d k")
      case locked: True
      with attempted.hyps(3) True have "find_throttle d' = find_throttle d" by (auto dest: attempt_locked)
      with attempted.IH now locked show ?thesis by simp
    next
      case False
      from attempt_open [OF False [folded True] attempted.hyps(3)] show ?thesis
      proof (elim disjE exE conjE)
        fix x assume "r = Accepted x" "find_throttle d' = (find_throttle d)(login_key u := None)"
        with True False show ?thesis by (simp add: counted_def spaced_def)
      next
        let ?a = "count_failure now (expired_lock now (find_throttle d (login_key u))) (login_key u) d"
        assume r: "r = (if at_lockedUntil ?a = None then Refused else RateLimited)" and d': "find_throttle d' = (find_throttle d)(login_key u \<mapsto> ?a)"
        note c = counted_snoc [OF conjunct1 [OF attempted.IH] False]
        have sp: "spaced h" using attempted.IH by blast
        have "spaced (h @ [now])" by (rule spaced_snoc [OF sp now]) (rule mp [OF conjunct2 [OF c] conjI])
        with conjunct1 [OF c] d' r True False now show ?thesis by simp
      qed
    qed
  qed
next
  case (user_created t h d salt e c by' d' r)
  then have "find_throttle d' = find_throttle d" by (auto simp: createUser_def res_simps Let_def)
  with user_created show ?case by simp
next
  case (user_edited t h d pre i uu by' d' r)
  from user_edited.hyps(2) have "find_throttle d' k = find_throttle d k \<or> find_throttle d' k = None"
    by (auto simp: updateUser_def res_simps Let_def find_throttle_delete split: if_splits)
  from counted_cleared [OF conjunct1 [OF user_edited.IH] this] user_edited.IH show ?case by auto
next
  case (pin_changed t h d salt i pin by' d' r)
  from pin_changed.hyps(2) have "find_throttle d' k = find_throttle d k \<or> find_throttle d' k = None"
    by (auto simp: updatePin_def res_simps Let_def find_throttle_delete split: if_splits)
  from counted_cleared [OF conjunct1 [OF pin_changed.IH] this] pin_changed.IH show ?case by auto
qed

text \<open>Six guesses in a row take longer than the lock.\<close>

lemma spaced_gap:
  assumes "spaced h" and "i + 5 < length h"
  shows "h ! i + LOCK_DURATION_MS \<le> h ! (i + 5)"
proof -
  define j where "j = 5 * (i div 5 + 1)"
  have m: "5 * (i div 5) + i mod 5 = i" "i mod 5 < 5" by simp_all
  have j: "i < j" "j \<le> i + 5" "j mod 5 = 0" unfolding j_def using m by simp_all
  from assms(1) have s: "sorted h" by (simp add: spaced_def)
  have "h ! i \<le> h ! (j - 1)" using s j assms(2) by (intro sorted_nth_mono) auto
  moreover have "h ! (j - 1) + LOCK_DURATION_MS \<le> h ! j" using assms j by (simp add: spaced_def)
  moreover have "h ! j \<le> h ! (i + 5)" using s j assms(2) by (intro sorted_nth_mono) auto
  ultimately show ?thesis by linarith
qed

section \<open>Who is let in\<close>

lemma user_by_name_distinct:
  assumes "distinct (map us_username (t_users d))" and "u \<in> set (t_users d)"
  shows "user_by_name d (us_username u) = Some u"
  using find_distinct_key [OF assms] by (simp add: user_by_name_def)

text \<open>An unlocked attempt lets in exactly the active user of that name whose PIN compares.\<close>

lemma attempt_accepted:
  assumes "\<not> locked now d (login_key name)"
  shows "snd (attempt bc now d name p) = Accepted x \<longleftrightarrow>
    (\<exists>u. user_by_name d (js_trim name) = Some u \<and> js_trim name \<noteq> [] \<and> us_isActive u \<and> valid_pin_shape p \<and>
       bc_compare bc p (if us_pinHash u = [] then DUMMY_PIN_HASH bc else us_pinHash u) \<and> x = public_user_of u)"
  using assms unfolding attempt_def validateUser_def locked_def
  by (auto simp: Let_def pin_matches_def split: option.splits)

text \<open>A new PIN lets its owner in at once.\<close>

lemma js_lower_Nil [simp]: "js_lower s = [] \<longleftrightarrow> s = []"
  by (simp add: js_lower_def)

lemma new_pin_lets_in:
  assumes run: "updatePin bc salt d i pin by' = Inr (d', j, name)" and active: "find_user d i = Some u" "us_isActive u"
    and names: "distinct (map us_username (t_users d))" "js_trim name = name" "name \<noteq> []"
    and pin: "valid_pin_shape pin" "bc_compare bc pin (bc_hash bc pin salt)" "bc_hash bc pin salt \<noteq> []"
  shows "\<exists>x. snd (attempt bc now d' name pin) = Accepted x \<and> pu_id x = i"
proof -
  from run active(1) have d': "d' = audit_by by' (\<lambda>a. user_audit ''USER_PIN_CHANGED'' i a (JObj [(''username'', JStr (us_username u))]))
      (delete_throttles [js_lower (us_username u)] (write_user i (\<lambda>u. u\<lparr>us_pinHash := bc_hash bc pin salt\<rparr>) d))" and name: "name = us_username u"
    by (auto simp: updatePin_def res_simps Let_def)
  have u: "u \<in> set (t_users d)" "us_id u = i" using active(1) by (auto simp: find_user_def dest: find_Some_mem)
  let ?f = "\<lambda>u. u\<lparr>us_pinHash := bc_hash bc pin salt\<rparr>"
  have users: "t_users d' = update_where (\<lambda>u. us_id u = i) ?f (t_users d)" by (simp add: d')
  have "map us_username (t_users d') = map us_username (t_users d)" by (simp add: users update_where_def)
  with names(1) have "distinct (map us_username (t_users d'))" by simp
  moreover have "?f u \<in> set (t_users d')" using u unfolding users set_update_where by (intro image_eqI [of _ _ u]) simp_all
  ultimately have found: "user_by_name d' name = Some (?f u)" using user_by_name_distinct [of d' "?f u"] by (simp add: name)
  have key: "login_key name = js_lower (us_username u)" using names(2,3) by (simp add: login_key_def name Let_def)
  have "find_throttle d' (login_key name) = None" unfolding key d' throttle_frames find_throttle_delete by simp
  then have "\<not> locked now d' (login_key name)" by (simp add: locked_def locked_at_def)
  from attempt_accepted [OF this, of bc pin "public_user_of (?f u)"] found names(2,3) active(2) pin
  have "snd (attempt bc now d' name pin) = Accepted (public_user_of (?f u))" by auto
  then show ?thesis using u(2) by (auto simp: public_user_of_def)
qed

end
