(* ===== verification/VO_Admin_Props.thy ===== *)
theory VO_Admin_Props
  imports VO_Admin_Laws VO_Auth_Laws VO_Samples
begin

text \<open>
  Properties of the administration: the catalogue stays sound, floor plans show every open order of a table once, PINs can
  only be guessed slowly and a new PIN works at once.
\<close>

section \<open>The catalogue\<close>

text \<open>
  C6. Over any run of the administration, with whatever its operations read before they write, the catalogue stays sound: ids are
  unique, products, categories and stations refer to each other within one event only, and option groups keep
  their rules; so the tickets of a product always go to a station of its event.
\<close>

theorem catalogue_stays_sound:
  assumes "(catalogue_step ids)\<^sup>*\<^sup>* d d'" and "catalogue_inv ids d"
  shows "catalogue_ok d' \<and> (\<forall>p \<in> set (t_products d'). \<forall>s. resolveTargetStationId p = Some s \<longrightarrow>
      (\<exists>x \<in> set (t_stations d'). sn_id x = s \<and> sn_eventId x = pd_eventId p))"
proof -
  have ok: "catalogue_ok d'" using catalogue_run_inv [OF assms] by (simp add: catalogue_inv_def)
  then show ?thesis using target_station_in_event [OF ok] by (simp add: station_in_def)
qed

definition new_station :: create_station where
  "new_station = \<lparr>ns_name = ''Kitchen'', ns_shortName = None, ns_color = None, ns_sortOrder = Some 1, ns_isActive = None,
     ns_eventId = ''e'', ns_printerId = Some ''p''\<rparr>"

definition new_food :: "id \<Rightarrow> create_category" where
  "new_food s = \<lparr>cc_name = ''Food'', cc_sortOrder = None, cc_deposit = Some 50, cc_eventId = ''e'', cc_targetStationId = Some s,
     cc_isActive = None\<rparr>"

definition kitchen_db :: db where
  "kitchen_db = result_of sample_db (bind_res (createStation run_env sample_db sample_db new_station) (\<lambda>(d, s).
     bind_res (createCategory run_env d d (new_food (sn_id s))) (\<lambda>(d', c). Inr d')))"

lemma sample_catalogue_inv: "catalogue_inv (env_uuid run_env) sample_db"
proof -
  have ok: "catalogue_ok sample_db" by code_simp
  have "\<forall>i \<in> catalogue_ids sample_db. i = [] \<or> \<not> is_digit (hd i)" by code_simp
  moreover have "nat_text k \<noteq> [] \<and> is_digit (hd (nat_text k))" for k
    using nat_text_nonempty [of k] nat_text_digits [of "hd (nat_text k)" k] by simp
  ultimately have "nat_text k \<notin> catalogue_ids sample_db" for k by blast
  with ok show ?thesis by (simp add: catalogue_inv_def run_env_def sample_env_def inj_nat_text)
qed

lemma catalogue_stays_sound_witness:
  "catalogue_ok kitchen_db \<and> map ca_name (t_categories kitchen_db) = [''Drinks'', ''Food'']"
proof -
  have run: "succeeds_with (\<lambda>(d, s). succeeds_with (\<lambda>(d', c). serial d' = serial kitchen_db)
      (createCategory run_env d d (new_food (sn_id s)))) (createStation run_env sample_db sample_db new_station)" by code_simp
  then obtain d s d' c where r: "createStation run_env sample_db sample_db new_station = Inr (d, s)"
    "createCategory run_env d d (new_food (sn_id s)) = Inr (d', c)"
    by (auto elim!: succeeds_withE)
  then have d': "kitchen_db = d'" by (simp add: kitchen_db_def result_of_def)
  have "(catalogue_step (env_uuid run_env))\<^sup>*\<^sup>* sample_db kitchen_db"
    unfolding d' using catalogue_step.station_created [OF refl r(1)] catalogue_step.category_created [OF refl r(2)]
    by (meson rtranclp.rtrancl_into_rtrancl rtranclp.rtrancl_refl)
  from catalogue_stays_sound [OF this sample_catalogue_inv] have "catalogue_ok kitchen_db" by simp
  moreover have "map ca_name (t_categories kitchen_db) = [''Drinks'', ''Food'']" by code_simp
  ultimately show ?thesis by simp
qed

section \<open>Floor plans\<close>

text \<open>
  C12. A floor plan that was saved is shown again element by element, every table with the state of the open orders taken at it,
  and every open order of the area whose table is on the plan is counted at exactly one table.
\<close>

theorem floor_plan_shows_orders:
  assumes "saveFloorPlan pre d i els = Inr (d', a)" and "findFloorPlans e d' (ar_eventId a) = Inr views"
  shows "\<exists>v \<in> set views. \<exists>m. av_id v = i \<and> resolveOperationalDataMode (find_event d' (ar_eventId a)) = Inr m \<and>
    av_elements v = map (\<lambda>el. (element_json el, if is_table el
       then Some (table_of (env_now e) (orders_at d' (ar_eventId a) m i (element_key el))) else None)) els \<and>
    (\<Sum>el\<leftarrow>filter is_table els. length (orders_at d' (ar_eventId a) m i (element_key el))) =
      length (filter (\<lambda>o'. \<exists>el \<in> set els. is_table el \<and> order_table o' = Some (i, element_key el)) (event_plan_orders d' (ar_eventId a) m))"
proof -
  obtain v ev m where v: "v \<in> set views" "av_id v = i" "find_event d' (ar_eventId a) = Some ev" "resolveOperationalDataMode (Some ev) = Inr m"
    "av_elements v = map (\<lambda>el. (element_json el, if is_table el
       then Some (table_of (env_now e) (orders_at d' (ar_eventId a) m i (element_key el))) else None)) els"
    using saved_plan_shown [OF assms] .
  from assms(1) obtain st where "fold_res check_element ([], []) els = Inr st"
    by (auto simp: saveFloorPlan_def assertFloorPlanSemantics_def res_simps)
  from checked_elements [OF this] have dist: "distinct (map element_key (filter is_table els))" by simp
  have "(\<Sum>el\<leftarrow>filter is_table els. length (orders_at d' (ar_eventId a) m i (element_key el))) =
      length (filter (\<lambda>o'. \<exists>el \<in> set els. is_table el \<and> order_table o' = Some (i, element_key el)) (event_plan_orders d' (ar_eventId a) m))"
  proof -
    have "(\<lambda>o'. \<exists>el \<in> set els. is_table el \<and> order_table o' = Some (i, element_key el)) =
        (\<lambda>o'. \<exists>k \<in> set (map element_key (filter is_table els)). order_table o' = Some (i, k))" by (auto simp: fun_eq_iff)
    then show ?thesis
      using counted_once [OF dist, of order_table i "event_plan_orders d' (ar_eventId a) m"]
      by (simp only: orders_at_def map_map comp_def)
  qed
  with v show ?thesis by auto
qed

definition sample_area :: area where
  "sample_area = \<lparr>ar_id = ''a'', ar_name = ''Tent'', ar_sortOrder = 0, ar_eventId = ''e'', ar_floorPlan = None\<rparr>"

definition table_order :: "id \<Rightarrow> string \<Rightarrow> order" where
  "table_order i t = blank_order\<lparr>od_id := i, od_eventId := ''e'', od_dataMode := LIVE, od_areaId := Some ''a'', od_tableName := Some t,
     od_fulfillmentStatus := FF_READY, od_paymentStatus := PAID, od_createdAt := 900\<rparr>"

definition area_db :: db where
  "area_db = sample_db\<lparr>t_areas := [sample_area], t_orders := [table_order ''o1'' ''T1'', table_order ''o2'' '' t1'', table_order ''o3'' ''T9'']\<rparr>"

definition sample_plan :: "plan_element list" where
  "sample_plan = [\<lparr>fe_id = ''x1'', fe_kind = TABLE_ROUND, fe_label = ''1'', fe_tableName = Some ''T1'', fe_x = 0, fe_y = 0, fe_width = 100,
       fe_height = 100, fe_rotation = 0\<rparr>,
     \<lparr>fe_id = ''x2'', fe_kind = TABLE_STANDING, fe_label = ''2'', fe_tableName = Some ''T2'', fe_x = 200, fe_y = 0, fe_width = 100,
       fe_height = 100, fe_rotation = 0\<rparr>,
     \<lparr>fe_id = ''x3'', fe_kind = STAGE, fe_label = ''Stage'', fe_tableName = None, fe_x = 500, fe_y = 0, fe_width = 400,
       fe_height = 100, fe_rotation = 0\<rparr>]"

lemma floor_plan_shows_orders_witness:
  "succeeds_with (\<lambda>(d', a). succeeds_with (\<lambda>views. \<exists>v \<in> set views. av_id v = ''a'' \<and>
       map (map_option tv_openOrderCount \<circ> snd) (av_elements v) = [Some 2, Some 0, None]) (findFloorPlans run_env d' (ar_eventId a)))
     (saveFloorPlan area_db area_db ''a'' sample_plan)"
proof -
  have "succeeds_with (\<lambda>(d', a). succeeds_with (\<lambda>views. length (orders_at d' (ar_eventId a) (Some LIVE) ''a'' ''t1'') = 2 \<and>
       length (orders_at d' (ar_eventId a) (Some LIVE) ''a'' ''t2'') = 0 \<and>
       resolveOperationalDataMode (find_event d' (ar_eventId a)) = Inr (Some LIVE)) (findFloorPlans run_env d' (ar_eventId a)))
     (saveFloorPlan area_db area_db ''a'' sample_plan)" by code_simp
  then obtain d' a views where r: "saveFloorPlan area_db area_db ''a'' sample_plan = Inr (d', a)"
    "findFloorPlans run_env d' (ar_eventId a) = Inr views"
    and n: "length (orders_at d' (ar_eventId a) (Some LIVE) ''a'' ''t1'') = 2" "length (orders_at d' (ar_eventId a) (Some LIVE) ''a'' ''t2'') = 0"
    "resolveOperationalDataMode (find_event d' (ar_eventId a)) = Inr (Some LIVE)"
    by (auto elim!: succeeds_withE)
  have els: "map is_table sample_plan = [True, True, False]" "map element_key sample_plan = [''t1'', ''t2'', []]" by code_simp+
  from floor_plan_shows_orders [OF r] n(3) obtain v where v: "v \<in> set views" "av_id v = ''a''"
    "av_elements v = map (\<lambda>el. (element_json el, if is_table el then Some (table_of (env_now run_env)
       (orders_at d' (ar_eventId a) (Some LIVE) ''a'' (element_key el))) else None)) sample_plan" by auto
  have "map (map_option tv_openOrderCount \<circ> snd) (map (\<lambda>el. (element_json el, if is_table el then Some (table_of t (f (element_key el))) else None)) xs)
      = map2 (\<lambda>b k. if b then Some (int (length (f k))) else None) (map is_table xs) (map element_key xs)" for t f xs
    by (induction xs) (simp_all add: table_of_def)
  then have "map (map_option tv_openOrderCount \<circ> snd) (av_elements v) = [Some 2, Some 0, None]"
    unfolding v(3) using els n(1,2) by simp
  with v(1,2) show ?thesis unfolding r by (auto simp: succeeds_with_def r)
qed

section \<open>PINs\<close>

text \<open>
  C5. PINs can only be guessed slowly: in any run of sign-in attempts, one after the other and mixed with the administration of users,
  six unsuccessful comparisons in a row for a name take at least five minutes, and after every fifth one every attempt
  for that name is refused for five minutes, even with the right PIN.
\<close>

theorem pin_guesses_are_slow:
  assumes "guesses bc k t h d"
  shows "(\<forall>i. i + 5 < length h \<longrightarrow> h ! i + 300000 \<le> h ! (i + 5)) \<and>
    (h \<noteq> [] \<and> length h mod 5 = 0 \<longrightarrow>
      (\<forall>now u p. now < last h + 300000 \<and> login_key u = k \<longrightarrow> snd (attempt bc now d u p) = RateLimited))"
proof (intro conjI allI impI)
  note I = guesses_inv [OF assms]
  fix i assume "i + 5 < length h"
  with spaced_gap [of h i] I show "h ! i + 300000 \<le> h ! (i + 5)" by (simp add: LOCK_DURATION_MS_def)
next
  note I = guesses_inv [OF assms]
  fix now u p assume h: "h \<noteq> [] \<and> length h mod 5 = 0" and now: "now < last h + 300000 \<and> login_key u = k"
  from I h obtain a where "find_throttle d k = Some a" "at_lockedUntil a = Some (last h + LOCK_DURATION_MS)"
    by (auto simp: counted_def split: option.splits)
  with now have "locked now d (login_key u)" by (simp add: locked_def locked_at_def LOCK_DURATION_MS_def)
  from attempt_locked [OF this] show "snd (attempt bc now d u p) = RateLimited" by (metis prod.collapse)
qed

definition plain_bcrypt :: bcrypt where
  "plain_bcrypt = \<lparr>bc_hash = (\<lambda>pin salt. ''h'' @ pin), bc_compare = (\<lambda>pin hash. hash = ''h'' @ pin), bc_dummySalt = []\<rparr>"

text \<open>A run of wrong guesses at the given times.\<close>

definition guess :: "nat \<Rightarrow> db \<Rightarrow> db" where
  "guess now d = fst (attempt plain_bcrypt now d ''Anna'' ''0000'')"

lemma attempt_users: "t_users (fst (attempt bc now d u p)) = t_users d"
  by (simp add: attempt_def validateUser_def Let_def split: option.split)

lemma guess_run:
  assumes "guesses plain_bcrypt ''anna'' t h d" and "t_users d = t_users sample_db" and "h = [] \<or> length h mod 5 \<noteq> 0" and "t \<le> now"
  shows "guesses plain_bcrypt ''anna'' now (h @ [now]) (guess now d) \<and> t_users (guess now d) = t_users sample_db"
proof -
  obtain d' r where r: "attempt plain_bcrypt now d ''Anna'' ''0000'' = (d', r)" by (cases "attempt plain_bcrypt now d ''Anna'' ''0000''")
  have key: "login_key ''Anna'' = ''anna''" by code_simp
  have open': "\<not> locked now d ''anna''"
    using guesses_inv [OF assms(1)] assms(3) by (auto simp: locked_def locked_at_def counted_def split: option.splits)
  have "user_by_name sample_db (js_trim ''Anna'') = None" by code_simp
  then have "user_by_name d (js_trim ''Anna'') = None" using assms(2) by (simp add: user_by_name_def)
  with attempt_accepted [of now d "''Anna''"] key open' r have "\<not> (\<exists>x. r = Accepted x)" by (metis option.distinct(1) snd_conv)
  with guesses.attempted [OF assms(1,4) r] key open' have "guesses plain_bcrypt ''anna'' now (h @ [now]) d'" by (cases r) auto
  with attempt_users [of plain_bcrypt now d "''Anna''" "''0000''"] assms(2) r show ?thesis by (simp add: guess_def)
qed

definition guessed_db :: db where
  "guessed_db = guess 10 (guess 8 (guess 7 (guess 5 (guess 0 sample_db))))"

lemma guessed_run: "guesses plain_bcrypt ''anna'' 10 [0, 5, 7, 8, 10] guessed_db \<and> t_users guessed_db = t_users sample_db"
proof -
  have "find_throttle sample_db ''anna'' = None" by code_simp
  note g0 = guesses.begun [OF this, of plain_bcrypt 0]
  note g1 = guess_run [OF g0 refl, of 0, simplified]
  note g2 = guess_run [OF conjunct1 [OF g1] conjunct2 [OF g1], of 5, simplified]
  note g3 = guess_run [OF conjunct1 [OF g2] conjunct2 [OF g2], of 7, simplified]
  note g4 = guess_run [OF conjunct1 [OF g3] conjunct2 [OF g3], of 8, simplified]
  show ?thesis using guess_run [OF conjunct1 [OF g4] conjunct2 [OF g4], of 10, simplified] by (simp add: guessed_db_def)
qed

lemma pin_guesses_are_slow_witness:
  "snd (attempt plain_bcrypt 300009 guessed_db ''anna'' ''1234'') = RateLimited"
proof -
  have "login_key ''anna'' = ''anna''" by code_simp
  with pin_guesses_are_slow [OF conjunct1 [OF guessed_run]] show ?thesis by simp
qed

text \<open>
  A new PIN works at once: after the administration has changed the PIN of an active user, the user is let in with it under
  the user's name, however often the old one was guessed before.
\<close>

theorem new_pin_works:
  assumes "updatePin bc salt d i pin by' = Inr (d', j, name)" and "find_user d i = Some u" and "us_isActive u"
    and "distinct (map us_username (t_users d))" and "js_trim name = name" and "name \<noteq> []" and "valid_pin_shape pin"
    and "bc_compare bc pin (bc_hash bc pin salt)" and "bc_hash bc pin salt \<noteq> []"
  shows "\<exists>x. snd (validateUser bc now d' d' d' name pin) = Accepted x \<and> pu_id x = i"
  using new_pin_lets_in [OF assms] by (simp add: attempt_def)

lemma new_pin_works_witness:
  "succeeds_with (\<lambda>(d', j, name). \<exists>x. snd (validateUser plain_bcrypt 20 d' d' d' name ''4711'') = Accepted x \<and> pu_id x = ''u'')
     (updatePin plain_bcrypt ''s'' guessed_db ''u'' ''4711'' None)"
proof -
  have users: "t_users guessed_db = t_users sample_db" using guessed_run by simp
  have "find_user sample_db ''u'' = Some sample_user" "distinct (map us_username (t_users sample_db))" by code_simp+
  then have u: "find_user guessed_db ''u'' = Some sample_user" "distinct (map us_username (t_users guessed_db))"
    using users by (simp_all add: find_user_def)
  obtain d' j where run: "updatePin plain_bcrypt ''s'' guessed_db ''u'' ''4711'' None = Inr (d', j, ''anna'')"
    using u(1) by (simp add: updatePin_def Let_def sample_user_def)
  have f: "us_isActive sample_user" "js_trim ''anna'' = ''anna''" "''anna'' \<noteq> []" "valid_pin_shape ''4711''"
    "bc_compare plain_bcrypt ''4711'' (bc_hash plain_bcrypt ''4711'' ''s'')" "bc_hash plain_bcrypt ''4711'' ''s'' \<noteq> []" by code_simp+
  from new_pin_works [OF run u(1) f(1) u(2) f(2-6)] show ?thesis unfolding run by (simp add: succeeds_with_def)
qed

end
