(* ===== verification/Spec2Isabelle.thy ===== *)
theory Spec2Isabelle
  imports VO_Inventory_Props VO_Catalogue_Props VO_Sale_Props VO_Payment_Props VO_Print_Props VO_Voucher_Props VO_Session_Props VO_Fulfilment_Props
    VO_System_Props VO_Paper_Props VO_Documents_Props VO_Ipp_Props VO_Worker_Props VO_Queue_Props VO_Shop_Props VO_Admin_Props
begin

text \<open>
  VereinOrder is the ordering and cashier system of a club festival: waiters and registers take orders, sell vouchers and
  take payments, kitchen stations and runners work the positions off, a print worker turns queued jobs into paper, and
  devices that lose the network queue their orders. This development models that core and proves what makes it correct.

  \<^bold>\<open>Parts and theories.\<close> The backend (\<^verbatim>\<open>src/apps/backend/src\<close>) keeps everything in one database. \<^verbatim>\<open>VO_Prelude\<close> is the shared
  vocabulary (results, loops that may throw, JavaScript maps, JSON), \<^verbatim>\<open>VO_Data\<close> the rows of
  \<^verbatim>\<open>packages/database/prisma/schema.prisma\<close>, the state \<^verbatim>\<open>db\<close>, the exceptions and the environment, \<^verbatim>\<open>VO_Common\<close> the rules
  under \<^verbatim>\<open>common/\<close>. Then one theory per service, in the order they call each other: \<^verbatim>\<open>VO_Inventory\<close>
  (\<^verbatim>\<open>inventory/inventory.service.ts\<close>, the stock ledger), \<^verbatim>\<open>VO_OptionGroups\<close> (\<^verbatim>\<open>products/product-option-groups.ts\<close>),
  \<^verbatim>\<open>VO_Pricing\<close>, \<^verbatim>\<open>VO_Dispatch\<close>, \<^verbatim>\<open>VO_Orders\<close>, \<^verbatim>\<open>VO_QuickSale\<close> and \<^verbatim>\<open>VO_Payments\<close> (\<^verbatim>\<open>orders/orders.service.ts\<close>: prices of
  positions, print jobs of an order, taking orders, sales at a register, payments, cancellation, reprint),
  \<^verbatim>\<open>VO_PrintJobs\<close> and \<^verbatim>\<open>VO_Printers\<close> (\<^verbatim>\<open>print-jobs/\<close>: leases, phases, reports, reaper, printers), \<^verbatim>\<open>VO_Vouchers\<close>
  (\<^verbatim>\<open>value-vouchers/\<close>), \<^verbatim>\<open>VO_Sessions\<close> (\<^verbatim>\<open>sessions/\<close>), \<^verbatim>\<open>VO_Fulfilment\<close> (\<^verbatim>\<open>stations/\<close> and \<^verbatim>\<open>runner/\<close>), \<^verbatim>\<open>VO_Events\<close>
  (\<^verbatim>\<open>events/\<close>: life cycle and cleaning of test data). \<^verbatim>\<open>VO_System\<close> joins them to one step relation on \<^verbatim>\<open>db\<close>.
  \<^verbatim>\<open>VO_Products\<close> is the catalogue (\<^verbatim>\<open>products/products.service.ts\<close>) and what the registers load, \<^verbatim>\<open>VO_Admin\<close> the administration
  of stations and of areas with their floor plans (\<^verbatim>\<open>stations/\<close>, \<^verbatim>\<open>areas/\<close>), \<^verbatim>\<open>VO_Auth\<close> users and signing in
  (\<^verbatim>\<open>users/\<close>, \<^verbatim>\<open>auth/\<close>).
  The print worker (\<^verbatim>\<open>src/apps/print-worker/src\<close>) is \<^verbatim>\<open>VO_Text\<close>, \<^verbatim>\<open>VO_Charset\<close>, \<^verbatim>\<open>VO_Paper\<close>, \<^verbatim>\<open>VO_Documents\<close>
  (\<^verbatim>\<open>printing/\<close>: code pages, layout, ESC/POS, receipts), \<^verbatim>\<open>VO_Ipp\<close> (\<^verbatim>\<open>ipp/protocol.ts\<close>), \<^verbatim>\<open>VO_Adapters\<close> (\<^verbatim>\<open>target.ts\<close> and
  \<^verbatim>\<open>adapters/\<close>: the socket as a machine over its events, CUPS as a dialogue with a server) and \<^verbatim>\<open>VO_Worker\<close>
  (\<^verbatim>\<open>index.ts\<close>, \<^verbatim>\<open>token.ts\<close>). The offline queue of the client (\<^verbatim>\<open>src/apps/frontend/src/lib\<close>) is \<^verbatim>\<open>VO_Queue\<close> (data,
  classification, context, store), \<^verbatim>\<open>VO_Sync\<close> (its operations), \<^verbatim>\<open>VO_Queue_Machine\<close> (the handlers interleaved at their
  awaits, page crashes, lost answers) and \<^verbatim>\<open>VO_Queue_Backend\<close> (the backend as the queue reaches it, with the exception filter
  of the order intake).
  Selling in the browser (\<^verbatim>\<open>src/apps/frontend/src\<close>) is \<^verbatim>\<open>VO_Cart\<close>: the option dialog (\<^verbatim>\<open>components/ProductOptionsModal.tsx\<close>),
  the cart (\<^verbatim>\<open>store/useCartStore.ts\<close>), the order page's handlers and the request of the checkout (\<^verbatim>\<open>pages/Dashboard.tsx\<close>,
  \<^verbatim>\<open>components/CheckoutModal.tsx\<close>), the tiles of the registers (\<^verbatim>\<open>lib/quickSaleTiles.ts\<close>) and the split dialog
  (\<^verbatim>\<open>components/OrderSplitModal.tsx\<close>).

  \<^bold>\<open>How the code is read.\<close> A service method is a function from the state and its arguments to an exception or the new state
  and an answer: \<^verbatim>\<open>Inl\<close> is a rolled back transaction, guards and early returns stand in the order of the code. A transaction is
  one step; what a handler reads before its transaction is a separate state argument, so races between the two are in the
  model. Unique indexes and the CHECK constraints on the modelled columns are exceptions of the insert, as are the foreign keys the
  code relies on; the checks on the form of keys and fingerprints, the limits of version counters and the other foreign keys are left
  out. JavaScript numbers are integers where the code checks or stores integers; the bounds of 32 bit columns are written out. Times are milliseconds.
  Strings of the backend are ASCII, texts of the print worker and of the queue are lists of UTF-16 units. SHA-256, uuid and random
  sources, the clock, ICU collation, Unicode decomposition, \<^verbatim>\<open>Date.parse\<close> and local time are parameters. Messages are short keys.

  \<^bold>\<open>Interfaces.\<close> \<^verbatim>\<open>numbering\<close> (pickup numbers), \<^verbatim>\<open>inventory_contract\<close> (what the orders rely on of the ledger) and
  \<^verbatim>\<open>order_server\<close> (what the queue relies on of the order intake) are locales, interpreted on the code's own definitions.

  \<^bold>\<open>What the lemmas show.\<close> The theories \<^verbatim>\<open>..._Laws\<close> hold the effect of each operation on each table, the theories
  \<^verbatim>\<open>..._Props\<close> the properties with the runs that witness them. Money: totals, payments, redemptions and refunds add up and
  never overpay. Stock: every movement of the ledger is accounted for, reservations are exact and refusals name the true
  reason. Identity: a retried request books once, at every layer, also when two requests race or an answer is lost. Modes:
  test and live data never mix over any run of the services. Printing: the queue refines the life cycle of a job, nothing is
  printed twice without proof, the paper shows exactly the laid out lines, IPP messages survive encoding and answers
  are read exactly, reported outcomes are backed by evidence, every delivery is reported. The offline queue: no captured order is lost over any interleaving, nothing is sent outside
  its context, rejections are understood by code. Selling: what is shown can be sold, what the dialog hands over is accepted,
  what the cart shows is what is booked, tiles show the price that is charged up to one stated exception. Administration: the catalogue stays linked within
  one event over every run, floor plans count every open order once, PINs can only be guessed slowly.

  \<^bold>\<open>Bounds.\<close> Loops are structural or have a proved measure. The encoder of characters runs on fuel 3, and it is proved that
  this is enough; the CUPS dialogue and the report loop may wait for the outside world, they are partial and proved to end
  when their clock or their server moves on. Retry counts, leases and limits are the constants of the code.

  \<^bold>\<open>Not modelled.\<close> The backup and restore processes are files, dumps and process control. Maintenance switches, set-up, health checks
  and the realtime gateway are framework glue; broadcasts appear as a log in the state. Controllers, guards and DTO decorators are
  routing and declarative validation; of the controllers only the two sign-in handlers are modelled. React pages render; of
  them only what changes the cart, the dialogs and the requests is modelled. Of the event service the duplication, import, export
  and removal, which also create or delete catalogue rows, and the reports are not modelled. Gaps that a rolled back transaction leaves in generated numbers are not modelled.
\<close>

end
